(* ===== verification/Prelude.thy ===== *)
theory Prelude
  imports Complex_Main "HOL-Library.Code_Target_Nat" "HOL-Library.Multiset"
begin

text \<open>
  Shared vocabulary of the development.

  \<^item> \<open>failure\<close> and \<open>result\<close>: how a Rust function of the repository can end.
    \<open>Panic\<close> is an abort (the workspace is built with \<open>overflow-checks = true\<close> and
    \<open>panic = "abort"\<close>, see \<open>src/Cargo.toml\<close>); \<open>Failed e\<close> is a returned \<open>Err(e)\<close>.
    Either way the chain discards the writes of the transaction, so a failing
    model function returns no state.
  \<^item> \<open>rbind\<close>, \<open>rfold\<close>, \<open>rmapM\<close>, \<open>rmap_state\<close>: the \<open>?\<close> operator, a \<open>for\<close> loop that may return
    early with an error, a \<open>map ... collect::<Result<_, _>>\<close>, and a \<open>map\<close> with captured state.
  \<^item> \<open>res_ok\<close>: the collection of rewrite rules that turn \<open>f x = Inr y\<close> into the conditions
    under which \<open>f\<close> succeeds and the value it returns.
  \<^item> \<open>transactions\<close>: the interface of a contract entry point as a state machine, with the
    rule that lifts an invariant of one message to every run.
\<close>

section \<open>Results\<close>

datatype 'e failure = Panic | Failed 'e

type_synonym ('e, 'a) result = "'e failure + 'a"

named_theorems res_ok

definition rbind :: "('e, 'a) result \<Rightarrow> ('a \<Rightarrow> ('e, 'b) result) \<Rightarrow> ('e, 'b) result" where
  "rbind m f = (case m of Inl e \<Rightarrow> Inl e | Inr x \<Rightarrow> f x)"

lemma rbind_Inl [simp]: "rbind (Inl e) f = Inl e"
  by (simp add: rbind_def)

lemma rbind_Inr [simp]: "rbind (Inr x) f = f x"
  by (simp add: rbind_def)

lemma rbind_eq_Inr [res_ok]: "rbind m f = Inr y \<longleftrightarrow> (\<exists>x. m = Inr x \<and> f x = Inr y)"
  by (cases m) auto

lemma rbind_InrE:
  assumes "rbind m f = Inr y" obtains x where "m = Inr x" "f x = Inr y"
  using assms by (auto simp: rbind_eq_Inr)

lemma case_prod_InrE:
  assumes "(case p of (a, b) \<Rightarrow> f a b) = Inr y" obtains a b where "p = (a, b)" "f a b = Inr y"
  using assms by (cases p) auto

text \<open>The steps of a handler that returned: each \<open>?\<close> gave a value, no early return was taken.\<close>

lemma if_InlE:
  assumes "(if c then Inl e else m) = Inr y" obtains "\<not> c" "m = Inr y"
  using assms by (cases c) auto

lemmas handlerE = rbind_InrE case_prod_InrE if_InlE

lemma case_prod_app_InrE:
  assumes "(case p of (a, b) \<Rightarrow> f a b) z = Inr y" obtains a b where "p = (a, b)" "f a b z = Inr y"
  using assms by (cases p) auto

lemma if_else_InlE:
  assumes "(if c then m else Inl e) = Inr y" obtains c "m = Inr y"
  using assms by (cases c) auto

lemma rbind_eq_Inl: "rbind m f = Inl e \<longleftrightarrow> m = Inl e \<or> (\<exists>x. m = Inr x \<and> f x = Inl e)"
  by (cases m) auto

lemma rbind_assoc: "rbind (rbind m f) g = rbind m (\<lambda>x. rbind (f x) g)"
  by (cases m) auto

text \<open>The conversion of an inner error by \<open>?\<close> (a \<open>From\<close> impl); a panic stays a panic.\<close>

definition map_err :: "('e \<Rightarrow> 'f) \<Rightarrow> ('e, 'a) result \<Rightarrow> ('f, 'a) result" where
  "map_err h m = (case m of
       Inl Panic \<Rightarrow> Inl Panic
     | Inl (Failed e) \<Rightarrow> Inl (Failed (h e))
     | Inr x \<Rightarrow> Inr x)"

lemma map_err_simps [simp]:
  "map_err h (Inr x) = Inr x"
  "map_err h (Inl Panic) = Inl Panic"
  "map_err h (Inl (Failed e)) = Inl (Failed (h e))"
  by (simp_all add: map_err_def)

lemma map_err_eq_Inr [res_ok]: "map_err h m = Inr x \<longleftrightarrow> m = Inr x"
  by (simp add: map_err_def split: sum.splits failure.splits)

text \<open>A \<open>match\<close> that handles a returned error; a panic cannot be handled.\<close>

definition rcatch :: "('e, 'a) result \<Rightarrow> ('e \<Rightarrow> ('f, 'a) result) \<Rightarrow> ('f, 'a) result" where
  "rcatch m h = (case m of
       Inl Panic \<Rightarrow> Inl Panic
     | Inl (Failed e) \<Rightarrow> h e
     | Inr x \<Rightarrow> Inr x)"

lemma rcatch_simps [simp]:
  "rcatch (Inr x) h = Inr x" "rcatch (Inl Panic) h = Inl Panic" "rcatch (Inl (Failed e)) h = h e"
  by (simp_all add: rcatch_def)

lemma rcatch_eq_Inr: "rcatch m h = Inr x \<longleftrightarrow> m = Inr x \<or> (\<exists>e. m = Inl (Failed e) \<and> h e = Inr x)"
  by (cases m; cases "projl m") (auto simp: rcatch_def split: failure.splits)

text \<open>\<open>Option::unwrap\<close> and \<open>Option::ok_or\<close>.\<close>

definition unwrap :: "'a option \<Rightarrow> ('e, 'a) result" where
  "unwrap v = (case v of None \<Rightarrow> Inl Panic | Some x \<Rightarrow> Inr x)"

definition ok_or :: "'e \<Rightarrow> 'a option \<Rightarrow> ('e, 'a) result" where
  "ok_or e v = (case v of None \<Rightarrow> Inl (Failed e) | Some x \<Rightarrow> Inr x)"

lemma unwrap_simps [simp]: "unwrap None = Inl Panic" "unwrap (Some x) = Inr x"
  by (simp_all add: unwrap_def)

lemma ok_or_simps [simp]: "ok_or e None = Inl (Failed e)" "ok_or e (Some x) = Inr x"
  by (simp_all add: ok_or_def)

lemma unwrap_eq_Inr [res_ok]: "unwrap v = Inr x \<longleftrightarrow> v = Some x"
  by (cases v) auto

lemma ok_or_eq_Inr [res_ok]: "ok_or e v = Inr x \<longleftrightarrow> v = Some x"
  by (cases v) auto

section \<open>Loops that may stop with an error\<close>

fun rfold :: "('a \<Rightarrow> 's \<Rightarrow> ('e, 's) result) \<Rightarrow> 'a list \<Rightarrow> 's \<Rightarrow> ('e, 's) result" where
  "rfold f [] s = Inr s"
| "rfold f (x # xs) s = rbind (f x s) (rfold f xs)"

fun rmapM :: "('a \<Rightarrow> ('e, 'b) result) \<Rightarrow> 'a list \<Rightarrow> ('e, 'b list) result" where
  "rmapM f [] = Inr []"
| "rmapM f (x # xs) = rbind (f x) (\<lambda>y. rbind (rmapM f xs) (\<lambda>ys. Inr (y # ys)))"

text \<open>A \<open>map\<close> whose closure updates captured variables, run in the order of the list.\<close>

fun rmap_state :: "('a \<Rightarrow> 's \<Rightarrow> ('e, 's \<times> 'b) result) \<Rightarrow> 'a list \<Rightarrow> 's \<Rightarrow> ('e, 's \<times> 'b list) result" where
  "rmap_state f [] s = Inr (s, [])"
| "rmap_state f (x # xs) s =
     rbind (f x s) (\<lambda>(s, y). rbind (rmap_state f xs s) (\<lambda>(s, ys). Inr (s, y # ys)))"

lemma rmap_state_ConsE:
  assumes "rmap_state f (x # xs) s = Inr (s', zs)"
  obtains t y ys where "f x s = Inr (t, y)" "rmap_state f xs t = Inr (s', ys)" "zs = y # ys"
  using assms by (auto simp: rbind_eq_Inr)

lemma rmap_state_list_all2:
  assumes "rmap_state f xs s = Inr (s', ys)" and "\<And>x s t y. f x s = Inr (t, y) \<Longrightarrow> R x y"
  shows "list_all2 R xs ys"
  using assms(1)
proof (induction xs arbitrary: s ys)
  case Nil
  then show ?case by simp
next
  case (Cons x xs)
  from Cons.prems obtain t y zs where "f x s = Inr (t, y)" "rmap_state f xs t = Inr (s', zs)" "ys = y # zs"
    by (rule rmap_state_ConsE)
  with Cons.IH assms(2) show ?case by auto
qed

lemma rmap_state_invariant:
  assumes "rmap_state f xs s = Inr (s', ys)" and "I s"
    and "\<And>x s t y. x \<in> set xs \<Longrightarrow> I s \<Longrightarrow> f x s = Inr (t, y) \<Longrightarrow> I t"
  shows "I s'"
  using assms
proof (induction xs arbitrary: s ys)
  case Nil
  then show ?case by simp
next
  case (Cons x xs)
  from Cons.prems(1) obtain t y zs where t: "f x s = Inr (t, y)" "rmap_state f xs t = Inr (s', zs)"
    by (rule rmap_state_ConsE)
  have "I t" using Cons.prems(2,3) t(1) by (meson list.set_intros(1))
  with t(2) Cons.IH Cons.prems(3) show ?case by (meson list.set_intros(2))
qed

lemma rfold_invariant:
  assumes "\<And>x s s'. x \<in> set xs \<Longrightarrow> I s \<Longrightarrow> f x s = Inr s' \<Longrightarrow> I s'"
    and "I s" and "rfold f xs s = Inr s'"
  shows "I s'"
  using assms
proof (induction xs arbitrary: s)
  case Nil
  then show ?case by simp
next
  case (Cons x xs)
  from Cons.prems(3) obtain t where t: "f x s = Inr t" "rfold f xs t = Inr s'"
    by (auto simp: res_ok)
  have "I t" using Cons.prems(1)[of x s t] Cons.prems(2) t(1) by simp
  with t(2) show ?case using Cons.IH Cons.prems(1) by (meson list.set_intros(2))
qed

lemma rfold_append: "rfold f (xs @ ys) s = rbind (rfold f xs s) (rfold f ys)"
  by (induction xs arbitrary: s) (auto simp: rbind_def split: sum.splits)

lemma rmapM_eq_Inr: "rmapM f xs = Inr ys \<longleftrightarrow> list_all2 (\<lambda>x y. f x = Inr y) xs ys"
proof (induction xs arbitrary: ys)
  case Nil
  then show ?case by auto
next
  case (Cons x xs)
  then show ?case by (cases ys) (auto simp: res_ok)
qed

lemma rmapM_length: "rmapM f xs = Inr ys \<Longrightarrow> length ys = length xs"
  by (auto simp: rmapM_eq_Inr dest: list_all2_lengthD)

lemma rmapM_map: "(\<And>x. x \<in> set xs \<Longrightarrow> f x = Inr (g x)) \<Longrightarrow> rmapM f xs = Inr (map g xs)"
  by (induction xs) auto

section \<open>Lists\<close>

text \<open>Replacing the entry of a key: filter the old one out, append the new one.\<close>

lemma find_filter_other:
  "(\<And>x. P x \<Longrightarrow> Q x) \<Longrightarrow> find P (filter Q xs) = find P xs"
  by (induction xs) auto

lemma find_append: "find P (xs @ ys) = (case find P xs of None \<Rightarrow> find P ys | Some x \<Rightarrow> Some x)"
  by (induction xs) auto

lemma find_None: "find P xs = None \<longleftrightarrow> (\<forall>x\<in>set xs. \<not> P x)"
  by (auto simp: find_None_iff)

lemma find_SomeD: "find P xs = Some x \<Longrightarrow> x \<in> set xs \<and> P x"
  by (auto simp: find_Some_iff)

lemma sum_list_filter_split:
  "sum_list (map f xs) =
     sum_list (map f (filter P xs)) + sum_list (map f (filter (\<lambda>x. \<not> P x) xs))"
  for f :: "'a \<Rightarrow> nat"
  by (induction xs) auto

lemma sum_list_filter_le: "sum_list (map f (filter P xs)) \<le> sum_list (map f xs)"
  for f :: "'a \<Rightarrow> nat"
  by (induction xs) auto

lemma filter_key_distinct:
  "distinct (map k xs) \<Longrightarrow> x \<in> set xs \<Longrightarrow> filter (\<lambda>y. k y = k x) xs = [x]"
proof (induction xs)
  case Nil
  then show ?case by simp
next
  case (Cons y ys)
  show ?case
  proof (cases "x = y")
    case True
    with Cons.prems have "\<forall>z\<in>set ys. k z \<noteq> k x" by (auto simp: image_iff)
    then show ?thesis using True by simp
  next
    case False
    with Cons.prems have "x \<in> set ys" "k y \<noteq> k x" by force+
    then show ?thesis using Cons by simp
  qed
qed

lemma sum_list_filter_key:
  fixes f :: "'a \<Rightarrow> nat"
  assumes "distinct (map k xs)" and "x \<in> set xs"
  shows "sum_list (map f (filter (\<lambda>y. k y \<noteq> k x) xs)) + f x = sum_list (map f xs)"
  using sum_list_filter_split[of f xs "\<lambda>y. k y = k x"] filter_key_distinct[OF assms] by simp

lemma find_key_distinct:
  assumes "distinct (map k xs)" and "x \<in> set xs"
  shows "find (\<lambda>y. k y = k x) xs = Some x"
proof (cases "find (\<lambda>y. k y = k x) xs")
  case None
  then show ?thesis using assms(2) by (auto simp: find_None)
next
  case (Some y)
  then have "y \<in> set xs" "k y = k x" by (auto dest: find_SomeD)
  with assms have "y = x" by (auto simp: distinct_map inj_on_def)
  with Some show ?thesis by simp
qed

lemma distinct_sub_mset:
  assumes "mset xs \<subseteq># mset ys" and "distinct ys"
  shows "distinct xs"
proof -
  have "count (mset xs) a \<le> count (mset ys) a" for a
    using assms(1) by (rule mset_subset_eq_count)
  moreover have "count (mset ys) a \<le> 1" for a
    using assms(2) by (simp add: distinct_count_atmost_1)
  ultimately have le: "count (mset xs) a \<le> 1" for a
    using order_trans by blast
  have "count (mset xs) a = (if a \<in> set xs then 1 else 0)" for a
  proof (cases "a \<in> set xs")
    case True
    then have "0 < count (mset xs) a" by simp
    with le[of a] have "count (mset xs) a = 1" by linarith
    with True show ?thesis by simp
  qed (simp add: count_mset_0_iff)
  then show ?thesis by (simp add: distinct_count_atmost_1)
qed

section \<open>Contracts as transaction machines\<close>

text \<open>
  A contract handles one message at a time. A message that fails leaves the state alone;
  \<open>run\<close> is a block of messages. An invariant kept by every message that succeeds holds
  after every run, and in every state reachable from a start state that satisfies it.
\<close>

locale transactions =
  fixes exec :: "'m \<Rightarrow> 's \<Rightarrow> ('e, 's \<times> 'r) result"
    and inv :: "'s \<Rightarrow> bool"
  assumes exec_inv: "inv s \<Longrightarrow> exec m s = Inr (s', r) \<Longrightarrow> inv s'"
begin

fun run :: "'m list \<Rightarrow> 's \<Rightarrow> 's" where
  "run [] s = s"
| "run (m # ms) s = run ms (case exec m s of Inl _ \<Rightarrow> s | Inr (s', _) \<Rightarrow> s')"

lemma run_inv: "inv s \<Longrightarrow> inv (run ms s)"
proof (induction ms arbitrary: s)
  case Nil
  then show ?case by simp
next
  case (Cons m ms)
  have "inv (case exec m s of Inl _ \<Rightarrow> s | Inr (s', _) \<Rightarrow> s')"
    using Cons.prems by (auto split: sum.splits dest: exec_inv)
  then show ?case using Cons.IH by simp
qed

lemma run_append: "run (ms @ ns) s = run ns (run ms s)"
  by (induction ms arbitrary: s) auto

end


lemma div_diff_mult: "0 < k \<Longrightarrow> (n - a * k) div k = n div k - a" for n a k :: nat
proof (cases "a * k \<le> n")
  case True
  assume k: "0 < k"
  from True obtain m where "n = m + a * k" by (metis le_add_diff_inverse2)
  with k show ?thesis by simp
next
  case False
  assume k: "0 < k"
  with False have "n div k < a" by (simp add: div_less_iff_less_mult)
  with False show ?thesis by simp
qed

end
