(* ===== verification/Membrane_Math.thy ===== *)
theory Membrane_Math
  imports Prelude
begin

text \<open>
  The numbers of the contracts.

  Fixed-width integers. \<open>U256\<close> (the 256-bit integer that \<open>packages/membrane/src/math.rs\<close> builds with
  \<open>construct_uint!\<close>), \<open>Uint128\<close>, \<open>u64\<close> and \<open>u8\<close> are natural numbers below their bound. Their
  operators abort when the result leaves the range (for \<open>U256\<close> the repository's own tests pin
  this down with \<open>should_panic(expected = "arithmetic operation overflow")\<close>), so each is a
  function into \<open>result\<close> whose value is always in range.

  Fixed-point numbers. \<open>Decimal256\<close> is a \<open>U256\<close> of atomics, 10^18 to the unit; its operations
  are translated from \<open>math.rs\<close>. \<open>Decimal\<close> is the 128-bit fixed-point number of the
  contracts' standard library with the same scale. The locale \<open>fixed_point\<close> states what the
  contracts rely on in either, and is interpreted on both.

  Text. \<open>U256::from_dec_str\<close> and \<open>U256::to_string\<close> are library code and arguments of the model,
  the record \<open>text_lib\<close>; \<open>text_ok\<close> states their documented behaviour and \<open>std_text\<close> is an
  instance. On top of them \<open>Decimal256::from_str\<close> and \<open>Display\<close> are translated and shown to
  be inverse to each other.
\<close>

section \<open>Fixed-width integers\<close>

definition U256_BOUND :: nat where
  "U256_BOUND = 115792089237316195423570985008687907853269984665640564039457584007913129639936"

definition U128_BOUND :: nat where
  "U128_BOUND = 340282366920938463463374607431768211456"

definition U64_BOUND :: nat where
  "U64_BOUND = 18446744073709551616"

lemma bounds_pow: "U256_BOUND = 2 ^ 256" "U128_BOUND = 2 ^ 128" "U64_BOUND = 2 ^ 64"
  by (simp_all add: U256_BOUND_def U128_BOUND_def U64_BOUND_def)

lemma bounds_order [simp]:
  "U64_BOUND < U128_BOUND" "U128_BOUND < U256_BOUND" "U64_BOUND < U256_BOUND"
  "0 < U64_BOUND" "0 < U128_BOUND" "0 < U256_BOUND"
  "U64_BOUND \<noteq> 0" "U128_BOUND \<noteq> 0" "U256_BOUND \<noteq> 0"
  by (simp_all add: U256_BOUND_def U128_BOUND_def U64_BOUND_def)

type_synonym u256 = nat
type_synonym uint256 = nat
type_synonym uint128 = nat
type_synonym u64 = nat
type_synonym u8 = nat

definition u256_add :: "u256 \<Rightarrow> u256 \<Rightarrow> ('e, u256) result" where
  "u256_add a b = (if a + b < U256_BOUND then Inr (a + b) else Inl Panic)"

definition u256_sub :: "u256 \<Rightarrow> u256 \<Rightarrow> ('e, u256) result" where
  "u256_sub a b = (if b \<le> a then Inr (a - b) else Inl Panic)"

definition u256_mul :: "u256 \<Rightarrow> u256 \<Rightarrow> ('e, u256) result" where
  "u256_mul a b = (if a * b < U256_BOUND then Inr (a * b) else Inl Panic)"

definition u256_div :: "u256 \<Rightarrow> u256 \<Rightarrow> ('e, u256) result" where
  "u256_div a b = (if b = 0 then Inl Panic else Inr (a div b))"

definition u128_add :: "uint128 \<Rightarrow> uint128 \<Rightarrow> ('e, uint128) result" where
  "u128_add a b = (if a + b < U128_BOUND then Inr (a + b) else Inl Panic)"

definition u128_sub :: "uint128 \<Rightarrow> uint128 \<Rightarrow> ('e, uint128) result" where
  "u128_sub a b = (if b \<le> a then Inr (a - b) else Inl Panic)"

definition u64_add :: "u64 \<Rightarrow> u64 \<Rightarrow> ('e, u64) result" where
  "u64_add a b = (if a + b < U64_BOUND then Inr (a + b) else Inl Panic)"

definition u64_sub :: "u64 \<Rightarrow> u64 \<Rightarrow> ('e, u64) result" where
  "u64_sub a b = (if b \<le> a then Inr (a - b) else Inl Panic)"

definition u64_mul :: "u64 \<Rightarrow> u64 \<Rightarrow> ('e, u64) result" where
  "u64_mul a b = (if a * b < U64_BOUND then Inr (a * b) else Inl Panic)"

text \<open>\<open>10u64.pow(exponent as u32)\<close>: the cast keeps the low 32 bits, the power is checked.\<close>

definition u64_pow10 :: "u64 \<Rightarrow> ('e, u64) result" where
  "u64_pow10 e = (let k = e mod 4294967296 in if k < 20 then Inr (10 ^ k) else Inl Panic)"

lemma u64_pow10_overflow: "10 ^ k < U64_BOUND \<longleftrightarrow> k < 20"
proof
  assume a: "10 ^ k < U64_BOUND"
  show "k < 20"
  proof (rule ccontr)
    assume "\<not> k < 20"
    then have "(10::nat) ^ 20 \<le> 10 ^ k" by (intro power_increasing) auto
    moreover have "U64_BOUND < 10 ^ 20" by (simp add: U64_BOUND_def)
    ultimately show False using a by linarith
  qed
next
  assume "k < 20"
  then have "(10::nat) ^ k \<le> 10 ^ 19" by (intro power_increasing) auto
  also have "\<dots> < U64_BOUND" by (simp add: U64_BOUND_def)
  finally show "10 ^ k < U64_BOUND" .
qed

lemma int_ok [res_ok]:
  "u256_add a b = Inr c \<longleftrightarrow> c = a + b \<and> a + b < U256_BOUND"
  "u256_sub a b = Inr c \<longleftrightarrow> c = a - b \<and> b \<le> a"
  "u256_mul a b = Inr c \<longleftrightarrow> c = a * b \<and> a * b < U256_BOUND"
  "u256_div a b = Inr c \<longleftrightarrow> c = a div b \<and> 0 < b"
  "u128_add a b = Inr c \<longleftrightarrow> c = a + b \<and> a + b < U128_BOUND"
  "u128_sub a b = Inr c \<longleftrightarrow> c = a - b \<and> b \<le> a"
  "u64_add a b = Inr c \<longleftrightarrow> c = a + b \<and> a + b < U64_BOUND"
  "u64_sub a b = Inr c \<longleftrightarrow> c = a - b \<and> b \<le> a"
  "u64_mul a b = Inr c \<longleftrightarrow> c = a * b \<and> a * b < U64_BOUND"
  by (auto simp: u256_add_def u256_sub_def u256_mul_def u256_div_def u128_add_def u128_sub_def
      u64_add_def u64_sub_def u64_mul_def)

lemmas int_defs = u256_add_def u256_sub_def u256_mul_def u256_div_def u128_add_def u128_sub_def
  u64_add_def u64_sub_def u64_mul_def

section \<open>Decimal256\<close>

type_synonym decimal256 = nat

definition DECIMAL_FRACTIONAL :: u256 where
  "DECIMAL_FRACTIONAL = 1000000000000000000"

lemma frac_pos [simp]: "0 < DECIMAL_FRACTIONAL" "DECIMAL_FRACTIONAL \<noteq> 0"
  by (simp_all add: DECIMAL_FRACTIONAL_def)

lemma frac_bound [simp]: "DECIMAL_FRACTIONAL < U64_BOUND" "DECIMAL_FRACTIONAL < U128_BOUND"
  "DECIMAL_FRACTIONAL < U256_BOUND"
  by (simp_all add: DECIMAL_FRACTIONAL_def U256_BOUND_def U128_BOUND_def U64_BOUND_def)

lemma frac_pow: "DECIMAL_FRACTIONAL = 10 ^ 18"
  by (simp add: DECIMAL_FRACTIONAL_def)

definition d256_one :: decimal256 where "d256_one = DECIMAL_FRACTIONAL"

definition d256_zero :: decimal256 where "d256_zero = 0"

definition d256_percent :: "u64 \<Rightarrow> ('e, decimal256) result" where
  "d256_percent x = u256_mul x 10000000000000000"

definition d256_permille :: "u64 \<Rightarrow> ('e, decimal256) result" where
  "d256_permille x = u256_mul x 1000000000000000"

definition d256_from_ratio :: "u256 \<Rightarrow> u256 \<Rightarrow> ('e, decimal256) result" where
  "d256_from_ratio nominator denominator =
     (if denominator = 0 then Inl Panic
      else rbind (u256_mul nominator DECIMAL_FRACTIONAL) (\<lambda>x. u256_div x denominator))"

definition d256_from_uint256 :: "uint256 \<Rightarrow> ('e, decimal256) result" where
  "d256_from_uint256 val = u256_mul val DECIMAL_FRACTIONAL"

definition d256_is_zero :: "decimal256 \<Rightarrow> bool" where
  "d256_is_zero d \<longleftrightarrow> d = 0"

definition d256_add :: "decimal256 \<Rightarrow> decimal256 \<Rightarrow> ('e, decimal256) result" where
  "d256_add a b = u256_add a b"

definition d256_add_assign :: "decimal256 \<Rightarrow> decimal256 \<Rightarrow> ('e, decimal256) result" where
  "d256_add_assign a b = u256_add a b"

definition d256_sub :: "decimal256 \<Rightarrow> decimal256 \<Rightarrow> ('e, decimal256) result" where
  "d256_sub a b = (if \<not> b \<le> a then Inl Panic else u256_sub a b)"

definition d256_mul :: "decimal256 \<Rightarrow> decimal256 \<Rightarrow> ('e, decimal256) result" where
  "d256_mul a b = rbind (u256_mul a b) (\<lambda>x. u256_div x DECIMAL_FRACTIONAL)"

definition d256_div :: "decimal256 \<Rightarrow> decimal256 \<Rightarrow> ('e, decimal256) result" where
  "d256_div a b =
     (if d256_is_zero b then Inl Panic
      else rbind (u256_mul a DECIMAL_FRACTIONAL) (\<lambda>x. u256_div x b))"

lemma d256_ok [res_ok]:
  "d256_percent x = Inr c \<longleftrightarrow> c = x * 10000000000000000 \<and> c < U256_BOUND"
  "d256_from_uint256 x = Inr c \<longleftrightarrow> c = x * DECIMAL_FRACTIONAL \<and> c < U256_BOUND"
  "d256_from_ratio a b = Inr c \<longleftrightarrow>
     0 < b \<and> a * DECIMAL_FRACTIONAL < U256_BOUND \<and> c = a * DECIMAL_FRACTIONAL div b"
  "d256_add a b = Inr c \<longleftrightarrow> c = a + b \<and> a + b < U256_BOUND"
  "d256_add_assign a b = Inr c \<longleftrightarrow> c = a + b \<and> a + b < U256_BOUND"
  "d256_sub a b = Inr c \<longleftrightarrow> c = a - b \<and> b \<le> a"
  "d256_mul a b = Inr c \<longleftrightarrow> c = a * b div DECIMAL_FRACTIONAL \<and> a * b < U256_BOUND"
  "d256_div a b = Inr c \<longleftrightarrow>
     c = a * DECIMAL_FRACTIONAL div b \<and> 0 < b \<and> a * DECIMAL_FRACTIONAL < U256_BOUND"
  by (auto simp: res_ok d256_percent_def d256_from_uint256_def d256_from_ratio_def d256_add_def
      d256_add_assign_def d256_sub_def d256_mul_def d256_div_def d256_is_zero_def)

lemmas d256_defs = d256_percent_def d256_from_uint256_def d256_from_ratio_def d256_add_def
  d256_add_assign_def d256_sub_def d256_mul_def d256_div_def d256_is_zero_def d256_one_def
  d256_zero_def

section \<open>Uint256\<close>

definition uint256_zero :: uint256 where "uint256_zero = 0"

definition uint256_one :: uint256 where "uint256_one = 1"

definition uint256_is_zero :: "uint256 \<Rightarrow> bool" where
  "uint256_is_zero x \<longleftrightarrow> x = 0"

text \<open>A \<open>u128\<close> is split in two 64-bit limbs and reassembled; a \<open>U256\<close> is an array of four.\<close>

definition split_u128 :: "nat \<Rightarrow> u64 \<times> u64" where
  "split_u128 a = (a div U64_BOUND, a mod U64_BOUND)"

definition limbs :: "u256 \<Rightarrow> u64 list" where
  "limbs n = [n mod U64_BOUND, n div U64_BOUND mod U64_BOUND,
     n div (U64_BOUND * U64_BOUND) mod U64_BOUND, n div (U64_BOUND * U64_BOUND * U64_BOUND)]"

definition of_limbs :: "u64 list \<Rightarrow> u256" where
  "of_limbs ls = foldr (\<lambda>l acc. l + U64_BOUND * acc) ls 0"

definition uint256_from_u128 :: "nat \<Rightarrow> uint256" where
  "uint256_from_u128 val = (let (hi, low) = split_u128 val in of_limbs [low, hi, 0, 0])"

definition uint256_from_uint128 :: "uint128 \<Rightarrow> uint256" where
  "uint256_from_uint128 val = uint256_from_u128 val"

definition uint256_from_u64 :: "u64 \<Rightarrow> uint256" where
  "uint256_from_u64 val = val"

definition uint256_into_u128 :: "uint256 \<Rightarrow> ('e, nat) result" where
  "uint256_into_u128 n =
     (let arr = limbs n in
      if arr ! 2 \<noteq> 0 then Inl Panic
      else if arr ! 3 \<noteq> 0 then Inl Panic
      else let (hi, low) = (arr ! 1, arr ! 0) in Inr (hi * U64_BOUND + low))"

definition uint256_into_uint128 :: "uint256 \<Rightarrow> ('e, uint128) result" where
  "uint256_into_uint128 n = uint256_into_u128 n"

definition uint256_add :: "uint256 \<Rightarrow> uint256 \<Rightarrow> ('e, uint256) result" where
  "uint256_add a b = u256_add a b"

definition uint256_add_assign :: "uint256 \<Rightarrow> uint256 \<Rightarrow> ('e, uint256) result" where
  "uint256_add_assign a b = u256_add a b"

definition uint256_sub :: "uint256 \<Rightarrow> uint256 \<Rightarrow> ('e, uint256) result" where
  "uint256_sub a b = (if \<not> b \<le> a then Inl Panic else u256_sub a b)"

definition uint256_mul :: "uint256 \<Rightarrow> uint256 \<Rightarrow> ('e, uint256) result" where
  "uint256_mul a b =
     (if uint256_is_zero a \<or> uint256_is_zero b then Inr uint256_zero else u256_mul a b)"

definition multiply_ratio :: "uint256 \<Rightarrow> u256 \<Rightarrow> u256 \<Rightarrow> ('e, uint256) result" where
  "multiply_ratio a nominator denominator =
     (if denominator = 0 then Inl Panic
      else rbind (u256_mul a nominator) (\<lambda>x. u256_div x denominator))"

definition uint256_mul_d256 :: "uint256 \<Rightarrow> decimal256 \<Rightarrow> ('e, uint256) result" where
  "uint256_mul_d256 u d =
     (if uint256_is_zero u \<or> d256_is_zero d then Inr uint256_zero
      else multiply_ratio u d DECIMAL_FRACTIONAL)"

definition uint256_div_d256 :: "uint256 \<Rightarrow> decimal256 \<Rightarrow> ('e, uint256) result" where
  "uint256_div_d256 u d =
     (if d256_is_zero d then Inl Panic
      else if uint256_is_zero u then Inr uint256_zero
      else multiply_ratio u DECIMAL_FRACTIONAL d)"

definition d256_mul_uint256 :: "decimal256 \<Rightarrow> uint256 \<Rightarrow> ('e, uint256) result" where
  "d256_mul_uint256 d u = uint256_mul_d256 u d"

lemma uint256_from_u128_id [simp]: "uint256_from_u128 v = v"
  by (simp add: uint256_from_u128_def split_u128_def of_limbs_def)

lemma uint256_from_uint128_id [simp]: "uint256_from_uint128 v = v"
  by (simp add: uint256_from_uint128_def)

lemma uint256_from_u64_id [simp]: "uint256_from_u64 v = v"
  by (simp add: uint256_from_u64_def)

lemma of_limbs_limbs: "of_limbs (limbs n) = n"
proof -
  let ?b = U64_BOUND
  have "n div (?b * ?b) = n div ?b div ?b" "n div (?b * ?b * ?b) = n div ?b div ?b div ?b"
    by (simp_all add: div_mult2_eq)
  then show ?thesis by (simp add: of_limbs_def limbs_def)
qed

lemma high_limbs_zero: "limbs n ! 2 = 0 \<and> limbs n ! 3 = 0 \<longleftrightarrow> n < U128_BOUND"
proof -
  have sq: "U64_BOUND * U64_BOUND = U128_BOUND"
    by (simp add: U64_BOUND_def U128_BOUND_def)
  let ?h = "n div (U64_BOUND * U64_BOUND)"
  have l3: "limbs n ! 3 = ?h div U64_BOUND"
    by (simp add: limbs_def div_mult2_eq)
  have l2: "limbs n ! 2 = ?h mod U64_BOUND" by (simp add: limbs_def)
  have "limbs n ! 2 = 0 \<and> limbs n ! 3 = 0 \<longleftrightarrow> ?h = 0"
    unfolding l2 l3 by (metis add.right_neutral div_0 mod_0 div_mult_mod_eq mult_zero_left)
  also have "\<dots> \<longleftrightarrow> n < U128_BOUND"
    unfolding sq by (simp add: div_eq_0_iff)
  finally show ?thesis .
qed

lemma uint256_into_u128_eq:
  "uint256_into_u128 n = (if n < U128_BOUND then Inr n else Inl Panic)"
proof (cases "n < U128_BOUND")
  case True
  have "n div U64_BOUND < U64_BOUND"
    using True by (simp add: less_mult_imp_div_less U64_BOUND_def U128_BOUND_def)
  then have "n div U64_BOUND mod U64_BOUND * U64_BOUND + n mod U64_BOUND = n" by simp
  moreover have "limbs n ! 1 = n div U64_BOUND mod U64_BOUND" "limbs n ! 0 = n mod U64_BOUND"
    by (simp_all add: limbs_def)
  ultimately show ?thesis
    using True high_limbs_zero[of n] by (simp add: uint256_into_u128_def Let_def)
next
  case False
  then show ?thesis using high_limbs_zero[of n] by (auto simp: uint256_into_u128_def Let_def)
qed

lemma uint256_ok [res_ok]:
  "uint256_into_u128 n = Inr m \<longleftrightarrow> m = n \<and> n < U128_BOUND"
  "uint256_into_uint128 n = Inr m \<longleftrightarrow> m = n \<and> n < U128_BOUND"
  "uint256_add a b = Inr c \<longleftrightarrow> c = a + b \<and> a + b < U256_BOUND"
  "uint256_add_assign a b = Inr c \<longleftrightarrow> c = a + b \<and> a + b < U256_BOUND"
  "uint256_sub a b = Inr c \<longleftrightarrow> c = a - b \<and> b \<le> a"
  "uint256_mul a b = Inr c \<longleftrightarrow> c = a * b \<and> a * b < U256_BOUND"
  "multiply_ratio a n' d = Inr c \<longleftrightarrow> c = a * n' div d \<and> 0 < d \<and> a * n' < U256_BOUND"
  "uint256_mul_d256 a d = Inr c \<longleftrightarrow> c = a * d div DECIMAL_FRACTIONAL \<and> a * d < U256_BOUND"
  "uint256_div_d256 a d = Inr c \<longleftrightarrow>
     c = a * DECIMAL_FRACTIONAL div d \<and> 0 < d \<and> a * DECIMAL_FRACTIONAL < U256_BOUND"
  "d256_mul_uint256 d a = Inr c \<longleftrightarrow> c = a * d div DECIMAL_FRACTIONAL \<and> a * d < U256_BOUND"
  by (auto simp: res_ok uint256_into_u128_eq uint256_into_uint128_def uint256_add_def
      uint256_add_assign_def uint256_sub_def uint256_mul_def multiply_ratio_def
      uint256_mul_d256_def uint256_div_d256_def d256_mul_uint256_def uint256_is_zero_def
      d256_is_zero_def uint256_zero_def)

lemmas uint256_defs = uint256_into_uint128_def uint256_add_def uint256_add_assign_def
  uint256_sub_def uint256_mul_def multiply_ratio_def uint256_mul_d256_def uint256_div_d256_def
  d256_mul_uint256_def uint256_is_zero_def uint256_zero_def uint256_one_def

section \<open>Decimal\<close>

text \<open>
  \<open>Decimal\<close>: 18 fractional digits in a \<open>Uint128\<close> of atomics. The products are formed in 256
  bits and rounded down, so only the result has to fit. \<open>+\<close>, \<open>-\<close>, \<open>from_ratio\<close> and
  \<open>Uint128 * Decimal\<close> abort where the \<open>checked_\<close> methods return an error.

  \<open>std_error\<close>: the errors of the standard library the code raises itself. A message built with
  \<open>format!\<close> keeps its template and the value it prints.
\<close>

type_synonym decimal = nat

datatype std_error =
    GenericErr string
  | GenericFmtNum string nat
  | GenericFmtText string string
  | NotFound string
  | OverflowErr
  | ParseErr string

definition dec_from_ratio :: "uint128 \<Rightarrow> uint128 \<Rightarrow> ('e, decimal) result" where
  "dec_from_ratio a b =
     (if b = 0 then Inl Panic
      else let q = a * DECIMAL_FRACTIONAL div b in
        if q < U128_BOUND then Inr q else Inl Panic)"

definition dec_percent :: "u64 \<Rightarrow> decimal" where
  "dec_percent x = x * 10000000000000000"

definition dec_add :: "decimal \<Rightarrow> decimal \<Rightarrow> ('e, decimal) result" where
  "dec_add a b = u128_add a b"

definition dec_sub :: "decimal \<Rightarrow> decimal \<Rightarrow> ('e, decimal) result" where
  "dec_sub a b = u128_sub a b"

definition dec_checked_sub :: "decimal \<Rightarrow> decimal \<Rightarrow> (std_error, decimal) result" where
  "dec_checked_sub a b = (if b \<le> a then Inr (a - b) else Inl (Failed OverflowErr))"

definition dec_checked_mul :: "decimal \<Rightarrow> decimal \<Rightarrow> (std_error, decimal) result" where
  "dec_checked_mul a b =
     (let p = a * b div DECIMAL_FRACTIONAL in
      if p < U128_BOUND then Inr p else Inl (Failed OverflowErr))"

definition dec_checked_div :: "decimal \<Rightarrow> decimal \<Rightarrow> (std_error, decimal) result" where
  "dec_checked_div a b =
     (if b = 0 then Inl (Failed OverflowErr)
      else let q = a * DECIMAL_FRACTIONAL div b in
        if q < U128_BOUND then Inr q else Inl (Failed OverflowErr))"

definition uint128_mul_dec :: "uint128 \<Rightarrow> decimal \<Rightarrow> ('e, uint128) result" where
  "uint128_mul_dec u d =
     (let p = u * d div DECIMAL_FRACTIONAL in if p < U128_BOUND then Inr p else Inl Panic)"

definition decimal_subtraction :: "decimal \<Rightarrow> decimal \<Rightarrow> (std_error, decimal) result" where
  "decimal_subtraction a b =
     map_err (\<lambda>_. GenericErr ''Decimal subtraction overflow'') (dec_checked_sub a b)"

definition decimal_division :: "decimal \<Rightarrow> decimal \<Rightarrow> (std_error, decimal) result" where
  "decimal_division a b =
     map_err (\<lambda>_. GenericErr ''Decimal division overflow'') (dec_checked_div a b)"

definition decimal_multiplication :: "decimal \<Rightarrow> decimal \<Rightarrow> (std_error, decimal) result" where
  "decimal_multiplication a b =
     map_err (\<lambda>_. GenericErr ''Decimal multiplication overflow'') (dec_checked_mul a b)"

lemma dec_ok [res_ok]:
  "dec_from_ratio a b = Inr c \<longleftrightarrow> 0 < b \<and> c = a * DECIMAL_FRACTIONAL div b \<and> c < U128_BOUND"
  "dec_add a b = Inr c \<longleftrightarrow> c = a + b \<and> a + b < U128_BOUND"
  "dec_sub a b = Inr c \<longleftrightarrow> c = a - b \<and> b \<le> a"
  "dec_checked_sub a b = Inr c \<longleftrightarrow> c = a - b \<and> b \<le> a"
  "dec_checked_mul a b = Inr c \<longleftrightarrow> c = a * b div DECIMAL_FRACTIONAL \<and> c < U128_BOUND"
  "dec_checked_div a b = Inr c \<longleftrightarrow> 0 < b \<and> c = a * DECIMAL_FRACTIONAL div b \<and> c < U128_BOUND"
  "uint128_mul_dec u d = Inr c \<longleftrightarrow> c = u * d div DECIMAL_FRACTIONAL \<and> c < U128_BOUND"
  "decimal_subtraction a b = Inr c \<longleftrightarrow> c = a - b \<and> b \<le> a"
  "decimal_division a b = Inr c \<longleftrightarrow> 0 < b \<and> c = a * DECIMAL_FRACTIONAL div b \<and> c < U128_BOUND"
  "decimal_multiplication a b = Inr c \<longleftrightarrow> c = a * b div DECIMAL_FRACTIONAL \<and> c < U128_BOUND"
  by (auto simp: res_ok dec_from_ratio_def dec_add_def dec_sub_def dec_checked_sub_def
      dec_checked_mul_def dec_checked_div_def uint128_mul_dec_def decimal_subtraction_def
      decimal_division_def decimal_multiplication_def Let_def)

section \<open>What the contracts rely on in a fixed-point type\<close>

locale fixed_point =
  fixes fadd fsub fmul fdiv :: "nat \<Rightarrow> nat \<Rightarrow> ('e, nat) result"
  assumes fadd: "fadd a b = Inr c \<Longrightarrow> c = a + b"
    and fsub: "fsub a b = Inr c \<Longrightarrow> b \<le> a \<and> c = a - b"
    and fmul: "fmul a b = Inr c \<Longrightarrow> c = a * b div DECIMAL_FRACTIONAL"
    and fdiv: "fdiv a b = Inr c \<Longrightarrow> 0 < b \<and> c = a * DECIMAL_FRACTIONAL div b"
begin

lemma fmul_le: "fmul a b = Inr c \<Longrightarrow> b \<le> DECIMAL_FRACTIONAL \<Longrightarrow> c \<le> a"
  by (metis fmul mult_le_mono2 div_le_mono nonzero_mult_div_cancel_right frac_pos(2))

lemma fmul_one: "fmul a DECIMAL_FRACTIONAL = Inr c \<Longrightarrow> c = a"
  by (auto dest!: fmul)

lemma fmul_mono: "fmul a b = Inr c \<Longrightarrow> fmul a' b' = Inr c' \<Longrightarrow> a \<le> a' \<Longrightarrow> b \<le> b' \<Longrightarrow> c \<le> c'"
  by (auto dest!: fmul intro!: div_le_mono mult_le_mono)

lemma fdiv_le_one: "fdiv a b = Inr c \<Longrightarrow> a \<le> b \<Longrightarrow> c \<le> DECIMAL_FRACTIONAL"
proof -
  assume "fdiv a b = Inr c" "a \<le> b"
  then have c: "0 < b" "c = a * DECIMAL_FRACTIONAL div b" by (auto dest: fdiv)
  have "a * DECIMAL_FRACTIONAL div b \<le> b * DECIMAL_FRACTIONAL div b"
    using \<open>a \<le> b\<close> by (intro div_le_mono mult_le_mono1)
  then show ?thesis using c by simp
qed

lemma fdiv_one_iff: "fdiv a b = Inr c \<Longrightarrow> a \<le> b \<Longrightarrow> c = DECIMAL_FRACTIONAL \<longleftrightarrow> a = b"
proof -
  assume d: "fdiv a b = Inr c" and le: "a \<le> b"
  then have c: "0 < b" "c = a * DECIMAL_FRACTIONAL div b" by (auto dest: fdiv)
  have "a < b \<Longrightarrow> c < DECIMAL_FRACTIONAL"
    using c by (simp add: div_less_iff_less_mult mult.commute)
  then show ?thesis using c le by (auto simp: le_less)
qed

text \<open>Quotients and products round down, so neither ratios nor shares add up to too much.\<close>

lemma ratios_sum:
  "rmapM (\<lambda>a. fdiv a t) as = Inr rs \<Longrightarrow> 0 < t \<Longrightarrow>
   sum_list rs * t \<le> sum_list as * DECIMAL_FRACTIONAL"
proof (induction as arbitrary: rs)
  case Nil
  then show ?case by simp
next
  case (Cons a as)
  from Cons.prems(1) obtain r rs' where rs: "rs = r # rs'" "fdiv a t = Inr r"
      "rmapM (\<lambda>a. fdiv a t) as = Inr rs'"
    by (auto simp: res_ok)
  have "r * t \<le> a * DECIMAL_FRACTIONAL"
    using fdiv[OF rs(2)] by (metis div_times_less_eq_dividend)
  with Cons.IH[OF rs(3) Cons.prems(2)] show ?case
    by (simp add: rs(1) distrib_right add_mono)
qed

lemma ratios_le_one:
  assumes "rmapM (\<lambda>a. fdiv a t) as = Inr rs" and "0 < t" and "sum_list as \<le> t"
  shows "sum_list rs \<le> DECIMAL_FRACTIONAL"
proof -
  have "sum_list rs * t \<le> t * DECIMAL_FRACTIONAL"
    using ratios_sum[OF assms(1,2)] assms(3) by (meson le_trans mult_le_mono1)
  then show ?thesis using assms(2) by (simp add: mult.commute)
qed

end

interpretation d256: fixed_point d256_add d256_sub d256_mul d256_div
  by unfold_locales (auto simp: res_ok)

interpretation dec: fixed_point dec_add decimal_subtraction decimal_multiplication decimal_division
  by unfold_locales (auto simp: res_ok)

end
