(* ===== verification/Membrane_Text.thy ===== *)
theory Membrane_Text
  imports Membrane_Math
begin

text \<open>
  Decimal text: \<open>Decimal256::from_str\<close> and its \<open>Display\<close> impl, with the \<open>U256\<close> parser and
  printer they call as the parameter \<open>text_lib\<close>. \<open>text_ok\<close> is what their documentation and the
  tests in \<open>math.rs\<close> promise; \<open>std_text\<close> satisfies it. The main lemma is the round trip
  \<open>d256_from_str_to_string\<close>: printing loses nothing, so \<open>PriceResponse::to_decimal256\<close>, which
  goes through a string, keeps the price.
\<close>

section \<open>The library's integer text\<close>

record text_lib =
  from_dec_str :: "string \<Rightarrow> u256 option"
  u256_to_string :: "u256 \<Rightarrow> string"

definition is_digit :: "char \<Rightarrow> bool" where
  "is_digit c \<longleftrightarrow> 48 \<le> (of_char c :: nat) \<and> (of_char c :: nat) \<le> 57"

definition digit_val :: "char \<Rightarrow> nat" where
  "digit_val c = of_char c - 48"

definition digit_char :: "nat \<Rightarrow> char" where
  "digit_char d = char_of (48 + d)"

definition digits_val :: "string \<Rightarrow> nat" where
  "digits_val s = foldl (\<lambda>v c. 10 * v + digit_val c) 0 s"

text \<open>
  The parser reads any string of digits (leading zeros allowed, the empty string is 0) whose
  value fits and rejects everything else; the printer writes the digits of the value without
  superfluous leading zeros.
\<close>

definition text_ok :: "text_lib \<Rightarrow> bool" where
  "text_ok T \<longleftrightarrow>
     (\<forall>s. from_dec_str T s =
        (if list_all is_digit s \<and> digits_val s < U256_BOUND then Some (digits_val s) else None))
   \<and> (\<forall>n. n < U256_BOUND \<longrightarrow>
        list_all is_digit (u256_to_string T n) \<and> digits_val (u256_to_string T n) = n)
   \<and> (\<forall>n k. n < U256_BOUND \<longrightarrow> 0 < k \<longrightarrow> n < 10 ^ k \<longrightarrow> length (u256_to_string T n) \<le> k)"

fun dec_string :: "nat \<Rightarrow> string" where
  "dec_string n = (if n < 10 then [digit_char n] else dec_string (n div 10) @ [digit_char (n mod 10)])"

declare dec_string.simps [simp del]

definition parse_dec :: "string \<Rightarrow> u256 option" where
  "parse_dec s =
     (if list_all is_digit s \<and> digits_val s < U256_BOUND then Some (digits_val s) else None)"

definition std_text :: text_lib where
  "std_text = \<lparr>from_dec_str = parse_dec, u256_to_string = dec_string\<rparr>"

lemma digit_char_props:
  assumes "d < 10"
  shows "is_digit (digit_char d)" "digit_val (digit_char d) = d"
  using assms by (simp_all add: is_digit_def digit_val_def digit_char_def of_char_of)

lemma dot_not_digit [simp]: "\<not> is_digit (CHR ''.'')"
  by (simp add: is_digit_def)

lemma zero_digit [simp]: "is_digit (CHR ''0'')" "digit_val (CHR ''0'') = 0"
  by (simp_all add: is_digit_def digit_val_def)

lemma digits_val_Nil [simp]: "digits_val [] = 0"
  by (simp add: digits_val_def)

lemma digits_val_snoc [simp]: "digits_val (s @ [c]) = 10 * digits_val s + digit_val c"
  by (simp add: digits_val_def)

lemma digits_val_append: "digits_val (s @ t) = digits_val s * 10 ^ length t + digits_val t"
proof (induction t rule: rev_induct)
  case Nil
  then show ?case by simp
next
  case (snoc c t)
  have "digits_val (s @ t @ [c]) = 10 * digits_val (s @ t) + digit_val c"
    using digits_val_snoc[of "s @ t" c] by simp
  then show ?case using snoc by (simp add: algebra_simps)
qed

lemma digits_val_zeros [simp]: "digits_val (replicate k (CHR ''0'')) = 0"
  by (induction k) (simp_all add: digits_val_append[of "[_]", simplified] digits_val_def)

lemma dec_string_digits: "list_all is_digit (dec_string n)"
proof (induction n rule: dec_string.induct)
  case (1 n)
  then show ?case by (subst dec_string.simps) (simp add: digit_char_props)
qed

lemma dec_string_val: "digits_val (dec_string n) = n"
proof (induction n rule: dec_string.induct)
  case (1 n)
  show ?case
  proof (cases "n < 10")
    case True
    then show ?thesis
      by (subst dec_string.simps) (simp add: digits_val_def digit_char_props)
  next
    case False
    with 1 show ?thesis by (subst dec_string.simps) (simp add: digit_char_props)
  qed
qed

lemma dec_string_length: "0 < k \<Longrightarrow> n < 10 ^ k \<Longrightarrow> length (dec_string n) \<le> k"
proof (induction n arbitrary: k rule: dec_string.induct)
  case (1 n)
  show ?case
  proof (cases "n < 10")
    case True
    then show ?thesis using "1.prems" by (subst dec_string.simps) simp
  next
    case False
    obtain j where j: "k = Suc j" using "1.prems" by (cases k) auto
    have "0 < j" using False "1.prems"(2) j by (cases j) auto
    with j have k: "k = Suc j" "0 < j" by auto
    with "1.prems" have "n div 10 < 10 ^ j" by (simp add: div_less_iff_less_mult mult.commute)
    with False k "1.IH" show ?thesis by (subst dec_string.simps) simp
  qed
qed

lemma text_ok_std: "text_ok std_text"
  by (simp add: text_ok_def std_text_def parse_dec_def dec_string_digits dec_string_val
      dec_string_length)

lemma text_okD:
  assumes "text_ok T"
  shows "list_all is_digit s \<Longrightarrow> digits_val s < U256_BOUND \<Longrightarrow>
           from_dec_str T s = Some (digits_val s)"
    and "n < U256_BOUND \<Longrightarrow> list_all is_digit (u256_to_string T n)"
    and "n < U256_BOUND \<Longrightarrow> digits_val (u256_to_string T n) = n"
    and "n < U256_BOUND \<Longrightarrow> 0 < k \<Longrightarrow> n < 10 ^ k \<Longrightarrow> length (u256_to_string T n) \<le> k"
  using assms by (simp_all add: text_ok_def)

section \<open>Parsing and printing of Decimal256\<close>

text \<open>Rust's \<open>str::split\<close> on one character, \<open>trim_end_matches\<close> and \<open>repeat\<close>.\<close>

fun split_on :: "char \<Rightarrow> string \<Rightarrow> string list" where
  "split_on d [] = [[]]"
| "split_on d (c # cs) =
     (if c = d then [] # split_on d cs
      else case split_on d cs of [] \<Rightarrow> [[c]] | p # ps \<Rightarrow> (c # p) # ps)"

definition trim_end_zeros :: "string \<Rightarrow> string" where
  "trim_end_zeros s = rev (dropWhile (\<lambda>c. c = CHR ''0'') (rev s))"

definition d256_from_str :: "text_lib \<Rightarrow> string \<Rightarrow> (std_error, decimal256) result" where
  "d256_from_str T input =
     (case split_on (CHR ''.'') input of
        [w] \<Rightarrow>
          rbind (ok_or (GenericErr ''Error parsing whole'') (from_dec_str T w)) (\<lambda>whole.
          u256_mul whole DECIMAL_FRACTIONAL)
      | [w, f] \<Rightarrow>
          rbind (ok_or (GenericErr ''Error parsing whole'') (from_dec_str T w)) (\<lambda>whole.
          rbind (ok_or (GenericErr ''Error parsing fractional'') (from_dec_str T f)) (\<lambda>fractional.
          rbind (ok_or (GenericErr ''Cannot parse more than 18 fractional digits'')
                   (if length f \<le> 18 then Some (18 - length f) else None)) (\<lambda>exp.
          rbind (u256_mul whole DECIMAL_FRACTIONAL) (\<lambda>whole_as_atomics.
          rbind (u256_mul fractional (10 ^ exp)) (\<lambda>frac_atomics.
          u256_add whole_as_atomics frac_atomics)))))
      | _ \<Rightarrow> Inl (Failed (GenericErr ''Unexpected number of dots'')))"

definition d256_to_string :: "text_lib \<Rightarrow> decimal256 \<Rightarrow> ('e, string) result" where
  "d256_to_string T d =
     (let whole = d div DECIMAL_FRACTIONAL; fractional = d mod DECIMAL_FRACTIONAL in
      if fractional = 0 then Inr (u256_to_string T whole)
      else
        let fractional_string = u256_to_string T fractional in
        if 18 < length fractional_string then Inl Panic
        else
          let fractional_string =
            replicate (18 - length fractional_string) (CHR ''0'') @ fractional_string
          in Inr (u256_to_string T whole @ ''.'' @ trim_end_zeros fractional_string))"

definition d256_visit_str :: "text_lib \<Rightarrow> string \<Rightarrow> (std_error, decimal256) result" where
  "d256_visit_str T v =
     (case d256_from_str T v of
        Inr d \<Rightarrow> Inr d
      | Inl Panic \<Rightarrow> Inl Panic
      | Inl (Failed e) \<Rightarrow> Inl (Failed (GenericErr ''Error parsing decimal'')))"

definition uint256_from_str :: "text_lib \<Rightarrow> string \<Rightarrow> (std_error, uint256) result" where
  "uint256_from_str T input = ok_or (GenericErr ''Error parsing number'') (from_dec_str T input)"

definition uint256_to_string :: "text_lib \<Rightarrow> uint256 \<Rightarrow> string" where
  "uint256_to_string T n = u256_to_string T n"

lemma split_on_none: "d \<notin> set s \<Longrightarrow> split_on d s = [s]"
  by (induction s) auto

lemma split_on_one: "d \<notin> set s \<Longrightarrow> split_on d (s @ d # t) = s # split_on d t"
  by (induction s) auto

lemma digits_no_dot: "list_all is_digit s \<Longrightarrow> CHR ''.'' \<notin> set s"
  by (metis dot_not_digit list_all_iff)

lemma trim_end_zeros_split: "\<exists>k. s = trim_end_zeros s @ replicate k (CHR ''0'')"
proof -
  let ?z = "\<lambda>c. c = CHR ''0''"
  let ?t = "takeWhile ?z (rev s)"
  have "\<forall>c\<in>set ?t. c = CHR ''0''" by (auto dest: set_takeWhileD)
  then have t: "?t = replicate (length ?t) (CHR ''0'')"
    by (metis replicate_length_same)
  have "rev s = ?t @ dropWhile ?z (rev s)" by simp
  then have "s = rev (dropWhile ?z (rev s)) @ rev ?t" by (metis rev_append rev_rev_ident)
  then show ?thesis unfolding trim_end_zeros_def using t by (metis rev_replicate)
qed

text \<open>The printed fraction reads back as the fraction once it is scaled up again.\<close>

lemma trimmed_fraction:
  assumes T: "text_ok T" and f: "0 < f" "f < DECIMAL_FRACTIONAL"
    and s: "s = replicate (18 - length (u256_to_string T f)) (CHR ''0'') @ u256_to_string T f"
  shows "length (u256_to_string T f) \<le> 18"
    and "list_all is_digit (trim_end_zeros s)"
    and "length (trim_end_zeros s) \<le> 18"
    and "digits_val (trim_end_zeros s) * 10 ^ (18 - length (trim_end_zeros s)) = f"
proof -
  have fb: "f < U256_BOUND" using f frac_bound(3) by linarith
  show len: "length (u256_to_string T f) \<le> 18"
    using text_okD(4)[OF T fb, of 18] f by (simp add: frac_pow)
  have slen: "length s = 18" using len by (simp add: s)
  have sd: "list_all is_digit s"
    using text_okD(2)[OF T fb] by (auto simp: s list_all_iff)
  have sv: "digits_val s = f"
    by (simp add: s digits_val_append text_okD(3)[OF T fb])
  obtain k where k: "s = trim_end_zeros s @ replicate k (CHR ''0'')"
    using trim_end_zeros_split by blast
  show "list_all is_digit (trim_end_zeros s)" using sd by (subst (asm) k) simp
  have tl: "length (trim_end_zeros s) + k = 18"
    using slen by (subst (asm) k) simp
  then show "length (trim_end_zeros s) \<le> 18" by simp
  have "digits_val (trim_end_zeros s) * 10 ^ k = f"
    using sv by (subst (asm) k) (simp add: digits_val_append)
  then show "digits_val (trim_end_zeros s) * 10 ^ (18 - length (trim_end_zeros s)) = f"
    using tl by (metis add_diff_cancel_left')
qed

lemma d256_to_string_total:
  assumes "text_ok T" and "d < U256_BOUND"
  shows "\<exists>s. d256_to_string T d = Inr s"
proof (cases "d mod DECIMAL_FRACTIONAL = 0")
  case True
  then show ?thesis by (simp add: d256_to_string_def)
next
  case False
  then show ?thesis
    using trimmed_fraction(1)[OF assms(1), of "d mod DECIMAL_FRACTIONAL"]
    by (simp add: d256_to_string_def Let_def)
qed

lemma d256_from_str_to_string:
  assumes T: "text_ok T" and d: "d < U256_BOUND" and s: "d256_to_string T d = Inr s"
  shows "d256_from_str T s = Inr d"
proof -
  let ?w = "d div DECIMAL_FRACTIONAL" and ?f = "d mod DECIMAL_FRACTIONAL"
  have wb: "?w < U256_BOUND" using d by (meson div_le_dividend le_less_trans)
  have whole: "list_all is_digit (u256_to_string T ?w)"
      "from_dec_str T (u256_to_string T ?w) = Some ?w"
    using text_okD(1)[OF T, of "u256_to_string T ?w"] text_okD(2,3)[OF T wb] wb by auto
  have wmul: "?w * DECIMAL_FRACTIONAL < U256_BOUND"
    using d by (meson div_times_less_eq_dividend le_less_trans)
  show ?thesis
  proof (cases "?f = 0")
    case True
    then have "s = u256_to_string T ?w" using s by (simp add: d256_to_string_def)
    moreover have "?w * DECIMAL_FRACTIONAL = d" using True by auto
    ultimately show ?thesis
      using whole wmul digits_no_dot
      by (simp add: d256_from_str_def split_on_none u256_mul_def)
  next
    case False
    define z where
      "z = replicate (18 - length (u256_to_string T ?f)) (CHR ''0'') @ u256_to_string T ?f"
    have f: "0 < ?f" "?f < DECIMAL_FRACTIONAL" using False by auto
    note tf = trimmed_fraction[OF T f z_def]
    have "s = u256_to_string T ?w @ CHR ''.'' # trim_end_zeros z"
      using s False tf(1) by (simp add: d256_to_string_def z_def Let_def)
    then have sp: "split_on (CHR ''.'') s = [u256_to_string T ?w, trim_end_zeros z]"
      using digits_no_dot[OF whole(1)] digits_no_dot[OF tf(2)]
      by (simp add: split_on_one split_on_none)
    have "digits_val (trim_end_zeros z) * 1
        \<le> digits_val (trim_end_zeros z) * 10 ^ (18 - length (trim_end_zeros z))"
      by (intro mult_le_mono2) simp
    then have "digits_val (trim_end_zeros z) \<le> ?f" using tf(4) by simp
    then have zb: "digits_val (trim_end_zeros z) < U256_BOUND"
      using f(2) frac_bound(3) by linarith
    have m1: "u256_mul ?w DECIMAL_FRACTIONAL = (Inr (?w * DECIMAL_FRACTIONAL) :: (std_error, _) result)"
      by (simp only: u256_mul_def wmul if_True)
    have "?f < U256_BOUND" using f(2) frac_bound(3) by linarith
    then have m2: "u256_mul (digits_val (trim_end_zeros z)) (10 ^ (18 - length (trim_end_zeros z)))
        = (Inr ?f :: (std_error, _) result)"
      by (simp only: u256_mul_def tf(4) if_True)
    have m3: "u256_add (?w * DECIMAL_FRACTIONAL) ?f = (Inr d :: (std_error, _) result)"
      using d by (simp only: u256_add_def div_mult_mod_eq if_True)
    show ?thesis
      using sp whole(2) text_okD(1)[OF T tf(2) zb] tf(3) m1 m2 m3
      by (simp add: d256_from_str_def)
  qed
qed

end
