(* ===== verification/Membrane_Types.thy ===== *)
theory Membrane_Types
  imports Membrane_Text
begin

text \<open>
  The data the contracts share (\<open>packages/membrane/src/types.rs\<close>), prices
  (\<open>packages/membrane/src/oracle.rs\<close>) and the helpers both modelled contracts call
  (\<open>packages/membrane/src/helpers.rs\<close>), with the chain's environment of a call.

  Code outside the repository is the argument \<open>chain_lib\<close> of the functions that use it: the
  text routines of \<open>Membrane_Text\<close>, the printer and parser of \<open>Decimal\<close>, the address check of
  the host, the package version the build inserts, and the coin collection \<open>Coins\<close>. \<open>lib_ok\<close>
  collects what the properties assume of it.
\<close>

section \<open>Assets, coins, messages\<close>

type_synonym addr = string

datatype AssetInfo = Token (ai_address: addr) | NativeToken (ai_denom: string)

fun asset_info_to_string :: "AssetInfo \<Rightarrow> string" where
  "asset_info_to_string (NativeToken denom) = denom"
| "asset_info_to_string (Token address) = address"

fun is_native_token :: "AssetInfo \<Rightarrow> bool" where
  "is_native_token (NativeToken _) = True"
| "is_native_token (Token _) = False"

fun asset_info_equal :: "AssetInfo \<Rightarrow> AssetInfo \<Rightarrow> bool" where
  "asset_info_equal (Token self_addr) asset =
     (case asset of Token address \<Rightarrow> self_addr = address | NativeToken _ \<Rightarrow> False)"
| "asset_info_equal (NativeToken self_denom) asset =
     (case asset of Token _ \<Rightarrow> False | NativeToken denom \<Rightarrow> self_denom = denom)"

lemma asset_info_equal_iff [simp]: "asset_info_equal a b \<longleftrightarrow> a = b"
  by (cases a; cases b) auto

definition asset_lists_equal :: "AssetInfo list \<Rightarrow> AssetInfo list \<Rightarrow> bool" where
  "asset_lists_equal assets_1 assets_2 =
     (if length assets_1 \<noteq> length assets_2 then False
      else list_all (\<lambda>asset. find (\<lambda>self_asset. asset_info_equal asset self_asset) assets_1 \<noteq> None)
             assets_2)"

record Asset =
  a_info :: AssetInfo
  a_amount :: uint128

record Coin =
  c_denom :: string
  c_amount :: uint128

record UserInfo =
  ui_position_id :: uint128
  ui_position_owner :: string

record PriceInfo =
  pi_source :: string
  pi_price :: decimal

record PriceResponse =
  pr_prices :: "PriceInfo list"
  pr_price :: decimal
  pr_decimals :: u64

datatype PoolType = Balancer u64 | StableSwap u64

record LPAssetInfo =
  lp_info :: AssetInfo
  lp_decimals :: u64
  lp_ratio :: decimal

record PoolInfo =
  pool_id :: u64
  pool_asset_infos :: "LPAssetInfo list"

record TWAPPoolInfo =
  twap_pool_id :: u64
  twap_base_asset_denom :: string
  twap_quote_asset_denom :: string

record VaultTokenInfo =
  vt_vault_contract :: string
  vt_underlying_token :: string

record AssetOracleInfo =
  ao_basket_id :: uint128
  ao_pyth_price_feed_id :: "string option"
  ao_pools_for_osmo_twap :: "TWAPPoolInfo list"
  ao_is_usd_par :: bool
  ao_lp_pool_info :: "PoolInfo option"
  ao_vault_info :: "VaultTokenInfo option"
  ao_decimals :: u64

text \<open>
  Messages a contract sends. The payloads are the typed messages the code serialises, named after
  the receiving contract: of the osmosis proxy (\<open>BurnTokens\<close>, \<open>MintTokens\<close>), the positions contract
  (\<open>LiqRepay\<close>, \<open>RepayMsg\<close>, \<open>BadDebtCheckMsg\<close>), the stability pool (\<open>Sp...\<close>), the liquidation queue
  (\<open>Lq...\<close>), staking (\<open>DepositFee\<close>), the auction, the oracle and the liquidity check.
\<close>

datatype wasm_payload =
    BurnTokens string uint128 addr
  | MintTokens string uint128 addr
  | LiqRepay
  | RepayMsg uint128 "string option" "string option"
  | BadDebtCheckMsg uint128 addr
  | SpDistributeMsg "Asset list" "decimal list" uint128
  | SpLiquidateMsg decimal
  | SpRepayMsg UserInfo Asset
  | LqLiquidateMsg PriceResponse PriceResponse uint256 AssetInfo
  | LqAddQueueMsg AssetInfo uint128 uint256
  | LqUpdateQueueMsg AssetInfo "uint128 option" "uint256 option"
  | DepositFee
  | StartAuction "UserInfo option" Asset "string option"
  | OracleAddAsset AssetInfo AssetOracleInfo
  | OracleEditAsset AssetInfo "AssetOracleInfo option" bool
  | LiquidityAddAsset AssetInfo "PoolType list"
  | LiquidityEditAsset AssetInfo "PoolType list"

datatype cosmos_msg =
    BankSend addr "Coin list"
  | WasmExecute addr wasm_payload "Coin list"

text \<open>
  A response carries messages and attributes. An attribute value is kept as the value that
  the code prints: text, a number, two of them with a space between, or the debug print of a
  structure.
\<close>

datatype 'c attr_val =
    AText string
  | ANum nat
  | ATextNum string nat
  | ANumText nat string
  | ADebug 'c

type_synonym 'c attr = "string \<times> 'c attr_val"

record 'c response =
  messages :: "cosmos_msg list"
  attributes :: "'c attr list"

definition response_new :: "'c response" where
  "response_new = \<lparr>messages = [], attributes = []\<rparr>"

record MessageInfo =
  sender :: addr
  funds :: "Coin list"

text \<open>Block time is kept in nanoseconds, as the chain does; \<open>seconds()\<close> rounds down.\<close>

record Env =
  block_height :: u64
  block_nanos :: u64
  contract_address :: addr

definition time_seconds :: "Env \<Rightarrow> u64" where
  "time_seconds env = block_nanos env div 1000000000"

definition time_plus_seconds :: "Env \<Rightarrow> u64 \<Rightarrow> ('e, u64) result" where
  "time_plus_seconds env s =
     rbind (u64_mul s 1000000000) (\<lambda>nanos.
     rbind (u64_add (block_nanos env) nanos) (\<lambda>t.
     Inr (t div 1000000000)))"

lemma time_plus_seconds_ok [res_ok]:
  "time_plus_seconds env s = Inr t \<longleftrightarrow>
     t = time_seconds env + s \<and> block_nanos env + s * 1000000000 < U64_BOUND"
  by (auto simp: time_plus_seconds_def time_seconds_def res_ok)

section \<open>Library code\<close>

record chain_lib =
  lib_text :: text_lib
  lib_decimal_to_string :: "decimal \<Rightarrow> string"
  lib_decimal_from_str :: "string \<Rightarrow> decimal option"
  lib_addr_validate :: "string \<Rightarrow> (std_error, addr) result"
  lib_version :: string
  lib_coins_add :: "Coin list \<Rightarrow> Coin \<Rightarrow> (std_error, Coin list) result"
  lib_coins_from_coin :: "Coin \<Rightarrow> (std_error, Coin list) result"

text \<open>
  \<open>Decimal\<close> prints like \<open>Decimal256\<close> (whole part, and a dot with the fraction stripped of
  trailing zeros when it is not zero).
\<close>

definition lib_ok :: "chain_lib \<Rightarrow> bool" where
  "lib_ok L \<longleftrightarrow> text_ok (lib_text L) \<and>
     (\<forall>d. d < U128_BOUND \<longrightarrow> d256_to_string (lib_text L) d = (Inr (lib_decimal_to_string L d) :: (unit, string) result))"

definition d256_from_decimal :: "chain_lib \<Rightarrow> decimal \<Rightarrow> ('e, decimal256) result" where
  "d256_from_decimal L val =
     (case d256_from_str (lib_text L) (lib_decimal_to_string L val) of
        Inr d \<Rightarrow> Inr d | Inl _ \<Rightarrow> Inl Panic)"

definition decimal_from_d256 :: "chain_lib \<Rightarrow> decimal256 \<Rightarrow> ('e, decimal) result" where
  "decimal_from_d256 L n =
     (let arr = limbs n in
      if arr ! 2 \<noteq> 0 then Inl Panic
      else if arr ! 3 \<noteq> 0 then Inl Panic
      else rbind (d256_to_string (lib_text L) n) (\<lambda>s. unwrap (lib_decimal_from_str L s)))"

section \<open>Prices\<close>

record PriceResponse256 =
  p256_prices :: "PriceInfo list"
  p256_price :: decimal256
  p256_decimals :: u64

definition price_get_value :: "PriceResponse \<Rightarrow> uint128 \<Rightarrow> (std_error, decimal) result" where
  "price_get_value p amount =
     rbind (u64_pow10 (pr_decimals p)) (\<lambda>scale.
     rbind (dec_from_ratio amount scale) (\<lambda>decimal_asset_amount.
     decimal_multiplication (pr_price p) decimal_asset_amount))"

definition price_get_amount :: "PriceResponse \<Rightarrow> decimal \<Rightarrow> (std_error, uint128) result" where
  "price_get_amount p value =
     rbind (decimal_division value (pr_price p)) (\<lambda>pre_scaled_amount.
     rbind (u64_pow10 (pr_decimals p)) (\<lambda>scale.
     uint128_mul_dec scale pre_scaled_amount))"

definition to_decimal256 :: "chain_lib \<Rightarrow> PriceResponse \<Rightarrow> (std_error, PriceResponse256) result" where
  "to_decimal256 L p =
     rbind (d256_from_str (lib_text L) (lib_decimal_to_string L (pr_price p))) (\<lambda>price.
     Inr \<lparr>p256_prices = pr_prices p, p256_price = price, p256_decimals = pr_decimals p\<rparr>)"

definition price256_get_value :: "PriceResponse256 \<Rightarrow> uint256 \<Rightarrow> ('e, decimal256) result" where
  "price256_get_value p amount =
     rbind (u64_pow10 (p256_decimals p)) (\<lambda>scale.
     rbind (d256_from_ratio amount (uint256_from_u128 scale)) (\<lambda>decimal_asset_amount.
     d256_mul (p256_price p) decimal_asset_amount))"

definition price256_get_amount :: "PriceResponse256 \<Rightarrow> decimal256 \<Rightarrow> ('e, uint256) result" where
  "price256_get_amount p value =
     rbind (d256_div value (p256_price p)) (\<lambda>pre_scaled_amount.
     rbind (u64_pow10 (p256_decimals p)) (\<lambda>scale.
     d256_mul_uint256 pre_scaled_amount (uint256_from_u128 scale)))"

lemma to_decimal256_eq:
  assumes "lib_ok L" and "pr_price p < U128_BOUND"
  shows "to_decimal256 L p =
    Inr \<lparr>p256_prices = pr_prices p, p256_price = pr_price p, p256_decimals = pr_decimals p\<rparr>"
proof -
  have "pr_price p < U256_BOUND" using assms(2) bounds_order(2) by linarith
  moreover have "d256_to_string (lib_text L) (pr_price p)
      = (Inr (lib_decimal_to_string L (pr_price p)) :: (unit, string) result)"
    using assms by (simp add: lib_ok_def)
  ultimately have "d256_from_str (lib_text L) (lib_decimal_to_string L (pr_price p))
      = Inr (pr_price p)"
    using assms(1) d256_from_str_to_string lib_ok_def by blast
  then show ?thesis by (simp add: to_decimal256_def)
qed

section \<open>Helpers\<close>

definition SECONDS_PER_YEAR :: u64 where "SECONDS_PER_YEAR = 31536000"

definition asset_to_coin :: "Asset \<Rightarrow> (std_error, Coin) result" where
  "asset_to_coin asset = (case a_info asset of
       Token _ \<Rightarrow> Inl (Failed (GenericErr ''CW20 Assets can't be converted into Coin''))
     | NativeToken denom \<Rightarrow> Inr \<lparr>c_denom = denom, c_amount = a_amount asset\<rparr>)"

definition native_asset_to_coin :: "Asset \<Rightarrow> Coin" where
  "native_asset_to_coin asset =
     \<lparr>c_denom = asset_info_to_string (a_info asset), c_amount = a_amount asset\<rparr>"

definition withdrawal_msg :: "Asset \<Rightarrow> addr \<Rightarrow> (std_error, cosmos_msg) result" where
  "withdrawal_msg asset recipient = (case a_info asset of
       NativeToken _ \<Rightarrow> rbind (asset_to_coin asset) (\<lambda>coin. Inr (BankSend recipient [coin]))
     | Token _ \<Rightarrow> Inl (Failed (GenericErr ''Native assets only'')))"

definition multi_native_withdrawal_msg :: "Asset list \<Rightarrow> addr \<Rightarrow> (std_error, cosmos_msg) result" where
  "multi_native_withdrawal_msg assets recipient =
     Inr (BankSend recipient (map native_asset_to_coin assets))"

lemma withdrawal_msg_ok [res_ok]:
  "withdrawal_msg asset recipient = Inr m \<longleftrightarrow>
     (\<exists>denom. a_info asset = NativeToken denom \<and>
        m = BankSend recipient [\<lparr>c_denom = denom, c_amount = a_amount asset\<rparr>])"
  by (auto simp: withdrawal_msg_def asset_to_coin_def split: AssetInfo.splits)

definition assert_sent_native_token_balance ::
  "AssetInfo \<Rightarrow> MessageInfo \<Rightarrow> (std_error, Asset) result" where
  "assert_sent_native_token_balance asset_info message_info = (case asset_info of
       NativeToken denom \<Rightarrow>
         (case find (\<lambda>x. c_denom x = denom) (funds message_info) of
            Some coin \<Rightarrow>
              (if 0 < c_amount coin then Inr \<lparr>a_info = asset_info, a_amount = c_amount coin\<rparr>
               else Inl (Failed (GenericErr ''You gave me nothing to deposit'')))
          | None \<Rightarrow> Inl (Failed (GenericErr
              ''Incorrect denomination, sent asset denom and asset.info.denom differ'')))
     | Token _ \<Rightarrow> Inl (Failed (GenericErr
         ''Asset type not native, check Msg schema and use AssetInfo::Token{ address: Addr }'')))"

definition validate_position_owner ::
  "chain_lib \<Rightarrow> MessageInfo \<Rightarrow> string option \<Rightarrow> (std_error, addr) result" where
  "validate_position_owner L info recipient =
     (case recipient of None \<Rightarrow> Inr (sender info) | Some x \<Rightarrow> lib_addr_validate L x)"

definition accumulate_interest :: "uint128 \<Rightarrow> decimal \<Rightarrow> u64 \<Rightarrow> (std_error, uint128) result" where
  "accumulate_interest base rate time_elapsed =
     rbind (dec_from_ratio time_elapsed SECONDS_PER_YEAR) (\<lambda>years.
     rbind (dec_checked_mul rate years) (\<lambda>applied_rate.
     uint128_mul_dec base applied_rate))"

end
