(* ===== verification/Liq_State.thy ===== *)
theory Liq_State
  imports Membrane_Types
begin

text \<open>
  Liquidation queue: the stored data (\<open>contracts/liq-queue/src/state.rs\<close>, the \<open>Bid\<close>,
  \<open>PremiumSlot\<close> and \<open>Queue\<close> of \<open>types.rs\<close>, \<open>Config\<close> of \<open>liq_queue.rs\<close>), the errors
  (\<open>error.rs\<close>), and the accessors of \<open>contracts/liq-queue/src/bid.rs\<close> that read and replace
  slots and bids inside a queue.

  A queue holds one slot per premium, named by its \<open>liq_premium\<close>; \<open>slot_store\<close> states the laws
  of that keyed store (reading back what was stored, leaving the other slots alone) and is
  interpreted on \<open>read_premium_slot\<close> and \<open>store_premium_slot\<close>.
\<close>

section \<open>Data\<close>

record Bid =
  b_user :: addr
  b_id :: uint128
  b_amount :: uint256
  b_liq_premium :: u8
  b_product_snapshot :: decimal256
  b_sum_snapshot :: decimal256
  b_pending_liquidated_collateral :: uint256
  b_wait_end :: "u64 option"
  b_epoch_snapshot :: uint128
  b_scale_snapshot :: uint128

record PremiumSlot =
  s_bids :: "Bid list"
  s_waiting_bids :: "Bid list"
  s_liq_premium :: decimal256
  s_sum_snapshot :: decimal256
  s_product_snapshot :: decimal256
  s_total_bid_amount :: uint256
  s_last_total :: u64
  s_current_epoch :: uint128
  s_current_scale :: uint128
  s_residue_collateral :: decimal256
  s_residue_bid :: decimal256

record Queue =
  q_bid_asset :: Asset
  q_max_premium :: uint128
  q_slots :: "PremiumSlot list"
  q_current_bid_id :: uint128
  q_bid_threshold :: uint256

record BidInput =
  bi_bid_for :: AssetInfo
  bi_liq_premium :: u8

record lq_config =
  lqc_owner :: addr
  lqc_positions_contract :: addr
  lqc_osmosis_proxy_contract :: addr
  lqc_added_assets :: "AssetInfo list option"
  lqc_waiting_period :: u64
  lqc_bid_asset :: AssetInfo
  lqc_minimum_bid :: uint128
  lqc_maximum_waiting_bids :: u64

datatype lq_error =
    Std std_error
  | Unauthorized
  | InsufficientBids
  | InvalidAsset
  | InvalidPremium
  | DuplicateQueue
  | InvalidWithdrawal uint256
  | TooManyWaitingBids u64
  | InvalidBidThreshold
  | CustomError string

text \<open>
  Storage. \<open>EPOCH_SCALE_SUM\<close> is the bucket \<open>epoch_scale_sum\<close>, keyed by the asset, the premium,
  the epoch and the scale.
\<close>

record lq_storage =
  CONFIG :: "lq_config option"
  QUEUES :: "string \<rightharpoonup> Queue"
  EPOCH_SCALE_SUM :: "string \<times> u8 \<times> uint128 \<times> uint128 \<rightharpoonup> decimal256"
  OWNERSHIP_TRANSFER :: "addr option"
  CONTRACT_VERSION :: "(string \<times> string) option"

type_synonym 'a lq_result = "(lq_error, 'a) result"

definition config_load :: "lq_storage \<Rightarrow> (std_error, lq_config) result" where
  "config_load st = ok_or (NotFound ''Config'') (CONFIG st)"

definition queues_load :: "lq_storage \<Rightarrow> string \<Rightarrow> (std_error, Queue) result" where
  "queues_load st k = ok_or (NotFound ''Queue'') (QUEUES st k)"

definition queues_save :: "lq_storage \<Rightarrow> string \<Rightarrow> Queue \<Rightarrow> lq_storage" where
  "queues_save st k q = st\<lparr>QUEUES := (QUEUES st)(k \<mapsto> q)\<rparr>"

definition store_epoch_scale_sum ::
  "lq_storage \<Rightarrow> string \<Rightarrow> u8 \<Rightarrow> uint128 \<Rightarrow> uint128 \<Rightarrow> decimal256 \<Rightarrow> lq_storage" where
  "store_epoch_scale_sum st bid_for premium_slot epoch scale d =
     st\<lparr>EPOCH_SCALE_SUM := (EPOCH_SCALE_SUM st)((bid_for, premium_slot, epoch, scale) \<mapsto> d)\<rparr>"

definition read_epoch_scale_sum ::
  "lq_storage \<Rightarrow> string \<Rightarrow> u8 \<Rightarrow> uint128 \<Rightarrow> uint128 \<Rightarrow> (std_error, decimal256) result" where
  "read_epoch_scale_sum st bid_for premium epoch scale =
     ok_or (NotFound ''Decimal256'') (EPOCH_SCALE_SUM st (bid_for, premium, epoch, scale))"

lemma load_ok [res_ok]:
  "config_load st = Inr c \<longleftrightarrow> CONFIG st = Some c"
  "queues_load st k = Inr q \<longleftrightarrow> QUEUES st k = Some q"
  "read_epoch_scale_sum st f p e s = Inr d \<longleftrightarrow> EPOCH_SCALE_SUM st (f, p, e, s) = Some d"
  by (auto simp: config_load_def queues_load_def read_epoch_scale_sum_def res_ok)

lemma queues_save_simps [simp]:
  "QUEUES (queues_save st k q) = (QUEUES st)(k \<mapsto> q)"
  "CONFIG (queues_save st k q) = CONFIG st"
  "EPOCH_SCALE_SUM (queues_save st k q) = EPOCH_SCALE_SUM st"
  "OWNERSHIP_TRANSFER (queues_save st k q) = OWNERSHIP_TRANSFER st"
  by (simp_all add: queues_save_def)

lemma store_epoch_scale_sum_simps [simp]:
  "QUEUES (store_epoch_scale_sum st f p e s d) = QUEUES st"
  "CONFIG (store_epoch_scale_sum st f p e s d) = CONFIG st"
  "OWNERSHIP_TRANSFER (store_epoch_scale_sum st f p e s d) = OWNERSHIP_TRANSFER st"
  "EPOCH_SCALE_SUM (store_epoch_scale_sum st f p e s d) =
     (EPOCH_SCALE_SUM st)((f, p, e, s) \<mapsto> d)"
  by (simp_all add: store_epoch_scale_sum_def)

section \<open>Slots of a queue\<close>

definition read_premium_slot :: "Queue \<Rightarrow> u8 \<Rightarrow> (std_error, PremiumSlot) result" where
  "read_premium_slot queue premium =
     rbind (d256_percent premium) (\<lambda>p.
     case find (\<lambda>slot. s_liq_premium slot = p) (q_slots queue) of
       Some slot \<Rightarrow> Inr slot
     | None \<Rightarrow> Inl (Failed (GenericErr ''Invalid premium'')))"

definition store_premium_slot :: "Queue \<Rightarrow> PremiumSlot \<Rightarrow> Queue" where
  "store_premium_slot queue slot =
     queue\<lparr>q_slots :=
       filter (\<lambda>temp_slot. s_liq_premium temp_slot \<noteq> s_liq_premium slot) (q_slots queue) @ [slot]\<rparr>"

text \<open>The premium of a bid as the slot's key: \<open>percent(1) * from_uint256(premium)\<close>.\<close>

definition bid_premium :: "u8 \<Rightarrow> ('e, decimal256) result" where
  "bid_premium premium =
     rbind (d256_percent 1) (\<lambda>one_percent.
     rbind (d256_from_uint256 (uint256_from_u128 premium)) (\<lambda>p.
     d256_mul one_percent p))"

definition remove_bid :: "Bid \<Rightarrow> Queue \<Rightarrow> Queue lq_result" where
  "remove_bid bid queue =
     rbind (bid_premium (b_liq_premium bid)) (\<lambda>p.
     case find (\<lambda>slot. s_liq_premium slot = p) (q_slots queue) of
       None \<Rightarrow> Inl (Failed InvalidPremium)
     | Some slot \<Rightarrow>
         let slot = slot\<lparr>s_bids := filter (\<lambda>temp_bid. b_id temp_bid \<noteq> b_id bid) (s_bids slot),
               s_waiting_bids :=
                 filter (\<lambda>temp_bid. b_id temp_bid \<noteq> b_id bid) (s_waiting_bids slot)\<rparr>;
             slots = filter (\<lambda>slot. s_liq_premium slot \<noteq> p) (q_slots queue) @ [slot]
         in Inr (queue\<lparr>q_slots := slots\<rparr>))"

definition store_bid :: "Queue \<Rightarrow> Bid \<Rightarrow> Queue lq_result" where
  "store_bid queue bid =
     rbind (bid_premium (b_liq_premium bid)) (\<lambda>p.
     case find (\<lambda>slot. s_liq_premium slot = p) (q_slots queue) of
       None \<Rightarrow> Inl (Failed InvalidPremium)
     | Some slot \<Rightarrow>
         let slot =
               (if b_wait_end bid \<noteq> None
                then slot\<lparr>s_waiting_bids :=
                  filter (\<lambda>temp_bid. b_id temp_bid \<noteq> b_id bid) (s_waiting_bids slot) @ [bid]\<rparr>
                else slot\<lparr>s_bids :=
                  filter (\<lambda>temp_bid. b_id temp_bid \<noteq> b_id bid) (s_bids slot) @ [bid]\<rparr>);
             slots = filter (\<lambda>slot. s_liq_premium slot \<noteq> p) (q_slots queue) @ [slot]
         in Inr (queue\<lparr>q_slots := slots\<rparr>))"

text \<open>The key of a premium in atomics, and the two ways the code computes it.\<close>

definition premium_key :: "u8 \<Rightarrow> decimal256" where
  "premium_key p = p * 10000000000000000"

lemma premium_key_inj [simp]: "premium_key p = premium_key q \<longleftrightarrow> p = q"
  by (simp add: premium_key_def)

lemma d256_percent_key: "p < U64_BOUND \<Longrightarrow> d256_percent p = Inr (premium_key p)"
  by (simp add: d256_percent_def u256_mul_def premium_key_def U64_BOUND_def U256_BOUND_def)

lemma bid_premium_key: "p < U64_BOUND \<Longrightarrow> bid_premium p = Inr (premium_key p)"
  by (simp add: bid_premium_def d256_defs int_defs premium_key_def U64_BOUND_def U256_BOUND_def
      DECIMAL_FRACTIONAL_def)

lemma bid_premium_ok [res_ok]:
  "bid_premium p = Inr k \<longleftrightarrow> k = premium_key p \<and> 10000000000000000 * (p * DECIMAL_FRACTIONAL) < U256_BOUND"
proof -
  have "10000000000000000 * (p * DECIMAL_FRACTIONAL) div DECIMAL_FRACTIONAL = premium_key p"
    by (simp add: premium_key_def DECIMAL_FRACTIONAL_def)
  moreover have "10000000000000000 * (p * DECIMAL_FRACTIONAL) < U256_BOUND
      \<Longrightarrow> p * DECIMAL_FRACTIONAL < U256_BOUND" by linarith
  ultimately show ?thesis by (auto simp: bid_premium_def res_ok U256_BOUND_def)
qed

lemma read_premium_slot_ok:
  "read_premium_slot q p = Inr slot \<longleftrightarrow>
     premium_key p < U256_BOUND \<and> find (\<lambda>s. s_liq_premium s = premium_key p) (q_slots q) = Some slot"
  by (auto simp: read_premium_slot_def res_ok premium_key_def split: option.splits)

lemma store_premium_slot_simps [simp]:
  "q_bid_asset (store_premium_slot q s) = q_bid_asset q"
  "q_max_premium (store_premium_slot q s) = q_max_premium q"
  "q_current_bid_id (store_premium_slot q s) = q_current_bid_id q"
  "q_bid_threshold (store_premium_slot q s) = q_bid_threshold q"
  by (simp_all add: store_premium_slot_def)

section \<open>Laws of the slot store\<close>

locale slot_store =
  fixes read :: "'q \<Rightarrow> 'k \<Rightarrow> 's option"
    and store :: "'q \<Rightarrow> 's \<Rightarrow> 'q"
    and key :: "'s \<Rightarrow> 'k"
  assumes read_store_same: "read (store q s) (key s) = Some s"
    and read_store_other: "k \<noteq> key s \<Longrightarrow> read (store q s) k = read q k"
    and read_key: "read q k = Some s \<Longrightarrow> key s = k"
begin

lemma read_store: "read (store q s) k = (if k = key s then Some s else read q k)"
  by (simp add: read_store_same read_store_other)

lemma store_dom: "{k. read (store q s) k \<noteq> None} = insert (key s) {k. read q k \<noteq> None}"
  by (auto simp: read_store)

lemma store_twice: "key s = key t \<Longrightarrow> read (store (store q s) t) = read (store q t)"
  by (auto simp: fun_eq_iff read_store)

lemma store_commute: "key s \<noteq> key t \<Longrightarrow> read (store (store q s) t) = read (store (store q t) s)"
  by (auto simp: fun_eq_iff read_store)

end

definition find_slot :: "Queue \<Rightarrow> decimal256 \<Rightarrow> PremiumSlot option" where
  "find_slot q k = find (\<lambda>s. s_liq_premium s = k) (q_slots q)"

interpretation slots: slot_store find_slot store_premium_slot s_liq_premium
proof unfold_locales
  show "find_slot (store_premium_slot q s) (s_liq_premium s) = Some s" for q s
    by (auto simp: find_slot_def store_premium_slot_def find_append find_None split: option.splits
        dest: find_SomeD)
  show "find_slot (store_premium_slot q s) k = find_slot q k" if "k \<noteq> s_liq_premium s" for q s k
  proof -
    have "find (\<lambda>t. s_liq_premium t = k)
        (filter (\<lambda>t. s_liq_premium t \<noteq> s_liq_premium s) (q_slots q)) =
      find (\<lambda>t. s_liq_premium t = k) (q_slots q)"
      by (rule find_filter_other) (use that in auto)
    then show ?thesis using that
      by (auto simp: find_slot_def store_premium_slot_def find_append split: option.splits)
  qed
  show "s_liq_premium s = k" if "find_slot q k = Some s" for q s k
    using that by (auto simp: find_slot_def dest: find_SomeD)
qed

lemma read_premium_slot_find:
  "read_premium_slot q p = Inr slot \<longleftrightarrow>
     premium_key p < U256_BOUND \<and> find_slot q (premium_key p) = Some slot"
  by (simp add: read_premium_slot_ok find_slot_def)

end
