(* ===== verification/Liq_Bid.thy ===== *)
theory Liq_Bid
  imports Liq_State
begin

text \<open>
  Liquidation queue: bids (\<open>contracts/liq-queue/src/bid.rs\<close>). One definition per function of
  the file, in the order of its dependencies: activation of bids, the snapshot arithmetic that
  tells what is left of a bid and what it earned, the liquidation of one slot, and the four
  handlers \<open>submit_bid\<close>, \<open>retract_bid\<close>, \<open>execute_liquidation\<close> and \<open>claim_liquidations\<close>.

  A handler takes the storage and returns the new storage and the response. Handlers write
  only to the queue of one asset and (liquidations) to the epoch sums, so the functions below
  thread the queue and, where it changes, the storage.
\<close>

section \<open>Activation\<close>

definition process_bid_activation :: "Bid \<Rightarrow> PremiumSlot \<Rightarrow> Bid" where
  "process_bid_activation bid slot =
     bid\<lparr>b_product_snapshot := s_product_snapshot slot, b_sum_snapshot := s_sum_snapshot slot,
         b_wait_end := None, b_scale_snapshot := s_current_scale slot,
         b_epoch_snapshot := s_current_epoch slot\<rparr>"

text \<open>One bid of the waiting list moves to the active list of its slot.\<close>

definition activate_bid ::
  "Bid \<Rightarrow> PremiumSlot \<Rightarrow> Queue \<Rightarrow> ('e, Bid \<times> PremiumSlot \<times> Queue) result" where
  "activate_bid bid slot queue =
     rbind (uint256_into_u128 (b_amount bid)) (\<lambda>b_amount'.
     rbind (u128_add (a_amount (q_bid_asset queue)) b_amount') (\<lambda>queue_amount.
     rbind (uint256_add_assign (s_total_bid_amount slot) (b_amount bid)) (\<lambda>slot_total.
     let queue = queue\<lparr>q_bid_asset := (q_bid_asset queue)\<lparr>a_amount := queue_amount\<rparr>\<rparr>;
         slot = slot\<lparr>s_total_bid_amount := slot_total\<rparr>;
         bid = process_bid_activation bid slot;
         slot = slot\<lparr>s_bids := s_bids slot @ [bid]\<rparr>
     in Inr (bid\<lparr>b_amount := uint256_zero\<rparr>, slot, queue))))"

definition activation_step ::
  "u64 \<Rightarrow> Bid \<Rightarrow> PremiumSlot \<Rightarrow> Queue \<Rightarrow> ('e, Bid \<times> PremiumSlot \<times> Queue) result" where
  "activation_step block_time bid slot queue =
     rbind (unwrap (b_wait_end bid)) (\<lambda>wait_end.
     if wait_end \<le> block_time then activate_bid bid slot queue
     else if s_total_bid_amount slot \<le> q_bid_threshold queue then activate_bid bid slot queue
     else Inr (bid, slot, queue))"

fun activate_waiting ::
  "u64 \<Rightarrow> Bid list \<Rightarrow> PremiumSlot \<Rightarrow> Queue \<Rightarrow> ('e, Bid list \<times> PremiumSlot \<times> Queue) result" where
  "activate_waiting block_time [] slot queue = Inr ([], slot, queue)"
| "activate_waiting block_time (bid # bids) slot queue =
     rbind (activation_step block_time bid slot queue) (\<lambda>(bid, slot, queue).
     rbind (activate_waiting block_time bids slot queue) (\<lambda>(bids, slot, queue).
     Inr (bid # bids, slot, queue)))"

definition set_slot_total ::
  "PremiumSlot \<Rightarrow> Env \<Rightarrow> Queue \<Rightarrow> lq_config \<Rightarrow> ('e, PremiumSlot \<times> Queue) result" where
  "set_slot_total slot env queue config =
     (let block_time = time_seconds env in
      rbind (u64_sub block_time (s_last_total slot)) (\<lambda>elapsed.
      if elapsed < lqc_waiting_period config \<and> q_bid_threshold queue \<le> s_total_bid_amount slot
      then Inr (slot, queue)
      else
        rbind (activate_waiting block_time (s_waiting_bids slot) slot queue)
          (\<lambda>(edited_bids, slot, queue).
        let edited_bids = filter (\<lambda>bid. \<not> uint256_is_zero (b_amount bid)) edited_bids
        in Inr (slot\<lparr>s_waiting_bids := edited_bids, s_last_total := block_time\<rparr>, queue))))"

section \<open>Snapshot arithmetic\<close>

definition claim_bid_residue :: "PremiumSlot \<Rightarrow> ('e, uint256 \<times> PremiumSlot) result" where
  "claim_bid_residue slot =
     rbind (d256_mul_uint256 (s_residue_bid slot) uint256_one) (\<lambda>claimable.
     rbind (d256_from_uint256 claimable) (\<lambda>claimable_dec.
     if s_residue_bid slot < claimable_dec then Inr (uint256_zero, slot)
     else if \<not> uint256_is_zero claimable then
       rbind (d256_sub (s_residue_bid slot) claimable_dec) (\<lambda>rest.
       Inr (claimable, slot\<lparr>s_residue_bid := rest\<rparr>))
     else Inr (claimable, slot)))"

definition claim_col_residue :: "PremiumSlot \<Rightarrow> ('e, uint256 \<times> PremiumSlot) result" where
  "claim_col_residue slot =
     rbind (d256_mul_uint256 (s_residue_collateral slot) uint256_one) (\<lambda>claimable.
     if \<not> uint256_is_zero claimable then
       rbind (d256_from_uint256 claimable) (\<lambda>claimable_dec.
       rbind (d256_sub (s_residue_collateral slot) claimable_dec) (\<lambda>rest.
       Inr (claimable, slot\<lparr>s_residue_collateral := rest\<rparr>)))
     else Inr (claimable, slot))"

text \<open>The part of a value below one unit: the residue of converting a \<open>Decimal256\<close> to an integer.\<close>

definition split_residue :: "decimal256 \<Rightarrow> ('e, uint256 \<times> decimal256) result" where
  "split_residue dec =
     rbind (d256_mul_uint256 dec uint256_one) (\<lambda>whole.
     rbind (d256_from_uint256 whole) (\<lambda>whole_dec.
     if dec < whole_dec then Inr (whole, d256_zero)
     else rbind (d256_sub dec whole_dec) (\<lambda>residue. Inr (whole, residue))))"

definition calculate_liquidated_collateral ::
  "lq_storage \<Rightarrow> Bid \<Rightarrow> string \<Rightarrow> (std_error, uint256 \<times> decimal256) result" where
  "calculate_liquidated_collateral st bid bid_for =
     (let reference_sum_snapshot =
            (case read_epoch_scale_sum st bid_for (b_liq_premium bid) (b_epoch_snapshot bid)
                    (b_scale_snapshot bid) of Inr d \<Rightarrow> d | Inl _ \<Rightarrow> d256_zero) in
      if d256_is_zero reference_sum_snapshot \<or> reference_sum_snapshot < b_sum_snapshot bid
      then Inr (uint256_zero, d256_zero)
      else
        rbind (d256_sub reference_sum_snapshot (b_sum_snapshot bid)) (\<lambda>first_portion.
        rbind (u128_add (b_scale_snapshot bid) 1) (\<lambda>next_scale.
        rbind (case read_epoch_scale_sum st bid_for (b_liq_premium bid) (b_epoch_snapshot bid)
                      next_scale of
                 Inr second_scale_sum_snapshot \<Rightarrow>
                   (if second_scale_sum_snapshot < reference_sum_snapshot then Inr d256_zero
                    else rbind (u256_sub second_scale_sum_snapshot reference_sum_snapshot)
                           (\<lambda>diff. u256_div diff 1000000000))
               | Inl _ \<Rightarrow> Inr d256_zero) (\<lambda>second_portion.
        rbind (d256_from_uint256 (b_amount bid)) (\<lambda>amount_dec.
        rbind (d256_add first_portion second_portion) (\<lambda>portions.
        rbind (d256_mul amount_dec portions) (\<lambda>earned.
        rbind (d256_div earned (b_product_snapshot bid)) (\<lambda>liquidated_collateral_dec.
        split_residue liquidated_collateral_dec))))))))"

definition calculate_remaining_bid ::
  "Bid \<Rightarrow> PremiumSlot \<Rightarrow> (std_error, uint256 \<times> decimal256) result" where
  "calculate_remaining_bid bid slot =
     (if s_current_scale slot < b_scale_snapshot bid then Inl (Failed OverflowErr)
      else if s_current_epoch slot < b_epoch_snapshot bid then Inl (Failed OverflowErr)
      else
        let scale_diff = s_current_scale slot - b_scale_snapshot bid;
            epoch_diff = s_current_epoch slot - b_epoch_snapshot bid in
        rbind (if epoch_diff \<noteq> 0 then Inr d256_zero
               else if scale_diff = 0 then
                 rbind (d256_from_uint256 (b_amount bid)) (\<lambda>amount_dec.
                 rbind (d256_mul amount_dec (s_product_snapshot slot)) (\<lambda>x.
                 d256_div x (b_product_snapshot bid)))
               else if scale_diff = 1 then
                 rbind (d256_from_uint256 (b_amount bid)) (\<lambda>amount_dec.
                 rbind (d256_mul amount_dec (s_product_snapshot slot)) (\<lambda>x.
                 rbind (d256_div x (b_product_snapshot bid)) (\<lambda>scaled_remaining_bid.
                 u256_div scaled_remaining_bid 1000000000)))
               else Inr d256_zero)
          split_residue)"

definition assert_withdraw_amount ::
  "uint256 option \<Rightarrow> uint256 \<Rightarrow> uint256 \<Rightarrow> uint256 lq_result" where
  "assert_withdraw_amount withdraw_amount withdrawable_amount minimum_bid =
     (case withdraw_amount of
        Some withdraw_amount \<Rightarrow>
          if withdrawable_amount < withdraw_amount
          then Inl (Failed (InvalidWithdrawal minimum_bid))
          else rbind (uint256_sub withdrawable_amount withdraw_amount) (\<lambda>left.
            if left < minimum_bid \<and> uint256_zero < left
            then Inl (Failed (InvalidWithdrawal minimum_bid))
            else Inr withdraw_amount)
      | None \<Rightarrow> Inr withdrawable_amount)"

section \<open>Reading bids\<close>

definition lq_MAX_LIMIT :: nat where "lq_MAX_LIMIT = 32"

fun read_bid_loop :: "uint128 \<Rightarrow> Queue \<Rightarrow> u8 list \<Rightarrow> (std_error, Bid) result" where
  "read_bid_loop bid_id queue [] = Inl (Failed (GenericErr ''Bid not found''))"
| "read_bid_loop bid_id queue (premium # premiums) =
     rbind (read_premium_slot queue premium) (\<lambda>slot.
     case find (\<lambda>bid. b_id bid = bid_id) (s_bids slot) of
       Some bid \<Rightarrow> Inr bid
     | None \<Rightarrow>
         (case find (\<lambda>bid. b_id bid = bid_id) (s_waiting_bids slot) of
            Some bid \<Rightarrow> Inr bid
          | None \<Rightarrow> read_bid_loop bid_id queue premiums))"

definition read_bid :: "uint128 \<Rightarrow> Queue \<Rightarrow> (std_error, Bid) result" where
  "read_bid bid_id queue =
     (let max_premium = q_max_premium queue mod 256 in
      if max_premium + 1 < 256 then read_bid_loop bid_id queue [0..<max_premium + 1]
      else Inl Panic)"

definition read_bids_by_user ::
  "Queue \<Rightarrow> addr \<Rightarrow> nat option \<Rightarrow> uint128 option \<Rightarrow> Bid list" where
  "read_bids_by_user queue user limit start_after =
     (let limit = (case limit of Some l \<Rightarrow> l | None \<Rightarrow> lq_MAX_LIMIT);
          start = (case start_after of Some s \<Rightarrow> s | None \<Rightarrow> 0);
          read_bids = concat (map (\<lambda>slot.
            filter (\<lambda>bid. b_user bid = user) (filter (\<lambda>bid. start < b_id bid) (s_bids slot)))
            (q_slots queue))
      in take limit read_bids)"

definition validate_bid_input :: "lq_storage \<Rightarrow> BidInput \<Rightarrow> unit lq_result" where
  "validate_bid_input st bid_input =
     (case queues_load st (asset_info_to_string (bi_bid_for bid_input)) of
        Inr queue \<Rightarrow>
          (if bi_liq_premium bid_input \<le> q_max_premium queue mod 256 then Inr ()
           else Inl (Failed InvalidPremium))
      | Inl _ \<Rightarrow> Inl (Failed InvalidAsset))"

definition assert_bid_asset_from_sent_funds ::
  "AssetInfo \<Rightarrow> MessageInfo \<Rightarrow> uint128 \<Rightarrow> (std_error, Asset) result" where
  "assert_bid_asset_from_sent_funds bid_asset info minimum_bid =
     (case funds info of
        [] \<Rightarrow> Inl (Failed (GenericErr ''No asset provided, only bid asset allowed''))
      | coin # rest \<Rightarrow>
          (case bid_asset of
             NativeToken denom \<Rightarrow>
               (if c_denom coin = denom \<and> length (funds info) = 1 then
                  if c_amount coin < minimum_bid
                  then Inl (Failed (GenericFmtNum ''Bid amount too small, minimum is {}'' minimum_bid))
                  else Inr \<lparr>a_info = bid_asset, a_amount = c_amount coin\<rparr>
                else Inl (Failed (GenericErr ''Invalid asset provided, only bid asset allowed'')))
           | Token _ \<Rightarrow> Inl (Failed (GenericErr ''Bid asset's are native assets''))))"

end
