(* ===== verification/Liq_Exec.thy ===== *)
theory Liq_Exec
  imports Liq_Bid
begin

text \<open>
  Liquidation queue: the four handlers of \<open>contracts/liq-queue/src/bid.rs\<close> and the liquidation of
  one premium slot. Every handler is the composition of the functions of \<open>Liq_Bid\<close> in the
  order of the source; loops are recursions over the list they walk.
\<close>

type_synonym lq_response = "lq_config response"

section \<open>Submitting a bid\<close>

definition new_bid :: "addr \<Rightarrow> uint128 \<Rightarrow> uint128 \<Rightarrow> u8 \<Rightarrow> Bid" where
  "new_bid user bid_id amount premium =
     \<lparr>b_user = user, b_id = bid_id, b_amount = uint256_from_u128 amount, b_liq_premium = premium,
      b_product_snapshot = d256_one, b_sum_snapshot = d256_zero,
      b_pending_liquidated_collateral = uint256_zero, b_wait_end = None,
      b_epoch_snapshot = 0, b_scale_snapshot = 0\<rparr>"

text \<open>
  The part of a new bid that is active at once: all of it, or what the threshold leaves room
  for; the rest keeps waiting under a bid id of its own.
\<close>

definition submit_active ::
  "lq_config \<Rightarrow> uint128 \<Rightarrow> Bid \<Rightarrow> PremiumSlot \<Rightarrow> Queue \<Rightarrow>
   (Bid \<times> PremiumSlot \<times> Queue \<times> lq_config attr list) lq_result" where
  "submit_active config sent bid slot queue =
     (if s_total_bid_amount slot \<le> q_bid_threshold queue then
        rbind (uint256_add (s_total_bid_amount slot) (b_amount bid)) (\<lambda>new_total.
        rbind (uint256_add (q_bid_threshold queue) (uint256_from_uint128 (lqc_minimum_bid config)))
          (\<lambda>limit.
        if new_total < limit then
          rbind (u128_add (a_amount (q_bid_asset queue)) sent) (\<lambda>queue_amount.
          rbind (uint256_add_assign (s_total_bid_amount slot) (b_amount bid)) (\<lambda>slot_total.
          let queue = queue\<lparr>q_bid_asset := (q_bid_asset queue)\<lparr>a_amount := queue_amount\<rparr>\<rparr>;
              slot = slot\<lparr>s_total_bid_amount := slot_total\<rparr>;
              bid = process_bid_activation bid slot;
              slot = slot\<lparr>s_bids := s_bids slot @ [bid]\<rparr>;
              bid = bid\<lparr>b_amount := uint256_zero\<rparr>
          in Inr (bid, slot, queue, [(''bid_id'', ANum (b_id bid)), (''bid'', ANum sent)])))
        else
          rbind (uint256_sub new_total (q_bid_threshold queue)) (\<lambda>amount_sent_to_wait.
          rbind (uint256_sub (b_amount bid) amount_sent_to_wait) (\<lambda>active_amount.
          let bid_clone = bid\<lparr>b_amount := active_amount\<rparr>;
              bid = bid\<lparr>b_id := q_current_bid_id queue\<rparr> in
          rbind (u128_add (q_current_bid_id queue) 1) (\<lambda>next_id.
          let queue = queue\<lparr>q_current_bid_id := next_id\<rparr> in
          rbind (uint256_into_u128 amount_sent_to_wait) (\<lambda>wait128.
          rbind (u128_sub sent wait128) (\<lambda>active128.
          rbind (u128_add (a_amount (q_bid_asset queue)) active128) (\<lambda>queue_amount.
          rbind (uint256_add_assign (s_total_bid_amount slot) (b_amount bid_clone)) (\<lambda>slot_total.
          let queue = queue\<lparr>q_bid_asset := (q_bid_asset queue)\<lparr>a_amount := queue_amount\<rparr>\<rparr>;
              slot = slot\<lparr>s_total_bid_amount := slot_total\<rparr>;
              bid_clone = process_bid_activation bid_clone slot;
              slot = slot\<lparr>s_bids := s_bids slot @ [bid_clone]\<rparr>;
              bid = bid\<lparr>b_amount := amount_sent_to_wait\<rparr>
          in Inr (bid, slot, queue,
                [(''bid_id'', ANum (b_id bid_clone)), (''bid'', ANum active128)]))))))))))
      else Inr (bid, slot, queue, []))"

text \<open>\<open>as usize\<close> on the 32-bit wasm target.\<close>

definition as_usize :: "u64 \<Rightarrow> nat" where
  "as_usize n = n mod 4294967296"

definition submit_waiting ::
  "lq_config \<Rightarrow> Env \<Rightarrow> Bid \<Rightarrow> PremiumSlot \<Rightarrow> (PremiumSlot \<times> lq_config attr list) lq_result" where
  "submit_waiting config env bid slot =
     (if \<not> uint256_is_zero (b_amount bid) then
        rbind (time_plus_seconds env (lqc_waiting_period config)) (\<lambda>wait_end.
        let bid = bid\<lparr>b_wait_end := Some wait_end\<rparr>;
            slot = slot\<lparr>s_waiting_bids := s_waiting_bids slot @ [bid]\<rparr> in
        if as_usize (lqc_maximum_waiting_bids config) < length (s_waiting_bids slot)
        then Inl (Failed (TooManyWaitingBids (lqc_maximum_waiting_bids config)))
        else Inr (slot, [(''bid_id'', ANum (b_id bid)), (''bid'', ANum (b_amount bid))]))
      else Inr (slot, []))"

definition submit_bid ::
  "chain_lib \<Rightarrow> lq_storage \<Rightarrow> MessageInfo \<Rightarrow> Env \<Rightarrow> BidInput \<Rightarrow> string option \<Rightarrow>
   (lq_storage \<times> lq_response) lq_result" where
  "submit_bid L st info env bid_input bid_owner =
     (let bid_for = asset_info_to_string (bi_bid_for bid_input) in
      rbind (map_err Std (config_load st)) (\<lambda>config.
      rbind (map_err Std (validate_position_owner L info bid_owner)) (\<lambda>valid_owner_addr.
      rbind (validate_bid_input st bid_input) (\<lambda>_.
      rbind (map_err Std (queues_load st bid_for)) (\<lambda>queue.
      rbind (map_err Std (assert_bid_asset_from_sent_funds (a_info (q_bid_asset queue)) info
               (lqc_minimum_bid config))) (\<lambda>bid_asset.
      rbind (bid_premium (bi_liq_premium bid_input)) (\<lambda>p.
      case find (\<lambda>slot. s_liq_premium slot = p) (q_slots queue) of
        None \<Rightarrow> Inl (Failed InvalidPremium)
      | Some slot \<Rightarrow>
          let bid = new_bid valid_owner_addr (q_current_bid_id queue) (a_amount bid_asset)
                      (bi_liq_premium bid_input) in
          rbind (u128_add (q_current_bid_id queue) 1) (\<lambda>next_id.
          let queue = queue\<lparr>q_current_bid_id := next_id\<rparr> in
          rbind (submit_active config (a_amount bid_asset) bid slot queue)
            (\<lambda>(bid, slot, queue, active_attrs).
          rbind (submit_waiting config env bid slot) (\<lambda>(edited_slot, waiting_attrs).
          let new_slots =
                filter (\<lambda>slot. s_liq_premium slot \<noteq> p) (q_slots queue) @ [edited_slot];
              queue = queue\<lparr>q_slots := new_slots\<rparr>
          in Inr (queues_save st bid_for queue,
               \<lparr>messages = [],
                attributes =
                  [(''method'', AText ''deposit''), (''bid_owner'', AText valid_owner_addr),
                   (''bid_input'', ATextNum bid_for (bi_liq_premium bid_input))]
                  @ active_attrs @ waiting_attrs\<rparr>)))))))))))"

section \<open>Retracting a bid\<close>

text \<open>The branch of \<open>retract_bid\<close> for a bid that is still waiting.\<close>

definition retract_waiting ::
  "lq_config \<Rightarrow> Queue \<Rightarrow> Bid \<Rightarrow> uint256 option \<Rightarrow> (uint256 \<times> Queue) lq_result" where
  "retract_waiting config queue bid amount =
     rbind (assert_withdraw_amount amount (b_amount bid)
              (uint256_from_uint128 (lqc_minimum_bid config))) (\<lambda>waiting_withdraw_amount.
     if waiting_withdraw_amount = b_amount bid then
       rbind (remove_bid bid queue) (\<lambda>queue. Inr (waiting_withdraw_amount, queue))
     else
       rbind (uint256_sub (b_amount bid) waiting_withdraw_amount) (\<lambda>left.
       rbind (store_bid queue (bid\<lparr>b_amount := left\<rparr>)) (\<lambda>queue.
       Inr (waiting_withdraw_amount, queue))))"

text \<open>The branch for an active bid: settle what liquidations took and earned, then withdraw.\<close>

definition retract_active ::
  "lq_storage \<Rightarrow> lq_config \<Rightarrow> Queue \<Rightarrow> Bid \<Rightarrow> PremiumSlot \<Rightarrow> string \<Rightarrow> uint256 option \<Rightarrow>
   (uint256 \<times> Queue) lq_result" where
  "retract_active st config queue bid slot bid_for amount =
     rbind (map_err Std (calculate_remaining_bid bid slot)) (\<lambda>(withdrawable_amount, residue_bid).
     rbind (map_err Std (calculate_liquidated_collateral st bid bid_for))
       (\<lambda>(liquidated_collateral, residue_collateral).
     rbind (uint256_add_assign (b_pending_liquidated_collateral bid) liquidated_collateral)
       (\<lambda>pending.
     let bid = bid\<lparr>b_pending_liquidated_collateral := pending\<rparr> in
     rbind (d256_add_assign (s_residue_collateral slot) residue_collateral) (\<lambda>res_col.
     rbind (d256_add_assign (s_residue_bid slot) residue_bid) (\<lambda>res_bid.
     let slot = slot\<lparr>s_residue_collateral := res_col, s_residue_bid := res_bid\<rparr>;
         queue = store_premium_slot queue slot in
     rbind (assert_withdraw_amount amount withdrawable_amount
              (uint256_from_uint128 (lqc_minimum_bid config))) (\<lambda>withdraw_amount.
     rbind (if withdraw_amount = b_amount bid
              \<and> uint256_is_zero (b_pending_liquidated_collateral bid)
            then remove_bid bid queue
            else
              rbind (uint256_sub withdrawable_amount withdraw_amount) (\<lambda>left.
              store_bid queue
                (bid\<lparr>b_amount := left, b_product_snapshot := s_product_snapshot slot,
                   b_sum_snapshot := s_sum_snapshot slot,
                   b_scale_snapshot := s_current_scale slot\<rparr>))) (\<lambda>queue.
     rbind (map_err Std (read_premium_slot queue (b_liq_premium bid))) (\<lambda>slot.
     rbind (uint256_sub (s_total_bid_amount slot) withdraw_amount) (\<lambda>slot_total.
     let slot = slot\<lparr>s_total_bid_amount := slot_total\<rparr> in
     rbind (claim_bid_residue slot) (\<lambda>(residue, slot).
     rbind (uint256_add withdraw_amount residue) (\<lambda>refund_amount.
     Inr (refund_amount, store_premium_slot queue slot))))))))))))"

definition retract_bid ::
  "lq_storage \<Rightarrow> MessageInfo \<Rightarrow> Env \<Rightarrow> uint128 \<Rightarrow> AssetInfo \<Rightarrow> uint256 option \<Rightarrow>
   (lq_storage \<times> lq_response) lq_result" where
  "retract_bid st info env bid_id bid_for_info amount =
     (let bid_for = asset_info_to_string bid_for_info in
      rbind (map_err Std (config_load st)) (\<lambda>config.
      rbind (map_err Std (queues_load st bid_for)) (\<lambda>queue.
      rbind (map_err Std (read_bid bid_id queue)) (\<lambda>bid.
      if b_user bid \<noteq> sender info then Inl (Failed Unauthorized)
      else
        rbind (map_err Std (read_premium_slot queue (b_liq_premium bid))) (\<lambda>slot.
        rbind (if b_wait_end bid \<noteq> None then retract_waiting config queue bid amount
               else retract_active st config queue bid slot bid_for amount)
          (\<lambda>(withdraw_amount, queue).
        rbind (if \<not> uint256_is_zero withdraw_amount then
                 rbind (uint256_into_u128 withdraw_amount) (\<lambda>w_amount.
                 rbind (u128_sub (a_amount (q_bid_asset queue)) w_amount) (\<lambda>queue_amount.
                 let queue = queue\<lparr>q_bid_asset := (q_bid_asset queue)\<lparr>a_amount := queue_amount\<rparr>\<rparr> in
                 rbind (map_err Std (withdrawal_msg ((q_bid_asset queue)\<lparr>a_amount := w_amount\<rparr>)
                          (sender info))) (\<lambda>msg.
                 Inr (queues_save st bid_for queue, [msg]))))
               else Inr (queues_save st bid_for queue, [])) (\<lambda>(st, msgs).
        Inr (st, \<lparr>messages = msgs,
          attributes = [(''method'', AText ''retract_bid''), (''bid_for'', AText bid_for),
            (''bid_id'', ANum bid_id), (''amount'', ANum withdraw_amount)]\<rparr>))))))))"

end
