(* ===== verification/Liq_Liquidation.thy ===== *)
theory Liq_Liquidation
  imports Liq_Exec
begin

text \<open>
  Liquidation queue: paying for a liquidation out of the bids, and claiming its collateral
  (\<open>execute_pool_liquidation\<close>, \<open>execute_liquidation\<close>, \<open>claim_liquidations\<close> of
  \<open>contracts/liq-queue/src/bid.rs\<close>).

  A slot is a pool in the sense of the scalable reward distribution: \<open>s_product_snapshot\<close> is
  the running product of the fractions liquidations left of a bid, \<open>s_sum_snapshot\<close> the
  running sum of the collateral earned per unit of bid, an epoch ends when the pool is
  emptied and a scale when the product runs out of digits.
\<close>

section \<open>One slot\<close>

text \<open>The repayment asked of the slot, capped by what it holds, and the collateral it buys.\<close>

definition pool_amounts ::
  "PremiumSlot \<Rightarrow> uint256 \<Rightarrow> PriceResponse256 \<Rightarrow> PriceResponse256 \<Rightarrow>
   ('e, uint256 \<times> uint256 \<times> bool) result" where
  "pool_amounts slot collateral_to_liquidate price credit_price =
     rbind (price256_get_value price collateral_to_liquidate) (\<lambda>value.
     rbind (price256_get_amount credit_price value) (\<lambda>pool_required_stable.
     if s_total_bid_amount slot < pool_required_stable then
       rbind (price256_get_value credit_price (s_total_bid_amount slot)) (\<lambda>stable_value.
       rbind (price256_get_amount price stable_value) (\<lambda>pool_collateral.
       Inr (s_total_bid_amount slot, pool_collateral, False)))
     else Inr (pool_required_stable, collateral_to_liquidate, True)))"

definition update_product :: "PremiumSlot \<Rightarrow> decimal256 \<Rightarrow> ('e, PremiumSlot) result" where
  "update_product slot expense_per_bid =
     (if expense_per_bid = d256_one then
        rbind (u128_add (s_current_epoch slot) 1) (\<lambda>epoch.
        Inr (slot\<lparr>s_sum_snapshot := d256_zero, s_product_snapshot := d256_one,
               s_current_scale := 0, s_current_epoch := epoch\<rparr>))
      else
        rbind (d256_sub d256_one expense_per_bid) (\<lambda>product.
        rbind (d256_mul (s_product_snapshot slot) product) (\<lambda>new_product.
        if new_product < 1000000000 then
          rbind (u128_add (s_current_scale slot) 1) (\<lambda>scale.
          rbind (u256_mul (s_product_snapshot slot) 1000000000) (\<lambda>scaled.
          rbind (d256_mul scaled product) (\<lambda>p.
          Inr (slot\<lparr>s_current_scale := scale, s_product_snapshot := p\<rparr>))))
        else Inr (slot\<lparr>s_product_snapshot := new_product\<rparr>))))"

definition execute_pool_liquidation ::
  "lq_storage \<Rightarrow> PremiumSlot \<Rightarrow> u8 \<Rightarrow> string \<Rightarrow> uint256 \<Rightarrow> PriceResponse256 \<Rightarrow>
   PriceResponse256 \<Rightarrow> bool \<Rightarrow>
   (lq_storage \<times> PremiumSlot \<times> uint256 \<times> uint256 \<times> bool) lq_result" where
  "execute_pool_liquidation st slot premium bid_for collateral_to_liquidate price credit_price
     filled =
     rbind (d256_sub d256_one (s_liq_premium slot)) (\<lambda>discount.
     rbind (d256_mul (p256_price price) discount) (\<lambda>premium_price.
     let price = price\<lparr>p256_price := premium_price\<rparr> in
     rbind (pool_amounts slot collateral_to_liquidate price credit_price)
       (\<lambda>(pool_required_stable, pool_collateral_to_liquidate, fills).
     let filled = (filled \<or> fills) in
     rbind (d256_from_uint256 pool_collateral_to_liquidate) (\<lambda>collateral_dec.
     rbind (d256_from_uint256 (s_total_bid_amount slot)) (\<lambda>total_dec.
     rbind (d256_div collateral_dec total_dec) (\<lambda>col_per_bid.
     rbind (d256_from_uint256 pool_required_stable) (\<lambda>stable_dec.
     rbind (d256_div stable_dec total_dec) (\<lambda>expense_per_bid.
     rbind (d256_mul (s_product_snapshot slot) col_per_bid) (\<lambda>sum_delta.
     rbind (d256_add_assign (s_sum_snapshot slot) sum_delta) (\<lambda>new_sum.
     rbind (uint256_sub (s_total_bid_amount slot) pool_required_stable) (\<lambda>new_total.
     let slot = slot\<lparr>s_sum_snapshot := new_sum, s_total_bid_amount := new_total\<rparr>;
         st = store_epoch_scale_sum st bid_for premium (s_current_epoch slot)
                (s_current_scale slot) (s_sum_snapshot slot) in
     rbind (update_product slot expense_per_bid) (\<lambda>slot.
     Inr (st, slot, pool_required_stable, pool_collateral_to_liquidate, filled)))))))))))))"

section \<open>The queue of an asset\<close>

fun liquidation_loop ::
  "chain_lib \<Rightarrow> Env \<Rightarrow> lq_config \<Rightarrow> string \<Rightarrow> PriceResponse256 \<Rightarrow> PriceResponse \<Rightarrow> nat list \<Rightarrow>
   lq_storage \<Rightarrow> Queue \<Rightarrow> uint256 \<Rightarrow> uint256 \<Rightarrow>
   (lq_storage \<times> Queue \<times> uint256 \<times> uint256) lq_result" where
  "liquidation_loop L env config bid_for price credit_price [] st queue remaining repay_amount =
     Inr (st, queue, remaining, repay_amount)"
| "liquidation_loop L env config bid_for price credit_price (premium # premiums) st queue
     remaining repay_amount =
     (case read_premium_slot queue (premium mod 256) of
        Inl Panic \<Rightarrow> Inl Panic
      | Inl (Failed _) \<Rightarrow>
          liquidation_loop L env config bid_for price credit_price premiums st queue remaining
            repay_amount
      | Inr slot \<Rightarrow>
          rbind (set_slot_total slot env queue config) (\<lambda>(slot, queue).
          if uint256_is_zero (s_total_bid_amount slot) then
            liquidation_loop L env config bid_for price credit_price premiums st queue remaining
              repay_amount
          else
            rbind (map_err Std (to_decimal256 L credit_price)) (\<lambda>credit_price256.
            rbind (execute_pool_liquidation st slot (premium mod 256) bid_for remaining price
                     credit_price256 False)
              (\<lambda>(st, slot, pool_repay_amount, pool_liquidated_collateral, filled).
            let queue = store_premium_slot queue slot in
            rbind (uint256_add_assign repay_amount pool_repay_amount) (\<lambda>repay_amount.
            if filled then Inr (st, queue, uint256_zero, repay_amount)
            else
              rbind (uint256_sub remaining pool_liquidated_collateral) (\<lambda>remaining.
              liquidation_loop L env config bid_for price credit_price premiums st queue
                remaining repay_amount))))))"

definition execute_liquidation ::
  "chain_lib \<Rightarrow> lq_storage \<Rightarrow> Env \<Rightarrow> MessageInfo \<Rightarrow> uint256 \<Rightarrow> AssetInfo \<Rightarrow> PriceResponse \<Rightarrow>
   PriceResponse \<Rightarrow> (lq_storage \<times> lq_response) lq_result" where
  "execute_liquidation L st env info collateral_amount bid_for_info collateral_price
     credit_price =
     (let bid_for = asset_info_to_string bid_for_info in
      rbind (map_err Std (config_load st)) (\<lambda>config.
      if sender info \<noteq> lqc_positions_contract config then Inl (Failed Unauthorized)
      else
        let bid_with = lqc_bid_asset config in
        rbind (map_err Std (queues_load st bid_for)) (\<lambda>queue.
        if a_info (q_bid_asset queue) \<noteq> bid_with then Inl (Failed Unauthorized)
        else
          rbind (map_err Std (to_decimal256 L collateral_price)) (\<lambda>price.
          rbind (u128_add (q_max_premium queue) 1) (\<lambda>max_premium_plus_1.
          rbind (liquidation_loop L env config bid_for price credit_price [0..<max_premium_plus_1]
                   st queue collateral_amount uint256_zero)
            (\<lambda>(st, queue, remaining_collateral_to_liquidate, repay_amount).
          rbind (if \<not> uint256_is_zero remaining_collateral_to_liquidate
                 then uint256_sub collateral_amount remaining_collateral_to_liquidate
                 else Inr collateral_amount) (\<lambda>collateral_amount.
          rbind (uint256_into_u128 repay_amount) (\<lambda>r_amount.
          let repay_asset = (q_bid_asset queue)\<lparr>a_amount := r_amount\<rparr> in
          if a_amount (q_bid_asset queue) < r_amount then Inl (Failed InsufficientBids)
          else
            let queue = queue\<lparr>q_bid_asset :=
                  (q_bid_asset queue)\<lparr>a_amount := a_amount (q_bid_asset queue) - r_amount\<rparr>\<rparr>;
                st = queues_save st bid_for queue;
                msgs =
                  (if \<not> uint256_is_zero repay_amount
                   then [WasmExecute (lqc_osmosis_proxy_contract config)
                           (BurnTokens (asset_info_to_string (a_info repay_asset))
                              (a_amount repay_asset) (contract_address env)) []]
                   else [])
            in Inr (st, \<lparr>messages = msgs,
                 attributes =
                   [(''action'', AText ''execute_bid''),
                    (''denom'', AText (asset_info_to_string (a_info (q_bid_asset queue)))),
                    (''repay_amount'', ANum repay_amount),
                    (''collateral_token'', AText bid_for),
                    (''collateral_info'',
                       AText (case bid_for_info of Token _ \<Rightarrow> ''token''
                              | NativeToken _ \<Rightarrow> ''native_token'')),
                    (''collateral_amount'', ANum collateral_amount)]\<rparr>)))))))))"

section \<open>Claiming collateral\<close>

fun all_unique :: "uint128 list \<Rightarrow> uint128 list \<Rightarrow> bool" where
  "all_unique seen [] = True"
| "all_unique seen (bid_id # bid_ids) =
     (if bid_id \<in> set seen then False else all_unique (seen @ [bid_id]) bid_ids)"

definition claim_bids ::
  "Queue \<Rightarrow> MessageInfo \<Rightarrow> uint128 list option \<Rightarrow> Bid list lq_result" where
  "claim_bids queue info bid_ids =
     (case bid_ids of
        Some bid_ids \<Rightarrow>
          (if \<not> all_unique [] bid_ids then Inl (Failed (CustomError ''Duplicate bid ids''))
           else map_err Std (rmapM (\<lambda>bid_id. read_bid bid_id queue) bid_ids))
      | None \<Rightarrow> Inr (read_bids_by_user queue (sender info) None None))"

definition claim_step ::
  "lq_storage \<Rightarrow> Env \<Rightarrow> MessageInfo \<Rightarrow> string \<Rightarrow> Bid \<Rightarrow> Queue \<times> uint256 \<Rightarrow>
   (Queue \<times> uint256) lq_result" where
  "claim_step st env info bid_for bid = (\<lambda>(queue, claim_amount).
     if b_user bid \<noteq> sender info then Inl (Failed Unauthorized)
     else if (case b_wait_end bid of None \<Rightarrow> False | Some wait_end \<Rightarrow> time_seconds env < wait_end)
     then Inr (queue, claim_amount)
     else
       rbind (map_err Std (read_premium_slot queue (b_liq_premium bid))) (\<lambda>slot.
       rbind (map_err Std (calculate_remaining_bid bid slot)) (\<lambda>(remaining_bid, residue_bid).
       rbind (map_err Std (calculate_liquidated_collateral st bid bid_for))
         (\<lambda>(liquidated_collateral, residue_collateral).
       rbind (d256_add_assign (s_residue_collateral slot) residue_collateral) (\<lambda>res_col.
       rbind (d256_add_assign (s_residue_bid slot) residue_bid) (\<lambda>res_bid.
       let slot = slot\<lparr>s_residue_collateral := res_col, s_residue_bid := res_bid\<rparr> in
       rbind (uint256_add (b_pending_liquidated_collateral bid) liquidated_collateral) (\<lambda>earned.
       rbind (claim_col_residue slot) (\<lambda>(residue, slot).
       rbind (uint256_add earned residue) (\<lambda>claimable.
       rbind (uint256_add_assign claim_amount claimable) (\<lambda>claim_amount.
       let queue = store_premium_slot queue slot in
       rbind (if remaining_bid \<le> uint256_one then remove_bid bid queue
              else store_bid queue
                (bid\<lparr>b_amount := remaining_bid, b_product_snapshot := s_product_snapshot slot,
                   b_sum_snapshot := s_sum_snapshot slot,
                   b_scale_snapshot := s_current_scale slot,
                   b_pending_liquidated_collateral := uint256_zero\<rparr>)) (\<lambda>queue.
       Inr (queue, claim_amount))))))))))))"

definition claim_liquidations ::
  "lq_storage \<Rightarrow> Env \<Rightarrow> MessageInfo \<Rightarrow> AssetInfo \<Rightarrow> uint128 list option \<Rightarrow>
   (lq_storage \<times> lq_response) lq_result" where
  "claim_liquidations st env info bid_for_info bid_ids =
     (let bid_for = asset_info_to_string bid_for_info in
      rbind (map_err Std (queues_load st bid_for)) (\<lambda>queue.
      rbind (claim_bids queue info bid_ids) (\<lambda>bids.
      rbind (rfold (claim_step st env info bid_for) bids (queue, uint256_zero))
        (\<lambda>(queue, claim_amount).
      let st = queues_save st bid_for queue in
      rbind (if \<not> uint256_is_zero claim_amount then
               rbind (uint256_into_u128 claim_amount) (\<lambda>c_amount.
               let withdrawal_asset = \<lparr>a_info = bid_for_info, a_amount = c_amount\<rparr> in
               rbind (map_err Std (withdrawal_msg withdrawal_asset (sender info))) (\<lambda>msg.
               Inr [msg]))
             else Inr []) (\<lambda>msgs.
      Inr (st, \<lparr>messages = msgs,
        attributes = [(''action'', AText ''claim_liquidations''),
          (''collateral_token'', AText bid_for), (''collateral_amount'', ANum claim_amount)]\<rparr>))))))"

end
