(* ===== verification/Liq_Solvency.thy ===== *)
theory Liq_Solvency
  imports Liq_Liquidation
begin

text \<open>
  Solvency of a premium slot.

  The specification is exact: \<open>entitlement\<close> is the real number of units a bid is still worth,
  given the slot's product, epoch and scale; \<open>slot_entitlement\<close> sums it over the active bids.
  The lemmas show how the fixed-point code follows it: what \<open>calculate_remaining_bid\<close> reports
  never exceeds the entitlement, activating a bid adds exactly its amount, and a liquidation
  takes the repaid amount off the entitlements up to one atomic (10^-18) of rounding of the
  product per unit in the slot, because the expense per bid is rounded down.
\<close>

section \<open>The exact value of a bid\<close>

definition entitlement :: "PremiumSlot \<Rightarrow> Bid \<Rightarrow> real" where
  "entitlement slot bid =
     (if b_epoch_snapshot bid \<noteq> s_current_epoch slot then 0
      else if b_scale_snapshot bid = s_current_scale slot then
        real (b_amount bid) * real (s_product_snapshot slot) / real (b_product_snapshot bid)
      else if b_scale_snapshot bid + 1 = s_current_scale slot then
        real (b_amount bid) * real (s_product_snapshot slot)
          / real (b_product_snapshot bid) / 1000000000
      else 0)"

definition slot_entitlement :: "PremiumSlot \<Rightarrow> real" where
  "slot_entitlement slot = sum_list (map (entitlement slot) (s_bids slot))"

lemma entitlement_nonneg: "0 \<le> entitlement slot bid"
  by (simp add: entitlement_def)

lemma slot_entitlement_nonneg: "0 \<le> slot_entitlement slot"
  unfolding slot_entitlement_def by (rule sum_list_nonneg) (auto simp: entitlement_nonneg)

lemma real_div_le: "real (a div b) \<le> real a / real b"
  by (simp add: of_nat_div_le_of_nat)

lemma split_residue_ok [res_ok]:
  "split_residue dec = Inr (w, r) \<longleftrightarrow>
     w = dec div DECIMAL_FRACTIONAL \<and> r = dec mod DECIMAL_FRACTIONAL \<and> dec < U256_BOUND"
proof -
  have "dec div DECIMAL_FRACTIONAL * DECIMAL_FRACTIONAL \<le> dec" by simp
  moreover have "dec - dec div DECIMAL_FRACTIONAL * DECIMAL_FRACTIONAL = dec mod DECIMAL_FRACTIONAL"
    by (simp add: modulo_nat_def)
  ultimately show ?thesis
    by (auto simp: split_residue_def res_ok uint256_one_def d256_zero_def)
qed

lemma entitlement_scale0:
  assumes "a * DECIMAL_FRACTIONAL * p div DECIMAL_FRACTIONAL * DECIMAL_FRACTIONAL div pb = d"
  shows "real d / real DECIMAL_FRACTIONAL \<le> real a * real p / real pb"
proof -
  have "a * DECIMAL_FRACTIONAL * p div DECIMAL_FRACTIONAL = a * p"
    by (metis frac_pos(2) mult.commute mult.left_commute nonzero_mult_div_cancel_left)
  with assms have "real d \<le> real (a * p * DECIMAL_FRACTIONAL) / real pb"
    by (metis real_div_le)
  then show ?thesis by (simp add: field_simps)
qed

text \<open>The code never reports more than the entitlement, residue included.\<close>

lemma remaining_le_entitlement:
  assumes "calculate_remaining_bid bid slot = Inr (r, res)"
  shows "real r + real res / real DECIMAL_FRACTIONAL \<le> entitlement slot bid"
proof -
  have le: "b_scale_snapshot bid \<le> s_current_scale slot"
      "b_epoch_snapshot bid \<le> s_current_epoch slot"
    using assms by (auto simp: calculate_remaining_bid_def split: if_splits)
  obtain d where dec: "r = d div DECIMAL_FRACTIONAL" "res = d mod DECIMAL_FRACTIONAL"
    and d: "real d / real DECIMAL_FRACTIONAL \<le> entitlement slot bid"
  proof (cases "b_epoch_snapshot bid = s_current_epoch slot")
    case False
    then have "r = 0 div DECIMAL_FRACTIONAL" "res = 0 mod DECIMAL_FRACTIONAL"
      using assms le by (auto simp: calculate_remaining_bid_def res_ok Let_def d256_zero_def
          split: if_splits)
    then show ?thesis using that[of 0] entitlement_nonneg by simp
  next
    case epoch: True
    consider "b_scale_snapshot bid = s_current_scale slot"
      | "b_scale_snapshot bid + 1 = s_current_scale slot"
      | "b_scale_snapshot bid + 1 < s_current_scale slot"
      using le by linarith
    then show ?thesis
    proof cases
      case 1
      define d where "d = b_amount bid * DECIMAL_FRACTIONAL * s_product_snapshot slot
          div DECIMAL_FRACTIONAL * DECIMAL_FRACTIONAL div b_product_snapshot bid"
      have "r = d div DECIMAL_FRACTIONAL" "res = d mod DECIMAL_FRACTIONAL"
        using assms 1 epoch by (auto simp: calculate_remaining_bid_def res_ok Let_def d_def
            split: if_splits)
      then show ?thesis
        using that[of d] entitlement_scale0[OF d_def[symmetric]] 1 epoch
        by (simp add: entitlement_def)
    next
      case 2
      define e where "e = b_amount bid * DECIMAL_FRACTIONAL * s_product_snapshot slot
          div DECIMAL_FRACTIONAL * DECIMAL_FRACTIONAL div b_product_snapshot bid"
      have "r = e div 1000000000 div DECIMAL_FRACTIONAL"
          "res = e div 1000000000 mod DECIMAL_FRACTIONAL"
        using assms 2 epoch le by (auto simp: calculate_remaining_bid_def res_ok Let_def e_def
            split: if_splits)
      moreover have "real (e div 1000000000) / real DECIMAL_FRACTIONAL
          \<le> real e / real DECIMAL_FRACTIONAL / 1000000000"
        using real_div_le[of e 1000000000] by (simp add: field_simps)
      ultimately show ?thesis
        using that[of "e div 1000000000"] entitlement_scale0[OF e_def[symmetric]] 2 epoch
        by (simp add: entitlement_def)
    next
      case 3
      then have "r = 0 div DECIMAL_FRACTIONAL" "res = 0 mod DECIMAL_FRACTIONAL"
        using assms epoch le by (auto simp: calculate_remaining_bid_def res_ok Let_def
            d256_zero_def split: if_splits)
      then show ?thesis using that[of 0] entitlement_nonneg by simp
    qed
  qed
  have "real d = real (d div DECIMAL_FRACTIONAL) * real DECIMAL_FRACTIONAL
      + real (d mod DECIMAL_FRACTIONAL)"
    by (metis div_mult_mod_eq of_nat_add of_nat_mult)
  then have "real r + real res / real DECIMAL_FRACTIONAL = real d / real DECIMAL_FRACTIONAL"
    by (simp add: dec field_simps)
  with d show ?thesis by simp
qed

corollary remaining_le:
  "calculate_remaining_bid bid slot = Inr (r, res) \<Longrightarrow> real r \<le> entitlement slot bid"
  using remaining_le_entitlement[of bid slot r res]
  by (smt (verit) divide_nonneg_nonneg of_nat_0_le_iff)

section \<open>Activation\<close>

lemma entitlement_activated:
  "0 < s_product_snapshot slot \<Longrightarrow>
   entitlement slot (process_bid_activation bid slot) = real (b_amount bid)"
  by (simp add: entitlement_def process_bid_activation_def)

text \<open>Only these fields of the slot matter for what its bids are worth.\<close>

lemma entitlement_cong:
  "s_product_snapshot slot = s_product_snapshot slot' \<Longrightarrow>
   s_current_epoch slot = s_current_epoch slot' \<Longrightarrow>
   s_current_scale slot = s_current_scale slot' \<Longrightarrow> entitlement slot = entitlement slot'"
  by (simp add: fun_eq_iff entitlement_def)

lemma activate_bid_ok:
  assumes "activate_bid bid slot queue = Inr (bid', slot', queue')"
  shows "bid' = (process_bid_activation bid slot)\<lparr>b_amount := 0\<rparr>"
    and "slot' = slot\<lparr>s_total_bid_amount := s_total_bid_amount slot + b_amount bid,
           s_bids := s_bids slot @ [process_bid_activation bid slot]\<rparr>"
    and "queue' = queue\<lparr>q_bid_asset :=
           (q_bid_asset queue)\<lparr>a_amount := a_amount (q_bid_asset queue) + b_amount bid\<rparr>\<rparr>"
  using assms
  by (auto simp: activate_bid_def res_ok Let_def process_bid_activation_def uint256_zero_def)

lemma activate_bid_entitlement:
  assumes "activate_bid bid slot queue = Inr (bid', slot', queue')" and "0 < s_product_snapshot slot"
  shows "slot_entitlement slot' - real (s_total_bid_amount slot')
       = slot_entitlement slot - real (s_total_bid_amount slot)"
proof -
  have "entitlement slot' = entitlement slot"
    by (rule entitlement_cong) (simp_all add: activate_bid_ok(2)[OF assms(1)])
  then show ?thesis
    using entitlement_activated[OF assms(2), of bid]
    by (simp add: slot_entitlement_def activate_bid_ok(2)[OF assms(1)])
qed

section \<open>One liquidation of a slot\<close>

lemma pool_amounts_le:
  "pool_amounts slot c p cp = Inr (repay, col, fills) \<Longrightarrow> repay \<le> s_total_bid_amount slot"
  by (auto simp: pool_amounts_def res_ok split: if_splits)

lemma pool_amounts_unfilled:
  "pool_amounts slot c p cp = Inr (repay, col, False) \<Longrightarrow> repay = s_total_bid_amount slot"
  by (auto simp: pool_amounts_def res_ok split: if_splits)

text \<open>
  The effect of \<open>execute_pool_liquidation\<close>, with the fixed-point quotients reduced to integer
  division: the expense per bid is the repaid amount over the slot's total, rounded down.
\<close>

lemma div_scaled: "0 < d \<Longrightarrow> x * DECIMAL_FRACTIONAL * DECIMAL_FRACTIONAL div (d * DECIMAL_FRACTIONAL)
    = x * DECIMAL_FRACTIONAL div d"
  by simp

lemma execute_pool_liquidation_ok:
  assumes "execute_pool_liquidation st slot premium bid_for c price credit_price filled
    = Inr (st', slot', repay, col, filled')"
  defines "D \<equiv> s_total_bid_amount slot"
    and "new_sum \<equiv> s_sum_snapshot slot
      + s_product_snapshot slot * (col * DECIMAL_FRACTIONAL div s_total_bid_amount slot)
        div DECIMAL_FRACTIONAL"
  shows "0 < D" "repay \<le> D" "\<not> filled \<Longrightarrow> \<not> filled' \<Longrightarrow> repay = D"
    "st' = store_epoch_scale_sum st bid_for premium (s_current_epoch slot) (s_current_scale slot)
       new_sum"
    "update_product (slot\<lparr>s_sum_snapshot := new_sum, s_total_bid_amount := D - repay\<rparr>)
       (repay * DECIMAL_FRACTIONAL div D) = (Inr slot' :: PremiumSlot lq_result)"
proof -
  obtain p cp fills where pa:
      "pool_amounts slot c p cp = (Inr (repay, col, fills) :: (uint256 \<times> uint256 \<times> bool) lq_result)"
      "filled' = (filled \<or> fills)"
    and D: "0 < D" "repay \<le> D"
    and st: "st' = store_epoch_scale_sum st bid_for premium (s_current_epoch slot)
       (s_current_scale slot) new_sum"
    and up: "update_product (slot\<lparr>s_sum_snapshot := new_sum, s_total_bid_amount := D - repay\<rparr>)
       (repay * DECIMAL_FRACTIONAL div D) = (Inr slot' :: PremiumSlot lq_result)"
    using assms(1) by (auto simp: execute_pool_liquidation_def res_ok Let_def D_def new_sum_def)
  from D show "0 < D" "repay \<le> D" .
  show "repay = D" if "\<not> filled" "\<not> filled'"
    using pa pool_amounts_unfilled that unfolding D_def by auto
  from st show "st' = store_epoch_scale_sum st bid_for premium (s_current_epoch slot)
       (s_current_scale slot) new_sum" .
  from up show "update_product (slot\<lparr>s_sum_snapshot := new_sum, s_total_bid_amount := D - repay\<rparr>)
       (repay * DECIMAL_FRACTIONAL div D) = (Inr slot' :: PremiumSlot lq_result)" .
qed

text \<open>A bid never carries a snapshot from the future of its slot.\<close>

definition bid_behind :: "PremiumSlot \<Rightarrow> Bid \<Rightarrow> bool" where
  "bid_behind slot bid \<longleftrightarrow> b_epoch_snapshot bid \<le> s_current_epoch slot \<and>
     (b_epoch_snapshot bid = s_current_epoch slot \<longrightarrow> b_scale_snapshot bid \<le> s_current_scale slot)"

lemma update_product_cases:
  assumes "update_product slot e = Inr slot'"
  obtains (emptied) "e = DECIMAL_FRACTIONAL"
      "slot' = slot\<lparr>s_sum_snapshot := 0, s_product_snapshot := DECIMAL_FRACTIONAL,
         s_current_scale := 0, s_current_epoch := s_current_epoch slot + 1\<rparr>"
  | (scaled) "e < DECIMAL_FRACTIONAL"
      "s_product_snapshot slot * (DECIMAL_FRACTIONAL - e) div DECIMAL_FRACTIONAL < 1000000000"
      "slot' = slot\<lparr>s_current_scale := s_current_scale slot + 1,
         s_product_snapshot := s_product_snapshot slot * 1000000000 * (DECIMAL_FRACTIONAL - e)
           div DECIMAL_FRACTIONAL\<rparr>"
  | (plain) "e < DECIMAL_FRACTIONAL"
      "1000000000 \<le> s_product_snapshot slot * (DECIMAL_FRACTIONAL - e) div DECIMAL_FRACTIONAL"
      "slot' = slot\<lparr>s_product_snapshot :=
         s_product_snapshot slot * (DECIMAL_FRACTIONAL - e) div DECIMAL_FRACTIONAL\<rparr>"
proof (cases "e = d256_one")
  case True
  with assms show ?thesis
    by (intro emptied) (auto simp: update_product_def res_ok d256_one_def d256_zero_def)
next
  case False
  with assms have lt: "e < DECIMAL_FRACTIONAL"
    by (auto simp: update_product_def res_ok d256_one_def)
  show ?thesis
  proof (cases "s_product_snapshot slot * (DECIMAL_FRACTIONAL - e) div DECIMAL_FRACTIONAL < 1000000000")
    case True
    with assms False lt show ?thesis
      by (intro scaled) (auto simp: update_product_def res_ok d256_one_def)
  next
    case ge: False
    with assms False lt show ?thesis
      by (intro plain) (auto simp: update_product_def res_ok d256_one_def)
  qed
qed

lemma update_product_entitlement:
  assumes up: "update_product slot e = Inr slot'" and b: "bid_behind slot bid"
  shows "entitlement slot' bid
    \<le> entitlement slot bid * (real (DECIMAL_FRACTIONAL - e) / real DECIMAL_FRACTIONAL)"
    (is "_ \<le> _ * (real ?k / real ?f)")
  using up
proof (cases rule: update_product_cases)
  case emptied
  then have "entitlement slot' bid = 0"
    using b by (simp add: entitlement_def bid_behind_def)
  then show ?thesis by (simp add: entitlement_nonneg)
next
  case scaled
  let ?p = "s_product_snapshot slot"
  have p: "real (?p * 1000000000 * ?k div ?f) \<le> real ?p * 1000000000 * real ?k / real ?f"
    by (metis real_div_le of_nat_mult of_nat_numeral)
  have "real (b_amount bid) * real (?p * 1000000000 * ?k div ?f)
      / real (b_product_snapshot bid) / 1000000000
    \<le> real (b_amount bid) * (real ?p * 1000000000 * real ?k / real ?f)
      / real (b_product_snapshot bid) / 1000000000"
    by (intro divide_right_mono mult_left_mono p) auto
  also have "\<dots> = real (b_amount bid) * real ?p / real (b_product_snapshot bid) * (real ?k / real ?f)"
    by (simp add: mult_ac)
  finally have le: "real (b_amount bid) * real (?p * 1000000000 * ?k div ?f)
      / real (b_product_snapshot bid) / 1000000000
    \<le> real (b_amount bid) * real ?p / real (b_product_snapshot bid) * (real ?k / real ?f)" .
  show ?thesis
  proof (cases "b_epoch_snapshot bid = s_current_epoch slot
      \<and> b_scale_snapshot bid = s_current_scale slot")
    case True
    then have "entitlement slot' bid = real (b_amount bid) * real (?p * 1000000000 * ?k div ?f)
        / real (b_product_snapshot bid) / 1000000000"
      and "entitlement slot bid = real (b_amount bid) * real ?p / real (b_product_snapshot bid)"
      by (simp_all add: entitlement_def scaled(3))
    with le show ?thesis by simp
  next
    case False
    then have "entitlement slot' bid = 0"
      using b by (auto simp: entitlement_def scaled(3) bid_behind_def)
    then show ?thesis by (simp add: entitlement_nonneg)
  qed
next
  case plain
  let ?p = "s_product_snapshot slot"
  have p: "real (?p * ?k div ?f) \<le> real ?p * real ?k / real ?f"
    by (metis real_div_le of_nat_mult)
  have "real (b_amount bid) * real (?p * ?k div ?f) / real (b_product_snapshot bid)
    \<le> real (b_amount bid) * (real ?p * real ?k / real ?f) / real (b_product_snapshot bid)"
    by (intro divide_right_mono mult_left_mono p) auto
  also have "\<dots> = real (b_amount bid) * real ?p / real (b_product_snapshot bid) * (real ?k / real ?f)"
    by (simp add: mult_ac)
  finally have le: "real (b_amount bid) * real (?p * ?k div ?f) / real (b_product_snapshot bid)
    \<le> real (b_amount bid) * real ?p / real (b_product_snapshot bid) * (real ?k / real ?f)" .
  then have le': "real (b_amount bid) * real (?p * ?k div ?f) / real (b_product_snapshot bid) / 1000000000
    \<le> real (b_amount bid) * real ?p / real (b_product_snapshot bid) / 1000000000 * (real ?k / real ?f)"
    using divide_right_mono[of _ _ "1000000000 :: real"] by fastforce
  show ?thesis
    unfolding entitlement_def plain(3)
    using le le' by (auto simp: Let_def)
qed

lemma sum_list_le_scaled:
  fixes f g :: "'a \<Rightarrow> real"
  assumes "\<And>x. x \<in> set xs \<Longrightarrow> g x \<le> f x * c"
  shows "sum_list (map g xs) \<le> sum_list (map f xs) * c"
  using assms by (induction xs) (auto simp: distrib_right intro: add_mono)

lemma execute_pool_liquidation_slot:
  assumes "execute_pool_liquidation st slot premium bid_for c price credit_price filled
    = Inr (st', slot', repay, col, filled')"
  shows "s_bids slot' = s_bids slot" "s_waiting_bids slot' = s_waiting_bids slot"
    "s_liq_premium slot' = s_liq_premium slot" "s_last_total slot' = s_last_total slot"
    "s_residue_collateral slot' = s_residue_collateral slot"
    "s_residue_bid slot' = s_residue_bid slot"
    "s_total_bid_amount slot' = s_total_bid_amount slot - repay"
  using execute_pool_liquidation_ok(5)[OF assms]
  by (elim update_product_cases; simp)+

lemma expense_fraction:
  assumes "0 < D" and "Q \<le> D"
  shows "real (DECIMAL_FRACTIONAL - Q * DECIMAL_FRACTIONAL div D) / real DECIMAL_FRACTIONAL
    \<le> 1 - real Q / real D + 1 / real DECIMAL_FRACTIONAL"
proof -
  let ?f = DECIMAL_FRACTIONAL
  let ?e = "Q * ?f div D"
  have "?e \<le> ?f"
    using assms by (metis div_le_mono mult_le_mono1 nonzero_mult_div_cancel_left neq0_conv)
  then have "real (?f - ?e) = real ?f - real ?e" by (simp add: of_nat_diff)
  moreover have "real Q * real ?f / real D < real ?e + 1"
  proof -
    have "Q * ?f < D * (?e + 1)" using assms(1)
      by (metis dividend_less_times_div add.commute mult_Suc_right Suc_eq_plus1)
    then have "real (Q * ?f) < real (D * (?e + 1))" by (simp only: of_nat_less_iff)
    then have "real Q * real ?f < real D * (real ?e + 1)" by (simp add: distrib_left)
    then show ?thesis using assms(1) by (simp add: field_simps)
  qed
  ultimately have "real (?f - ?e) \<le> real ?f - real Q * real ?f / real D + 1" by simp
  then have "real (?f - ?e) / real ?f \<le> (real ?f - real Q * real ?f / real D + 1) / real ?f"
    by (rule divide_right_mono) simp
  also have "\<dots> = 1 - real Q / real D + 1 / real ?f"
    by (simp add: add_divide_distrib diff_divide_distrib)
  finally show ?thesis .
qed

text \<open>
  A liquidation repays \<open>repay\<close> out of a slot whose bids were covered up to \<open>slack\<close>: afterwards
  they are covered up to \<open>slack\<close> and one atomic per unit that was in the slot.
\<close>

lemma pool_liquidation_entitlement:
  assumes ex: "execute_pool_liquidation st slot premium bid_for c price credit_price filled
      = Inr (st', slot', repay, col, filled')"
    and behind: "\<forall>b\<in>set (s_bids slot). bid_behind slot b"
    and cover: "slot_entitlement slot \<le> real (s_total_bid_amount slot) + slack" and "0 \<le> slack"
  shows "slot_entitlement slot' \<le> real (s_total_bid_amount slot') + slack
    + (real (s_total_bid_amount slot) + slack) / real DECIMAL_FRACTIONAL"
proof -
  let ?D = "s_total_bid_amount slot" and ?f = DECIMAL_FRACTIONAL
  let ?k = "real (?f - repay * ?f div ?D) / real ?f"
  note ok = execute_pool_liquidation_ok[OF ex]
  have same: "entitlement (slot\<lparr>s_sum_snapshot := x, s_total_bid_amount := y\<rparr>) = entitlement slot"
    for x y by (rule entitlement_cong) simp_all
  have "slot_entitlement slot' \<le> slot_entitlement slot * ?k"
    unfolding slot_entitlement_def execute_pool_liquidation_slot(1)[OF ex]
  proof (rule sum_list_le_scaled)
    fix b assume "b \<in> set (s_bids slot)"
    with behind have "bid_behind (slot\<lparr>s_sum_snapshot := x, s_total_bid_amount := y\<rparr>) b" for x y
      by (simp add: bid_behind_def)
    from update_product_entitlement[OF ok(5) this]
    show "entitlement slot' b \<le> entitlement slot b * ?k" by (simp add: same)
  qed
  also have "\<dots> \<le> (real ?D + slack) * ?k"
    by (rule mult_right_mono[OF cover]) simp
  also have "\<dots> \<le> (real ?D + slack) * (1 - real repay / real ?D + 1 / real ?f)"
    by (rule mult_left_mono[OF expense_fraction[OF ok(1,2)]]) (use \<open>0 \<le> slack\<close> in simp)
  also have "\<dots> = (real ?D - real repay) + slack * (1 - real repay / real ?D)
      + (real ?D + slack) / real ?f"
    using ok(1) by (simp add: field_simps)
  also have "\<dots> \<le> (real ?D - real repay) + slack + (real ?D + slack) / real ?f"
  proof -
    have "slack * (1 - real repay / real ?D) \<le> slack * 1"
      by (rule mult_left_mono) (use ok(1,2) \<open>0 \<le> slack\<close> in auto)
    then show ?thesis by simp
  qed
  also have "real ?D - real repay = real (s_total_bid_amount slot')"
    using ok(2) by (simp add: execute_pool_liquidation_slot(7)[OF ex] of_nat_diff)
  finally show ?thesis .
qed

text \<open>While the slack is below one unit, the withdrawable amounts fit into the slot's total.\<close>

lemma remaining_sum_le:
  assumes "list_all2 (\<lambda>b r. \<exists>res. calculate_remaining_bid b slot = Inr (r, res)) (s_bids slot) rs"
    and "slot_entitlement slot < real (s_total_bid_amount slot) + 1"
  shows "sum_list rs \<le> s_total_bid_amount slot"
proof -
  have "real (sum_list rs) \<le> sum_list (map (entitlement slot) bs)"
    if "list_all2 (\<lambda>b r. \<exists>res. calculate_remaining_bid b slot = Inr (r, res)) bs rs" for bs rs
    using that
  proof (induction rule: list_all2_induct)
    case Nil
    then show ?case by simp
  next
    case (Cons b bs r rs)
    then show ?case using remaining_le by fastforce
  qed
  from this[OF assms(1)] assms(2) have "real (sum_list rs) < real (s_total_bid_amount slot) + 1"
    by (simp add: slot_entitlement_def)
  then show ?thesis by linarith
qed

section \<open>The product keeps its digits\<close>

lemma update_product_le_one:
  assumes "update_product slot e = Inr slot'" and "s_product_snapshot slot \<le> DECIMAL_FRACTIONAL"
  shows "s_product_snapshot slot' \<le> DECIMAL_FRACTIONAL"
  using assms(1)
proof (cases rule: update_product_cases)
  case emptied
  then show ?thesis by simp
next
  case scaled
  let ?x = "s_product_snapshot slot * (DECIMAL_FRACTIONAL - e)"
  have "?x < 1000000000 * DECIMAL_FRACTIONAL"
    using scaled(2) by (simp add: div_less_iff_less_mult)
  then have "s_product_snapshot slot * 1000000000 * (DECIMAL_FRACTIONAL - e)
      \<le> 1000000000 * (1000000000 * DECIMAL_FRACTIONAL)"
    by (simp add: mult_ac)
  then have "s_product_snapshot slot * 1000000000 * (DECIMAL_FRACTIONAL - e) div DECIMAL_FRACTIONAL
      \<le> 1000000000 * (1000000000 * DECIMAL_FRACTIONAL) div DECIMAL_FRACTIONAL"
    by (rule div_le_mono)
  also have "\<dots> = DECIMAL_FRACTIONAL" by (simp add: DECIMAL_FRACTIONAL_def)
  finally show ?thesis using scaled(3) by simp
next
  case plain
  have "s_product_snapshot slot * (DECIMAL_FRACTIONAL - e) div DECIMAL_FRACTIONAL
      \<le> s_product_snapshot slot * DECIMAL_FRACTIONAL div DECIMAL_FRACTIONAL"
    by (intro div_le_mono mult_le_mono) auto
  with assms(2) plain(3) show ?thesis by simp
qed

text \<open>
  A product of at least \<open>10^9\<close> atomics stays positive after any liquidation, and stays at least
  \<open>10^9\<close> when the liquidation leaves at least \<open>10^-9\<close> of the slot.
\<close>

lemma update_product_pos:
  assumes "update_product slot e = Inr slot'" and "1000000000 \<le> s_product_snapshot slot"
  shows "0 < s_product_snapshot slot'"
    and "e + 1000000000 \<le> DECIMAL_FRACTIONAL \<Longrightarrow> 1000000000 \<le> s_product_snapshot slot'"
proof -
  have mono: "1000000000 * 1000000000 * j div DECIMAL_FRACTIONAL
      \<le> s_product_snapshot slot * 1000000000 * k div DECIMAL_FRACTIONAL" if "j \<le> k" for j k
    by (intro div_le_mono mult_le_mono) (use assms(2) that in auto)
  have one: "1000000000 * 1000000000 * j div DECIMAL_FRACTIONAL = j" for j
    by (simp add: DECIMAL_FRACTIONAL_def)
  show "0 < s_product_snapshot slot'"
    using assms(1)
  proof (cases rule: update_product_cases)
    case emptied
    then show ?thesis by simp
  next
    case scaled
    then have "1 \<le> s_product_snapshot slot * 1000000000 * (DECIMAL_FRACTIONAL - e)
        div DECIMAL_FRACTIONAL"
      using mono[of 1 "DECIMAL_FRACTIONAL - e"] one[of 1] by simp
    with scaled(3) show ?thesis by simp
  next
    case plain
    then show ?thesis by simp
  qed
  show "1000000000 \<le> s_product_snapshot slot'" if "e + 1000000000 \<le> DECIMAL_FRACTIONAL"
    using assms(1)
  proof (cases rule: update_product_cases)
    case emptied
    then show ?thesis using that by simp
  next
    case scaled
    have "1000000000 \<le> DECIMAL_FRACTIONAL - e" using that by simp
    from mono[OF this] one[of 1000000000] scaled(3) show ?thesis by simp
  next
    case plain
    then show ?thesis by simp
  qed
qed

section \<open>Collateral\<close>

text \<open>What a bid of the slot's current epoch and scale earns when the sum grows by \<open>ds\<close>.\<close>

definition collateral_share :: "nat \<Rightarrow> Bid \<Rightarrow> real" where
  "collateral_share ds bid = real (b_amount bid) * real ds / real (b_product_snapshot bid)"

definition current_bids :: "PremiumSlot \<Rightarrow> Bid list" where
  "current_bids slot =
     filter (\<lambda>b. b_epoch_snapshot b = s_current_epoch slot \<and> b_scale_snapshot b = s_current_scale slot)
       (s_bids slot)"

lemma sum_list_filter_real_le:
  fixes f :: "'a \<Rightarrow> real"
  assumes "\<And>x. 0 \<le> f x"
  shows "sum_list (map f (filter P xs)) \<le> sum_list (map f xs)"
  using assms by (induction xs) (auto intro: add_increasing)

lemma collateral_shares_le:
  assumes ex: "execute_pool_liquidation st slot premium bid_for c price credit_price filled
      = Inr (st', slot', repay, col, filled')"
    and cover: "slot_entitlement slot \<le> real (s_total_bid_amount slot)"
    and ds: "ds = s_product_snapshot slot * (col * DECIMAL_FRACTIONAL div s_total_bid_amount slot)
        div DECIMAL_FRACTIONAL"
  shows "sum_list (map (collateral_share ds) (current_bids slot)) \<le> real col"
proof -
  let ?D = "s_total_bid_amount slot" and ?p = "s_product_snapshot slot"
  have D: "0 < ?D" by (rule execute_pool_liquidation_ok(1)[OF ex])
  have "real ds \<le> real (?p * (col * DECIMAL_FRACTIONAL div ?D)) / real DECIMAL_FRACTIONAL"
    unfolding ds by (rule real_div_le)
  also have "\<dots> = real ?p * real (col * DECIMAL_FRACTIONAL div ?D) / real DECIMAL_FRACTIONAL"
    by simp
  also have "\<dots> \<le> real ?p * (real (col * DECIMAL_FRACTIONAL) / real ?D) / real DECIMAL_FRACTIONAL"
    by (intro divide_right_mono mult_left_mono real_div_le) auto
  also have "\<dots> = real ?p * (real col / real ?D)" by (simp add: field_simps)
  finally have dsr: "real ds \<le> real ?p * (real col / real ?D)" .
  have "sum_list (map (collateral_share ds) (current_bids slot))
      \<le> sum_list (map (entitlement slot) (current_bids slot)) * (real col / real ?D)"
  proof (rule sum_list_le_scaled)
    fix b assume "b \<in> set (current_bids slot)"
    then have e: "entitlement slot b = real (b_amount b) * real ?p / real (b_product_snapshot b)"
      by (simp add: current_bids_def entitlement_def)
    have "collateral_share ds b
        \<le> real (b_amount b) * (real ?p * (real col / real ?D)) / real (b_product_snapshot b)"
      unfolding collateral_share_def by (intro divide_right_mono mult_left_mono dsr) auto
    then show "collateral_share ds b \<le> entitlement slot b * (real col / real ?D)"
      by (simp add: e mult_ac)
  qed
  also have "\<dots> \<le> slot_entitlement slot * (real col / real ?D)"
    unfolding slot_entitlement_def current_bids_def
    by (intro mult_right_mono sum_list_filter_real_le entitlement_nonneg) auto
  also have "\<dots> \<le> real ?D * (real col / real ?D)"
    by (intro mult_right_mono cover) auto
  also have "\<dots> = real col" using D by simp
  finally show ?thesis .
qed

text \<open>The code's figure for such a bid, while no later scale has a sum.\<close>

lemma liquidated_collateral_le:
  assumes "calculate_liquidated_collateral st bid bid_for = Inr (c, res)"
    and "EPOCH_SCALE_SUM st
      (bid_for, b_liq_premium bid, b_epoch_snapshot bid, b_scale_snapshot bid) = Some s"
    and "EPOCH_SCALE_SUM st
      (bid_for, b_liq_premium bid, b_epoch_snapshot bid, b_scale_snapshot bid + 1) = None"
  shows "real c \<le> collateral_share (s - b_sum_snapshot bid) bid"
proof (cases "s = 0 \<or> s < b_sum_snapshot bid")
  case True
  then have "c = 0"
    using assms(1,2) by (auto simp: calculate_liquidated_collateral_def read_epoch_scale_sum_def
        d256_is_zero_def uint256_zero_def)
  then show ?thesis by (simp add: collateral_share_def)
next
  case False
  define e where "e = b_amount bid * DECIMAL_FRACTIONAL * (s - b_sum_snapshot bid)
      div DECIMAL_FRACTIONAL * DECIMAL_FRACTIONAL div b_product_snapshot bid"
  have "c = e div DECIMAL_FRACTIONAL"
    using assms False
    by (auto simp: calculate_liquidated_collateral_def read_epoch_scale_sum_def d256_is_zero_def
        res_ok e_def d256_zero_def)
  then have "real c \<le> real e / real DECIMAL_FRACTIONAL" by (simp add: real_div_le)
  also have "\<dots> \<le> collateral_share (s - b_sum_snapshot bid) bid"
    unfolding collateral_share_def by (rule entitlement_scale0[OF e_def[symmetric]])
  finally show ?thesis .
qed

end
