(* ===== verification/Liq_Contract.thy ===== *)
theory Liq_Contract
  imports Liq_Liquidation
begin

text \<open>
  Liquidation queue: the entry points of \<open>contracts/liq-queue/src/contract.rs\<close> (\<open>instantiate\<close>,
  \<open>execute\<close> with its dispatch, configuration and queue management) on the message type of
  \<open>packages/membrane/src/liq_queue.rs\<close>.
\<close>

record lq_InstantiateMsg =
  lqi_owner :: "string option"
  lqi_positions_contract :: string
  lqi_osmosis_proxy_contract :: string
  lqi_waiting_period :: u64
  lqi_minimum_bid :: uint128
  lqi_maximum_waiting_bids :: u64

datatype lq_ExecuteMsg =
    SubmitBid BidInput "string option"
  | RetractBid uint128 AssetInfo "uint256 option"
  | LqLiquidate PriceResponse PriceResponse uint256 AssetInfo
      \<comment> \<open>credit price, collateral price, collateral amount, \<open>bid_for\<close>\<close>
  | ClaimLiquidations AssetInfo "uint128 list option"
  | AddQueue AssetInfo uint128 uint256
  | UpdateQueue AssetInfo "uint128 option" "uint256 option"
  | LqUpdateConfig "string option" "string option" "string option" "u64 option" "uint128 option"
      "u64 option"

definition lq_CONTRACT_NAME :: string where
  "lq_CONTRACT_NAME = ''crates.io:liq-queue''"

text \<open>Both branches of \<open>instantiate\<close> build the same record but for the owner.\<close>

definition lq_instantiate ::
  "chain_lib \<Rightarrow> lq_storage \<Rightarrow> Env \<Rightarrow> MessageInfo \<Rightarrow> lq_InstantiateMsg \<Rightarrow>
   (lq_storage \<times> lq_response) lq_result" where
  "lq_instantiate L st env info msg =
     rbind (map_err Std (lib_addr_validate L (lqi_positions_contract msg))) (\<lambda>positions_contract.
     let bid_asset = NativeToken ''cdt'' in
     rbind (case lqi_owner msg of
              Some owner \<Rightarrow> map_err Std (lib_addr_validate L owner)
            | None \<Rightarrow> Inr (sender info)) (\<lambda>owner.
     rbind (map_err Std (lib_addr_validate L (lqi_osmosis_proxy_contract msg)))
       (\<lambda>osmosis_proxy_contract.
     let config =
           \<lparr>lqc_owner = owner, lqc_positions_contract = positions_contract,
            lqc_osmosis_proxy_contract = osmosis_proxy_contract, lqc_added_assets = Some [],
            lqc_waiting_period = lqi_waiting_period msg, lqc_bid_asset = bid_asset,
            lqc_minimum_bid = lqi_minimum_bid msg,
            lqc_maximum_waiting_bids = lqi_maximum_waiting_bids msg\<rparr>
     in Inr (st\<lparr>CONTRACT_VERSION := Some (lq_CONTRACT_NAME, lib_version L), CONFIG := Some config\<rparr>,
          \<lparr>messages = [],
           attributes = [(''method'', AText ''instantiate''), (''config'', ADebug config),
             (''contract_address'', AText (contract_address env))]\<rparr>))))"

definition lq_update_config ::
  "chain_lib \<Rightarrow> lq_storage \<Rightarrow> MessageInfo \<Rightarrow> string option \<Rightarrow> string option \<Rightarrow> string option \<Rightarrow>
   u64 option \<Rightarrow> uint128 option \<Rightarrow> u64 option \<Rightarrow> (lq_storage \<times> lq_response) lq_result" where
  "lq_update_config L st info owner positions_contract osmosis_proxy_contract waiting_period
     minimum_bid maximum_waiting_bids =
     rbind (map_err Std (config_load st)) (\<lambda>config.
     rbind (if sender info \<noteq> lqc_owner config then
              rbind (map_err Std (ok_or (NotFound ''Addr'') (OWNERSHIP_TRANSFER st))) (\<lambda>pending.
              if sender info = pending then Inr (config\<lparr>lqc_owner := sender info\<rparr>)
              else Inl (Failed Unauthorized))
            else Inr config) (\<lambda>config.
     rbind (case owner of
              None \<Rightarrow> Inr (st, [])
            | Some owner \<Rightarrow>
                rbind (map_err Std (lib_addr_validate L owner)) (\<lambda>valid_addr.
                Inr (st\<lparr>OWNERSHIP_TRANSFER := Some valid_addr\<rparr>,
                     [(''owner_transfer'', AText valid_addr)]))) (\<lambda>(st, owner_attrs).
     rbind (case positions_contract of
              None \<Rightarrow> Inr config
            | Some positions_contract \<Rightarrow>
                rbind (map_err Std (lib_addr_validate L positions_contract)) (\<lambda>valid_addr.
                Inr (config\<lparr>lqc_positions_contract := valid_addr\<rparr>))) (\<lambda>config.
     rbind (case osmosis_proxy_contract of
              None \<Rightarrow> Inr config
            | Some osmosis_proxy_contract \<Rightarrow>
                rbind (map_err Std (lib_addr_validate L osmosis_proxy_contract)) (\<lambda>valid_addr.
                Inr (config\<lparr>lqc_osmosis_proxy_contract := valid_addr\<rparr>))) (\<lambda>config.
     let config = (case waiting_period of None \<Rightarrow> config
                   | Some w \<Rightarrow> config\<lparr>lqc_waiting_period := w\<rparr>);
         config = (case minimum_bid of None \<Rightarrow> config
                   | Some m \<Rightarrow> config\<lparr>lqc_minimum_bid := m\<rparr>);
         config = (case maximum_waiting_bids of None \<Rightarrow> config
                   | Some m \<Rightarrow> config\<lparr>lqc_maximum_waiting_bids := m\<rparr>)
     in Inr (st\<lparr>CONFIG := Some config\<rparr>,
          \<lparr>messages = [],
           attributes = [(''method'', AText ''update_config'')] @ owner_attrs
             @ [(''updated_config'', ADebug config)]\<rparr>))))))"

text \<open>A fresh slot of premium \<open>premium\<close> percent, as \<open>add_queue\<close> and \<open>edit_queue\<close> create it.\<close>

definition fresh_slot :: "u64 \<Rightarrow> ('e, PremiumSlot) result" where
  "fresh_slot premium =
     rbind (d256_percent premium) (\<lambda>liq_premium.
     Inr \<lparr>s_bids = [], s_waiting_bids = [], s_liq_premium = liq_premium,
          s_sum_snapshot = d256_zero, s_product_snapshot = d256_one,
          s_total_bid_amount = uint256_zero, s_last_total = 0, s_current_epoch = 0,
          s_current_scale = 0, s_residue_collateral = d256_zero, s_residue_bid = d256_zero\<rparr>)"

definition edit_queue ::
  "lq_storage \<Rightarrow> MessageInfo \<Rightarrow> AssetInfo \<Rightarrow> uint128 option \<Rightarrow> uint256 option \<Rightarrow>
   (lq_storage \<times> lq_response) lq_result" where
  "edit_queue st info bid_for_info max_premium bid_threshold =
     (let bid_for = asset_info_to_string bid_for_info in
      rbind (map_err Std (config_load st)) (\<lambda>config.
      if sender info \<noteq> lqc_owner config then Inl (Failed Unauthorized)
      else
        rbind (map_err Std (queues_load st bid_for)) (\<lambda>queue.
        rbind (case max_premium of
                 None \<Rightarrow> Inr queue
               | Some new_premium \<Rightarrow>
                   if 50 < new_premium \<or> new_premium < 1 then Inl (Failed InvalidPremium)
                   else
                     let new_premium_delta =
                           (if q_max_premium queue \<le> new_premium
                            then new_premium - q_max_premium queue else 0) in
                     rbind (if new_premium_delta \<noteq> 0 then
                              rbind (rmapM fresh_slot
                                [q_max_premium queue + 1..<new_premium + 1]) (\<lambda>new_slots.
                              Inr (queue\<lparr>q_slots := q_slots queue @ new_slots\<rparr>))
                            else Inr queue) (\<lambda>queue.
                     Inr (queue\<lparr>q_max_premium := new_premium\<rparr>))) (\<lambda>queue.
        rbind (case bid_threshold of
                 None \<Rightarrow> Inr queue
               | Some bid_threshold \<Rightarrow>
                   if 10000000 < bid_threshold \<or> bid_threshold < 1000000
                   then Inl (Failed InvalidBidThreshold)
                   else Inr (queue\<lparr>q_bid_threshold := bid_threshold\<rparr>)) (\<lambda>queue.
        Inr (queues_save st bid_for queue,
          \<lparr>messages = [],
           attributes = [(''method'', AText ''edit_queue''),
             (''max_premium'', ANum (q_max_premium queue)),
             (''bid_threshold'', ANum (q_bid_threshold queue))]\<rparr>))))))"

definition add_queue ::
  "lq_storage \<Rightarrow> MessageInfo \<Rightarrow> AssetInfo \<Rightarrow> uint128 \<Rightarrow> uint256 \<Rightarrow>
   (lq_storage \<times> lq_response) lq_result" where
  "add_queue st info bid_for_info max_premium bid_threshold =
     (let bid_for = asset_info_to_string bid_for_info in
      rbind (map_err Std (config_load st)) (\<lambda>config.
      let bid_asset = lqc_bid_asset config in
      if sender info \<noteq> lqc_owner config \<and> sender info \<noteq> lqc_positions_contract config
      then Inl (Failed Unauthorized)
      else
        rbind (u128_add max_premium 1) (\<lambda>max_premium_plus_1.
        rbind (rmapM fresh_slot [0..<max_premium_plus_1 mod U64_BOUND]) (\<lambda>slots.
        let new_queue =
              \<lparr>q_bid_asset = \<lparr>a_info = bid_asset, a_amount = 0\<rparr>, q_max_premium = max_premium,
               q_slots = slots, q_current_bid_id = 1, q_bid_threshold = bid_threshold\<rparr> in
        rbind (case QUEUES st bid_for of
                 Some _ \<Rightarrow> Inl (Failed DuplicateQueue)
               | None \<Rightarrow> Inr (queues_save st bid_for new_queue)) (\<lambda>st.
        rbind (unwrap (lqc_added_assets config)) (\<lambda>new_assets.
        let config = config\<lparr>lqc_added_assets := Some (new_assets @ [bid_for_info])\<rparr> in
        Inr (st\<lparr>CONFIG := Some config\<rparr>,
          \<lparr>messages = [],
           attributes = [(''method'', AText ''add_queue''), (''bid_for'', AText bid_for),
             (''bid_asset'', AText (asset_info_to_string bid_asset)),
             (''max_premium'', ANum max_premium), (''bid_threshold'', ANum bid_threshold)]\<rparr>)))))))"

fun lq_execute ::
  "chain_lib \<Rightarrow> lq_storage \<Rightarrow> Env \<Rightarrow> MessageInfo \<Rightarrow> lq_ExecuteMsg \<Rightarrow>
   (lq_storage \<times> lq_response) lq_result" where
  "lq_execute L st env info (SubmitBid bid_input bid_owner) =
     submit_bid L st info env bid_input bid_owner"
| "lq_execute L st env info (RetractBid bid_id bid_for amount) =
     retract_bid st info env bid_id bid_for amount"
| "lq_execute L st env info (LqLiquidate credit_price collateral_price collateral_amount bid_for) =
     execute_liquidation L st env info collateral_amount bid_for collateral_price credit_price"
| "lq_execute L st env info (ClaimLiquidations bid_for bid_ids) =
     claim_liquidations st env info bid_for bid_ids"
| "lq_execute L st env info (AddQueue bid_for max_premium bid_threshold) =
     add_queue st info bid_for max_premium bid_threshold"
| "lq_execute L st env info (UpdateQueue bid_for max_premium bid_threshold) =
     edit_queue st info bid_for max_premium bid_threshold"
| "lq_execute L st env info (LqUpdateConfig owner positions_contract osmosis_proxy_contract
     waiting_period minimum_bid maximum_waiting_bids) =
     lq_update_config L st info owner positions_contract osmosis_proxy_contract waiting_period
       minimum_bid maximum_waiting_bids"

definition lq_migrate :: "lq_storage \<Rightarrow> (lq_storage \<times> lq_response) lq_result" where
  "lq_migrate st = Inr (st, response_new)"

end
