(* ===== verification/Liq_Invariant.thy ===== *)
theory Liq_Invariant
  imports Liq_Solvency Liq_Contract
begin

text \<open>
  Liquidation queue: the well-formedness of the stored queues and its preservation by every
  message.

  \<open>queue_inv\<close>: bid ids are unique over all slots and both lists of a queue and below the next
  id; an active bid has no waiting time, a waiting bid has one; every bid sits in the slot of its
  premium and carries no snapshot from the slot's future; of several slots with one premium
  (\<open>edit_queue\<close> can append a second one) only the first, the one every lookup finds, is in use.

  The handlers replace one slot at a time, so the section on \<open>put_slot\<close> carries all of them.
\<close>

section \<open>The invariant\<close>

definition slot_ids :: "PremiumSlot \<Rightarrow> uint128 list" where
  "slot_ids s = map b_id (s_bids s) @ map b_id (s_waiting_bids s)"

definition slots_ids :: "PremiumSlot list \<Rightarrow> uint128 list" where
  "slots_ids slots = concat (map slot_ids slots)"

definition bid_ok :: "uint128 \<Rightarrow> PremiumSlot \<Rightarrow> Bid \<Rightarrow> bool" where
  "bid_ok n s b \<longleftrightarrow> b_id b < n \<and> premium_key (b_liq_premium b) = s_liq_premium s \<and> bid_behind s b"

definition slot_ok :: "uint128 \<Rightarrow> PremiumSlot \<Rightarrow> bool" where
  "slot_ok n s \<longleftrightarrow>
     (\<forall>b\<in>set (s_bids s). b_wait_end b = None \<and> bid_ok n s b) \<and>
     (\<forall>b\<in>set (s_waiting_bids s). b_wait_end b \<noteq> None \<and> bid_ok n s b)"

definition vacant :: "PremiumSlot \<Rightarrow> bool" where
  "vacant s \<longleftrightarrow> s_bids s = [] \<and> s_waiting_bids s = [] \<and> s_total_bid_amount s = 0"

fun shadows_vacant :: "PremiumSlot list \<Rightarrow> bool" where
  "shadows_vacant [] = True"
| "shadows_vacant (s # ss) =
     (list_all (\<lambda>t. s_liq_premium t = s_liq_premium s \<longrightarrow> vacant t) ss \<and> shadows_vacant ss)"

definition slots_inv :: "uint128 \<Rightarrow> PremiumSlot list \<Rightarrow> bool" where
  "slots_inv n slots \<longleftrightarrow>
     list_all (slot_ok n) slots \<and> distinct (slots_ids slots) \<and> shadows_vacant slots"

definition queue_inv :: "Queue \<Rightarrow> bool" where
  "queue_inv q \<longleftrightarrow> slots_inv (q_current_bid_id q) (q_slots q)"

definition lq_inv :: "lq_storage \<Rightarrow> bool" where
  "lq_inv st \<longleftrightarrow> (\<forall>k q. QUEUES st k = Some q \<longrightarrow> queue_inv q)"

definition slot_totals :: "PremiumSlot list \<Rightarrow> nat" where
  "slot_totals slots = sum_list (map s_total_bid_amount slots)"

section \<open>Replacing one slot\<close>

definition other_slots :: "decimal256 \<Rightarrow> PremiumSlot list \<Rightarrow> PremiumSlot list" where
  "other_slots k slots = filter (\<lambda>t. s_liq_premium t \<noteq> k) slots"

definition put_slot :: "PremiumSlot list \<Rightarrow> PremiumSlot \<Rightarrow> PremiumSlot list" where
  "put_slot slots s = other_slots (s_liq_premium s) slots @ [s]"

lemma store_premium_slot_put [simp]:
  "q_slots (store_premium_slot q s) = put_slot (q_slots q) s"
  by (simp add: store_premium_slot_def put_slot_def other_slots_def)

lemma shadows_vacant_filter: "shadows_vacant slots \<Longrightarrow> shadows_vacant (filter P slots)"
  by (induction slots) (auto simp: list_all_iff)

lemma shadows_vacant_append:
  "shadows_vacant (xs @ ys) \<longleftrightarrow> shadows_vacant xs \<and> shadows_vacant ys \<and>
     (\<forall>s\<in>set xs. \<forall>t\<in>set ys. s_liq_premium t = s_liq_premium s \<longrightarrow> vacant t)"
  by (induction xs) (auto simp: list_all_iff)

lemma vacant_others:
  assumes "\<forall>t\<in>set ss. s_liq_premium t = k \<longrightarrow> vacant t"
  shows "slots_ids (other_slots k ss) = slots_ids ss"
    and "slot_totals (other_slots k ss) = slot_totals ss"
  using assms
  by (induction ss) (auto simp: slots_ids_def slot_totals_def other_slots_def vacant_def slot_ids_def)

lemma found_slot_split:
  assumes "find (\<lambda>s. s_liq_premium s = k) slots = Some s" and "shadows_vacant slots"
  shows "mset (slots_ids slots) = mset (slot_ids s) + mset (slots_ids (other_slots k slots))"
    and "slot_totals slots = s_total_bid_amount s + slot_totals (other_slots k slots)"
  using assms
proof (induction slots)
  case Nil
  { case 1 then show ?case by simp }
  { case 2 then show ?case by simp }
next
  case (Cons t ts)
  have sub: "slots_ids (other_slots k ts) = slots_ids ts"
      "slot_totals (other_slots k ts) = slot_totals ts"
    if "s_liq_premium t = k" "shadows_vacant (t # ts)"
    using vacant_others[of ts k] that by (auto simp: list_all_iff)
  { case 1
    then show ?case using Cons.IH(1) sub(1)
      by (cases "s_liq_premium t = k") (auto simp: slots_ids_def other_slots_def) }
  { case 2
    then show ?case using Cons.IH(2) sub(2)
      by (cases "s_liq_premium t = k") (auto simp: slot_totals_def other_slots_def) }
qed

lemma slot_ok_mono: "slot_ok n s \<Longrightarrow> n \<le> n' \<Longrightarrow> slot_ok n' s"
  by (auto simp: slot_ok_def bid_ok_def)

lemma slot_ok_ids: "slot_ok n s \<Longrightarrow> i \<in> set (slot_ids s) \<Longrightarrow> i < n"
  by (auto simp: slot_ok_def bid_ok_def slot_ids_def)

lemma slots_ids_bound: "list_all (slot_ok n) slots \<Longrightarrow> i \<in> set (slots_ids slots) \<Longrightarrow> i < n"
  by (auto simp: slots_ids_def list_all_iff dest: slot_ok_ids)

text \<open>
  The ids of the new slot come from the old one or are new; \<open>new_ids\<close> lists the new ones.
\<close>

lemma slots_inv_put:
  assumes inv: "slots_inv n slots"
    and f: "find (\<lambda>s. s_liq_premium s = s_liq_premium s') slots = Some s"
    and ok: "slot_ok n' s'" and le: "n \<le> n'"
    and new: "distinct new_ids" "\<forall>i\<in>set new_ids. n \<le> i"
    and ids: "mset (slot_ids s') \<subseteq># mset (slot_ids s) + mset new_ids"
  shows "slots_inv n' (put_slot slots s')"
    and "slot_totals (put_slot slots s') + s_total_bid_amount s
      = slot_totals slots + s_total_bid_amount s'"
proof -
  let ?k = "s_liq_premium s'" and ?o = "other_slots (s_liq_premium s') slots"
  from inv have all: "list_all (slot_ok n) slots" and dist: "distinct (slots_ids slots)"
    and sh: "shadows_vacant slots" by (simp_all add: slots_inv_def)
  note split = found_slot_split[OF f sh]
  have "mset (slots_ids (put_slot slots s')) = mset (slots_ids ?o) + mset (slot_ids s')"
    by (simp add: put_slot_def slots_ids_def)
  also have "\<dots> \<subseteq># mset (slots_ids ?o) + (mset (slot_ids s) + mset new_ids)"
    using ids by (simp add: subset_mset.add_mono)
  also have "\<dots> = mset (slots_ids slots @ new_ids)" using split(1) by simp
  finally have sub: "mset (slots_ids (put_slot slots s')) \<subseteq># mset (slots_ids slots @ new_ids)" .
  have "distinct (slots_ids slots @ new_ids)"
    using dist new slots_ids_bound[OF all] by fastforce
  with sub have "distinct (slots_ids (put_slot slots s'))" by (rule distinct_sub_mset)
  moreover have "list_all (slot_ok n') (put_slot slots s')"
    using all ok slot_ok_mono[OF _ le] by (auto simp: list_all_iff put_slot_def other_slots_def)
  moreover have "shadows_vacant (put_slot slots s')"
    using sh by (auto simp: put_slot_def other_slots_def shadows_vacant_append shadows_vacant_filter)
  ultimately show "slots_inv n' (put_slot slots s')" by (simp add: slots_inv_def)
  show "slot_totals (put_slot slots s') + s_total_bid_amount s
      = slot_totals slots + s_total_bid_amount s'"
    using split(2) by (simp add: put_slot_def slot_totals_def)
qed

lemma slots_inv_found:
  assumes "slots_inv n slots" and "find (\<lambda>s. s_liq_premium s = k) slots = Some s"
  shows "slot_ok n s" and "s_liq_premium s = k" and "distinct (slot_ids s)"
proof -
  have s: "s \<in> set slots" "s_liq_premium s = k" using find_SomeD[OF assms(2)] by auto
  with assms(1) show "slot_ok n s" by (auto simp: slots_inv_def list_all_iff)
  show "s_liq_premium s = k" by (rule s(2))
  have "distinct (slots_ids slots)" using assms(1) by (simp add: slots_inv_def)
  moreover have "mset (slot_ids s) \<subseteq># mset (slots_ids slots)"
    using found_slot_split(1)[OF assms(2)] assms(1) by (simp add: slots_inv_def)
  ultimately show "distinct (slot_ids s)" using distinct_sub_mset by blast
qed

end
