(* ===== verification/Liq_Handlers.thy ===== *)
theory Liq_Handlers
  imports Liq_Invariant
begin

text \<open>
  Liquidation queue: what each handler does to the invariant of its queue and to the money the
  queue counts. \<open>q_bid_asset\<close>'s amount is the queue's own record of the bids it holds, the sum of
  \<open>s_total_bid_amount\<close> over the slots the amount the slots hold; the lemmas say how far each
  operation moves the two.
\<close>

abbreviation queue_amount :: "Queue \<Rightarrow> uint128" where
  "queue_amount q \<equiv> a_amount (q_bid_asset q)"

abbreviation bids_sum :: "Bid list \<Rightarrow> nat" where
  "bids_sum bs \<equiv> sum_list (map b_amount bs)"

section \<open>Activation of waiting bids\<close>

lemma activation_step_cases:
  assumes "activation_step t b s q = Inr (b', s', q')"
  obtains (kept) "b' = b" "s' = s" "q' = q"
  | (activated) "activate_bid b s q = (Inr (b', s', q') :: (Bid \<times> PremiumSlot \<times> Queue) lq_result)"
proof -
  have "(b' = b \<and> s' = s \<and> q' = q)
      \<or> activate_bid b s q = (Inr (b', s', q') :: (Bid \<times> PremiumSlot \<times> Queue) lq_result)"
    using assms by (auto simp: activation_step_def activate_bid_def Let_def res_ok split: if_splits)
  then show ?thesis using kept activated by blast
qed

text \<open>The slot changes only in its total and its active bids, the queue only in its amount.\<close>

lemma activate_waiting_frame:
  assumes "activate_waiting t ws s q
    = (Inr (ws', s', q') :: (Bid list \<times> PremiumSlot \<times> Queue) lq_result)"
  shows "s' = s\<lparr>s_total_bid_amount := s_total_bid_amount s', s_bids := s_bids s'\<rparr> \<and>
    q' = q\<lparr>q_bid_asset := (q_bid_asset q)\<lparr>a_amount := queue_amount q'\<rparr>\<rparr> \<and>
    queue_amount q' + s_total_bid_amount s = queue_amount q + s_total_bid_amount s' \<and>
    s_total_bid_amount s' + bids_sum ws' = s_total_bid_amount s + bids_sum ws \<and>
    s_total_bid_amount s \<le> s_total_bid_amount s'"
  using assms
proof (induction t ws s q arbitrary: ws' s' q' rule: activate_waiting.induct)
  case (1 t s q)
  then show ?case by simp
next
  case (2 t w ws s q)
  from 2(2) obtain w1 s1 q1 ws1 where st:
      "activation_step t w s q = (Inr (w1, s1, q1) :: (Bid \<times> PremiumSlot \<times> Queue) lq_result)"
      "activate_waiting t ws s1 q1
        = (Inr (ws1, s', q') :: (Bid list \<times> PremiumSlot \<times> Queue) lq_result)" "ws' = w1 # ws1"
    by (auto simp: res_ok)
  note ih = 2(1)[OF st(2)]
  show ?case using st(1)
  proof (cases rule: activation_step_cases)
    case kept
    with ih st(3) show ?thesis by simp
  next
    case activated
    note ok = activate_bid_ok[OF activated]
    from ih have s': "s' = s1\<lparr>s_total_bid_amount := s_total_bid_amount s', s_bids := s_bids s'\<rparr>"
      and q': "q' = q1\<lparr>q_bid_asset := (q_bid_asset q1)\<lparr>a_amount := queue_amount q'\<rparr>\<rparr>"
      and n: "queue_amount q' + s_total_bid_amount s1 = queue_amount q1 + s_total_bid_amount s'"
        "s_total_bid_amount s' + bids_sum ws1 = s_total_bid_amount s1 + bids_sum ws"
        "s_total_bid_amount s1 \<le> s_total_bid_amount s'"
      by simp_all
    have "s' = s\<lparr>s_total_bid_amount := s_total_bid_amount s', s_bids := s_bids s'\<rparr>"
      using s' unfolding ok(2) by simp
    moreover have "q' = q\<lparr>q_bid_asset := (q_bid_asset q)\<lparr>a_amount := queue_amount q'\<rparr>\<rparr>"
      using q' unfolding ok(3) by simp
    ultimately show ?thesis using n st(3) ok by simp
  qed
qed

lemma activate_waiting_bids:
  assumes "activate_waiting t ws s q
    = (Inr (ws', s', q') :: (Bid list \<times> PremiumSlot \<times> Queue) lq_result)"
  defines "kept \<equiv> filter (\<lambda>bid. \<not> uint256_is_zero (b_amount bid)) ws'"
  shows "mset (map b_id (s_bids s')) + mset (map b_id kept)
      \<subseteq># mset (map b_id (s_bids s)) + mset (map b_id ws) \<and>
    (\<forall>b\<in>set (s_bids s'). b \<in> set (s_bids s) \<or> (\<exists>w\<in>set ws. b = process_bid_activation w s)) \<and>
    set kept \<subseteq> set ws"
  using assms(1) unfolding kept_def
proof (induction t ws s q arbitrary: ws' s' q' rule: activate_waiting.induct)
  case (1 t s q)
  then show ?case by simp
next
  case (2 t w ws s q)
  from 2(2) obtain w1 s1 q1 ws1 where st:
      "activation_step t w s q = (Inr (w1, s1, q1) :: (Bid \<times> PremiumSlot \<times> Queue) lq_result)"
      "activate_waiting t ws s1 q1
        = (Inr (ws1, s', q') :: (Bid list \<times> PremiumSlot \<times> Queue) lq_result)" "ws' = w1 # ws1"
    by (auto simp: res_ok)
  note ih = 2(1)[OF st(2)]
  show ?case using st(1)
  proof (cases rule: activation_step_cases)
    case kept
    let ?nz = "\<lambda>bid. \<not> uint256_is_zero (b_amount bid)"
    from ih have sub: "mset (map b_id (s_bids s')) + mset (map b_id (filter ?nz ws1))
      \<subseteq># mset (map b_id (s_bids s)) + mset (map b_id ws)" by (simp add: kept)
    have "mset (map b_id (s_bids s')) + mset (map b_id (filter ?nz (w # ws1)))
      \<subseteq># mset (map b_id (s_bids s)) + mset (map b_id (w # ws))"
    proof (cases "?nz w")
      case True
      with sub show ?thesis by simp
    next
      case False
      have "mset (map b_id (s_bids s)) + mset (map b_id ws)
          \<subseteq># mset (map b_id (s_bids s)) + mset (map b_id (w # ws))"
        by (intro subset_mset.add_left_mono) (simp add: subset_mset.le_iff_add)
      from subset_mset.order_trans[OF sub this] False show ?thesis by simp
    qed
    with ih kept st(3) show ?thesis by auto
  next
    case activated
    note ok = activate_bid_ok[OF activated]
    have pr: "process_bid_activation b (s\<lparr>s_total_bid_amount := x, s_bids := y\<rparr>)
        = process_bid_activation b s" for b x y
      by (simp add: process_bid_activation_def)
    have ids: "b_id (process_bid_activation w s) = b_id w"
      by (simp add: process_bid_activation_def)
    from ih ids have "mset (map b_id (s_bids s')) + mset (map b_id (filter
        (\<lambda>bid. \<not> uint256_is_zero (b_amount bid)) ws1))
      \<subseteq># mset (map b_id (s_bids s)) + mset (map b_id (w # ws))" by (simp add: ok(2))
    with ih st(3) ok(1,2) show ?thesis by (auto simp: pr uint256_is_zero_def)
  qed
qed

lemma slot_ok_activated:
  "bid_ok n s w \<Longrightarrow> s_liq_premium s' = s_liq_premium s \<Longrightarrow> s_current_epoch s' = s_current_epoch s \<Longrightarrow>
   s_current_scale s' = s_current_scale s \<Longrightarrow> bid_ok n s' (process_bid_activation w s)"
  by (simp add: bid_ok_def process_bid_activation_def bid_behind_def)

lemma bid_ok_cong:
  "s_liq_premium s' = s_liq_premium s \<Longrightarrow> s_current_epoch s' = s_current_epoch s \<Longrightarrow>
   s_current_scale s' = s_current_scale s \<Longrightarrow> bid_ok n s' = bid_ok n s"
  by (simp add: fun_eq_iff bid_ok_def bid_behind_def)

text \<open>
  \<open>set_slot_total\<close>: the slot stays well formed, its ids are ids it had, and no bid money appears or
  disappears: what becomes active leaves the waiting list, and the queue counts the same amount.
\<close>

lemma set_slot_total_ok:
  assumes "set_slot_total s env q config = (Inr (s', q') :: (PremiumSlot \<times> Queue) lq_result)"
  shows "s_liq_premium s' = s_liq_premium s" "s_current_epoch s' = s_current_epoch s"
    "s_current_scale s' = s_current_scale s" "s_product_snapshot s' = s_product_snapshot s"
    "s_sum_snapshot s' = s_sum_snapshot s"
    "q' = q\<lparr>q_bid_asset := (q_bid_asset q)\<lparr>a_amount := queue_amount q'\<rparr>\<rparr>"
    "queue_amount q' + s_total_bid_amount s = queue_amount q + s_total_bid_amount s'"
    "s_total_bid_amount s' + bids_sum (s_waiting_bids s')
       = s_total_bid_amount s + bids_sum (s_waiting_bids s)"
    "mset (slot_ids s') \<subseteq># mset (slot_ids s)"
    "slot_ok n s \<Longrightarrow> slot_ok n s'"
    "s_total_bid_amount s \<le> s_total_bid_amount s'"
proof -
  have nz: "bids_sum (filter (\<lambda>bid. \<not> uint256_is_zero (b_amount bid)) ws) = bids_sum ws" for ws
    by (induction ws) (auto simp: uint256_is_zero_def)
  consider (same) "s' = s" "q' = q"
    | (active) ws s1 t where "activate_waiting t (s_waiting_bids s) s q
          = (Inr (ws, s1, q') :: (Bid list \<times> PremiumSlot \<times> Queue) lq_result)"
        "s' = s1\<lparr>s_waiting_bids := filter (\<lambda>bid. \<not> uint256_is_zero (b_amount bid)) ws,
           s_last_total := t\<rparr>"
    using assms by (fastforce simp: set_slot_total_def Let_def res_ok split: if_splits)
  then have "s_liq_premium s' = s_liq_premium s \<and> s_current_epoch s' = s_current_epoch s \<and>
    s_current_scale s' = s_current_scale s \<and> s_product_snapshot s' = s_product_snapshot s \<and>
    s_sum_snapshot s' = s_sum_snapshot s \<and>
    q' = q\<lparr>q_bid_asset := (q_bid_asset q)\<lparr>a_amount := queue_amount q'\<rparr>\<rparr> \<and>
    queue_amount q' + s_total_bid_amount s = queue_amount q + s_total_bid_amount s' \<and>
    s_total_bid_amount s' + bids_sum (s_waiting_bids s')
       = s_total_bid_amount s + bids_sum (s_waiting_bids s) \<and>
    mset (slot_ids s') \<subseteq># mset (slot_ids s) \<and> (slot_ok n s \<longrightarrow> slot_ok n s') \<and>
    s_total_bid_amount s \<le> s_total_bid_amount s'"
  proof cases
    case same
    then show ?thesis by simp
  next
    case active
    from activate_waiting_frame[OF active(1)]
    have s1: "s1 = s\<lparr>s_total_bid_amount := s_total_bid_amount s1, s_bids := s_bids s1\<rparr>" by blast
    have f: "s_liq_premium s1 = s_liq_premium s" "s_current_epoch s1 = s_current_epoch s"
      "s_current_scale s1 = s_current_scale s" "s_product_snapshot s1 = s_product_snapshot s"
      "s_sum_snapshot s1 = s_sum_snapshot s"
      by (subst s1; simp)+
    note b = activate_waiting_bids[OF active(1)]
    have "slot_ok n s'" if "slot_ok n s"
      using b that f bid_ok_cong[of s' s n] slot_ok_activated[of n s _ s']
      unfolding active(2) slot_ok_def
      by (auto simp: process_bid_activation_def)
    moreover have "mset (slot_ids s') \<subseteq># mset (slot_ids s)"
      using b by (simp add: slot_ids_def active(2))
    ultimately show ?thesis
      using activate_waiting_frame[OF active(1)] f by (simp add: active(2) nz)
  qed
  then show "s_liq_premium s' = s_liq_premium s" "s_current_epoch s' = s_current_epoch s"
    "s_current_scale s' = s_current_scale s" "s_product_snapshot s' = s_product_snapshot s"
    "s_sum_snapshot s' = s_sum_snapshot s"
    "q' = q\<lparr>q_bid_asset := (q_bid_asset q)\<lparr>a_amount := queue_amount q'\<rparr>\<rparr>"
    "queue_amount q' + s_total_bid_amount s = queue_amount q + s_total_bid_amount s'"
    "s_total_bid_amount s' + bids_sum (s_waiting_bids s')
       = s_total_bid_amount s + bids_sum (s_waiting_bids s)"
    "mset (slot_ids s') \<subseteq># mset (slot_ids s)"
    "slot_ok n s \<Longrightarrow> slot_ok n s'"
    "s_total_bid_amount s \<le> s_total_bid_amount s'"
    by blast+
qed

section \<open>Bids in their slots\<close>

definition bid_in :: "PremiumSlot \<Rightarrow> Bid \<Rightarrow> bool" where
  "bid_in s b \<longleftrightarrow> b \<in> set (if b_wait_end b = None then s_bids s else s_waiting_bids s)"

definition present :: "Queue \<Rightarrow> Bid \<Rightarrow> bool" where
  "present q b \<longleftrightarrow> (\<exists>s. find_slot q (premium_key (b_liq_premium b)) = Some s \<and> bid_in s b)"

definition queue_balance :: "Queue \<Rightarrow> int" where
  "queue_balance q = int (queue_amount q) - int (slot_totals (q_slots q))"

lemma queue_inv_put:
  assumes "queue_inv q" and "find_slot q (s_liq_premium s') = Some s"
    and "slot_ok (q_current_bid_id q) s'" and "mset (slot_ids s') \<subseteq># mset (slot_ids s)"
  shows "queue_inv (store_premium_slot q s')"
    and "queue_balance (store_premium_slot q s') + int (s_total_bid_amount s')
      = queue_balance q + int (s_total_bid_amount s)"
proof -
  have ids: "mset (slot_ids s') \<subseteq># mset (slot_ids s) + mset []" using assms(4) by simp
  note put = slots_inv_put[OF assms(1)[unfolded queue_inv_def] assms(2)[unfolded find_slot_def]
      assms(3) order.refl _ _ ids]
  show "queue_inv (store_premium_slot q s')" using put(1) by (simp add: queue_inv_def)
  have "int (slot_totals (put_slot (q_slots q) s')) + int (s_total_bid_amount s)
      = int (slot_totals (q_slots q)) + int (s_total_bid_amount s')"
    using put(2) by (metis of_nat_add distinct.simps(1) empty_iff empty_set)
  then show "queue_balance (store_premium_slot q s') + int (s_total_bid_amount s')
      = queue_balance q + int (s_total_bid_amount s)"
    by (simp add: queue_balance_def)
qed

lemma queue_inv_amount [simp]:
  "queue_inv (q\<lparr>q_bid_asset := x\<rparr>) = queue_inv q"
  by (simp add: queue_inv_def)

lemma queue_found:
  assumes "queue_inv q" and "find_slot q k = Some s"
  shows "slot_ok (q_current_bid_id q) s" "s_liq_premium s = k" "distinct (slot_ids s)"
  using slots_inv_found[of "q_current_bid_id q" "q_slots q" k s] assms
  by (simp_all add: queue_inv_def find_slot_def)

lemma slot_ok_bid_in: "slot_ok n s \<Longrightarrow> bid_in s b \<Longrightarrow> bid_ok n s b"
  by (auto simp: slot_ok_def bid_in_def split: if_splits)

lemma present_ok:
  assumes "queue_inv q" and "present q b"
  obtains s where "find_slot q (premium_key (b_liq_premium b)) = Some s" "bid_in s b"
    "bid_ok (q_current_bid_id q) s b" "s_liq_premium s = premium_key (b_liq_premium b)"
proof -
  from assms(2) obtain s where s: "find_slot q (premium_key (b_liq_premium b)) = Some s" "bid_in s b"
    by (auto simp: present_def)
  note f = queue_found[OF assms(1) s(1)]
  have "bid_ok (q_current_bid_id q) s b"
    by (rule slot_ok_bid_in[OF f(1) s(2)])
  with s f(2) that show ?thesis by blast
qed

lemma present_put:
  assumes "present q b" and "find_slot q (s_liq_premium s') = Some s" and "bid_in s b \<Longrightarrow> bid_in s' b"
  shows "present (store_premium_slot q s') b"
  using assms by (auto simp: present_def slots.read_store)

text \<open>A slot in use is the one its premium finds.\<close>

lemma used_slot_found:
  assumes "shadows_vacant slots" and "s \<in> set slots" and "\<not> vacant s"
  shows "find (\<lambda>t. s_liq_premium t = s_liq_premium s) slots = Some s"
  using assms by (induction slots) (auto simp: list_all_iff)

lemma used_bid_present:
  assumes "queue_inv q" and "s \<in> set (q_slots q)"
    and "b \<in> set (s_bids s) \<or> b \<in> set (s_waiting_bids s)"
  shows "present q b" and "find_slot q (s_liq_premium s) = Some s"
proof -
  have "\<not> vacant s" using assms(3) by (auto simp: vacant_def)
  then show f: "find_slot q (s_liq_premium s) = Some s"
    using used_slot_found assms(1,2) by (auto simp: queue_inv_def slots_inv_def find_slot_def)
  have "slot_ok (q_current_bid_id q) s"
    using assms(1,2) by (auto simp: queue_inv_def slots_inv_def list_all_iff)
  then have "bid_in s b" "s_liq_premium s = premium_key (b_liq_premium b)"
    using assms(3) by (auto simp: slot_ok_def bid_ok_def bid_in_def)
  with f show "present q b" by (auto simp: present_def)
qed

lemma read_bid_loop_ok:
  assumes "queue_inv q" and "read_bid_loop i q ps = Inr b"
  shows "b_id b = i \<and> present q b"
  using assms(2)
proof (induction ps)
  case Nil
  then show ?case by simp
next
  case (Cons p ps)
  from Cons.prems obtain s where s: "find_slot q (premium_key p) = Some s"
    by (auto simp: res_ok read_premium_slot_find)
  with Cons.prems consider (found) "b_id b = i" "b \<in> set (s_bids s) \<or> b \<in> set (s_waiting_bids s)"
    | (later) "read_bid_loop i q ps = Inr b"
    by (auto simp: res_ok read_premium_slot_find split: option.splits dest: find_SomeD)
  then show ?case
  proof cases
    case found
    have "s \<in> set (q_slots q)" using s by (auto simp: find_slot_def dest: find_SomeD)
    with found used_bid_present(1)[OF assms(1)] show ?thesis by blast
  next
    case later
    then show ?thesis by (rule Cons.IH)
  qed
qed

lemma read_bid_ok:
  assumes "queue_inv q" and "read_bid i q = Inr b"
  shows "b_id b = i" "present q b"
  using read_bid_loop_ok[OF assms(1)] assms(2) by (auto simp: read_bid_def Let_def split: if_splits)

section \<open>Storing and removing a bid\<close>

definition drop_bid :: "uint128 \<Rightarrow> PremiumSlot \<Rightarrow> PremiumSlot" where
  "drop_bid i s = s\<lparr>s_bids := filter (\<lambda>b. b_id b \<noteq> i) (s_bids s),
     s_waiting_bids := filter (\<lambda>b. b_id b \<noteq> i) (s_waiting_bids s)\<rparr>"

definition keep_bid :: "Bid \<Rightarrow> PremiumSlot \<Rightarrow> PremiumSlot" where
  "keep_bid bid s =
     (if b_wait_end bid \<noteq> None
      then s\<lparr>s_waiting_bids := filter (\<lambda>b. b_id b \<noteq> b_id bid) (s_waiting_bids s) @ [bid]\<rparr>
      else s\<lparr>s_bids := filter (\<lambda>b. b_id b \<noteq> b_id bid) (s_bids s) @ [bid]\<rparr>)"

lemma drop_keep_simps [simp]:
  "s_liq_premium (drop_bid i s) = s_liq_premium s" "s_liq_premium (keep_bid bid s) = s_liq_premium s"
  "s_total_bid_amount (drop_bid i s) = s_total_bid_amount s"
  "s_total_bid_amount (keep_bid bid s) = s_total_bid_amount s"
  "s_residue_bid (drop_bid i s) = s_residue_bid s" "s_residue_bid (keep_bid bid s) = s_residue_bid s"
  "s_product_snapshot (drop_bid i s) = s_product_snapshot s"
  "s_product_snapshot (keep_bid bid s) = s_product_snapshot s"
  "s_current_epoch (drop_bid i s) = s_current_epoch s"
  "s_current_epoch (keep_bid bid s) = s_current_epoch s"
  "s_current_scale (drop_bid i s) = s_current_scale s"
  "s_current_scale (keep_bid bid s) = s_current_scale s"
  by (simp_all add: drop_bid_def keep_bid_def)

lemma remove_bid_found:
  assumes "remove_bid bid q = Inr q'"
    and "find_slot q (premium_key (b_liq_premium bid)) = Some s"
  shows "q' = store_premium_slot q (drop_bid (b_id bid) s)"
  using assms slots.read_key[OF assms(2)]
  by (auto simp: remove_bid_def res_ok find_slot_def store_premium_slot_def drop_bid_def Let_def)

lemma store_bid_found:
  assumes "store_bid q bid = Inr q'"
    and "find_slot q (premium_key (b_liq_premium bid)) = Some s"
  shows "q' = store_premium_slot q (keep_bid bid s)"
  using assms slots.read_key[OF assms(2)]
  by (auto simp: store_bid_def res_ok find_slot_def store_premium_slot_def keep_bid_def Let_def)

lemma slot_ok_drop: "slot_ok n s \<Longrightarrow> slot_ok n (drop_bid i s)"
  by (auto simp: slot_ok_def bid_ok_def bid_behind_def drop_bid_def)

lemma slot_ok_keep: "slot_ok n s \<Longrightarrow> bid_ok n s b \<Longrightarrow> slot_ok n (keep_bid b s)"
  by (auto simp: slot_ok_def bid_ok_def bid_behind_def keep_bid_def)

lemma mset_filter_sub: "mset (map f (filter P xs)) \<subseteq># mset (map f xs)"
  by (simp add: image_mset_subseteq_mono)

lemma ids_drop: "mset (slot_ids (drop_bid i s)) \<subseteq># mset (slot_ids s)"
  unfolding slot_ids_def drop_bid_def
  by (auto simp del: mset_map simp: mset_append intro: subset_mset.add_mono mset_filter_sub)

lemma filter_id_add:
  assumes "b \<in> set bs"
  shows "add_mset (b_id b) (mset (map b_id (filter (\<lambda>c. b_id c \<noteq> b_id b) bs)))
    \<subseteq># mset (map b_id bs)"
  using assms
proof (induction bs)
  case Nil
  then show ?case by simp
next
  case (Cons c cs)
  show ?case
  proof (cases "b_id c = b_id b")
    case True
    with mset_filter_sub[of b_id "\<lambda>c. b_id c \<noteq> b_id b" cs] show ?thesis by simp
  next
    case False
    with Cons show ?thesis by (auto simp: add_mset_commute)
  qed
qed

lemma ids_keep:
  assumes "bid_in s b" and "b_id b' = b_id b" and "b_wait_end b' = b_wait_end b"
  shows "mset (slot_ids (keep_bid b' s)) \<subseteq># mset (slot_ids s)"
  using assms filter_id_add[of b "s_bids s"] filter_id_add[of b "s_waiting_bids s"]
  by (auto simp: slot_ids_def keep_bid_def bid_in_def)

text \<open>Storing a changed copy of a bid that is in its slot, or removing it.\<close>

lemma queue_drop:
  assumes "queue_inv q" and "find_slot q (premium_key (b_liq_premium b)) = Some s"
    and "remove_bid b q = Inr q'"
  shows "queue_inv q'" "queue_balance q' = queue_balance q"
    "find_slot q' (premium_key (b_liq_premium b)) = Some (drop_bid (b_id b) s)"
    "q_bid_asset q' = q_bid_asset q"
proof -
  note q' = remove_bid_found[OF assms(3,2)] and f = queue_found[OF assms(1,2)]
  have fs: "find_slot q (s_liq_premium (drop_bid (b_id b) s)) = Some s" using f(2) assms(2) by simp
  note put = queue_inv_put[OF assms(1) fs slot_ok_drop[OF f(1)] ids_drop]
  show "queue_inv q'" using put(1) q' by simp
  show "queue_balance q' = queue_balance q" using put(2) q' by simp
  show "find_slot q' (premium_key (b_liq_premium b)) = Some (drop_bid (b_id b) s)"
    using f(2) q' by (simp add: slots.read_store)
  show "q_bid_asset q' = q_bid_asset q" using q' by simp
qed

lemma queue_keep:
  assumes "queue_inv q" and "find_slot q (premium_key (b_liq_premium b)) = Some s" and "bid_in s b"
    and "b_id b' = b_id b" "b_wait_end b' = b_wait_end b" "b_liq_premium b' = b_liq_premium b"
    and "bid_behind s b'" and "store_bid q b' = Inr q'"
  shows "queue_inv q'" "queue_balance q' = queue_balance q"
    "find_slot q' (premium_key (b_liq_premium b)) = Some (keep_bid b' s)"
    "q_bid_asset q' = q_bid_asset q"
proof -
  have found': "find_slot q (premium_key (b_liq_premium b')) = Some s" using assms(2,6) by simp
  note q' = store_bid_found[OF assms(8) found'] and f = queue_found[OF assms(1,2)]
  have "bid_ok (q_current_bid_id q) s b'"
    using slot_ok_bid_in[OF f(1) assms(3)] assms(4,6,7) by (simp add: bid_ok_def)
  then have ok: "slot_ok (q_current_bid_id q) (keep_bid b' s)" by (rule slot_ok_keep[OF f(1)])
  have fs: "find_slot q (s_liq_premium (keep_bid b' s)) = Some s" using f(2) assms(2) by simp
  note put = queue_inv_put[OF assms(1) fs ok ids_keep[OF assms(3-5)]]
  show "queue_inv q'" using put(1) q' by simp
  show "queue_balance q' = queue_balance q" using put(2) q' by simp
  show "find_slot q' (premium_key (b_liq_premium b)) = Some (keep_bid b' s)"
    using f(2) q' by (simp add: slots.read_store)
  show "q_bid_asset q' = q_bid_asset q" using q' by simp
qed

end
