(* ===== verification/Liq_Accounting.thy ===== *)
theory Liq_Accounting
  imports Liq_Handlers
begin

text \<open>
  Liquidation queue: every handler keeps the invariant of its queue, and the exact effect of each
  on \<open>queue_balance\<close>, the difference between the amount the queue counts and the amount its
  slots hold.
\<close>

section \<open>Retracting\<close>

lemma claim_bid_residue_ok:
  "claim_bid_residue s = Inr (r, s') \<longleftrightarrow>
     r = s_residue_bid s div DECIMAL_FRACTIONAL \<and>
     s' = s\<lparr>s_residue_bid := s_residue_bid s mod DECIMAL_FRACTIONAL\<rparr> \<and>
     s_residue_bid s < U256_BOUND"
proof (cases s)
  case (fields bids waiting prem sumsn prod tot last ep sc rc rb)
  have le: "rb div DECIMAL_FRACTIONAL * DECIMAL_FRACTIONAL \<le> rb" by simp
  have m: "rb - rb div DECIMAL_FRACTIONAL * DECIMAL_FRACTIONAL = rb mod DECIMAL_FRACTIONAL"
    by (simp add: minus_div_mult_eq_mod)
  have z: "rb div DECIMAL_FRACTIONAL = 0 \<Longrightarrow> rb mod DECIMAL_FRACTIONAL = rb"
    by (metis add_cancel_left_left div_mult_mod_eq mult_zero_left)
  have lt: "\<not> rb < rb div DECIMAL_FRACTIONAL * DECIMAL_FRACTIONAL"
    "rb < U256_BOUND \<Longrightarrow> rb div DECIMAL_FRACTIONAL * DECIMAL_FRACTIONAL < U256_BOUND"
    using le by linarith+
  show ?thesis
    by (simp add: claim_bid_residue_def fields rbind_eq_Inr uint256_ok d256_ok uint256_is_zero_def
        uint256_one_def m lt) (use m z lt in \<open>auto simp: res_ok split: if_splits\<close>)
qed

lemma claim_col_residue_ok:
  "claim_col_residue s = Inr (r, s') \<Longrightarrow>
     r = s_residue_collateral s div DECIMAL_FRACTIONAL \<and>
     (\<exists>x. s' = s\<lparr>s_residue_collateral := x\<rparr>)"
  by (cases s) (auto simp: claim_col_residue_def res_ok uint256_is_zero_def uint256_one_def
      split: if_splits)

lemma assert_withdraw_ok [res_ok]:
  "assert_withdraw_amount amount able m = Inr w \<longleftrightarrow>
     (amount = None \<and> w = able) \<or>
     (amount = Some w \<and> w \<le> able \<and> (able - w = 0 \<or> m \<le> able - w))"
  by (auto simp: assert_withdraw_amount_def res_ok uint256_zero_def split: option.splits if_splits)


lemma retract_waiting_ok:
  assumes inv: "queue_inv q" and found: "find_slot q (premium_key (b_liq_premium b)) = Some s"
    and b: "bid_in s b" and r: "retract_waiting config q b amount = Inr (w, q')"
  shows "queue_inv q'" "queue_balance q' = queue_balance q" "q_bid_asset q' = q_bid_asset q"
    "w \<le> b_amount b" "w = (case amount of None \<Rightarrow> b_amount b | Some a \<Rightarrow> a)"
proof -
  have behind: "bid_behind s (b\<lparr>b_amount := x\<rparr>)" for x
    using slot_ok_bid_in[OF queue_found(1)[OF inv found] b] by (simp add: bid_ok_def bid_behind_def)
  have "(w = b_amount b \<and> remove_bid b q = Inr q') \<or>
      (w \<le> b_amount b \<and> store_bid q (b\<lparr>b_amount := b_amount b - w\<rparr>) = Inr q')"
    using r by (auto simp: retract_waiting_def rbind_eq_Inr uint256_ok split: if_splits)
  then have "queue_inv q' \<and> queue_balance q' = queue_balance q \<and> q_bid_asset q' = q_bid_asset q
      \<and> w \<le> b_amount b"
  proof (elim disjE conjE)
    assume rm: "remove_bid b q = Inr q'" and w: "w = b_amount b"
    from queue_drop[OF inv found rm] w show ?thesis by simp
  next
    assume st: "store_bid q (b\<lparr>b_amount := b_amount b - w\<rparr>) = Inr q'" and w: "w \<le> b_amount b"
    have "queue_inv q'" "queue_balance q' = queue_balance q" "q_bid_asset q' = q_bid_asset q"
      by (rule queue_keep[OF inv found b _ _ _ behind st]; simp)+
    with w show ?thesis by simp
  qed
  then show "queue_inv q'" "queue_balance q' = queue_balance q" "q_bid_asset q' = q_bid_asset q"
    "w \<le> b_amount b" by simp_all
  show "w = (case amount of None \<Rightarrow> b_amount b | Some a \<Rightarrow> a)"
    using r by (auto simp: retract_waiting_def rbind_eq_Inr assert_withdraw_ok split: if_splits)
qed
text \<open>
  The steps of \<open>retract_active\<close>: the slot with its residues settled, then without the bid or
  with its rebased copy, then with its total reduced and the whole part of the residue taken.
\<close>

definition settle_slot :: "PremiumSlot \<Rightarrow> decimal256 \<Rightarrow> decimal256 \<Rightarrow> PremiumSlot" where
  "settle_slot s res_c res_b = s\<lparr>s_residue_collateral := s_residue_collateral s + res_c,
     s_residue_bid := s_residue_bid s + res_b\<rparr>"

definition rebase_bid :: "PremiumSlot \<Rightarrow> uint256 \<Rightarrow> Bid \<Rightarrow> Bid" where
  "rebase_bid s amount b = b\<lparr>b_amount := amount, b_product_snapshot := s_product_snapshot s,
     b_sum_snapshot := s_sum_snapshot s, b_scale_snapshot := s_current_scale s\<rparr>"

lemma settle_slot_simps [simp]:
  "s_liq_premium (settle_slot s x y) = s_liq_premium s"
  "s_bids (settle_slot s x y) = s_bids s" "s_waiting_bids (settle_slot s x y) = s_waiting_bids s"
  "s_total_bid_amount (settle_slot s x y) = s_total_bid_amount s"
  "s_product_snapshot (settle_slot s x y) = s_product_snapshot s"
  "s_sum_snapshot (settle_slot s x y) = s_sum_snapshot s"
  "s_current_epoch (settle_slot s x y) = s_current_epoch s"
  "s_current_scale (settle_slot s x y) = s_current_scale s"
  "s_residue_bid (settle_slot s x y) = s_residue_bid s + y"
  "bid_in (settle_slot s x y) b = bid_in s b" "slot_ids (settle_slot s x y) = slot_ids s"
  "slot_ok n (settle_slot s x y) = slot_ok n s"
  by (simp_all add: settle_slot_def bid_in_def slot_ids_def slot_ok_def bid_ok_def bid_behind_def)

lemma rebase_bid_simps [simp]:
  "b_id (rebase_bid s x b) = b_id b" "b_wait_end (rebase_bid s x b) = b_wait_end b"
  "b_liq_premium (rebase_bid s x b) = b_liq_premium b" "b_user (rebase_bid s x b) = b_user b"
  "b_amount (rebase_bid s x b) = x" "b_product_snapshot (rebase_bid s x b) = s_product_snapshot s"
  "b_epoch_snapshot (rebase_bid s x b) = b_epoch_snapshot b"
  "b_scale_snapshot (rebase_bid s x b) = s_current_scale s"
  by (simp_all add: rebase_bid_def)


lemma claim_bid_residue_total:
  "claim_bid_residue (s\<lparr>s_total_bid_amount := x\<rparr>) = Inr (r, s') \<Longrightarrow>
     r = s_residue_bid s div DECIMAL_FRACTIONAL \<and>
     s' = s\<lparr>s_total_bid_amount := x, s_residue_bid := s_residue_bid s mod DECIMAL_FRACTIONAL\<rparr>"
  by (simp add: claim_bid_residue_ok)

lemma retract_active_steps:
  assumes "retract_active st config q b s bid_for amount = Inr (refund, q')"
  shows "\<exists>able res_b col res_c w q2 s2.
    calculate_remaining_bid b s = Inr (able, res_b) \<and>
    calculate_liquidated_collateral st b bid_for = Inr (col, res_c) \<and>
    assert_withdraw_amount amount able (uint256_from_uint128 (lqc_minimum_bid config)) = Inr w \<and>
    (if w = b_amount b \<and> uint256_is_zero (b_pending_liquidated_collateral b + col)
     then remove_bid (b\<lparr>b_pending_liquidated_collateral := b_pending_liquidated_collateral b + col\<rparr>)
            (store_premium_slot q (settle_slot s res_c res_b))
     else store_bid (store_premium_slot q (settle_slot s res_c res_b))
            (rebase_bid s (able - w)
              (b\<lparr>b_pending_liquidated_collateral := b_pending_liquidated_collateral b + col\<rparr>)))
      = Inr q2 \<and>
    find_slot q2 (premium_key (b_liq_premium b)) = Some s2 \<and>
    w \<le> s_total_bid_amount s2 \<and>
    refund = w + s_residue_bid s2 div DECIMAL_FRACTIONAL \<and>
    q' = store_premium_slot q2 (s2\<lparr>s_total_bid_amount := s_total_bid_amount s2 - w,
       s_residue_bid := s_residue_bid s2 mod DECIMAL_FRACTIONAL\<rparr>)"
proof -
  from assms obtain able res_b where 1: "calculate_remaining_bid b s = Inr (able, res_b)"
    by (auto simp: retract_active_def rbind_eq_Inr map_err_eq_Inr simp del: rbind_Inr)
  from assms obtain col res_c where 2: "calculate_liquidated_collateral st b bid_for = Inr (col, res_c)"
    by (auto simp: retract_active_def 1 rbind_eq_Inr map_err_eq_Inr simp del: rbind_Inr)
  from assms obtain w where
    3: "assert_withdraw_amount amount able (uint256_from_uint128 (lqc_minimum_bid config)) = Inr w"
    by (auto simp: retract_active_def 1 2 Let_def rbind_eq_Inr simp del: rbind_Inr)
  let ?b = "b\<lparr>b_pending_liquidated_collateral := b_pending_liquidated_collateral b + col\<rparr>"
  let ?q = "store_premium_slot q (settle_slot s res_c res_b)"
  from assms obtain q2 s2 s4 r where
    q2: "(if w = b_amount b \<and> uint256_is_zero (b_pending_liquidated_collateral b + col)
      then remove_bid ?b ?q
      else rbind (uint256_sub able w) (\<lambda>left. store_bid ?q (rebase_bid s left ?b))) = Inr q2"
    and s2: "map_err Std (read_premium_slot q2 (b_liq_premium b)) = Inr s2"
      "w \<le> s_total_bid_amount s2"
    and s4: "claim_bid_residue (s2\<lparr>s_total_bid_amount := s_total_bid_amount s2 - w\<rparr>)
        = (Inr (r, s4) :: (uint256 \<times> PremiumSlot) lq_result)"
      "w + r = refund" "store_premium_slot q2 s4 = q'"
    by (simp add: retract_active_def Let_def rbind_eq_Inr uint256_ok d256_ok 1 2 3
        del: uint256_from_uint128_id cong: if_cong)
      (elim exE conjE, simp only: settle_slot_def rebase_bid_def PremiumSlot.simps cong: if_cong)
  have "(if w = b_amount b \<and> uint256_is_zero (b_pending_liquidated_collateral b + col)
      then remove_bid ?b ?q else store_bid ?q (rebase_bid s (able - w) ?b)) = Inr q2"
    using q2 by (auto simp: rbind_eq_Inr uint256_ok split: if_splits)
  moreover have "find_slot q2 (premium_key (b_liq_premium b)) = Some s2"
    using s2(1) by (simp add: map_err_eq_Inr read_premium_slot_find)
  ultimately show ?thesis
    using 1 2 3 s2(2) s4(2,3) claim_bid_residue_total[OF s4(1)] by blast
qed
lemma retract_active_ok:
  assumes inv: "queue_inv q" and found: "find_slot q (premium_key (b_liq_premium b)) = Some s"
    and b: "bid_in s b" and r: "retract_active st config q b s bid_for amount = Inr (refund, q')"
  obtains able res_b res_c w x s' where
    "calculate_remaining_bid b s = Inr (able, res_b)" "w \<le> able" "w \<le> s_total_bid_amount s"
    "w = (case amount of None \<Rightarrow> able | Some a \<Rightarrow> a)"
    "refund = w + (s_residue_bid s + res_b) div DECIMAL_FRACTIONAL"
    "queue_inv q'" "queue_balance q' = queue_balance q + int w" "q_bid_asset q' = q_bid_asset q"
    "find_slot q' (premium_key (b_liq_premium b)) = Some s'"
    "s_bids s' = s_bids (drop_bid (b_id b) s) \<or>
     s_bids s' = s_bids (keep_bid (rebase_bid s (able - w) (b\<lparr>b_pending_liquidated_collateral := x\<rparr>)) s)"
    "s_total_bid_amount s' = s_total_bid_amount s - w" "s_product_snapshot s' = s_product_snapshot s"
    "s_current_epoch s' = s_current_epoch s" "s_current_scale s' = s_current_scale s"
proof -
  from retract_active_steps[OF r] obtain able res_b col res_c w q2 s2 where
    rem: "calculate_remaining_bid b s = Inr (able, res_b)" and
    w: "assert_withdraw_amount amount able (uint256_from_uint128 (lqc_minimum_bid config)) = Inr w" and
    q2: "(if w = b_amount b \<and> uint256_is_zero (b_pending_liquidated_collateral b + col)
     then remove_bid (b\<lparr>b_pending_liquidated_collateral := b_pending_liquidated_collateral b + col\<rparr>)
            (store_premium_slot q (settle_slot s res_c res_b))
     else store_bid (store_premium_slot q (settle_slot s res_c res_b))
            (rebase_bid s (able - w)
              (b\<lparr>b_pending_liquidated_collateral := b_pending_liquidated_collateral b + col\<rparr>)))
      = Inr q2" and
    s2: "find_slot q2 (premium_key (b_liq_premium b)) = Some s2" "w \<le> s_total_bid_amount s2" and
    refund: "refund = w + s_residue_bid s2 div DECIMAL_FRACTIONAL" and
    q': "q' = store_premium_slot q2 (s2\<lparr>s_total_bid_amount := s_total_bid_amount s2 - w,
       s_residue_bid := s_residue_bid s2 mod DECIMAL_FRACTIONAL\<rparr>)"
    by blast
  let ?b = "b\<lparr>b_pending_liquidated_collateral := b_pending_liquidated_collateral b + col\<rparr>"
  let ?s1 = "settle_slot s res_c res_b"
  let ?q1 = "store_premium_slot q ?s1"
  note f = queue_found[OF inv found]
  have ok1: "slot_ok (q_current_bid_id q) ?s1" using f(1) by simp
  have found0: "find_slot q (s_liq_premium ?s1) = Some s" using found f(2) by simp
  note put1 = queue_inv_put[OF inv found0 ok1]
  have inv1: "queue_inv ?q1" and bal1: "queue_balance ?q1 = queue_balance q"
    using put1 by simp_all
  have found1: "find_slot ?q1 (premium_key (b_liq_premium b)) = Some ?s1"
    using f(2) by (simp add: slots.read_store)
  have in1: "bid_in ?s1 b" using b by simp
  have behind: "bid_behind ?s1 (rebase_bid s (able - w) ?b)"
    using slot_ok_bid_in[OF f(1) b] by (simp add: bid_ok_def bid_behind_def)
  have wle: "w \<le> able" and weq: "w = (case amount of None \<Rightarrow> able | Some a \<Rightarrow> a)"
    using w by (auto simp: assert_withdraw_ok)
  have "queue_inv q2 \<and> queue_balance q2 = queue_balance q \<and> q_bid_asset q2 = q_bid_asset q \<and>
    (s2 = drop_bid (b_id b) ?s1 \<or> s2 = keep_bid (rebase_bid s (able - w) ?b) ?s1)"
  proof (cases "w = b_amount b \<and> uint256_is_zero (b_pending_liquidated_collateral b + col)")
    case True
    have found1': "find_slot ?q1 (premium_key (b_liq_premium ?b)) = Some ?s1" using found1 by simp
    have rm: "remove_bid ?b ?q1 = Inr q2" using q2 True by simp
    from queue_drop[OF inv1 found1' rm] bal1 s2(1) show ?thesis by simp
  next
    case False
    have st: "store_bid ?q1 (rebase_bid s (able - w) ?b) = Inr q2" using q2 False by (simp split: if_splits)
    have "queue_inv q2" "queue_balance q2 = queue_balance ?q1" "q_bid_asset q2 = q_bid_asset ?q1"
      "find_slot q2 (premium_key (b_liq_premium b)) = Some (keep_bid (rebase_bid s (able - w) ?b) ?s1)"
      by (rule queue_keep[OF inv1 found1 in1 _ _ _ behind st]; simp)+
    with bal1 s2(1) show ?thesis by simp
  qed
  then have inv2: "queue_inv q2" and bal2: "queue_balance q2 = queue_balance q"
    and asset2: "q_bid_asset q2 = q_bid_asset q"
    and s2': "s2 = drop_bid (b_id b) ?s1 \<or> s2 = keep_bid (rebase_bid s (able - w) ?b) ?s1" by blast+
  let ?s3 = "s2\<lparr>s_total_bid_amount := s_total_bid_amount s2 - w,
     s_residue_bid := s_residue_bid s2 mod DECIMAL_FRACTIONAL\<rparr>"
  note f2 = queue_found[OF inv2 s2(1)]
  have found3: "find_slot q2 (s_liq_premium ?s3) = Some s2" using s2(1) f2(2) by simp
  have ok3: "slot_ok (q_current_bid_id q2) ?s3"
    using f2(1) by (simp add: slot_ok_def bid_ok_def bid_behind_def)
  note put3 = queue_inv_put[OF inv2 found3 ok3]
  have inv3: "queue_inv q'" using put3(1) by (simp add: q' slot_ids_def)
  have bal3: "queue_balance q' = queue_balance q + int w"
    using put3(2) s2(2) bal2 by (simp add: q' slot_ids_def)
  have same: "s_total_bid_amount s2 = s_total_bid_amount s"
    "s_product_snapshot s2 = s_product_snapshot s" "s_current_epoch s2 = s_current_epoch s"
    "s_current_scale s2 = s_current_scale s" "s_residue_bid s2 = s_residue_bid s + res_b"
    using s2' by auto
  have bids: "s_bids s2 = s_bids (drop_bid (b_id b) s) \<or>
      s_bids s2 = s_bids (keep_bid (rebase_bid s (able - w) ?b) s)"
    using s2' by (auto simp: drop_bid_def keep_bid_def)
  show ?thesis
  proof (rule that[OF rem wle _ weq _ inv3 bal3])
    show "find_slot q' (premium_key (b_liq_premium b)) = Some ?s3"
      using f2(2) by (simp add: q' slots.read_store)
    show "s_bids ?s3 = s_bids (drop_bid (b_id b) s) \<or>
      s_bids ?s3 = s_bids (keep_bid (rebase_bid s (able - w)
        (b\<lparr>b_pending_liquidated_collateral := b_pending_liquidated_collateral b + col\<rparr>)) s)"
      using bids by simp
  qed (use same s2(2) refund asset2 in \<open>simp_all add: q'\<close>)
qed
section \<open>Claiming\<close>

lemma bid_in_drop: "bid_in s b \<Longrightarrow> b_id b \<noteq> i \<Longrightarrow> bid_in (drop_bid i s) b"
  by (auto simp: bid_in_def drop_bid_def)

lemma bid_in_keep: "bid_in s b \<Longrightarrow> b_id b \<noteq> b_id c \<Longrightarrow> bid_in (keep_bid c s) b"
  by (auto simp: bid_in_def keep_bid_def)

text \<open>
  A step of the claim loop that does something: the slot with the residues, then the bid removed
  or replaced by its rebased copy.
\<close>

lemma claim_step_cases:
  assumes "claim_step st env info bid_for b (q, c) = Inr (q', c')"
  shows "b_user b = sender info \<and>
    ((q' = q \<and> c' = c \<and> (\<exists>t. b_wait_end b = Some t \<and> time_seconds env < t)) \<or>
     (\<exists>s left res_b col res_c x.
        find_slot q (premium_key (b_liq_premium b)) = Some s \<and>
        calculate_remaining_bid b s = Inr (left, res_b) \<and>
        calculate_liquidated_collateral st b bid_for = Inr (col, res_c) \<and>
        c' = c + b_pending_liquidated_collateral b + col
          + (s_residue_collateral s + res_c) div DECIMAL_FRACTIONAL \<and>
        (\<forall>t. b_wait_end b = Some t \<longrightarrow> t \<le> time_seconds env) \<and>
        (if left \<le> 1 then remove_bid b (store_premium_slot q (s\<lparr>s_residue_collateral := x,
             s_residue_bid := s_residue_bid s + res_b\<rparr>))
         else store_bid (store_premium_slot q (s\<lparr>s_residue_collateral := x,
             s_residue_bid := s_residue_bid s + res_b\<rparr>))
           (rebase_bid s left b\<lparr>b_pending_liquidated_collateral := 0\<rparr>)) = Inr q'))"
proof -
  from assms have user: "b_user b = sender info" by (auto simp: claim_step_def split: if_splits)
  show ?thesis
  proof (cases "case b_wait_end b of None \<Rightarrow> False | Some t \<Rightarrow> time_seconds env < t")
    case True
    then show ?thesis using assms user by (auto simp: claim_step_def split: option.splits)
  next
    case False
    then have ripe: "\<forall>t. b_wait_end b = Some t \<longrightarrow> t \<le> time_seconds env"
      by (auto split: option.splits)
    note step = assms[unfolded claim_step_def, simplified user False, simplified]
    from step obtain s left res_b col res_c where
      1: "read_premium_slot q (b_liq_premium b) = Inr s"
        "calculate_remaining_bid b s = Inr (left, res_b)"
        "calculate_liquidated_collateral st b bid_for = Inr (col, res_c)"
      by (auto simp: rbind_eq_Inr map_err_eq_Inr simp del: rbind_Inr)
    from step obtain r s2 where
      2: "claim_col_residue (s\<lparr>s_residue_collateral := s_residue_collateral s + res_c,
             s_residue_bid := s_residue_bid s + res_b\<rparr>)
        = (Inr (r, s2) :: (uint256 \<times> PremiumSlot) lq_result)"
      and c: "c' = c + (b_pending_liquidated_collateral b + col + r)"
      and q': "(if left \<le> uint256_one then remove_bid b (store_premium_slot q s2)
        else store_bid (store_premium_slot q s2)
          (b\<lparr>b_amount := left, b_product_snapshot := s_product_snapshot s2,
             b_sum_snapshot := s_sum_snapshot s2, b_scale_snapshot := s_current_scale s2,
             b_pending_liquidated_collateral := uint256_zero\<rparr>)) = Inr q'"
      by (auto simp: 1 Let_def rbind_eq_Inr uint256_ok d256_ok)
    from claim_col_residue_ok[OF 2] obtain x where
      r: "r = (s_residue_collateral s + res_c) div DECIMAL_FRACTIONAL"
      and "s2 = s\<lparr>s_residue_collateral := s_residue_collateral s + res_c,
             s_residue_bid := s_residue_bid s + res_b\<rparr>\<lparr>s_residue_collateral := x\<rparr>"
      by fastforce
    then have s2: "s2 = s\<lparr>s_residue_collateral := x, s_residue_bid := s_residue_bid s + res_b\<rparr>"
      by simp
    have "(if left \<le> 1 then remove_bid b (store_premium_slot q (s\<lparr>s_residue_collateral := x,
             s_residue_bid := s_residue_bid s + res_b\<rparr>))
         else store_bid (store_premium_slot q (s\<lparr>s_residue_collateral := x,
             s_residue_bid := s_residue_bid s + res_b\<rparr>))
           (rebase_bid s left b\<lparr>b_pending_liquidated_collateral := 0\<rparr>)) = Inr q'"
      using q' by (simp add: s2 rebase_bid_def uint256_one_def uint256_zero_def cong: if_cong)
    with user ripe 1 c r show ?thesis
      by (auto simp: read_premium_slot_find add.assoc intro!: exI)
  qed
qed

lemma claim_step_ok:
  assumes inv: "queue_inv q" and pres: "present q b"
    and step: "claim_step st env info bid_for b (q, c) = Inr (q', c')"
  shows "queue_inv q'" "queue_balance q' = queue_balance q" "q_bid_asset q' = q_bid_asset q"
    "\<And>b2. present q b2 \<Longrightarrow> b_id b2 \<noteq> b_id b \<Longrightarrow> present q' b2"
proof -
  have "queue_inv q' \<and> queue_balance q' = queue_balance q \<and> q_bid_asset q' = q_bid_asset q \<and>
    (\<forall>b2. present q b2 \<longrightarrow> b_id b2 \<noteq> b_id b \<longrightarrow> present q' b2)"
  proof (cases "q' = q")
    case True
    with inv show ?thesis by simp
  next
    case False
    then obtain s left res_b x where
      found: "find_slot q (premium_key (b_liq_premium b)) = Some s" and
      q': "(if left \<le> 1 then remove_bid b (store_premium_slot q (s\<lparr>s_residue_collateral := x,
             s_residue_bid := s_residue_bid s + res_b\<rparr>))
         else store_bid (store_premium_slot q (s\<lparr>s_residue_collateral := x,
             s_residue_bid := s_residue_bid s + res_b\<rparr>))
           (rebase_bid s left b\<lparr>b_pending_liquidated_collateral := 0\<rparr>)) = Inr q'"
      using claim_step_cases[OF step] by blast
    let ?s1 = "s\<lparr>s_residue_collateral := x, s_residue_bid := s_residue_bid s + res_b\<rparr>"
    let ?b = "rebase_bid s left b\<lparr>b_pending_liquidated_collateral := 0\<rparr>"
    let ?q1 = "store_premium_slot q ?s1"
    note f = queue_found[OF inv found]
    have b: "bid_in s b" using pres found by (auto simp: present_def)
    have ok1: "slot_ok (q_current_bid_id q) ?s1"
      using f(1) by (simp add: slot_ok_def bid_ok_def bid_behind_def)
    have found0: "find_slot q (s_liq_premium ?s1) = Some s" using found f(2) by simp
    have "queue_inv ?q1 \<and> queue_balance ?q1 = queue_balance q"
      using queue_inv_put[OF inv found0 ok1] by (simp add: slot_ids_def)
    then have inv1: "queue_inv ?q1" and bal1: "queue_balance ?q1 = queue_balance q" by simp_all
    have found1: "find_slot ?q1 (premium_key (b_liq_premium b)) = Some ?s1"
      using f(2) by (simp add: slots.read_store)
    have in1: "bid_in ?s1 b" using b by (auto simp: bid_in_def)
    have pres1: "present ?q1 b2" if "present q b2" for b2
      using that found0 by (rule present_put) (auto simp: bid_in_def)
    show ?thesis
    proof (cases "left \<le> 1")
      case True
      then have rm: "remove_bid b ?q1 = Inr q'" using q' by simp
      have "present q' b2" if "present q b2" "b_id b2 \<noteq> b_id b" for b2
        unfolding remove_bid_found[OF rm found1]
        by (rule present_put[OF pres1[OF that(1)], where s = ?s1])
          (use that f(2) in \<open>auto simp: slots.read_store intro: bid_in_drop\<close>)
      with queue_drop[OF inv1 found1 rm] bal1 show ?thesis by simp
    next
      case False
      then have st: "store_bid ?q1 ?b = Inr q'" using q' by simp
      have found1': "find_slot ?q1 (premium_key (b_liq_premium ?b)) = Some ?s1"
        using found1 by simp
      have behind: "bid_behind ?s1 ?b"
        using slot_ok_bid_in[OF f(1) b] by (simp add: bid_ok_def bid_behind_def)
      have "present q' b2" if "present q b2" "b_id b2 \<noteq> b_id b" for b2
        unfolding store_bid_found[OF st found1']
        by (rule present_put[OF pres1[OF that(1)], where s = ?s1])
          (use that f(2) in \<open>auto simp: slots.read_store intro: bid_in_keep\<close>)
      moreover have "queue_inv q'" "queue_balance q' = queue_balance ?q1"
        "q_bid_asset q' = q_bid_asset ?q1"
        by (rule queue_keep[OF inv1 found1 in1 _ _ _ behind st]; simp)+
      ultimately show ?thesis using bal1 by simp
    qed
  qed
  then show "queue_inv q'" "queue_balance q' = queue_balance q" "q_bid_asset q' = q_bid_asset q"
    "\<And>b2. present q b2 \<Longrightarrow> b_id b2 \<noteq> b_id b \<Longrightarrow> present q' b2" by blast+
qed

lemma claim_loop_ok:
  assumes "queue_inv q" and "\<forall>b\<in>set bs. present q b" and "distinct (map b_id bs)"
    and "rfold (claim_step st env info bid_for) bs (q, c) = Inr (q', c')"
  shows "queue_inv q' \<and> queue_balance q' = queue_balance q \<and> q_bid_asset q' = q_bid_asset q \<and>
    (\<forall>b\<in>set bs. b_user b = sender info)"
  using assms
proof (induction bs arbitrary: q c)
  case Nil
  then show ?case by simp
next
  case (Cons b bs)
  from Cons.prems(4) obtain q1 c1 where st: "claim_step st env info bid_for b (q, c) = Inr (q1, c1)"
      "rfold (claim_step st env info bid_for) bs (q1, c1) = Inr (q', c')"
    by (auto simp: res_ok)
  have pb: "present q b" using Cons.prems(2) by simp
  note s = claim_step_ok[OF Cons.prems(1) pb st(1)]
  have p: "\<forall>b\<in>set bs. present q1 b"
    using Cons.prems(2,3) s(4) by (fastforce simp: image_iff)
  have d: "distinct (map b_id bs)" using Cons.prems(3) by simp
  from Cons.IH[OF s(1) p d st(2)] s(2,3) claim_step_cases[OF st(1)] show ?case by simp
qed

lemma all_unique_distinct: "all_unique seen ids \<longleftrightarrow> distinct ids \<and> set seen \<inter> set ids = {}"
  by (induction seen ids rule: all_unique.induct) auto

lemma active_ids_sub:
  "mset (map b_id (concat (map (\<lambda>s. filter P (s_bids s)) slots))) \<subseteq># mset (slots_ids slots)"
proof (induction slots)
  case Nil
  then show ?case by (simp add: slots_ids_def)
next
  case (Cons s slots)
  have "mset (map b_id (filter P (s_bids s))) \<subseteq># mset (slot_ids s)"
    using mset_filter_sub[of b_id P "s_bids s"]
    by (simp add: slot_ids_def) (metis mset_subset_eq_add_left subset_mset.order_trans)
  from subset_mset.add_mono[OF this Cons.IH] show ?case by (simp add: slots_ids_def)
qed

lemma claim_bids_ok:
  assumes inv: "queue_inv q" and "claim_bids q info bid_ids = Inr bs"
  shows "\<forall>b\<in>set bs. present q b" and "distinct (map b_id bs)"
proof -
  have "(\<forall>b\<in>set bs. present q b) \<and> distinct (map b_id bs)"
  proof (cases bid_ids)
    case None
    let ?P = "\<lambda>b. b_user b = sender info \<and> 0 < b_id b"
    have bs: "bs = take lq_MAX_LIMIT (concat (map (\<lambda>s. filter ?P (s_bids s)) (q_slots q)))"
      using assms(2) None by (simp add: claim_bids_def read_bids_by_user_def conj_commute)
    have "distinct (map b_id (concat (map (\<lambda>s. filter ?P (s_bids s)) (q_slots q))))"
      by (rule distinct_sub_mset[OF active_ids_sub]) (use inv in \<open>simp add: queue_inv_def slots_inv_def\<close>)
    then have "distinct (map b_id bs)"
      unfolding bs by (simp add: take_map[symmetric])
    moreover have "\<forall>b\<in>set bs. present q b"
      using used_bid_present(1)[OF inv] unfolding bs by (auto dest!: in_set_takeD)
    ultimately show ?thesis by simp
  next
    case (Some ids)
    have u: "distinct ids" and r: "rmapM (\<lambda>i. read_bid i q) ids = Inr bs"
      using assms(2) Some by (auto simp: claim_bids_def all_unique_distinct res_ok split: if_splits)
    have l: "list_all2 (\<lambda>i b. read_bid i q = Inr b) ids bs" using r by (simp add: rmapM_eq_Inr)
    then have "list_all2 (\<lambda>i b. i = b_id b \<and> present q b) ids bs"
      by (rule list_all2_mono) (use read_bid_ok[OF inv] in auto)
    then have "map b_id bs = ids" "\<forall>b\<in>set bs. present q b"
      by (induction rule: list_all2_induct) auto
    with u show ?thesis by simp
  qed
  then show "\<forall>b\<in>set bs. present q b" and "distinct (map b_id bs)" by simp_all
qed

section \<open>Liquidating\<close>

lemma update_product_behind:
  assumes "update_product s e = Inr s'" and "bid_behind s b"
  shows "bid_behind s' b"
  using assms(1) by (cases rule: update_product_cases) (use assms(2) in \<open>auto simp: bid_behind_def\<close>)

lemma pool_liquidation_slot_ok:
  assumes ex: "execute_pool_liquidation st s premium bid_for c price credit_price filled
      = Inr (st', s', repay, col, filled')"
    and ok: "slot_ok n s"
  shows "slot_ok n s'" "slot_ids s' = slot_ids s"
proof -
  note sl = execute_pool_liquidation_slot[OF ex] and up = execute_pool_liquidation_ok(5)[OF ex]
  have "bid_behind s' b" if "bid_behind s b" for b
    by (rule update_product_behind[OF up]) (use that in \<open>simp add: bid_behind_def\<close>)
  with ok sl show "slot_ok n s'" by (auto simp: slot_ok_def bid_ok_def)
  show "slot_ids s' = slot_ids s" by (simp add: slot_ids_def sl)
qed

definition slot_empty_at :: "Queue \<Rightarrow> nat \<Rightarrow> bool" where
  "slot_empty_at q p \<longleftrightarrow>
     (case find_slot q (premium_key p) of None \<Rightarrow> True | Some s \<Rightarrow> s_total_bid_amount s = 0)"

lemma premium_key_small: "p < 256 \<Longrightarrow> premium_key p < U256_BOUND"
  by (simp add: premium_key_def U256_BOUND_def)

text \<open>
  One turn of the loop on premium \<open>p\<close>: there is nothing to take, or the slot fills the rest of the
  liquidation, or it is drained and the loop goes on. The slots of other premiums stay.
\<close>

lemma set_slot_total_queue:
  assumes "set_slot_total s env q config = (Inr (s1, q1) :: (PremiumSlot \<times> Queue) lq_result)"
    and "queue_inv q"
  shows "queue_inv q1" "q_slots q1 = q_slots q" "a_info (q_bid_asset q1) = a_info (q_bid_asset q)"
    "find_slot q1 = find_slot q" "q_current_bid_id q1 = q_current_bid_id q"
    "queue_balance q1 + int (s_total_bid_amount s) = queue_balance q + int (s_total_bid_amount s1)"
proof -
  note t = set_slot_total_ok[OF assms(1)]
  show "queue_inv q1" by (subst t(6)) (simp add: assms(2))
  show sl: "q_slots q1 = q_slots q" by (subst t(6)) simp
  show "a_info (q_bid_asset q1) = a_info (q_bid_asset q)" by (subst t(6)) simp
  show "find_slot q1 = find_slot q" by (simp add: fun_eq_iff find_slot_def sl)
  show "q_current_bid_id q1 = q_current_bid_id q" by (subst t(6)) simp
  show "queue_balance q1 + int (s_total_bid_amount s) = queue_balance q + int (s_total_bid_amount s1)"
    using t(7) sl by (simp add: queue_balance_def)
qed

lemma pool_liquidation_queue:
  assumes inv: "queue_inv q" and found: "find_slot q (premium_key p) = Some s"
    and sst: "set_slot_total s env q config = (Inr (s1, q1) :: (PremiumSlot \<times> Queue) lq_result)"
    and ex: "execute_pool_liquidation st s1 premium bid_for c price cp filled
      = Inr (st2, s2, pr, pc, filled')"
  shows "queue_inv (store_premium_slot q1 s2)"
    "queue_balance (store_premium_slot q1 s2) = queue_balance q + int pr"
    "find_slot (store_premium_slot q1 s2) (premium_key p) = Some s2"
    "k \<noteq> premium_key p \<Longrightarrow> find_slot (store_premium_slot q1 s2) k = find_slot q k"
    "QUEUES st2 = QUEUES st" "CONFIG st2 = CONFIG st"
proof -
  note f = queue_found[OF inv found] and t = set_slot_total_ok[OF sst]
    and tq = set_slot_total_queue[OF sst inv] and sl = execute_pool_liquidation_slot[OF ex]
    and exok = execute_pool_liquidation_ok[OF ex]
  have key: "s_liq_premium s2 = premium_key p" using sl(3) t(1) f(2) by simp
  have ok2: "slot_ok (q_current_bid_id q1) s2"
    by (rule pool_liquidation_slot_ok(1)[OF ex]) (simp add: tq(5) t(10)[OF f(1)])
  have ids: "mset (slot_ids s2) \<subseteq># mset (slot_ids s)"
    using t(9) pool_liquidation_slot_ok(2)[OF ex t(10)[OF f(1)]] by simp
  have found1: "find_slot q1 (s_liq_premium s2) = Some s" using found key tq(4) by simp
  note put = queue_inv_put[OF tq(1) found1 ok2 ids]
  show "queue_inv (store_premium_slot q1 s2)" by (rule put(1))
  show "queue_balance (store_premium_slot q1 s2) = queue_balance q + int pr"
    using put(2) tq(6) sl(7) exok(2) by simp
  show "find_slot (store_premium_slot q1 s2) (premium_key p) = Some s2"
    by (simp add: slots.read_store key)
  show "find_slot (store_premium_slot q1 s2) k = find_slot q k" if "k \<noteq> premium_key p"
    using that by (simp add: slots.read_store key tq(4))
  show "QUEUES st2 = QUEUES st" "CONFIG st2 = CONFIG st" using exok(4) by simp_all
qed

lemma liquidation_loop_turn:
  assumes loop: "liquidation_loop L env config bid_for price credit_price (p # ps) st q remaining repay
      = Inr (st', q', remaining', repay')" and inv: "queue_inv q"
  defines "k \<equiv> premium_key (p mod 256)"
  obtains (skip) q1 where
    "liquidation_loop L env config bid_for price credit_price ps st q1 remaining repay
       = Inr (st', q', remaining', repay')"
    "queue_inv q1" "queue_balance q1 = queue_balance q"
    "a_info (q_bid_asset q1) = a_info (q_bid_asset q)"
    "find_slot q1 = find_slot q" "slot_empty_at q (p mod 256)"
  | (fill) s s2 pr where "find_slot q k = Some s"
    "queue_inv q'" "queue_balance q' = queue_balance q + int pr"
    "a_info (q_bid_asset q') = a_info (q_bid_asset q)"
    "find_slot q' k = Some s2" "\<And>j. j \<noteq> k \<Longrightarrow> find_slot q' j = find_slot q j"
    "QUEUES st' = QUEUES st" "CONFIG st' = CONFIG st" "remaining' = 0" "repay' = repay + pr"
  | (drain) s s2 st2 q2 pr pc where "find_slot q k = Some s"
    "liquidation_loop L env config bid_for price credit_price ps st2 q2 (remaining - pc) (repay + pr)
       = Inr (st', q', remaining', repay')"
    "queue_inv q2" "queue_balance q2 = queue_balance q + int pr"
    "a_info (q_bid_asset q2) = a_info (q_bid_asset q)"
    "find_slot q2 k = Some s2" "\<And>j. j \<noteq> k \<Longrightarrow> find_slot q2 j = find_slot q j"
    "QUEUES st2 = QUEUES st" "CONFIG st2 = CONFIG st" "s_total_bid_amount s2 = 0" "pc \<le> remaining"
proof (cases "read_premium_slot q (p mod 256)")
  case (Inl e)
  have "find_slot q k = None"
    using Inl premium_key_small[of "p mod 256"]
    by (cases "find_slot q k") (auto simp: k_def dest: read_premium_slot_find[THEN iffD2, OF conjI])
  then have "slot_empty_at q (p mod 256)" by (simp add: slot_empty_at_def k_def)
  moreover obtain e' where "e = Failed e'" using Inl loop by (cases e) auto
  ultimately show ?thesis using skip[of q] loop Inl inv by simp
next
  case (Inr s)
  note found = Inr[unfolded read_premium_slot_find, THEN conjunct2]
  from loop Inr obtain s1 q1 where
    sst: "set_slot_total s env q config = (Inr (s1, q1) :: (PremiumSlot \<times> Queue) lq_result)"
    by (auto simp: rbind_eq_Inr simp del: rbind_Inr)
  note tq = set_slot_total_queue[OF sst inv]
  show ?thesis
  proof (cases "uint256_is_zero (s_total_bid_amount s1)")
    case True
    then have z: "s_total_bid_amount s = 0" "s_total_bid_amount s1 = 0"
      using set_slot_total_ok(11)[OF sst] by (simp_all add: uint256_is_zero_def)
    show ?thesis
      by (rule skip[OF _ tq(1) _ tq(3,4)])
        (use loop Inr sst True tq(6) z found in \<open>simp_all add: slot_empty_at_def\<close>)
  next
    case False
    with loop Inr sst obtain cp st2 s2 pr pc filled where
      ex: "execute_pool_liquidation st s1 (p mod 256) bid_for remaining price cp False
        = Inr (st2, s2, pr, pc, filled)"
      and rest: "rbind (uint256_add_assign repay pr) (\<lambda>repay_amount.
          if filled then Inr (st2, store_premium_slot q1 s2, uint256_zero, repay_amount)
          else rbind (uint256_sub remaining pc) (\<lambda>remaining.
            liquidation_loop L env config bid_for price credit_price ps st2
              (store_premium_slot q1 s2) remaining repay_amount))
        = (Inr (st', q', remaining', repay') :: (lq_storage \<times> Queue \<times> nat \<times> nat) lq_result)"
      by (auto simp: rbind_eq_Inr map_err_eq_Inr Let_def simp del: rbind_Inr)
    note pq = pool_liquidation_queue[OF inv found sst ex, folded k_def]
    show ?thesis
    proof (cases filled)
      case True
      with rest have "st' = st2" "q' = store_premium_slot q1 s2" "remaining' = 0" "repay' = repay + pr"
        by (auto simp: rbind_eq_Inr uint256_ok uint256_zero_def)
      then show ?thesis using fill[OF found[folded k_def]] pq tq(3) by simp
    next
      case nf: False
      with rest have l: "liquidation_loop L env config bid_for price credit_price ps st2
          (store_premium_slot q1 s2) (remaining - pc) (repay + pr) = Inr (st', q', remaining', repay')"
        and "pc \<le> remaining" by (auto simp: rbind_eq_Inr uint256_ok)
      moreover have "s_total_bid_amount s2 = 0"
        using execute_pool_liquidation_slot(7)[OF ex] execute_pool_liquidation_ok(3)[OF ex] nf by simp
      ultimately show ?thesis using drain[OF found[folded k_def] l] pq tq(3) by simp
    qed
  qed
qed

text \<open>
  One liquidation over the slots. What the slots lose is what is repaid; the queue's amount changes
  by activations only, until the handler takes the repaid amount off it.
\<close>

lemma liquidation_loop_ok:
  assumes "liquidation_loop L env config bid_for price credit_price ps st q remaining repay
      = Inr (st', q', remaining', repay')" and "queue_inv q"
  shows "queue_inv q' \<and> queue_balance q' = queue_balance q + (int repay' - int repay) \<and>
    repay \<le> repay' \<and> remaining' \<le> remaining \<and> a_info (q_bid_asset q') = a_info (q_bid_asset q) \<and>
    QUEUES st' = QUEUES st \<and> CONFIG st' = CONFIG st"
  using assms
proof (induction ps arbitrary: st q remaining repay)
  case Nil
  then show ?case by simp
next
  case (Cons p ps)
  show ?case using Cons.prems
  proof (cases rule: liquidation_loop_turn)
    case skip
    from Cons.IH[OF skip(1,2)] skip(3,4) show ?thesis by simp
  next
    case fill
    then show ?thesis by simp
  next
    case drain
    from Cons.IH[OF drain(2,3)] drain(4,5,8,9) show ?thesis by auto
  qed
qed

text \<open>The loop empties the slots below the last premium it takes from and leaves those above alone.\<close>

lemma liquidation_loop_order:
  assumes "liquidation_loop L env config bid_for price credit_price [a..<b] st q remaining repay
      = Inr (st', q', remaining', repay')" and "queue_inv q" and "b \<le> 256" and "a \<le> b"
  shows "\<exists>m. a \<le> m \<and> m \<le> b \<and> (\<forall>p. a \<le> p \<and> p < m \<longrightarrow> slot_empty_at q' p) \<and>
    (\<forall>p. p < a \<or> m < p \<longrightarrow> find_slot q' (premium_key p) = find_slot q (premium_key p)) \<and>
    (m = b \<or> remaining' = 0)"
  using assms
proof (induction "b - a" arbitrary: a st q remaining repay)
  case 0
  then have "q' = q" by simp
  with 0 show ?case by (intro exI[of _ b]) auto
next
  case (Suc n)
  then have ab: "a < b" "Suc a \<le> b" and n: "n = b - Suc a" by linarith+
  have a256: "a mod 256 = a" using ab Suc.prems(3) by simp
  have continue: ?case
    if l: "liquidation_loop L env config bid_for price credit_price [Suc a..<b] st2 q2 rem2 rep2
        = Inr (st', q', remaining', repay')" and i: "queue_inv q2" and e: "slot_empty_at q2 a"
      and same: "\<And>p. p \<noteq> a \<Longrightarrow> find_slot q2 (premium_key p) = find_slot q (premium_key p)"
    for st2 q2 rem2 rep2
  proof -
    from Suc.hyps(1)[OF n l i Suc.prems(3) ab(2)] obtain m where
      m: "Suc a \<le> m" "m \<le> b" "\<forall>p. Suc a \<le> p \<and> p < m \<longrightarrow> slot_empty_at q' p"
        "\<forall>p. p < Suc a \<or> m < p \<longrightarrow> find_slot q' (premium_key p) = find_slot q2 (premium_key p)"
        "m = b \<or> remaining' = 0" by blast
    have "slot_empty_at q' a" using e m(4) by (simp add: slot_empty_at_def)
    then have "\<forall>p. a \<le> p \<and> p < m \<longrightarrow> slot_empty_at q' p"
      using m(3) by (metis Suc_leI le_neq_implies_less)
    moreover have "\<forall>p. p < a \<or> m < p \<longrightarrow> find_slot q' (premium_key p) = find_slot q (premium_key p)"
      using m(1,4) same by auto
    ultimately show ?thesis using m(1,2,5) by (intro exI[of _ m]) auto
  qed
  show ?case
    using Suc.prems(1)[unfolded upt_conv_Cons[OF ab(1)]] Suc.prems(2)
  proof (cases rule: liquidation_loop_turn)
    case (skip q1)
    show ?thesis
      by (rule continue[OF skip(1,2)]) (use skip(5,6) a256 in \<open>simp_all add: slot_empty_at_def\<close>)
  next
    case fill
    then show ?thesis using ab a256 by (intro exI[of _ a]) auto
  next
    case drain
    show ?thesis
      by (rule continue[OF drain(2,3)]) (use drain(6,7,10) a256 in \<open>simp_all add: slot_empty_at_def\<close>)
  qed
qed

end
