(* ===== verification/Liq_Machine.thy ===== *)
theory Liq_Machine
  imports Liq_Accounting
begin

text \<open>
  Liquidation queue: the contract as a transaction machine. For every handler, what a successful
  call did, as a rule that names the queue before and after, the checks that passed and the
  messages sent; from these, every message keeps \<open>lq_inv\<close>, and the interpretation of
  \<open>transactions\<close> on \<open>lq_execute\<close> carries it to every run.
\<close>

section \<open>Submitting\<close>

text \<open>All the bid money of a slot: active and waiting.\<close>

definition slot_money :: "PremiumSlot \<Rightarrow> nat" where
  "slot_money s = s_total_bid_amount s + bids_sum (s_waiting_bids s)"

lemma submit_active_cases:
  assumes "submit_active config sent b s q = Inr (b', s', q', attrs)"
  obtains (full) "q_bid_threshold q < s_total_bid_amount s" "b' = b" "s' = s" "q' = q"
  | (whole) t where "t = s_total_bid_amount s + b_amount b" "b' = (process_bid_activation b s)\<lparr>b_amount := 0\<rparr>"
      "s' = s\<lparr>s_total_bid_amount := t, s_bids := s_bids s @ [process_bid_activation b s]\<rparr>"
      "q' = q\<lparr>q_bid_asset := (q_bid_asset q)\<lparr>a_amount := queue_amount q + sent\<rparr>\<rparr>"
      "s_total_bid_amount s \<le> q_bid_threshold q"
  | (part) act wait where "b_amount b = act + wait" "wait \<le> sent"
      "s_total_bid_amount s + act = q_bid_threshold q"
      "lqc_minimum_bid config \<le> wait"
      "b' = b\<lparr>b_id := q_current_bid_id q, b_amount := wait\<rparr>"
      "s' = s\<lparr>s_total_bid_amount := s_total_bid_amount s + act,
         s_bids := s_bids s @ [process_bid_activation (b\<lparr>b_amount := act\<rparr>) s]\<rparr>"
      "q' = q\<lparr>q_current_bid_id := q_current_bid_id q + 1,
         q_bid_asset := (q_bid_asset q)\<lparr>a_amount := queue_amount q + (sent - wait)\<rparr>\<rparr>"
proof -
  consider "q_bid_threshold q < s_total_bid_amount s"
    | "s_total_bid_amount s \<le> q_bid_threshold q"
      "s_total_bid_amount s + b_amount b < q_bid_threshold q + lqc_minimum_bid config"
    | "s_total_bid_amount s \<le> q_bid_threshold q"
      "\<not> s_total_bid_amount s + b_amount b < q_bid_threshold q + lqc_minimum_bid config"
    by linarith
  then show ?thesis
  proof cases
    case 1
    from assms 1 have "b' = b" "s' = s" "q' = q" by (simp_all add: submit_active_def)
    with 1 full show ?thesis by blast
  next
    case 2
    from assms 2 have "b' = (process_bid_activation b s)\<lparr>b_amount := 0\<rparr>"
      "s' = s\<lparr>s_total_bid_amount := s_total_bid_amount s + b_amount b,
         s_bids := s_bids s @ [process_bid_activation b s]\<rparr>"
      "q' = q\<lparr>q_bid_asset := (q_bid_asset q)\<lparr>a_amount := queue_amount q + sent\<rparr>\<rparr>"
      by (auto simp: submit_active_def res_ok Let_def process_bid_activation_def uint256_zero_def)
    with 2(1) whole[OF refl] show ?thesis by blast
  next
    case 3
    let ?wait = "s_total_bid_amount s + b_amount b - q_bid_threshold q"
    have r: "?wait \<le> b_amount b" "?wait \<le> sent"
      "b' = b\<lparr>b_id := q_current_bid_id q, b_amount := ?wait\<rparr>"
      "s' = s\<lparr>s_total_bid_amount := s_total_bid_amount s + (b_amount b - ?wait),
         s_bids := s_bids s @ [process_bid_activation (b\<lparr>b_amount := b_amount b - ?wait\<rparr>) s]\<rparr>"
      "q' = q\<lparr>q_current_bid_id := q_current_bid_id q + 1,
         q_bid_asset := (q_bid_asset q)\<lparr>a_amount := queue_amount q + (sent - ?wait)\<rparr>\<rparr>"
      using assms 3 by (auto simp: submit_active_def res_ok Let_def process_bid_activation_def)
    show ?thesis
      by (rule part[OF _ r(2) _ _ r(3-5)]) (use r(1) 3 in linarith)+
  qed
qed

lemma submit_waiting_cases:
  assumes "submit_waiting config env b s = Inr (s', attrs)"
  obtains (none) "b_amount b = 0" "s' = s"
  | (waits) t where "0 < b_amount b" "t = time_seconds env + lqc_waiting_period config"
      "s' = s\<lparr>s_waiting_bids := s_waiting_bids s @ [b\<lparr>b_wait_end := Some t\<rparr>]\<rparr>"
      "length (s_waiting_bids s') \<le> as_usize (lqc_maximum_waiting_bids config)"
  using assms
  by (auto simp: submit_waiting_def res_ok Let_def uint256_is_zero_def split: if_splits)

lemma bid_behind_fresh: "b_epoch_snapshot b = 0 \<Longrightarrow> b_scale_snapshot b = 0 \<Longrightarrow> bid_behind s b"
  by (simp add: bid_behind_def)

lemma submit_slot_ok:
  assumes ok: "slot_ok n s" and n: "n = q_current_bid_id q" and key: "s_liq_premium s = premium_key p"
    and act: "submit_active config sent (new_bid u n sent p) s (q\<lparr>q_current_bid_id := n + 1\<rparr>)
      = Inr (b1, s1, q1, at1)"
    and wait: "submit_waiting config env b1 s1 = Inr (s2, at2)"
  shows "\<exists>new_ids. distinct new_ids \<and> (\<forall>i\<in>set new_ids. n \<le> i) \<and>
    mset (slot_ids s2) = mset (slot_ids s) + mset new_ids \<and> slot_ok (q_current_bid_id q1) s2 \<and>
    n \<le> q_current_bid_id q1 \<and> s_liq_premium s2 = s_liq_premium s \<and>
    q1 = q\<lparr>q_current_bid_id := q_current_bid_id q1,
       q_bid_asset := (q_bid_asset q)\<lparr>a_amount := queue_amount q1\<rparr>\<rparr> \<and>
    queue_amount q1 + s_total_bid_amount s = queue_amount q + s_total_bid_amount s2 \<and>
    slot_money s2 = slot_money s + sent"
proof -
  let ?m = "q_current_bid_id q1"
  have mono: "slot_ok k s" if "n \<le> k" for k using slot_ok_mono[OF ok that] .
  show ?thesis
    using act
  proof (cases rule: submit_active_cases)
    case full
    show ?thesis using wait
    proof (cases rule: submit_waiting_cases)
      case none
      with full show ?thesis
        using mono[of "n + 1"] n
        by (intro exI[of _ "[]"]) (simp add: slot_money_def new_bid_def)
    next
      case (waits t)
      with full show ?thesis
        using mono[of "n + 1"] n key
        by (intro exI[of _ "[n]"])
          (auto simp: slot_money_def new_bid_def slot_ok_def bid_ok_def slot_ids_def bid_behind_def)
    qed
  next
    case (whole t)
    show ?thesis using wait
    proof (cases rule: submit_waiting_cases)
      case none
      with whole show ?thesis
        using mono[of "n + 1"] n key
        by (intro exI[of _ "[n]"])
          (auto simp: slot_money_def new_bid_def slot_ok_def bid_ok_def slot_ids_def bid_behind_def
            process_bid_activation_def)
    next
      case (waits t)
      with whole show ?thesis by simp
    qed
  next
    case (part a w)
    show ?thesis using wait
    proof (cases rule: submit_waiting_cases)
      case none
      with part show ?thesis
        using mono[of "n + 2"] n key
        by (intro exI[of _ "[n]"])
          (auto simp: slot_money_def new_bid_def slot_ok_def bid_ok_def slot_ids_def bid_behind_def
            process_bid_activation_def)
    next
      case (waits t)
      with part show ?thesis
        using mono[of "n + 2"] n key
        by (intro exI[of _ "[n, n + 1]"])
          (auto simp: slot_money_def new_bid_def slot_ok_def bid_ok_def slot_ids_def bid_behind_def
            process_bid_activation_def)
    qed
  qed
qed

section \<open>The handlers\<close>

lemma bid_asset_sent_ok:
  assumes "assert_bid_asset_from_sent_funds asset info m = Inr a"
  shows "\<exists>denom. asset = NativeToken denom \<and> a_info a = asset \<and> m \<le> a_amount a \<and>
    funds info = [\<lparr>c_denom = denom, c_amount = a_amount a\<rparr>]"
  using assms
  by (auto simp: assert_bid_asset_from_sent_funds_def length_Suc_conv
      split: list.splits AssetInfo.splits if_splits)

lemma submit_bid_ok:
  assumes inv: "lq_inv st" and sub: "submit_bid L st info env bi owner = Inr (st', r)"
  obtains q q' s s' denom amt where
    "QUEUES st (asset_info_to_string (bi_bid_for bi)) = Some q"
    "st' = queues_save st (asset_info_to_string (bi_bid_for bi)) q'"
    "find_slot q (premium_key (bi_liq_premium bi)) = Some s"
    "bi_liq_premium bi \<le> q_max_premium q mod 256"
    "q_slots q' = put_slot (q_slots q) s'" "s_liq_premium s' = s_liq_premium s"
    "queue_inv q'" "queue_balance q' = queue_balance q"
    "a_info (q_bid_asset q) = NativeToken denom"
    "funds info = [\<lparr>c_denom = denom, c_amount = amt\<rparr>]"
    "slot_money s' = slot_money s + amt"
    "q_max_premium q' = q_max_premium q" "a_info (q_bid_asset q') = a_info (q_bid_asset q)"
    "messages r = []" "q_current_bid_id q \<le> q_current_bid_id q'"
proof -
  let ?k = "asset_info_to_string (bi_bid_for bi)"
  let ?p = "bi_liq_premium bi"
  from sub obtain config u q a s b1 s1 q1 at1 s2 at2 where
    load: "QUEUES st ?k = Some q" "validate_bid_input st bi = Inr ()"
    and a: "assert_bid_asset_from_sent_funds (a_info (q_bid_asset q)) info (lqc_minimum_bid config) = Inr a"
    and s: "find_slot q (premium_key ?p) = Some s"
    and act: "submit_active config (a_amount a) (new_bid u (q_current_bid_id q) (a_amount a) ?p) s
      (q\<lparr>q_current_bid_id := q_current_bid_id q + 1\<rparr>) = Inr (b1, s1, q1, at1)"
    and wait: "submit_waiting config env b1 s1 = Inr (s2, at2)"
    and st': "st' = queues_save st ?k (q1\<lparr>q_slots :=
        filter (\<lambda>slot. s_liq_premium slot \<noteq> premium_key ?p) (q_slots q1) @ [s2]\<rparr>)"
    and r: "messages r = []"
    by (auto simp: submit_bid_def Let_def res_ok find_slot_def split: option.splits)
  have qi: "queue_inv q" using inv load(1) by (auto simp: lq_inv_def)
  note f = queue_found[OF qi s]
  from submit_slot_ok[OF f(1) refl f(2) act wait] obtain new where
    new: "distinct new" "\<forall>i\<in>set new. q_current_bid_id q \<le> i"
      "mset (slot_ids s2) = mset (slot_ids s) + mset new" "slot_ok (q_current_bid_id q1) s2"
      "q_current_bid_id q \<le> q_current_bid_id q1" "s_liq_premium s2 = s_liq_premium s"
    and q1: "q1 = q\<lparr>q_current_bid_id := q_current_bid_id q1,
       q_bid_asset := (q_bid_asset q)\<lparr>a_amount := queue_amount q1\<rparr>\<rparr>"
    and m: "queue_amount q1 + s_total_bid_amount s = queue_amount q + s_total_bid_amount s2"
      "slot_money s2 = slot_money s + a_amount a" by blast
  have slots1: "q_slots q1 = q_slots q" "q_max_premium q1 = q_max_premium q"
    "a_info (q_bid_asset q1) = a_info (q_bid_asset q)" by (subst q1; simp)+
  let ?q' = "q1\<lparr>q_slots := put_slot (q_slots q) s2\<rparr>"
  have st'': "st' = queues_save st ?k ?q'"
    using st' f(2) new(6) by (simp add: slots1 put_slot_def other_slots_def)
  have found: "find (\<lambda>t. s_liq_premium t = s_liq_premium s2) (q_slots q) = Some s"
    using s f(2) new(6) by (simp add: find_slot_def)
  note put = slots_inv_put[OF qi[unfolded queue_inv_def] found new(4,5,1,2)]
  have inv': "queue_inv ?q'" using put(1) new(3) by (simp add: queue_inv_def)
  have "slot_totals (put_slot (q_slots q) s2) + s_total_bid_amount s
      = slot_totals (q_slots q) + s_total_bid_amount s2" using put(2) new(3) by simp
  then have "int (slot_totals (put_slot (q_slots q) s2)) + int (s_total_bid_amount s)
      = int (slot_totals (q_slots q)) + int (s_total_bid_amount s2)" by linarith
  then have bal: "queue_balance ?q' = queue_balance q" using m(1) by (simp add: queue_balance_def)
  obtain denom where d: "a_info (q_bid_asset q) = NativeToken denom"
      "funds info = [\<lparr>c_denom = denom, c_amount = a_amount a\<rparr>]"
    using bid_asset_sent_ok[OF a] by auto
  have p: "?p \<le> q_max_premium q mod 256"
    using load by (auto simp: validate_bid_input_def queues_load_def split: if_splits)
  show ?thesis
    by (rule that[OF load(1) st'' s p _ new(6) inv' bal d m(2) _ _ r]) (simp_all add: slots1 new(5))
qed

lemma retract_bid_ok:
  assumes inv: "lq_inv st" and ret: "retract_bid st info env i asset amount = Inr (st', r)"
  obtains q b s q1 q' config w where
    "QUEUES st (asset_info_to_string asset) = Some q" "CONFIG st = Some config"
    "st' = queues_save st (asset_info_to_string asset) q'"
    "read_bid i q = Inr b" "b_id b = i" "b_user b = sender info"
    "find_slot q (premium_key (b_liq_premium b)) = Some s" "bid_in s b"
    "b_wait_end b \<noteq> None \<and> retract_waiting config q b amount = Inr (w, q1) \<or>
     b_wait_end b = None \<and>
       retract_active st config q b s (asset_info_to_string asset) amount = Inr (w, q1)"
    "queue_inv q1" "w \<le> queue_amount q1"
    "q' = q1\<lparr>q_bid_asset := (q_bid_asset q1)\<lparr>a_amount := queue_amount q1 - w\<rparr>\<rparr>"
    "messages r = (if w = 0 then [] else
       [BankSend (sender info) [\<lparr>c_denom = ai_denom (a_info (q_bid_asset q1)), c_amount = w\<rparr>]])"
proof -
  let ?k = "asset_info_to_string asset"
  from ret obtain config q b s w q1 q' where
    load: "QUEUES st ?k = Some q" "CONFIG st = Some config"
    and b: "read_bid i q = Inr b" "b_user b = sender info"
    and s: "read_premium_slot q (b_liq_premium b) = Inr s"
    and w: "(if b_wait_end b \<noteq> None then retract_waiting config q b amount
             else retract_active st config q b s ?k amount) = Inr (w, q1)"
    and out: "st' = queues_save st ?k q'" "w \<le> queue_amount q1"
      "q' = q1\<lparr>q_bid_asset := (q_bid_asset q1)\<lparr>a_amount := queue_amount q1 - w\<rparr>\<rparr>"
      "messages r = (if w = 0 then [] else
       [BankSend (sender info) [\<lparr>c_denom = ai_denom (a_info (q_bid_asset q1)), c_amount = w\<rparr>]])"
  proof -
    assume *: "\<And>q config b s w q1 q'. QUEUES st ?k = Some q \<Longrightarrow> CONFIG st = Some config \<Longrightarrow>
      read_bid i q = Inr b \<Longrightarrow> b_user b = sender info \<Longrightarrow> read_premium_slot q (b_liq_premium b) = Inr s \<Longrightarrow>
      (if b_wait_end b \<noteq> None then retract_waiting config q b amount
             else retract_active st config q b s ?k amount) = Inr (w, q1) \<Longrightarrow>
      st' = queues_save st ?k q' \<Longrightarrow> w \<le> queue_amount q1 \<Longrightarrow>
      q' = q1\<lparr>q_bid_asset := (q_bid_asset q1)\<lparr>a_amount := queue_amount q1 - w\<rparr>\<rparr> \<Longrightarrow>
      messages r = (if w = 0 then [] else
       [BankSend (sender info) [\<lparr>c_denom = ai_denom (a_info (q_bid_asset q1)), c_amount = w\<rparr>]]) \<Longrightarrow> thesis"
    from ret obtain config where 1: "CONFIG st = Some config"
      by (auto simp: retract_bid_def Let_def rbind_eq_Inr load_ok map_err_eq_Inr simp del: rbind_Inr)
    from ret 1 obtain q where 2: "QUEUES st ?k = Some q"
      by (auto simp: retract_bid_def Let_def rbind_eq_Inr load_ok map_err_eq_Inr simp del: rbind_Inr)
    from ret 1 2 obtain b where 3: "read_bid i q = Inr b"
      by (auto simp: retract_bid_def Let_def rbind_eq_Inr load_ok map_err_eq_Inr simp del: rbind_Inr)
    note ld = config_load_def queues_load_def 1 2 3
    have 4: "b_user b = sender info"
      using ret by (auto simp: retract_bid_def Let_def ld split: if_splits)
    from ret obtain s where 5: "read_premium_slot q (b_liq_premium b) = Inr s"
      by (auto simp: retract_bid_def Let_def ld 4 rbind_eq_Inr map_err_eq_Inr simp del: rbind_Inr)
    obtain w q1 where 6: "(if b_wait_end b \<noteq> None then retract_waiting config q b amount
             else retract_active st config q b s ?k amount) = Inr (w, q1)"
      using ret by (simp add: retract_bid_def Let_def ld 4 5 rbind_eq_Inr split del: if_split) blast
    note 1 = 2 1 3 4 5 6
    let ?q' = "q1\<lparr>q_bid_asset := (q_bid_asset q1)\<lparr>a_amount := queue_amount q1 - w\<rparr>\<rparr>"
    have "st' = queues_save st ?k ?q' \<and> w \<le> queue_amount q1 \<and>
      messages r = (if w = 0 then [] else
       [BankSend (sender info) [\<lparr>c_denom = ai_denom (a_info (q_bid_asset q1)), c_amount = w\<rparr>]])"
      using ret by (cases "w = 0")
        (auto simp: retract_bid_def Let_def ld 4 5 6 rbind_eq_Inr map_err_eq_Inr uint256_ok int_ok
          withdrawal_msg_ok uint256_is_zero_def split del: if_split simp del: not_None_eq)
    with *[OF 1 _ _ refl] show thesis by blast
  qed
  have qi: "queue_inv q" using inv load(1) by (auto simp: lq_inv_def)
  note rd = read_bid_ok[OF qi b(1)]
  have found: "find_slot q (premium_key (b_liq_premium b)) = Some s"
    using s by (simp add: read_premium_slot_find)
  have bin: "bid_in s b" using rd(2) found by (auto simp: present_def)
  have cases: "b_wait_end b \<noteq> None \<and> retract_waiting config q b amount = Inr (w, q1) \<or>
     b_wait_end b = None \<and> retract_active st config q b s ?k amount = Inr (w, q1)"
    using w by (auto split: if_splits)
  then have "queue_inv q1"
    using retract_waiting_ok(1)[OF qi found bin] retract_active_ok[OF qi found bin] by metis
  then show ?thesis
    by (rule that[OF load out(1) b(1) rd(1) b(2) found bin cases _ out(2-4)])
qed

lemma execute_liquidation_ok:
  assumes inv: "lq_inv st"
    and liq: "execute_liquidation L st env info amount asset price credit = Inr (st', r)"
  obtains q q1 config price256 st1 remaining repay where
    "QUEUES st (asset_info_to_string asset) = Some q" "CONFIG st = Some config"
    "sender info = lqc_positions_contract config" "a_info (q_bid_asset q) = lqc_bid_asset config"
    "to_decimal256 L price = Inr price256"
    "liquidation_loop L env config (asset_info_to_string asset) price256 credit
       [0..<q_max_premium q + 1] st q amount 0 = Inr (st1, q1, remaining, repay)"
    "queue_inv q1" "queue_balance q1 = queue_balance q + int repay" "repay \<le> queue_amount q1"
    "remaining \<le> amount"
    "st' = queues_save st1 (asset_info_to_string asset)
       (q1\<lparr>q_bid_asset := (q_bid_asset q1)\<lparr>a_amount := queue_amount q1 - repay\<rparr>\<rparr>)"
    "QUEUES st1 = QUEUES st" "CONFIG st1 = CONFIG st" "a_info (q_bid_asset q1) = a_info (q_bid_asset q)"
    "messages r = (if repay = 0 then [] else
       [WasmExecute (lqc_osmosis_proxy_contract config)
          (BurnTokens (asset_info_to_string (a_info (q_bid_asset q))) repay (contract_address env)) []])"
    "(''repay_amount'', ANum repay) \<in> set (attributes r)"
    "(''collateral_amount'', ANum (amount - remaining)) \<in> set (attributes r)"
proof -
  let ?k = "asset_info_to_string asset"
  from liq obtain config where 1: "CONFIG st = Some config"
    by (auto simp: execute_liquidation_def Let_def rbind_eq_Inr load_ok map_err_eq_Inr simp del: rbind_Inr)
  have 2: "sender info = lqc_positions_contract config"
    using liq by (auto simp: execute_liquidation_def Let_def config_load_def 1 split: if_splits)
  from liq obtain q where 3: "QUEUES st ?k = Some q"
    by (auto simp: execute_liquidation_def Let_def config_load_def 1 2 rbind_eq_Inr load_ok map_err_eq_Inr
        simp del: rbind_Inr)
  note ld = config_load_def queues_load_def 1 2 3
  have 4: "a_info (q_bid_asset q) = lqc_bid_asset config"
    using liq by (auto simp: execute_liquidation_def Let_def ld split: if_splits)
  from liq obtain price256 where 5: "to_decimal256 L price = Inr price256"
    by (auto simp: execute_liquidation_def Let_def ld 4 rbind_eq_Inr map_err_eq_Inr simp del: rbind_Inr)
  from liq obtain st1 q1 remaining repay where
    6: "liquidation_loop L env config ?k price256 credit [0..<q_max_premium q + 1] st q amount 0
      = Inr (st1, q1, remaining, repay)"
    by (auto simp: execute_liquidation_def Let_def ld 4 5 rbind_eq_Inr int_ok uint256_zero_def
        simp del: rbind_Inr upt_Suc split: if_splits)
  have qi: "queue_inv q" using inv 3 by (auto simp: lq_inv_def)
  note lp = liquidation_loop_ok[OF 6 qi]
  have 7: "repay \<le> queue_amount q1 \<and> st' = queues_save st1 ?k
       (q1\<lparr>q_bid_asset := (q_bid_asset q1)\<lparr>a_amount := queue_amount q1 - repay\<rparr>\<rparr>) \<and>
    messages r = (if repay = 0 then [] else
       [WasmExecute (lqc_osmosis_proxy_contract config)
          (BurnTokens (asset_info_to_string (a_info (q_bid_asset q))) repay (contract_address env)) []]) \<and>
    (''repay_amount'', ANum repay) \<in> set (attributes r) \<and>
    (''collateral_amount'', ANum (amount - remaining)) \<in> set (attributes r)"
  proof -
    have le: "remaining \<le> amount" and info: "a_info (q_bid_asset q1) = lqc_bid_asset config"
      using lp 4 by simp_all
    have "(if \<not> uint256_is_zero remaining then uint256_sub amount remaining else Inr amount)
        = (Inr (amount - remaining) :: nat lq_result)"
      using le by (auto simp: uint256_is_zero_def uint256_sub_def u256_sub_def)
    note c = this
    have small: "q_max_premium q + 1 < U128_BOUND"
      using liq by (auto simp: execute_liquidation_def Let_def ld 4 5 rbind_eq_Inr int_ok
          simp del: rbind_Inr upt_Suc split: if_splits)
    then have mp: "u128_add (q_max_premium q) 1 = (Inr (q_max_premium q + 1) :: nat lq_result)"
      by (simp add: u128_add_def)
    note liq2 = liq[unfolded execute_liquidation_def Let_def ld, simplified ld 2 4 5 option.case ok_or_simps
        map_err_simps rbind_Inr mp uint256_zero_def 6 prod.case c if_False not_not HOL.simp_thms]
    have small': "repay < U128_BOUND \<and> repay \<le> queue_amount q1"
      using liq2 by (auto simp: rbind_eq_Inr uint256_ok split: if_splits)
    then have into: "uint256_into_u128 repay = (Inr repay :: nat lq_result)"
      by (simp add: uint256_ok)
    show ?thesis
      using liq2 small' by (auto simp: into info 4[symmetric] uint256_is_zero_def)
  qed
  show ?thesis
    by (rule that[OF 3 1 2 4 5 6]) (use lp 7 in auto)
qed

lemma claim_liquidations_ok:
  assumes inv: "lq_inv st" and cl: "claim_liquidations st env info asset ids = Inr (st', r)"
  obtains q q' bs total where
    "QUEUES st (asset_info_to_string asset) = Some q" "claim_bids q info ids = Inr bs"
    "rfold (claim_step st env info (asset_info_to_string asset)) bs (q, 0) = Inr (q', total)"
    "st' = queues_save st (asset_info_to_string asset) q'"
    "queue_inv q'" "queue_balance q' = queue_balance q" "q_bid_asset q' = q_bid_asset q"
    "\<forall>b\<in>set bs. b_user b = sender info \<and> present q b"
    "messages r = (if total = 0 then [] else
       [BankSend (sender info) [\<lparr>c_denom = ai_denom asset, c_amount = total\<rparr>]])"
    "total \<noteq> 0 \<longrightarrow> is_native_token asset"
proof -
  let ?k = "asset_info_to_string asset"
  from cl obtain q where 1: "QUEUES st ?k = Some q"
    by (auto simp: claim_liquidations_def Let_def rbind_eq_Inr load_ok map_err_eq_Inr simp del: rbind_Inr)
  from cl obtain bs where 2: "claim_bids q info ids = Inr bs"
    by (auto simp: claim_liquidations_def Let_def queues_load_def 1 rbind_eq_Inr simp del: rbind_Inr)
  from cl obtain q' total where
    3: "rfold (claim_step st env info ?k) bs (q, 0) = Inr (q', total)"
    by (auto simp: claim_liquidations_def Let_def queues_load_def 1 2 rbind_eq_Inr uint256_zero_def
        simp del: rbind_Inr)
  have 4: "st' = queues_save st ?k q' \<and> messages r = (if total = 0 then [] else
       [BankSend (sender info) [\<lparr>c_denom = ai_denom asset, c_amount = total\<rparr>]]) \<and>
    (total \<noteq> 0 \<longrightarrow> is_native_token asset)"
    using cl by (auto simp: claim_liquidations_def Let_def queues_load_def 1 2 3 rbind_eq_Inr
        map_err_eq_Inr uint256_zero_def uint256_is_zero_def uint256_ok withdrawal_msg_ok
        split: if_splits)
  have qi: "queue_inv q" using inv 1 by (auto simp: lq_inv_def)
  note cb = claim_bids_ok[OF qi 2]
  from claim_loop_ok[OF qi cb 3] 4 cb(1) that[OF 1 2 3] show ?thesis by blast
qed

section \<open>Managing queues\<close>

lemma fresh_slot_vacant:
  assumes "fresh_slot p = (Inr s :: PremiumSlot lq_result)"
  shows "vacant s" "slot_ok n s" "slot_ids s = []" "s_liq_premium s = premium_key p"
  using assms
  by (auto simp: fresh_slot_def res_ok vacant_def slot_ok_def slot_ids_def uint256_zero_def premium_key_def)

lemma fresh_slots:
  assumes "rmapM fresh_slot ps = (Inr slots :: PremiumSlot list lq_result)"
  shows "list_all vacant slots" "list_all (slot_ok n) slots" "slots_ids slots = []"
    "map s_liq_premium slots = map premium_key ps"
proof -
  have "list_all2 (\<lambda>p s. fresh_slot p = (Inr s :: PremiumSlot lq_result)) ps slots" using assms by (simp add: rmapM_eq_Inr)
  then have "list_all vacant slots \<and> list_all (slot_ok n) slots \<and> slots_ids slots = [] \<and>
    map s_liq_premium slots = map premium_key ps"
    by (induction rule: list_all2_induct)
      (auto simp: slots_ids_def dest: fresh_slot_vacant(1,3,4) fresh_slot_vacant(2)[of _ _ n])
  then show "list_all vacant slots" "list_all (slot_ok n) slots" "slots_ids slots = []"
    "map s_liq_premium slots = map premium_key ps" by simp_all
qed

lemma vacant_shadows: "list_all vacant slots \<Longrightarrow> shadows_vacant slots"
  by (induction slots) (auto simp: list_all_iff)

lemma slots_inv_append_fresh:
  assumes "slots_inv n slots"
    and "rmapM fresh_slot ps = (Inr new :: PremiumSlot list lq_result)"
  shows "slots_inv n (slots @ new)" and "slot_totals (slots @ new) = slot_totals slots"
proof -
  note f = fresh_slots[OF assms(2)]
  have "shadows_vacant (slots @ new)"
    using assms(1) f(1) vacant_shadows[OF f(1)]
    by (auto simp: shadows_vacant_append slots_inv_def list_all_iff)
  then show "slots_inv n (slots @ new)"
    using assms(1) f(2)[of n] f(3) by (simp add: slots_inv_def slots_ids_def del: concat_eq_Nil_conv)
  show "slot_totals (slots @ new) = slot_totals slots"
    using f(1) by (simp add: slot_totals_def list_all_iff vacant_def sum_list_eq_0_iff)
qed

lemma edit_queue_ok:
  assumes inv: "lq_inv st" and ed: "edit_queue st info asset max_premium threshold = Inr (st', r)"
  obtains q q' new config where
    "CONFIG st = Some config" "sender info = lqc_owner config"
    "QUEUES st (asset_info_to_string asset) = Some q"
    "st' = queues_save st (asset_info_to_string asset) q'"
    "q_slots q' = q_slots q @ new" "rmapM fresh_slot [q_max_premium q + 1..<q_max_premium q' + 1]
      = (Inr new :: PremiumSlot list lq_result)"
    "q_current_bid_id q' = q_current_bid_id q" "q_bid_asset q' = q_bid_asset q"
    "max_premium = None \<and> q_max_premium q' = q_max_premium q \<or>
     max_premium = Some (q_max_premium q') \<and> q_max_premium q' \<in> {1..50}"
    "threshold = None \<and> q_bid_threshold q' = q_bid_threshold q \<or>
     threshold = Some (q_bid_threshold q') \<and> q_bid_threshold q' \<in> {1000000..10000000}"
    "queue_inv q'" "queue_balance q' = queue_balance q"
proof -
  let ?k = "asset_info_to_string asset"
  from ed obtain config where 1: "CONFIG st = Some config"
    by (auto simp: edit_queue_def Let_def rbind_eq_Inr load_ok map_err_eq_Inr simp del: rbind_Inr)
  have 2: "sender info = lqc_owner config"
    using ed by (auto simp: edit_queue_def Let_def config_load_def 1 split: if_splits)
  from ed obtain q where 3: "QUEUES st ?k = Some q"
    by (auto simp: edit_queue_def Let_def config_load_def 1 2 rbind_eq_Inr load_ok map_err_eq_Inr
        simp del: rbind_Inr)
  define mp where "mp = (case max_premium of None \<Rightarrow> q_max_premium q | Some m \<Rightarrow> m)"
  define thr where "thr = (case threshold of None \<Rightarrow> q_bid_threshold q | Some t \<Rightarrow> t)"
  note ev = edit_queue_def Let_def config_load_def queues_load_def 1 2 3 mp_def thr_def
  have m: "max_premium = None \<and> mp = q_max_premium q \<or> max_premium = Some mp \<and> mp \<in> {1..50}"
    using ed by (auto simp: ev split: if_splits option.splits)
  have t: "threshold = None \<and> thr = q_bid_threshold q \<or>
      threshold = Some thr \<and> thr \<in> {1000000..10000000}"
    using ed by (auto simp: ev rbind_eq_Inr split: if_splits option.splits)
  obtain new where new: "rmapM fresh_slot [q_max_premium q + 1..<mp + 1]
      = (Inr new :: PremiumSlot list lq_result)"
  proof (cases "mp \<le> q_max_premium q")
    case True
    then show ?thesis using that[of "[]"] by simp
  next
    case False
    then have n: "max_premium = Some mp" "mp \<in> {1..50}" using m by auto
    then show ?thesis using ed that False
      by (auto simp: edit_queue_def Let_def config_load_def queues_load_def 1 2 3 rbind_eq_Inr
          simp del: upt_Suc rbind_Inr split: if_splits)
  qed
  let ?q' = "q\<lparr>q_slots := q_slots q @ new, q_max_premium := mp, q_bid_threshold := thr\<rparr>"
  have thr: "(case threshold of None \<Rightarrow> Inr x | Some t \<Rightarrow>
        if 10000000 < t \<or> t < 1000000 then Inl (Failed InvalidBidThreshold)
        else Inr (x\<lparr>q_bid_threshold := t\<rparr>)) = (Inr (x\<lparr>q_bid_threshold := thr\<rparr>) :: Queue lq_result)"
    if "q_bid_threshold x = q_bid_threshold q" for x
  proof (cases threshold)
    case None
    with that show ?thesis by (cases x) (simp add: thr_def)
  next
    case (Some u)
    with t have "u = thr" "u \<in> {1000000..10000000}" by auto
    with Some show ?thesis by simp
  qed
  have "st' = queues_save st ?k ?q'"
  proof (cases max_premium)
    case None
    then have "new = []" "q\<lparr>q_max_premium := mp\<rparr> = q" using new by (simp_all add: mp_def)
    moreover from this have "?q' = q\<lparr>q_bid_threshold := thr\<rparr>" by (cases q) simp
    ultimately show ?thesis using ed None by (simp add: edit_queue_def Let_def config_load_def
          queues_load_def 1 2 3 thr)
  next
    case (Some n)
    then have n: "n = mp" "n \<in> {1..50}" using m by auto
    show ?thesis
    proof (cases "n \<le> q_max_premium q")
      case True
      with new n(1) have "new = []" by simp
      then have "?q' = q\<lparr>q_max_premium := mp\<rparr>\<lparr>q_bid_threshold := thr\<rparr>" by (cases q) simp
      then show ?thesis using ed Some n True by (auto simp: edit_queue_def Let_def config_load_def
          queues_load_def 1 2 3 thr split: if_splits)
    next
      case False
      then show ?thesis using ed Some n new by (auto simp: edit_queue_def Let_def config_load_def
          queues_load_def 1 2 3 thr simp del: upt_Suc split: if_splits)
    qed
  qed
  have "slots_inv (q_current_bid_id q) (q_slots q)"
    using inv 3 by (auto simp: lq_inv_def queue_inv_def)
  note ap = slots_inv_append_fresh[OF this new]
  show ?thesis
    by (rule that[OF 1 2 3 \<open>st' = queues_save st ?k ?q'\<close>, of new])
      (use ap m t new in \<open>simp_all add: queue_inv_def queue_balance_def del: upt_Suc\<close>)
qed

lemma add_queue_ok:
  assumes ad: "add_queue st info asset max_premium threshold = Inr (st', r)"
  obtains config slots q' where
    "CONFIG st = Some config"
    "sender info = lqc_owner config \<or> sender info = lqc_positions_contract config"
    "QUEUES st (asset_info_to_string asset) = None"
    "rmapM fresh_slot [0..<(max_premium + 1) mod U64_BOUND] = (Inr slots :: PremiumSlot list lq_result)"
    "q' = \<lparr>q_bid_asset = \<lparr>a_info = lqc_bid_asset config, a_amount = 0\<rparr>, q_max_premium = max_premium,
       q_slots = slots, q_current_bid_id = 1, q_bid_threshold = threshold\<rparr>"
    "QUEUES st' = (QUEUES st)(asset_info_to_string asset \<mapsto> q')"
    "EPOCH_SCALE_SUM st' = EPOCH_SCALE_SUM st"
    "queue_inv q'" "queue_balance q' = 0"
proof -
  let ?k = "asset_info_to_string asset"
  from ad obtain config where 1: "CONFIG st = Some config"
    by (auto simp: add_queue_def Let_def rbind_eq_Inr load_ok map_err_eq_Inr simp del: rbind_Inr)
  have 2: "sender info = lqc_owner config \<or> sender info = lqc_positions_contract config"
    using ad by (auto simp: add_queue_def Let_def config_load_def 1 split: if_splits)
  from ad 2 obtain slots where
    3: "rmapM fresh_slot [0..<(max_premium + 1) mod U64_BOUND] = (Inr slots :: PremiumSlot list lq_result)"
    by (auto simp: add_queue_def Let_def config_load_def 1 rbind_eq_Inr int_ok simp del: rbind_Inr
        split: if_splits)
  let ?q = "\<lparr>q_bid_asset = \<lparr>a_info = lqc_bid_asset config, a_amount = 0\<rparr>, q_max_premium = max_premium,
       q_slots = slots, q_current_bid_id = 1, q_bid_threshold = threshold\<rparr>"
  have 4: "QUEUES st ?k = None \<and> QUEUES st' = (QUEUES st)(?k \<mapsto> ?q) \<and>
      EPOCH_SCALE_SUM st' = EPOCH_SCALE_SUM st"
    using ad 2 by (auto simp: add_queue_def Let_def config_load_def 1 3 3[simplified] rbind_eq_Inr
        int_ok unwrap_eq_Inr split: if_splits option.splits)
  have "slots_inv 1 []" by (simp add: slots_inv_def slots_ids_def)
  note ap = slots_inv_append_fresh[OF this 3]
  have 5: "queue_inv ?q" "queue_balance ?q = 0"
    using ap by (simp_all add: queue_inv_def queue_balance_def slot_totals_def)
  from 4 have 6: "QUEUES st ?k = None" "QUEUES st' = (QUEUES st)(?k \<mapsto> ?q)"
    "EPOCH_SCALE_SUM st' = EPOCH_SCALE_SUM st" by blast+
  show ?thesis by (rule that[OF 1 2 6(1) 3 refl 6(2,3) 5])
qed

lemma update_config_steps:
  assumes "lq_update_config L st info owner pc op w m x = Inr (st', r)"
  obtains config config1 st1 attrs c where
    "CONFIG st = Some config"
    "sender info = lqc_owner config \<and> config1 = config \<or>
     OWNERSHIP_TRANSFER st = Some (sender info) \<and> config1 = config\<lparr>lqc_owner := sender info\<rparr>"
    "owner = None \<and> st1 = st \<or>
     (\<exists>new a. owner = Some new \<and> lib_addr_validate L new = Inr a \<and>
        st1 = st\<lparr>OWNERSHIP_TRANSFER := Some a\<rparr>)"
    "lqc_owner c = lqc_owner config1" "lqc_bid_asset c = lqc_bid_asset config1"
    "lqc_added_assets c = lqc_added_assets config1"
    "st' = st1\<lparr>CONFIG := Some c\<rparr>"
proof -
  from assms obtain config config1 st1 attrs c1 c2 where
    1: "CONFIG st = Some config"
    and 2: "(if sender info \<noteq> lqc_owner config then
              rbind (map_err Std (ok_or (NotFound ''Addr'') (OWNERSHIP_TRANSFER st))) (\<lambda>pending.
              if sender info = pending then Inr (config\<lparr>lqc_owner := sender info\<rparr>)
              else Inl (Failed Unauthorized))
            else Inr config) = Inr config1"
    and 3: "(case owner of None \<Rightarrow> Inr (st, [])
            | Some owner \<Rightarrow> rbind (map_err Std (lib_addr_validate L owner)) (\<lambda>valid_addr.
                Inr (st\<lparr>OWNERSHIP_TRANSFER := Some valid_addr\<rparr>,
                     [(''owner_transfer'', AText valid_addr)])))
        = (Inr (st1, attrs) :: (lq_storage \<times> lq_config attr list) lq_result)"
    and 4: "(case pc of None \<Rightarrow> Inr config1
            | Some p \<Rightarrow> rbind (map_err Std (lib_addr_validate L p)) (\<lambda>a.
                Inr (config1\<lparr>lqc_positions_contract := a\<rparr>))) = Inr c1"
    and 5: "(case op of None \<Rightarrow> Inr c1
            | Some p \<Rightarrow> rbind (map_err Std (lib_addr_validate L p)) (\<lambda>a.
                Inr (c1\<lparr>lqc_osmosis_proxy_contract := a\<rparr>))) = Inr c2"
    and 6: "st1\<lparr>CONFIG := Some (let config = (case w of None \<Rightarrow> c2 | Some w \<Rightarrow> c2\<lparr>lqc_waiting_period := w\<rparr>);
         config = (case m of None \<Rightarrow> config | Some m \<Rightarrow> config\<lparr>lqc_minimum_bid := m\<rparr>)
         in case x of None \<Rightarrow> config | Some m \<Rightarrow> config\<lparr>lqc_maximum_waiting_bids := m\<rparr>)\<rparr> = st'"
    unfolding lq_update_config_def
    by (simp only: rbind_eq_Inr map_err_eq_Inr load_ok Let_def split_paired_Ex prod.case sum.inject
        prod.inject) (elim exE conjE, blast)
  let ?c = "let config = (case w of None \<Rightarrow> c2 | Some w \<Rightarrow> c2\<lparr>lqc_waiting_period := w\<rparr>);
         config = (case m of None \<Rightarrow> config | Some m \<Rightarrow> config\<lparr>lqc_minimum_bid := m\<rparr>)
         in case x of None \<Rightarrow> config | Some m \<Rightarrow> config\<lparr>lqc_maximum_waiting_bids := m\<rparr>"
  have c1: "lqc_owner c1 = lqc_owner config1 \<and> lqc_bid_asset c1 = lqc_bid_asset config1 \<and>
      lqc_added_assets c1 = lqc_added_assets config1"
    using 4 by (cases pc) (auto simp: rbind_eq_Inr)
  have c2: "lqc_owner c2 = lqc_owner c1 \<and> lqc_bid_asset c2 = lqc_bid_asset c1 \<and>
      lqc_added_assets c2 = lqc_added_assets c1"
    using 5 by (cases op) (auto simp: rbind_eq_Inr)
  have c: "lqc_owner ?c = lqc_owner c2" "lqc_bid_asset ?c = lqc_bid_asset c2"
      "lqc_added_assets ?c = lqc_added_assets c2"
    by (cases w; cases m; cases x; simp)+
  show ?thesis
    by (rule that[OF 1 _ _ _ _ _ 6[symmetric]])
      (use 2 3 c c1 c2 in \<open>auto simp: rbind_eq_Inr map_err_eq_Inr ok_or_eq_Inr
        split: if_splits option.splits\<close>)
qed

lemma update_config_queues:
  assumes "lq_update_config L st info owner pc op w m x = Inr (st', r)"
  shows "QUEUES st' = QUEUES st \<and> EPOCH_SCALE_SUM st' = EPOCH_SCALE_SUM st"
  using assms by (rule update_config_steps) auto

lemma lq_inv_save: "lq_inv st \<Longrightarrow> queue_inv q \<Longrightarrow> lq_inv (queues_save st k q)"
  by (auto simp: lq_inv_def)

theorem lq_execute_inv:
  assumes "lq_inv st" and "lq_execute L st env info m = Inr (st', r)"
  shows "lq_inv st'"
proof (cases m)
  case (SubmitBid bi owner)
  with assms(2) have "submit_bid L st info env bi owner = Inr (st', r)" by simp
  then show ?thesis by (rule submit_bid_ok[OF assms(1)]) (simp add: lq_inv_save assms(1))
next
  case (RetractBid i asset amount)
  with assms(2) have "retract_bid st info env i asset amount = Inr (st', r)" by simp
  then show ?thesis by (rule retract_bid_ok[OF assms(1)]) (simp add: lq_inv_save assms(1))
next
  case (LqLiquidate cp p amount asset)
  with assms(2) have "execute_liquidation L st env info amount asset p cp = Inr (st', r)" by simp
  then show ?thesis
  proof (rule execute_liquidation_ok[OF assms(1)])
    fix k q1 st1 x
    assume "st' = queues_save st1 k (q1\<lparr>q_bid_asset := x\<rparr>)" "queue_inv q1" "QUEUES st1 = QUEUES st"
    with assms(1) show "lq_inv st'" by (simp add: lq_inv_def)
  qed
next
  case (ClaimLiquidations asset ids)
  with assms(2) have "claim_liquidations st env info asset ids = Inr (st', r)" by simp
  then show ?thesis by (rule claim_liquidations_ok[OF assms(1)]) (simp add: lq_inv_save assms(1))
next
  case (AddQueue asset mp thr)
  with assms(2) have "add_queue st info asset mp thr = Inr (st', r)" by simp
  then show ?thesis by (rule add_queue_ok) (use assms(1) in \<open>simp add: lq_inv_def\<close>)
next
  case (UpdateQueue asset mp thr)
  with assms(2) have "edit_queue st info asset mp thr = Inr (st', r)" by simp
  then show ?thesis by (rule edit_queue_ok[OF assms(1)]) (simp add: lq_inv_save assms(1))
next
  case (LqUpdateConfig owner pc op w mb mw)
  with assms(2) have "lq_update_config L st info owner pc op w mb mw = Inr (st', r)" by simp
  from update_config_queues[OF this] show ?thesis using assms(1) by (simp add: lq_inv_def)
qed

section \<open>Runs\<close>

definition lq_step ::
  "chain_lib \<Rightarrow> Env \<times> MessageInfo \<times> lq_ExecuteMsg \<Rightarrow> lq_storage \<Rightarrow>
   (lq_storage \<times> lq_response) lq_result" where
  "lq_step L = (\<lambda>(env, info, m) st. lq_execute L st env info m)"

interpretation lq: transactions "lq_step L" lq_inv for L
  by unfold_locales (auto simp: lq_step_def intro: lq_execute_inv)

lemma lq_inv_instantiate:
  "lq_instantiate L st env info msg = Inr (st', r) \<Longrightarrow> QUEUES st = Map.empty \<Longrightarrow> lq_inv st'"
  by (auto simp: lq_instantiate_def rbind_eq_Inr Let_def lq_inv_def)

end
