(* ===== verification/Liq_Query.thy ===== *)
theory Liq_Query
  imports Liq_Contract
begin

text \<open>
  Liquidation queue: the read-only entry point (\<open>contracts/liq-queue/src/query.rs\<close> and
  \<open>contract.rs::query\<close>). Responses are the typed values the code serialises.
\<close>

record QueueResponse =
  qr_bid_asset :: Asset
  qr_max_premium :: uint128
  qr_current_bid_id :: uint128
  qr_bid_threshold :: uint256

record SlotResponse =
  sr_bids :: "Bid list"
  sr_waiting_bids :: "Bid list"
  sr_liq_premium :: string
  sr_sum_snapshot :: string
  sr_product_snapshot :: string
  sr_total_bid_amount :: string
  sr_current_epoch :: uint128
  sr_current_scale :: uint128
  sr_residue_collateral :: string
  sr_residue_bid :: string

record BidResponse =
  br_user :: string
  br_id :: uint128
  br_amount :: uint256
  br_liq_premium :: u8
  br_product_snapshot :: decimal256
  br_sum_snapshot :: decimal256
  br_pending_liquidated_collateral :: uint256
  br_wait_end :: "u64 option"
  br_epoch_snapshot :: uint128
  br_scale_snapshot :: uint128

record lq_ClaimsResponse =
  cr_bid_for :: string
  cr_pending_liquidated_collateral :: uint256

record lq_LiquidatibleResponse =
  lr_leftover_collateral :: string
  lr_total_debt_repaid :: string

datatype lq_QueryMsg =
    QConfig
  | QBid AssetInfo uint128
  | QBidsByUser AssetInfo string "nat option" "uint128 option"
  | QQueue AssetInfo
  | QQueues "AssetInfo option" "u8 option"
  | QCheckLiquidatible AssetInfo PriceResponse uint256 AssetInfo PriceResponse
      \<comment> \<open>\<open>bid_for\<close>, collateral price, collateral amount, credit asset, credit price\<close>
  | QUserClaims string
  | QPremiumSlot AssetInfo u64
  | QPremiumSlots AssetInfo "u64 option" "u8 option"

definition into_queue_response :: "Queue \<Rightarrow> QueueResponse" where
  "into_queue_response q =
     \<lparr>qr_bid_asset = q_bid_asset q, qr_max_premium = q_max_premium q,
      qr_current_bid_id = q_current_bid_id q, qr_bid_threshold = q_bid_threshold q\<rparr>"

fun position :: "('a \<Rightarrow> bool) \<Rightarrow> 'a list \<Rightarrow> nat option" where
  "position P [] = None"
| "position P (x # xs) = (if P x then Some 0 else map_option Suc (position P xs))"

definition load_queue_response ::
  "lq_storage \<Rightarrow> AssetInfo \<Rightarrow> (std_error, QueueResponse) result" where
  "load_queue_response st asset =
     rbind (queues_load st (asset_info_to_string asset)) (\<lambda>queue. Inr (into_queue_response queue))"

definition query_queues ::
  "lq_storage \<Rightarrow> AssetInfo option \<Rightarrow> u8 option \<Rightarrow> (std_error, QueueResponse list) result" where
  "query_queues st start_after limit =
     rbind (config_load st) (\<lambda>config.
     rbind (unwrap (lqc_added_assets config)) (\<lambda>asset_list.
     let limit = (case limit of Some l \<Rightarrow> l | None \<Rightarrow> 31) in
     case start_after of
       Some start_after \<Rightarrow>
         rbind (unwrap (position (\<lambda>info. asset_info_equal info start_after) asset_list)) (\<lambda>start.
         rmapM (load_queue_response st) (drop start asset_list))
     | None \<Rightarrow> rmapM (load_queue_response st) (take limit asset_list)))"

text \<open>One slot of \<open>query_liquidatible\<close>: what it would repay and what collateral stays over.\<close>

definition liquidatible_step ::
  "chain_lib \<Rightarrow> PriceResponse \<Rightarrow> PriceResponse \<Rightarrow> PremiumSlot \<Rightarrow> uint256 \<times> uint256 \<Rightarrow>
   (std_error, uint256 \<times> uint256) result" where
  "liquidatible_step L collateral_price credit_price slot = (\<lambda>(remaining, total_credit_repaid).
     if uint256_is_zero (s_total_bid_amount slot) \<or> uint256_is_zero remaining
     then Inr (remaining, total_credit_repaid)
     else
       let slot_total = s_total_bid_amount slot in
       rbind (to_decimal256 L collateral_price) (\<lambda>collateral_price.
       rbind (to_decimal256 L credit_price) (\<lambda>credit_price.
       rbind (d256_sub d256_one (s_liq_premium slot)) (\<lambda>discount.
       rbind (d256_mul (p256_price collateral_price) discount) (\<lambda>premium_price.
       let collateral_price = collateral_price\<lparr>p256_price := premium_price\<rparr> in
       rbind (price256_get_value collateral_price remaining) (\<lambda>remaining_value.
       rbind (price256_get_amount credit_price remaining_value) (\<lambda>slot_required_stable.
       rbind (if slot_total < slot_required_stable then
                rbind (price256_get_value credit_price slot_total) (\<lambda>stable_value.
                rbind (price256_get_amount collateral_price stable_value)
                  (\<lambda>slot_collateral_to_liquidate.
                rbind (uint256_sub remaining slot_collateral_to_liquidate) (\<lambda>remaining.
                Inr (slot_total, remaining))))
              else Inr (slot_required_stable, uint256_zero)) (\<lambda>(slot_required_stable, remaining).
       rbind (uint256_add_assign total_credit_repaid slot_required_stable)
         (\<lambda>total_credit_repaid. Inr (remaining, total_credit_repaid))))))))))"

definition query_liquidatible ::
  "chain_lib \<Rightarrow> lq_storage \<Rightarrow> AssetInfo \<Rightarrow> PriceResponse \<Rightarrow> uint256 \<Rightarrow> AssetInfo \<Rightarrow>
   PriceResponse \<Rightarrow> (std_error, lq_LiquidatibleResponse) result" where
  "query_liquidatible L st bid_for collateral_price collateral_amount credit_info credit_price =
     rbind (case queues_load st (asset_info_to_string bid_for) of
              Inl _ \<Rightarrow> Inl (Failed (GenericErr ''Queue for this asset doesn't exist''))
            | Inr queue \<Rightarrow>
                (if \<not> asset_info_equal (a_info (q_bid_asset queue)) credit_info
                 then Inl (Failed (GenericFmtText ''Invalid bid denomination for {}''
                        (asset_info_to_string bid_for)))
                 else Inr queue)) (\<lambda>queue.
     rbind (rfold (liquidatible_step L collateral_price credit_price) (q_slots queue)
              (collateral_amount, uint256_zero)) (\<lambda>(remaining, total_credit_repaid).
     Inr \<lparr>lr_leftover_collateral = u256_to_string (lib_text L) remaining,
          lr_total_debt_repaid = uint256_to_string (lib_text L) total_credit_repaid\<rparr>))"

definition slot_response :: "chain_lib \<Rightarrow> PremiumSlot \<Rightarrow> (std_error, SlotResponse) result" where
  "slot_response L slot =
     rbind (d256_to_string (lib_text L) (s_liq_premium slot)) (\<lambda>liq_premium.
     rbind (d256_to_string (lib_text L) (s_sum_snapshot slot)) (\<lambda>sum_snapshot.
     rbind (d256_to_string (lib_text L) (s_product_snapshot slot)) (\<lambda>product_snapshot.
     rbind (d256_to_string (lib_text L) (s_residue_collateral slot)) (\<lambda>residue_collateral.
     rbind (d256_to_string (lib_text L) (s_residue_bid slot)) (\<lambda>residue_bid.
     Inr \<lparr>sr_bids = s_bids slot, sr_waiting_bids = s_waiting_bids slot,
          sr_liq_premium = liq_premium, sr_sum_snapshot = sum_snapshot,
          sr_product_snapshot = product_snapshot,
          sr_total_bid_amount = uint256_to_string (lib_text L) (s_total_bid_amount slot),
          sr_current_epoch = s_current_epoch slot, sr_current_scale = s_current_scale slot,
          sr_residue_collateral = residue_collateral, sr_residue_bid = residue_bid\<rparr>)))))"

definition query_premium_slot ::
  "chain_lib \<Rightarrow> lq_storage \<Rightarrow> AssetInfo \<Rightarrow> u64 \<Rightarrow> (std_error, SlotResponse) result" where
  "query_premium_slot L st bid_for premium =
     rbind (queues_load st (asset_info_to_string bid_for)) (\<lambda>queue.
     rbind (d256_percent premium) (\<lambda>p.
     case find (\<lambda>temp_slot. s_liq_premium temp_slot = p) (q_slots queue) of
       Some slot \<Rightarrow> slot_response L slot
     | None \<Rightarrow> Inl (Failed (GenericErr ''Invalid premium''))))"

text \<open>The iterator is lazy: the filter looks at slots only until \<open>limit\<close> of them passed.\<close>

fun slots_after :: "u64 \<Rightarrow> nat \<Rightarrow> PremiumSlot list \<Rightarrow> (std_error, PremiumSlot list) result" where
  "slots_after start_after 0 slots = Inr []"
| "slots_after start_after (Suc n) [] = Inr []"
| "slots_after start_after (Suc n) (slot # slots) =
     rbind (d256_from_uint256 (uint256_from_u128 100)) (\<lambda>hundred.
     rbind (d256_mul (s_liq_premium slot) hundred) (\<lambda>percent.
     rbind (d256_from_uint256 (uint256_from_u128 start_after)) (\<lambda>start.
     if start < percent then
       rbind (slots_after start_after n slots) (\<lambda>rest. Inr (slot # rest))
     else slots_after start_after (Suc n) slots)))"

definition query_premium_slots ::
  "chain_lib \<Rightarrow> lq_storage \<Rightarrow> AssetInfo \<Rightarrow> u64 option \<Rightarrow> u8 option \<Rightarrow>
   (std_error, SlotResponse list) result" where
  "query_premium_slots L st bid_for start_after limit =
     rbind (queues_load st (asset_info_to_string bid_for)) (\<lambda>queue.
     rbind (u128_add (q_max_premium queue) 1) (\<lambda>n.
     let limit = min (case limit of Some l \<Rightarrow> l | None \<Rightarrow> n mod 256) (n mod 256) in
     case start_after of
       Some start_after \<Rightarrow>
         rbind (slots_after start_after limit (q_slots queue)) (rmapM (slot_response L))
     | None \<Rightarrow> rmapM (slot_response L) (take limit (q_slots queue))))"

definition query_bid ::
  "lq_storage \<Rightarrow> AssetInfo \<Rightarrow> uint128 \<Rightarrow> (std_error, BidResponse) result" where
  "query_bid st bid_for_info bid_id =
     (let bid_for = asset_info_to_string bid_for_info in
      rbind (queues_load st bid_for) (\<lambda>queue.
      rbind (read_bid bid_id queue) (\<lambda>bid.
      rbind (case read_premium_slot queue (b_liq_premium bid) of
               Inr slot \<Rightarrow> Inr slot
             | Inl Panic \<Rightarrow> Inl Panic
             | Inl (Failed _) \<Rightarrow> Inl (Failed (GenericErr ''Invalid premium''))) (\<lambda>slot.
      rbind (if b_wait_end bid \<noteq> None
             then Inr (b_amount bid, b_pending_liquidated_collateral bid)
             else
               rbind (calculate_remaining_bid bid slot) (\<lambda>(remaining_bid, _).
               rbind (calculate_liquidated_collateral st bid bid_for) (\<lambda>(liquidated_collateral, _).
               rbind (uint256_add (b_pending_liquidated_collateral bid) liquidated_collateral)
                 (\<lambda>pending. Inr (remaining_bid, pending)))))
        (\<lambda>(bid_amount, bid_pending_liquidated_collateral).
      Inr \<lparr>br_user = b_user bid, br_id = b_id bid, br_amount = bid_amount,
           br_liq_premium = b_liq_premium bid, br_product_snapshot = b_product_snapshot bid,
           br_sum_snapshot = b_sum_snapshot bid,
           br_pending_liquidated_collateral = bid_pending_liquidated_collateral,
           br_wait_end = b_wait_end bid, br_epoch_snapshot = b_epoch_snapshot bid,
           br_scale_snapshot = b_scale_snapshot bid\<rparr>)))))"

definition query_bids_by_user ::
  "chain_lib \<Rightarrow> lq_storage \<Rightarrow> AssetInfo \<Rightarrow> string \<Rightarrow> nat option \<Rightarrow> uint128 option \<Rightarrow>
   (std_error, BidResponse list) result" where
  "query_bids_by_user L st bid_for user limit start_after =
     rbind (lib_addr_validate L user) (\<lambda>valid_user.
     rbind (queues_load st (asset_info_to_string bid_for)) (\<lambda>queue.
     rmapM (\<lambda>bid. query_bid st bid_for (b_id bid))
       (read_bids_by_user queue valid_user limit start_after)))"

definition query_user_claims ::
  "chain_lib \<Rightarrow> lq_storage \<Rightarrow> string \<Rightarrow> (std_error, lq_ClaimsResponse list) result" where
  "query_user_claims L st user =
     rbind (lib_addr_validate L user) (\<lambda>valid_user.
     rbind (config_load st) (\<lambda>config.
     rbind (unwrap (lqc_added_assets config)) (\<lambda>assets.
     rmapM (\<lambda>asset.
       rbind (query_bids_by_user L st asset valid_user None None) (\<lambda>responses.
       rbind (rfold (\<lambda>res acc. uint256_add_assign acc (br_pending_liquidated_collateral res))
                responses uint256_zero) (\<lambda>pending.
       Inr \<lparr>cr_bid_for = asset_info_to_string asset,
            cr_pending_liquidated_collateral = pending\<rparr>))) assets)))"

datatype lq_QueryResponse =
    RConfig lq_config
  | RBid BidResponse
  | RBids "BidResponse list"
  | RQueue QueueResponse
  | RQueues "QueueResponse list"
  | RLiquidatible lq_LiquidatibleResponse
  | RClaims "lq_ClaimsResponse list"
  | RSlot SlotResponse
  | RSlots "SlotResponse list"

fun lq_query ::
  "chain_lib \<Rightarrow> lq_storage \<Rightarrow> lq_QueryMsg \<Rightarrow> (std_error, lq_QueryResponse) result" where
  "lq_query L st QConfig = rbind (config_load st) (\<lambda>c. Inr (RConfig c))"
| "lq_query L st (QCheckLiquidatible bid_for collateral_price collateral_amount credit_info
     credit_price) =
     rbind (query_liquidatible L st bid_for collateral_price collateral_amount credit_info
              credit_price) (\<lambda>r. Inr (RLiquidatible r))"
| "lq_query L st (QPremiumSlot bid_for premium) =
     rbind (query_premium_slot L st bid_for premium) (\<lambda>r. Inr (RSlot r))"
| "lq_query L st (QPremiumSlots bid_for start_after limit) =
     rbind (query_premium_slots L st bid_for start_after limit) (\<lambda>r. Inr (RSlots r))"
| "lq_query L st (QUserClaims user) =
     rbind (query_user_claims L st user) (\<lambda>r. Inr (RClaims r))"
| "lq_query L st (QBid bid_for bid_id) =
     rbind (query_bid st bid_for bid_id) (\<lambda>r. Inr (RBid r))"
| "lq_query L st (QBidsByUser bid_for user limit start_after) =
     rbind (query_bids_by_user L st bid_for user limit start_after) (\<lambda>r. Inr (RBids r))"
| "lq_query L st (QQueue bid_for) =
     rbind (load_queue_response st bid_for) (\<lambda>r. Inr (RQueue r))"
| "lq_query L st (QQueues start_after limit) =
     rbind (query_queues st start_after limit) (\<lambda>r. Inr (RQueues r))"

end
