(* ===== verification/Liq_Book.thy ===== *)
theory Liq_Book
  imports Liq_Machine Liq_Query
begin

text \<open>
  Liquidation queue: what stays true of a queue's book of slots. No handler closes a premium or
  reuses a bid id, and while every premium up to the maximum is open, \<open>read_bid\<close> finds every bid.
\<close>

section \<open>Premiums stay open\<close>

definition premiums_open :: "Queue \<Rightarrow> bool" where
  "premiums_open q \<longleftrightarrow> list_all (\<lambda>p. find_slot q (premium_key p) \<noteq> None) [0..<q_max_premium q + 1]"

definition same_book :: "Queue \<Rightarrow> Queue \<Rightarrow> bool" where
  "same_book q q' \<longleftrightarrow> q_max_premium q' = q_max_premium q \<and> q_current_bid_id q \<le> q_current_bid_id q' \<and>
     (\<forall>k. find_slot q' k = None \<longleftrightarrow> find_slot q k = None)"

lemma same_book_refl [simp]: "same_book q q"
  by (simp add: same_book_def)

lemma same_book_trans: "same_book q q1 \<Longrightarrow> same_book q1 q2 \<Longrightarrow> same_book q q2"
  by (auto simp: same_book_def)

lemma same_book_amount [simp]: "same_book q (q'\<lparr>q_bid_asset := x\<rparr>) = same_book q q'"
  by (simp add: same_book_def find_slot_def)

lemma same_book_store:
  "find_slot q (s_liq_premium s) \<noteq> None \<Longrightarrow> same_book q (store_premium_slot q s)"
  by (auto simp: same_book_def slots.read_store)

lemma same_book_found: "same_book q q' \<Longrightarrow> find_slot q k = Some s \<Longrightarrow> find_slot q' k \<noteq> None"
  by (auto simp: same_book_def)

lemma premiums_open_same: "same_book q q' \<Longrightarrow> premiums_open q' = premiums_open q"
  by (simp add: premiums_open_def same_book_def list_all_iff)

lemma remove_bid_book:
  assumes "remove_bid b q = Inr q'"
  shows "same_book q q'"
proof -
  obtain s where "find_slot q (premium_key (b_liq_premium b)) = Some s"
    using assms by (auto simp: remove_bid_def res_ok find_slot_def split: option.splits)
  with remove_bid_found[OF assms this] show ?thesis
    using slots.read_key by (auto intro!: same_book_store)
qed

lemma store_bid_book:
  assumes "store_bid q b = Inr q'"
  shows "same_book q q'"
proof -
  obtain s where "find_slot q (premium_key (b_liq_premium b)) = Some s"
    using assms by (auto simp: store_bid_def res_ok find_slot_def split: option.splits)
  with store_bid_found[OF assms this] show ?thesis
    using slots.read_key by (auto intro!: same_book_store)
qed

lemma retract_book:
  assumes "find_slot q (premium_key (b_liq_premium b)) = Some s"
  shows "retract_waiting config q b amount = Inr (w, q') \<Longrightarrow> same_book q q'"
    and "retract_active st config q b s bid_for amount = Inr (w, q') \<Longrightarrow> same_book q q'"
proof -
  show "same_book q q'" if "retract_waiting config q b amount = Inr (w, q')"
    using that remove_bid_book store_bid_book
    by (auto simp: retract_waiting_def rbind_eq_Inr split: if_splits)
  show "same_book q q'" if r: "retract_active st config q b s bid_for amount = Inr (w, q')"
  proof -
    note key = slots.read_key[OF assms]
    from retract_active_steps[OF r] obtain x y b1 b2 q2 s2 t u where
      q2: "remove_bid b1 (store_premium_slot q (settle_slot s x y)) = Inr q2
        \<or> store_bid (store_premium_slot q (settle_slot s x y)) b2 = Inr q2"
      and s2: "find_slot q2 (premium_key (b_liq_premium b)) = Some s2"
      and q': "q' = store_premium_slot q2 (s2\<lparr>s_total_bid_amount := t, s_residue_bid := u\<rparr>)"
      by (elim exE conjE, split if_split_asm; blast)
    have "same_book q (store_premium_slot q (settle_slot s x y))"
      using assms key by (intro same_book_store) simp
    moreover have "same_book (store_premium_slot q (settle_slot s x y)) q2"
      using q2 remove_bid_book store_bid_book by blast
    moreover have "same_book q2 q'"
      unfolding q' using s2 slots.read_key[OF s2] by (intro same_book_store) simp
    ultimately show ?thesis using same_book_trans by blast
  qed
qed

lemma claim_step_book:
  assumes "claim_step st env info bid_for b (q, c) = Inr (q', c')"
  shows "same_book q q'"
proof (cases "q' = q")
  case False
  with claim_step_cases[OF assms] obtain s s1 b' where
    s: "find_slot q (premium_key (b_liq_premium b)) = Some s"
    and s1: "s_liq_premium s1 = s_liq_premium s"
    and q': "remove_bid b (store_premium_slot q s1) = Inr q' \<or> store_bid (store_premium_slot q s1) b' = Inr q'"
    by (metis (no_types, lifting) PremiumSlot.select_convs(3) PremiumSlot.surjective
        PremiumSlot.update_convs(10,11))
  have "same_book q (store_premium_slot q s1)"
    using s s1 slots.read_key[OF s] by (intro same_book_store) simp
  with q' show ?thesis using remove_bid_book store_bid_book same_book_trans by blast
qed simp

lemma claim_loop_book:
  "rfold (claim_step st env info bid_for) bs (q, c) = Inr (q', c') \<Longrightarrow> same_book q q'"
proof (induction bs arbitrary: q c)
  case (Cons b bs)
  then obtain q1 c1 where "claim_step st env info bid_for b (q, c) = Inr (q1, c1)"
      "rfold (claim_step st env info bid_for) bs (q1, c1) = Inr (q', c')"
    by (auto simp: res_ok)
  with Cons.IH claim_step_book same_book_trans show ?case by blast
qed simp

lemma liquidation_loop_book:
  assumes "liquidation_loop L env config bid_for price credit_price ps st q remaining repay
      = Inr (st', q', remaining', repay')" and "queue_inv q"
  shows "\<forall>k. find_slot q' k = None \<longleftrightarrow> find_slot q k = None"
  using assms
proof (induction ps arbitrary: st q remaining repay)
  case (Cons p ps)
  show ?case using Cons.prems
  proof (cases rule: liquidation_loop_turn)
    case skip
    with Cons.IH[OF skip(1,2)] show ?thesis by simp
  next
    case fill
    then show ?thesis by (metis option.distinct(1))
  next
    case drain
    with Cons.IH[OF drain(2,3)] show ?thesis by (metis option.distinct(1))
  qed
qed simp

text \<open>Ids and the maximum are not the loop's business: it writes slots and the amount only.\<close>

lemma liquidation_loop_frame:
  assumes "liquidation_loop L env config bid_for price credit_price ps st q remaining repay
      = Inr (st', q', remaining', repay')"
  shows "q_max_premium q' = q_max_premium q \<and> q_current_bid_id q' = q_current_bid_id q \<and>
    q_bid_threshold q' = q_bid_threshold q"
  using assms
proof (induction ps arbitrary: st q remaining repay)
  case (Cons p ps)
  have sst: "q_max_premium q1 = q_max_premium q \<and> q_current_bid_id q1 = q_current_bid_id q \<and>
      q_bid_threshold q1 = q_bid_threshold q"
    if "set_slot_total s env q config = (Inr (s1, q1) :: (PremiumSlot \<times> Queue) lq_result)" for s s1 q1
    by (subst (1 2 3) set_slot_total_ok(6)[OF that]) simp
  show ?case
  proof (cases "read_premium_slot q (p mod 256)")
    case (Inl e)
    with Cons show ?thesis by (cases e) auto
  next
    case (Inr s)
    with Cons.prems obtain s1 q1 where
      s: "set_slot_total s env q config = (Inr (s1, q1) :: (PremiumSlot \<times> Queue) lq_result)"
      by (auto simp: rbind_eq_Inr simp del: rbind_Inr)
    show ?thesis
      using Cons.prems Inr s sst[OF s] Cons.IH
      by (auto simp: rbind_eq_Inr uint256_ok map_err_eq_Inr Let_def split: if_splits) 
  qed
qed simp

section \<open>Every bid can be found\<close>

lemma bid_slot_unique:
  assumes inv: "queue_inv q" and "find_slot q k1 = Some s1" "find_slot q k2 = Some s2"
    and "i \<in> set (slot_ids s1)" "i \<in> set (slot_ids s2)"
  shows "k1 = k2"
proof (rule ccontr)
  assume ne: "k1 \<noteq> k2"
  have sh: "shadows_vacant (q_slots q)" and dist: "distinct (slots_ids (q_slots q))"
    using inv by (auto simp: queue_inv_def slots_inv_def)
  have "s2 \<in> set (other_slots k1 (q_slots q))"
    using assms(3) ne by (auto simp: find_slot_def other_slots_def dest: find_SomeD)
  then have "i \<in> set (slots_ids (other_slots k1 (q_slots q)))"
    using assms(5) by (auto simp: slots_ids_def)
  moreover have m: "mset (slots_ids (q_slots q)) = mset (slot_ids s1 @ slots_ids (other_slots k1 (q_slots q)))"
    using found_slot_split(1)[OF assms(2)[unfolded find_slot_def] sh] by simp
  moreover have "distinct (slot_ids s1 @ slots_ids (other_slots k1 (q_slots q)))"
    using distinct_sub_mset[OF _ dist] m by (metis subset_mset.order_refl)
  ultimately show False using assms(4) by auto
qed

lemma found_in_slot:
  assumes inv: "queue_inv q" and found: "find_slot q k = Some s" and b: "bid_in s b"
  shows "(case find (\<lambda>c. b_id c = b_id b) (s_bids s) of
       Some c \<Rightarrow> Some c | None \<Rightarrow> find (\<lambda>c. b_id c = b_id b) (s_waiting_bids s)) = Some b"
proof -
  have d: "distinct (map b_id (s_bids s))" "distinct (map b_id (s_waiting_bids s))"
    "set (map b_id (s_bids s)) \<inter> set (map b_id (s_waiting_bids s)) = {}"
    using queue_found(3)[OF inv found] by (auto simp: slot_ids_def)
  show ?thesis
  proof (cases "b_wait_end b = None")
    case True
    then have "b \<in> set (s_bids s)" using b by (simp add: bid_in_def)
    from find_key_distinct[OF d(1) this] show ?thesis by simp
  next
    case False
    then have w: "b \<in> set (s_waiting_bids s)" using b by (auto simp: bid_in_def)
    then have "b_id b \<notin> set (map b_id (s_bids s))" using d(3) by (auto simp: image_iff)
    then have "find (\<lambda>c. b_id c = b_id b) (s_bids s) = None"
      by (auto simp: find_None image_iff)
    with find_key_distinct[OF d(2) w] show ?thesis by simp
  qed
qed

lemma read_bid_loop_complete:
  assumes inv: "queue_inv q" and pres: "present q b"
    and "\<forall>p\<in>set ps. p < 256 \<and> find_slot q (premium_key p) \<noteq> None" and "b_liq_premium b \<in> set ps"
  shows "read_bid_loop (b_id b) q ps = Inr b"
  using assms(3,4)
proof (induction ps)
  case Nil
  then show ?case by simp
next
  case (Cons p ps)
  from Cons.prems(1) obtain s where s: "find_slot q (premium_key p) = Some s" by auto
  have "p < 256" using Cons.prems(1) by simp
  then have rd: "read_premium_slot q p = Inr s"
    using s premium_key_small by (simp add: read_premium_slot_find)
  from pres obtain t where t: "find_slot q (premium_key (b_liq_premium b)) = Some t" "bid_in t b"
    by (auto simp: present_def)
  show ?case
  proof (cases "p = b_liq_premium b")
    case True
    then have "bid_in s b" using s t by simp
    from found_in_slot[OF inv s this] rd show ?thesis by (auto split: option.splits)
  next
    case False
    have "b_id b \<in> set (slot_ids t)" using t(2) by (auto simp: slot_ids_def bid_in_def split: if_splits)
    then have "b_id b \<notin> set (slot_ids s)"
      using bid_slot_unique[OF inv t(1) s] False by auto
    then have "find (\<lambda>c. b_id c = b_id b) (s_bids s) = None"
        "find (\<lambda>c. b_id c = b_id b) (s_waiting_bids s) = None"
      by (auto simp: find_None slot_ids_def image_iff)
    with rd Cons False show ?thesis by simp
  qed
qed

lemma read_bid_present:
  assumes "queue_inv q" and "present q b" and "premiums_open q" and "q_max_premium q < 255"
    and "b_liq_premium b \<le> q_max_premium q"
  shows "read_bid (b_id b) q = Inr b"
proof -
  have "read_bid_loop (b_id b) q [0..<q_max_premium q + 1] = Inr b"
    by (rule read_bid_loop_complete[OF assms(1,2)])
      (use assms(3-5) in \<open>auto simp: premiums_open_def list_all_iff simp del: upt_Suc\<close>)
  then show ?thesis using assms(4) by (simp add: read_bid_def)
qed

end
