(* ===== verification/Liq_Demo.thy ===== *)
theory Liq_Demo
  imports Liq_Book
begin

text \<open>
  A concrete liquidation queue on which the properties are applied: one asset, premiums 0 and 1,
  at premium 1 two bids of 600 and 400 units of which a liquidation took a fifth for 20 units of
  collateral, and a waiting bid; and a library instance that meets \<open>lib_ok\<close>.
\<close>

definition demo_lib :: chain_lib where
  "demo_lib = \<lparr>lib_text = std_text,
     lib_decimal_to_string = (\<lambda>d. case (d256_to_string std_text d :: (unit, string) result) of
       Inr s \<Rightarrow> s | Inl _ \<Rightarrow> []),
     lib_decimal_from_str = (\<lambda>s. case d256_from_str std_text s of Inr d \<Rightarrow> Some d | Inl _ \<Rightarrow> None),
     lib_addr_validate = Inr, lib_version = ''1.0.0'',
     lib_coins_add = (\<lambda>cs c. Inr (cs @ [c])), lib_coins_from_coin = (\<lambda>c. Inr [c])\<rparr>"

lemma demo_lib_ok: "lib_ok demo_lib"
proof -
  have "\<exists>s. d256_to_string std_text d = (Inr s :: (unit, string) result)" if "d < U128_BOUND" for d
    using d256_to_string_total[OF text_ok_std, of d] that bounds_order(2) by (meson less_trans)
  then show ?thesis by (fastforce simp: lib_ok_def demo_lib_def text_ok_std split: sum.splits)
qed

definition demo_config :: lq_config where
  "demo_config = \<lparr>lqc_owner = ''owner'', lqc_positions_contract = ''cdp'',
     lqc_osmosis_proxy_contract = ''proxy'', lqc_added_assets = Some [NativeToken ''atom''],
     lqc_waiting_period = 60, lqc_bid_asset = NativeToken ''cdt'', lqc_minimum_bid = 10,
     lqc_maximum_waiting_bids = 5\<rparr>"

definition demo_bid :: "addr \<Rightarrow> nat \<Rightarrow> nat \<Rightarrow> u64 option \<Rightarrow> Bid" where
  "demo_bid u i amt w = \<lparr>b_user = u, b_id = i, b_amount = amt, b_liq_premium = 1,
     b_product_snapshot = 1000000000000000000, b_sum_snapshot = 0,
     b_pending_liquidated_collateral = 0, b_wait_end = w, b_epoch_snapshot = 0,
     b_scale_snapshot = 0\<rparr>"

definition demo_slot0 :: PremiumSlot where
  "demo_slot0 = \<lparr>s_bids = [], s_waiting_bids = [], s_liq_premium = 0, s_sum_snapshot = 0,
     s_product_snapshot = 1000000000000000000, s_total_bid_amount = 0, s_last_total = 0,
     s_current_epoch = 0, s_current_scale = 0, s_residue_collateral = 0, s_residue_bid = 0\<rparr>"

definition demo_slot1 :: PremiumSlot where
  "demo_slot1 = \<lparr>s_bids = [demo_bid ''alice'' 1 600 None, demo_bid ''bob'' 2 400 None],
     s_waiting_bids = [demo_bid ''carol'' 3 100 (Some 1060)], s_liq_premium = 10000000000000000,
     s_sum_snapshot = 20000000000000000, s_product_snapshot = 800000000000000000,
     s_total_bid_amount = 800, s_last_total = 1000, s_current_epoch = 0, s_current_scale = 0, s_residue_collateral = 0,
     s_residue_bid = 0\<rparr>"

definition demo_queue :: Queue where
  "demo_queue = \<lparr>q_bid_asset = \<lparr>a_info = NativeToken ''cdt'', a_amount = 800\<rparr>, q_max_premium = 1,
     q_slots = [demo_slot0, demo_slot1], q_current_bid_id = 4, q_bid_threshold = 500\<rparr>"

definition demo_st :: lq_storage where
  "demo_st = \<lparr>CONFIG = Some demo_config, QUEUES = [''atom'' \<mapsto> demo_queue],
     EPOCH_SCALE_SUM = [(''atom'', 1, 0, 0) \<mapsto> 20000000000000000],
     OWNERSHIP_TRANSFER = Some ''heir'', CONTRACT_VERSION = None\<rparr>"

definition demo_env :: "nat \<Rightarrow> Env" where
  "demo_env t = \<lparr>block_height = t, block_nanos = t * 1000000000, contract_address = ''queue''\<rparr>"

definition demo_info :: "addr \<Rightarrow> Coin list \<Rightarrow> MessageInfo" where
  "demo_info u cs = \<lparr>sender = u, funds = cs\<rparr>"

definition demo_price :: "nat \<Rightarrow> PriceResponse" where
  "demo_price d = \<lparr>pr_prices = [], pr_price = d, pr_decimals = 0\<rparr>"

lemmas demo_state = demo_config_def demo_bid_def demo_slot0_def demo_slot1_def demo_queue_def
  demo_st_def demo_env_def demo_info_def demo_price_def

lemmas demo_numbers = U256_BOUND_def U128_BOUND_def U64_BOUND_def DECIMAL_FRACTIONAL_def

lemma demo_st_simps [simp]:
  "QUEUES demo_st = [''atom'' \<mapsto> demo_queue]" "CONFIG demo_st = Some demo_config"
  "OWNERSHIP_TRANSFER demo_st = Some ''heir''"
  "EPOCH_SCALE_SUM demo_st = [(''atom'', 1, 0, 0) \<mapsto> 20000000000000000]"
  "sender (demo_info u cs) = u" "funds (demo_info u cs) = cs"
  "b_liq_premium (demo_bid u i a w) = 1" "b_wait_end (demo_bid u i a w) = w"
  "b_amount (demo_bid u i a w) = a" "b_user (demo_bid u i a w) = u" "b_id (demo_bid u i a w) = i"
  "s_total_bid_amount demo_slot1 = 800" "lqc_owner demo_config = ''owner''"
  "lqc_positions_contract demo_config = ''cdp''"
  by (simp_all add: demo_state)

lemma demo_inv: "lq_inv demo_st"
  by (simp add: lq_inv_def queue_inv_def slots_inv_def slot_ok_def bid_ok_def bid_behind_def vacant_def
      slots_ids_def slot_ids_def premium_key_def demo_state)

lemma demo_to_decimal256:
  "d < U128_BOUND \<Longrightarrow> to_decimal256 demo_lib (demo_price d)
     = Inr \<lparr>p256_prices = [], p256_price = d, p256_decimals = 0\<rparr>"
  using to_decimal256_eq[OF demo_lib_ok, of "demo_price d"] by (simp add: demo_price_def)

lemmas demo_eval = demo_state demo_numbers d256_defs int_defs uint256_defs uint256_into_u128_eq Let_def
  config_load_def queues_load_def queues_save_def d256_one_def d256_zero_def time_seconds_def
  time_plus_seconds_def premium_key_def find_slot_def

text \<open>Twenty units of collateral at a price of 10, the stable asset at 1.\<close>

lemma demo_liquidation:
  "\<exists>st' r. execute_liquidation demo_lib demo_st (demo_env 1010) (demo_info ''cdp'' []) 20
     (NativeToken ''atom'') (demo_price 10000000000000000000) (demo_price 1000000000000000000)
     = Inr (st', r)"
  by (simp add: execute_liquidation_def demo_to_decimal256[unfolded demo_price_def]
      read_premium_slot_def set_slot_total_def execute_pool_liquidation_def pool_amounts_def
      price256_get_value_def price256_get_amount_def u64_pow10_def update_product_def
      store_premium_slot_def store_epoch_scale_sum_def upt_rec demo_eval)

lemma demo_submit:
  "\<exists>st' r. submit_bid demo_lib demo_st (demo_info ''dave'' [\<lparr>c_denom = ''cdt'', c_amount = 300\<rparr>])
     (demo_env 1010) \<lparr>bi_bid_for = NativeToken ''atom'', bi_liq_premium = 1\<rparr> None = Inr (st', r)"
  by (simp add: submit_bid_def validate_position_owner_def validate_bid_input_def
      assert_bid_asset_from_sent_funds_def bid_premium_def new_bid_def submit_active_def
      submit_waiting_def as_usize_def process_bid_activation_def demo_eval)

lemmas demo_bid_eval = read_bid_def upt_rec read_premium_slot_def retract_waiting_def retract_active_def
  assert_withdraw_amount_def remove_bid_def store_bid_def bid_premium_def calculate_remaining_bid_def
  calculate_liquidated_collateral_def split_residue_def read_epoch_scale_sum_def
  store_premium_slot_def claim_bid_residue_def claim_col_residue_def withdrawal_msg_def
  asset_to_coin_def

lemma demo_retract:
  "\<exists>st' r. retract_bid demo_st (demo_info ''alice'' []) (demo_env 1010) 1 (NativeToken ''atom'') (Some 100)
     = Inr (st', r)"
  by (simp add: retract_bid_def demo_bid_eval demo_eval)

lemma demo_retract_all:
  "\<exists>st' r. retract_bid demo_st (demo_info ''alice'' []) (demo_env 1010) 1 (NativeToken ''atom'') None
     = Inr (st', r)"
  by (simp add: retract_bid_def demo_bid_eval demo_eval)

lemma demo_retract_waiting:
  "\<exists>st' r. retract_bid demo_st (demo_info ''carol'' []) (demo_env 1010) 3 (NativeToken ''atom'') None
     = Inr (st', r)"
  by (simp add: retract_bid_def demo_bid_eval demo_eval)

lemma demo_query:
  "\<exists>res. query_bid demo_st (NativeToken ''atom'') 1 = Inr res"
  by (simp add: query_bid_def demo_bid_eval demo_eval)

lemma demo_read:
  "read_bid 1 demo_queue = Inr (demo_bid ''alice'' 1 600 None)"
  "read_bid 3 demo_queue = Inr (demo_bid ''carol'' 3 100 (Some 1060))"
  by (simp_all add: demo_bid_eval demo_eval)

lemma demo_claim:
  "\<exists>st' r. claim_liquidations demo_st (demo_env 1010) (demo_info ''bob'' []) (NativeToken ''atom'') None
     = Inr (st', r)"
  by (simp add: claim_liquidations_def claim_bids_def read_bids_by_user_def lq_MAX_LIMIT_def
      claim_step_def demo_bid_eval demo_eval)

lemma demo_edit:
  "\<exists>st' r. edit_queue demo_st (demo_info ''owner'' []) (NativeToken ''atom'') (Some 3) (Some 2000000)
     = Inr (st', r)"
  by (simp add: edit_queue_def fresh_slot_def d256_percent_def upt_rec demo_eval)

lemma demo_add:
  "\<exists>st' r. add_queue demo_st (demo_info ''cdp'' []) (NativeToken ''osmo'') 3 2000000 = Inr (st', r)"
  by (simp add: add_queue_def fresh_slot_def d256_percent_def upt_rec demo_eval)

lemma demo_update_config:
  "\<exists>st' r. lq_update_config demo_lib demo_st (demo_info ''heir'' []) None None None (Some 30) None None
     = Inr (st', r)"
  by (simp add: lq_update_config_def demo_eval)

lemma demo_instantiate:
  "\<exists>st' r. lq_instantiate demo_lib
     \<lparr>CONFIG = None, QUEUES = Map.empty, EPOCH_SCALE_SUM = Map.empty, OWNERSHIP_TRANSFER = None,
      CONTRACT_VERSION = None\<rparr> (demo_env 1) (demo_info ''owner'' [])
     \<lparr>lqi_owner = None, lqi_positions_contract = ''cdp'', lqi_osmosis_proxy_contract = ''proxy'',
      lqi_waiting_period = 60, lqi_minimum_bid = 10, lqi_maximum_waiting_bids = 5\<rparr> = Inr (st', r)"
  by (simp add: lq_instantiate_def demo_lib_def Let_def)

lemma demo_validate [simp]: "lib_addr_validate demo_lib s = Inr s"
  by (simp add: demo_lib_def)

lemma demo_found: "find_slot demo_queue (premium_key 1) = Some demo_slot1"
  by (simp add: demo_state find_slot_def premium_key_def)

lemma demo_queue_inv: "queue_inv demo_queue"
  using demo_inv by (simp add: lq_inv_def)

lemma demo_claim_step:
  "\<exists>q' c'. claim_step demo_st (demo_env 1010) (demo_info ''bob'' []) ''atom'' (demo_bid ''bob'' 2 400 None)
     (demo_queue, 0) = Inr (q', c')"
  by (simp add: claim_step_def demo_bid_eval demo_eval)

lemma demo_pool:
  "\<exists>st' s' r c f. execute_pool_liquidation demo_st demo_slot1 1 ''atom'' 20
     \<lparr>p256_prices = [], p256_price = 10000000000000000000, p256_decimals = 0\<rparr>
     \<lparr>p256_prices = [], p256_price = 1000000000000000000, p256_decimals = 0\<rparr> False = Inr (st', s', r, c, f)"
  by (simp add: execute_pool_liquidation_def pool_amounts_def price256_get_value_def
      price256_get_amount_def u64_pow10_def update_product_def store_epoch_scale_sum_def demo_eval)
    (rule exI[of _ True], simp)

text \<open>The slot after its two bids were settled: each rebased to what is left of it.\<close>

definition demo_settled :: PremiumSlot where
  "demo_settled = demo_slot1\<lparr>s_bids := [rebase_bid demo_slot1 480 (demo_bid ''alice'' 1 600 None),
     rebase_bid demo_slot1 320 (demo_bid ''bob'' 2 400 None)]\<rparr>"

lemma demo_settled_simps:
  "s_total_bid_amount demo_settled = 800" "s_sum_snapshot demo_settled = 20000000000000000"
  "s_current_epoch demo_settled = 0" "s_current_scale demo_settled = 0"
  by (simp_all add: demo_settled_def demo_slot1_def)

definition demo_after :: lq_storage where
  "demo_after = store_epoch_scale_sum demo_st ''atom'' 1 0 0 40000000000000000"

lemma demo_settled_pool:
  "\<exists>s' r f. execute_pool_liquidation demo_st demo_settled 1 ''atom'' 20
     \<lparr>p256_prices = [], p256_price = 10000000000000000000, p256_decimals = 0\<rparr>
     \<lparr>p256_prices = [], p256_price = 1000000000000000000, p256_decimals = 0\<rparr> False
     = Inr (demo_after, s', r, 20, f)"
  by (simp add: execute_pool_liquidation_def pool_amounts_def price256_get_value_def
      price256_get_amount_def u64_pow10_def update_product_def store_epoch_scale_sum_def demo_eval
      demo_settled_def rebase_bid_def demo_after_def) (rule exI[of _ True], simp)

lemma demo_settled_bids:
  "current_bids demo_settled = [rebase_bid demo_slot1 480 (demo_bid ''alice'' 1 600 None),
     rebase_bid demo_slot1 320 (demo_bid ''bob'' 2 400 None)]"
  by (simp add: current_bids_def demo_settled_def rebase_bid_def demo_state)

lemma demo_settled_earned:
  "list_all2 (\<lambda>b e. \<exists>res. calculate_liquidated_collateral demo_after b ''atom'' = Inr (e, res))
     (current_bids demo_settled) [12, 8]"
  by (simp add: demo_settled_bids demo_after_def calculate_liquidated_collateral_def
      read_epoch_scale_sum_def split_residue_def rebase_bid_def store_epoch_scale_sum_def demo_eval)

lemma demo_settled_entitlement: "slot_entitlement demo_settled = 800"
  by (simp add: slot_entitlement_def entitlement_def demo_settled_def rebase_bid_def demo_state)

lemma demo_entitlement: "slot_entitlement demo_slot1 = 800"
  by (simp add: slot_entitlement_def entitlement_def demo_state)

lemma demo_set_slot_total:
  "\<exists>s' q'. set_slot_total demo_slot1 (demo_env 1100) demo_queue demo_config
     = (Inr (s', q') :: (PremiumSlot \<times> Queue) lq_result)"
  by (simp add: set_slot_total_def activation_step_def activate_bid_def process_bid_activation_def demo_eval)

lemma demo_remaining:
  "\<exists>rs. list_all2 (\<lambda>b r. \<exists>res. calculate_remaining_bid b demo_slot1 = Inr (r, res)) (s_bids demo_slot1) rs"
  by (rule exI[of _ "[480, 320]"]) (simp add: calculate_remaining_bid_def split_residue_def demo_eval)

lemma demo_expired_claim:
  "\<exists>q' c'. claim_step demo_st (demo_env 1100) (demo_info ''carol'' []) ''atom''
     (demo_bid ''carol'' 3 100 (Some 1060)) (demo_queue, 0) = Inr (q', c')"
  by (simp add: claim_step_def demo_bid_eval demo_eval)

lemma demo_preview:
  "\<exists>x y. liquidatible_step demo_lib (demo_price 10000000000000000000) (demo_price 1000000000000000000)
     demo_slot1 (20, 0) = Inr (x, y)"
  by (simp add: liquidatible_step_def demo_to_decimal256[unfolded demo_price_def] price256_get_value_def
      price256_get_amount_def u64_pow10_def demo_eval)

end
