(* ===== verification/Liq_Properties.thy ===== *)
theory Liq_Properties
  imports Liq_Demo
begin

text \<open>
  What the messages of the liquidation queue do: the invariant over every run, the money and the
  rights of each message, the book of bids and premiums, and the agreement of queries with the
  messages they preview. Each property is applied to the queue of \<open>Liq_Demo\<close> by its witness.
\<close>

text \<open>
  C2. Starting from a fresh instance of the liquidation queue, every run of messages
  (submissions, retractions, liquidations, claims, queue and configuration changes, by any senders
  at any times, failing ones included) ends in a state whose queues are well formed: bid ids are
  unique over all slots and below the next id, active bids have no waiting time and waiting bids
  have one, every bid lies in the slot of its premium with no snapshot from that slot's future,
  and only the first of several slots of a premium is in use.
\<close>

theorem lq_runs_keep_invariant:
  assumes "lq_instantiate L st env info msg = Inr (st', r)" and "QUEUES st = Map.empty"
  shows "lq_inv (lq.run L ms st')"
  using lq.run_inv lq_inv_instantiate[OF assms] by blast

theorem lq_runs_keep_invariant_witness:
  "\<exists>st' r. lq_instantiate demo_lib
     \<lparr>CONFIG = None, QUEUES = Map.empty, EPOCH_SCALE_SUM = Map.empty, OWNERSHIP_TRANSFER = None,
      CONTRACT_VERSION = None\<rparr> (demo_env 1) (demo_info ''owner'' [])
     \<lparr>lqi_owner = None, lqi_positions_contract = ''cdp'', lqi_osmosis_proxy_contract = ''proxy'',
      lqi_waiting_period = 60, lqi_minimum_bid = 10, lqi_maximum_waiting_bids = 5\<rparr> = Inr (st', r) \<and>
     lq_inv (lq.run demo_lib [(demo_env 2, demo_info ''owner'' [], AddQueue (NativeToken ''atom'') 9 1000000)] st')"
  using demo_instantiate lq_runs_keep_invariant[where L = demo_lib] by fastforce

text \<open>
  C8. A liquidation that succeeds was sent by the positions contract. The only message
  is the burn of exactly the repaid amount of the bid asset; the queue's own amount and the total of
  its slots fall by the same number (their difference does not change, activations included), the
  collateral reported as sold is at most the amount asked for, and no other queue changes.
\<close>

theorem liquidation_accounting:
  assumes "lq_inv st"
    and "execute_liquidation L st env info amount asset price credit = Inr (st', r)"
  shows "\<exists>config q q' repay used. CONFIG st = Some config \<and> sender info = lqc_positions_contract config \<and>
    QUEUES st (asset_info_to_string asset) = Some q \<and>
    QUEUES st' = (QUEUES st)(asset_info_to_string asset \<mapsto> q') \<and>
    queue_inv q' \<and> queue_balance q' = queue_balance q \<and> used \<le> amount \<and>
    messages r = (if repay = 0 then [] else
       [WasmExecute (lqc_osmosis_proxy_contract config)
          (BurnTokens (asset_info_to_string (a_info (q_bid_asset q))) repay (contract_address env)) []]) \<and>
    (''repay_amount'', ANum repay) \<in> set (attributes r) \<and>
    (''collateral_amount'', ANum used) \<in> set (attributes r)"
proof (rule execute_liquidation_ok[OF assms])
  fix q q1 config price256 st1 remaining repay
  let ?q' = "q1\<lparr>q_bid_asset := (q_bid_asset q1)\<lparr>a_amount := queue_amount q1 - repay\<rparr>\<rparr>"
  assume "QUEUES st (asset_info_to_string asset) = Some q" "CONFIG st = Some config"
    "sender info = lqc_positions_contract config" "queue_inv q1"
    and bal: "queue_balance q1 = queue_balance q + int repay" "repay \<le> queue_amount q1"
    and "remaining \<le> amount" "st' = queues_save st1 (asset_info_to_string asset) ?q'"
    "QUEUES st1 = QUEUES st"
    "messages r = (if repay = 0 then [] else
       [WasmExecute (lqc_osmosis_proxy_contract config)
          (BurnTokens (asset_info_to_string (a_info (q_bid_asset q))) repay (contract_address env)) []])"
    "(''repay_amount'', ANum repay) \<in> set (attributes r)"
    "(''collateral_amount'', ANum (amount - remaining)) \<in> set (attributes r)"
  moreover have "queue_balance ?q' = queue_balance q"
    using bal by (simp add: queue_balance_def of_nat_diff)
  ultimately show ?thesis
    by (intro exI[of _ config] exI[of _ q] exI[of _ ?q'] exI[of _ repay] exI[of _ "amount - remaining"])
      simp
qed

theorem liquidation_accounting_witness:
  "\<exists>st' r q'. execute_liquidation demo_lib demo_st (demo_env 1010) (demo_info ''cdp'' []) 20
     (NativeToken ''atom'') (demo_price 10000000000000000000) (demo_price 1000000000000000000)
     = Inr (st', r) \<and> QUEUES st' ''atom'' = Some q' \<and> queue_balance q' = queue_balance demo_queue"
proof -
  obtain st' r where ex: "execute_liquidation demo_lib demo_st (demo_env 1010) (demo_info ''cdp'' []) 20
     (NativeToken ''atom'') (demo_price 10000000000000000000) (demo_price 1000000000000000000)
     = Inr (st', r)" using demo_liquidation by blast
  from liquidation_accounting[OF demo_inv ex] ex show ?thesis
    by (intro exI[of _ st'] exI[of _ r]) auto
qed

text \<open>
  C25. Bids are consumed from the lowest premium upward: after a liquidation there is a
  premium such that every slot below it is empty and every slot above it is exactly as it was, and
  unless all slots were gone through the whole collateral asked for was sold.
\<close>

theorem liquidation_lowest_premium_first:
  assumes "lq_inv st" and "QUEUES st (asset_info_to_string asset) = Some q" and "q_max_premium q < 256"
    and "execute_liquidation L st env info amount asset price credit = Inr (st', r)"
  shows "\<exists>q' m. QUEUES st' (asset_info_to_string asset) = Some q' \<and> m \<le> q_max_premium q + 1 \<and>
    (\<forall>p<m. slot_empty_at q' p) \<and>
    (\<forall>p>m. find_slot q' (premium_key p) = find_slot q (premium_key p)) \<and>
    (m = q_max_premium q + 1 \<or> (''collateral_amount'', ANum amount) \<in> set (attributes r))"
proof (rule execute_liquidation_ok[OF assms(1,4)])
  fix q0 q1 config price256 st1 remaining repay
  let ?q' = "q1\<lparr>q_bid_asset := (q_bid_asset q1)\<lparr>a_amount := queue_amount q1 - repay\<rparr>\<rparr>"
  assume q0: "QUEUES st (asset_info_to_string asset) = Some q0"
    and loop: "liquidation_loop L env config (asset_info_to_string asset) price256 credit
       [0..<q_max_premium q0 + 1] st q0 amount 0 = Inr (st1, q1, remaining, repay)"
    and st': "st' = queues_save st1 (asset_info_to_string asset) ?q'"
    and attr: "(''collateral_amount'', ANum (amount - remaining)) \<in> set (attributes r)"
  have q: "q0 = q" "queue_inv q" using q0 assms(1,2) by (auto simp: lq_inv_def)
  have b: "q_max_premium q + 1 \<le> 256" "0 \<le> q_max_premium q + 1" using assms(3) by simp_all
  from liquidation_loop_order[OF loop[unfolded q(1)] q(2) b] obtain m where
    m: "m \<le> q_max_premium q + 1" "\<forall>p. 0 \<le> p \<and> p < m \<longrightarrow> slot_empty_at q1 p"
      "\<forall>p. p < 0 \<or> m < p \<longrightarrow> find_slot q1 (premium_key p) = find_slot q (premium_key p)"
      "m = q_max_premium q + 1 \<or> remaining = 0" by blast
  have f: "find_slot ?q' = find_slot q1" by (simp add: fun_eq_iff find_slot_def)
  then have e: "slot_empty_at ?q' = slot_empty_at q1" by (simp add: fun_eq_iff slot_empty_at_def)
  show ?thesis
    by (intro exI[of _ ?q'] exI[of _ m]) (use m attr in \<open>auto simp: st' f e\<close>)
qed

theorem liquidation_lowest_premium_first_witness:
  "\<exists>st' r q'. execute_liquidation demo_lib demo_st (demo_env 1010) (demo_info ''cdp'' []) 20
     (NativeToken ''atom'') (demo_price 10000000000000000000) (demo_price 1000000000000000000)
     = Inr (st', r) \<and> QUEUES st' ''atom'' = Some q' \<and>
     (\<exists>m\<le>2. (\<forall>p<m. slot_empty_at q' p) \<and>
        (\<forall>p>m. find_slot q' (premium_key p) = find_slot demo_queue (premium_key p)))"
proof -
  obtain st' r where ex: "execute_liquidation demo_lib demo_st (demo_env 1010) (demo_info ''cdp'' []) 20
     (NativeToken ''atom'') (demo_price 10000000000000000000) (demo_price 1000000000000000000)
     = Inr (st', r)" using demo_liquidation by blast
  have q: "QUEUES demo_st (asset_info_to_string (NativeToken ''atom'')) = Some demo_queue"
    by (simp add: demo_st_def)
  have m: "q_max_premium demo_queue < 256" "q_max_premium demo_queue + 1 = 2"
    by (simp_all add: demo_queue_def)
  from liquidation_lowest_premium_first[OF demo_inv q m(1) ex] ex show ?thesis
    unfolding m(2) by (intro exI[of _ st'] exI[of _ r]) auto
qed

text \<open>
  A submitted bid is paid by exactly one coin of the queue's bid asset, and all of it
  enters the slot of the chosen premium: the slot's active and waiting amounts together grow by
  the coin's amount. The other slots stay as they are, the queue counts what became active, and
  nothing is paid out.
\<close>

theorem submit_bid_conserves:
  assumes "lq_inv st" and "submit_bid L st info env bi owner = Inr (st', r)"
  shows "\<exists>q q' s s' denom amt. QUEUES st (asset_info_to_string (bi_bid_for bi)) = Some q \<and>
    QUEUES st' = (QUEUES st)(asset_info_to_string (bi_bid_for bi) \<mapsto> q') \<and>
    funds info = [\<lparr>c_denom = denom, c_amount = amt\<rparr>] \<and> a_info (q_bid_asset q) = NativeToken denom \<and>
    find_slot q (premium_key (bi_liq_premium bi)) = Some s \<and>
    find_slot q' (premium_key (bi_liq_premium bi)) = Some s' \<and>
    slot_money s' = slot_money s + amt \<and>
    (\<forall>k. k \<noteq> premium_key (bi_liq_premium bi) \<longrightarrow> find_slot q' k = find_slot q k) \<and>
    queue_balance q' = queue_balance q \<and> messages r = []"
proof (rule submit_bid_ok[OF assms])
  fix q q' s s' denom amt
  assume a: "QUEUES st (asset_info_to_string (bi_bid_for bi)) = Some q"
    "st' = queues_save st (asset_info_to_string (bi_bid_for bi)) q'"
    "find_slot q (premium_key (bi_liq_premium bi)) = Some s"
    "q_slots q' = put_slot (q_slots q) s'" "s_liq_premium s' = s_liq_premium s"
    "queue_balance q' = queue_balance q" "a_info (q_bid_asset q) = NativeToken denom"
    "funds info = [\<lparr>c_denom = denom, c_amount = amt\<rparr>]" "slot_money s' = slot_money s + amt"
    "messages r = []"
  have key: "s_liq_premium s = premium_key (bi_liq_premium bi)" by (rule slots.read_key[OF a(3)])
  have "find_slot q' = find_slot (store_premium_slot q s')"
    using a(4) by (simp add: fun_eq_iff find_slot_def)
  then have f: "find_slot q' k = (if k = premium_key (bi_liq_premium bi) then Some s' else find_slot q k)" for k
    using key a(5) by (simp add: slots.read_store)
  show ?thesis
    by (intro exI[of _ q] exI[of _ q'] exI[of _ s] exI[of _ s'] exI[of _ denom] exI[of _ amt])
      (use a f in simp)
qed

theorem submit_bid_conserves_witness:
  "\<exists>st' r q'. submit_bid demo_lib demo_st (demo_info ''dave'' [\<lparr>c_denom = ''cdt'', c_amount = 300\<rparr>])
     (demo_env 1010) \<lparr>bi_bid_for = NativeToken ''atom'', bi_liq_premium = 1\<rparr> None = Inr (st', r) \<and>
     QUEUES st' ''atom'' = Some q' \<and> queue_balance q' = queue_balance demo_queue"
proof -
  obtain st' r where ex: "submit_bid demo_lib demo_st
     (demo_info ''dave'' [\<lparr>c_denom = ''cdt'', c_amount = 300\<rparr>])
     (demo_env 1010) \<lparr>bi_bid_for = NativeToken ''atom'', bi_liq_premium = 1\<rparr> None = Inr (st', r)"
    using demo_submit by blast
  from submit_bid_conserves[OF demo_inv ex] ex show ?thesis
    by (intro exI[of _ st'] exI[of _ r]) auto
qed

text \<open>
  A bid can be retracted only by its owner: a successful retraction found the bid under
  the given id with the sender as its user, sends the refund to the sender in the queue's bid asset
  and nothing else, and takes exactly the refund off the amount the queue counts.
\<close>

theorem retract_pays_owner:
  assumes "lq_inv st" and "retract_bid st info env i asset amount = Inr (st', r)"
  shows "\<exists>q q' b refund. QUEUES st (asset_info_to_string asset) = Some q \<and>
    QUEUES st' = (QUEUES st)(asset_info_to_string asset \<mapsto> q') \<and>
    present q b \<and> b_id b = i \<and> b_user b = sender info \<and> queue_inv q' \<and>
    queue_amount q' + refund = queue_amount q \<and>
    messages r = (if refund = 0 then [] else [BankSend (sender info)
      [\<lparr>c_denom = ai_denom (a_info (q_bid_asset q)), c_amount = refund\<rparr>]])"
proof (rule retract_bid_ok[OF assms])
  fix q b s q1 q' config w
  assume a: "QUEUES st (asset_info_to_string asset) = Some q"
    "st' = queues_save st (asset_info_to_string asset) q'"
    "read_bid i q = Inr b" "b_id b = i" "b_user b = sender info"
    "find_slot q (premium_key (b_liq_premium b)) = Some s" "bid_in s b"
    "b_wait_end b \<noteq> None \<and> retract_waiting config q b amount = Inr (w, q1) \<or>
     b_wait_end b = None \<and>
       retract_active st config q b s (asset_info_to_string asset) amount = Inr (w, q1)"
    "queue_inv q1" "w \<le> queue_amount q1"
    "q' = q1\<lparr>q_bid_asset := (q_bid_asset q1)\<lparr>a_amount := queue_amount q1 - w\<rparr>\<rparr>"
    "messages r = (if w = 0 then [] else
       [BankSend (sender info) [\<lparr>c_denom = ai_denom (a_info (q_bid_asset q1)), c_amount = w\<rparr>]])"
  have qi: "queue_inv q" using assms(1) a(1) by (auto simp: lq_inv_def)
  have q1: "q_bid_asset q1 = q_bid_asset q"
    using a(8) retract_waiting_ok(3)[OF qi a(6,7)]
    by (auto elim!: retract_active_ok[OF qi a(6,7)])
  show ?thesis
    by (intro exI[of _ q] exI[of _ q'] exI[of _ b] exI[of _ w])
      (use a q1 in \<open>auto simp: present_def\<close>)
qed

theorem retract_pays_owner_witness:
  "\<exists>st' r b. retract_bid demo_st (demo_info ''alice'' []) (demo_env 1010) 1 (NativeToken ''atom'') (Some 100)
     = Inr (st', r) \<and> present demo_queue b \<and> b_user b = ''alice''"
proof -
  obtain st' r where ex: "retract_bid demo_st (demo_info ''alice'' []) (demo_env 1010) 1
      (NativeToken ''atom'') (Some 100) = Inr (st', r)" using demo_retract by blast
  from retract_pays_owner[OF demo_inv ex] ex show ?thesis
    by (intro exI[of _ st'] exI[of _ r]) auto
qed

lemma find_slot_save: "QUEUES (queues_save st k q) k = Some q"
  by simp

lemma find_map_key:
  assumes "map s_liq_premium slots = map premium_key ps" and "p \<in> set ps"
  shows "find (\<lambda>s. s_liq_premium s = premium_key p) slots \<noteq> None"
proof -
  have "premium_key p \<in> set (map s_liq_premium slots)" using assms by simp
  then show ?thesis by (auto simp: find_None)
qed

text \<open>
  A new queue has an empty slot for every premium from 0 to the maximum asked for (as long as
  the slot count fits the 64-bit loop counter).
\<close>

theorem add_queue_opens_every_premium:
  assumes "add_queue st info asset max_premium threshold = Inr (st', r)"
    and "max_premium + 1 < U64_BOUND"
  shows "\<exists>q. QUEUES st' (asset_info_to_string asset) = Some q \<and> q_max_premium q = max_premium \<and>
    premiums_open q \<and> (\<forall>p\<le>max_premium. \<exists>s. find_slot q (premium_key p) = Some s \<and> vacant s)"
proof (rule add_queue_ok[OF assms(1)])
  fix config slots q'
  assume a: "rmapM fresh_slot [0..<(max_premium + 1) mod U64_BOUND] = (Inr slots :: PremiumSlot list lq_result)"
    "q' = \<lparr>q_bid_asset = \<lparr>a_info = lqc_bid_asset config, a_amount = 0\<rparr>, q_max_premium = max_premium,
       q_slots = slots, q_current_bid_id = 1, q_bid_threshold = threshold\<rparr>"
    "QUEUES st' = (QUEUES st)(asset_info_to_string asset \<mapsto> q')"
  have ups: "rmapM fresh_slot [0..<max_premium + 1] = (Inr slots :: PremiumSlot list lq_result)"
    using a(1) assms(2) by (simp del: upt_Suc)
  note f = fresh_slots[OF ups]
  have "\<exists>s. find_slot q' (premium_key p) = Some s \<and> vacant s" if "p \<le> max_premium" for p
  proof -
    have "find (\<lambda>s. s_liq_premium s = premium_key p) slots \<noteq> None"
      by (rule find_map_key[OF f(4)]) (use that in \<open>auto simp del: upt_Suc\<close>)
    then obtain s where s: "find (\<lambda>s. s_liq_premium s = premium_key p) slots = Some s" by auto
    then have "vacant s" using f(1) find_SomeD[OF s] by (auto simp: list_all_iff)
    with s a(2) show ?thesis by (simp add: find_slot_def)
  qed
  then have all: "\<forall>p\<le>max_premium. \<exists>s. find_slot q' (premium_key p) = Some s \<and> vacant s" by blast
  have mp: "q_max_premium q' = max_premium" using a(2) by simp
  have "premiums_open q'"
    using all by (auto simp: premiums_open_def list_all_iff mp less_Suc_eq_le simp del: upt_Suc)
  with all mp a(3) show ?thesis by (intro exI[of _ q']) simp
qed

theorem add_queue_opens_every_premium_witness:
  "\<exists>st' r q. add_queue demo_st (demo_info ''cdp'' []) (NativeToken ''osmo'') 3 2000000 = Inr (st', r) \<and>
     QUEUES st' ''osmo'' = Some q \<and> premiums_open q"
proof -
  obtain st' r where ex: "add_queue demo_st (demo_info ''cdp'' []) (NativeToken ''osmo'') 3 2000000 = Inr (st', r)"
    using demo_add by blast
  have "(3::nat) + 1 < U64_BOUND" by (simp add: U64_BOUND_def)
  from add_queue_opens_every_premium[OF ex this] ex show ?thesis
    by (intro exI[of _ st'] exI[of _ r]) auto
qed

lemma put_slot_book:
  assumes "q_slots q' = put_slot (q_slots q) s'" and "find_slot q (s_liq_premium s') = Some s"
  shows "find_slot q' k = None \<longleftrightarrow> find_slot q k = None"
proof -
  have "find_slot q' = find_slot (store_premium_slot q s')"
    using assms(1) by (simp add: fun_eq_iff find_slot_def)
  then show ?thesis using assms(2) by (auto simp: slots.read_store)
qed

lemma premiums_open_append:
  assumes "premiums_open q" and "q_slots q' = q_slots q @ new"
    and "rmapM fresh_slot [q_max_premium q + 1..<q_max_premium q' + 1]
      = (Inr new :: PremiumSlot list lq_result)"
  shows "premiums_open q'"
proof -
  have "find_slot q' (premium_key p) \<noteq> None" if p: "p \<le> q_max_premium q'" for p
  proof (cases "p \<le> q_max_premium q")
    case True
    then have "find_slot q (premium_key p) \<noteq> None"
      using assms(1) by (auto simp: premiums_open_def list_all_iff simp del: upt_Suc)
    then show ?thesis using assms(2) by (auto simp: find_slot_def find_append)
  next
    case False
    with p have "find (\<lambda>s. s_liq_premium s = premium_key p) new \<noteq> None"
      by (intro find_map_key[OF fresh_slots(4)[OF assms(3)]]) (auto simp del: upt_Suc)
    then show ?thesis using assms(2) by (auto simp: find_slot_def find_append split: option.splits)
  qed
  then show ?thesis by (auto simp: premiums_open_def list_all_iff simp del: upt_Suc)
qed

text \<open>What a message does to one queue's book: it stays as it is, or a slot of it changes.\<close>

definition book_step :: "Queue \<Rightarrow> Queue \<Rightarrow> bool" where
  "book_step q q' \<longleftrightarrow> (premiums_open q \<longrightarrow> premiums_open q') \<and> q_current_bid_id q \<le> q_current_bid_id q'"

lemma book_step_same: "same_book q q' \<Longrightarrow> book_step q q'"
  by (simp add: book_step_def premiums_open_same) (simp add: same_book_def)

definition changes_book :: "lq_storage \<Rightarrow> lq_storage \<Rightarrow> bool" where
  "changes_book st st' \<longleftrightarrow> (\<exists>k q q'. QUEUES st k = Some q \<and> QUEUES st' = (QUEUES st)(k \<mapsto> q') \<and> book_step q q')"

lemma changes_bookI:
  "QUEUES st k = Some q \<Longrightarrow> QUEUES st1 = QUEUES st \<Longrightarrow> st' = queues_save st1 k q' \<Longrightarrow> book_step q q' \<Longrightarrow>
   changes_book st st'"
  by (auto simp: changes_book_def)

lemma submit_bid_book:
  assumes "lq_inv st" and "submit_bid L st info env bi owner = Inr (st', r)"
  shows "changes_book st st'"
proof (rule submit_bid_ok[OF assms])
  fix q1 q2 s s'
  let ?j = "asset_info_to_string (bi_bid_for bi)"
  assume a: "QUEUES st ?j = Some q1" "st' = queues_save st ?j q2"
    "find_slot q1 (premium_key (bi_liq_premium bi)) = Some s"
    "q_slots q2 = put_slot (q_slots q1) s'" "s_liq_premium s' = s_liq_premium s"
    "q_max_premium q2 = q_max_premium q1" "q_current_bid_id q1 \<le> q_current_bid_id q2"
  have "find_slot q1 (s_liq_premium s') = Some s" using slots.read_key[OF a(3)] a(3,5) by simp
  then have "same_book q1 q2" using put_slot_book[OF a(4)] a(6,7) by (simp add: same_book_def)
  then show ?thesis using changes_bookI[OF a(1) refl a(2)] book_step_same by blast
qed

lemma retract_bid_book:
  assumes "lq_inv st" and "retract_bid st info env i asset amount = Inr (st', r)"
  shows "changes_book st st'"
proof (rule retract_bid_ok[OF assms])
  fix q b s q1 q' config w
  let ?j = "asset_info_to_string asset"
  assume a: "QUEUES st ?j = Some q" "st' = queues_save st ?j q'"
    "find_slot q (premium_key (b_liq_premium b)) = Some s"
    "b_wait_end b \<noteq> None \<and> retract_waiting config q b amount = Inr (w, q1) \<or>
     b_wait_end b = None \<and> retract_active st config q b s ?j amount = Inr (w, q1)"
    "q' = q1\<lparr>q_bid_asset := (q_bid_asset q1)\<lparr>a_amount := queue_amount q1 - w\<rparr>\<rparr>"
  have "same_book q q'" using a(4) retract_book[OF a(3)] by (auto simp: a(5))
  then show ?thesis using changes_bookI[OF a(1) refl a(2)] book_step_same by blast
qed

lemma execute_liquidation_book:
  assumes "lq_inv st" and "execute_liquidation L st env info amount asset price credit = Inr (st', r)"
  shows "changes_book st st'"
proof (rule execute_liquidation_ok[OF assms])
  fix q q1 config price256 st1 remaining repay
  let ?j = "asset_info_to_string asset"
  let ?q' = "q1\<lparr>q_bid_asset := (q_bid_asset q1)\<lparr>a_amount := queue_amount q1 - repay\<rparr>\<rparr>"
  assume a: "QUEUES st ?j = Some q"
    "liquidation_loop L env config ?j price256 credit [0..<q_max_premium q + 1] st q amount 0
      = Inr (st1, q1, remaining, repay)"
    "st' = queues_save st1 ?j ?q'" "QUEUES st1 = QUEUES st"
  have "queue_inv q" using assms(1) a(1) by (auto simp: lq_inv_def)
  from liquidation_loop_book[OF a(2) this] liquidation_loop_frame[OF a(2)]
  have "same_book q ?q'" unfolding same_book_amount by (simp add: same_book_def)
  then show ?thesis using changes_bookI[OF a(1,4,3)] book_step_same by blast
qed

lemma claim_liquidations_book:
  assumes "lq_inv st" and "claim_liquidations st env info asset ids = Inr (st', r)"
  shows "changes_book st st'"
proof (rule claim_liquidations_ok[OF assms])
  fix q q' bs total
  let ?j = "asset_info_to_string asset"
  assume a: "QUEUES st ?j = Some q" "st' = queues_save st ?j q'"
    "rfold (claim_step st env info ?j) bs (q, 0) = Inr (q', total)"
  show ?thesis using changes_bookI[OF a(1) refl a(2)] claim_loop_book[OF a(3)] book_step_same by blast
qed

lemma edit_queue_book:
  assumes "lq_inv st" and "edit_queue st info asset mp thr = Inr (st', r)"
  shows "changes_book st st'"
proof (rule edit_queue_ok[OF assms])
  fix q q' new
  let ?j = "asset_info_to_string asset"
  assume a: "QUEUES st ?j = Some q" "st' = queues_save st ?j q'" "q_slots q' = q_slots q @ new"
    "rmapM fresh_slot [q_max_premium q + 1..<q_max_premium q' + 1]
      = (Inr new :: PremiumSlot list lq_result)" "q_current_bid_id q' = q_current_bid_id q"
  have "book_step q q'" using premiums_open_append[OF _ a(3,4)] a(5) by (simp add: book_step_def)
  then show ?thesis using changes_bookI[OF a(1) refl a(2)] by blast
qed

lemma changes_book_step:
  assumes "changes_book st st'" and "QUEUES st k = Some q"
  shows "\<exists>q'. QUEUES st' k = Some q' \<and> book_step q q'"
proof -
  from assms(1) obtain j q1 q2 where j: "QUEUES st j = Some q1"
    "QUEUES st' = (QUEUES st)(j \<mapsto> q2)" "book_step q1 q2" by (auto simp: changes_book_def)
  show ?thesis
    by (cases "k = j") (use j assms(2) book_step_same[OF same_book_refl] in auto)
qed

text \<open>
  No message removes a queue, closes one of its premiums or gives out a bid id again: a queue
  that has a slot for every premium up to its maximum still has after every successful message,
  raising the maximum included, and its next bid id never goes back.
\<close>

theorem premiums_stay_open:
  assumes "lq_inv st" and ex: "lq_execute L st env info m = Inr (st', r)"
    and k: "QUEUES st k = Some q"
  shows "\<exists>q'. QUEUES st' k = Some q' \<and> (premiums_open q \<longrightarrow> premiums_open q') \<and>
    q_current_bid_id q \<le> q_current_bid_id q'"
proof -
  have "\<exists>q'. QUEUES st' k = Some q' \<and> book_step q q'"
  proof (cases m)
    case (AddQueue asset mp thr)
    with ex have "add_queue st info asset mp thr = Inr (st', r)" by simp
    then show ?thesis by (rule add_queue_ok) (use k book_step_same[OF same_book_refl] in auto)
  next
    case (LqUpdateConfig owner pc op w mb mw)
    with ex have "QUEUES st' = QUEUES st" using update_config_queues by fastforce
    with k book_step_same[OF same_book_refl] show ?thesis by auto
  qed (use ex changes_book_step[OF _ k] submit_bid_book[OF assms(1)] retract_bid_book[OF assms(1)]
      execute_liquidation_book[OF assms(1)] claim_liquidations_book[OF assms(1)]
      edit_queue_book[OF assms(1)] in auto)
  then show ?thesis by (simp add: book_step_def)
qed

theorem premiums_stay_open_witness:
  "\<exists>st' r q'. lq_execute demo_lib demo_st (demo_env 1) (demo_info ''owner'' [])
     (UpdateQueue (NativeToken ''atom'') (Some 3) (Some 2000000)) = Inr (st', r) \<and>
     QUEUES st' ''atom'' = Some q' \<and> premiums_open q'"
proof -
  obtain st' r where ex: "lq_execute demo_lib demo_st (demo_env 1) (demo_info ''owner'' [])
     (UpdateQueue (NativeToken ''atom'') (Some 3) (Some 2000000)) = Inr (st', r)"
    using demo_edit by auto
  have q: "QUEUES demo_st ''atom'' = Some demo_queue" by simp
  have "premiums_open demo_queue"
    by (simp add: premiums_open_def demo_queue_def find_slot_def premium_key_def demo_slot0_def demo_slot1_def)
  with premiums_stay_open[OF demo_inv ex q] ex show ?thesis
    by (intro exI[of _ st'] exI[of _ r]) auto
qed

text \<open>
  C14. Every bid of a queue can be reached by its id: in a well-formed queue whose premiums are all
  open, \<open>read_bid\<close> (which retracting, claiming by id and the bid query use) returns exactly the bid, be
  it active or waiting, as long as its premium is not above the maximum.
\<close>

theorem every_bid_is_found:
  assumes "lq_inv st" and "QUEUES st k = Some q" and "premiums_open q" and "q_max_premium q < 255"
    and "s \<in> set (q_slots q)" and "b \<in> set (s_bids s @ s_waiting_bids s)"
    and "b_liq_premium b \<le> q_max_premium q"
  shows "read_bid (b_id b) q = Inr b"
proof -
  have inv: "queue_inv q" using assms(1,2) by (auto simp: lq_inv_def)
  have "present q b" by (rule used_bid_present(1)[OF inv assms(5)]) (use assms(6) in auto)
  from read_bid_present[OF inv this assms(3,4,7)] show ?thesis .
qed

theorem every_bid_is_found_witness:
  "read_bid 3 demo_queue = Inr (demo_bid ''carol'' 3 100 (Some 1060)) \<and> lq_inv demo_st"
proof
  have "read_bid (b_id (demo_bid ''carol'' 3 100 (Some 1060))) demo_queue
      = Inr (demo_bid ''carol'' 3 100 (Some 1060))"
    by (rule every_bid_is_found[of demo_st "''atom''" demo_queue demo_slot1])
      (use demo_inv in \<open>simp_all add: premiums_open_def demo_queue_def find_slot_def premium_key_def
        demo_slot0_def demo_slot1_def\<close>)
  then show "read_bid 3 demo_queue = Inr (demo_bid ''carol'' 3 100 (Some 1060))" by simp
qed (rule demo_inv)

text \<open>
  Only the owner, or the address the owner has nominated, changes the configuration. The owner
  changes in one way only: the nominated address sends the update itself and becomes the owner.
  Queues and sums are out of reach of the message.
\<close>

theorem ownership_needs_acceptance:
  assumes "lq_update_config L st info owner pc op w m x = Inr (st', r)"
    and "CONFIG st = Some config" and "CONFIG st' = Some config'"
  shows "(lqc_owner config' = lqc_owner config \<and> sender info = lqc_owner config \<or>
      lqc_owner config' = sender info \<and> OWNERSHIP_TRANSFER st = Some (sender info)) \<and>
    QUEUES st' = QUEUES st \<and> EPOCH_SCALE_SUM st' = EPOCH_SCALE_SUM st \<and>
    (owner = None \<longrightarrow> OWNERSHIP_TRANSFER st' = OWNERSHIP_TRANSFER st)"
proof (rule update_config_steps[OF assms(1)])
  fix c0 c1 st1 c
  assume "CONFIG st = Some c0"
    "sender info = lqc_owner c0 \<and> c1 = c0 \<or>
     OWNERSHIP_TRANSFER st = Some (sender info) \<and> c1 = c0\<lparr>lqc_owner := sender info\<rparr>"
    "owner = None \<and> st1 = st \<or>
     (\<exists>new a. owner = Some new \<and> lib_addr_validate L new = Inr a \<and>
        st1 = st\<lparr>OWNERSHIP_TRANSFER := Some a\<rparr>)"
    "lqc_owner c = lqc_owner c1" "st' = st1\<lparr>CONFIG := Some c\<rparr>"
  with assms(2,3) show ?thesis by auto
qed

theorem ownership_needs_acceptance_witness:
  "\<exists>st' r c. lq_update_config demo_lib demo_st (demo_info ''heir'' []) None None None (Some 30) None None
     = Inr (st', r) \<and> CONFIG st' = Some c \<and>
     (lqc_owner c = ''heir'' \<or> sender (demo_info ''heir'' []) = ''owner'') \<and> QUEUES st' = QUEUES demo_st"
proof -
  obtain st' r where ex: "lq_update_config demo_lib demo_st (demo_info ''heir'' []) None None None (Some 30)
      None None = Inr (st', r)" using demo_update_config by blast
  obtain c where c: "CONFIG st' = Some c" using ex by (rule update_config_steps) auto
  have "CONFIG demo_st = Some demo_config" by simp
  from ownership_needs_acceptance[OF ex this c] ex c show ?thesis
    by (intro exI[of _ st'] exI[of _ r] exI[of _ c]) auto
qed

text \<open>
  Only the owner edits a queue, and only its maximum premium (to 1..50 percent) and its bid
  threshold (to 1,000,000..10,000,000) change; the bids, the amounts and the well-formedness of the
  queue are kept.
\<close>

theorem only_the_owner_edits:
  assumes "lq_inv st" and "edit_queue st info asset max_premium threshold = Inr (st', r)"
  shows "\<exists>config q q'. CONFIG st = Some config \<and> sender info = lqc_owner config \<and>
    QUEUES st (asset_info_to_string asset) = Some q \<and>
    QUEUES st' = (QUEUES st)(asset_info_to_string asset \<mapsto> q') \<and>
    q_max_premium q' = (case max_premium of None \<Rightarrow> q_max_premium q | Some n \<Rightarrow> n) \<and>
    (max_premium \<noteq> None \<longrightarrow> 1 \<le> q_max_premium q' \<and> q_max_premium q' \<le> 50) \<and>
    q_bid_threshold q' = (case threshold of None \<Rightarrow> q_bid_threshold q | Some t \<Rightarrow> t) \<and>
    (threshold \<noteq> None \<longrightarrow> 1000000 \<le> q_bid_threshold q' \<and> q_bid_threshold q' \<le> 10000000) \<and>
    queue_inv q' \<and> queue_balance q' = queue_balance q \<and> queue_amount q' = queue_amount q"
proof (rule edit_queue_ok[OF assms])
  fix q q' new config
  assume "CONFIG st = Some config" "sender info = lqc_owner config"
    "QUEUES st (asset_info_to_string asset) = Some q"
    "st' = queues_save st (asset_info_to_string asset) q'" "q_bid_asset q' = q_bid_asset q"
    "max_premium = None \<and> q_max_premium q' = q_max_premium q \<or>
     max_premium = Some (q_max_premium q') \<and> q_max_premium q' \<in> {1..50}"
    "threshold = None \<and> q_bid_threshold q' = q_bid_threshold q \<or>
     threshold = Some (q_bid_threshold q') \<and> q_bid_threshold q' \<in> {1000000..10000000}"
    "queue_inv q'" "queue_balance q' = queue_balance q"
  then show ?thesis by (intro exI[of _ config] exI[of _ q] exI[of _ q']) auto
qed

theorem only_the_owner_edits_witness:
  "\<exists>st' r q'. edit_queue demo_st (demo_info ''owner'' []) (NativeToken ''atom'') (Some 3) (Some 2000000)
     = Inr (st', r) \<and> QUEUES st' ''atom'' = Some q' \<and> q_max_premium q' = 3"
proof -
  obtain st' r where ex: "edit_queue demo_st (demo_info ''owner'' []) (NativeToken ''atom'') (Some 3)
      (Some 2000000) = Inr (st', r)" using demo_edit by blast
  from only_the_owner_edits[OF demo_inv ex] ex show ?thesis
    by (intro exI[of _ st'] exI[of _ r]) auto
qed

definition paid :: "lq_response \<Rightarrow> uint128" where
  "paid r = sum_list (map (\<lambda>m. case m of BankSend _ cs \<Rightarrow> sum_list (map c_amount cs) | _ \<Rightarrow> 0) (messages r))"

lemma query_bid_cases:
  assumes "query_bid st asset i = Inr res" and "QUEUES st (asset_info_to_string asset) = Some q"
    and "read_bid i q = Inr b" and "find_slot q (premium_key (b_liq_premium b)) = Some s"
  shows "br_wait_end res = b_wait_end b"
    and "b_wait_end b \<noteq> None \<Longrightarrow> br_amount res = b_amount b"
    and "b_wait_end b = None \<Longrightarrow> calculate_remaining_bid b s = Inr (a, e) \<Longrightarrow> br_amount res = a"
proof -
  have s: "read_premium_slot q (b_liq_premium b) = Inr s" 
    using assms by (auto simp: query_bid_def Let_def rbind_eq_Inr queues_load_def read_premium_slot_find
        split: sum.splits failure.splits if_splits)
  note ev = query_bid_def Let_def queues_load_def assms(2,3) s
  show "br_wait_end res = b_wait_end b"
    using assms(1) by (auto simp: ev rbind_eq_Inr)
  show "br_amount res = b_amount b" if "b_wait_end b \<noteq> None"
    using assms(1) that by (auto simp: ev rbind_eq_Inr)
  show "br_amount res = a" if "b_wait_end b = None" "calculate_remaining_bid b s = Inr (a, e)"
    using assms(1) that by (auto simp: ev rbind_eq_Inr)
qed

text \<open>
  The bid query and the retraction agree: retracting a whole bid pays at least the amount the
  query reports for it, and exactly that amount for a waiting bid (an active one can also collect
  the slot's residue).
\<close>

theorem query_agrees_with_retract:
  assumes "lq_inv st" and "query_bid st asset i = Inr res"
    and "retract_bid st info env i asset None = Inr (st', r)"
  shows "br_amount res \<le> paid r \<and> (br_wait_end res \<noteq> None \<longrightarrow> paid r = br_amount res)"
proof (rule retract_bid_ok[OF assms(1,3)])
  fix q b s q1 q' config w
  assume a: "QUEUES st (asset_info_to_string asset) = Some q" "read_bid i q = Inr b"
    "find_slot q (premium_key (b_liq_premium b)) = Some s" "bid_in s b"
    "b_wait_end b \<noteq> None \<and> retract_waiting config q b None = Inr (w, q1) \<or>
     b_wait_end b = None \<and>
       retract_active st config q b s (asset_info_to_string asset) None = Inr (w, q1)"
    "messages r = (if w = 0 then [] else
     [BankSend (sender info) [\<lparr>c_denom = ai_denom (a_info (q_bid_asset q1)), c_amount = w\<rparr>]])"
  have paid: "paid r = w" using a(6) by (simp add: paid_def)
  have qi: "queue_inv q" using assms(1) a(1) by (auto simp: lq_inv_def)
  note qc = query_bid_cases[OF assms(2) a(1-3)]
  show ?thesis
  proof (cases "b_wait_end b")
    case (Some t)
    then have "retract_waiting config q b None = Inr (w, q1)" using a(5) by simp
    from retract_waiting_ok(5)[OF qi a(3,4) this] qc(2) Some paid show ?thesis by simp
  next
    case None
    then have "retract_active st config q b s (asset_info_to_string asset) None = Inr (w, q1)"
      using a(5) by simp
    then show ?thesis
      by (rule retract_active_ok[OF qi a(3,4)]) (use qc(1,3) None paid in auto)
  qed
qed

theorem query_agrees_with_retract_witness:
  "\<exists>st' r res. query_bid demo_st (NativeToken ''atom'') 1 = Inr res \<and>
     retract_bid demo_st (demo_info ''alice'' []) (demo_env 1010) 1 (NativeToken ''atom'') None
       = Inr (st', r) \<and> br_amount res \<le> paid r"
proof -
  obtain st' r where ex: "retract_bid demo_st (demo_info ''alice'' []) (demo_env 1010) 1
      (NativeToken ''atom'') None = Inr (st', r)" using demo_retract_all by blast
  obtain res where q: "query_bid demo_st (NativeToken ''atom'') 1 = Inr res" using demo_query by blast
  from query_agrees_with_retract[OF demo_inv q ex] q ex show ?thesis by blast
qed

text \<open>
  Retracting a waiting bid pays it out of an amount it was never part of: the queue's amount
  falls by the refund although no slot's total does (a waiting amount is only added to the queue's
  amount when it activates), so the queue then counts less than its slots hold.
\<close>

theorem waiting_retraction_drifts:
  assumes "lq_inv st" and "QUEUES st (asset_info_to_string asset) = Some q" and "read_bid i q = Inr b"
    and "b_wait_end b \<noteq> None" and "retract_bid st info env i asset amount = Inr (st', r)"
  shows "\<exists>q'. QUEUES st' (asset_info_to_string asset) = Some q' \<and>
    queue_amount q' + paid r = queue_amount q \<and> slot_totals (q_slots q') = slot_totals (q_slots q) \<and>
    paid r = (case amount of None \<Rightarrow> b_amount b | Some a \<Rightarrow> a)"
proof (rule retract_bid_ok[OF assms(1,5)])
  fix q0 b0 s q1 q' config w
  assume a: "QUEUES st (asset_info_to_string asset) = Some q0" "read_bid i q0 = Inr b0"
    "st' = queues_save st (asset_info_to_string asset) q'"
    "find_slot q0 (premium_key (b_liq_premium b0)) = Some s" "bid_in s b0"
    "b_wait_end b0 \<noteq> None \<and> retract_waiting config q0 b0 amount = Inr (w, q1) \<or>
     b_wait_end b0 = None \<and>
       retract_active st config q0 b0 s (asset_info_to_string asset) amount = Inr (w, q1)"
    "w \<le> queue_amount q1"
    "q' = q1\<lparr>q_bid_asset := (q_bid_asset q1)\<lparr>a_amount := queue_amount q1 - w\<rparr>\<rparr>"
    "messages r = (if w = 0 then [] else
       [BankSend (sender info) [\<lparr>c_denom = ai_denom (a_info (q_bid_asset q1)), c_amount = w\<rparr>]])"
  have same: "q0 = q" "b0 = b" using a(1,2) assms(2,3) by auto
  have qi: "queue_inv q" using assms(1,2) by (auto simp: lq_inv_def)
  have w: "retract_waiting config q b amount = Inr (w, q1)" using a(6) assms(4) same by simp
  have bal: "queue_balance q1 = queue_balance q" "q_bid_asset q1 = q_bid_asset q"
    and wa: "w = (case amount of None \<Rightarrow> b_amount b | Some a \<Rightarrow> a)"
    using retract_waiting_ok(2,3,5)[OF qi a(4,5)[unfolded same] w] by auto
  have "slot_totals (q_slots q1) = slot_totals (q_slots q)" using bal by (simp add: queue_balance_def)
  then show ?thesis
    using a(3,7-9) bal(2) wa by (intro exI[of _ q']) (auto simp: paid_def)
qed

theorem waiting_retraction_drifts_witness:
  "\<exists>st' r q'. retract_bid demo_st (demo_info ''carol'' []) (demo_env 1010) 3 (NativeToken ''atom'') None
     = Inr (st', r) \<and> QUEUES st' ''atom'' = Some q' \<and> queue_amount q' + 100 = 800 \<and>
     slot_totals (q_slots q') = 800"
proof -
  obtain st' r where ex: "retract_bid demo_st (demo_info ''carol'' []) (demo_env 1010) 3
      (NativeToken ''atom'') None = Inr (st', r)" using demo_retract_waiting by blast
  have q: "QUEUES demo_st (asset_info_to_string (NativeToken ''atom'')) = Some demo_queue" by simp
  have w: "b_wait_end (demo_bid ''carol'' 3 100 (Some 1060)) \<noteq> None" by simp
  have t: "slot_totals (q_slots demo_queue) = 800" "queue_amount demo_queue = 800"
    by (simp_all add: slot_totals_def demo_queue_def demo_slot0_def)
  from waiting_retraction_drifts[OF demo_inv q demo_read(2) w ex] ex t show ?thesis
    by (intro exI[of _ st'] exI[of _ r]) auto
qed

text \<open>
  C27. A claim settles only bids of the sender that are in the queue, pays the sender in the
  liquidated asset and nothing else, and moves no bid money: neither the queue's amount nor the
  difference to its slots' totals changes.
\<close>

theorem claim_pays_owner_only:
  assumes "lq_inv st" and "claim_liquidations st env info asset ids = Inr (st', r)"
  shows "\<exists>q q' bs. QUEUES st (asset_info_to_string asset) = Some q \<and>
    QUEUES st' = (QUEUES st)(asset_info_to_string asset \<mapsto> q') \<and>
    claim_bids q info ids = Inr bs \<and> (\<forall>b\<in>set bs. b_user b = sender info \<and> present q b) \<and>
    queue_inv q' \<and> queue_balance q' = queue_balance q \<and> q_bid_asset q' = q_bid_asset q \<and>
    messages r = (if paid r = 0 then [] else
      [BankSend (sender info) [\<lparr>c_denom = ai_denom asset, c_amount = paid r\<rparr>]])"
proof (rule claim_liquidations_ok[OF assms])
  fix q q' bs total
  assume a: "QUEUES st (asset_info_to_string asset) = Some q" "claim_bids q info ids = Inr bs"
    "st' = queues_save st (asset_info_to_string asset) q'"
    "queue_inv q'" "queue_balance q' = queue_balance q" "q_bid_asset q' = q_bid_asset q"
    "\<forall>b\<in>set bs. b_user b = sender info \<and> present q b"
    "messages r = (if total = 0 then [] else
       [BankSend (sender info) [\<lparr>c_denom = ai_denom asset, c_amount = total\<rparr>]])"
  have "paid r = total" using a(8) by (simp add: paid_def)
  with a show ?thesis by (intro exI[of _ q] exI[of _ q'] exI[of _ bs]) simp
qed

theorem claim_pays_owner_only_witness:
  "\<exists>st' r q'. claim_liquidations demo_st (demo_env 1010) (demo_info ''bob'' []) (NativeToken ''atom'') None
     = Inr (st', r) \<and> QUEUES st' ''atom'' = Some q' \<and> q_bid_asset q' = q_bid_asset demo_queue"
proof -
  obtain st' r where ex: "claim_liquidations demo_st (demo_env 1010) (demo_info ''bob'' [])
      (NativeToken ''atom'') None = Inr (st', r)" using demo_claim by blast
  from claim_pays_owner_only[OF demo_inv ex] ex show ?thesis
    by (intro exI[of _ st'] exI[of _ r]) auto
qed

lemma u64_pow10_ok:
  "u64_pow10 e = Inr s \<longleftrightarrow> e mod 4294967296 < 20 \<and> s = 10 ^ (e mod 4294967296)"
  by (auto simp: u64_pow10_def Let_def)

lemma price256_value_ok:
  "price256_get_value p a = Inr v \<longleftrightarrow>
     (let scale = 10 ^ (p256_decimals p mod 4294967296); d = a * DECIMAL_FRACTIONAL div scale in
      p256_decimals p mod 4294967296 < 20 \<and> a * DECIMAL_FRACTIONAL < U256_BOUND \<and>
      p256_price p * d < U256_BOUND \<and> v = p256_price p * d div DECIMAL_FRACTIONAL)"
  by (auto simp: price256_get_value_def rbind_eq_Inr u64_pow10_ok d256_ok Let_def)

lemma price256_amount_ok:
  "price256_get_amount p v = Inr a \<longleftrightarrow>
     (let scale = 10 ^ (p256_decimals p mod 4294967296); d = v * DECIMAL_FRACTIONAL div p256_price p in
      p256_decimals p mod 4294967296 < 20 \<and> v * DECIMAL_FRACTIONAL < U256_BOUND \<and> 0 < p256_price p \<and>
      scale * d < U256_BOUND \<and> a = scale * d div DECIMAL_FRACTIONAL)"
  by (auto simp: price256_get_amount_def rbind_eq_Inr u64_pow10_ok d256_ok uint256_ok Let_def)

text \<open>The error type does not matter to a price computation that succeeds.\<close>

lemma price256_any:
  "price256_get_value p a = (Inr v :: ('e, nat) result) \<Longrightarrow> price256_get_value p a = (Inr v :: ('f, nat) result)"
  "price256_get_amount p u = (Inr a :: ('e, nat) result) \<Longrightarrow> price256_get_amount p u = (Inr a :: ('f, nat) result)"
  by (simp_all only: price256_value_ok price256_amount_ok)

text \<open>
  One slot of the liquidation preview agrees with the liquidation of that slot: for a slot with bids and
  the same prices, the step of \<open>query_liquidatible\<close> adds the amount the slot repays and leaves the
  collateral the liquidation leaves. The whole queries differ in the order of the slots and in the waiting bids.
\<close>

theorem preview_matches_liquidation:
  assumes "to_decimal256 L price = Inr p" and "to_decimal256 L credit = Inr cp"
    and "0 < s_total_bid_amount slot" and "0 < remaining"
    and "execute_pool_liquidation st slot premium bid_for remaining p cp False
      = Inr (st', slot', repay, col, filled)"
    and "liquidatible_step L price credit slot (remaining, acc) = Inr (remaining', acc')"
  shows "acc' = acc + repay \<and> remaining' = (if filled then 0 else remaining - col)"
proof -
  let ?p = "p\<lparr>p256_price := p256_price p * (d256_one - s_liq_premium slot) div DECIMAL_FRACTIONAL\<rparr>"
  have pool: "pool_amounts slot remaining ?p cp
      = (Inr (repay, col, filled) :: (uint256 \<times> uint256 \<times> bool) lq_result)"
    using assms(5) by (auto simp: execute_pool_liquidation_def Let_def rbind_eq_Inr d256_ok uint256_ok)
  let ?D = "s_total_bid_amount slot"
  have prem: "(d256_sub d256_one (s_liq_premium slot) :: (std_error, nat) result)
        = Inr (d256_one - s_liq_premium slot)"
      "(d256_mul (p256_price p) (d256_one - s_liq_premium slot) :: (std_error, nat) result)
        = Inr (p256_price p * (d256_one - s_liq_premium slot) div DECIMAL_FRACTIONAL)"
    using assms(5) by (auto simp: execute_pool_liquidation_def rbind_eq_Inr d256_ok)
  from pool obtain v x where
    vx: "price256_get_value ?p remaining = (Inr v :: nat lq_result)"
      "price256_get_amount cp v = (Inr x :: nat lq_result)"
    and rest: "if ?D < x then repay = ?D \<and> \<not> filled \<and> (\<exists>u. price256_get_value cp ?D = (Inr u :: nat lq_result) \<and>
        price256_get_amount ?p u = (Inr col :: nat lq_result)) else repay = x \<and> col = remaining \<and> filled"
    by (auto simp: pool_amounts_def rbind_eq_Inr split: if_splits)
  note vx' = price256_any(1)[OF vx(1), where 'f = std_error] price256_any(2)[OF vx(2), where 'f = std_error]
  have z: "\<not> (uint256_is_zero ?D \<or> uint256_is_zero remaining)"
    using assms(3,4) by (simp add: uint256_is_zero_def)
  show ?thesis
  proof (cases "?D < x")
    case True
    with rest obtain u where u: "price256_get_value cp ?D = (Inr u :: nat lq_result)"
      "price256_get_amount ?p u = (Inr col :: nat lq_result)" "repay = ?D" "\<not> filled" by auto
    note u' = price256_any(1)[OF u(1), where 'f = std_error] price256_any(2)[OF u(2), where 'f = std_error]
    from assms(6) z True u(3,4) show ?thesis
      by (simp add: liquidatible_step_def assms(1,2) prem vx' u' Let_def rbind_eq_Inr uint256_ok)
  next
    case False
    with assms(6) z rest show ?thesis
      by (simp add: liquidatible_step_def assms(1,2) prem vx' Let_def rbind_eq_Inr uint256_ok
          uint256_zero_def)
  qed
qed

theorem preview_matches_liquidation_witness:
  "\<exists>st' s' r c f x y. execute_pool_liquidation demo_st demo_slot1 1 ''atom'' 20
     \<lparr>p256_prices = [], p256_price = 10000000000000000000, p256_decimals = 0\<rparr>
     \<lparr>p256_prices = [], p256_price = 1000000000000000000, p256_decimals = 0\<rparr> False = Inr (st', s', r, c, f) \<and>
     liquidatible_step demo_lib (demo_price 10000000000000000000) (demo_price 1000000000000000000)
     demo_slot1 (20, 0) = Inr (x, y) \<and> y = r"
proof -
  obtain st' s' r c f where ex: "execute_pool_liquidation demo_st demo_slot1 1 ''atom'' 20
     \<lparr>p256_prices = [], p256_price = 10000000000000000000, p256_decimals = 0\<rparr>
     \<lparr>p256_prices = [], p256_price = 1000000000000000000, p256_decimals = 0\<rparr> False = Inr (st', s', r, c, f)"
    using demo_pool by blast
  obtain x y where st: "liquidatible_step demo_lib (demo_price 10000000000000000000)
     (demo_price 1000000000000000000) demo_slot1 (20, 0) = Inr (x, y)" using demo_preview by blast
  have b: "10000000000000000000 < U128_BOUND" "1000000000000000000 < U128_BOUND"
    by (simp_all add: U128_BOUND_def)
  have "y = 0 + r \<and> x = (if f then 0 else 20 - c)"
    by (rule preview_matches_liquidation[OF demo_to_decimal256[OF b(1)] demo_to_decimal256[OF b(2)] _ _ ex st])
      simp_all
  with ex st show ?thesis by auto
qed

end
