(* ===== verification/Liq_Value.thy ===== *)
theory Liq_Value
  imports Liq_Demo
begin

text \<open>
  What a bid is worth: solvency of a slot (the entitlements of its bids against its total) through
  liquidations, retractions, claims and activation, the bound on the collateral paid out, and the
  round trips of the numbers.
\<close>

section \<open>Bids replaced in a slot\<close>

lemma sum_list_filter_key_real:
  fixes f :: "'a \<Rightarrow> real"
  assumes "distinct (map k xs)" and "x \<in> set xs"
  shows "sum_list (map f (filter (\<lambda>y. k y \<noteq> k x) xs)) + f x = sum_list (map f xs)"
proof -
  have "sum_list (map f xs) = sum_list (map f (filter (\<lambda>y. k y = k x) xs))
      + sum_list (map f (filter (\<lambda>y. k y \<noteq> k x) xs))"
    by (induction xs) auto
  then show ?thesis using filter_key_distinct[OF assms] by simp
qed

lemma entitlement_rebase:
  "0 < s_product_snapshot s \<Longrightarrow> entitlement s (rebase_bid s x b) \<le> real x"
  by (simp add: entitlement_def)

text \<open>Dropping a bid takes its entitlement off the slot's; rebasing it to \<open>x\<close> units adds at most \<open>x\<close>.\<close>

lemma slot_entitlement_replace:
  assumes "distinct (slot_ids s)" and "b \<in> set (s_bids s)"
    and "s_product_snapshot s' = s_product_snapshot s" "s_current_epoch s' = s_current_epoch s"
      "s_current_scale s' = s_current_scale s"
    and "s_bids s' = s_bids (drop_bid (b_id b) s) \<or>
      s_bids s' = filter (\<lambda>c. b_id c \<noteq> b_id b) (s_bids s) @ [c]"
    and "entitlement s c \<le> real x"
  shows "slot_entitlement s' + entitlement s b \<le> slot_entitlement s + real x"
proof -
  have e: "entitlement s' = entitlement s" by (rule entitlement_cong) (use assms(3-5) in auto)
  have "distinct (map b_id (s_bids s))" using assms(1) by (simp add: slot_ids_def)
  from sum_list_filter_key_real[OF this assms(2), of "entitlement s"] assms(6,7)
  show ?thesis by (auto simp: slot_entitlement_def e drop_bid_def)
qed

lemma entitlement_pending [simp]:
  "entitlement s (b\<lparr>b_pending_liquidated_collateral := x\<rparr>) = entitlement s b"
  by (simp add: entitlement_def)

lemma rebase_pending:
  "entitlement s (rebase_bid s x (b\<lparr>b_pending_liquidated_collateral := y\<rparr>)) = entitlement s (rebase_bid s x b)"
  by (simp add: entitlement_def)

text \<open>
  Retracting an active bid is covered by what the bid is worth: the amount taken off the
  slot's total is at most the bid's exact entitlement, and the entitlements of the slot's bids fall
  by at least that amount, so a slot that covers its bids still covers them afterwards.
\<close>

theorem retract_keeps_solvency:
  assumes "lq_inv st" and "QUEUES st (asset_info_to_string asset) = Some q" and "read_bid i q = Inr b"
    and "b_wait_end b = None" and "find_slot q (premium_key (b_liq_premium b)) = Some s"
    and "0 < s_product_snapshot s"
    and "retract_bid st info env i asset amount = Inr (st', r)"
  shows "\<exists>q' s' w. QUEUES st' (asset_info_to_string asset) = Some q' \<and>
    find_slot q' (premium_key (b_liq_premium b)) = Some s' \<and>
    real w \<le> entitlement s b \<and> s_total_bid_amount s' + w = s_total_bid_amount s \<and>
    slot_entitlement s' + real w \<le> slot_entitlement s"
proof (rule retract_bid_ok[OF assms(1,7)])
  fix q0 b0 s0 q1 q' config refund
  assume a: "QUEUES st (asset_info_to_string asset) = Some q0"
    "st' = queues_save st (asset_info_to_string asset) q'"
    "read_bid i q0 = Inr b0" "find_slot q0 (premium_key (b_liq_premium b0)) = Some s0" "bid_in s0 b0"
    "b_wait_end b0 \<noteq> None \<and> retract_waiting config q0 b0 amount = Inr (refund, q1) \<or>
     b_wait_end b0 = None \<and>
       retract_active st config q0 b0 s0 (asset_info_to_string asset) amount = Inr (refund, q1)"
    "q' = q1\<lparr>q_bid_asset := (q_bid_asset q1)\<lparr>a_amount := queue_amount q1 - refund\<rparr>\<rparr>"
  have same: "q0 = q" "b0 = b" "s0 = s" using a(1,3,4) assms(2,3,5) by auto
  have qi: "queue_inv q" using assms(1,2) by (auto simp: lq_inv_def)
  have bin: "b \<in> set (s_bids s)" "bid_in s b" using a(5) same assms(4) by (auto simp: bid_in_def)
  have act: "retract_active st config q b s (asset_info_to_string asset) amount = Inr (refund, q1)"
    using a(6) assms(4) same by simp
  show ?thesis
  proof (rule retract_active_ok[OF qi assms(5) bin(2) act])
    fix able res_b res_c w x s'
    assume r: "calculate_remaining_bid b s = Inr (able, res_b)" "w \<le> able"
      "w \<le> s_total_bid_amount s" "find_slot q1 (premium_key (b_liq_premium b)) = Some s'"
      "s_bids s' = s_bids (drop_bid (b_id b) s) \<or>
       s_bids s' = s_bids (keep_bid (rebase_bid s (able - w) (b\<lparr>b_pending_liquidated_collateral := x\<rparr>)) s)"
      "s_total_bid_amount s' = s_total_bid_amount s - w" "s_product_snapshot s' = s_product_snapshot s"
      "s_current_epoch s' = s_current_epoch s" "s_current_scale s' = s_current_scale s"
    let ?c = "rebase_bid s (able - w) (b\<lparr>b_pending_liquidated_collateral := x\<rparr>)"
    have bids: "s_bids s' = s_bids (drop_bid (b_id b) s) \<or>
        s_bids s' = filter (\<lambda>c. b_id c \<noteq> b_id b) (s_bids s) @ [?c]"
      using r(5) assms(4) by (simp add: keep_bid_def)
    have "slot_entitlement s' + entitlement s b \<le> slot_entitlement s + real (able - w)"
      by (rule slot_entitlement_replace[OF queue_found(3)[OF qi assms(5)] bin(1) r(7-9) bids])
        (rule entitlement_rebase[OF assms(6)])
    moreover have "real able \<le> entitlement s b" by (rule remaining_le[OF r(1)])
    moreover have "real w \<le> real able" "real (able - w) = real able - real w" using r(2) by simp_all
    ultimately have "real w \<le> entitlement s b" "slot_entitlement s' + real w \<le> slot_entitlement s"
      by linarith+
    moreover have "find_slot q' = find_slot q1" by (simp add: fun_eq_iff find_slot_def a(7))
    ultimately show ?thesis using a(2) r(3,4,6) by (intro exI[of _ q'] exI[of _ s'] exI[of _ w]) simp
  qed
qed

theorem retract_keeps_solvency_witness:
  "\<exists>st' r q' s' w. retract_bid demo_st (demo_info ''alice'' []) (demo_env 1010) 1 (NativeToken ''atom'')
     (Some 100) = Inr (st', r) \<and> QUEUES st' ''atom'' = Some q' \<and>
     find_slot q' (premium_key 1) = Some s' \<and> s_total_bid_amount s' + w = 800 \<and>
     slot_entitlement s' + real w \<le> slot_entitlement demo_slot1"
proof -
  obtain st' r where ex: "retract_bid demo_st (demo_info ''alice'' []) (demo_env 1010) 1
      (NativeToken ''atom'') (Some 100) = Inr (st', r)" using demo_retract by blast
  have "\<exists>q' s' w. QUEUES st' (asset_info_to_string (NativeToken ''atom'')) = Some q' \<and>
    find_slot q' (premium_key (b_liq_premium (demo_bid ''alice'' 1 600 None))) = Some s' \<and>
    real w \<le> entitlement demo_slot1 (demo_bid ''alice'' 1 600 None) \<and>
    s_total_bid_amount s' + w = s_total_bid_amount demo_slot1 \<and>
    slot_entitlement s' + real w \<le> slot_entitlement demo_slot1"
    by (rule retract_keeps_solvency[OF demo_inv _ demo_read(1) _ _ _ ex])
      (simp_all add: demo_state premium_key_def find_slot_def)
  with ex show ?thesis
    by (intro exI[of _ st'] exI[of _ r]) auto
qed

text \<open>
  Claiming the collateral of an active bid leaves the total of its slot alone and does not
  raise what the slot owes: the bid is removed or rebased to what is left of it, and the
  entitlements of the slot's bids do not grow.
\<close>

theorem claim_keeps_solvency:
  assumes "queue_inv q" and "present q b" and "b_wait_end b = None"
    and "find_slot q (premium_key (b_liq_premium b)) = Some s" and "0 < s_product_snapshot s"
    and "claim_step st env info bid_for b (q, c) = Inr (q', c')"
  shows "\<exists>s'. find_slot q' (premium_key (b_liq_premium b)) = Some s' \<and>
    s_total_bid_amount s' = s_total_bid_amount s \<and> slot_entitlement s' \<le> slot_entitlement s"
proof (cases "q' = q")
  case True
  with assms(4) show ?thesis by simp
next
  case False
  with claim_step_cases[OF assms(6)] assms(4) obtain left res_b x where
    left: "calculate_remaining_bid b s = Inr (left, res_b)" and
    q': "(if left \<le> 1 then remove_bid b (store_premium_slot q (s\<lparr>s_residue_collateral := x,
           s_residue_bid := s_residue_bid s + res_b\<rparr>))
       else store_bid (store_premium_slot q (s\<lparr>s_residue_collateral := x,
           s_residue_bid := s_residue_bid s + res_b\<rparr>))
         (rebase_bid s left b\<lparr>b_pending_liquidated_collateral := 0\<rparr>)) = Inr q'"
    by (metis (no_types, lifting) option.inject)
  let ?s1 = "s\<lparr>s_residue_collateral := x, s_residue_bid := s_residue_bid s + res_b\<rparr>"
  let ?b = "rebase_bid s left b\<lparr>b_pending_liquidated_collateral := 0\<rparr>"
  let ?s' = "if left \<le> 1 then drop_bid (b_id b) ?s1 else keep_bid ?b ?s1"
  have f1: "find_slot (store_premium_slot q ?s1) (premium_key (b_liq_premium b)) = Some ?s1"
    using slots.read_key[OF assms(4)] by (simp add: slots.read_store)
  have "q' = store_premium_slot (store_premium_slot q ?s1) ?s'"
    using q' remove_bid_found[OF _ f1] store_bid_found[of _ ?b q' ?s1] f1 by (auto split: if_splits)
  then have f': "find_slot q' (premium_key (b_liq_premium b)) = Some ?s'"
    using slots.read_key[OF assms(4)] by (simp add: slots.read_store)
  have bin: "b \<in> set (s_bids s)" using assms(2-4) by (auto simp: present_def bid_in_def)
  have bids: "s_bids ?s' = s_bids (drop_bid (b_id b) s) \<or>
      s_bids ?s' = filter (\<lambda>c. b_id c \<noteq> b_id b) (s_bids s) @ [?b]"
    using assms(3) by (simp add: keep_bid_def drop_bid_def)
  have "slot_entitlement ?s' + entitlement s b \<le> slot_entitlement s + real left"
    by (rule slot_entitlement_replace[OF queue_found(3)[OF assms(1,4)] bin _ _ _ bids])
      (use entitlement_rebase[OF assms(5)] in simp_all)
  then have "slot_entitlement ?s' \<le> slot_entitlement s" using remaining_le[OF left] by linarith
  then show ?thesis using f' by (intro exI[of _ ?s']) simp
qed

theorem claim_keeps_solvency_witness:
  "\<exists>q' c' s'. claim_step demo_st (demo_env 1010) (demo_info ''bob'' []) ''atom'' (demo_bid ''bob'' 2 400 None)
     (demo_queue, 0) = Inr (q', c') \<and> find_slot q' (premium_key 1) = Some s' \<and>
     s_total_bid_amount s' = 800 \<and> slot_entitlement s' \<le> slot_entitlement demo_slot1"
proof -
  obtain q' c' where ex: "claim_step demo_st (demo_env 1010) (demo_info ''bob'' []) ''atom''
      (demo_bid ''bob'' 2 400 None) (demo_queue, 0) = Inr (q', c')" using demo_claim_step by blast
  have f: "find_slot demo_queue (premium_key (b_liq_premium (demo_bid ''bob'' 2 400 None))) = Some demo_slot1"
    using demo_found by simp
  have p: "present demo_queue (demo_bid ''bob'' 2 400 None)"
    using demo_found by (simp add: present_def bid_in_def demo_slot1_def)
  have w: "b_wait_end (demo_bid ''bob'' 2 400 None) = None" "0 < s_product_snapshot demo_slot1"
    by (simp_all add: demo_slot1_def)
  from claim_keeps_solvency[OF demo_queue_inv p w(1) f w(2) ex] ex show ?thesis
    by (intro exI[of _ q'] exI[of _ c']) auto
qed

text \<open>
  C7. Collateral is never paid twice: if the slot covers its bids and its current bids are settled
  (their sum snapshot is the slot's), what \<open>calculate_liquidated_collateral\<close> then reports for all of
  them adds up to at most the collateral the liquidation sold.
\<close>

theorem collateral_is_conserved:
  assumes ex: "execute_pool_liquidation st slot premium bid_for c price credit_price filled
      = Inr (st', slot', repay, col, filled')"
    and cover: "slot_entitlement slot \<le> real (s_total_bid_amount slot)"
    and settled: "\<forall>b\<in>set (current_bids slot).
      b_sum_snapshot b = s_sum_snapshot slot \<and> b_liq_premium b = premium"
    and first: "EPOCH_SCALE_SUM st (bid_for, premium, s_current_epoch slot, s_current_scale slot + 1) = None"
    and earned: "list_all2 (\<lambda>b e. \<exists>res. calculate_liquidated_collateral st' b bid_for = Inr (e, res))
      (current_bids slot) es"
  shows "sum_list es \<le> col"
proof -
  let ?ds = "s_product_snapshot slot * (col * DECIMAL_FRACTIONAL div s_total_bid_amount slot)
    div DECIMAL_FRACTIONAL"
  note st' = execute_pool_liquidation_ok(4)[OF ex]
  have one: "real e \<le> collateral_share ?ds b"
    if b: "b \<in> set (current_bids slot)" and "calculate_liquidated_collateral st' b bid_for = Inr (e, res)"
    for b e res
  proof -
    have now: "b_epoch_snapshot b = s_current_epoch slot" "b_scale_snapshot b = s_current_scale slot"
      using b by (auto simp: current_bids_def)
    have s: "b_sum_snapshot b = s_sum_snapshot slot" "b_liq_premium b = premium" using settled b by auto
    have "real e \<le> collateral_share (s_sum_snapshot slot + ?ds - b_sum_snapshot b) b"
      by (rule liquidated_collateral_le[OF that(2)]) (use now s first in \<open>simp_all add: st'\<close>)
    then show ?thesis using s by simp
  qed
  have "real (sum_list xs) \<le> sum_list (map (collateral_share ?ds) bs)"
    if "list_all2 (\<lambda>b e. \<exists>res. calculate_liquidated_collateral st' b bid_for = Inr (e, res)) bs xs"
      "set bs \<subseteq> set (current_bids slot)" for bs xs
    using that
  proof (induction rule: list_all2_induct)
    case (Cons b bs x xs)
    then show ?case using one by fastforce
  qed simp
  from this[OF earned] collateral_shares_le[OF ex cover refl] have "real (sum_list es) \<le> real col"
    by simp
  then show ?thesis by simp
qed

theorem collateral_is_conserved_witness:
  "sum_list [12, 8] \<le> (20::nat) \<and> calculate_liquidated_collateral demo_after
     (rebase_bid demo_slot1 480 (demo_bid ''alice'' 1 600 None)) ''atom'' = Inr (12, 0)"
proof
  obtain s' r f where ex: "execute_pool_liquidation demo_st demo_settled 1 ''atom'' 20
     \<lparr>p256_prices = [], p256_price = 10000000000000000000, p256_decimals = 0\<rparr>
     \<lparr>p256_prices = [], p256_price = 1000000000000000000, p256_decimals = 0\<rparr> False
     = Inr (demo_after, s', r, 20, f)" using demo_settled_pool by blast
  show "sum_list [12, 8] \<le> (20::nat)"
    by (rule collateral_is_conserved[OF ex _ _ _ demo_settled_earned])
      (simp_all add: demo_settled_entitlement demo_settled_bids demo_settled_simps rebase_bid_def demo_slot1_def)
  show "calculate_liquidated_collateral demo_after
     (rebase_bid demo_slot1 480 (demo_bid ''alice'' 1 600 None)) ''atom'' = Inr (12, 0)"
    by (simp add: demo_after_def calculate_liquidated_collateral_def
      read_epoch_scale_sum_def split_residue_def rebase_bid_def store_epoch_scale_sum_def demo_eval)
qed

lemma activate_bid_zero: "activate_bid b s q = Inr (b', s', q') \<Longrightarrow> b_amount b' = 0"
  by (drule activate_bid_ok(1)) simp

text \<open>
  C24. When \<open>set_slot_total\<close> recalculates a slot (its waiting period is over, or it holds less than the
  threshold), no bid whose waiting time has passed stays behind: every bid left waiting has a
  waiting time in the future and the slot then holds more than the threshold.
\<close>

theorem ripe_bids_activate:
  assumes "set_slot_total s env q config = (Inr (s', q') :: (PremiumSlot \<times> Queue) lq_result)"
    and "lqc_waiting_period config \<le> time_seconds env - s_last_total s \<or>
      s_total_bid_amount s < q_bid_threshold q"
  shows "\<forall>w\<in>set (s_waiting_bids s'). \<exists>t. b_wait_end w = Some t \<and> time_seconds env < t \<and>
    q_bid_threshold q < s_total_bid_amount s'"
proof -
  have loop: "\<forall>w\<in>set ws'. b_amount w \<noteq> 0 \<longrightarrow>
      (\<exists>t. b_wait_end w = Some t \<and> T < t \<and> q_bid_threshold q < s_total_bid_amount s1)"
    if "activate_waiting T ws s q = (Inr (ws', s1, q1) :: (Bid list \<times> PremiumSlot \<times> Queue) lq_result)"
    for T ws s q ws' s1 q1
    using that
  proof (induction T ws s q arbitrary: ws' s1 q1 rule: activate_waiting.induct)
    case (1 T s q)
    then show ?case by simp
  next
    case (2 T w ws s q)
    from 2(2) obtain w2 s2 q2 ws2 where st:
        "activation_step T w s q = (Inr (w2, s2, q2) :: (Bid \<times> PremiumSlot \<times> Queue) lq_result)"
        "activate_waiting T ws s2 q2
          = (Inr (ws2, s1, q1) :: (Bid list \<times> PremiumSlot \<times> Queue) lq_result)" "ws' = w2 # ws2"
      by (auto simp: res_ok)
    have thr: "q_bid_threshold q2 = q_bid_threshold q"
      using st(1) by (cases rule: activation_step_cases) (auto dest: activate_bid_ok(3))
    have mono: "s_total_bid_amount s2 \<le> s_total_bid_amount s1"
      using activate_waiting_frame[OF st(2)] by blast
    have "b_amount w2 = 0 \<or> (\<exists>t. b_wait_end w2 = Some t \<and> T < t \<and>
        q_bid_threshold q < s_total_bid_amount s2)"
      using st(1) by (auto simp: activation_step_def rbind_eq_Inr unwrap_eq_Inr split: if_splits
          dest: activate_bid_zero)
    with 2(1)[OF st(2)] thr mono st(3) show ?case by auto
  qed
  from assms obtain ws s1 q1 where
    "activate_waiting (time_seconds env) (s_waiting_bids s) s q
      = (Inr (ws, s1, q1) :: (Bid list \<times> PremiumSlot \<times> Queue) lq_result)"
    "s' = s1\<lparr>s_waiting_bids := filter (\<lambda>bid. \<not> uint256_is_zero (b_amount bid)) ws,
       s_last_total := time_seconds env\<rparr>"
    by (auto simp: set_slot_total_def Let_def rbind_eq_Inr int_ok split: if_splits)
  with loop show ?thesis by (auto simp: uint256_is_zero_def)
qed

theorem ripe_bids_activate_witness:
  "\<exists>s' q'. set_slot_total demo_slot1 (demo_env 1100) demo_queue demo_config
     = (Inr (s', q') :: (PremiumSlot \<times> Queue) lq_result) \<and>
     (\<forall>w\<in>set (s_waiting_bids s'). \<exists>t. b_wait_end w = Some t \<and> 1100 < t)"
proof -
  obtain s' q' where ex: "set_slot_total demo_slot1 (demo_env 1100) demo_queue demo_config
     = (Inr (s', q') :: (PremiumSlot \<times> Queue) lq_result)" using demo_set_slot_total by blast
  have "lqc_waiting_period demo_config \<le> time_seconds (demo_env 1100) - s_last_total demo_slot1"
    and t: "time_seconds (demo_env 1100) = 1100" by (simp_all add: demo_eval)
  then show ?thesis using ripe_bids_activate[OF ex] ex by (intro exI[of _ s'] exI[of _ q']) (auto simp: t)
qed

text \<open>
  A liquidation keeps the slot's product usable: starting between 10^9 atomics and one, it stays
  positive (no division by zero for bids that activate next) and at most one, and it stays at least
  10^9 atomics unless less than 10^-9 of the slot is left.
\<close>

theorem product_keeps_digits:
  assumes ex: "execute_pool_liquidation st slot premium bid_for c price credit_price filled
      = Inr (st', slot', repay, col, filled')"
    and "1000000000 \<le> s_product_snapshot slot" "s_product_snapshot slot \<le> DECIMAL_FRACTIONAL"
  shows "0 < s_product_snapshot slot' \<and> s_product_snapshot slot' \<le> DECIMAL_FRACTIONAL \<and>
    (repay * DECIMAL_FRACTIONAL div s_total_bid_amount slot + 1000000000 \<le> DECIMAL_FRACTIONAL \<longrightarrow>
     1000000000 \<le> s_product_snapshot slot')"
proof -
  note up = execute_pool_liquidation_ok(5)[OF ex]
  have "1000000000 \<le> s_product_snapshot (slot\<lparr>s_sum_snapshot := x, s_total_bid_amount := y\<rparr>)"
    "s_product_snapshot (slot\<lparr>s_sum_snapshot := x, s_total_bid_amount := y\<rparr>) \<le> DECIMAL_FRACTIONAL" for x y
    using assms(2,3) by simp_all
  from update_product_pos[OF up this(1)] update_product_le_one[OF up this(2)] show ?thesis by blast
qed

theorem product_keeps_digits_witness:
  "\<exists>st' s' r c f. execute_pool_liquidation demo_st demo_slot1 1 ''atom'' 20
     \<lparr>p256_prices = [], p256_price = 10000000000000000000, p256_decimals = 0\<rparr>
     \<lparr>p256_prices = [], p256_price = 1000000000000000000, p256_decimals = 0\<rparr> False = Inr (st', s', r, c, f) \<and>
     0 < s_product_snapshot s'"
proof -
  obtain st' s' r c f where ex: "execute_pool_liquidation demo_st demo_slot1 1 ''atom'' 20
     \<lparr>p256_prices = [], p256_price = 10000000000000000000, p256_decimals = 0\<rparr>
     \<lparr>p256_prices = [], p256_price = 1000000000000000000, p256_decimals = 0\<rparr> False = Inr (st', s', r, c, f)"
    using demo_pool by blast
  have "1000000000 \<le> s_product_snapshot demo_slot1" "s_product_snapshot demo_slot1 \<le> DECIMAL_FRACTIONAL"
    by (simp_all add: demo_slot1_def DECIMAL_FRACTIONAL_def)
  from product_keeps_digits[OF ex this] ex show ?thesis by blast
qed

text \<open>
  C16. Liquidating a slot keeps it solvent up to rounding: the total falls by exactly the repaid
  amount, and bids that were covered up to \<open>slack\<close> units are covered afterwards up to \<open>slack\<close> and one
  atomic (10^-18) per unit that was in the slot.
\<close>

theorem liquidation_keeps_solvency:
  assumes "execute_pool_liquidation st slot premium bid_for c price credit_price filled
      = Inr (st', slot', repay, col, filled')"
    and "\<forall>b\<in>set (s_bids slot). bid_behind slot b"
    and "slot_entitlement slot \<le> real (s_total_bid_amount slot) + slack" and "0 \<le> slack"
  shows "s_total_bid_amount slot' + repay = s_total_bid_amount slot \<and>
    slot_entitlement slot' \<le> real (s_total_bid_amount slot') + slack
      + (real (s_total_bid_amount slot) + slack) / real DECIMAL_FRACTIONAL"
  using pool_liquidation_entitlement[OF assms] execute_pool_liquidation_slot(7)[OF assms(1)]
    execute_pool_liquidation_ok(2)[OF assms(1)] by simp

theorem liquidation_keeps_solvency_witness:
  "\<exists>st' s' r c f. execute_pool_liquidation demo_st demo_slot1 1 ''atom'' 20
     \<lparr>p256_prices = [], p256_price = 10000000000000000000, p256_decimals = 0\<rparr>
     \<lparr>p256_prices = [], p256_price = 1000000000000000000, p256_decimals = 0\<rparr> False = Inr (st', s', r, c, f) \<and>
     slot_entitlement s' \<le> real (s_total_bid_amount s') + 800 / real DECIMAL_FRACTIONAL"
proof -
  obtain st' s' r c f where ex: "execute_pool_liquidation demo_st demo_slot1 1 ''atom'' 20
     \<lparr>p256_prices = [], p256_price = 10000000000000000000, p256_decimals = 0\<rparr>
     \<lparr>p256_prices = [], p256_price = 1000000000000000000, p256_decimals = 0\<rparr> False = Inr (st', s', r, c, f)"
    using demo_pool by blast
  have "\<forall>b\<in>set (s_bids demo_slot1). bid_behind demo_slot1 b"
    by (simp add: demo_slot1_def demo_bid_def bid_behind_def)
  from liquidation_keeps_solvency[OF ex this, of 0] ex show ?thesis
    by (auto simp: demo_entitlement)
qed

text \<open>
  C13. If a slot covers its bids up to less than one unit, everything its active bids could withdraw
  at once (the whole units \<open>calculate_remaining_bid\<close> reports, summed over the bids) is at most the
  slot's total, so no retraction can run the slot below zero.
\<close>

theorem withdrawals_fit_the_slot:
  assumes "list_all2 (\<lambda>b r. \<exists>res. calculate_remaining_bid b slot = Inr (r, res)) (s_bids slot) rs"
    and "slot_entitlement slot < real (s_total_bid_amount slot) + 1"
  shows "sum_list rs \<le> s_total_bid_amount slot"
  using remaining_sum_le[OF assms] .

theorem withdrawals_fit_the_slot_witness:
  "\<exists>rs. list_all2 (\<lambda>b r. \<exists>res. calculate_remaining_bid b demo_slot1 = Inr (r, res)) (s_bids demo_slot1) rs \<and>
     sum_list rs \<le> 800"
proof -
  obtain rs where rs: "list_all2 (\<lambda>b r. \<exists>res. calculate_remaining_bid b demo_slot1 = Inr (r, res))
      (s_bids demo_slot1) rs" using demo_remaining by blast
  have "slot_entitlement demo_slot1 < real (s_total_bid_amount demo_slot1) + 1"
    by (simp add: demo_entitlement)
  from withdrawals_fit_the_slot[OF rs this] rs show ?thesis by auto
qed

text \<open>
  Activating waiting bids conserves money and value: the active and waiting amounts of the slot
  keep their sum, the queue counts exactly what became active, the entitlements of the active bids
  grow by exactly what the slot's total grows, and no bid id is duplicated.
\<close>

theorem activation_conserves:
  assumes "set_slot_total s env q config = (Inr (s', q') :: (PremiumSlot \<times> Queue) lq_result)"
    and "0 < s_product_snapshot s" and "slot_ok n s"
  shows "slot_money s' = slot_money s \<and>
    queue_amount q' + s_total_bid_amount s = queue_amount q + s_total_bid_amount s' \<and>
    slot_entitlement s' + real (s_total_bid_amount s) = slot_entitlement s + real (s_total_bid_amount s') \<and>
    slot_ok n s' \<and> mset (slot_ids s') \<subseteq># mset (slot_ids s)"
proof -
  have ent: "slot_entitlement s1 + real (s_total_bid_amount s) = slot_entitlement s + real (s_total_bid_amount s1)"
    if "activate_waiting t ws s q = (Inr (ws', s1, q1) :: (Bid list \<times> PremiumSlot \<times> Queue) lq_result)"
      and "0 < s_product_snapshot s" for t ws s q ws' s1 q1
    using that
  proof (induction t ws s q arbitrary: ws' s1 q1 rule: activate_waiting.induct)
    case (2 t w ws s q)
    from 2(2) obtain w2 s2 q2 ws2 where st:
        "activation_step t w s q = (Inr (w2, s2, q2) :: (Bid \<times> PremiumSlot \<times> Queue) lq_result)"
        "activate_waiting t ws s2 q2
          = (Inr (ws2, s1, q1) :: (Bid list \<times> PremiumSlot \<times> Queue) lq_result)"
      by (auto simp: res_ok)
    show ?case using st(1)
    proof (cases rule: activation_step_cases)
      case kept
      with 2(1)[OF st(2)] 2(3) show ?thesis by simp
    next
      case activated
      have "0 < s_product_snapshot s2" using activate_bid_ok(2)[OF activated] 2(3) by simp
      from 2(1)[OF st(2) this] activate_bid_entitlement[OF activated 2(3)] show ?thesis by linarith
    qed
  qed simp
  have "slot_entitlement s' + real (s_total_bid_amount s) = slot_entitlement s + real (s_total_bid_amount s')"
  proof (cases "s' = s")
    case False
    then obtain ws s1 t where a: "activate_waiting t (s_waiting_bids s) s q
          = (Inr (ws, s1, q') :: (Bid list \<times> PremiumSlot \<times> Queue) lq_result)"
        "s' = s1\<lparr>s_waiting_bids := filter (\<lambda>bid. \<not> uint256_is_zero (b_amount bid)) ws, s_last_total := t\<rparr>"
      using assms(1) by (fastforce simp: set_slot_total_def Let_def res_ok split: if_splits)
    have "entitlement s' = entitlement s1" by (rule entitlement_cong) (simp_all add: a(2))
    then show ?thesis using ent[OF a(1) assms(2)] by (simp add: slot_entitlement_def a(2))
  qed simp
  with set_slot_total_ok[OF assms(1)] assms(3) show ?thesis by (simp add: slot_money_def)
qed

theorem activation_conserves_witness:
  "\<exists>s' q'. set_slot_total demo_slot1 (demo_env 1100) demo_queue demo_config
     = (Inr (s', q') :: (PremiumSlot \<times> Queue) lq_result) \<and> slot_money s' = 900"
proof -
  obtain s' q' where ex: "set_slot_total demo_slot1 (demo_env 1100) demo_queue demo_config
     = (Inr (s', q') :: (PremiumSlot \<times> Queue) lq_result)" using demo_set_slot_total by blast
  have p: "0 < s_product_snapshot demo_slot1" by (simp add: demo_slot1_def)
  have ok: "slot_ok 4 demo_slot1"
    by (simp add: slot_ok_def bid_ok_def bid_behind_def premium_key_def demo_slot1_def demo_bid_def)
  have m: "slot_money demo_slot1 = 900" by (simp add: slot_money_def demo_slot1_def)
  from activation_conserves[OF ex p ok] ex m show ?thesis by auto
qed

text \<open>
  C40. A waiting bid whose waiting time has passed but which no recalculation has activated yet is
  settled by a claim as if it had been active since the slot's first epoch: with the snapshots
  \<open>submit_bid\<close> gives it, its owner is credited \<open>amount * S\<close> of the collateral sum \<open>S\<close> of that epoch,
  liquidations the bid took no part in.
\<close>

theorem expired_waiting_bid_is_paid:
  assumes "find_slot q (premium_key (b_liq_premium b)) = Some s" and "b_wait_end b = Some t"
    and "b_product_snapshot b = d256_one" "b_sum_snapshot b = d256_zero" "b_epoch_snapshot b = 0"
      "b_scale_snapshot b = 0" "b_pending_liquidated_collateral b = 0"
    and "EPOCH_SCALE_SUM st (bid_for, b_liq_premium b, 0, 0) = Some S"
    and "EPOCH_SCALE_SUM st (bid_for, b_liq_premium b, 0, 1) = None"
    and "t \<le> time_seconds env"
    and "claim_step st env info bid_for b (q, c) = Inr (q', c')"
  shows "c + b_amount b * S div DECIMAL_FRACTIONAL \<le> c'"
proof -
  have "b_amount b * DECIMAL_FRACTIONAL * S div DECIMAL_FRACTIONAL * DECIMAL_FRACTIONAL
      div DECIMAL_FRACTIONAL = b_amount b * S" by (simp add: mult.commute mult.left_commute)
  then have *: "col = b_amount b * S div DECIMAL_FRACTIONAL"
    if "calculate_liquidated_collateral st b bid_for = Inr (col, res)" for col res
    using that assms(2-9)
    by (auto simp: calculate_liquidated_collateral_def read_epoch_scale_sum_def rbind_eq_Inr int_ok d256_ok
        split_residue_ok d256_is_zero_def d256_zero_def d256_one_def uint256_zero_def Let_def
        split: if_splits)
  from claim_step_cases[OF assms(11)] assms(2,10)
  show ?thesis using * assms(7) by fastforce
qed

theorem expired_waiting_bid_is_paid_witness:
  "\<exists>q' c'. claim_step demo_st (demo_env 1100) (demo_info ''carol'' []) ''atom''
     (demo_bid ''carol'' 3 100 (Some 1060)) (demo_queue, 0) = Inr (q', c') \<and> 2 \<le> c'"
proof -
  obtain q' c' where ex: "claim_step demo_st (demo_env 1100) (demo_info ''carol'' []) ''atom''
     (demo_bid ''carol'' 3 100 (Some 1060)) (demo_queue, 0) = Inr (q', c')"
    using demo_expired_claim by blast
  have f: "find_slot demo_queue (premium_key (b_liq_premium (demo_bid ''carol'' 3 100 (Some 1060))))
      = Some demo_slot1" using demo_found by simp
  have "0 + b_amount (demo_bid ''carol'' 3 100 (Some 1060)) * 20000000000000000 div DECIMAL_FRACTIONAL \<le> c'"
    by (rule expired_waiting_bid_is_paid[OF f _ _ _ _ _ _ _ _ _ ex, of 1060])
      (simp_all add: demo_bid_def d256_one_def d256_zero_def DECIMAL_FRACTIONAL_def demo_env_def time_seconds_def)
  with ex show ?thesis by (auto simp: DECIMAL_FRACTIONAL_def)
qed

text \<open>
  C38. Printing a \<open>Decimal256\<close> and parsing the text gives the number back: both always succeed on a
  value in range, whatever library prints and parses the integers, as long as it does so correctly.
\<close>

theorem decimal256_text_round_trip:
  assumes "text_ok T" and "d < U256_BOUND"
  shows "\<exists>t. d256_to_string T d = (Inr t :: (std_error, string) result) \<and> d256_from_str T t = Inr d"
  using d256_to_string_total[OF assms] d256_from_str_to_string[OF assms] by blast

theorem decimal256_text_round_trip_witness:
  "text_ok std_text \<and> (\<exists>t. d256_to_string std_text 1500000000000000000 = (Inr t :: (std_error, string) result) \<and>
     d256_from_str std_text t = Inr 1500000000000000000)"
  using decimal256_text_round_trip[OF text_ok_std, of 1500000000000000000] text_ok_std
  by (simp add: U256_BOUND_def)

text \<open>
  C25. \<open>PriceResponse::to_decimal256\<close>, which prints the 128-bit price and parses it as a 256-bit one,
  always succeeds and keeps the price and its decimals.
\<close>

theorem price_conversion_is_exact:
  assumes "lib_ok L" and "pr_price p < U128_BOUND"
  shows "\<exists>p'. to_decimal256 L p = Inr p' \<and> p256_price p' = pr_price p \<and> p256_decimals p' = pr_decimals p"
  using to_decimal256_eq[OF assms] by simp

theorem price_conversion_is_exact_witness:
  "\<exists>p'. to_decimal256 demo_lib (demo_price 123450000000000000000) = Inr p' \<and>
     p256_price p' = 123450000000000000000"
  using price_conversion_is_exact[OF demo_lib_ok, of "demo_price 123450000000000000000"]
  by (auto simp: demo_price_def U128_BOUND_def)

text \<open>
  Narrowing a 256-bit integer to 128 bits through its 64-bit limbs returns the number exactly when
  it fits and aborts otherwise, widening and reassembling limbs lose nothing, and a 256-bit decimal
  is narrowed under the same bound.
\<close>

lemma u128_limbs_round_trip:
  "uint256_into_u128 n = (if n < U128_BOUND then Inr n else Inl Panic) \<and>
   uint256_from_u128 v = v \<and> of_limbs (limbs m) = m \<and>
   decimal_from_d256 L d = (if d < U128_BOUND then rbind (d256_to_string (lib_text L) d)
     (\<lambda>s. unwrap (lib_decimal_from_str L s)) else (Inl Panic :: (std_error, nat) result))"
  using high_limbs_zero[of d] uint256_into_u128_eq[of n] of_limbs_limbs[of m]
  by (auto simp: decimal_from_d256_def Let_def)

end
