(* ===== verification/SP_State.thy ===== *)
theory SP_State
  imports Membrane_Types
begin

text \<open>
  Stability pool: the stored data (\<open>contracts/stability-pool/src/state.rs\<close>, the \<open>Deposit\<close>,
  \<open>AssetPool\<close>, \<open>User\<close> and \<open>UserRatio\<close> of \<open>packages/membrane/src/types.rs\<close>, \<open>Config\<close> of
  \<open>stability_pool.rs\<close>), the errors (\<open>error.rs\<close>), and the two operations of \<open>contract.rs\<close> every
  handler goes through: \<open>accrue_incentives\<close> on the incentive counter and \<open>add_to_user_claims\<close>
  on the claims.

  A user's \<open>Coins\<close> is the list its \<open>to_vec\<close> gives; the collection itself is library code
  (\<open>lib_coins_add\<close>, \<open>lib_coins_from_coin\<close> of \<open>chain_lib\<close>), of which \<open>coins_ok\<close> says that adding a
  coin adds its amount to its denomination and leaves the others.
\<close>

section \<open>Data\<close>

record Deposit =
  d_user :: addr
  d_amount :: decimal
  d_deposit_time :: u64
  d_last_accrued :: u64
  d_unstake_time :: "u64 option"

fun deposit_equal :: "Deposit \<Rightarrow> Deposit list \<Rightarrow> bool" where
  "deposit_equal self [] = False"
| "deposit_equal self (deposit # deposits) =
     ((d_amount self = d_amount deposit \<and> d_user self = d_user deposit \<and>
       d_deposit_time self = d_deposit_time deposit) \<or> deposit_equal self deposits)"

record AssetPool =
  ap_credit_asset :: Asset
  ap_liq_premium :: decimal
  ap_deposits :: "Deposit list"

record User =
  u_claimable_assets :: "Coin list"

record UserRatio =
  ur_user :: addr
  ur_ratio :: decimal

record sp_config =
  spc_owner :: addr
  spc_incentive_rate :: decimal
  spc_max_incentives :: uint128
  spc_unstaking_period :: u64
  spc_minimum_deposit_amount :: uint128
  spc_mbrn_denom :: string
  spc_osmosis_proxy :: addr
  spc_positions_contract :: addr
  spc_oracle_contract :: addr

record Propagation =
  prop_repaid_amount :: uint128

text \<open>
  \<open>SpCustomStd e\<close> is \<open>CustomError { val: e.to_string() }\<close> of a standard error \<open>e\<close>.
\<close>

datatype sp_error =
    SpStd std_error
  | SpUnauthorized
  | SpInvalidAsset
  | SpMinimumDeposit uint128
  | SpInvalidWithdrawal
  | SpCustomError string
  | SpCustomStd std_error

record sp_storage =
  SP_CONFIG :: "sp_config option"
  SP_ASSET :: "AssetPool option"
  SP_PROP :: "Propagation option"
  SP_INCENTIVES :: "uint128 option"
  SP_USERS :: "addr \<rightharpoonup> User"
  SP_OWNERSHIP_TRANSFER :: "addr option"
  SP_CONTRACT_VERSION :: "(string \<times> string) option"

type_synonym 'a sp_result = "(sp_error, 'a) result"

datatype sp_debug = DbgConfig sp_config | DbgAsset Asset | DbgAssets "Asset list" | DbgCoins "Coin list"

type_synonym sp_response = "sp_debug response"

definition sp_config_load :: "sp_storage \<Rightarrow> (std_error, sp_config) result" where
  "sp_config_load st = ok_or (NotFound ''Config'') (SP_CONFIG st)"

definition asset_load :: "sp_storage \<Rightarrow> (std_error, AssetPool) result" where
  "asset_load st = ok_or (NotFound ''AssetPool'') (SP_ASSET st)"

definition prop_load :: "sp_storage \<Rightarrow> (std_error, Propagation) result" where
  "prop_load st = ok_or (NotFound ''Propagation'') (SP_PROP st)"

definition incentives_load :: "sp_storage \<Rightarrow> (std_error, uint128) result" where
  "incentives_load st = ok_or (NotFound ''Uint128'') (SP_INCENTIVES st)"

lemma sp_load_ok [res_ok]:
  "sp_config_load st = Inr c \<longleftrightarrow> SP_CONFIG st = Some c"
  "asset_load st = Inr p \<longleftrightarrow> SP_ASSET st = Some p"
  "prop_load st = Inr pr \<longleftrightarrow> SP_PROP st = Some pr"
  "incentives_load st = Inr i \<longleftrightarrow> SP_INCENTIVES st = Some i"
  by (auto simp: sp_config_load_def asset_load_def prop_load_def incentives_load_def res_ok)

section \<open>Decimals of the pool\<close>

text \<open>
  \<open>Decimal::from_ratio(n, Uint128::new(1))\<close>, \<open>d * Uint128::new(1)\<close> (and \<open>d * Uint128::one()\<close>),
  \<open>to_uint_floor\<close>, and the \<open>sum\<close> of an iterator of decimals, which adds from zero.
\<close>

definition dec_of_uint :: "uint128 \<Rightarrow> ('e, decimal) result" where
  "dec_of_uint n = dec_from_ratio n 1"

definition dec_times_one :: "decimal \<Rightarrow> ('e, uint128) result" where
  "dec_times_one d = uint128_mul_dec 1 d"

definition to_uint_floor :: "decimal \<Rightarrow> uint128" where
  "to_uint_floor d = d div DECIMAL_FRACTIONAL"

definition dec_sum :: "decimal list \<Rightarrow> ('e, decimal) result" where
  "dec_sum ds = rfold (\<lambda>d acc. dec_add acc d) ds 0"

lemma dec_one_ok [res_ok]:
  "dec_of_uint n = Inr d \<longleftrightarrow> d = n * DECIMAL_FRACTIONAL \<and> n * DECIMAL_FRACTIONAL < U128_BOUND"
  "dec_times_one d = Inr n \<longleftrightarrow> n = d div DECIMAL_FRACTIONAL \<and> d div DECIMAL_FRACTIONAL < U128_BOUND"
  by (auto simp: dec_of_uint_def dec_times_one_def res_ok)

lemma dec_sum_steps:
  "rfold (\<lambda>d acc. dec_add acc d) ds a = (Inr s :: ('e, decimal) result) \<longleftrightarrow> s = a + sum_list ds \<and> (ds = [] \<or> s < U128_BOUND)"
proof (induction ds arbitrary: a)
  case Nil
  then show ?case by auto
next
  case (Cons d ds)
  have "rfold (\<lambda>d acc. dec_add acc d) (d # ds) a = (Inr s :: ('e, decimal) result) \<longleftrightarrow>
      a + d < U128_BOUND \<and>
      rfold (\<lambda>d acc. dec_add acc d) ds (a + d) = (Inr s :: ('e, decimal) result)"
    by (simp add: rbind_eq_Inr dec_ok)
  then show ?case using Cons.IH[of "a + d"] by (auto simp: add.assoc)
qed

lemma dec_sum_ok [res_ok]:
  "dec_sum ds = Inr s \<longleftrightarrow> s = sum_list ds \<and> (ds = [] \<or> s < U128_BOUND)"
  by (simp add: dec_sum_def dec_sum_steps)

section \<open>Incentives\<close>

text \<open>
  Incentives accrue on \<open>stake\<close> from \<open>last_accrued\<close> to the block time, nothing while the deposit
  is unstaking, up to what is left of \<open>max_incentives\<close>. The deposit is a \<open>&mut\<close> argument: the
  code sets its \<open>last_accrued\<close> before anything that can fail, so the new deposit is
  \<open>accrued env deposit\<close> whatever the outcome.
\<close>

definition accrued :: "Env \<Rightarrow> Deposit \<Rightarrow> Deposit" where
  "accrued env deposit = deposit\<lparr>d_last_accrued := time_seconds env\<rparr>"

definition accrue_incentives ::
  "sp_storage \<Rightarrow> Env \<Rightarrow> sp_config \<Rightarrow> uint128 \<Rightarrow> Deposit \<Rightarrow>
   (std_error, sp_storage \<times> uint128) result" where
  "accrue_incentives st env config stake deposit =
     rbind (case d_unstake_time deposit of
              Some _ \<Rightarrow> Inr 0
            | None \<Rightarrow> u64_sub (time_seconds env) (d_last_accrued deposit)) (\<lambda>time_elapsed.
     rbind (accumulate_interest stake (spc_incentive_rate config) time_elapsed) (\<lambda>incentives.
     rbind (incentives_load st) (\<lambda>total_incentives.
     rbind (u128_add total_incentives incentives) (\<lambda>new_total.
     if spc_max_incentives config < new_total
     then rbind (u128_sub (spc_max_incentives config) total_incentives) (\<lambda>incentives.
          Inr (st\<lparr>SP_INCENTIVES := Some (spc_max_incentives config)\<rparr>, incentives))
     else Inr (st\<lparr>SP_INCENTIVES := Some new_total\<rparr>, incentives)))))"

text \<open>
  The \<open>match accrue_incentives(..)\<close> inside a closure: an error is noted in \<open>error\<close> and counts as
  no incentive; a panic ends the call.
\<close>

definition accrue_noting ::
  "sp_storage \<Rightarrow> Env \<Rightarrow> sp_config \<Rightarrow> uint128 \<Rightarrow> Deposit \<Rightarrow> std_error option \<Rightarrow>
   (sp_storage \<times> uint128 \<times> std_error option) sp_result" where
  "accrue_noting st env config stake deposit err =
     (case accrue_incentives st env config stake deposit of
        Inr (st, incentives) \<Rightarrow> Inr (st, incentives, err)
      | Inl (Failed e) \<Rightarrow> Inr (st, 0, Some e)
      | Inl Panic \<Rightarrow> Inl Panic)"

text \<open>Accruing adds to the counter exactly what it returns, and never passes the cap.\<close>

lemma accrue_incentives_ok:
  assumes "accrue_incentives st env config stake deposit = Inr (st', inc)"
  obtains t where "SP_INCENTIVES st = Some t" "st' = st\<lparr>SP_INCENTIVES := Some (t + inc)\<rparr>"
    "t + inc \<le> spc_max_incentives config" "d_unstake_time deposit \<noteq> None \<Longrightarrow> inc = 0"
proof -
  from assms obtain el i t where
    el: "(case d_unstake_time deposit of Some _ \<Rightarrow> Inr 0
          | None \<Rightarrow> u64_sub (time_seconds env) (d_last_accrued deposit)) = (Inr el :: (std_error, u64) result)"
    and i: "accumulate_interest stake (spc_incentive_rate config) el = Inr i"
    and t: "SP_INCENTIVES st = Some t"
    and r: "(if spc_max_incentives config < t + i
      then rbind (u128_sub (spc_max_incentives config) t) (\<lambda>j.
          Inr (st\<lparr>SP_INCENTIVES := Some (spc_max_incentives config)\<rparr>, j))
      else Inr (st\<lparr>SP_INCENTIVES := Some (t + i)\<rparr>, i)) = (Inr (st', inc) :: (std_error, _) result)"
    by (auto simp: accrue_incentives_def res_ok)
  have zero: "i = 0" if "d_unstake_time deposit \<noteq> None"
    using that el i by (auto simp: accumulate_interest_def res_ok)
  show ?thesis
  proof (cases "spc_max_incentives config < t + i")
    case True
    with r have "t \<le> spc_max_incentives config" "inc = spc_max_incentives config - t"
        "st' = st\<lparr>SP_INCENTIVES := Some (spc_max_incentives config)\<rparr>"
      by (auto simp: res_ok)
    with t True zero show ?thesis by (intro that[of t]) auto
  next
    case False
    with r t zero show ?thesis by (intro that[of t]) auto
  qed
qed

section \<open>Claims\<close>

text \<open>
  What the contract relies on in \<open>Coins\<close>: the amount a coin list holds of a denomination, and
  the laws of adding a coin and of starting from one.
\<close>

definition amount_of :: "string \<Rightarrow> Coin list \<Rightarrow> nat" where
  "amount_of denom coins = (\<Sum>c\<leftarrow>coins. if c_denom c = denom then c_amount c else 0)"

definition coins_ok :: "chain_lib \<Rightarrow> bool" where
  "coins_ok L \<longleftrightarrow>
     (\<forall>cs c cs'. lib_coins_add L cs c = Inr cs' \<longrightarrow>
        (\<forall>d. amount_of d cs' = amount_of d cs + (if d = c_denom c then c_amount c else 0))) \<and>
     (\<forall>c cs. lib_coins_from_coin L c = Inr cs \<longrightarrow>
        (\<forall>d. amount_of d cs = (if d = c_denom c then c_amount c else 0)))"

definition add_to_user_claims ::
  "chain_lib \<Rightarrow> sp_storage \<Rightarrow> addr \<Rightarrow> AssetInfo \<Rightarrow> uint128 \<Rightarrow> (std_error, sp_storage) result" where
  "add_to_user_claims L st user distribution_asset send_amount =
     (if send_amount \<noteq> 0 then
        rbind (let coin = \<lparr>c_denom = asset_info_to_string distribution_asset, c_amount = send_amount\<rparr> in
               case SP_USERS st user of
                 Some u \<Rightarrow> lib_coins_add L (u_claimable_assets u) coin
               | None \<Rightarrow> lib_coins_from_coin L coin) (\<lambda>coins.
        Inr (st\<lparr>SP_USERS := (SP_USERS st)(user \<mapsto> \<lparr>u_claimable_assets = coins\<rparr>)\<rparr>))
      else Inr st)"

definition claim_of :: "sp_storage \<Rightarrow> addr \<Rightarrow> string \<Rightarrow> nat" where
  "claim_of st user denom = (case SP_USERS st user of
       None \<Rightarrow> 0 | Some u \<Rightarrow> amount_of denom (u_claimable_assets u))"

lemma add_to_user_claims_frame:
  "add_to_user_claims L st user info n = Inr st' \<Longrightarrow> st' = st\<lparr>SP_USERS := SP_USERS st'\<rparr>"
  by (auto simp: add_to_user_claims_def elim!: rbind_InrE split: if_split_asm)

text \<open>A credit reaches one user and one denomination, and nothing else of the storage.\<close>

lemma add_to_user_claims_ok:
  assumes "coins_ok L" and "add_to_user_claims L st user info n = Inr st'"
  shows "claim_of st' v d =
      claim_of st v d + (if v = user \<and> d = asset_info_to_string info then n else 0)"
    and "st' = st\<lparr>SP_USERS := SP_USERS st'\<rparr>"
proof -
  define coin where "coin = \<lparr>c_denom = asset_info_to_string info, c_amount = n\<rparr>"
  have "claim_of st' v d =
      claim_of st v d + (if v = user \<and> d = asset_info_to_string info then n else 0) \<and>
    st' = st\<lparr>SP_USERS := SP_USERS st'\<rparr>"
  proof (cases "n = 0")
    case True
    then show ?thesis using assms(2) by (simp add: add_to_user_claims_def)
  next
    case False
    with assms(2) have "\<exists>coins.
        (case SP_USERS st user of Some u \<Rightarrow> lib_coins_add L (u_claimable_assets u) coin
         | None \<Rightarrow> lib_coins_from_coin L coin) = Inr coins \<and>
        st' = st\<lparr>SP_USERS := (SP_USERS st)(user \<mapsto> \<lparr>u_claimable_assets = coins\<rparr>)\<rparr>"
      unfolding coin_def by (auto simp: add_to_user_claims_def rbind_eq_Inr Let_def)
    then obtain coins where
      c: "(case SP_USERS st user of Some u \<Rightarrow> lib_coins_add L (u_claimable_assets u) coin
           | None \<Rightarrow> lib_coins_from_coin L coin) = Inr coins"
      and st': "st' = st\<lparr>SP_USERS := (SP_USERS st)(user \<mapsto> \<lparr>u_claimable_assets = coins\<rparr>)\<rparr>"
      by blast
    have "amount_of e coins = claim_of st user e + (if e = asset_info_to_string info then n else 0)"
      for e
    proof (cases "SP_USERS st user")
      case None
      with c have "lib_coins_from_coin L coin = Inr coins" by simp
      with assms(1) have "amount_of e coins = (if e = c_denom coin then c_amount coin else 0)"
        unfolding coins_ok_def by blast
      then show ?thesis using None by (simp add: claim_of_def coin_def)
    next
      case (Some u)
      with c have "lib_coins_add L (u_claimable_assets u) coin = Inr coins" by simp
      with assms(1) have "amount_of e coins =
          amount_of e (u_claimable_assets u) + (if e = c_denom coin then c_amount coin else 0)"
        unfolding coins_ok_def by blast
      then show ?thesis using Some by (simp add: claim_of_def coin_def)
    qed
    then show ?thesis by (auto simp: st' claim_of_def)
  qed
  then show "claim_of st' v d =
      claim_of st v d + (if v = user \<and> d = asset_info_to_string info then n else 0)"
    and "st' = st\<lparr>SP_USERS := SP_USERS st'\<rparr>" by auto
qed

end
