(* ===== verification/SP_Withdraw.thy ===== *)
theory SP_Withdraw
  imports SP_State
begin

text \<open>
  Stability pool: unstaking, withdrawing, restaking and repaying out of the pool
  (\<open>withdraw\<close>, \<open>withdrawal_from_state\<close>, \<open>restake\<close> and \<open>repay\<close> of
  \<open>contracts/stability-pool/src/contract.rs\<close>).

  \<open>withdrawal_from_state\<close> maps a closure over the deposits; the variables the closure captures are
  the record \<open>wd_state\<close>, and its body is \<open>withdrawal_item\<close>, in three parts: accruing, unstaking
  (\<open>unstake_step\<close>) and taking (\<open>take_step\<close>).
\<close>

definition SECONDS_PER_DAY :: u64 where "SECONDS_PER_DAY = 86400"

record wd_state =
  w_st :: sp_storage
  w_mbrn_incentives :: uint128
  w_error :: "std_error option"
  w_is_user :: bool
  w_withdrawable :: bool
  w_withdrawable_amount :: uint128
  w_returning_deposit :: "Deposit option"
  w_withdrawal_amount :: decimal

text \<open>Raising a request below the minimum deposit, to the minimum or to the whole deposit.\<close>

definition at_least_minimum :: "sp_config \<Rightarrow> Deposit \<Rightarrow> decimal \<Rightarrow> decimal sp_result" where
  "at_least_minimum config deposit_item withdrawal_amount =
     rbind (dec_times_one withdrawal_amount) (\<lambda>whole.
     if whole < spc_minimum_deposit_amount config then
       rbind (dec_of_uint (spc_minimum_deposit_amount config)) (\<lambda>withdrawal_amount.
       rbind (dec_sub (d_amount deposit_item) withdrawal_amount) (\<lambda>resulting.
       if resulting < withdrawal_amount then Inr (d_amount deposit_item)
       else Inr withdrawal_amount))
     else Inr withdrawal_amount)"

definition unstake_step ::
  "Env \<Rightarrow> sp_config \<Rightarrow> bool \<Rightarrow> Deposit \<Rightarrow> wd_state \<Rightarrow> (wd_state \<times> Deposit) sp_result" where
  "unstake_step env config skip_unstaking deposit_item w =
     (if \<not> skip_unstaking then
        (case d_unstake_time deposit_item of
           Some unstake_time \<Rightarrow>
             rbind (u64_sub (time_seconds env) unstake_time) (\<lambda>time_elapsed.
             rbind (u64_mul (spc_unstaking_period config) SECONDS_PER_DAY) (\<lambda>period.
             if period \<le> time_elapsed then Inr (w\<lparr>w_withdrawable := True\<rparr>, deposit_item)
             else Inr (w, deposit_item)))
         | None \<Rightarrow>
             if w_withdrawal_amount w < d_amount deposit_item \<and> w_withdrawal_amount w \<noteq> 0 then
               rbind (at_least_minimum config deposit_item (w_withdrawal_amount w))
                 (\<lambda>withdrawal_amount.
               rbind (dec_sub (d_amount deposit_item) withdrawal_amount) (\<lambda>rest.
               let w = w\<lparr>w_returning_deposit :=
                     Some (deposit_item\<lparr>d_amount := rest, d_unstake_time := None\<rparr>)\<rparr>;
                   deposit_item = deposit_item\<lparr>d_amount := withdrawal_amount\<rparr> in
               if d_unstake_time deposit_item = None
               then Inr (w\<lparr>w_withdrawal_amount := 0\<rparr>,
                      deposit_item\<lparr>d_unstake_time := Some (time_seconds env)\<rparr>)
               else Inr (w\<lparr>w_withdrawal_amount := withdrawal_amount\<rparr>, deposit_item)))
             else if w_withdrawal_amount w \<noteq> 0 then
               if d_unstake_time deposit_item = None then
                 rbind (dec_sub (w_withdrawal_amount w) (d_amount deposit_item)) (\<lambda>left.
                 Inr (w\<lparr>w_withdrawal_amount := left\<rparr>,
                   deposit_item\<lparr>d_unstake_time := Some (time_seconds env)\<rparr>))
               else Inr (w, deposit_item)
             else Inr (w, deposit_item))
      else Inr (w\<lparr>w_withdrawable := True\<rparr>,
             deposit_item\<lparr>d_unstake_time := Some (time_seconds env)\<rparr>))"

definition take_step ::
  "Env \<Rightarrow> sp_config \<Rightarrow> bool \<Rightarrow> Deposit \<Rightarrow> wd_state \<Rightarrow> (wd_state \<times> Deposit) sp_result" where
  "take_step env config skip_unstaking deposit_item w =
     (if w_withdrawal_amount w \<noteq> 0 \<and> w_withdrawal_amount w < d_amount deposit_item \<and>
         (skip_unstaking \<or> w_withdrawable w) then
        rbind (dec_times_one (w_withdrawal_amount w)) (\<lambda>taken.
        rbind (u128_add (w_withdrawable_amount w) taken) (\<lambda>withdrawable_amount.
        rbind (dec_sub (d_amount deposit_item) (w_withdrawal_amount w)) (\<lambda>amount.
        rbind (dec_times_one amount) (\<lambda>whole.
        rbind (if whole < spc_minimum_deposit_amount config
               then rbind (u128_add withdrawable_amount whole) (\<lambda>total. Inr (total, 0))
               else Inr (withdrawable_amount, amount)) (\<lambda>(withdrawable_amount, amount).
        let deposit_item = deposit_item\<lparr>d_amount := amount\<rparr> in
        rbind (accrue_noting (w_st w) env config taken deposit_item (w_error w))
          (\<lambda>(st, accrued_incentives, err).
        rbind (u128_add (w_mbrn_incentives w) accrued_incentives) (\<lambda>mbrn_incentives.
        Inr (w\<lparr>w_st := st, w_error := err, w_mbrn_incentives := mbrn_incentives,
               w_withdrawable_amount := withdrawable_amount, w_withdrawal_amount := 0\<rparr>,
          accrued env deposit_item))))))))
      else if w_withdrawal_amount w \<noteq> 0 \<and> d_amount deposit_item \<le> w_withdrawal_amount w \<and>
         (skip_unstaking \<or> w_withdrawable w) then
        rbind (dec_sub (w_withdrawal_amount w) (d_amount deposit_item)) (\<lambda>left.
        rbind (dec_times_one (d_amount deposit_item)) (\<lambda>whole.
        rbind (u128_add (w_withdrawable_amount w) whole) (\<lambda>withdrawable_amount.
        Inr (w\<lparr>w_withdrawal_amount := left, w_withdrawable_amount := withdrawable_amount\<rparr>,
          deposit_item\<lparr>d_amount := 0\<rparr>))))
      else Inr (w, deposit_item))"

definition withdrawal_item ::
  "Env \<Rightarrow> sp_config \<Rightarrow> addr \<Rightarrow> bool \<Rightarrow> Deposit \<Rightarrow> wd_state \<Rightarrow> (wd_state \<times> Deposit) sp_result" where
  "withdrawal_item env config user skip_unstaking deposit_item w =
     (if d_user deposit_item = user then
        let w = w\<lparr>w_is_user := True\<rparr> in
        rbind (dec_times_one (d_amount deposit_item)) (\<lambda>stake.
        rbind (accrue_noting (w_st w) env config stake deposit_item (w_error w))
          (\<lambda>(st, accrued_incentives, err).
        rbind (u128_add (w_mbrn_incentives w) accrued_incentives) (\<lambda>mbrn_incentives.
        let w = w\<lparr>w_st := st, w_error := err, w_mbrn_incentives := mbrn_incentives\<rparr> in
        rbind (unstake_step env config skip_unstaking (accrued env deposit_item) w)
          (\<lambda>(w, deposit_item).
        rbind (take_step env config skip_unstaking deposit_item w) (\<lambda>(w, deposit_item).
        Inr (w\<lparr>w_withdrawable := False\<rparr>, deposit_item))))))
      else Inr (w, deposit_item))"

text \<open>
  The claims entry a withdrawal writes: as \<open>add_to_user_claims\<close>, but a user without claims who
  owns no deposit is refused.
\<close>

definition add_incentive_claim ::
  "chain_lib \<Rightarrow> sp_storage \<Rightarrow> addr \<Rightarrow> sp_config \<Rightarrow> bool \<Rightarrow> uint128 \<Rightarrow> sp_storage sp_result" where
  "add_incentive_claim L st user config is_user mbrn_incentives =
     (let coin = \<lparr>c_denom = spc_mbrn_denom config, c_amount = mbrn_incentives\<rparr> in
      rbind (case SP_USERS st user of
               Some u \<Rightarrow> map_err SpStd (lib_coins_add L (u_claimable_assets u) coin)
             | None \<Rightarrow>
                 if is_user then map_err SpStd (lib_coins_from_coin L coin)
                 else Inl (Failed (SpCustomError ''Invalid user''))) (\<lambda>coins.
      Inr (st\<lparr>SP_USERS := (SP_USERS st)(user \<mapsto> \<lparr>u_claimable_assets = coins\<rparr>)\<rparr>)))"

definition withdrawal_from_state ::
  "chain_lib \<Rightarrow> sp_storage \<Rightarrow> Env \<Rightarrow> sp_config \<Rightarrow> addr \<Rightarrow> decimal \<Rightarrow> AssetPool \<Rightarrow> bool \<Rightarrow>
   (sp_storage \<times> uint128 \<times> AssetPool) sp_result" where
  "withdrawal_from_state L st env config user withdrawal_amount pool skip_unstaking =
     rbind (rmap_state (withdrawal_item env config user skip_unstaking) (ap_deposits pool)
              \<lparr>w_st = st, w_mbrn_incentives = 0, w_error = None, w_is_user = False,
               w_withdrawable = False, w_withdrawable_amount = 0, w_returning_deposit = None,
               w_withdrawal_amount = withdrawal_amount\<rparr>) (\<lambda>(w, mapped).
     let new_deposits = filter (\<lambda>deposit. d_amount deposit \<noteq> 0) mapped in
     if w_withdrawal_amount w \<noteq> 0 then Inl (Failed SpInvalidWithdrawal)
     else
       let new_deposits = (case w_returning_deposit w of
               Some deposit \<Rightarrow>
                 if d_amount deposit \<noteq> 0 then new_deposits @ [deposit] else new_deposits
             | None \<Rightarrow> new_deposits) in
       rbind (u128_sub (a_amount (ap_credit_asset pool)) (w_withdrawable_amount w)) (\<lambda>amount.
       let pool = pool\<lparr>ap_deposits := new_deposits,
             ap_credit_asset := (ap_credit_asset pool)\<lparr>a_amount := amount\<rparr>\<rparr> in
       case w_error w of
         Some e \<Rightarrow> Inl (Failed (SpCustomStd e))
       | None \<Rightarrow>
           rbind (if w_mbrn_incentives w \<noteq> 0
                  then add_incentive_claim L (w_st w) user config (w_is_user w)
                         (w_mbrn_incentives w)
                  else Inr (w_st w)) (\<lambda>st.
           Inr (st, w_withdrawable_amount w, pool))))"

definition deposits_of :: "addr \<Rightarrow> AssetPool \<Rightarrow> Deposit list" where
  "deposits_of user pool = filter (\<lambda>deposit. d_user deposit = user) (ap_deposits pool)"

definition withdraw ::
  "chain_lib \<Rightarrow> sp_storage \<Rightarrow> Env \<Rightarrow> MessageInfo \<Rightarrow> uint128 \<Rightarrow>
   (sp_storage \<times> sp_response) sp_result" where
  "withdraw L st env info amount =
     rbind (map_err SpStd (sp_config_load st)) (\<lambda>config.
     let attrs = [(''method'', AText ''withdraw''), (''position_owner'', AText (sender info))] in
     rbind (map_err SpStd (asset_load st)) (\<lambda>asset_pool.
     rbind (dec_sum (map d_amount (deposits_of (sender info) asset_pool)))
       (\<lambda>total_user_deposits.
     rbind (dec_of_uint amount) (\<lambda>requested.
     if total_user_deposits < requested then Inl (Failed SpInvalidWithdrawal)
     else
       let skip_unstaking = (spc_unstaking_period config = 0) in
       rbind (withdrawal_from_state L st env config (sender info) requested asset_pool
                skip_unstaking) (\<lambda>(st, withdrawable, new_pool).
       rbind (dec_sum (map d_amount (deposits_of (sender info) new_pool)))
         (\<lambda>new_total_user_deposits.
       rbind (if to_uint_floor total_user_deposits < withdrawable then Inr True
              else rbind (u128_add amount (spc_minimum_deposit_amount config)) (\<lambda>most.
                if most < withdrawable then Inr True
                else rbind (u128_add withdrawable (to_uint_floor new_total_user_deposits))
                  (\<lambda>accounted. Inr (accounted \<noteq> to_uint_floor total_user_deposits))))
         (\<lambda>invalid.
       if invalid then Inl (Failed (SpCustomError ''Invalid withdrawable amount''))
       else
         let st = st\<lparr>SP_ASSET := Some new_pool\<rparr> in
         if withdrawable \<noteq> 0 then
           let withdrawable_asset = (ap_credit_asset asset_pool)\<lparr>a_amount := withdrawable\<rparr> in
           rbind (map_err SpStd (withdrawal_msg withdrawable_asset (sender info))) (\<lambda>message.
           Inr (st, \<lparr>messages = [message],
             attributes = attrs @ [(''withdrawn_asset'',
               ANumText withdrawable (asset_info_to_string (a_info withdrawable_asset)))]\<rparr>))
         else Inr (st, \<lparr>messages = [], attributes = attrs\<rparr>))))))))"

section \<open>Restaking\<close>

record rs_state =
  r_st :: sp_storage
  r_incentives :: uint128
  r_error :: "std_error option"
  r_restake_amount :: decimal

definition restake_item ::
  "Env \<Rightarrow> sp_config \<Rightarrow> addr \<Rightarrow> Deposit \<Rightarrow> rs_state \<Rightarrow> (rs_state \<times> Deposit) sp_result" where
  "restake_item env config user deposit r =
     (if d_user deposit = user \<and> r_restake_amount r \<noteq> 0 \<and> d_unstake_time deposit \<noteq> None then
        rbind (dec_times_one (d_amount deposit)) (\<lambda>stake.
        rbind (accrue_noting (r_st r) env config stake deposit (r_error r))
          (\<lambda>(st, accrued_incentives, err).
        rbind (u128_add (r_incentives r) accrued_incentives) (\<lambda>incentives.
        let r = r\<lparr>r_st := st, r_error := err, r_incentives := incentives\<rparr>;
            restaked = (accrued env deposit)\<lparr>d_unstake_time := None,
              d_deposit_time := time_seconds env\<rparr> in
        if r_restake_amount r \<le> d_amount deposit
        then Inr (r\<lparr>r_restake_amount := 0\<rparr>, restaked)
        else rbind (dec_sub (r_restake_amount r) (d_amount deposit)) (\<lambda>left.
          Inr (r\<lparr>r_restake_amount := left\<rparr>, restaked)))))
      else Inr (r, deposit))"

definition restake ::
  "chain_lib \<Rightarrow> sp_storage \<Rightarrow> Env \<Rightarrow> MessageInfo \<Rightarrow> decimal \<Rightarrow>
   (sp_storage \<times> sp_response) sp_result" where
  "restake L st env info restake_amount =
     rbind (map_err SpStd (asset_load st)) (\<lambda>asset_pool.
     rbind (map_err SpStd (sp_config_load st)) (\<lambda>config.
     rbind (rmap_state (restake_item env config (sender info)) (ap_deposits asset_pool)
              \<lparr>r_st = st, r_incentives = 0, r_error = None, r_restake_amount = restake_amount\<rparr>)
       (\<lambda>(r, deposits).
     let asset_pool = asset_pool\<lparr>ap_deposits := deposits\<rparr> in
     case r_error r of
       Some e \<Rightarrow> Inl (Failed (SpCustomStd e))
     | None \<Rightarrow>
         rbind (if r_incentives r \<noteq> 0
                then add_incentive_claim L (r_st r) (sender info) config True (r_incentives r)
                else Inr (r_st r)) (\<lambda>st.
         Inr (st\<lparr>SP_ASSET := Some asset_pool\<rparr>,
           \<lparr>messages = [],
            attributes = [(''method'', AText ''restake''),
              (''restake_amount'', AText (lib_decimal_to_string L restake_amount))]\<rparr>)))))"

section \<open>Repaying a position from the pool\<close>

definition repay ::
  "chain_lib \<Rightarrow> sp_storage \<Rightarrow> Env \<Rightarrow> MessageInfo \<Rightarrow> UserInfo \<Rightarrow> Asset \<Rightarrow>
   (sp_storage \<times> sp_response) sp_result" where
  "repay L st env info user_info repayment =
     rbind (map_err SpStd (sp_config_load st)) (\<lambda>config.
     if sender info \<noteq> spc_positions_contract config then Inl (Failed SpUnauthorized)
     else
       let attrs = [(''method'', AText ''repay''), (''user_info'',
             ATextNum (''owner: '' @ ui_position_owner user_info @ '', position:'')
               (ui_position_id user_info))] in
       rbind (map_err SpStd (asset_load st)) (\<lambda>asset_pool.
       if asset_info_equal (a_info (ap_credit_asset asset_pool)) (a_info repayment) then
         rbind (map_err SpStd (lib_addr_validate L (ui_position_owner user_info)))
           (\<lambda>position_owner.
         rbind (dec_sum (map d_amount (deposits_of position_owner asset_pool)))
           (\<lambda>total_user_deposits.
         rbind (dec_of_uint (a_amount repayment)) (\<lambda>requested.
         if total_user_deposits < requested then Inl (Failed SpInvalidWithdrawal)
         else if total_user_deposits = 0 then Inl (Failed SpInvalidWithdrawal)
         else
           rbind (withdrawal_from_state L st env config position_owner requested asset_pool True)
             (\<lambda>(st, withdrawable, new_pool).
           let repayment = (if withdrawable < a_amount repayment
                 then repayment\<lparr>a_amount := withdrawable\<rparr> else repayment);
               st = st\<lparr>SP_ASSET := Some new_pool\<rparr> in
           rbind (map_err SpStd (asset_to_coin repayment)) (\<lambda>coin.
           Inr (st, \<lparr>messages =
               [WasmExecute (spc_positions_contract config)
                  (RepayMsg (ui_position_id user_info) (Some (ui_position_owner user_info))
                     (Some (ui_position_owner user_info))) [coin]],
             attributes = attrs\<rparr>))))))
       else Inl (Failed SpInvalidAsset)))"

end
