(* ===== verification/SP_Distribute.thy ===== *)
theory SP_Distribute
  imports SP_Withdraw
begin

text \<open>
  Stability pool: repaying a liquidation and distributing its proceeds (\<open>liquidate\<close>,
  \<open>distribute_funds\<close>, \<open>get_distribution_ratios\<close> and \<open>split_assets_to_users\<close> of
  \<open>contracts/stability-pool/src/contract.rs\<close>).
\<close>

section \<open>Liquidation\<close>

definition liquidate :: "chain_lib \<Rightarrow> sp_storage \<Rightarrow> MessageInfo \<Rightarrow> decimal \<Rightarrow>
   (sp_storage \<times> sp_response) sp_result" where
  "liquidate L st info credit_amount =
     rbind (map_err SpStd (sp_config_load st)) (\<lambda>config.
     if sender info \<noteq> spc_positions_contract config then Inl (Failed SpUnauthorized)
     else
       rbind (map_err SpStd (asset_load st)) (\<lambda>asset_pool.
       let liq_amount = credit_amount; pool_amount = a_amount (ap_credit_asset asset_pool) in
       rbind (dec_of_uint pool_amount) (\<lambda>available.
       rbind (if available < liq_amount
              then rbind (dec_sub liq_amount available) (\<lambda>leftover. Inr (pool_amount, leftover))
              else rbind (dec_times_one liq_amount) (\<lambda>amount. Inr (amount, 0)))
         (\<lambda>(repay_amount, leftover).
       let repay_asset = \<lparr>a_info = a_info (ap_credit_asset asset_pool), a_amount = repay_amount\<rparr> in
       rbind (map_err SpStd (prop_load st)) (\<lambda>prop.
       rbind (u128_add (prop_repaid_amount prop) repay_amount) (\<lambda>repaid_amount.
       let st = st\<lparr>SP_PROP := Some \<lparr>prop_repaid_amount = repaid_amount\<rparr>\<rparr> in
       rbind (map_err SpStd (asset_to_coin repay_asset)) (\<lambda>coin.
       let message = WasmExecute (spc_positions_contract config) LiqRepay [coin] in
       rbind (u128_sub pool_amount repay_amount) (\<lambda>amount.
       let asset_pool = asset_pool\<lparr>ap_credit_asset :=
             (ap_credit_asset asset_pool)\<lparr>a_amount := amount\<rparr>\<rparr> in
       Inr (st\<lparr>SP_ASSET := Some asset_pool\<rparr>,
         \<lparr>messages = [message],
          attributes = [(''method'', AText ''liquidate''),
            (''leftover_repayment'', AText (lib_decimal_to_string L leftover))]\<rparr>)))))))))"

section \<open>Which deposits a distribution uses\<close>

text \<open>The incentives of the used part of a deposit, credited to its user.\<close>

definition pay_accrued ::
  "chain_lib \<Rightarrow> sp_storage \<Rightarrow> Env \<Rightarrow> sp_config \<Rightarrow> Deposit \<Rightarrow> decimal \<Rightarrow> sp_storage sp_result" where
  "pay_accrued L st env config deposit stake_amount =
     (if d_last_accrued deposit < time_seconds env then
        rbind (dec_times_one stake_amount) (\<lambda>stake.
        rbind (map_err SpStd (accrue_incentives st env config stake deposit))
          (\<lambda>(st, accrued_incentives).
        if accrued_incentives \<noteq> 0
        then map_err SpStd (add_to_user_claims L st (d_user deposit)
               (NativeToken (spc_mbrn_denom config)) accrued_incentives)
        else Inr st))
      else Inr st)"

text \<open>
  The \<open>while\<close> loop over \<open>pool_parse\<close>: every turn takes the next deposit, and at the end of the
  list sets \<open>current_repay_total\<close> to \<open>repaid_amount_decimal\<close>, which ends the loop.
\<close>

fun distribution_loop ::
  "chain_lib \<Rightarrow> Env \<Rightarrow> sp_config \<Rightarrow> decimal \<Rightarrow> Deposit list \<Rightarrow> decimal \<Rightarrow> sp_storage \<Rightarrow>
   Deposit list \<Rightarrow> (sp_storage \<times> Deposit list) sp_result" where
  "distribution_loop L env config repaid_amount_decimal [] current_repay_total st
     distribution_list = Inr (st, distribution_list)"
| "distribution_loop L env config repaid_amount_decimal (deposit # pool_parse) current_repay_total
     st distribution_list =
     (if current_repay_total < repaid_amount_decimal then
        rbind (dec_add current_repay_total (d_amount deposit)) (\<lambda>with_deposit.
        if repaid_amount_decimal < with_deposit then
          rbind (dec_sub repaid_amount_decimal current_repay_total) (\<lambda>remaining_repayment.
          rbind (dec_sub (d_amount deposit) remaining_repayment) (\<lambda>amount.
          let deposit = deposit\<lparr>d_amount := amount\<rparr> in
          rbind (dec_add current_repay_total remaining_repayment) (\<lambda>current_repay_total.
          let distribution_list = distribution_list @ [deposit\<lparr>d_amount := remaining_repayment\<rparr>] in
          rbind (pay_accrued L st env config deposit remaining_repayment) (\<lambda>st.
          distribution_loop L env config repaid_amount_decimal pool_parse current_repay_total st
            distribution_list))))
        else
          let distribution_list = distribution_list @ [deposit] in
          rbind (pay_accrued L st env config deposit (d_amount deposit)) (\<lambda>st.
          distribution_loop L env config repaid_amount_decimal pool_parse with_deposit st
            distribution_list))
      else Inr (st, distribution_list))"

text \<open>
  What stays in the pool: the deposits not in the distribution list, and when one was used in
  part, the first of them less the last amount distributed (\<open>edited_deposits[0]\<close>).
\<close>

definition edit_deposits :: "Deposit list \<Rightarrow> Deposit list \<Rightarrow> Deposit list sp_result" where
  "edit_deposits deposits distribution_list =
     (let edited_deposits = filter (\<lambda>deposit. \<not> deposit_equal deposit distribution_list) deposits in
      if length deposits < length distribution_list + length edited_deposits then
        (case edited_deposits of
           [] \<Rightarrow> Inl Panic
         | first # rest \<Rightarrow>
             if distribution_list = [] then Inl Panic
             else rbind (dec_sub (d_amount first) (d_amount (last distribution_list))) (\<lambda>amount.
               Inr (first\<lparr>d_amount := amount\<rparr> # rest)))
      else Inr edited_deposits)"

section \<open>Ratios of the users\<close>

text \<open>
  One turn of the loop of \<open>get_distribution_ratios\<close>. \<open>new_deposits\<close> and \<open>user_deposits\<close> are equal
  when a turn starts.
\<close>

definition condense_deposit ::
  "Deposit \<Rightarrow> Deposit list \<times> decimal \<Rightarrow> (std_error, Deposit list \<times> decimal) result" where
  "condense_deposit deposit = (\<lambda>(user_deposits, total_amount).
     case find (\<lambda>user_deposit. d_user user_deposit = d_user deposit) user_deposits of
       Some user_deposit \<Rightarrow>
         rbind (dec_add (d_amount user_deposit) (d_amount deposit)) (\<lambda>amount.
         let user_deposit = user_deposit\<lparr>d_amount := amount\<rparr>;
             new_deposits =
               filter (\<lambda>deposit. d_user deposit \<noteq> d_user user_deposit) user_deposits
                 @ [user_deposit] in
         rbind (dec_add total_amount (d_amount deposit)) (\<lambda>total_amount.
         Inr (new_deposits, total_amount)))
     | None \<Rightarrow>
         rbind (dec_add total_amount (d_amount deposit)) (\<lambda>total_amount.
         Inr (user_deposits @ [deposit], total_amount)))"

definition get_distribution_ratios ::
  "Deposit list \<Rightarrow> (std_error, decimal list \<times> Deposit list) result" where
  "get_distribution_ratios deposits =
     rbind (rfold condense_deposit deposits ([], 0)) (\<lambda>(user_deposits, total_amount).
     rbind (rmapM (\<lambda>deposit. decimal_division (d_amount deposit) total_amount) user_deposits)
       (\<lambda>user_ratios.
     Inr (user_ratios, user_deposits)))"

section \<open>Splitting the assets\<close>

text \<open>Indexing a vector: out of bounds aborts.\<close>

definition vec_index :: "'a list \<Rightarrow> nat \<Rightarrow> ('e, 'a) result" where
  "vec_index xs i = (if i < length xs then Inr (xs ! i) else Inl Panic)"

lemma vec_index_ok [res_ok]: "vec_index xs i = Inr x \<longleftrightarrow> i < length xs \<and> x = xs ! i"
  by (auto simp: vec_index_def)

text \<open>
  The inner loop for one user over the enumerated copy of the asset ratios. It changes the
  storage, the ratios and the assets of the outer loop.
\<close>

fun split_to_user ::
  "chain_lib \<Rightarrow> addr \<Rightarrow> (nat \<times> decimal) list \<Rightarrow> decimal \<Rightarrow>
   sp_storage \<times> decimal list \<times> Asset list \<Rightarrow>
   (sp_storage \<times> decimal list \<times> Asset list) sp_result" where
  "split_to_user L user [] user_ratio s = Inr s"
| "split_to_user L user ((index, cAsset_ratio) # rest) user_ratio (st, cAsset_ratios, assets) =
     (if cAsset_ratio = 0 then split_to_user L user rest user_ratio (st, cAsset_ratios, assets)
      else if user_ratio = cAsset_ratio then
        rbind (vec_index assets index) (\<lambda>asset.
        let send_amount = a_amount asset; assets = assets[index := asset\<lparr>a_amount := 0\<rparr>] in
        rbind (map_err SpStd (add_to_user_claims L st user (a_info asset) send_amount)) (\<lambda>st.
        Inr (st, cAsset_ratios[index := 0], assets)))
      else if user_ratio < cAsset_ratio then
        rbind (map_err SpStd (decimal_division user_ratio cAsset_ratio)) (\<lambda>send_ratio.
        rbind (vec_index assets index) (\<lambda>asset.
        rbind (dec_of_uint (a_amount asset)) (\<lambda>whole.
        rbind (map_err SpStd (decimal_multiplication send_ratio whole)) (\<lambda>product.
        rbind (dec_times_one product) (\<lambda>send_amount.
        rbind (u128_sub (a_amount asset) send_amount) (\<lambda>left.
        let assets = assets[index := asset\<lparr>a_amount := left\<rparr>] in
        rbind (map_err SpStd (add_to_user_claims L st user (a_info asset) send_amount)) (\<lambda>st.
        rbind (map_err SpStd (decimal_subtraction cAsset_ratio user_ratio)) (\<lambda>ratio.
        Inr (st, cAsset_ratios[index := ratio], assets)))))))))
      else
        rbind (vec_index assets index) (\<lambda>asset.
        let send_amount = a_amount asset; assets = assets[index := asset\<lparr>a_amount := 0\<rparr>] in
        rbind (map_err SpStd (add_to_user_claims L st user (a_info asset) send_amount)) (\<lambda>st.
        rbind (map_err SpStd (decimal_subtraction user_ratio cAsset_ratio)) (\<lambda>user_ratio.
        split_to_user L user rest user_ratio (st, cAsset_ratios[index := 0], assets)))))"

definition split_user_turn ::
  "chain_lib \<Rightarrow> UserRatio \<Rightarrow> sp_storage \<times> decimal list \<times> Asset list \<Rightarrow>
   (sp_storage \<times> decimal list \<times> Asset list) sp_result" where
  "split_user_turn L user_ratio = (\<lambda>(st, cAsset_ratios, assets).
     split_to_user L (ur_user user_ratio) (enumerate 0 cAsset_ratios) (ur_ratio user_ratio)
       (st, cAsset_ratios, assets))"

definition split_assets_to_users ::
  "chain_lib \<Rightarrow> sp_storage \<Rightarrow> decimal list \<Rightarrow> Asset list \<Rightarrow> UserRatio list \<Rightarrow>
   (sp_storage \<times> decimal list \<times> Asset list) sp_result" where
  "split_assets_to_users L st cAsset_ratios distribution_assets distribution_ratios =
     rfold (split_user_turn L) distribution_ratios (st, cAsset_ratios, distribution_assets)"

section \<open>The handler\<close>

definition distribute_funds ::
  "chain_lib \<Rightarrow> sp_storage \<Rightarrow> MessageInfo \<Rightarrow> Env \<Rightarrow> Asset list \<Rightarrow> decimal list \<Rightarrow> uint128 \<Rightarrow>
   (sp_storage \<times> sp_response) sp_result" where
  "distribute_funds L st info env distribution_assets distribution_asset_ratios distribute_for =
     rbind (map_err SpStd (asset_load st)) (\<lambda>asset_pool.
     rbind (map_err SpStd (sp_config_load st)) (\<lambda>config.
     if sender info \<noteq> spc_positions_contract config then Inl (Failed SpUnauthorized)
     else
       rbind (dec_of_uint distribute_for) (\<lambda>repaid_amount_decimal.
       rbind (distribution_loop L env config repaid_amount_decimal (ap_deposits asset_pool) 0 st [])
         (\<lambda>(st, distribution_list).
       rbind (edit_deposits (ap_deposits asset_pool) distribution_list) (\<lambda>edited_deposits.
       let asset_pool = asset_pool\<lparr>ap_deposits := edited_deposits\<rparr>;
           st = st\<lparr>SP_ASSET := Some asset_pool\<rparr> in
       rbind (map_err SpStd (get_distribution_ratios distribution_list))
         (\<lambda>(ratios, user_deposits).
       let distribution_ratios =
             map (\<lambda>(deposit, ratio). \<lparr>ur_user = d_user deposit, ur_ratio = ratio\<rparr>)
               (zip user_deposits ratios) in
       rbind (split_assets_to_users L st distribution_asset_ratios distribution_assets
                distribution_ratios) (\<lambda>(st, _, _).
       Inr (st,
         \<lparr>messages = [],
          attributes = [(''method'', AText ''distribute''),
            (''credit_asset'', AText (asset_info_to_string (a_info (ap_credit_asset asset_pool)))),
            (''distribution_assets'', ADebug (DbgAssets distribution_assets))]\<rparr>))))))))"

end
