(* ===== verification/SP_Contract.thy ===== *)
theory SP_Contract
  imports SP_Distribute
begin

text \<open>
  Stability pool: deposits, claims, configuration and the entry points of
  \<open>contracts/stability-pool/src/contract.rs\<close> on the messages of
  \<open>packages/membrane/src/stability_pool.rs\<close>.
\<close>

section \<open>Deposits\<close>

definition sp_deposit ::
  "chain_lib \<Rightarrow> sp_storage \<Rightarrow> Env \<Rightarrow> MessageInfo \<Rightarrow> string option \<Rightarrow> Asset \<Rightarrow>
   (sp_storage \<times> sp_response) sp_result" where
  "sp_deposit L st env info position_owner asset =
     rbind (map_err SpStd (sp_config_load st)) (\<lambda>config.
     if a_amount asset < spc_minimum_deposit_amount config
     then Inl (Failed (SpMinimumDeposit (spc_minimum_deposit_amount config)))
     else
       rbind (map_err SpStd (validate_position_owner L info position_owner)) (\<lambda>valid_owner_addr.
       rbind (map_err SpStd (asset_load st)) (\<lambda>asset_pool.
       rbind (dec_of_uint (a_amount asset)) (\<lambda>deposit_amount.
       let deposit =
             \<lparr>d_user = valid_owner_addr, d_amount = deposit_amount,
              d_deposit_time = time_seconds env, d_last_accrued = time_seconds env,
              d_unstake_time = None\<rparr> in
       if asset_info_equal (a_info (ap_credit_asset asset_pool)) (a_info asset) then
         rbind (u128_add (a_amount (ap_credit_asset asset_pool)) (a_amount asset)) (\<lambda>amount.
         let asset_pool = asset_pool\<lparr>
               ap_credit_asset := (ap_credit_asset asset_pool)\<lparr>a_amount := amount\<rparr>,
               ap_deposits := ap_deposits asset_pool @ [deposit]\<rparr> in
         Inr (st\<lparr>SP_ASSET := Some asset_pool\<rparr>,
           \<lparr>messages = [],
            attributes = [(''method'', AText ''deposit''),
              (''position_owner'', AText valid_owner_addr),
              (''deposited_asset'', ADebug (DbgAsset asset))]\<rparr>))
       else Inl (Failed SpInvalidAsset)))))"

definition validate_in_pool ::
  "sp_storage \<Rightarrow> AssetInfo list \<Rightarrow> MessageInfo \<Rightarrow> Asset list sp_result" where
  "validate_in_pool st assets info =
     rbind (map_err SpStd (asset_load st)) (\<lambda>asset_pool.
     Inr (concat (map (\<lambda>asset.
       if asset_info_equal (a_info (ap_credit_asset asset_pool)) asset then
         (case assert_sent_native_token_balance asset info of
            Inr valid_asset \<Rightarrow> [valid_asset] | Inl _ \<Rightarrow> [])
       else []) assets)))"

definition validate_assets ::
  "sp_storage \<Rightarrow> AssetInfo list \<Rightarrow> MessageInfo \<Rightarrow> bool \<Rightarrow> Asset list sp_result" where
  "validate_assets st assets info in_pool =
     (if in_pool then validate_in_pool st assets info
      else Inr (concat (map (\<lambda>asset.
        case asset of
          NativeToken _ \<Rightarrow>
            (case assert_sent_native_token_balance asset info of
               Inr valid_asset \<Rightarrow> [valid_asset] | Inl _ \<Rightarrow> [])
        | Token _ \<Rightarrow> []) assets)))"

section \<open>Claims\<close>

record ui_state =
  i_total_user_incentives :: uint128
  i_error :: "std_error option"

definition note_interest ::
  "uint128 \<Rightarrow> decimal \<Rightarrow> u64 \<Rightarrow> ui_state \<Rightarrow> (std_error, ui_state) result" where
  "note_interest stake rate time_elapsed s =
     (if time_elapsed \<noteq> 0 then
        (case accumulate_interest stake rate time_elapsed of
           Inr incentives \<Rightarrow>
             rbind (u128_add (i_total_user_incentives s) incentives) (\<lambda>sum.
             Inr (s\<lparr>i_total_user_incentives := sum\<rparr>))
         | Inl (Failed e) \<Rightarrow> Inr (s\<lparr>i_error := Some e\<rparr>)
         | Inl Panic \<Rightarrow> Inl Panic)
      else Inr s)"

definition user_incentive_item ::
  "Env \<Rightarrow> addr \<Rightarrow> decimal \<Rightarrow> Deposit \<Rightarrow> ui_state \<Rightarrow> (std_error, ui_state \<times> Deposit) result" where
  "user_incentive_item env user rate deposit s =
     (if d_user deposit = user then
        (case d_unstake_time deposit of
           Some unstake_time \<Rightarrow>
             rbind (u64_sub unstake_time (d_last_accrued deposit)) (\<lambda>time_elapsed.
             rbind (dec_times_one (d_amount deposit)) (\<lambda>stake.
             rbind (note_interest stake rate time_elapsed s) (\<lambda>s.
             Inr (s, deposit\<lparr>d_last_accrued := unstake_time\<rparr>))))
         | None \<Rightarrow>
             rbind (u64_sub (time_seconds env) (d_last_accrued deposit)) (\<lambda>time_elapsed.
             rbind (dec_times_one (d_amount deposit)) (\<lambda>stake.
             rbind (note_interest stake rate time_elapsed s) (\<lambda>s.
             Inr (s, deposit\<lparr>d_last_accrued := time_seconds env\<rparr>)))))
      else Inr (s, deposit))"

definition get_user_incentives ::
  "sp_storage \<Rightarrow> Env \<Rightarrow> addr \<Rightarrow> AssetPool \<Rightarrow> decimal \<Rightarrow> (std_error, sp_storage \<times> uint128) result" where
  "get_user_incentives st env user asset_pool rate =
     rbind (rmap_state (user_incentive_item env user rate) (ap_deposits asset_pool)
              \<lparr>i_total_user_incentives = 0, i_error = None\<rparr>) (\<lambda>(s, new_deposits).
     case i_error s of
       Some err \<Rightarrow> Inl (Failed err)
     | None \<Rightarrow>
         let st = st\<lparr>SP_ASSET := Some (asset_pool\<lparr>ap_deposits := new_deposits\<rparr>)\<rparr> in
         rbind (incentives_load st) (\<lambda>total_incentives.
         rbind (sp_config_load st) (\<lambda>config.
         rbind (u128_add total_incentives (i_total_user_incentives s)) (\<lambda>new_total.
         if spc_max_incentives config < new_total
         then rbind (u128_sub (spc_max_incentives config) total_incentives)
                (\<lambda>total_user_incentives.
              Inr (st\<lparr>SP_INCENTIVES := Some (spc_max_incentives config)\<rparr>, total_user_incentives))
         else Inr (st\<lparr>SP_INCENTIVES := Some new_total\<rparr>, i_total_user_incentives s)))))"

text \<open>
  A claim mints the \<open>MBRN\<close> and sends the rest in one message; the native coins are returned too.
\<close>

definition user_claims_msgs ::
  "sp_storage \<Rightarrow> MessageInfo \<Rightarrow> (sp_storage \<times> cosmos_msg list \<times> Coin list) sp_result" where
  "user_claims_msgs st info =
     rbind (map_err SpStd (ok_or (NotFound ''User'') (SP_USERS st (sender info)))) (\<lambda>user.
     rbind (map_err SpStd (sp_config_load st)) (\<lambda>config.
     let is_mbrn = (\<lambda>asset. c_denom asset = spc_mbrn_denom config);
         mints = map (\<lambda>asset. WasmExecute (spc_osmosis_proxy config)
             (MintTokens (spc_mbrn_denom config) (c_amount asset) (sender info)) [])
           (filter is_mbrn (u_claimable_assets user));
         native_claims = filter (\<lambda>asset. \<not> is_mbrn asset) (u_claimable_assets user);
         msgs = (if native_claims \<noteq> [] then mints @ [BankSend (sender info) native_claims]
                 else mints)
     in Inr (st\<lparr>SP_USERS := (SP_USERS st)(sender info := None)\<rparr>, msgs, native_claims)))"

definition claim ::
  "chain_lib \<Rightarrow> sp_storage \<Rightarrow> Env \<Rightarrow> MessageInfo \<Rightarrow> (sp_storage \<times> sp_response) sp_result" where
  "claim L st env info =
     rbind (map_err SpStd (sp_config_load st)) (\<lambda>config.
     rbind (map_err SpStd (asset_load st)) (\<lambda>asset_pool.
     rbind (map_err SpStd (get_user_incentives st env (sender info) asset_pool
              (spc_incentive_rate config))) (\<lambda>(st, accrued_incentives).
     rbind (if accrued_incentives \<noteq> 0
            then map_err SpStd (add_to_user_claims L st (sender info)
                   (NativeToken (spc_mbrn_denom config)) accrued_incentives)
            else Inr st) (\<lambda>st.
     rbind (user_claims_msgs st info) (\<lambda>(st, msgs, claimables).
     Inr (st,
       \<lparr>messages = msgs,
        attributes = [(''method'', AText ''claim''), (''user'', AText (sender info)),
          (''claimables'', ADebug (DbgCoins claimables))]\<rparr>))))))"

section \<open>Configuration\<close>

record sp_InstantiateMsg =
  spi_owner :: "string option"
  spi_asset_pool :: AssetPool
  spi_incentive_rate :: "decimal option"
  spi_max_incentives :: "uint128 option"
  spi_minimum_deposit_amount :: uint128
  spi_osmosis_proxy :: string
  spi_positions_contract :: string
  spi_oracle_contract :: string
  spi_mbrn_denom :: string

record sp_UpdateConfig =
  spu_owner :: "string option"
  spu_incentive_rate :: "decimal option"
  spu_max_incentives :: "uint128 option"
  spu_unstaking_period :: "u64 option"
  spu_minimum_deposit_amount :: "uint128 option"
  spu_osmosis_proxy :: "string option"
  spu_positions_contract :: "string option"
  spu_oracle_contract :: "string option"
  spu_mbrn_denom :: "string option"

datatype sp_ExecuteMsg =
    SpUpdateConfig sp_UpdateConfig
  | SpDeposit "string option"
  | SpWithdraw uint128
  | SpRestake decimal
  | SpClaimRewards
  | SpLiquidate decimal
  | SpDistribute "Asset list" "decimal list" uint128
  | SpRepay UserInfo Asset

definition sp_CONTRACT_NAME :: string where
  "sp_CONTRACT_NAME = ''crates.io:stability-pool''"

definition sp_instantiate ::
  "chain_lib \<Rightarrow> sp_storage \<Rightarrow> Env \<Rightarrow> MessageInfo \<Rightarrow> sp_InstantiateMsg \<Rightarrow>
   (sp_storage \<times> sp_response) sp_result" where
  "sp_instantiate L st env info msg =
     rbind (map_err SpStd (lib_addr_validate L (spi_osmosis_proxy msg))) (\<lambda>osmosis_proxy.
     rbind (map_err SpStd (lib_addr_validate L (spi_positions_contract msg)))
       (\<lambda>positions_contract.
     rbind (map_err SpStd (lib_addr_validate L (spi_oracle_contract msg))) (\<lambda>oracle_contract.
     let config =
           \<lparr>spc_owner = sender info,
            spc_incentive_rate = (case spi_incentive_rate msg of None \<Rightarrow> dec_percent 9 | Some r \<Rightarrow> r),
            spc_max_incentives =
              (case spi_max_incentives msg of None \<Rightarrow> 10000000000000 | Some m \<Rightarrow> m),
            spc_unstaking_period = 1,
            spc_minimum_deposit_amount = spi_minimum_deposit_amount msg,
            spc_mbrn_denom = spi_mbrn_denom msg, spc_osmosis_proxy = osmosis_proxy,
            spc_positions_contract = positions_contract, spc_oracle_contract = oracle_contract\<rparr> in
     rbind (case spi_owner msg of
              None \<Rightarrow> Inr config
            | Some owner \<Rightarrow>
                rbind (map_err SpStd (lib_addr_validate L owner)) (\<lambda>owner.
                Inr (config\<lparr>spc_owner := owner\<rparr>))) (\<lambda>config.
     Inr (st\<lparr>SP_CONTRACT_VERSION := Some (sp_CONTRACT_NAME, lib_version L),
             SP_CONFIG := Some config, SP_PROP := Some \<lparr>prop_repaid_amount = 0\<rparr>,
             SP_INCENTIVES := Some 0,
             SP_ASSET := Some ((spi_asset_pool msg)\<lparr>ap_deposits := []\<rparr>)\<rparr>,
       \<lparr>messages = [],
        attributes = [(''method'', AText ''instantiate''), (''config'', ADebug (DbgConfig config)),
          (''contract_address'', AText (contract_address env))]\<rparr>)))))"

definition optional :: "'v option \<Rightarrow> ('v \<Rightarrow> 's \<Rightarrow> ('e, 's) result) \<Rightarrow> 's \<Rightarrow> ('e, 's) result" where
  "optional v f s = (case v of None \<Rightarrow> Inr s | Some x \<Rightarrow> f x s)"

text \<open>The optional fields of an update, in the order of the code, on the configuration and the attributes.\<close>

definition sp_update_fields ::
  "chain_lib \<Rightarrow> sp_UpdateConfig \<Rightarrow> sp_config \<times> sp_debug attr list \<Rightarrow>
   (sp_config \<times> sp_debug attr list) sp_result" where
  "sp_update_fields L update s =
     rbind (optional (spu_mbrn_denom update) (\<lambda>d (c, a). Inr (c\<lparr>spc_mbrn_denom := d\<rparr>, a)) s) (\<lambda>s.
     rbind (optional (spu_osmosis_proxy update) (\<lambda>x (c, a).
              rbind (map_err SpStd (lib_addr_validate L x)) (\<lambda>v.
              Inr (c\<lparr>spc_osmosis_proxy := v\<rparr>, a))) s) (\<lambda>s.
     rbind (optional (spu_positions_contract update) (\<lambda>x (c, a).
              rbind (map_err SpStd (lib_addr_validate L x)) (\<lambda>v.
              Inr (c\<lparr>spc_positions_contract := v\<rparr>, a))) s) (\<lambda>s.
     rbind (optional (spu_oracle_contract update) (\<lambda>x (c, a).
              rbind (map_err SpStd (lib_addr_validate L x)) (\<lambda>v.
              Inr (c\<lparr>spc_oracle_contract := v\<rparr>,
                a @ [(''new_oracle_contract'', AText x)]))) s) (\<lambda>s.
     rbind (optional (spu_incentive_rate update) (\<lambda>r (c, a).
              if dec_percent 20 < r
              then Inl (Failed (SpCustomError ''Incentive rate cannot be greater than 20%''))
              else Inr (c\<lparr>spc_incentive_rate := r\<rparr>, a)) s) (\<lambda>s.
     rbind (optional (spu_max_incentives update) (\<lambda>m (c, a).
              if m < 1000000 \<or> 10000000 < m
              then Inl (Failed (SpCustomError ''Max incentives must be between 1M and 10M''))
              else Inr (c\<lparr>spc_max_incentives := m\<rparr>, a)) s) (\<lambda>s.
     rbind (optional (spu_minimum_deposit_amount update) (\<lambda>m (c, a).
              Inr (c\<lparr>spc_minimum_deposit_amount := m\<rparr>, a)) s) (\<lambda>s.
     optional (spu_unstaking_period update) (\<lambda>p (c, a).
       if p < 1 \<or> 7 < p
       then Inl (Failed (SpCustomError ''Unstaking period must be between 1 and 7 days''))
       else Inr (c\<lparr>spc_unstaking_period := p\<rparr>, a)) s)))))))"

definition sp_update_config ::
  "chain_lib \<Rightarrow> sp_storage \<Rightarrow> MessageInfo \<Rightarrow> sp_UpdateConfig \<Rightarrow>
   (sp_storage \<times> sp_response) sp_result" where
  "sp_update_config L st info update =
     rbind (map_err SpStd (sp_config_load st)) (\<lambda>config.
     rbind (if sender info \<noteq> spc_owner config then
              rbind (map_err SpStd (ok_or (NotFound ''Addr'') (SP_OWNERSHIP_TRANSFER st)))
                (\<lambda>heir.
              if sender info = heir then Inr (config\<lparr>spc_owner := sender info\<rparr>)
              else Inl (Failed SpUnauthorized))
            else Inr config) (\<lambda>config.
     let attrs = [(''method'', AText ''update_config'')] in
     rbind (optional (spu_owner update) (\<lambda>owner (st, a).
              rbind (map_err SpStd (lib_addr_validate L owner)) (\<lambda>valid_addr.
              Inr (st\<lparr>SP_OWNERSHIP_TRANSFER := Some valid_addr\<rparr>,
                a @ [(''owner_transfer'', AText valid_addr)]))) (st, attrs)) (\<lambda>(st, attrs).
     rbind (sp_update_fields L update (config, attrs)) (\<lambda>(config, attrs).
     Inr (st\<lparr>SP_CONFIG := Some config\<rparr>,
       \<lparr>messages = [],
        attributes = attrs @ [(''updated_config'', ADebug (DbgConfig config))]\<rparr>)))))"

section \<open>Dispatch\<close>

fun sp_execute ::
  "chain_lib \<Rightarrow> sp_storage \<Rightarrow> Env \<Rightarrow> MessageInfo \<Rightarrow> sp_ExecuteMsg \<Rightarrow>
   (sp_storage \<times> sp_response) sp_result" where
  "sp_execute L st env info (SpUpdateConfig update) = sp_update_config L st info update"
| "sp_execute L st env info (SpDeposit user) =
     rbind (vec_index (funds info) 0) (\<lambda>sent.
     rbind (validate_assets st [NativeToken (c_denom sent)] info True) (\<lambda>valid_assets.
     case valid_assets of
       [] \<Rightarrow> Inl (Failed (SpCustomError ''No valid asset or more than one asset sent''))
     | valid_asset # _ \<Rightarrow>
         if 1 < length (funds info)
         then Inl (Failed (SpCustomError ''No valid asset or more than one asset sent''))
         else sp_deposit L st env info user valid_asset))"
| "sp_execute L st env info (SpWithdraw amount) = withdraw L st env info amount"
| "sp_execute L st env info (SpRestake restake_amount) = restake L st env info restake_amount"
| "sp_execute L st env info (SpLiquidate liq_amount) = liquidate L st info liq_amount"
| "sp_execute L st env info SpClaimRewards = claim L st env info"
| "sp_execute L st env info (SpDistribute distribution_assets distribution_asset_ratios
     distribute_for) =
     distribute_funds L st info env distribution_assets distribution_asset_ratios distribute_for"
| "sp_execute L st env info (SpRepay user_info repayment) =
     repay L st env info user_info repayment"

definition sp_migrate :: "sp_storage \<Rightarrow> (sp_storage \<times> sp_response) sp_result" where
  "sp_migrate st = Inr (st, response_new)"

end
