(* ===== verification/SP_Query.thy ===== *)
theory SP_Query
  imports SP_Contract
begin

text \<open>
  Stability pool: the read-only entry point (\<open>contracts/stability-pool/src/query.rs\<close> and
  \<open>contract.rs::query\<close>). Responses are the typed values the code serialises.
\<close>

type_synonym 'a query_result = "(std_error, 'a) result"

record DepositPositionResponse =
  dp_deposit :: Deposit
  dp_capital_ahead :: decimal

definition U32_BOUND :: nat where "U32_BOUND = 4294967296"

definition u32_add :: "nat \<Rightarrow> nat \<Rightarrow> ('e, nat) result" where
  "u32_add a b = (if a + b < U32_BOUND then Inr (a + b) else Inl Panic)"

text \<open>The slices panic when they start past the end.\<close>

definition query_asset_pool ::
  "chain_lib \<Rightarrow> sp_storage \<Rightarrow> string option \<Rightarrow> nat option \<Rightarrow> nat option \<Rightarrow> AssetPool query_result" where
  "query_asset_pool L st user deposit_limit start_after =
     rbind (asset_load st) (\<lambda>asset_pool.
     rbind (case user of
              None \<Rightarrow> Inr (ap_deposits asset_pool)
            | Some user \<Rightarrow>
                rbind (lib_addr_validate L user) (\<lambda>user.
                Inr (filter (\<lambda>deposit. d_user deposit = user) (ap_deposits asset_pool))))
       (\<lambda>deposits.
     let start = (case start_after of None \<Rightarrow> 0 | Some s \<Rightarrow> s) in
     case deposit_limit of
       Some limit \<Rightarrow>
         rbind (u32_add start limit) (\<lambda>stop.
         if length deposits mod U32_BOUND < stop
         then Inl (Failed (GenericFmtNum ''Invalid limit, deposit length: {}'' (length deposits)))
         else Inr (asset_pool\<lparr>ap_deposits := take limit (drop start deposits)\<rparr>))
     | None \<Rightarrow>
         if length deposits < start then Inl Panic
         else Inr (asset_pool\<lparr>ap_deposits := drop start deposits\<rparr>)))"

fun capital_ahead_loop ::
  "addr \<Rightarrow> Deposit list \<Rightarrow> decimal \<Rightarrow> DepositPositionResponse list \<Rightarrow>
   DepositPositionResponse list query_result" where
  "capital_ahead_loop user [] capital_ahead resp = Inr resp"
| "capital_ahead_loop user (deposit # deposits) capital_ahead resp =
     (let resp = (if d_user deposit = user
            then resp @ [\<lparr>dp_deposit = deposit, dp_capital_ahead = capital_ahead\<rparr>] else resp) in
      rbind (dec_add capital_ahead (d_amount deposit)) (\<lambda>capital_ahead.
      capital_ahead_loop user deposits capital_ahead resp))"

definition query_capital_ahead_of_deposits ::
  "chain_lib \<Rightarrow> sp_storage \<Rightarrow> string \<Rightarrow> DepositPositionResponse list query_result" where
  "query_capital_ahead_of_deposits L st user =
     rbind (asset_load st) (\<lambda>asset_pool.
     rbind (lib_addr_validate L user) (\<lambda>user.
     capital_ahead_loop user (ap_deposits asset_pool) 0 []))"

definition query_deposits :: "chain_lib \<Rightarrow> sp_storage \<Rightarrow> string \<Rightarrow> Deposit list query_result" where
  "query_deposits L st user =
     rbind (lib_addr_validate L user) (\<lambda>valid_user.
     rbind (asset_load st) (\<lambda>asset_pool.
     Inr (filter (\<lambda>deposit. d_user deposit = valid_user) (ap_deposits asset_pool))))"

definition query_incentive_turn ::
  "Env \<Rightarrow> decimal \<Rightarrow> Deposit \<Rightarrow> uint128 \<Rightarrow> uint128 query_result" where
  "query_incentive_turn env rate deposit total_incentives =
     rbind (case d_unstake_time deposit of
              Some unstake_time \<Rightarrow> u64_sub unstake_time (d_last_accrued deposit)
            | None \<Rightarrow> u64_sub (time_seconds env) (d_last_accrued deposit)) (\<lambda>time_elapsed.
     rbind (dec_times_one (d_amount deposit)) (\<lambda>stake.
     rbind (accumulate_interest stake rate time_elapsed) (\<lambda>incentives.
     u128_add total_incentives incentives)))"

definition query_user_incentives ::
  "chain_lib \<Rightarrow> sp_storage \<Rightarrow> Env \<Rightarrow> string \<Rightarrow> uint128 query_result" where
  "query_user_incentives L st env user =
     rbind (query_deposits L st user) (\<lambda>resp.
     rbind (sp_config_load st) (\<lambda>config.
     rfold (query_incentive_turn env (spc_incentive_rate config)) resp 0))"

definition sp_query_liquidatible :: "sp_storage \<Rightarrow> decimal \<Rightarrow> decimal query_result" where
  "sp_query_liquidatible st amount =
     rbind (asset_load st) (\<lambda>asset_pool.
     rbind (dec_times_one amount) (\<lambda>asset_amount_uint128.
     let liquidatible_amount = a_amount (ap_credit_asset asset_pool) in
     if asset_amount_uint128 < liquidatible_amount then Inr (dec_percent 0)
     else
       rbind (u128_sub asset_amount_uint128 (a_amount (ap_credit_asset asset_pool))) (\<lambda>leftover.
       dec_of_uint leftover)))"

definition sp_query_user_claims :: "chain_lib \<Rightarrow> sp_storage \<Rightarrow> string \<Rightarrow> Coin list query_result" where
  "sp_query_user_claims L st user =
     rbind (lib_addr_validate L user) (\<lambda>valid_user.
     case SP_USERS st valid_user of
       Some user \<Rightarrow> Inr (u_claimable_assets user)
     | None \<Rightarrow> Inl (Failed (GenericErr ''User has no claimable assets'')))"

datatype sp_QueryMsg =
    SpQConfig
  | SpQUnclaimedIncentives string
  | SpQCapitalAheadOfDeposit string
  | SpQCheckLiquidatible decimal
  | SpQUserClaims string
  | SpQAssetPool "string option" "nat option" "nat option"

datatype sp_QueryResponse =
    SpRConfig sp_config
  | SpRIncentives uint128
  | SpRPositions "DepositPositionResponse list"
  | SpRLeftover decimal
  | SpRClaims "Coin list"
  | SpRPool AssetPool

fun sp_query :: "chain_lib \<Rightarrow> sp_storage \<Rightarrow> Env \<Rightarrow> sp_QueryMsg \<Rightarrow> sp_QueryResponse query_result" where
  "sp_query L st env SpQConfig = rbind (sp_config_load st) (\<lambda>c. Inr (SpRConfig c))"
| "sp_query L st env (SpQUnclaimedIncentives user) =
     rbind (query_user_incentives L st env user) (\<lambda>i. Inr (SpRIncentives i))"
| "sp_query L st env (SpQCapitalAheadOfDeposit user) =
     rbind (query_capital_ahead_of_deposits L st user) (\<lambda>p. Inr (SpRPositions p))"
| "sp_query L st env (SpQCheckLiquidatible amount) =
     rbind (sp_query_liquidatible st amount) (\<lambda>l. Inr (SpRLeftover l))"
| "sp_query L st env (SpQUserClaims user) =
     rbind (sp_query_user_claims L st user) (\<lambda>c. Inr (SpRClaims c))"
| "sp_query L st env (SpQAssetPool user deposit_limit start_after) =
     rbind (query_asset_pool L st user deposit_limit start_after) (\<lambda>p. Inr (SpRPool p))"

end
