(* ===== verification/SP_Accounting.thy ===== *)
theory SP_Accounting
  imports SP_Query
begin

text \<open>
  Stability pool: the money of a withdrawal. One turn of the loop of \<open>withdrawal_from_state\<close> moves
  money only between the deposit, the part that returns to the end of the line and the amount to pay
  out (\<open>wd_turn\<close>); the loop lemmas lift this to the deposit list, bound what is taken (\<open>taken\<close>) and
  show that nothing is taken from locked deposits. \<open>pool_pays\<close> is what a withdrawal does to a pool.
\<close>

section \<open>One deposit of a withdrawal\<close>

abbreviation whole :: "decimal \<Rightarrow> bool" where
  "whole d \<equiv> DECIMAL_FRACTIONAL dvd d"

definition return_amount :: "wd_state \<Rightarrow> decimal" where
  "return_amount w = (case w_returning_deposit w of None \<Rightarrow> 0 | Some d \<Rightarrow> d_amount d)"

definition wd_ok :: "addr \<Rightarrow> wd_state \<Rightarrow> bool" where
  "wd_ok user w \<longleftrightarrow> whole (w_withdrawal_amount w) \<and>
     (w_withdrawal_amount w \<noteq> 0 \<longrightarrow> w_returning_deposit w = None) \<and>
     (\<forall>d. w_returning_deposit w = Some d \<longrightarrow> d_user d = user \<and> whole (d_amount d))"

lemma accrued_simps [simp]:
  "d_user (accrued env d) = d_user d" "d_amount (accrued env d) = d_amount d"
  "d_deposit_time (accrued env d) = d_deposit_time d"
  "d_unstake_time (accrued env d) = d_unstake_time d"
  "d_last_accrued (accrued env d) = time_seconds env"
  by (simp_all add: accrued_def)

text \<open>
  Accruing changes the incentive counter, to a value within the cap, and nothing else of the storage.
\<close>

definition accrues :: "sp_config \<Rightarrow> sp_storage \<Rightarrow> sp_storage \<Rightarrow> bool" where
  "accrues config st st' \<longleftrightarrow> st' = st \<or>
     (\<exists>i. i \<le> spc_max_incentives config \<and> st' = st\<lparr>SP_INCENTIVES := Some i\<rparr>)"

lemma accrues_refl [simp, intro]: "accrues config st st"
  by (simp add: accrues_def)

lemma accrues_trans: "accrues config a b \<Longrightarrow> accrues config b c \<Longrightarrow> accrues config a c"
  by (auto simp: accrues_def)

lemma accrues_simps:
  assumes "accrues config st st'"
  shows "SP_CONFIG st' = SP_CONFIG st" "SP_ASSET st' = SP_ASSET st" "SP_PROP st' = SP_PROP st"
    "SP_USERS st' = SP_USERS st" "SP_OWNERSHIP_TRANSFER st' = SP_OWNERSHIP_TRANSFER st"
  using assms by (auto simp: accrues_def)

lemma accrue_noting_frame:
  assumes "accrue_noting st env config stake d err = Inr (st', inc, err')"
  shows "accrues config st st'"
proof (cases "accrue_incentives st env config stake d")
  case (Inl e)
  then show ?thesis using assms by (cases e) (auto simp: accrue_noting_def)
next
  case (Inr p)
  then obtain st1 i where "accrue_incentives st env config stake d = Inr (st1, i)" by (cases p) auto
  moreover from this assms have "st' = st1" by (auto simp: accrue_noting_def)
  ultimately show ?thesis by (auto simp: accrues_def elim!: accrue_incentives_ok)
qed

lemma at_least_minimum_ok:
  assumes "at_least_minimum config d wa = Inr m" and "whole wa" "whole (d_amount d)"
    and "wa < d_amount d"
  shows "whole m" and "m \<le> d_amount d"
  using assms by (auto simp: at_least_minimum_def res_ok split: if_splits)


lemma unstake_step_cases:
  assumes "unstake_step env config skip d w = Inr (w', d')"
  obtains (skip) "skip" "w' = w\<lparr>w_withdrawable := True\<rparr>"
      "d' = d\<lparr>d_unstake_time := Some (time_seconds env)\<rparr>"
  | (ripe) t where "\<not> skip" "d_unstake_time d = Some t"
      "spc_unstaking_period config * SECONDS_PER_DAY \<le> time_seconds env - t"
      "w' = w\<lparr>w_withdrawable := True\<rparr>" "d' = d"
  | (same) "\<not> skip" "d_unstake_time d \<noteq> None \<or> w_withdrawal_amount w = 0" "w' = w" "d' = d"
  | (part) m where "\<not> skip" "d_unstake_time d = None" "w_withdrawal_amount w \<noteq> 0"
      "w_withdrawal_amount w < d_amount d" "m \<le> d_amount d"
      "at_least_minimum config d (w_withdrawal_amount w) = Inr m"
      "w' = w\<lparr>w_returning_deposit := Some (d\<lparr>d_amount := d_amount d - m, d_unstake_time := None\<rparr>),
         w_withdrawal_amount := 0\<rparr>"
      "d' = d\<lparr>d_amount := m, d_unstake_time := Some (time_seconds env)\<rparr>"
  | (all) "\<not> skip" "d_unstake_time d = None" "w_withdrawal_amount w \<noteq> 0"
      "d_amount d \<le> w_withdrawal_amount w"
      "w' = w\<lparr>w_withdrawal_amount := w_withdrawal_amount w - d_amount d\<rparr>"
      "d' = d\<lparr>d_unstake_time := Some (time_seconds env)\<rparr>"
proof (cases skip)
  case True
  with assms show thesis by (intro skip) (auto simp: unstake_step_def)
next
  case False
  show thesis
  proof (cases "d_unstake_time d")
    case (Some t)
    with assms False have "(w', d') = (w\<lparr>w_withdrawable := True\<rparr>, d) \<and>
        spc_unstaking_period config * SECONDS_PER_DAY \<le> time_seconds env - t \<or> (w', d') = (w, d)"
      by (auto simp: unstake_step_def res_ok split: if_splits)
    with False Some show thesis using ripe same by auto
  next
    case None
    consider "w_withdrawal_amount w = 0"
      | "w_withdrawal_amount w \<noteq> 0" "w_withdrawal_amount w < d_amount d"
      | "w_withdrawal_amount w \<noteq> 0" "d_amount d \<le> w_withdrawal_amount w" by linarith
    then show thesis
    proof cases
      case 1
      with assms False None show thesis by (intro same) (auto simp: unstake_step_def)
    next
      case 2
      with assms False None obtain m where
        "at_least_minimum config d (w_withdrawal_amount w) = Inr m" "m \<le> d_amount d"
        "w' = w\<lparr>w_returning_deposit := Some (d\<lparr>d_amount := d_amount d - m, d_unstake_time := None\<rparr>),
         w_withdrawal_amount := 0\<rparr>"
        "d' = d\<lparr>d_amount := m, d_unstake_time := Some (time_seconds env)\<rparr>"
        by (auto simp: unstake_step_def res_ok)
      with 2 False None show thesis by (intro part) auto
    next
      case 3
      with assms False None show thesis by (intro all) (auto simp: unstake_step_def res_ok)
    qed
  qed
qed

text \<open>
  One deposit's turn of the loop keeps the owner, whole amounts and \<open>wd_ok\<close>, and moves money only
  between the deposit, the returning deposit and the withdrawable amount.
\<close>

definition wd_money :: "wd_state \<Rightarrow> nat" where
  "wd_money w = return_amount w + DECIMAL_FRACTIONAL * w_withdrawable_amount w"

definition wd_turn :: "sp_config \<Rightarrow> addr \<Rightarrow> Deposit \<Rightarrow> wd_state \<Rightarrow> Deposit \<Rightarrow> wd_state \<Rightarrow> bool" where
  "wd_turn config u d w d' w' \<longleftrightarrow> d_user d' = d_user d \<and> whole (d_amount d') \<and> wd_ok u w' \<and>
     d_amount d' + wd_money w' = d_amount d + wd_money w \<and> accrues config (w_st w) (w_st w')"

lemma wd_turn_trans: "wd_turn config u d w d1 w1 \<Longrightarrow> wd_turn config u d1 w1 d2 w2 \<Longrightarrow> wd_turn config u d w d2 w2"
  by (auto simp: wd_turn_def dest: accrues_trans)

lemma unstake_step_turn:
  assumes "unstake_step env config skip d w = Inr (w', d')"
    and "whole (d_amount d)" and "wd_ok u w"
  and u: "d_user d = u"
  shows "wd_turn config u d w d' w'"
  using assms(1)
proof (cases rule: unstake_step_cases)
  case (part m)
  then have m: "whole m" using at_least_minimum_ok[OF part(6)] assms by (simp add: wd_ok_def)
  have "w_returning_deposit w = None" using part(3) assms(3) by (simp add: wd_ok_def)
  then show ?thesis
    using part(5,7,8) m assms(2) u by (simp add: wd_turn_def wd_money_def wd_ok_def return_amount_def dvd_diff_nat)
next
  case skip
  with assms show ?thesis by (simp add: wd_turn_def wd_money_def wd_ok_def return_amount_def)
next
  case ripe
  with assms show ?thesis by (simp add: wd_turn_def wd_money_def wd_ok_def return_amount_def)
next
  case same
  with assms show ?thesis by (simp add: wd_turn_def)
next
  case all
  with assms show ?thesis
    by (simp add: wd_turn_def wd_money_def wd_ok_def return_amount_def dvd_diff_nat)
qed

lemma take_step_cases:
  assumes "take_step env config skip d w = Inr (w', d')"
  obtains (none) "w' = w" "d' = d"
      "\<not> (w_withdrawal_amount w \<noteq> 0 \<and> (skip \<or> w_withdrawable w))"
  | (all) "w_withdrawal_amount w \<noteq> 0" "skip \<or> w_withdrawable w"
      "d_amount d \<le> w_withdrawal_amount w"
      "w' = w\<lparr>w_withdrawal_amount := w_withdrawal_amount w - d_amount d,
         w_withdrawable_amount := w_withdrawable_amount w + d_amount d div DECIMAL_FRACTIONAL\<rparr>"
      "d' = d\<lparr>d_amount := 0\<rparr>"
  | (part) rest st' inc err where "w_withdrawal_amount w \<noteq> 0" "skip \<or> w_withdrawable w"
      "w_withdrawal_amount w < d_amount d" "rest = d_amount d - w_withdrawal_amount w"
      "accrues config (w_st w) st'"
      "w' = w\<lparr>w_st := st', w_error := err, w_mbrn_incentives := w_mbrn_incentives w + inc,
         w_withdrawable_amount := w_withdrawable_amount w
           + w_withdrawal_amount w div DECIMAL_FRACTIONAL
           + (if rest div DECIMAL_FRACTIONAL < spc_minimum_deposit_amount config
              then rest div DECIMAL_FRACTIONAL else 0), w_withdrawal_amount := 0\<rparr>"
      "d' = accrued env (d\<lparr>d_amount :=
         if rest div DECIMAL_FRACTIONAL < spc_minimum_deposit_amount config then 0 else rest\<rparr>)"
proof -
  consider "\<not> (w_withdrawal_amount w \<noteq> 0 \<and> (skip \<or> w_withdrawable w))"
    | "w_withdrawal_amount w \<noteq> 0" "skip \<or> w_withdrawable w" "d_amount d \<le> w_withdrawal_amount w"
    | "w_withdrawal_amount w \<noteq> 0" "skip \<or> w_withdrawable w" "w_withdrawal_amount w < d_amount d"
    by linarith
  then show thesis
  proof cases
    case 1
    with assms show thesis by (intro none) (auto simp: take_step_def)
  next
    case 2
    with assms show thesis by (intro all) (auto simp: take_step_def res_ok)
  next
    case 3
    let ?rest = "d_amount d - w_withdrawal_amount w"
    let ?low = "?rest div DECIMAL_FRACTIONAL < spc_minimum_deposit_amount config"
    from assms 3 obtain a2 m2 st' inc err where
      a: "(if ?low then rbind (u128_add (w_withdrawable_amount w
             + w_withdrawal_amount w div DECIMAL_FRACTIONAL) (?rest div DECIMAL_FRACTIONAL))
             (\<lambda>total. Inr (total, 0))
           else Inr (w_withdrawable_amount w + w_withdrawal_amount w div DECIMAL_FRACTIONAL, ?rest))
           = (Inr (a2, m2) :: (uint128 \<times> decimal) sp_result)"
      and acc: "accrue_noting (w_st w) env config (w_withdrawal_amount w div DECIMAL_FRACTIONAL)
           (d\<lparr>d_amount := m2\<rparr>) (w_error w) = Inr (st', inc, err)"
      and w': "w' = w\<lparr>w_st := st', w_error := err, w_mbrn_incentives := w_mbrn_incentives w + inc,
         w_withdrawable_amount := a2, w_withdrawal_amount := 0\<rparr>"
      and d': "d' = accrued env (d\<lparr>d_amount := m2\<rparr>)"
      unfolding take_step_def Let_def
      by (auto elim!: rbind_InrE simp: dec_one_ok dec_ok int_ok split del: if_split)
    from a have "a2 = w_withdrawable_amount w + w_withdrawal_amount w div DECIMAL_FRACTIONAL
           + (if ?low then ?rest div DECIMAL_FRACTIONAL else 0)"
      and "m2 = (if ?low then 0 else ?rest)"
      by (auto simp: res_ok split: if_splits)
    note amounts = this
    show thesis
    proof (rule part[of ?rest st' inc err])
      show "accrues config (w_st w) st'" by (rule accrue_noting_frame[OF acc])
    qed (use 3 in \<open>simp_all add: w' d' amounts\<close>)
  qed
qed

lemma take_step_turn:
  assumes "take_step env config skip d w = Inr (w', d')"
    and "whole (d_amount d)" and "wd_ok u w"
  and u: "d_user d = u"
  shows "wd_turn config u d w d' w'"
  using assms(1)
proof (cases rule: take_step_cases)
  case (part rest st' inc err)
  have r: "whole (w_withdrawal_amount w)" "whole rest"
    using assms part(4) by (auto simp: wd_ok_def dvd_diff_nat)
  then have "DECIMAL_FRACTIONAL * (w_withdrawal_amount w div DECIMAL_FRACTIONAL) = w_withdrawal_amount w"
    "DECIMAL_FRACTIONAL * (rest div DECIMAL_FRACTIONAL) = rest" by simp_all
  then show ?thesis
    using part(1,3,4,5) r assms(3) u
    by (simp add: part(6,7) wd_turn_def wd_money_def wd_ok_def return_amount_def distrib_left)
next
  case all
  have "DECIMAL_FRACTIONAL * (d_amount d div DECIMAL_FRACTIONAL) = d_amount d"
    using assms(2) by simp
  with all assms show ?thesis
    by (simp add: wd_turn_def wd_money_def wd_ok_def return_amount_def distrib_left dvd_diff_nat)
next
  case none
  with assms show ?thesis by (simp add: wd_turn_def)
qed

lemma withdrawal_item_turn:
  assumes "withdrawal_item env config u skip d w = Inr (w', d')"
    and "whole (d_amount d)" and "wd_ok u w"
  shows "if d_user d = u then wd_turn config u d w d' w' else d' = d \<and> w' = w"
proof (cases "d_user d = u")
  case True
  let ?d = "accrued env d"
  let ?w = "\<lambda>st err inc. w\<lparr>w_is_user := True, w_st := st, w_error := err,
    w_mbrn_incentives := w_mbrn_incentives w + inc\<rparr>"
  from assms(1) True obtain stake st inc err w1 d1 w2 where
    acc: "accrue_noting (w_st w) env config stake d (w_error w) = Inr (st, inc, err)"
    and un: "unstake_step env config skip ?d (?w st err inc) = Inr (w1, d1)"
    and ta: "take_step env config skip d1 w1 = Inr (w2, d')"
    and w': "w' = w2\<lparr>w_withdrawable := False\<rparr>"
    by (auto simp: withdrawal_item_def dec_one_ok int_ok Let_def elim!: rbind_InrE)
  have t0: "wd_turn config u d w ?d (?w st err inc)"
    using accrue_noting_frame[OF acc] assms(2,3)
    by (simp add: wd_turn_def wd_money_def return_amount_def wd_ok_def)
  have t1: "wd_turn config u ?d (?w st err inc) d1 w1"
    by (rule unstake_step_turn[OF un]) (use t0 True in \<open>simp_all add: wd_turn_def\<close>)
  have t2: "wd_turn config u d1 w1 d' w2"
    by (rule take_step_turn[OF ta]) (use t1 True in \<open>simp_all add: wd_turn_def\<close>)
  from wd_turn_trans[OF wd_turn_trans[OF t0 t1] t2] have "wd_turn config u d w d' w2" .
  then have "wd_turn config u d w d' w'"
    by (simp add: w' wd_turn_def wd_money_def return_amount_def wd_ok_def)
  with True show ?thesis by simp
next
  case False
  with assms(1) show ?thesis by (simp add: withdrawal_item_def)
qed

definition own :: "addr \<Rightarrow> Deposit list \<Rightarrow> Deposit list" where
  "own u ds = filter (\<lambda>d. d_user d = u) ds"

definition others :: "addr \<Rightarrow> Deposit list \<Rightarrow> Deposit list" where
  "others u ds = filter (\<lambda>d. d_user d \<noteq> u) ds"

definition total_of :: "Deposit list \<Rightarrow> nat" where
  "total_of ds = sum_list (map d_amount ds)"

lemma total_simps [simp]:
  "total_of [] = 0" "total_of (d # ds) = d_amount d + total_of ds"
  "total_of (xs @ ys) = total_of xs + total_of ys"
  by (simp_all add: total_of_def)

lemma own_others [simp]:
  "own u [] = []" "own u (d # ds) = (if d_user d = u then d # own u ds else own u ds)"
  "others u [] = []" "others u (d # ds) = (if d_user d = u then others u ds else d # others u ds)"
  "own u (xs @ ys) = own u xs @ own u ys" "others u (xs @ ys) = others u xs @ others u ys"
  by (simp_all add: own_def others_def)

lemma total_split: "total_of ds = total_of (own u ds) + total_of (others u ds)"
  by (induction ds) auto

lemma withdrawal_loop:
  assumes "rmap_state (withdrawal_item env config u skip) ds w = Inr (w', ms)"
    and "\<forall>d\<in>set ds. whole (d_amount d)" and "wd_ok u w"
  shows "wd_ok u w' \<and> accrues config (w_st w) (w_st w') \<and> (\<forall>m\<in>set ms. whole (d_amount m)) \<and>
    others u ms = others u ds \<and> total_of (own u ms) + wd_money w' = total_of (own u ds) + wd_money w"
  using assms
proof (induction ds arbitrary: w ms)
  case Nil
  then show ?case by simp
next
  case (Cons d ds)
  from Cons.prems(1) obtain t m ms' where
    i: "withdrawal_item env config u skip d w = Inr (t, m)"
    and r: "rmap_state (withdrawal_item env config u skip) ds t = Inr (w', ms')" and ms: "ms = m # ms'"
    by (rule rmap_state_ConsE)
  have turn: "if d_user d = u then wd_turn config u d w m t else m = d \<and> t = w"
    by (rule withdrawal_item_turn[OF i]) (use Cons.prems in auto)
  then have "wd_ok u t" using Cons.prems(3) by (auto simp: wd_turn_def split: if_splits)
  with Cons.IH[OF r] Cons.prems(2) have IH: "wd_ok u w'" "accrues config (w_st t) (w_st w')"
    "\<forall>m\<in>set ms'. whole (d_amount m)" "others u ms' = others u ds"
    "total_of (own u ms') + wd_money w' = total_of (own u ds) + wd_money t" by auto
  show ?case
  proof (cases "d_user d = u")
    case True
    with turn have "wd_turn config u d w m t" by simp
    then have "d_user m = u" "whole (d_amount m)" "d_amount m + wd_money t = d_amount d + wd_money w"
      "accrues config (w_st w) (w_st t)" using True by (simp_all add: wd_turn_def)
    with IH True ms show ?thesis by (auto intro: accrues_trans)
  next
    case False
    with turn have "m = d" "t = w" by simp_all
    with IH False ms Cons.prems(2) show ?thesis by auto
  qed
qed

lemma drop_zero_amounts:
  "total_of (own u (filter (\<lambda>d. d_amount d \<noteq> 0) ds)) = total_of (own u ds)"
  "\<forall>d\<in>set (others u ds). d_amount d \<noteq> 0 \<Longrightarrow> others u (filter (\<lambda>d. d_amount d \<noteq> 0) ds) = others u ds"
  by (induction ds) auto

definition pool_ok :: "AssetPool \<Rightarrow> bool" where
  "pool_ok p \<longleftrightarrow> (\<forall>d\<in>set (ap_deposits p). whole (d_amount d) \<and> 0 < d_amount d)"

text \<open>
  The pool pays a user \<open>n\<close> units: out of the user's deposits and off the pool's amount, and nothing
  else of the pool changes.
\<close>

definition pool_pays :: "addr \<Rightarrow> nat \<Rightarrow> AssetPool \<Rightarrow> AssetPool \<Rightarrow> bool" where
  "pool_pays u n p p' \<longleftrightarrow> pool_ok p' \<and> others u (ap_deposits p') = others u (ap_deposits p) \<and>
     total_of (own u (ap_deposits p')) + DECIMAL_FRACTIONAL * n = total_of (own u (ap_deposits p)) \<and>
     a_amount (ap_credit_asset p') + n = a_amount (ap_credit_asset p) \<and>
     a_info (ap_credit_asset p') = a_info (ap_credit_asset p) \<and>
     ap_liq_premium p' = ap_liq_premium p"

text \<open>What a handler for one user may change besides the pool.\<close>

definition only_claims_of :: "sp_config \<Rightarrow> addr \<Rightarrow> sp_storage \<Rightarrow> sp_storage \<Rightarrow> bool" where
  "only_claims_of config u st st' \<longleftrightarrow> 
     (\<exists>s c. accrues config st s \<and> st' = s\<lparr>SP_USERS := (SP_USERS st)(u := c)\<rparr>)"

lemma accrues_only_claims: "accrues config st st' \<Longrightarrow> only_claims_of config u st st'"
  using accrues_simps(4)[of config st st'] unfolding only_claims_of_def
  by (intro exI[of _ st'] exI[of _ "SP_USERS st u"]) simp

lemma add_incentive_claim_frame:
  assumes "add_incentive_claim L st u config is_user n = Inr st'"
  shows "\<exists>c. st' = st\<lparr>SP_USERS := (SP_USERS st)(u := c)\<rparr>"
  using assms by (auto simp: add_incentive_claim_def Let_def elim!: rbind_InrE)

lemma only_claims_after_accrual:
  assumes "accrues config st s" and "(if n \<noteq> 0 then add_incentive_claim L s u config b n else Inr s) = Inr st'"
  shows "only_claims_of config u st st'"
proof (cases "n = 0")
  case True
  with assms(2) have "st' = s" by simp
  with accrues_only_claims[OF assms(1)] show ?thesis by simp
next
  case False
  with assms(2) obtain c where "st' = s\<lparr>SP_USERS := (SP_USERS s)(u := c)\<rparr>"
    using add_incentive_claim_frame[of L s u config b n st'] by auto
  moreover have "SP_USERS s = SP_USERS st" by (rule accrues_simps(4)[OF assms(1)])
  ultimately show ?thesis using assms(1) unfolding only_claims_of_def by auto
qed

lemma withdrawal_from_state_steps:
  assumes "withdrawal_from_state L st env config u requested pool skip = Inr (st', n, pool')"
  obtains w ms where
    "rmap_state (withdrawal_item env config u skip) (ap_deposits pool)
       \<lparr>w_st = st, w_mbrn_incentives = 0, w_error = None, w_is_user = False,
        w_withdrawable = False, w_withdrawable_amount = 0, w_returning_deposit = None,
        w_withdrawal_amount = requested\<rparr> = Inr (w, ms)"
    "w_withdrawal_amount w = 0" "n = w_withdrawable_amount w"
    "n \<le> a_amount (ap_credit_asset pool)"
    "(if w_mbrn_incentives w \<noteq> 0 then add_incentive_claim L (w_st w) u config (w_is_user w)
        (w_mbrn_incentives w) else Inr (w_st w)) = Inr st'"
    "pool' = pool\<lparr>ap_deposits := (case w_returning_deposit w of
          Some d \<Rightarrow> if d_amount d \<noteq> 0 then filter (\<lambda>d. d_amount d \<noteq> 0) ms @ [d]
            else filter (\<lambda>d. d_amount d \<noteq> 0) ms
        | None \<Rightarrow> filter (\<lambda>d. d_amount d \<noteq> 0) ms),
      ap_credit_asset := (ap_credit_asset pool)\<lparr>a_amount := a_amount (ap_credit_asset pool) - n\<rparr>\<rparr>"
proof -
  let ?w = "\<lparr>w_st = st, w_mbrn_incentives = 0, w_error = None, w_is_user = False,
               w_withdrawable = False, w_withdrawable_amount = 0, w_returning_deposit = None,
               w_withdrawal_amount = requested\<rparr>"
  let ?nz = "filter (\<lambda>d. d_amount d \<noteq> 0)"
  let ?deps = "\<lambda>w ms. case w_returning_deposit w of
      Some d \<Rightarrow> if d_amount d \<noteq> 0 then ?nz ms @ [d] else ?nz ms | None \<Rightarrow> ?nz ms"
  let ?claim = "\<lambda>w. if w_mbrn_incentives w \<noteq> 0 then add_incentive_claim L (w_st w) u config
    (w_is_user w) (w_mbrn_incentives w) else Inr (w_st w)"
  from assms(1) obtain w ms where
    loop: "rmap_state (withdrawal_item env config u skip) (ap_deposits pool) ?w = Inr (w, ms)"
    and rest: "(if w_withdrawal_amount w \<noteq> 0 then Inl (Failed SpInvalidWithdrawal)
      else rbind (u128_sub (a_amount (ap_credit_asset pool)) (w_withdrawable_amount w)) (\<lambda>amount.
        case w_error w of Some e \<Rightarrow> Inl (Failed (SpCustomStd e))
        | None \<Rightarrow> rbind (?claim w) (\<lambda>st. Inr (st, w_withdrawable_amount w,
            pool\<lparr>ap_deposits := ?deps w ms,
              ap_credit_asset := (ap_credit_asset pool)\<lparr>a_amount := amount\<rparr>\<rparr>)))) = Inr (st', n, pool')"
    unfolding withdrawal_from_state_def Let_def by (elim rbind_InrE) auto
  from rest obtain s where wl: "w_withdrawal_amount w = 0" and err: "w_error w = None"
    and le: "w_withdrawable_amount w \<le> a_amount (ap_credit_asset pool)"
    and cl: "?claim w = Inr s" and eq: "(s, w_withdrawable_amount w,
            pool\<lparr>ap_deposits := ?deps w ms, ap_credit_asset := (ap_credit_asset pool)\<lparr>a_amount :=
              a_amount (ap_credit_asset pool) - w_withdrawable_amount w\<rparr>\<rparr>) = (st', n, pool')"
    by (auto simp: rbind_eq_Inr int_ok split: if_split_asm option.split_asm simp del: rbind_Inr)
  from eq have e: "s = st'" "w_withdrawable_amount w = n"
    and e3: "pool\<lparr>ap_deposits := ?deps w ms, ap_credit_asset := (ap_credit_asset pool)\<lparr>a_amount :=
              a_amount (ap_credit_asset pool) - w_withdrawable_amount w\<rparr>\<rparr> = pool'"
    unfolding prod.inject by blast+
  show thesis
    by (rule that[OF loop wl e(2)[symmetric] le[unfolded e(2)] cl[unfolded e(1)]
          e3[symmetric, unfolded e(2)]])
qed

lemma withdrawal_from_state_ok:
  assumes "withdrawal_from_state L st env config u requested pool skip = Inr (st', n, pool')"
    and "pool_ok pool" and "whole requested"
  shows "pool_pays u n pool pool' \<and> only_claims_of config u st st'"
  using assms(1)
proof (rule withdrawal_from_state_steps)
  fix w ms
  let ?w = "\<lparr>w_st = st, w_mbrn_incentives = 0, w_error = None, w_is_user = False,
               w_withdrawable = False, w_withdrawable_amount = 0, w_returning_deposit = None,
               w_withdrawal_amount = requested\<rparr>"
  let ?nz = "filter (\<lambda>d. d_amount d \<noteq> 0)"
  assume loop: "rmap_state (withdrawal_item env config u skip) (ap_deposits pool) ?w = Inr (w, ms)"
    and n: "n = w_withdrawable_amount w" and le: "n \<le> a_amount (ap_credit_asset pool)"
    and st': "(if w_mbrn_incentives w \<noteq> 0 then add_incentive_claim L (w_st w) u config
        (w_is_user w) (w_mbrn_incentives w) else Inr (w_st w)) = Inr st'"
    and p: "pool' = pool\<lparr>ap_deposits := (case w_returning_deposit w of
          Some d \<Rightarrow> if d_amount d \<noteq> 0 then ?nz ms @ [d] else ?nz ms | None \<Rightarrow> ?nz ms),
      ap_credit_asset := (ap_credit_asset pool)\<lparr>a_amount := a_amount (ap_credit_asset pool) - n\<rparr>\<rparr>"
  have w0: "wd_ok u ?w" "wd_money ?w = 0"
    using assms(3) by (simp_all add: wd_ok_def wd_money_def return_amount_def)
  have wh: "\<forall>d\<in>set (ap_deposits pool). whole (d_amount d)" using assms(2) by (simp add: pool_ok_def)
  have L: "wd_ok u w" "accrues config st (w_st w)" "\<forall>m\<in>set ms. whole (d_amount m)"
    "others u ms = others u (ap_deposits pool)"
    "total_of (own u ms) + wd_money w = total_of (own u (ap_deposits pool))"
    using withdrawal_loop[OF loop wh w0(1)] w0(2) by simp_all
  have "\<forall>d\<in>set (others u ms). d_amount d \<noteq> 0"
    unfolding L(4) using assms(2) by (auto simp: pool_ok_def others_def)
  then have oth: "others u (?nz ms) = others u (ap_deposits pool)"
    using drop_zero_amounts(2) L(4) by metis
  have ret: "d_user d = u" "whole (d_amount d)" if "w_returning_deposit w = Some d" for d
    using L(1) that by (auto simp: wd_ok_def)
  have deps: "pool_ok pool'" "others u (ap_deposits pool') = others u (ap_deposits pool)"
    "total_of (own u (ap_deposits pool')) = total_of (own u ms) + return_amount w"
  proof -
    have nz: "\<forall>d\<in>set (?nz ms). whole (d_amount d) \<and> 0 < d_amount d" using L(3) by simp
    have own: "total_of (own u (?nz ms)) = total_of (own u ms)" by (rule drop_zero_amounts(1))
    show "pool_ok pool'" "others u (ap_deposits pool') = others u (ap_deposits pool)"
      "total_of (own u (ap_deposits pool')) = total_of (own u ms) + return_amount w"
      by (cases "w_returning_deposit w"; use nz own oth ret in \<open>auto simp: p pool_ok_def return_amount_def\<close>)+
  qed
  have "only_claims_of config u st st'" by (rule only_claims_after_accrual[OF L(2) st'])
  moreover from deps L(5) le have "pool_pays u n pool pool'"
    by (simp add: p n wd_money_def pool_pays_def add.commute)
  ultimately show ?thesis by simp
qed


section \<open>How much a withdrawal takes\<close>

text \<open>
  Taking without unstaking (\<open>skip\<close>): as long as something is left to take, exactly what was asked
  for less that has been taken; at the end at most a sub-minimum rest more.
\<close>

definition taken :: "sp_config \<Rightarrow> decimal \<Rightarrow> wd_state \<Rightarrow> bool" where
  "taken config requested w \<longleftrightarrow>
     (w_withdrawal_amount w = 0 \<longrightarrow>
        requested \<le> DECIMAL_FRACTIONAL * w_withdrawable_amount w \<and>
        DECIMAL_FRACTIONAL * w_withdrawable_amount w
          \<le> requested + DECIMAL_FRACTIONAL * spc_minimum_deposit_amount config) \<and>
     (w_withdrawal_amount w \<noteq> 0 \<longrightarrow>
        DECIMAL_FRACTIONAL * w_withdrawable_amount w + w_withdrawal_amount w = requested)"

lemma take_step_taken:
  assumes "take_step env config True d w = Inr (w', d')" and "taken config requested w"
    and "whole (d_amount d)" and "whole (w_withdrawal_amount w)"
  shows "taken config requested w'"
  using assms(1)
proof (cases rule: take_step_cases)
  case none
  with assms(2) show ?thesis by simp
next
  case all
  have "DECIMAL_FRACTIONAL * (d_amount d div DECIMAL_FRACTIONAL) = d_amount d"
    using assms(3) by simp
  with all assms(2) show ?thesis by (simp add: taken_def distrib_left split: if_splits)
next
  case (part rest st' inc err)
  have F: "DECIMAL_FRACTIONAL * (w_withdrawal_amount w div DECIMAL_FRACTIONAL) = w_withdrawal_amount w"
    using assms(4) by simp
  have m: "DECIMAL_FRACTIONAL * (if r < m then r else 0) \<le> DECIMAL_FRACTIONAL * m" for r m :: nat
    by simp
  from part(1) assms(2) have "DECIMAL_FRACTIONAL * w_withdrawable_amount w + w_withdrawal_amount w = requested"
    by (simp add: taken_def)
  then show ?thesis
    using F m[of "rest div DECIMAL_FRACTIONAL" "spc_minimum_deposit_amount config"]
    by (simp add: part(6) taken_def distrib_left del: mult_le_cancel1)
qed

lemma withdrawal_item_taken:
  assumes "withdrawal_item env config u True d w = Inr (w', d')" and "taken config requested w"
    and "whole (d_amount d)" and "wd_ok u w"
  shows "taken config requested w'"
proof (cases "d_user d = u")
  case True
  from assms(1) True obtain st inc err w1 d1 w2 where
    un: "unstake_step env config True (accrued env d) (w\<lparr>w_is_user := True, w_st := st,
       w_error := err, w_mbrn_incentives := w_mbrn_incentives w + inc\<rparr>) = Inr (w1, d1)"
    and ta: "take_step env config True d1 w1 = Inr (w2, d')"
    and w': "w' = w2\<lparr>w_withdrawable := False\<rparr>"
    by (auto simp: withdrawal_item_def dec_one_ok int_ok Let_def elim!: rbind_InrE)
  from un have w1: "w_withdrawal_amount w1 = w_withdrawal_amount w"
      "w_withdrawable_amount w1 = w_withdrawable_amount w" and d1: "d_amount d1 = d_amount d"
    by (auto simp: unstake_step_def)
  have "taken config requested w1 = taken config requested w" by (simp add: taken_def w1)
  then have "taken config requested w2"
    using take_step_taken[OF ta] assms by (simp add: w1 d1 wd_ok_def)
  then show ?thesis by (simp add: w' taken_def)
next
  case False
  with assms show ?thesis by (simp add: withdrawal_item_def)
qed

lemma withdrawal_loop_taken:
  assumes "rmap_state (withdrawal_item env config u True) ds w = Inr (w', ms)"
    and "\<forall>d\<in>set ds. whole (d_amount d)" and "wd_ok u w" and "taken config requested w"
  shows "taken config requested w'"
  using assms
proof (induction ds arbitrary: w ms)
  case Nil
  then show ?case by simp
next
  case (Cons d ds)
  from Cons.prems(1) obtain t m ms' where
    i: "withdrawal_item env config u True d w = Inr (t, m)"
    and r: "rmap_state (withdrawal_item env config u True) ds t = Inr (w', ms')"
    by (rule rmap_state_ConsE)
  have d: "whole (d_amount d)" using Cons.prems(2) by simp
  have "wd_ok u t" using withdrawal_item_turn[OF i d Cons.prems(3)] Cons.prems(3)
    by (auto simp: wd_turn_def split: if_splits)
  with withdrawal_item_taken[OF i Cons.prems(4) d Cons.prems(3)] Cons.IH[OF r] Cons.prems(2)
  show ?case by simp
qed

text \<open>Nothing is taken from deposits whose unstaking period has not passed.\<close>

definition locked :: "Env \<Rightarrow> sp_config \<Rightarrow> Deposit \<Rightarrow> bool" where
  "locked env config d \<longleftrightarrow> (\<forall>t. d_unstake_time d = Some t \<longrightarrow>
     time_seconds env - t < spc_unstaking_period config * SECONDS_PER_DAY)"

lemma withdrawal_item_locked:
  assumes "withdrawal_item env config u False d w = Inr (w', d')"
    and "d_user d = u \<longrightarrow> locked env config d" and "\<not> w_withdrawable w"
  shows "w_withdrawable_amount w' = w_withdrawable_amount w \<and> \<not> w_withdrawable w'"
proof (cases "d_user d = u")
  case True
  from assms(1) True obtain st inc err w1 d1 w2 where
    un: "unstake_step env config False (accrued env d) (w\<lparr>w_is_user := True, w_st := st,
       w_error := err, w_mbrn_incentives := w_mbrn_incentives w + inc\<rparr>) = Inr (w1, d1)"
    and ta: "take_step env config False d1 w1 = Inr (w2, d')"
    and w': "w' = w2\<lparr>w_withdrawable := False\<rparr>"
    by (auto simp: withdrawal_item_def dec_one_ok int_ok Let_def elim!: rbind_InrE)
  from un have "\<not> w_withdrawable w1 \<and> w_withdrawable_amount w1 = w_withdrawable_amount w"
    by (cases rule: unstake_step_cases) (use True assms in \<open>auto simp: locked_def\<close>)
  moreover from ta have "w_withdrawable w1 \<or> w2 = w1"
    by (cases rule: take_step_cases) auto
  ultimately show ?thesis by (auto simp: w')
next
  case False
  with assms show ?thesis by (simp add: withdrawal_item_def)
qed

lemma withdrawal_loop_locked:
  assumes "rmap_state (withdrawal_item env config u False) ds w = Inr (w', ms)"
    and "\<forall>d\<in>set (own u ds). locked env config d" and "\<not> w_withdrawable w"
  shows "w_withdrawable_amount w' = w_withdrawable_amount w"
  using assms
proof (induction ds arbitrary: w ms)
  case Nil
  then show ?case by simp
next
  case (Cons d ds)
  from Cons.prems(1) obtain t m ms' where
    i: "withdrawal_item env config u False d w = Inr (t, m)"
    and r: "rmap_state (withdrawal_item env config u False) ds t = Inr (w', ms')"
    by (rule rmap_state_ConsE)
  from withdrawal_item_locked[OF i] Cons.prems(2,3)
  have "w_withdrawable_amount t = w_withdrawable_amount w \<and> \<not> w_withdrawable t"
    by (auto split: if_splits)
  with Cons.IH[OF r] Cons.prems(2) show ?case by (auto split: if_splits)
qed


lemma withdrawal_from_state_taken:
  assumes "withdrawal_from_state L st env config u requested pool True = Inr (st', n, pool')"
    and "pool_ok pool" and "whole requested"
  shows "requested \<le> DECIMAL_FRACTIONAL * n \<and>
    DECIMAL_FRACTIONAL * n \<le> requested + DECIMAL_FRACTIONAL * spc_minimum_deposit_amount config"
  using assms(1)
proof (rule withdrawal_from_state_steps)
  fix w ms
  let ?w = "\<lparr>w_st = st, w_mbrn_incentives = 0, w_error = None, w_is_user = False,
               w_withdrawable = False, w_withdrawable_amount = 0, w_returning_deposit = None,
               w_withdrawal_amount = requested\<rparr>"
  assume loop: "rmap_state (withdrawal_item env config u True) (ap_deposits pool) ?w = Inr (w, ms)"
    and wl: "w_withdrawal_amount w = 0" and n: "n = w_withdrawable_amount w"
  have "taken config requested w"
    by (rule withdrawal_loop_taken[OF loop])
      (use assms(2,3) in \<open>simp_all add: pool_ok_def wd_ok_def taken_def\<close>)
  then show ?thesis by (simp add: taken_def wl n)
qed

lemma withdrawal_from_state_locked:
  assumes "withdrawal_from_state L st env config u requested pool False = Inr (st', n, pool')"
    and "\<forall>d\<in>set (own u (ap_deposits pool)). locked env config d"
  shows "n = 0"
  using assms(1)
proof (rule withdrawal_from_state_steps)
  fix w ms
  let ?w = "\<lparr>w_st = st, w_mbrn_incentives = 0, w_error = None, w_is_user = False,
               w_withdrawable = False, w_withdrawable_amount = 0, w_returning_deposit = None,
               w_withdrawal_amount = requested\<rparr>"
  assume loop: "rmap_state (withdrawal_item env config u False) (ap_deposits pool) ?w = Inr (w, ms)"
    and n: "n = w_withdrawable_amount w"
  from withdrawal_loop_locked[OF loop assms(2)] show ?thesis by (simp add: n)
qed

section \<open>The handlers on the pool\<close>

lemma deposits_of_own: "deposits_of u p = own u (ap_deposits p)"
  by (simp add: deposits_of_def own_def)

lemma only_claims_pool:
  "only_claims_of config u st st' \<Longrightarrow> SP_CONFIG st' = SP_CONFIG st \<and> SP_ASSET st' = SP_ASSET st \<and>
     SP_PROP st' = SP_PROP st \<and> SP_OWNERSHIP_TRANSFER st' = SP_OWNERSHIP_TRANSFER st \<and>
     (\<forall>v. v \<noteq> u \<longrightarrow> SP_USERS st' v = SP_USERS st v)"
  by (auto simp: only_claims_of_def dest: accrues_simps)

lemma withdraw_ok:
  assumes "withdraw L st env info n = Inr (st', r)" and "SP_ASSET st = Some pool" and "pool_ok pool"
  obtains config st1 w pool' where "SP_CONFIG st = Some config"
    "withdrawal_from_state L st env config (sender info) (n * DECIMAL_FRACTIONAL) pool
       (spc_unstaking_period config = 0) = Inr (st1, w, pool')"
    "st' = st1\<lparr>SP_ASSET := Some pool'\<rparr>"
    "pool_pays (sender info) w pool pool'" "only_claims_of config (sender info) st st1"
    "w \<le> n + spc_minimum_deposit_amount config"
    "messages r = (if w = 0 then [] else [BankSend (sender info)
       [\<lparr>c_denom = ai_denom (a_info (ap_credit_asset pool)), c_amount = w\<rparr>]])"
proof -
  let ?invalid = "\<lambda>config w pool'. if to_uint_floor (total_of (own (sender info) (ap_deposits pool))) < w
      then Inr True
      else rbind (u128_add n (spc_minimum_deposit_amount config)) (\<lambda>most.
        if most < w then Inr True
        else rbind (u128_add w (to_uint_floor (total_of (own (sender info) (ap_deposits pool')))))
          (\<lambda>accounted. Inr (accounted \<noteq> to_uint_floor (total_of (own (sender info) (ap_deposits pool))))))"
  let ?reply = "\<lambda>(st :: sp_storage) w. if w \<noteq> 0 then
      let withdrawable_asset = (ap_credit_asset pool)\<lparr>a_amount := w\<rparr> in
      rbind (map_err SpStd (withdrawal_msg withdrawable_asset (sender info))) (\<lambda>message.
      Inr (st, \<lparr>messages = [message], attributes = [(''method'', AText ''withdraw''),
          (''position_owner'', AText (sender info))] @ [(''withdrawn_asset'',
          ANumText w (asset_info_to_string (a_info withdrawable_asset)))]\<rparr>))
    else Inr (st, \<lparr>messages = [], attributes = [(''method'', AText ''withdraw''),
          (''position_owner'', AText (sender info))]\<rparr>)"
  from assms(1,2) obtain config st1 w pool' inv where
    c: "SP_CONFIG st = Some config"
    and wd: "withdrawal_from_state L st env config (sender info) (n * DECIMAL_FRACTIONAL) pool
       (spc_unstaking_period config = 0) = Inr (st1, w, pool')"
    and g: "?invalid config w pool' = (Inr inv :: bool sp_result)" "\<not> inv"
    and rep: "?reply (st1\<lparr>SP_ASSET := Some pool'\<rparr>) w = Inr (st', r)"
    unfolding withdraw_def Let_def deposits_of_own
    by (auto simp: sp_load_ok map_err_eq_Inr dec_sum_ok dec_one_ok total_of_def
        elim!: rbind_InrE split: if_split_asm(1))
  have W: "pool_pays (sender info) w pool pool'" "only_claims_of config (sender info) st st1"
    using withdrawal_from_state_ok[OF wd assms(3)] by simp_all
  from g have le: "w \<le> n + spc_minimum_deposit_amount config"
    by (auto simp: int_ok elim!: rbind_InrE split: if_split_asm)
  from rep have "st' = st1\<lparr>SP_ASSET := Some pool'\<rparr>"
    "messages r = (if w = 0 then [] else [BankSend (sender info)
       [\<lparr>c_denom = ai_denom (a_info (ap_credit_asset pool)), c_amount = w\<rparr>]])"
    by (auto simp: withdrawal_msg_ok map_err_eq_Inr Let_def elim!: rbind_InrE split: if_split_asm)
  from that[OF c wd this(1) W le this(2)] show thesis .
qed

end
