(* ===== verification/SP_Handlers.thy ===== *)
theory SP_Handlers
  imports SP_Accounting
begin

text \<open>
  Stability pool: what each handler does when it succeeds, as one elimination rule per handler
  (\<open>repay_ok\<close>, \<open>restake_ok\<close>, \<open>sp_deposit_ok\<close>, \<open>liquidate_ok\<close>, \<open>claim_ok\<close>; \<open>withdraw_ok\<close> is in
  \<open>SP_Accounting\<close>): the pool before and after, the messages sent, and what of the storage is left alone.
\<close>

section \<open>Handlers\<close>

lemma repay_ok:
  assumes "repay L st env info ui repayment = Inr (st', r)" and "SP_ASSET st = Some pool" and "pool_ok pool"
  obtains config u st1 w pool' where "SP_CONFIG st = Some config"
    "sender info = spc_positions_contract config"
    "lib_addr_validate L (ui_position_owner ui) = Inr u"
    "a_info repayment = a_info (ap_credit_asset pool)"
    "st' = st1\<lparr>SP_ASSET := Some pool'\<rparr>" "pool_pays u w pool pool'" "only_claims_of config u st st1"
    "a_amount repayment \<le> w" "w \<le> a_amount repayment + spc_minimum_deposit_amount config"
    "messages r = [WasmExecute (spc_positions_contract config)
       (RepayMsg (ui_position_id ui) (Some (ui_position_owner ui)) (Some (ui_position_owner ui)))
       [\<lparr>c_denom = ai_denom (a_info repayment), c_amount = a_amount repayment\<rparr>]]"
proof -
  from assms(1,2) obtain config u st1 w pool' coin where
    c: "SP_CONFIG st = Some config" "sender info = spc_positions_contract config"
      "a_info (ap_credit_asset pool) = a_info repayment"
      "lib_addr_validate L (ui_position_owner ui) = Inr u"
    and wd: "withdrawal_from_state L st env config u (a_amount repayment * DECIMAL_FRACTIONAL) pool
       True = Inr (st1, w, pool')"
    and coin: "asset_to_coin (if w < a_amount repayment then repayment\<lparr>a_amount := w\<rparr> else repayment)
       = Inr coin"
    and st': "st' = st1\<lparr>SP_ASSET := Some pool'\<rparr>"
    and m: "messages r = [WasmExecute (spc_positions_contract config)
       (RepayMsg (ui_position_id ui) (Some (ui_position_owner ui)) (Some (ui_position_owner ui))) [coin]]"
    unfolding repay_def Let_def
    by (auto simp: sp_load_ok map_err_eq_Inr dec_sum_ok dec_one_ok elim!: rbind_InrE
        split: if_split_asm(1))
  have "a_amount repayment * DECIMAL_FRACTIONAL \<le> DECIMAL_FRACTIONAL * w \<and>
      DECIMAL_FRACTIONAL * w \<le> a_amount repayment * DECIMAL_FRACTIONAL
        + DECIMAL_FRACTIONAL * spc_minimum_deposit_amount config"
    by (rule withdrawal_from_state_taken[OF wd assms(3)]) simp
  then have "DECIMAL_FRACTIONAL * a_amount repayment \<le> DECIMAL_FRACTIONAL * w"
    "DECIMAL_FRACTIONAL * w \<le> DECIMAL_FRACTIONAL * (a_amount repayment + spc_minimum_deposit_amount config)"
    by (simp_all only: mult.commute[of _ DECIMAL_FRACTIONAL] distrib_left)
  then have w: "a_amount repayment \<le> w" "w \<le> a_amount repayment + spc_minimum_deposit_amount config"
    by (simp_all only: mult_le_cancel1 frac_pos simp_thms)
  have "coin = \<lparr>c_denom = ai_denom (a_info repayment), c_amount = a_amount repayment\<rparr>"
    using coin w(1) by (auto simp: asset_to_coin_def split: AssetInfo.splits)
  with m withdrawal_from_state_ok[OF wd assms(3)] show thesis
    by (intro that[OF c(1,2,4) c(3)[symmetric] st' _ _ w]) simp_all
qed

text \<open>Handlers that change times of a user's deposits, not amounts.\<close>

definition retimed :: "addr \<Rightarrow> Deposit \<Rightarrow> Deposit \<Rightarrow> bool" where
  "retimed u d d' \<longleftrightarrow> d_user d' = d_user d \<and> d_amount d' = d_amount d \<and> (d_user d \<noteq> u \<longrightarrow> d' = d)"

definition pool_retimed :: "addr \<Rightarrow> AssetPool \<Rightarrow> AssetPool \<Rightarrow> bool" where
  "pool_retimed u p p' \<longleftrightarrow>
     (\<exists>ds. p' = p\<lparr>ap_deposits := ds\<rparr> \<and> list_all2 (retimed u) (ap_deposits p) ds)"

lemma retimed_lists:
  assumes "list_all2 (retimed u) ds es"
  shows "total_of es = total_of ds" "others u es = others u ds" "total_of (own v es) = total_of (own v ds)"
    "(\<forall>e\<in>set es. P (d_amount e)) \<longleftrightarrow> (\<forall>d\<in>set ds. P (d_amount d))"
  using assms by (induction ds es rule: list_all2_induct) (auto simp: retimed_def)

lemma pool_retimed_ok:
  assumes "pool_retimed u p p'"
  shows "pool_ok p' = pool_ok p" "ap_credit_asset p' = ap_credit_asset p"
    "total_of (ap_deposits p') = total_of (ap_deposits p)"
    "others u (ap_deposits p') = others u (ap_deposits p)"
    "total_of (own v (ap_deposits p')) = total_of (own v (ap_deposits p))"
proof -
  from assms obtain ds where ds: "p' = p\<lparr>ap_deposits := ds\<rparr>" "list_all2 (retimed u) (ap_deposits p) ds"
    by (auto simp: pool_retimed_def)
  note l = retimed_lists[OF ds(2)]
  show "pool_ok p' = pool_ok p"
    using l(4)[where P = "\<lambda>a. whole a \<and> 0 < a"] by (simp add: ds(1) pool_ok_def)
  show "ap_credit_asset p' = ap_credit_asset p" "total_of (ap_deposits p') = total_of (ap_deposits p)"
    "others u (ap_deposits p') = others u (ap_deposits p)"
    "total_of (own v (ap_deposits p')) = total_of (own v (ap_deposits p))"
    using l(1-3) by (simp_all add: ds(1))
qed

lemma restake_ok:
  assumes "restake L st env info n = Inr (st', r)" and "SP_ASSET st = Some pool"
  obtains config st1 pool' where "SP_CONFIG st = Some config" "st' = st1\<lparr>SP_ASSET := Some pool'\<rparr>" "only_claims_of config (sender info) st st1"
    "pool_retimed (sender info) pool pool'" "messages r = []"
proof -
  let ?r = "\<lparr>r_st = st, r_incentives = 0, r_error = None, r_restake_amount = n\<rparr>"
  from assms obtain config x ds st1 where c: "SP_CONFIG st = Some config" and
    loop: "rmap_state (restake_item env config (sender info)) (ap_deposits pool) ?r = Inr (x, ds)"
    and cl: "(if r_incentives x \<noteq> 0 then add_incentive_claim L (r_st x) (sender info) config True
        (r_incentives x) else Inr (r_st x)) = Inr st1"
    and st': "st' = st1\<lparr>SP_ASSET := Some (pool\<lparr>ap_deposits := ds\<rparr>)\<rparr>" and m: "messages r = []"
    unfolding restake_def Let_def
    by (auto simp: sp_load_ok map_err_eq_Inr elim!: rbind_InrE split: option.split_asm)
  have "accrues config st (r_st x)"
  proof (rule rmap_state_invariant[OF loop])
    show "accrues config st (r_st ?r)" by simp
    show "accrues config st (r_st b)"
      if a: "accrues config st (r_st a)" and i: "restake_item env config (sender info) d a = Inr (b, e)" for d a b e
    proof -
      from i have "accrues config (r_st a) (r_st b)"
        by (auto simp: restake_item_def Let_def dec_one_ok int_ok dec_ok elim!: rbind_InrE
          split: if_split_asm dest!: accrue_noting_frame)
      with a show ?thesis by (rule accrues_trans)
    qed
  qed
  moreover have "list_all2 (retimed (sender info)) (ap_deposits pool) ds"
    by (rule rmap_state_list_all2[OF loop])
      (auto simp: restake_item_def retimed_def Let_def elim!: rbind_InrE split: if_split_asm)
  ultimately show thesis
    using only_claims_after_accrual[OF _ cl] m st' c by (intro that) (auto simp: pool_retimed_def)
qed

lemma sp_deposit_ok:
  assumes "sp_deposit L st env info owner asset = Inr (st', r)" and "SP_ASSET st = Some pool"
  obtains u d where "validate_position_owner L info owner = Inr u"
    "a_info (ap_credit_asset pool) = a_info asset"
    "d = \<lparr>d_user = u, d_amount = a_amount asset * DECIMAL_FRACTIONAL, d_deposit_time = time_seconds env,
       d_last_accrued = time_seconds env, d_unstake_time = None\<rparr>"
    "st' = st\<lparr>SP_ASSET := Some (pool\<lparr>ap_credit_asset := (ap_credit_asset pool)\<lparr>a_amount :=
         a_amount (ap_credit_asset pool) + a_amount asset\<rparr>, ap_deposits := ap_deposits pool @ [d]\<rparr>)\<rparr>"
    "messages r = []"
  using assms unfolding sp_deposit_def Let_def
  by (auto simp: sp_load_ok map_err_eq_Inr dec_one_ok int_ok elim!: rbind_InrE split: if_split_asm)

lemma liquidate_ok:
  assumes "liquidate L st info n = Inr (st', r)" and "SP_ASSET st = Some pool"
  obtains config pr repay where "SP_CONFIG st = Some config"
    "sender info = spc_positions_contract config" "SP_PROP st = Some pr"
    "repay = min (a_amount (ap_credit_asset pool)) (n div DECIMAL_FRACTIONAL)"
    "st' = st\<lparr>SP_PROP := Some \<lparr>prop_repaid_amount = prop_repaid_amount pr + repay\<rparr>,
       SP_ASSET := Some (pool\<lparr>ap_credit_asset := (ap_credit_asset pool)\<lparr>a_amount :=
         a_amount (ap_credit_asset pool) - repay\<rparr>\<rparr>)\<rparr>"
    "messages r = [WasmExecute (spc_positions_contract config) LiqRepay
       [\<lparr>c_denom = ai_denom (a_info (ap_credit_asset pool)), c_amount = repay\<rparr>]]"
    "(''leftover_repayment'', AText (lib_decimal_to_string L
       (n - a_amount (ap_credit_asset pool) * DECIMAL_FRACTIONAL))) \<in> set (attributes r)"
proof -
  let ?a = "a_amount (ap_credit_asset pool)"
  from assms obtain config pr repay left coin where
    c: "SP_CONFIG st = Some config" "sender info = spc_positions_contract config" "SP_PROP st = Some pr"
    and rl: "(if ?a * DECIMAL_FRACTIONAL < n
        then rbind (dec_sub n (?a * DECIMAL_FRACTIONAL)) (\<lambda>leftover. Inr (?a, leftover))
        else rbind (dec_times_one n) (\<lambda>amount. Inr (amount, 0))) = (Inr (repay, left) :: _ sp_result)"
    and coin: "asset_to_coin \<lparr>a_info = a_info (ap_credit_asset pool), a_amount = repay\<rparr> = Inr coin"
    and st': "st' = st\<lparr>SP_PROP := Some \<lparr>prop_repaid_amount = prop_repaid_amount pr + repay\<rparr>,
       SP_ASSET := Some (pool\<lparr>ap_credit_asset := (ap_credit_asset pool)\<lparr>a_amount := ?a - repay\<rparr>\<rparr>)\<rparr>"
    and r: "messages r = [WasmExecute (spc_positions_contract config) LiqRepay [coin]]"
      "(''leftover_repayment'', AText (lib_decimal_to_string L left)) \<in> set (attributes r)"
    unfolding liquidate_def Let_def
    by (auto simp: sp_load_ok map_err_eq_Inr dec_one_ok int_ok elim!: rbind_InrE split: if_split_asm(1))
  have cn: "coin = \<lparr>c_denom = ai_denom (a_info (ap_credit_asset pool)), c_amount = repay\<rparr>"
    using coin by (auto simp: asset_to_coin_def split: AssetInfo.splits)
  have rep: "repay = min ?a (n div DECIMAL_FRACTIONAL)"
    and lf: "left = n - ?a * DECIMAL_FRACTIONAL"
    using rl by (auto simp: dec_ok dec_one_ok min_def not_less not_le less_eq_div_iff_mult_less_eq
        div_less_iff_less_mult elim!: rbind_InrE split: if_split_asm)
  show thesis by (rule that[OF c rep st' r(1)[unfolded cn] r(2)[unfolded lf]])
qed


section \<open>Claims\<close>

lemma user_incentive_item_retimed:
  "user_incentive_item env u rate d s = Inr (s', d') \<Longrightarrow> retimed u d d'"
  by (auto simp: user_incentive_item_def retimed_def elim!: rbind_InrE split: if_split_asm option.split_asm)

lemma get_user_incentives_ok:
  assumes "get_user_incentives st env u pool rate = Inr (st', n)"
  obtains config t pool' where "SP_CONFIG st = Some config" "SP_INCENTIVES st = Some t"
    "t + n \<le> spc_max_incentives config" "pool_retimed u pool pool'"
    "st' = st\<lparr>SP_ASSET := Some pool', SP_INCENTIVES := Some (t + n)\<rparr>"
proof -
  let ?s = "\<lparr>i_total_user_incentives = 0, i_error = None\<rparr>"
  from assms obtain s ds config t where
    loop: "rmap_state (user_incentive_item env u rate) (ap_deposits pool) ?s = Inr (s, ds)"
    and c: "SP_CONFIG st = Some config" "SP_INCENTIVES st = Some t"
    and rest: "(if spc_max_incentives config < t + i_total_user_incentives s
        then rbind (u128_sub (spc_max_incentives config) t) (\<lambda>total_user_incentives.
             Inr (st\<lparr>SP_ASSET := Some (pool\<lparr>ap_deposits := ds\<rparr>),
               SP_INCENTIVES := Some (spc_max_incentives config)\<rparr>, total_user_incentives))
        else Inr (st\<lparr>SP_ASSET := Some (pool\<lparr>ap_deposits := ds\<rparr>),
          SP_INCENTIVES := Some (t + i_total_user_incentives s)\<rparr>, i_total_user_incentives s))
      = (Inr (st', n) :: (std_error, _) result)"
    unfolding get_user_incentives_def Let_def
    by (auto simp: sp_load_ok int_ok elim!: rbind_InrE split: option.split_asm)
  have "list_all2 (retimed u) (ap_deposits pool) ds"
    by (rule rmap_state_list_all2[OF loop]) (rule user_incentive_item_retimed)
  then have "pool_retimed u pool (pool\<lparr>ap_deposits := ds\<rparr>)" by (auto simp: pool_retimed_def)
  moreover from rest have "t + n \<le> spc_max_incentives config"
    "st' = st\<lparr>SP_ASSET := Some (pool\<lparr>ap_deposits := ds\<rparr>), SP_INCENTIVES := Some (t + n)\<rparr>"
    by (auto simp: int_ok elim!: rbind_InrE split: if_split_asm)
  ultimately show thesis using c by (intro that)
qed

lemma claim_ok:
  assumes "claim L st env info = Inr (st', r)" and "SP_ASSET st = Some pool"
  obtains config t inc pool' coins where "SP_CONFIG st = Some config" "SP_INCENTIVES st = Some t"
    "t + inc \<le> spc_max_incentives config" "pool_retimed (sender info) pool pool'"
    "\<And>d. coins_ok L \<Longrightarrow> amount_of d coins = claim_of st (sender info) d + (if d = spc_mbrn_denom config then inc else 0)"
    "st' = st\<lparr>SP_ASSET := Some pool', SP_INCENTIVES := Some (t + inc),
       SP_USERS := (SP_USERS st)(sender info := None)\<rparr>"
    "messages r = map (\<lambda>c. WasmExecute (spc_osmosis_proxy config)
         (MintTokens (spc_mbrn_denom config) (c_amount c) (sender info)) [])
         (filter (\<lambda>c. c_denom c = spc_mbrn_denom config) coins) @
       (if filter (\<lambda>c. c_denom c \<noteq> spc_mbrn_denom config) coins = [] then []
        else [BankSend (sender info) (filter (\<lambda>c. c_denom c \<noteq> spc_mbrn_denom config) coins)])"
proof -
  from assms(1,2) obtain config st1 inc st2 msgs nat where
    c: "SP_CONFIG st = Some config"
    and g: "get_user_incentives st env (sender info) pool (spc_incentive_rate config) = Inr (st1, inc)"
    and add: "(if inc \<noteq> 0 then map_err SpStd (add_to_user_claims L st1 (sender info)
        (NativeToken (spc_mbrn_denom config)) inc) else Inr st1) = Inr st2"
    and m: "user_claims_msgs st2 info = Inr (st', msgs, nat)" and r: "messages r = msgs"
    unfolding claim_def
    by (auto simp: sp_load_ok map_err_eq_Inr elim!: rbind_InrE)
  from g obtain t pool' where G: "SP_INCENTIVES st = Some t" "t + inc \<le> spc_max_incentives config"
    "pool_retimed (sender info) pool pool'"
    "st1 = st\<lparr>SP_ASSET := Some pool', SP_INCENTIVES := Some (t + inc)\<rparr>"
    by (rule get_user_incentives_ok) (use c in auto)
  have st1: "claim_of st1 v d = claim_of st v d" for v d by (simp add: claim_of_def G(4))
  have add': "add_to_user_claims L st1 (sender info) (NativeToken (spc_mbrn_denom config)) inc = Inr st2"
    using add by (cases "inc = 0") (auto simp: map_err_eq_Inr add_to_user_claims_def)
  have others: "SP_USERS st2 v = SP_USERS st v" if "v \<noteq> sender info" for v
    using add' that by (auto simp: add_to_user_claims_def G(4) elim!: rbind_InrE split: if_split_asm)
  from m obtain user where u: "SP_USERS st2 (sender info) = Some user"
    and st': "st' = st2\<lparr>SP_USERS := (SP_USERS st2)(sender info := None)\<rparr>"
    and msgs: "SP_CONFIG st2 = Some config \<Longrightarrow> msgs = map (\<lambda>c. WasmExecute (spc_osmosis_proxy config)
         (MintTokens (spc_mbrn_denom config) (c_amount c) (sender info)) [])
         (filter (\<lambda>c. c_denom c = spc_mbrn_denom config) (u_claimable_assets user)) @
       (if filter (\<lambda>c. c_denom c \<noteq> spc_mbrn_denom config) (u_claimable_assets user) = [] then []
        else [BankSend (sender info)
          (filter (\<lambda>c. c_denom c \<noteq> spc_mbrn_denom config) (u_claimable_assets user))])"
    by (auto simp: user_claims_msgs_def Let_def sp_load_ok map_err_eq_Inr ok_or_eq_Inr
        elim!: rbind_InrE)
  have s2: "st2 = st1\<lparr>SP_USERS := SP_USERS st2\<rparr>" by (rule add_to_user_claims_frame[OF add'])
  have cfg: "SP_CONFIG st2 = Some config" by (subst s2) (simp add: G(4) c)
  have users: "(SP_USERS st2)(sender info := None) = (SP_USERS st)(sender info := None)"
    using others by (auto simp: fun_eq_iff)
  have "st' = st\<lparr>SP_ASSET := Some pool', SP_INCENTIVES := Some (t + inc),
       SP_USERS := (SP_USERS st)(sender info := None)\<rparr>"
    unfolding st' users by (subst s2) (simp add: G(4))
  moreover have "amount_of d (u_claimable_assets user) =
      claim_of st (sender info) d + (if d = spc_mbrn_denom config then inc else 0)" if "coins_ok L" for d
  proof -
    have "claim_of st2 (sender info) d = amount_of d (u_claimable_assets user)"
      by (simp add: claim_of_def u)
    then show ?thesis using add_to_user_claims_ok(1)[OF that add', of "sender info" d] by (simp add: st1)
  qed
  ultimately show thesis using msgs[OF cfg] r c G by (intro that) simp_all
qed

text \<open>
  A deposit that started unstaking before it last accrued stops its owner's incentives: the
  elapsed time underflows.
\<close>

lemma user_incentive_item_fails: "user_incentive_item env u rate d s = Inl e \<Longrightarrow> e = Panic"
  by (auto simp: user_incentive_item_def note_interest_def rbind_eq_Inl u64_sub_def dec_times_one_def
      uint128_mul_dec_def u128_add_def Let_def split: if_split_asm option.split_asm sum.split_asm failure.split_asm)

lemma incentive_loop_panics:
  assumes "d \<in> set ds" and "d_user d = u" and "d_unstake_time d = Some t" and "t < d_last_accrued d"
  shows "rmap_state (user_incentive_item env u rate) ds s = Inl Panic"
  using assms(1)
proof (induction ds arbitrary: s)
  case Nil
  then show ?case by simp
next
  case (Cons x xs)
  show ?case
  proof (cases "user_incentive_item env u rate x s")
    case (Inl e)
    then show ?thesis using user_incentive_item_fails[OF Inl] by simp
  next
    case (Inr p)
    have "x \<noteq> d" using Inr assms(2-4) by (auto simp: user_incentive_item_def u64_sub_def)
    with Cons.prems Cons.IH Inr show ?thesis by (cases p) auto
  qed
qed

end
