(* ===== verification/SP_Fifo.thy ===== *)
theory SP_Fifo
  imports SP_Handlers
begin

text \<open>
  Stability pool: the deposits a distribution uses. \<open>fifo_used\<close> and \<open>fifo_rest\<close> are the
  first-come-first-served specification of the loop of \<open>distribute_funds\<close> and of the list it leaves;
  \<open>distribution_loop_fifo\<close> and \<open>edit_deposits_fifo\<close> show that the code implements it, the second
  when no two deposits share their user and time.
\<close>

section \<open>First deposited, first used\<close>

text \<open>The deposits a repayment of \<open>r\<close> uses, from the front of the list, and the deposits it leaves.\<close>

fun fifo_used :: "decimal \<Rightarrow> Deposit list \<Rightarrow> Deposit list" where
  "fifo_used r [] = []"
| "fifo_used r (d # ds) =
     (if r = 0 then [] else if r < d_amount d then [d\<lparr>d_amount := r\<rparr>]
      else d # fifo_used (r - d_amount d) ds)"

fun fifo_rest :: "decimal \<Rightarrow> Deposit list \<Rightarrow> Deposit list" where
  "fifo_rest r [] = []"
| "fifo_rest r (d # ds) =
     (if r = 0 then d # ds else if r < d_amount d then d\<lparr>d_amount := d_amount d - r\<rparr> # ds
      else fifo_rest (r - d_amount d) ds)"

lemma fifo_zero [simp]: "fifo_used 0 ds = []" "fifo_rest 0 ds = ds"
  by (cases ds; simp)+

lemma fifo_totals:
  "total_of (fifo_used r ds) = min r (total_of ds)"
  "total_of (fifo_rest r ds) = total_of ds - r"
  by (induction r ds rule: fifo_used.induct) auto

lemma fifo_rest_behind:
  "r \<le> total_of xs \<Longrightarrow> \<exists>ys. fifo_rest r (xs @ zs) = ys @ zs"
proof (induction xs arbitrary: r)
  case Nil
  then show ?case by (intro exI[of _ "[]"]) simp
next
  case (Cons x xs)
  then show ?case by auto
qed

lemma fifo_used_users: "d_user ` set (fifo_used r ds) \<subseteq> d_user ` set ds"
  by (induction r ds rule: fifo_used.induct) auto

lemma fifo_whole:
  "whole r \<Longrightarrow> \<forall>d\<in>set ds. whole (d_amount d) \<and> 0 < d_amount d \<Longrightarrow>
   \<forall>d\<in>set (fifo_rest r ds). whole (d_amount d) \<and> 0 < d_amount d"
  by (induction r ds rule: fifo_rest.induct) (auto simp: dvd_diff_nat)

text \<open>A repayment splits the list: a front part used up and perhaps one deposit used in part.\<close>

lemma fifo_split:
  obtains (full) pre post where "ds = pre @ post" "fifo_used r ds = pre" "fifo_rest r ds = post"
  | (part) pre d post k where "ds = pre @ d # post" "fifo_used r ds = pre @ [d\<lparr>d_amount := k\<rparr>]"
      "fifo_rest r ds = d\<lparr>d_amount := d_amount d - k\<rparr> # post" "0 < k" "k < d_amount d"
proof (induction r ds arbitrary: thesis rule: fifo_used.induct)
  case (1 r)
  show ?case by (rule "1.prems"(1)) simp_all
next
  case (2 r d ds)
  consider "r = 0" | "0 < r" "r < d_amount d" | "0 < r" "d_amount d \<le> r" by linarith
  then show ?case
  proof cases
    case 1
    then show ?thesis by (intro "2.prems"(1)[of "[]"]) simp_all
  next
    case 2
    then show ?thesis by (intro "2.prems"(2)[of "[]" d ds r]) simp_all
  next
    case 3
    then have nz: "r \<noteq> 0" "\<not> r < d_amount d" by simp_all
    show ?thesis
      by (rule "2.IH"[OF nz, case_names full part])
        (use nz "2.prems"(1)[of "d # _"] "2.prems"(2)[of "d # _"] in auto)
  qed
qed

lemma distribution_loop_fifo:
  assumes "distribution_loop L env config R ds cur st used = Inr (st', used')" and "cur \<le> R"
  shows "used' = used @ fifo_used (R - cur) ds"
  using assms
proof (induction ds arbitrary: cur st used)
  case Nil
  then show ?case by simp
next
  case (Cons d ds)
  show ?case
  proof (cases "cur < R")
    case False
    with Cons.prems show ?thesis by simp
  next
    case lt: True
    show ?thesis
    proof (cases "R < cur + d_amount d")
      case True
      from Cons.prems(1) lt True obtain st1 where
        "distribution_loop L env config R ds R st1 (used @ [d\<lparr>d_amount := R - cur\<rparr>]) = Inr (st', used')"
        by (auto simp: dec_ok Let_def elim!: rbind_InrE)
      from Cons.IH[OF this] show ?thesis using lt True by (simp add: less_diff_conv add.commute)
    next
      case False
      from Cons.prems(1) lt False obtain st1 where
        "distribution_loop L env config R ds (cur + d_amount d) st1 (used @ [d]) = Inr (st', used')"
        by (auto simp: dec_ok Let_def elim!: rbind_InrE)
      from Cons.IH[OF this] show ?thesis using lt False by (simp add: diff_diff_left)
    qed
  qed
qed

lemma deposit_equal_iff:
  "deposit_equal d xs \<longleftrightarrow> (\<exists>x\<in>set xs. d_amount d = d_amount x \<and> d_user d = d_user x \<and>
     d_deposit_time d = d_deposit_time x)"
  by (induction xs) auto

abbreviation unused :: "Deposit list \<Rightarrow> Deposit list \<Rightarrow> Deposit list" where
  "unused ds used \<equiv> filter (\<lambda>d. \<not> deposit_equal d used) ds"

lemma unused_front: "unused (pre @ post) (pre @ ys) = unused post (pre @ ys)"
  by (auto simp: deposit_equal_iff filter_empty_conv)

lemma unused_self: "unused pre pre = []"
  by (auto simp: deposit_equal_iff filter_empty_conv)

text \<open>Whatever deposits coincide, the edited list is the first-in rest or a part of the old list.\<close>

lemma edit_deposits_cases:
  assumes "edit_deposits ds (fifo_used r ds) = Inr es"
  shows "es = fifo_rest r ds \<or> es = unused ds (fifo_used r ds)"
proof (cases rule: fifo_split[of ds r])
  case (full pre post)
  have "length (unused ds pre) \<le> length post"
    unfolding full(1) by (simp add: unused_self)
  with assms show ?thesis unfolding full(2) by (simp add: edit_deposits_def full(1) Let_def)
next
  case (part pre d post k)
  let ?u = "pre @ [d\<lparr>d_amount := k\<rparr>]"
  have front: "unused ds ?u = unused (d # post) ?u" unfolding part(1) by (rule unused_front)
  show ?thesis
  proof (cases "length ds < length ?u + length (unused ds ?u)")
    case False
    with assms show ?thesis unfolding part(2) by (simp add: edit_deposits_def Let_def)
  next
    case True
    then have "length (d # post) \<le> length (unused (d # post) ?u)"
      unfolding front by (simp add: part(1))
    then have "unused (d # post) ?u = d # post"
      by (metis filter_id_conv length_filter_less linorder_not_less)
    with front have "unused ds ?u = d # post" by simp
    with assms True have "es = d\<lparr>d_amount := d_amount d - k\<rparr> # post"
      unfolding part(2) by (auto simp: edit_deposits_def Let_def dec_ok elim!: rbind_InrE)
    then show ?thesis by (simp add: part(3))
  qed
qed

lemma distinct_front:
  "distinct (map f (pre @ d # post)) \<Longrightarrow> e \<in> set (d # post) \<Longrightarrow>
   f e \<notin> f ` set pre \<and> (e = d \<or> f e \<noteq> f d)"
  by auto (metis imageI)+

lemma edit_deposits_fifo:
  assumes "distinct (map (\<lambda>d. (d_user d, d_deposit_time d)) ds)"
    and "edit_deposits ds (fifo_used r ds) = Inr es"
  shows "es = fifo_rest r ds"
proof (cases rule: fifo_split[of ds r])
  case (full pre post)
  have "\<not> deposit_equal d pre" if "d \<in> set post" for d
    using assms(1) that unfolding full(1) by (auto simp: deposit_equal_iff image_iff)
  then have "unused post pre = post" by simp
  then have "unused ds pre = post" unfolding full(1) by (simp add: unused_self)
  with edit_deposits_cases[OF assms(2)] full show ?thesis by auto
next
  case (part pre d post k)
  let ?u = "pre @ [d\<lparr>d_amount := k\<rparr>]"
  have "\<not> deposit_equal e ?u" if e: "e \<in> set (d # post)" for e
    using distinct_front[OF assms(1)[unfolded part(1)] e] part(5)
    by (auto simp: deposit_equal_iff image_iff)
  then have "unused (d # post) ?u = d # post" by simp
  then have "unused ds ?u = d # post" by (simp only: part(1) unused_front)
  moreover have "length ds = length pre + Suc (length post)" by (simp add: part(1))
  ultimately show ?thesis using assms(2) part(4)
    unfolding part(2,3) by (auto simp: edit_deposits_def Let_def dec_ok elim!: rbind_InrE)
qed

lemma edit_deposits_ok:
  assumes "edit_deposits ds (fifo_used r ds) = Inr es" and "whole r"
    and "\<forall>d\<in>set ds. whole (d_amount d) \<and> 0 < d_amount d"
  shows "\<forall>d\<in>set es. whole (d_amount d) \<and> 0 < d_amount d"
  using edit_deposits_cases[OF assms(1)] fifo_whole[OF assms(2,3)] assms(3) by auto

section \<open>Incentives of the used deposits\<close>

text \<open>Storage that differs in the incentive counter and in claims to the incentive token.\<close>

definition credits_incentives :: "sp_config \<Rightarrow> addr set \<Rightarrow> sp_storage \<Rightarrow> sp_storage \<Rightarrow> bool" where
  "credits_incentives config U st st' \<longleftrightarrow>
     st' = st\<lparr>SP_INCENTIVES := SP_INCENTIVES st', SP_USERS := SP_USERS st'\<rparr> \<and>
     (SP_INCENTIVES st' = SP_INCENTIVES st \<or>
      (\<exists>i. i \<le> spc_max_incentives config \<and> SP_INCENTIVES st' = Some i)) \<and>
     (\<forall>v d. v \<notin> U \<or> d \<noteq> spc_mbrn_denom config \<longrightarrow> claim_of st' v d = claim_of st v d)"

lemma credits_refl: "credits_incentives config U st st"
  by (simp add: credits_incentives_def)

lemma credits_trans:
  assumes "credits_incentives config U a b" and "credits_incentives config U b c"
  shows "credits_incentives config U a c"
proof -
  from assms have "b = a\<lparr>SP_INCENTIVES := SP_INCENTIVES b, SP_USERS := SP_USERS b\<rparr>"
    "c = b\<lparr>SP_INCENTIVES := SP_INCENTIVES c, SP_USERS := SP_USERS c\<rparr>"
    by (simp_all add: credits_incentives_def)
  then have "c = a\<lparr>SP_INCENTIVES := SP_INCENTIVES c, SP_USERS := SP_USERS c\<rparr>"
    by (metis sp_storage.surjective sp_storage.update_convs(4,5))
  with assms show ?thesis by (auto simp: credits_incentives_def)
qed

lemma pay_accrued_credits:
  assumes "coins_ok L" and "pay_accrued L st env config d n = Inr st'"
  shows "credits_incentives config {d_user d} st st'"
proof (cases "d_last_accrued d < time_seconds env")
  case False
  with assms(2) show ?thesis by (simp add: pay_accrued_def credits_refl)
next
  case True
  with assms(2) obtain stake st1 inc where
    acc: "accrue_incentives st env config stake d = Inr (st1, inc)"
    and add: "(if inc \<noteq> 0 then map_err SpStd (add_to_user_claims L st1 (d_user d)
      (NativeToken (spc_mbrn_denom config)) inc) else Inr st1) = Inr st'"
    by (auto simp: pay_accrued_def map_err_eq_Inr elim!: rbind_InrE)
  from acc obtain t where st1: "st1 = st\<lparr>SP_INCENTIVES := Some (t + inc)\<rparr>"
    and cap: "t + inc \<le> spc_max_incentives config"
    by (rule accrue_incentives_ok)
  have "add_to_user_claims L st1 (d_user d) (NativeToken (spc_mbrn_denom config)) inc = Inr st'"
    using add by (cases "inc = 0") (auto simp: map_err_eq_Inr add_to_user_claims_def)
  note A = add_to_user_claims_ok[OF assms(1) this]
  have "claim_of st1 v c = claim_of st v c" for v c by (simp add: claim_of_def st1)
  moreover have "st' = st\<lparr>SP_INCENTIVES := SP_INCENTIVES st', SP_USERS := SP_USERS st'\<rparr>"
    by (subst A(2)) (subst (2) A(2), simp add: st1)
  moreover have "SP_INCENTIVES st' = Some (t + inc)" by (subst A(2)) (simp add: st1)
  ultimately show ?thesis unfolding credits_incentives_def using A(1) cap by auto
qed


lemma distribution_loop_credits:
  assumes "coins_ok L" and "distribution_loop L env config R ds cur st used = Inr (st', used')"
  shows "credits_incentives config (d_user ` set ds) st st'"
  using assms(2)
proof (induction ds arbitrary: cur st used)
  case Nil
  then show ?case by (simp add: credits_refl)
next
  case (Cons d ds)
  have mono: "credits_incentives m U a b \<Longrightarrow> U \<subseteq> V \<Longrightarrow> credits_incentives m V a b" for m U V a b
    by (auto simp: credits_incentives_def)
  show ?case
  proof (cases "cur < R")
    case False
    with Cons.prems show ?thesis by (simp add: credits_refl)
  next
    case lt: True
    have "\<exists>e n st1 cur' used1. d_user e = d_user d \<and> pay_accrued L st env config e n = Inr st1 \<and>
        distribution_loop L env config R ds cur' st1 used1 = Inr (st', used')"
    proof (cases "R < cur + d_amount d")
      case True
      with Cons.prems lt obtain st1 where
        "pay_accrued L st env config (d\<lparr>d_amount := d_amount d - (R - cur)\<rparr>) (R - cur) = Inr st1"
        "distribution_loop L env config R ds R st1 (used @ [d\<lparr>d_amount := R - cur\<rparr>]) = Inr (st', used')"
        by (auto simp: dec_ok Let_def elim!: rbind_InrE)
      then show ?thesis
        by (intro exI[of _ "d\<lparr>d_amount := d_amount d - (R - cur)\<rparr>"] exI[of _ "R - cur"] exI[of _ st1]
            exI[of _ R] exI[of _ "used @ [d\<lparr>d_amount := R - cur\<rparr>]"]) simp
    next
      case False
      with Cons.prems lt obtain st1 where "pay_accrued L st env config d (d_amount d) = Inr st1"
        "distribution_loop L env config R ds (cur + d_amount d) st1 (used @ [d]) = Inr (st', used')"
        by (auto simp: dec_ok Let_def elim!: rbind_InrE)
      then show ?thesis by blast
    qed
    then obtain e n st1 cur' used1 where e: "d_user e = d_user d"
      "pay_accrued L st env config e n = Inr st1"
      "distribution_loop L env config R ds cur' st1 used1 = Inr (st', used')" by blast
    show ?thesis
    proof (rule credits_trans)
      show "credits_incentives config (d_user ` set (d # ds)) st st1"
        by (rule mono[OF pay_accrued_credits[OF assms(1) e(2)]]) (simp add: e(1))
      show "credits_incentives config (d_user ` set (d # ds)) st1 st'"
        by (rule mono[OF Cons.IH[OF e(3)]]) auto
    qed
  qed
qed

end
