(* ===== verification/SP_Shares.thy ===== *)
theory SP_Shares
  imports SP_Fifo
begin

text \<open>
  Stability pool: what the users of a distribution get. The condensed deposits keep each user's
  total, their ratios add up to at most one, and splitting moves the assets into claims
  (\<open>moves_assets\<close>): what is credited leaves the assets, no more and no less.
\<close>

section \<open>Ratios\<close>

lemma total_filter: "total_of (filter P ds) + total_of (filter (\<lambda>d. \<not> P d) ds) = total_of ds"
  by (induction ds) auto

lemma own_filter: "own u (filter (\<lambda>d. d_user d \<noteq> v) ds) = (if u = v then [] else own u ds)"
  by (induction ds) auto

lemma own_single: "distinct (map d_user ds) \<Longrightarrow> d \<in> set ds \<Longrightarrow> own (d_user d) ds = [d]"
  unfolding own_def by (rule filter_key_distinct)

lemma condense_step:
  assumes "condense_deposit d (us, t) = Inr (us', t')" and "distinct (map d_user us)"
  shows "distinct (map d_user us') \<and> t' = t + d_amount d \<and>
    d_user ` set us' = insert (d_user d) (d_user ` set us) \<and>
    (\<forall>u. total_of (own u us') = total_of (own u us) + total_of (own u [d]))"
proof (cases "find (\<lambda>x. d_user x = d_user d) us")
  case None
  then have "d_user d \<notin> d_user ` set us" by (auto simp: find_None)
  with assms None show ?thesis by (auto simp: condense_deposit_def dec_ok elim!: rbind_InrE)
next
  case (Some x)
  then have x: "x \<in> set us" "d_user x = d_user d" by (auto dest: find_SomeD)
  from assms(1) Some have us': "us' = filter (\<lambda>e. d_user e \<noteq> d_user x) us
      @ [x\<lparr>d_amount := d_amount x + d_amount d\<rparr>]" and t: "t' = t + d_amount d"
    by (auto simp: condense_deposit_def dec_ok Let_def elim!: rbind_InrE)
  have "distinct (map d_user us')"
    using assms(2) by (auto simp: us' distinct_map_filter)
  moreover have "d_user ` set us' = insert (d_user d) (d_user ` set us)"
    using x by (auto simp: us')
  moreover have "total_of (own u us') = total_of (own u us) + total_of (own u [d])" for u
    using own_single[OF assms(2) x(1)] x(2) by (auto simp: us' own_filter)
  ultimately show ?thesis using t by blast
qed

lemma condense_loop:
  assumes "rfold condense_deposit ds (us, t) = Inr (us', t')" and "distinct (map d_user us)"
  shows "distinct (map d_user us') \<and> t' = t + total_of ds \<and>
    d_user ` set us' = d_user ` set us \<union> d_user ` set ds \<and>
    (\<forall>u. total_of (own u us') = total_of (own u us) + total_of (own u ds))"
  using assms
proof (induction ds arbitrary: us t)
  case Nil
  then show ?case by simp
next
  case (Cons d ds)
  from Cons.prems(1) obtain us1 t1 where s: "condense_deposit d (us, t) = Inr (us1, t1)"
    and r: "rfold condense_deposit ds (us1, t1) = Inr (us', t')"
    by (auto elim!: rbind_InrE)
  note S = condense_step[OF s Cons.prems(2)]
  from Cons.IH[OF r] S show ?case by auto
qed

lemma distribution_ratios_ok:
  assumes "get_distribution_ratios ds = Inr (rs, us)"
  shows "distinct (map d_user us) \<and> d_user ` set us = d_user ` set ds \<and>
    (\<forall>u. total_of (own u us) = total_of (own u ds)) \<and>
    rs = map (\<lambda>d. d_amount d * DECIMAL_FRACTIONAL div total_of ds) us \<and> length rs = length us"
proof -
  from assms obtain t where c: "rfold condense_deposit ds ([], 0) = Inr (us, t)"
    and r: "rmapM (\<lambda>d. decimal_division (d_amount d) t) us = Inr rs"
    by (auto simp: get_distribution_ratios_def elim!: rbind_InrE)
  from condense_loop[OF c] have C: "distinct (map d_user us)" "t = total_of ds"
    "d_user ` set us = d_user ` set ds" "\<forall>u. total_of (own u us) = total_of (own u ds)" by auto
  have "rs = map (\<lambda>d. d_amount d * DECIMAL_FRACTIONAL div t) us"
    using r unfolding rmapM_eq_Inr
    by (induction us rs rule: list_all2_induct) (auto simp: dec_ok)
  with C show ?thesis by simp
qed

lemma total_by_user:
  "distinct (map d_user us) \<Longrightarrow> d_user ` set us = d_user ` set ds \<Longrightarrow>
   (\<forall>u. total_of (own u us) = total_of (own u ds)) \<Longrightarrow> total_of us = total_of ds"
proof -
  assume a: "distinct (map d_user us)" "d_user ` set us = d_user ` set ds"
    "\<forall>u. total_of (own u us) = total_of (own u ds)"
  have by_user: "total_of xs = (\<Sum>u\<in>U. total_of (own u xs))"
    if "finite U" "d_user ` set xs \<subseteq> U" for U xs
    using that(2)
  proof (induction xs)
    case Nil
    then show ?case by simp
  next
    case (Cons x xs)
    have "(\<Sum>u\<in>U. total_of (own u (x # xs))) =
        (\<Sum>u\<in>U. (if u = d_user x then d_amount x else 0) + total_of (own u xs))"
      by (rule sum.cong) auto
    also have "\<dots> = d_amount x + total_of xs"
      using Cons that(1) by (simp add: sum.distrib)
    finally show ?case by simp
  qed
  show ?thesis using by_user[of "d_user ` set ds" us] by_user[of "d_user ` set ds" ds] a by simp
qed

lemma distribution_ratios_le_one:
  assumes "get_distribution_ratios ds = Inr (rs, us)"
  shows "sum_list rs \<le> DECIMAL_FRACTIONAL"
proof (cases "total_of ds = 0")
  case True
  then show ?thesis using distribution_ratios_ok[OF assms] by simp
next
  case False
  from assms obtain t where c: "rfold condense_deposit ds ([], 0) = Inr (us, t)"
    and r: "rmapM (\<lambda>d. decimal_division (d_amount d) t) us = Inr rs"
    by (auto simp: get_distribution_ratios_def elim!: rbind_InrE)
  have t: "t = total_of ds" using condense_loop[OF c] by simp
  have "rmapM (\<lambda>a. decimal_division a t) (map d_amount us) = Inr rs"
    using r by (simp add: rmapM_eq_Inr list_all2_map1)
  moreover have "0 < t" using False t by simp
  moreover have "sum_list (map d_amount us) \<le> t"
    using t total_by_user[of us ds] distribution_ratios_ok[OF assms] by (simp add: total_of_def)
  ultimately show ?thesis by (rule dec.ratios_le_one)
qed


section \<open>Splitting the assets\<close>

definition asset_sum :: "string \<Rightarrow> Asset list \<Rightarrow> nat" where
  "asset_sum d assets = (\<Sum>a\<leftarrow>assets. if asset_info_to_string (a_info a) = d then a_amount a else 0)"

definition claims_sum :: "addr set \<Rightarrow> string \<Rightarrow> sp_storage \<Rightarrow> nat" where
  "claims_sum U d st = (\<Sum>u\<in>U. claim_of st u d)"

lemma sum_list_update_split:
  "i < length xs \<Longrightarrow> sum_list (map f (xs[i := y])) + f (xs ! i) = sum_list (map f xs) + f y"
  for f :: "'a \<Rightarrow> nat"
  by (induction xs arbitrary: i) (auto simp: nth_Cons split: nat.splits)

text \<open>Crediting a user moves what is taken off the asset, and nothing else.\<close>

definition moves_assets :: "addr set \<Rightarrow> sp_storage \<times> Asset list \<Rightarrow> sp_storage \<times> Asset list \<Rightarrow> bool" where
  "moves_assets U a b \<longleftrightarrow>
     fst b = (fst a)\<lparr>SP_USERS := SP_USERS (fst b)\<rparr> \<and>
     (\<forall>v d. v \<notin> U \<longrightarrow> claim_of (fst b) v d = claim_of (fst a) v d) \<and>
     (\<forall>d. claims_sum U d (fst b) + asset_sum d (snd b) = claims_sum U d (fst a) + asset_sum d (snd a))"

lemma moves_refl: "moves_assets U a a"
  by (simp add: moves_assets_def)

lemma moves_trans:
  assumes "moves_assets U a b" and "moves_assets U b c" shows "moves_assets U a c"
proof -
  have "fst b = (fst a)\<lparr>SP_USERS := SP_USERS (fst b)\<rparr>" "fst c = (fst b)\<lparr>SP_USERS := SP_USERS (fst c)\<rparr>"
    using assms by (simp_all add: moves_assets_def)
  then have "fst c = (fst a)\<lparr>SP_USERS := SP_USERS (fst c)\<rparr>"
    by (metis sp_storage.surjective sp_storage.update_convs(5))
  with assms show ?thesis by (simp add: moves_assets_def)
qed

lemma credit_moves:
  assumes "coins_ok L" and "add_to_user_claims L st u (a_info a) n = Inr st'"
    and "i < length assets" "a = assets ! i" "n \<le> a_amount a" and "finite U" "u \<in> U"
  shows "moves_assets U (st, assets) (st', assets[i := a\<lparr>a_amount := a_amount a - n\<rparr>])"
proof -
  note A = add_to_user_claims_ok[OF assms(1,2)]
  let ?n = "\<lambda>d. if d = asset_info_to_string (a_info a) then n else 0"
  have claims: "claims_sum U d st' = claims_sum U d st + ?n d" for d
  proof -
    have "claims_sum U d st' = (\<Sum>v\<in>U. claim_of st v d + (if v = u then ?n d else 0))"
      unfolding claims_sum_def by (rule sum.cong) (auto simp: A(1))
    also have "\<dots> = claims_sum U d st + ?n d"
      using assms(6,7) by (simp add: sum.distrib claims_sum_def)
    finally show ?thesis .
  qed
  have assets: "asset_sum d (assets[i := a\<lparr>a_amount := a_amount a - n\<rparr>]) + ?n d = asset_sum d assets" for d
    using sum_list_update_split[OF assms(3), of "\<lambda>b. if asset_info_to_string (a_info b) = d then a_amount b else 0"
        "a\<lparr>a_amount := a_amount a - n\<rparr>"] assms(4,5)
    by (auto simp: asset_sum_def split: if_splits)
  have "claims_sum U d st' + asset_sum d (assets[i := a\<lparr>a_amount := a_amount a - n\<rparr>])
      = claims_sum U d st + asset_sum d assets" for d
    using claims[of d] assets[of d] by simp
  then show ?thesis using A assms(7) by (auto simp: moves_assets_def)
qed

lemma split_to_user_moves:
  assumes "coins_ok L" and "finite U" "u \<in> U"
    and "split_to_user L u irs ratio (st, rs, assets) = Inr (st', rs', assets')"
  shows "moves_assets U (st, assets) (st', assets')"
  using assms(4)
proof (induction irs arbitrary: ratio st rs assets)
  case Nil
  then show ?case by (simp add: moves_refl)
next
  case (Cons p irs)
  obtain i c where p: "p = (i, c)" by (cases p)
  note credit = credit_moves[OF assms(1) _ _ refl _ assms(2,3)]
  consider "c = 0" | "c \<noteq> 0" "ratio = c" | "c \<noteq> 0" "ratio < c" | "c \<noteq> 0" "c < ratio" by linarith
  then show ?case
  proof cases
    case 1
    with Cons p show ?thesis by simp
  next
    case 2
    with Cons.prems p have i: "i < length assets"
      and add: "add_to_user_claims L st u (a_info (assets ! i)) (a_amount (assets ! i)) = Inr st'"
      and a': "assets' = assets[i := (assets ! i)\<lparr>a_amount := 0\<rparr>]"
      by (auto simp: vec_index_ok map_err_eq_Inr Let_def elim!: rbind_InrE)
    from credit[OF add i] show ?thesis by (simp add: a')
  next
    case 3
    with Cons.prems p obtain n where i: "i < length assets"
      and le: "n \<le> a_amount (assets ! i)"
      and add: "add_to_user_claims L st u (a_info (assets ! i)) n = Inr st'"
      and a': "assets' = assets[i := (assets ! i)\<lparr>a_amount := a_amount (assets ! i) - n\<rparr>]"
      by (auto simp: vec_index_ok map_err_eq_Inr int_ok Let_def elim!: rbind_InrE)
    from credit[OF add i le] show ?thesis by (simp add: a')
  next
    case 4
    with Cons.prems p obtain st1 r1 rs1 where i: "i < length assets"
      and add: "add_to_user_claims L st u (a_info (assets ! i)) (a_amount (assets ! i)) = Inr st1"
      and rest: "split_to_user L u irs r1 (st1, rs1, assets[i := (assets ! i)\<lparr>a_amount := 0\<rparr>])
        = Inr (st', rs', assets')"
      by (auto simp: vec_index_ok map_err_eq_Inr Let_def elim!: rbind_InrE)
    from credit[OF add i] have "moves_assets U (st, assets) (st1, assets[i := (assets ! i)\<lparr>a_amount := 0\<rparr>])"
      by simp
    with Cons.IH[OF rest] show ?thesis by (rule moves_trans[rotated])
  qed
qed

lemma split_user_turn_simp:
  "split_user_turn L ur (st, rs, assets) =
     split_to_user L (ur_user ur) (enumerate 0 rs) (ur_ratio ur) (st, rs, assets)"
  by (simp add: split_user_turn_def)

lemma split_assets_moves:
  assumes "coins_ok L" and "finite U" and "ur_user ` set urs \<subseteq> U"
    and "split_assets_to_users L st rs assets urs = Inr (st', rs', assets')"
  shows "moves_assets U (st, assets) (st', assets')"
  using assms(3,4) unfolding split_assets_to_users_def
proof (induction urs arbitrary: st rs assets)
  case Nil
  then show ?case by (simp add: moves_refl)
next
  case (Cons ur urs)
  from Cons.prems(2) obtain st1 rs1 assets1 where
    t: "split_to_user L (ur_user ur) (enumerate 0 rs) (ur_ratio ur) (st, rs, assets) = Inr (st1, rs1, assets1)"
    and r: "rfold (split_user_turn L) urs (st1, rs1, assets1) = Inr (st', rs', assets')"
    by (auto simp: split_user_turn_simp elim!: rbind_InrE)
  have "moves_assets U (st, assets) (st1, assets1)"
    by (rule split_to_user_moves[OF assms(1,2) _ t]) (use Cons.prems(1) in auto)
  moreover have "moves_assets U (st1, assets1) (st', assets')"
    by (rule Cons.IH[OF _ r]) (use Cons.prems(1) in auto)
  ultimately show ?case by (rule moves_trans)
qed

section \<open>The handler\<close>

lemma distribute_funds_ok:
  assumes "distribute_funds L st info env assets ratios n = Inr (st', r)" and "SP_ASSET st = Some pool"
  obtains config st1 es rs us st2 rs' assets' where "SP_CONFIG st = Some config"
    "sender info = spc_positions_contract config"
    "distribution_loop L env config (n * DECIMAL_FRACTIONAL) (ap_deposits pool) 0 st []
       = Inr (st1, fifo_used (n * DECIMAL_FRACTIONAL) (ap_deposits pool))"
    "edit_deposits (ap_deposits pool) (fifo_used (n * DECIMAL_FRACTIONAL) (ap_deposits pool)) = Inr es"
    "get_distribution_ratios (fifo_used (n * DECIMAL_FRACTIONAL) (ap_deposits pool)) = Inr (rs, us)"
    "split_assets_to_users L (st1\<lparr>SP_ASSET := Some (pool\<lparr>ap_deposits := es\<rparr>)\<rparr>) ratios assets
       (map (\<lambda>(d, ratio). \<lparr>ur_user = d_user d, ur_ratio = ratio\<rparr>) (zip us rs)) = Inr (st', rs', assets')"
    "messages r = []"
proof -
  from assms obtain config st1 used es rs us st2 rs' assets' where c: "SP_CONFIG st = Some config"
    "sender info = spc_positions_contract config"
    and loop: "distribution_loop L env config (n * DECIMAL_FRACTIONAL) (ap_deposits pool) 0 st [] = Inr (st1, used)"
    and rest: "edit_deposits (ap_deposits pool) used = Inr es" "get_distribution_ratios used = Inr (rs, us)"
    "split_assets_to_users L (st1\<lparr>SP_ASSET := Some (pool\<lparr>ap_deposits := es\<rparr>)\<rparr>) ratios assets
       (map (\<lambda>(d, ratio). \<lparr>ur_user = d_user d, ur_ratio = ratio\<rparr>) (zip us rs)) = Inr (st', rs', assets')"
    "messages r = []"
    unfolding distribute_funds_def Let_def
    by (auto simp: sp_load_ok map_err_eq_Inr dec_one_ok elim!: rbind_InrE split: if_split_asm)
  from distribution_loop_fifo[OF loop] have used: "used = fifo_used (n * DECIMAL_FRACTIONAL) (ap_deposits pool)"
    by simp
  from that[OF c loop[unfolded used] rest[unfolded used]] show thesis .
qed

lemma distribute_funds_effect:
  assumes "distribute_funds L st info env assets ratios n = Inr (st', r)" and "SP_ASSET st = Some pool"
    and "coins_ok L" and "SP_CONFIG st = Some config"
  shows "\<exists>es. edit_deposits (ap_deposits pool) (fifo_used (n * DECIMAL_FRACTIONAL) (ap_deposits pool)) = Inr es \<and>
    st' = st\<lparr>SP_ASSET := Some (pool\<lparr>ap_deposits := es\<rparr>), SP_INCENTIVES := SP_INCENTIVES st',
      SP_USERS := SP_USERS st'\<rparr> \<and>
    (SP_INCENTIVES st' = SP_INCENTIVES st \<or>
      (\<exists>i. i \<le> spc_max_incentives config \<and> SP_INCENTIVES st' = Some i)) \<and>
    (\<forall>v d. v \<notin> d_user ` set (ap_deposits pool) \<longrightarrow> claim_of st' v d = claim_of st v d) \<and>
    (\<forall>d. d \<noteq> spc_mbrn_denom config \<longrightarrow>
       claims_sum (d_user ` set (ap_deposits pool)) d st' \<le>
       claims_sum (d_user ` set (ap_deposits pool)) d st + asset_sum d assets)"
  using assms(1,2)
proof (rule distribute_funds_ok)
  fix config' and st1 :: sp_storage and es rs us st2 rs' assets'
  let ?U = "d_user ` set (ap_deposits pool)"
  let ?st1 = "st1\<lparr>SP_ASSET := Some (pool\<lparr>ap_deposits := es\<rparr>)\<rparr>"
  let ?used = "fifo_used (n * DECIMAL_FRACTIONAL) (ap_deposits pool)"
  assume c: "SP_CONFIG st = Some config'"
    and loop: "distribution_loop L env config' (n * DECIMAL_FRACTIONAL) (ap_deposits pool) 0 st [] = Inr (st1, ?used)"
    and ed: "edit_deposits (ap_deposits pool) ?used = Inr es"
    and ra: "get_distribution_ratios ?used = Inr (rs, us)"
    and sp: "split_assets_to_users L ?st1 ratios assets
       (map (\<lambda>(d, ratio). \<lparr>ur_user = d_user d, ur_ratio = ratio\<rparr>) (zip us rs)) = Inr (st', rs', assets')"
  have C: "credits_incentives config ?U st st1"
    using distribution_loop_credits[OF assms(3) loop] c assms(4) by simp
  have "d_user ` set us \<subseteq> ?U"
    using distribution_ratios_ok[OF ra] fifo_used_users by auto
  then have U: "ur_user ` set (map (\<lambda>(d, ratio). \<lparr>ur_user = d_user d, ur_ratio = ratio\<rparr>) (zip us rs)) \<subseteq> ?U"
    by (fastforce dest: set_zip_leftD)
  have M: "moves_assets ?U (?st1, assets) (st', assets')"
    by (rule split_assets_moves[OF assms(3) _ U sp]) simp
  have same: "claim_of ?st1 v d = claim_of st1 v d" for v d by (simp add: claim_of_def)
  have frame: "st' = st\<lparr>SP_ASSET := Some (pool\<lparr>ap_deposits := es\<rparr>), SP_INCENTIVES := SP_INCENTIVES st',
      SP_USERS := SP_USERS st'\<rparr>"
  proof -
    from C obtain i c where e: "st1 = st\<lparr>SP_INCENTIVES := i, SP_USERS := c\<rparr>"
      unfolding credits_incentives_def by blast
    from M obtain c' where e': "st' = ?st1\<lparr>SP_USERS := c'\<rparr>"
      unfolding moves_assets_def fst_conv by blast
    show ?thesis by (simp add: e' e)
  qed
  have out: "\<forall>v d. v \<notin> ?U \<longrightarrow> claim_of st' v d = claim_of st v d"
    using C M by (simp add: credits_incentives_def moves_assets_def same)
  have sum: "claims_sum ?U d st' \<le> claims_sum ?U d st + asset_sum d assets"
    if "d \<noteq> spc_mbrn_denom config" for d
  proof -
    have "claims_sum ?U d ?st1 = claims_sum ?U d st"
      using C that unfolding claims_sum_def by (simp add: credits_incentives_def same)
    moreover have "claims_sum ?U d st' + asset_sum d assets' = claims_sum ?U d ?st1 + asset_sum d assets"
      using M by (simp add: moves_assets_def)
    ultimately show ?thesis by linarith
  qed
  have "SP_INCENTIVES st' = SP_INCENTIVES ?st1"
    using M unfolding moves_assets_def fst_conv by (metis sp_storage.select_convs(4) sp_storage.surjective sp_storage.update_convs(5))
  then have "SP_INCENTIVES st' = SP_INCENTIVES st \<or>
      (\<exists>i. i \<le> spc_max_incentives config \<and> SP_INCENTIVES st' = Some i)"
    using C by (simp add: credits_incentives_def)
  with ed frame out sum show ?thesis by blast
qed

text \<open>The pool after a distribution, whatever the coin library does.\<close>

lemma add_to_user_claims_asset:
  "add_to_user_claims L st u info n = Inr st' \<Longrightarrow> SP_ASSET st' = SP_ASSET st"
  by (auto simp: add_to_user_claims_def elim!: rbind_InrE split: if_split_asm)

lemma split_to_user_asset:
  "split_to_user L u irs ratio (st, rs, assets) = Inr (st', rs', assets') \<Longrightarrow> SP_ASSET st' = SP_ASSET st"
proof (induction irs arbitrary: ratio st rs assets)
  case Nil
  then show ?case by simp
next
  case (Cons p irs)
  obtain i c where p: "p = (i, c)" by (cases p)
  consider "c = 0" | "c \<noteq> 0" "ratio = c" | "c \<noteq> 0" "ratio < c" | "c \<noteq> 0" "c < ratio" by linarith
  then show ?case
    by cases (use Cons p in \<open>auto simp: map_err_eq_Inr Let_def elim!: rbind_InrE
        dest: add_to_user_claims_asset\<close>)
qed

lemma split_assets_asset:
  assumes "split_assets_to_users L st rs assets urs = Inr (st', rs', assets')"
  shows "SP_ASSET st' = SP_ASSET st"
proof -
  have "SP_ASSET (fst (st', rs', assets')) = SP_ASSET st"
  proof (rule rfold_invariant[where I = "\<lambda>s. SP_ASSET (fst s) = SP_ASSET st"])
    show "rfold (split_user_turn L) urs (st, rs, assets) = Inr (st', rs', assets')"
      using assms by (simp add: split_assets_to_users_def)
    show "SP_ASSET (fst t) = SP_ASSET st"
      if "SP_ASSET (fst s) = SP_ASSET st" and "split_user_turn L ur s = Inr t" for ur s t
      using that by (cases s; cases t) (auto simp: split_user_turn_simp dest: split_to_user_asset)
  qed simp
  then show ?thesis by simp
qed

lemma distribute_funds_pool:
  assumes "distribute_funds L st info env assets ratios n = Inr (st', r)" and "SP_ASSET st = Some pool"
    and "pool_ok pool"
  shows "\<exists>es. edit_deposits (ap_deposits pool) (fifo_used (n * DECIMAL_FRACTIONAL) (ap_deposits pool)) = Inr es \<and>
    SP_ASSET st' = Some (pool\<lparr>ap_deposits := es\<rparr>) \<and> pool_ok (pool\<lparr>ap_deposits := es\<rparr>)"
  using assms(1,2)
proof (rule distribute_funds_ok)
  fix st1 :: sp_storage and es rs us st2 rs' assets'
  let ?used = "fifo_used (n * DECIMAL_FRACTIONAL) (ap_deposits pool)"
  assume ed: "edit_deposits (ap_deposits pool) ?used = Inr es"
    and sp: "split_assets_to_users L (st1\<lparr>SP_ASSET := Some (pool\<lparr>ap_deposits := es\<rparr>)\<rparr>) ratios assets
       (map (\<lambda>(d, ratio). \<lparr>ur_user = d_user d, ur_ratio = ratio\<rparr>) (zip us rs)) = Inr (st', rs', assets')"
  have "SP_ASSET st' = Some (pool\<lparr>ap_deposits := es\<rparr>)" using split_assets_asset[OF sp] by simp
  moreover have "\<forall>d\<in>set es. whole (d_amount d) \<and> 0 < d_amount d"
    by (rule edit_deposits_ok[OF ed]) (use assms(3) in \<open>simp_all add: pool_ok_def\<close>)
  ultimately show ?thesis using ed by (auto simp: pool_ok_def)
qed

end
