(* ===== verification/SP_Machine.thy ===== *)
theory SP_Machine
  imports SP_Shares
begin

text \<open>
  Stability pool: the contract as a transaction machine. \<open>sp_inv\<close> (every deposit is a positive whole
  number of units) is kept by every message, so by every run; \<open>sp_execute_pool\<close> says what each
  message does to the gap between the deposits and the amount the pool counts, and
  \<open>sp_execute_cap\<close> that incentives stay within their cap.
\<close>

section \<open>The invariant of a message\<close>

definition sp_inv :: "sp_storage \<Rightarrow> bool" where
  "sp_inv st \<longleftrightarrow> (\<forall>pool. SP_ASSET st = Some pool \<longrightarrow> pool_ok pool)"

lemma sp_update_config_frame:
  assumes "sp_update_config L st info update = Inr (st', r)"
  shows "SP_ASSET st' = SP_ASSET st" "SP_INCENTIVES st' = SP_INCENTIVES st" "SP_USERS st' = SP_USERS st"
    "messages r = []"
proof -
  have "\<exists>c s o1. st' = st\<lparr>SP_OWNERSHIP_TRANSFER := o1, SP_CONFIG := c\<rparr> \<and> messages r = []"
  proof (cases "spu_owner update")
    case None
    with assms show ?thesis
      by (auto simp: sp_update_config_def optional_def elim!: rbind_InrE
          intro!: exI[of _ "SP_OWNERSHIP_TRANSFER st"])
  next
    case (Some x)
    with assms show ?thesis
      by (auto simp: sp_update_config_def optional_def elim!: rbind_InrE)
  qed
  then show "SP_ASSET st' = SP_ASSET st" "SP_INCENTIVES st' = SP_INCENTIVES st"
    "SP_USERS st' = SP_USERS st" "messages r = []" by auto
qed

lemma handlers_need_pool:
  assumes "SP_ASSET st = None"
  shows "withdraw L st env info n \<noteq> Inr x" "restake L st env info d \<noteq> Inr x"
    "liquidate L st info d \<noteq> Inr x" "claim L st env info \<noteq> Inr x"
    "distribute_funds L st info env assets ratios n \<noteq> Inr x" "repay L st env info ui a \<noteq> Inr x"
    "validate_assets st as info True \<noteq> Inr ys"
  by (auto simp: withdraw_def restake_def liquidate_def claim_def distribute_funds_def repay_def
      validate_assets_def validate_in_pool_def asset_load_def assms Let_def elim!: rbind_InrE
      split: if_split_asm)

text \<open>A deposit message is one coin of the pool's asset, of positive amount.\<close>

lemma sp_deposit_msg:
  assumes "sp_execute L st env info (SpDeposit owner) = Inr (st', r)"
  obtains c pool where "funds info = [c]" "0 < c_amount c" "SP_ASSET st = Some pool"
    "a_info (ap_credit_asset pool) = NativeToken (c_denom c)"
    "sp_deposit L st env info owner \<lparr>a_info = NativeToken (c_denom c), a_amount = c_amount c\<rparr> = Inr (st', r)"
proof -
  obtain pool where p: "SP_ASSET st = Some pool"
    using assms handlers_need_pool(7) by (cases "SP_ASSET st") (auto elim!: rbind_InrE)
  from assms obtain c cs where f: "funds info = c # cs" and l: "\<not> 1 < length (funds info)"
    by (cases "funds info") (auto simp: vec_index_def elim!: rbind_InrE split: list.split_asm if_split_asm)
  then have f: "funds info = [c]" by simp
  have "a_info (ap_credit_asset pool) = NativeToken (c_denom c) \<and> 0 < c_amount c \<and>
      sp_deposit L st env info owner \<lparr>a_info = NativeToken (c_denom c), a_amount = c_amount c\<rparr> = Inr (st', r)"
    using assms p by (auto simp: f vec_index_def validate_assets_def validate_in_pool_def
        assert_sent_native_token_balance_def asset_load_def split: if_split_asm)
  with f p show thesis by (intro that) auto
qed

lemma pool_ok_append: "pool_ok (p\<lparr>ap_credit_asset := a, ap_deposits := ap_deposits p @ [d]\<rparr>) \<longleftrightarrow>
    pool_ok p \<and> whole (d_amount d) \<and> 0 < d_amount d"
  by (auto simp: pool_ok_def)

lemma pool_ok_credit: "pool_ok (p\<lparr>ap_credit_asset := a\<rparr>) = pool_ok p"
  by (simp add: pool_ok_def)

text \<open>Deposits against the amount the pool counts, in atomics.\<close>

definition pool_gap :: "AssetPool \<Rightarrow> int" where
  "pool_gap p = int (total_of (ap_deposits p)) - int (DECIMAL_FRACTIONAL * a_amount (ap_credit_asset p))"

lemma pool_pays_gap: "pool_pays u n p p' \<Longrightarrow> pool_gap p' = pool_gap p"
proof -
  assume a: "pool_pays u n p p'"
  have "total_of (ap_deposits p') + DECIMAL_FRACTIONAL * n = total_of (ap_deposits p)"
    using a total_split[of "ap_deposits p" u] total_split[of "ap_deposits p'" u]
    by (simp add: pool_pays_def)
  moreover have "DECIMAL_FRACTIONAL * a_amount (ap_credit_asset p') + DECIMAL_FRACTIONAL * n =
      DECIMAL_FRACTIONAL * a_amount (ap_credit_asset p)"
    using a by (metis pool_pays_def distrib_left)
  ultimately show ?thesis unfolding pool_gap_def by linarith
qed

text \<open>
  What a successful message does to the pool: only a liquidation opens the gap between deposits and
  amount, by what it repays, and only a distribution closes it.
\<close>

definition liquidated :: "sp_ExecuteMsg \<Rightarrow> sp_response \<Rightarrow> nat" where
  "liquidated m r = (case m of
       SpLiquidate _ \<Rightarrow>
         (case messages r of [WasmExecute _ _ [c]] \<Rightarrow> c_amount c | _ \<Rightarrow> 0)
     | _ \<Rightarrow> 0)"

definition is_distribute :: "sp_ExecuteMsg \<Rightarrow> bool" where
  "is_distribute m = (case m of SpDistribute _ _ _ \<Rightarrow> True | _ \<Rightarrow> False)"

lemma total_unused: "total_of (unused ds used) \<le> total_of ds"
  by (induction ds) auto

lemma edit_deposits_total:
  assumes "edit_deposits ds (fifo_used r ds) = Inr es"
  shows "total_of es \<le> total_of ds"
  using edit_deposits_cases[OF assms] fifo_totals(2)[of r ds] total_unused[where ds = ds and used = "fifo_used r ds"] by auto

lemma sp_execute_pool:
  assumes "sp_execute L st env info m = Inr (st', r)" and "SP_ASSET st = Some p" and "pool_ok p"
  shows "\<exists>p'. SP_ASSET st' = Some p' \<and> pool_ok p' \<and>
    (if is_distribute m then pool_gap p' \<le> pool_gap p
     else pool_gap p' = pool_gap p + int (DECIMAL_FRACTIONAL * liquidated m r))"
proof (cases m)
  case (SpUpdateConfig u)
  with assms sp_update_config_frame(1)[of L st info u st' r] show ?thesis
    by (simp add: is_distribute_def liquidated_def)
next
  case (SpDeposit owner)
  with assms(1) have d: "sp_execute L st env info (SpDeposit owner) = Inr (st', r)" by simp
  from d show ?thesis
  proof (rule sp_deposit_msg)
    fix c pool
    assume c: "0 < c_amount c" "SP_ASSET st = Some pool"
      and dep: "sp_deposit L st env info owner \<lparr>a_info = NativeToken (c_denom c), a_amount = c_amount c\<rparr> = Inr (st', r)"
    from dep assms(2) show ?thesis
      by (rule sp_deposit_ok)
        (use c assms(3) SpDeposit in \<open>auto simp: pool_ok_append pool_gap_def is_distribute_def
          liquidated_def distrib_left mult.commute[of _ DECIMAL_FRACTIONAL]\<close>)
  qed
next
  case (SpWithdraw n)
  with assms(1) have d: "withdraw L st env info n = Inr (st', r)" by simp
  from d assms(2,3) show ?thesis
    by (rule withdraw_ok)
      (use SpWithdraw in \<open>auto simp: is_distribute_def liquidated_def pool_pays_gap pool_pays_def\<close>)
next
  case (SpRestake n)
  with assms(1) have d: "restake L st env info n = Inr (st', r)" by simp
  from d assms(2) show ?thesis
    by (rule restake_ok)
      (use SpRestake assms(3) in \<open>auto simp: is_distribute_def liquidated_def pool_gap_def pool_retimed_ok\<close>)
next
  case SpClaimRewards
  with assms(1) have d: "claim L st env info = Inr (st', r)" by simp
  from d assms(2) show ?thesis
    by (rule claim_ok)
      (use SpClaimRewards assms(3) in \<open>auto simp: is_distribute_def liquidated_def pool_gap_def pool_retimed_ok\<close>)
next
  case (SpLiquidate n)
  with assms(1) have d: "liquidate L st info n = Inr (st', r)" by simp
  from d assms(2) show ?thesis
    by (rule liquidate_ok)
      (use SpLiquidate assms(3) in \<open>auto simp: is_distribute_def liquidated_def pool_gap_def
        pool_ok_credit of_nat_diff right_diff_distrib\<close>)
next
  case (SpDistribute as rs n)
  with assms(1) have d: "distribute_funds L st info env as rs n = Inr (st', r)" by simp
  from distribute_funds_pool[OF d assms(2,3)] obtain es where
    es: "SP_ASSET st' = Some (p\<lparr>ap_deposits := es\<rparr>)"
    "edit_deposits (ap_deposits p) (fifo_used (n * DECIMAL_FRACTIONAL) (ap_deposits p)) = Inr es"
    "pool_ok (p\<lparr>ap_deposits := es\<rparr>)" by blast
  have "pool_gap (p\<lparr>ap_deposits := es\<rparr>) \<le> pool_gap p"
    using edit_deposits_total[OF es(2)] by (simp add: pool_gap_def)
  then show ?thesis using es(1,3) SpDistribute by (simp add: is_distribute_def)
next
  case (SpRepay ui a)
  with assms(1) have d: "repay L st env info ui a = Inr (st', r)" by simp
  from d assms(2,3) show ?thesis
    by (rule repay_ok)
      (use SpRepay in \<open>auto simp: is_distribute_def liquidated_def pool_pays_gap pool_pays_def\<close>)
qed


lemma sp_execute_inv:
  assumes "sp_inv st" and "sp_execute L st env info m = Inr (st', r)"
  shows "sp_inv st'"
proof (cases "SP_ASSET st")
  case None
  then obtain u where "m = SpUpdateConfig u"
    using assms(2) handlers_need_pool[OF None]
    by (cases m) (auto elim!: rbind_InrE sp_deposit_msg simp: None)
  with assms(2) have "SP_ASSET st' = SP_ASSET st" using sp_update_config_frame(1) by simp
  with None show ?thesis by (simp add: sp_inv_def)
next
  case (Some p)
  with assms(1) have "pool_ok p" by (simp add: sp_inv_def)
  from sp_execute_pool[OF assms(2) Some this] show ?thesis by (auto simp: sp_inv_def)
qed

fun sp_step :: "chain_lib \<Rightarrow> Env \<times> MessageInfo \<times> sp_ExecuteMsg \<Rightarrow> sp_storage \<Rightarrow>
    (sp_storage \<times> sp_response) sp_result" where
  "sp_step L (env, info, m) st = sp_execute L st env info m"

interpretation sp: transactions "sp_step L" sp_inv for L
proof unfold_locales
  fix s m s' r
  assume "sp_inv s" "sp_step L m s = Inr (s', r)"
  then show "sp_inv s'" by (cases m) (auto dest: sp_execute_inv)
qed

lemma sp_inv_instantiate: "sp_instantiate L st env info msg = Inr (st', r) \<Longrightarrow> sp_inv st'"
  by (auto simp: sp_instantiate_def Let_def sp_inv_def pool_ok_def elim!: rbind_InrE)

section \<open>The incentive cap\<close>

definition within_cap :: "sp_storage \<Rightarrow> bool" where
  "within_cap st \<longleftrightarrow> (\<forall>c t. SP_CONFIG st = Some c \<longrightarrow> SP_INCENTIVES st = Some t \<longrightarrow>
     t \<le> spc_max_incentives c)"

lemma within_cap_claims:
  assumes "only_claims_of config u st st'" and "SP_CONFIG st = Some config" and "within_cap st"
  shows "within_cap (st'\<lparr>SP_ASSET := p\<rparr>)"
  using assms by (auto simp: only_claims_of_def accrues_def within_cap_def)

lemma sp_execute_cap:
  assumes "sp_execute L st env info m = Inr (st', r)" and "\<forall>u. m \<noteq> SpUpdateConfig u"
    and "sp_inv st" and "coins_ok L" and "within_cap st"
  shows "within_cap st'"
proof -
  obtain p where p: "SP_ASSET st = Some p"
    using assms(1,2) handlers_need_pool by (cases "SP_ASSET st"; cases m) (auto elim!: rbind_InrE)
  then have ok: "pool_ok p" using assms(3) by (simp add: sp_inv_def)
  show ?thesis
  proof (cases m)
    case (SpUpdateConfig u)
    with assms(2) show ?thesis by simp
  next
    case (SpDeposit owner)
    with assms(1) have "sp_execute L st env info (SpDeposit owner) = Inr (st', r)" by simp
    then show ?thesis
      by (rule sp_deposit_msg, elim sp_deposit_ok) (use assms(5) in \<open>auto simp: within_cap_def\<close>)
  next
    case (SpWithdraw n)
    with assms(1) have "withdraw L st env info n = Inr (st', r)" by simp
    from this p ok show ?thesis by (rule withdraw_ok) (use assms(5) in \<open>auto intro: within_cap_claims\<close>)
  next
    case (SpRestake n)
    with assms(1) have "restake L st env info n = Inr (st', r)" by simp
    from this p show ?thesis by (rule restake_ok) (use assms(5) in \<open>auto intro: within_cap_claims\<close>)
  next
    case SpClaimRewards
    with assms(1) have "claim L st env info = Inr (st', r)" by simp
    from this p show ?thesis by (rule claim_ok) (auto simp: within_cap_def)
  next
    case (SpLiquidate n)
    with assms(1) have "liquidate L st info n = Inr (st', r)" by simp
    from this p show ?thesis by (rule liquidate_ok) (use assms(5) in \<open>auto simp: within_cap_def\<close>)
  next
    case (SpDistribute as rs n)
    with assms(1) have d: "distribute_funds L st info env as rs n = Inr (st', r)" by simp
    from d p obtain config where c: "SP_CONFIG st = Some config" by (rule distribute_funds_ok)
    from distribute_funds_effect[OF d p assms(4) c]
    have inc: "SP_INCENTIVES st' = SP_INCENTIVES st \<or>
      (\<exists>i. i \<le> spc_max_incentives config \<and> SP_INCENTIVES st' = Some i)"
      and "\<exists>a i u. st' = st\<lparr>SP_ASSET := a, SP_INCENTIVES := i, SP_USERS := u\<rparr>" by blast+
    then have "SP_CONFIG st' = SP_CONFIG st" by auto
    with inc c assms(5) show ?thesis by (auto simp: within_cap_def)
  next
    case (SpRepay ui a)
    with assms(1) have "repay L st env info ui a = Inr (st', r)" by simp
    from this p ok show ?thesis by (rule repay_ok) (use assms(5) in \<open>auto intro: within_cap_claims\<close>)
  qed
qed

end
