(* ===== verification/SP_Book.thy ===== *)
theory SP_Book
  imports SP_Machine
begin

text \<open>
  Stability pool: the place of a deposit in the line (the \<open>capital_ahead\<close> query against a
  distribution), deposits that coincide, and what an incentive counter above its cap blocks.
\<close>

section \<open>The line\<close>

text \<open>The positions of a user's deposits, each with the total of the deposits before it.\<close>

fun positions_from :: "nat \<Rightarrow> addr \<Rightarrow> Deposit list \<Rightarrow> DepositPositionResponse list" where
  "positions_from c u [] = []"
| "positions_from c u (d # ds) =
     (if d_user d = u then [\<lparr>dp_deposit = d, dp_capital_ahead = c\<rparr>] else [])
       @ positions_from (c + d_amount d) u ds"

lemma capital_ahead_loop_eq:
  "capital_ahead_loop u ds c resp = Inr ps \<longleftrightarrow>
     ps = resp @ positions_from c u ds \<and> (ds = [] \<or> c + total_of ds < U128_BOUND)"
proof (induction ds arbitrary: c resp)
  case Nil
  then show ?case by auto
next
  case (Cons d ds)
  let ?r = "resp @ (if d_user d = u then [\<lparr>dp_deposit = d, dp_capital_ahead = c\<rparr>] else [])"
  have "capital_ahead_loop u (d # ds) c resp = Inr ps \<longleftrightarrow> c + d_amount d < U128_BOUND \<and>
      capital_ahead_loop u ds (c + d_amount d) ?r = Inr ps"
    by (auto simp: Let_def rbind_eq_Inr dec_ok)
  also have "\<dots> \<longleftrightarrow> c + d_amount d < U128_BOUND \<and> ps = ?r @ positions_from (c + d_amount d) u ds \<and>
      (ds = [] \<or> c + d_amount d + total_of ds < U128_BOUND)"
    unfolding Cons.IH ..
  also have "\<dots> \<longleftrightarrow> ps = resp @ positions_from c u (d # ds) \<and> (d # ds = [] \<or> c + total_of (d # ds) < U128_BOUND)"
  proof -
    have "c + d_amount d + total_of ds < U128_BOUND \<Longrightarrow> c + d_amount d < U128_BOUND" by linarith
    then show ?thesis by (cases "ds = []") (auto simp: add.assoc)
  qed
  finally show ?case .
qed

lemma positions_append:
  "positions_from c u (xs @ ys) = positions_from c u xs @ positions_from (c + total_of xs) u ys"
  by (induction xs arbitrary: c) (auto simp: add.assoc)

lemma positions_from_iff:
  "p \<in> set (positions_from c u ds) \<longleftrightarrow> (\<exists>xs d ys. ds = xs @ d # ys \<and> d_user d = u \<and>
     p = \<lparr>dp_deposit = d, dp_capital_ahead = c + total_of xs\<rparr>)"
proof (induction ds arbitrary: c)
  case Nil
  then show ?case by simp
next
  case (Cons e ds)
  show ?case
  proof
    assume "p \<in> set (positions_from c u (e # ds))"
    then consider "d_user e = u" "p = \<lparr>dp_deposit = e, dp_capital_ahead = c\<rparr>"
      | "p \<in> set (positions_from (c + d_amount e) u ds)" by (auto split: if_split_asm)
    then show "\<exists>xs d ys. e # ds = xs @ d # ys \<and> d_user d = u \<and>
        p = \<lparr>dp_deposit = d, dp_capital_ahead = c + total_of xs\<rparr>"
    proof cases
      case 1
      then show ?thesis by (intro exI[of _ "[]"]) simp
    next
      case 2
      then obtain xs d ys where "ds = xs @ d # ys" "d_user d = u"
        "p = \<lparr>dp_deposit = d, dp_capital_ahead = c + d_amount e + total_of xs\<rparr>"
        using Cons.IH by blast
      then show ?thesis
        by (intro exI[of _ "e # xs"] exI[of _ d] exI[of _ ys]) (simp add: add.assoc)
    qed
  next
    assume "\<exists>xs d ys. e # ds = xs @ d # ys \<and> d_user d = u \<and>
        p = \<lparr>dp_deposit = d, dp_capital_ahead = c + total_of xs\<rparr>"
    then obtain xs d ys where a: "e # ds = xs @ d # ys" "d_user d = u"
      "p = \<lparr>dp_deposit = d, dp_capital_ahead = c + total_of xs\<rparr>" by blast
    show "p \<in> set (positions_from c u (e # ds))" unfolding a(1) by (simp add: positions_append a(2,3))
  qed
qed

lemma query_capital_ahead_eq:
  "query_capital_ahead_of_deposits L st user = Inr ps \<longleftrightarrow> (\<exists>pool u. SP_ASSET st = Some pool \<and>
     lib_addr_validate L user = Inr u \<and> ps = positions_from 0 u (ap_deposits pool) \<and>
     (ap_deposits pool = [] \<or> total_of (ap_deposits pool) < U128_BOUND))"
  by (auto simp: query_capital_ahead_of_deposits_def rbind_eq_Inr sp_load_ok capital_ahead_loop_eq)

text \<open>A deposit with at least the repayment ahead of it keeps its place, that much nearer the front.\<close>

lemma fifo_rest_position:
  assumes "\<lparr>dp_deposit = d, dp_capital_ahead = a\<rparr> \<in> set (positions_from 0 u ds)" and "r \<le> a"
  shows "\<lparr>dp_deposit = d, dp_capital_ahead = a - r\<rparr> \<in> set (positions_from 0 u (fifo_rest r ds))"
proof -
  from assms(1) obtain xs ys where ds: "ds = xs @ d # ys" "d_user d = u" "a = total_of xs"
    by (auto simp: positions_from_iff)
  from fifo_rest_behind[of r xs "d # ys"] assms(2) obtain zs where zs: "fifo_rest r ds = zs @ d # ys"
    by (auto simp: ds)
  have "total_of (fifo_rest r ds) = total_of ds - r" by (rule fifo_totals)
  then have "total_of zs = a - r" unfolding zs using assms(2) by (simp add: ds)
  with zs ds(2) show ?thesis by (auto simp: positions_from_iff)
qed

section \<open>Deposits that coincide\<close>

abbreviation same_key :: "Deposit \<Rightarrow> Deposit \<Rightarrow> bool" where
  "same_key d e \<equiv> d_user e = d_user d \<and> d_amount e = d_amount d \<and> d_deposit_time e = d_deposit_time d"

lemma unused_total: "e \<in> set ds \<Longrightarrow> deposit_equal e used \<Longrightarrow> total_of (unused ds used) + d_amount e \<le> total_of ds"
  using total_unused[where used = used] by (induction ds) (auto intro: le_trans add_mono)

lemma edit_twins:
  assumes "edit_deposits (d # rest) (fifo_used (d_amount d) (d # rest)) = Inr es"
    and "e \<in> set rest" and "same_key d e" and "0 < d_amount d"
  shows "es = unused rest [d]" "e \<notin> set es" "total_of es + 2 * d_amount d \<le> total_of (d # rest)"
proof -
  have used: "fifo_used (d_amount d) (d # rest) = [d]" using assms(4) by simp
  have eq: "deposit_equal e [d]" using assms(3) by simp
  have "length (unused rest [d]) < length rest"
    using assms(2) eq by (metis (no_types, lifting) length_filter_less)
  then show es: "es = unused rest [d]" using assms(1) unfolding used by (simp add: edit_deposits_def Let_def)
  show "e \<notin> set es" using eq by (simp add: es)
  show "total_of es + 2 * d_amount d \<le> total_of (d # rest)"
    using unused_total[OF assms(2) eq] assms(3) by (simp add: es)
qed

section \<open>A counter above its cap\<close>

text \<open>
  Accruing then either panics, or fails before the cap is reached, which the closure notes; a noted
  error stays noted and fails the message in the end.
\<close>

definition over_cap :: "sp_config \<Rightarrow> sp_storage \<Rightarrow> bool" where
  "over_cap config st \<longleftrightarrow> (\<exists>t. SP_INCENTIVES st = Some t \<and> spc_max_incentives config < t)"

lemma accrue_noting_over:
  assumes "over_cap config st" and "accrue_noting st env config stake d err = Inr (st', inc, err')"
  shows "st' = st \<and> err' \<noteq> None"
proof (cases "accrue_incentives st env config stake d")
  case (Inl e)
  with assms(2) show ?thesis by (cases e) (auto simp: accrue_noting_def)
next
  case (Inr p)
  then obtain s i where "accrue_incentives st env config stake d = Inr (s, i)" by (cases p) auto
  then have False by (rule accrue_incentives_ok) (use assms(1) in \<open>auto simp: over_cap_def\<close>)
  then show ?thesis ..
qed

definition noted :: "sp_config \<Rightarrow> wd_state \<Rightarrow> bool" where
  "noted config w \<longleftrightarrow> over_cap config (w_st w) \<and> w_error w \<noteq> None"

lemma withdrawal_item_over:
  assumes "withdrawal_item env config u skip d w = Inr (w', d')" and "over_cap config (w_st w)"
    and "d_user d \<noteq> u \<Longrightarrow> noted config w"
  shows "noted config w'"
proof (cases "d_user d = u")
  case True
  with assms(1) obtain stake st inc err w1 d1 w2 where
    acc: "accrue_noting (w_st w) env config stake d (w_error w) = Inr (st, inc, err)"
    and un: "unstake_step env config skip (accrued env d) (w\<lparr>w_is_user := True, w_st := st,
       w_error := err, w_mbrn_incentives := w_mbrn_incentives w + inc\<rparr>) = Inr (w1, d1)"
    and ta: "take_step env config skip d1 w1 = Inr (w2, d')"
    and w': "w' = w2\<lparr>w_withdrawable := False\<rparr>"
    by (auto simp: withdrawal_item_def dec_one_ok int_ok Let_def elim!: rbind_InrE)
  from accrue_noting_over[OF assms(2) acc] have "st = w_st w" "err \<noteq> None" by auto
  with un have w1: "noted config w1"
    by (cases rule: unstake_step_cases) (use assms(2) in \<open>auto simp: noted_def\<close>)
  then have c1: "over_cap config (w_st w1)" by (simp add: noted_def)
  from ta have "noted config w2"
    unfolding take_step_def Let_def
    using w1 by (auto simp: noted_def elim!: rbind_InrE split: if_split_asm
        dest!: accrue_noting_over[OF c1])
  then show ?thesis by (simp add: w' noted_def)
next
  case False
  with assms show ?thesis by (simp add: withdrawal_item_def)
qed

lemma withdrawal_loop_over:
  assumes "rmap_state (withdrawal_item env config u skip) ds w = Inr (w', ms)"
    and "over_cap config (w_st w)" and "own u ds = [] \<Longrightarrow> noted config w"
  shows "noted config w'"
  using assms
proof (induction ds arbitrary: w ms)
  case Nil
  then show ?case by simp
next
  case (Cons d ds)
  from Cons.prems(1) obtain t m ms' where
    i: "withdrawal_item env config u skip d w = Inr (t, m)"
    and r: "rmap_state (withdrawal_item env config u skip) ds t = Inr (w', ms')"
    by (rule rmap_state_ConsE)
  show ?case
  proof (cases "d_user d = u \<or> noted config w")
    case True
    then have "noted config t" using withdrawal_item_over[OF i Cons.prems(2)] by auto
    then show ?thesis using Cons.IH[OF r] by (simp add: noted_def)
  next
    case False
    then have "t = w" using i by (simp add: withdrawal_item_def)
    with Cons.IH[OF r] Cons.prems(2,3) False show ?thesis by auto
  qed
qed

lemma withdraw_over_cap:
  assumes "SP_CONFIG st = Some config" and "SP_ASSET st = Some pool" and "over_cap config st"
    and "own (sender info) (ap_deposits pool) \<noteq> []"
  shows "withdraw L st env info n \<noteq> Inr x"
proof
  assume "withdraw L st env info n = Inr x"
  with assms(1,2) obtain q skip y where
    "withdrawal_from_state L st env config (sender info) q pool skip = Inr y"
    unfolding withdraw_def Let_def by (auto simp: sp_load_ok map_err_eq_Inr elim!: rbind_InrE split: if_split_asm(1))
  then obtain w ms where
    loop: "rmap_state (withdrawal_item env config (sender info) skip) (ap_deposits pool)
       \<lparr>w_st = st, w_mbrn_incentives = 0, w_error = None, w_is_user = False,
        w_withdrawable = False, w_withdrawable_amount = 0, w_returning_deposit = None,
        w_withdrawal_amount = q\<rparr> = Inr (w, ms)" and err: "w_error w = None"
    unfolding withdrawal_from_state_def Let_def
    by (auto elim!: rbind_InrE split: if_split_asm(1) option.split_asm)
  have "noted config w" by (rule withdrawal_loop_over[OF loop]) (use assms in simp_all)
  with err show False by (simp add: noted_def)
qed

lemma claim_over_cap:
  assumes "SP_CONFIG st = Some config" and "over_cap config st"
  shows "claim L st env info \<noteq> Inr x"
proof
  assume "claim L st env info = Inr x"
  then obtain s r where c: "claim L st env info = Inr (s, r)" by (cases x) auto
  obtain pool where "SP_ASSET st = Some pool"
    using c handlers_need_pool(4) by (cases "SP_ASSET st") auto
  with c show False by (rule claim_ok) (use assms in \<open>auto simp: over_cap_def\<close>)
qed

lemma distribute_funds_pool_edit:
  assumes "distribute_funds L st info env assets ratios n = Inr (st', r)" and "SP_ASSET st = Some pool"
  shows "\<exists>es. edit_deposits (ap_deposits pool) (fifo_used (n * DECIMAL_FRACTIONAL) (ap_deposits pool)) = Inr es \<and>
    SP_ASSET st' = Some (pool\<lparr>ap_deposits := es\<rparr>)"
  using assms
proof (rule distribute_funds_ok)
  fix st1 :: sp_storage and es rs us st2 rs' assets'
  assume "edit_deposits (ap_deposits pool) (fifo_used (n * DECIMAL_FRACTIONAL) (ap_deposits pool)) = Inr es"
    "split_assets_to_users L (st1\<lparr>SP_ASSET := Some (pool\<lparr>ap_deposits := es\<rparr>)\<rparr>) ratios assets
       (map (\<lambda>(d, ratio). \<lparr>ur_user = d_user d, ur_ratio = ratio\<rparr>) (zip us rs)) = Inr (st', rs', assets')"
  with split_assets_asset show ?thesis by fastforce
qed

lemma distribution_rest:
  assumes "distribute_funds L st info env assets ratios n = Inr (st', r)" and "SP_ASSET st = Some pool"
    and "distinct (map (\<lambda>d. (d_user d, d_deposit_time d)) (ap_deposits pool))"
  shows "SP_ASSET st' = Some (pool\<lparr>ap_deposits := fifo_rest (n * DECIMAL_FRACTIONAL) (ap_deposits pool)\<rparr>)"
  using distribute_funds_pool_edit[OF assms(1,2)] edit_deposits_fifo[OF assms(3)] by auto

end
