(* ===== verification/SP_Demo.thy ===== *)
theory SP_Demo
  imports SP_Book Liq_Demo
begin

text \<open>
  A concrete stability pool on which the properties are applied: alice with 100 and 40 units, bob
  with 50 units that finished unstaking, a minimum deposit of 5 and a day of unstaking.
\<close>

definition pool_config :: sp_config where
  "pool_config = \<lparr>spc_owner = ''owner'', spc_incentive_rate = 90000000000000000,
     spc_max_incentives = 10000000, spc_unstaking_period = 1, spc_minimum_deposit_amount = 5,
     spc_mbrn_denom = ''mbrn'', spc_osmosis_proxy = ''proxy'', spc_positions_contract = ''cdp'',
     spc_oracle_contract = ''oracle''\<rparr>"

definition pool_deposit :: "addr \<Rightarrow> nat \<Rightarrow> u64 \<Rightarrow> u64 option \<Rightarrow> Deposit" where
  "pool_deposit u n t w = \<lparr>d_user = u, d_amount = n * 1000000000000000000, d_deposit_time = t,
     d_last_accrued = t, d_unstake_time = w\<rparr>"

definition pool_of :: "nat \<Rightarrow> Deposit list \<Rightarrow> AssetPool" where
  "pool_of n ds = \<lparr>ap_credit_asset = \<lparr>a_info = NativeToken ''cdt'', a_amount = n\<rparr>, ap_liq_premium = 0,
     ap_deposits = ds\<rparr>"

definition pool_st :: "nat \<Rightarrow> AssetPool \<Rightarrow> sp_storage" where
  "pool_st inc p = \<lparr>SP_CONFIG = Some pool_config, SP_ASSET = Some p,
     SP_PROP = Some \<lparr>prop_repaid_amount = 0\<rparr>, SP_INCENTIVES = Some inc, SP_USERS = Map.empty,
     SP_OWNERSHIP_TRANSFER = None, SP_CONTRACT_VERSION = None\<rparr>"

definition demo_pool :: AssetPool where
  "demo_pool = pool_of 190 [pool_deposit ''alice'' 100 1000 None, pool_deposit ''bob'' 50 1100 (Some 5000),
     pool_deposit ''alice'' 40 1200 None]"

lemma demo_coins_ok: "coins_ok demo_lib"
  by (auto simp: coins_ok_def demo_lib_def amount_of_def)

lemmas pool_eval = pool_config_def pool_deposit_def pool_of_def pool_st_def demo_pool_def
  demo_env_def demo_info_def time_seconds_def DECIMAL_FRACTIONAL_def U128_BOUND_def U64_BOUND_def
  SECONDS_PER_YEAR_def SECONDS_PER_DAY_def

lemmas dec_eval = dec_of_uint_def dec_times_one_def dec_sum_def dec_from_ratio_def dec_add_def dec_sub_def
  u128_add_def u128_sub_def u64_sub_def u64_mul_def uint128_mul_dec_def to_uint_floor_def
  accumulate_interest_def dec_checked_mul_def Let_def

lemmas withdraw_eval = withdraw_def sp_config_load_def asset_load_def deposits_of_def
  withdrawal_from_state_def withdrawal_item_def accrue_noting_def accrue_incentives_def
  incentives_load_def accrued_def unstake_step_def at_least_minimum_def take_step_def
  withdrawal_msg_def asset_to_coin_def

definition bob_left :: AssetPool where
  "bob_left = pool_of 170 [pool_deposit ''alice'' 100 1000 None,
     (pool_deposit ''bob'' 30 1100 (Some 5000))\<lparr>d_last_accrued := 100000\<rparr>,
     pool_deposit ''alice'' 40 1200 None]"

lemma demo_bob_withdraws:
  "\<exists>r. withdraw demo_lib (pool_st 0 demo_pool) (demo_env 100000) (demo_info ''bob'' []) 20 =
     Inr (pool_st 0 bob_left, r)"
  by (simp add: bob_left_def withdraw_eval dec_eval pool_eval)

lemmas distribute_eval = distribute_funds_def pay_accrued_def edit_deposits_def get_distribution_ratios_def
  condense_deposit_def decimal_division_def split_assets_to_users_def split_user_turn_def vec_index_def
  add_to_user_claims_def amount_of_def

lemmas claim_eval = claim_def get_user_incentives_def user_incentive_item_def note_interest_def
  user_claims_msgs_def

definition half_pool :: AssetPool where
  "half_pool = pool_of 100 [pool_deposit ''alice'' 100 1000 None]"

text \<open>Withdrawing half of a deposit leaves two deposits of one user, amount and time.\<close>

definition twin_pool :: AssetPool where
  "twin_pool = pool_of 100 [(pool_deposit ''alice'' 50 1000 (Some 2000))\<lparr>d_last_accrued := 2000\<rparr>,
     (pool_deposit ''alice'' 50 1000 None)\<lparr>d_last_accrued := 2000\<rparr>]"

lemma demo_half:
  "\<exists>r. withdraw demo_lib (pool_st 0 half_pool) (demo_env 2000) (demo_info ''alice'' []) 50 =
     Inr ((pool_st 0 twin_pool)\<lparr>SP_USERS := Map.empty\<rparr>, r)"
  by (simp add: half_pool_def twin_pool_def withdraw_eval dec_eval pool_eval)


lemma demo_asset [simp]: "SP_ASSET (pool_st i p) = Some p" "SP_CONFIG (pool_st i p) = Some pool_config"
  "SP_INCENTIVES (pool_st i p) = Some i" "SP_USERS (pool_st i p) = Map.empty"
  by (simp_all add: pool_st_def)

lemma demo_pool_ok: "pool_ok demo_pool"
  by (simp add: pool_ok_def demo_pool_def pool_of_def pool_deposit_def DECIMAL_FRACTIONAL_def)

lemma demo_repay:
  "\<exists>st' r pool'. repay demo_lib (pool_st 0 demo_pool) (demo_env 100000) (demo_info ''cdp'' [])
      \<lparr>ui_position_id = 7, ui_position_owner = ''bob''\<rparr> \<lparr>a_info = NativeToken ''cdt'', a_amount = 47\<rparr>
      = Inr (st', r) \<and> SP_ASSET st' = Some pool' \<and> a_amount (ap_credit_asset pool') = 140 \<and>
      own ''bob'' (ap_deposits pool') = []"
  by (simp add: repay_def withdraw_eval dec_eval pool_eval own_def)

lemma demo_distribute:
  "\<exists>st' r. distribute_funds demo_lib (pool_st 0 demo_pool) (demo_info ''cdp'' []) (demo_env 3000)
      [\<lparr>a_info = NativeToken ''atom'', a_amount = 60\<rparr>] [1000000000000000000] 120 = Inr (st', r)"
  by (simp add: distribute_eval withdraw_eval dec_eval pool_eval dec_checked_div_def decimal_multiplication_def decimal_subtraction_def dec_checked_sub_def demo_lib_def)

lemma demo_distribute_twins:
  "\<exists>st' r. distribute_funds demo_lib ((pool_st 0 twin_pool)\<lparr>SP_USERS := Map.empty\<rparr>) (demo_info ''cdp'' [])
      (demo_env 2000) [\<lparr>a_info = NativeToken ''atom'', a_amount = 25\<rparr>] [1000000000000000000] 50 = Inr (st', r)"
  by (simp add: twin_pool_def distribute_eval withdraw_eval dec_eval pool_eval dec_checked_div_def decimal_multiplication_def decimal_subtraction_def dec_checked_sub_def demo_lib_def)

lemma demo_ratios: "\<exists>rs us. get_distribution_ratios (ap_deposits demo_pool) = Inr (rs, us)"
  by (simp add: distribute_eval dec_eval pool_eval dec_checked_div_def decimal_multiplication_def decimal_subtraction_def dec_checked_sub_def)

text \<open>A large deposit late in the life of the incentives: the year's interest exceeds what is left of them.\<close>

definition rich_pool :: AssetPool where
  "rich_pool = pool_of 1000000 [pool_deposit ''alice'' 1000000 1000 None]"

lemma demo_claim_rich:
  "\<exists>st' r t. claim demo_lib (pool_st 9999995 rich_pool) (demo_env 31536000) (demo_info ''alice'' []) = Inr (st', r) \<and>
     SP_INCENTIVES st' = Some t \<and> SP_CONFIG st' = Some pool_config"
  by (simp add: claim_eval rich_pool_def withdraw_eval dec_eval pool_eval add_to_user_claims_def demo_lib_def)

lemma demo_second_withdrawal:
  "\<exists>st2 r2 pool d. withdraw demo_lib ((pool_st 0 twin_pool)\<lparr>SP_USERS := Map.empty\<rparr>) (demo_env 2060)
      (demo_info ''alice'' []) 0 = Inr (st2, r2) \<and> SP_CONFIG st2 = Some pool_config \<and>
    SP_ASSET st2 = Some pool \<and> d \<in> set (ap_deposits pool) \<and> d_user d = ''alice'' \<and>
    d_unstake_time d = Some 2000 \<and> d_last_accrued d = 2060"
  by (simp add: twin_pool_def withdraw_eval dec_eval pool_eval conj_disj_distribR ex_disj_distrib)

lemma demo_liquidate:
  "\<exists>st' r. sp_execute demo_lib (pool_st 0 demo_pool) (demo_env 3000) (demo_info ''cdp'' [])
      (SpLiquidate (120 * DECIMAL_FRACTIONAL)) = Inr (st', r) \<and>
    liquidated (SpLiquidate (120 * DECIMAL_FRACTIONAL)) r = 120"
  by (simp add: liquidate_def prop_load_def liquidated_def withdraw_eval dec_eval pool_eval)

lemma demo_preview_pool:
  "\<exists>st' r. liquidate demo_lib (pool_st 0 demo_pool) (demo_info ''cdp'' []) (200 * DECIMAL_FRACTIONAL) = Inr (st', r) \<and>
    sp_query_liquidatible (pool_st 0 demo_pool) (200 * DECIMAL_FRACTIONAL) = Inr (10 * DECIMAL_FRACTIONAL)"
  by (simp add: liquidate_def prop_load_def sp_query_liquidatible_def withdraw_eval dec_eval pool_eval)

end
