(* ===== verification/SP_Properties.thy ===== *)
theory SP_Properties
  imports SP_Demo
begin

text \<open>
  What the messages of the stability pool do: the invariant over every run, the money and the order
  of withdrawals, repayments and distributions, the incentives and their cap, and the agreement of
  queries with the messages they preview. Each property is applied to the pools of \<open>SP_Demo\<close>.
\<close>

text \<open>
  C3. Starting from a fresh instance of the stability pool, every run of messages, by any senders at
  any times and failing ones included, ends in a state in which every deposit of the pool is a
  positive whole number of units.
\<close>

theorem sp_runs_keep_invariant:
  assumes "sp_instantiate L st env info msg = Inr (st', r)"
  shows "sp_inv (sp.run L ms st')"
  by (rule sp.run_inv[OF sp_inv_instantiate[OF assms]])

theorem sp_runs_keep_invariant_witness:
  "\<exists>st' r. sp_instantiate demo_lib (pool_st 0 demo_pool) (demo_env 1) (demo_info ''owner'' [])
     \<lparr>spi_owner = None, spi_asset_pool = pool_of 0 [], spi_incentive_rate = None,
      spi_max_incentives = None, spi_minimum_deposit_amount = 5, spi_osmosis_proxy = ''proxy'',
      spi_positions_contract = ''cdp'', spi_oracle_contract = ''oracle'', spi_mbrn_denom = ''mbrn''\<rparr>
     = Inr (st', r) \<and>
   sp_inv (sp.run demo_lib [(demo_env 2, demo_info ''bob'' [\<lparr>c_denom = ''cdt'', c_amount = 9\<rparr>], SpDeposit None)] st')"
proof -
  let ?i = "sp_instantiate demo_lib (pool_st 0 demo_pool) (demo_env 1) (demo_info ''owner'' [])
     \<lparr>spi_owner = None, spi_asset_pool = pool_of 0 [], spi_incentive_rate = None,
      spi_max_incentives = None, spi_minimum_deposit_amount = 5, spi_osmosis_proxy = ''proxy'',
      spi_positions_contract = ''cdp'', spi_oracle_contract = ''oracle'', spi_mbrn_denom = ''mbrn''\<rparr>"
  have "\<exists>st' r. ?i = Inr (st', r)" by (simp add: sp_instantiate_def Let_def)
  then show ?thesis using sp_runs_keep_invariant[where L = demo_lib] by blast
qed

text \<open>
  C12. A withdrawal that succeeds conserves the pool: what leaves the user's deposits is what leaves
  the amount the pool counts and what the one message sends to the user, at most the request and the
  minimum deposit more. The deposits of all other users, the premium and the pool's asset stay as they were.
  Of the storage outside the pool only two entries may change, by the incentives that accrue: the
  counter of incentives, which stays as it was or within the cap, and the sender's own claims.
\<close>

theorem withdrawal_conserves:
  assumes "withdraw L st env info n = Inr (st', r)" and "SP_ASSET st = Some pool" and "pool_ok pool"
  shows "\<exists>config w pool'. SP_CONFIG st = Some config \<and> SP_ASSET st' = Some pool' \<and>
    total_of (own (sender info) (ap_deposits pool')) + DECIMAL_FRACTIONAL * w
      = total_of (own (sender info) (ap_deposits pool)) \<and>
    a_amount (ap_credit_asset pool') + w = a_amount (ap_credit_asset pool) \<and>
    others (sender info) (ap_deposits pool') = others (sender info) (ap_deposits pool) \<and>
    (\<forall>v. v \<noteq> sender info \<longrightarrow> SP_USERS st' v = SP_USERS st v) \<and>
    a_info (ap_credit_asset pool') = a_info (ap_credit_asset pool) \<and> ap_liq_premium pool' = ap_liq_premium pool \<and>
    st' = st\<lparr>SP_ASSET := Some pool', SP_INCENTIVES := SP_INCENTIVES st',
       SP_USERS := (SP_USERS st)(sender info := SP_USERS st' (sender info))\<rparr> \<and>
    (SP_INCENTIVES st' = SP_INCENTIVES st \<or> (\<exists>i \<le> spc_max_incentives config. SP_INCENTIVES st' = Some i)) \<and>
    SP_CONFIG st' = SP_CONFIG st \<and> SP_PROP st' = SP_PROP st \<and>
    w \<le> n + spc_minimum_deposit_amount config \<and>
    messages r = (if w = 0 then [] else [BankSend (sender info)
       [\<lparr>c_denom = ai_denom (a_info (ap_credit_asset pool)), c_amount = w\<rparr>]])"
  using assms
proof (rule withdraw_ok)
  fix config st1 w pool'
  assume a: "SP_CONFIG st = Some config" "st' = st1\<lparr>SP_ASSET := Some pool'\<rparr>"
    "pool_pays (sender info) w pool pool'" and cl: "only_claims_of config (sender info) st st1"
    and m: "w \<le> n + spc_minimum_deposit_amount config"
    "messages r = (if w = 0 then [] else [BankSend (sender info)
       [\<lparr>c_denom = ai_denom (a_info (ap_credit_asset pool)), c_amount = w\<rparr>]])"
  have f: "st' = st\<lparr>SP_ASSET := Some pool', SP_INCENTIVES := SP_INCENTIVES st',
       SP_USERS := (SP_USERS st)(sender info := SP_USERS st' (sender info))\<rparr>"
    "SP_INCENTIVES st' = SP_INCENTIVES st \<or> (\<exists>i \<le> spc_max_incentives config. SP_INCENTIVES st' = Some i)"
    using cl a(2) by (auto simp: only_claims_of_def accrues_def)
  show ?thesis
    by (intro exI[of _ config] exI[of _ w] exI[of _ pool'] conjI;
        (rule f | (use a m only_claims_pool[OF cl] in \<open>simp add: pool_pays_def\<close>)))
qed

theorem withdrawal_conserves_witness:
  "\<exists>st' r pool'. withdraw demo_lib (pool_st 0 demo_pool) (demo_env 100000) (demo_info ''bob'' []) 20 = Inr (st', r)
     \<and> SP_ASSET st' = Some pool' \<and>
     others ''bob'' (ap_deposits pool') = others ''bob'' (ap_deposits demo_pool)"
proof -
  obtain r where w: "withdraw demo_lib (pool_st 0 demo_pool) (demo_env 100000) (demo_info ''bob'' []) 20 =
     Inr (pool_st 0 bob_left, r)" using demo_bob_withdraws by blast
  from withdrawal_conserves[OF w demo_asset(1) demo_pool_ok]
  have "others ''bob'' (ap_deposits bob_left) = others ''bob'' (ap_deposits demo_pool)"
    by (auto simp: demo_info_def)
  with w show ?thesis by (intro exI[of _ "pool_st 0 bob_left"] exI[of _ r] exI[of _ bob_left]) simp
qed

text \<open>
  Deposits are paid out only after unstaking: with a period configured, a withdrawal by a user
  none of whose deposits has completed the period sends nothing and leaves the pool's amount and the
  user's total as they were.
\<close>

theorem unstaking_comes_first:
  assumes "withdraw L st env info n = Inr (st', r)" and "SP_ASSET st = Some pool" and "pool_ok pool"
    and "SP_CONFIG st = Some config" and "spc_unstaking_period config \<noteq> 0"
    and "\<forall>d\<in>set (ap_deposits pool). d_user d = sender info \<longrightarrow> locked env config d"
  shows "messages r = [] \<and> (\<exists>pool'. SP_ASSET st' = Some pool' \<and>
    ap_credit_asset pool' = ap_credit_asset pool \<and>
    total_of (own (sender info) (ap_deposits pool')) = total_of (own (sender info) (ap_deposits pool)))"
  using assms(1-3)
proof (rule withdraw_ok)
  fix config' st1 w pool'
  assume c: "SP_CONFIG st = Some config'" and st': "st' = st1\<lparr>SP_ASSET := Some pool'\<rparr>"
    and wd: "withdrawal_from_state L st env config' (sender info) (n * DECIMAL_FRACTIONAL) pool
       (spc_unstaking_period config' = 0) = Inr (st1, w, pool')"
    and p: "pool_pays (sender info) w pool pool'"
    and m: "messages r = (if w = 0 then [] else [BankSend (sender info)
       [\<lparr>c_denom = ai_denom (a_info (ap_credit_asset pool)), c_amount = w\<rparr>]])"
  have "w = 0"
    by (rule withdrawal_from_state_locked[of L st env config' "sender info" "n * DECIMAL_FRACTIONAL" pool])
      (use wd c assms(4-6) in \<open>auto simp: own_def\<close>)
  with p m st' show ?thesis by (auto simp: pool_pays_def)
qed

theorem unstaking_comes_first_witness:
  "\<exists>st' r. withdraw demo_lib (pool_st 0 half_pool) (demo_env 2000) (demo_info ''alice'' []) 50 = Inr (st', r)
     \<and> messages r = []"
proof -
  obtain r where w: "withdraw demo_lib (pool_st 0 half_pool) (demo_env 2000) (demo_info ''alice'' []) 50 =
     Inr ((pool_st 0 twin_pool)\<lparr>SP_USERS := Map.empty\<rparr>, r)" using demo_half by blast
  have "messages r = []"
    using unstaking_comes_first[OF w, of half_pool pool_config]
    by (simp add: pool_eval half_pool_def pool_ok_def locked_def)
  with w show ?thesis by blast
qed

text \<open>
  A repayment out of the pool is a message of the positions contract. It takes from the named
  owner's deposits, and from the pool's amount, at least what it repays, but it also takes the rest
  of the last deposit when that rest is below the minimum deposit, while the message to the positions
  contract carries only the repayment: the rest reaches nobody.
\<close>

theorem repayment_accounting:
  assumes "repay L st env info ui repayment = Inr (st', r)" and "SP_ASSET st = Some pool"
    and "pool_ok pool"
  shows "\<exists>config u w pool'. SP_CONFIG st = Some config \<and> sender info = spc_positions_contract config \<and>
    lib_addr_validate L (ui_position_owner ui) = Inr u \<and> SP_ASSET st' = Some pool' \<and>
    a_amount repayment \<le> w \<and> w \<le> a_amount repayment + spc_minimum_deposit_amount config \<and>
    total_of (own u (ap_deposits pool')) + DECIMAL_FRACTIONAL * w = total_of (own u (ap_deposits pool)) \<and>
    a_amount (ap_credit_asset pool') + w = a_amount (ap_credit_asset pool) \<and>
    others u (ap_deposits pool') = others u (ap_deposits pool) \<and>
    messages r = [WasmExecute (spc_positions_contract config)
       (RepayMsg (ui_position_id ui) (Some (ui_position_owner ui)) (Some (ui_position_owner ui)))
       [\<lparr>c_denom = ai_denom (a_info repayment), c_amount = a_amount repayment\<rparr>]]"
  using assms
proof (rule repay_ok)
  fix config u st1 w pool'
  assume "SP_CONFIG st = Some config" "sender info = spc_positions_contract config"
    "lib_addr_validate L (ui_position_owner ui) = Inr u" "st' = st1\<lparr>SP_ASSET := Some pool'\<rparr>"
    "pool_pays u w pool pool'" "a_amount repayment \<le> w"
    "w \<le> a_amount repayment + spc_minimum_deposit_amount config"
    "messages r = [WasmExecute (spc_positions_contract config)
       (RepayMsg (ui_position_id ui) (Some (ui_position_owner ui)) (Some (ui_position_owner ui)))
       [\<lparr>c_denom = ai_denom (a_info repayment), c_amount = a_amount repayment\<rparr>]]"
  then show ?thesis
    by (intro exI[of _ config] exI[of _ u] exI[of _ w] exI[of _ pool']) (simp add: pool_pays_def)
qed

theorem repayment_accounting_witness:
  "\<exists>st' r pool'. repay demo_lib (pool_st 0 demo_pool) (demo_env 100000) (demo_info ''cdp'' [])
      \<lparr>ui_position_id = 7, ui_position_owner = ''bob''\<rparr> \<lparr>a_info = NativeToken ''cdt'', a_amount = 47\<rparr>
      = Inr (st', r) \<and>
    messages r = [WasmExecute ''cdp'' (RepayMsg 7 (Some ''bob'') (Some ''bob''))
      [\<lparr>c_denom = ''cdt'', c_amount = 47\<rparr>]] \<and>
    SP_ASSET st' = Some pool' \<and> a_amount (ap_credit_asset pool') = 140 \<and> own ''bob'' (ap_deposits pool') = []"
proof -
  let ?ui = "\<lparr>ui_position_id = 7, ui_position_owner = ''bob''\<rparr>"
  let ?a = "\<lparr>a_info = NativeToken ''cdt'', a_amount = 47\<rparr>"
  obtain st' r pool' where e: "repay demo_lib (pool_st 0 demo_pool) (demo_env 100000) (demo_info ''cdp'' []) ?ui ?a
     = Inr (st', r)" "SP_ASSET st' = Some pool'" "a_amount (ap_credit_asset pool') = 140"
     "own ''bob'' (ap_deposits pool') = []"
    using demo_repay by blast
  have "messages r = [WasmExecute ''cdp'' (RepayMsg 7 (Some ''bob'') (Some ''bob''))
      [\<lparr>c_denom = ''cdt'', c_amount = 47\<rparr>]]"
    using repayment_accounting[OF e(1) demo_asset(1) demo_pool_ok] by (auto simp: pool_st_def pool_config_def)
  with e show ?thesis by blast
qed

text \<open>
  C13. A distribution is sent by the positions contract and uses the deposits from the front of the
  line: when no two deposits share their user and time, what stays in the pool is exactly what
  first-deposited-first-used leaves, the rest of a deposit used in part at the front and everything
  behind it untouched. No message is sent and the pool's amount does not change.
\<close>

theorem distribution_is_first_in_first_used:
  assumes "distribute_funds L st info env assets ratios n = Inr (st', r)" and "SP_ASSET st = Some pool"
    and "distinct (map (\<lambda>d. (d_user d, d_deposit_time d)) (ap_deposits pool))"
  shows "(\<exists>config. SP_CONFIG st = Some config \<and> sender info = spc_positions_contract config) \<and>
    SP_ASSET st' = Some (pool\<lparr>ap_deposits := fifo_rest (n * DECIMAL_FRACTIONAL) (ap_deposits pool)\<rparr>) \<and>
    messages r = []"
  by (rule distribute_funds_ok[OF assms(1,2)]) (use distribution_rest[OF assms] in auto)

theorem distribution_is_first_in_first_used_witness:
  "\<exists>st' r. distribute_funds demo_lib (pool_st 0 demo_pool) (demo_info ''cdp'' []) (demo_env 3000)
      [\<lparr>a_info = NativeToken ''atom'', a_amount = 60\<rparr>] [1000000000000000000] 120 = Inr (st', r) \<and>
    SP_ASSET st' = Some (pool_of 190 [pool_deposit ''bob'' 30 1100 (Some 5000), pool_deposit ''alice'' 40 1200 None])"
proof -
  obtain st' r where d: "distribute_funds demo_lib (pool_st 0 demo_pool) (demo_info ''cdp'' []) (demo_env 3000)
      [\<lparr>a_info = NativeToken ''atom'', a_amount = 60\<rparr>] [1000000000000000000] 120 = Inr (st', r)"
    using demo_distribute by blast
  from distribution_is_first_in_first_used[OF d demo_asset(1)]
  have "SP_ASSET st' = Some (demo_pool\<lparr>ap_deposits := fifo_rest (120 * DECIMAL_FRACTIONAL) (ap_deposits demo_pool)\<rparr>)"
    by (simp add: demo_pool_def pool_of_def pool_deposit_def)
  with d show ?thesis by (simp add: demo_pool_def pool_of_def pool_deposit_def DECIMAL_FRACTIONAL_def)
qed

text \<open>
  The capital-ahead query predicts a distribution: a position it reports with at least the
  distributed amount ahead of it is reported again after the distribution, the deposit unchanged and
  the capital ahead lower by exactly that amount (no two deposits sharing their user and time).
\<close>

theorem capital_ahead_protects:
  assumes "distribute_funds L st info env assets ratios n = Inr (st', r)" and "SP_ASSET st = Some pool"
    and "distinct (map (\<lambda>d. (d_user d, d_deposit_time d)) (ap_deposits pool))"
    and "query_capital_ahead_of_deposits L st user = Inr ps"
    and "\<lparr>dp_deposit = d, dp_capital_ahead = a\<rparr> \<in> set ps" and "n * DECIMAL_FRACTIONAL \<le> a"
  shows "\<exists>ps'. query_capital_ahead_of_deposits L st' user = Inr ps' \<and>
    \<lparr>dp_deposit = d, dp_capital_ahead = a - n * DECIMAL_FRACTIONAL\<rparr> \<in> set ps'"
proof -
  let ?rest = "fifo_rest (n * DECIMAL_FRACTIONAL) (ap_deposits pool)"
  obtain u where u: "lib_addr_validate L user = Inr u" "ps = positions_from 0 u (ap_deposits pool)"
    "ap_deposits pool = [] \<or> total_of (ap_deposits pool) < U128_BOUND"
    using assms(2,4) by (auto simp: query_capital_ahead_eq)
  have "total_of (ap_deposits pool) < U128_BOUND" using u(2,3) assms(5) by auto
  then have "total_of ?rest < U128_BOUND"
    using fifo_totals(2)[of "n * DECIMAL_FRACTIONAL" "ap_deposits pool"] by linarith
  moreover have "SP_ASSET st' = Some (pool\<lparr>ap_deposits := ?rest\<rparr>)"
    using distribution_rest[OF assms(1-3)] .
  ultimately have "query_capital_ahead_of_deposits L st' user = Inr (positions_from 0 u ?rest)"
    using u(1) by (auto simp: query_capital_ahead_eq)
  with fifo_rest_position[OF assms(5)[unfolded u(2)] assms(6)] show ?thesis by blast
qed

theorem capital_ahead_protects_witness:
  "\<exists>st' r ps'. distribute_funds demo_lib (pool_st 0 demo_pool) (demo_info ''cdp'' []) (demo_env 3000)
      [\<lparr>a_info = NativeToken ''atom'', a_amount = 60\<rparr>] [1000000000000000000] 120 = Inr (st', r) \<and>
    query_capital_ahead_of_deposits demo_lib st' ''alice'' = Inr ps' \<and>
    \<lparr>dp_deposit = pool_deposit ''alice'' 40 1200 None, dp_capital_ahead = 30 * 1000000000000000000\<rparr> \<in> set ps'"
proof -
  obtain st' r where d: "distribute_funds demo_lib (pool_st 0 demo_pool) (demo_info ''cdp'' []) (demo_env 3000)
      [\<lparr>a_info = NativeToken ''atom'', a_amount = 60\<rparr>] [1000000000000000000] 120 = Inr (st', r)"
    using demo_distribute by blast
  have q: "query_capital_ahead_of_deposits demo_lib (pool_st 0 demo_pool) ''alice'' =
      Inr (positions_from 0 ''alice'' (ap_deposits demo_pool))"
    by (simp add: query_capital_ahead_eq demo_pool_def pool_of_def pool_deposit_def U128_BOUND_def)
  show ?thesis
    using capital_ahead_protects[OF d demo_asset(1) _ q, of "pool_deposit ''alice'' 40 1200 None"
        "150 * 1000000000000000000"] d
    by (auto simp: demo_pool_def pool_of_def pool_deposit_def DECIMAL_FRACTIONAL_def)
qed

text \<open>
  Deposits of one user, amount and time are not told apart: a distribution that uses up the first
  of two of them removes the other as well, although only one of them was distributed for, so the pool
  loses at least twice the amount. Withdrawing half of a deposit makes such a pair: unstaking splits it
  into two deposits of the same amount and time.
\<close>

theorem equal_deposits_vanish_together:
  assumes "distribute_funds L st info env assets ratios n = Inr (st', r)" and "SP_ASSET st = Some pool"
    and "ap_deposits pool = d # rest" and "d_amount d = n * DECIMAL_FRACTIONAL" and "0 < n"
    and "e \<in> set rest" and "same_key d e"
  shows "\<exists>pool'. SP_ASSET st' = Some pool' \<and> e \<notin> set (ap_deposits pool') \<and>
    total_of (ap_deposits pool') + 2 * (n * DECIMAL_FRACTIONAL) \<le> total_of (ap_deposits pool)"
  using distribute_funds_pool_edit[OF assms(1,2)]
proof (elim exE conjE)
  fix es
  assume ed: "edit_deposits (ap_deposits pool) (fifo_used (n * DECIMAL_FRACTIONAL) (ap_deposits pool)) = Inr es"
    and st': "SP_ASSET st' = Some (pool\<lparr>ap_deposits := es\<rparr>)"
  from ed have "edit_deposits (d # rest) (fifo_used (d_amount d) (d # rest)) = Inr es"
    by (simp add: assms(3,4))
  from edit_twins[OF this assms(6,7)] st' show ?thesis
    using assms(4,5) by (simp add: assms(3))
qed

theorem equal_deposits_vanish_together_witness:
  "\<exists>st1 r1 st2 r2 pool'. withdraw demo_lib (pool_st 0 half_pool) (demo_env 2000) (demo_info ''alice'' []) 50
      = Inr (st1, r1) \<and>
    distribute_funds demo_lib st1 (demo_info ''cdp'' []) (demo_env 2000)
      [\<lparr>a_info = NativeToken ''atom'', a_amount = 25\<rparr>] [1000000000000000000] 50 = Inr (st2, r2) \<and>
    SP_ASSET st2 = Some pool' \<and> total_of (ap_deposits pool') = 0"
proof -
  let ?st1 = "(pool_st 0 twin_pool)\<lparr>SP_USERS := Map.empty\<rparr>"
  obtain r1 where w: "withdraw demo_lib (pool_st 0 half_pool) (demo_env 2000) (demo_info ''alice'' []) 50
     = Inr (?st1, r1)" using demo_half by blast
  obtain st2 r2 where d: "distribute_funds demo_lib ?st1 (demo_info ''cdp'' []) (demo_env 2000)
      [\<lparr>a_info = NativeToken ''atom'', a_amount = 25\<rparr>] [1000000000000000000] 50 = Inr (st2, r2)"
    using demo_distribute_twins by blast
  have "\<exists>pool'. SP_ASSET st2 = Some pool' \<and> total_of (ap_deposits pool') = 0"
    using equal_deposits_vanish_together[OF d, of twin_pool "hd (ap_deposits twin_pool)"
        "tl (ap_deposits twin_pool)" "last (ap_deposits twin_pool)"]
    by (auto simp: twin_pool_def pool_of_def pool_deposit_def DECIMAL_FRACTIONAL_def)
  then obtain pool' where "SP_ASSET st2 = Some pool'" "total_of (ap_deposits pool') = 0" by blast
  with w d show ?thesis by blast
qed

text \<open>
  The shares of a distribution: each user that was used appears once, with the total of the
  deposits used, and the users' ratios add up to at most one.
\<close>

theorem shares_add_up:
  assumes "get_distribution_ratios ds = Inr (rs, us)"
  shows "distinct (map d_user us) \<and> d_user ` set us = d_user ` set ds \<and>
    (\<forall>u. total_of (own u us) = total_of (own u ds)) \<and> length rs = length us \<and>
    (\<forall>i < length us. rs ! i = total_of (own (d_user (us ! i)) ds) * DECIMAL_FRACTIONAL div total_of ds) \<and>
    sum_list rs \<le> DECIMAL_FRACTIONAL"
proof -
  note R = distribution_ratios_ok[OF assms]
  have "d_amount (us ! i) = total_of (own (d_user (us ! i)) ds)" if "i < length us" for i
  proof -
    have "own (d_user (us ! i)) us = [us ! i]" using own_single that R by simp
    moreover have "total_of (own (d_user (us ! i)) us) = total_of (own (d_user (us ! i)) ds)" using R by blast
    ultimately show ?thesis by simp
  qed
  with R distribution_ratios_le_one[OF assms] show ?thesis by (auto simp: nth_map)
qed

theorem shares_add_up_witness:
  "\<exists>rs us. get_distribution_ratios (ap_deposits demo_pool) = Inr (rs, us) \<and> sum_list rs \<le> DECIMAL_FRACTIONAL"
proof -
  obtain rs us where "get_distribution_ratios (ap_deposits demo_pool) = Inr (rs, us)"
    using demo_ratios by blast
  then show ?thesis using shares_add_up by blast
qed

text \<open>
  C28. A distribution credits only users with deposits, and of every asset but the incentive token
  the claims of all users together grow by at most what was distributed.
\<close>

theorem distribution_credits_fit:
  assumes "distribute_funds L st info env assets ratios n = Inr (st', r)" and "SP_ASSET st = Some pool"
    and "coins_ok L" and "SP_CONFIG st = Some config"
  shows "(\<forall>v denom. v \<notin> d_user ` set (ap_deposits pool) \<longrightarrow> claim_of st' v denom = claim_of st v denom) \<and>
    (\<forall>denom. denom \<noteq> spc_mbrn_denom config \<longrightarrow>
       claims_sum (d_user ` set (ap_deposits pool)) denom st' \<le>
       claims_sum (d_user ` set (ap_deposits pool)) denom st + asset_sum denom assets)"
  using distribute_funds_effect[OF assms] by blast

theorem distribution_credits_fit_witness:
  "\<exists>st' r. distribute_funds demo_lib (pool_st 0 demo_pool) (demo_info ''cdp'' []) (demo_env 3000)
      [\<lparr>a_info = NativeToken ''atom'', a_amount = 60\<rparr>] [1000000000000000000] 120 = Inr (st', r) \<and>
    claims_sum {''alice'', ''bob''} ''atom'' st' \<le> 60"
proof -
  obtain st' r where d: "distribute_funds demo_lib (pool_st 0 demo_pool) (demo_info ''cdp'' []) (demo_env 3000)
      [\<lparr>a_info = NativeToken ''atom'', a_amount = 60\<rparr>] [1000000000000000000] 120 = Inr (st', r)"
    using demo_distribute by blast
  have "claims_sum (d_user ` set (ap_deposits demo_pool)) ''atom'' st' \<le>
      claims_sum (d_user ` set (ap_deposits demo_pool)) ''atom'' (pool_st 0 demo_pool)
      + asset_sum ''atom'' [\<lparr>a_info = NativeToken ''atom'', a_amount = 60\<rparr>]"
    using distribution_credits_fit[OF d demo_asset(1) demo_coins_ok demo_asset(2)]
    by (simp add: pool_config_def)
  moreover have "d_user ` set (ap_deposits demo_pool) = {''alice'', ''bob''}"
    by (auto simp: demo_pool_def pool_of_def pool_deposit_def)
  ultimately show ?thesis using d by (simp add: claims_sum_def claim_of_def asset_sum_def)
qed

text \<open>
  C21. No message but a configuration update takes the incentive counter past its cap: once within
  \<open>max_incentives\<close> it stays within it, whatever accrues.
\<close>

theorem incentives_stay_capped:
  assumes "sp_execute L st env info m = Inr (st', r)" and "\<forall>u. m \<noteq> SpUpdateConfig u"
    and "sp_inv st" and "coins_ok L"
    and "\<forall>c t. SP_CONFIG st = Some c \<longrightarrow> SP_INCENTIVES st = Some t \<longrightarrow> t \<le> spc_max_incentives c"
    and "SP_CONFIG st' = Some c" and "SP_INCENTIVES st' = Some t"
  shows "t \<le> spc_max_incentives c"
  using sp_execute_cap[OF assms(1-4)] assms(5-7) by (auto simp: within_cap_def)

theorem incentives_stay_capped_witness:
  "\<exists>st' r t. sp_execute demo_lib (pool_st 9999995 rich_pool) (demo_env 31536000) (demo_info ''alice'' []) SpClaimRewards
      = Inr (st', r) \<and> SP_INCENTIVES st' = Some t \<and> t \<le> 10000000"
proof -
  obtain st' r t where c: "sp_execute demo_lib (pool_st 9999995 rich_pool) (demo_env 31536000) (demo_info ''alice'' [])
      SpClaimRewards = Inr (st', r)" "SP_INCENTIVES st' = Some t" "SP_CONFIG st' = Some pool_config"
    using demo_claim_rich by auto
  have "sp_inv (pool_st 9999995 rich_pool)"
    by (simp add: sp_inv_def pool_ok_def rich_pool_def pool_of_def pool_deposit_def DECIMAL_FRACTIONAL_def)
  from incentives_stay_capped[OF c(1) _ this demo_coins_ok _ c(3,2)]
  have "t \<le> 10000000" by (simp add: pool_config_def)
  with c show ?thesis by blast
qed

text \<open>
  C38. When the counter is above the cap (the owner can set \<open>max_incentives\<close> below what has accrued;
  the accepted range of one to ten million ends far below the default of ten trillion), no claim
  succeeds and no depositor can withdraw.
\<close>

theorem lowered_cap_blocks_users:
  assumes "SP_CONFIG st = Some config" and "SP_ASSET st = Some pool" and "SP_INCENTIVES st = Some t"
    and "spc_max_incentives config < t"
  shows "(\<forall>x. claim L st env info \<noteq> Inr x) \<and>
    ((\<exists>d\<in>set (ap_deposits pool). d_user d = sender info) \<longrightarrow> (\<forall>y. withdraw L st env info n \<noteq> Inr y))"
proof -
  have over: "over_cap config st" using assms(3,4) by (simp add: over_cap_def)
  have "withdraw L st env info n \<noteq> Inr y" if "d \<in> set (ap_deposits pool)" "d_user d = sender info" for d y
    by (rule withdraw_over_cap[OF assms(1,2) over]) (use that in \<open>auto simp: own_def filter_empty_conv\<close>)
  with claim_over_cap[OF assms(1) over] show ?thesis by blast
qed

theorem lowered_cap_blocks_users_witness:
  "\<exists>st' r. sp_update_config demo_lib (pool_st 5000000 demo_pool) (demo_info ''owner'' [])
      \<lparr>spu_owner = None, spu_incentive_rate = None, spu_max_incentives = Some 1000000,
       spu_unstaking_period = None, spu_minimum_deposit_amount = None, spu_osmosis_proxy = None,
       spu_positions_contract = None, spu_oracle_contract = None, spu_mbrn_denom = None\<rparr> = Inr (st', r) \<and>
    (\<forall>x. claim demo_lib st' (demo_env 100000) (demo_info ''bob'' []) \<noteq> Inr x) \<and>
    (\<forall>y. withdraw demo_lib st' (demo_env 100000) (demo_info ''bob'' []) 20 \<noteq> Inr y)"
proof -
  let ?st = "(pool_st 5000000 demo_pool)\<lparr>SP_CONFIG := Some (pool_config\<lparr>spc_max_incentives := 1000000\<rparr>)\<rparr>"
  obtain r where u: "sp_update_config demo_lib (pool_st 5000000 demo_pool) (demo_info ''owner'' [])
      \<lparr>spu_owner = None, spu_incentive_rate = None, spu_max_incentives = Some 1000000,
       spu_unstaking_period = None, spu_minimum_deposit_amount = None, spu_osmosis_proxy = None,
       spu_positions_contract = None, spu_oracle_contract = None, spu_mbrn_denom = None\<rparr> = Inr (?st, r)"
    by (simp add: sp_update_config_def sp_update_fields_def optional_def sp_config_load_def demo_info_def
        pool_config_def pool_st_def)
  have "SP_CONFIG ?st = Some (pool_config\<lparr>spc_max_incentives := 1000000\<rparr>)" "SP_ASSET ?st = Some demo_pool"
    "SP_INCENTIVES ?st = Some 5000000" "spc_max_incentives (pool_config\<lparr>spc_max_incentives := 1000000\<rparr>) < 5000000"
    by simp_all
  note B = lowered_cap_blocks_users[OF this, of demo_lib "demo_env 100000" "demo_info ''bob'' []" 20]
  have "\<exists>d\<in>set (ap_deposits demo_pool). d_user d = sender (demo_info ''bob'' [])"
    by (simp add: demo_pool_def pool_of_def pool_deposit_def demo_info_def)
  with u B show ?thesis by blast
qed

text \<open>
  A second withdrawal while a deposit unstakes moves its accrual time past the start of its
  unstaking; from then on every claim of its owner aborts, the elapsed time underflows.
\<close>

theorem claim_aborts_after_second_withdrawal:
  assumes "SP_CONFIG st = Some config" and "SP_ASSET st = Some pool" and "d \<in> set (ap_deposits pool)"
    and "d_user d = sender info" and "d_unstake_time d = Some t" and "t < d_last_accrued d"
  shows "claim L st env info = Inl Panic"
proof -
  have "rmap_state (user_incentive_item env (sender info) (spc_incentive_rate config)) (ap_deposits pool) s
      = Inl Panic" for s
    by (rule incentive_loop_panics[OF assms(3-6)])
  then show ?thesis
    using assms(1,2) by (simp add: claim_def get_user_incentives_def sp_config_load_def asset_load_def)
qed

theorem claim_aborts_after_second_withdrawal_witness:
  "\<exists>st1 r1 st2 r2. withdraw demo_lib (pool_st 0 half_pool) (demo_env 2000) (demo_info ''alice'' []) 50 = Inr (st1, r1) \<and>
    withdraw demo_lib st1 (demo_env 2060) (demo_info ''alice'' []) 0 = Inr (st2, r2) \<and>
    claim demo_lib st2 (demo_env 3000) (demo_info ''alice'' []) = Inl Panic"
proof -
  let ?st1 = "(pool_st 0 twin_pool)\<lparr>SP_USERS := Map.empty\<rparr>"
  obtain r1 where w1: "withdraw demo_lib (pool_st 0 half_pool) (demo_env 2000) (demo_info ''alice'' []) 50
     = Inr (?st1, r1)" using demo_half by blast
  obtain st2 r2 pool d where w2: "withdraw demo_lib ?st1 (demo_env 2060) (demo_info ''alice'' []) 0 = Inr (st2, r2)"
    and p: "SP_CONFIG st2 = Some pool_config" "SP_ASSET st2 = Some pool" "d \<in> set (ap_deposits pool)"
    "d_user d = ''alice''" "d_unstake_time d = Some 2000" "d_last_accrued d = 2060"
    using demo_second_withdrawal by blast
  have "claim demo_lib st2 (demo_env 3000) (demo_info ''alice'' []) = Inl Panic"
    by (rule claim_aborts_after_second_withdrawal[OF p(1,2,3) _ p(5)]) (simp_all add: p demo_info_def)
  with w1 w2 show ?thesis by blast
qed

text \<open>
  A claim pays the sender and nobody else: the messages mint and send, to the sender, exactly
  what was credited to the sender (the incentives that have accrued included), the sender's entry is
  deleted, and the claims of all others and the amounts of all deposits stay.
\<close>

theorem sp_claim_pays_the_sender:
  assumes "claim L st env info = Inr (st', r)" and "SP_ASSET st = Some pool" and "coins_ok L"
  shows "\<exists>config inc coins pool'. SP_CONFIG st = Some config \<and>
    (\<forall>denom. amount_of denom coins =
       claim_of st (sender info) denom + (if denom = spc_mbrn_denom config then inc else 0)) \<and>
    messages r = map (\<lambda>c. WasmExecute (spc_osmosis_proxy config)
         (MintTokens (spc_mbrn_denom config) (c_amount c) (sender info)) [])
         (filter (\<lambda>c. c_denom c = spc_mbrn_denom config) coins) @
       (if filter (\<lambda>c. c_denom c \<noteq> spc_mbrn_denom config) coins = [] then []
        else [BankSend (sender info) (filter (\<lambda>c. c_denom c \<noteq> spc_mbrn_denom config) coins)]) \<and>
    SP_USERS st' = (SP_USERS st)(sender info := None) \<and> SP_ASSET st' = Some pool' \<and>
    ap_credit_asset pool' = ap_credit_asset pool \<and>
    (\<forall>u. total_of (own u (ap_deposits pool')) = total_of (own u (ap_deposits pool)))"
  using assms(1,2)
proof (rule claim_ok)
  fix config t inc pool' coins
  assume a: "SP_CONFIG st = Some config"
    "\<And>d. coins_ok L \<Longrightarrow> amount_of d coins = claim_of st (sender info) d + (if d = spc_mbrn_denom config then inc else 0)"
    "st' = st\<lparr>SP_ASSET := Some pool', SP_INCENTIVES := Some (t + inc),
       SP_USERS := (SP_USERS st)(sender info := None)\<rparr>"
    "messages r = map (\<lambda>c. WasmExecute (spc_osmosis_proxy config)
         (MintTokens (spc_mbrn_denom config) (c_amount c) (sender info)) [])
         (filter (\<lambda>c. c_denom c = spc_mbrn_denom config) coins) @
       (if filter (\<lambda>c. c_denom c \<noteq> spc_mbrn_denom config) coins = [] then []
        else [BankSend (sender info) (filter (\<lambda>c. c_denom c \<noteq> spc_mbrn_denom config) coins)])"
    and p: "pool_retimed (sender info) pool pool'"
  from a pool_retimed_ok(2,5)[OF p] assms(3) show ?thesis
    by (intro exI[of _ config] exI[of _ inc] exI[of _ coins] exI[of _ pool']) simp
qed

theorem sp_claim_pays_the_sender_witness:
  "\<exists>st' r. claim demo_lib (pool_st 9999995 rich_pool) (demo_env 31536000) (demo_info ''alice'' []) = Inr (st', r) \<and>
     SP_USERS st' = Map.empty"
proof -
  obtain st' r where c: "claim demo_lib (pool_st 9999995 rich_pool) (demo_env 31536000) (demo_info ''alice'' []) = Inr (st', r)"
    using demo_claim_rich by auto
  from sp_claim_pays_the_sender[OF c demo_asset(1) demo_coins_ok] c show ?thesis by auto
qed

text \<open>
  Deposits and the amount the pool counts move together: every message keeps the difference of
  the two, except that a liquidation opens it by exactly what it repays and a distribution never
  opens it further.
\<close>

theorem only_liquidations_open_the_gap:
  assumes "sp_execute L st env info m = Inr (st', r)" and "SP_ASSET st = Some p" and "pool_ok p"
  shows "\<exists>p'. SP_ASSET st' = Some p' \<and> pool_ok p' \<and>
    (if is_distribute m then pool_gap p' \<le> pool_gap p
     else pool_gap p' = pool_gap p + int (DECIMAL_FRACTIONAL * liquidated m r))"
  by (rule sp_execute_pool[OF assms])

theorem only_liquidations_open_the_gap_witness:
  "\<exists>st' r p'. sp_execute demo_lib (pool_st 0 demo_pool) (demo_env 3000) (demo_info ''cdp'' [])
      (SpLiquidate (120 * DECIMAL_FRACTIONAL)) = Inr (st', r) \<and> SP_ASSET st' = Some p' \<and>
      pool_gap p' = int (DECIMAL_FRACTIONAL * 120)"
proof -
  obtain st' r where e: "sp_execute demo_lib (pool_st 0 demo_pool) (demo_env 3000) (demo_info ''cdp'' [])
      (SpLiquidate (120 * DECIMAL_FRACTIONAL)) = Inr (st', r)"
    and l: "liquidated (SpLiquidate (120 * DECIMAL_FRACTIONAL)) r = 120"
    using demo_liquidate by blast
  have "pool_gap demo_pool = 0" by (simp add: pool_gap_def demo_pool_def pool_of_def pool_deposit_def DECIMAL_FRACTIONAL_def)
  with only_liquidations_open_the_gap[OF e demo_asset(1) demo_pool_ok] l e show ?thesis
    by (auto simp: is_distribute_def)
qed

text \<open>
  The liquidatible query previews a liquidation: the leftover the query reports is the leftover
  the liquidation then reports, cut to whole units, and the repayment sent is the rest of the request.
\<close>

theorem sp_preview_matches_liquidation:
  assumes "liquidate L st info n = Inr (st', r)" and "SP_ASSET st = Some pool"
    and "sp_query_liquidatible st n = Inr left"
  shows "\<exists>config leftover. SP_CONFIG st = Some config \<and>
    (''leftover_repayment'', AText (lib_decimal_to_string L leftover)) \<in> set (attributes r) \<and>
    left = leftover div DECIMAL_FRACTIONAL * DECIMAL_FRACTIONAL \<and>
    messages r = [WasmExecute (spc_positions_contract config) LiqRepay
       [\<lparr>c_denom = ai_denom (a_info (ap_credit_asset pool)),
         c_amount = n div DECIMAL_FRACTIONAL - left div DECIMAL_FRACTIONAL\<rparr>]]"
  using assms(1,2)
proof (rule liquidate_ok)
  fix config pr repay
  let ?a = "a_amount (ap_credit_asset pool)"
  assume a: "SP_CONFIG st = Some config" "repay = min ?a (n div DECIMAL_FRACTIONAL)"
    "messages r = [WasmExecute (spc_positions_contract config) LiqRepay
       [\<lparr>c_denom = ai_denom (a_info (ap_credit_asset pool)), c_amount = repay\<rparr>]]"
    "(''leftover_repayment'', AText (lib_decimal_to_string L (n - ?a * DECIMAL_FRACTIONAL))) \<in> set (attributes r)"
  have left: "left = (n div DECIMAL_FRACTIONAL - ?a) * DECIMAL_FRACTIONAL"
    using assms(2,3)
    by (auto simp: sp_query_liquidatible_def sp_load_ok dec_one_ok int_ok dec_percent_def Let_def
        elim!: rbind_InrE split: if_split_asm)
  have "(n - ?a * DECIMAL_FRACTIONAL) div DECIMAL_FRACTIONAL = n div DECIMAL_FRACTIONAL - ?a"
    by (rule div_diff_mult) simp
  with a left show ?thesis
    by (intro exI[of _ config] exI[of _ "n - ?a * DECIMAL_FRACTIONAL"]) (simp add: min_def)
qed

theorem sp_preview_matches_liquidation_witness:
  "\<exists>st' r. liquidate demo_lib (pool_st 0 demo_pool) (demo_info ''cdp'' []) (200 * DECIMAL_FRACTIONAL) = Inr (st', r) \<and>
    sp_query_liquidatible (pool_st 0 demo_pool) (200 * DECIMAL_FRACTIONAL) = Inr (10 * DECIMAL_FRACTIONAL) \<and>
    messages r = [WasmExecute ''cdp'' LiqRepay [\<lparr>c_denom = ''cdt'', c_amount = 190\<rparr>]]"
proof -
  obtain st' r where l: "liquidate demo_lib (pool_st 0 demo_pool) (demo_info ''cdp'' []) (200 * DECIMAL_FRACTIONAL) = Inr (st', r)"
    and q: "sp_query_liquidatible (pool_st 0 demo_pool) (200 * DECIMAL_FRACTIONAL) = Inr (10 * DECIMAL_FRACTIONAL)"
    using demo_preview_pool by blast
  from sp_preview_matches_liquidation[OF l demo_asset(1) q] l q show ?thesis
    by (auto simp: pool_config_def demo_pool_def pool_of_def)
qed

end
