(* ===== verification/CDP_State.thy ===== *)
theory CDP_State
  imports SP_State
begin

text \<open>
  Debt positions: the stored data (\<open>contracts/cdp/src/state.rs\<close>, the types of
  \<open>packages/membrane/src/types.rs\<close> and \<open>cdp.rs\<close>), the errors (\<open>error.rs\<close>), the queries the contract
  sends to other contracts, and the position store (\<open>get_target_position\<close>, \<open>update_position\<close>).

  \<open>querier\<close> is what the other contracts and the chain answer: an arbitrary function per query, which
  may fail. A query that fails, for whatever reason, is an error to the caller.
\<close>

section \<open>Data\<close>

record cAsset =
  ca_asset :: Asset
  ca_max_borrow_LTV :: decimal
  ca_max_LTV :: decimal
  ca_rate_index :: decimal
  ca_pool_info :: "PoolInfo option"
  ca_hike_rates :: "bool option"

abbreviation ca_info :: "cAsset \<Rightarrow> AssetInfo" where
  "ca_info c \<equiv> a_info (ca_asset c)"

abbreviation ca_amount :: "cAsset \<Rightarrow> uint128" where
  "ca_amount c \<equiv> a_amount (ca_asset c)"

definition ca_set_amount :: "cAsset \<Rightarrow> uint128 \<Rightarrow> cAsset" where
  "ca_set_amount c n = c\<lparr>ca_asset := (ca_asset c)\<lparr>a_amount := n\<rparr>\<rparr>"

record Position =
  po_position_id :: uint128
  po_collateral_assets :: "cAsset list"
  po_credit_amount :: uint128

record SupplyCap =
  cap_asset_info :: AssetInfo
  cap_current_supply :: uint128
  cap_debt_total :: uint128
  cap_supply_cap_ratio :: decimal
  cap_lp :: bool
  cap_stability_pool_ratio_for_debt_cap :: "decimal option"

record MultiAssetSupplyCap =
  mcap_assets :: "AssetInfo list"
  mcap_supply_cap_ratio :: decimal

record Rate =
  rt_rate :: decimal
  rt_last_time_updated :: u64

record Basket =
  bk_basket_id :: uint128
  bk_current_position_id :: uint128
  bk_collateral_types :: "cAsset list"
  bk_collateral_supply_caps :: "SupplyCap list"
  bk_lastest_collateral_rates :: "Rate list"
  bk_multi_asset_supply_caps :: "MultiAssetSupplyCap list"
  bk_credit_asset :: Asset
  bk_credit_price :: PriceResponse
  bk_base_interest_rate :: decimal
  bk_pending_revenue :: uint128
  bk_credit_last_accrued :: u64
  bk_rates_last_accrued :: u64
  bk_oracle_set :: bool
  bk_negative_rates :: bool
  bk_frozen :: bool
  bk_rev_to_stakers :: bool
  bk_cpc_margin_of_error :: decimal
  bk_liq_queue :: "addr option"

abbreviation bk_credit :: "Basket \<Rightarrow> uint128" where
  "bk_credit b \<equiv> a_amount (bk_credit_asset b)"

definition bk_set_credit :: "Basket \<Rightarrow> uint128 \<Rightarrow> Basket" where
  "bk_set_credit b n = b\<lparr>bk_credit_asset := (bk_credit_asset b)\<lparr>a_amount := n\<rparr>\<rparr>"

record cdp_config =
  cc_owner :: addr
  cc_stability_pool :: "addr option"
  cc_dex_router :: "addr option"
  cc_staking_contract :: "addr option"
  cc_osmosis_proxy :: "addr option"
  cc_debt_auction :: "addr option"
  cc_oracle_contract :: "addr option"
  cc_liquidity_contract :: "addr option"
  cc_discounts_contract :: "addr option"
  cc_liq_fee :: decimal
  cc_collateral_twap_timeframe :: u64
  cc_credit_twap_timeframe :: u64
  cc_oracle_time_limit :: u64
  cc_cpc_multiplier :: decimal
  cc_debt_minimum :: uint128
  cc_base_debt_cap_multiplier :: uint128
  cc_rate_slope_multiplier :: decimal
  cc_rate_hike_rate :: "decimal option"

record StoredPrice =
  spr_price :: PriceResponse
  spr_last_time_updated :: u64

record CollateralVolatility =
  vol_index :: decimal
  vol_list :: "decimal list"

record PositionRedemption =
  red_position_id :: uint128
  red_remaining_loan_repayment :: uint128
  red_restricted_collateral_assets :: "string list"

record RedemptionInfo =
  ri_position_owner :: addr
  ri_position_infos :: "PositionRedemption list"

record LiquidationPropagation =
  lp_per_asset_repayment :: "decimal list"
  lp_liq_queue_repayment :: decimal
  lp_stability_pool :: decimal
  lp_user_repay_amount :: decimal
  lp_positions_contract :: addr
  lp_sp_liq_fee :: decimal
  lp_cAsset_ratios :: "decimal list"
  lp_cAsset_prices :: "PriceResponse list"
  lp_target_position :: Position
  lp_liquidated_assets :: "cAsset list"
  lp_caller_fee_value_paid :: decimal
  lp_total_repaid :: decimal
  lp_position_owner :: addr
  lp_basket :: Basket
  lp_config :: cdp_config

record WithdrawPropagation =
  wp_positions_prev_collateral :: "Asset list"
  wp_withdraw_amounts :: "uint128 list"
  wp_contracts_prev_collateral_amount :: "uint128 list"
  wp_position_info :: UserInfo

record Timer =
  tm_start_time :: u64
  tm_end_time :: u64

text \<open>
  The errors. \<open>CdpStd e\<close> is a standard error; \<open>CdpGeneric e\<close> is \<open>StdError::GenericErr\<close> with the text of
  \<open>e\<close>, \<open>CdpAtLine n e\<close> the same behind \<open>"Error at line n: "\<close>; the constructors from \<open>CdpOverCap\<close> on are
  the formatted \<open>CustomError\<close> and \<open>GenericErr\<close> texts with the values they print.
\<close>

datatype cdp_error =
    CdpStd std_error
  | CdpGeneric cdp_error
  | CdpAtLine nat cdp_error
  | CdpUnauthorized addr
  | CdpInvalidCollateral
  | CdpInvalidCredit
  | CdpFrozen
  | CdpPositionSolvent
  | CdpPositionInsolvent "bool \<times> decimal \<times> uint128"
  | CdpNoUserPositions
  | CdpNonExistentPosition uint128
  | CdpInvalidWithdrawal
  | CdpNoRepaymentPrice
  | CdpBelowMinimumDebt uint128 uint128
  | CdpNotContractOwner
  | CdpFaultyCalc string
  | CdpInvalidLTV decimal
  | CdpInvalidMaxLTV decimal
  | CdpMaxPositionsReached
  | CdpCustomError string
  | CdpOverCap AssetInfo decimal decimal
  | CdpOverMultiCap "AssetInfo list" decimal decimal
  | CdpExpunged "string list"
  | CdpRateHikeAsset AssetInfo
  | CdpDivisionByZero decimal decimal
  | CdpGracePeriod u64
  | CdpInvalidReplyId nat

record cdp_storage =
  CD_CONFIG :: "cdp_config option"
  CD_BASKET :: "Basket option"
  CD_POSITIONS :: "addr \<rightharpoonup> Position list"
  CD_VOLATILITY :: "string \<rightharpoonup> CollateralVolatility"
  CD_STORED_PRICES :: "string \<rightharpoonup> StoredPrice"
  CD_REDEMPTION_OPT_IN :: "nat \<rightharpoonup> RedemptionInfo list"
  CD_OWNERSHIP_TRANSFER :: "addr option"
  CD_WITHDRAW :: "WithdrawPropagation option"
  CD_LIQUIDATION :: "LiquidationPropagation option"
  CD_FREEZE_TIMER :: "Timer option"
  CD_CONTRACT :: "(string \<times> string) option"

type_synonym 'a cdp_result = "(cdp_error, 'a) result"

text \<open>A message of a response with its reply: none, on success or on error, with the reply's id.\<close>

datatype sub_msg =
    Plain cosmos_msg
  | ReplyOnSuccess cosmos_msg nat
  | ReplyOnError cosmos_msg nat

datatype cdp_debug =
    DbgCdpConfig cdp_config | DbgBasket Basket | DbgAssetList "Asset list" | DbgCAssets "cAsset list" | DbgIds "uint128 list"
  | DbgCoinList "Coin list" | DbgDecimal decimal | DbgPoolTypes "PoolType list"
  | DbgPropagation "LiquidationPropagation option" | DbgAssetValue Asset

record cdp_response =
  cr_messages :: "sub_msg list"
  cr_attributes :: "cdp_debug attr list"

section \<open>Queries to other contracts\<close>

type_synonym 'a answer = "std_error + 'a"

record querier =
  qr_prices :: "addr \<Rightarrow> AssetInfo list \<Rightarrow> u64 \<Rightarrow> u64 \<Rightarrow> PriceResponse list answer"
  qr_oracle_assets :: "addr \<Rightarrow> AssetInfo list \<Rightarrow> unit answer"
  qr_liquidity :: "addr \<Rightarrow> AssetInfo \<Rightarrow> uint128 answer"
  qr_owner :: "addr \<Rightarrow> addr \<Rightarrow> (decimal \<times> decimal option) answer"
  qr_sp_raw :: "addr \<Rightarrow> (std_error, uint128) result"
  qr_sp_pool :: "addr \<Rightarrow> string option \<Rightarrow> nat option \<Rightarrow> nat option \<Rightarrow> AssetPool answer"
  qr_discount :: "addr \<Rightarrow> string \<Rightarrow> decimal answer"
  qr_balance :: "addr \<Rightarrow> string \<Rightarrow> uint128 answer"
  qr_lq_liquidatible :: "addr \<Rightarrow> AssetInfo \<Rightarrow> PriceResponse \<Rightarrow> uint256 \<Rightarrow> AssetInfo \<Rightarrow> PriceResponse \<Rightarrow>
    (string \<times> string) answer"
  qr_mbrn_denom :: "addr \<Rightarrow> string answer"
  qr_pool_state :: "addr \<Rightarrow> u64 \<Rightarrow> (Coin list \<times> Coin) answer"
  qr_recovered :: "bool answer"

definition ask :: "'a answer \<Rightarrow> 'a cdp_result" where
  "ask m = (case m of Inl e \<Rightarrow> Inl (Failed (CdpStd e)) | Inr x \<Rightarrow> Inr x)"

lemma ask_ok [res_ok]: "ask m = Inr x \<longleftrightarrow> m = Inr x"
  by (auto simp: ask_def split: sum.splits)

text \<open>\<open>unwrap_or_else(|| Addr::unchecked("")).to_string()\<close> of an optional contract.\<close>

definition addr_or_empty :: "addr option \<Rightarrow> addr" where
  "addr_or_empty a = (case a of None \<Rightarrow> [] | Some x \<Rightarrow> x)"

section \<open>Loads\<close>

definition cdp_config_load :: "cdp_storage \<Rightarrow> cdp_config cdp_result" where
  "cdp_config_load st = ok_or (CdpStd (NotFound ''Config'')) (CD_CONFIG st)"

definition basket_load :: "cdp_storage \<Rightarrow> Basket cdp_result" where
  "basket_load st = ok_or (CdpStd (NotFound ''Basket'')) (CD_BASKET st)"

lemma cdp_load_ok [res_ok]:
  "cdp_config_load st = Inr c \<longleftrightarrow> CD_CONFIG st = Some c"
  "basket_load st = Inr b \<longleftrightarrow> CD_BASKET st = Some b"
  by (auto simp: cdp_config_load_def basket_load_def res_ok)

definition u128_mul :: "nat \<Rightarrow> nat \<Rightarrow> ('e, nat) result" where
  "u128_mul a b = (if a * b < U128_BOUND then Inr (a * b) else Inl Panic)"

definition dec_mul :: "decimal \<Rightarrow> decimal \<Rightarrow> ('e, decimal) result" where
  "dec_mul a b =
     (let p = a * b div DECIMAL_FRACTIONAL in if p < U128_BOUND then Inr p else Inl Panic)"

lemma mul_ok [res_ok]:
  "u128_mul a b = Inr c \<longleftrightarrow> c = a * b \<and> a * b < U128_BOUND"
  "dec_mul a b = Inr d \<longleftrightarrow> d = a * b div DECIMAL_FRACTIONAL \<and> d < U128_BOUND"
  by (auto simp: u128_mul_def dec_mul_def Let_def)

text \<open>Indexing and removing: out of bounds aborts.\<close>

definition at_index :: "'a list \<Rightarrow> nat \<Rightarrow> ('e, 'a) result" where
  "at_index xs i = (if i < length xs then Inr (xs ! i) else Inl Panic)"

definition remove_at :: "'a list \<Rightarrow> nat \<Rightarrow> ('e, 'a list) result" where
  "remove_at xs i = (if i < length xs then Inr (take i xs @ drop (Suc i) xs) else Inl Panic)"

definition update_at :: "'a list \<Rightarrow> nat \<Rightarrow> 'a \<Rightarrow> ('e, 'a list) result" where
  "update_at xs i x = (if i < length xs then Inr (xs[i := x]) else Inl Panic)"

lemma index_ok [res_ok]:
  "at_index xs i = Inr x \<longleftrightarrow> i < length xs \<and> x = xs ! i"
  "remove_at xs i = Inr ys \<longleftrightarrow> i < length xs \<and> ys = take i xs @ drop (Suc i) xs"
  "update_at xs i y = Inr ys \<longleftrightarrow> i < length xs \<and> ys = xs[i := y]"
  by (auto simp: at_index_def remove_at_def update_at_def)

text \<open>\<open>into_iter().enumerate().find(..)\<close>: the first match with its index.\<close>

definition find_index_of :: "('a \<Rightarrow> bool) \<Rightarrow> 'a list \<Rightarrow> (nat \<times> 'a) option" where
  "find_index_of P xs = find (\<lambda>(i, x). P x) (enumerate 0 xs)"

lemma find_enumerate:
  "find (\<lambda>(i, x). P x) (enumerate n xs) = Some (i, x) \<longleftrightarrow>
     n \<le> i \<and> i - n < length xs \<and> x = xs ! (i - n) \<and> P x \<and> (\<forall>j < i - n. \<not> P (xs ! j))"
proof (induction xs arbitrary: n)
  case Nil
  then show ?case by simp
next
  case (Cons y ys)
  show ?case
  proof (cases "P y")
    case True
    then show ?thesis by (auto simp: nth_Cons split: nat.splits)
  next
    case False
    have "i - n = Suc (i - Suc n)" if "Suc n \<le> i" using that by simp
    then show ?thesis using Cons.IH[of "Suc n"] False
      by (auto simp: nth_Cons less_Suc_eq_0_disj split: nat.splits)
  qed
qed

lemma find_index_of_Some [res_ok]:
  "find_index_of P xs = Some (i, x) \<longleftrightarrow> i < length xs \<and> x = xs ! i \<and> P x \<and> (\<forall>j < i. \<not> P (xs ! j))"
  by (simp add: find_index_of_def find_enumerate)

lemma find_index_of_None: "find_index_of P xs = None \<longleftrightarrow> (\<forall>x\<in>set xs. \<not> P x)"
proof -
  have "find (\<lambda>(i, x). P x) (enumerate n xs) = None \<longleftrightarrow> (\<forall>x\<in>set xs. \<not> P x)" for n
    by (induction xs arbitrary: n) auto
  then show ?thesis by (simp add: find_index_of_def)
qed

section \<open>The position store\<close>

definition get_target_position ::
  "cdp_storage \<Rightarrow> addr \<Rightarrow> uint128 \<Rightarrow> (nat \<times> Position) cdp_result" where
  "get_target_position st valid_position_owner position_id =
     (case CD_POSITIONS st valid_position_owner of
        None \<Rightarrow> Inl (Failed CdpNoUserPositions)
      | Some positions \<Rightarrow>
          (case find_index_of (\<lambda>x. po_position_id x = position_id) positions of
             Some found \<Rightarrow> Inr found
           | None \<Rightarrow> Inl (Failed (CdpNonExistentPosition position_id))))"

definition update_position :: "cdp_storage \<Rightarrow> addr \<Rightarrow> Position \<Rightarrow> cdp_storage cdp_result" where
  "update_position st valid_position_owner new_position =
     (case CD_POSITIONS st valid_position_owner of
        Some old_positions \<Rightarrow>
          let new_positions = map (\<lambda>stored_position.
                if po_position_id stored_position = po_position_id new_position then new_position
                else stored_position) old_positions in
          Inr (st\<lparr>CD_POSITIONS := (CD_POSITIONS st)(valid_position_owner \<mapsto> new_positions)\<rparr>)
      | None \<Rightarrow> Inl (Failed (CdpStd (GenericErr ''Invalid position owner''))))"

lemma get_target_position_ok [res_ok]:
  "get_target_position st u k = Inr (i, p) \<longleftrightarrow> (\<exists>ps. CD_POSITIONS st u = Some ps \<and> i < length ps \<and>
     p = ps ! i \<and> po_position_id p = k \<and> (\<forall>j < i. po_position_id (ps ! j) \<noteq> k))"
proof (cases "CD_POSITIONS st u")
  case None
  then show ?thesis by (simp add: get_target_position_def)
next
  case (Some ps)
  then have "get_target_position st u k = Inr (i, p) \<longleftrightarrow>
      find_index_of (\<lambda>x. po_position_id x = k) ps = Some (i, p)"
    by (simp add: get_target_position_def split: option.split)
  with Some show ?thesis by (auto simp: find_index_of_Some)
qed

lemma update_position_ok [res_ok]:
  "update_position st u p = Inr st' \<longleftrightarrow> (\<exists>ps. CD_POSITIONS st u = Some ps \<and>
     st' = st\<lparr>CD_POSITIONS := (CD_POSITIONS st)(u \<mapsto>
       map (\<lambda>q. if po_position_id q = po_position_id p then p else q) ps)\<rparr>)"
  by (auto simp: update_position_def Let_def split: option.splits)

end
