(* ===== verification/CDP_Prices.thy ===== *)
theory CDP_Prices
  imports CDP_State
begin

text \<open>
  Debt positions: prices, values and solvency (the helpers of \<open>contracts/cdp/src/query.rs\<close>):
  stored prices and the oracle query (\<open>query_prices\<close>), the ratios of a list of collateral with the
  volatility tracking it does on the way (\<open>get_cAsset_ratios\<close>), average loan-to-value limits and the
  insolvency check.
\<close>

definition VOLATILITY_LIST_LIMIT :: nat where "VOLATILITY_LIST_LIMIT = 48"

section \<open>Prices\<close>

text \<open>
  The first loop of \<open>query_prices\<close>: a stored price within the time limit is used, and its asset taken
  off the list to query.
\<close>

definition stored_price_turn ::
  "cdp_storage \<Rightarrow> Env \<Rightarrow> cdp_config \<Rightarrow> bool \<Rightarrow> AssetInfo \<Rightarrow>
   (string \<times> PriceResponse) list \<times> AssetInfo list \<Rightarrow>
   ((string \<times> PriceResponse) list \<times> AssetInfo list) cdp_result" where
  "stored_price_turn st env config is_deposit_function asset_info = (\<lambda>(prices, bulk_asset_query).
     rbind (case CD_STORED_PRICES st (asset_info_to_string asset_info) of
              None \<Rightarrow> Inr None
            | Some stored_price \<Rightarrow>
                rbind (u64_sub (time_seconds env) (spr_last_time_updated stored_price))
                  (\<lambda>time_elapsed.
                if time_elapsed \<le> cc_oracle_time_limit config then Inr (Some (spr_price stored_price))
                else Inr None)) (\<lambda>old_price.
     if \<not> is_deposit_function then
       (case old_price of
          Some old_price \<Rightarrow>
            Inr (prices @ [(asset_info_to_string asset_info, old_price)],
              filter (\<lambda>asset. \<not> asset_info_equal asset asset_info) bulk_asset_query)
        | None \<Rightarrow> Inr (prices, bulk_asset_query))
     else Inr (prices, bulk_asset_query)))"

text \<open>
  The loop that orders the prices: the inner loop walks a copy of \<open>prices\<close> and removes from the
  original by the copy's index.
\<close>

definition sort_prices_inner ::
  "AssetInfo \<Rightarrow> nat \<times> string \<times> PriceResponse \<Rightarrow>
   PriceResponse list \<times> (string \<times> PriceResponse) list \<Rightarrow>
   (PriceResponse list \<times> (string \<times> PriceResponse) list) cdp_result" where
  "sort_prices_inner asset_info = (\<lambda>(i, asset, price) (sorted_prices, prices).
     if asset = asset_info_to_string asset_info then
       rbind (remove_at prices i) (\<lambda>prices. Inr (sorted_prices @ [price], prices))
     else Inr (sorted_prices, prices))"

definition sort_prices_turn ::
  "AssetInfo \<Rightarrow> PriceResponse list \<times> (string \<times> PriceResponse) list \<Rightarrow>
   (PriceResponse list \<times> (string \<times> PriceResponse) list) cdp_result" where
  "sort_prices_turn asset_info = (\<lambda>(sorted_prices, prices).
     rfold (sort_prices_inner asset_info) (enumerate 0 prices) (sorted_prices, prices))"

definition query_prices ::
  "cdp_storage \<Rightarrow> querier \<Rightarrow> Env \<Rightarrow> cdp_config \<Rightarrow> AssetInfo list \<Rightarrow> Basket option \<Rightarrow> bool \<Rightarrow>
   PriceResponse list cdp_result" where
  "query_prices st Q env config asset_infos basket is_deposit_function =
     rbind (case basket of Some basket \<Rightarrow> Inr basket | None \<Rightarrow> basket_load st) (\<lambda>basket.
     rbind (at_index asset_infos 0) (\<lambda>first.
     let twap_timeframe = (if asset_info_equal first (a_info (bk_credit_asset basket))
           then cc_credit_twap_timeframe config else cc_collateral_twap_timeframe config) in
     rbind (rfold (stored_price_turn st env config is_deposit_function) asset_infos ([], asset_infos))
       (\<lambda>(prices, bulk_asset_query).
     rbind (if bulk_asset_query \<noteq> [] then
              rbind (ask (qr_prices Q (addr_or_empty (cc_oracle_contract config)) bulk_asset_query
                       twap_timeframe (cc_oracle_time_limit config))) (\<lambda>res.
              rbind (rmapM (\<lambda>(i, price). rbind (at_index bulk_asset_query i) (\<lambda>asset.
                       Inr (asset_info_to_string asset, price))) (enumerate 0 res)) (\<lambda>new_prices.
              Inr (prices @ new_prices)))
            else Inr prices) (\<lambda>prices.
     rbind (rfold sort_prices_turn asset_infos ([], prices)) (\<lambda>(sorted_prices, prices).
     Inr sorted_prices)))))"

definition get_asset_values ::
  "cdp_storage \<Rightarrow> Env \<Rightarrow> querier \<Rightarrow> cAsset list \<Rightarrow> cdp_config \<Rightarrow> Basket option \<Rightarrow> bool \<Rightarrow>
   (decimal list \<times> PriceResponse list) cdp_result" where
  "get_asset_values st env Q assets config basket is_deposit_function =
     (if 50 < length assets
      then Inl (Failed (CdpStd (GenericErr ''Max asset_infos length is 50'')))
      else if cc_oracle_contract config \<noteq> None \<and> 0 < length assets then
        rbind (query_prices st Q env config (map ca_info assets) basket is_deposit_function)
          (\<lambda>cAsset_prices.
        rbind (rmapM (\<lambda>(i, cAsset). rbind (at_index cAsset_prices i) (\<lambda>price.
                 map_err CdpStd (price_get_value price (ca_amount cAsset)))) (enumerate 0 assets))
          (\<lambda>cAsset_values.
        Inr (cAsset_values, cAsset_prices)))
      else Inr ([], []))"

section \<open>Volatility\<close>

text \<open>
  One asset of \<open>get_cAsset_ratios\<close>: a price that differs from the stored one is stored, and its speed
  of change moves the volatility index, which never passes one.
\<close>

definition new_volatility_index ::
  "CollateralVolatility \<Rightarrow> decimal \<Rightarrow> decimal \<Rightarrow> CollateralVolatility cdp_result" where
  "new_volatility_index volatility_store new_volatility speed_of_volatility =
     (let volatility_list = vol_list volatility_store @ [speed_of_volatility] in
      rbind (if VOLATILITY_LIST_LIMIT < length volatility_list then remove_at volatility_list 0
             else Inr volatility_list) (\<lambda>volatility_list.
      rbind (dec_sum volatility_list) (\<lambda>total.
      rbind (dec_of_uint (length volatility_list)) (\<lambda>count.
      rbind (map_err CdpStd (decimal_division total count)) (\<lambda>avg_volatility.
      rbind (map_err CdpStd (decimal_division avg_volatility speed_of_volatility))
        (\<lambda>change_in_index.
      let change_in_index = (if change_in_index < DECIMAL_FRACTIONAL then
              (case dec_checked_sub DECIMAL_FRACTIONAL new_volatility of
                 Inr diff \<Rightarrow> diff | Inl _ \<Rightarrow> dec_percent 1)
            else change_in_index) in
      rbind (map_err CdpStd (decimal_multiplication (vol_index volatility_store) change_in_index))
        (\<lambda>index.
      Inr \<lparr>vol_index = min DECIMAL_FRACTIONAL index, vol_list = volatility_list\<rparr>)))))))"

definition abs_diff :: "nat \<Rightarrow> nat \<Rightarrow> nat" where
  "abs_diff a b = (if a < b then b - a else a - b)"

definition track_price ::
  "Env \<Rightarrow> PriceResponse list \<Rightarrow> nat \<times> cAsset \<Rightarrow> cdp_storage \<Rightarrow> cdp_storage cdp_result" where
  "track_price env cAsset_prices = (\<lambda>(i, cAsset) st.
     let key = asset_info_to_string (ca_info cAsset) in
     rbind (at_index cAsset_prices i) (\<lambda>price.
     let new_price = \<lparr>spr_price = price, spr_last_time_updated = time_seconds env\<rparr> in
     case CD_STORED_PRICES st key of
       Some stored_price \<Rightarrow>
         if pr_price (spr_price stored_price) \<noteq> pr_price price then
           let st = st\<lparr>CD_STORED_PRICES := (CD_STORED_PRICES st)(key \<mapsto> new_price)\<rparr>;
               volatility_store = (case CD_VOLATILITY st key of Some v \<Rightarrow> v
                 | None \<Rightarrow> \<lparr>vol_index = DECIMAL_FRACTIONAL, vol_list = []\<rparr>) in
           rbind (map_err CdpStd (decimal_division
                    (abs_diff (pr_price price) (pr_price (spr_price stored_price)))
                    (pr_price (spr_price stored_price)))) (\<lambda>new_volatility.
           rbind (u64_sub (time_seconds env) (spr_last_time_updated stored_price)) (\<lambda>time_elapsed.
           rbind (dec_of_uint time_elapsed) (\<lambda>elapsed.
           let speed_of_volatility = (case decimal_division new_volatility elapsed of
                 Inr speed \<Rightarrow> speed | Inl _ \<Rightarrow> 0) in
           rbind (new_volatility_index volatility_store new_volatility speed_of_volatility)
             (\<lambda>volatility_store.
           Inr (st\<lparr>CD_VOLATILITY := (CD_VOLATILITY st)(key \<mapsto> volatility_store)\<rparr>)))))
         else Inr st
     | None \<Rightarrow> Inr (st\<lparr>CD_STORED_PRICES := (CD_STORED_PRICES st)(key \<mapsto> new_price)\<rparr>)))"

definition value_ratios :: "decimal list \<Rightarrow> decimal list cdp_result" where
  "value_ratios cAsset_values =
     rbind (dec_sum cAsset_values) (\<lambda>total_value.
     rmapM (\<lambda>cAsset. if total_value = 0 then Inr 0
              else map_err CdpStd (decimal_division cAsset total_value)) cAsset_values)"

definition get_cAsset_ratios ::
  "cdp_storage \<Rightarrow> Env \<Rightarrow> querier \<Rightarrow> cAsset list \<Rightarrow> cdp_config \<Rightarrow> Basket option \<Rightarrow>
   (cdp_storage \<times> decimal list \<times> PriceResponse list) cdp_result" where
  "get_cAsset_ratios st env Q collateral_assets config basket =
     rbind (get_asset_values st env Q collateral_assets config basket False)
       (\<lambda>(cAsset_values, cAsset_prices).
     rbind (rfold (track_price env cAsset_prices) (enumerate 0 collateral_assets) st) (\<lambda>st.
     rbind (value_ratios cAsset_values) (\<lambda>cAsset_ratios.
     Inr (st, cAsset_ratios, cAsset_prices))))"

definition get_cAsset_ratios_imut ::
  "cdp_storage \<Rightarrow> Env \<Rightarrow> querier \<Rightarrow> cAsset list \<Rightarrow> cdp_config \<Rightarrow> Basket option \<Rightarrow>
   (decimal list \<times> PriceResponse list) cdp_result" where
  "get_cAsset_ratios_imut st env Q collateral_assets config basket =
     rbind (get_asset_values st env Q collateral_assets config basket False)
       (\<lambda>(cAsset_values, cAsset_prices).
     rbind (value_ratios cAsset_values) (\<lambda>cAsset_ratios.
     Inr (cAsset_ratios, cAsset_prices)))"

section \<open>Loan to value\<close>

text \<open>Average borrow limit, average liquidation limit, total value, prices and ratios.\<close>

type_synonym avg_LTVs = "decimal \<times> decimal \<times> decimal \<times> PriceResponse list \<times> decimal list"

definition weighted_LTV :: "decimal list \<Rightarrow> decimal list \<Rightarrow> decimal cdp_result" where
  "weighted_LTV cAsset_ratios limits =
     rfold (\<lambda>(i, limit) avg.
       rbind (at_index cAsset_ratios i) (\<lambda>ratio.
       rbind (map_err CdpStd (decimal_multiplication ratio limit)) (\<lambda>part.
       dec_add avg part))) (enumerate 0 limits) 0"

definition calculate_avg_LTV ::
  "decimal list \<Rightarrow> PriceResponse list \<Rightarrow> cAsset list \<Rightarrow> avg_LTVs cdp_result" where
  "calculate_avg_LTV cAsset_values cAsset_prices collateral_assets =
     rbind (dec_sum cAsset_values) (\<lambda>total_value.
     rbind (value_ratios cAsset_values) (\<lambda>cAsset_ratios.
     if cAsset_ratios = [] then Inr (dec_percent 0, dec_percent 0, dec_percent 0, [], [])
     else if length cAsset_ratios = 1 then
       rbind (at_index collateral_assets 0) (\<lambda>cAsset.
       Inr (ca_max_borrow_LTV cAsset, ca_max_LTV cAsset, total_value, cAsset_prices, cAsset_ratios))
     else
       rbind (weighted_LTV cAsset_ratios (map ca_max_borrow_LTV collateral_assets))
         (\<lambda>avg_borrow_LTV.
       rbind (weighted_LTV cAsset_ratios (map ca_max_LTV collateral_assets)) (\<lambda>avg_max_LTV.
       Inr (avg_borrow_LTV, avg_max_LTV, total_value, cAsset_prices, cAsset_ratios)))))"

definition get_avg_LTV ::
  "cdp_storage \<Rightarrow> Env \<Rightarrow> querier \<Rightarrow> cdp_config \<Rightarrow> Basket option \<Rightarrow> cAsset list \<Rightarrow> bool \<Rightarrow>
   avg_LTVs cdp_result" where
  "get_avg_LTV st env Q config basket collateral_assets is_deposit_function =
     rbind (case basket of Some basket \<Rightarrow> Inr basket | None \<Rightarrow> basket_load st) (\<lambda>basket.
     rbind (get_asset_values st env Q collateral_assets config (Some basket) is_deposit_function)
       (\<lambda>(cAsset_values, cAsset_price_res).
     calculate_avg_LTV cAsset_values cAsset_price_res collateral_assets))"

section \<open>Insolvency\<close>

definition available_fee_of :: "avg_LTVs \<Rightarrow> decimal \<Rightarrow> decimal \<Rightarrow> uint128 cdp_result" where
  "available_fee_of avg_LTVs debt_value current_LTV = (case avg_LTVs of (borrow_LTV, max_LTV, _) \<Rightarrow>
     rbind (map_err CdpStd (dec_checked_sub current_LTV max_LTV)) (\<lambda>fee.
     rbind (map_err CdpStd (dec_checked_sub current_LTV borrow_LTV)) (\<lambda>liq_range.
     rbind (map_err (\<lambda>_. CdpDivisionByZero liq_range current_LTV)
              (dec_checked_div liq_range current_LTV)) (\<lambda>part.
     rbind (map_err CdpStd (dec_checked_mul part debt_value)) (\<lambda>part.
     rbind (map_err CdpStd (dec_checked_mul part fee)) (\<lambda>part.
     dec_times_one part))))))"

definition insolvency_check_calc ::
  "avg_LTVs \<Rightarrow> cAsset list \<Rightarrow> uint128 \<Rightarrow> PriceResponse \<Rightarrow> bool \<Rightarrow>
   (bool \<times> decimal \<times> uint128) cdp_result" where
  "insolvency_check_calc avg_LTVs collateral_assets credit_amount credit_price max_borrow =
     rbind (dec_sum (map ca_amount collateral_assets)) (\<lambda>total_assets.
     if total_assets = 0 \<and> credit_amount \<noteq> 0 then Inr (True, dec_percent 100, 0)
     else if credit_amount = 0 then Inr (False, dec_percent 0, 0)
     else
       case avg_LTVs of (borrow_LTV, max_LTV, total_asset_value, _) \<Rightarrow>
       rbind (map_err CdpStd (price_get_value credit_price credit_amount)) (\<lambda>debt_value.
       rbind (map_err (\<lambda>_. CdpDivisionByZero debt_value total_asset_value)
                (dec_checked_div debt_value total_asset_value)) (\<lambda>current_LTV.
       let check = (if max_borrow then borrow_LTV < current_LTV else max_LTV < current_LTV) in
       rbind (if check \<and> max_LTV < current_LTV then available_fee_of avg_LTVs debt_value current_LTV
              else Inr 0) (\<lambda>available_fee.
       Inr (check, current_LTV, available_fee)))))"

definition insolvency_check ::
  "cdp_storage \<Rightarrow> Env \<Rightarrow> querier \<Rightarrow> Basket option \<Rightarrow> cAsset list \<Rightarrow> uint128 \<Rightarrow> PriceResponse \<Rightarrow>
   bool \<Rightarrow> cdp_config \<Rightarrow> ((bool \<times> decimal \<times> uint128) \<times> avg_LTVs) cdp_result" where
  "insolvency_check st env Q basket collateral_assets credit_amount credit_price max_borrow config =
     rbind (get_avg_LTV st env Q config basket collateral_assets False) (\<lambda>avg_LTVs.
     rbind (insolvency_check_calc avg_LTVs collateral_assets credit_amount credit_price max_borrow)
       (\<lambda>res.
     Inr (res, avg_LTVs)))"

end
