(* ===== verification/CDP_Risk.thy ===== *)
theory CDP_Risk
  imports CDP_Prices
begin

text \<open>
  Debt positions: supply caps and debt caps (\<open>contracts/cdp/src/risk_engine.rs\<close>), the caps adjusted by
  volatility (\<open>transform_caps_based_on_volatility\<close> of \<open>rates.rs\<close>) and the claims of a position
  (\<open>update_position_claims\<close> of \<open>state.rs\<close>).
\<close>

definition assert_basket_assets :: "cdp_storage \<Rightarrow> Asset list \<Rightarrow> cAsset list cdp_result" where
  "assert_basket_assets st assets =
     rbind (basket_load st) (\<lambda>basket.
     rmapM (\<lambda>asset.
       rbind (ok_or CdpInvalidCollateral
                (find (\<lambda>cAsset. asset_info_equal (ca_info cAsset) (a_info asset))
                   (bk_collateral_types basket))) (\<lambda>cAsset.
       Inr (cAsset\<lparr>ca_asset := asset\<rparr>))) assets)"

definition transform_cap :: "cdp_storage \<Rightarrow> SupplyCap \<Rightarrow> SupplyCap cdp_result" where
  "transform_cap st cap =
     (case CD_VOLATILITY st (asset_info_to_string (cap_asset_info cap)) of
        Some vol_store \<Rightarrow>
          if length (vol_list vol_store) = VOLATILITY_LIST_LIMIT then
            Inr (cap\<lparr>cap_supply_cap_ratio :=
              (case decimal_multiplication (cap_supply_cap_ratio cap) (vol_index vol_store) of
                 Inr new_supply_cap \<Rightarrow> new_supply_cap | Inl _ \<Rightarrow> cap_supply_cap_ratio cap)\<rparr>)
          else Inr cap
      | None \<Rightarrow> Inr cap)"

definition transform_caps_based_on_volatility ::
  "cdp_storage \<Rightarrow> Basket \<Rightarrow> SupplyCap list cdp_result" where
  "transform_caps_based_on_volatility st basket =
     rmapM (transform_cap st) (bk_collateral_supply_caps basket)"

text \<open>The caps every caller uses: transformed, or as they are when that fails.\<close>

definition volatility_caps :: "cdp_storage \<Rightarrow> Basket \<Rightarrow> SupplyCap list cdp_result" where
  "volatility_caps st basket =
     rcatch (transform_caps_based_on_volatility st basket)
       (\<lambda>_. Inr (bk_collateral_supply_caps basket))"

section \<open>The tally\<close>

definition has_asset :: "AssetInfo \<Rightarrow> cAsset list \<Rightarrow> bool" where
  "has_asset info cAssets \<longleftrightarrow> find_index_of (\<lambda>cAsset. asset_info_equal (ca_info cAsset) info) cAssets \<noteq> None"

definition tally_asset :: "bool \<Rightarrow> cAsset \<Rightarrow> Basket \<Rightarrow> Basket cdp_result" where
  "tally_asset add_to_cAsset cAsset basket =
     (case find_index_of (\<lambda>cap. asset_info_equal (cap_asset_info cap) (ca_info cAsset))
             (bk_collateral_supply_caps basket) of
        Some (index, cap) \<Rightarrow>
          rbind (if add_to_cAsset then u128_add (cap_current_supply cap) (ca_amount cAsset)
                 else Inr (if ca_amount cAsset \<le> cap_current_supply cap
                           then cap_current_supply cap - ca_amount cAsset else 0)) (\<lambda>supply.
          let cap = cap\<lparr>cap_current_supply := supply\<rparr> in
          rbind (update_at (bk_collateral_supply_caps basket) index cap) (\<lambda>caps.
          rbind (at_index (bk_collateral_types basket) index) (\<lambda>collateral.
          rbind (update_at (bk_collateral_types basket) index (ca_set_amount collateral supply))
            (\<lambda>types.
          Inr (basket\<lparr>bk_collateral_supply_caps := caps, bk_collateral_types := types\<rparr>)))))
      | None \<Rightarrow> Inr basket)"

text \<open>
  Whether a cap over its limit stops the message: on a deposit when the asset is deposited, on a
  withdrawal when it stays in the position.
\<close>

definition blocked_by_withdrawal ::
  "cAsset list \<Rightarrow> cAsset list \<Rightarrow> AssetInfo \<Rightarrow> bool \<Rightarrow> bool" where
  "blocked_by_withdrawal collateral_assets full_positions_assets info in_position =
     (let in_position = (if has_asset info full_positions_assets then True else in_position) in
      if has_asset info collateral_assets then
        if has_asset info full_positions_assets then 1 < length full_positions_assets else False
      else in_position)"

definition blocked_by ::
  "bool \<Rightarrow> cAsset list \<Rightarrow> cAsset list \<Rightarrow> AssetInfo \<Rightarrow> bool \<Rightarrow> bool" where
  "blocked_by add_to_cAsset collateral_assets full_positions_assets info in_position =
     (if add_to_cAsset then (if has_asset info collateral_assets then True else in_position)
      else blocked_by_withdrawal collateral_assets full_positions_assets info in_position)"

definition check_supply_cap ::
  "Basket \<Rightarrow> SupplyCap list \<Rightarrow> bool \<Rightarrow> cAsset list \<Rightarrow> cAsset list \<Rightarrow> nat \<times> decimal \<Rightarrow> unit cdp_result" where
  "check_supply_cap basket supply_caps add_to_cAsset collateral_assets full_positions_assets =
     (\<lambda>(i, ratio).
     rbind (if add_to_cAsset \<and> collateral_assets = [] then Inr False
            else if \<not> add_to_cAsset \<and> full_positions_assets = [] \<and> collateral_assets = []
            then Inr False
            else rbind (at_index supply_caps i) (\<lambda>cap.
              Inr (blocked_by add_to_cAsset collateral_assets full_positions_assets
                     (cap_asset_info cap) False))) (\<lambda>in_position.
     if bk_collateral_supply_caps basket \<noteq> [] then
       rbind (at_index supply_caps i) (\<lambda>cap.
       if cap_supply_cap_ratio cap < ratio \<and> in_position then
         rbind (at_index (bk_collateral_supply_caps basket) i) (\<lambda>basket_cap.
         Inl (Failed (CdpOverCap (cap_asset_info basket_cap) ratio (cap_supply_cap_ratio cap))))
       else Inr ())
     else Inr ()))"

definition multi_cap_asset ::
  "Basket \<Rightarrow> decimal list \<Rightarrow> bool \<Rightarrow> cAsset list \<Rightarrow> cAsset list \<Rightarrow> AssetInfo \<Rightarrow> decimal \<times> bool \<Rightarrow>
   (decimal \<times> bool) cdp_result" where
  "multi_cap_asset basket ratios add_to_cAsset collateral_assets full_positions_assets asset =
     (\<lambda>(total_ratio, in_position).
     rbind (case find_index_of (\<lambda>cap. asset_info_equal (cap_asset_info cap) asset)
                   (bk_collateral_supply_caps basket) of
              Some (i, _) \<Rightarrow> rbind (at_index ratios i) (\<lambda>ratio. dec_add total_ratio ratio)
            | None \<Rightarrow> Inr total_ratio) (\<lambda>total_ratio.
     Inr (total_ratio,
       blocked_by add_to_cAsset collateral_assets full_positions_assets asset in_position)))"

definition check_multi_cap ::
  "Basket \<Rightarrow> decimal list \<Rightarrow> bool \<Rightarrow> cAsset list \<Rightarrow> cAsset list \<Rightarrow> MultiAssetSupplyCap \<Rightarrow>
   unit cdp_result" where
  "check_multi_cap basket ratios add_to_cAsset collateral_assets full_positions_assets multi_asset_cap =
     rbind (rfold (multi_cap_asset basket ratios add_to_cAsset collateral_assets
              full_positions_assets) (mcap_assets multi_asset_cap) (0, False))
       (\<lambda>(total_ratio, in_position).
     if mcap_supply_cap_ratio multi_asset_cap < total_ratio \<and> in_position
     then Inl (Failed (CdpOverMultiCap (mcap_assets multi_asset_cap) total_ratio
                (mcap_supply_cap_ratio multi_asset_cap)))
     else Inr ())"

definition update_basket_tally ::
  "cdp_storage \<Rightarrow> querier \<Rightarrow> Env \<Rightarrow> Basket \<Rightarrow> cAsset list \<Rightarrow> cAsset list \<Rightarrow> bool \<Rightarrow> cdp_config \<Rightarrow>
   bool \<Rightarrow> (cdp_storage \<times> Basket) cdp_result" where
  "update_basket_tally st Q env basket collateral_assets full_positions_assets add_to_cAsset config
     from_liquidation =
     rbind (rfold (tally_asset add_to_cAsset) collateral_assets basket) (\<lambda>basket.
     rbind (volatility_caps st basket) (\<lambda>supply_caps.
     if \<not> from_liquidation then
       rbind (get_cAsset_ratios st env Q (bk_collateral_types basket) config (Some basket))
         (\<lambda>(st, new_basket_ratios, _).
       rbind (rmapM (check_supply_cap basket supply_caps add_to_cAsset collateral_assets
                full_positions_assets) (enumerate 0 new_basket_ratios)) (\<lambda>_.
       rbind (rmapM (check_multi_cap basket new_basket_ratios add_to_cAsset collateral_assets
                full_positions_assets) (bk_multi_asset_supply_caps basket)) (\<lambda>_.
       Inr (st, basket))))
     else Inr (st, basket)))"

section \<open>Debt caps\<close>

text \<open>The debt of an asset's share of the basket, recorded in its cap and in the volatility cap.\<close>

definition asset_debt :: "Basket \<Rightarrow> decimal \<Rightarrow> uint128 cdp_result" where
  "asset_debt basket ratio =
     rbind (dec_of_uint (bk_credit basket)) (\<lambda>credit.
     Inr (case decimal_multiplication ratio credit of
            Inr debt \<Rightarrow> to_uint_floor debt | Inl _ \<Rightarrow> 0))"

definition set_cap_debt ::
  "Basket \<Rightarrow> decimal list \<Rightarrow> nat \<Rightarrow> cAsset \<Rightarrow> SupplyCap \<Rightarrow> SupplyCap list \<Rightarrow>
   (SupplyCap list \<times> SupplyCap) cdp_result" where
  "set_cap_debt basket cAsset_ratios i cAsset cap supply_caps =
     (if asset_info_equal (cap_asset_info cap) (ca_info cAsset) then
        rbind (at_index cAsset_ratios i) (\<lambda>ratio.
        rbind (asset_debt basket ratio) (\<lambda>debt.
        let cap = cap\<lparr>cap_debt_total := debt\<rparr> in
        rbind (if 0 < length supply_caps then
                 rbind (at_index supply_caps i) (\<lambda>supply_cap.
                 update_at supply_caps i (supply_cap\<lparr>cap_debt_total := debt\<rparr>))
               else Inr supply_caps) (\<lambda>supply_caps.
        Inr (supply_caps, cap))))
      else Inr (supply_caps, cap))"

definition split_debt ::
  "decimal list \<Rightarrow> nat \<times> cAsset \<Rightarrow> Basket \<times> SupplyCap list \<Rightarrow> (Basket \<times> SupplyCap list) cdp_result" where
  "split_debt cAsset_ratios = (\<lambda>(i, cAsset) (basket, supply_caps).
     rbind (rmap_state (set_cap_debt basket cAsset_ratios i cAsset)
              (bk_collateral_supply_caps basket) supply_caps) (\<lambda>(supply_caps, caps).
     Inr (basket\<lparr>bk_collateral_supply_caps := caps\<rparr>, supply_caps)))"

text \<open>The whole debt cap: liquidity of the debt token, the pool's share, and the configured minimum.\<close>

definition stability_pool_liquidity :: "querier \<Rightarrow> cdp_config \<Rightarrow> uint128 cdp_result" where
  "stability_pool_liquidity Q config =
     rcatch (qr_sp_raw Q (addr_or_empty (cc_stability_pool config)))
       (\<lambda>_. rbind (ask (qr_sp_pool Q (addr_or_empty (cc_stability_pool config)) None (Some 1) None))
         (\<lambda>sp_pool. Inr (a_amount (ap_credit_asset sp_pool))))"

definition total_debt_cap ::
  "querier \<Rightarrow> Env \<Rightarrow> cdp_config \<Rightarrow> Basket \<Rightarrow> uint128 option \<Rightarrow> (uint128 \<times> decimal) cdp_result" where
  "total_debt_cap Q env config basket cdt_liquidity =
     rbind (map_err (CdpAtLine 259) (ask (qr_owner Q (addr_or_empty (cc_osmosis_proxy config))
              (contract_address env)))) (\<lambda>(liquidity_multiplier, sp_ratio).
     let liquidity = (case cdt_liquidity of None \<Rightarrow> 0 | Some l \<Rightarrow> l);
         sp_ratio = (case sp_ratio of None \<Rightarrow> 0 | Some r \<Rightarrow> r) in
     rbind (if liquidity = 0 then ask (qr_liquidity Q (addr_or_empty (cc_liquidity_contract config))
              (a_info (bk_credit_asset basket))) else Inr liquidity) (\<lambda>liquidity.
     rbind (dec_of_uint liquidity) (\<lambda>liquidity_dec.
     rbind (map_err CdpStd (decimal_multiplication liquidity_dec liquidity_multiplier)) (\<lambda>base.
     rbind (dec_times_one base) (\<lambda>debt_cap.
     rbind (stability_pool_liquidity Q config) (\<lambda>sp_liquidity.
     rbind (dec_of_uint sp_liquidity) (\<lambda>sp_liquidity.
     rbind (map_err CdpStd (decimal_multiplication sp_liquidity sp_ratio)) (\<lambda>sp_cap_space.
     rbind (dec_times_one sp_cap_space) (\<lambda>space.
     rbind (u128_add debt_cap space) (\<lambda>debt_cap.
     rbind (u128_mul (cc_base_debt_cap_multiplier config) (cc_debt_minimum config)) (\<lambda>minimum.
     let debt_cap = (if debt_cap < minimum then minimum else debt_cap) in
     rbind (rfold (\<lambda>cap debt_cap. case cap_stability_pool_ratio_for_debt_cap cap of
                Some sp_ratio \<Rightarrow>
                  rbind (map_err CdpStd (decimal_multiplication sp_cap_space sp_ratio)) (\<lambda>part.
                  rbind (dec_times_one part) (\<lambda>part. u128_sub debt_cap part))
              | None \<Rightarrow> Inr debt_cap) (bk_collateral_supply_caps basket) debt_cap) (\<lambda>debt_cap.
     Inr (debt_cap, sp_liquidity)))))))))))))"

definition asset_debt_cap ::
  "Basket \<Rightarrow> uint128 \<Rightarrow> decimal \<Rightarrow> nat \<times> decimal \<Rightarrow> uint128 cdp_result" where
  "asset_debt_cap basket debt_cap sp_liquidity = (\<lambda>(i, cAsset_ratio).
     if bk_collateral_supply_caps basket \<noteq> [] then
       rbind (at_index (bk_collateral_supply_caps basket) i) (\<lambda>cap.
       if cap_supply_cap_ratio cap = 0 then Inr 0
       else case cap_stability_pool_ratio_for_debt_cap cap of
          Some sp_ratio \<Rightarrow>
            rbind (map_err CdpStd (decimal_multiplication sp_liquidity sp_ratio)) (\<lambda>part.
            dec_times_one part)
        | None \<Rightarrow> uint128_mul_dec debt_cap cAsset_ratio)
     else uint128_mul_dec debt_cap cAsset_ratio)"

definition get_basket_debt_caps ::
  "cdp_storage \<Rightarrow> querier \<Rightarrow> Env \<Rightarrow> Basket \<Rightarrow> SupplyCap list \<Rightarrow> uint128 option \<Rightarrow>
   (Basket \<times> SupplyCap list \<times> uint128 list) cdp_result" where
  "get_basket_debt_caps st Q env basket supply_caps cdt_liquidity =
     rbind (cdp_config_load st) (\<lambda>config.
     rbind (get_cAsset_ratios_imut st env Q (bk_collateral_types basket) config (Some basket))
       (\<lambda>(cAsset_ratios, _).
     rbind (rfold (split_debt cAsset_ratios) (enumerate 0 (bk_collateral_types basket))
              (basket, supply_caps)) (\<lambda>(basket, supply_caps).
     rbind (total_debt_cap Q env config basket cdt_liquidity) (\<lambda>(debt_cap, sp_liquidity).
     rbind (dec_from_ratio (bk_credit basket) debt_cap) (\<lambda>used.
     let basket = (if DECIMAL_FRACTIONAL \<le> used then basket\<lparr>bk_negative_rates := False\<rparr>
           else basket) in
     rbind (rmapM (asset_debt_cap basket debt_cap sp_liquidity) (enumerate 0 cAsset_ratios))
       (\<lambda>per_asset_debt_caps.
     Inr (basket, supply_caps, per_asset_debt_caps)))))))"

section \<open>Claims of a position\<close>

definition take_from_claims ::
  "AssetInfo \<Rightarrow> uint128 \<Rightarrow> cAsset \<Rightarrow> cAsset cdp_result" where
  "take_from_claims liquidated_asset liquidated_amount c_asset =
     (if asset_info_equal (ca_info c_asset) liquidated_asset then
        rbind (u128_sub (ca_amount c_asset) liquidated_amount) (\<lambda>amount.
        Inr (ca_set_amount c_asset amount))
      else Inr c_asset)"

definition claims_item ::
  "uint128 \<Rightarrow> AssetInfo \<Rightarrow> uint128 \<Rightarrow> Position \<Rightarrow> Position option \<times> uint128 \<Rightarrow>
   ((Position option \<times> uint128) \<times> Position) cdp_result" where
  "claims_item target_id liquidated_asset liquidated_amount pos s =
     (if po_position_id pos = target_id then
        rbind (rmapM (take_from_claims liquidated_asset liquidated_amount)
                 (po_collateral_assets pos)) (\<lambda>collateral_assets.
        Inr ((Some pos, po_credit_amount pos), pos\<lparr>po_collateral_assets := collateral_assets\<rparr>))
      else Inr (s, pos))"

definition blank_cAsset :: "Asset \<Rightarrow> cAsset" where
  "blank_cAsset asset = \<lparr>ca_asset = asset, ca_max_borrow_LTV = 0, ca_max_LTV = 0,
     ca_rate_index = DECIMAL_FRACTIONAL, ca_pool_info = None, ca_hike_rates = Some False\<rparr>"

definition update_position_claims ::
  "cdp_storage \<Rightarrow> querier \<Rightarrow> Env \<Rightarrow> cdp_config \<Rightarrow> uint128 \<Rightarrow> addr \<Rightarrow> AssetInfo \<Rightarrow> uint128 \<Rightarrow>
   cdp_storage cdp_result" where
  "update_position_claims st Q env config target_id position_owner liquidated_asset liquidated_amount =
     rbind (case CD_POSITIONS st position_owner of
              Some old_positions \<Rightarrow>
                rmap_state (claims_item target_id liquidated_asset liquidated_amount) old_positions (None, 0)
            | None \<Rightarrow> Inl (Failed (CdpStd (GenericErr ''Invalid position owner''))))
       (\<lambda>((target_position, credit_amount), new_positions).
     let st = st\<lparr>CD_POSITIONS := (CD_POSITIONS st)(position_owner \<mapsto> new_positions)\<rparr> in
     if credit_amount = 0 then Inr st
     else
       rbind (basket_load st) (\<lambda>basket.
       rbind (unwrap target_position) (\<lambda>target_position.
       rbind (map_err CdpGeneric (update_basket_tally st Q env basket
                [blank_cAsset \<lparr>a_info = liquidated_asset, a_amount = liquidated_amount\<rparr>]
                (po_collateral_assets target_position) False config False)) (\<lambda>(st, basket).
       Inr (st\<lparr>CD_BASKET := Some basket\<rparr>)))))"

end
