(* ===== verification/CDP_Rates.thy ===== *)
theory CDP_Rates
  imports CDP_Risk
begin

text \<open>
  Debt positions: interest (\<open>contracts/cdp/src/rates.rs\<close>): the two-slope rates of the basket
  (\<open>get_interest_rates\<close>), the rate indices, the repayment price and the interest of a position
  (\<open>accrue\<close>). Every function that takes \<open>&mut Basket\<close>, \<open>&mut Position\<close> or
  \<open>&mut Vec<SupplyCap>\<close> returns the new values.
\<close>

definition MINIMUM_LIQUIDITY :: uint128 where "MINIMUM_LIQUIDITY = 2000000000000"

definition accumulate_interest_dec :: "decimal \<Rightarrow> decimal \<Rightarrow> u64 \<Rightarrow> decimal cdp_result" where
  "accumulate_interest_dec decimal rate time_elapsed =
     rbind (dec_from_ratio time_elapsed SECONDS_PER_YEAR) (\<lambda>years.
     rbind (map_err CdpStd (dec_checked_mul rate years)) (\<lambda>applied_rate.
     map_err CdpStd (decimal_multiplication decimal applied_rate)))"

section \<open>Interest rates\<close>

text \<open>The base rate of an asset: the hiked rate, or the basket's rate over the asset's limit.\<close>

definition is_hiked :: "bool option \<Rightarrow> bool" where
  "is_hiked hike_rates \<longleftrightarrow> hike_rates \<noteq> None \<and> the hike_rates"

definition base_rate :: "cdp_config \<Rightarrow> Basket \<Rightarrow> cAsset \<Rightarrow> decimal cdp_result" where
  "base_rate config basket asset =
     (if cc_rate_hike_rate config \<noteq> None \<and> is_hiked (ca_hike_rates asset) then
        unwrap (cc_rate_hike_rate config)
      else
        rbind (map_err CdpStd (decimal_division DECIMAL_FRACTIONAL (ca_max_LTV asset))) (\<lambda>inverse.
        map_err CdpStd (decimal_multiplication (bk_base_interest_rate basket) inverse)))"

text \<open>How full an asset's debt cap and supply cap are; a cap of zero counts as full.\<close>

definition cap_proportions ::
  "uint128 list \<Rightarrow> decimal list \<Rightarrow> nat \<times> SupplyCap \<Rightarrow> (decimal \<times> decimal) cdp_result" where
  "cap_proportions debt_caps basket_ratios = (\<lambda>(i, cap).
     if cap_supply_cap_ratio cap = 0 then Inr (dec_percent 100, dec_percent 100)
     else
       rbind (at_index debt_caps i) (\<lambda>debt_cap.
       if debt_cap = 0 then Inr (0, 0)
       else
         rbind (dec_from_ratio (cap_debt_total cap) debt_cap) (\<lambda>debt_proportion.
         rbind (at_index basket_ratios i) (\<lambda>ratio.
         rbind (map_err CdpStd (decimal_division ratio (cap_supply_cap_ratio cap)))
           (\<lambda>supply_proportion.
         Inr (debt_proportion, supply_proportion))))))"

text \<open>The multiplier of the second slope: one plus the percents over full, times the configured slope.\<close>

definition slope_multiplier :: "cdp_config \<Rightarrow> decimal \<Rightarrow> decimal cdp_result" where
  "slope_multiplier config proportion =
     rbind (map_err CdpStd (decimal_subtraction proportion DECIMAL_FRACTIONAL)) (\<lambda>over.
     rbind (map_err CdpStd (decimal_multiplication over (dec_percent 10000)))
       (\<lambda>percent_over_desired.
     rbind (dec_add percent_over_desired DECIMAL_FRACTIONAL) (\<lambda>multiplier.
     dec_mul multiplier (cc_rate_slope_multiplier config))))"

definition multiplied_rate :: "decimal \<Rightarrow> decimal \<Rightarrow> decimal \<Rightarrow> decimal cdp_result" where
  "multiplied_rate rate proportion multiplier =
     rbind (map_err CdpStd (decimal_multiplication rate proportion)) (\<lambda>pro_rata.
     rbind (map_err CdpStd (decimal_multiplication pro_rata multiplier)) (\<lambda>multiplied.
     Inr (min multiplied DECIMAL_FRACTIONAL)))"

definition debt_slope_rate :: "cdp_config \<Rightarrow> decimal \<Rightarrow> decimal \<Rightarrow> decimal cdp_result" where
  "debt_slope_rate config rate debt_proportion =
     (if DECIMAL_FRACTIONAL < debt_proportion then
        rbind (slope_multiplier config debt_proportion) (\<lambda>multiplier.
        multiplied_rate rate debt_proportion multiplier)
      else
        rbind (map_err CdpStd (decimal_multiplication rate debt_proportion)) (\<lambda>pro_rata.
        Inr (min pro_rata DECIMAL_FRACTIONAL)))"

definition supply_slope_rate :: "cdp_config \<Rightarrow> decimal \<Rightarrow> decimal \<Rightarrow> decimal cdp_result" where
  "supply_slope_rate config rate supply_proportion =
     rbind (slope_multiplier config supply_proportion) (\<lambda>multiplier.
     if cc_rate_hike_rate config \<noteq> None \<and> Some rate = cc_rate_hike_rate config then
       rbind (map_err CdpStd (decimal_multiplication rate supply_proportion)) (\<lambda>pro_rata.
       rbind (map_err CdpStd (decimal_division multiplier (dec_percent 10000))) (\<lambda>hike.
       rbind (dec_add pro_rata hike) (\<lambda>hiked.
       Inr (min hiked DECIMAL_FRACTIONAL))))
     else multiplied_rate rate supply_proportion multiplier)"

definition two_slope_rate ::
  "cdp_config \<Rightarrow> (decimal \<times> decimal) list \<Rightarrow> nat \<times> decimal \<Rightarrow> decimal cdp_result" where
  "two_slope_rate config proportions = (\<lambda>(i, rate).
     rbind (at_index proportions i) (\<lambda>(debt_proportion, supply_proportion).
     if supply_proportion \<le> DECIMAL_FRACTIONAL \<or>
        ((DECIMAL_FRACTIONAL < supply_proportion \<and> DECIMAL_FRACTIONAL < debt_proportion) \<and>
          supply_proportion < debt_proportion)
     then debt_slope_rate config rate debt_proportion
     else supply_slope_rate config rate supply_proportion))"

text \<open>The overage of a multi-asset cap replaces the rates of its assets.\<close>

definition find_cap :: "Basket \<Rightarrow> AssetInfo \<Rightarrow> (nat \<times> SupplyCap) option" where
  "find_cap basket asset =
     find_index_of (\<lambda>cap. asset_info_equal (cap_asset_info cap) asset)
       (bk_collateral_supply_caps basket)"

definition multi_cap_total ::
  "Basket \<Rightarrow> decimal list \<Rightarrow> MultiAssetSupplyCap \<Rightarrow> decimal cdp_result" where
  "multi_cap_total basket basket_ratios multi_asset_cap =
     rfold (\<lambda>asset total_ratio. case find_cap basket asset of
         Some (i, _) \<Rightarrow> rbind (at_index basket_ratios i) (\<lambda>ratio. dec_add total_ratio ratio)
       | None \<Rightarrow> Inr total_ratio) (mcap_assets multi_asset_cap) 0"

definition multi_cap_rate ::
  "cdp_config \<Rightarrow> Basket \<Rightarrow> decimal list \<Rightarrow> (decimal \<times> decimal) list \<Rightarrow> decimal \<Rightarrow> AssetInfo \<Rightarrow>
   decimal list \<Rightarrow> decimal list cdp_result" where
  "multi_cap_rate config basket rates proportions multi_cap_proportion asset two_slope =
     (case find_cap basket asset of
        None \<Rightarrow> Inr two_slope
      | Some (i, _) \<Rightarrow>
          if multi_cap_proportion \<le> DECIMAL_FRACTIONAL then Inr two_slope
          else
            rbind (at_index proportions i) (\<lambda>(debt_proportion, supply_proportion).
            if supply_proportion < multi_cap_proportion \<and> debt_proportion < multi_cap_proportion then
              rbind (slope_multiplier config multi_cap_proportion) (\<lambda>multiplier.
              rbind (at_index rates i) (\<lambda>rate.
              rbind (multiplied_rate rate multi_cap_proportion multiplier) (\<lambda>new_rate.
              update_at two_slope i new_rate)))
            else Inr two_slope))"

definition multi_cap_rates ::
  "cdp_config \<Rightarrow> Basket \<Rightarrow> decimal list \<Rightarrow> (decimal \<times> decimal) list \<Rightarrow> decimal list \<Rightarrow>
   MultiAssetSupplyCap \<Rightarrow> decimal list \<Rightarrow> decimal list cdp_result" where
  "multi_cap_rates config basket rates proportions basket_ratios multi_asset_cap two_slope =
     rbind (multi_cap_total basket basket_ratios multi_asset_cap) (\<lambda>total_ratio.
     rbind (map_err CdpStd (decimal_division total_ratio (mcap_supply_cap_ratio multi_asset_cap)))
       (\<lambda>multi_cap_proportion.
     rfold (multi_cap_rate config basket rates proportions multi_cap_proportion)
       (mcap_assets multi_asset_cap) two_slope))"

definition get_interest_rates ::
  "cdp_storage \<Rightarrow> querier \<Rightarrow> Env \<Rightarrow> Basket \<Rightarrow> SupplyCap list \<Rightarrow> uint128 option \<Rightarrow>
   (cdp_storage \<times> Basket \<times> SupplyCap list \<times> decimal list) cdp_result" where
  "get_interest_rates st Q env basket supply_caps cdt_liquidity =
     rbind (cdp_config_load st) (\<lambda>config.
     rbind (rmapM (base_rate config basket) (bk_collateral_types basket)) (\<lambda>rates.
     rbind (map_err (CdpAtLine 214) (get_basket_debt_caps st Q env basket supply_caps cdt_liquidity))
       (\<lambda>(basket, supply_caps, debt_caps).
     rbind (get_cAsset_ratios st env Q (bk_collateral_types basket) config (Some basket))
       (\<lambda>(st, basket_ratios, _).
     rbind (rmapM (cap_proportions debt_caps basket_ratios) (enumerate 0 supply_caps))
       (\<lambda>proportions.
     rbind (rmapM (two_slope_rate config proportions) (enumerate 0 rates)) (\<lambda>two_slope.
     rbind (rfold (multi_cap_rates config basket rates proportions basket_ratios)
              (bk_multi_asset_supply_caps basket) two_slope) (\<lambda>two_slope.
     Inr (st, basket, supply_caps, two_slope))))))))"

section \<open>Rate indices\<close>

definition redemption_rate :: "bool \<Rightarrow> decimal \<Rightarrow> decimal \<Rightarrow> decimal cdp_result" where
  "redemption_rate negative_rate credit_price_rate rate =
     (if negative_rate then
        if rate < credit_price_rate then Inr 0
        else map_err CdpStd (decimal_subtraction rate credit_price_rate)
      else dec_add rate credit_price_rate)"

definition accrue_rate_index ::
  "decimal list \<Rightarrow> u64 \<Rightarrow> nat \<times> cAsset \<Rightarrow> cAsset cdp_result" where
  "accrue_rate_index interest_rates time_elapsed = (\<lambda>(i, basket_asset).
     rbind (at_index interest_rates i) (\<lambda>rate.
     rbind (accumulate_interest_dec (ca_rate_index basket_asset) rate time_elapsed) (\<lambda>accrued_rate.
     rbind (dec_add (ca_rate_index basket_asset) accrued_rate) (\<lambda>rate_index.
     Inr (basket_asset\<lparr>ca_rate_index := rate_index\<rparr>)))))"

definition update_rate_indices ::
  "cdp_storage \<Rightarrow> querier \<Rightarrow> Env \<Rightarrow> Basket \<Rightarrow> SupplyCap list \<Rightarrow> bool \<Rightarrow> decimal \<Rightarrow> uint128 option \<Rightarrow>
   (cdp_storage \<times> Basket \<times> SupplyCap list) cdp_result" where
  "update_rate_indices st Q env basket supply_caps negative_rate credit_price_rate cdt_liquidity =
     rbind (map_err (CdpAtLine 109) (get_interest_rates st Q env basket supply_caps cdt_liquidity))
       (\<lambda>(st, basket, supply_caps, interest_rates).
     rbind (rmapM (redemption_rate negative_rate credit_price_rate) interest_rates)
       (\<lambda>interest_rates.
     let basket = basket\<lparr>bk_lastest_collateral_rates :=
           map (\<lambda>rate. \<lparr>rt_rate = rate, rt_last_time_updated = time_seconds env\<rparr>) interest_rates\<rparr> in
     rbind (u64_sub (time_seconds env) (bk_rates_last_accrued basket)) (\<lambda>time_elapsed.
     rbind (rmapM (accrue_rate_index interest_rates time_elapsed)
              (enumerate 0 (bk_collateral_types basket))) (\<lambda>collateral_types.
     Inr (st, basket\<lparr>bk_collateral_types := collateral_types,
                     bk_rates_last_accrued := time_seconds env\<rparr>, supply_caps)))))"

text \<open>The rate of a position: the ratio-weighted change of its assets' indices. A product out of
  range panics.\<close>

definition catch_up_index ::
  "Basket \<Rightarrow> decimal list \<Rightarrow> nat \<times> cAsset \<Rightarrow> decimal \<Rightarrow> (decimal \<times> cAsset) cdp_result" where
  "catch_up_index basket ratios = (\<lambda>(i, cAsset) avg_change_in_index.
     case find (\<lambda>basket_asset. asset_info_equal (ca_info basket_asset) (ca_info cAsset))
            (bk_collateral_types basket) of
       None \<Rightarrow> Inr (avg_change_in_index, cAsset)
     | Some basket_asset \<Rightarrow>
         rbind (at_index ratios i) (\<lambda>ratio.
         rbind (map_err CdpStd (decimal_division (ca_rate_index basket_asset) (ca_rate_index cAsset)))
           (\<lambda>change.
         rbind (case decimal_multiplication ratio change of
                  Inr part \<Rightarrow> Inr part | Inl _ \<Rightarrow> Inl Panic) (\<lambda>part.
         rbind (dec_add avg_change_in_index part) (\<lambda>avg_change_in_index.
         Inr (avg_change_in_index,
              cAsset\<lparr>ca_rate_index := ca_rate_index basket_asset\<rparr>))))))"

definition get_credit_rate_of_change ::
  "cdp_storage \<Rightarrow> querier \<Rightarrow> Env \<Rightarrow> cdp_config \<Rightarrow> Basket \<Rightarrow> Position \<Rightarrow> bool \<Rightarrow> decimal \<Rightarrow>
   uint128 option \<Rightarrow> (cdp_storage \<times> Basket \<times> Position \<times> decimal \<times> decimal list) cdp_result" where
  "get_credit_rate_of_change st Q env config basket pos negative_rate credit_price_rate
     cdt_liquidity =
     rbind (map_err (CdpAtLine 400) (get_cAsset_ratios st env Q (po_collateral_assets pos) config
              (Some basket))) (\<lambda>(st, ratios, _).
     rbind (volatility_caps st basket) (\<lambda>supply_caps.
     rbind (map_err (CdpAtLine 416) (update_rate_indices st Q env basket supply_caps negative_rate
              credit_price_rate cdt_liquidity)) (\<lambda>(st, basket, _).
     rbind (rmap_state (catch_up_index basket ratios) (enumerate 0 (po_collateral_assets pos)) 0)
       (\<lambda>(avg_change_in_index, collateral_assets).
     Inr (st, basket, pos\<lparr>po_collateral_assets := collateral_assets\<rparr>, avg_change_in_index,
          ratios)))))"

section \<open>Accrual\<close>

definition get_discounted_interest :: "querier \<Rightarrow> addr \<Rightarrow> string \<Rightarrow> uint128 \<Rightarrow> uint128 cdp_result" where
  "get_discounted_interest Q discounts_contract user undiscounted_interest =
     rbind (ask (qr_discount Q discounts_contract user)) (\<lambda>discount.
     rbind (map_err CdpStd (decimal_subtraction DECIMAL_FRACTIONAL discount))
       (\<lambda>percent_of_interest.
     rbind (dec_of_uint undiscounted_interest) (\<lambda>interest.
     rbind (map_err CdpStd (decimal_multiplication interest percent_of_interest)) (\<lambda>discounted.
     dec_times_one discounted))))"

text \<open>The ratio of the debt token's liquidity to its supply; with no supply it counts as one.\<close>

definition liquidity_ratio_of :: "uint128 \<Rightarrow> uint128 \<Rightarrow> decimal cdp_result" where
  "liquidity_ratio_of liquidity current_supply =
     (if current_supply \<noteq> 0 then
        rbind (dec_of_uint liquidity) (\<lambda>liquidity.
        rbind (dec_of_uint current_supply) (\<lambda>current_supply.
        map_err CdpStd (decimal_division liquidity current_supply)))
      else Inr DECIMAL_FRACTIONAL)"

definition credit_cAsset :: "Basket \<Rightarrow> cAsset" where
  "credit_cAsset basket = \<lparr>ca_asset = bk_credit_asset basket, ca_max_borrow_LTV = 0, ca_max_LTV = 0,
     ca_rate_index = DECIMAL_FRACTIONAL, ca_pool_info = None, ca_hike_rates = Some False\<rparr>"

text \<open>The market price of the debt token, with whether it makes the repayment accrual skip.\<close>

definition credit_twap ::
  "cdp_storage \<Rightarrow> Env \<Rightarrow> querier \<Rightarrow> cdp_config \<Rightarrow> Basket \<Rightarrow> bool \<Rightarrow> (bool \<times> decimal) cdp_result" where
  "credit_twap st env Q config basket is_deposit_function =
     rcatch (rbind (get_asset_values st env Q [credit_cAsset basket] config (Some basket)
                      is_deposit_function) (\<lambda>(_, prices).
             rbind (at_index prices 0) (\<lambda>price.
             if pr_price price = 0 then Inr (True, 0) else Inr (False, pr_price price))))
       (\<lambda>_. Inr (True, 0))"

text \<open>The difference between the market price and the repayment price, and its sign.\<close>

definition price_gap :: "decimal \<Rightarrow> decimal \<Rightarrow> (bool \<times> decimal) cdp_result" where
  "price_gap twap_price credit_price =
     (if credit_price < twap_price then
        rbind (map_err CdpStd (decimal_division twap_price credit_price)) (\<lambda>ratio.
        rbind (map_err CdpStd (decimal_subtraction ratio DECIMAL_FRACTIONAL)) (\<lambda>gap.
        Inr (True, gap)))
      else if twap_price < credit_price then
        rbind (map_err CdpStd (decimal_division credit_price twap_price)) (\<lambda>ratio.
        rbind (map_err CdpStd (decimal_subtraction ratio DECIMAL_FRACTIONAL)) (\<lambda>gap.
        Inr (False, gap)))
      else Inr (False, 0))"

definition move_credit_price ::
  "cdp_config \<Rightarrow> Basket \<Rightarrow> bool \<Rightarrow> decimal \<Rightarrow> u64 \<Rightarrow> (Basket \<times> decimal) cdp_result" where
  "move_credit_price config basket negative_rate price_difference time_elapsed =
     (if bk_cpc_margin_of_error basket < price_difference then
        rbind (map_err CdpStd (decimal_multiplication price_difference (cc_cpc_multiplier config)))
          (\<lambda>credit_price_rate.
        rbind (dec_from_ratio time_elapsed SECONDS_PER_YEAR) (\<lambda>years.
        rbind (map_err CdpStd (dec_checked_mul credit_price_rate years)) (\<lambda>applied_rate.
        rbind (if negative_rate
               then map_err CdpStd (decimal_subtraction DECIMAL_FRACTIONAL applied_rate)
               else dec_add applied_rate DECIMAL_FRACTIONAL) (\<lambda>applied_rate.
        let price = bk_credit_price basket in
        rbind (if \<not> negative_rate \<or> bk_negative_rates basket
               then map_err CdpStd (decimal_multiplication (pr_price price) applied_rate)
               else Inr (pr_price price)) (\<lambda>new_price.
        Inr (basket\<lparr>bk_credit_price := price\<lparr>pr_price := new_price\<rparr>\<rparr>, credit_price_rate))))))
      else Inr (basket, 0))"

text \<open>The first half of \<open>accrue\<close>: the repayment price.\<close>

definition accrue_repayment_price ::
  "cdp_storage \<Rightarrow> querier \<Rightarrow> Env \<Rightarrow> cdp_config \<Rightarrow> Basket \<Rightarrow> bool \<Rightarrow>
   (Basket \<times> bool \<times> decimal \<times> uint128) cdp_result" where
  "accrue_repayment_price st Q env config basket is_deposit_function =
     rbind (u64_sub (time_seconds env) (bk_credit_last_accrued basket)) (\<lambda>time_elapsed.
     rbind (ask (qr_liquidity Q (addr_or_empty (cc_liquidity_contract config))
              (a_info (bk_credit_asset basket)))) (\<lambda>liquidity.
     rbind (liquidity_ratio_of liquidity (bk_credit basket)) (\<lambda>liquidity_ratio.
     let skip_accrual = (liquidity_ratio < dec_percent 3 \<or> liquidity < MINIMUM_LIQUIDITY \<or>
           \<not> bk_oracle_set basket) in
     rbind (credit_twap st env Q config basket is_deposit_function) (\<lambda>(no_price, twap_price).
     if skip_accrual \<or> no_price then Inr (basket, False, 0, liquidity)
     else
       let basket = basket\<lparr>bk_credit_last_accrued := time_seconds env\<rparr> in
       rbind (price_gap twap_price (pr_price (bk_credit_price basket)))
         (\<lambda>(negative_rate, price_difference).
       rbind (move_credit_price config basket negative_rate price_difference time_elapsed)
         (\<lambda>(basket, credit_price_rate).
       Inr (basket, negative_rate, credit_price_rate, liquidity)))))))"

text \<open>The second half: the interest, added to the position, to the basket and to its revenue.\<close>

definition charge_interest ::
  "querier \<Rightarrow> cdp_config \<Rightarrow> string \<Rightarrow> decimal \<Rightarrow> Basket \<Rightarrow> Position \<Rightarrow> (Basket \<times> Position) cdp_result" where
  "charge_interest Q config user rate_of_change basket pos =
     rbind (dec_of_uint (po_credit_amount pos)) (\<lambda>credit.
     rbind (map_err CdpStd (decimal_multiplication credit rate_of_change)) (\<lambda>grown.
     rbind (dec_times_one grown) (\<lambda>new_credit_amount.
     if po_credit_amount pos < new_credit_amount then
       let accrued_interest = new_credit_amount - po_credit_amount pos in
       rbind (case cc_discounts_contract config of
                Some contract \<Rightarrow>
                  rcatch (get_discounted_interest Q contract user accrued_interest)
                    (\<lambda>_. Inr accrued_interest)
              | None \<Rightarrow> Inr accrued_interest) (\<lambda>accrued_interest.
       rbind (u128_add (bk_pending_revenue basket) accrued_interest) (\<lambda>pending_revenue.
       rbind (u128_add (po_credit_amount pos) accrued_interest) (\<lambda>credit_amount.
       rbind (u128_add (bk_credit basket) accrued_interest) (\<lambda>basket_credit.
       Inr (bk_set_credit (basket\<lparr>bk_pending_revenue := pending_revenue\<rparr>) basket_credit,
            pos\<lparr>po_credit_amount := credit_amount\<rparr>)))))
     else Inr (basket, pos))))"

definition accrue ::
  "cdp_storage \<Rightarrow> querier \<Rightarrow> Env \<Rightarrow> cdp_config \<Rightarrow> Position \<Rightarrow> Basket \<Rightarrow> string \<Rightarrow> bool \<Rightarrow>
   (cdp_storage \<times> Position \<times> Basket \<times> decimal list) cdp_result" where
  "accrue st Q env config pos basket user is_deposit_function =
     rbind (accrue_repayment_price st Q env config basket is_deposit_function)
       (\<lambda>(basket, negative_rate, credit_price_rate, liquidity).
     rbind (map_err (CdpAtLine 605) (get_credit_rate_of_change st Q env config basket pos
              negative_rate credit_price_rate (Some liquidity)))
       (\<lambda>(st, basket, pos, rate_of_change, ratios).
     rbind (charge_interest Q config user rate_of_change basket pos) (\<lambda>(basket, pos).
     Inr (st, pos, basket, ratios))))"

text \<open>\<open>external_accrue_call\<close>: accrual of a list of positions of one owner. The position and the basket
  are saved; the list is indexed by id, not by place.\<close>

definition accrue_one ::
  "querier \<Rightarrow> Env \<Rightarrow> cdp_config \<Rightarrow> addr \<Rightarrow> string \<Rightarrow> uint128 \<Rightarrow>
   cdp_storage \<times> Basket \<times> uint128 \<Rightarrow> (cdp_storage \<times> Basket \<times> uint128) cdp_result" where
  "accrue_one Q env config valid_position_owner user position_id = (\<lambda>(st, basket, accrued_interest).
     rbind (get_target_position st valid_position_owner position_id) (\<lambda>(_, pos).
     let prev_loan = po_credit_amount pos in
     rbind (accrue st Q env config pos basket user False)
       (\<lambda>(st, pos, basket, _).
     rbind (u128_sub (po_credit_amount pos) prev_loan) (\<lambda>accrued.
     rbind (u128_add accrued_interest accrued) (\<lambda>accrued_interest.
     rbind (update_position st valid_position_owner pos) (\<lambda>st.
     Inr (st, basket, accrued_interest)))))))"

definition external_accrue_call ::
  "chain_lib \<Rightarrow> cdp_storage \<Rightarrow> querier \<Rightarrow> MessageInfo \<Rightarrow> Env \<Rightarrow> string option \<Rightarrow> uint128 list \<Rightarrow>
   (cdp_storage \<times> cdp_response) cdp_result" where
  "external_accrue_call L st Q info env position_owner position_ids =
     rbind (basket_load st) (\<lambda>basket.
     rbind (cdp_config_load st) (\<lambda>config.
     rbind (case position_owner of
              Some position_owner \<Rightarrow> map_err CdpStd (lib_addr_validate L position_owner)
            | None \<Rightarrow> Inr (sender info)) (\<lambda>valid_position_owner.
     rbind (rfold (accrue_one Q env config valid_position_owner (sender info)) position_ids
              (st, basket, 0)) (\<lambda>(st, basket, accrued_interest).
     Inr (st\<lparr>CD_BASKET := Some basket\<rparr>,
          \<lparr>cr_messages = [],
           cr_attributes = [(''method'', AText ''accrue''),
             (''position_ids'', ADebug (DbgIds position_ids)),
             (''accrued_interest'', ANum accrued_interest)]\<rparr>)))))"

end
