(* ===== verification/CDP_Redemption.thy ===== *)
theory CDP_Redemption
  imports CDP_Rates
begin

text \<open>
  Debt positions: redemptions (\<open>edit_redemption_info\<close>, \<open>create_redemption_info\<close> and
  \<open>redeem_for_collateral\<close> of \<open>contracts/cdp/src/positions.rs\<close>). \<open>CD_REDEMPTION_OPT_IN p\<close> is the list of
  users who buy the debt token back at a premium of \<open>p\<close> percent, each with the positions they offer.
\<close>

definition custom :: "string \<Rightarrow> 'a cdp_result" where
  "custom val = Inl (Failed (CdpCustomError val))"

lemma custom_not_ok [simp]: "custom val \<noteq> Inr x"
  by (simp add: custom_def)

section \<open>Opting in\<close>

definition check_redemption_terms ::
  "uint128 list \<Rightarrow> nat option \<Rightarrow> decimal option \<Rightarrow> unit cdp_result" where
  "check_redemption_terms position_ids updated_premium max_loan_repayment =
     rbind (case updated_premium of
              Some premium \<Rightarrow>
                if 99 < premium then custom ''Premium can't be greater than 99'' else Inr ()
            | None \<Rightarrow> Inr ()) (\<lambda>_.
     rbind (case max_loan_repayment of
              Some max_loan_repayment \<Rightarrow>
                if DECIMAL_FRACTIONAL < max_loan_repayment \<or> max_loan_repayment = 0
                then custom ''Max loan repayment can't be 0% or greater than 100%'' else Inr ()
            | None \<Rightarrow> Inr ()) (\<lambda>_.
     if position_ids = [] then custom ''Position IDs must be specified''
     else rfold (\<lambda>target_id _.
            if 1 < length (filter (\<lambda>n. n = target_id) position_ids)
            then custom ''Position IDs must be unique'' else Inr ()) position_ids ()))"

definition check_rate_hikes ::
  "cdp_storage \<Rightarrow> addr \<Rightarrow> uint128 list \<Rightarrow> bool \<Rightarrow> unit cdp_result" where
  "check_rate_hikes st user position_ids called_by_contract =
     rfold (\<lambda>target_id _.
       rbind (get_target_position st user target_id) (\<lambda>(_, target_position).
       rfold (\<lambda>cAsset _.
         if \<not> called_by_contract \<and> is_hiked (ca_hike_rates cAsset)
         then Inl (Failed (CdpRateHikeAsset (ca_info cAsset))) else Inr ())
         (po_collateral_assets target_position) ())) position_ids ()"

text \<open>A new entry: the part of the loan that may be repaid, all of it by default.\<close>

definition new_redemption ::
  "cdp_storage \<Rightarrow> addr \<Rightarrow> decimal option \<Rightarrow> string list option \<Rightarrow> cdp_error \<Rightarrow> uint128 \<Rightarrow>
   PositionRedemption cdp_result" where
  "new_redemption st user max_loan_repayment restricted_collateral_assets not_owner target_id =
     rbind (rcatch (get_target_position st user target_id) (\<lambda>_. Inl (Failed not_owner)))
       (\<lambda>(_, target_position).
     rbind (uint128_mul_dec (po_credit_amount target_position)
              (case max_loan_repayment of None \<Rightarrow> DECIMAL_FRACTIONAL | Some m \<Rightarrow> m)) (\<lambda>remaining.
     Inr \<lparr>red_position_id = target_id, red_remaining_loan_repayment = remaining,
          red_restricted_collateral_assets =
            (case restricted_collateral_assets of None \<Rightarrow> [] | Some assets \<Rightarrow> assets)\<rparr>))"

definition create_redemption_info ::
  "cdp_storage \<Rightarrow> uint128 list \<Rightarrow> decimal option \<Rightarrow> addr \<Rightarrow> string list \<Rightarrow> RedemptionInfo cdp_result" where
  "create_redemption_info st position_ids max_loan_repayment position_owner
     restricted_collateral_assets =
     rbind (rmapM (new_redemption st position_owner max_loan_repayment
              (Some restricted_collateral_assets)
              (CdpStd (GenericErr ''User does not own this position id''))) position_ids)
       (\<lambda>position_infos.
     Inr \<lparr>ri_position_owner = position_owner, ri_position_infos = position_infos\<rparr>)"

definition add_redemption ::
  "cdp_storage \<Rightarrow> addr \<Rightarrow> decimal option \<Rightarrow> string list option \<Rightarrow> uint128 \<Rightarrow>
   RedemptionInfo \<times> uint128 list \<Rightarrow> (RedemptionInfo \<times> uint128 list) cdp_result" where
  "add_redemption st user max_loan_repayment restricted_collateral_assets target_id =
     (\<lambda>(user_positions, position_ids).
     rbind (if \<not> list_ex (\<lambda>p. red_position_id p = target_id) (ri_position_infos user_positions) then
              rbind (new_redemption st user max_loan_repayment restricted_collateral_assets
                       (CdpCustomError ''User does not own this position id'') target_id)
                (\<lambda>entry.
              Inr (user_positions\<lparr>ri_position_infos := ri_position_infos user_positions @ [entry]\<rparr>))
            else Inr user_positions) (\<lambda>user_positions.
     Inr (user_positions, filter (\<lambda>x. x \<noteq> target_id) position_ids)))"

text \<open>The additions: to the user's list at the premium, or as a new user of the premium.\<close>

definition save_premium :: "nat \<Rightarrow> RedemptionInfo list \<Rightarrow> cdp_storage \<Rightarrow> cdp_storage" where
  "save_premium premium users st =
     st\<lparr>CD_REDEMPTION_OPT_IN := (CD_REDEMPTION_OPT_IN st)(premium \<mapsto> users)\<rparr>"

definition add_redemptions ::
  "cdp_storage \<Rightarrow> addr \<Rightarrow> uint128 list \<Rightarrow> nat \<Rightarrow> decimal option \<Rightarrow> string list option \<Rightarrow>
   (cdp_storage \<times> uint128 list) cdp_result" where
  "add_redemptions st user position_ids updated_premium max_loan_repayment
     restricted_collateral_assets =
     (let create = create_redemption_info st position_ids max_loan_repayment user
            (case restricted_collateral_assets of None \<Rightarrow> [] | Some assets \<Rightarrow> assets) in
      case CD_REDEMPTION_OPT_IN st updated_premium of
        Some users_of_premium \<Rightarrow>
          (case find_index_of (\<lambda>u. ri_position_owner u = user) users_of_premium of
             Some (user_index, user_positions) \<Rightarrow>
               rbind (rfold (add_redemption st user max_loan_repayment
                        restricted_collateral_assets) position_ids (user_positions, position_ids))
                 (\<lambda>(user_positions, position_ids).
               rbind (update_at users_of_premium user_index user_positions) (\<lambda>users_of_premium.
               Inr (save_premium updated_premium users_of_premium st, position_ids)))
           | None \<Rightarrow>
               rbind create (\<lambda>new_redemption_info.
               Inr (save_premium updated_premium (users_of_premium @ [new_redemption_info]) st,
                    position_ids)))
      | None \<Rightarrow>
          rbind create (\<lambda>new_redemption_info.
          Inr (save_premium updated_premium [new_redemption_info] st, position_ids)))"

text \<open>
  The edit of one entry at one premium. \<open>True\<close> says that the user's list is empty, so the user leaves
  the premium and the loop stops.
\<close>

definition edit_position_info ::
  "cdp_storage \<Rightarrow> addr \<Rightarrow> bool option \<Rightarrow> nat option \<Rightarrow> decimal option \<Rightarrow> string list option \<Rightarrow> nat \<Rightarrow>
   uint128 \<Rightarrow> nat \<Rightarrow> PositionRedemption list \<Rightarrow> (bool \<times> PositionRedemption list) cdp_result" where
  "edit_position_info st user redeemable updated_premium max_loan_repayment
     restricted_collateral_assets premium target_id position_index infos =
     rbind (if redeemable = Some False then remove_at infos position_index else Inr infos) (\<lambda>infos.
     if redeemable = Some False \<and> infos = [] then Inr (True, infos)
     else
     rbind (case max_loan_repayment of
              Some max_loan_repayment \<Rightarrow>
                rbind (rcatch (get_target_position st user target_id)
                         (\<lambda>_. custom ''User does not own this position id'')) (\<lambda>(_, target_position).
                rbind (uint128_mul_dec (po_credit_amount target_position) max_loan_repayment)
                  (\<lambda>remaining.
                rbind (at_index infos position_index) (\<lambda>entry.
                update_at infos position_index (entry\<lparr>red_remaining_loan_repayment := remaining\<rparr>))))
            | None \<Rightarrow> Inr infos) (\<lambda>infos.
     let switch = (updated_premium \<noteq> None \<and> updated_premium \<noteq> Some premium) in
     rbind (if switch then remove_at infos position_index else Inr infos) (\<lambda>infos.
     if switch \<and> infos = [] then Inr (True, infos)
     else
     rbind (case restricted_collateral_assets of
              Some restricted_assets \<Rightarrow>
                rbind (basket_load st) (\<lambda>basket.
                let collateral = map (\<lambda>asset. asset_info_to_string (ca_info asset))
                      (bk_collateral_types basket) in
                if list_all (\<lambda>asset. asset \<in> set collateral) restricted_assets then
                  rbind (at_index infos position_index) (\<lambda>entry.
                  update_at infos position_index
                    (entry\<lparr>red_restricted_collateral_assets := restricted_assets\<rparr>))
                else custom
                  ''Invalid restricted asset, only the position's collateral assets are viable to restrict'')
            | None \<Rightarrow> Inr infos) (\<lambda>infos.
     Inr (False, infos)))))"

fun edit_premium_ids ::
  "addr \<Rightarrow> bool option \<Rightarrow> nat option \<Rightarrow> decimal option \<Rightarrow> string list option \<Rightarrow> nat \<Rightarrow> nat \<Rightarrow>
   uint128 list \<Rightarrow> RedemptionInfo list \<times> RedemptionInfo \<times> cdp_storage \<times> uint128 list \<Rightarrow>
   (cdp_storage \<times> uint128 list) cdp_result" where
  "edit_premium_ids user redeemable updated_premium max_loan_repayment restricted premium user_index
     [] (users_of_premium, user_positions, st, position_ids) = Inr (st, position_ids)"
| "edit_premium_ids user redeemable updated_premium max_loan_repayment restricted premium user_index
     (target_id # ids) (users_of_premium, user_positions, st, position_ids) =
     (case find_index_of (\<lambda>p. red_position_id p = target_id) (ri_position_infos user_positions) of
        None \<Rightarrow> edit_premium_ids user redeemable updated_premium max_loan_repayment restricted premium
                  user_index ids (users_of_premium, user_positions, st, position_ids)
      | Some (position_index, _) \<Rightarrow>
          rbind (edit_position_info st user redeemable updated_premium max_loan_repayment restricted
                   premium target_id position_index (ri_position_infos user_positions))
            (\<lambda>(user_left, infos).
          if user_left then
            rbind (remove_at users_of_premium user_index) (\<lambda>users_of_premium.
            Inr (save_premium premium users_of_premium st, position_ids))
          else
            let user_positions = user_positions\<lparr>ri_position_infos := infos\<rparr> in
            rbind (update_at users_of_premium user_index user_positions) (\<lambda>users_of_premium.
            edit_premium_ids user redeemable updated_premium max_loan_repayment restricted premium
              user_index ids (users_of_premium, user_positions,
                save_premium premium users_of_premium st,
                filter (\<lambda>stored_id. stored_id \<noteq> target_id) position_ids))))"

definition edit_premium ::
  "addr \<Rightarrow> bool option \<Rightarrow> nat option \<Rightarrow> decimal option \<Rightarrow> string list option \<Rightarrow> nat \<Rightarrow>
   cdp_storage \<times> uint128 list \<Rightarrow> (cdp_storage \<times> uint128 list) cdp_result" where
  "edit_premium user redeemable updated_premium max_loan_repayment restricted premium =
     (\<lambda>(st, position_ids).
     let users_of_premium = (case CD_REDEMPTION_OPT_IN st premium of None \<Rightarrow> [] | Some us \<Rightarrow> us) in
     if position_ids \<noteq> [] \<and> users_of_premium \<noteq> [] then
       (case find_index_of (\<lambda>u. ri_position_owner u = user) users_of_premium of
          Some (user_index, user_positions) \<Rightarrow>
            edit_premium_ids user redeemable updated_premium max_loan_repayment restricted premium
              user_index position_ids (users_of_premium, user_positions, st, position_ids)
        | None \<Rightarrow> Inr (st, position_ids))
     else Inr (st, position_ids))"

definition edit_redemption_info ::
  "cdp_storage \<Rightarrow> MessageInfo \<Rightarrow> uint128 list \<Rightarrow> bool option \<Rightarrow> nat option \<Rightarrow> decimal option \<Rightarrow>
   string list option \<Rightarrow> bool \<Rightarrow> (cdp_storage \<times> cdp_response) cdp_result" where
  "edit_redemption_info st info position_ids redeemable updated_premium max_loan_repayment
     restricted_collateral_assets called_by_contract =
     rbind (check_redemption_terms position_ids updated_premium max_loan_repayment) (\<lambda>_.
     rbind (check_rate_hikes st (sender info) position_ids called_by_contract) (\<lambda>_.
     rbind (if redeemable \<noteq> Some False then
              (case updated_premium of
                 Some updated_premium \<Rightarrow>
                   add_redemptions st (sender info) position_ids updated_premium max_loan_repayment
                     restricted_collateral_assets
               | None \<Rightarrow>
                   if redeemable = Some True
                   then custom ''Can't set redeemable to true without specifying a premium''
                   else Inr (st, position_ids))
            else Inr (st, position_ids)) (\<lambda>(st, position_ids).
     rbind (rfold (edit_premium (sender info) redeemable updated_premium max_loan_repayment
              restricted_collateral_assets) [0..<100] (st, position_ids)) (\<lambda>(st, position_ids).
     Inr (st, \<lparr>cr_messages = [],
               cr_attributes = [(''method'', AText ''edit_redemption_info''),
                 (''positions_not_edited'', ADebug (DbgIds position_ids))]\<rparr>)))))"

section \<open>Redeeming\<close>

text \<open>Remove an entry of a user, and the user with the last one: both by place.\<close>

definition drop_redemption ::
  "nat \<Rightarrow> nat \<Rightarrow> RedemptionInfo list \<times> RedemptionInfo \<Rightarrow>
   (RedemptionInfo list \<times> RedemptionInfo) cdp_result" where
  "drop_redemption user_index pos_rdmpt_index = (\<lambda>(users_of_premium, user).
     rbind (remove_at (ri_position_infos user) pos_rdmpt_index) (\<lambda>infos.
     rbind (if infos = [] then remove_at users_of_premium user_index else Inr users_of_premium)
       (\<lambda>users_of_premium.
     Inr (users_of_premium, user\<lparr>ri_position_infos := infos\<rparr>))))"

text \<open>The entry after a redemption: what is left to repay, saved in the premium's list.\<close>

definition lower_remaining ::
  "nat \<Rightarrow> nat \<Rightarrow> PositionRedemption \<Rightarrow> uint128 \<Rightarrow> RedemptionInfo list \<times> RedemptionInfo \<Rightarrow>
   (RedemptionInfo list \<times> RedemptionInfo) cdp_result" where
  "lower_remaining user_index pos_rdmpt_index redemption_info redeemed = (\<lambda>(users_of_premium, user).
     rbind (u128_sub (red_remaining_loan_repayment redemption_info) redeemed) (\<lambda>remaining.
     rbind (at_index (ri_position_infos user) pos_rdmpt_index) (\<lambda>entry.
     rbind (update_at (ri_position_infos user) pos_rdmpt_index
              (entry\<lparr>red_remaining_loan_repayment := remaining\<rparr>)) (\<lambda>infos.
     rbind (if remaining = 0
            then drop_redemption user_index pos_rdmpt_index
                   (users_of_premium, user\<lparr>ri_position_infos := infos\<rparr>)
            else Inr (users_of_premium, user\<lparr>ri_position_infos := infos\<rparr>))
       (\<lambda>(users_of_premium, user).
     rbind (if users_of_premium \<noteq> [] then update_at users_of_premium user_index user
            else Inr users_of_premium) (\<lambda>users_of_premium.
     Inr (users_of_premium, user)))))))"

definition add_collateral_send :: "AssetInfo \<Rightarrow> uint128 \<Rightarrow> Asset list \<Rightarrow> Asset list cdp_result" where
  "add_collateral_send info amount collateral_sends =
     (case find_index_of (\<lambda>a. a_info a = info) collateral_sends of
        Some (i, a) \<Rightarrow>
          rbind (u128_add (a_amount a) amount) (\<lambda>total.
          update_at collateral_sends i (a\<lparr>a_amount := total\<rparr>))
      | None \<Rightarrow> Inr (collateral_sends @ [\<lparr>a_info = info, a_amount = amount\<rparr>]))"

definition send_collateral ::
  "querier \<Rightarrow> Env \<Rightarrow> cdp_config \<Rightarrow> decimal list \<Rightarrow> PriceResponse list \<Rightarrow> decimal \<Rightarrow> uint128 \<Rightarrow> addr \<Rightarrow>
   nat \<times> cAsset \<Rightarrow> cdp_storage \<times> Asset list \<Rightarrow> (cdp_storage \<times> Asset list) cdp_result" where
  "send_collateral Q env config cAsset_ratios cAsset_prices redeemable_value target_id user =
     (\<lambda>(i, cAsset) (st, collateral_sends).
     rbind (at_index cAsset_ratios i) (\<lambda>ratio.
     rbind (map_err CdpStd (decimal_multiplication redeemable_value ratio)) (\<lambda>value_to_send.
     rbind (at_index cAsset_prices i) (\<lambda>price.
     rbind (map_err CdpStd (price_get_amount price value_to_send)) (\<lambda>collateral_to_send.
     rbind (add_collateral_send (ca_info cAsset) collateral_to_send collateral_sends)
       (\<lambda>collateral_sends.
     rbind (update_position_claims st Q env config target_id user (ca_info cAsset)
              collateral_to_send) (\<lambda>st.
     Inr (st, collateral_sends))))))))"

text \<open>The running values of the loops: the storage, the list of the premium, the debt token left, the
  last amount redeemed and the collateral to send.\<close>

record redeem_state =
  rs_storage :: cdp_storage
  rs_users :: "RedemptionInfo list"
  rs_user :: RedemptionInfo
  rs_credit_amount :: decimal
  rs_redeemable_credit :: decimal
  rs_collateral_sends :: "Asset list"

definition without_restricted :: "string list \<Rightarrow> cAsset list \<Rightarrow> cAsset list" where
  "without_restricted restricted collateral_assets =
     fold (\<lambda>restricted_asset.
       filter (\<lambda>asset. asset_info_to_string (ca_info asset) \<noteq> restricted_asset))
       restricted collateral_assets"

definition redeem_from_position ::
  "querier \<Rightarrow> Env \<Rightarrow> cdp_config \<Rightarrow> Basket \<Rightarrow> nat \<Rightarrow> decimal \<Rightarrow> nat \<Rightarrow> nat \<Rightarrow> PositionRedemption \<Rightarrow>
   cAsset list \<Rightarrow> uint128 \<Rightarrow> redeem_state \<Rightarrow> redeem_state cdp_result" where
  "redeem_from_position Q env config basket premium discount_ratio user_index pos_rdmpt_index
     redemption_info collateral_assets position_credit s =
     (let target_id = red_position_id redemption_info; owner = ri_position_owner (rs_user s) in
     rbind (get_cAsset_ratios (rs_storage s) env Q collateral_assets config (Some basket))
       (\<lambda>(st, cAsset_ratios, cAsset_prices).
     rbind (dec_of_uint (red_remaining_loan_repayment redemption_info)) (\<lambda>remaining.
     rbind (dec_of_uint position_credit) (\<lambda>position_credit.
     let redeemable_credit = min (min remaining position_credit) (rs_credit_amount s);
         redeemed = to_uint_floor redeemable_credit in
     rbind (map_err CdpStd (decimal_subtraction (rs_credit_amount s) redeemable_credit))
       (\<lambda>credit_amount.
     rbind (lower_remaining user_index pos_rdmpt_index redemption_info redeemed
              (rs_users s, rs_user s)) (\<lambda>(users_of_premium, user).
     let st = save_premium premium users_of_premium st in
     rbind (map_err CdpStd (price_get_value (bk_credit_price basket) redeemed)) (\<lambda>credit_value.
     rbind (map_err CdpStd (decimal_multiplication credit_value discount_ratio))
       (\<lambda>redeemable_value.
     rbind (rfold (send_collateral Q env config cAsset_ratios cAsset_prices redeemable_value
              target_id owner) (enumerate 0 collateral_assets) (st, rs_collateral_sends s))
       (\<lambda>(st, collateral_sends).
     rbind (get_target_position st owner target_id) (\<lambda>(_, target_position).
     rbind (u128_sub (po_credit_amount target_position) redeemed) (\<lambda>credit_left.
     rbind (if credit_left = 0
            then drop_redemption user_index pos_rdmpt_index (users_of_premium, user)
            else Inr (users_of_premium, user)) (\<lambda>(users_of_premium, user).
     rbind (update_position st owner (target_position\<lparr>po_credit_amount := credit_left\<rparr>)) (\<lambda>st.
     Inr \<lparr>rs_storage = st, rs_users = users_of_premium, rs_user = user,
          rs_credit_amount = credit_amount, rs_redeemable_credit = redeemable_credit,
          rs_collateral_sends = collateral_sends\<rparr>)))))))))))))"

definition redeem_position ::
  "querier \<Rightarrow> Env \<Rightarrow> cdp_config \<Rightarrow> Basket \<Rightarrow> nat \<Rightarrow> decimal \<Rightarrow> nat \<Rightarrow> nat \<times> PositionRedemption \<Rightarrow>
   redeem_state \<Rightarrow> redeem_state cdp_result" where
  "redeem_position Q env config basket premium discount_ratio user_index =
     (\<lambda>(pos_rdmpt_index, redemption_info) s.
     rbind (get_target_position (rs_storage s) (ri_position_owner (rs_user s))
              (red_position_id redemption_info)) (\<lambda>(_, target_position).
     let collateral_assets = without_restricted (red_restricted_collateral_assets redemption_info)
           (po_collateral_assets target_position) in
     if collateral_assets = [] then
       rbind (drop_redemption user_index pos_rdmpt_index (rs_users s, rs_user s))
         (\<lambda>(users_of_premium, user).
       Inr (s\<lparr>rs_users := users_of_premium, rs_user := user\<rparr>))
     else redeem_from_position Q env config basket premium discount_ratio user_index
            pos_rdmpt_index redemption_info collateral_assets (po_credit_amount target_position) s))"

text \<open>A user of a premium: the loop runs over the list as it was when the premium was loaded.\<close>

definition redeem_user ::
  "querier \<Rightarrow> Env \<Rightarrow> cdp_config \<Rightarrow> Basket \<Rightarrow> nat \<Rightarrow> decimal \<Rightarrow> nat \<times> RedemptionInfo \<Rightarrow> redeem_state \<Rightarrow>
   redeem_state cdp_result" where
  "redeem_user Q env config basket premium discount_ratio = (\<lambda>(user_index, user) s.
     rfold (redeem_position Q env config basket premium discount_ratio user_index)
       (enumerate 0 (ri_position_infos user)) (s\<lparr>rs_user := user\<rparr>))"

definition redeem_premium ::
  "querier \<Rightarrow> Env \<Rightarrow> cdp_config \<Rightarrow> Basket \<Rightarrow> nat \<Rightarrow> redeem_state \<Rightarrow> redeem_state cdp_result" where
  "redeem_premium Q env config basket premium s =
     rbind (map_err CdpStd (decimal_subtraction DECIMAL_FRACTIONAL
              (dec_percent (premium mod U64_BOUND)))) (\<lambda>discount_ratio.
     if rs_credit_amount s \<noteq> 0 then
       let users = (case CD_REDEMPTION_OPT_IN (rs_storage s) premium of None \<Rightarrow> [] | Some us \<Rightarrow> us) in
       rfold (redeem_user Q env config basket premium discount_ratio) (enumerate 0 users)
         (s\<lparr>rs_users := users\<rparr>)
     else Inr s)"

definition burn_redeemed :: "Env \<Rightarrow> cdp_config \<Rightarrow> Basket \<Rightarrow> decimal \<Rightarrow> cosmos_msg list" where
  "burn_redeemed env config basket redeemable_credit =
     (case cc_osmosis_proxy config of
        Some addr \<Rightarrow>
          if to_uint_floor redeemable_credit \<noteq> 0 then
            [WasmExecute addr (BurnTokens (asset_info_to_string (a_info (bk_credit_asset basket)))
               (to_uint_floor redeemable_credit) (contract_address env)) []]
          else []
      | None \<Rightarrow> [])"

definition redeem_for_collateral ::
  "cdp_storage \<Rightarrow> querier \<Rightarrow> Env \<Rightarrow> MessageInfo \<Rightarrow> nat \<Rightarrow> (cdp_storage \<times> cdp_response) cdp_result" where
  "redeem_for_collateral st Q env info max_collateral_premium =
     rbind (cdp_config_load st) (\<lambda>config.
     rbind (basket_load st) (\<lambda>basket.
     let denom = asset_info_to_string (a_info (bk_credit_asset basket)) in
     if length (funds info) \<noteq> 1 \<or> c_denom (funds info ! 0) \<noteq> denom
     then custom ''Must send only the Basket's debt token''
     else
     rbind (dec_of_uint (c_amount (funds info ! 0))) (\<lambda>initial_credit_amount.
     rbind (rfold (redeem_premium Q env config basket) [0..<Suc max_collateral_premium]
              \<lparr>rs_storage = st, rs_users = [], rs_user = \<lparr>ri_position_owner = [],
                 ri_position_infos = []\<rparr>, rs_credit_amount = initial_credit_amount,
               rs_redeemable_credit = 0, rs_collateral_sends = []\<rparr>) (\<lambda>s.
     if rs_credit_amount s = initial_credit_amount
     then custom ''No collateral to redeem with at this max premium''
     else
     rbind (map_err CdpStd (rmapM asset_to_coin (rs_collateral_sends s))) (\<lambda>coins.
     let messages = BankSend (sender info) coins #
           burn_redeemed env config basket (rs_redeemable_credit s);
         attrs = [(''action'', AText ''redeem_for_collateral''), (''sender'', AText (sender info)),
           (''redeemed_collateral'', ADebug (DbgCoinList coins))] in
     if rs_credit_amount s \<noteq> 0 then
       Inr (rs_storage s,
         \<lparr>cr_messages = map Plain (messages @ [BankSend (sender info)
            [\<lparr>c_denom = denom, c_amount = to_uint_floor (rs_credit_amount s)\<rparr>]]),
          cr_attributes = attrs @ [(''excess_credit'', ADebug (DbgDecimal (rs_credit_amount s)))]\<rparr>)
     else Inr (rs_storage s, \<lparr>cr_messages = map Plain messages, cr_attributes = attrs\<rparr>))))))"

end
