(* ===== verification/CDP_Positions.thy ===== *)
theory CDP_Positions
  imports CDP_Redemption
begin

text \<open>
  Debt positions: the position handlers \<open>deposit\<close>, \<open>withdraw\<close> and \<open>repay\<close> of
  \<open>contracts/cdp/src/positions.rs\<close>, with their helpers and the checks of the stored state they end
  with.
\<close>

definition MAX_POSITIONS_AMOUNT :: nat where "MAX_POSITIONS_AMOUNT = 9"
definition WITHDRAW_REPLY_ID :: nat where "WITHDRAW_REPLY_ID = 4"

section \<open>Helpers\<close>

definition check_for_empty_position :: "cAsset list \<Rightarrow> bool" where
  "check_for_empty_position collateral_assets =
     (if length collateral_assets = 0 then True
      else \<not> list_ex (\<lambda>asset. ca_amount asset \<noteq> 0) collateral_assets)"

definition create_position :: "cAsset list \<Rightarrow> Basket \<Rightarrow> (Position \<times> Basket) cdp_result" where
  "create_position cAssets basket =
     (let new_position = \<lparr>po_position_id = bk_current_position_id basket,
            po_collateral_assets = cAssets, po_credit_amount = 0\<rparr> in
      rbind (u128_add (bk_current_position_id basket) 1) (\<lambda>next_id.
      Inr (new_position, basket\<lparr>bk_current_position_id := next_id\<rparr>)))"

definition credit_mint_msg :: "cdp_config \<Rightarrow> Asset \<Rightarrow> addr \<Rightarrow> cosmos_msg cdp_result" where
  "credit_mint_msg config credit_asset recipient = (case a_info credit_asset of
       Token _ \<Rightarrow> Inl (Failed (CdpStd (GenericErr ''Credit has to be a native token'')))
     | NativeToken denom \<Rightarrow>
         (case cc_osmosis_proxy config of
            Some proxy \<Rightarrow>
              Inr (WasmExecute proxy (MintTokens denom (a_amount credit_asset) recipient) [])
          | None \<Rightarrow> Inl (Failed (CdpStd (GenericErr ''No proxy contract setup'')))))"

text \<open>What of a repayment is burned, and what of it is the stakers' revenue.\<close>

definition burn_and_revenue :: "Basket \<Rightarrow> uint128 \<Rightarrow> uint128 \<times> uint128" where
  "burn_and_revenue basket amount =
     (if \<not> bk_rev_to_stakers basket then (amount, 0)
      else if bk_pending_revenue basket \<noteq> 0 then
        if 50000000 \<le> bk_pending_revenue basket \<and> 50000000 \<le> amount then
          if amount \<le> bk_pending_revenue basket then (0, amount)
          else (amount - bk_pending_revenue basket, bk_pending_revenue basket)
        else (amount, 0)
      else (amount, 0))"

definition credit_burn_rev_msg ::
  "cdp_config \<Rightarrow> Env \<Rightarrow> Asset \<Rightarrow> Basket \<Rightarrow> (cosmos_msg list \<times> Basket) cdp_result" where
  "credit_burn_rev_msg config env credit_asset basket =
     (case burn_and_revenue basket (a_amount credit_asset) of (burn_amount, revenue_amount) \<Rightarrow>
      rbind (u128_sub (bk_pending_revenue basket) revenue_amount) (\<lambda>pending_revenue.
      let basket = basket\<lparr>bk_pending_revenue := pending_revenue\<rparr> in
      (case a_info credit_asset of
         NativeToken denom \<Rightarrow>
           (case cc_osmosis_proxy config of
              Some addr \<Rightarrow>
                let burn = (if burn_amount \<noteq> 0
                      then [WasmExecute addr (BurnTokens denom burn_amount (contract_address env)) []]
                      else []) in
                rbind (if revenue_amount \<noteq> 0 \<and> cc_staking_contract config \<noteq> None then
                         rbind (map_err CdpStd (asset_to_coin (credit_asset\<lparr>a_amount := revenue_amount\<rparr>)))
                           (\<lambda>coin.
                         Inr [WasmExecute (addr_or_empty (cc_staking_contract config)) DepositFee [coin]])
                       else Inr []) (\<lambda>revenue.
                Inr (burn @ revenue, basket))
            | None \<Rightarrow> Inl (Failed (CdpStd (GenericErr ''No proxy contract setup''))))
       | Token _ \<Rightarrow> Inl (Failed (CdpStd (GenericErr ''Cw20 assets aren't allowed''))))))"

text \<open>
  \<open>check_for_expunged\<close>: one cap at zero decides \<open>passed\<close> anew; the last one that is in the position
  is the one that counts.
\<close>

definition expunged_turn ::
  "Asset list \<Rightarrow> Asset list \<Rightarrow> SupplyCap \<Rightarrow> bool \<times> string list \<Rightarrow> (bool \<times> string list) cdp_result" where
  "expunged_turn position_assets withdrawal_assets cap = (\<lambda>(passed, invalid_withdraws).
     if cap_supply_cap_ratio cap = 0 then
       (case find (\<lambda>asset. asset_info_equal (a_info asset) (cap_asset_info cap)) position_assets of
          Some asset \<Rightarrow>
            rbind (at_index withdrawal_assets 0) (\<lambda>first.
            let invalid = (False, invalid_withdraws @ [asset_info_to_string (a_info asset)]) in
            if asset_info_equal (a_info first) (a_info asset) \<and> length withdrawal_assets = 1
            then Inr (True, invalid_withdraws)
            else
              (case find (\<lambda>w_asset. asset_info_equal (a_info w_asset) (a_info asset))
                      withdrawal_assets of
                 Some withdrawal_asset \<Rightarrow>
                   if a_amount withdrawal_asset = a_amount asset then Inr (True, invalid_withdraws)
                   else Inr invalid
               | None \<Rightarrow> Inr invalid))
        | None \<Rightarrow> Inr (passed, invalid_withdraws))
     else Inr (passed, invalid_withdraws))"

definition check_for_expunged :: "cAsset list \<Rightarrow> cAsset list \<Rightarrow> Basket \<Rightarrow> unit cdp_result" where
  "check_for_expunged position_assets withdrawal_assets basket =
     rbind (rfold (expunged_turn (map ca_asset position_assets) (map ca_asset withdrawal_assets))
              (bk_collateral_supply_caps basket) (True, [])) (\<lambda>(passed, invalid_withdraws).
     if \<not> passed then Inl (Failed (CdpExpunged invalid_withdraws)) else Inr ())"

section \<open>Deposit\<close>

definition add_deposit ::
  "cAsset \<Rightarrow> Position \<times> Asset list \<Rightarrow> (Position \<times> Asset list) cdp_result" where
  "add_deposit dep = (\<lambda>(pos, positions_prev_collateral).
     (case find_index_of (\<lambda>cAsset. asset_info_equal (ca_info cAsset) (ca_info dep))
             (po_collateral_assets pos) of
        Some (collateral_index, cAsset) \<Rightarrow>
          rbind (u128_add (ca_amount cAsset) (ca_amount dep)) (\<lambda>amount.
          Inr (pos\<lparr>po_collateral_assets :=
                 (po_collateral_assets pos)[collateral_index := ca_set_amount cAsset amount]\<rparr>,
               positions_prev_collateral @ [ca_asset cAsset]))
      | None \<Rightarrow>
          Inr (pos\<lparr>po_collateral_assets := po_collateral_assets pos @ [dep]\<rparr>,
               positions_prev_collateral @ [(ca_asset dep)\<lparr>a_amount := 0\<rparr>])))"

definition force_redemption ::
  "bool \<Rightarrow> cdp_storage \<Rightarrow> MessageInfo \<Rightarrow> uint128 \<Rightarrow> cdp_storage cdp_result" where
  "force_redemption set_redemption st info position_id =
     (if set_redemption then
        rbind (edit_redemption_info st info [position_id] (Some True) (Some 1)
                 (Some DECIMAL_FRACTIONAL) None True) (\<lambda>(st, _). Inr st)
      else Inr st)"

definition has_rate_hike :: "cAsset list \<Rightarrow> bool" where
  "has_rate_hike cAssets = list_ex (\<lambda>cAsset. is_hiked (ca_hike_rates cAsset)) cAssets"

text \<open>A deposit to a position: the list that is saved is the one from before the accrual.\<close>

definition deposit_to_position ::
  "cdp_storage \<Rightarrow> querier \<Rightarrow> Env \<Rightarrow> cdp_config \<Rightarrow> addr \<Rightarrow> cAsset list \<Rightarrow> Basket \<Rightarrow> Position list \<Rightarrow> nat \<Rightarrow>
   Position \<Rightarrow> (cdp_storage \<times> Asset list) cdp_result" where
  "deposit_to_position st Q env config owner cAssets basket positions position_index pos =
     rbind (rfold add_deposit cAssets (pos, [])) (\<lambda>(pos, positions_prev_collateral).
     let positions = positions[position_index := pos] in
     rbind (accrue st Q env config pos basket owner True) (\<lambda>(st, pos, basket, _).
     let st = st\<lparr>CD_POSITIONS := (CD_POSITIONS st)(owner \<mapsto> positions)\<rparr> in
     rbind (if po_credit_amount pos \<noteq> 0 then
              update_basket_tally st Q env basket cAssets (po_collateral_assets pos) True config False
            else Inr (st, basket)) (\<lambda>(st, basket).
     Inr (st\<lparr>CD_BASKET := Some basket\<rparr>, positions_prev_collateral))))"

definition create_position_in_deposit ::
  "cdp_storage \<Rightarrow> querier \<Rightarrow> Env \<Rightarrow> cdp_config \<Rightarrow> addr \<Rightarrow> cAsset list \<Rightarrow> Basket \<Rightarrow>
   (cdp_storage \<times> UserInfo \<times> Position) cdp_result" where
  "create_position_in_deposit st Q env config valid_owner_addr cAssets basket =
     rbind (create_position cAssets basket) (\<lambda>(new_position, basket).
     let position_info = \<lparr>ui_position_id = po_position_id new_position,
           ui_position_owner = valid_owner_addr\<rparr> in
     rbind (accrue st Q env config new_position basket valid_owner_addr True)
       (\<lambda>(st, new_position, basket, _).
     Inr (st\<lparr>CD_BASKET := Some basket\<rparr>, position_info, new_position)))"

definition deposit_to_new ::
  "bool \<Rightarrow> cdp_storage \<Rightarrow> querier \<Rightarrow> Env \<Rightarrow> MessageInfo \<Rightarrow> cdp_config \<Rightarrow> addr \<Rightarrow> cAsset list \<Rightarrow> Basket \<Rightarrow>
   (cdp_storage \<times> Asset list \<times> UserInfo) cdp_result" where
  "deposit_to_new set_redemption st Q env info config owner cAssets basket =
     rbind (create_position_in_deposit st Q env config owner cAssets basket)
       (\<lambda>(st, position_info, new_position).
     let positions = (case CD_POSITIONS st owner of None \<Rightarrow> [] | Some ps \<Rightarrow> ps);
         st = st\<lparr>CD_POSITIONS := (CD_POSITIONS st)(owner \<mapsto> positions @ [new_position])\<rparr> in
     rbind (force_redemption set_redemption st info (ui_position_id position_info)) (\<lambda>st.
     Inr (st, [], position_info)))"

definition check_deposit_state ::
  "chain_lib \<Rightarrow> cdp_storage \<Rightarrow> Asset list \<Rightarrow> uint128 list \<Rightarrow> UserInfo \<Rightarrow> unit cdp_result" where
  "check_deposit_state L st positions_prev_collateral deposit_amounts position_info =
     rbind (map_err CdpStd (lib_addr_validate L (ui_position_owner position_info))) (\<lambda>owner.
     rbind (get_target_position st owner (ui_position_id position_info)) (\<lambda>(_, target_position).
     rbind (rfold (\<lambda>(i, asset) _.
              case find (\<lambda>cAsset. asset_info_equal (ca_info cAsset) (a_info asset))
                     (po_collateral_assets target_position) of
                Some cAsset \<Rightarrow>
                  rbind (at_index deposit_amounts i) (\<lambda>deposit_amount.
                  rbind (u128_add (a_amount asset) deposit_amount) (\<lambda>total.
                  if ca_amount cAsset \<noteq> total then custom ''Conditional 1: Possible state error''
                  else Inr ()))
              | None \<Rightarrow> Inr ()) (enumerate 0 positions_prev_collateral) ()) (\<lambda>_.
     if positions_prev_collateral = [] then
       rfold (\<lambda>(i, cAsset) _.
         rbind (at_index deposit_amounts i) (\<lambda>deposit_amount.
         if ca_amount cAsset \<noteq> deposit_amount
         then custom ''Deposit Conditional 2: Possible state error'' else Inr ()))
         (enumerate 0 (po_collateral_assets target_position)) ()
     else Inr ())))"

definition cdp_deposit ::
  "chain_lib \<Rightarrow> cdp_storage \<Rightarrow> querier \<Rightarrow> Env \<Rightarrow> MessageInfo \<Rightarrow> string option \<Rightarrow> uint128 option \<Rightarrow>
   cAsset list \<Rightarrow> (cdp_storage \<times> cdp_response) cdp_result" where
  "cdp_deposit L st Q env info position_owner position_id cAssets =
     rbind (cdp_config_load st) (\<lambda>config.
     rbind (map_err CdpStd (validate_position_owner L info position_owner)) (\<lambda>owner.
     rbind (basket_load st) (\<lambda>basket.
     if bk_frozen basket then Inl (Failed CdpFrozen)
     else
     let deposit_amounts = map ca_amount cAssets; set_redemption = has_rate_hike cAssets in
     rbind (case CD_POSITIONS st owner of
         Some positions \<Rightarrow>
           (case position_id of
              Some position_id \<Rightarrow>
                rbind (force_redemption set_redemption st info position_id) (\<lambda>st.
                case find_index_of (\<lambda>p. po_position_id p = position_id) positions of
                  Some (position_index, pos) \<Rightarrow>
                    rbind (deposit_to_position st Q env config owner cAssets basket positions
                             position_index pos) (\<lambda>(st, prev_collateral).
                    Inr (st, prev_collateral, \<lparr>ui_position_id = position_id,
                                               ui_position_owner = owner\<rparr>))
                | None \<Rightarrow> Inl (Failed (CdpNonExistentPosition position_id)))
            | None \<Rightarrow>
                if MAX_POSITIONS_AMOUNT \<le> length positions then Inl (Failed CdpMaxPositionsReached)
                else deposit_to_new set_redemption st Q env info config owner cAssets basket)
       | None \<Rightarrow> deposit_to_new set_redemption st Q env info config owner cAssets basket)
       (\<lambda>(st, positions_prev_collateral, position_info).
     rbind (check_deposit_state L st positions_prev_collateral deposit_amounts position_info) (\<lambda>_.
     Inr (st, \<lparr>cr_messages = [],
               cr_attributes = [(''method'', AText ''deposit''),
                 (''position_owner'', AText (ui_position_owner position_info)),
                 (''position_id'', ANum (ui_position_id position_info)),
                 (''assets'', ADebug (DbgAssetList (map ca_asset cAssets)))]\<rparr>))))))"

section \<open>Withdraw\<close>

text \<open>
  The list of the user after a withdrawal: the position, or the list without it, and no list at all
  when it was the last one.
\<close>

definition save_withdrawn ::
  "cdp_storage \<Rightarrow> addr \<Rightarrow> nat \<Rightarrow> Position \<Rightarrow> cdp_storage cdp_result" where
  "save_withdrawn st owner position_index target_position =
     (let updating_positions = (case CD_POSITIONS st owner of None \<Rightarrow> [] | Some ps \<Rightarrow> ps) in
      rbind (if \<not> check_for_empty_position (po_collateral_assets target_position)
             then update_at updating_positions position_index target_position
             else remove_at updating_positions position_index) (\<lambda>positions.
      Inr (st\<lparr>CD_POSITIONS := (CD_POSITIONS st)(owner :=
             (if positions = [] then None else Some positions))\<rparr>)))"

text \<open>The lists \<open>withdraw\<close> fills as it goes over the assets.\<close>

record withdraw_state =
  ws_storage :: cdp_storage
  ws_position :: Position
  ws_tally :: "cAsset list"
  ws_prop_assets :: "Asset list"
  ws_amounts :: "uint128 list"
  ws_coins :: "Coin list"

definition take_collateral :: "Position \<Rightarrow> nat \<Rightarrow> cAsset \<Rightarrow> uint128 \<Rightarrow> Position" where
  "take_collateral pos i position_collateral withdrawn =
     (let leftover_amount = ca_amount position_collateral - withdrawn in
      pos\<lparr>po_collateral_assets :=
        (if leftover_amount \<noteq> 0
         then (po_collateral_assets pos)[i := ca_set_amount position_collateral leftover_amount]
         else take i (po_collateral_assets pos) @ drop (Suc i) (po_collateral_assets pos))\<rparr>)"

definition withdraw_cAsset ::
  "querier \<Rightarrow> Env \<Rightarrow> cdp_config \<Rightarrow> Basket \<Rightarrow> addr \<Rightarrow> nat \<Rightarrow> cAsset \<Rightarrow> withdraw_state \<Rightarrow>
   withdraw_state cdp_result" where
  "withdraw_cAsset Q env config basket owner position_index withdrawal s =
     (let withdraw_asset = ca_asset withdrawal in
      case find_index_of (\<lambda>cAsset. asset_info_equal (ca_info cAsset) (a_info withdraw_asset))
             (po_collateral_assets (ws_position s)) of
        None \<Rightarrow> Inr s
      | Some (collateral_index, position_collateral) \<Rightarrow>
          if ca_amount position_collateral < a_amount withdraw_asset
          then Inl (Failed CdpInvalidWithdrawal)
          else
            let target_position = take_collateral (ws_position s) collateral_index
                  position_collateral (a_amount withdraw_asset) in
            rbind (insolvency_check (ws_storage s) env Q (Some basket)
                     (po_collateral_assets target_position) (po_credit_amount target_position)
                     (bk_credit_price basket) True config) (\<lambda>(insolvency_res, _).
            if fst insolvency_res then Inl (Failed (CdpPositionInsolvent insolvency_res))
            else
              rbind (save_withdrawn (ws_storage s) owner position_index target_position) (\<lambda>st.
              rbind (case a_info withdraw_asset of
                       NativeToken _ \<Rightarrow> rbind (map_err CdpStd (asset_to_coin withdraw_asset))
                         (\<lambda>coin. Inr [coin])
                     | Token _ \<Rightarrow> Inr []) (\<lambda>coins.
              Inr \<lparr>ws_storage = st, ws_position = target_position,
                ws_tally = ws_tally s @ [position_collateral\<lparr>ca_asset := withdraw_asset\<rparr>],
                ws_prop_assets = ws_prop_assets s @ [ca_asset position_collateral],
                ws_amounts = ws_amounts s @ [a_amount withdraw_asset],
                ws_coins = ws_coins s @ coins\<rparr>))))"

text \<open>\<open>get_contract_balances\<close> (\<open>packages/membrane/src/helpers.rs\<close>).\<close>

definition get_contract_balances :: "querier \<Rightarrow> Env \<Rightarrow> AssetInfo list \<Rightarrow> uint128 list cdp_result" where
  "get_contract_balances Q env asset_infos =
     rmapM (\<lambda>info. ask (qr_balance Q (contract_address env) (asset_info_to_string info)))
       (filter is_native_token asset_infos)"

definition cdp_withdraw ::
  "chain_lib \<Rightarrow> cdp_storage \<Rightarrow> querier \<Rightarrow> Env \<Rightarrow> MessageInfo \<Rightarrow> uint128 \<Rightarrow> cAsset list \<Rightarrow> string option \<Rightarrow>
   (cdp_storage \<times> cdp_response) cdp_result" where
  "cdp_withdraw L st Q env info position_id cAssets send_to =
     rbind (cdp_config_load st) (\<lambda>config.
     rbind (basket_load st) (\<lambda>basket.
     if bk_frozen basket then Inl (Failed CdpFrozen)
     else
     rbind (case send_to of Some s \<Rightarrow> map_err CdpStd (lib_addr_validate L s)
            | None \<Rightarrow> Inr (sender info)) (\<lambda>recipient.
     let owner = (if sender info = contract_address env \<and> send_to \<noteq> None then recipient
           else sender info) in
     rbind (get_target_position st owner position_id) (\<lambda>(position_index, target_position).
     rbind (accrue st Q env config target_position basket owner False)
       (\<lambda>(st, target_position, basket, _).
     rbind (check_for_expunged (po_collateral_assets target_position) cAssets basket) (\<lambda>_.
     rbind (rfold (withdraw_cAsset Q env config basket owner position_index) cAssets
              \<lparr>ws_storage = st, ws_position = target_position, ws_tally = [], ws_prop_assets = [],
               ws_amounts = [], ws_coins = []\<rparr>) (\<lambda>s.
     let target_position = ws_position s;
         msgs = (if ws_coins s \<noteq> []
           then [ReplyOnSuccess (BankSend recipient (ws_coins s)) WITHDRAW_REPLY_ID] else []) in
     rbind (if po_credit_amount target_position \<noteq> 0 then
              update_basket_tally (ws_storage s) Q env basket (ws_tally s)
                (po_collateral_assets target_position) False config False
            else Inr (ws_storage s, basket)) (\<lambda>(st, basket).
     let st = st\<lparr>CD_BASKET := Some basket\<rparr> in
     rbind (get_contract_balances Q env (map a_info (ws_prop_assets s))) (\<lambda>balances.
     let withdrawal_prop = \<lparr>wp_positions_prev_collateral = ws_prop_assets s,
           wp_withdraw_amounts = ws_amounts s, wp_contracts_prev_collateral_amount = balances,
           wp_position_info = \<lparr>ui_position_id = position_id, ui_position_owner = sender info\<rparr>\<rparr> in
     Inr (st\<lparr>CD_WITHDRAW := Some withdrawal_prop\<rparr>,
       \<lparr>cr_messages = msgs,
        cr_attributes = [(''method'', AText ''withdraw''), (''position_id'', ANum position_id),
          (''assets'', ADebug (DbgCAssets cAssets))]\<rparr>))))))))))"

section \<open>Repay\<close>

definition check_repay_state ::
  "cdp_storage \<Rightarrow> uint128 \<Rightarrow> uint128 \<Rightarrow> uint128 \<Rightarrow> addr \<Rightarrow> unit cdp_result" where
  "check_repay_state st repay_amount prev_credit_amount position_id position_owner =
     rbind (get_target_position st position_owner position_id) (\<lambda>(_, target_position).
     if prev_credit_amount \<le> repay_amount \<and> po_credit_amount target_position \<noteq> 0
     then custom ''Conditional 1: Possible state error''
     else
       rbind (u128_sub prev_credit_amount repay_amount) (\<lambda>left.
       if po_credit_amount target_position \<noteq> left
       then custom ''Conditional 2: Possible state error'' else Inr ()))"

text \<open>The contracts that may leave a position below the minimum debt.\<close>

definition may_leave_below_minimum :: "cdp_config \<Rightarrow> Basket \<Rightarrow> addr \<Rightarrow> bool" where
  "may_leave_below_minimum config basket user \<longleftrightarrow>
     cc_dex_router config = Some user \<or> cc_stability_pool config = Some user \<or>
     bk_liq_queue basket = Some user"

definition check_minimum_left ::
  "cdp_config \<Rightarrow> Basket \<Rightarrow> addr \<Rightarrow> uint128 \<Rightarrow> unit cdp_result" where
  "check_minimum_left config basket user credit_amount =
     rbind (map_err CdpStd (price_get_value (bk_credit_price basket) credit_amount)) (\<lambda>credit_value.
     rbind (dec_of_uint (cc_debt_minimum config)) (\<lambda>minimum.
     if credit_value < minimum \<and> credit_amount \<noteq> 0 \<and> \<not> may_leave_below_minimum config basket user
     then Inl (Failed (CdpBelowMinimumDebt (cc_debt_minimum config) (to_uint_floor credit_value)))
     else Inr ()))"

text \<open>The store after a repayment, and whether the position went; its old collateral decides.\<close>

definition save_repaid ::
  "cdp_storage \<Rightarrow> addr \<Rightarrow> nat \<Rightarrow> Position \<Rightarrow> (cdp_storage \<times> bool) cdp_result" where
  "save_repaid st owner position_index target_position =
     (let updating_positions = (case CD_POSITIONS st owner of None \<Rightarrow> [] | Some ps \<Rightarrow> ps) in
      rbind (at_index updating_positions position_index) (\<lambda>stored.
      rbind (if \<not> check_for_empty_position (po_collateral_assets stored)
             then rbind (update_at updating_positions position_index target_position)
                    (\<lambda>ps. Inr (ps, False))
             else rbind (remove_at updating_positions position_index) (\<lambda>ps. Inr (ps, True)))
        (\<lambda>(positions, removed).
      Inr (st\<lparr>CD_POSITIONS := (CD_POSITIONS st)(owner \<mapsto> positions)\<rparr>, removed))))"

definition excess_msgs ::
  "chain_lib \<Rightarrow> MessageInfo \<Rightarrow> Basket \<Rightarrow> uint128 \<Rightarrow> string option \<Rightarrow> cosmos_msg list cdp_result" where
  "excess_msgs L info basket excess_repayment send_excess_to =
     (if excess_repayment \<noteq> 0 then
        rbind (case send_excess_to of Some a \<Rightarrow> map_err CdpStd (lib_addr_validate L a)
               | None \<Rightarrow> Inr (sender info)) (\<lambda>valid_addr.
        rbind (map_err CdpStd (withdrawal_msg
                 ((bk_credit_asset basket)\<lparr>a_amount := excess_repayment\<rparr>) valid_addr)) (\<lambda>msg.
        Inr [msg]))
      else Inr [])"

definition cdp_repay ::
  "chain_lib \<Rightarrow> cdp_storage \<Rightarrow> querier \<Rightarrow> Env \<Rightarrow> MessageInfo \<Rightarrow> uint128 \<Rightarrow> string option \<Rightarrow> Asset \<Rightarrow>
   string option \<Rightarrow> (cdp_storage \<times> cdp_response) cdp_result" where
  "cdp_repay L st Q env info position_id position_owner credit_asset send_excess_to =
     rbind (cdp_config_load st) (\<lambda>config.
     rbind (basket_load st) (\<lambda>basket.
     if bk_frozen basket then Inl (Failed CdpFrozen)
     else
     rbind (map_err CdpStd (validate_position_owner L info position_owner)) (\<lambda>owner.
     rbind (get_target_position st owner position_id) (\<lambda>(position_index, target_position).
     rbind (if sender info \<noteq> addr_or_empty (cc_stability_pool config) then
              rbind (accrue st Q env config target_position basket owner False)
                (\<lambda>(st, target_position, basket, _). Inr (st, target_position, basket))
            else Inr (st, target_position, basket)) (\<lambda>(st, target_position, basket).
     let prev_credit_amount = po_credit_amount target_position;
         excess_repayment = a_amount credit_asset - prev_credit_amount;
         target_position = target_position\<lparr>po_credit_amount :=
           prev_credit_amount - a_amount credit_asset\<rparr>;
         repaid = a_amount credit_asset - excess_repayment in
     rbind (if po_credit_amount target_position = 0 then
              update_basket_tally st Q env basket (po_collateral_assets target_position)
                (po_collateral_assets target_position) False config False
            else Inr (st, basket)) (\<lambda>(st, basket).
     rbind (check_minimum_left config basket (sender info) (po_credit_amount target_position)) (\<lambda>_.
     rbind (save_repaid st owner position_index target_position) (\<lambda>(st, removed).
     rbind (credit_burn_rev_msg config env (credit_asset\<lparr>a_amount := repaid\<rparr>) basket)
       (\<lambda>(burn_and_rev_msgs, basket).
     rbind (excess_msgs L info basket excess_repayment send_excess_to) (\<lambda>excess.
     let basket = bk_set_credit basket (bk_credit basket - repaid);
         st = st\<lparr>CD_BASKET := Some basket\<rparr> in
     rbind (if \<not> removed then check_repay_state st repaid prev_credit_amount position_id owner
            else Inr ()) (\<lambda>_.
     Inr (st, \<lparr>cr_messages = map Plain (burn_and_rev_msgs @ excess),
               cr_attributes = [(''method'', AText ''repay''), (''position_id'', ANum position_id),
                 (''loan_amount'', ANum (po_credit_amount target_position))]\<rparr>))))))))))))"

end
