(* ===== verification/CDP_Debt.thy ===== *)
theory CDP_Debt
  imports CDP_Positions
begin

text \<open>
  Debt positions: \<open>increase_debt\<close>, with the amount that reaches a loan-to-value target, and
  \<open>liq_repay\<close>, the stability pool's part of a liquidation (\<open>contracts/cdp/src/positions.rs\<close>).
\<close>

section \<open>Borrowing\<close>

definition get_amount_from_LTV ::
  "cdp_storage \<Rightarrow> querier \<Rightarrow> Env \<Rightarrow> cdp_config \<Rightarrow> Position \<Rightarrow> Basket \<Rightarrow> decimal \<Rightarrow> uint128 cdp_result" where
  "get_amount_from_LTV st Q env config pos basket target_LTV =
     rbind (get_avg_LTV st env Q config (Some basket) (po_collateral_assets pos) False)
       (\<lambda>(avg_borrow_LTV, _, total_value, _, _).
     if avg_borrow_LTV < target_LTV then Inl (Failed (CdpInvalidLTV target_LTV))
     else
     rbind (map_err CdpStd (price_get_value (bk_credit_price basket) (po_credit_amount pos)))
       (\<lambda>credit_value.
     rbind (map_err CdpStd (decimal_division credit_value total_value)) (\<lambda>current_LTV.
     if target_LTV \<le> current_LTV then Inl (Failed (CdpInvalidLTV target_LTV))
     else
     rbind (dec_sub target_LTV current_LTV) (\<lambda>LTV_spread.
     rbind (map_err CdpStd (decimal_multiplication total_value LTV_spread))
       (\<lambda>increased_credit_value.
     map_err CdpStd (price_get_amount (bk_credit_price basket) increased_credit_value))))))"

definition check_debt_increase_state ::
  "cdp_storage \<Rightarrow> uint128 \<Rightarrow> uint128 \<Rightarrow> uint128 \<Rightarrow> uint128 \<Rightarrow> addr \<Rightarrow> unit cdp_result" where
  "check_debt_increase_state st increase_amount prev_credit_amount prev_basket_credit position_id
     position_owner =
     rbind (get_target_position st position_owner position_id) (\<lambda>(_, target_position).
     rbind (basket_load st) (\<lambda>basket.
     rbind (u128_add prev_credit_amount increase_amount) (\<lambda>total.
     if po_credit_amount target_position \<noteq> total
     then custom ''Conditional 1: increase_debt() state error found, saved credit_amount != desired.''
     else
       rbind (u128_add prev_basket_credit increase_amount) (\<lambda>total.
       if bk_credit basket \<noteq> total
       then custom ''Conditional 2: increase_debt() state error found, saved credit_amount != desired.''
       else Inr ()))))"

text \<open>The amount to borrow: given, or from the loan-to-value target.\<close>

definition increase_amount ::
  "cdp_storage \<Rightarrow> querier \<Rightarrow> Env \<Rightarrow> cdp_config \<Rightarrow> Position \<Rightarrow> Basket \<Rightarrow> uint128 option \<Rightarrow>
   decimal option \<Rightarrow> uint128 cdp_result" where
  "increase_amount st Q env config pos basket amount LTV =
     (case amount of
        Some amount \<Rightarrow> Inr amount
      | None \<Rightarrow>
          (case LTV of
             Some LTV \<Rightarrow> get_amount_from_LTV st Q env config pos basket LTV
           | None \<Rightarrow> custom ''If amount isn't passed, LTV must be passed''))"

definition check_minimum_debt :: "cdp_config \<Rightarrow> Basket \<Rightarrow> uint128 \<Rightarrow> unit cdp_result" where
  "check_minimum_debt config basket credit_amount =
     rbind (map_err CdpStd (price_get_value (bk_credit_price basket) credit_amount)) (\<lambda>credit_value.
     rbind (dec_of_uint (cc_debt_minimum config)) (\<lambda>minimum.
     if credit_value < minimum
     then Inl (Failed (CdpBelowMinimumDebt (cc_debt_minimum config) (to_uint_floor credit_value)))
     else Inr ()))"

text \<open>The solvency check, the mint and the stores of \<open>increase_debt\<close>, for the amount already added.\<close>

definition mint_debt ::
  "chain_lib \<Rightarrow> cdp_storage \<Rightarrow> querier \<Rightarrow> Env \<Rightarrow> MessageInfo \<Rightarrow> cdp_config \<Rightarrow> Basket \<Rightarrow> nat \<Rightarrow> Position \<Rightarrow>
   uint128 \<Rightarrow> string option \<Rightarrow> (cdp_storage \<times> cosmos_msg) cdp_result" where
  "mint_debt L st Q env info config basket position_index target_position amount mint_to_addr =
     (if bk_oracle_set basket then
        rbind (insolvency_check st env Q (Some basket) (po_collateral_assets target_position)
                 (po_credit_amount target_position) (bk_credit_price basket) True config)
          (\<lambda>(insolvency_res, _).
        if fst insolvency_res then Inl (Failed (CdpPositionInsolvent insolvency_res))
        else
        rbind (case mint_to_addr of Some mint_to \<Rightarrow> map_err CdpStd (lib_addr_validate L mint_to)
               | None \<Rightarrow> Inr (sender info)) (\<lambda>recipient.
        rbind (credit_mint_msg config ((bk_credit_asset basket)\<lparr>a_amount := amount\<rparr>) recipient)
          (\<lambda>message.
        let positions = (case CD_POSITIONS st (sender info) of None \<Rightarrow> [] | Some ps \<Rightarrow> ps) in
        rbind (update_at positions position_index target_position) (\<lambda>positions.
        rbind (u128_add (bk_credit basket) amount) (\<lambda>basket_credit.
        Inr (st\<lparr>CD_POSITIONS := (CD_POSITIONS st)(sender info \<mapsto> positions),
                CD_BASKET := Some (bk_set_credit basket basket_credit)\<rparr>, message))))))
      else Inl (Failed CdpNoRepaymentPrice))"

definition increase_debt ::
  "chain_lib \<Rightarrow> cdp_storage \<Rightarrow> querier \<Rightarrow> Env \<Rightarrow> MessageInfo \<Rightarrow> uint128 \<Rightarrow> uint128 option \<Rightarrow>
   decimal option \<Rightarrow> string option \<Rightarrow> (cdp_storage \<times> cdp_response) cdp_result" where
  "increase_debt L st Q env info position_id amount LTV mint_to_addr =
     rbind (cdp_config_load st) (\<lambda>config.
     rbind (basket_load st) (\<lambda>basket.
     if bk_frozen basket then Inl (Failed CdpFrozen)
     else
     rbind (get_target_position st (sender info) position_id) (\<lambda>(position_index, target_position).
     let set_redemption = has_rate_hike (po_collateral_assets target_position) in
     rbind (accrue st Q env config target_position basket (sender info) False)
       (\<lambda>(st, target_position, basket, _).
     let prev_credit_amount = po_credit_amount target_position;
         prev_basket_credit = bk_credit basket in
     rbind (if prev_credit_amount = 0 then
              update_basket_tally st Q env basket (po_collateral_assets target_position)
                (po_collateral_assets target_position) True config False
            else Inr (st, basket)) (\<lambda>(st, basket).
     rbind (increase_amount st Q env config target_position basket amount LTV) (\<lambda>amount.
     rbind (u128_add (po_credit_amount target_position) amount) (\<lambda>credit_amount.
     let target_position = target_position\<lparr>po_credit_amount := credit_amount\<rparr> in
     rbind (check_minimum_debt config basket credit_amount) (\<lambda>_.
     rbind (mint_debt L st Q env info config basket position_index target_position amount
              mint_to_addr) (\<lambda>(st, message).
     rbind (check_debt_increase_state st amount prev_credit_amount prev_basket_credit position_id
              (sender info)) (\<lambda>_.
     rbind (force_redemption set_redemption st info position_id) (\<lambda>st.
     Inr (st, \<lparr>cr_messages = [Plain message],
               cr_attributes = [(''method'', AText ''increase_debt''),
                 (''position_id'', ANum position_id), (''total_loan'', ANum credit_amount),
                 (''increased_by'', ANum amount)]\<rparr>))))))))))))"

section \<open>The stability pool's repayment\<close>

text \<open>The debt after the pool's repayment, what of it the position takes and the excess; a debt of one
  unit is forgiven.\<close>

definition pool_repayment :: "uint128 \<Rightarrow> uint128 \<Rightarrow> uint128 \<times> uint128 \<times> uint128" where
  "pool_repayment credit_amount repaid =
     (if repaid \<le> credit_amount then
        (if credit_amount - repaid = 1 then 0 else credit_amount - repaid, repaid, 0)
      else (0, credit_amount, repaid - credit_amount))"

text \<open>The collateral the pool receives for one asset, with its fee.\<close>

definition distribute_collateral ::
  "decimal \<Rightarrow> decimal list \<Rightarrow> PriceResponse list \<Rightarrow> decimal \<Rightarrow> nat \<times> cAsset \<Rightarrow> Asset list \<Rightarrow>
   (Asset list \<times> cAsset) cdp_result" where
  "distribute_collateral repay_value cAsset_ratios cAsset_prices sp_liq_fee =
     (\<lambda>(num, cAsset) distribution_assets.
     rbind (at_index cAsset_ratios num) (\<lambda>ratio.
     rbind (map_err CdpStd (decimal_multiplication repay_value ratio)) (\<lambda>collateral_repay_value.
     rbind (at_index cAsset_prices num) (\<lambda>price.
     rbind (map_err CdpStd (price_get_amount price collateral_repay_value))
       (\<lambda>collateral_repay_amount.
     rbind (dec_add sp_liq_fee DECIMAL_FRACTIONAL) (\<lambda>with_fee.
     rbind (uint128_mul_dec collateral_repay_amount with_fee) (\<lambda>collateral_w_fee.
     rbind (u128_sub (ca_amount cAsset) collateral_w_fee) (\<lambda>left.
     let distribution_asset = (ca_asset cAsset)\<lparr>a_amount := collateral_w_fee\<rparr> in
     rbind (map_err CdpStd (asset_to_coin distribution_asset)) (\<lambda>_.
     Inr (distribution_assets @ [distribution_asset], ca_set_amount cAsset left))))))))))"

definition check_caller_fee ::
  "Basket \<Rightarrow> LiquidationPropagation \<Rightarrow> uint128 \<Rightarrow> unit cdp_result" where
  "check_caller_fee basket prp repaid =
     rbind (dec_of_uint repaid) (\<lambda>repaid.
     rbind (dec_add (lp_total_repaid prp) repaid) (\<lambda>total_repaid.
     rbind (map_err CdpStd (price_get_value (bk_credit_price basket) (to_uint_floor total_repaid)))
       (\<lambda>repaid_value.
     if repaid_value < lp_caller_fee_value_paid prp
     then custom ''Caller fee is greater than total repaid value'' else Inr ())))"

text \<open>What leaves the tally: the distributed assets, and with no debt left the rest of the position.\<close>

definition with_amounts :: "cAsset list \<Rightarrow> Asset list \<Rightarrow> cAsset list" where
  "with_amounts cAssets assets = map2 (\<lambda>c a. c\<lparr>ca_asset := a\<rparr>) cAssets assets"

definition excess_to_pool ::
  "cdp_config \<Rightarrow> Basket \<Rightarrow> bool \<Rightarrow> uint128 \<Rightarrow> cosmos_msg list cdp_result" where
  "excess_to_pool config basket too_much excess =
     (if too_much then
        rbind (map_err CdpStd (withdrawal_msg ((bk_credit_asset basket)\<lparr>a_amount := excess\<rparr>)
                 (addr_or_empty (cc_stability_pool config)))) (\<lambda>msg. Inr [msg])
      else Inr [])"

definition liq_repay ::
  "cdp_storage \<Rightarrow> querier \<Rightarrow> Env \<Rightarrow> MessageInfo \<Rightarrow> Asset \<Rightarrow> (cdp_storage \<times> cdp_response) cdp_result" where
  "liq_repay st Q env info credit_asset =
     rbind (ok_or (CdpStd (NotFound ''LiquidationPropagation'')) (CD_LIQUIDATION st)) (\<lambda>prp.
     let config = lp_config prp; basket = lp_basket prp; target_position = lp_target_position prp in
     if cc_stability_pool config \<noteq> Some (sender info)
     then Inl (Failed (CdpUnauthorized (cc_owner config)))
     else
     case pool_repayment (po_credit_amount target_position) (a_amount credit_asset) of
       (credit_left, repaid, excess_repayment) \<Rightarrow>
     rbind (excess_to_pool config basket
              (po_credit_amount target_position < a_amount credit_asset) excess_repayment) (\<lambda>excess.
     rbind (credit_burn_rev_msg config env (credit_asset\<lparr>a_amount := repaid\<rparr>) basket)
       (\<lambda>(burn_and_rev_msgs, basket).
     if bk_credit basket < repaid
     then custom ''Repay amount is greater than Basket credit amount in liq_repay''
     else
     let basket = bk_set_credit basket (bk_credit basket - repaid);
         collateral_assets = po_collateral_assets target_position in
     rbind (map_err CdpStd (price_get_value (bk_credit_price basket) repaid)) (\<lambda>repay_value.
     rbind (check_caller_fee basket prp repaid) (\<lambda>_.
     rbind (rmap_state (distribute_collateral repay_value (lp_cAsset_ratios prp)
              (lp_cAsset_prices prp) (lp_sp_liq_fee prp)) (enumerate 0 collateral_assets) [])
       (\<lambda>(distribution_assets, collateral_left).
     let liquidated = lp_liquidated_assets prp @ with_amounts collateral_assets distribution_assets;
         target_position = target_position\<lparr>po_credit_amount := credit_left,
           po_collateral_assets := collateral_left\<rparr> in
     rbind (update_basket_tally st Q env basket
              (if credit_left = 0 then collateral_left @ liquidated else liquidated)
              collateral_left False config True) (\<lambda>(st, basket).
     rbind (update_position st (lp_position_owner prp) target_position) (\<lambda>st.
     Inr (st\<lparr>CD_BASKET := Some basket\<rparr>,
       \<lparr>cr_messages = map Plain (excess @ burn_and_rev_msgs @
          [WasmExecute (addr_or_empty (cc_stability_pool config))
             (SpDistributeMsg distribution_assets (lp_cAsset_ratios prp) repaid)
             (map native_asset_to_coin distribution_assets)]),
        cr_attributes = [(''method'', AText ''liq_repay''),
          (''distribution_assets'', ADebug (DbgAssetList distribution_assets)),
          (''distribute_for'', ANum repaid), (''excess'', ANum excess_repayment)]\<rparr>)))))))))"

end
