(* ===== verification/CDP_Liquidations.thy ===== *)
theory CDP_Liquidations
  imports CDP_Debt
begin

text \<open>
  Debt positions: liquidation (\<open>contracts/cdp/src/liquidations.rs\<close>): the amount to repay, the owner's own
  repayment from the stability pool, the fees and the queue's part per asset, the stability pool's
  part, and the handler \<open>liquidate\<close> (\<open>cdp_liquidate\<close>). The downtime detector of the chain is a query of the host
  (\<open>qr_recovered\<close>).
\<close>

definition CDP_SECONDS_PER_DAY :: u64 where "CDP_SECONDS_PER_DAY = 86400"
definition LIQ_QUEUE_REPLY_ID :: nat where "LIQ_QUEUE_REPLY_ID = 1"
definition SP_REPLY_ID :: nat where "SP_REPLY_ID = 2"
definition USER_SP_REPAY_REPLY_ID :: nat where "USER_SP_REPAY_REPLY_ID = 3"
definition BAD_DEBT_REPLY_ID :: nat where "BAD_DEBT_REPLY_ID = 999999"

text \<open>\<open>Uint128::from_str\<close>, the standard library's parser of unsigned integers.\<close>

definition u128_from_str :: "string \<Rightarrow> uint128 cdp_result" where
  "u128_from_str s =
     (let digits = (case s of c # cs \<Rightarrow> if c = CHR ''+'' \<and> cs \<noteq> [] then cs else s | [] \<Rightarrow> s) in
      if digits \<noteq> [] \<and> list_all is_digit digits \<and> digits_val digits < U128_BOUND
      then Inr (digits_val digits)
      else Inl (Failed (CdpStd (GenericErr ''Parsing u128''))))"

section \<open>How much to repay\<close>

text \<open>The value to repay: down to the borrow limit, at least the minimum, and all of the loan when a part
  would leave less than the minimum. Above a loan-to-value of one, all the collateral.\<close>

definition insolvent_value ::
  "decimal \<Rightarrow> decimal \<Rightarrow> decimal \<Rightarrow> decimal \<Rightarrow> decimal cdp_result" where
  "insolvent_value current_LTV borrow_LTV total_value loan_value =
     (if DECIMAL_FRACTIONAL \<le> current_LTV then Inr total_value
      else
        rbind (map_err CdpStd (decimal_subtraction current_LTV borrow_LTV)) (\<lambda>over.
        rbind (map_err CdpStd (decimal_division over current_LTV)) (\<lambda>part.
        map_err CdpStd (decimal_multiplication part loan_value))))"

definition at_least_debt_minimum :: "decimal \<Rightarrow> decimal \<Rightarrow> decimal \<Rightarrow> decimal cdp_result" where
  "at_least_debt_minimum repay_value loan_value minimum =
     (if repay_value < minimum then
        if loan_value < minimum then Inr loan_value
        else rbind (dec_sub loan_value minimum) (\<lambda>left.
          if minimum \<le> left then Inr minimum else Inr loan_value)
      else Inr repay_value)"

definition get_repay_quantities ::
  "cdp_config \<Rightarrow> Basket \<Rightarrow> Position \<Rightarrow> decimal \<Rightarrow> decimal \<Rightarrow> decimal \<Rightarrow> (decimal \<times> decimal) cdp_result" where
  "get_repay_quantities config basket target_position current_LTV borrow_LTV total_value =
     rbind (map_err CdpStd (price_get_value (bk_credit_price basket)
              (po_credit_amount target_position))) (\<lambda>loan_value.
     rbind (insolvent_value current_LTV borrow_LTV total_value loan_value) (\<lambda>repay_value.
     rbind (dec_of_uint (cc_debt_minimum config)) (\<lambda>minimum.
     rbind (at_least_debt_minimum repay_value loan_value minimum) (\<lambda>repay_value.
     rbind (map_err CdpStd (price_get_amount (bk_credit_price basket) repay_value))
       (\<lambda>credit_repay_amount.
     if credit_repay_amount = 0 then Inl (Failed CdpPositionSolvent)
     else if po_credit_amount target_position < credit_repay_amount
     then Inl (Failed (CdpFaultyCalc ''Repay amount is greater than total debt''))
     else rbind (dec_of_uint credit_repay_amount) (\<lambda>credit_repay_amount.
       Inr (repay_value, credit_repay_amount)))))))"

text \<open>What the owner repays from their own deposits: the amount, what is left, and the message.\<close>

definition get_user_repay_amount ::
  "querier \<Rightarrow> cdp_config \<Rightarrow> Basket \<Rightarrow> uint128 \<Rightarrow> string \<Rightarrow> decimal \<Rightarrow>
   (decimal \<times> decimal \<times> sub_msg list) cdp_result" where
  "get_user_repay_amount Q config basket position_id position_owner credit_repay_amount =
     (case cc_stability_pool config of
        None \<Rightarrow> Inr (0, credit_repay_amount, [])
      | Some stability_pool \<Rightarrow>
          let user_deposits = (case qr_sp_pool Q stability_pool (Some position_owner) None None of
                Inr res \<Rightarrow> ap_deposits res | Inl _ \<Rightarrow> []) in
          rbind (dec_sum (map d_amount user_deposits)) (\<lambda>total_user_deposit.
          if total_user_deposit = 0 then Inr (0, credit_repay_amount, [])
          else
            let user_repay_amount = (if credit_repay_amount < total_user_deposit
                  then credit_repay_amount else total_user_deposit);
                msg = WasmExecute stability_pool (SpRepayMsg
                  \<lparr>ui_position_id = position_id, ui_position_owner = position_owner\<rparr>
                  \<lparr>a_info = a_info (bk_credit_asset basket),
                   a_amount = to_uint_floor user_repay_amount\<rparr>) [] in
            rbind (map_err CdpStd (decimal_subtraction credit_repay_amount user_repay_amount))
              (\<lambda>credit_repay_amount.
            Inr (user_repay_amount, credit_repay_amount, [Plain msg]))))"

section \<open>Fees and the queue\<close>

text \<open>The running values of the loop over the collateral.\<close>

record fulfillment =
  ff_collateral_assets :: "cAsset list"
  ff_leftover_position_value :: decimal
  ff_leftover_repayment :: uint128
  ff_submessages :: "sub_msg list"
  ff_per_asset_repayment :: "decimal list"
  ff_liquidated_assets :: "cAsset list"
  ff_caller_fee_value_paid :: decimal
  ff_caller_coins :: "Coin list"
  ff_protocol_coins :: "Coin list"

text \<open>What does not change in the loop.\<close>

record fulfillment_terms =
  ft_config :: cdp_config
  ft_basket :: Basket
  ft_caller_fee :: decimal
  ft_fn_repayment :: uint128
  ft_repay_value :: decimal
  ft_pre_user_repay_repay_value :: decimal
  ft_cAsset_ratios :: "decimal list"
  ft_cAsset_prices :: "PriceResponse list"

definition asset_fees ::
  "fulfillment_terms \<Rightarrow> decimal \<Rightarrow> PriceResponse \<Rightarrow> (uint128 \<times> uint128) cdp_result" where
  "asset_fees terms ratio collateral_price =
     rbind (map_err CdpStd (decimal_multiplication (ft_pre_user_repay_repay_value terms) ratio))
       (\<lambda>collateral_repay_value.
     rbind (map_err CdpStd (price_get_amount collateral_price collateral_repay_value))
       (\<lambda>collateral_repay_amount.
     rbind (uint128_mul_dec collateral_repay_amount (ft_caller_fee terms)) (\<lambda>caller_fee.
     rbind (uint128_mul_dec collateral_repay_amount (cc_liq_fee (ft_config terms)))
       (\<lambda>protocol_fee.
     Inr (caller_fee, protocol_fee)))))"

definition pay_fees ::
  "fulfillment_terms \<Rightarrow> nat \<Rightarrow> cAsset \<Rightarrow> fulfillment \<Rightarrow> fulfillment cdp_result" where
  "pay_fees terms num cAsset s =
     rbind (at_index (ft_cAsset_ratios terms) num) (\<lambda>ratio.
     rbind (at_index (ft_cAsset_prices terms) num) (\<lambda>price.
     rbind (asset_fees terms ratio price) (\<lambda>(caller_fee, protocol_fee).
     rbind (map_err CdpStd (price_get_value price caller_fee)) (\<lambda>fee_value.
     rbind (dec_add (ff_caller_fee_value_paid s) fee_value) (\<lambda>caller_fee_value_paid.
     rbind (at_index (ff_collateral_assets s) num) (\<lambda>held.
     rbind (u128_sub (ca_amount held) caller_fee) (\<lambda>left.
     rbind (u128_sub left protocol_fee) (\<lambda>left.
     rbind (update_at (ff_collateral_assets s) num (ca_set_amount held left)) (\<lambda>collateral_assets.
     rbind (u128_add caller_fee protocol_fee) (\<lambda>total_fee.
     rbind (map_err CdpStd (price_get_value price total_fee)) (\<lambda>fee_value.
     rbind (map_err CdpStd (decimal_subtraction (ff_leftover_position_value s) fee_value))
       (\<lambda>leftover_position_value.
     rbind (case ca_info cAsset of
              Token _ \<Rightarrow> Inl (Failed (CdpStd (GenericErr ''Cw20 assets aren't allowed'')))
            | NativeToken denom \<Rightarrow> Inr denom) (\<lambda>denom.
     Inr (s\<lparr>ff_collateral_assets := collateral_assets,
       ff_leftover_position_value := leftover_position_value,
       ff_liquidated_assets := ff_liquidated_assets s @
         [ca_set_amount cAsset caller_fee, ca_set_amount cAsset protocol_fee],
       ff_caller_fee_value_paid := caller_fee_value_paid,
       ff_caller_coins := ff_caller_coins s @ [\<lparr>c_denom = denom, c_amount = caller_fee\<rparr>],
       ff_protocol_coins := ff_protocol_coins s @ [\<lparr>c_denom = denom, c_amount = protocol_fee\<rparr>]\<rparr>))))))))))))))"

text \<open>The queue's part: what its query says it would take. An error of the query skips the asset.\<close>

definition queue_share ::
  "querier \<Rightarrow> fulfillment_terms \<Rightarrow> addr \<Rightarrow> nat \<Rightarrow> cAsset \<Rightarrow> PriceResponse \<Rightarrow> uint128 \<Rightarrow> fulfillment \<Rightarrow>
   fulfillment cdp_result" where
  "queue_share Q terms queue num cAsset price repay_amount_per_asset s =
     (let basket = ft_basket terms in
     rbind (at_index (ft_cAsset_ratios terms) num) (\<lambda>ratio.
     rbind (map_err CdpStd (decimal_multiplication (ft_repay_value terms) ratio))
       (\<lambda>collateral_repay_value.
     rbind (map_err CdpStd (price_get_amount price collateral_repay_value))
       (\<lambda>collateral_repay_amount.
     rbind (at_index (ff_collateral_assets s) num) (\<lambda>held.
     let collateral_repay_amount = min collateral_repay_amount (ca_amount held) in
     case qr_lq_liquidatible Q queue (ca_info cAsset) price collateral_repay_amount
            (a_info (bk_credit_asset basket)) (bk_credit_price basket) of
       Inl _ \<Rightarrow> Inr s
     | Inr (leftover_collateral, total_debt_repaid) \<Rightarrow>
         rbind (u128_from_str leftover_collateral) (\<lambda>leftover.
         rbind (u128_sub collateral_repay_amount leftover) (\<lambda>queue_asset_amount_paid.
         if queue_asset_amount_paid = 0 then Inr s
         else
         rbind (u128_from_str total_debt_repaid) (\<lambda>queue_credit_repaid.
         if queue_credit_repaid = 0 then Inr s
         else
         rbind (map_err CdpStd (price_get_value price queue_asset_amount_paid))
           (\<lambda>value_paid_to_queue.
         rbind (map_err CdpStd (decimal_subtraction (ff_leftover_position_value s)
                  value_paid_to_queue)) (\<lambda>leftover_position_value.
         if ff_leftover_repayment s < queue_credit_repaid then Inl (Failed (CdpStd OverflowErr))
         else
         rbind (dec_of_uint repay_amount_per_asset) (\<lambda>per_asset.
         Inr (s\<lparr>ff_leftover_position_value := leftover_position_value,
           ff_leftover_repayment := ff_leftover_repayment s - queue_credit_repaid,
           ff_per_asset_repayment := ff_per_asset_repayment s @ [per_asset],
           ff_submessages := ff_submessages s @ [ReplyOnSuccess (WasmExecute queue
             (LqLiquidateMsg (bk_credit_price basket) price queue_asset_amount_paid
                (ca_info cAsset)) []) LIQ_QUEUE_REPLY_ID]\<rparr>))))))))))))"

definition fulfill_asset ::
  "querier \<Rightarrow> fulfillment_terms \<Rightarrow> nat \<times> cAsset \<Rightarrow> fulfillment \<Rightarrow> fulfillment cdp_result" where
  "fulfill_asset Q terms = (\<lambda>(num, cAsset) s.
     rbind (at_index (ft_cAsset_ratios terms) num) (\<lambda>ratio.
     rbind (uint128_mul_dec (ft_fn_repayment terms) ratio) (\<lambda>repay_amount_per_asset.
     rbind (at_index (ft_cAsset_prices terms) num) (\<lambda>price.
     rbind (pay_fees terms num cAsset s) (\<lambda>s.
     case bk_liq_queue (ft_basket terms) of
       Some queue \<Rightarrow>
         if 0 < ff_leftover_repayment s
         then queue_share Q terms queue num cAsset price repay_amount_per_asset s
         else Inr s
     | None \<Rightarrow> Inr s)))))"

text \<open>\<open>per_asset_fulfillments\<close>: the loop, the caller's fee message and the protocol's.\<close>

definition per_asset_fulfillments ::
  "querier \<Rightarrow> fulfillment_terms \<Rightarrow> addr \<Rightarrow> cAsset list \<Rightarrow> decimal \<Rightarrow> sub_msg list \<Rightarrow>
   (fulfillment \<times> cosmos_msg \<times> cosmos_msg) cdp_result" where
  "per_asset_fulfillments Q terms fee_recipient collateral_assets leftover_position_value
     submessages =
     rbind (rfold (fulfill_asset Q terms) (enumerate 0 collateral_assets)
              \<lparr>ff_collateral_assets = collateral_assets,
               ff_leftover_position_value = leftover_position_value,
               ff_leftover_repayment = ft_fn_repayment terms, ff_submessages = submessages,
               ff_per_asset_repayment = [], ff_liquidated_assets = [],
               ff_caller_fee_value_paid = 0, ff_caller_coins = [], ff_protocol_coins = []\<rparr>) (\<lambda>s.
     Inr (s, BankSend fee_recipient (ff_caller_coins s),
       WasmExecute (addr_or_empty (cc_staking_contract (ft_config terms))) DepositFee
         (ff_protocol_coins s)))"

section \<open>The stability pool\<close>

text \<open>What the pool is asked to repay: no more than the rest of the position is worth with its fee, and
  nothing when it is empty.\<close>

definition pool_share ::
  "Basket \<Rightarrow> AssetPool \<Rightarrow> decimal \<Rightarrow> decimal \<Rightarrow> decimal cdp_result" where
  "pool_share basket sp_pool leftover_repayment leftover_position_value =
     rbind (map_err CdpStd (price_get_value (bk_credit_price basket)
              (to_uint_floor leftover_repayment))) (\<lambda>leftover_repayment_value.
     rbind (dec_add DECIMAL_FRACTIONAL (ap_liq_premium sp_pool)) (\<lambda>with_fee.
     rbind (map_err CdpStd (decimal_multiplication leftover_repayment_value with_fee)) (\<lambda>needed.
     rbind (if leftover_position_value < needed then
              rbind (map_err CdpStd (decimal_division leftover_position_value with_fee))
                (\<lambda>discounted.
              rbind (map_err CdpStd (price_get_amount (bk_credit_price basket) discounted))
                (\<lambda>amount.
              dec_of_uint amount))
            else Inr leftover_repayment) (\<lambda>leftover_repayment.
     Inr (if a_amount (ap_credit_asset sp_pool) = 0 then 0 else leftover_repayment)))))"

text \<open>\<open>build_sp_submsgs\<close>: the propagation \<open>prp\<close> is complete but for the pool's share, its fee and the
  queue's repayment, which are set here.\<close>

definition build_sp_submsgs ::
  "cdp_storage \<Rightarrow> querier \<Rightarrow> LiquidationPropagation \<Rightarrow> decimal \<Rightarrow> decimal \<Rightarrow> decimal \<Rightarrow> sub_msg list \<Rightarrow>
   (cdp_storage \<times> decimal \<times> sub_msg list) cdp_result" where
  "build_sp_submsgs st Q prp leftover_repayment credit_repay_amount leftover_position_value
     submessages =
     rbind (dec_sub credit_repay_amount leftover_repayment) (\<lambda>liq_queue_repayment.
     let prp = prp\<lparr>lp_liq_queue_repayment := liq_queue_repayment\<rparr> in
     case cc_stability_pool (lp_config prp) of
       Some stability_pool \<Rightarrow>
         if leftover_repayment \<noteq> 0 then
           rbind (ask (qr_sp_pool Q stability_pool None (Some 1) None)) (\<lambda>sp_pool.
           rbind (pool_share (lp_basket prp) sp_pool leftover_repayment leftover_position_value)
             (\<lambda>leftover_repayment.
           let prp = prp\<lparr>lp_stability_pool := leftover_repayment,
                 lp_sp_liq_fee := ap_liq_premium sp_pool\<rparr>;
               st = st\<lparr>CD_LIQUIDATION := Some prp\<rparr> in
           Inr (st, leftover_repayment,
             if DECIMAL_FRACTIONAL < leftover_repayment
             then submessages @ [Plain (WasmExecute stability_pool
                    (SpLiquidateMsg leftover_repayment) [])]
             else submessages)))
         else Inr (st\<lparr>CD_LIQUIDATION := Some (prp\<lparr>lp_stability_pool := 0, lp_sp_liq_fee := 0\<rparr>)\<rparr>,
                leftover_repayment, submessages)
     | None \<Rightarrow> Inr (st\<lparr>CD_LIQUIDATION := Some (prp\<lparr>lp_stability_pool := 0, lp_sp_liq_fee := 0\<rparr>)\<rparr>,
                leftover_repayment, submessages))"

section \<open>Liquidate\<close>

definition check_downtime :: "querier \<Rightarrow> unit cdp_result" where
  "check_downtime Q = (case qr_recovered Q of
       Inr succesfully_recovered \<Rightarrow>
         if \<not> succesfully_recovered
         then custom ''Downtime recovery window hasn't elapsed yet '' else Inr ()
     | Inl _ \<Rightarrow> Inr ())"

definition check_freeze ::
  "cdp_storage \<Rightarrow> Env \<Rightarrow> Basket \<Rightarrow> unit cdp_result" where
  "check_freeze st env basket =
     (if bk_frozen basket then Inl (Failed CdpFrozen)
      else
        let grace = CDP_SECONDS_PER_DAY div 24;
            end_time = (case CD_FREEZE_TIMER st of Some timer \<Rightarrow> tm_end_time timer | None \<Rightarrow> 0);
            elapsed = (if end_time \<le> time_seconds env then time_seconds env - end_time else grace) in
        if elapsed < grace then Inl (Failed (CdpGracePeriod (grace - elapsed))) else Inr ())"

text \<open>The stores when the owner repays all of it from the pool: the position is updated here, before the
  pool's repayment message runs.\<close>

definition save_user_repaid ::
  "cdp_storage \<Rightarrow> querier \<Rightarrow> Env \<Rightarrow> cdp_config \<Rightarrow> Basket \<Rightarrow> addr \<Rightarrow> Position \<Rightarrow> uint128 \<Rightarrow> cAsset list \<Rightarrow>
   (cdp_storage \<times> Basket \<times> Position) cdp_result" where
  "save_user_repaid st Q env config basket owner target_position repaid liquidated_assets =
     rbind (u128_sub (po_credit_amount target_position) repaid) (\<lambda>credit_amount.
     let target_position = target_position\<lparr>po_credit_amount := credit_amount\<rparr>;
         collateral_assets = po_collateral_assets target_position in
     rbind (update_basket_tally st Q env basket
              (if credit_amount = 0 then collateral_assets @ liquidated_assets
               else liquidated_assets) collateral_assets False config True) (\<lambda>(st, basket).
     let st = st\<lparr>CD_BASKET := Some basket\<rparr> in
     rbind (update_position st owner target_position) (\<lambda>st.
     Inr (st, basket, target_position))))"

definition liquidation_propagation ::
  "Env \<Rightarrow> cdp_config \<Rightarrow> Basket \<Rightarrow> addr \<Rightarrow> Position \<Rightarrow> decimal \<Rightarrow> fulfillment \<Rightarrow> decimal list \<Rightarrow>
   PriceResponse list \<Rightarrow> LiquidationPropagation" where
  "liquidation_propagation env config basket owner target_position user_repay_amount s cAsset_ratios
     cAsset_prices =
     \<lparr>lp_per_asset_repayment = ff_per_asset_repayment s, lp_liq_queue_repayment = 0,
      lp_stability_pool = 0, lp_user_repay_amount = user_repay_amount,
      lp_positions_contract = contract_address env, lp_sp_liq_fee = 0,
      lp_cAsset_ratios = cAsset_ratios, lp_cAsset_prices = cAsset_prices,
      lp_target_position = target_position, lp_liquidated_assets = ff_liquidated_assets s,
      lp_caller_fee_value_paid = ff_caller_fee_value_paid s, lp_total_repaid = user_repay_amount,
      lp_position_owner = owner, lp_basket = basket, lp_config = config\<rparr>"

definition liquidate_insolvent ::
  "chain_lib \<Rightarrow> cdp_storage \<Rightarrow> querier \<Rightarrow> Env \<Rightarrow> MessageInfo \<Rightarrow> cdp_config \<Rightarrow> Basket \<Rightarrow> uint128 \<Rightarrow> string \<Rightarrow>
   addr \<Rightarrow> Position \<Rightarrow> decimal \<Rightarrow> avg_LTVs \<Rightarrow> (cdp_storage \<times> cdp_response) cdp_result" where
  "liquidate_insolvent L st Q env info config basket position_id position_owner owner target_position
     current_LTV = (\<lambda>(avg_borrow_LTV, avg_max_LTV, total_value, cAsset_prices, cAsset_ratios).
     rbind (get_repay_quantities config basket target_position current_LTV avg_borrow_LTV
              total_value) (\<lambda>(pre_repay_value, pre_repay_amount).
     rbind (map_err CdpStd (decimal_subtraction current_LTV avg_max_LTV)) (\<lambda>caller_fee.
     rbind (get_user_repay_amount Q config basket position_id position_owner pre_repay_amount)
       (\<lambda>(user_repay_amount, credit_repay_amount, submessages).
     rbind (map_err CdpStd (price_get_value (bk_credit_price basket)
              (to_uint_floor credit_repay_amount))) (\<lambda>repay_value.
     rbind (per_asset_fulfillments Q
              \<lparr>ft_config = config, ft_basket = basket, ft_caller_fee = caller_fee,
               ft_fn_repayment = to_uint_floor credit_repay_amount, ft_repay_value = repay_value,
               ft_pre_user_repay_repay_value = pre_repay_value, ft_cAsset_ratios = cAsset_ratios,
               ft_cAsset_prices = cAsset_prices\<rparr>
              (sender info) (po_collateral_assets target_position) total_value submessages)
       (\<lambda>(s, caller_fee_msg, protocol_fee_msg).
     let target_position = target_position\<lparr>po_collateral_assets := ff_collateral_assets s\<rparr> in
     rbind (if ff_leftover_repayment s = 0 \<and> user_repay_amount = pre_repay_amount then
              save_user_repaid st Q env config basket owner target_position
                (to_uint_floor pre_repay_amount) (ff_liquidated_assets s)
            else Inr (st, basket, target_position)) (\<lambda>(st, basket, target_position).
     rbind (dec_of_uint (ff_leftover_repayment s)) (\<lambda>leftover_repayment.
     rbind (build_sp_submsgs st Q (liquidation_propagation env config basket owner target_position
              user_repay_amount s cAsset_ratios cAsset_prices) leftover_repayment
              credit_repay_amount (ff_leftover_position_value s) (ff_submessages s))
       (\<lambda>(st, leftover_repayment, submessages).
     Inr (st, \<lparr>cr_messages = submessages @
         [ReplyOnError (WasmExecute (contract_address env) (BadDebtCheckMsg position_id owner) [])
            BAD_DEBT_REPLY_ID, Plain caller_fee_msg, Plain protocol_fee_msg],
       cr_attributes = [(''method'', AText ''liquidate''),
         (''propagation_info'', ADebug (DbgPropagation (CD_LIQUIDATION st))),
         (''leftover_repayment'', AText (lib_decimal_to_string L leftover_repayment))]\<rparr>))))))))))"

definition cdp_liquidate ::
  "chain_lib \<Rightarrow> cdp_storage \<Rightarrow> querier \<Rightarrow> Env \<Rightarrow> MessageInfo \<Rightarrow> uint128 \<Rightarrow> string \<Rightarrow>
   (cdp_storage \<times> cdp_response) cdp_result" where
  "cdp_liquidate L st Q env info position_id position_owner =
     rbind (check_downtime Q) (\<lambda>_.
     rbind (basket_load st) (\<lambda>basket.
     rbind (check_freeze st env basket) (\<lambda>_.
     rbind (cdp_config_load st) (\<lambda>config.
     rbind (map_err CdpStd (validate_position_owner L info (Some position_owner))) (\<lambda>owner.
     rbind (get_target_position st owner position_id) (\<lambda>(_, target_position).
     rbind (insolvency_check st env Q (Some basket) (po_collateral_assets target_position)
              (po_credit_amount target_position) (bk_credit_price basket) False config)
       (\<lambda>((insolvent, current_LTV, _), avg_LTVs).
     if \<not> insolvent then Inl (Failed CdpPositionSolvent)
     else liquidate_insolvent L st Q env info config basket position_id position_owner owner
            target_position current_LTV avg_LTVs)))))))"

end
