(* ===== verification/CDP_Reply.thy ===== *)
theory CDP_Reply
  imports CDP_Liquidations
begin

text \<open>
  Debt positions: the replies (\<open>contracts/cdp/src/reply.rs\<close>): the check after a withdrawal, and the
  queue's reply of a liquidation. A reply carries the events of the message, each a list of attributes,
  or its error.
\<close>

type_synonym event = "(string \<times> string) list"

type_synonym reply_result = "string + event list"

section \<open>Withdrawals\<close>

definition check_withdrawn_position ::
  "chain_lib \<Rightarrow> cdp_storage \<Rightarrow> UserInfo \<Rightarrow> AssetInfo \<Rightarrow> uint128 \<Rightarrow> uint128 \<Rightarrow> unit cdp_result" where
  "check_withdrawn_position L st position_info asset_info position_amount withdraw_amount =
     rbind (map_err CdpStd (lib_addr_validate L (ui_position_owner position_info))) (\<lambda>owner.
     case get_target_position st owner (ui_position_id position_info) of
       Inr (_, user_position) \<Rightarrow>
         (case find (\<lambda>cAsset. asset_info_equal (ca_info cAsset) asset_info)
                 (po_collateral_assets user_position) of
            Some cAsset \<Rightarrow>
              rbind (u128_sub position_amount withdraw_amount) (\<lambda>left.
              if ca_amount cAsset \<noteq> left
              then Inl (Failed (CdpStd (GenericErr ''Conditional 2: Invalid withdrawal'')))
              else Inr ())
          | None \<Rightarrow> Inr ())
     | Inl Panic \<Rightarrow> Inl Panic
     | Inl (Failed err) \<Rightarrow>
         rbind (u128_sub position_amount withdraw_amount) (\<lambda>left.
         if left \<noteq> 0 then Inl (Failed (CdpGeneric err)) else Inr ()))"

definition check_withdrawn ::
  "chain_lib \<Rightarrow> cdp_storage \<Rightarrow> querier \<Rightarrow> Env \<Rightarrow> WithdrawPropagation \<Rightarrow> nat \<times> Asset \<Rightarrow>
   cdp_debug attr cdp_result" where
  "check_withdrawn L st Q env withdraw_prop = (\<lambda>(i, prev_collateral).
     let asset_info = a_info prev_collateral in
     rbind (at_index (wp_withdraw_amounts withdraw_prop) i) (\<lambda>withdraw_amount.
     rbind (map_err CdpGeneric (get_contract_balances Q env [asset_info])) (\<lambda>balances.
     rbind (at_index balances 0) (\<lambda>current_asset_balance.
     rbind (at_index (wp_contracts_prev_collateral_amount withdraw_prop) i) (\<lambda>prev_balance.
     rbind (u128_sub prev_balance current_asset_balance) (\<lambda>spent.
     if withdraw_amount < spent
     then Inl (Failed (CdpStd (GenericErr ''Conditional 1: Invalid withdrawal'')))
     else
     rbind (check_withdrawn_position L st (wp_position_info withdraw_prop) asset_info
              (a_amount prev_collateral) withdraw_amount) (\<lambda>_.
     Inr (''successful_withdrawal'',
       ANumText withdraw_amount (asset_info_to_string asset_info)))))))))"

definition handle_withdraw_reply ::
  "chain_lib \<Rightarrow> cdp_storage \<Rightarrow> querier \<Rightarrow> Env \<Rightarrow> reply_result \<Rightarrow> (cdp_storage \<times> cdp_response) cdp_result" where
  "handle_withdraw_reply L st Q env res = (case res of
       Inl err \<Rightarrow> Inl (Failed (CdpStd (GenericErr err)))
     | Inr _ \<Rightarrow>
         rbind (ok_or (CdpStd (NotFound ''WithdrawPropagation'')) (CD_WITHDRAW st))
           (\<lambda>withdraw_prop.
         rbind (rmapM (check_withdrawn L st Q env withdraw_prop)
                  (enumerate 0 (wp_positions_prev_collateral withdraw_prop))) (\<lambda>attrs.
         Inr (st, \<lparr>cr_messages = [], cr_attributes = attrs\<rparr>))))"

section \<open>The queue's reply\<close>

definition event_attr :: "event \<Rightarrow> string \<Rightarrow> string option" where
  "event_attr e k = map_option snd (find (\<lambda>(key, _). key = k) e)"

text \<open>The repaid amount, the collateral sent and its kind, read from the event.\<close>

definition queue_event ::
  "chain_lib \<Rightarrow> event \<Rightarrow> (uint128 \<times> AssetInfo) cdp_result" where
  "queue_event L e =
     rbind (unwrap (event_attr e ''collateral_amount'')) (\<lambda>amount.
     rbind (u128_from_str amount) (\<lambda>send_amount.
     rbind (unwrap (event_attr e ''collateral_token'')) (\<lambda>token.
     rbind (unwrap (event_attr e ''collateral_info'')) (\<lambda>asset_info.
     rbind (if asset_info = ''token''
            then rbind (map_err CdpStd (lib_addr_validate L token)) (\<lambda>address. Inr (Token address))
            else Inr (NativeToken token)) (\<lambda>token_info.
     Inr (send_amount, token_info))))))"

text \<open>What the queue repaid comes off the position kept in the propagation.\<close>

definition apply_queue_repayment ::
  "LiquidationPropagation \<Rightarrow> uint128 \<Rightarrow> uint128 \<Rightarrow> AssetInfo \<Rightarrow> LiquidationPropagation cdp_result" where
  "apply_queue_repayment prp repay_amount send_amount token_info =
     (if repay_amount \<noteq> 0 then
        let target_position = lp_target_position prp in
        rbind (u128_sub (po_credit_amount target_position) repay_amount) (\<lambda>credit_amount.
        rbind (unwrap (find_index_of (\<lambda>cAsset. asset_info_equal (ca_info cAsset) token_info)
                 (po_collateral_assets target_position))) (\<lambda>(i, cAsset).
        rbind (u128_sub (ca_amount cAsset) send_amount) (\<lambda>left.
        rbind (dec_of_uint repay_amount) (\<lambda>repaid.
        rbind (dec_add (lp_total_repaid prp) repaid) (\<lambda>total_repaid.
        Inr (prp\<lparr>lp_target_position := target_position\<lparr>po_credit_amount := credit_amount,
               po_collateral_assets :=
                 (po_collateral_assets target_position)[i := ca_set_amount cAsset left]\<rparr>,
             lp_liquidated_assets := lp_liquidated_assets prp @
               [blank_cAsset \<lparr>a_info = token_info, a_amount = send_amount\<rparr>],
             lp_total_repaid := total_repaid\<rparr>))))))
      else Inr prp)"

text \<open>The last reply of a liquidation that sent nothing to the pool stores the position and the basket of
  the propagation.\<close>

definition settle_without_pool ::
  "cdp_storage \<Rightarrow> querier \<Rightarrow> Env \<Rightarrow> LiquidationPropagation \<Rightarrow> cdp_storage cdp_result" where
  "settle_without_pool st Q env prp =
     (if length (lp_per_asset_repayment prp) = 1 \<and> lp_stability_pool prp \<le> DECIMAL_FRACTIONAL then
        let target_position = lp_target_position prp;
            collateral_assets = po_collateral_assets target_position in
        rbind (map_err CdpGeneric (update_basket_tally st Q env (lp_basket prp)
                 (if po_credit_amount target_position = 0
                  then collateral_assets @ lp_liquidated_assets prp else lp_liquidated_assets prp)
                 collateral_assets False (lp_config prp) True)) (\<lambda>(st, basket).
        update_position (st\<lparr>CD_BASKET := Some basket\<rparr>) (lp_position_owner prp) target_position)
      else Inr st)"

definition handle_liq_queue_reply ::
  "chain_lib \<Rightarrow> cdp_storage \<Rightarrow> querier \<Rightarrow> Env \<Rightarrow> reply_result \<Rightarrow> (cdp_storage \<times> cdp_response) cdp_result" where
  "handle_liq_queue_reply L st Q env res = (case res of
       Inl err \<Rightarrow> Inr (st, \<lparr>cr_messages = [], cr_attributes = [(''error'', AText err)]\<rparr>)
     | Inr events \<Rightarrow>
         rbind (ok_or (CdpStd (GenericErr ''unable to find liq-queue event''))
                  (find (list_ex (\<lambda>(key, _). key = ''repay_amount'')) events)) (\<lambda>liq_event.
         rbind (unwrap (event_attr liq_event ''repay_amount'')) (\<lambda>repay.
         rbind (u128_from_str repay) (\<lambda>repay_amount.
         rbind (ok_or (CdpStd (NotFound ''LiquidationPropagation'')) (CD_LIQUIDATION st)) (\<lambda>prp.
         rbind (queue_event L liq_event) (\<lambda>(send_amount, token_info).
         rbind (unwrap (bk_liq_queue (lp_basket prp))) (\<lambda>queue.
         rbind (map_err CdpStd (withdrawal_msg \<lparr>a_info = token_info, a_amount = send_amount\<rparr> queue))
           (\<lambda>msg.
         rbind (apply_queue_repayment prp repay_amount send_amount token_info) (\<lambda>prp.
         rbind (settle_without_pool st Q env prp) (\<lambda>st.
         rbind (remove_at (lp_per_asset_repayment prp) 0) (\<lambda>rest.
         Inr (st\<lparr>CD_LIQUIDATION := Some (prp\<lparr>lp_per_asset_repayment := rest\<rparr>)\<rparr>,
           \<lparr>cr_messages = [Plain msg],
            cr_attributes = [(''method'', AText ''handle_liq_queue_reply''),
              (''repay_amount'', ANum repay_amount), (''reward_amount'', ANum send_amount),
              (''reward_info'', AText (asset_info_to_string token_info))]\<rparr>))))))))))))"

end
