(* ===== verification/CDP_Basket.thy ===== *)
theory CDP_Basket
  imports CDP_Reply
begin

text \<open>
  Debt positions: the basket (\<open>create_basket\<close> and \<open>edit_basket\<close> of \<open>contracts/cdp/src/positions.rs\<close>,
  \<open>EditBasket::edit_basket\<close> of \<open>packages/membrane/src/cdp.rs\<close>).
\<close>

section \<open>Creating\<close>

definition queue_max_premium :: "decimal \<Rightarrow> uint128 cdp_result" where
  "queue_max_premium max_LTV =
     rbind (uint128_mul_dec 100 max_LTV) (\<lambda>percent.
     Inr (if percent \<le> 95 then 95 - percent else 10))"

definition add_queue_msg :: "addr \<Rightarrow> cAsset \<Rightarrow> cosmos_msg cdp_result" where
  "add_queue_msg queue asset =
     rbind (queue_max_premium (ca_max_LTV asset)) (\<lambda>max_premium.
     Inr (WasmExecute queue (LqAddQueueMsg (ca_info asset) max_premium 1000000000000) []))"

definition query_oracle_asset :: "querier \<Rightarrow> cdp_config \<Rightarrow> AssetInfo \<Rightarrow> unit cdp_result" where
  "query_oracle_asset Q config info = (case cc_oracle_contract config of
       Some oracle \<Rightarrow> ask (qr_oracle_assets Q oracle [info])
     | None \<Rightarrow> custom ''Need to setup oracle contract before adding assets'')"

definition new_supply_cap :: "cAsset \<Rightarrow> SupplyCap" where
  "new_supply_cap asset = \<lparr>cap_asset_info = ca_info asset, cap_current_supply = 0,
     cap_debt_total = 0, cap_supply_cap_ratio = 0, cap_lp = (ca_pool_info asset \<noteq> None),
     cap_stability_pool_ratio_for_debt_cap = None\<rparr>"

text \<open>An asset of a new basket, and the message that creates its queue.\<close>

definition create_basket_asset ::
  "querier \<Rightarrow> cdp_config \<Rightarrow> addr option \<Rightarrow> cAsset \<Rightarrow> cosmos_msg list cdp_result" where
  "create_basket_asset Q config new_liq_queue asset =
     (if ca_max_LTV asset \<le> ca_max_borrow_LTV asset \<and> 100 * DECIMAL_FRACTIONAL \<le> ca_max_borrow_LTV asset
      then custom ''Max borrow LTV can't be greater or equal to max_LTV nor equal to 100''
      else if ca_pool_info asset \<noteq> None then custom ''Can't add an LP when creating a basket''
      else
        rbind (query_oracle_asset Q config (ca_info asset)) (\<lambda>_.
        case new_liq_queue of
          Some queue \<Rightarrow> rbind (add_queue_msg queue asset) (\<lambda>msg. Inr [msg])
        | None \<Rightarrow> Inr []))"

record CreateBasket =
  cb_basket_id :: uint128
  cb_collateral_types :: "cAsset list"
  cb_credit_asset :: Asset
  cb_credit_price :: decimal
  cb_base_interest_rate :: "decimal option"
  cb_credit_pool_infos :: "PoolType list"
  cb_liq_queue :: "string option"

definition new_basket :: "Env \<Rightarrow> CreateBasket \<Rightarrow> addr option \<Rightarrow> Basket" where
  "new_basket env msg new_liq_queue =
     \<lparr>bk_basket_id = cb_basket_id msg, bk_current_position_id = 1,
      bk_collateral_types = map (\<lambda>asset. (ca_set_amount asset 0)\<lparr>ca_rate_index := DECIMAL_FRACTIONAL\<rparr>)
        (cb_collateral_types msg),
      bk_collateral_supply_caps = map new_supply_cap (cb_collateral_types msg),
      bk_lastest_collateral_rates = [], bk_multi_asset_supply_caps = [],
      bk_credit_asset = cb_credit_asset msg,
      bk_credit_price = \<lparr>pr_prices = [], pr_price = cb_credit_price msg, pr_decimals = 6\<rparr>,
      bk_base_interest_rate = (case cb_base_interest_rate msg of None \<Rightarrow> 0 | Some r \<Rightarrow> r),
      bk_pending_revenue = 0, bk_credit_last_accrued = time_seconds env,
      bk_rates_last_accrued = time_seconds env, bk_oracle_set = False, bk_negative_rates = True,
      bk_frozen = False, bk_rev_to_stakers = True, bk_cpc_margin_of_error = DECIMAL_FRACTIONAL,
      bk_liq_queue = new_liq_queue\<rparr>"

definition create_basket ::
  "chain_lib \<Rightarrow> cdp_storage \<Rightarrow> querier \<Rightarrow> MessageInfo \<Rightarrow> Env \<Rightarrow> CreateBasket \<Rightarrow>
   (cdp_storage \<times> cdp_response) cdp_result" where
  "create_basket L st Q info env msg =
     rbind (cdp_config_load st) (\<lambda>config.
     if sender info \<noteq> cc_owner config then Inl (Failed CdpNotContractOwner)
     else if CD_BASKET st \<noteq> None then custom ''Only one basket per contract''
     else
     rbind (case cb_liq_queue msg of
              Some q \<Rightarrow> rbind (map_err CdpStd (lib_addr_validate L q)) (\<lambda>q. Inr (Some q))
            | None \<Rightarrow> Inr None) (\<lambda>new_liq_queue.
     rbind (rmapM (create_basket_asset Q config new_liq_queue) (cb_collateral_types msg)) (\<lambda>msgs.
     case a_info (cb_credit_asset msg) of
       Token _ \<Rightarrow> custom ''Basket credit must be a native token denom''
     | NativeToken denom \<Rightarrow>
         let liquidity_msgs = (case cc_liquidity_contract config of
               Some contract \<Rightarrow> [WasmExecute contract
                 (LiquidityAddAsset (a_info (cb_credit_asset msg)) (cb_credit_pool_infos msg)) []]
             | None \<Rightarrow> []) in
         Inr (st\<lparr>CD_BASKET := Some (new_basket env msg new_liq_queue)\<rparr>,
           \<lparr>cr_messages = map Plain (concat msgs @ liquidity_msgs),
            cr_attributes = [(''method'', AText ''create_basket''),
              (''basket_id'', ANum (cb_basket_id msg)),
              (''credit_asset'', ANumText (a_amount (cb_credit_asset msg)) denom),
              (''credit_price'', AText (lib_decimal_to_string L (cb_credit_price msg))),
              (''liq_queue'', AText (case cb_liq_queue msg of None \<Rightarrow> ''None'' | Some q \<Rightarrow> q))]\<rparr>))))"

section \<open>Editing\<close>

record EditBasket =
  eb_added_cAsset :: "cAsset option"
  eb_liq_queue :: "string option"
  eb_credit_pool_infos :: "PoolType list option"
  eb_collateral_supply_caps :: "SupplyCap list option"
  eb_multi_asset_supply_caps :: "MultiAssetSupplyCap list option"
  eb_base_interest_rate :: "decimal option"
  eb_credit_asset_twap_price_source :: "TWAPPoolInfo option"
  eb_negative_rates :: "bool option"
  eb_cpc_margin_of_error :: "decimal option"
  eb_frozen :: "bool option"
  eb_rev_to_stakers :: "bool option"
  eb_take_revenue :: "uint128 option"

definition edit_supply_cap :: "SupplyCap \<Rightarrow> SupplyCap list \<Rightarrow> SupplyCap list" where
  "edit_supply_cap new_cap caps =
     (case find_index_of (\<lambda>cap. asset_info_equal (cap_asset_info cap) (cap_asset_info new_cap)) caps of
        Some (index, cap) \<Rightarrow> caps[index := cap\<lparr>cap_supply_cap_ratio := cap_supply_cap_ratio new_cap,
          cap_stability_pool_ratio_for_debt_cap := cap_stability_pool_ratio_for_debt_cap new_cap\<rparr>]
      | None \<Rightarrow> caps)"

definition edit_multi_cap ::
  "MultiAssetSupplyCap \<Rightarrow> MultiAssetSupplyCap list \<Rightarrow> MultiAssetSupplyCap list" where
  "edit_multi_cap new_cap caps =
     (case find_index_of (\<lambda>cap. asset_lists_equal (mcap_assets cap) (mcap_assets new_cap)) caps of
        Some (index, cap) \<Rightarrow>
          caps[index := cap\<lparr>mcap_supply_cap_ratio := mcap_supply_cap_ratio new_cap\<rparr>]
      | None \<Rightarrow> caps @ [new_cap])"

definition set_opt :: "'a option \<Rightarrow> 'a \<Rightarrow> 'a" where
  "set_opt v old = (case v of None \<Rightarrow> old | Some x \<Rightarrow> x)"

definition apply_edit_basket ::
  "EditBasket \<Rightarrow> Basket \<Rightarrow> cAsset \<Rightarrow> addr option \<Rightarrow> bool \<Rightarrow> Basket" where
  "apply_edit_basket edit basket new_cAsset new_queue oracle_set =
     basket\<lparr>bk_collateral_types := bk_collateral_types basket @
         (if eb_added_cAsset edit \<noteq> None then [new_cAsset] else []),
       bk_liq_queue := (if eb_liq_queue edit \<noteq> None then new_queue else bk_liq_queue basket),
       bk_collateral_supply_caps := fold edit_supply_cap
         (set_opt (eb_collateral_supply_caps edit) []) (bk_collateral_supply_caps basket),
       bk_multi_asset_supply_caps := fold edit_multi_cap
         (set_opt (eb_multi_asset_supply_caps edit) []) (bk_multi_asset_supply_caps basket),
       bk_base_interest_rate := set_opt (eb_base_interest_rate edit) (bk_base_interest_rate basket),
       bk_negative_rates := set_opt (eb_negative_rates edit) (bk_negative_rates basket),
       bk_frozen := set_opt (eb_frozen edit) (bk_frozen basket),
       bk_rev_to_stakers := set_opt (eb_rev_to_stakers edit) (bk_rev_to_stakers basket),
       bk_cpc_margin_of_error := set_opt (eb_cpc_margin_of_error edit) (bk_cpc_margin_of_error basket),
       bk_pending_revenue := bk_pending_revenue basket - set_opt (eb_take_revenue edit) 0,
       bk_oracle_set := oracle_set\<rparr>"

text \<open>A share of a liquidity pool: its pool's assets must be in the basket.\<close>

definition lp_half :: "Coin \<Rightarrow> LPAssetInfo" where
  "lp_half coin = \<lparr>lp_info = NativeToken (c_denom coin), lp_decimals = 6, lp_ratio = dec_percent 50\<rparr>"

definition set_pool_asset :: "Basket \<Rightarrow> nat \<times> Coin \<Rightarrow> PoolInfo \<Rightarrow> PoolInfo cdp_result" where
  "set_pool_asset basket = (\<lambda>(i, asset) info.
     rbind (at_index (pool_asset_infos info) i) (\<lambda>asset_info.
     rbind (update_at (pool_asset_infos info) i (asset_info\<lparr>lp_info := NativeToken (c_denom asset)\<rparr>))
       (\<lambda>infos.
     if \<not> list_ex (\<lambda>cAsset. asset_info_equal (ca_info cAsset) (NativeToken (c_denom asset)))
            (bk_collateral_types basket)
     then custom ''Need to add all pool assets before adding the LP''
     else Inr (info\<lparr>pool_asset_infos := infos\<rparr>))))"

definition add_lp_cAsset ::
  "querier \<Rightarrow> cdp_config \<Rightarrow> Basket \<Rightarrow> cAsset \<Rightarrow> PoolInfo \<Rightarrow> (cAsset \<times> cosmos_msg list) cdp_result" where
  "add_lp_cAsset Q config basket new_cAsset info =
     rbind (map_err (\<lambda>_. CdpCustomError ''pool state'')
              (ask (qr_pool_state Q (addr_or_empty (cc_osmosis_proxy config)) (pool_id info))))
       (\<lambda>(pool_assets, shares).
     let new_info = NativeToken (c_denom shares) in
     rbind (rfold (set_pool_asset basket) (enumerate 0 pool_assets) info) (\<lambda>info.
     rbind (at_index pool_assets 0) (\<lambda>first.
     rbind (at_index pool_assets 1) (\<lambda>second.
     Inr (new_cAsset\<lparr>ca_asset := (ca_asset new_cAsset)\<lparr>a_info := new_info\<rparr>, ca_pool_info := Some info\<rparr>,
       [WasmExecute (addr_or_empty (cc_oracle_contract config))
          (OracleAddAsset new_info \<lparr>ao_basket_id = 1, ao_pyth_price_feed_id = None,
             ao_pools_for_osmo_twap = [], ao_is_usd_par = False,
             ao_lp_pool_info = Some \<lparr>pool_id = pool_id info,
               pool_asset_infos = [lp_half first, lp_half second]\<rparr>,
             ao_vault_info = None, ao_decimals = 18\<rparr>) []])))))"

definition check_new_cAsset :: "querier \<Rightarrow> cdp_config \<Rightarrow> Basket \<Rightarrow> cAsset \<Rightarrow> unit cdp_result" where
  "check_new_cAsset Q config basket new_cAsset =
     rbind (case cc_staking_contract config of
              Some staking \<Rightarrow>
                rbind (ask (qr_mbrn_denom Q staking)) (\<lambda>mbrn_denom.
                if asset_info_to_string (ca_info new_cAsset) = mbrn_denom
                then Inl (Failed CdpInvalidCollateral) else Inr ())
            | None \<Rightarrow> Inr ()) (\<lambda>_.
     if ca_info new_cAsset = a_info (bk_credit_asset basket) then Inl (Failed CdpInvalidCollateral)
     else if find (\<lambda>cAsset. asset_info_equal (ca_info cAsset) (ca_info new_cAsset))
               (bk_collateral_types basket) \<noteq> None
     then custom ''Attempting to add duplicate asset''
     else Inr ())"

text \<open>A new collateral: the checks, its queue, its cap and its volatility.\<close>

definition add_cAsset ::
  "cdp_storage \<Rightarrow> querier \<Rightarrow> cdp_config \<Rightarrow> Basket \<Rightarrow> addr option \<Rightarrow> cAsset \<Rightarrow>
   (cdp_storage \<times> Basket \<times> cAsset \<times> cosmos_msg list) cdp_result" where
  "add_cAsset st Q config basket new_queue added_cAsset =
     rbind (check_new_cAsset Q config basket added_cAsset) (\<lambda>_.
     let new_cAsset = (ca_set_amount added_cAsset 0)\<lparr>ca_rate_index := DECIMAL_FRACTIONAL\<rparr> in
     rbind (case ca_pool_info added_cAsset of
              Some info \<Rightarrow> add_lp_cAsset Q config basket new_cAsset info
            | None \<Rightarrow> rbind (query_oracle_asset Q config (ca_info new_cAsset))
                (\<lambda>_. Inr (new_cAsset, []))) (\<lambda>(new_cAsset, msgs).
     rbind (case (if bk_liq_queue basket \<noteq> None then bk_liq_queue basket else new_queue) of
              Some queue \<Rightarrow> rbind (add_queue_msg queue new_cAsset) (\<lambda>msg. Inr (msgs @ [msg]))
            | None \<Rightarrow> Inr msgs) (\<lambda>msgs.
     if ca_max_LTV new_cAsset \<le> ca_max_borrow_LTV new_cAsset \<or>
        100 * DECIMAL_FRACTIONAL \<le> ca_max_borrow_LTV new_cAsset
     then custom ''Max borrow LTV can't be greater or equal to max_LTV nor equal to 100''
     else
     Inr (st\<lparr>CD_VOLATILITY := (CD_VOLATILITY st)(asset_info_to_string (ca_info new_cAsset) \<mapsto>
            \<lparr>vol_index = DECIMAL_FRACTIONAL, vol_list = []\<rparr>)\<rparr>,
       basket\<lparr>bk_collateral_supply_caps := bk_collateral_supply_caps basket @
         [new_supply_cap new_cAsset]\<rparr>,
       new_cAsset, msgs))))"

definition set_freeze_timer :: "Env \<Rightarrow> Basket \<Rightarrow> bool option \<Rightarrow> cdp_storage \<Rightarrow> cdp_storage" where
  "set_freeze_timer env basket frozen st = (case frozen of
       None \<Rightarrow> st
     | Some frozen \<Rightarrow>
         let timer = (case CD_FREEZE_TIMER st of Some timer \<Rightarrow> timer
               | None \<Rightarrow> \<lparr>tm_start_time = 0, tm_end_time = 0\<rparr>) in
         if frozen \<and> \<not> bk_frozen basket
         then st\<lparr>CD_FREEZE_TIMER := Some (timer\<lparr>tm_start_time := time_seconds env\<rparr>)\<rparr>
         else if \<not> frozen \<and> bk_frozen basket
         then st\<lparr>CD_FREEZE_TIMER := Some (timer\<lparr>tm_end_time := time_seconds env\<rparr>)\<rparr>
         else st)"

definition reset_volatility :: "string \<Rightarrow> cdp_storage \<Rightarrow> cdp_storage" where
  "reset_volatility key st = st\<lparr>CD_VOLATILITY := (CD_VOLATILITY st)(key \<mapsto>
     (case CD_VOLATILITY st key of
        Some vol \<Rightarrow> vol\<lparr>vol_index := DECIMAL_FRACTIONAL\<rparr>
      | None \<Rightarrow> \<lparr>vol_index = DECIMAL_FRACTIONAL, vol_list = []\<rparr>))\<rparr>"

definition edited_caps :: "EditBasket \<Rightarrow> string list" where
  "edited_caps edit =
     map (\<lambda>cap. asset_info_to_string (cap_asset_info cap)) (set_opt (eb_collateral_supply_caps edit) []) @
     map asset_info_to_string (concat (map mcap_assets (set_opt (eb_multi_asset_supply_caps edit) [])))"

text \<open>The oracle message for the debt token's price source, and the liquidity message.\<close>

definition twap_msg :: "cdp_config \<Rightarrow> Basket \<Rightarrow> TWAPPoolInfo option \<Rightarrow> cosmos_msg list" where
  "twap_msg config basket twap_source = (case (twap_source, cc_oracle_contract config) of
       (Some twap_source, Some oracle) \<Rightarrow>
         [WasmExecute oracle (OracleEditAsset (a_info (bk_credit_asset basket))
            (Some \<lparr>ao_basket_id = bk_basket_id basket, ao_pyth_price_feed_id = None,
               ao_pools_for_osmo_twap = [twap_source], ao_is_usd_par = False,
               ao_lp_pool_info = None, ao_vault_info = None, ao_decimals = 6\<rparr>) False) []]
     | _ \<Rightarrow> [])"

definition liquidity_msg :: "cdp_config \<Rightarrow> Basket \<Rightarrow> PoolType list option \<Rightarrow> cosmos_msg list" where
  "liquidity_msg config basket pool_infos = (case (pool_infos, cc_liquidity_contract config) of
       (Some pool_infos, Some contract) \<Rightarrow>
         [WasmExecute contract (LiquidityEditAsset (a_info (bk_credit_asset basket)) pool_infos) []]
     | _ \<Rightarrow> [])"

definition edit_basket ::
  "chain_lib \<Rightarrow> cdp_storage \<Rightarrow> querier \<Rightarrow> Env \<Rightarrow> MessageInfo \<Rightarrow> EditBasket \<Rightarrow>
   (cdp_storage \<times> cdp_response) cdp_result" where
  "edit_basket L st Q env info edit =
     rbind (cdp_config_load st) (\<lambda>config.
     if sender info \<noteq> cc_owner config then Inl (Failed (CdpUnauthorized (cc_owner config)))
     else
     rbind (case eb_liq_queue edit of
              Some q \<Rightarrow> rbind (map_err CdpStd (lib_addr_validate L q)) (\<lambda>q. Inr (Some q))
            | None \<Rightarrow> Inr None) (\<lambda>new_queue.
     rbind (basket_load st) (\<lambda>basket.
     rbind (case eb_added_cAsset edit of
              Some added \<Rightarrow> add_cAsset st Q config basket new_queue added
            | None \<Rightarrow> Inr (st, basket, blank_cAsset \<lparr>a_info = NativeToken ''None'', a_amount = 0\<rparr>, []))
       (\<lambda>(st, basket, new_cAsset, msgs).
     let twap = twap_msg config basket (eb_credit_asset_twap_price_source edit);
         oracle_set = (bk_oracle_set basket \<or> twap \<noteq> []);
         pool_attrs = (case eb_credit_pool_infos edit of
             Some pool_infos \<Rightarrow> [(''new_pool_infos'', ADebug (DbgPoolTypes pool_infos))] | None \<Rightarrow> []);
         st = set_freeze_timer env basket (eb_frozen edit) st;
         st = fold reset_volatility (edited_caps edit) st in
     Inr (st\<lparr>CD_BASKET := Some (apply_edit_basket edit basket new_cAsset new_queue oracle_set)\<rparr>,
       \<lparr>cr_messages = map Plain (msgs @ twap @
          liquidity_msg config basket (eb_credit_pool_infos edit)),
        cr_attributes = (''method'', AText ''edit_basket'') # pool_attrs @
          [(''updated_basket'', ADebug (DbgBasket basket))]\<rparr>)))))"

end
