(* ===== verification/CDP_Contract.thy ===== *)
theory CDP_Contract
  imports CDP_Basket
begin

text \<open>
  Debt positions: the entry points (\<open>contracts/cdp/src/contract.rs\<close>) and the configuration's update
  (\<open>UpdateConfig::update_config\<close> of \<open>packages/membrane/src/cdp.rs\<close>).
\<close>

section \<open>Instantiate\<close>

record cdp_instantiate_msg =
  ci_owner :: "string option"
  ci_oracle_time_limit :: u64
  ci_debt_minimum :: uint128
  ci_liq_fee :: decimal
  ci_collateral_twap_timeframe :: u64
  ci_credit_twap_timeframe :: u64
  ci_rate_slope_multiplier :: decimal
  ci_base_debt_cap_multiplier :: uint128
  ci_stability_pool :: "string option"
  ci_dex_router :: "string option"
  ci_staking_contract :: "string option"
  ci_oracle_contract :: "string option"
  ci_osmosis_proxy :: "string option"
  ci_debt_auction :: "string option"
  ci_liquidity_contract :: "string option"
  ci_discounts_contract :: "string option"
  ci_create_basket :: CreateBasket

definition validate_opt :: "chain_lib \<Rightarrow> string option \<Rightarrow> addr option \<Rightarrow> addr option cdp_result" where
  "validate_opt L address old = (case address of
       None \<Rightarrow> Inr old
     | Some address \<Rightarrow>
         rbind (map_err CdpStd (lib_addr_validate L address)) (\<lambda>a. Inr (Some a)))"

definition cdp_initial_config ::
  "chain_lib \<Rightarrow> MessageInfo \<Rightarrow> cdp_instantiate_msg \<Rightarrow> cdp_config cdp_result" where
  "cdp_initial_config L info msg =
     rbind (validate_opt L (ci_owner msg) (Some (sender info))) (\<lambda>owner.
     rbind (validate_opt L (ci_stability_pool msg) None) (\<lambda>stability_pool.
     rbind (validate_opt L (ci_dex_router msg) None) (\<lambda>dex_router.
     rbind (validate_opt L (ci_staking_contract msg) None) (\<lambda>staking_contract.
     rbind (validate_opt L (ci_oracle_contract msg) None) (\<lambda>oracle_contract.
     rbind (validate_opt L (ci_osmosis_proxy msg) None) (\<lambda>osmosis_proxy.
     rbind (validate_opt L (ci_debt_auction msg) None) (\<lambda>debt_auction.
     rbind (validate_opt L (ci_liquidity_contract msg) None) (\<lambda>liquidity_contract.
     Inr \<lparr>cc_owner = addr_or_empty owner, cc_stability_pool = stability_pool,
          cc_dex_router = dex_router, cc_staking_contract = staking_contract,
          cc_osmosis_proxy = osmosis_proxy, cc_debt_auction = debt_auction,
          cc_oracle_contract = oracle_contract, cc_liquidity_contract = liquidity_contract,
          cc_discounts_contract = None, cc_liq_fee = ci_liq_fee msg,
          cc_collateral_twap_timeframe = ci_collateral_twap_timeframe msg,
          cc_credit_twap_timeframe = ci_credit_twap_timeframe msg,
          cc_oracle_time_limit = ci_oracle_time_limit msg, cc_cpc_multiplier = DECIMAL_FRACTIONAL,
          cc_debt_minimum = ci_debt_minimum msg,
          cc_base_debt_cap_multiplier = ci_base_debt_cap_multiplier msg,
          cc_rate_slope_multiplier = ci_rate_slope_multiplier msg,
          cc_rate_hike_rate = Some (dec_percent 30)\<rparr>))))))))"

text \<open>The response of \<open>create_basket\<close> is dropped, with its messages.\<close>

definition cdp_instantiate ::
  "chain_lib \<Rightarrow> cdp_storage \<Rightarrow> querier \<Rightarrow> Env \<Rightarrow> MessageInfo \<Rightarrow> cdp_instantiate_msg \<Rightarrow>
   (cdp_storage \<times> cdp_response) cdp_result" where
  "cdp_instantiate L st Q env info msg =
     rbind (cdp_initial_config L info msg) (\<lambda>config.
     let st = st\<lparr>CD_CONFIG := Some config,
           CD_CONTRACT := Some (''crates.io:cdp'', lib_version L)\<rparr> in
     rbind (create_basket L st Q info env (ci_create_basket msg)) (\<lambda>(st, _).
     Inr (st, \<lparr>cr_messages = [],
       cr_attributes = [(''method'', AText ''instantiate''),
         (''config'', ADebug (DbgCdpConfig config)),
         (''contract_address'', AText (contract_address env))]\<rparr>)))"

section \<open>Configuration\<close>

record cdp_update_config =
  cu_owner :: "string option"
  cu_stability_pool :: "string option"
  cu_dex_router :: "string option"
  cu_staking_contract :: "string option"
  cu_osmosis_proxy :: "string option"
  cu_debt_auction :: "string option"
  cu_oracle_contract :: "string option"
  cu_liquidity_contract :: "string option"
  cu_discounts_contract :: "string option"
  cu_liq_fee :: "decimal option"
  cu_collateral_twap_timeframe :: "u64 option"
  cu_credit_twap_timeframe :: "u64 option"
  cu_oracle_time_limit :: "u64 option"
  cu_cpc_multiplier :: "decimal option"
  cu_debt_minimum :: "uint128 option"
  cu_base_debt_cap_multiplier :: "uint128 option"
  cu_rate_slope_multiplier :: "decimal option"
  cu_rate_hike_rate :: "decimal option"

definition update_contracts ::
  "chain_lib \<Rightarrow> cdp_update_config \<Rightarrow> cdp_config \<Rightarrow> cdp_config cdp_result" where
  "update_contracts L update config =
     rbind (validate_opt L (cu_stability_pool update) (cc_stability_pool config)) (\<lambda>stability_pool.
     rbind (validate_opt L (cu_dex_router update) (cc_dex_router config)) (\<lambda>dex_router.
     rbind (validate_opt L (cu_osmosis_proxy update) (cc_osmosis_proxy config)) (\<lambda>osmosis_proxy.
     rbind (validate_opt L (cu_debt_auction update) (cc_debt_auction config)) (\<lambda>debt_auction.
     rbind (validate_opt L (cu_staking_contract update) (cc_staking_contract config)) (\<lambda>staking.
     rbind (validate_opt L (cu_oracle_contract update) (cc_oracle_contract config)) (\<lambda>oracle.
     rbind (validate_opt L (cu_liquidity_contract update) (cc_liquidity_contract config))
       (\<lambda>liquidity.
     rbind (validate_opt L (cu_discounts_contract update) (cc_discounts_contract config))
       (\<lambda>discounts.
     Inr (config\<lparr>cc_stability_pool := stability_pool, cc_dex_router := dex_router,
       cc_osmosis_proxy := osmosis_proxy, cc_debt_auction := debt_auction,
       cc_staking_contract := staking, cc_oracle_contract := oracle,
       cc_liquidity_contract := liquidity, cc_discounts_contract := discounts\<rparr>)))))))))"

definition checked_opt :: "'a option \<Rightarrow> ('a \<Rightarrow> bool) \<Rightarrow> string \<Rightarrow> 'a \<Rightarrow> 'a cdp_result" where
  "checked_opt v bad msg old = (case v of
       None \<Rightarrow> Inr old
     | Some x \<Rightarrow> if bad x then Inl (Failed (CdpStd (GenericErr msg))) else Inr x)"

definition update_config_with ::
  "chain_lib \<Rightarrow> cdp_update_config \<Rightarrow> cdp_config \<Rightarrow> cdp_config cdp_result" where
  "update_config_with L update config =
     rbind (update_contracts L update config) (\<lambda>config.
     rbind (checked_opt (cu_liq_fee update) (\<lambda>f. dec_percent 100 < f)
              ''Liquidation fee must be between 0-100%'' (cc_liq_fee config)) (\<lambda>liq_fee.
     rbind (case cu_oracle_time_limit update of
              None \<Rightarrow> Inr (cc_oracle_time_limit config)
            | Some oracle_time_limit \<Rightarrow>
                rbind (u64_mul (cc_collateral_twap_timeframe config) 60) (\<lambda>ceiling.
                if ceiling < oracle_time_limit
                then Inl (Failed (CdpStd (GenericErr
                  ''Oracle time limit ceiling is the collateral twap timeframe'')))
                else Inr oracle_time_limit)) (\<lambda>oracle_time_limit.
     rbind (checked_opt (cu_cpc_multiplier update) (\<lambda>m. dec_percent 1000 < m)
              ''CPC multiplier must be between 0-1000%'' (cc_cpc_multiplier config)) (\<lambda>cpc.
     rbind (checked_opt (cu_rate_slope_multiplier update) (\<lambda>m. dec_percent 1000 < m)
              ''Rate slope multiplier must be between 0-10000%'' (cc_rate_slope_multiplier config))
       (\<lambda>slope.
     Inr (config\<lparr>cc_liq_fee := liq_fee,
       cc_debt_minimum := set_opt (cu_debt_minimum update) (cc_debt_minimum config),
       cc_base_debt_cap_multiplier := set_opt (cu_base_debt_cap_multiplier update)
         (cc_base_debt_cap_multiplier config),
       cc_oracle_time_limit := oracle_time_limit,
       cc_collateral_twap_timeframe := set_opt (cu_collateral_twap_timeframe update)
         (cc_collateral_twap_timeframe config),
       cc_credit_twap_timeframe := set_opt (cu_credit_twap_timeframe update)
         (cc_credit_twap_timeframe config),
       cc_cpc_multiplier := cpc, cc_rate_slope_multiplier := slope,
       cc_rate_hike_rate := (case cu_rate_hike_rate update of None \<Rightarrow> cc_rate_hike_rate config
         | Some r \<Rightarrow> Some r)\<rparr>))))))"

definition cdp_update_config_msg ::
  "chain_lib \<Rightarrow> cdp_storage \<Rightarrow> MessageInfo \<Rightarrow> cdp_update_config \<Rightarrow>
   (cdp_storage \<times> cdp_response) cdp_result" where
  "cdp_update_config_msg L st info update =
     rbind (cdp_config_load st) (\<lambda>config.
     rbind (if sender info \<noteq> cc_owner config then
              rbind (ok_or (CdpStd (NotFound ''Addr'')) (CD_OWNERSHIP_TRANSFER st)) (\<lambda>new_owner.
              if sender info = new_owner then Inr (config\<lparr>cc_owner := sender info\<rparr>)
              else Inl (Failed (CdpUnauthorized new_owner)))
            else Inr config) (\<lambda>config.
     rbind (validate_opt L (cu_owner update) None) (\<lambda>new_owner.
     let st = (case new_owner of None \<Rightarrow> st | Some a \<Rightarrow> st\<lparr>CD_OWNERSHIP_TRANSFER := Some a\<rparr>);
         owner_attrs = (case new_owner of None \<Rightarrow> [] | Some a \<Rightarrow> [(''owner_transfer'', AText a)]) in
     rbind (update_config_with L update config) (\<lambda>config.
     Inr (st\<lparr>CD_CONFIG := Some config\<rparr>,
       \<lparr>cr_messages = [],
        cr_attributes = (''method'', AText ''update_config'') # owner_attrs @
          [(''updated_config'', ADebug (DbgCdpConfig config))]\<rparr>)))))"

section \<open>Editing a collateral\<close>

definition edit_limits ::
  "chain_lib \<Rightarrow> Basket \<Rightarrow> decimal option \<Rightarrow> decimal option \<Rightarrow> cAsset \<Rightarrow>
   (cAsset \<times> cosmos_msg list \<times> cdp_debug attr list) cdp_result" where
  "edit_limits L basket max_borrow_LTV max_LTV asset =
     rbind (case max_LTV of
              None \<Rightarrow> Inr (asset, [], [])
            | Some LTV \<Rightarrow>
                if dec_percent 100 < LTV \<or> LTV < dec_percent 1
                then Inl (Failed (CdpInvalidMaxLTV LTV))
                else
                  rbind (case bk_liq_queue basket of
                           Some queue \<Rightarrow>
                             rbind (queue_max_premium LTV) (\<lambda>max_premium.
                             Inr [WasmExecute queue
                               (LqUpdateQueueMsg (ca_info asset) (Some max_premium) None) []])
                         | None \<Rightarrow> Inr []) (\<lambda>msgs.
                  Inr (asset\<lparr>ca_max_LTV := LTV\<rparr>, msgs,
                    [(''max_LTV'', AText (lib_decimal_to_string L LTV))])))
       (\<lambda>(asset, msgs, attrs).
     case max_borrow_LTV of
       None \<Rightarrow> Inr (asset, msgs, attrs)
     | Some LTV \<Rightarrow>
         if LTV < dec_percent 100 \<and> LTV < ca_max_LTV asset
         then Inr (asset\<lparr>ca_max_borrow_LTV := LTV\<rparr>, msgs,
                attrs @ [(''max_borrow_LTV'', AText (lib_decimal_to_string L LTV))])
         else custom ''Invalid borrow LTV'')"

definition edit_cAsset ::
  "chain_lib \<Rightarrow> cdp_storage \<Rightarrow> MessageInfo \<Rightarrow> AssetInfo \<Rightarrow> decimal option \<Rightarrow> decimal option \<Rightarrow>
   (cdp_storage \<times> cdp_response) cdp_result" where
  "edit_cAsset L st info asset max_borrow_LTV max_LTV =
     rbind (cdp_config_load st) (\<lambda>config.
     if sender info \<noteq> cc_owner config then Inl (Failed (CdpUnauthorized (cc_owner config)))
     else
     rbind (basket_load st) (\<lambda>basket.
     case find (\<lambda>cAsset. asset_info_equal (ca_info cAsset) asset) (bk_collateral_types basket) of
       None \<Rightarrow> custom ''Collateral type doesn't exist in basket''
     | Some cAsset \<Rightarrow>
         rbind (edit_limits L basket max_borrow_LTV max_LTV cAsset) (\<lambda>(new_asset, msgs, attrs).
         let collateral_types =
               filter (\<lambda>asset. \<not> asset_info_equal (ca_info asset) (ca_info new_asset))
                 (bk_collateral_types basket) @ [new_asset] in
         Inr (st\<lparr>CD_BASKET := Some (basket\<lparr>bk_collateral_types := collateral_types\<rparr>)\<rparr>,
           \<lparr>cr_messages = map Plain msgs,
            cr_attributes = [(''method'', AText ''edit_cAsset''),
              (''asset'', AText (asset_info_to_string (ca_info cAsset)))] @ attrs\<rparr>))))"

section \<open>Bad debt\<close>

text \<open>What is left of a bad debt after the basket's revenue paid of it, and the revenue left.\<close>

definition cover_bad_debt :: "uint128 \<Rightarrow> uint128 \<Rightarrow> uint128 \<times> uint128" where
  "cover_bad_debt bad_debt_amount pending_revenue =
     (if pending_revenue \<noteq> 0 then
        if pending_revenue \<le> bad_debt_amount then (bad_debt_amount - pending_revenue, 0)
        else (0, pending_revenue - bad_debt_amount)
      else (bad_debt_amount, pending_revenue))"

definition leftover_asset_value ::
  "PriceResponse list \<Rightarrow> cAsset list \<Rightarrow> decimal cdp_result" where
  "leftover_asset_value cAsset_prices collateral_assets =
     rbind (rmapM (\<lambda>(index, asset).
              rbind (at_index cAsset_prices index) (\<lambda>price.
              rcatch (price_get_value price (ca_amount asset)) (\<lambda>_. Inr 0)))
              (enumerate 0 collateral_assets)) dec_sum"

definition check_and_fulfill_bad_debt ::
  "cdp_storage \<Rightarrow> uint128 \<Rightarrow> addr \<Rightarrow> (cdp_storage \<times> cdp_response) cdp_result" where
  "check_and_fulfill_bad_debt st position_id position_owner =
     rbind (cdp_config_load st) (\<lambda>config.
     rbind (basket_load st) (\<lambda>basket.
     rbind (get_target_position st position_owner position_id) (\<lambda>(_, target_position).
     rbind (ok_or (CdpStd (NotFound ''LiquidationPropagation'')) (CD_LIQUIDATION st)) (\<lambda>prp.
     rbind (leftover_asset_value (lp_cAsset_prices prp) (po_collateral_assets target_position))
       (\<lambda>total_asset_value.
     if DECIMAL_FRACTIONAL < total_asset_value \<or> po_credit_amount target_position = 0
     then Inl (Failed CdpPositionSolvent)
     else
       case cover_bad_debt (po_credit_amount target_position) (bk_pending_revenue basket) of
         (bad_debt_amount, pending_revenue) \<Rightarrow>
       rbind (update_position st position_owner
                (target_position\<lparr>po_credit_amount := bad_debt_amount\<rparr>)) (\<lambda>st.
       case (cc_debt_auction config, bad_debt_amount \<noteq> 0) of
         (Some debt_auction, True) \<Rightarrow>
           Inr (st\<lparr>CD_BASKET := Some (basket\<lparr>bk_pending_revenue := pending_revenue\<rparr>)\<rparr>,
             \<lparr>cr_messages = [Plain (WasmExecute debt_auction (StartAuction
                (Some \<lparr>ui_position_id = position_id, ui_position_owner = position_owner\<rparr>)
                \<lparr>a_info = a_info (bk_credit_asset basket), a_amount = bad_debt_amount\<rparr> None) [])],
              cr_attributes = [(''method'', AText ''check_and_fulfill_bad_debt''),
                (''bad_debt_amount'', ANum (po_credit_amount target_position)),
                (''amount_sent_to_auction'', ANum bad_debt_amount)]\<rparr>)
       | _ \<Rightarrow> custom ''Debt Auction contract not added to config''))))))"

section \<open>Execute and reply\<close>

datatype cdp_execute_msg =
    CdpUpdateConfig cdp_update_config
  | CdpDeposit "uint128 option" "string option"
  | CdpIncreaseDebt uint128 "uint128 option" "decimal option" "string option"
  | CdpWithdraw uint128 "Asset list" "string option"
  | CdpRepay uint128 "string option" "string option"
  | CdpLiqRepay
  | CdpLiquidate uint128 string
  | CdpRedeemCollateral "nat option"
  | CdpEditRedeemability "uint128 list" "bool option" "nat option" "decimal option"
      "string list option"
  | CdpAccrue "string option" "uint128 list"
  | CdpEditBasket EditBasket
  | CdpEditcAsset AssetInfo "decimal option" "decimal option"
  | CdpBadDebtCheck uint128 addr

definition duplicate_asset_check :: "Asset list \<Rightarrow> unit cdp_result" where
  "duplicate_asset_check assets =
     rfold (\<lambda>(i, asset) _.
       rbind (remove_at assets i) (\<lambda>assets_copy.
       if find (\<lambda>asset_clone. asset_info_equal (a_info asset_clone) (a_info asset)) assets_copy \<noteq> None
       then custom ''No duplicate assets in Asset object lists'' else Inr ()))
       (enumerate 0 assets) ()"

definition funds_assets :: "MessageInfo \<Rightarrow> Asset list" where
  "funds_assets info =
     map (\<lambda>coin. \<lparr>a_info = NativeToken (c_denom coin), a_amount = c_amount coin\<rparr>) (funds info)"

fun cdp_execute ::
  "chain_lib \<Rightarrow> cdp_storage \<Rightarrow> querier \<Rightarrow> Env \<Rightarrow> MessageInfo \<Rightarrow> cdp_execute_msg \<Rightarrow>
   (cdp_storage \<times> cdp_response) cdp_result" where
  "cdp_execute L st Q env info (CdpUpdateConfig update) = cdp_update_config_msg L st info update"
| "cdp_execute L st Q env info (CdpDeposit position_id position_owner) =
     rbind (assert_basket_assets st (funds_assets info)) (\<lambda>cAssets.
     if cAssets = [] then custom ''No deposit assets passed''
     else cdp_deposit L st Q env info position_owner position_id cAssets)"
| "cdp_execute L st Q env info (CdpIncreaseDebt position_id amount LTV mint_to_addr) =
     increase_debt L st Q env info position_id amount LTV mint_to_addr"
| "cdp_execute L st Q env info (CdpWithdraw position_id assets send_to) =
     rbind (duplicate_asset_check assets) (\<lambda>_.
     rbind (assert_basket_assets st assets) (\<lambda>cAssets.
     if cAssets = [] then custom ''No withdrawal assets passed''
     else cdp_withdraw L st Q env info position_id cAssets send_to))"
| "cdp_execute L st Q env info (CdpRepay position_id position_owner send_excess_to) =
     rbind (basket_load st) (\<lambda>basket.
     rbind (map_err CdpStd (assert_sent_native_token_balance (a_info (bk_credit_asset basket)) info))
       (\<lambda>credit_asset.
     cdp_repay L st Q env info position_id position_owner credit_asset send_excess_to))"
| "cdp_execute L st Q env info CdpLiqRepay =
     (case funds info of
        coin # _ \<Rightarrow> liq_repay st Q env info
          \<lparr>a_info = NativeToken (c_denom coin), a_amount = c_amount coin\<rparr>
      | [] \<Rightarrow> Inl (Failed CdpInvalidCredit))"
| "cdp_execute L st Q env info (CdpLiquidate position_id position_owner) =
     cdp_liquidate L st Q env info position_id position_owner"
| "cdp_execute L st Q env info (CdpRedeemCollateral max_collateral_premium) =
     redeem_for_collateral st Q env info (set_opt max_collateral_premium 99)"
| "cdp_execute L st Q env info (CdpEditRedeemability position_ids redeemable premium
     max_loan_repayment restricted) =
     edit_redemption_info st info position_ids redeemable premium max_loan_repayment restricted False"
| "cdp_execute L st Q env info (CdpAccrue position_owner position_ids) =
     external_accrue_call L st Q info env position_owner position_ids"
| "cdp_execute L st Q env info (CdpEditBasket edit) = edit_basket L st Q env info edit"
| "cdp_execute L st Q env info (CdpEditcAsset asset max_borrow_LTV max_LTV) =
     edit_cAsset L st info asset max_borrow_LTV max_LTV"
| "cdp_execute L st Q env info (CdpBadDebtCheck position_id position_owner) =
     (if sender info = contract_address env
      then check_and_fulfill_bad_debt st position_id position_owner
      else Inl (Failed (CdpUnauthorized (contract_address env))))"

definition cdp_reply ::
  "chain_lib \<Rightarrow> cdp_storage \<Rightarrow> querier \<Rightarrow> Env \<Rightarrow> nat \<Rightarrow> reply_result \<Rightarrow>
   (cdp_storage \<times> cdp_response) cdp_result" where
  "cdp_reply L st Q env reply_id res =
     (if reply_id = LIQ_QUEUE_REPLY_ID then handle_liq_queue_reply L st Q env res
      else if reply_id = WITHDRAW_REPLY_ID then handle_withdraw_reply L st Q env res
      else if reply_id = BAD_DEBT_REPLY_ID then Inr (st, \<lparr>cr_messages = [], cr_attributes = []\<rparr>)
      else Inl (Failed (CdpInvalidReplyId reply_id)))"

end
