(* ===== verification/CDP_Query.thy ===== *)
theory CDP_Query
  imports CDP_Contract SP_Query
begin

text \<open>
  Debt positions: the read-only entry point (\<open>contracts/cdp/src/query.rs\<close>). Responses are the typed
  values the code serialises. The page over all users of \<open>query_basket_positions\<close> walks the keys of a
  store in order and is not modelled; its two single-user forms are.
\<close>

definition MAX_LIMIT :: nat where "MAX_LIMIT = 31"

record PositionResponse =
  ps_position_id :: uint128
  ps_collateral_assets :: "cAsset list"
  ps_cAsset_ratios :: "decimal list"
  ps_credit_amount :: uint128
  ps_avg_borrow_LTV :: decimal
  ps_avg_max_LTV :: decimal

record BasketPositionsResponse =
  bp_user :: string
  bp_positions :: "PositionResponse list"

definition position_response :: "Position \<Rightarrow> PositionResponse" where
  "position_response pos = \<lparr>ps_position_id = po_position_id pos,
     ps_collateral_assets = po_collateral_assets pos, ps_cAsset_ratios = [],
     ps_credit_amount = po_credit_amount pos, ps_avg_borrow_LTV = 0, ps_avg_max_LTV = 0\<rparr>"

definition query_user_positions ::
  "chain_lib \<Rightarrow> cdp_storage \<Rightarrow> string \<Rightarrow> BasketPositionsResponse list cdp_result" where
  "query_user_positions L st user =
     rbind (basket_load st) (\<lambda>_.
     rbind (cdp_config_load st) (\<lambda>_.
     rbind (map_err CdpStd (lib_addr_validate L user)) (\<lambda>user.
     rbind (ok_or (CdpStd (GenericErr ''No User Positions'')) (CD_POSITIONS st user)) (\<lambda>positions.
     Inr [\<lparr>bp_user = user, bp_positions = map position_response positions\<rparr>]))))"

definition query_single_position ::
  "chain_lib \<Rightarrow> cdp_storage \<Rightarrow> UserInfo \<Rightarrow> BasketPositionsResponse list cdp_result" where
  "query_single_position L st user_info =
     rbind (basket_load st) (\<lambda>_.
     rbind (cdp_config_load st) (\<lambda>_.
     rbind (map_err CdpStd (lib_addr_validate L (ui_position_owner user_info))) (\<lambda>user.
     rbind (map_err CdpGeneric (get_target_position st user (ui_position_id user_info)))
       (\<lambda>(_, position).
     Inr [\<lparr>bp_user = user, bp_positions = [position_response position]\<rparr>]))))"

record DebtCap =
  dc_collateral :: AssetInfo
  dc_debt_total :: uint128
  dc_cap :: uint128

definition query_basket_debt_caps ::
  "cdp_storage \<Rightarrow> querier \<Rightarrow> Env \<Rightarrow> DebtCap list cdp_result" where
  "query_basket_debt_caps st Q env =
     rbind (basket_load st) (\<lambda>basket.
     rbind (get_basket_debt_caps st Q env basket [] None) (\<lambda>(basket, _, asset_caps).
     rmapM (\<lambda>(index, cap). rbind (at_index asset_caps index) (\<lambda>asset_cap.
       Inr \<lparr>dc_collateral = cap_asset_info cap, dc_debt_total = cap_debt_total cap,
            dc_cap = asset_cap\<rparr>)) (enumerate 0 (bk_collateral_supply_caps basket))))"

definition query_collateral_rates :: "cdp_storage \<Rightarrow> decimal list cdp_result" where
  "query_collateral_rates st =
     rbind (basket_load st) (\<lambda>basket. Inr (map rt_rate (bk_lastest_collateral_rates basket)))"

text \<open>\<open>!time_elapsed != 0\<close> complements the bits of a 64-bit number, so it fails for the largest alone.\<close>

definition query_basket_credit_interest ::
  "cdp_storage \<Rightarrow> querier \<Rightarrow> Env \<Rightarrow> (decimal \<times> bool) cdp_result" where
  "query_basket_credit_interest st Q env =
     rbind (cdp_config_load st) (\<lambda>config.
     rbind (basket_load st) (\<lambda>basket.
     rbind (u64_sub (time_seconds env) (bk_credit_last_accrued basket)) (\<lambda>time_elapsed.
     if U64_BOUND - 1 - time_elapsed \<noteq> 0 then
       rbind (rcatch (rbind (get_asset_values st env Q [credit_cAsset basket] config (Some basket)
                              False) (\<lambda>(_, prices).
                      rbind (at_index prices 0) (\<lambda>price.
                      Inr (if pr_price price = 0 then None else Some (pr_price price)))))
                (\<lambda>_. Inr None)) (\<lambda>twap_price.
       case twap_price of
         None \<Rightarrow> Inr (0, False)
       | Some twap_price \<Rightarrow>
           rbind (price_gap twap_price (pr_price (bk_credit_price basket)))
             (\<lambda>(negative_rate, price_difference).
           Inr (if price_difference \<le> bk_cpc_margin_of_error basket then 0 else price_difference,
                negative_rate)))
     else Inr (0, False))))"

definition simulate_LTV_mint ::
  "chain_lib \<Rightarrow> cdp_storage \<Rightarrow> querier \<Rightarrow> Env \<Rightarrow> UserInfo \<Rightarrow> decimal \<Rightarrow> uint128 cdp_result" where
  "simulate_LTV_mint L st Q env user_info LTV =
     rbind (map_err CdpStd (lib_addr_validate L (ui_position_owner user_info))) (\<lambda>owner.
     rbind (map_err CdpGeneric (get_target_position st owner (ui_position_id user_info)))
       (\<lambda>(_, target_position).
     rbind (cdp_config_load st) (\<lambda>config.
     rbind (basket_load st) (\<lambda>basket.
     map_err CdpGeneric (get_amount_from_LTV st Q env config target_position basket LTV)))))"

record PremiumInfo =
  pm_premium :: nat
  pm_users_of_premium :: "RedemptionInfo list"

text \<open>The limit is the code's 32-bit counter; a longer list of users is cut to it, and the counter then
  stays where it is.\<close>

definition premium_turn ::
  "cdp_storage \<Rightarrow> addr option \<Rightarrow> nat \<Rightarrow> PremiumInfo list \<times> nat \<Rightarrow> PremiumInfo list \<times> nat" where
  "premium_turn st position_owner premium = (\<lambda>(res, limit).
     let users = (case CD_REDEMPTION_OPT_IN st premium of None \<Rightarrow> [] | Some us \<Rightarrow> us);
         count = length users mod U32_BOUND in
     if users = [] then (res, limit)
     else
       case position_owner of
         Some owner \<Rightarrow>
           let own = filter (\<lambda>user. ri_position_owner user = owner) users in
           if own \<noteq> [] then (res @ [\<lparr>pm_premium = premium, pm_users_of_premium = own\<rparr>], limit)
           else (res, limit)
       | None \<Rightarrow>
           if count \<le> limit
           then (res @ [\<lparr>pm_premium = premium, pm_users_of_premium = users\<rparr>], limit - count)
           else (res @ [\<lparr>pm_premium = premium, pm_users_of_premium = take limit users\<rparr>], limit))"

definition query_basket_redeemability ::
  "chain_lib \<Rightarrow> cdp_storage \<Rightarrow> string option \<Rightarrow> nat option \<Rightarrow> nat option \<Rightarrow>
   PremiumInfo list cdp_result" where
  "query_basket_redeemability L st position_owner start_after limit =
     rbind (validate_opt L position_owner None) (\<lambda>valid_address.
     Inr (fst (fold (premium_turn st valid_address) [set_opt start_after 0..<100]
       ([], set_opt limit MAX_LIMIT))))"

end
