(* ===== verification/CDP_Frame.thy ===== *)
theory CDP_Frame
  imports CDP_Query
begin

text \<open>
  Debt positions: what the shared operations leave alone. \<open>priced\<close> says that only stored prices and
  volatility changed, and that the volatility stays well formed; \<open>rated\<close> that only interest data of a
  basket changed. The lemmas for prices, interest and the tally are destruct rules that the handlers'
  lemmas apply one after the other.
\<close>

section \<open>Stored prices and volatility\<close>

definition vol_ok :: "CollateralVolatility \<Rightarrow> bool" where
  "vol_ok v \<longleftrightarrow> vol_index v \<le> DECIMAL_FRACTIONAL \<and> length (vol_list v) \<le> VOLATILITY_LIST_LIMIT"

definition vols_ok :: "cdp_storage \<Rightarrow> bool" where
  "vols_ok st \<longleftrightarrow> (\<forall>key v. CD_VOLATILITY st key = Some v \<longrightarrow> vol_ok v)"

definition priced :: "cdp_storage \<Rightarrow> cdp_storage \<Rightarrow> bool" where
  "priced st st' \<longleftrightarrow> (\<exists>p v. st' = st\<lparr>CD_STORED_PRICES := p, CD_VOLATILITY := v\<rparr>) \<and>
     (vols_ok st \<longrightarrow> vols_ok st')"

lemma priced_refl [simp]: "priced st st"
proof -
  have "st = st\<lparr>CD_STORED_PRICES := CD_STORED_PRICES st, CD_VOLATILITY := CD_VOLATILITY st\<rparr>" by simp
  then show ?thesis unfolding priced_def by blast
qed

lemma priced_trans: "priced s t \<Longrightarrow> priced t u \<Longrightarrow> priced s u"
  unfolding priced_def by fastforce

lemma pricedD:
  assumes "priced st st'"
  shows "CD_POSITIONS st' = CD_POSITIONS st" "CD_CONFIG st' = CD_CONFIG st" "CD_BASKET st' = CD_BASKET st"
    "CD_REDEMPTION_OPT_IN st' = CD_REDEMPTION_OPT_IN st" "CD_LIQUIDATION st' = CD_LIQUIDATION st"
    "CD_OWNERSHIP_TRANSFER st' = CD_OWNERSHIP_TRANSFER st" "CD_WITHDRAW st' = CD_WITHDRAW st"
    "CD_FREEZE_TIMER st' = CD_FREEZE_TIMER st" "vols_ok st \<Longrightarrow> vols_ok st'"
  using assms unfolding priced_def by auto

lemma priced_cdp_load [simp]:
  assumes "priced st st'"
  shows "cdp_config_load st' = cdp_config_load st" "basket_load st' = basket_load st"
    "get_target_position st' u k = get_target_position st u k"
  using pricedD[OF assms] by (simp_all add: cdp_config_load_def basket_load_def get_target_position_def)

lemma new_volatility_ok:
  assumes "new_volatility_index v n s = Inr v'" and "length (vol_list v) \<le> VOLATILITY_LIST_LIMIT"
  shows "vol_ok v'"
  using assms unfolding new_volatility_index_def Let_def
  by (auto simp: vol_ok_def res_ok VOLATILITY_LIST_LIMIT_def elim!: rbind_InrE split: if_split_asm)

lemma track_price_priced: "track_price env prices item st = Inr st' \<Longrightarrow> priced st st'"
proof -
  assume a: "track_price env prices item st = Inr st'"
  obtain i c where [simp]: "item = (i, c)" by (cases item)
  let ?k = "asset_info_to_string (ca_info c)"
  show ?thesis
  proof (cases "CD_STORED_PRICES st ?k")
    case None
    with a obtain p where "st' = st\<lparr>CD_STORED_PRICES := p\<rparr>"
      by (auto simp: track_price_def Let_def elim!: rbind_InrE)
    then have "st' = st\<lparr>CD_STORED_PRICES := p, CD_VOLATILITY := CD_VOLATILITY st\<rparr>" by simp
    moreover have "vols_ok st \<longrightarrow> vols_ok st'" using calculation by (simp add: vols_ok_def)
    ultimately show ?thesis unfolding priced_def by blast
  next
    case (Some sp)
    consider "st' = st"
      | p v n s v' where "st' = st\<lparr>CD_STORED_PRICES := p, CD_VOLATILITY := (CD_VOLATILITY st)(?k \<mapsto> v')\<rparr>"
          "new_volatility_index v n s = Inr v'"
          "v = (case CD_VOLATILITY st ?k of Some v \<Rightarrow> v
                 | None \<Rightarrow> \<lparr>vol_index = DECIMAL_FRACTIONAL, vol_list = []\<rparr>)"
      using a Some
      by (auto simp: track_price_def Let_def elim!: rbind_InrE split: if_split_asm)
    then show ?thesis
    proof cases
      case 1
      then show ?thesis by simp
    next
      case (2 p v n s v')
      have "vols_ok st'" if "vols_ok st"
      proof -
        have "length (vol_list v) \<le> VOLATILITY_LIST_LIMIT"
          using that 2(3) by (auto simp: vols_ok_def vol_ok_def split: option.splits)
        then have "vol_ok v'" using new_volatility_ok[OF 2(2)] by simp
        with that show ?thesis using 2(1) by (simp add: vols_ok_def)
      qed
      with 2(1) show ?thesis unfolding priced_def by blast
    qed
  qed
qed

lemma rfold_priced:
  assumes "rfold f xs st = Inr st'" and "\<And>x s s'. f x s = Inr s' \<Longrightarrow> priced s s'"
  shows "priced st st'"
  using rfold_invariant[of xs "priced st" f st st'] assms priced_trans by (metis priced_refl)

lemma ratios_priced:
  "get_cAsset_ratios st env Q cs config b = Inr (st', rs, ps) \<Longrightarrow> priced st st'"
  unfolding get_cAsset_ratios_def
  by (auto elim!: rbind_InrE dest: rfold_priced[OF _ track_price_priced])

section \<open>Interest data of a basket\<close>

definition rated :: "Basket \<Rightarrow> Basket \<Rightarrow> bool" where
  "rated b b' \<longleftrightarrow> bk_basket_id b' = bk_basket_id b \<and>
     bk_current_position_id b' = bk_current_position_id b \<and>
     bk_credit_asset b' = bk_credit_asset b \<and> bk_pending_revenue b' = bk_pending_revenue b \<and>
     bk_multi_asset_supply_caps b' = bk_multi_asset_supply_caps b \<and>
     bk_oracle_set b' = bk_oracle_set b \<and> bk_frozen b' = bk_frozen b \<and>
     bk_rev_to_stakers b' = bk_rev_to_stakers b \<and> bk_liq_queue b' = bk_liq_queue b"

lemma rated_refl [simp]: "rated b b"
  by (simp add: rated_def)

lemma rated_updates [simp]:
  "rated b (c\<lparr>bk_negative_rates := x\<rparr>) = rated b c"
  "rated b (c\<lparr>bk_collateral_supply_caps := cs\<rparr>) = rated b c"
  "rated b (c\<lparr>bk_lastest_collateral_rates := rs\<rparr>) = rated b c"
  "rated b (c\<lparr>bk_credit_last_accrued := t\<rparr>) = rated b c"
  "rated b (c\<lparr>bk_rates_last_accrued := t\<rparr>) = rated b c"
  "rated b (c\<lparr>bk_collateral_types := ts\<rparr>) = rated b c"
  "rated b (c\<lparr>bk_credit_price := pr\<rparr>) = rated b c"
  by (simp_all add: rated_def)

lemma rated_trans: "rated a b \<Longrightarrow> rated b c \<Longrightarrow> rated a c"
  by (simp add: rated_def)

lemma split_debt_rated: "split_debt rs x (b, caps) = Inr (b', caps') \<Longrightarrow> rated b b'"
  by (cases x) (auto simp: split_debt_def rated_def elim!: rbind_InrE)

lemma split_debts_rated: "rfold (split_debt rs) xs (b, caps) = Inr (b', caps') \<Longrightarrow> rated b b'"
proof (induction xs arbitrary: b caps)
  case (Cons x xs)
  then obtain b1 caps1 where "split_debt rs x (b, caps) = Inr (b1, caps1)"
    and "rfold (split_debt rs) xs (b1, caps1) = Inr (b', caps')"
    by (auto elim!: rbind_InrE)
  with Cons.IH show ?case using split_debt_rated rated_trans by blast
qed simp

lemma debt_caps_rated:
  "get_basket_debt_caps st Q env b caps l = Inr (b', caps', ds) \<Longrightarrow> rated b b'"
  unfolding get_basket_debt_caps_def Let_def
  by (auto elim!: rbind_InrE dest!: split_debts_rated)

lemma interest_rates_effect:
  "get_interest_rates st Q env b caps l = Inr (st', b', caps', rs) \<Longrightarrow> priced st st' \<and> rated b b'"
  unfolding get_interest_rates_def
  by (auto elim!: rbind_InrE simp: map_err_eq_Inr dest!: debt_caps_rated ratios_priced)

lemma rate_indices_effect:
  "update_rate_indices st Q env b caps neg rate l = Inr (st', b', caps') \<Longrightarrow> priced st st' \<and> rated b b'"
  unfolding update_rate_indices_def Let_def
  by (auto elim!: rbind_InrE simp: map_err_eq_Inr dest!: interest_rates_effect)

lemma move_credit_price_rated:
  "move_credit_price config b neg d t = Inr (b', r) \<Longrightarrow> rated b b'"
  unfolding move_credit_price_def Let_def
  by (auto elim!: rbind_InrE split: if_split_asm)

lemma repayment_price_rated:
  "accrue_repayment_price st Q env config b dep = Inr (b', x) \<Longrightarrow> rated b b'"
  unfolding accrue_repayment_price_def Let_def
  by (auto elim!: rbind_InrE dest!: move_credit_price_rated split: if_split_asm)
    (simp_all add: rated_def)

section \<open>Accrual\<close>

text \<open>The position after an accrual: the same assets, with new indices and more debt.\<close>

definition accrued_by :: "nat \<Rightarrow> Position \<Rightarrow> Position \<Rightarrow> bool" where
  "accrued_by n pos pos' \<longleftrightarrow> po_position_id pos' = po_position_id pos \<and>
     po_credit_amount pos' = po_credit_amount pos + n \<and>
     list_all2 (\<lambda>c c'. \<exists>r. c' = c\<lparr>ca_rate_index := r\<rparr>) (po_collateral_assets pos)
       (po_collateral_assets pos')"

definition basket_accrued_by :: "nat \<Rightarrow> Basket \<Rightarrow> Basket \<Rightarrow> bool" where
  "basket_accrued_by n b b' \<longleftrightarrow> (\<exists>c. rated b c \<and>
     b' = bk_set_credit (c\<lparr>bk_pending_revenue := bk_pending_revenue b + n\<rparr>) (bk_credit b + n))"

lemma catch_up_asset:
  "catch_up_index b rs (i, c) s = Inr (s', c') \<Longrightarrow> \<exists>r. c' = c\<lparr>ca_rate_index := r\<rparr>"
proof -
  assume a: "catch_up_index b rs (i, c) s = Inr (s', c')"
  have "c' = c \<or> (\<exists>r. c' = c\<lparr>ca_rate_index := r\<rparr>)"
    using a unfolding catch_up_index_def by (auto elim!: rbind_InrE split: option.splits)
  moreover have "c = c\<lparr>ca_rate_index := ca_rate_index c\<rparr>" by simp
  ultimately show ?thesis by metis
qed

lemma catch_up_all:
  assumes "rmap_state (catch_up_index b rs) (enumerate k cs) s = Inr (s', cs')"
  shows "list_all2 (\<lambda>c c'. \<exists>r. c' = c\<lparr>ca_rate_index := r\<rparr>) cs cs'"
proof -
  have "list_all2 (\<lambda>ic c'. \<exists>r. c' = (snd ic)\<lparr>ca_rate_index := r\<rparr>) (enumerate k cs) cs'"
    by (rule rmap_state_list_all2[OF assms]) (metis catch_up_asset prod.collapse)
  then have "list_all2 (\<lambda>c c'. \<exists>r. c' = c\<lparr>ca_rate_index := r\<rparr>) (map snd (enumerate k cs)) cs'"
    by (simp only: list_all2_map1)
  then show ?thesis by simp
qed

lemma rate_of_change_effect:
  "get_credit_rate_of_change st Q env config b pos neg rate l = Inr (st', b', pos', r, rs) \<Longrightarrow>
     priced st st' \<and> rated b b' \<and> accrued_by 0 pos pos'"
  unfolding get_credit_rate_of_change_def
  by (auto elim!: rbind_InrE simp: map_err_eq_Inr accrued_by_def
      dest!: ratios_priced rate_indices_effect catch_up_all intro: priced_trans)

lemma charge_interest_effect:
  assumes "charge_interest Q config user r b pos = Inr (b', pos')"
  shows "\<exists>n. b' = bk_set_credit (b\<lparr>bk_pending_revenue := bk_pending_revenue b + n\<rparr>) (bk_credit b + n) \<and>
    pos' = pos\<lparr>po_credit_amount := po_credit_amount pos + n\<rparr>"
proof -
  consider "b' = b" "pos' = pos"
    | n where "b' = bk_set_credit (b\<lparr>bk_pending_revenue := bk_pending_revenue b + n\<rparr>) (bk_credit b + n)"
        "pos' = pos\<lparr>po_credit_amount := po_credit_amount pos + n\<rparr>"
    using assms unfolding charge_interest_def Let_def
    by (auto elim!: rbind_InrE simp: int_ok split: if_split_asm)
  then show ?thesis
  proof cases
    case 1
    then have "b' = bk_set_credit (b\<lparr>bk_pending_revenue := bk_pending_revenue b + 0\<rparr>) (bk_credit b + 0)"
      "pos' = pos\<lparr>po_credit_amount := po_credit_amount pos + 0\<rparr>"
      by (simp_all add: bk_set_credit_def)
    then show ?thesis by blast
  next
    case 2
    then show ?thesis by blast
  qed
qed

lemma accrue_effect:
  assumes "accrue st Q env config pos b user dep = Inr (st', pos', b', rs)"
  shows "priced st st' \<and> (\<exists>n. accrued_by n pos pos' \<and> basket_accrued_by n b b')"
proof -
  obtain b1 x1 x2 x3 st1 b2 p2 r ratios where
    1: "accrue_repayment_price st Q env config b dep = Inr (b1, x1, x2, x3)"
    and 2: "get_credit_rate_of_change st Q env config b1 pos x1 x2 (Some x3) = Inr (st', b2, p2, r, ratios)"
    and 3: "charge_interest Q config user r b2 p2 = Inr (b', pos')"
    using assms unfolding accrue_def by (auto elim!: rbind_InrE simp: map_err_eq_Inr)
  have p: "priced st st'" and r: "rated b b2" and a: "accrued_by 0 pos p2"
    using rate_of_change_effect[OF 2] repayment_price_rated[OF 1] rated_trans by blast+
  obtain n where n: "b' = bk_set_credit (b2\<lparr>bk_pending_revenue := bk_pending_revenue b2 + n\<rparr>) (bk_credit b2 + n)"
    "pos' = p2\<lparr>po_credit_amount := po_credit_amount p2 + n\<rparr>"
    using charge_interest_effect[OF 3] by blast
  have "accrued_by n pos pos'" using a n(2) by (simp add: accrued_by_def)
  moreover have "basket_accrued_by n b b'" using r n(1) unfolding basket_accrued_by_def
    by (intro exI[of _ b2]) (simp add: rated_def)
  ultimately show ?thesis using p by blast
qed

section \<open>The tally\<close>

text \<open>A tally changes amounts of the basket's collateral and caps.\<close>

lemma tally_asset_rated: "tally_asset add c b = Inr b' \<Longrightarrow> rated b b'"
  unfolding tally_asset_def Let_def
  by (auto elim!: rbind_InrE simp: rated_def split: option.splits)

lemma tally_assets_rated: "rfold (tally_asset add) cs b = Inr b' \<Longrightarrow> rated b b'"
proof (induction cs arbitrary: b)
  case (Cons c cs)
  then show ?case using tally_asset_rated rated_trans by (auto elim!: rbind_InrE) blast
qed simp

lemma tally_effect:
  "update_basket_tally st Q env b cs fs add config liq = Inr (st', b') \<Longrightarrow> priced st st' \<and> rated b b'"
  unfolding update_basket_tally_def
  by (auto elim!: rbind_InrE dest!: tally_assets_rated ratios_priced split: if_split_asm)

end
