(* ===== verification/CDP_Books.thy ===== *)
theory CDP_Books
  imports CDP_Frame
begin

text \<open>
  Debt positions: the books. \<open>books_ok c d st\<close> says that the position ids of all users are distinct and
  below \<open>c\<close>, that the volatility is well formed and that the debts of all positions sum up to at most
  \<open>d\<close>. \<open>cdp_ok e st\<close> instantiates it with the basket: its next id, and its debt plus an excess \<open>e\<close>.
  The lemmas say what each way of storing positions does to the books.
\<close>

section \<open>Positions, ids, debts\<close>

definition pos_list :: "cdp_storage \<Rightarrow> addr \<Rightarrow> Position list" where
  "pos_list st u = (case CD_POSITIONS st u of None \<Rightarrow> [] | Some ps \<Rightarrow> ps)"

definition debt_of :: "Position list \<Rightarrow> nat" where
  "debt_of ps = sum_list (map po_credit_amount ps)"

definition total_debt :: "cdp_storage \<Rightarrow> nat" where
  "total_debt st = (\<Sum>u\<in>dom (CD_POSITIONS st). debt_of (pos_list st u))"

definition ids_ok :: "nat \<Rightarrow> cdp_storage \<Rightarrow> bool" where
  "ids_ok c st \<longleftrightarrow>
     (\<forall>u. distinct (map po_position_id (pos_list st u)) \<and>
          (\<forall>p\<in>set (pos_list st u). po_position_id p < c)) \<and>
     (\<forall>u v. u \<noteq> v \<longrightarrow> po_position_id ` set (pos_list st u) \<inter> po_position_id ` set (pos_list st v) = {})"

definition books_ok :: "nat \<Rightarrow> nat \<Rightarrow> cdp_storage \<Rightarrow> bool" where
  "books_ok c d st \<longleftrightarrow> finite (dom (CD_POSITIONS st)) \<and> vols_ok st \<and> ids_ok c st \<and> total_debt st \<le> d"

definition cdp_ok :: "nat \<Rightarrow> cdp_storage \<Rightarrow> bool" where
  "cdp_ok e st = (case CD_BASKET st of
       None \<Rightarrow> books_ok 0 e st
     | Some b \<Rightarrow> books_ok (bk_current_position_id b) (bk_credit b + e) st)"

lemma debt_of_simps [simp]:
  "debt_of [] = 0" "debt_of (p # ps) = po_credit_amount p + debt_of ps"
  "debt_of (ps @ qs) = debt_of ps + debt_of qs"
  by (simp_all add: debt_of_def)

lemma debt_of_update:
  "i < length ps \<Longrightarrow> debt_of (ps[i := p]) + po_credit_amount (ps ! i) = debt_of ps + po_credit_amount p"
proof (induction ps arbitrary: i)
  case (Cons q qs)
  then show ?case by (cases i) (auto simp: algebra_simps)
qed simp

lemma debt_of_remove:
  "i < length ps \<Longrightarrow> debt_of (take i ps @ drop (Suc i) ps) + po_credit_amount (ps ! i) = debt_of ps"
  by (metis add.assoc add.commute debt_of_simps(2,3) id_take_nth_drop)

lemma total_debt_superset:
  assumes "finite A" and "dom (CD_POSITIONS st) \<subseteq> A"
  shows "total_debt st = (\<Sum>u\<in>A. debt_of (pos_list st u))"
  unfolding total_debt_def
  by (rule sum.mono_neutral_left[OF assms]) (auto simp: pos_list_def split: option.splits)

lemma total_debt_change:
  assumes fin: "finite (dom (CD_POSITIONS st))"
    and other: "\<And>v. v \<noteq> u \<Longrightarrow> pos_list st' v = pos_list st v" and sub: "dom (CD_POSITIONS st') \<subseteq> insert u (dom (CD_POSITIONS st))"
  shows "total_debt st' + debt_of (pos_list st u) = total_debt st + debt_of (pos_list st' u)"
proof -
  let ?A = "insert u (dom (CD_POSITIONS st))"
  have A: "finite ?A" using fin by simp
  have "(\<Sum>v\<in>?A - {u}. debt_of (pos_list st' v)) = (\<Sum>v\<in>?A - {u}. debt_of (pos_list st v))"
    by (rule sum.cong) (auto simp: other)
  moreover have "total_debt st' = debt_of (pos_list st' u) + (\<Sum>v\<in>?A - {u}. debt_of (pos_list st' v))"
    using total_debt_superset[OF A sub] sum.remove[OF A, of u "\<lambda>v. debt_of (pos_list st' v)"] by simp
  moreover have "total_debt st = debt_of (pos_list st u) + (\<Sum>v\<in>?A - {u}. debt_of (pos_list st v))"
    using total_debt_superset[OF A, of st] sum.remove[OF A, of u "\<lambda>v. debt_of (pos_list st v)"] by auto
  ultimately show ?thesis by simp
qed

section \<open>Storing positions\<close>

text \<open>One user's list is replaced: by ids of the user's own, or new ones.\<close>

lemma books_replace:
  assumes ok: "books_ok c d st"
    and st': "CD_POSITIONS st' = (CD_POSITIONS st)(u := x)" "CD_VOLATILITY st' = CD_VOLATILITY st"
    and ids: "distinct (map po_position_id ps')"
      "\<And>p. p \<in> set ps' \<Longrightarrow> po_position_id p \<in> po_position_id ` set (pos_list st u) \<or>
         c \<le> po_position_id p \<and> po_position_id p < c'"
    and ps': "ps' = pos_list st' u" and c: "c \<le> c'"
    and d: "d + debt_of ps' \<le> d' + debt_of (pos_list st u)"
  shows "books_ok c' d' st'"
proof -
  have other: "pos_list st' v = pos_list st v" if "v \<noteq> u" for v
    using that st'(1) by (simp add: pos_list_def)
  have fin: "finite (dom (CD_POSITIONS st))" and ids0: "ids_ok c st" and tot: "total_debt st \<le> d"
    using ok by (simp_all add: books_ok_def)
  have sub: "dom (CD_POSITIONS st') \<subseteq> insert u (dom (CD_POSITIONS st))"
    using st'(1) by (auto split: if_split_asm)
  have "total_debt st' \<le> d'" using total_debt_change[of st u st', OF fin other sub] tot d ps' by simp
  moreover have "finite (dom (CD_POSITIONS st'))" using fin sub finite_subset by blast
  moreover have "vols_ok st'" using ok st'(2) by (simp add: books_ok_def vols_ok_def)
  moreover have "ids_ok c' st'"
  proof -
    have 1: "distinct (map po_position_id (pos_list st' v)) \<and> (\<forall>p\<in>set (pos_list st' v). po_position_id p < c')" for v
    proof (cases "v = u")
      case True
      have "po_position_id p < c'" if "p \<in> set ps'" for p
        using ids(2)[OF that] ids0 c unfolding ids_ok_def by (metis imageE less_le_trans)
      with True ids(1) ps' show ?thesis by simp
    next
      case False
      with ids0 c show ?thesis by (fastforce simp: ids_ok_def other)
    qed
    have 2: "po_position_id ` set (pos_list st' v) \<inter> po_position_id ` set (pos_list st' w) = {}" if "v \<noteq> w" for v w
    proof -
      have disj: "po_position_id ` set ps' \<inter> po_position_id ` set (pos_list st x) = {}" if "x \<noteq> u" for x
        using ids(2) ids0 that unfolding ids_ok_def by fastforce
      show ?thesis
        using that disj ids0 other ps' unfolding ids_ok_def by (metis Int_commute)
    qed
    show ?thesis using 1 2 by (simp add: ids_ok_def)
  qed
  ultimately show ?thesis by (simp add: books_ok_def)
qed

lemma books_mono: "books_ok c d st \<Longrightarrow> c \<le> c' \<Longrightarrow> d \<le> d' \<Longrightarrow> books_ok c' d' st"
  by (fastforce simp: books_ok_def ids_ok_def)

lemma books_priced: "priced st st' \<Longrightarrow> books_ok c d st \<Longrightarrow> books_ok c d st'"
  using pricedD[of st st'] by (simp add: books_ok_def ids_ok_def pos_list_def total_debt_def)

lemma books_other_fields [simp]:
  "books_ok c d (st\<lparr>CD_BASKET := b\<rparr>) = books_ok c d st"
  "books_ok c d (st\<lparr>CD_CONFIG := f\<rparr>) = books_ok c d st"
  "books_ok c d (st\<lparr>CD_CONTRACT := v\<rparr>) = books_ok c d st"
  "books_ok c d (st\<lparr>CD_WITHDRAW := w\<rparr>) = books_ok c d st"
  "books_ok c d (st\<lparr>CD_LIQUIDATION := l\<rparr>) = books_ok c d st"
  "books_ok c d (st\<lparr>CD_REDEMPTION_OPT_IN := r\<rparr>) = books_ok c d st"
  "books_ok c d (st\<lparr>CD_OWNERSHIP_TRANSFER := a\<rparr>) = books_ok c d st"
  "books_ok c d (st\<lparr>CD_FREEZE_TIMER := t\<rparr>) = books_ok c d st"
  by (simp_all add: books_ok_def ids_ok_def pos_list_def total_debt_def vols_ok_def)

text \<open>A position is replaced by one of the same id.\<close>

lemma books_update:
  assumes ok: "books_ok c d st" and ps: "pos_list st u = ps" and i: "i < length ps"
    and p: "po_position_id p = po_position_id (ps ! i)"
    and d: "d + po_credit_amount p \<le> d' + po_credit_amount (ps ! i)"
  shows "books_ok c d' (st\<lparr>CD_POSITIONS := (CD_POSITIONS st)(u \<mapsto> ps[i := p])\<rparr>)"
proof (rule books_replace[where ps' = "ps[i := p]", OF ok])
  have ids: "map po_position_id (ps[i := p]) = map po_position_id ps"
    using p i by (metis list_update_id map_update)
  have "distinct (map po_position_id ps)" using ok ps by (auto simp: books_ok_def ids_ok_def)
  then show "distinct (map po_position_id (ps[i := p]))" using ids by simp
  show "po_position_id q \<in> po_position_id ` set (pos_list st u) \<or> c \<le> po_position_id q \<and> po_position_id q < c"
    if "q \<in> set (ps[i := p])" for q
    using that ids ps by (metis image_eqI image_set)
  show "d + debt_of (ps[i := p]) \<le> d' + debt_of (pos_list st u)"
    using debt_of_update[OF i, of p] d ps by simp
qed (simp_all add: pos_list_def)

text \<open>A position is removed; a user without positions may lose the list as well.\<close>

lemma books_remove:
  assumes ok: "books_ok c d st" and ps: "pos_list st u = ps" and i: "i < length ps"
    and x: "(case x of None \<Rightarrow> [] | Some l \<Rightarrow> l) = take i ps @ drop (Suc i) ps"
    and d: "d \<le> d' + po_credit_amount (ps ! i)"
  shows "books_ok c d' (st\<lparr>CD_POSITIONS := (CD_POSITIONS st)(u := x)\<rparr>)"
proof (rule books_replace[where ps' = "take i ps @ drop (Suc i) ps", OF ok])
  have "distinct (map po_position_id ps)" using ok ps by (auto simp: books_ok_def ids_ok_def)
  then have "distinct (map po_position_id (take i ps @ ps ! i # drop (Suc i) ps))"
    using id_take_nth_drop[OF i] by simp
  then show "distinct (map po_position_id (take i ps @ drop (Suc i) ps))" by auto
  show "po_position_id q \<in> po_position_id ` set (pos_list st u) \<or> c \<le> po_position_id q \<and> po_position_id q < c"
    if "q \<in> set (take i ps @ drop (Suc i) ps)" for q
    using that ps by (auto dest: in_set_takeD in_set_dropD)
  show "d + debt_of (take i ps @ drop (Suc i) ps) \<le> d' + debt_of (pos_list st u)"
    using debt_of_remove[OF i] d ps by simp
qed (use x in \<open>simp_all add: pos_list_def split: option.splits\<close>)

text \<open>A position with the next id is appended.\<close>

lemma books_append:
  assumes ok: "books_ok c d st" and p: "po_position_id p = c"
    and d: "d + po_credit_amount p \<le> d'"
  shows "books_ok (Suc c) d' (st\<lparr>CD_POSITIONS := (CD_POSITIONS st)(u \<mapsto> pos_list st u @ [p])\<rparr>)"
proof (rule books_replace[where ps' = "pos_list st u @ [p]", OF ok])
  have "distinct (map po_position_id (pos_list st u))" "\<forall>q\<in>set (pos_list st u). po_position_id q < c"
    using ok by (auto simp: books_ok_def ids_ok_def)
  then show "distinct (map po_position_id (pos_list st u @ [p]))" using p by auto
qed (use p d in \<open>auto simp: pos_list_def\<close>)

text \<open>\<open>update_position\<close> on a list with distinct ids replaces one position.\<close>

lemma map_if_update:
  assumes "distinct (map po_position_id ps)" and "i < length ps" and "po_position_id (ps ! i) = po_position_id p"
  shows "map (\<lambda>q. if po_position_id q = po_position_id p then p else q) ps = ps[i := p]"
  using assms
proof (induction ps arbitrary: i)
  case (Cons q qs)
  show ?case
  proof (cases i)
    case 0
    have "r \<in> set qs \<Longrightarrow> po_position_id r \<noteq> po_position_id q" for r
      using Cons.prems(1) by (metis distinct.simps(2) image_eqI image_set list.simps(9))
    moreover have "po_position_id q = po_position_id p" using Cons.prems(3) 0 by simp
    ultimately have "map (\<lambda>q. if po_position_id q = po_position_id p then p else q) qs = qs"
      by (intro map_idI) auto
    then show ?thesis using 0 Cons.prems(3) by simp
  next
    case (Suc j)
    have "po_position_id p \<in> po_position_id ` set qs"
      using Cons.prems(2,3) Suc by (metis Suc_less_eq length_Cons nth_Cons_Suc image_eqI nth_mem)
    then have "po_position_id q \<noteq> po_position_id p" using Cons.prems(1) by auto
    then show ?thesis using Cons Suc by simp
  qed
qed simp

lemma map_if_absent:
  assumes "\<And>q. q \<in> set ps \<Longrightarrow> po_position_id q \<noteq> po_position_id p"
  shows "map (\<lambda>q. if po_position_id q = po_position_id p then p else q) ps = ps"
  using assms by (induction ps) auto

lemma target_in_list:
  assumes "get_target_position st u k = Inr (i, p)"
  shows "i < length (pos_list st u)" "p = pos_list st u ! i" "po_position_id p = k"
    "CD_POSITIONS st u = Some (pos_list st u)"
  using assms by (auto simp: get_target_position_ok pos_list_def)

lemma books_update_position:
  assumes ok: "books_ok c d st" and upd: "update_position st u p = Inr st'"
    and d: "\<And>q. q \<in> set (pos_list st u) \<Longrightarrow> po_position_id q = po_position_id p \<Longrightarrow>
      d + po_credit_amount p \<le> d' + po_credit_amount q" and dd: "d \<le> d'"
  shows "books_ok c d' st'"
proof -
  from upd obtain ps where ps: "CD_POSITIONS st u = Some ps" and
    st': "st' = st\<lparr>CD_POSITIONS := (CD_POSITIONS st)(u \<mapsto>
      map (\<lambda>q. if po_position_id q = po_position_id p then p else q) ps)\<rparr>"
    by (auto simp: update_position_ok)
  have pl: "pos_list st u = ps" using ps by (simp add: pos_list_def)
  have dis: "distinct (map po_position_id ps)" using ok pl by (auto simp: books_ok_def ids_ok_def)
  show ?thesis
  proof (cases "\<exists>q\<in>set ps. po_position_id q = po_position_id p")
    case True
    then obtain i where i: "i < length ps" "po_position_id (ps ! i) = po_position_id p"
      by (auto simp: in_set_conv_nth)
    have "d + po_credit_amount p \<le> d' + po_credit_amount (ps ! i)" using d pl i by auto
    from books_update[OF ok pl i(1) i(2)[symmetric] this] show ?thesis
      using st' map_if_update[OF dis i] by simp
  next
    case False
    then have "map (\<lambda>q. if po_position_id q = po_position_id p then p else q) ps = ps"
      by (intro map_if_absent) auto
    then have "CD_POSITIONS st' = CD_POSITIONS st" using st' ps by auto
    then have "books_ok c d st'" using ok st'
      by (simp add: books_ok_def ids_ok_def pos_list_def total_debt_def vols_ok_def)
    then show ?thesis using books_mono dd by blast
  qed
qed

section \<open>The books of the basket\<close>

lemma cdp_okI: "CD_BASKET st = Some b \<Longrightarrow> books_ok (bk_current_position_id b) (bk_credit b + e) st \<Longrightarrow> cdp_ok e st"
  by (simp add: cdp_ok_def)

lemma cdp_okD: "cdp_ok e st \<Longrightarrow> CD_BASKET st = Some b \<Longrightarrow> books_ok (bk_current_position_id b) (bk_credit b + e) st"
  by (simp add: cdp_ok_def)

lemma cdp_ok_priced: "priced st st' \<Longrightarrow> cdp_ok e st \<Longrightarrow> cdp_ok e st'"
  using books_priced pricedD(3) by (fastforce simp: cdp_ok_def split: option.splits)

lemma ratedD:
  assumes "rated b b'"
  shows "bk_current_position_id b' = bk_current_position_id b" "bk_credit b' = bk_credit b"
    "bk_pending_revenue b' = bk_pending_revenue b" "bk_credit_asset b' = bk_credit_asset b"
    "bk_frozen b' = bk_frozen b" "bk_oracle_set b' = bk_oracle_set b" "bk_liq_queue b' = bk_liq_queue b"
    "bk_rev_to_stakers b' = bk_rev_to_stakers b"
  using assms by (simp_all add: rated_def)

lemma bk_set_credit_simps [simp]:
  "bk_credit (bk_set_credit b n) = n" "bk_current_position_id (bk_set_credit b n) = bk_current_position_id b"
  "a_info (bk_credit_asset (bk_set_credit b n)) = a_info (bk_credit_asset b)"
  "bk_pending_revenue (bk_set_credit b n) = bk_pending_revenue b"
  "bk_frozen (bk_set_credit b n) = bk_frozen b" "bk_oracle_set (bk_set_credit b n) = bk_oracle_set b"
  "bk_liq_queue (bk_set_credit b n) = bk_liq_queue b"
  "bk_rev_to_stakers (bk_set_credit b n) = bk_rev_to_stakers b"
  by (simp_all add: bk_set_credit_def)

lemma basket_accruedD:
  assumes "basket_accrued_by n b b'"
  shows "bk_current_position_id b' = bk_current_position_id b" "bk_credit b' = bk_credit b + n"
    "bk_pending_revenue b' = bk_pending_revenue b + n" "bk_frozen b' = bk_frozen b"
    "bk_oracle_set b' = bk_oracle_set b" "bk_liq_queue b' = bk_liq_queue b"
    "a_info (bk_credit_asset b') = a_info (bk_credit_asset b)"
    "bk_rev_to_stakers b' = bk_rev_to_stakers b"
  using assms by (auto simp: basket_accrued_by_def rated_def)

lemma accruedD:
  assumes "accrued_by n p p'"
  shows "po_position_id p' = po_position_id p" "po_credit_amount p' = po_credit_amount p + n"
  using assms by (simp_all add: accrued_by_def)

end
