(* ===== verification/CDP_Invariant.thy ===== *)
theory CDP_Invariant
  imports CDP_Books
begin

text \<open>
  Debt positions: every message keeps the books. Position ids stay distinct over all users and below the
  basket's counter, the volatility stays well formed, and no message but the two that settle a
  liquidation lets the positions' debts outgrow the basket's debt.
\<close>

section \<open>Redemption lists\<close>

text \<open>\<open>opted st st'\<close>: only the redemption lists changed.\<close>

definition opted :: "cdp_storage \<Rightarrow> cdp_storage \<Rightarrow> bool" where
  "opted st st' \<longleftrightarrow> st'\<lparr>CD_REDEMPTION_OPT_IN := Map.empty\<rparr> = st\<lparr>CD_REDEMPTION_OPT_IN := Map.empty\<rparr>"

lemma opted_simps [simp]:
  "opted st st" "opted st (save_premium p us s) = opted st s" "opted (save_premium p us s) st = opted s st"
  by (simp_all add: opted_def save_premium_def)

lemma opted_trans: "opted s t \<Longrightarrow> opted t u \<Longrightarrow> opted s u"
  by (simp add: opted_def)

lemma opted_fields:
  assumes "opted st st'"
  shows "CD_BASKET st' = CD_BASKET st" "CD_POSITIONS st' = CD_POSITIONS st" "CD_CONFIG st' = CD_CONFIG st"
    "CD_VOLATILITY st' = CD_VOLATILITY st"
proof -
  have "f (st'\<lparr>CD_REDEMPTION_OPT_IN := Map.empty\<rparr>) = f (st\<lparr>CD_REDEMPTION_OPT_IN := Map.empty\<rparr>)"
    for f :: "cdp_storage \<Rightarrow> 'a" using assms by (simp add: opted_def)
  from this[of CD_BASKET] this[of CD_POSITIONS] this[of CD_CONFIG] this[of CD_VOLATILITY]
  show "CD_BASKET st' = CD_BASKET st" "CD_POSITIONS st' = CD_POSITIONS st" "CD_CONFIG st' = CD_CONFIG st"
    "CD_VOLATILITY st' = CD_VOLATILITY st" by simp_all
qed

lemma opted_books:
  assumes "opted st st'"
  shows "books_ok c d st' = books_ok c d st" "cdp_ok e st' = cdp_ok e st"
  using opted_fields[OF assms]
  by (simp_all add: books_ok_def ids_ok_def pos_list_def total_debt_def vols_ok_def cdp_ok_def cong: option.case_cong)

lemma add_redemptions_opted: "add_redemptions st u ids p m r = Inr (st', ids') \<Longrightarrow> opted st st'"
  unfolding add_redemptions_def Let_def by (auto elim!: rbind_InrE split: option.splits)

lemma edit_premium_ids_opted:
  "edit_premium_ids u rd up m rs p i ids (us, ups, st, pids) = Inr (st', pids') \<Longrightarrow> opted st st'"
proof (induction ids arbitrary: us ups st pids)
  case (Cons k ids)
  from Cons.prems show ?case
    by (auto simp: Let_def elim!: rbind_InrE split: option.splits if_split_asm dest!: Cons.IH)
qed simp

lemma edit_premium_opted: "edit_premium u rd up m rs p (st, ids) = Inr (st', ids') \<Longrightarrow> opted st st'"
  unfolding edit_premium_def Let_def
  by (auto split: option.splits if_split_asm dest!: edit_premium_ids_opted)

lemma edit_premiums_opted:
  "rfold (edit_premium u rd up m rs) ps (st, ids) = Inr (st', ids') \<Longrightarrow> opted st st'"
proof (induction ps arbitrary: st ids)
  case (Cons p ps)
  then show ?case using edit_premium_opted opted_trans by (auto elim!: rbind_InrE) blast
qed simp

lemma edit_redemption_info_opted:
  "edit_redemption_info st info ids rd up m rs called = Inr (st', r) \<Longrightarrow> opted st st'"
  unfolding edit_redemption_info_def
  by (auto elim!: rbind_InrE split: option.splits if_split_asm
      dest!: edit_premiums_opted add_redemptions_opted intro: opted_trans)

lemma force_redemption_opted: "force_redemption b st info k = Inr st' \<Longrightarrow> opted st st'"
  unfolding force_redemption_def
  by (auto elim!: rbind_InrE split: if_split_asm dest!: edit_redemption_info_opted)

section \<open>Running values\<close>

text \<open>
  \<open>carried e st b\<close>: the books hold for a basket that a handler carries in a variable and saves at its
  end. An accrual raises the carried debt by the interest that it adds to the position.
\<close>

definition carried :: "nat \<Rightarrow> cdp_storage \<Rightarrow> Basket \<Rightarrow> bool" where
  "carried e st b \<longleftrightarrow> books_ok (bk_current_position_id b) (bk_credit b + e) st"

lemma carried_load: "cdp_ok e st \<Longrightarrow> CD_BASKET st = Some b \<Longrightarrow> carried e st b"
  by (simp add: carried_def cdp_okD)

lemma carried_save: "carried e st b \<Longrightarrow> cdp_ok e (st\<lparr>CD_BASKET := Some b\<rparr>)"
  by (simp add: carried_def cdp_ok_def)

lemma carried_priced: "carried e st b \<Longrightarrow> priced st st' \<Longrightarrow> rated b b' \<Longrightarrow> carried e st' b'"
  using books_priced[of st st'] ratedD[of b b'] by (simp add: carried_def)

lemma carried_tally:
  "carried e st b \<Longrightarrow> update_basket_tally st Q env b cs fs add config liq = Inr (st', b') \<Longrightarrow> carried e st' b'"
  using carried_priced tally_effect by blast

lemma carried_tally_if:
  "carried e st b \<Longrightarrow>
   (if g then update_basket_tally st Q env b cs fs add config liq else Inr (st, b)) = Inr (st', b') \<Longrightarrow>
   carried e st' b'"
  using carried_tally by (auto split: if_split_asm)

lemma accrue_carried:
  assumes "accrue st Q env config pos b user dep = Inr (st', pos', b', rs)" and "carried e st b"
  shows "\<exists>n. priced st st' \<and> po_position_id pos' = po_position_id pos \<and>
    po_credit_amount pos' = po_credit_amount pos + n \<and> bk_credit b' = bk_credit b + n \<and>
    bk_current_position_id b' = bk_current_position_id b \<and> carried e st' b' \<and>
    books_ok (bk_current_position_id b) (bk_credit b + e) st'"
proof -
  obtain n where n: "priced st st'" "accrued_by n pos pos'" "basket_accrued_by n b b'"
    using accrue_effect[OF assms(1)] by blast
  have "books_ok (bk_current_position_id b) (bk_credit b + e) st'"
    using books_priced n(1) assms(2) by (simp add: carried_def)
  then have "carried e st' b'" using basket_accruedD[OF n(3)] books_mono by (fastforce simp: carried_def)
  then show ?thesis using n accruedD basket_accruedD[OF n(3)] books_priced assms(2)
    by (auto simp: carried_def)
qed

section \<open>Accrual\<close>

lemma accrue_one_carried:
  assumes "accrue_one Q env config owner user k (st, b, x) = Inr (st', b', x')" and "carried e st b"
  shows "carried e st' b'"
proof -
  obtain i pos st1 pos1 rs where pos: "get_target_position st owner k = Inr (i, pos)"
    and acc: "accrue st Q env config pos b user False = Inr (st1, pos1, b', rs)"
    and upd: "update_position st1 owner pos1 = Inr st'"
    using assms(1) unfolding accrue_one_def Let_def by (auto elim!: rbind_InrE)
  obtain n where n: "priced st st1" "po_position_id pos1 = po_position_id pos"
    "po_credit_amount pos1 = po_credit_amount pos + n" "bk_credit b' = bk_credit b + n"
    "bk_current_position_id b' = bk_current_position_id b"
    "books_ok (bk_current_position_id b) (bk_credit b + e) st1"
    using accrue_carried[OF acc assms(2)] by blast
  note t = target_in_list[OF pos]
  have pl: "pos_list st1 owner = pos_list st owner" using pricedD(1)[OF n(1)] by (simp add: pos_list_def)
  have "books_ok (bk_current_position_id b) (bk_credit b + n + e) st'"
  proof (rule books_update_position[OF n(6) upd])
    fix q assume q: "q \<in> set (pos_list st1 owner)" "po_position_id q = po_position_id pos1"
    have "distinct (map po_position_id (pos_list st1 owner))"
      using n(6) by (simp add: books_ok_def ids_ok_def)
    moreover have "pos \<in> set (pos_list st1 owner)" using t pl by simp
    ultimately have "q = pos" using q n(2) by (metis distinct_map inj_onD)
    then show "bk_credit b + e + po_credit_amount pos1 \<le> bk_credit b + n + e + po_credit_amount q"
      using n(3) by simp
  qed simp
  then show ?thesis using n(4,5) by (simp add: carried_def)
qed

lemma accrue_all_carried:
  "rfold (accrue_one Q env config owner user) ks (st, b, x) = Inr (st', b', x') \<Longrightarrow> carried e st b \<Longrightarrow>
   carried e st' b'"
proof (induction ks arbitrary: st b x)
  case (Cons k ks)
  from Cons.prems(1) obtain st1 b1 x1 where 1: "accrue_one Q env config owner user k (st, b, x) = Inr (st1, b1, x1)"
    and 2: "rfold (accrue_one Q env config owner user) ks (st1, b1, x1) = Inr (st', b', x')"
    by (auto elim!: rbind_InrE)
  show ?case by (rule Cons.IH[OF 2 accrue_one_carried[OF 1 Cons.prems(2)]])
qed simp

lemma external_accrue_ok:
  assumes "external_accrue_call L st Q info env u ks = Inr (st', r)" and "cdp_ok e st"
  shows "cdp_ok e st'"
proof -
  obtain b config owner st1 b1 x1 where "CD_BASKET st = Some b"
    and "rfold (accrue_one Q env config owner (sender info)) ks (st, b, 0) = Inr (st1, b1, x1)"
    and "st' = st1\<lparr>CD_BASKET := Some b1\<rparr>"
    using assms(1) unfolding external_accrue_call_def by (auto elim!: rbind_InrE simp: cdp_load_ok)
  then show ?thesis using accrue_all_carried carried_load[OF assms(2)] carried_save by blast
qed

section \<open>Deposits\<close>

lemma add_deposit_same: "add_deposit x (p, xs) = Inr (p', xs') \<Longrightarrow>
  po_position_id p' = po_position_id p \<and> po_credit_amount p' = po_credit_amount p"
  unfolding add_deposit_def by (auto elim!: rbind_InrE split: option.splits)

lemma add_deposits_same: "rfold add_deposit cs (p, xs) = Inr (p', xs') \<Longrightarrow>
  po_position_id p' = po_position_id p \<and> po_credit_amount p' = po_credit_amount p"
proof (induction cs arbitrary: p xs)
  case (Cons c cs)
  from Cons.prems obtain p1 xs1 where 1: "add_deposit c (p, xs) = Inr (p1, xs1)"
    and 2: "rfold add_deposit cs (p1, xs1) = Inr (p', xs')"
    by (auto elim!: rbind_InrE)
  show ?case using Cons.IH[OF 2] add_deposit_same[OF 1] by simp
qed simp

lemma deposit_to_position_ok:
  assumes "deposit_to_position st Q env config u cs b ps i p = Inr (st', xs)" and "carried e st b"
    and ps: "CD_POSITIONS st u = Some ps" and i: "i < length ps" "p = ps ! i"
  shows "cdp_ok e st'"
proof -
  obtain p1 st1 p2 b1 rs st2 b2 where add: "rfold add_deposit cs (p, []) = Inr (p1, xs)"
    and acc: "accrue st Q env config p1 b u True = Inr (st1, p2, b1, rs)"
    and tal: "(if po_credit_amount p2 \<noteq> 0
        then update_basket_tally (st1\<lparr>CD_POSITIONS := (CD_POSITIONS st1)(u \<mapsto> ps[i := p1])\<rparr>) Q env b1 cs
               (po_collateral_assets p2) True config False
        else Inr (st1\<lparr>CD_POSITIONS := (CD_POSITIONS st1)(u \<mapsto> ps[i := p1])\<rparr>, b1)) = Inr (st2, b2)"
    and st': "st' = st2\<lparr>CD_BASKET := Some b2\<rparr>"
    using assms(1) unfolding deposit_to_position_def Let_def by (auto elim!: rbind_InrE)
  note same = add_deposits_same[OF add]
  obtain n where n: "priced st st1" "carried e st1 b1" using accrue_carried[OF acc assms(2)] by blast
  have pl: "pos_list st1 u = ps" using pricedD(1)[OF n(1)] ps by (simp add: pos_list_def)
  have "carried e (st1\<lparr>CD_POSITIONS := (CD_POSITIONS st1)(u \<mapsto> ps[i := p1])\<rparr>) b1"
    unfolding carried_def
    by (rule books_update[OF n(2)[unfolded carried_def] pl i(1)]) (use same i(2) in simp_all)
  then show ?thesis using carried_tally_if[OF _ tal] carried_save st' by blast
qed

lemma create_position_ok:
  assumes "create_position_in_deposit st Q env config u cs b = Inr (st', ui, p)" and "carried e st b"
  shows "\<exists>b' n. CD_BASKET st' = Some b' \<and> CD_POSITIONS st' = CD_POSITIONS st \<and>
    bk_current_position_id b' = Suc (bk_current_position_id b) \<and> po_position_id p = bk_current_position_id b \<and>
    po_credit_amount p = n \<and> bk_credit b' = bk_credit b + n \<and>
    books_ok (bk_current_position_id b) (bk_credit b + e) st'"
proof -
  let ?b = "b\<lparr>bk_current_position_id := bk_current_position_id b + 1\<rparr>"
  obtain st1 b1 rs where
    acc: "accrue st Q env config \<lparr>po_position_id = bk_current_position_id b, po_collateral_assets = cs,
        po_credit_amount = 0\<rparr> ?b u True = Inr (st1, p, b1, rs)"
    and st': "st' = st1\<lparr>CD_BASKET := Some b1\<rparr>"
    using assms(1) unfolding create_position_in_deposit_def create_position_def Let_def
    by (auto elim!: rbind_InrE simp: int_ok)
  obtain n where n: "priced st st1" "po_position_id p = bk_current_position_id b"
    "po_credit_amount p = n" "bk_credit b1 = bk_credit b + n"
    "bk_current_position_id b1 = Suc (bk_current_position_id b)"
    using accrue_effect[OF acc] accruedD basket_accruedD by fastforce
  have "books_ok (bk_current_position_id b) (bk_credit b + e) st1"
    using books_priced[OF n(1)] assms(2) by (simp add: carried_def)
  then show ?thesis using n st' pricedD(1)[OF n(1)] by simp
qed

lemma deposit_to_new_ok:
  assumes "deposit_to_new s st Q env info config u cs b = Inr (st', xs, ui)" and "carried e st b"
  shows "cdp_ok e st'"
proof -
  obtain st1 p where cr: "create_position_in_deposit st Q env config u cs b = Inr (st1, ui, p)"
    and fr: "force_redemption s (st1\<lparr>CD_POSITIONS := (CD_POSITIONS st1)(u \<mapsto> pos_list st1 u @ [p])\<rparr>) info
        (ui_position_id ui) = Inr st'"
    using assms(1) unfolding deposit_to_new_def Let_def by (auto elim!: rbind_InrE simp: pos_list_def)
  obtain b' n where b': "CD_BASKET st1 = Some b'" "bk_current_position_id b' = Suc (bk_current_position_id b)"
    "po_position_id p = bk_current_position_id b" "po_credit_amount p = n" "bk_credit b' = bk_credit b + n"
    "books_ok (bk_current_position_id b) (bk_credit b + e) st1"
    using create_position_ok[OF cr assms(2)] by blast
  have "books_ok (Suc (bk_current_position_id b)) (bk_credit b' + e)
      (st1\<lparr>CD_POSITIONS := (CD_POSITIONS st1)(u \<mapsto> pos_list st1 u @ [p])\<rparr>)"
    by (rule books_append[OF b'(6)]) (use b' in simp_all)
  then have "cdp_ok e (st1\<lparr>CD_POSITIONS := (CD_POSITIONS st1)(u \<mapsto> pos_list st1 u @ [p])\<rparr>)"
    using b' by (simp add: cdp_ok_def)
  then show ?thesis using opted_books(2)[OF force_redemption_opted[OF fr]] by simp
qed

lemma deposit_ok:
  assumes "cdp_deposit L st Q env info u k cs = Inr (st', r)" and "cdp_ok e st"
  shows "cdp_ok e st'"
proof -
  from assms(1) obtain config owner b where b: "CD_BASKET st = Some b"
    and "(\<exists>ps i p st1 xs. CD_POSITIONS st owner = Some ps \<and> i < length ps \<and> p = ps ! i \<and> opted st st1 \<and>
           deposit_to_position st1 Q env config owner cs b ps i p = Inr (st', xs)) \<or>
         (\<exists>s xs ui. deposit_to_new s st Q env info config owner cs b = Inr (st', xs, ui))"
    unfolding cdp_deposit_def Let_def
    by (auto elim!: rbind_InrE simp: cdp_load_ok find_index_of_Some split: option.splits if_split_asm
        dest!: force_redemption_opted) blast+
  then show ?thesis
  proof (elim disjE exE conjE)
    fix ps i p st1 xs
    assume a: "CD_POSITIONS st owner = Some ps" "i < length ps" "p = ps ! i" "opted st st1"
      "deposit_to_position st1 Q env config owner cs b ps i p = Inr (st', xs)"
    show "cdp_ok e st'"
    proof (rule deposit_to_position_ok[OF a(5) _ _ a(2,3)])
      show "carried e st1 b" using carried_load[OF assms(2) b] opted_books(1)[OF a(4)] by (simp add: carried_def)
      show "CD_POSITIONS st1 owner = Some ps" using opted_fields(2)[OF a(4)] a(1) by simp
    qed
  qed (use deposit_to_new_ok carried_load[OF assms(2) b] in blast)
qed

section \<open>Withdrawals\<close>

text \<open>
  Inside the loop of a withdrawal the stored position still has the debt of before the accrual, or it is
  the running one, or it was removed and nothing of the running one is left.
\<close>

definition withdrawing :: "nat \<Rightarrow> nat \<Rightarrow> addr \<Rightarrow> nat \<Rightarrow> nat \<Rightarrow> withdraw_state \<Rightarrow> bool" where
  "withdrawing c d u k i s \<longleftrightarrow>
     po_position_id (ws_position s) = k \<and>
     (i < length (pos_list (ws_storage s) u) \<and> po_position_id (pos_list (ws_storage s) u ! i) = k \<and>
      (\<exists>d0 \<le> d. books_ok c d0 (ws_storage s) \<and>
         d0 + po_credit_amount (ws_position s) \<le> d + po_credit_amount (pos_list (ws_storage s) u ! i)) \<or>
      check_for_empty_position (po_collateral_assets (ws_position s)) \<and> books_ok c d (ws_storage s))"

lemma take_collateral_same [simp]:
  "po_position_id (take_collateral p i a n) = po_position_id p"
  "po_credit_amount (take_collateral p i a n) = po_credit_amount p"
  by (simp_all add: take_collateral_def Let_def)

lemma empty_position_iff: "check_for_empty_position cs \<longleftrightarrow> (\<forall>c\<in>set cs. ca_amount c = 0)"
  by (auto simp: check_for_empty_position_def list_ex_iff)

lemma empty_take_collateral:
  assumes "check_for_empty_position (po_collateral_assets p)" and "i < length (po_collateral_assets p)"
    and "a = po_collateral_assets p ! i"
  shows "check_for_empty_position (po_collateral_assets (take_collateral p i a n))"
proof -
  have "ca_amount a = 0" using assms by (simp add: empty_position_iff)
  then show ?thesis using assms(1)
    by (auto simp: empty_position_iff take_collateral_def Let_def dest: in_set_takeD in_set_dropD)
qed

lemma save_withdrawn_cases:
  assumes "save_withdrawn st u i p = Inr st'"
  obtains "\<not> check_for_empty_position (po_collateral_assets p)" "i < length (pos_list st u)"
      "st' = st\<lparr>CD_POSITIONS := (CD_POSITIONS st)(u \<mapsto> (pos_list st u)[i := p])\<rparr>"
    | x where "check_for_empty_position (po_collateral_assets p)" "i < length (pos_list st u)"
      "(case x of None \<Rightarrow> [] | Some l \<Rightarrow> l) = take i (pos_list st u) @ drop (Suc i) (pos_list st u)"
      "st' = st\<lparr>CD_POSITIONS := (CD_POSITIONS st)(u := x)\<rparr>"
proof (cases "check_for_empty_position (po_collateral_assets p)")
  case True
  let ?l = "take i (pos_list st u) @ drop (Suc i) (pos_list st u)"
  have "i < length (pos_list st u)"
    "st' = st\<lparr>CD_POSITIONS := (CD_POSITIONS st)(u := if ?l = [] then None else Some ?l)\<rparr>"
    using assms True unfolding save_withdrawn_def Let_def
    by (auto elim!: rbind_InrE simp: index_ok pos_list_def)
  then show ?thesis using that(2)[OF True, of "if ?l = [] then None else Some ?l"] by (simp split: if_split)
next
  case False
  have "(pos_list st u)[i := p] \<noteq> []" if "i < length (pos_list st u)" using that by auto
  then have "i < length (pos_list st u)" "st' = st\<lparr>CD_POSITIONS := (CD_POSITIONS st)(u \<mapsto> (pos_list st u)[i := p])\<rparr>"
    using assms False unfolding save_withdrawn_def Let_def
    by (auto elim!: rbind_InrE simp: index_ok pos_list_def)
  then show ?thesis using that(1)[OF False] by blast
qed

lemma save_withdrawn_books:
  assumes sv: "save_withdrawn (ws_storage s) u i p = Inr st'" and w: "withdrawing c d u k i s"
    and p: "po_position_id p = k" "po_credit_amount p = po_credit_amount (ws_position s)"
    and e: "check_for_empty_position (po_collateral_assets (ws_position s)) \<Longrightarrow>
      check_for_empty_position (po_collateral_assets p)"
    and s': "ws_storage s' = st'" "ws_position s' = p"
  shows "withdrawing c d u k i s'"
  using sv
proof (cases rule: save_withdrawn_cases)
  case 1
  then obtain d0 where d0: "d0 \<le> d" "books_ok c d0 (ws_storage s)"
      "po_position_id (pos_list (ws_storage s) u ! i) = k"
      "d0 + po_credit_amount (ws_position s) \<le> d + po_credit_amount (pos_list (ws_storage s) u ! i)"
    using w e unfolding withdrawing_def by blast
  have "books_ok c d st'" unfolding 1(3)
    by (rule books_update[OF d0(2) refl 1(2)]) (use d0 p in simp_all)
  moreover have "pos_list st' u = (pos_list (ws_storage s) u)[i := p]" using 1(3) by (simp add: pos_list_def)
  ultimately show ?thesis unfolding withdrawing_def s' using 1(2) p by (auto intro!: exI[of _ d])
next
  case (2 x)
  have "books_ok c d st'"
  proof -
    consider d0 where "d0 \<le> d" "books_ok c d0 (ws_storage s)"
        "d0 \<le> d + po_credit_amount (pos_list (ws_storage s) u ! i)"
      | "books_ok c d (ws_storage s)"
      using w unfolding withdrawing_def by force
    then show ?thesis
    proof cases
      case (1 d0)
      show ?thesis unfolding 2(4) by (rule books_remove[OF 1(2) refl 2(2,3) 1(3)])
    next
      case gone: 2
      show ?thesis unfolding 2(4) by (rule books_remove[OF gone refl 2(2,3)]) simp
    qed
  qed
  then show ?thesis unfolding withdrawing_def s' using 2(1) p by simp
qed

lemma withdraw_cAsset_keeps:
  assumes "withdraw_cAsset Q env config b u i w s = Inr s'" and "withdrawing c d u k i s"
  shows "withdrawing c d u k i s'"
proof (cases "s' = s")
  case False
  let ?P = "\<lambda>cAsset. asset_info_equal (ca_info cAsset) (ca_info w)"
  obtain ci a st' where f: "find_index_of ?P (po_collateral_assets (ws_position s)) = Some (ci, a)"
    and sv: "save_withdrawn (ws_storage s) u i (take_collateral (ws_position s) ci a (ca_amount w)) = Inr st'"
    and s': "ws_storage s' = st'" "ws_position s' = take_collateral (ws_position s) ci a (ca_amount w)"
    using assms(1) False unfolding withdraw_cAsset_def Let_def
    by (auto elim!: rbind_InrE split: option.splits if_split_asm)
  have "withdrawing c d u k i s'" if "po_position_id (ws_position s) = k"
    by (rule save_withdrawn_books[OF sv assms(2) _ _ _ s'])
      (use that f in \<open>auto simp: find_index_of_Some intro!: empty_take_collateral\<close>)
  then show ?thesis using assms(2) by (simp add: withdrawing_def)
qed (use assms in simp)

lemma withdraws_keep:
  "rfold (withdraw_cAsset Q env config b u i) ws s = Inr s' \<Longrightarrow> withdrawing c d u k i s \<Longrightarrow>
   withdrawing c d u k i s'"
proof (induction ws arbitrary: s)
  case (Cons w ws)
  from Cons.prems(1) obtain s1 where 1: "withdraw_cAsset Q env config b u i w s = Inr s1"
    and 2: "rfold (withdraw_cAsset Q env config b u i) ws s1 = Inr s'" by (auto elim!: rbind_InrE)
  show ?case by (rule Cons.IH[OF 2 withdraw_cAsset_keeps[OF 1 Cons.prems(2)]])
qed simp

lemma cdp_withdraw_ok:
  assumes "cdp_withdraw L st Q env info k cs to = Inr (st', r)" and "cdp_ok e st"
  shows "cdp_ok e st'"
proof -
  obtain config b u i p st1 p1 b1 rs s st2 b2 wp where b: "CD_BASKET st = Some b"
    and pos: "get_target_position st u k = Inr (i, p)"
    and acc: "accrue st Q env config p b u False = Inr (st1, p1, b1, rs)"
    and loop: "rfold (withdraw_cAsset Q env config b1 u i) cs
       \<lparr>ws_storage = st1, ws_position = p1, ws_tally = [], ws_prop_assets = [], ws_amounts = [],
        ws_coins = []\<rparr> = Inr s"
    and tal: "(if po_credit_amount (ws_position s) \<noteq> 0
        then update_basket_tally (ws_storage s) Q env b1 (ws_tally s)
               (po_collateral_assets (ws_position s)) False config False
        else Inr (ws_storage s, b1)) = Inr (st2, b2)"
    and st': "st' = st2\<lparr>CD_BASKET := Some b2, CD_WITHDRAW := wp\<rparr>"
    using assms(1) unfolding cdp_withdraw_def Let_def
    by (clarsimp elim!: rbind_InrE simp: cdp_load_ok split: if_split_asm split del: if_split)
  obtain n where n: "priced st st1" "po_position_id p1 = po_position_id p"
    "po_credit_amount p1 = po_credit_amount p + n" "bk_credit b1 = bk_credit b + n"
    "bk_current_position_id b1 = bk_current_position_id b"
    "books_ok (bk_current_position_id b) (bk_credit b + e) st1"
    using accrue_carried[OF acc carried_load[OF assms(2) b]] by blast
  note t = target_in_list[OF pos]
  have pl: "pos_list st1 u = pos_list st u" using pricedD(1)[OF n(1)] by (simp add: pos_list_def)
  have "withdrawing (bk_current_position_id b) (bk_credit b1 + e) u k i s"
    by (rule withdraws_keep[OF loop])
      (use n t pl in \<open>auto simp: withdrawing_def intro!: exI[of _ "bk_credit b + e"]\<close>)
  then have "carried e (ws_storage s) b1"
    using n(5) books_mono by (fastforce simp: withdrawing_def carried_def)
  then have "cdp_ok e (st2\<lparr>CD_BASKET := Some b2\<rparr>)" using carried_tally_if[OF _ tal] carried_save by blast
  then show ?thesis using st' by (simp add: cdp_ok_def)
qed

section \<open>Repayments and borrowing\<close>

lemma save_repaid_cases:
  assumes "save_repaid st u i p = Inr (st', removed)"
  obtains "\<not> removed" "i < length (pos_list st u)"
      "st' = st\<lparr>CD_POSITIONS := (CD_POSITIONS st)(u \<mapsto> (pos_list st u)[i := p])\<rparr>"
    | "removed" "i < length (pos_list st u)"
      "st' = st\<lparr>CD_POSITIONS := (CD_POSITIONS st)(u \<mapsto> take i (pos_list st u) @ drop (Suc i) (pos_list st u))\<rparr>"
  using assms unfolding save_repaid_def Let_def
  by (auto elim!: rbind_InrE simp: index_ok pos_list_def split: if_split_asm)

lemma burn_rev_same:
  "credit_burn_rev_msg config env a b = Inr (msgs, b') \<Longrightarrow> \<exists>n. b' = b\<lparr>bk_pending_revenue := n\<rparr>"
  unfolding credit_burn_rev_msg_def Let_def
  by (auto elim!: rbind_InrE split: prod.splits AssetInfo.splits option.splits)

lemma cdp_repay_ok:
  assumes "cdp_repay L st Q env info k u a x = Inr (st', r)" and "cdp_ok e st"
  shows "cdp_ok e st'"
proof -
  obtain config b u i p st1 p1 b1 st2 b2 st3 removed b3 msgs rp where b: "CD_BASKET st = Some b"
    and pos: "get_target_position st u k = Inr (i, p)"
    and acc: "(if sender info \<noteq> addr_or_empty (cc_stability_pool config) then
              rbind (accrue st Q env config p b u False) (\<lambda>(st, p, b, _). Inr (st, p, b))
            else Inr (st, p, b)) = Inr (st1, p1, b1)"
    and rp: "rp = a_amount a - (a_amount a - po_credit_amount p1)"
    and tal: "(if po_credit_amount (p1\<lparr>po_credit_amount := po_credit_amount p1 - a_amount a\<rparr>) = 0
        then update_basket_tally st1 Q env b1
           (po_collateral_assets (p1\<lparr>po_credit_amount := po_credit_amount p1 - a_amount a\<rparr>))
           (po_collateral_assets (p1\<lparr>po_credit_amount := po_credit_amount p1 - a_amount a\<rparr>)) False config False
        else Inr (st1, b1)) = Inr (st2, b2)"
    and sv: "save_repaid st2 u i (p1\<lparr>po_credit_amount := po_credit_amount p1 - a_amount a\<rparr>) = Inr (st3, removed)"
    and burn: "credit_burn_rev_msg config env (a\<lparr>a_amount := rp\<rparr>) b2 = Inr (msgs, b3)"
    and st': "st' = st3\<lparr>CD_BASKET := Some (bk_set_credit b3 (bk_credit b3 - rp))\<rparr>"
    using assms(1) unfolding cdp_repay_def Let_def
    by (clarsimp elim!: rbind_InrE simp: cdp_load_ok split: if_split_asm split del: if_split)
  have c0: "carried e st b" using carried_load[OF assms(2) b] .
  obtain n where n: "priced st st1" "po_position_id p1 = po_position_id p"
    "po_credit_amount p1 = po_credit_amount p + n" "bk_credit b1 = bk_credit b + n"
    "bk_current_position_id b1 = bk_current_position_id b"
    "books_ok (bk_current_position_id b) (bk_credit b + e) st1"
  proof (cases "sender info \<noteq> addr_or_empty (cc_stability_pool config)")
    case True
    then obtain rs where "accrue st Q env config p b u False = Inr (st1, p1, b1, rs)"
      using acc by (auto elim!: rbind_InrE)
    with accrue_carried[OF _ c0] that show ?thesis by blast
  next
    case False
    then show ?thesis using acc c0 that[of 0] by (simp add: carried_def)
  qed
  note t = target_in_list[OF pos]
  have r12: "priced st1 st2 \<and> rated b1 b2" using tal tally_effect by (auto split: if_split_asm)
  then have bk: "books_ok (bk_current_position_id b) (bk_credit b + e) st2" using books_priced n(6) by blast
  have pl: "pos_list st2 u = pos_list st u"
    using pricedD(1)[OF n(1)] pricedD(1)[of st1 st2] r12 by (simp add: pos_list_def)
  have cr: "bk_credit b2 = bk_credit b + n" "bk_current_position_id b2 = bk_current_position_id b"
    using ratedD[of b1 b2] r12 n by simp_all
  have rp_le: "rp \<le> po_credit_amount p1" "po_credit_amount p1 - a_amount a = po_credit_amount p1 - rp"
    using rp by linarith+
  have "books_ok (bk_current_position_id b) (bk_credit b2 - rp + e) st3"
    using sv
  proof (cases rule: save_repaid_cases)
    case 1
    show ?thesis unfolding 1(3) by (rule books_update[OF bk refl 1(2)]) (use t pl n cr rp_le in simp_all)
  next
    case 2
    show ?thesis unfolding 2(3) by (rule books_remove[OF bk refl 2(2)]) (use t pl n cr rp_le in simp_all)
  qed
  then show ?thesis using st' burn_rev_same[OF burn] cr by (auto simp: cdp_ok_def)
qed

lemma increase_debt_ok:
  assumes "increase_debt L st Q env info k am ltv to = Inr (st', r)" and "cdp_ok e st"
  shows "cdp_ok e st'"
proof -
  obtain config b i p st1 p1 b1 rs st2 b2 n m st3 msg s where b: "CD_BASKET st = Some b"
    and pos: "get_target_position st (sender info) k = Inr (i, p)"
    and acc: "accrue st Q env config p b (sender info) False = Inr (st1, p1, b1, rs)"
    and tal: "(if po_credit_amount p1 = 0 then update_basket_tally st1 Q env b1 (po_collateral_assets p1)
                (po_collateral_assets p1) True config False
            else Inr (st1, b1)) = Inr (st2, b2)"
    and m: "m = po_credit_amount p1 + n"
    and mint: "mint_debt L st2 Q env info config b2 i (p1\<lparr>po_credit_amount := m\<rparr>) n to = Inr (st3, msg)"
    and fr: "force_redemption s st3 info k = Inr st'"
    using assms(1) unfolding increase_debt_def Let_def
    by (clarsimp elim!: rbind_InrE simp: cdp_load_ok int_ok split: if_split_asm split del: if_split)
  obtain x where x: "priced st st1" "po_position_id p1 = po_position_id p"
    "po_credit_amount p1 = po_credit_amount p + x" "bk_credit b1 = bk_credit b + x"
    "bk_current_position_id b1 = bk_current_position_id b"
    "books_ok (bk_current_position_id b) (bk_credit b + e) st1"
    using accrue_carried[OF acc carried_load[OF assms(2) b]] by blast
  note t = target_in_list[OF pos]
  have r12: "priced st1 st2 \<and> rated b1 b2" using tal tally_effect by (auto split: if_split_asm)
  then have bk: "books_ok (bk_current_position_id b) (bk_credit b + e) st2" using books_priced x(6) by blast
  have pl: "pos_list st2 (sender info) = pos_list st (sender info)"
    using pricedD(1)[OF x(1)] pricedD(1)[of st1 st2] r12 by (simp add: pos_list_def)
  have cr: "bk_credit b2 = bk_credit b + x" "bk_current_position_id b2 = bk_current_position_id b"
    using ratedD[of b1 b2] r12 x by simp_all
  have st3: "i < length (pos_list st2 (sender info))"
    "st3 = st2\<lparr>CD_POSITIONS := (CD_POSITIONS st2)(sender info \<mapsto>
        (pos_list st2 (sender info))[i := p1\<lparr>po_credit_amount := m\<rparr>]),
      CD_BASKET := Some (bk_set_credit b2 (bk_credit b2 + n))\<rparr>"
    using mint unfolding mint_debt_def Let_def
    by (auto elim!: rbind_InrE simp: int_ok index_ok pos_list_def split: if_split_asm)
  have "books_ok (bk_current_position_id b) (bk_credit b2 + n + e)
      (st2\<lparr>CD_POSITIONS := (CD_POSITIONS st2)(sender info \<mapsto>
        (pos_list st2 (sender info))[i := p1\<lparr>po_credit_amount := m\<rparr>])\<rparr>)"
    by (rule books_update[OF bk refl st3(1)]) (use t pl x cr m in simp_all)
  then have "cdp_ok e st3" using st3(2) cr by (simp add: cdp_ok_def)
  then show ?thesis using opted_books(2)[OF force_redemption_opted[OF fr]] by simp
qed

section \<open>Redemptions\<close>

lemma claims_item_same: "claims_item k a n p s = Inr (s', p') \<Longrightarrow>
  po_position_id p = po_position_id p' \<and> po_credit_amount p = po_credit_amount p'"
  unfolding claims_item_def by (auto elim!: rbind_InrE split: if_split_asm)

lemma map_eq_of_all2: "list_all2 (\<lambda>x y. f x = f y) xs ys \<Longrightarrow> map f xs = map f ys"
  by (induction rule: list_all2_induct) auto

lemma books_same:
  assumes "books_ok c d st" and ps: "map po_position_id ps' = map po_position_id (pos_list st u)"
    "map po_credit_amount ps' = map po_credit_amount (pos_list st u)"
  shows "books_ok c d (st\<lparr>CD_POSITIONS := (CD_POSITIONS st)(u \<mapsto> ps')\<rparr>)"
proof (rule books_replace[where ps' = ps', OF assms(1)])
  show "distinct (map po_position_id ps')" using assms by (simp add: books_ok_def ids_ok_def)
  show "po_position_id p \<in> po_position_id ` set (pos_list st u) \<or> c \<le> po_position_id p \<and> po_position_id p < c"
    if "p \<in> set ps'" for p using ps(1) that by (metis image_eqI image_set)
  show "d + debt_of ps' \<le> d + debt_of (pos_list st u)" using ps(2) by (simp add: debt_of_def)
qed (simp_all add: pos_list_def)

lemma claims_ok:
  assumes "update_position_claims st Q env config k u a n = Inr st'" and "cdp_ok e st"
  shows "cdp_ok e st'"
proof -
  obtain ps ps' t m where ps: "CD_POSITIONS st u = Some ps"
    and cl: "rmap_state (claims_item k a n) ps (None, 0) = Inr ((t, m), ps')"
    and step: "(let st = st\<lparr>CD_POSITIONS := (CD_POSITIONS st)(u \<mapsto> ps')\<rparr> in
     if m = 0 then Inr st
     else
       rbind (basket_load st) (\<lambda>basket.
       rbind (unwrap t) (\<lambda>target_position.
       rbind (map_err CdpGeneric (update_basket_tally st Q env basket
                [blank_cAsset \<lparr>a_info = a, a_amount = n\<rparr>]
                (po_collateral_assets target_position) False config False)) (\<lambda>(st, basket).
       Inr (st\<lparr>CD_BASKET := Some basket\<rparr>))))) = Inr st'"
    using assms(1) unfolding update_position_claims_def
    by (clarsimp elim!: rbind_InrE split: option.splits split del: if_split)
  have rest: "st' = st\<lparr>CD_POSITIONS := (CD_POSITIONS st)(u \<mapsto> ps')\<rparr> \<or>
      (\<exists>b cs fs st2 b2. CD_BASKET st = Some b \<and>
        update_basket_tally (st\<lparr>CD_POSITIONS := (CD_POSITIONS st)(u \<mapsto> ps')\<rparr>) Q env b cs fs False config False = Inr (st2, b2) \<and>
        st' = st2\<lparr>CD_BASKET := Some b2\<rparr>)"
  proof (cases "m = 0")
    case False
    then show ?thesis using step
      by (clarsimp elim!: rbind_InrE simp: cdp_load_ok map_err_eq_Inr Let_def) blast
  qed (use step in \<open>simp add: Let_def\<close>)
  have "list_all2 (\<lambda>p p'. po_position_id p = po_position_id p' \<and> po_credit_amount p = po_credit_amount p') ps ps'"
    by (rule rmap_state_list_all2[OF cl]) (rule claims_item_same)
  then have same: "map po_position_id ps = map po_position_id ps'" "map po_credit_amount ps = map po_credit_amount ps'"
    by (auto intro!: map_eq_of_all2 elim: list_all2_mono)
  have bk: "books_ok c d (st\<lparr>CD_POSITIONS := (CD_POSITIONS st)(u \<mapsto> ps')\<rparr>)" if "books_ok c d st" for c d
    by (rule books_same[OF that]) (use same ps in \<open>simp_all add: pos_list_def\<close>)
  from rest show ?thesis
  proof (elim disjE exE conjE)
    assume "st' = st\<lparr>CD_POSITIONS := (CD_POSITIONS st)(u \<mapsto> ps')\<rparr>"
    then show ?thesis using assms(2) bk by (auto simp: cdp_ok_def split: option.splits)
  next
    fix b cs fs st2 b2
    assume b: "CD_BASKET st = Some b" and
      tal: "update_basket_tally (st\<lparr>CD_POSITIONS := (CD_POSITIONS st)(u \<mapsto> ps')\<rparr>) Q env b cs fs False config False = Inr (st2, b2)"
      and st': "st' = st2\<lparr>CD_BASKET := Some b2\<rparr>"
    have "carried e (st\<lparr>CD_POSITIONS := (CD_POSITIONS st)(u \<mapsto> ps')\<rparr>) b"
      using bk carried_load[OF assms(2) b] by (simp add: carried_def)
    then show ?thesis using carried_tally[OF _ tal] carried_save st' by blast
  qed
qed

lemma send_collateral_ok:
  "send_collateral Q env config rs ps v k u x (st, sends) = Inr (st', sends') \<Longrightarrow> cdp_ok e st \<Longrightarrow> cdp_ok e st'"
  by (cases x) (auto simp: send_collateral_def elim!: rbind_InrE dest: claims_ok)

lemma send_collaterals_ok:
  "rfold (send_collateral Q env config rs ps v k u) xs (st, sends) = Inr (st', sends') \<Longrightarrow> cdp_ok e st \<Longrightarrow>
   cdp_ok e st'"
proof (induction xs arbitrary: st sends)
  case (Cons x xs)
  from Cons.prems(1) obtain st1 s1 where 1: "send_collateral Q env config rs ps v k u x (st, sends) = Inr (st1, s1)"
    and 2: "rfold (send_collateral Q env config rs ps v k u) xs (st1, s1) = Inr (st', sends')"
    by (auto elim!: rbind_InrE)
  show ?case by (rule Cons.IH[OF 2 send_collateral_ok[OF 1 Cons.prems(2)]])
qed simp

lemma cdp_ok_other_fields [simp]:
  "cdp_ok e (st\<lparr>CD_LIQUIDATION := l\<rparr>) = cdp_ok e st" "cdp_ok e (st\<lparr>CD_CONFIG := f\<rparr>) = cdp_ok e st"
  "cdp_ok e (st\<lparr>CD_OWNERSHIP_TRANSFER := a\<rparr>) = cdp_ok e st" "cdp_ok e (st\<lparr>CD_FREEZE_TIMER := t\<rparr>) = cdp_ok e st"
  "cdp_ok e (save_premium p us st) = cdp_ok e st" "cdp_ok e (st\<lparr>CD_CONTRACT := v\<rparr>) = cdp_ok e st"
  by (simp_all add: cdp_ok_def save_premium_def cong: option.case_cong)

text \<open>A stored position is replaced by one of the same id with no more debt.\<close>

lemma lower_debt_ok:
  assumes "update_position st u p = Inr st'" and "cdp_ok e st"
    and "get_target_position st u (po_position_id p) = Inr (i, q)"
    and "po_credit_amount p \<le> po_credit_amount q"
  shows "cdp_ok e st'"
proof -
  note t = target_in_list[OF assms(3)]
  have "books_ok c d st'" if ok: "books_ok c d st" for c d
  proof (rule books_update_position[OF ok assms(1)])
    fix r assume r: "r \<in> set (pos_list st u)" "po_position_id r = po_position_id p"
    have "distinct (map po_position_id (pos_list st u))" using ok by (simp add: books_ok_def ids_ok_def)
    then have "r = q" using r t by (metis distinct_map inj_onD nth_mem)
    then show "d + po_credit_amount p \<le> d + po_credit_amount r" using assms(4) by simp
  qed simp
  moreover have "CD_BASKET st' = CD_BASKET st" using assms(1) by (auto simp: update_position_ok)
  ultimately show ?thesis using assms(2) by (auto simp: cdp_ok_def split: option.splits)
qed

lemma redeem_from_position_ok:
  assumes "redeem_from_position Q env config b pr disc ui pj ri cs pc s = Inr s'" and "cdp_ok e (rs_storage s)"
  shows "cdp_ok e (rs_storage s')"
proof -
  obtain st1 rs ps us st2 sends p i n m v xs ss where 1: "get_cAsset_ratios (rs_storage s) env Q cs config (Some b) = Inr (st1, rs, ps)"
    and 2: "rfold (send_collateral Q env config rs ps v (red_position_id ri) (ri_position_owner (rs_user s))) xs
      (save_premium pr us st1, ss) = Inr (st2, sends)"
    and 3: "get_target_position st2 (ri_position_owner (rs_user s)) (red_position_id ri) = Inr (i, p)"
    and 4: "(u128_sub (po_credit_amount p) m :: nat cdp_result) = Inr n"
    and 5: "update_position st2 (ri_position_owner (rs_user s)) (p\<lparr>po_credit_amount := n\<rparr>) = Inr (rs_storage s')"
    using assms(1) unfolding redeem_from_position_def Let_def
    by (clarsimp elim!: rbind_InrE split del: if_split)
  have "cdp_ok e st1" using cdp_ok_priced ratios_priced[OF 1] assms(2) by blast
  then have "cdp_ok e st2" using send_collaterals_ok[OF 2] by simp
  then show ?thesis by (rule lower_debt_ok[OF 5]) (use 3 4 target_in_list[OF 3] in \<open>auto simp: int_ok\<close>)
qed

lemma redeem_position_ok:
  assumes "redeem_position Q env config b pr disc ui x s = Inr s'" and "cdp_ok e (rs_storage s)"
  shows "cdp_ok e (rs_storage s')"
  using assms unfolding redeem_position_def Let_def
  by (cases x) (auto elim!: rbind_InrE split: if_split_asm dest: redeem_from_position_ok)

lemma redeem_loop:
  assumes "rfold f xs s = Inr s'" and "cdp_ok e (rs_storage s)"
    and "\<And>x s s'. f x s = Inr s' \<Longrightarrow> cdp_ok e (rs_storage s) \<Longrightarrow> cdp_ok e (rs_storage s')"
  shows "cdp_ok e (rs_storage s')"
  by (rule rfold_invariant[where I = "\<lambda>s. cdp_ok e (rs_storage s)", OF assms(3,2,1)])

lemma redeem_user_ok:
  assumes "redeem_user Q env config b pr disc x s = Inr s'" and "cdp_ok e (rs_storage s)"
  shows "cdp_ok e (rs_storage s')"
proof -
  obtain i u where x: "x = (i, u)" by (cases x)
  have r: "rfold (redeem_position Q env config b pr disc i) (enumerate 0 (ri_position_infos u))
      (s\<lparr>rs_user := u\<rparr>) = Inr s'" using assms(1) x by (simp add: redeem_user_def)
  show ?thesis
    by (rule redeem_loop[OF r]) (use assms(2) in simp, rule redeem_position_ok)
qed

lemma redeem_premium_ok:
  assumes "redeem_premium Q env config b pr s = Inr s'" and "cdp_ok e (rs_storage s)"
  shows "cdp_ok e (rs_storage s')"
proof -
  define us where "us = (case CD_REDEMPTION_OPT_IN (rs_storage s) pr of None \<Rightarrow> [] | Some us \<Rightarrow> us)"
  obtain disc where r: "(if rs_credit_amount s \<noteq> 0
      then rfold (redeem_user Q env config b pr disc) (enumerate 0 us) (s\<lparr>rs_users := us\<rparr>) else Inr s) = Inr s'"
    using assms(1) unfolding redeem_premium_def Let_def us_def by (rule rbind_InrE)
  show ?thesis
  proof (cases "rs_credit_amount s \<noteq> 0")
    case True
    have "rfold (redeem_user Q env config b pr disc) (enumerate 0 us) (s\<lparr>rs_users := us\<rparr>) = Inr s'"
      using r unfolding if_P[OF True] .
    then show ?thesis by (rule redeem_loop) (use assms(2) in simp, rule redeem_user_ok)
  next
    case False
    have "s' = s" using r unfolding if_not_P[OF False] by (rule sum.inject(2)[THEN iffD1, symmetric])
    then show ?thesis using assms(2) by simp
  qed
qed

lemma redeem_ok:
  assumes "redeem_for_collateral st Q env info n = Inr (st', r)" and "cdp_ok e st"
  shows "cdp_ok e st'"
proof -
  obtain config b x s where
    l: "rfold (redeem_premium Q env config b) [0..<Suc n]
      \<lparr>rs_storage = st, rs_users = [], rs_user = \<lparr>ri_position_owner = [], ri_position_infos = []\<rparr>,
       rs_credit_amount = x, rs_redeemable_credit = 0, rs_collateral_sends = []\<rparr> = Inr s"
    and st': "st' = rs_storage s"
    using assms(1) unfolding redeem_for_collateral_def Let_def
    by (clarsimp elim!: rbind_InrE simp del: upt_Suc split: if_split_asm split del: if_split)
  show ?thesis unfolding st'
    by (rule redeem_loop[OF l]) (use assms(2) in simp, rule redeem_premium_ok)
qed

section \<open>Liquidations and bad debt\<close>

lemma update_basket_field: "update_position (st\<lparr>CD_BASKET := b\<rparr>) u p = Inr st' \<Longrightarrow> CD_BASKET st' = b"
  by (auto simp: update_position_ok)

lemma save_user_repaid_ok:
  assumes "save_user_repaid st Q env config b u p n cs = Inr (st', b', p')" and "carried e st b"
    and "get_target_position st u (po_position_id p) = Inr (i, q)" and "po_credit_amount p = po_credit_amount q"
  shows "cdp_ok e st'"
proof -
  obtain st1 m fs ds where m: "(u128_sub (po_credit_amount p) n :: nat cdp_result) = Inr m"
    and tal: "update_basket_tally st Q env b ds fs False config True = Inr (st1, b')"
    and upd: "update_position (st1\<lparr>CD_BASKET := Some b'\<rparr>) u (p\<lparr>po_credit_amount := m\<rparr>) = Inr st'"
    using assms(1) unfolding save_user_repaid_def Let_def
    by (clarsimp elim!: rbind_InrE split del: if_split)
  have "cdp_ok e (st1\<lparr>CD_BASKET := Some b'\<rparr>)" using carried_tally[OF assms(2) tal] carried_save by blast
  moreover have "get_target_position (st1\<lparr>CD_BASKET := Some b'\<rparr>) u (po_position_id p) = Inr (i, q)"
    using assms(3) pricedD(1) tally_effect[OF tal] by (auto simp: get_target_position_def)
  ultimately show ?thesis by (intro lower_debt_ok[OF upd]) (use m assms(4) in \<open>auto simp: int_ok\<close>)
qed

lemma build_sp_submsgs_ok:
  "build_sp_submsgs st Q prp l c v ms = Inr (st', r) \<Longrightarrow> \<exists>x. st' = st\<lparr>CD_LIQUIDATION := x\<rparr>"
  unfolding build_sp_submsgs_def Let_def
  by (auto elim!: rbind_InrE split: option.splits if_split_asm)

lemma cdp_liquidate_ok:
  assumes "cdp_liquidate L st Q env info k u = Inr (st', r)" and "cdp_ok e st"
  shows "cdp_ok e st'"
proof -
  obtain b config owner i p ltv avg where b: "CD_BASKET st = Some b"
    and pos: "get_target_position st owner k = Inr (i, p)"
    and liq: "liquidate_insolvent L st Q env info config b k u owner p ltv avg = Inr (st', r)"
    using assms(1) unfolding cdp_liquidate_def
    by (clarsimp elim!: rbind_InrE simp: cdp_load_ok split: if_split_asm split del: if_split)
  obtain st1 s q n x b1 p1 where
    sv: "(if x then save_user_repaid st Q env config b owner (p\<lparr>po_collateral_assets := q\<rparr>) n s
          else Inr (st, b, p\<lparr>po_collateral_assets := q\<rparr>)) = Inr (st1, b1, p1)"
    and st': "\<exists>l. st' = st1\<lparr>CD_LIQUIDATION := l\<rparr>"
    using liq unfolding liquidate_insolvent_def Let_def
    by (cases avg) (clarsimp elim!: rbind_InrE split del: if_split, drule build_sp_submsgs_ok, blast)
  have "cdp_ok e st1"
  proof (cases x)
    case True
    with sv have "save_user_repaid st Q env config b owner (p\<lparr>po_collateral_assets := q\<rparr>) n s = Inr (st1, b1, p1)"
      by simp
    then show ?thesis
      by (rule save_user_repaid_ok[OF _ carried_load[OF assms(2) b]])
        (use pos target_in_list[OF pos] in auto)
  qed (use sv assms(2) in simp)
  then show ?thesis using st' by auto
qed

lemma bad_debt_ok:
  assumes "check_and_fulfill_bad_debt st k u = Inr (st', r)" and "cdp_ok e st"
  shows "cdp_ok e st'"
proof -
  obtain b i p st1 n m where b: "CD_BASKET st = Some b" and pos: "get_target_position st u k = Inr (i, p)"
    and cov: "cover_bad_debt (po_credit_amount p) (bk_pending_revenue b) = (n, m)"
    and upd: "update_position st u (p\<lparr>po_credit_amount := n\<rparr>) = Inr st1"
    and st': "st' = st1\<lparr>CD_BASKET := Some (b\<lparr>bk_pending_revenue := m\<rparr>)\<rparr>"
    using assms(1) unfolding check_and_fulfill_bad_debt_def
    by (auto elim!: rbind_InrE simp: cdp_load_ok split: if_split_asm option.splits prod.splits bool.splits)
  have "n \<le> po_credit_amount p" using cov by (auto simp: cover_bad_debt_def split: if_split_asm)
  then have "cdp_ok e st1"
    by (intro lower_debt_ok[OF upd assms(2)]) (use pos target_in_list[OF pos] in auto)
  moreover have "CD_BASKET st1 = Some b" using upd b by (auto simp: update_position_ok)
  ultimately show ?thesis using st' by (simp add: cdp_ok_def)
qed

section \<open>The basket and the configuration\<close>

lemma books_vol:
  assumes "books_ok c d st" and "vol_ok v"
  shows "books_ok c d (st\<lparr>CD_VOLATILITY := (CD_VOLATILITY st)(k \<mapsto> v)\<rparr>)"
  using assms by (simp add: books_ok_def ids_ok_def pos_list_def total_debt_def vols_ok_def)

lemma vol_ok_fresh [simp]: "vol_ok \<lparr>vol_index = DECIMAL_FRACTIONAL, vol_list = []\<rparr>"
  by (simp add: vol_ok_def)

lemma books_reset_volatility: "books_ok c d st \<Longrightarrow> books_ok c d (reset_volatility k st)"
  unfolding reset_volatility_def
  by (rule books_vol) (auto simp: books_ok_def vols_ok_def vol_ok_def split: option.splits)

lemma books_reset_volatilities: "books_ok c d st \<Longrightarrow> books_ok c d (fold reset_volatility ks st)"
  by (induction ks arbitrary: st) (auto intro: books_reset_volatility)

lemma set_freeze_timer_books [simp]: "books_ok c d (set_freeze_timer env b f st) = books_ok c d st"
  by (simp add: set_freeze_timer_def Let_def split: option.split)

lemma add_cAsset_books:
  assumes "add_cAsset st Q config b q c = Inr (st', b', c', msgs)"
  shows "rated b b' \<and> (\<exists>k. st' = st\<lparr>CD_VOLATILITY := (CD_VOLATILITY st)(k \<mapsto>
    \<lparr>vol_index = DECIMAL_FRACTIONAL, vol_list = []\<rparr>)\<rparr>)"
  using assms unfolding add_cAsset_def Let_def
  by (clarsimp elim!: rbind_InrE split: if_split_asm) blast+

lemma apply_edit_basket_same [simp]:
  "bk_credit (apply_edit_basket edit b c q o') = bk_credit b"
  "bk_current_position_id (apply_edit_basket edit b c q o') = bk_current_position_id b"
  by (simp_all add: apply_edit_basket_def)

lemma edit_basket_ok:
  assumes "edit_basket L st Q env info edit = Inr (st', r)" and "cdp_ok e st"
  shows "cdp_ok e st'"
proof -
  obtain b config q st1 b1 c msgs x where b: "CD_BASKET st = Some b"
    and add: "(case eb_added_cAsset edit of
              Some added \<Rightarrow> add_cAsset st Q config b q added
            | None \<Rightarrow> Inr (st, b, blank_cAsset \<lparr>a_info = NativeToken ''None'', a_amount = 0\<rparr>, []))
       = Inr (st1, b1, c, msgs)"
    and st': "st' = (fold reset_volatility (edited_caps edit) (set_freeze_timer env b1 (eb_frozen edit) st1))
      \<lparr>CD_BASKET := Some (apply_edit_basket edit b1 c q x)\<rparr>"
    using assms(1) unfolding edit_basket_def Let_def
    by (clarsimp elim!: rbind_InrE simp: cdp_load_ok split: if_split_asm split del: if_split)
  have "rated b b1 \<and> carried e st1 b"
    using add carried_load[OF assms(2) b]
    by (auto simp: carried_def split: option.splits dest!: add_cAsset_books intro: books_vol)
  then have "carried e (fold reset_volatility (edited_caps edit) (set_freeze_timer env b1 (eb_frozen edit) st1)) b1"
    by (auto simp: carried_def ratedD intro!: books_reset_volatilities)
  then show ?thesis using st' by (simp add: cdp_ok_def carried_def)
qed

lemma edit_cAsset_ok:
  assumes "edit_cAsset L st info a x y = Inr (st', r)" and "cdp_ok e st"
  shows "cdp_ok e st'"
proof -
  obtain b cs where "CD_BASKET st = Some b" "st' = st\<lparr>CD_BASKET := Some (b\<lparr>bk_collateral_types := cs\<rparr>)\<rparr>"
    using assms(1) unfolding edit_cAsset_def
    by (auto elim!: rbind_InrE simp: cdp_load_ok Let_def split: if_split_asm option.splits)
  then show ?thesis using assms(2) by (simp add: cdp_ok_def)
qed

lemma cdp_update_config_ok:
  assumes "cdp_update_config_msg L st info u = Inr (st', r)" and "cdp_ok e st"
  shows "cdp_ok e st'"
proof -
  obtain a c where "st' = (case a of None \<Rightarrow> st | Some x \<Rightarrow> st\<lparr>CD_OWNERSHIP_TRANSFER := Some x\<rparr>)\<lparr>CD_CONFIG := c\<rparr>"
    using assms(1) unfolding cdp_update_config_msg_def
    by (clarsimp elim!: rbind_InrE simp: Let_def)
  then show ?thesis using assms(2) by (simp split: option.splits)
qed

section \<open>Runs\<close>

text \<open>
  A transaction's message or a reply, with what it sees of the chain. The pool's part of a liquidation and
  the queue's reply store what the liquidation propagated to them, and are left to the transaction of a
  liquidation.
\<close>

datatype cdp_event =
    CdpMessage querier Env MessageInfo cdp_execute_msg
  | CdpReplied querier Env nat reply_result

fun settles :: "cdp_event \<Rightarrow> bool" where
  "settles (CdpMessage Q env info msg) = (msg = CdpLiqRepay)"
| "settles (CdpReplied Q env k res) = (k = LIQ_QUEUE_REPLY_ID)"

fun cdp_step :: "chain_lib \<Rightarrow> cdp_event \<Rightarrow> cdp_storage \<Rightarrow> (cdp_storage \<times> cdp_response) cdp_result" where
  "cdp_step L (CdpMessage Q env info msg) st = cdp_execute L st Q env info msg"
| "cdp_step L (CdpReplied Q env k res) st = cdp_reply L st Q env k res"

lemma cdp_execute_ok:
  assumes "cdp_execute L st Q env info msg = Inr (st', r)" and "msg \<noteq> CdpLiqRepay" and "cdp_ok e st"
  shows "cdp_ok e st'"
  using assms
  by (cases msg)
    (auto elim!: rbind_InrE split: if_split_asm simp: edit_redemption_info_opted[THEN opted_books(2)]
      intro: cdp_update_config_ok deposit_ok increase_debt_ok cdp_withdraw_ok cdp_repay_ok cdp_liquidate_ok redeem_ok
        external_accrue_ok edit_basket_ok edit_cAsset_ok bad_debt_ok)

lemma withdraw_reply_same: "handle_withdraw_reply L st Q env res = Inr (st', r) \<Longrightarrow> st' = st"
  unfolding handle_withdraw_reply_def by (auto elim!: rbind_InrE split: sum.splits)

lemma cdp_step_ok:
  assumes "cdp_step L m st = Inr (st', r)" and "\<not> settles m" and "cdp_ok e st"
  shows "cdp_ok e st'"
proof (cases m)
  case (CdpMessage Q env info msg)
  then show ?thesis using assms cdp_execute_ok by simp
next
  case (CdpReplied Q env k res)
  then have "st' = st" using assms(1,2) withdraw_reply_same
    by (auto simp: cdp_reply_def split: if_split_asm)
  then show ?thesis using assms(3) by simp
qed

text \<open>A block of transactions without settlements; a settlement is treated as one that fails.\<close>

definition cdp_transaction :: "chain_lib \<Rightarrow> cdp_event \<Rightarrow> cdp_storage \<Rightarrow> (cdp_storage \<times> cdp_response) cdp_result" where
  "cdp_transaction L m st = (if settles m then Inl Panic else cdp_step L m st)"

interpretation cdp: transactions "cdp_transaction L" "cdp_ok e" for L e
  by unfold_locales (auto simp: cdp_transaction_def intro: cdp_step_ok split: if_split_asm)

lemma create_basket_ok:
  assumes "create_basket L st Q info env msg = Inr (st', r)" and "cdp_ok 0 st"
  shows "cdp_ok 0 st'"
proof -
  obtain q where "CD_BASKET st = None" "st' = st\<lparr>CD_BASKET := Some (new_basket env msg q)\<rparr>"
    using assms(1) unfolding create_basket_def
    by (auto elim!: rbind_InrE simp: Let_def split: if_split_asm AssetInfo.splits)
  then show ?thesis using assms(2) books_mono[of 0 0 st "bk_current_position_id (new_basket env msg q)"]
    by (simp add: cdp_ok_def)
qed

lemma cdp_ok_start:
  assumes "cdp_instantiate L st Q env info msg = Inr (st', r)"
    and "CD_POSITIONS st = Map.empty" and "CD_VOLATILITY st = Map.empty"
  shows "cdp_ok 0 st'"
proof -
  obtain c v r1 where 1: "create_basket L (st\<lparr>CD_CONFIG := c, CD_CONTRACT := v\<rparr>) Q info env (ci_create_basket msg) = Inr (st', r1)"
    using assms(1) unfolding cdp_instantiate_def by (auto elim!: rbind_InrE simp: Let_def)
  then have "CD_BASKET st = None" unfolding create_basket_def
    by (auto elim!: rbind_InrE simp: Let_def split: if_split_asm)
  then have "cdp_ok 0 st" using assms(2,3)
    by (simp add: cdp_ok_def books_ok_def vols_ok_def ids_ok_def pos_list_def total_debt_def)
  then show ?thesis by (intro create_basket_ok[OF 1]) simp
qed

end
