(* ===== verification/CDP_Facts.thy ===== *)
theory CDP_Facts
  imports CDP_Invariant
begin

text \<open>
  Debt positions: the facts the properties rest on: what a solvency check depends on, the money in the
  messages of a repayment, the collateral held before and after the steps of a withdrawal and a deposit,
  and the ceiling of the interest rates.
\<close>

section \<open>Shared facts\<close>

lemma asset_values_cong:
  assumes "CD_STORED_PRICES st = CD_STORED_PRICES st'"
    and "a_info (bk_credit_asset b) = a_info (bk_credit_asset b')"
  shows "get_asset_values st env Q cs config (Some b) dep = get_asset_values st' env Q cs config (Some b') dep"
proof -
  have "stored_price_turn st env config dep = stored_price_turn st' env config dep"
    using assms(1) by (intro ext) (simp add: stored_price_turn_def)
  then show ?thesis unfolding get_asset_values_def query_prices_def option.case rbind_Inr assms(2) by simp
qed

lemma insolvency_check_cong:
  assumes "CD_STORED_PRICES st = CD_STORED_PRICES st'"
    and "a_info (bk_credit_asset b) = a_info (bk_credit_asset b')"
  shows "insolvency_check st env Q (Some b) cs n p m config = insolvency_check st' env Q (Some b') cs n p m config"
  using asset_values_cong[OF assms] by (simp add: insolvency_check_def get_avg_LTV_def)

lemma target_updated:
  assumes "get_target_position st u k = Inr (i, p)" and "po_position_id p' = k"
    and "CD_POSITIONS st' u = Some ((pos_list st u)[i := p'])"
  shows "get_target_position st' u k = Inr (i, p')"
  using assms target_in_list[OF assms(1)]
  by (auto simp: get_target_position_ok nth_list_update)

lemma opted_prices: "opted st st' \<Longrightarrow> CD_STORED_PRICES st' = CD_STORED_PRICES st"
proof -
  assume a: "opted st st'"
  have "CD_STORED_PRICES (st'\<lparr>CD_REDEMPTION_OPT_IN := Map.empty\<rparr>) = CD_STORED_PRICES (st\<lparr>CD_REDEMPTION_OPT_IN := Map.empty\<rparr>)"
    using a by (simp add: opted_def)
  then show ?thesis by simp
qed

lemma burn_msg_native: "credit_mint_msg config a recipient = Inr msg \<Longrightarrow>
  \<exists>proxy denom. cc_osmosis_proxy config = Some proxy \<and> a_info a = NativeToken denom \<and>
    msg = WasmExecute proxy (MintTokens denom (a_amount a) recipient) []"
  by (auto simp: credit_mint_msg_def split: AssetInfo.splits option.splits)

section \<open>Repaying\<close>

text \<open>What a list of messages burns, deposits as revenue and sends.\<close>

fun msg_value :: "sub_msg \<Rightarrow> nat" where
  "msg_value (Plain (WasmExecute _ (BurnTokens _ n _) _)) = n"
| "msg_value (Plain (WasmExecute _ _ coins)) = sum_list (map c_amount coins)"
| "msg_value (Plain (BankSend _ coins)) = sum_list (map c_amount coins)"
| "msg_value _ = 0"

lemma burn_and_revenue_sum: "burn_and_revenue b n = (x, y) \<Longrightarrow> x + y = n"
  by (auto simp: burn_and_revenue_def split: if_split_asm)

lemma burn_rev_value:
  assumes "credit_burn_rev_msg config env a b = Inr (msgs, b')" and "cc_staking_contract config \<noteq> None"
  shows "sum_list (map (msg_value \<circ> Plain) msgs) = a_amount a"
proof -
  obtain x y where xy: "burn_and_revenue b (a_amount a) = (x, y)" by fastforce
  obtain addr denom s where "msgs = (if x \<noteq> 0 then [WasmExecute addr (BurnTokens denom x (contract_address env)) []] else []) @
      (if y \<noteq> 0 then [WasmExecute s DepositFee [\<lparr>c_denom = denom, c_amount = y\<rparr>]] else [])"
  proof (cases "y = 0")
    case True
    with assms xy that show ?thesis unfolding credit_burn_rev_msg_def Let_def
      by (clarsimp elim!: rbind_InrE split: AssetInfo.splits option.splits split del: if_split)
  next
    case False
    with assms xy that show ?thesis unfolding credit_burn_rev_msg_def Let_def
      by (clarsimp elim!: rbind_InrE simp: asset_to_coin_def split: AssetInfo.splits option.splits split del: if_split)
  qed
  then show ?thesis using burn_and_revenue_sum[OF xy] by auto
qed

lemma excess_value: "excess_msgs L info b n x = Inr msgs \<Longrightarrow> sum_list (map (msg_value \<circ> Plain) msgs) = n"
  unfolding excess_msgs_def
  by (auto elim!: rbind_InrE simp: withdrawal_msg_ok map_err_eq_Inr split: if_split_asm)

section \<open>Withdrawing\<close>

definition held :: "string \<Rightarrow> cAsset list \<Rightarrow> nat" where
  "held d cs = sum_list (map ca_amount (filter (\<lambda>c. ca_info c = NativeToken d) cs))"

definition sent :: "string \<Rightarrow> Coin list \<Rightarrow> nat" where
  "sent d coins = sum_list (map c_amount (filter (\<lambda>c. c_denom c = d) coins))"

lemma sent_simps [simp]: "sent d [] = 0" "sent d (xs @ ys) = sent d xs + sent d ys"
  "sent d [c] = (if c_denom c = d then c_amount c else 0)"
  by (simp_all add: sent_def)

lemma held_split:
  "i < length cs \<Longrightarrow> held d cs = held d (take i cs) + held d [cs ! i] + held d (drop (Suc i) cs)"
proof -
  assume i: "i < length cs"
  have "held d (xs @ y # ys) = held d xs + held d [y] + held d ys" for xs y ys by (simp add: held_def)
  from this[of "take i cs" "cs ! i" "drop (Suc i) cs"] show ?thesis using id_take_nth_drop[OF i] by simp
qed

lemma held_take_collateral:
  assumes "i < length (po_collateral_assets p)" and "c = po_collateral_assets p ! i" and "n \<le> ca_amount c"
  shows "held d (po_collateral_assets (take_collateral p i c n)) + (if ca_info c = NativeToken d then n else 0)
    = held d (po_collateral_assets p)"
proof -
  let ?cs = "po_collateral_assets p"
  have upd: "?cs[i := x] = take i ?cs @ x # drop (Suc i) ?cs" for x using assms(1) by (simp add: upd_conv_take_nth_drop)
  show ?thesis using held_split[OF assms(1), of d] assms(2,3)
    by (auto simp: take_collateral_def Let_def upd held_def ca_set_amount_def)
qed

definition paid_out :: "querier \<Rightarrow> Env \<Rightarrow> cdp_config \<Rightarrow> cdp_storage \<Rightarrow> Basket \<Rightarrow> Position \<Rightarrow> addr \<Rightarrow> nat \<Rightarrow>
    withdraw_state \<Rightarrow> bool" where
  "paid_out Q env config st b p u i s \<longleftrightarrow>
     po_position_id (ws_position s) = po_position_id p \<and>
     (check_for_empty_position (po_collateral_assets (ws_position s)) \<or>
      (\<exists>q. get_target_position (ws_storage s) u (po_position_id p) = Inr (i, q) \<and>
         (ws_coins s \<noteq> [] \<longrightarrow> q = ws_position s))) \<and>
     po_credit_amount (ws_position s) = po_credit_amount p \<and>
     CD_STORED_PRICES (ws_storage s) = CD_STORED_PRICES st \<and>
     (\<forall>v. v \<noteq> u \<longrightarrow> CD_POSITIONS (ws_storage s) v = CD_POSITIONS st v) \<and>
     (\<forall>d. held d (po_collateral_assets (ws_position s)) + sent d (ws_coins s) = held d (po_collateral_assets p)) \<and>
     (ws_coins s \<noteq> [] \<longrightarrow> (\<exists>ltv fee avg. insolvency_check st env Q (Some b)
        (po_collateral_assets (ws_position s)) (po_credit_amount p) (bk_credit_price b) True config
        = Inr ((False, ltv, fee), avg)))"

lemma withdraw_cAsset_paid:
  assumes "withdraw_cAsset Q env config b u i w s = Inr s'" and "paid_out Q env config st b p u i s"
  shows "paid_out Q env config st b p u i s'"
proof (cases "s' = s")
  case False
  let ?P = "\<lambda>cAsset. asset_info_equal (ca_info cAsset) (ca_info w)"
  let ?n = "ca_amount w"
  obtain ci a st1 ltv fee avg coins where f: "find_index_of ?P (po_collateral_assets (ws_position s)) = Some (ci, a)"
    and le: "?n \<le> ca_amount a"
    and ck: "insolvency_check (ws_storage s) env Q (Some b)
       (po_collateral_assets (take_collateral (ws_position s) ci a ?n))
       (po_credit_amount (take_collateral (ws_position s) ci a ?n)) (bk_credit_price b) True config
       = Inr ((False, ltv, fee), avg)"
    and sv: "save_withdrawn (ws_storage s) u i (take_collateral (ws_position s) ci a ?n) = Inr st1"
    and coins: "(case ca_info w of
                 NativeToken _ \<Rightarrow> rbind (map_err CdpStd (asset_to_coin (ca_asset w))) (\<lambda>coin. Inr [coin])
               | Token _ \<Rightarrow> Inr []) = Inr coins"
    and s': "ws_storage s' = st1" "ws_position s' = take_collateral (ws_position s) ci a ?n"
      "ws_coins s' = ws_coins s @ coins"
    using assms(1) False unfolding withdraw_cAsset_def Let_def
    by (auto elim!: rbind_InrE split: option.splits if_split_asm)
  have ci: "ci < length (po_collateral_assets (ws_position s))" "a = po_collateral_assets (ws_position s) ! ci"
    "ca_info a = ca_info w" using f by (auto simp: find_index_of_Some)
  have pr: "CD_STORED_PRICES st1 = CD_STORED_PRICES (ws_storage s)"
    "v \<noteq> u \<Longrightarrow> CD_POSITIONS st1 v = CD_POSITIONS (ws_storage s) v" for v
    using sv by (cases rule: save_withdrawn_cases; simp)+
  have "sent d coins = (if ca_info w = NativeToken d then ?n else 0)" for d
    using coins by (auto simp: asset_to_coin_def split: AssetInfo.splits)
  then have h: "held d (po_collateral_assets (ws_position s')) + sent d coins = held d (po_collateral_assets (ws_position s))" for d
    using held_take_collateral[OF ci(1,2) le, of d] ci(3) s' by simp
  have "insolvency_check st env Q (Some b) (po_collateral_assets (ws_position s')) (po_credit_amount p)
      (bk_credit_price b) True config = Inr ((False, ltv, fee), avg)"
    using ck assms(2) insolvency_check_cong[of "ws_storage s" st b b] s'(2)
    by (simp add: paid_out_def)
  then have solvent: "\<exists>ltv fee avg. insolvency_check st env Q (Some b) (po_collateral_assets (ws_position s'))
      (po_credit_amount p) (bk_credit_price b) True config = Inr ((False, ltv, fee), avg)" by blast
  have stored: "check_for_empty_position (po_collateral_assets (ws_position s')) \<or>
      (\<exists>q. get_target_position (ws_storage s') u (po_position_id p) = Inr (i, q) \<and>
         (ws_coins s' \<noteq> [] \<longrightarrow> q = ws_position s'))"
    using sv
  proof (cases rule: save_withdrawn_cases)
    case 1
    have "\<not> check_for_empty_position (po_collateral_assets (ws_position s))"
      using 1(1) empty_take_collateral[OF _ ci(1,2)] by blast
    then obtain q where q: "get_target_position (ws_storage s) u (po_position_id p) = Inr (i, q)"
      using assms(2) unfolding paid_out_def by blast
    have "get_target_position (ws_storage s') u (po_position_id p) = Inr (i, ws_position s')"
      by (rule target_updated[OF q]) (use 1(3) s' assms(2) in \<open>simp_all add: paid_out_def\<close>)
    then show ?thesis by blast
  qed (use s' in simp)
  have "held d (po_collateral_assets (ws_position s')) + sent d (ws_coins s') = held d (po_collateral_assets p)" for d
  proof -
    have "held d (po_collateral_assets (ws_position s)) + sent d (ws_coins s) = held d (po_collateral_assets p)"
      using assms(2) by (simp add: paid_out_def)
    then show ?thesis using h[of d] s'(3) by simp
  qed
  moreover have "po_credit_amount (ws_position s') = po_credit_amount p"
    "po_position_id (ws_position s') = po_position_id p"
    "CD_STORED_PRICES (ws_storage s') = CD_STORED_PRICES st"
    "v \<noteq> u \<Longrightarrow> CD_POSITIONS (ws_storage s') v = CD_POSITIONS st v" for v
    using assms(2) s' pr by (simp_all add: paid_out_def)
  ultimately show ?thesis using solvent stored unfolding paid_out_def by blast
qed (use assms in simp)

lemma withdraws_paid:
  "rfold (withdraw_cAsset Q env config b u i) ws s = Inr s' \<Longrightarrow> paid_out Q env config st b p u i s \<Longrightarrow>
   paid_out Q env config st b p u i s'"
proof (induction ws arbitrary: s)
  case (Cons w ws)
  from Cons.prems(1) obtain s1 where 1: "withdraw_cAsset Q env config b u i w s = Inr s1"
    and 2: "rfold (withdraw_cAsset Q env config b u i) ws s1 = Inr s'" by (auto elim!: rbind_InrE)
  show ?case by (rule Cons.IH[OF 2 withdraw_cAsset_paid[OF 1 Cons.prems(2)]])
qed simp

section \<open>Depositing\<close>

lemma held_update:
  assumes "i < length cs"
  shows "held d (cs[i := c]) + held d [cs ! i] = held d cs + held d [c]"
proof -
  have "cs[i := c] = take i cs @ c # drop (Suc i) cs" using assms by (simp add: upd_conv_take_nth_drop)
  then show ?thesis using held_split[OF assms, of d] by (simp add: held_def)
qed

lemma add_deposit_held:
  "add_deposit x (p, xs) = Inr (p', xs') \<Longrightarrow>
   held d (po_collateral_assets p') = held d (po_collateral_assets p) + held d [x]"
proof -
  assume a: "add_deposit x (p, xs) = Inr (p', xs')"
  let ?f = "find_index_of (\<lambda>cAsset. asset_info_equal (ca_info cAsset) (ca_info x)) (po_collateral_assets p)"
  show ?thesis
  proof (cases ?f)
    case None
    then show ?thesis using a by (auto simp: add_deposit_def held_def)
  next
    case (Some ic)
    then obtain i where f: "?f = Some (i, po_collateral_assets p ! i)" "i < length (po_collateral_assets p)"
      "ca_info (po_collateral_assets p ! i) = ca_info x"
      by (cases ic) (auto simp: find_index_of_Some)
    then have p': "po_collateral_assets p' = (po_collateral_assets p)[i := ca_set_amount (po_collateral_assets p ! i)
        (ca_amount (po_collateral_assets p ! i) + ca_amount x)]"
      using a by (auto simp: add_deposit_def int_ok elim!: rbind_InrE)
    let ?c = "ca_set_amount (po_collateral_assets p ! i) (ca_amount (po_collateral_assets p ! i) + ca_amount x)"
    have "held d [?c] = held d [po_collateral_assets p ! i] + held d [x]"
      using f(3) by (simp add: held_def ca_set_amount_def)
    then show ?thesis using held_update[OF f(2), of d ?c] p' by simp
  qed
qed

lemma add_deposits_held:
  "rfold add_deposit cs (p, xs) = Inr (p', xs') \<Longrightarrow>
   held d (po_collateral_assets p') = held d (po_collateral_assets p) + held d cs"
proof (induction cs arbitrary: p xs)
  case Nil
  then show ?case by (simp add: held_def)
next
  case (Cons c cs)
  from Cons.prems obtain p1 xs1 where 1: "add_deposit c (p, xs) = Inr (p1, xs1)"
    and 2: "rfold add_deposit cs (p1, xs1) = Inr (p', xs')"
    by (auto elim!: rbind_InrE)
  have "held d (c # cs) = held d [c] + held d cs" by (simp add: held_def)
  then show ?case using Cons.IH[OF 2] add_deposit_held[OF 1] by simp
qed

lemma target_of_found:
  "CD_POSITIONS st u = Some ps \<Longrightarrow> find_index_of (\<lambda>p. po_position_id p = k) ps = Some (i, p) \<Longrightarrow>
   get_target_position st u k = Inr (i, p)"
  by (simp add: get_target_position_def)

section \<open>Interest rates\<close>

lemma slope_rates_le:
  "debt_slope_rate config r p = Inr x \<Longrightarrow> x \<le> DECIMAL_FRACTIONAL"
  "multiplied_rate r p m = Inr x \<Longrightarrow> x \<le> DECIMAL_FRACTIONAL"
  "supply_slope_rate config r p = Inr x \<Longrightarrow> x \<le> DECIMAL_FRACTIONAL"
proof -
  show m: "multiplied_rate r p m = Inr x \<Longrightarrow> x \<le> DECIMAL_FRACTIONAL" for r p m x
    by (auto simp: multiplied_rate_def elim!: rbind_InrE)
  show "debt_slope_rate config r p = Inr x \<Longrightarrow> x \<le> DECIMAL_FRACTIONAL"
    by (auto simp: debt_slope_rate_def elim!: rbind_InrE dest: m split: if_split_asm)
  show "supply_slope_rate config r p = Inr x \<Longrightarrow> x \<le> DECIMAL_FRACTIONAL"
    by (auto simp: supply_slope_rate_def elim!: rbind_InrE dest: m split: if_split_asm)
qed

lemma two_slope_rate_le: "two_slope_rate config ps ir = Inr x \<Longrightarrow> x \<le> DECIMAL_FRACTIONAL"
  unfolding two_slope_rate_def
  by (cases ir) (auto elim!: rbind_InrE dest: slope_rates_le split: if_split_asm)

definition rates_capped :: "nat \<Rightarrow> decimal list \<Rightarrow> bool" where
  "rates_capped n rates \<longleftrightarrow> length rates = n \<and> (\<forall>r\<in>set rates. r \<le> DECIMAL_FRACTIONAL)"

lemma rates_capped_update:
  "rates_capped n rates \<Longrightarrow> update_at rates i r = Inr rates' \<Longrightarrow> r \<le> DECIMAL_FRACTIONAL \<Longrightarrow> rates_capped n rates'"
  by (auto simp: rates_capped_def index_ok dest!: set_update_subset_insert[THEN subsetD])

lemma multi_cap_rate_capped:
  "multi_cap_rate config b rs ps m a two = Inr two' \<Longrightarrow> rates_capped n two \<Longrightarrow> rates_capped n two'"
  unfolding multi_cap_rate_def
  by (auto elim!: rbind_InrE split: option.splits prod.splits if_split_asm
      dest!: slope_rates_le(2) intro: rates_capped_update)

lemma multi_cap_rates_capped:
  assumes "multi_cap_rates config b rs ps ratios cap two = Inr two'" and "rates_capped n two"
  shows "rates_capped n two'"
proof -
  obtain m where r: "rfold (multi_cap_rate config b rs ps m) (mcap_assets cap) two = Inr two'"
    using assms(1) unfolding multi_cap_rates_def by (auto elim!: rbind_InrE)
  show ?thesis by (rule rfold_invariant[where I = "rates_capped n", OF _ assms(2) r]) (rule multi_cap_rate_capped)
qed

section \<open>Redemptions\<close>

lemma rfold_fails: "x \<in> set xs \<Longrightarrow> (\<And>s s'. f x s \<noteq> Inr s') \<Longrightarrow> rfold f xs s \<noteq> Inr s'"
proof (induction xs arbitrary: s)
  case (Cons y ys)
  then show ?case by (cases "y = x") (auto elim!: rbind_InrE)
qed simp

section \<open>Editing a collateral\<close>

lemma edit_limits_info: "edit_limits L b x y c = Inr (c', msgs, attrs) \<Longrightarrow> ca_info c' = ca_info c"
  unfolding edit_limits_def by (auto elim!: rbind_InrE split: option.splits if_split_asm)

end
