(* ===== verification/CDP_Demo.thy ===== *)
theory CDP_Demo
  imports CDP_Invariant SP_Demo
begin

text \<open>
  A concrete basket on which the properties of the debt positions are applied: one collateral worth ten
  units, borrowed against up to half of its value and liquidated from 60 percent on, and a debt token
  worth one.
\<close>

definition cdp_demo_config :: cdp_config where
  "cdp_demo_config = \<lparr>cc_owner = ''owner'', cc_stability_pool = Some ''pool'', cc_dex_router = None,
     cc_staking_contract = Some ''staking'', cc_osmosis_proxy = Some ''proxy'', cc_debt_auction = Some ''auction'',
     cc_oracle_contract = Some ''oracle'', cc_liquidity_contract = Some ''liquidity'',
     cc_discounts_contract = None, cc_liq_fee = 10000000000000000, cc_collateral_twap_timeframe = 60,
     cc_credit_twap_timeframe = 480, cc_oracle_time_limit = 600, cc_cpc_multiplier = DECIMAL_FRACTIONAL,
     cc_debt_minimum = 20, cc_base_debt_cap_multiplier = 21, cc_rate_slope_multiplier = DECIMAL_FRACTIONAL,
     cc_rate_hike_rate = None\<rparr>"

definition cdp_demo_price :: "AssetInfo \<Rightarrow> PriceResponse" where
  "cdp_demo_price a = \<lparr>pr_prices = [],
     pr_price = (if asset_info_to_string a = ''cdt'' then 1 else 10) * DECIMAL_FRACTIONAL, pr_decimals = 0\<rparr>"

definition cdp_demo_querier :: querier where
  "cdp_demo_querier = \<lparr>qr_prices = (\<lambda>_ assets _ _. Inr (map cdp_demo_price assets)),
     qr_oracle_assets = (\<lambda>_ _. Inr ()), qr_liquidity = (\<lambda>_ _. Inr 600),
     qr_owner = (\<lambda>_ _. Inr (DECIMAL_FRACTIONAL, None)), qr_sp_raw = (\<lambda>_. Inr 0),
     qr_sp_pool = (\<lambda>_ _ _ _. Inr demo_pool), qr_discount = (\<lambda>_ _. Inr 0), qr_balance = (\<lambda>_ _. Inr 1000),
     qr_lq_liquidatible = (\<lambda>_ _ _ _ _ _. Inr (''0'', ''0'')), qr_mbrn_denom = (\<lambda>_. Inr ''mbrn''),
     qr_pool_state = (\<lambda>_ _. Inl OverflowErr), qr_recovered = Inr True\<rparr>"

definition cdp_demo_asset :: "nat \<Rightarrow> cAsset" where
  "cdp_demo_asset n = \<lparr>ca_asset = \<lparr>a_info = NativeToken ''atom'', a_amount = n\<rparr>,
     ca_max_borrow_LTV = 500000000000000000, ca_max_LTV = 600000000000000000,
     ca_rate_index = DECIMAL_FRACTIONAL, ca_pool_info = None, ca_hike_rates = None\<rparr>"

definition cdp_demo_basket :: "nat \<Rightarrow> nat \<Rightarrow> Basket" where
  "cdp_demo_basket debt revenue = \<lparr>bk_basket_id = 1, bk_current_position_id = 9,
     bk_collateral_types = [cdp_demo_asset 150],
     bk_collateral_supply_caps = [\<lparr>cap_asset_info = NativeToken ''atom'', cap_current_supply = 150,
       cap_debt_total = 0, cap_supply_cap_ratio = DECIMAL_FRACTIONAL, cap_lp = False,
       cap_stability_pool_ratio_for_debt_cap = None\<rparr>],
     bk_lastest_collateral_rates = [], bk_multi_asset_supply_caps = [],
     bk_credit_asset = \<lparr>a_info = NativeToken ''cdt'', a_amount = debt\<rparr>,
     bk_credit_price = cdp_demo_price (NativeToken ''cdt''), bk_base_interest_rate = 100000000000000000,
     bk_pending_revenue = revenue, bk_credit_last_accrued = 1000, bk_rates_last_accrued = 1000,
     bk_oracle_set = True, bk_negative_rates = True, bk_frozen = False, bk_rev_to_stakers = True,
     bk_cpc_margin_of_error = DECIMAL_FRACTIONAL, bk_liq_queue = Some ''queue''\<rparr>"

definition cdp_demo_position :: "nat \<Rightarrow> nat \<Rightarrow> nat \<Rightarrow> Position" where
  "cdp_demo_position k n debt =
     \<lparr>po_position_id = k, po_collateral_assets = [cdp_demo_asset n], po_credit_amount = debt\<rparr>"

text \<open>alice holds 100 units of collateral and owes \<open>x\<close>, bob holds 50 and owes \<open>y\<close>.\<close>

definition cdp_demo_st :: "nat \<Rightarrow> nat \<Rightarrow> nat \<Rightarrow> cdp_storage" where
  "cdp_demo_st x y revenue = \<lparr>CD_CONFIG = Some cdp_demo_config,
     CD_BASKET = Some (cdp_demo_basket (x + y) revenue),
     CD_POSITIONS = [''alice'' \<mapsto> [cdp_demo_position 7 100 x], ''bob'' \<mapsto> [cdp_demo_position 8 50 y]],
     CD_VOLATILITY = Map.empty, CD_STORED_PRICES = Map.empty, CD_REDEMPTION_OPT_IN = Map.empty,
     CD_OWNERSHIP_TRANSFER = None, CD_WITHDRAW = None, CD_LIQUIDATION = None, CD_FREEZE_TIMER = None,
     CD_CONTRACT = None\<rparr>"

lemmas cdp_demo = cdp_demo_config_def cdp_demo_price_def cdp_demo_querier_def cdp_demo_asset_def
  cdp_demo_basket_def cdp_demo_position_def cdp_demo_st_def

lemmas cdp_numbers = DECIMAL_FRACTIONAL_def U128_BOUND_def U64_BOUND_def SECONDS_PER_YEAR_def
  CDP_SECONDS_PER_DAY_def MINIMUM_LIQUIDITY_def VOLATILITY_LIST_LIMIT_def dec_percent_def

lemmas cdp_arith = dec_of_uint_def dec_times_one_def dec_sum_def dec_from_ratio_def dec_add_def dec_sub_def
  u128_add_def u128_sub_def u64_sub_def u64_mul_def uint128_mul_dec_def to_uint_floor_def dec_checked_mul_def
  dec_checked_div_def decimal_multiplication_def decimal_division_def decimal_subtraction_def dec_mul_def
  u128_mul_def dec_checked_sub_def price_get_value_def price_get_amount_def u64_pow10_def time_seconds_def
  Let_def cdp_numbers

lemmas cdp_value_eval = get_cAsset_ratios_def get_cAsset_ratios_imut_def get_asset_values_def query_prices_def
  stored_price_turn_def sort_prices_turn_def sort_prices_inner_def track_price_def value_ratios_def
  at_index_def update_at_def remove_at_def find_index_of_def addr_or_empty_def ask_def

lemmas cdp_rate_eval = accrue_def accrue_repayment_price_def liquidity_ratio_of_def credit_twap_def
  get_credit_rate_of_change_def volatility_caps_def transform_caps_based_on_volatility_def transform_cap_def
  update_rate_indices_def get_interest_rates_def base_rate_def is_hiked_def get_basket_debt_caps_def
  cdp_config_load_def split_debt_def set_cap_debt_def asset_debt_def total_debt_cap_def
  stability_pool_liquidity_def asset_debt_cap_def cap_proportions_def two_slope_rate_def debt_slope_rate_def
  redemption_rate_def accrue_rate_index_def accumulate_interest_dec_def catch_up_index_def charge_interest_def
  bk_set_credit_def credit_cAsset_def


text \<open>A year after the start: the interest of a position of 200 units is 16.\<close>

definition cdp_year :: Env where "cdp_year = demo_env 31537000"

definition cdp_year_asset :: "nat \<Rightarrow> cAsset" where
  "cdp_year_asset n = (cdp_demo_asset n)\<lparr>ca_rate_index := 1083333333333333333\<rparr>"

definition cdp_year_position :: Position where
  "cdp_year_position = \<lparr>po_position_id = 7, po_collateral_assets = [cdp_year_asset 100], po_credit_amount = 216\<rparr>"

definition cdp_year_basket :: "nat \<Rightarrow> nat \<Rightarrow> Basket" where
  "cdp_year_basket debt revenue = (cdp_demo_basket debt revenue)\<lparr>bk_collateral_types := [cdp_year_asset 150],
     bk_collateral_supply_caps := [\<lparr>cap_asset_info = NativeToken ''atom'', cap_current_supply = 150,
       cap_debt_total = 300, cap_supply_cap_ratio = DECIMAL_FRACTIONAL, cap_lp = False,
       cap_stability_pool_ratio_for_debt_cap = None\<rparr>],
     bk_lastest_collateral_rates := [\<lparr>rt_rate = 83333333333333333, rt_last_time_updated = 31537000\<rparr>],
     bk_rates_last_accrued := 31537000\<rparr>"

definition cdp_priced_st :: "nat \<Rightarrow> cdp_storage" where
  "cdp_priced_st revenue = (cdp_demo_st 200 100 revenue)\<lparr>CD_STORED_PRICES :=
     [''atom'' \<mapsto> \<lparr>spr_price = cdp_demo_price (NativeToken ''atom''), spr_last_time_updated = 31537000\<rparr>]\<rparr>"

lemma cdp_demo_accrue:
  "accrue (cdp_demo_st 200 100 40) cdp_demo_querier cdp_year cdp_demo_config (cdp_demo_position 7 100 200)
     (cdp_demo_basket 300 40) ''alice'' False =
   Inr (cdp_priced_st 40, cdp_year_position, cdp_year_basket 316 56, [DECIMAL_FRACTIONAL])"
  by (simp add: cdp_rate_eval cdp_value_eval cdp_year_def demo_env_def cdp_arith cdp_demo
      cdp_year_asset_def cdp_year_position_def cdp_year_basket_def cdp_priced_st_def)

section \<open>Messages\<close>

lemmas cdp_year_defs = cdp_year_def demo_env_def demo_info_def cdp_year_asset_def cdp_year_position_def
  cdp_year_basket_def cdp_priced_st_def

lemma cdp_demo_fields [simp]:
  "CD_CONFIG (cdp_demo_st x y r) = Some cdp_demo_config" "CD_BASKET (cdp_demo_st x y r) = Some (cdp_demo_basket (x + y) r)"
  "CD_POSITIONS (cdp_demo_st x y r) ''alice'' = Some [cdp_demo_position 7 100 x]"
  "bk_frozen (cdp_demo_basket d r) = False" "po_position_id (cdp_demo_position k n d) = k"
  "ca_hike_rates (cdp_demo_asset n) = None" "po_collateral_assets (cdp_demo_position k n d) = [cdp_demo_asset n]"
  "sender (demo_info u fs) = u" "cc_stability_pool cdp_demo_config = Some ''pool''"
  by (simp_all add: cdp_demo demo_info_def)

lemmas cdp_first = find_index_of_def get_target_position_def basket_load_def cdp_config_load_def addr_or_empty_def
  validate_position_owner_def has_rate_hike_def is_hiked_def cdp_demo_accrue

lemmas cdp_msg_eval = basket_load_def cdp_config_load_def get_target_position_def find_index_of_def has_rate_hike_def
  is_hiked_def update_at_def at_index_def remove_at_def insolvency_check_def get_avg_LTV_def calculate_avg_LTV_def
  insolvency_check_calc_def get_asset_values_def query_prices_def stored_price_turn_def sort_prices_turn_def
  sort_prices_inner_def value_ratios_def bk_set_credit_def force_redemption_def addr_or_empty_def ask_def
  cdp_arith cdp_demo cdp_year_defs demo_lib_def

lemma cdp_demo_borrows:
  "\<exists>st' r. increase_debt demo_lib (cdp_demo_st 200 100 40) cdp_demo_querier cdp_year (demo_info ''alice'' []) 7
     (Some 100) None None = Inr (st', r)"
  unfolding increase_debt_def
  by (simp add: cdp_first, simp add: increase_amount_def
      check_minimum_debt_def mint_debt_def credit_mint_msg_def check_debt_increase_state_def cdp_msg_eval)

lemma cdp_demo_repays:
  "\<exists>st' r. cdp_repay demo_lib (cdp_demo_st 200 100 40) cdp_demo_querier cdp_year (demo_info ''alice'' []) 7 None
     \<lparr>a_info = NativeToken ''cdt'', a_amount = 50\<rparr> None = Inr (st', r)"
  unfolding cdp_repay_def
  by (simp add: cdp_first, simp add: check_minimum_left_def save_repaid_def check_for_empty_position_def
      credit_burn_rev_msg_def burn_and_revenue_def excess_msgs_def check_repay_state_def cdp_msg_eval)

text \<open>A withdrawal of 30 units, a deposit of 20.\<close>

lemmas cdp_tally_eval = update_basket_tally_def tally_asset_def volatility_caps_def
  transform_caps_based_on_volatility_def transform_cap_def get_cAsset_ratios_def track_price_def
  ca_set_amount_def check_supply_cap_def blocked_by_def blocked_by_withdrawal_def has_asset_def

lemma cdp_demo_withdraws:
  "\<exists>st' r. cdp_withdraw demo_lib (cdp_demo_st 200 100 40) cdp_demo_querier cdp_year (demo_info ''alice'' []) 7
     [cdp_demo_asset 30] None = Inr (st', r)"
  unfolding cdp_withdraw_def
  by (simp add: cdp_first, simp add: check_for_expunged_def expunged_turn_def withdraw_cAsset_def
      take_collateral_def ca_set_amount_def save_withdrawn_def check_for_empty_position_def asset_to_coin_def
      get_contract_balances_def cdp_tally_eval cdp_msg_eval)

lemma cdp_demo_accrue_deposit:
  "\<exists>x. accrue (cdp_demo_st 200 100 40) cdp_demo_querier cdp_year cdp_demo_config (cdp_demo_position 7 120 200)
     (cdp_demo_basket 300 40) ''alice'' True = Inr (cdp_priced_st 40, cdp_year_position\<lparr>po_collateral_assets := [cdp_year_asset 120]\<rparr>, cdp_year_basket 316 56, x)"
  by (simp add: cdp_rate_eval cdp_value_eval cdp_year_def demo_env_def cdp_arith cdp_demo
      cdp_year_asset_def cdp_year_position_def cdp_year_basket_def cdp_priced_st_def)

lemma cdp_demo_add: "rfold add_deposit [cdp_demo_asset 20] (cdp_demo_position 7 100 200, []) =
  Inr (cdp_demo_position 7 120 200, [\<lparr>a_info = NativeToken ''atom'', a_amount = 100\<rparr>])"
  by (simp add: add_deposit_def find_index_of_def u128_add_def U128_BOUND_def cdp_demo ca_set_amount_def)

lemma cdp_demo_deposits:
  "\<exists>st' r b'. cdp_deposit demo_lib (cdp_demo_st 200 100 40) cdp_demo_querier cdp_year (demo_info ''alice'' []) None
     (Some 7) [cdp_demo_asset 20] = Inr (st', r) \<and> CD_BASKET st' = Some b' \<and> bk_credit b' = 316"
proof -
  obtain x where acc: "accrue (cdp_demo_st 200 100 40) cdp_demo_querier cdp_year cdp_demo_config (cdp_demo_position 7 120 200)
     (cdp_demo_basket 300 40) ''alice'' True = Inr (cdp_priced_st 40, cdp_year_position\<lparr>po_collateral_assets := [cdp_year_asset 120]\<rparr>, cdp_year_basket 316 56, x)"
    using cdp_demo_accrue_deposit by blast
  have "\<exists>st1 b'. deposit_to_position (cdp_demo_st 200 100 40) cdp_demo_querier cdp_year cdp_demo_config ''alice''
     [cdp_demo_asset 20] (cdp_demo_basket 300 40) [cdp_demo_position 7 100 200] 0 (cdp_demo_position 7 100 200) =
     Inr (st1, [\<lparr>a_info = NativeToken ''atom'', a_amount = 100\<rparr>]) \<and>
     CD_POSITIONS st1 ''alice'' = Some [cdp_demo_position 7 120 200] \<and> CD_BASKET st1 = Some b' \<and> bk_credit b' = 316"
    unfolding deposit_to_position_def cdp_demo_add
    by (simp add: acc, simp add: cdp_tally_eval cdp_msg_eval cdp_year_basket_def)
  then obtain st1 b' where dep: "deposit_to_position (cdp_demo_st 200 100 40) cdp_demo_querier cdp_year cdp_demo_config ''alice''
     [cdp_demo_asset 20] (cdp_demo_basket 300 40) [cdp_demo_position 7 100 200] 0 (cdp_demo_position 7 100 200) =
     Inr (st1, [\<lparr>a_info = NativeToken ''atom'', a_amount = 100\<rparr>])"
     "CD_POSITIONS st1 ''alice'' = Some [cdp_demo_position 7 120 200]" "CD_BASKET st1 = Some b'" "bk_credit b' = 316" by blast
  show ?thesis unfolding cdp_deposit_def
    by (simp add: cdp_first force_redemption_def dep(1,2), simp add: check_deposit_state_def get_target_position_def
        find_index_of_def dep at_index_def u128_add_def U128_BOUND_def cdp_demo demo_lib_def)
qed

text \<open>bob's position without collateral, and without revenue enough to cover its debt.\<close>

definition cdp_bad_st :: cdp_storage where
  "cdp_bad_st = (cdp_demo_st 200 100 40)\<lparr>CD_POSITIONS := [''bob'' \<mapsto> [cdp_demo_position 8 0 100]],
     CD_LIQUIDATION := Some (liquidation_propagation cdp_year cdp_demo_config (cdp_demo_basket 300 40) ''bob''
       (cdp_demo_position 8 0 100) 0 \<lparr>ff_collateral_assets = [], ff_leftover_position_value = 0,
          ff_leftover_repayment = 0, ff_submessages = [], ff_per_asset_repayment = [], ff_liquidated_assets = [],
          ff_caller_fee_value_paid = 0, ff_caller_coins = [], ff_protocol_coins = []\<rparr> [DECIMAL_FRACTIONAL]
       [cdp_demo_price (NativeToken ''atom'')])\<rparr>"

lemma cdp_demo_bad_debt: "\<exists>st' r. check_and_fulfill_bad_debt cdp_bad_st 8 ''bob'' = Inr (st', r)"
  by (simp add: check_and_fulfill_bad_debt_def cdp_bad_st_def liquidation_propagation_def leftover_asset_value_def
      cover_bad_debt_def update_position_def rcatch_def cdp_msg_eval)

text \<open>alice owes 700 units on collateral worth 1000.\<close>

lemma cdp_demo_quantities:
  "\<exists>x. get_repay_quantities cdp_demo_config (cdp_demo_basket 800 0) (cdp_demo_position 7 100 700)
     700000000000000000 500000000000000000 (1000 * DECIMAL_FRACTIONAL) = Inr x"
  by (simp add: get_repay_quantities_def insolvent_value_def at_least_debt_minimum_def cdp_arith cdp_demo)

lemma cdp_demo_liquidates:
  "\<exists>st' r. cdp_liquidate demo_lib (cdp_demo_st 700 100 40) cdp_demo_querier cdp_year (demo_info ''carol'' []) 7 ''alice''
     = Inr (st', r)"
  by (simp add: cdp_liquidate_def check_downtime_def check_freeze_def validate_position_owner_def
      liquidate_insolvent_def get_repay_quantities_def insolvent_value_def at_least_debt_minimum_def
      get_user_repay_amount_def per_asset_fulfillments_def fulfill_asset_def pay_fees_def asset_fees_def
      queue_share_def u128_from_str_def digits_val_def digit_val_def build_sp_submsgs_def pool_share_def liquidation_propagation_def
      available_fee_of_def ca_set_amount_def pool_of_def pool_deposit_def demo_pool_def cdp_msg_eval)

lemma cdp_demo_rates:
  "\<exists>x. get_interest_rates (cdp_priced_st 40) cdp_demo_querier cdp_year (cdp_demo_basket 300 40)
     (bk_collateral_supply_caps (cdp_demo_basket 300 40)) (Some 600) = Inr x"
  by (simp add: cdp_rate_eval cdp_value_eval cdp_year_defs cdp_arith cdp_demo)

text \<open>A new basket, and one with a second collateral.\<close>

definition cdp_empty :: cdp_storage where
  "cdp_empty = \<lparr>CD_CONFIG = None, CD_BASKET = None, CD_POSITIONS = Map.empty, CD_VOLATILITY = Map.empty,
     CD_STORED_PRICES = Map.empty, CD_REDEMPTION_OPT_IN = Map.empty, CD_OWNERSHIP_TRANSFER = None,
     CD_WITHDRAW = None, CD_LIQUIDATION = None, CD_FREEZE_TIMER = None, CD_CONTRACT = None\<rparr>"

definition cdp_demo_msg :: cdp_instantiate_msg where
  "cdp_demo_msg = \<lparr>ci_owner = Some ''owner'', ci_oracle_time_limit = 600, ci_debt_minimum = 20, ci_liq_fee = 0,
     ci_collateral_twap_timeframe = 60, ci_credit_twap_timeframe = 480,
     ci_rate_slope_multiplier = DECIMAL_FRACTIONAL, ci_base_debt_cap_multiplier = 21,
     ci_stability_pool = None, ci_dex_router = None, ci_staking_contract = None,
     ci_oracle_contract = Some ''oracle'', ci_osmosis_proxy = None, ci_debt_auction = None,
     ci_liquidity_contract = None, ci_discounts_contract = None,
     ci_create_basket = \<lparr>cb_basket_id = 1, cb_collateral_types = [cdp_demo_asset 0],
       cb_credit_asset = \<lparr>a_info = NativeToken ''cdt'', a_amount = 0\<rparr>, cb_credit_price = DECIMAL_FRACTIONAL,
       cb_base_interest_rate = None, cb_credit_pool_infos = [], cb_liq_queue = None\<rparr>\<rparr>"

lemma cdp_demo_starts:
  "\<exists>st r. cdp_instantiate demo_lib cdp_empty cdp_demo_querier cdp_year (demo_info ''owner'' []) cdp_demo_msg
     = Inr (st, r)"
  by (simp add: cdp_instantiate_def cdp_initial_config_def validate_opt_def create_basket_def
      create_basket_asset_def query_oracle_asset_def cdp_empty_def cdp_demo_msg_def cdp_msg_eval)

definition cdp_osmo_asset :: cAsset where
  "cdp_osmo_asset = (cdp_demo_asset 40)\<lparr>ca_asset := \<lparr>a_info = NativeToken ''osmo'', a_amount = 40\<rparr>\<rparr>"

definition cdp_cap :: "string \<Rightarrow> nat \<Rightarrow> SupplyCap" where
  "cdp_cap denom n = \<lparr>cap_asset_info = NativeToken denom, cap_current_supply = n, cap_debt_total = 0,
     cap_supply_cap_ratio = DECIMAL_FRACTIONAL, cap_lp = False, cap_stability_pool_ratio_for_debt_cap = None\<rparr>"

definition cdp_two_basket :: Basket where
  "cdp_two_basket = (cdp_demo_basket 300 40)\<lparr>bk_collateral_types := [cdp_demo_asset 150, cdp_osmo_asset],
     bk_collateral_supply_caps := [cdp_cap ''atom'' 150, cdp_cap ''osmo'' 40]\<rparr>"

definition cdp_two_st :: cdp_storage where
  "cdp_two_st = (cdp_demo_st 200 100 40)\<lparr>CD_BASKET := Some cdp_two_basket\<rparr>"

lemma cdp_demo_edits:
  "\<exists>st' r. edit_cAsset demo_lib cdp_two_st (demo_info ''owner'' []) (NativeToken ''atom'') None
     (Some 550000000000000000) = Inr (st', r)"
  by (simp add: edit_cAsset_def edit_limits_def queue_max_premium_def cdp_two_st_def cdp_two_basket_def cdp_osmo_asset_def cdp_msg_eval)

end
