(* ===== verification/CDP_Properties.thy ===== *)
theory CDP_Properties
  imports CDP_Facts CDP_Demo
begin

text \<open>
  Debt positions: the properties of the contract, each with its application to the concrete basket of
  \<open>CDP_Demo\<close>.
\<close>

text \<open>
  C1. In every run of messages from a new basket, in which no message settles a liquidation, the debts of all
  positions sum up to at most the debt of the basket.
\<close>

theorem debts_stay_backed:
  assumes "cdp_instantiate L st0 Q env info msg = Inr (st, r)"
    and "CD_POSITIONS st0 = Map.empty" and "CD_VOLATILITY st0 = Map.empty"
    and "CD_BASKET (cdp.run L ms st) = Some b"
  shows "(\<Sum>u\<in>dom (CD_POSITIONS (cdp.run L ms st)).
      sum_list (map po_credit_amount (the (CD_POSITIONS (cdp.run L ms st) u)))) \<le> bk_credit b"
proof -
  let ?s = "cdp.run L ms st"
  have "cdp_ok 0 ?s" by (rule cdp.run_inv[OF cdp_ok_start[OF assms(1-3)]])
  then have "total_debt ?s \<le> bk_credit b" using cdp_okD[OF _ assms(4)] by (fastforce simp: books_ok_def)
  moreover have "total_debt ?s = (\<Sum>u\<in>dom (CD_POSITIONS ?s). sum_list (map po_credit_amount (the (CD_POSITIONS ?s u))))"
    unfolding total_debt_def by (rule sum.cong) (auto simp: pos_list_def debt_of_def)
  ultimately show ?thesis by simp
qed

theorem debts_stay_backed_witness:
  "\<exists>st. \<forall>ms b. CD_BASKET (cdp.run demo_lib ms st) = Some b \<longrightarrow>
     (\<Sum>u\<in>dom (CD_POSITIONS (cdp.run demo_lib ms st)).
        sum_list (map po_credit_amount (the (CD_POSITIONS (cdp.run demo_lib ms st) u)))) \<le> bk_credit b"
proof -
  obtain st r where st: "cdp_instantiate demo_lib cdp_empty cdp_demo_querier cdp_year (demo_info ''owner'' []) cdp_demo_msg
      = Inr (st, r)" using cdp_demo_starts by blast
  have "CD_POSITIONS cdp_empty = Map.empty" "CD_VOLATILITY cdp_empty = Map.empty" by (simp_all add: cdp_empty_def)
  then show ?thesis using debts_stay_backed[OF st] by blast
qed

text \<open>
  C26. In every such run a position id belongs to one position of one user, and lies below the basket's counter.
\<close>

theorem position_ids_stay_unique:
  assumes "cdp_instantiate L st0 Q env info msg = Inr (st, r)"
    and "CD_POSITIONS st0 = Map.empty" and "CD_VOLATILITY st0 = Map.empty"
    and "CD_BASKET (cdp.run L ms st) = Some b" and "CD_POSITIONS (cdp.run L ms st) u = Some ps"
    and "CD_POSITIONS (cdp.run L ms st) v = Some qs" and "i < length ps" and "j < length qs"
    and "po_position_id (ps ! i) = po_position_id (qs ! j)"
  shows "u = v \<and> i = j \<and> po_position_id (ps ! i) < bk_current_position_id b"
proof -
  let ?s = "cdp.run L ms st"
  have "cdp_ok 0 ?s" by (rule cdp.run_inv[OF cdp_ok_start[OF assms(1-3)]])
  then have ids: "ids_ok (bk_current_position_id b) ?s" using cdp_okD[OF _ assms(4)] by (fastforce simp: books_ok_def)
  have pl: "pos_list ?s u = ps" "pos_list ?s v = qs" using assms(5,6) by (simp_all add: pos_list_def)
  have mem: "ps ! i \<in> set ps" "qs ! j \<in> set qs" using assms(7,8) by simp_all
  have uv: "u = v"
  proof (rule ccontr)
    assume "u \<noteq> v"
    then have "po_position_id ` set ps \<inter> po_position_id ` set qs = {}" using ids pl unfolding ids_ok_def by metis
    then show False using mem assms(9) by (metis IntI emptyE image_eqI)
  qed
  then have "ps = qs" using assms(5,6) by simp
  moreover have "distinct (map po_position_id ps)" using ids pl unfolding ids_ok_def by metis
  ultimately have "i = j" using assms(7-9) by (metis length_map nth_eq_iff_index_eq nth_map)
  moreover have "po_position_id (ps ! i) < bk_current_position_id b" using ids pl mem unfolding ids_ok_def by metis
  ultimately show ?thesis using uv by simp
qed

theorem position_ids_stay_unique_witness:
  "\<exists>st. \<forall>ms b u v ps qs i j. CD_BASKET (cdp.run demo_lib ms st) = Some b \<longrightarrow>
     CD_POSITIONS (cdp.run demo_lib ms st) u = Some ps \<longrightarrow> CD_POSITIONS (cdp.run demo_lib ms st) v = Some qs \<longrightarrow>
     i < length ps \<longrightarrow> j < length qs \<longrightarrow> po_position_id (ps ! i) = po_position_id (qs ! j) \<longrightarrow>
     u = v \<and> i = j \<and> po_position_id (ps ! i) < bk_current_position_id b"
proof -
  obtain st r where st: "cdp_instantiate demo_lib cdp_empty cdp_demo_querier cdp_year (demo_info ''owner'' []) cdp_demo_msg
      = Inr (st, r)" using cdp_demo_starts by blast
  have "CD_POSITIONS cdp_empty = Map.empty" "CD_VOLATILITY cdp_empty = Map.empty" by (simp_all add: cdp_empty_def)
  then show ?thesis using position_ids_stay_unique[OF st] by blast
qed

text \<open>
  C5. A loan raises the sender's position and the basket by the same amount, after the same interest, mints
  exactly the loan, leaves the collateral, needs a basket that is not frozen and has its oracle set, and
  leaves the stored position solvent against the borrow limit.
\<close>

theorem borrowing_mints_the_debt:
  assumes "increase_debt L st Q env info k amount LTV to = Inr (st', r)"
    and "CD_BASKET st = Some b" and "CD_CONFIG st = Some config"
    and "get_target_position st (sender info) k = Inr (i, p)"
  shows "\<exists>interest n p' b' proxy denom recipient ltv fee avg.
    get_target_position st' (sender info) k = Inr (i, p') \<and> CD_BASKET st' = Some b' \<and>
    po_credit_amount p' = po_credit_amount p + interest + n \<and> bk_credit b' = bk_credit b + interest + n \<and>
    (\<forall>m. amount = Some m \<longrightarrow> n = m) \<and>
    map ca_asset (po_collateral_assets p') = map ca_asset (po_collateral_assets p) \<and>
    cr_messages r = [Plain (WasmExecute proxy (MintTokens denom n recipient) [])] \<and>
    a_info (bk_credit_asset b) = NativeToken denom \<and> cc_osmosis_proxy config = Some proxy \<and>
    \<not> bk_frozen b \<and> bk_oracle_set b \<and>
    insolvency_check st' env Q (Some b') (po_collateral_assets p') (po_credit_amount p') (bk_credit_price b') True config
      = Inr ((False, ltv, fee), avg)"
proof -
  obtain st1 p1 b1 rs st2 b2 n m st3 msg s where
    fz: "\<not> bk_frozen b"
    and acc: "accrue st Q env config p b (sender info) False = Inr (st1, p1, b1, rs)"
    and tal: "(if po_credit_amount p1 = 0 then update_basket_tally st1 Q env b1 (po_collateral_assets p1)
                (po_collateral_assets p1) True config False
            else Inr (st1, b1)) = Inr (st2, b2)"
    and n: "increase_amount st2 Q env config p1 b2 amount LTV = Inr n"
    and m: "m = po_credit_amount p1 + n"
    and mint: "mint_debt L st2 Q env info config b2 i (p1\<lparr>po_credit_amount := m\<rparr>) n to = Inr (st3, msg)"
    and fr: "force_redemption s st3 info k = Inr st'" and r: "cr_messages r = [Plain msg]"
    using assms unfolding increase_debt_def Let_def
    by (clarsimp elim!: rbind_InrE simp: cdp_load_ok int_ok split: if_split_asm split del: if_split)
  obtain x where x: "priced st st1" "accrued_by x p p1" "basket_accrued_by x b b1"
    using accrue_effect[OF acc] by blast
  have r12: "priced st1 st2 \<and> rated b1 b2" using tal tally_effect by (auto split: if_split_asm)
  let ?p = "p1\<lparr>po_credit_amount := m\<rparr>" and ?b = "bk_set_credit b2 (bk_credit b2 + n)"
  obtain ltv fee avg recipient where
    solvent: "insolvency_check st2 env Q (Some b2) (po_collateral_assets p1) m (bk_credit_price b2) True config
        = Inr ((False, ltv, fee), avg)"
    and osc: "bk_oracle_set b2"
    and msg: "credit_mint_msg config ((bk_credit_asset b2)\<lparr>a_amount := n\<rparr>) recipient = Inr msg"
    and st3: "st3 = st2\<lparr>CD_POSITIONS := (CD_POSITIONS st2)(sender info \<mapsto> (pos_list st2 (sender info))[i := ?p]),
        CD_BASKET := Some ?b\<rparr>"
    using mint unfolding mint_debt_def Let_def
    by (auto elim!: rbind_InrE simp: int_ok index_ok pos_list_def split: if_split_asm)
  have pl: "pos_list st2 (sender info) = pos_list st (sender info)"
    using pricedD(1)[OF x(1)] pricedD(1)[of st1 st2] r12 by (simp add: pos_list_def)
  note fields = opted_fields[OF force_redemption_opted[OF fr]]
  have 1: "get_target_position st' (sender info) k = Inr (i, ?p)"
    by (rule target_updated[OF assms(4)])
      (use accruedD[OF x(2)] target_in_list(3)[OF assms(4)] fields(2) st3 pl in simp_all)
  have 2: "CD_BASKET st' = Some ?b" using fields(1) st3 by simp
  have 3: "bk_credit ?b = bk_credit b + x + n" "po_credit_amount ?p = po_credit_amount p + x + n"
    using ratedD(2)[of b1 b2] r12 basket_accruedD(2)[OF x(3)] accruedD(2)[OF x(2)] m by simp_all
  have 4: "a_info (bk_credit_asset b2) = a_info (bk_credit_asset b)"
    using ratedD(4)[of b1 b2] r12 basket_accruedD(7)[OF x(3)] by simp
  have 5: "bk_oracle_set b" using osc ratedD(6)[of b1 b2] r12 basket_accruedD(5)[OF x(3)] by simp
  have 6: "insolvency_check st' env Q (Some ?b) (po_collateral_assets ?p) m (bk_credit_price ?b) True config
      = Inr ((False, ltv, fee), avg)"
  proof -
    have "CD_STORED_PRICES st' = CD_STORED_PRICES st2"
      using opted_prices[OF force_redemption_opted[OF fr]] st3 by simp
    then have "insolvency_check st' env Q (Some ?b) (po_collateral_assets p1) m (bk_credit_price b2) True config =
        insolvency_check st2 env Q (Some b2) (po_collateral_assets p1) m (bk_credit_price b2) True config"
      by (rule insolvency_check_cong) simp
    then show ?thesis using solvent by (simp add: bk_set_credit_def)
  qed
  have 7: "map ca_asset (po_collateral_assets ?p) = map ca_asset (po_collateral_assets p)"
  proof -
    have "list_all2 (\<lambda>c c'. ca_asset c = ca_asset c') (po_collateral_assets p) (po_collateral_assets p1)"
      using x(2) by (auto simp: accrued_by_def elim!: list_all2_mono)
    then show ?thesis using map_eq_of_all2 by (simp add: list_all2_conv_all_nth list_eq_iff_nth_eq)
  qed
  have 8: "amount = Some a \<Longrightarrow> n = a" for a using n by (simp add: increase_amount_def)
  obtain proxy denom where 9: "cc_osmosis_proxy config = Some proxy" "a_info (bk_credit_asset b2) = NativeToken denom"
    "msg = WasmExecute proxy (MintTokens denom n recipient) []"
    using burn_msg_native[OF msg] by auto
  have c: "a_info (bk_credit_asset b) = NativeToken denom"
    "cr_messages r = [Plain (WasmExecute proxy (MintTokens denom n recipient) [])]"
    using 4 9 r by simp_all
  have 10: "insolvency_check st' env Q (Some ?b) (po_collateral_assets ?p) (po_credit_amount ?p) (bk_credit_price ?b) True config
      = Inr ((False, ltv, fee), avg)" using 6 by simp
  show ?thesis
    by (intro exI conjI, rule 1, rule 2, rule 3(2), rule 3(1))
      (use 8 in blast, rule 7, rule c(2), rule c(1), rule 9(1), rule fz, rule 5, rule 10)
qed

theorem borrowing_mints_the_debt_witness:
  "\<exists>(st'::cdp_storage) (r::cdp_response) interest n p' b' proxy denom recipient.
     get_target_position st' ''alice'' 7 = Inr (0, p') \<and> CD_BASKET st' = Some b' \<and>
     po_credit_amount p' = po_credit_amount (cdp_demo_position 7 100 200) + interest + n \<and>
     bk_credit b' = bk_credit (cdp_demo_basket (200 + 100) 40) + interest + n \<and> (\<forall>m. Some 100 = Some m \<longrightarrow> n = m) \<and>
     cr_messages r = [Plain (WasmExecute proxy (MintTokens denom n recipient) [])]"
proof -
  obtain st' r where ok: "increase_debt demo_lib (cdp_demo_st 200 100 40) cdp_demo_querier cdp_year (demo_info ''alice'' []) 7
     (Some 100) None None = Inr (st', r)" using cdp_demo_borrows by blast
  have pos: "get_target_position (cdp_demo_st 200 100 40) (sender (demo_info ''alice'' [])) 7 = Inr (0, cdp_demo_position 7 100 200)"
    by (simp add: get_target_position_def find_index_of_def)
  note t = borrowing_mints_the_debt[OF ok cdp_demo_fields(2,1) pos, unfolded cdp_demo_fields(8)]
  show ?thesis
    using t by (elim exE conjE) (intro exI conjI; assumption)
qed

text \<open>
  The stored positions in the loop of a withdrawal of positive amounts: untouched until something was taken,
  then with the running position in its place, or without it once it is empty.
\<close>

definition position_stored :: "Position option \<Rightarrow> nat \<Rightarrow> Position list \<Rightarrow> Position list option" where
  "position_stored q i ps = (case q of
       Some p \<Rightarrow> Some (ps[i := p])
     | None \<Rightarrow> let rest = take i ps @ drop (Suc i) ps in if rest = [] then None else Some rest)"

definition running :: "Position \<Rightarrow> Position option" where
  "running p = (if check_for_empty_position (po_collateral_assets p) then None else Some p)"

definition stored_out :: "cdp_storage \<Rightarrow> Position \<Rightarrow> addr \<Rightarrow> nat \<Rightarrow> withdraw_state \<Rightarrow> bool" where
  "stored_out st p u i s \<longleftrightarrow>
     (ws_coins s = [] \<and> CD_POSITIONS (ws_storage s) u = CD_POSITIONS st u \<and> ws_position s = p \<or>
      CD_POSITIONS (ws_storage s) u = position_stored (running (ws_position s)) i (pos_list st u)) \<and>
     (\<exists>cs. ws_position s = p\<lparr>po_collateral_assets := cs\<rparr>)"

lemma withdraw_cAsset_stored:
  assumes "withdraw_cAsset Q env config b u i w s = Inr s'" and "stored_out st p u i s" and "ca_amount w \<noteq> 0"
    and "i < length (pos_list st u)"
  shows "stored_out st p u i s'"
proof (cases "s' = s")
  case False
  let ?P = "\<lambda>cAsset. asset_info_equal (ca_info cAsset) (ca_info w)"
  let ?q = "\<lambda>ci a. take_collateral (ws_position s) ci a (ca_amount w)"
  obtain ci a st1 where f: "find_index_of ?P (po_collateral_assets (ws_position s)) = Some (ci, a)"
    and le: "ca_amount w \<le> ca_amount a"
    and sv: "save_withdrawn (ws_storage s) u i (?q ci a) = Inr st1"
    and s': "ws_storage s' = st1" "ws_position s' = ?q ci a"
    using assms(1) False unfolding withdraw_cAsset_def Let_def
    by (auto elim!: rbind_InrE split: option.splits if_split_asm)
  have "a \<in> set (po_collateral_assets (ws_position s))" using f by (auto simp: find_index_of_Some)
  then have "\<not> check_for_empty_position (po_collateral_assets (ws_position s))"
    using le assms(3) by (metis empty_position_iff le_zero_eq)
  then have "running (ws_position s) = Some (ws_position s)" by (simp add: running_def)
  then have l: "pos_list (ws_storage s) u = pos_list st u \<or> pos_list (ws_storage s) u = (pos_list st u)[i := ws_position s]"
    using assms(2) by (auto simp: stored_out_def position_stored_def pos_list_def)
  have "CD_POSITIONS st1 u = position_stored (running (?q ci a)) i (pos_list st u)"
    using sv l unfolding save_withdrawn_def Let_def
    by (auto elim!: rbind_InrE simp: index_ok position_stored_def running_def pos_list_def Let_def split: if_split_asm)
  moreover have "\<exists>cs. ?q ci a = p\<lparr>po_collateral_assets := cs\<rparr>"
    using assms(2) by (auto simp: stored_out_def take_collateral_def Let_def)
  ultimately show ?thesis using s' by (simp add: stored_out_def)
qed (use assms in simp)

lemma accrued_assets:
  assumes "accrued_by n p p1"
  shows "map ca_asset (po_collateral_assets p1) = map ca_asset (po_collateral_assets p)"
proof -
  have "list_all2 (\<lambda>c c'. ca_asset c = ca_asset c') (po_collateral_assets p) (po_collateral_assets p1)"
    using assms by (auto simp: accrued_by_def elim!: list_all2_mono)
  then show ?thesis by (simp add: list_all2_conv_all_nth list_eq_iff_nth_eq)
qed

lemma held_assets:
  assumes "map ca_asset cs1 = map ca_asset cs2"
  shows "held d cs1 = held d cs2"
proof -
  have "list_all2 (\<lambda>c c'. ca_asset c = ca_asset c') cs1 cs2"
    using assms by (simp add: list_all2_conv_all_nth list_eq_iff_nth_eq)
  then show ?thesis by (induction rule: list_all2_induct) (auto simp: held_def)
qed

text \<open>
  C6. A withdrawal of positive amounts takes collateral only from the position of its owner (the sender, or, when
  the contract calls itself for somebody, the recipient), and sends the recipient exactly the native coins it
  takes. Of the owner's positions, the withdrawn one is stored with the debt after the accrual and the
  collateral left, or is gone when nothing is left; when nothing is sent the positions may stay as they were. What
  is left after coins were sent is solvent against the borrow limit, and nobody else's positions change.
\<close>

theorem withdrawal_pays_the_collateral_taken:
  assumes "cdp_withdraw L st Q env info k cs to = Inr (st', r)" and "\<forall>c\<in>set cs. ca_amount c \<noteq> 0"
    and "CD_BASKET st = Some b" and "CD_CONFIG st = Some config"
  shows "\<exists>owner i p stp p1 bp rs coins recipient collateral.
    owner = (if sender info = contract_address env \<and> to \<noteq> None then recipient else sender info) \<and>
    (case to of None \<Rightarrow> recipient = sender info | Some a \<Rightarrow> lib_addr_validate L a = Inr recipient) \<and>
    get_target_position st owner k = Inr (i, p) \<and>
    accrue st Q env config p b owner False = Inr (stp, p1, bp, rs) \<and>
    cr_messages r = (if coins \<noteq> [] then [ReplyOnSuccess (BankSend recipient coins) WITHDRAW_REPLY_ID] else []) \<and>
    (\<forall>d. held d collateral + sent d coins = held d (po_collateral_assets p)) \<and>
    (coins \<noteq> [] \<longrightarrow> (\<exists>ltv fee avg. insolvency_check stp env Q (Some bp) collateral (po_credit_amount p1)
        (bk_credit_price bp) True config = Inr ((False, ltv, fee), avg))) \<and>
    (CD_POSITIONS st' owner = position_stored (running (p1\<lparr>po_collateral_assets := collateral\<rparr>)) i (pos_list st owner) \<or>
     coins = [] \<and> CD_POSITIONS st' owner = CD_POSITIONS st owner) \<and>
    (\<forall>v. v \<noteq> owner \<longrightarrow> CD_POSITIONS st' v = CD_POSITIONS st v)"
proof -
  obtain owner i p st1 p1 b1 rs s st2 b2 wp recipient where
    own: "owner = (if sender info = contract_address env \<and> to \<noteq> None then recipient else sender info)"
    and rec: "(case to of Some s \<Rightarrow> map_err CdpStd (lib_addr_validate L s) | None \<Rightarrow> Inr (sender info)) = Inr recipient"
    and pos: "get_target_position st owner k = Inr (i, p)"
    and acc: "accrue st Q env config p b owner False = Inr (st1, p1, b1, rs)"
    and loop: "rfold (withdraw_cAsset Q env config b1 owner i) cs
       \<lparr>ws_storage = st1, ws_position = p1, ws_tally = [], ws_prop_assets = [], ws_amounts = [],
        ws_coins = []\<rparr> = Inr s"
    and tal: "(if po_credit_amount (ws_position s) \<noteq> 0
        then update_basket_tally (ws_storage s) Q env b1 (ws_tally s)
               (po_collateral_assets (ws_position s)) False config False
        else Inr (ws_storage s, b1)) = Inr (st2, b2)"
    and st': "st' = st2\<lparr>CD_BASKET := Some b2, CD_WITHDRAW := wp\<rparr>"
    and r: "cr_messages r = (if ws_coins s \<noteq> [] then [ReplyOnSuccess (BankSend recipient (ws_coins s)) WITHDRAW_REPLY_ID] else [])"
    using assms(1,3,4) unfolding cdp_withdraw_def Let_def
    by (clarsimp elim!: rbind_InrE simp: cdp_load_ok split: if_split_asm split del: if_split)
  obtain n where n: "priced st st1" "accrued_by n p p1" using accrue_effect[OF acc] by blast
  have po: "paid_out Q env config st1 b1 p1 owner i s"
    by (rule withdraws_paid[OF loop])
      (use pos target_in_list(3)[OF pos] accruedD(1)[OF n(2)] n(1) in \<open>auto simp: paid_out_def\<close>)
  have id: "po_position_id p1 = k" using target_in_list(3)[OF pos] accruedD(1)[OF n(2)] by simp
  note h = held_assets[OF accrued_assets[OF n(2)]]
  have "priced (ws_storage s) st2" using tal tally_effect by (auto split: if_split_asm)
  then have others: "CD_POSITIONS st' v = CD_POSITIONS st v" if "v \<noteq> owner" for v
    using that po pricedD(1)[of "ws_storage s" st2] pricedD(1)[OF n(1)] st' by (simp add: paid_out_def)
  have "stored_out st1 p1 owner i s"
  proof (rule rfold_invariant[OF _ _ loop])
    show "stored_out st1 p1 owner i t'" if "w \<in> set cs" "stored_out st1 p1 owner i t"
      "withdraw_cAsset Q env config b1 owner i w t = Inr t'" for w t t'
      by (rule withdraw_cAsset_stored[OF that(3,2)])
        (use that(1) assms(2) target_in_list(1)[OF pos] pricedD(1)[OF n(1)] in \<open>auto simp: pos_list_def\<close>)
    have "\<exists>cs. p1 = p1\<lparr>po_collateral_assets := cs\<rparr>" by (intro exI[of _ "po_collateral_assets p1"]) simp
    then show "stored_out st1 p1 owner i \<lparr>ws_storage = st1, ws_position = p1, ws_tally = [], ws_prop_assets = [],
        ws_amounts = [], ws_coins = []\<rparr>" by (simp add: stored_out_def)
  qed
  moreover have "CD_POSITIONS st' = CD_POSITIONS (ws_storage s)" "pos_list st1 owner = pos_list st owner"
    using \<open>priced (ws_storage s) st2\<close> pricedD(1) st' pricedD(1)[OF n(1)] by (simp_all add: pos_list_def)
  ultimately have kept: "CD_POSITIONS st' owner =
       position_stored (running (p1\<lparr>po_collateral_assets := po_collateral_assets (ws_position s)\<rparr>)) i (pos_list st owner) \<or>
     ws_coins s = [] \<and> CD_POSITIONS st' owner = CD_POSITIONS st owner"
    using pricedD(1)[OF n(1)] by (auto simp: stored_out_def)
  have rcp: "case to of None \<Rightarrow> recipient = sender info | Some a \<Rightarrow> lib_addr_validate L a = Inr recipient"
    using rec by (auto simp: map_err_eq_Inr split: option.splits)
  have bal: "\<forall>d. held d (po_collateral_assets (ws_position s)) + sent d (ws_coins s) = held d (po_collateral_assets p)"
    using po h by (simp add: paid_out_def)
  have ok: "ws_coins s \<noteq> [] \<longrightarrow> (\<exists>ltv fee avg. insolvency_check st1 env Q (Some b1)
      (po_collateral_assets (ws_position s)) (po_credit_amount p1) (bk_credit_price b1) True config = Inr ((False, ltv, fee), avg))"
    using po by (simp add: paid_out_def)
  show ?thesis
    by (intro exI conjI, rule own, rule rcp, rule pos, rule acc, rule r, rule bal, rule ok, rule kept) (use others in blast)
qed

theorem withdrawal_pays_the_collateral_taken_witness:
  "\<exists>(st'::cdp_storage) (r::cdp_response) owner i p p1 coins recipient collateral.
     owner = (if ''alice'' = contract_address cdp_year \<and> (None :: string option) \<noteq> None then recipient else ''alice'') \<and>
     get_target_position (cdp_demo_st 200 100 40) owner 7 = Inr (i, p) \<and>
     cr_messages r = (if coins \<noteq> [] then [ReplyOnSuccess (BankSend recipient coins) WITHDRAW_REPLY_ID] else []) \<and>
     (\<forall>d. held d collateral + sent d coins = held d (po_collateral_assets p)) \<and>
     (CD_POSITIONS st' owner =
        position_stored (running (p1\<lparr>po_collateral_assets := collateral\<rparr>)) i (pos_list (cdp_demo_st 200 100 40) owner) \<or>
      coins = [] \<and> CD_POSITIONS st' owner = CD_POSITIONS (cdp_demo_st 200 100 40) owner)"
proof -
  obtain st' r where ok: "cdp_withdraw demo_lib (cdp_demo_st 200 100 40) cdp_demo_querier cdp_year (demo_info ''alice'' []) 7
       [cdp_demo_asset 30] None = Inr (st', r)" using cdp_demo_withdraws by blast
  have s: "\<forall>c\<in>set [cdp_demo_asset 30]. ca_amount c \<noteq> 0" by (simp add: cdp_demo)
  note t = withdrawal_pays_the_collateral_taken[OF ok s cdp_demo_fields(2,1), unfolded cdp_demo_fields(8)]
  show ?thesis
    using t by (elim exE conjE) (intro exI conjI; assumption)
qed

lemma repay_accrues:
  assumes acc: "(if sender info \<noteq> addr_or_empty (cc_stability_pool config) then
      rbind (accrue st Q env config p b owner False) (\<lambda>(st, p, b, _). Inr (st, p, b))
    else Inr (st, p, b)) = Inr (st1, p1, b1)"
  shows "\<exists>n. priced st st1 \<and> accrued_by n p p1 \<and> bk_credit b1 = bk_credit b + n \<and>
      bk_pending_revenue b1 = bk_pending_revenue b + n \<and> (n = 0 \<or> cc_stability_pool config \<noteq> Some (sender info))"
proof (cases "sender info \<noteq> addr_or_empty (cc_stability_pool config)")
  case True
  then obtain rs where acc1: "accrue st Q env config p b owner False = Inr (st1, p1, b1, rs)"
    using acc by (auto elim!: rbind_InrE)
  have "cc_stability_pool config \<noteq> Some (sender info)" using True by (auto simp: addr_or_empty_def)
  then show ?thesis using accrue_effect[OF acc1] basket_accruedD(2,3) by blast
next
  case False
  have "list_all2 (\<lambda>c c'. \<exists>r. c' = c\<lparr>ca_rate_index := r\<rparr>) cs cs" for cs :: "cAsset list"
  proof (rule list_all2_refl)
    fix c :: cAsset show "\<exists>r. c = c\<lparr>ca_rate_index := r\<rparr>" by (intro exI[of _ "ca_rate_index c"]) simp
  qed
  then show ?thesis using False acc by (intro exI[of _ 0]) (simp add: accrued_by_def)
qed

lemma burn_rev_effect:
  assumes "credit_burn_rev_msg config env a b = Inr (msgs, b')"
  obtains share where "bk_pending_revenue b' + share = bk_pending_revenue b" "share \<le> a_amount a"
    "sum_list (map (msg_value \<circ> Plain) msgs) + (if cc_staking_contract config = None then share else 0) = a_amount a"
proof -
  obtain x y where xy: "burn_and_revenue b (a_amount a) = (x, y)" by fastforce
  have "sum_list (map (msg_value \<circ> Plain) msgs) + (if cc_staking_contract config = None then y else 0) = x + y"
    using assms xy unfolding credit_burn_rev_msg_def Let_def
    by (clarsimp elim!: rbind_InrE simp: asset_to_coin_def map_err_eq_Inr split: AssetInfo.splits option.splits if_split_asm)
  moreover have "bk_pending_revenue b' + y = bk_pending_revenue b"
    using assms xy unfolding credit_burn_rev_msg_def Let_def
    by (clarsimp elim!: rbind_InrE simp: int_ok split: AssetInfo.splits option.splits split del: if_split)
  ultimately show ?thesis using burn_and_revenue_sum[OF xy] by (intro that[of y]) auto
qed

text \<open>
  C14. A repayment lowers the debt of the position and the basket's debt by the same amount, the lesser of what
  was sent and the debt with its accrued interest (none accrues when the stability pool repays). The basket's
  pending revenue grows by that interest and falls by the share of the repayment that is revenue. With a staking
  contract, what was sent is burned, deposited as revenue and sent back in full; without one the share of the
  revenue is taken from the pending revenue and sent nowhere.
  The other positions stay as they were, and the position goes exactly when it had no collateral.
\<close>

theorem repayment_accounting_cdp:
  assumes "cdp_repay L st Q env info k u a x = Inr (st', r)" and "CD_BASKET st = Some b"
    and "CD_CONFIG st = Some config"
  shows "\<exists>owner i p interest n share b'. get_target_position st owner k = Inr (i, p) \<and> CD_BASKET st' = Some b' \<and>
    (interest = 0 \<or> cc_stability_pool config \<noteq> Some (sender info)) \<and>
    n = min (a_amount a) (po_credit_amount p + interest) \<and>
    bk_credit b' = bk_credit b + interest - n \<and>
    share \<le> n \<and> bk_pending_revenue b' + share = bk_pending_revenue b + interest \<and>
    sum_list (map msg_value (cr_messages r)) + (if cc_staking_contract config = None then share else 0) = a_amount a \<and>
    (if check_for_empty_position (po_collateral_assets p)
     then CD_POSITIONS st' owner = Some (take i (pos_list st owner) @ drop (Suc i) (pos_list st owner))
     else \<exists>p'. CD_POSITIONS st' owner = Some ((pos_list st owner)[i := p']) \<and> po_position_id p' = k \<and>
        po_credit_amount p' + n = po_credit_amount p + interest \<and>
        map ca_asset (po_collateral_assets p') = map ca_asset (po_collateral_assets p)) \<and>
    (\<forall>v. v \<noteq> owner \<longrightarrow> CD_POSITIONS st' v = CD_POSITIONS st v)"
proof -
  obtain owner i p st1 p1 b1 st2 b2 st3 removed b3 msgs ex rp where
    pos: "get_target_position st owner k = Inr (i, p)"
    and acc: "(if sender info \<noteq> addr_or_empty (cc_stability_pool config) then
              rbind (accrue st Q env config p b owner False) (\<lambda>(st, p, b, _). Inr (st, p, b))
            else Inr (st, p, b)) = Inr (st1, p1, b1)"
    and rp: "rp = a_amount a - (a_amount a - po_credit_amount p1)"
    and tal: "(if po_credit_amount (p1\<lparr>po_credit_amount := po_credit_amount p1 - a_amount a\<rparr>) = 0
        then update_basket_tally st1 Q env b1
           (po_collateral_assets (p1\<lparr>po_credit_amount := po_credit_amount p1 - a_amount a\<rparr>))
           (po_collateral_assets (p1\<lparr>po_credit_amount := po_credit_amount p1 - a_amount a\<rparr>)) False config False
        else Inr (st1, b1)) = Inr (st2, b2)"
    and sv: "save_repaid st2 owner i (p1\<lparr>po_credit_amount := po_credit_amount p1 - a_amount a\<rparr>) = Inr (st3, removed)"
    and burn: "credit_burn_rev_msg config env (a\<lparr>a_amount := rp\<rparr>) b2 = Inr (msgs, b3)"
    and ex: "excess_msgs L info b3 (a_amount a - po_credit_amount p1) x = Inr ex"
    and st': "st' = st3\<lparr>CD_BASKET := Some (bk_set_credit b3 (bk_credit b3 - rp))\<rparr>"
    and r: "cr_messages r = map Plain (msgs @ ex)"
    using assms unfolding cdp_repay_def Let_def
    by (clarsimp elim!: rbind_InrE simp: cdp_load_ok split: if_split_asm split del: if_split)
  obtain n where n: "priced st st1" "accrued_by n p p1" "bk_credit b1 = bk_credit b + n"
    "bk_pending_revenue b1 = bk_pending_revenue b + n" "n = 0 \<or> cc_stability_pool config \<noteq> Some (sender info)" using repay_accrues[OF acc] by blast
  note pn = accruedD[OF n(2)]
  have r12: "priced st1 st2 \<and> rated b1 b2" using tal tally_effect by (auto split: if_split_asm)
  have pl: "pos_list st2 owner = pos_list st owner"
    using pricedD(1)[OF n(1)] pricedD(1)[of st1 st2] r12 by (simp add: pos_list_def)
  have rp_min: "rp = min (a_amount a) (po_credit_amount p + n)" using rp pn by simp
  obtain share where share: "bk_pending_revenue b3 + share = bk_pending_revenue b2" "share \<le> rp"
    "sum_list (map (msg_value \<circ> Plain) msgs) + (if cc_staking_contract config = None then share else 0) = rp"
    by (rule burn_rev_effect[OF burn]) simp
  have pend: "bk_pending_revenue (bk_set_credit b3 (bk_credit b3 - rp)) + share = bk_pending_revenue b + n"
    using share(1) ratedD(3)[of b1 b2] r12 n(4) by simp
  have paid: "sum_list (map msg_value (cr_messages r)) + (if cc_staking_contract config = None then share else 0) = a_amount a"
    using share(3) excess_value[OF ex] rp r by (simp split: if_splits)
  have credit: "bk_credit (bk_set_credit b3 (bk_credit b3 - rp)) = bk_credit b + n - rp"
    using burn_rev_same[OF burn] ratedD(2)[of b1 b2] r12 n(3) by auto
  note same = accrued_assets[OF n(2)]
  let ?q = "p1\<lparr>po_credit_amount := po_credit_amount p1 - a_amount a\<rparr>" and ?l = "pos_list st owner"
  have rem: "removed = check_for_empty_position (po_collateral_assets p)"
    using sv pl target_in_list(2)[OF pos] unfolding save_repaid_def Let_def
    by (auto elim!: rbind_InrE simp: index_ok pos_list_def split: if_split_asm)
  have q: "po_position_id ?q = k" "po_credit_amount ?q + rp = po_credit_amount p + n"
    "map ca_asset (po_collateral_assets ?q) = map ca_asset (po_collateral_assets p)"
    using rp pn target_in_list(3)[OF pos] same by simp_all
  have left: "if check_for_empty_position (po_collateral_assets p)
     then CD_POSITIONS st' owner = Some (take i ?l @ drop (Suc i) ?l)
     else \<exists>p'. CD_POSITIONS st' owner = Some (?l[i := p']) \<and> po_position_id p' = k \<and>
        po_credit_amount p' + rp = po_credit_amount p + n \<and>
        map ca_asset (po_collateral_assets p') = map ca_asset (po_collateral_assets p)"
    using sv
  proof (cases rule: save_repaid_cases)
    case 1
    with rem st' pl have "CD_POSITIONS st' owner = Some (?l[i := ?q])" by simp
    with q 1 rem show ?thesis by auto
  qed (use rem st' pl in simp)
  have others: "\<forall>v. v \<noteq> owner \<longrightarrow> CD_POSITIONS st' v = CD_POSITIONS st v"
    using sv pricedD(1)[OF n(1)] pricedD(1)[of st1 st2] r12 st'
    by (cases rule: save_repaid_cases) simp_all
  have saved: "CD_BASKET st' = Some (bk_set_credit b3 (bk_credit b3 - rp))" using st' by simp
  show ?thesis
    by (intro exI conjI, rule pos, rule saved, rule n(5), rule rp_min, rule credit, rule share(2), rule pend, rule paid,
        rule left, rule others)
qed

theorem repayment_accounting_cdp_witness:
  "\<exists>(st'::cdp_storage) (r::cdp_response) owner i p interest n share b'.
     get_target_position (cdp_demo_st 200 100 40) owner 7 = Inr (i, p) \<and>
     CD_BASKET st' = Some b' \<and> n = min 50 (po_credit_amount p + interest) \<and> bk_credit b' = 300 + interest - n \<and>
     share \<le> n \<and> bk_pending_revenue b' + share = 40 + interest \<and> sum_list (map msg_value (cr_messages r)) = 50"
proof -
  obtain st' r where ok: "cdp_repay demo_lib (cdp_demo_st 200 100 40) cdp_demo_querier cdp_year (demo_info ''alice'' []) 7 None
     \<lparr>a_info = NativeToken ''cdt'', a_amount = 50\<rparr> None = Inr (st', r)" using cdp_demo_repays by blast
  have c: "(cc_staking_contract cdp_demo_config = None) = False" "bk_credit (cdp_demo_basket (200 + 100) 40) = 300"
    "bk_pending_revenue (cdp_demo_basket (200 + 100) 40) = 40" by (simp_all add: cdp_demo_config_def cdp_demo_basket_def)
  note t = repayment_accounting_cdp[OF ok cdp_demo_fields(2,1), unfolded c Asset.select_convs if_False add_0_right]
  show ?thesis
    using t by (elim exE conjE) (intro exI conjI; assumption)
qed

text \<open>
  C15. A position is liquidated only when its loan to value is over the liquidation limit, the basket is not
  frozen, an hour has passed since it was, and the chain has recovered from a downtime. The comments and the
  readme speak of a frozen basket as one that refuses withdrawals and new debt only; the code refuses
  liquidations too.
\<close>

theorem liquidation_needs_an_insolvent_position:
  assumes "cdp_liquidate L st Q env info k u = Inr (st', r)" and "CD_BASKET st = Some b" and "CD_CONFIG st = Some config"
  shows "\<exists>owner i p ltv fee avg. get_target_position st owner k = Inr (i, p) \<and> \<not> bk_frozen b \<and>
    qr_recovered Q \<noteq> Inr False \<and>
    (\<forall>timer. CD_FREEZE_TIMER st = Some timer \<longrightarrow> tm_end_time timer \<le> time_seconds env \<longrightarrow>
       tm_end_time timer + 3600 \<le> time_seconds env) \<and>
    insolvency_check st env Q (Some b) (po_collateral_assets p) (po_credit_amount p) (bk_credit_price b) False config
      = Inr ((True, ltv, fee), avg)"
proof -
  obtain owner i p ltv fee avg where 1: "check_downtime Q = Inr ()" "check_freeze st env b = Inr ()"
    and pos: "get_target_position st owner k = Inr (i, p)"
    and ins: "insolvency_check st env Q (Some b) (po_collateral_assets p) (po_credit_amount p) (bk_credit_price b) False config
      = Inr ((True, ltv, fee), avg)"
    using assms unfolding cdp_liquidate_def
    by (clarsimp elim!: rbind_InrE simp: cdp_load_ok split: if_split_asm split del: if_split)
  have fz: "\<not> bk_frozen b" using 1(2) by (auto simp: check_freeze_def split: if_split_asm)
  have dt: "qr_recovered Q \<noteq> Inr False" using 1(1) by (auto simp: check_downtime_def)
  have gr: "\<forall>timer. CD_FREEZE_TIMER st = Some timer \<longrightarrow> tm_end_time timer \<le> time_seconds env \<longrightarrow>
       tm_end_time timer + 3600 \<le> time_seconds env"
    using 1(2) by (auto simp: check_freeze_def Let_def CDP_SECONDS_PER_DAY_def split: if_split_asm)
  show ?thesis by (intro exI conjI, rule pos, rule fz, rule dt, rule gr, rule ins)
qed

theorem liquidation_needs_an_insolvent_position_witness:
  "\<exists>st' r owner i p ltv fee avg. cdp_liquidate demo_lib (cdp_demo_st 700 100 40) cdp_demo_querier cdp_year
       (demo_info ''carol'' []) 7 ''alice'' = Inr (st', r) \<and>
     get_target_position (cdp_demo_st 700 100 40) owner 7 = Inr (i, p) \<and>
     insolvency_check (cdp_demo_st 700 100 40) cdp_year cdp_demo_querier (Some (cdp_demo_basket (700 + 100) 40))
       (po_collateral_assets p) (po_credit_amount p) (bk_credit_price (cdp_demo_basket (700 + 100) 40)) False
       cdp_demo_config = Inr ((True, ltv, fee), avg)"
proof -
  obtain st' r where ok: "cdp_liquidate demo_lib (cdp_demo_st 700 100 40) cdp_demo_querier cdp_year
       (demo_info ''carol'' []) 7 ''alice'' = Inr (st', r)" using cdp_demo_liquidates by blast
  from liquidation_needs_an_insolvent_position[OF ok cdp_demo_fields(2,1)] ok show ?thesis by blast
qed

text \<open>
  A liquidation asks for at least one unit of the debt token and at most the debt of the position.
\<close>

theorem repay_quantities_are_bounded:
  assumes "get_repay_quantities config b p ltv borrow_LTV tv = Inr (v, amount)"
  shows "\<exists>n. 0 < n \<and> n \<le> po_credit_amount p \<and> amount = n * DECIMAL_FRACTIONAL"
  using assms unfolding get_repay_quantities_def
  by (auto elim!: rbind_InrE simp: res_ok dec_of_uint_def split: if_split_asm)

theorem repay_quantities_are_bounded_witness:
  "\<exists>v amount n. get_repay_quantities cdp_demo_config (cdp_demo_basket 800 0) (cdp_demo_position 7 100 700)
     700000000000000000 500000000000000000 (1000 * DECIMAL_FRACTIONAL) = Inr (v, amount) \<and>
     0 < n \<and> n \<le> 700 \<and> amount = n * DECIMAL_FRACTIONAL"
proof -
  obtain v amount where ok: "get_repay_quantities cdp_demo_config (cdp_demo_basket 800 0) (cdp_demo_position 7 100 700)
     700000000000000000 500000000000000000 (1000 * DECIMAL_FRACTIONAL) = Inr (v, amount)"
    using cdp_demo_quantities by fastforce
  have "po_credit_amount (cdp_demo_position 7 100 700) = 700" by (simp add: cdp_demo_position_def)
  then show ?thesis using repay_quantities_are_bounded[OF ok] ok by metis
qed

text \<open>
  There is one interest rate for each collateral type, and none is above 100 percent a year, whatever the
  caps and the slopes.
\<close>

theorem interest_rates_never_pass_one:
  assumes "get_interest_rates st Q env b caps l = Inr (st', b', caps', rates)"
  shows "length rates = length (bk_collateral_types b) \<and> (\<forall>r\<in>set rates. r \<le> DECIMAL_FRACTIONAL)"
proof -
  obtain config rs b1 caps1 ratios ps two where
    base: "rmapM (base_rate config b) (bk_collateral_types b) = Inr rs"
    and two: "rmapM (two_slope_rate config ps) (enumerate 0 rs) = Inr two"
    and multi: "rfold (multi_cap_rates config b1 rs ps ratios) (bk_multi_asset_supply_caps b1) two = Inr rates"
    using assms unfolding get_interest_rates_def by (auto elim!: rbind_InrE)
  have "list_all2 (\<lambda>ir x. two_slope_rate config ps ir = Inr x) (enumerate 0 rs) two"
    using two by (simp add: rmapM_eq_Inr)
  then have "list_all2 (\<lambda>ir x. x \<le> DECIMAL_FRACTIONAL) (enumerate 0 rs) two"
    by (rule list_all2_mono) (rule two_slope_rate_le)
  then have capped: "rates_capped (length (bk_collateral_types b)) two"
    using rmapM_length[OF base] rmapM_length[OF two]
    by (auto simp: rates_capped_def in_set_conv_nth list_all2_conv_all_nth)
  have "rates_capped (length (bk_collateral_types b)) rates"
    by (rule rfold_invariant[where I = "rates_capped (length (bk_collateral_types b))", OF _ capped multi])
      (rule multi_cap_rates_capped)
  then show ?thesis by (simp add: rates_capped_def)
qed

theorem interest_rates_never_pass_one_witness:
  "\<exists>st' b' caps' rates. get_interest_rates (cdp_priced_st 40) cdp_demo_querier cdp_year (cdp_demo_basket 300 40)
       (bk_collateral_supply_caps (cdp_demo_basket 300 40)) (Some 600) = Inr (st', b', caps', rates) \<and>
     length rates = 1 \<and> (\<forall>r\<in>set rates. r \<le> DECIMAL_FRACTIONAL)"
proof -
  obtain st' b' caps' rates where ok: "get_interest_rates (cdp_priced_st 40) cdp_demo_querier cdp_year (cdp_demo_basket 300 40)
       (bk_collateral_supply_caps (cdp_demo_basket 300 40)) (Some 600) = Inr (st', b', caps', rates)"
    using cdp_demo_rates by (metis prod_cases4)
  have "length (bk_collateral_types (cdp_demo_basket 300 40)) = 1" by (simp add: cdp_demo_basket_def)
  then show ?thesis using interest_rates_never_pass_one[OF ok] ok by metis
qed

text \<open>
  In every such run the volatility index of an asset is at most one and its list keeps at most 48 entries.
\<close>

theorem volatility_stays_capped:
  assumes "cdp_instantiate L st0 Q env info msg = Inr (st, r)"
    and "CD_POSITIONS st0 = Map.empty" and "CD_VOLATILITY st0 = Map.empty"
    and "CD_VOLATILITY (cdp.run L ms st) key = Some v"
  shows "vol_index v \<le> DECIMAL_FRACTIONAL \<and> length (vol_list v) \<le> 48"
proof -
  have "cdp_ok 0 (cdp.run L ms st)" by (rule cdp.run_inv[OF cdp_ok_start[OF assms(1-3)]])
  then have "vols_ok (cdp.run L ms st)" by (auto simp: cdp_ok_def books_ok_def split: option.splits)
  then show ?thesis using assms(4) by (auto simp: vols_ok_def vol_ok_def VOLATILITY_LIST_LIMIT_def)
qed

theorem volatility_stays_capped_witness:
  "\<exists>st. \<forall>ms key v. CD_VOLATILITY (cdp.run demo_lib ms st) key = Some v \<longrightarrow>
     vol_index v \<le> DECIMAL_FRACTIONAL \<and> length (vol_list v) \<le> 48"
proof -
  obtain st r where st: "cdp_instantiate demo_lib cdp_empty cdp_demo_querier cdp_year (demo_info ''owner'' []) cdp_demo_msg
      = Inr (st, r)" using cdp_demo_starts by blast
  have "CD_POSITIONS cdp_empty = Map.empty" "CD_VOLATILITY cdp_empty = Map.empty" by (simp_all add: cdp_empty_def)
  then show ?thesis using volatility_stays_capped[OF st] by blast
qed

text \<open>Adding a deposit leaves the rate indices of the collateral that was there.\<close>

definition same_indices :: "cAsset list \<Rightarrow> cAsset list \<Rightarrow> bool" where
  "same_indices cs cs' \<longleftrightarrow> length cs \<le> length cs' \<and>
     (\<forall>j < length cs. ca_info (cs' ! j) = ca_info (cs ! j) \<and> ca_rate_index (cs' ! j) = ca_rate_index (cs ! j))"

lemma add_deposits_indices:
  assumes "rfold add_deposit xs (p, ys) = Inr (p', ys')"
  shows "same_indices (po_collateral_assets p) (po_collateral_assets p')"
proof -
  have "same_indices (po_collateral_assets p) (po_collateral_assets (fst (p', ys')))"
  proof (rule rfold_invariant[OF _ _ assms])
    fix x s s' assume a: "same_indices (po_collateral_assets p) (po_collateral_assets (fst s))" "add_deposit x s = Inr s'"
    obtain q zs where s: "s = (q, zs)" by fastforce
    show "same_indices (po_collateral_assets p) (po_collateral_assets (fst s'))"
      using a unfolding s add_deposit_def
      by (auto simp: same_indices_def nth_list_update nth_append find_index_of_Some ca_set_amount_def elim!: rbind_InrE
          split: option.splits)
  qed (simp add: same_indices_def)
  then show ?thesis by simp
qed

text \<open>
  C39. A deposit to a position accrues interest, which the basket's debt and its revenue take, but stores the
  position as it was before the accrual, with the collateral added: with its old debt and its old rate
  indices. Whatever accrual of that position and that basket comes next charges both the same amount, so
  the basket has the interest of the deposit once more than the position.
\<close>

theorem deposit_forgets_the_interest:
  assumes "cdp_deposit L st Q env info u (Some k) cs = Inr (st', r)"
    and "CD_BASKET st = Some b" and "CD_CONFIG st = Some config" and "CD_POSITIONS st owner \<noteq> None"
    and "validate_position_owner L info u = Inr owner"
  shows "\<exists>i p p' b' st1 p1 st2 p2 b2 rs interest.
    get_target_position st owner k = Inr (i, p) \<and> get_target_position st' owner k = Inr (i, p') \<and>
    CD_BASKET st' = Some b' \<and> (\<forall>d. held d (po_collateral_assets p') = held d (po_collateral_assets p) + held d cs) \<and>
    accrue st1 Q env config p1 b owner True = Inr (st2, p2, b2, rs) \<and>
    po_position_id p1 = k \<and> po_credit_amount p1 = po_credit_amount p \<and>
    po_credit_amount p2 = po_credit_amount p + interest \<and>
    bk_credit b' = bk_credit b + interest \<and> bk_pending_revenue b' = bk_pending_revenue b + interest \<and>
    po_credit_amount p' = po_credit_amount p \<and> same_indices (po_collateral_assets p) (po_collateral_assets p') \<and>
    (\<forall>st3 Q3 env3 config3 d st4 p4 b4 rs4. accrue st3 Q3 env3 config3 p' b' owner d = Inr (st4, p4, b4, rs4) \<longrightarrow>
       bk_credit b4 + po_credit_amount p = bk_credit b + po_credit_amount p4 + interest)"
proof -
  obtain ps i p s st1 xs where ps: "CD_POSITIONS st owner = Some ps"
    and f: "find_index_of (\<lambda>p. po_position_id p = k) ps = Some (i, p)"
    and fr: "force_redemption s st info k = Inr st1"
    and dep: "deposit_to_position st1 Q env config owner cs b ps i p = Inr (st', xs)"
    using assms unfolding cdp_deposit_def Let_def
    by (clarsimp elim!: rbind_InrE simp: cdp_load_ok split: option.splits if_split_asm)
  obtain p1 st2 p2 b2 rs st3 b3 where add: "rfold add_deposit cs (p, []) = Inr (p1, xs)"
    and acc: "accrue st1 Q env config p1 b owner True = Inr (st2, p2, b2, rs)"
    and tal: "(if po_credit_amount p2 \<noteq> 0
        then update_basket_tally (st2\<lparr>CD_POSITIONS := (CD_POSITIONS st2)(owner \<mapsto> ps[i := p1])\<rparr>) Q env b2 cs
               (po_collateral_assets p2) True config False
        else Inr (st2\<lparr>CD_POSITIONS := (CD_POSITIONS st2)(owner \<mapsto> ps[i := p1])\<rparr>, b2)) = Inr (st3, b3)"
    and st': "st' = st3\<lparr>CD_BASKET := Some b3\<rparr>"
    using dep unfolding deposit_to_position_def Let_def by (auto elim!: rbind_InrE)
  have pos: "get_target_position st owner k = Inr (i, p)" using target_of_found[OF ps f] .
  note same = add_deposits_same[OF add] and id = target_in_list(3)[OF pos]
  obtain n where n: "priced st1 st2" "accrued_by n p1 p2" "basket_accrued_by n b b2"
    using accrue_effect[OF acc] by blast
  have t: "priced (st2\<lparr>CD_POSITIONS := (CD_POSITIONS st2)(owner \<mapsto> ps[i := p1])\<rparr>) st3" "rated b2 b3"
    using tal tally_effect by (auto split: if_split_asm)
  have stored: "CD_POSITIONS st' owner = Some ((pos_list st owner)[i := p1])"
    using pricedD(1)[OF t(1)] st' ps by (simp add: pos_list_def)
  have pos': "get_target_position st' owner k = Inr (i, p1)"
    by (rule target_updated[OF pos _ stored]) (use same id in simp)
  have basket: "CD_BASKET st' = Some b3" using st' by simp
  have money: "bk_credit b3 = bk_credit b + n" "bk_pending_revenue b3 = bk_pending_revenue b + n"
    using ratedD[OF t(2)] basket_accruedD[OF n(3)] by simp_all
  have heldp: "\<forall>d. held d (po_collateral_assets p1) = held d (po_collateral_assets p) + held d cs"
    using add_deposits_held[OF add] by blast
  have ids: "po_position_id p1 = k" "po_credit_amount p1 = po_credit_amount p"
    "po_credit_amount p2 = po_credit_amount p + n" using same id accruedD[OF n(2)] by simp_all
  have next_accrual: "\<forall>st3 Q3 env3 config3 d st4 p4 b4 rs4. accrue st3 Q3 env3 config3 p1 b3 owner d = Inr (st4, p4, b4, rs4) \<longrightarrow>
       bk_credit b4 + po_credit_amount p = bk_credit b + po_credit_amount p4 + n"
  proof (intro allI impI)
    fix st3 Q3 env3 config3 d st4 p4 b4 rs4
    assume "accrue st3 Q3 env3 config3 p1 b3 owner d = Inr (st4, p4, b4, rs4)"
    then obtain m where "accrued_by m p1 p4" "basket_accrued_by m b3 b4" using accrue_effect by blast
    then show "bk_credit b4 + po_credit_amount p = bk_credit b + po_credit_amount p4 + n"
      using money(1) ids(2) accruedD(2) basket_accruedD(2) by fastforce
  qed
  show ?thesis
    by (intro exI conjI, rule pos, rule pos', rule basket, rule heldp, rule acc, rule ids(1), rule ids(2),
        rule ids(3), rule money(1), rule money(2), rule ids(2),
        rule add_deposits_indices[OF add], rule next_accrual)
qed

theorem deposit_forgets_the_interest_witness:
  "\<exists>st' r i p' b' interest. cdp_deposit demo_lib (cdp_demo_st 200 100 40) cdp_demo_querier cdp_year (demo_info ''alice'' [])
       None (Some 7) [cdp_demo_asset 20] = Inr (st', r) \<and> get_target_position st' ''alice'' 7 = Inr (i, p') \<and>
     CD_BASKET st' = Some b' \<and> bk_credit b' = 300 + interest \<and> interest = 16 \<and> po_credit_amount p' = 200 \<and>
     same_indices [cdp_demo_asset 100] (po_collateral_assets p')"
proof -
  obtain st' r b1 where ok: "cdp_deposit demo_lib (cdp_demo_st 200 100 40) cdp_demo_querier cdp_year (demo_info ''alice'' []) None
     (Some 7) [cdp_demo_asset 20] = Inr (st', r)" and b1: "CD_BASKET st' = Some b1" "bk_credit b1 = 316"
    using cdp_demo_deposits by blast
  have ps: "CD_POSITIONS (cdp_demo_st 200 100 40) ''alice'' \<noteq> None" by simp
  have own: "validate_position_owner demo_lib (demo_info ''alice'' []) None = Inr ''alice''"
    by (simp add: validate_position_owner_def)
  have pos: "get_target_position (cdp_demo_st 200 100 40) ''alice'' 7 = Inr (0, cdp_demo_position 7 100 200)"
    by (simp add: get_target_position_def find_index_of_def)
  have c: "bk_credit (cdp_demo_basket (200 + 100) 40) = 300" "po_credit_amount (cdp_demo_position 7 100 200) = 200"
    "po_collateral_assets (cdp_demo_position 7 100 200) = [cdp_demo_asset 100]"
    by (simp_all add: cdp_demo)
  obtain i p p' b' interest where
    "get_target_position (cdp_demo_st 200 100 40) ''alice'' 7 = Inr (i, p)"
    "get_target_position st' ''alice'' 7 = Inr (i, p')" "CD_BASKET st' = Some b'"
    "bk_credit b' = bk_credit (cdp_demo_basket (200 + 100) 40) + interest" "po_credit_amount p' = po_credit_amount p"
    "same_indices (po_collateral_assets p) (po_collateral_assets p')"
    using deposit_forgets_the_interest[OF ok cdp_demo_fields(2,1) ps own] by blast
  with ok pos c b1 show ?thesis by (intro exI[of _ st'] exI[of _ r] exI[of _ i] exI[of _ p'] exI[of _ b'] exI[of _ interest]) auto
qed

text \<open>
  Bad debt is fulfilled only when the basket's revenue does not cover it: the revenue pays a part, the rest
  goes to an auction, and the basket's debt stays as it was.
\<close>

theorem bad_debt_needs_an_auction:
  assumes "check_and_fulfill_bad_debt st k u = Inr (st', r)" and "CD_BASKET st = Some b"
  shows "\<exists>i p p' b' auction. get_target_position st u k = Inr (i, p) \<and> get_target_position st' u k = Inr (i, p') \<and>
    CD_BASKET st' = Some b' \<and> bk_pending_revenue b < po_credit_amount p \<and> bk_pending_revenue b' = 0 \<and>
    po_credit_amount p' = po_credit_amount p - bk_pending_revenue b \<and> bk_credit b' = bk_credit b \<and>
    cr_messages r = [Plain (WasmExecute auction (StartAuction
       (Some \<lparr>ui_position_id = k, ui_position_owner = u\<rparr>)
       \<lparr>a_info = a_info (bk_credit_asset b), a_amount = po_credit_amount p'\<rparr> None) [])]"
proof -
  obtain i p st1 n m auction where pos: "get_target_position st u k = Inr (i, p)"
    and cov: "cover_bad_debt (po_credit_amount p) (bk_pending_revenue b) = (n, m)" and n: "n \<noteq> 0"
    and upd: "update_position st u (p\<lparr>po_credit_amount := n\<rparr>) = Inr st1"
    and st': "st' = st1\<lparr>CD_BASKET := Some (b\<lparr>bk_pending_revenue := m\<rparr>)\<rparr>"
    and r: "cr_messages r = [Plain (WasmExecute auction (StartAuction
       (Some \<lparr>ui_position_id = k, ui_position_owner = u\<rparr>)
       \<lparr>a_info = a_info (bk_credit_asset b), a_amount = n\<rparr> None) [])]"
    using assms unfolding check_and_fulfill_bad_debt_def
    by (auto elim!: rbind_InrE simp: cdp_load_ok split: if_split_asm option.splits prod.splits bool.splits)
  have nm: "bk_pending_revenue b < po_credit_amount p" "n = po_credit_amount p - bk_pending_revenue b" "m = 0"
    using cov n by (auto simp: cover_bad_debt_def split: if_split_asm)
  have pos': "get_target_position st' u k = Inr (i, p\<lparr>po_credit_amount := n\<rparr>)"
  proof -
    note t = target_in_list[OF pos]
    let ?ps = "pos_list st u" and ?f = "\<lambda>q. if po_position_id q = k then p\<lparr>po_credit_amount := n\<rparr> else q"
    have 1: "CD_POSITIONS st' u = Some (map ?f ?ps)"
      using upd t(3,4) st' unfolding update_position_ok by auto
    have first: "po_position_id (?ps ! j) \<noteq> k" if "j < i" for j
      using pos t(4) that by (auto simp: get_target_position_ok)
    have "find_index_of (\<lambda>x. po_position_id x = k) (map ?f ?ps) = Some (i, p\<lparr>po_credit_amount := n\<rparr>)"
      unfolding find_index_of_Some using t(1,2,3) first by simp
    then show ?thesis by (rule target_of_found[OF 1])
  qed
  show ?thesis
    by (intro exI conjI, rule pos, rule pos')
      (use st' in simp, use nm in simp, use nm in simp, use nm in simp, simp, use r in simp)
qed

theorem bad_debt_needs_an_auction_witness:
  "\<exists>st' r i p p' b'. check_and_fulfill_bad_debt cdp_bad_st 8 ''bob'' = Inr (st', r) \<and>
     get_target_position cdp_bad_st ''bob'' 8 = Inr (i, p) \<and> get_target_position st' ''bob'' 8 = Inr (i, p') \<and>
     CD_BASKET st' = Some b' \<and> bk_pending_revenue b' = 0 \<and> po_credit_amount p' = po_credit_amount p - 40 \<and>
     bk_credit b' = 300"
proof -
  obtain st' r where ok: "check_and_fulfill_bad_debt cdp_bad_st 8 ''bob'' = Inr (st', r)" using cdp_demo_bad_debt by blast
  have b: "CD_BASKET cdp_bad_st = Some (cdp_demo_basket 300 40)" by (simp add: cdp_bad_st_def)
  have c: "bk_pending_revenue (cdp_demo_basket 300 40) = 40" "bk_credit (cdp_demo_basket 300 40) = 300"
    by (simp_all add: cdp_demo_basket_def)
  obtain i p p' b' where "get_target_position cdp_bad_st ''bob'' 8 = Inr (i, p)" "get_target_position st' ''bob'' 8 = Inr (i, p')"
    "CD_BASKET st' = Some b'" "bk_pending_revenue b' = 0"
    "po_credit_amount p' = po_credit_amount p - bk_pending_revenue (cdp_demo_basket 300 40)"
    "bk_credit b' = bk_credit (cdp_demo_basket 300 40)"
    using bad_debt_needs_an_auction[OF ok b] by blast
  then show ?thesis using ok c by metis
qed

text \<open>
  Editing the first of two collateral types moves it behind the other one but leaves the supply caps, which
  the tally uses as its index: the next tally of the edited asset overwrites the amount of the other.
\<close>

theorem edited_collateral_takes_anothers_tally:
  assumes "edit_cAsset L st info (ca_info x) borrow_LTV max_LTV = Inr (st', r)" and "CD_BASKET st = Some b"
    and "bk_collateral_types b = [x, y]" and "bk_collateral_supply_caps b = [cx, cy]"
    and "cap_asset_info cx = ca_info x" and "cap_asset_info cy = ca_info y" and "ca_info x \<noteq> ca_info y"
    and "ca_info dep = ca_info x" and "cap_current_supply cx + ca_amount dep < U128_BOUND"
  shows "\<exists>b' x' b''. CD_BASKET st' = Some b' \<and> bk_collateral_types b' = [y, x'] \<and> ca_info x' = ca_info x \<and>
    bk_collateral_supply_caps b' = [cx, cy] \<and>
    tally_asset True dep b' = Inr b'' \<and>
    bk_collateral_types b'' = [ca_set_amount y (cap_current_supply cx + ca_amount dep), x']"
proof -
  obtain x' where x': "ca_info x' = ca_info x"
    and st': "st' = st\<lparr>CD_BASKET := Some (b\<lparr>bk_collateral_types := [y, x']\<rparr>)\<rparr>"
    using assms(1-3,7) unfolding edit_cAsset_def
    by (auto elim!: rbind_InrE simp: cdp_load_ok Let_def split: if_split_asm dest!: edit_limits_info)
  then show ?thesis using assms
    by (simp add: tally_asset_def find_index_of_def update_at_def at_index_def u128_add_def)
qed

theorem edited_collateral_takes_anothers_tally_witness:
  "\<exists>st' r b' x' b''. edit_cAsset demo_lib cdp_two_st (demo_info ''owner'' []) (NativeToken ''atom'') None
       (Some 550000000000000000) = Inr (st', r) \<and> CD_BASKET st' = Some b' \<and>
     bk_collateral_types b' = [cdp_osmo_asset, x'] \<and> tally_asset True (cdp_demo_asset 10) b' = Inr b'' \<and>
     bk_collateral_types b'' = [ca_set_amount cdp_osmo_asset 160, x']"
proof -
  obtain st' r where ok: "edit_cAsset demo_lib cdp_two_st (demo_info ''owner'' []) (ca_info (cdp_demo_asset 150)) None
       (Some 550000000000000000) = Inr (st', r)" using cdp_demo_edits by (auto simp: cdp_demo_asset_def)
  have "\<exists>b' x' b''. CD_BASKET st' = Some b' \<and> bk_collateral_types b' = [cdp_osmo_asset, x'] \<and>
      ca_info x' = ca_info (cdp_demo_asset 150) \<and> bk_collateral_supply_caps b' = [cdp_cap ''atom'' 150, cdp_cap ''osmo'' 40] \<and>
      tally_asset True (cdp_demo_asset 10) b' = Inr b'' \<and>
      bk_collateral_types b'' = [ca_set_amount cdp_osmo_asset (cap_current_supply (cdp_cap ''atom'' 150) + ca_amount (cdp_demo_asset 10)), x']"
    by (rule edited_collateral_takes_anothers_tally[OF ok, where b = cdp_two_basket])
      (simp_all add: cdp_two_st_def cdp_two_basket_def cdp_osmo_asset_def cdp_cap_def cdp_demo_asset_def U128_BOUND_def)
  moreover have "cap_current_supply (cdp_cap ''atom'' 150) + ca_amount (cdp_demo_asset 10) = 160"
    by (simp add: cdp_cap_def cdp_demo_asset_def)
  moreover have "ca_info (cdp_demo_asset 150) = NativeToken ''atom''" by (simp add: cdp_demo_asset_def)
  ultimately show ?thesis using ok by metis
qed

text \<open>
  A redemption up to a premium above 100 always fails: the discount of the premium 101 is out of range.
\<close>

theorem premiums_above_hundred_always_fail:
  assumes "101 \<le> max_premium"
  shows "redeem_for_collateral st Q env info max_premium \<noteq> Inr res"
proof -
  have "redeem_premium Q env config b 101 s \<noteq> Inr s'" for config b s s'
    by (simp add: redeem_premium_def decimal_subtraction_def dec_percent_def U64_BOUND_def DECIMAL_FRACTIONAL_def
        dec_checked_sub_def)
  moreover have "101 \<in> set [0..<Suc max_premium]" using assms by (simp del: upt_Suc)
  ultimately have "rfold (redeem_premium Q env config b) [0..<Suc max_premium] s \<noteq> Inr s'" for config b s s'
    by (intro rfold_fails[of 101]) blast+
  then show ?thesis unfolding redeem_for_collateral_def Let_def
    by (auto elim!: rbind_InrE simp del: upt_Suc split: if_split_asm)
qed

theorem premiums_above_hundred_always_fail_witness:
  "\<forall>res. redeem_for_collateral (cdp_demo_st 200 100 40) cdp_demo_querier cdp_year
     (demo_info ''carol'' [\<lparr>c_denom = ''cdt'', c_amount = 10\<rparr>]) 150 \<noteq> Inr res"
  using premiums_above_hundred_always_fail[of 150] by simp

end
