(* ===== verification/Chain_Store.thy ===== *)
theory Chain_Store
  imports CDP_State "HOL-Library.AList" "HOL-Library.List_Lexorder" "HOL-Library.Char_ord"
begin

text \<open>
  Stores whose keys are read in order. A \<open>Map\<close> of \<open>cw_storage_plus\<close> with text keys that some function walks
  with \<open>range\<close> is an association list from keys to values: \<open>store_save\<close>, \<open>store_remove\<close> and \<open>store_load\<close> are
  its operations on a key, and \<open>store_range\<close> lists it in the order of the bytes of the keys. Maps that are only
  read by key stay partial functions.
\<close>

type_synonym 'v store = "(string \<times> 'v) list"

definition store_load :: "'v store \<Rightarrow> string \<Rightarrow> 'v option" where
  "store_load m k = map_of m k"

definition store_save :: "string \<Rightarrow> 'v \<Rightarrow> 'v store \<Rightarrow> 'v store" where
  "store_save k v m = AList.update k v m"

definition store_remove :: "string \<Rightarrow> 'v store \<Rightarrow> 'v store" where
  "store_remove k m = AList.delete k m"

definition store_range :: "string option \<Rightarrow> 'v store \<Rightarrow> (string \<times> 'v) list" where
  "store_range start m =
     filter (\<lambda>(k, v). case start of None \<Rightarrow> True | Some s \<Rightarrow> s \<le> k) (sort_key fst m)"

lemma store_load_empty [simp]: "store_load [] k = None"
  by (simp add: store_load_def)

lemma store_load_save [simp]: "store_load (store_save k v m) j = (if j = k then Some v else store_load m j)"
  by (simp add: store_load_def store_save_def update_conv')

lemma store_load_remove [simp]: "store_load (store_remove k m) j = (if j = k then None else store_load m j)"
  by (simp add: store_load_def store_remove_def delete_conv')

lemma store_keys_distinct:
  "distinct (map fst m) \<Longrightarrow> distinct (map fst (store_save k v m))"
  "distinct (map fst m) \<Longrightarrow> distinct (map fst (store_remove k m))"
  by (simp_all add: store_save_def store_remove_def distinct_update distinct_delete)

lemma store_range_set: "set (store_range None m) = set m"
  by (simp add: store_range_def)

text \<open>\<open>unwrap_or\<close>, and the first element of a list after a failed search of its index.\<close>

definition or_default :: "'a option \<Rightarrow> 'a \<Rightarrow> 'a" where
  "or_default v d = (case v of None \<Rightarrow> d | Some x \<Rightarrow> x)"

lemma or_default_simps [simp]: "or_default None d = d" "or_default (Some x) d = x"
  by (simp_all add: or_default_def)

text \<open>\<open>iter().sum()\<close> of amounts, which aborts on overflow.\<close>

definition u128_sum :: "uint128 list \<Rightarrow> ('e, uint128) result" where
  "u128_sum ns = rfold (\<lambda>n acc. u128_add acc n) ns 0"

lemma u128_sum_from:
  "(rfold (\<lambda>n acc. u128_add acc n) ns a :: ('e, uint128) result) = Inr t \<longleftrightarrow> t = a + sum_list ns \<and> (ns = [] \<or> t < U128_BOUND)"
proof (induction ns arbitrary: a)
  case Nil
  then show ?case by auto
next
  case (Cons n ns)
  have "(rfold (\<lambda>n acc. u128_add acc n) (n # ns) a :: ('e, uint128) result) = Inr t \<longleftrightarrow>
      a + n < U128_BOUND \<and> (rfold (\<lambda>n acc. u128_add acc n) ns (a + n) :: ('e, uint128) result) = Inr t"
    by (auto simp: rbind_eq_Inr int_ok)
  then show ?case unfolding Cons.IH[of "a + n"] by auto
qed

lemma u128_sum_ok [res_ok]: "u128_sum ns = Inr t \<longleftrightarrow> t = sum_list ns \<and> (ns = [] \<or> t < U128_BOUND)"
  using u128_sum_from[of ns 0 t] by (simp add: u128_sum_def)

text \<open>A checked subtraction that returns an overflow error, as \<open>checked_sub(..)?\<close>.\<close>

definition u128_checked_sub :: "uint128 \<Rightarrow> uint128 \<Rightarrow> (std_error, uint128) result" where
  "u128_checked_sub a b = (if b \<le> a then Inr (a - b) else Inl (Failed OverflowErr))"

definition u128_checked_add :: "uint128 \<Rightarrow> uint128 \<Rightarrow> (std_error, uint128) result" where
  "u128_checked_add a b = (if a + b < U128_BOUND then Inr (a + b) else Inl (Failed OverflowErr))"

lemma u128_checked_ok [res_ok]:
  "u128_checked_sub a b = Inr c \<longleftrightarrow> c = a - b \<and> b \<le> a"
  "u128_checked_add a b = Inr c \<longleftrightarrow> c = a + b \<and> a + b < U128_BOUND"
  by (auto simp: u128_checked_sub_def u128_checked_add_def)

text \<open>\<open>to_uint_ceil\<close> of a decimal.\<close>

definition to_uint_ceil :: "decimal \<Rightarrow> uint128" where
  "to_uint_ceil d = (d + DECIMAL_FRACTIONAL - 1) div DECIMAL_FRACTIONAL"

text \<open>The answer of another contract inside a function with the standard error.\<close>

definition answered :: "'a answer \<Rightarrow> (std_error, 'a) result" where
  "answered m = (case m of Inl e \<Rightarrow> Inl (Failed e) | Inr x \<Rightarrow> Inr x)"

lemma answered_ok [res_ok]: "answered m = Inr x \<longleftrightarrow> m = Inr x"
  by (auto simp: answered_def split: sum.splits)

text \<open>Filters whose test may abort, and maps whose closure carries a state.\<close>

fun rfilter :: "('a \<Rightarrow> ('e, bool) result) \<Rightarrow> 'a list \<Rightarrow> ('e, 'a list) result" where
  "rfilter P [] = Inr []"
| "rfilter P (x # xs) =
     rbind (P x) (\<lambda>keep. rbind (rfilter P xs) (\<lambda>ys. Inr (if keep then x # ys else ys)))"

fun map_state :: "('a \<Rightarrow> 's \<Rightarrow> 's \<times> 'b) \<Rightarrow> 'a list \<Rightarrow> 's \<Rightarrow> 's \<times> 'b list" where
  "map_state f [] s = (s, [])"
| "map_state f (x # xs) s =
     (let (s, y) = f x s; (s, ys) = map_state f xs s in (s, y # ys))"

lemma rfilter_ok: "rfilter P xs = Inr ys \<longleftrightarrow>
    (\<forall>x\<in>set xs. \<exists>b. P x = Inr b) \<and> ys = filter (\<lambda>x. P x = Inr True) xs"
proof (induction xs arbitrary: ys)
  case Nil
  then show ?case by auto
next
  case (Cons x xs)
  then show ?case by (cases "P x") (auto simp: rbind_eq_Inr)
qed

end
