(* ===== verification/Vesting_State.thy ===== *)
theory Vesting_State
  imports Chain_Store
begin

text \<open>
  Vesting: the stored data (\<open>contracts/vesting/src/state.rs\<close>, the types of \<open>packages/membrane/src/types.rs\<close>
  and \<open>vesting.rs\<close>), the errors (\<open>error.rs\<close>) and \<open>get_unlocked_amount\<close>, the schedule of an allocation.
\<close>

record VestingPeriod =
  vp_cliff :: u64
  vp_linear :: u64

definition vesting_period_equal :: "VestingPeriod \<Rightarrow> VestingPeriod \<Rightarrow> bool" where
  "vesting_period_equal self vesting_period \<longleftrightarrow>
     vp_cliff vesting_period = vp_cliff self \<and> vp_linear vesting_period = vp_linear self"

record Allocation =
  al_amount :: uint128
  al_amount_withdrawn :: uint128
  al_start_time_of_allocation :: u64
  al_vesting_period :: VestingPeriod

record Recipient =
  re_recipient :: addr
  re_allocation :: "Allocation option"
  re_claimables :: "Asset list"

record vesting_config =
  vc_owner :: addr
  vc_total_allocation :: uint128
  vc_mbrn_denom :: string
  vc_osmosis_proxy :: addr
  vc_staking_contract :: addr

datatype vesting_error =
    VeStd std_error
  | VeUnauthorized
  | VeOverAllocated
  | VeInvalidAllocation
  | VeInvalidRecipient
  | VeCustomError string

record vesting_storage =
  VE_CONFIG :: "vesting_config option"
  VE_RECIPIENTS :: "Recipient list option"
  VE_OWNERSHIP_TRANSFER :: "addr option"
  VE_CONTRACT :: "(string \<times> string) option"

type_synonym 'a vesting_result = "(vesting_error, 'a) result"

definition ve_config_load :: "vesting_storage \<Rightarrow> vesting_config vesting_result" where
  "ve_config_load st = ok_or (VeStd (NotFound ''Config'')) (VE_CONFIG st)"

definition ve_recipients_load :: "vesting_storage \<Rightarrow> Recipient list vesting_result" where
  "ve_recipients_load st = ok_or (VeStd (NotFound ''Vec<Recipient>'')) (VE_RECIPIENTS st)"

lemma ve_load_ok [res_ok]:
  "ve_config_load st = Inr c \<longleftrightarrow> VE_CONFIG st = Some c"
  "ve_recipients_load st = Inr rs \<longleftrightarrow> VE_RECIPIENTS st = Some rs"
  by (simp_all add: ve_config_load_def ve_recipients_load_def res_ok)

section \<open>Responses of the queries\<close>

record AllocationResponse =
  ar_amount :: uint128
  ar_amount_withdrawn :: uint128
  ar_start_time_of_allocation :: u64
  ar_vesting_period :: VestingPeriod

record RecipientResponse =
  rr_recipient :: string
  rr_allocation :: "Allocation option"
  rr_claimables :: "Asset list"

text \<open>\<open>RecipientsResponse::get_total_vesting\<close>: the subtraction aborts when more was withdrawn than allocated.\<close>

definition recipients_total_vesting :: "RecipientResponse list \<Rightarrow> ('e, uint128) result" where
  "recipients_total_vesting recipients =
     rfold (\<lambda>recipient total_vesting. case rr_allocation recipient of
          Some allocation \<Rightarrow>
            rbind (u128_sub (al_amount allocation) (al_amount_withdrawn allocation)) (\<lambda>remaining.
            u128_add total_vesting remaining)
        | None \<Rightarrow> Inr total_vesting) recipients 0"

section \<open>The schedule\<close>

definition SECONDS_IN_A_DAY :: u64 where
  "SECONDS_IN_A_DAY = 86400"

definition get_unlocked_amount ::
  "Allocation option \<Rightarrow> u64 \<Rightarrow> (std_error, uint128 \<times> Allocation) result" where
  "get_unlocked_amount allocation current_block_time =
     rbind (unwrap allocation) (\<lambda>allocation.
     if al_amount allocation = 0 then Inr (0, allocation)
     else
       rbind (u64_sub current_block_time (al_start_time_of_allocation allocation)) (\<lambda>time_passed.
       rbind (u64_mul (vp_cliff (al_vesting_period allocation)) SECONDS_IN_A_DAY) (\<lambda>cliff_in_seconds.
       if cliff_in_seconds \<le> time_passed then
         let time_passed_cliff = time_passed - cliff_in_seconds in
         rbind (u64_mul (vp_linear (al_vesting_period allocation)) SECONDS_IN_A_DAY) (\<lambda>linear_in_seconds.
         if time_passed_cliff < linear_in_seconds then
           rbind (dec_of_uint time_passed_cliff) (\<lambda>passed.
           rbind (dec_of_uint linear_in_seconds) (\<lambda>period.
           rbind (decimal_division passed period) (\<lambda>ratio_unlocked.
           rbind (if ratio_unlocked \<noteq> 0 then
                    rbind (uint128_mul_dec (al_amount allocation) ratio_unlocked) (\<lambda>unlocked.
                    u128_sub unlocked (al_amount_withdrawn allocation))
                  else Inr 0) (\<lambda>newly_unlocked.
           rbind (u128_add (al_amount_withdrawn allocation) newly_unlocked) (\<lambda>withdrawn.
           Inr (newly_unlocked, allocation\<lparr>al_amount_withdrawn := withdrawn\<rparr>))))))
         else
           rbind (map_err (\<lambda>_. GenericErr ''Nothing left to unlock'')
              (u128_checked_sub (al_amount allocation) (al_amount_withdrawn allocation))) (\<lambda>unlocked_amount.
           rbind (u128_add (al_amount_withdrawn allocation) (al_amount allocation)) (\<lambda>withdrawn.
           Inr (unlocked_amount, allocation\<lparr>al_amount_withdrawn := withdrawn\<rparr>))))
       else Inr (0, allocation))))"

end
