(* ===== verification/Gov_Types.thy ===== *)
theory Gov_Types
  imports Chain_Store
begin

text \<open>
  Governance: the data that other contracts exchange with it (\<open>packages/membrane/src/governance.rs\<close>):
  proposals, votes, the configuration and the messages.

  A proposal carries arbitrary messages of the chain. The contract never looks into one, so a message is the
  text of its serialisation, \<open>json\<close>.
\<close>

type_synonym json = string

datatype ProposalStatus = Active | Passed | AmendmentDesired | Rejected | Executed | Expired

fun proposal_status_to_string :: "ProposalStatus \<Rightarrow> string" where
  "proposal_status_to_string Active = ''active''"
| "proposal_status_to_string Passed = ''passed''"
| "proposal_status_to_string AmendmentDesired = ''amendment_required''"
| "proposal_status_to_string Rejected = ''rejected''"
| "proposal_status_to_string Executed = ''executed''"
| "proposal_status_to_string Expired = ''expired''"

datatype ProposalVoteOption = VoteFor | VoteAgainst | VoteAmend | VoteRemove | VoteAlign

fun proposal_vote_option_to_string :: "ProposalVoteOption \<Rightarrow> string" where
  "proposal_vote_option_to_string VoteFor = ''for''"
| "proposal_vote_option_to_string VoteAgainst = ''against''"
| "proposal_vote_option_to_string VoteAmend = ''amend''"
| "proposal_vote_option_to_string VoteRemove = ''remove''"
| "proposal_vote_option_to_string VoteAlign = ''align''"

record ProposalMessage =
  pm_order :: u64
  pm_msg :: json

record Proposal =
  pp_voting_power :: "(addr \<times> uint128) list"
  pp_proposal_id :: u64
  pp_submitter :: addr
  pp_status :: ProposalStatus
  pp_aligned_power :: uint128
  pp_for_power :: uint128
  pp_against_power :: uint128
  pp_amendment_power :: uint128
  pp_removal_power :: uint128
  pp_aligned_voters :: "addr list"
  pp_for_voters :: "addr list"
  pp_against_voters :: "addr list"
  pp_amendment_voters :: "addr list"
  pp_removal_voters :: "addr list"
  pp_start_block :: u64
  pp_start_time :: u64
  pp_end_block :: u64
  pp_delayed_end_block :: u64
  pp_expiration_block :: u64
  pp_title :: string
  pp_description :: string
  pp_link :: "string option"
  pp_messages :: "ProposalMessage list option"

record ProposalResponse =
  pq_voting_power :: "(addr \<times> uint128) list"
  pq_proposal_id :: u64
  pq_submitter :: addr
  pq_status :: ProposalStatus
  pq_aligned_power :: uint128
  pq_for_power :: uint128
  pq_against_power :: uint128
  pq_amendment_power :: uint128
  pq_removal_power :: uint128
  pq_start_block :: u64
  pq_start_time :: u64
  pq_end_block :: u64
  pq_delayed_end_block :: u64
  pq_expiration_block :: u64
  pq_title :: string
  pq_description :: string
  pq_messages :: "ProposalMessage list option"
  pq_link :: "string option"

record ProposalListResponse =
  pl_proposal_count :: u64
  pl_proposal_list :: "ProposalResponse list"

record gov_config =
  gc_mbrn_denom :: string
  gc_minimum_total_stake :: uint128
  gc_staking_contract_addr :: addr
  gc_vesting_contract_addr :: addr
  gc_vesting_voting_power_multiplier :: decimal
  gc_proposal_voting_period :: u64
  gc_expedited_proposal_voting_period :: u64
  gc_proposal_effective_delay :: u64
  gc_proposal_expiration_period :: u64
  gc_proposal_required_stake :: uint128
  gc_proposal_required_quorum :: decimal
  gc_proposal_required_threshold :: decimal
  gc_whitelisted_links :: "string list"
  gc_quadratic_voting :: bool

record gov_update_config =
  gu_mbrn_denom :: "string option"
  gu_minimum_total_stake :: "uint128 option"
  gu_staking_contract :: "string option"
  gu_vesting_contract_addr :: "string option"
  gu_vesting_voting_power_multiplier :: "decimal option"
  gu_proposal_voting_period :: "u64 option"
  gu_expedited_proposal_voting_period :: "u64 option"
  gu_proposal_effective_delay :: "u64 option"
  gu_proposal_expiration_period :: "u64 option"
  gu_proposal_required_stake :: "uint128 option"
  gu_proposal_required_quorum :: "string option"
  gu_proposal_required_threshold :: "string option"
  gu_whitelist_remove :: "string list option"
  gu_whitelist_add :: "string list option"
  gu_quadratic_voting :: "bool option"

datatype gov_execute_msg =
    GovSubmitProposal string string "string option" "ProposalMessage list option" "string option" bool
  | GovCastVote u64 ProposalVoteOption "string option"
  | GovEndProposal u64
  | GovCheckMessages "ProposalMessage list" "u64 option"
  | GovCheckMessagesPassed "bool option"
  | GovExecuteProposal u64
  | GovRemoveCompletedProposal u64
  | GovUpdateConfig gov_update_config
  | GovCreateOsmosisGauge json
  | GovAddToOsmosisGauge json
  | GovFreezePositions bool "string list"

end
