(* ===== verification/Staking_State.thy ===== *)
theory Staking_State
  imports Vesting_State Gov_Types
begin

text \<open>
  Staking: the stored data (\<open>contracts/staking/src/state.rs\<close>, the types of \<open>packages/membrane/src/types.rs\<close>
  and \<open>staking.rs\<close>), the errors (\<open>error.rs\<close>), the responses of the queries, the messages, and what the
  contract asks of others: the vesting recipients, the proposals of governance, the basket of the positions
  contract and its own balances.
\<close>

section \<open>Data\<close>

record StakeDeposit =
  sd_staker :: addr
  sd_amount :: uint128
  sd_stake_time :: u64
  sd_unstake_start_time :: "u64 option"
  sd_last_accrued :: "u64 option"

record OldStakeDeposit =
  od_staker :: addr
  od_amount :: uint128
  od_stake_time :: u64
  od_unstake_start_time :: "u64 option"

record Delegation =
  dl_delegate :: addr
  dl_amount :: uint128
  dl_fluidity :: bool
  dl_voting_power_delegation :: bool
  dl_time_of_delegation :: u64
  dl_last_accrued :: "u64 option"

record OldDelegation =
  ol_delegate :: addr
  ol_amount :: uint128
  ol_fluidity :: bool
  ol_voting_power_delegation :: bool
  ol_time_of_delegation :: u64

record DelegationInfo =
  di_delegated :: "Delegation list"
  di_delegated_to :: "Delegation list"
  di_commission :: decimal

record OldDelegationInfo =
  oi_delegated :: "OldDelegation list"
  oi_delegated_to :: "OldDelegation list"
  oi_commission :: decimal

record Delegate =
  dg_delegate :: addr
  dg_alias :: "string option"
  dg_discord_username :: "string option"
  dg_twitter_username :: "string option"
  dg_url :: "string option"

record LiqAsset =
  la_info :: AssetInfo
  la_amount :: decimal

record FeeEvent =
  fe_time_of_event :: u64
  fe_fee :: LiqAsset

record StakeDistribution =
  sdn_rate :: decimal
  sdn_duration :: u64

record StakeDistributionLog =
  sdl_ownership_distribution :: StakeDistribution
  sdl_start_time :: u64

record staking_totals =
  to_stakers :: uint128
  to_vesting_contract :: uint128

record staking_config =
  kc_owner :: addr
  kc_mbrn_denom :: string
  kc_incentive_schedule :: StakeDistribution
  kc_unstaking_period :: u64
  kc_max_commission_rate :: decimal
  kc_keep_raw_cdt :: bool
  kc_vesting_rev_multiplier :: decimal
  kc_positions_contract :: "addr option"
  kc_auction_contract :: "addr option"
  kc_vesting_contract :: "addr option"
  kc_governance_contract :: "addr option"
  kc_osmosis_proxy :: "addr option"

datatype staking_error =
    SkStd std_error
  | SkUnauthorized
  | SkCustomError string
  | SkCustomNums string "nat list"

record staking_storage =
  SK_CONFIG :: "staking_config option"
  SK_STAKING_TOTALS :: "staking_totals option"
  SK_STAKED :: "StakeDeposit list store"
  SK_DELEGATIONS :: "DelegationInfo store"
  SK_DELEGATE_CLAIMS :: "addr \<rightharpoonup> Coin list \<times> uint128"
  SK_FEE_EVENTS :: "FeeEvent list option"
  SK_INCENTIVE_SCHEDULING :: "StakeDistributionLog option"
  SK_DELEGATE_INFO :: "Delegate list option"
  SK_VESTING_STAKE_TIME :: "u64 option"
  SK_VESTING_REV_MULTIPLIER :: "decimal option"
  SK_OWNERSHIP_TRANSFER :: "addr option"
  SK_CONTRACT :: "(string \<times> string) option"

type_synonym 'a staking_result = "(staking_error, 'a) result"

section \<open>Messages and responses\<close>

datatype staking_execute_msg =
    SkUpdateConfig "string option" "string option" "string option" "string option" "string option" "string option"
      "string option" "StakeDistribution option" "u64 option" "decimal option" "bool option" "decimal option"
  | SkStake "string option"
  | SkUnstake "uint128 option"
  | SkRestake uint128
  | SkClaimRewards "string option" bool
  | SkUpdateDelegations "string option" "uint128 option" "bool option" "bool option" "decimal option" "bool option"
  | SkDelegateFluidDelegations string "uint128 option"
  | SkDeclareDelegate Delegate bool
  | SkDepositFee
  | SkTrimFeeEvents

text \<open>A message the contract sends: one of the shared ones, or a stake with itself.\<close>

datatype staking_msg =
    SkCosmos cosmos_msg
  | SkSelf addr staking_execute_msg "Coin list"

datatype staking_debug =
    DbgStakingConfig staking_config | DbgDelegate Delegate | DbgFeeAssets "Asset list" | DbgBool bool | DbgOptText "string option"

record staking_response =
  kr_messages :: "staking_msg list"
  kr_attributes :: "staking_debug attr list"

record StakerResponse =
  sr_staker :: string
  sr_total_staked :: uint128
  sr_deposit_list :: "OldStakeDeposit list"

record RewardsResponse =
  rw_claimables :: "Asset list"
  rw_accrued_interest :: uint128

record TotalStakedResponse =
  ts_total_not_including_vested :: uint128
  ts_vested_total :: uint128

record DelegationResponse =
  dr_user :: addr
  dr_delegation_info :: OldDelegationInfo

section \<open>What other contracts answer\<close>

record staking_querier =
  kq_recipients :: "addr \<Rightarrow> RecipientResponse list answer"
  kq_active_proposals :: "addr \<Rightarrow> u64 option \<Rightarrow> nat option \<Rightarrow> ProposalListResponse answer"
  kq_proposal_voters :: "addr \<Rightarrow> u64 \<Rightarrow> ProposalVoteOption \<Rightarrow> u64 option \<Rightarrow> nat option \<Rightarrow> string option \<Rightarrow>
    addr list answer"
  kq_basket :: "addr \<Rightarrow> (std_error, Basket) result"
  kq_all_balances :: "addr \<Rightarrow> Coin list answer"

section \<open>Loads\<close>

definition sk_load :: "string \<Rightarrow> 'a option \<Rightarrow> (std_error, 'a) result" where
  "sk_load what v = ok_or (NotFound what) v"

lemma sk_load_ok [res_ok]: "sk_load what v = Inr x \<longleftrightarrow> v = Some x"
  by (simp add: sk_load_def res_ok)

abbreviation sk_config_load :: "staking_storage \<Rightarrow> (std_error, staking_config) result" where
  "sk_config_load st \<equiv> sk_load ''Config'' (SK_CONFIG st)"

abbreviation sk_totals_load :: "staking_storage \<Rightarrow> (std_error, staking_totals) result" where
  "sk_totals_load st \<equiv> sk_load ''Totals'' (SK_STAKING_TOTALS st)"

abbreviation no_delegations :: DelegationInfo where
  "no_delegations \<equiv> \<lparr>di_delegated = [], di_delegated_to = [], di_commission = 0\<rparr>"

abbreviation staked :: "staking_storage \<Rightarrow> addr \<Rightarrow> StakeDeposit list option" where
  "staked st u \<equiv> store_load (SK_STAKED st) u"

abbreviation delegations :: "staking_storage \<Rightarrow> addr \<Rightarrow> DelegationInfo option" where
  "delegations st u \<equiv> store_load (SK_DELEGATIONS st) u"

definition sk_save_staked :: "addr \<Rightarrow> StakeDeposit list \<Rightarrow> staking_storage \<Rightarrow> staking_storage" where
  "sk_save_staked u ds st = st\<lparr>SK_STAKED := store_save u ds (SK_STAKED st)\<rparr>"

definition sk_save_delegations :: "addr \<Rightarrow> DelegationInfo \<Rightarrow> staking_storage \<Rightarrow> staking_storage" where
  "sk_save_delegations u i st = st\<lparr>SK_DELEGATIONS := store_save u i (SK_DELEGATIONS st)\<rparr>"

lemma sk_save_simps [simp]:
  "SK_STAKED (sk_save_staked u ds st) = store_save u ds (SK_STAKED st)"
  "SK_DELEGATIONS (sk_save_staked u ds st) = SK_DELEGATIONS st"
  "SK_CONFIG (sk_save_staked u ds st) = SK_CONFIG st"
  "SK_STAKING_TOTALS (sk_save_staked u ds st) = SK_STAKING_TOTALS st"
  "SK_FEE_EVENTS (sk_save_staked u ds st) = SK_FEE_EVENTS st"
  "SK_INCENTIVE_SCHEDULING (sk_save_staked u ds st) = SK_INCENTIVE_SCHEDULING st"
  "SK_DELEGATE_CLAIMS (sk_save_staked u ds st) = SK_DELEGATE_CLAIMS st"
  "SK_STAKED (sk_save_delegations u i st) = SK_STAKED st"
  "SK_DELEGATIONS (sk_save_delegations u i st) = store_save u i (SK_DELEGATIONS st)"
  "SK_CONFIG (sk_save_delegations u i st) = SK_CONFIG st"
  "SK_STAKING_TOTALS (sk_save_delegations u i st) = SK_STAKING_TOTALS st"
  "SK_FEE_EVENTS (sk_save_delegations u i st) = SK_FEE_EVENTS st"
  "SK_INCENTIVE_SCHEDULING (sk_save_delegations u i st) = SK_INCENTIVE_SCHEDULING st"
  "SK_DELEGATE_CLAIMS (sk_save_delegations u i st) = SK_DELEGATE_CLAIMS st"
  by (simp_all add: sk_save_staked_def sk_save_delegations_def)

abbreviation deposits_total :: "StakeDeposit list \<Rightarrow> uint128" where
  "deposits_total ds \<equiv> sum_list (map sd_amount ds)"

abbreviation delegated_total :: "Delegation list \<Rightarrow> uint128" where
  "delegated_total ds \<equiv> sum_list (map dl_amount ds)"

end
