(* ===== verification/Vesting_Contract.thy ===== *)
theory Vesting_Contract
  imports Staking_State
begin

text \<open>
  Vesting: the entry points, the recipients and the queries (\<open>contracts/vesting/src/contract.rs\<close>,
  \<open>query.rs\<close>). The contract asks the staking contract for its rewards and its stake, and sends messages to
  governance, to staking and to the token proxy.
\<close>

datatype vesting_msg =
    VeCosmos cosmos_msg
  | VeGov addr gov_execute_msg
  | VeStaking addr staking_execute_msg

datatype vesting_debug = DbgVestingConfig vesting_config | DbgVestingAssets "Asset list" | DbgVestingCoins "Coin list"

record vesting_response =
  vr_messages :: "vesting_msg list"
  vr_attributes :: "vesting_debug attr list"

record vesting_querier =
  vq_user_rewards :: "addr \<Rightarrow> string \<Rightarrow> RewardsResponse answer"
  vq_user_stake :: "addr \<Rightarrow> string \<Rightarrow> StakerResponse answer"

datatype vesting_execute_msg =
    VeAddRecipient string
  | VeRemoveRecipient string
  | VeAddAllocation string uint128 "VestingPeriod option"
  | VeWithdrawUnlocked
  | VeClaimFeesforContract
  | VeClaimFeesforRecipient
  | VeSubmitProposal string string "string option" "ProposalMessage list option" bool
  | VeCastVote u64 ProposalVoteOption
  | VeUpdateConfig "string option" "string option" "string option" "string option" "uint128 option"

section \<open>Governance through the contract\<close>

definition find_recipient :: "addr \<Rightarrow> Recipient list \<Rightarrow> Recipient option" where
  "find_recipient u rs = find (\<lambda>r. re_recipient r = u) rs"

definition ve_submit_proposal ::
  "vesting_storage \<Rightarrow> MessageInfo \<Rightarrow> string \<Rightarrow> string \<Rightarrow> string option \<Rightarrow> ProposalMessage list option \<Rightarrow> bool \<Rightarrow>
   (vesting_storage \<times> vesting_response) vesting_result" where
  "ve_submit_proposal st info title description link msgs expedited =
     rbind (ve_config_load st) (\<lambda>config.
     rbind (ve_recipients_load st) (\<lambda>recipients.
     case find_recipient (sender info) recipients of
       Some recipient \<Rightarrow>
         Inr (st, \<lparr>vr_messages = [VeGov (vc_owner config)
               (GovSubmitProposal title description link msgs (Some (re_recipient recipient)) expedited)],
             vr_attributes = [(''method'', AText ''submit_proposal''), (''proposer'', AText (re_recipient recipient))]\<rparr>)
     | None \<Rightarrow> Inl (Failed VeInvalidRecipient)))"

definition ve_cast_vote ::
  "vesting_storage \<Rightarrow> MessageInfo \<Rightarrow> u64 \<Rightarrow> ProposalVoteOption \<Rightarrow>
   (vesting_storage \<times> vesting_response) vesting_result" where
  "ve_cast_vote st info proposal_id vote =
     rbind (ve_config_load st) (\<lambda>config.
     rbind (ve_recipients_load st) (\<lambda>recipients.
     case find_recipient (sender info) recipients of
       Some recipient \<Rightarrow>
         Inr (st, \<lparr>vr_messages = [VeGov (vc_owner config)
               (GovCastVote proposal_id vote (Some (re_recipient recipient)))],
             vr_attributes = [(''method'', AText ''cast_vote''), (''voter'', AText (re_recipient recipient))]\<rparr>)
     | None \<Rightarrow> Inl (Failed VeInvalidRecipient)))"

section \<open>Fees\<close>

definition claim_fees_for_recipient ::
  "vesting_storage \<Rightarrow> MessageInfo \<Rightarrow> (vesting_storage \<times> vesting_response) vesting_result" where
  "claim_fees_for_recipient st info =
     rbind (ve_recipients_load st) (\<lambda>recipients.
     case find_index_of (\<lambda>r. re_recipient r = sender info) recipients of
       Some (i, recipient) \<Rightarrow>
         if re_claimables recipient = [] then Inl (Failed (VeCustomError ''Nothing to claim''))
         else
           rbind (map_err VeStd (rmapM asset_to_coin
               (filter (\<lambda>a. is_native_token (a_info a)) (re_claimables recipient)))) (\<lambda>claimables.
           rbind (update_at recipients i (recipient\<lparr>re_claimables := []\<rparr>)) (\<lambda>recipients.
           Inr (st\<lparr>VE_RECIPIENTS := Some recipients\<rparr>,
             \<lparr>vr_messages = [VeCosmos (BankSend (re_recipient recipient) claimables)],
              vr_attributes = [(''method'', AText ''claim_fees_for_recipient''),
                (''claimables'', ADebug (DbgVestingCoins claimables))]\<rparr>)))
     | None \<Rightarrow> Inl (Failed VeInvalidRecipient))"

definition get_allocation_ratios ::
  "vesting_querier \<Rightarrow> Env \<Rightarrow> vesting_config \<Rightarrow> Recipient list \<Rightarrow> (std_error, decimal list) result" where
  "get_allocation_ratios Q env config recipients =
     rbind (answered (vq_user_stake Q (vc_staking_contract config) (contract_address env))) (\<lambda>res.
     let staked_mbrn = sr_total_staked res in
     rmapM (\<lambda>recipient.
       rbind (unwrap (re_allocation recipient)) (\<lambda>allocation.
       rbind (u128_sub (al_amount allocation) (al_amount_withdrawn allocation)) (\<lambda>remaining.
       rbind (dec_of_uint remaining) (\<lambda>remaining.
       rbind (dec_of_uint staked_mbrn) (\<lambda>staked_mbrn.
       decimal_division remaining staked_mbrn))))) recipients)"

text \<open>One claimed asset is split among the recipients by their ratios.\<close>

definition add_recipient_claim :: "Asset \<Rightarrow> Recipient \<times> decimal \<Rightarrow> ('e, Recipient) result" where
  "add_recipient_claim claim_asset rd =
     (let (recipient, ratio) = rd in
      rbind (uint128_mul_dec (a_amount claim_asset) ratio) (\<lambda>n.
      let share = claim_asset\<lparr>a_amount := n\<rparr> in
      (case find_index_of (\<lambda>c. a_info c = a_info claim_asset) (re_claimables recipient) of
         Some (index, c) \<Rightarrow>
           rbind (u128_add (a_amount c) n) (\<lambda>m.
           rbind (update_at (re_claimables recipient) index (c\<lparr>a_amount := m\<rparr>)) (\<lambda>cs.
           Inr (recipient\<lparr>re_claimables := cs\<rparr>)))
       | None \<Rightarrow> Inr (recipient\<lparr>re_claimables := re_claimables recipient @ [share]\<rparr>))))"

definition split_claims :: "Asset list \<Rightarrow> decimal list \<Rightarrow> Recipient list \<Rightarrow> ('e, Recipient list) result" where
  "split_claims claimables ratios recipients =
     rfold (\<lambda>claim_asset rs. rmapM (add_recipient_claim claim_asset) (zip rs ratios)) claimables recipients"

definition claim_fees_for_contract ::
  "vesting_querier \<Rightarrow> vesting_storage \<Rightarrow> Env \<Rightarrow> (vesting_storage \<times> vesting_response) vesting_result" where
  "claim_fees_for_contract Q st env =
     rbind (ve_config_load st) (\<lambda>config.
     rbind (map_err VeStd (answered (vq_user_rewards Q (vc_staking_contract config) (contract_address env)))) (\<lambda>res.
     let attrs = [(''method'', AText ''claim_fees_for_contract''),
           (''claimables'', ADebug (DbgVestingAssets (rw_claimables res)))] in
     if rw_claimables res \<noteq> [] then
       rbind (ve_recipients_load st) (\<lambda>recipients.
       let allocated = filter (\<lambda>r. re_allocation r \<noteq> None) recipients in
       rbind (map_err VeStd (get_allocation_ratios Q env config allocated)) (\<lambda>ratios.
       rbind (split_claims (rw_claimables res) ratios allocated) (\<lambda>allocated.
       Inr (st\<lparr>VE_RECIPIENTS := Some (filter (\<lambda>r. re_allocation r = None) recipients @ allocated)\<rparr>,
         \<lparr>vr_messages = [VeStaking (vc_staking_contract config) (SkClaimRewards None False)],
          vr_attributes = attrs\<rparr>))))
     else Inr (st, \<lparr>vr_messages = [], vr_attributes = attrs\<rparr>)))"

section \<open>Withdrawing\<close>

definition withdraw_unlocked ::
  "vesting_storage \<Rightarrow> Env \<Rightarrow> MessageInfo \<Rightarrow> (vesting_storage \<times> vesting_response) vesting_result" where
  "withdraw_unlocked st env info =
     rbind (ve_config_load st) (\<lambda>config.
     rbind (ve_recipients_load st) (\<lambda>recipients.
     case find_recipient (sender info) recipients of
       Some recipient \<Rightarrow>
         if re_allocation recipient \<noteq> None then
           rbind (map_err VeStd (get_unlocked_amount (re_allocation recipient) (time_seconds env)))
             (\<lambda>(unlocked_amount, new_allocation).
           let new_recipients = filter (\<lambda>r. re_recipient r \<noteq> sender info) recipients @
                 [recipient\<lparr>re_allocation := Some new_allocation\<rparr>] in
           Inr (st\<lparr>VE_RECIPIENTS := Some new_recipients\<rparr>,
             \<lparr>vr_messages = [VeCosmos (WasmExecute (vc_osmosis_proxy config)
                 (MintTokens (vc_mbrn_denom config) unlocked_amount (sender info)) [])],
              vr_attributes = [(''method'', AText ''withdraw_unlocked''), (''recipient'', AText (sender info)),
                (''withdrawn_amount'', ANum unlocked_amount)]\<rparr>))
         else Inl (Failed VeInvalidAllocation)
     | None \<Rightarrow> Inl (Failed VeInvalidRecipient)))"

section \<open>Allocating\<close>

text \<open>A recipient gives a part of its allocation away: the state is the allocation to hand over.\<close>

definition divide_turn :: "addr \<Rightarrow> uint128 \<Rightarrow> Recipient \<Rightarrow> Allocation option \<Rightarrow> Allocation option \<times> Recipient" where
  "divide_turn user n stored_recipient new_allocation =
     (case re_allocation stored_recipient of
        Some stored \<Rightarrow>
          if re_recipient stored_recipient = user then
            if n \<le> al_amount stored then
              (Some (stored\<lparr>al_amount := n, al_amount_withdrawn := 0\<rparr>),
               stored_recipient\<lparr>re_allocation := Some (stored\<lparr>al_amount := al_amount stored - n\<rparr>)\<rparr>)
            else
              (Some (stored\<lparr>al_amount_withdrawn := 0\<rparr>),
               stored_recipient\<lparr>re_allocation := Some (stored\<lparr>al_amount := 0\<rparr>)\<rparr>)
          else (new_allocation, stored_recipient)
      | None \<Rightarrow> (new_allocation, stored_recipient))"

definition hand_over :: "addr \<Rightarrow> Allocation option \<Rightarrow> Recipient list \<Rightarrow> ('e, Recipient list) result" where
  "hand_over to new_allocation recipients =
     (if list_ex (\<lambda>r. re_recipient r = to) recipients then
        rmapM (\<lambda>r. if re_recipient r = to then
            (case re_allocation r of
               Some allocation \<Rightarrow>
                 rbind (unwrap new_allocation) (\<lambda>new.
                 rbind (u128_add (al_amount allocation) (al_amount new)) (\<lambda>n.
                 Inr (r\<lparr>re_allocation := Some (allocation\<lparr>al_amount := n\<rparr>)\<rparr>)))
             | None \<Rightarrow> Inr r)
          else Inr r) recipients
      else Inr (recipients @ [\<lparr>re_recipient = to, re_allocation = new_allocation, re_claimables = []\<rparr>]))"

definition total_allocated :: "Recipient list \<Rightarrow> ('e, uint128) result" where
  "total_allocated recipients =
     rfold (\<lambda>r total. case re_allocation r of Some a \<Rightarrow> u128_add total (al_amount a) | None \<Rightarrow> Inr total) recipients 0"

definition add_allocation ::
  "chain_lib \<Rightarrow> vesting_querier \<Rightarrow> vesting_storage \<Rightarrow> Env \<Rightarrow> MessageInfo \<Rightarrow> string \<Rightarrow> uint128 \<Rightarrow> VestingPeriod option \<Rightarrow>
   (vesting_storage \<times> vesting_response) vesting_result" where
  "add_allocation L Q st env info recipient allocation vesting_period =
     rbind (claim_fees_for_contract Q st env) (\<lambda>(st, res).
     if allocation = 0 then Inl (Failed VeInvalidAllocation)
     else
       rbind (map_err VeStd (lib_addr_validate L recipient)) (\<lambda>valid_recipient.
       rbind (ve_config_load st) (\<lambda>config.
       rbind (case vesting_period of
           Some vesting_period \<Rightarrow>
             if sender info \<noteq> vc_owner config then Inl (Failed VeUnauthorized)
             else
               rbind (ve_recipients_load st) (\<lambda>recipients.
               Inr (map (\<lambda>r. if re_recipient r = valid_recipient
                   then r\<lparr>re_allocation := Some \<lparr>al_amount = allocation, al_amount_withdrawn = 0,
                     al_start_time_of_allocation = time_seconds env, al_vesting_period = vesting_period\<rparr>\<rparr>
                   else r) recipients))
         | None \<Rightarrow>
             rbind (ve_recipients_load st) (\<lambda>recipients.
             let (new_allocation, recipients) = map_state (divide_turn (sender info) allocation) recipients None in
             hand_over valid_recipient new_allocation recipients)) (\<lambda>recipients.
       rbind (total_allocated recipients) (\<lambda>allocation_total.
       if vc_total_allocation config < allocation_total then Inl (Failed VeOverAllocated)
       else Inr (st\<lparr>VE_RECIPIENTS := Some recipients\<rparr>, res\<lparr>vr_attributes := vr_attributes res @
         [(''method'', AText ''increase_allocation''), (''recipient'', AText recipient),
          (''allocation_increase'', ANum allocation)]\<rparr>))))))"

definition add_recipient ::
  "chain_lib \<Rightarrow> vesting_storage \<Rightarrow> MessageInfo \<Rightarrow> string \<Rightarrow> (vesting_storage \<times> vesting_response) vesting_result" where
  "add_recipient L st info recipient =
     rbind (ve_config_load st) (\<lambda>config.
     if sender info \<noteq> vc_owner config then Inl (Failed VeUnauthorized)
     else
       rbind (map_err VeStd (lib_addr_validate L recipient)) (\<lambda>valid_recipient.
       rbind (ve_recipients_load st) (\<lambda>recipients.
       if list_ex (\<lambda>r. re_recipient r = valid_recipient) recipients then
         Inl (Failed (VeCustomError ''Duplicate Recipient''))
       else
         Inr (st\<lparr>VE_RECIPIENTS := Some (recipients @
             [\<lparr>re_recipient = valid_recipient, re_allocation = None, re_claimables = []\<rparr>])\<rparr>,
           \<lparr>vr_messages = [], vr_attributes = [(''method'', AText ''add_recipient''),
              (''Recipient'', AText recipient)]\<rparr>))))"

definition remove_recipient ::
  "vesting_storage \<Rightarrow> MessageInfo \<Rightarrow> string \<Rightarrow> (vesting_storage \<times> vesting_response) vesting_result" where
  "remove_recipient st info recipient =
     rbind (ve_config_load st) (\<lambda>config.
     if sender info \<noteq> vc_owner config then Inl (Failed VeUnauthorized)
     else
       rbind (ve_recipients_load st) (\<lambda>recipients.
       Inr (st\<lparr>VE_RECIPIENTS := Some (filter (\<lambda>r. re_recipient r \<noteq> recipient) recipients)\<rparr>,
         \<lparr>vr_messages = [], vr_attributes = [(''method'', AText ''remove_recipient''),
            (''Recipient'', AText recipient)]\<rparr>)))"

section \<open>Entry points\<close>

definition ve_validate_or :: "chain_lib \<Rightarrow> string option \<Rightarrow> addr \<Rightarrow> (std_error, addr) result" where
  "ve_validate_or L a old = (case a of None \<Rightarrow> Inr old | Some a \<Rightarrow> lib_addr_validate L a)"

definition ve_update_config ::
  "chain_lib \<Rightarrow> vesting_storage \<Rightarrow> MessageInfo \<Rightarrow> string option \<Rightarrow> string option \<Rightarrow> string option \<Rightarrow> string option \<Rightarrow>
   uint128 option \<Rightarrow> (vesting_storage \<times> vesting_response) vesting_result" where
  "ve_update_config L st info owner mbrn_denom osmosis_proxy staking_contract additional_allocation =
     rbind (ve_config_load st) (\<lambda>config.
     rbind (if sender info \<noteq> vc_owner config then
              rbind (ok_or (VeStd (NotFound ''Addr'')) (VE_OWNERSHIP_TRANSFER st)) (\<lambda>heir.
              if sender info = heir then Inr (config\<lparr>vc_owner := sender info\<rparr>)
              else Inl (Failed VeUnauthorized))
            else Inr config) (\<lambda>config.
     rbind (case owner of
              None \<Rightarrow> Inr (st, [])
            | Some owner \<Rightarrow>
                rbind (map_err VeStd (lib_addr_validate L owner)) (\<lambda>valid_addr.
                Inr (st\<lparr>VE_OWNERSHIP_TRANSFER := Some valid_addr\<rparr>,
                     [(''owner_transfer'', AText valid_addr)]))) (\<lambda>(st, owner_attrs).
     rbind (map_err VeStd (ve_validate_or L osmosis_proxy (vc_osmosis_proxy config))) (\<lambda>proxy.
     rbind (map_err VeStd (ve_validate_or L staking_contract (vc_staking_contract config))) (\<lambda>staking.
     rbind (u128_add (vc_total_allocation config) (or_default additional_allocation 0)) (\<lambda>total.
     let config = config\<lparr>vc_osmosis_proxy := proxy, vc_mbrn_denom := or_default mbrn_denom (vc_mbrn_denom config),
           vc_staking_contract := staking, vc_total_allocation := total\<rparr> in
     Inr (st\<lparr>VE_CONFIG := Some config\<rparr>,
       \<lparr>vr_messages = [], vr_attributes = [(''method'', AText ''update_config'')] @ owner_attrs @
          [(''updated_config'', ADebug (DbgVestingConfig config))]\<rparr>)))))))"

record vesting_instantiate_msg =
  vi_owner :: "string option"
  vi_initial_allocation :: uint128
  vi_pre_launch_contributors :: string
  vi_pre_launch_community :: "string list"
  vi_mbrn_denom :: string
  vi_osmosis_proxy :: string
  vi_staking_contract :: string

definition new_recipient :: "addr \<Rightarrow> uint128 \<Rightarrow> u64 \<Rightarrow> u64 \<Rightarrow> u64 \<Rightarrow> Recipient" where
  "new_recipient u n start cliff_days linear_days =
     \<lparr>re_recipient = u, re_allocation = Some \<lparr>al_amount = n, al_amount_withdrawn = 0,
        al_start_time_of_allocation = start, al_vesting_period = \<lparr>vp_cliff = cliff_days, vp_linear = linear_days\<rparr>\<rparr>,
      re_claimables = []\<rparr>"

definition add_community :: "chain_lib \<Rightarrow> u64 \<Rightarrow> string \<Rightarrow> Recipient list \<Rightarrow> Recipient list vesting_result" where
  "add_community L now address recipients =
     (case lib_addr_validate L address of
        Inl Panic \<Rightarrow> Inl Panic
      | Inl (Failed _) \<Rightarrow> Inr recipients
      | Inr address \<Rightarrow>
          if list_ex (\<lambda>r. re_recipient r = address) recipients then Inr recipients
          else Inr (recipients @ [new_recipient address 1000000000 now 0 365]))"

definition ve_instantiate ::
  "chain_lib \<Rightarrow> vesting_storage \<Rightarrow> Env \<Rightarrow> MessageInfo \<Rightarrow> vesting_instantiate_msg \<Rightarrow>
   (vesting_storage \<times> vesting_response) vesting_result" where
  "ve_instantiate L st env info msg =
     rbind (map_err VeStd (lib_addr_validate L (vi_osmosis_proxy msg))) (\<lambda>proxy.
     rbind (map_err VeStd (lib_addr_validate L (vi_staking_contract msg))) (\<lambda>staking.
     rbind (map_err VeStd (ve_validate_or L (vi_owner msg) (sender info))) (\<lambda>owner.
     rbind (map_err VeStd (lib_addr_validate L (vi_pre_launch_contributors msg))) (\<lambda>contributors.
     rbind (rfold (add_community L (time_seconds env)) (vi_pre_launch_community msg)
              [new_recipient contributors (vi_initial_allocation msg) (time_seconds env) 730 365]) (\<lambda>recipients.
     rbind (u128_mul (length recipients - 1) 1000000000) (\<lambda>additional_allocation.
     rbind (u128_add (vi_initial_allocation msg) additional_allocation) (\<lambda>total.
     let config = \<lparr>vc_owner = owner, vc_total_allocation = total, vc_mbrn_denom = vi_mbrn_denom msg,
           vc_osmosis_proxy = proxy, vc_staking_contract = staking\<rparr> in
     Inr (st\<lparr>VE_CONTRACT := Some (''crates.io:vesting'', lib_version L), VE_CONFIG := Some config,
            VE_RECIPIENTS := Some recipients\<rparr>,
       \<lparr>vr_messages = [], vr_attributes = [(''method'', AText ''instantiate''),
          (''config'', ADebug (DbgVestingConfig config)), (''contract_address'', AText (contract_address env))]\<rparr>))))))))"

fun ve_execute ::
  "chain_lib \<Rightarrow> vesting_querier \<Rightarrow> vesting_storage \<Rightarrow> Env \<Rightarrow> MessageInfo \<Rightarrow> vesting_execute_msg \<Rightarrow>
   (vesting_storage \<times> vesting_response) vesting_result" where
  "ve_execute L Q st env info (VeAddRecipient recipient) = add_recipient L st info recipient"
| "ve_execute L Q st env info (VeRemoveRecipient recipient) = remove_recipient st info recipient"
| "ve_execute L Q st env info (VeAddAllocation recipient allocation vesting_period) =
     add_allocation L Q st env info recipient allocation vesting_period"
| "ve_execute L Q st env info VeWithdrawUnlocked = withdraw_unlocked st env info"
| "ve_execute L Q st env info VeClaimFeesforContract = claim_fees_for_contract Q st env"
| "ve_execute L Q st env info VeClaimFeesforRecipient = claim_fees_for_recipient st info"
| "ve_execute L Q st env info (VeSubmitProposal title description link msgs expedited) =
     ve_submit_proposal st info title description link msgs expedited"
| "ve_execute L Q st env info (VeCastVote proposal_id vote) = ve_cast_vote st info proposal_id vote"
| "ve_execute L Q st env info (VeUpdateConfig owner mbrn_denom osmosis_proxy staking_contract additional) =
     ve_update_config L st info owner mbrn_denom osmosis_proxy staking_contract additional"

definition ve_migrate :: "vesting_storage \<Rightarrow> (vesting_storage \<times> vesting_response) vesting_result" where
  "ve_migrate st = Inr (st, \<lparr>vr_messages = [], vr_attributes = []\<rparr>)"

section \<open>Queries\<close>

definition query_allocation :: "vesting_storage \<Rightarrow> string \<Rightarrow> AllocationResponse vesting_result" where
  "query_allocation st recipient =
     rbind (ve_recipients_load st) (\<lambda>recipients.
     rbind (ok_or (VeStd (GenericErr ''Invalid recipient'')) (find_recipient recipient recipients)) (\<lambda>r.
     rbind (ok_or (VeStd (GenericErr ''Recipient has no allocation'')) (re_allocation r)) (\<lambda>a.
     Inr \<lparr>ar_amount = al_amount a, ar_amount_withdrawn = al_amount_withdrawn a,
          ar_start_time_of_allocation = al_start_time_of_allocation a, ar_vesting_period = al_vesting_period a\<rparr>)))"

definition query_unlocked :: "vesting_storage \<Rightarrow> Env \<Rightarrow> string \<Rightarrow> uint128 vesting_result" where
  "query_unlocked st env recipient =
     rbind (ve_recipients_load st) (\<lambda>recipients.
     rbind (ok_or (VeStd (GenericErr ''Invalid recipient'')) (find_recipient recipient recipients)) (\<lambda>r.
     if re_allocation r \<noteq> None then
       rbind (map_err VeStd (get_unlocked_amount (re_allocation r) (time_seconds env))) (\<lambda>(unlocked_amount, _).
       Inr unlocked_amount)
     else Inl (Failed (VeStd (GenericErr ''Recipient has no allocation'')))))"

definition to_recipient_response :: "Recipient \<Rightarrow> RecipientResponse" where
  "to_recipient_response r = \<lparr>rr_recipient = re_recipient r, rr_allocation = re_allocation r,
     rr_claimables = re_claimables r\<rparr>"

definition query_recipients :: "vesting_storage \<Rightarrow> RecipientResponse list vesting_result" where
  "query_recipients st =
     rbind (ve_recipients_load st) (\<lambda>recipients. Inr (map to_recipient_response recipients))"

definition query_recipient :: "vesting_storage \<Rightarrow> string \<Rightarrow> RecipientResponse vesting_result" where
  "query_recipient st recipient =
     rbind (ve_recipients_load st) (\<lambda>recipients.
     rbind (ok_or (VeStd (GenericErr ''Invalid recipient'')) (find_recipient recipient recipients)) (\<lambda>r.
     Inr (to_recipient_response r)))"

end
