(* ===== verification/Vesting_Facts.thy ===== *)
theory Vesting_Facts
  imports Vesting_Contract
begin

text \<open>
  Vesting: what every message keeps. \<open>ve_inv\<close> says that a recipient is listed once and that the allocations
  fit into the total of the configuration; \<open>transactions\<close> carries it to every run of \<open>ve_execute\<close>. The second
  part follows one allocation through its withdrawals.
\<close>

section \<open>Allocations of a list of recipients\<close>

definition amount_allocated :: "Allocation option \<Rightarrow> uint128" where
  "amount_allocated a = (case a of Some a \<Rightarrow> al_amount a | None \<Rightarrow> 0)"

abbreviation allocated :: "Recipient list \<Rightarrow> uint128" where
  "allocated rs \<equiv> sum_list (map (\<lambda>r. amount_allocated (re_allocation r)) rs)"

lemma total_allocated_from:
  "(rfold (\<lambda>r total. case re_allocation r of Some a \<Rightarrow> u128_add total (al_amount a) | None \<Rightarrow> Inr total) rs n
      :: ('e, uint128) result) = Inr t
     \<Longrightarrow> t = n + allocated rs"
proof (induction rs arbitrary: n)
  case Nil
  then show ?case by simp
next
  case (Cons r rs)
  from Cons.prems have "(rfold (\<lambda>r total. case re_allocation r of Some a \<Rightarrow> u128_add total (al_amount a)
      | None \<Rightarrow> Inr total) rs (n + amount_allocated (re_allocation r)) :: ('e, uint128) result) = Inr t"
    by (cases "re_allocation r") (auto simp: amount_allocated_def rbind_eq_Inr int_ok)
  then have "t = n + amount_allocated (re_allocation r) + allocated rs" by (rule Cons.IH)
  then show ?case by simp
qed

lemma total_allocated_eq: "total_allocated rs = Inr t \<Longrightarrow> t = allocated rs"
  using total_allocated_from[of rs 0 t] by (simp add: total_allocated_def)

definition ve_inv :: "vesting_storage \<Rightarrow> bool" where
  "ve_inv st \<longleftrightarrow> (\<forall>c rs. VE_CONFIG st = Some c \<longrightarrow> VE_RECIPIENTS st = Some rs \<longrightarrow>
     distinct (map re_recipient rs) \<and> allocated rs \<le> vc_total_allocation c)"

lemma ve_invI:
  "(\<And>c rs. VE_CONFIG st = Some c \<Longrightarrow> VE_RECIPIENTS st = Some rs \<Longrightarrow>
     distinct (map re_recipient rs) \<and> allocated rs \<le> vc_total_allocation c) \<Longrightarrow> ve_inv st"
  by (simp add: ve_inv_def)

lemma ve_invD:
  assumes "ve_inv st" "VE_CONFIG st = Some c" "VE_RECIPIENTS st = Some rs"
  shows "distinct (map re_recipient rs)" "allocated rs \<le> vc_total_allocation c"
  using assms by (auto simp: ve_inv_def)

text \<open>Two lists whose recipients have the same addresses and the same allocations.\<close>

definition same_allocations :: "Recipient \<Rightarrow> Recipient \<Rightarrow> bool" where
  "same_allocations r s \<longleftrightarrow> re_recipient r = re_recipient s \<and> re_allocation r = re_allocation s"

lemma same_allocationsD:
  assumes "list_all2 same_allocations rs ss"
  shows "map re_recipient ss = map re_recipient rs" "map re_allocation ss = map re_allocation rs" "allocated ss = allocated rs"
  using assms by (induction rule: list_all2_induct) (auto simp: same_allocations_def)

lemma same_allocations_refl: "list_all2 same_allocations rs rs"
  by (simp add: list_all2_same same_allocations_def)

lemma same_allocations_trans:
  "list_all2 same_allocations rs ss \<Longrightarrow> list_all2 same_allocations ss ts \<Longrightarrow> list_all2 same_allocations rs ts"
  by (erule (1) list_all2_trans[rotated]) (auto simp: same_allocations_def)

lemma add_recipient_claim_same:
  "add_recipient_claim claim (r, ratio) = Inr r' \<Longrightarrow> same_allocations r r'"
  by (auto simp: add_recipient_claim_def same_allocations_def Let_def elim!: rbind_InrE split: option.splits)

lemma split_claims_same:
  assumes "split_claims claimables ratios rs = Inr rs'" and "length ratios = length rs"
  shows "list_all2 same_allocations rs rs'"
proof -
  have "list_all2 same_allocations rs rs' \<and> length rs' = length ratios"
  proof (rule rfold_invariant[where I = "\<lambda>ss. list_all2 same_allocations rs ss \<and> length ss = length ratios",
        OF _ _ assms(1)[unfolded split_claims_def]])
    fix claim and ss ss' :: "Recipient list"
    assume inv: "list_all2 same_allocations rs ss \<and> length ss = length ratios"
      and step: "rmapM (add_recipient_claim claim) (zip ss ratios) = Inr ss'"
    note step[unfolded rmapM_eq_Inr]
    then have "list_all2 same_allocations ss ss'" using inv
      by (auto simp: list_all2_conv_all_nth intro!: add_recipient_claim_same)
    then show "list_all2 same_allocations rs ss' \<and> length ss' = length ratios"
      using inv same_allocations_trans list_all2_lengthD by fastforce
  qed (simp add: same_allocations_refl assms(2))
  then show ?thesis by simp
qed


section \<open>What every message keeps\<close>

lemma claim_fees_same:
  assumes "claim_fees_for_contract Q st env = Inr (st', r)"
  shows "VE_CONFIG st' = VE_CONFIG st \<and> (VE_RECIPIENTS st' = VE_RECIPIENTS st \<or>
    (\<exists>rs rs'. VE_RECIPIENTS st = Some rs \<and> VE_RECIPIENTS st' = Some (filter (\<lambda>r. re_allocation r = None) rs @ rs') \<and>
       list_all2 same_allocations (filter (\<lambda>r. re_allocation r \<noteq> None) rs) rs'))"
proof -
  have len: "get_allocation_ratios Q env config rs = Inr ratios \<Longrightarrow> length ratios = length rs" for config rs ratios
    by (auto simp: get_allocation_ratios_def Let_def elim!: rbind_InrE dest: rmapM_length)
  show ?thesis using assms unfolding claim_fees_for_contract_def Let_def
    by (auto elim!: rbind_InrE simp: res_ok split: if_split_asm dest!: len intro!: split_claims_same)
qed

lemma reorder_allocations:
  assumes "list_all2 same_allocations (filter (\<lambda>r. re_allocation r \<noteq> None) rs) rs'"
    and "distinct (map re_recipient rs)"
  shows "distinct (map re_recipient (filter (\<lambda>r. re_allocation r = None) rs @ rs'))"
    and "allocated (filter (\<lambda>r. re_allocation r = None) rs @ rs') = allocated rs"
proof -
  let ?N = "filter (\<lambda>r. re_allocation r = None) rs" and ?S = "filter (\<lambda>r. re_allocation r \<noteq> None) rs"
  note same = same_allocationsD[OF assms(1)]
  have "mset (map re_recipient (?N @ ?S)) = mset (map re_recipient rs)"
    by (induction rs) auto
  then have "distinct (map re_recipient (?N @ ?S))" using assms(2) by (metis mset_eq_imp_distinct_iff)
  then show "distinct (map re_recipient (?N @ rs'))" using same(1) by simp
  have "allocated rs = allocated ?N + allocated ?S" by (induction rs) auto
  then show "allocated (?N @ rs') = allocated rs" using same(3) by simp
qed

lemma claim_fees_inv:
  assumes "claim_fees_for_contract Q st env = Inr (st', r)" "ve_inv st"
  shows "ve_inv st'"
proof (rule ve_invI)
  fix c rs assume "VE_CONFIG st' = Some c" "VE_RECIPIENTS st' = Some rs"
  then show "distinct (map re_recipient rs) \<and> allocated rs \<le> vc_total_allocation c"
    using claim_fees_same[OF assms(1)] assms(2) reorder_allocations by (auto simp: ve_inv_def)
qed

lemma add_recipient_inv:
  assumes "add_recipient L st info recipient = Inr (st', r)" "ve_inv st" shows "ve_inv st'"
  using assms unfolding add_recipient_def
  by (fastforce elim!: rbind_InrE simp: res_ok ve_inv_def amount_allocated_def list_ex_iff split: if_split_asm)

lemma remove_recipient_inv:
  assumes "remove_recipient st info recipient = Inr (st', r)" "ve_inv st" shows "ve_inv st'"
proof (rule ve_invI)
  fix c rs assume st': "VE_CONFIG st' = Some c" "VE_RECIPIENTS st' = Some rs"
  then obtain rs0 where rs: "VE_CONFIG st = Some c" "VE_RECIPIENTS st = Some rs0"
      "rs = filter (\<lambda>r. re_recipient r \<noteq> recipient) rs0"
    using assms(1) unfolding remove_recipient_def by (auto elim!: rbind_InrE simp: res_ok split: if_split_asm)
  have "allocated rs \<le> allocated rs0" unfolding rs(3) by (induction rs0) auto
  then show "distinct (map re_recipient rs) \<and> allocated rs \<le> vc_total_allocation c"
    using ve_invD[OF assms(2) rs(1,2)] rs(3) by (simp add: distinct_map_filter)
qed

lemma get_unlocked_amount_keeps:
  assumes "get_unlocked_amount a now = Inr (n, a')"
  shows "\<exists>a0. a = Some a0 \<and> al_amount a' = al_amount a0"
  using assms unfolding get_unlocked_amount_def Let_def
  by (auto elim!: rbind_InrE simp: res_ok split: if_split_asm)

text \<open>Putting the sender's entry at the end with another allocation of the same amount changes no sum.\<close>

lemma move_to_end:
  assumes "distinct (map re_recipient rs)" and "find_recipient u rs = Some r"
    and "amount_allocated a = amount_allocated (re_allocation r)"
  shows "distinct (map re_recipient (filter (\<lambda>r. re_recipient r \<noteq> u) rs @ [r\<lparr>re_allocation := a\<rparr>]))"
    and "allocated (filter (\<lambda>r. re_recipient r \<noteq> u) rs @ [r\<lparr>re_allocation := a\<rparr>]) = allocated rs"
proof -
  have r: "r \<in> set rs" "re_recipient r = u" using find_SomeD assms(2) unfolding find_recipient_def by fastforce+
  then show "distinct (map re_recipient (filter (\<lambda>r. re_recipient r \<noteq> u) rs @ [r\<lparr>re_allocation := a\<rparr>]))"
    using assms(1) by (auto simp: distinct_map_filter)
  have "allocated rs = allocated (filter (\<lambda>r. re_recipient r \<noteq> u) rs) + amount_allocated (re_allocation r)"
    using sum_list_filter_key[OF assms(1) r(1), of "\<lambda>r. amount_allocated (re_allocation r)"] r(2) by simp
  then show "allocated (filter (\<lambda>r. re_recipient r \<noteq> u) rs @ [r\<lparr>re_allocation := a\<rparr>]) = allocated rs"
    using assms(3) by simp
qed

lemma withdraw_unlocked_inv:
  assumes "withdraw_unlocked st env info = Inr (st', r)" "ve_inv st" shows "ve_inv st'"
proof -
  obtain rs x n a where rs: "VE_RECIPIENTS st = Some rs" "find_recipient (sender info) rs = Some x"
    "get_unlocked_amount (re_allocation x) (time_seconds env) = Inr (n, a)"
    "st' = st\<lparr>VE_RECIPIENTS := Some (filter (\<lambda>r. re_recipient r \<noteq> sender info) rs @ [x\<lparr>re_allocation := Some a\<rparr>])\<rparr>"
    using assms(1) unfolding withdraw_unlocked_def Let_def
    by (auto elim!: rbind_InrE simp: res_ok split: if_split_asm option.splits)
  have "amount_allocated (Some a) = amount_allocated (re_allocation x)"
    using get_unlocked_amount_keeps[OF rs(3)] by (auto simp: amount_allocated_def)
  from move_to_end[OF _ rs(2) this] show ?thesis using assms(2) rs(1,4) by (auto simp: ve_inv_def)
qed

lemma map_allocations_recipients: "map re_recipient (map (\<lambda>r. if P r then r\<lparr>re_allocation := f r\<rparr> else r) rs) = map re_recipient rs"
  by (simp add: comp_def if_distrib cong: if_cong)

lemma divide_keeps_recipients:
  "map_state (divide_turn u n) rs s = (s', rs') \<Longrightarrow> map re_recipient rs' = map re_recipient rs"
  by (induction rs arbitrary: s s' rs')
     (auto simp: divide_turn_def Let_def split: prod.splits option.splits if_split_asm)

lemma hand_over_distinct:
  assumes "(hand_over u a rs :: ('e, Recipient list) result) = Inr rs'" and "distinct (map re_recipient rs)"
  shows "distinct (map re_recipient rs')"
proof (cases "list_ex (\<lambda>r. re_recipient r = u) rs")
  case True
  define f :: "Recipient \<Rightarrow> ('e, Recipient) result" where "f r = (if re_recipient r = u then (case re_allocation r of
       Some allocation \<Rightarrow> rbind (unwrap a) (\<lambda>new. rbind (u128_add (al_amount allocation) (al_amount new)) (\<lambda>n.
         Inr (r\<lparr>re_allocation := Some (allocation\<lparr>al_amount := n\<rparr>)\<rparr>)))
     | None \<Rightarrow> Inr r) else Inr r)" for r
  have keep: "f r = Inr r' \<Longrightarrow> re_recipient r' = re_recipient r" for r r'
    by (auto simp: f_def elim!: rbind_InrE split: if_split_asm option.splits)
  have "rmapM f rs = Inr rs'" using assms(1) True by (simp add: hand_over_def f_def[abs_def])
  then have "map re_recipient rs' = map re_recipient rs"
    unfolding rmapM_eq_Inr by (induction rule: list_all2_induct) (auto dest: keep)
  then show ?thesis using assms(2) by simp
next
  case False
  then show ?thesis using assms by (auto simp: hand_over_def list_ex_iff)
qed

text \<open>The check at the end of \<open>add_allocation\<close> is on the new list and the total of the configuration.\<close>

lemma add_allocation_inv:
  assumes "add_allocation L Q st env info recipient n period = Inr (st', r)" "ve_inv st"
  shows "ve_inv st'"
proof -
  obtain st1 res c to rs rs' t where claim: "claim_fees_for_contract Q st env = Inr (st1, res)"
    and load: "VE_CONFIG st1 = Some c" "VE_RECIPIENTS st1 = Some rs"
    and new: "(\<exists>a. rs' = map (\<lambda>r. if re_recipient r = to then r\<lparr>re_allocation := a\<rparr> else r) rs) \<or>
      (\<exists>a rs0. map_state (divide_turn (sender info) n) rs None = (a, rs0) \<and>
         (hand_over to a rs0 :: Recipient list vesting_result) = Inr rs')"
    and t: "(total_allocated rs' :: uint128 vesting_result) = Inr t" "\<not> vc_total_allocation c < t"
    and st': "st' = st1\<lparr>VE_RECIPIENTS := Some rs'\<rparr>"
  proof (cases period)
    case None
    then show ?thesis using assms(1) that unfolding add_allocation_def Let_def
      by (clarsimp elim!: rbind_InrE case_prod_InrE simp: ve_load_ok map_err_eq_Inr split: if_split_asm) blast
  next
    case (Some p)
    then show ?thesis using assms(1) that unfolding add_allocation_def Let_def
      by (clarsimp elim!: rbind_InrE simp: res_ok split: if_split_asm) blast
  qed
  have "distinct (map re_recipient rs)" using claim_fees_inv[OF claim assms(2)] load by (auto simp: ve_inv_def)
  then have "distinct (map re_recipient rs')" using new
    by (elim disjE exE conjE)
       (simp_all only: map_allocations_recipients, metis hand_over_distinct divide_keeps_recipients)
  then show ?thesis using total_allocated_eq[OF t(1)] t(2) load st' by (auto simp: ve_inv_def)
qed

lemma ve_update_config_inv:
  assumes "ve_update_config L st info owner denom proxy staking extra = Inr (st', r)" "ve_inv st"
  shows "ve_inv st'"
proof (rule ve_invI)
  fix c rs assume st': "VE_CONFIG st' = Some c" "VE_RECIPIENTS st' = Some rs"
  then obtain c0 where "VE_CONFIG st = Some c0" "VE_RECIPIENTS st = Some rs"
      "vc_total_allocation c0 \<le> vc_total_allocation c"
    using assms(1) unfolding ve_update_config_def Let_def
    by (auto elim!: rbind_InrE simp: res_ok int_ok split: if_split_asm option.splits)
  then show "distinct (map re_recipient rs) \<and> allocated rs \<le> vc_total_allocation c"
    using ve_invD[OF assms(2)] by fastforce
qed

lemma claim_for_recipient_inv:
  assumes "claim_fees_for_recipient st info = Inr (st', r)" "ve_inv st"
  shows "ve_inv st'"
proof (rule ve_invI)
  fix c rs assume st': "VE_CONFIG st' = Some c" "VE_RECIPIENTS st' = Some rs"
  then obtain rs0 i x where rs: "VE_CONFIG st = Some c" "VE_RECIPIENTS st = Some rs0"
      "i < length rs0" "rs0 ! i = x" "rs = rs0[i := x\<lparr>re_claimables := []\<rparr>]"
    using assms(1) unfolding claim_fees_for_recipient_def
    by (auto elim!: rbind_InrE simp: res_ok split: if_split_asm option.splits)
  have "list_all2 same_allocations rs0 rs"
    using rs(3-5) by (auto simp: list_all2_conv_all_nth same_allocations_def nth_list_update)
  from same_allocationsD[OF this] show "distinct (map re_recipient rs) \<and> allocated rs \<le> vc_total_allocation c"
    using ve_invD[OF assms(2) rs(1,2)] by simp
qed

lemma ve_execute_inv:
  assumes "ve_execute L Q st env info m = Inr (st', r)" "ve_inv st"
  shows "ve_inv st'"
proof (cases m)
  case (VeSubmitProposal title description link msgs expedited)
  then show ?thesis using assms by (auto simp: ve_submit_proposal_def elim!: rbind_InrE split: option.splits)
next
  case (VeCastVote k vote)
  then show ?thesis using assms by (auto simp: ve_cast_vote_def elim!: rbind_InrE split: option.splits)
qed (use assms in \<open>auto intro: add_recipient_inv remove_recipient_inv add_allocation_inv withdraw_unlocked_inv
  claim_fees_inv claim_for_recipient_inv ve_update_config_inv\<close>)

lemma add_community_inv:
  assumes "add_community L now u rs = Inr rs'"
    and "distinct (map re_recipient rs) \<and> allocated rs = n + (length rs - 1) * 1000000000 \<and> rs \<noteq> []"
  shows "distinct (map re_recipient rs') \<and> allocated rs' = n + (length rs' - 1) * 1000000000 \<and> rs' \<noteq> []"
  using assms unfolding add_community_def
  by (cases rs) (auto simp: new_recipient_def amount_allocated_def list_ex_iff split: sum.splits failure.splits if_split_asm)

lemma ve_instantiate_inv:
  assumes "ve_instantiate L st env info msg = Inr (st', r)"
  shows "ve_inv st'"
proof -
  obtain u rs total where run: "rfold (add_community L (time_seconds env)) (vi_pre_launch_community msg)
      [new_recipient u (vi_initial_allocation msg) (time_seconds env) 730 365] = (Inr rs :: Recipient list vesting_result)"
    and total: "total = vi_initial_allocation msg + (length rs - 1) * 1000000000"
    and st': "VE_RECIPIENTS st' = Some rs" "\<exists>c. VE_CONFIG st' = Some c \<and> vc_total_allocation c = total"
    using assms unfolding ve_instantiate_def Let_def
    by (auto elim!: rbind_InrE simp: res_ok int_ok)
  have "distinct (map re_recipient rs) \<and> allocated rs = vi_initial_allocation msg + (length rs - 1) * 1000000000 \<and> rs \<noteq> []"
  proof (rule rfold_invariant[where I = "\<lambda>rs. distinct (map re_recipient rs) \<and>
      allocated rs = vi_initial_allocation msg + (length rs - 1) * 1000000000 \<and> rs \<noteq> []", OF _ _ run])
    fix address and s s' :: "Recipient list"
    assume "distinct (map re_recipient s) \<and> allocated s = vi_initial_allocation msg + (length s - 1) * 1000000000 \<and> s \<noteq> []"
      and "add_community L (time_seconds env) address s = Inr s'"
    then show "distinct (map re_recipient s') \<and>
        allocated s' = vi_initial_allocation msg + (length s' - 1) * 1000000000 \<and> s' \<noteq> []"
      using add_community_inv by blast
  qed (simp add: new_recipient_def amount_allocated_def)
  then show ?thesis using total st' by (auto simp: ve_inv_def)
qed

record ve_event =
  vv_querier :: vesting_querier
  vv_env :: Env
  vv_info :: MessageInfo
  vv_msg :: vesting_execute_msg

definition ve_step :: "chain_lib \<Rightarrow> ve_event \<Rightarrow> vesting_storage \<Rightarrow> (vesting_storage \<times> vesting_response) vesting_result" where
  "ve_step L e st = ve_execute L (vv_querier e) st (vv_env e) (vv_info e) (vv_msg e)"

interpretation ve: transactions "ve_step L" ve_inv for L
  by unfold_locales (simp add: ve_step_def ve_execute_inv)

section \<open>What an allocation can still pay\<close>

text \<open>The part of a recipient's allocation that is not withdrawn; a withdrawal of \<open>n\<close> lowers it by \<open>n\<close>.\<close>

definition left_of :: "Allocation option \<Rightarrow> uint128" where
  "left_of a = (case a of Some a \<Rightarrow> al_amount a - al_amount_withdrawn a | None \<Rightarrow> 0)"

definition allowance :: "addr \<Rightarrow> vesting_storage \<Rightarrow> uint128" where
  "allowance u st = (case VE_RECIPIENTS st of
       Some rs \<Rightarrow> (case find_recipient u rs of Some r \<Rightarrow> left_of (re_allocation r) | None \<Rightarrow> 0)
     | None \<Rightarrow> 0)"

lemma unlocked_lowers_left:
  assumes "get_unlocked_amount a now = Inr (n, a')"
  shows "n + left_of (Some a') \<le> left_of a"
proof -
  obtain a0 where a: "a = Some a0" using get_unlocked_amount_keeps[OF assms] by blast
  have share: "m * (p * DECIMAL_FRACTIONAL div q) div DECIMAL_FRACTIONAL \<le> m" if "p \<le> q" "0 < q" for m p q :: nat
  proof -
    have "p * DECIMAL_FRACTIONAL div q \<le> DECIMAL_FRACTIONAL" using that div_le_mono[of "p * DECIMAL_FRACTIONAL" "q * DECIMAL_FRACTIONAL" q] by simp
    then have "m * (p * DECIMAL_FRACTIONAL div q) div DECIMAL_FRACTIONAL \<le> m * DECIMAL_FRACTIONAL div DECIMAL_FRACTIONAL"
      by (intro div_le_mono mult_le_mono2)
    then show ?thesis by (simp add: DECIMAL_FRACTIONAL_def)
  qed
  note bound = share[of "now - (al_start_time_of_allocation a0 + vp_cliff (al_vesting_period a0) * SECONDS_IN_A_DAY)"
      "vp_linear (al_vesting_period a0) * SECONDS_IN_A_DAY" "al_amount a0"]
  show ?thesis using assms bound unfolding get_unlocked_amount_def a Let_def
    by (clarsimp elim!: rbind_InrE simp: left_of_def res_ok int_ok dec_ok split: if_split_asm)
qed

text \<open>What the messages of a response mint to an address.\<close>

fun mints_to :: "addr \<Rightarrow> vesting_msg \<Rightarrow> uint128" where
  "mints_to u (VeCosmos (WasmExecute proxy (MintTokens denom n to) coins)) = (if to = u then n else 0)"
| "mints_to u m = 0"

abbreviation minted :: "addr \<Rightarrow> vesting_response \<Rightarrow> uint128" where
  "minted u r \<equiv> sum_list (map (mints_to u) (vr_messages r))"

text \<open>The allocation a list of recipients keeps for an address.\<close>

definition kept_for :: "addr \<Rightarrow> Recipient list \<Rightarrow> Allocation option" where
  "kept_for u rs = (case find_recipient u rs of Some r \<Rightarrow> re_allocation r | None \<Rightarrow> None)"

lemma allowance_eq: "allowance u st = (case VE_RECIPIENTS st of Some rs \<Rightarrow> left_of (kept_for u rs) | None \<Rightarrow> 0)"
  by (simp add: allowance_def kept_for_def left_of_def split: option.splits)

lemma kept_for_simps:
  "kept_for u [] = None"
  "kept_for u (r # rs) = (if re_recipient r = u then re_allocation r else kept_for u rs)"
  by (simp_all add: kept_for_def find_recipient_def)

lemma kept_for_append:
  "u \<notin> re_recipient ` set rs \<Longrightarrow> kept_for u (rs @ ss) = kept_for u ss"
  "u \<in> re_recipient ` set rs \<Longrightarrow> kept_for u (rs @ ss) = kept_for u rs"
  by (induction rs) (auto simp: kept_for_simps)

lemma kept_for_absent: "u \<notin> re_recipient ` set rs \<Longrightarrow> kept_for u rs = None"
  using kept_for_append(1)[of u rs "[]"] by (simp add: kept_for_simps)

lemma kept_for_same: "list_all2 same_allocations rs ss \<Longrightarrow> kept_for u ss = kept_for u rs"
  by (induction rule: list_all2_induct) (auto simp: kept_for_simps same_allocations_def)

lemma kept_for_filter: "(\<And>r. r \<in> set rs \<Longrightarrow> re_recipient r = u \<Longrightarrow> P r) \<Longrightarrow> kept_for u (filter P rs) = kept_for u rs"
  by (induction rs) (auto simp: kept_for_simps)

lemma kept_for_partition:
  assumes "distinct (map re_recipient rs)"
  shows "kept_for u (filter (\<lambda>r. re_allocation r = None) rs @ filter (\<lambda>r. re_allocation r \<noteq> None) rs) = kept_for u rs"
  using assms
proof (induction rs)
  case Nil
  then show ?case by simp
next
  case (Cons r rs)
  show ?case
  proof (cases "re_recipient r = u")
    case True
    then have "u \<notin> re_recipient ` set (filter (\<lambda>r. re_allocation r = None) rs)" using Cons.prems by auto
    then show ?thesis using True by (cases "re_allocation r") (simp_all add: kept_for_simps kept_for_append)
  next
    case False
    have "kept_for u (ns @ r # ss) = kept_for u (ns @ ss)" for ns ss
      by (induction ns) (simp_all add: kept_for_simps False)
    then show ?thesis using False Cons by (auto simp: kept_for_simps)
  qed
qed

section \<open>Messages that do not allocate\<close>

fun allocates :: "vesting_execute_msg \<Rightarrow> bool" where
  "allocates (VeAddAllocation recipient allocation period) = True"
| "allocates m = False"

lemma claim_fees_kept:
  assumes "claim_fees_for_contract Q st env = Inr (st', r)" and "ve_inv st" and "VE_CONFIG st \<noteq> None"
  shows "allowance u st' = allowance u st" and "minted u r = 0"
proof -
  from claim_fees_same[OF assms(1)] show "allowance u st' = allowance u st"
  proof (elim conjE disjE exE)
    fix rs rs' assume rs: "VE_RECIPIENTS st = Some rs"
      "VE_RECIPIENTS st' = Some (filter (\<lambda>r. re_allocation r = None) rs @ rs')"
      and same: "list_all2 same_allocations (filter (\<lambda>r. re_allocation r \<noteq> None) rs) rs'"
    have "list_all2 same_allocations (filter (\<lambda>r. re_allocation r = None) rs @ filter (\<lambda>r. re_allocation r \<noteq> None) rs)
        (filter (\<lambda>r. re_allocation r = None) rs @ rs')"
      using same same_allocations_refl by (rule list_all2_appendI[rotated])
    then have "kept_for u (filter (\<lambda>r. re_allocation r = None) rs @ rs') = kept_for u rs"
      using kept_for_same kept_for_partition assms(2,3) rs(1) by (auto simp: ve_inv_def)
    then show "allowance u st' = allowance u st" by (simp add: allowance_eq rs)
  qed (simp add: allowance_eq)
  show "minted u r = 0" using assms(1) unfolding claim_fees_for_contract_def Let_def
    by (auto elim!: rbind_InrE split: if_split_asm)
qed

lemma withdraw_unlocked_pays:
  assumes "withdraw_unlocked st env info = Inr (st', r)" and "ve_inv st"
  shows "minted u r + allowance u st' \<le> allowance u st"
proof -
  obtain rs x n a c where rs: "VE_RECIPIENTS st = Some rs" "find_recipient (sender info) rs = Some x" "VE_CONFIG st = Some c"
    and n: "get_unlocked_amount (re_allocation x) (time_seconds env) = Inr (n, a)"
    and st': "VE_RECIPIENTS st' = Some (filter (\<lambda>r. re_recipient r \<noteq> sender info) rs @ [x\<lparr>re_allocation := Some a\<rparr>])"
    and r: "minted u r = (if sender info = u then n else 0)"
    using assms(1) unfolding withdraw_unlocked_def Let_def
    by (auto elim!: rbind_InrE simp: res_ok split: if_split_asm option.splits)
  show ?thesis
  proof (cases "sender info = u")
    case True
    have x: "re_recipient x = u" using rs(2) True unfolding find_recipient_def by (auto dest: find_SomeD)
    have "kept_for u (filter (\<lambda>r. re_recipient r \<noteq> sender info) rs @ [x\<lparr>re_allocation := Some a\<rparr>]) = Some a"
      using True x by (subst kept_for_append) (auto simp: kept_for_simps)
    moreover have "kept_for u rs = re_allocation x" using rs(2) True by (simp add: kept_for_def)
    ultimately show ?thesis using unlocked_lowers_left[OF n] True r by (simp add: allowance_eq rs(1) st')
  next
    case False
    have x: "re_recipient x \<noteq> u" using rs(2) False unfolding find_recipient_def by (auto dest: find_SomeD)
    have "kept_for u (filter (\<lambda>r. re_recipient r \<noteq> sender info) rs @ [x\<lparr>re_allocation := Some a\<rparr>]) = kept_for u rs"
    proof (cases "u \<in> re_recipient ` set rs")
      case True
      then have "u \<in> re_recipient ` set (filter (\<lambda>r. re_recipient r \<noteq> sender info) rs)" using False by auto
      then show ?thesis using False by (simp add: kept_for_append kept_for_filter)
    next
      case absent: False
      then have "u \<notin> re_recipient ` set (filter (\<lambda>r. re_recipient r \<noteq> sender info) rs)" by auto
      then show ?thesis using x absent by (simp add: kept_for_append kept_for_absent kept_for_simps)
    qed
    then show ?thesis using False r by (simp add: allowance_eq rs(1) st')
  qed
qed

lemma add_recipient_pays:
  assumes "add_recipient L st info recipient = Inr (st', r)"
  shows "minted u r = 0 \<and> allowance u st' = allowance u st"
proof -
  obtain rs to where rs: "VE_RECIPIENTS st = Some rs" "VE_RECIPIENTS st' = Some (rs @ [\<lparr>re_recipient = to, re_allocation = None, re_claimables = []\<rparr>])"
    and r: "vr_messages r = []"
    using assms unfolding add_recipient_def by (auto elim!: rbind_InrE simp: res_ok split: if_split_asm)
  have "kept_for u (rs @ [\<lparr>re_recipient = to, re_allocation = None, re_claimables = []\<rparr>]) = kept_for u rs"
    by (cases "u \<in> re_recipient ` set rs") (simp_all add: kept_for_append kept_for_absent kept_for_simps)
  then show ?thesis using rs r by (simp add: allowance_eq)
qed

lemma remove_recipient_pays:
  assumes "remove_recipient st info recipient = Inr (st', r)"
  shows "minted u r = 0 \<and> allowance u st' \<le> allowance u st"
proof -
  obtain rs where rs: "VE_RECIPIENTS st = Some rs" "VE_RECIPIENTS st' = Some (filter (\<lambda>r. re_recipient r \<noteq> recipient) rs)"
    and r: "vr_messages r = []"
    using assms unfolding remove_recipient_def by (auto elim!: rbind_InrE simp: res_ok split: if_split_asm)
  have "left_of (kept_for u (filter (\<lambda>r. re_recipient r \<noteq> recipient) rs)) \<le> left_of (kept_for u rs)"
  proof (cases "u = recipient")
    case True
    then have "kept_for u (filter (\<lambda>r. re_recipient r \<noteq> recipient) rs) = None" by (intro kept_for_absent) auto
    then show ?thesis by (simp add: left_of_def)
  next
    case False
    then show ?thesis by (simp add: kept_for_filter)
  qed
  then show ?thesis using rs r by (simp add: allowance_eq)
qed

lemma claim_for_recipient_pays:
  assumes "claim_fees_for_recipient st info = Inr (st', r)"
  shows "minted u r = 0 \<and> allowance u st' = allowance u st"
proof -
  obtain rs i x where rs: "VE_RECIPIENTS st = Some rs" "i < length rs" "rs ! i = x"
      "VE_RECIPIENTS st' = Some (rs[i := x\<lparr>re_claimables := []\<rparr>])"
    and r: "minted u r = 0"
    using assms unfolding claim_fees_for_recipient_def
    by (auto elim!: rbind_InrE simp: res_ok split: if_split_asm option.splits)
  have "list_all2 same_allocations rs (rs[i := x\<lparr>re_claimables := []\<rparr>])"
    using rs by (auto simp: list_all2_conv_all_nth same_allocations_def nth_list_update)
  from kept_for_same[OF this] show ?thesis using rs r by (simp add: allowance_eq)
qed

lemma ve_execute_pays:
  assumes "ve_execute L Q st env info m = Inr (st', r)" and "ve_inv st" and "\<not> allocates m"
  shows "minted u r + allowance u st' \<le> allowance u st"
proof (cases m)
  case VeClaimFeesforContract
  have "VE_CONFIG st \<noteq> None" using assms(1) VeClaimFeesforContract
    by (auto simp: claim_fees_for_contract_def res_ok elim!: rbind_InrE)
  then show ?thesis using claim_fees_kept assms(1,2) VeClaimFeesforContract by fastforce
next
  case (VeUpdateConfig owner denom proxy staking extra)
  then have "VE_RECIPIENTS st' = VE_RECIPIENTS st" "vr_messages r = []" using assms(1)
    by (auto simp: ve_update_config_def Let_def elim!: rbind_InrE split: option.splits if_split_asm)
  then show ?thesis by (simp add: allowance_eq)
next
  case (VeRemoveRecipient recipient)
  then have "minted u r = 0 \<and> allowance u st' \<le> allowance u st" using assms(1) remove_recipient_pays by simp
  then show ?thesis by linarith
qed (use assms in \<open>auto simp: ve_submit_proposal_def ve_cast_vote_def elim!: rbind_InrE split: option.splits
  dest!: add_recipient_pays[where u = u] claim_for_recipient_pays[where u = u]
  intro: withdraw_unlocked_pays\<close>)

text \<open>What a run mints to an address.\<close>

fun run_mints :: "chain_lib \<Rightarrow> addr \<Rightarrow> ve_event list \<Rightarrow> vesting_storage \<Rightarrow> uint128" where
  "run_mints L u [] st = 0"
| "run_mints L u (e # es) st = (case ve_step L e st of
      Inl _ \<Rightarrow> run_mints L u es st
    | Inr (st', r) \<Rightarrow> minted u r + run_mints L u es st')"

lemma run_mints_le:
  assumes "ve_inv st" and "\<forall>e\<in>set es. \<not> allocates (vv_msg e)"
  shows "run_mints L u es st \<le> allowance u st"
  using assms
proof (induction es arbitrary: st)
  case Nil
  then show ?case by simp
next
  case (Cons e es)
  show ?case
  proof (cases "ve_step L e st")
    case (Inl x)
    then show ?thesis using Cons by simp
  next
    case (Inr y)
    obtain st' r where y: "y = (st', r)" by (cases y)
    have run: "ve_execute L (vv_querier e) st (vv_env e) (vv_info e) (vv_msg e) = Inr (st', r)"
      using Inr y by (simp add: ve_step_def)
    have "run_mints L u es st' \<le> allowance u st'" using Cons ve_execute_inv[OF run] by simp
    moreover have "minted u r + allowance u st' \<le> allowance u st" using ve_execute_pays[OF run] Cons.prems by simp
    ultimately show ?thesis by (simp add: Inr y)
  qed
qed

end
