(* ===== verification/Staking_Claims.thy ===== *)
theory Staking_Claims
  imports Staking_State
begin

text \<open>
  Staking: the rewards of a staker (\<open>contracts/staking/src/contract.rs\<close>: \<open>add_staking_deposit\<close>,
  \<open>get_delegation_commission\<close>, \<open>get_deposit_claimables\<close>, \<open>get_user_claimables\<close>, \<open>create_rewards_msgs\<close>).

  A fee event records the fee per staked token. A deposit claims every event between its last accrual and
  now, on its amount less the commission of its delegates and plus its own commission, and accrues MBRN.
\<close>

section \<open>Deposits\<close>

definition SK_SECONDS_PER_YEAR :: u64 where "SK_SECONDS_PER_YEAR = 31536000"

definition SK_SECONDS_PER_DAY :: u64 where "SK_SECONDS_PER_DAY = 86400"

definition add_staking_deposit ::
  "staking_storage \<Rightarrow> Env \<Rightarrow> staking_config \<Rightarrow> addr \<Rightarrow> uint128 \<Rightarrow> (std_error, staking_storage) result" where
  "add_staking_deposit st env config staker amount =
     (let deposit = \<lparr>sd_staker = staker, sd_amount = amount, sd_stake_time = time_seconds env,
            sd_unstake_start_time = None, sd_last_accrued = None\<rparr>;
          st = sk_save_staked staker (or_default (staked st staker) [] @ [deposit]) st in
      rbind (sk_totals_load st) (\<lambda>totals.
      rbind (if kc_vesting_contract config = Some staker then
               rbind (u128_add (to_vesting_contract totals) amount) (\<lambda>n.
               Inr (totals\<lparr>to_vesting_contract := n\<rparr>))
             else
               rbind (u128_add (to_stakers totals) amount) (\<lambda>n.
               Inr (totals\<lparr>to_stakers := n\<rparr>))) (\<lambda>totals.
      Inr (st\<lparr>SK_STAKING_TOTALS := Some totals\<rparr>))))"

section \<open>Commissions\<close>

definition commission_rates_of ::
  "staking_storage \<Rightarrow> Delegation list \<Rightarrow> (std_error, (decimal \<times> uint128) list \<times> uint128) result" where
  "commission_rates_of st delegated_to =
     rfold (\<lambda>delegation (rates, total).
       rbind (sk_load ''DelegationInfo'' (delegations st (dl_delegate delegation))) (\<lambda>info.
       rbind (u128_sum (map dl_amount (filter (\<lambda>d. dl_delegate d = dl_delegate delegation) delegated_to))) (\<lambda>sum.
       rbind (u128_add total sum) (\<lambda>total.
       Inr (rates @ [(di_commission info, sum)], total))))) delegated_to ([], 0)"

definition get_delegation_commission ::
  "staking_storage \<Rightarrow> Delegation list \<Rightarrow> Delegation list \<Rightarrow> uint128 \<Rightarrow> decimal \<Rightarrow>
   (std_error, decimal \<times> decimal) result" where
  "get_delegation_commission st delegated delegated_to total_rewarding_stake user_commission_rate =
     (if total_rewarding_stake = 0 \<or> (delegated = [] \<and> delegated_to = []) then Inr (0, 0)
      else
        rbind (commission_rates_of st delegated_to) (\<lambda>(rates, total_delegated_to).
        rbind (rfold (\<lambda>(rate, n) weighted.
            rbind (dec_from_ratio n total_delegated_to) (\<lambda>share.
            rbind (dec_mul rate share) (\<lambda>part.
            dec_add weighted part))) rates 0) (\<lambda>commission_rate.
        rbind (dec_from_ratio total_delegated_to total_rewarding_stake) (\<lambda>ratio.
        let total_delegated_ratio = min ratio DECIMAL_FRACTIONAL in
        rbind (decimal_multiplication total_delegated_ratio commission_rate) (\<lambda>subtraction.
        rbind (u128_sum (map dl_amount delegated)) (\<lambda>total_delegated.
        rbind (dec_from_ratio total_delegated total_rewarding_stake) (\<lambda>total_delegated_ratio.
        rbind (decimal_multiplication total_delegated_ratio user_commission_rate) (\<lambda>addition.
        Inr (subtraction, addition)))))))))"

section \<open>Claims of a deposit\<close>

definition sk_accumulate_interest :: "uint128 \<Rightarrow> decimal \<Rightarrow> u64 \<Rightarrow> (std_error, uint128) result" where
  "sk_accumulate_interest stake rate time_elapsed =
     rbind (dec_from_ratio time_elapsed SK_SECONDS_PER_YEAR) (\<lambda>years.
     rbind (dec_checked_mul rate years) (\<lambda>applied_rate.
     uint128_mul_dec stake applied_rate))"

text \<open>An asset joins the list, or its amount is added to the entry of the same asset.\<close>

definition add_claim :: "Asset \<Rightarrow> Asset list \<Rightarrow> ('e, Asset list) result" where
  "add_claim asset claimables =
     (case find_index_of (\<lambda>c. a_info c = a_info asset) claimables of
        Some (index, c) \<Rightarrow>
          rbind (u128_add (a_amount c) (a_amount asset)) (\<lambda>n.
          update_at claimables index (c\<lparr>a_amount := n\<rparr>))
      | None \<Rightarrow> Inr (claimables @ [asset]))"

definition accrued_since :: "StakeDeposit \<Rightarrow> u64" where
  "accrued_since d = or_default (sd_last_accrued d) (sd_stake_time d)"

definition event_claims :: "FeeEvent list \<Rightarrow> uint128 \<Rightarrow> (std_error, Asset list) result" where
  "event_claims events amount =
     rfold (\<lambda>event claimables.
       rbind (uint128_mul_dec amount (la_amount (fe_fee event))) (\<lambda>n.
       add_claim \<lparr>a_info = la_info (fe_fee event), a_amount = n\<rparr> claimables)) events []"

definition apply_commission :: "decimal \<Rightarrow> decimal \<Rightarrow> uint128 \<Rightarrow> (std_error, uint128) result" where
  "apply_commission subtraction addition amount =
     rbind (if 0 < subtraction then
              rbind (dec_sub DECIMAL_FRACTIONAL subtraction) (\<lambda>kept.
              rbind (dec_of_uint amount) (\<lambda>d.
              rbind (decimal_multiplication kept d) (\<lambda>d. Inr (to_uint_floor d))))
            else Inr amount) (\<lambda>amount.
     if 0 < addition then
       rbind (dec_add DECIMAL_FRACTIONAL addition) (\<lambda>grown.
       rbind (dec_of_uint amount) (\<lambda>d.
       rbind (decimal_multiplication grown d) (\<lambda>d. Inr (to_uint_floor d))))
     else Inr amount)"

definition get_deposit_claimables ::
  "staking_storage \<Rightarrow> staking_config \<Rightarrow> StakeDistributionLog \<Rightarrow> Env \<Rightarrow> FeeEvent list \<Rightarrow> StakeDeposit \<Rightarrow>
   Delegation list \<Rightarrow> Delegation list \<Rightarrow> uint128 \<Rightarrow> decimal \<Rightarrow> (std_error, Asset list \<times> uint128) result" where
  "get_deposit_claimables st config incentive_schedule env fee_events deposit delegated delegated_to
     total_rewarding_stake user_commission_rate =
     (let now = time_seconds env;
          experienced = filter (\<lambda>e. accrued_since deposit < fe_time_of_event e \<and> fe_time_of_event e \<le> now) fee_events;
          before = filter (\<lambda>d. or_default (dl_last_accrued d) (dl_time_of_delegation d) < now) in
      rbind (get_delegation_commission st (before delegated) (before delegated_to) total_rewarding_stake
               user_commission_rate) (\<lambda>(subtraction, addition).
      rbind (apply_commission subtraction addition (sd_amount deposit)) (\<lambda>amount.
      rbind (event_claims experienced amount) (\<lambda>claimables.
      rbind (u64_mul (sdn_duration (sdl_ownership_distribution incentive_schedule)) SK_SECONDS_PER_DAY) (\<lambda>rate_duration.
      rbind (u64_sub now (sdl_start_time incentive_schedule)) (\<lambda>running.
      let rate = (if rate_duration < running then 0 else sdn_rate (kc_incentive_schedule config)) in
      rbind (if rate \<noteq> 0 then
               rbind (u64_sub now (accrued_since deposit)) (\<lambda>time_elapsed.
               sk_accumulate_interest amount rate time_elapsed)
             else Inr 0) (\<lambda>interest.
      Inr (claimables, interest))))))))"

definition add_deposit_claimables ::
  "staking_storage \<Rightarrow> staking_config \<Rightarrow> StakeDistributionLog \<Rightarrow> Env \<Rightarrow> FeeEvent list \<Rightarrow> Delegation list \<Rightarrow>
   Delegation list \<Rightarrow> uint128 \<Rightarrow> decimal \<Rightarrow> StakeDeposit \<Rightarrow> Asset list \<times> uint128 \<Rightarrow>
   (std_error, Asset list \<times> uint128) result" where
  "add_deposit_claimables st config incentive_schedule env fee_events delegated_to delegated
     total_rewarding_stake user_commission_rate deposit claimed =
     (let (claimables, accrued_interest) = claimed in
      rbind (get_deposit_claimables st config incentive_schedule env fee_events deposit delegated delegated_to
               total_rewarding_stake user_commission_rate) (\<lambda>(deposit_claimables, deposit_interest).
      rbind (u128_add accrued_interest deposit_interest) (\<lambda>accrued_interest.
      rbind (rfold add_claim deposit_claimables claimables) (\<lambda>claimables.
      Inr (claimables, accrued_interest)))))"

end
