(* ===== verification/Staking_Rewards.thy ===== *)
theory Staking_Rewards
  imports Staking_Claims
begin

text \<open>
  Staking: claiming (\<open>contracts/staking/src/contract.rs\<close>: \<open>get_user_claimables\<close>, \<open>create_rewards_msgs\<close>).

  Claiming condenses the staked deposits of a user into one, and leaves the commission of each delegate in
  the delegate's claims.
\<close>

section \<open>The delegates of a user\<close>

text \<open>\<open>last_accrued\<close> of the first delegation that meets the test becomes the block time.\<close>

definition mark_accrued :: "u64 \<Rightarrow> (Delegation \<Rightarrow> bool) \<Rightarrow> Delegation list \<Rightarrow> Delegation list" where
  "mark_accrued now P ds = (case find_index_of P ds of
       Some (i, d) \<Rightarrow> ds[i := d\<lparr>dl_last_accrued := Some now\<rparr>]
     | None \<Rightarrow> ds)"

definition accrue_delegate :: "u64 \<Rightarrow> addr \<Rightarrow> addr \<Rightarrow> staking_storage \<Rightarrow> (std_error, staking_storage) result" where
  "accrue_delegate now user delegate st =
     rbind (ok_or (GenericErr ''Delegate not found'') (delegations st delegate)) (\<lambda>info.
     let st = sk_save_delegations delegate
           (info\<lparr>di_delegated := mark_accrued now (\<lambda>d. dl_delegate d = user) (di_delegated info)\<rparr>) st in
     rbind (ok_or (GenericErr ''Delegate not found'') (delegations st user)) (\<lambda>info.
     Inr (sk_save_delegations user
       (info\<lparr>di_delegated_to := mark_accrued now (\<lambda>d. dl_delegate d = delegate) (di_delegated_to info)\<rparr>) st)))"

definition add_coin_claim :: "Coin \<Rightarrow> Coin list \<Rightarrow> ('e, Coin list) result" where
  "add_coin_claim new_claim claims =
     (case find_index_of (\<lambda>c. c_denom c = c_denom new_claim) claims of
        Some (i, c) \<Rightarrow>
          rbind (u128_add (c_amount c) (c_amount new_claim)) (\<lambda>n.
          update_at claims i (c\<lparr>c_amount := n\<rparr>))
      | None \<Rightarrow> Inr (claims @ [new_claim]))"

definition sendable_coins :: "Asset list \<Rightarrow> Coin list" where
  "sendable_coins assets = List.map_filter (\<lambda>a. case asset_to_coin a of Inr c \<Rightarrow> Some c | Inl _ \<Rightarrow> None) assets"

definition delegate_commission_of :: "uint128 \<Rightarrow> decimal \<Rightarrow> (std_error, uint128) result" where
  "delegate_commission_of amount commission =
     rbind (dec_of_uint amount) (\<lambda>d.
     rbind (rcatch (decimal_multiplication d commission) (\<lambda>_. Inr 0)) (\<lambda>part.
     Inr (to_uint_floor part)))"

definition claim_for_delegate ::
  "staking_config \<Rightarrow> StakeDistributionLog \<Rightarrow> Env \<Rightarrow> FeeEvent list \<Rightarrow> addr \<Rightarrow> Delegation \<Rightarrow> staking_storage \<Rightarrow>
   (std_error, staking_storage) result" where
  "claim_for_delegate config incentive_schedule env fee_events user delegate st =
     rbind (sk_load ''DelegationInfo'' (delegations st (dl_delegate delegate))) (\<lambda>info.
     let commission = di_commission info in
     rbind (accrue_delegate (time_seconds env) user (dl_delegate delegate) st) (\<lambda>st.
     rbind (delegate_commission_of (dl_amount delegate) commission) (\<lambda>delegate_commission.
     let temp_deposit = \<lparr>sd_staker = user, sd_amount = delegate_commission,
           sd_stake_time = dl_time_of_delegation delegate, sd_unstake_start_time = None,
           sd_last_accrued = dl_last_accrued delegate\<rparr> in
     rbind (get_deposit_claimables st config incentive_schedule env fee_events temp_deposit [] []
              delegate_commission 0) (\<lambda>(delegate_claimables, delegate_interest).
     let coins = sendable_coins delegate_claimables in
     rbind (case SK_DELEGATE_CLAIMS st (dl_delegate delegate) of
              Some (claims, interest) \<Rightarrow>
                rbind (rfold add_coin_claim coins claims) (\<lambda>claims.
                rbind (u128_add interest delegate_interest) (\<lambda>interest.
                Inr (claims, interest)))
            | None \<Rightarrow> Inr (coins, delegate_interest)) (\<lambda>entry.
     Inr (st\<lparr>SK_DELEGATE_CLAIMS := (SK_DELEGATE_CLAIMS st)(dl_delegate delegate \<mapsto> entry)\<rparr>))))))"

section \<open>The claims of a user\<close>

definition claim_deposits ::
  "staking_config \<Rightarrow> StakeDistributionLog \<Rightarrow> Env \<Rightarrow> FeeEvent list \<Rightarrow> addr \<Rightarrow> StakeDeposit list \<Rightarrow> DelegationInfo \<Rightarrow>
   staking_storage \<Rightarrow> (std_error, staking_storage \<times> Asset list \<times> uint128) result" where
  "claim_deposits config incentive_schedule env fee_events user deposits info st =
     (let returning = filter (\<lambda>d. sd_unstake_start_time d \<noteq> None) deposits;
          deposits = filter (\<lambda>d. sd_unstake_start_time d = None) deposits;
          earliest = (if deposits = [] then time_seconds env else Min (set (map sd_stake_time deposits))) in
      rbind (u128_sum (map sd_amount deposits)) (\<lambda>total_rewarding_stake.
      rbind (rfold (add_deposit_claimables st config incentive_schedule env fee_events (di_delegated_to info)
               (di_delegated info) total_rewarding_stake (di_commission info)) deposits ([], 0))
        (\<lambda>(claimables, accrued_interest).
      let condensed = \<lparr>sd_staker = user, sd_amount = total_rewarding_stake, sd_stake_time = earliest,
            sd_unstake_start_time = None, sd_last_accrued = Some (time_seconds env)\<rparr>;
          st = sk_save_staked user (returning @ [condensed]) st in
      if di_delegated_to info \<noteq> [] then
        rbind (rfold (claim_for_delegate config incentive_schedule env fee_events user) (di_delegated_to info) st) (\<lambda>st.
        Inr (st, filter (\<lambda>c. a_amount c \<noteq> 0) claimables, accrued_interest))
      else Inr (st, claimables, accrued_interest))))"

definition claim_vesting ::
  "staking_config \<Rightarrow> StakeDistributionLog \<Rightarrow> Env \<Rightarrow> FeeEvent list \<Rightarrow> addr \<Rightarrow> staking_storage \<Rightarrow>
   (std_error, staking_storage \<times> Asset list \<times> uint128) result" where
  "claim_vesting config incentive_schedule env fee_events vesting_contract st =
     rbind (sk_totals_load st) (\<lambda>totals.
     rbind (dec_of_uint (to_vesting_contract totals)) (\<lambda>d.
     rbind (decimal_multiplication d (kc_vesting_rev_multiplier config)) (\<lambda>d.
     let total = to_uint_floor d in
     rbind (sk_load ''u64'' (SK_VESTING_STAKE_TIME st)) (\<lambda>stake_time.
     let temp_deposit = \<lparr>sd_staker = vesting_contract, sd_amount = total, sd_stake_time = stake_time,
           sd_unstake_start_time = None, sd_last_accrued = None\<rparr>;
         (config, st) = (case SK_VESTING_REV_MULTIPLIER st of
             Some multiplier \<Rightarrow>
               let config = config\<lparr>kc_vesting_rev_multiplier := multiplier\<rparr> in (config, st\<lparr>SK_CONFIG := Some config\<rparr>)
           | None \<Rightarrow> (config, st));
         st = st\<lparr>SK_VESTING_STAKE_TIME := Some (time_seconds env)\<rparr> in
     rbind (get_deposit_claimables st config incentive_schedule env fee_events temp_deposit [] [] total 0)
       (\<lambda>(claims, interest).
     Inr (st, filter (\<lambda>c. a_amount c \<noteq> 0) claims, 0))))))"

definition get_user_claimables ::
  "staking_storage \<Rightarrow> Env \<Rightarrow> addr \<Rightarrow> (std_error, staking_storage \<times> Asset list \<times> uint128) result" where
  "get_user_claimables st env user =
     rbind (sk_config_load st) (\<lambda>config.
     rbind (sk_load ''StakeDistributionLog'' (SK_INCENTIVE_SCHEDULING st)) (\<lambda>incentive_schedule.
     rbind (sk_load ''Vec<FeeEvent>'' (SK_FEE_EVENTS st)) (\<lambda>fee_events.
     let deposits = or_default (staked st user) [];
         info = or_default (delegations st user) no_delegations in
     if deposits \<noteq> [] then claim_deposits config incentive_schedule env fee_events user deposits info st
     else if kc_vesting_contract config = Some user then
       claim_vesting config incentive_schedule env fee_events user st
     else Inr (st, [], 0))))"

section \<open>Paying\<close>

definition native_claim_coins :: "Asset list \<Rightarrow> Coin list \<Rightarrow> (std_error, Coin list) result" where
  "native_claim_coins claimables native_claims =
     rfold (\<lambda>asset coins. case a_info asset of
         Token _ \<Rightarrow> Inl (Failed (GenericErr ''Non-native token unclaimable''))
       | NativeToken _ \<Rightarrow> rbind (asset_to_coin asset) (\<lambda>coin. Inr (coins @ [coin]))) claimables native_claims"

definition send_native_claims :: "staking_querier \<Rightarrow> Env \<Rightarrow> string \<Rightarrow> Coin list \<Rightarrow> (std_error, cosmos_msg list) result" where
  "send_native_claims Q env user native_claims =
     (if native_claims = [] then Inr []
      else
        let coins = sort_key c_denom (filter (\<lambda>c. c_amount c \<noteq> 0 \<and> 0 < c_amount c) native_claims) in
        rbind (answered (kq_all_balances Q (contract_address env))) (\<lambda>balances.
        let coins = filter (\<lambda>c. find (\<lambda>balance. c_denom balance = c_denom c) balances \<noteq> None) coins in
        Inr (if coins \<noteq> [] then [BankSend user coins] else [])))"

definition create_rewards_msgs ::
  "chain_lib \<Rightarrow> staking_querier \<Rightarrow> staking_storage \<Rightarrow> Env \<Rightarrow> staking_config \<Rightarrow> Asset list \<Rightarrow> uint128 \<Rightarrow> string \<Rightarrow>
   Coin list \<Rightarrow> (std_error, staking_storage \<times> cosmos_msg list) result" where
  "create_rewards_msgs L Q st env config claimables accrued_interest user native_claims =
     rbind (native_claim_coins claimables native_claims) (\<lambda>native_claims.
     rbind (lib_addr_validate L user) (\<lambda>staker.
     rbind (case SK_DELEGATE_CLAIMS st staker of
              Some (claims, interest) \<Rightarrow>
                rbind (u128_add accrued_interest interest) (\<lambda>accrued_interest.
                Inr (st\<lparr>SK_DELEGATE_CLAIMS := (SK_DELEGATE_CLAIMS st)(staker := None)\<rparr>, accrued_interest,
                     native_claims @ claims))
            | None \<Rightarrow> Inr (st, accrued_interest, native_claims)) (\<lambda>(st, accrued_interest, native_claims).
     rbind (if accrued_interest \<noteq> 0 then
              rbind (add_staking_deposit st env config staker accrued_interest) (\<lambda>st.
              rbind (unwrap (kc_osmosis_proxy config)) (\<lambda>proxy.
              Inr (st, [WasmExecute proxy (MintTokens (kc_mbrn_denom config) accrued_interest (contract_address env)) []])))
            else Inr (st, [])) (\<lambda>(st, msgs).
     rbind (send_native_claims Q env user native_claims) (\<lambda>sends.
     Inr (st, msgs @ sends))))))"

end
