(* ===== verification/Staking_Unstake.thy ===== *)
theory Staking_Unstake
  imports Staking_Rewards
begin

text \<open>
  Staking: \<open>stake\<close>, \<open>unstake\<close> and \<open>restake\<close> with the functions they call
  (\<open>contracts/staking/src/contract.rs\<close>).
\<close>

section \<open>Staking\<close>

abbreviation plain :: "cosmos_msg list \<Rightarrow> staking_msg list" where
  "plain msgs \<equiv> map SkCosmos msgs"

definition stake ::
  "chain_lib \<Rightarrow> staking_storage \<Rightarrow> Env \<Rightarrow> MessageInfo \<Rightarrow> string option \<Rightarrow>
   (staking_storage \<times> staking_response) staking_result" where
  "stake L st env info user =
     rbind (map_err SkStd (sk_config_load st)) (\<lambda>config.
     rbind (case funds info of
              [coin] \<Rightarrow>
                if c_denom coin = kc_mbrn_denom config then
                  if sender info \<noteq> contract_address env \<and> c_amount coin < 1000000 then
                    Inl (Failed (SkCustomError ''Must stake at least 1 MBRN''))
                  else map_err SkStd (assert_sent_native_token_balance (NativeToken (kc_mbrn_denom config)) info)
                else Inl (Failed (SkCustomError ''No valid assets''))
            | _ \<Rightarrow> Inl (Failed (SkCustomError ''No valid assets''))) (\<lambda>valid_asset.
     rbind (map_err SkStd (validate_position_owner L info user)) (\<lambda>valid_owner_addr.
     rbind (map_err SkStd (add_staking_deposit st env config valid_owner_addr (a_amount valid_asset))) (\<lambda>st.
     Inr (st, \<lparr>kr_messages = [], kr_attributes = [(''method'', AText ''stake''),
       (''staker'', AText valid_owner_addr), (''amount'', ANum (a_amount valid_asset))]\<rparr>)))))"

section \<open>Who may unstake\<close>

fun check_not_voted ::
  "staking_querier \<Rightarrow> addr \<Rightarrow> addr \<Rightarrow> ProposalResponse list \<Rightarrow> unit staking_result" where
  "check_not_voted Q governance user [] = Inr ()"
| "check_not_voted Q governance user (proposal # proposals) =
     (if (pq_status proposal = Passed \<and> pq_messages proposal \<noteq> None) \<or> pq_status proposal = Active then
        (case kq_proposal_voters Q governance (pq_proposal_id proposal) VoteFor None None (Some user) of
           Inr _ \<Rightarrow> Inl (Failed (SkCustomNums
             ''Can't unstake if the proposal you helped pass hasn't executed its messages yet: ''
             [pq_proposal_id proposal]))
         | Inl _ \<Rightarrow> check_not_voted Q governance user proposals)
      else check_not_voted Q governance user proposals)"

definition can_this_addr_unstake :: "staking_querier \<Rightarrow> addr \<Rightarrow> staking_config \<Rightarrow> unit staking_result" where
  "can_this_addr_unstake Q user config =
     rbind (unwrap (kc_governance_contract config)) (\<lambda>governance.
     rbind (map_err SkStd (answered (kq_active_proposals Q governance None (Some 32)))) (\<lambda>proposal_list.
     if list_ex (\<lambda>p. pq_submitter p = user \<and> pq_status p = Active) (pl_proposal_list proposal_list) then
       Inl (Failed (SkCustomError ''Can't unstake while your proposal is active''))
     else check_not_voted Q governance user (pl_proposal_list proposal_list)))"

section \<open>Withdrawing from the deposits\<close>

text \<open>One turn of the closure over the staked deposits: the rest to unstake and the deposits to return.\<close>

definition unstake_turn ::
  "u64 \<Rightarrow> StakeDeposit \<Rightarrow> uint128 \<times> StakeDeposit list \<Rightarrow> (uint128 \<times> StakeDeposit list) \<times> StakeDeposit" where
  "unstake_turn now deposit s =
     (let (withdrawal_amount, returning) = s in
      if withdrawal_amount \<noteq> 0 \<and> withdrawal_amount < sd_amount deposit then
        let deposit = deposit\<lparr>sd_last_accrued := Some now\<rparr>;
            returning = returning @ [deposit\<lparr>sd_amount := sd_amount deposit - withdrawal_amount,
                                             sd_unstake_start_time := None\<rparr>];
            deposit = deposit\<lparr>sd_amount := withdrawal_amount\<rparr> in
        if sd_unstake_start_time deposit = None
        then ((0, returning), deposit\<lparr>sd_unstake_start_time := Some now\<rparr>)
        else ((withdrawal_amount, returning), deposit)
      else if withdrawal_amount \<noteq> 0 \<and> sd_amount deposit \<le> withdrawal_amount then
        let (withdrawal_amount, deposit) =
              (if sd_unstake_start_time deposit = None
               then (withdrawal_amount - sd_amount deposit, deposit\<lparr>sd_unstake_start_time := Some now\<rparr>)
               else (withdrawal_amount, deposit)) in
        ((withdrawal_amount, returning), deposit\<lparr>sd_last_accrued := Some now\<rparr>)
      else ((withdrawal_amount, returning), deposit))"

text \<open>Whether the unstaking period of an unstaking deposit is over.\<close>

definition matured :: "Env \<Rightarrow> staking_config \<Rightarrow> u64 \<Rightarrow> (std_error, bool) result" where
  "matured env config start =
     rbind (u64_sub (time_seconds env) start) (\<lambda>elapsed.
     rbind (u64_mul (kc_unstaking_period config) SK_SECONDS_PER_DAY) (\<lambda>period.
     Inr (period \<le> elapsed)))"

definition withdrawable_deposit :: "Env \<Rightarrow> staking_config \<Rightarrow> StakeDeposit \<Rightarrow> (std_error, bool) result" where
  "withdrawable_deposit env config deposit = (case sd_unstake_start_time deposit of
       None \<Rightarrow> Inr False
     | Some start \<Rightarrow> matured env config start)"

definition pending_deposit :: "Env \<Rightarrow> staking_config \<Rightarrow> StakeDeposit \<Rightarrow> (std_error, bool) result" where
  "pending_deposit env config deposit = (case sd_unstake_start_time deposit of
       None \<Rightarrow> Inr False
     | Some start \<Rightarrow> rbind (matured env config start) (\<lambda>m. Inr (\<not> m)))"

definition sk_withdraw_from_state ::
  "staking_storage \<Rightarrow> Env \<Rightarrow> addr \<Rightarrow> uint128 \<Rightarrow>
   (std_error, staking_storage \<times> Asset list \<times> uint128 \<times> uint128) result" where
  "sk_withdraw_from_state st env staker withdrawal_amount =
     rbind (sk_config_load st) (\<lambda>config.
     rbind (sk_load ''Vec<StakeDeposit>'' (staked st staker)) (\<lambda>deposits.
     rbind (rfilter (withdrawable_deposit env config) deposits) (\<lambda>withdrawable.
     rbind (u128_sum (map sd_amount withdrawable)) (\<lambda>total_withdrawable.
     let withdrawal_amount = (if total_withdrawable < withdrawal_amount
           then withdrawal_amount - total_withdrawable else 0);
         staked_deposits = filter (\<lambda>d. sd_unstake_start_time d = None) deposits;
         ((rest, returning), turned) =
           map_state (unstake_turn (time_seconds env)) staked_deposits (withdrawal_amount, []);
         new_deposits = filter (\<lambda>d. sd_amount d \<noteq> 0) turned in
     if rest \<noteq> 0 then
       Inl (Failed (GenericFmtNum ''Attempting to withdraw {} MBRN over ( {} )'s total currently staked amount'' rest))
     else
       rbind (rfilter (pending_deposit env config) deposits) (\<lambda>unstaking_deposits.
       rbind (get_user_claimables st env staker) (\<lambda>(st, claimables, accrued_interest).
       Inr (sk_save_staked staker (unstaking_deposits @ new_deposits @ returning) st,
            claimables, accrued_interest, total_withdrawable)))))))"

section \<open>Undelegating what is withdrawn\<close>

definition drop_delegator :: "addr \<Rightarrow> Delegation list \<Rightarrow> ('e, Delegation list) result" where
  "drop_delegator user ds = (case find_index_of (\<lambda>d. dl_delegate d = user) ds of
       Some (i, _) \<Rightarrow> remove_at ds i
     | None \<Rightarrow> Inr ds)"

text \<open>The first delegation of the user falls by the amount, or to zero, which lowers the amount left.\<close>

definition lower_delegator :: "addr \<Rightarrow> uint128 \<Rightarrow> Delegation list \<Rightarrow> ('e, Delegation list) result" where
  "lower_delegator user n ds = (case find_index_of (\<lambda>d. dl_delegate d = user) ds of
       Some (i, d) \<Rightarrow> update_at ds i (d\<lparr>dl_amount := (if n \<le> dl_amount d then dl_amount d - n else 0)\<rparr>)
     | None \<Rightarrow> Inr ds)"

fun undelegate_loop ::
  "addr \<Rightarrow> (nat \<times> Delegation) list \<Rightarrow> staking_storage \<Rightarrow> DelegationInfo \<Rightarrow> uint128 \<Rightarrow> nat list \<Rightarrow>
   (std_error, staking_storage \<times> DelegationInfo \<times> nat list) result" where
  "undelegate_loop user [] st staker_info undelegate_amount remove_indices = Inr (st, staker_info, remove_indices)"
| "undelegate_loop user ((i, delegation) # rest) st staker_info undelegate_amount remove_indices =
     (if dl_amount delegation \<le> undelegate_amount \<and> undelegate_amount \<noteq> 0 then
        rbind (sk_load ''DelegationInfo'' (delegations st (dl_delegate delegation))) (\<lambda>info.
        rbind (drop_delegator user (di_delegated info)) (\<lambda>delegated.
        undelegate_loop user rest (sk_save_delegations (dl_delegate delegation) (info\<lparr>di_delegated := delegated\<rparr>) st)
          staker_info (undelegate_amount - dl_amount delegation) (remove_indices @ [i])))
      else
        rbind (at_index (di_delegated_to staker_info) i) (\<lambda>own.
        if undelegate_amount < dl_amount own \<and> undelegate_amount \<noteq> 0 then
          rbind (update_at (di_delegated_to staker_info) i
                   (own\<lparr>dl_amount := dl_amount own - undelegate_amount\<rparr>)) (\<lambda>delegated_to.
          rbind (sk_load ''DelegationInfo'' (delegations st (dl_delegate delegation))) (\<lambda>info.
          rbind (lower_delegator user undelegate_amount (di_delegated info)) (\<lambda>delegated.
          Inr (sk_save_delegations (dl_delegate delegation) (info\<lparr>di_delegated := delegated\<rparr>) st,
               staker_info\<lparr>di_delegated_to := delegated_to\<rparr>, remove_indices))))
        else undelegate_loop user rest st staker_info undelegate_amount remove_indices))"

definition undelegate_excess ::
  "addr \<Rightarrow> uint128 \<Rightarrow> uint128 \<Rightarrow> DelegationInfo \<Rightarrow> staking_storage \<Rightarrow> (std_error, staking_storage) result" where
  "undelegate_excess user total_stake withdrawable_amount staker_info st =
     rbind (u128_sum (map dl_amount (di_delegated_to staker_info))) (\<lambda>total_delegations.
     let undelegated_stake = total_stake - total_delegations in
     if undelegated_stake < withdrawable_amount then
       rbind (undelegate_loop user (enumerate 0 (di_delegated_to staker_info)) st staker_info
                (withdrawable_amount - undelegated_stake) []) (\<lambda>(st, staker_info, remove_indices).
       rbind (rfold (\<lambda>i ds. remove_at ds i) remove_indices (di_delegated_to staker_info)) (\<lambda>delegated_to.
       Inr (sk_save_delegations user (staker_info\<lparr>di_delegated_to := delegated_to\<rparr>) st)))
     else Inr st)"

section \<open>Unstaking\<close>

definition lower_totals :: "staking_config \<Rightarrow> addr \<Rightarrow> uint128 \<Rightarrow> staking_totals \<Rightarrow> staking_totals staking_result" where
  "lower_totals config user n totals =
     (if kc_vesting_contract config = Some user then
        if n \<le> to_vesting_contract totals then Inr (totals\<lparr>to_vesting_contract := to_vesting_contract totals - n\<rparr>)
        else Inl (Failed (SkCustomNums ''Vesting total accounting error. Vesting: {}, Withdraw: {}''
          [to_vesting_contract totals, n]))
      else if n \<le> to_stakers totals then Inr (totals\<lparr>to_stakers := to_stakers totals - n\<rparr>)
        else Inl (Failed (SkCustomNums ''Staker total accounting error. Stakers: {}, Withdraw: {}''
          [to_stakers totals, n])))"

definition stake_of :: "staking_storage \<Rightarrow> addr \<Rightarrow> uint128 staking_result" where
  "stake_of st user =
     rbind (ok_or (SkCustomError ''User has no stake'') (staked st user)) (\<lambda>deposits.
     u128_sum (map sd_amount deposits))"

definition unstake ::
  "chain_lib \<Rightarrow> staking_querier \<Rightarrow> staking_storage \<Rightarrow> Env \<Rightarrow> MessageInfo \<Rightarrow> uint128 option \<Rightarrow>
   (staking_storage \<times> staking_response) staking_result" where
  "unstake L Q st env info mbrn_withdraw_amount =
     rbind (map_err SkStd (sk_config_load st)) (\<lambda>config.
     rbind (can_this_addr_unstake Q (sender info) config) (\<lambda>_.
     rbind (stake_of st (sender info)) (\<lambda>total_stake.
     let withdraw_amount = min (or_default mbrn_withdraw_amount total_stake) total_stake in
     rbind (map_err SkStd (sk_withdraw_from_state st env (sender info) withdraw_amount))
       (\<lambda>(st, claimables, accrued_interest, withdrawable_amount).
     rbind (stake_of st (sender info)) (\<lambda>new_total_staked.
     rbind (if total_stake < withdrawable_amount then Inr True
            else rbind (u128_add withdrawable_amount new_total_staked) (\<lambda>n. Inr (n \<noteq> total_stake))) (\<lambda>discrepancy.
     if discrepancy then Inl (Failed (SkCustomNums ''Invalid withdrawable amount: '' [withdrawable_amount]))
     else
       rbind (if withdrawable_amount \<noteq> 0 then
                rbind (map_err SkStd (asset_to_coin
                    \<lparr>a_info = NativeToken (kc_mbrn_denom config), a_amount = withdrawable_amount\<rparr>)) (\<lambda>coin.
                rbind (case delegations st (sender info) of
                         Some staker_info \<Rightarrow>
                           map_err SkStd (undelegate_excess (sender info) total_stake withdrawable_amount staker_info st)
                       | None \<Rightarrow> Inr st) (\<lambda>st.
                Inr (st, [coin])))
              else Inr (st, [])) (\<lambda>(st, native_claims).
       rbind (map_err SkStd (create_rewards_msgs L Q st env config claimables accrued_interest (sender info)
                native_claims)) (\<lambda>(st, claims_msgs).
       rbind (map_err SkStd (sk_totals_load st)) (\<lambda>totals.
       let withdraw_amount = (if withdraw_amount \<le> withdrawable_amount then 0
             else withdraw_amount - withdrawable_amount) in
       rbind (lower_totals config (sender info) withdraw_amount totals) (\<lambda>totals.
       Inr (st\<lparr>SK_STAKING_TOTALS := Some totals\<rparr>,
         \<lparr>kr_messages = plain claims_msgs, kr_attributes = [(''method'', AText ''unstake''),
            (''staker'', AText (sender info)), (''unstake_amount'', ANum withdrawable_amount)]\<rparr>)))))))))))"

section \<open>Restaking\<close>

definition restake_turn :: "u64 \<Rightarrow> StakeDeposit \<Rightarrow> uint128 \<Rightarrow> uint128 \<times> StakeDeposit" where
  "restake_turn now deposit restake_amount =
     (if restake_amount \<noteq> 0 \<and> sd_unstake_start_time deposit \<noteq> None then
        let restaked = deposit\<lparr>sd_unstake_start_time := None, sd_last_accrued := Some now\<rparr> in
        if restake_amount \<le> sd_amount deposit then (0, restaked)
        else (restake_amount - sd_amount deposit, restaked)
      else (restake_amount, deposit))"

definition sk_restake ::
  "chain_lib \<Rightarrow> staking_querier \<Rightarrow> staking_storage \<Rightarrow> Env \<Rightarrow> MessageInfo \<Rightarrow> uint128 \<Rightarrow>
   (staking_storage \<times> staking_response) staking_result" where
  "sk_restake L Q st env info restake_amount =
     rbind (map_err SkStd (sk_config_load st)) (\<lambda>config.
     let initial_restake = restake_amount in
     rbind (map_err SkStd (sk_load ''Vec<StakeDeposit>'' (staked st (sender info)))) (\<lambda>deposits.
     let (restake_amount, restaked_deposits) = map_state (restake_turn (time_seconds env)) deposits restake_amount in
     rbind (map_err SkStd (get_user_claimables st env (sender info))) (\<lambda>(st, claimables, accrued_interest).
     let st = sk_save_staked (sender info) restaked_deposits st in
     rbind (map_err SkStd (sk_totals_load st)) (\<lambda>totals.
     rbind (u128_add (to_stakers totals) (initial_restake - restake_amount)) (\<lambda>n.
     let st = st\<lparr>SK_STAKING_TOTALS := Some (totals\<lparr>to_stakers := n\<rparr>)\<rparr> in
     rbind (map_err SkStd (create_rewards_msgs L Q st env config claimables accrued_interest (sender info) []))
       (\<lambda>(st, rewards_msgs).
     Inr (st, \<lparr>kr_messages = plain rewards_msgs, kr_attributes = [(''method'', AText ''restake''),
       (''restake_amount'', ANum (initial_restake - restake_amount))]\<rparr>)))))))"

end
