(* ===== verification/Staking_Delegations.thy ===== *)
theory Staking_Delegations
  imports Staking_Unstake
begin

text \<open>
  Staking: delegating (\<open>contracts/staking/src/contract.rs\<close>: \<open>update_delegations\<close>,
  \<open>delegate_fluid_delegations\<close>, \<open>delegate_declarations\<close>).

  A delegation is kept twice: in \<open>delegated_to\<close> of the staker and in \<open>delegated\<close> of the delegate.
\<close>

section \<open>Lists of delegations\<close>

definition add_delegation ::
  "addr \<Rightarrow> uint128 \<Rightarrow> bool \<Rightarrow> bool \<Rightarrow> u64 \<Rightarrow> Delegation list \<Rightarrow> ('e, Delegation list) result" where
  "add_delegation who n fluid voting now ds =
     (case find_index_of (\<lambda>d. dl_delegate d = who) ds of
        Some (i, d) \<Rightarrow> rbind (u128_add (dl_amount d) n) (\<lambda>m. update_at ds i (d\<lparr>dl_amount := m\<rparr>))
      | None \<Rightarrow> Inr (ds @ [\<lparr>dl_delegate = who, dl_amount = n, dl_fluidity = fluid,
          dl_voting_power_delegation = voting, dl_time_of_delegation = now, dl_last_accrued = None\<rparr>]))"

definition take_delegation :: "addr \<Rightarrow> uint128 \<Rightarrow> string \<Rightarrow> Delegation list \<Rightarrow> Delegation list staking_result" where
  "take_delegation who n missing ds =
     (case find_index_of (\<lambda>d. dl_delegate d = who) ds of
        Some (i, d) \<Rightarrow>
          if n \<le> dl_amount d \<and> \<not> dl_amount d - n < 1000000
          then update_at ds i (d\<lparr>dl_amount := dl_amount d - n\<rparr>)
          else remove_at ds i
      | None \<Rightarrow> Inl (Failed (SkCustomError missing)))"

definition set_delegation_flags ::
  "addr \<Rightarrow> bool option \<Rightarrow> bool option \<Rightarrow> Delegation list \<Rightarrow> Delegation list" where
  "set_delegation_flags who fluid voting ds = map (\<lambda>d.
     if dl_delegate d = who then
       d\<lparr>dl_fluidity := or_default fluid (dl_fluidity d),
         dl_voting_power_delegation := or_default voting (dl_voting_power_delegation d)\<rparr>
     else d) ds"

section \<open>Delegating and undelegating\<close>

definition delegate_to ::
  "Env \<Rightarrow> addr \<Rightarrow> addr \<Rightarrow> uint128 \<Rightarrow> uint128 option \<Rightarrow> bool option \<Rightarrow> bool option \<Rightarrow> DelegationInfo \<Rightarrow>
   staking_storage \<Rightarrow> (staking_storage \<times> uint128) staking_result" where
  "delegate_to env user governator total_delegatible_amount mbrn_amount fluid voting user_info st =
     (let n = min (or_default mbrn_amount total_delegatible_amount) total_delegatible_amount in
      if total_delegatible_amount < n then Inl (Failed (SkCustomError ''MBRN amount exceeds delegatible amount''))
      else if n < 1000000 then Inl (Failed (SkCustomError ''MBRN amount must be greater than 1''))
      else if total_delegatible_amount = 0 then Inl (Failed (SkCustomError ''No delegatible amount''))
      else
        let info = or_default (delegations st governator) no_delegations in
        rbind (add_delegation user n (or_default fluid False) (or_default voting True) (time_seconds env)
                 (di_delegated info)) (\<lambda>delegated.
        let st = sk_save_delegations governator (info\<lparr>di_delegated := delegated\<rparr>) st in
        rbind (add_delegation governator n (or_default fluid False) (or_default voting True) (time_seconds env)
                 (di_delegated_to user_info)) (\<lambda>delegated_to.
        Inr (sk_save_delegations user (user_info\<lparr>di_delegated_to := delegated_to\<rparr>) st, n))))"

definition save_or_remove_delegations :: "addr \<Rightarrow> DelegationInfo \<Rightarrow> staking_storage \<Rightarrow> staking_storage" where
  "save_or_remove_delegations u info st =
     (if di_delegated info = [] \<and> di_delegated_to info = []
      then st\<lparr>SK_DELEGATIONS := store_remove u (SK_DELEGATIONS st)\<rparr>
      else sk_save_delegations u info st)"

definition undelegate_from ::
  "addr \<Rightarrow> addr \<Rightarrow> uint128 \<Rightarrow> uint128 option \<Rightarrow> DelegationInfo \<Rightarrow> staking_storage \<Rightarrow>
   (staking_storage \<times> uint128) staking_result" where
  "undelegate_from user governator total_delegated_amount mbrn_amount user_info st =
     (let n = min (or_default mbrn_amount total_delegated_amount) total_delegated_amount in
      if total_delegated_amount < n then Inl (Failed (SkCustomError ''MBRN amount exceeds delegated amount''))
      else if n < 1000000 then Inl (Failed (SkCustomError ''MBRN amount must be greater than 1''))
      else if total_delegated_amount = 0 then Inl (Failed (SkCustomError ''No delegated amount''))
      else
        rbind (map_err SkStd (sk_load ''DelegationInfo'' (delegations st governator))) (\<lambda>info.
        rbind (take_delegation user n ''Delegator not found in delegate's delegated'' (di_delegated info)) (\<lambda>delegated.
        let st = save_or_remove_delegations governator (info\<lparr>di_delegated := delegated\<rparr>) st in
        rbind (take_delegation governator n ''Delegate not found in staker's delegated_to''
                 (di_delegated_to user_info)) (\<lambda>delegated_to.
        Inr (save_or_remove_delegations user (user_info\<lparr>di_delegated_to := delegated_to\<rparr>) st, n)))))"

definition set_commission :: "addr \<Rightarrow> decimal option \<Rightarrow> staking_storage \<Rightarrow> staking_storage" where
  "set_commission u commission st =
     (case (commission, delegations st u) of
        (Some c, Some info) \<Rightarrow> sk_save_delegations u (info\<lparr>di_commission := c\<rparr>) st
      | _ \<Rightarrow> st)"

definition set_flags :: "addr \<Rightarrow> addr \<Rightarrow> bool option \<Rightarrow> bool option \<Rightarrow> staking_storage \<Rightarrow> staking_storage" where
  "set_flags user governator fluid voting st =
     (if fluid \<noteq> None \<or> voting \<noteq> None then
        let st = (case delegations st user of
                Some info \<Rightarrow> sk_save_delegations user
                  (info\<lparr>di_delegated_to := set_delegation_flags governator fluid voting (di_delegated_to info)\<rparr>) st
              | None \<Rightarrow> st) in
        (case delegations st governator of
           Some info \<Rightarrow> sk_save_delegations governator
             (info\<lparr>di_delegated := set_delegation_flags user fluid voting (di_delegated info)\<rparr>) st
         | None \<Rightarrow> st)
      else st)"

definition update_delegations ::
  "chain_lib \<Rightarrow> staking_querier \<Rightarrow> staking_storage \<Rightarrow> Env \<Rightarrow> MessageInfo \<Rightarrow> string option \<Rightarrow> uint128 option \<Rightarrow>
   bool option \<Rightarrow> bool option \<Rightarrow> decimal option \<Rightarrow> bool option \<Rightarrow>
   (staking_storage \<times> staking_response) staking_result" where
  "update_delegations L Q st env info governator_addr mbrn_amount fluid delegate commission voting =
     rbind (map_err SkStd (sk_config_load st)) (\<lambda>config.
     let commission = map_option (\<lambda>c. min c (kc_max_commission_rate config)) commission;
         user = sender info in
     if commission \<noteq> None \<and> governator_addr = None \<and> mbrn_amount = None \<and> delegate = None \<and> fluid = None then
       rbind (unwrap commission) (\<lambda>c.
       Inr (set_commission user commission st,
         \<lparr>kr_messages = [], kr_attributes = [(''action'', AText ''update_delegations''),
            (''delegate'', AText user), (''commission'', ANum c)]\<rparr>))
     else (case governator_addr of
         None \<Rightarrow>
           rbind (unwrap commission) (\<lambda>c.
           Inr (st, \<lparr>kr_messages = [], kr_attributes = [(''action'', AText ''update_delegations''),
             (''delegate'', AText user), (''commission'', ANum c)]\<rparr>))
       | Some governator_addr \<Rightarrow>
           rbind (map_err SkStd (lib_addr_validate L governator_addr)) (\<lambda>governator.
           if governator = user then Inl (Failed (SkCustomError ''Delegate cannot be the user''))
           else
             rbind (map_err SkStd (sk_load ''Vec<StakeDeposit>'' (staked st user))) (\<lambda>staker_deposits.
             rbind (u128_sum (map sd_amount staker_deposits)) (\<lambda>total_staker_deposits.
             let user_info = or_default (delegations st user)
                   \<lparr>di_delegated = [], di_delegated_to = [], di_commission = or_default commission 0\<rparr> in
             rbind (u128_sum (map dl_amount (di_delegated_to user_info))) (\<lambda>total_delegated_amount.
             rbind (u128_sub total_staker_deposits total_delegated_amount) (\<lambda>total_delegatible_amount.
             rbind (case delegate of
                 None \<Rightarrow> Inr (st, [], [])
               | Some delegate \<Rightarrow>
                   rbind (map_err SkStd (get_user_claimables st env user)) (\<lambda>(st, claims, interest).
                   rbind (map_err SkStd (create_rewards_msgs L Q st env config claims interest user [])) (\<lambda>(st, claim_msgs).
                   rbind (if delegate
                          then delegate_to env user governator total_delegatible_amount mbrn_amount fluid voting user_info st
                          else undelegate_from user governator total_delegated_amount mbrn_amount user_info st)
                     (\<lambda>(st, n). Inr (st, claim_msgs, [(''amount'', ANum n)]))))) (\<lambda>(st, claim_msgs, amount_attrs).
             let st = set_commission user commission st;
                 st = set_flags user governator fluid voting st in
             Inr (st, \<lparr>kr_messages = plain claim_msgs, kr_attributes =
               [(''action'', AText ''update_delegations''), (''delegator'', AText user),
                (''delegate'', AText governator)] @ amount_attrs\<rparr>)))))))))"

section \<open>Passing fluid delegations on\<close>

text \<open>
  The loop walks a copy of the fluid delegations and removes from the list by the position in the copy.
\<close>

definition pass_on_share ::
  "nat \<Rightarrow> Delegation \<Rightarrow> Delegation list \<Rightarrow> uint128 \<Rightarrow> ('e, Delegation list \<times> uint128 \<times> uint128) result" where
  "pass_on_share i delegation fluid mbrn_amount =
     (if dl_amount delegation \<le> mbrn_amount then
        rbind (remove_at fluid i) (\<lambda>fluid.
        Inr (fluid, mbrn_amount - dl_amount delegation, dl_amount delegation))
      else
        rbind (at_index fluid i) (\<lambda>d.
        rbind (u128_sub (dl_amount d) mbrn_amount) (\<lambda>left.
        rbind (update_at fluid i (d\<lparr>dl_amount := left\<rparr>)) (\<lambda>fluid.
        if left < 1000000 then
          rbind (u128_add mbrn_amount left) (\<lambda>mbrn_amount.
          rbind (remove_at fluid i) (\<lambda>fluid.
          Inr (fluid, 0, mbrn_amount)))
        else Inr (fluid, 0, mbrn_amount)))))"

definition pass_on_books ::
  "Env \<Rightarrow> addr \<Rightarrow> addr \<Rightarrow> Delegation \<Rightarrow> uint128 \<Rightarrow> staking_storage \<Rightarrow> staking_storage staking_result" where
  "pass_on_books env user governator delegation n st =
     (let gov_info = or_default (delegations st governator) no_delegations;
          voting = dl_voting_power_delegation delegation in
      rbind (add_delegation (dl_delegate delegation) n True voting (time_seconds env) (di_delegated gov_info)) (\<lambda>delegated.
      let st = sk_save_delegations governator (gov_info\<lparr>di_delegated := delegated\<rparr>) st in
      rbind (map_err SkStd (sk_load ''DelegationInfo'' (delegations st (dl_delegate delegation)))) (\<lambda>initial_info.
      rbind (add_delegation governator n True voting (time_seconds env) (di_delegated_to initial_info)) (\<lambda>delegated_to.
      rbind (case find_index_of (\<lambda>d. dl_delegate d = user) delegated_to of
               Some (index, d) \<Rightarrow>
                 rbind (u128_sub (dl_amount d) n) (\<lambda>m. update_at delegated_to index (d\<lparr>dl_amount := m\<rparr>))
             | None \<Rightarrow> Inl (Failed (SkCustomError ''Delegate is not a delegate of the initial delegator''))) (\<lambda>delegated_to.
      Inr (sk_save_delegations (dl_delegate delegation) (initial_info\<lparr>di_delegated_to := delegated_to\<rparr>) st))))))"

fun pass_on_loop ::
  "Env \<Rightarrow> addr \<Rightarrow> addr \<Rightarrow> (nat \<times> Delegation) list \<Rightarrow> Delegation list \<Rightarrow> uint128 \<Rightarrow> staking_storage \<Rightarrow>
   (staking_storage \<times> Delegation list \<times> uint128) staking_result" where
  "pass_on_loop env user governator [] fluid mbrn_amount st = Inr (st, fluid, mbrn_amount)"
| "pass_on_loop env user governator ((i, delegation) # rest) fluid mbrn_amount st =
     rbind (pass_on_share i delegation fluid mbrn_amount) (\<lambda>(fluid, mbrn_amount, n).
     rbind (pass_on_books env user governator delegation n st) (\<lambda>st.
     if mbrn_amount = 0 then Inr (st, fluid, mbrn_amount)
     else pass_on_loop env user governator rest fluid mbrn_amount st))"

definition delegate_fluid_delegations ::
  "chain_lib \<Rightarrow> staking_querier \<Rightarrow> staking_storage \<Rightarrow> Env \<Rightarrow> MessageInfo \<Rightarrow> string \<Rightarrow> uint128 option \<Rightarrow>
   (staking_storage \<times> staking_response) staking_result" where
  "delegate_fluid_delegations L Q st env info governator_addr mbrn_amount =
     rbind (map_err SkStd (lib_addr_validate L governator_addr)) (\<lambda>governator.
     let user = sender info in
     if governator = user then Inl (Failed (SkCustomError ''Delegate cannot be the user''))
     else
       rbind (map_err SkStd (sk_load ''DelegationInfo'' (delegations st user))) (\<lambda>own_info.
       rbind (map_err SkStd (sk_config_load st)) (\<lambda>config.
       rbind (map_err SkStd (get_user_claimables st env user)) (\<lambda>(st, claims, interest).
       rbind (map_err SkStd (create_rewards_msgs L Q st env config claims interest user [])) (\<lambda>(st, claims_msgs).
       let fluid = filter dl_fluidity (di_delegated own_info);
           non_fluid = filter (\<lambda>d. \<not> dl_fluidity d) (di_delegated own_info) in
       rbind (u128_sum (map dl_amount fluid)) (\<lambda>total_fluid.
       let n = min (or_default mbrn_amount total_fluid) total_fluid in
       if total_fluid < n then Inl (Failed (SkCustomError ''MBRN amount exceeds total fluid delegatible amount''))
       else if n < 1000000 then Inl (Failed (SkCustomError ''MBRN amount must be greater than 1''))
       else if total_fluid = 0 then Inl (Failed (SkCustomError ''No fluid delegations to delegate''))
       else
         rbind (pass_on_loop env user governator (enumerate 0 fluid) fluid n st) (\<lambda>(st, fluid, n).
         Inr (sk_save_delegations user (own_info\<lparr>di_delegated := fluid @ non_fluid\<rparr>) st,
           \<lparr>kr_messages = plain claims_msgs, kr_attributes =
              [(''action'', AText ''delegate_fluid_delegations''), (''delegator'', AText user),
               (''delegate'', AText governator), (''amount'', ANum n)]\<rparr>))))))))"

section \<open>Declaring as a delegate\<close>

definition or_else :: "'a option \<Rightarrow> 'a option \<Rightarrow> 'a option" where
  "or_else new old = (case new of None \<Rightarrow> old | Some x \<Rightarrow> Some x)"

definition delegate_declarations ::
  "chain_lib \<Rightarrow> staking_storage \<Rightarrow> MessageInfo \<Rightarrow> Delegate \<Rightarrow> bool \<Rightarrow>
   (staking_storage \<times> staking_response) staking_result" where
  "delegate_declarations L st info delegate_info remove =
     rbind (map_err SkStd (lib_addr_validate L (dg_delegate delegate_info))) (\<lambda>_.
     if sender info \<noteq> dg_delegate delegate_info then
       Inl (Failed (SkCustomError ''Sender must be the delegate''))
     else
       rbind (map_err SkStd (sk_load ''Vec<Delegate>'' (SK_DELEGATE_INFO st))) (\<lambda>delegate_infos.
       rbind (if remove then Inr (filter (\<lambda>d. dg_delegate d \<noteq> sender info) delegate_infos)
              else (case find_index_of (\<lambda>d. dg_delegate d = sender info) delegate_infos of
                  Some (index, d) \<Rightarrow>
                    update_at delegate_infos index
                      (d\<lparr>dg_discord_username := or_else (dg_discord_username delegate_info) (dg_discord_username d),
                         dg_twitter_username := or_else (dg_twitter_username delegate_info) (dg_twitter_username d),
                         dg_url := or_else (dg_url delegate_info) (dg_url d),
                         dg_alias := or_else (dg_alias delegate_info) (dg_alias d)\<rparr>)
                | None \<Rightarrow> Inr (delegate_infos @ [delegate_info]))) (\<lambda>delegate_infos.
       Inr (st\<lparr>SK_DELEGATE_INFO := Some delegate_infos\<rparr>,
         \<lparr>kr_messages = [], kr_attributes = [(''method'', AText ''delegate_declarations''),
            (''delegate'', ADebug (DbgDelegate delegate_info))]\<rparr>))))"

end
