(* ===== verification/Staking_Contract.thy ===== *)
theory Staking_Contract
  imports Staking_Delegations
begin

text \<open>
  Staking: claims, fees and the entry points (\<open>contracts/staking/src/contract.rs\<close>: \<open>instantiate\<close>, \<open>execute\<close>,
  \<open>update_config\<close>, \<open>claim_rewards\<close>, \<open>deposit_fee\<close>, \<open>trim_fee_events\<close>, \<open>migrate\<close>).
\<close>

section \<open>Claiming\<close>

definition sk_user_claims ::
  "chain_lib \<Rightarrow> staking_querier \<Rightarrow> staking_storage \<Rightarrow> Env \<Rightarrow> staking_config \<Rightarrow> MessageInfo \<Rightarrow> string option \<Rightarrow>
   (std_error, staking_storage \<times> cosmos_msg list \<times> Asset list \<times> uint128) result" where
  "sk_user_claims L Q st env config info send_to =
     rbind (get_user_claimables st env (sender info)) (\<lambda>(st, user_claimables, accrued_interest).
     rbind (case send_to of None \<Rightarrow> Inr (sender info) | Some a \<Rightarrow> lib_addr_validate L a) (\<lambda>recipient.
     rbind (create_rewards_msgs L Q st env config user_claimables 0 recipient []) (\<lambda>(st, rewards_msgs).
     Inr (st, rewards_msgs, user_claimables, accrued_interest))))"

definition mint_rewards ::
  "chain_lib \<Rightarrow> Env \<Rightarrow> staking_config \<Rightarrow> addr \<Rightarrow> MessageInfo \<Rightarrow> string option \<Rightarrow> bool \<Rightarrow> uint128 \<Rightarrow>
   staking_msg list staking_result" where
  "mint_rewards L env config proxy info send_to restake accrued_interest =
     (if sender info \<noteq> addr_or_empty (kc_vesting_contract config) \<and> accrued_interest \<noteq> 0 then
        (case send_to of
           Some a \<Rightarrow>
             rbind (map_err SkStd (lib_addr_validate L a)) (\<lambda>valid_recipient.
             Inr [SkCosmos (WasmExecute proxy (MintTokens (kc_mbrn_denom config) accrued_interest valid_recipient) [])])
         | None \<Rightarrow>
             if restake then
               Inr [SkCosmos (WasmExecute proxy
                      (MintTokens (kc_mbrn_denom config) accrued_interest (contract_address env)) []),
                    SkSelf (contract_address env) (SkStake (Some (sender info)))
                      [\<lparr>c_denom = kc_mbrn_denom config, c_amount = accrued_interest\<rparr>]]
             else
               Inr [SkCosmos (WasmExecute proxy (MintTokens (kc_mbrn_denom config) accrued_interest (sender info)) [])])
      else Inr [])"

definition claim_rewards ::
  "chain_lib \<Rightarrow> staking_querier \<Rightarrow> staking_storage \<Rightarrow> Env \<Rightarrow> MessageInfo \<Rightarrow> string option \<Rightarrow> bool \<Rightarrow>
   (staking_storage \<times> staking_response) staking_result" where
  "claim_rewards L Q st env info send_to restake =
     rbind (map_err SkStd (sk_config_load st)) (\<lambda>config.
     rbind (map_err SkStd (sk_user_claims L Q st env config info send_to))
       (\<lambda>(st, claim_msgs, user_claimables, accrued_interest).
     rbind (case kc_osmosis_proxy config of
              Some proxy \<Rightarrow> mint_rewards L env config proxy info send_to restake accrued_interest
            | None \<Rightarrow> Inl (Failed (SkCustomError ''No proxy contract setup''))) (\<lambda>mints.
     let msgs = plain claim_msgs @ mints in
     if msgs = [] then Inl (Failed (SkCustomError ''Nothing to claim''))
     else Inr (st, \<lparr>kr_messages = msgs, kr_attributes =
       [(''method'', AText ''claim''), (''user'', AText (sender info)),
        (''send_to'', AText (or_default send_to ''None'')), (''restake'', ADebug (DbgBool restake)),
        (''mbrn_rewards'', ANum accrued_interest), (''fee_rewards'', ADebug (DbgFeeAssets user_claimables))]\<rparr>))))"

section \<open>Fees\<close>

definition get_total_vesting :: "staking_querier \<Rightarrow> addr \<Rightarrow> (std_error, uint128) result" where
  "get_total_vesting Q vesting_contract =
     rbind (answered (kq_recipients Q vesting_contract)) recipients_total_vesting"

definition auction_msgs :: "staking_config \<Rightarrow> MessageInfo \<Rightarrow> Asset list \<Rightarrow> (std_error, cosmos_msg list) result" where
  "auction_msgs config info non_CDT_assets =
     (case kc_auction_contract config of
        Some auction_contract \<Rightarrow>
          if non_CDT_assets \<noteq> [] \<and> sender info \<noteq> auction_contract then
            rmapM (\<lambda>asset. rbind (asset_to_coin asset) (\<lambda>coin.
              Inr (WasmExecute auction_contract (StartAuction None asset None) [coin]))) non_CDT_assets
          else Inr []
      | None \<Rightarrow> Inr [])"

definition fee_total ::
  "staking_querier \<Rightarrow> staking_config \<Rightarrow> staking_totals \<Rightarrow> (std_error, staking_totals \<times> uint128) result" where
  "fee_total Q config totals =
     rbind (case kc_vesting_contract config of
         Some vesting_contract \<Rightarrow>
           rbind (get_total_vesting Q vesting_contract) (\<lambda>vesting_total.
           rbind (dec_of_uint vesting_total) (\<lambda>d.
           rbind (decimal_multiplication d (kc_vesting_rev_multiplier config)) (\<lambda>d.
           Inr (totals\<lparr>to_vesting_contract := vesting_total\<rparr>, to_uint_floor d))))
       | None \<Rightarrow> Inr (totals, to_vesting_contract totals)) (\<lambda>(saved, vested).
     rbind (u128_add vested (to_stakers totals)) (\<lambda>total.
     Inr (saved, if total = 0 then 1 else total)))"

definition fee_event :: "Env \<Rightarrow> decimal \<Rightarrow> Asset \<Rightarrow> (std_error, FeeEvent) result" where
  "fee_event env decimal_total asset =
     rbind (dec_of_uint (a_amount asset)) (\<lambda>amount.
     rbind (decimal_division amount decimal_total) (\<lambda>per_staked.
     Inr \<lparr>fe_time_of_event = time_seconds env, fe_fee = \<lparr>la_info = a_info asset, la_amount = per_staked\<rparr>\<rparr>))"

definition record_fees ::
  "staking_querier \<Rightarrow> Env \<Rightarrow> staking_config \<Rightarrow> Asset list \<Rightarrow> staking_storage \<Rightarrow> (std_error, staking_storage) result" where
  "record_fees Q env config fee_assets st =
     rbind (sk_load ''Vec<FeeEvent>'' (SK_FEE_EVENTS st)) (\<lambda>fee_events.
     rbind (sk_totals_load st) (\<lambda>totals.
     rbind (fee_total Q config totals) (\<lambda>(totals, total).
     rbind (dec_of_uint total) (\<lambda>decimal_total.
     rbind (rmapM (fee_event env decimal_total) fee_assets) (\<lambda>events.
     Inr (st\<lparr>SK_STAKING_TOTALS := Some totals, SK_FEE_EVENTS := Some (fee_events @ events)\<rparr>))))))"

definition deposit_fee ::
  "staking_querier \<Rightarrow> staking_storage \<Rightarrow> Env \<Rightarrow> MessageInfo \<Rightarrow> Asset list \<Rightarrow>
   (staking_storage \<times> staking_response) staking_result" where
  "deposit_fee Q st env info fee_assets =
     rbind (map_err SkStd (sk_config_load st)) (\<lambda>config.
     rbind (map_err SkStd (kq_basket Q (addr_or_empty (kc_positions_contract config)))) (\<lambda>basket.
     let cdt_denom = a_info (bk_credit_asset basket);
         (non_CDT_assets, CDT_assets) =
           (if kc_keep_raw_cdt config
            then (filter (\<lambda>a. a_info a \<noteq> cdt_denom) fee_assets, filter (\<lambda>a. a_info a = cdt_denom) fee_assets)
            else (fee_assets, []));
         all_to_stakers = (kc_auction_contract config = Some (sender info) \<or> kc_auction_contract config = None) in
     rbind (map_err SkStd (auction_msgs config info non_CDT_assets)) (\<lambda>msgs.
     rbind (if CDT_assets \<noteq> [] \<or> all_to_stakers then
              map_err SkStd (record_fees Q env config (if all_to_stakers then fee_assets else CDT_assets) st)
            else Inr st) (\<lambda>st.
     Inr (st, \<lparr>kr_messages = plain msgs, kr_attributes = [(''method'', AText ''deposit_fee''),
       (''fee_assets'', ADebug (DbgFeeAssets fee_assets))]\<rparr>)))))"

definition sk_deposit_fee_msg ::
  "staking_querier \<Rightarrow> staking_storage \<Rightarrow> Env \<Rightarrow> MessageInfo \<Rightarrow> (staking_storage \<times> staking_response) staking_result" where
  "sk_deposit_fee_msg Q st env info =
     rbind (map_err SkStd (sk_config_load st)) (\<lambda>config.
     rbind (unwrap (kc_positions_contract config)) (\<lambda>positions_contract.
     rbind (if sender info = positions_contract then Inr ()
            else rbind (unwrap (kc_auction_contract config)) (\<lambda>auction_contract.
              if sender info = auction_contract then Inr () else Inl (Failed SkUnauthorized))) (\<lambda>_.
     deposit_fee Q st env info (map (\<lambda>c. \<lparr>a_info = NativeToken (c_denom c), a_amount = c_amount c\<rparr>) (funds info)))))"

text \<open>The time of the first deposit of each staker in turn: the last staker in the store's order decides.\<close>

fun earliest_accruals :: "(string \<times> StakeDeposit list) list \<Rightarrow> u64 option \<Rightarrow> ('e, u64 option) result" where
  "earliest_accruals [] earliest = Inr earliest"
| "earliest_accruals ((u, deposits) # rest) earliest =
     rbind (at_index deposits 0) (\<lambda>first.
     earliest_accruals rest (Some (foldl (\<lambda>acc d. if accrued_since d < acc then accrued_since d else acc)
       (accrued_since first) deposits)))"

definition trim_fee_events ::
  "staking_storage \<Rightarrow> MessageInfo \<Rightarrow> (staking_storage \<times> staking_response) staking_result" where
  "trim_fee_events st info =
     rbind (map_err SkStd (sk_config_load st)) (\<lambda>config.
     if sender info \<noteq> kc_owner config then Inl (Failed SkUnauthorized)
     else
       rbind (map_err SkStd (sk_load ''Vec<FeeEvent>'' (SK_FEE_EVENTS st))) (\<lambda>fee_events.
       rbind (earliest_accruals (store_range None (SK_STAKED st)) None) (\<lambda>earliest_accrue.
       let fee_events = (case earliest_accrue of
             Some t \<Rightarrow> filter (\<lambda>e. t < fe_time_of_event e) fee_events
           | None \<Rightarrow> fee_events) in
       Inr (st\<lparr>SK_FEE_EVENTS := Some fee_events\<rparr>,
         \<lparr>kr_messages = [], kr_attributes = [(''trimmed'', AText ''true'')]\<rparr>))))"

section \<open>Configuration\<close>

definition sk_validate_opt :: "chain_lib \<Rightarrow> string option \<Rightarrow> addr option \<Rightarrow> (std_error, addr option) result" where
  "sk_validate_opt L a old = (case a of
       None \<Rightarrow> Inr old
     | Some a \<Rightarrow> rbind (lib_addr_validate L a) (\<lambda>v. Inr (Some v)))"

definition sk_update_config ::
  "chain_lib \<Rightarrow> staking_storage \<Rightarrow> Env \<Rightarrow> MessageInfo \<Rightarrow> string option \<Rightarrow> string option \<Rightarrow> string option \<Rightarrow>
   string option \<Rightarrow> string option \<Rightarrow> string option \<Rightarrow> string option \<Rightarrow> StakeDistribution option \<Rightarrow> u64 option \<Rightarrow>
   decimal option \<Rightarrow> bool option \<Rightarrow> decimal option \<Rightarrow> (staking_storage \<times> staking_response) staking_result" where
  "sk_update_config L st env info owner positions_contract auction_contract vesting_contract governance_contract
     osmosis_proxy mbrn_denom incentive_schedule unstaking_period max_commission_rate keep_raw_cdt
     vesting_rev_multiplier =
     rbind (map_err SkStd (sk_config_load st)) (\<lambda>config.
     rbind (if sender info \<noteq> kc_owner config then
              rbind (map_err SkStd (sk_load ''Addr'' (SK_OWNERSHIP_TRANSFER st))) (\<lambda>heir.
              if sender info = heir then Inr (config\<lparr>kc_owner := sender info\<rparr>)
              else Inl (Failed SkUnauthorized))
            else Inr config) (\<lambda>config.
     rbind (map_err SkStd (sk_validate_opt L owner (SK_OWNERSHIP_TRANSFER st))) (\<lambda>heir.
     rbind (map_err SkStd (sk_validate_opt L vesting_contract (kc_vesting_contract config))) (\<lambda>vesting.
     rbind (map_err SkStd (sk_validate_opt L positions_contract (kc_positions_contract config))) (\<lambda>positions.
     rbind (map_err SkStd (sk_validate_opt L auction_contract (kc_auction_contract config))) (\<lambda>auction.
     rbind (map_err SkStd (sk_validate_opt L governance_contract (kc_governance_contract config))) (\<lambda>governance.
     rbind (map_err SkStd (sk_validate_opt L osmosis_proxy (kc_osmosis_proxy config))) (\<lambda>proxy.
     let config = config\<lparr>kc_incentive_schedule := or_default incentive_schedule (kc_incentive_schedule config),
           kc_unstaking_period := or_default unstaking_period (kc_unstaking_period config),
           kc_max_commission_rate := or_default max_commission_rate (kc_max_commission_rate config),
           kc_keep_raw_cdt := or_default keep_raw_cdt (kc_keep_raw_cdt config),
           kc_mbrn_denom := or_default mbrn_denom (kc_mbrn_denom config),
           kc_vesting_contract := vesting, kc_positions_contract := positions, kc_auction_contract := auction,
           kc_governance_contract := governance, kc_osmosis_proxy := proxy\<rparr>;
         scheduling = (case incentive_schedule of
             Some s \<Rightarrow> Some \<lparr>sdl_ownership_distribution = s, sdl_start_time = time_seconds env\<rparr>
           | None \<Rightarrow> SK_INCENTIVE_SCHEDULING st);
         multiplier = or_else vesting_rev_multiplier (SK_VESTING_REV_MULTIPLIER st);
         owner_attrs = (case (owner, heir) of
             (Some _, Some valid_addr) \<Rightarrow> [(''owner_transfer'', AText valid_addr)] | _ \<Rightarrow> []) in
     Inr (st\<lparr>SK_OWNERSHIP_TRANSFER := heir, SK_INCENTIVE_SCHEDULING := scheduling,
            SK_VESTING_REV_MULTIPLIER := multiplier, SK_CONFIG := Some config\<rparr>,
          \<lparr>kr_messages = [], kr_attributes = [(''method'', AText ''update_config'')] @ owner_attrs @
             [(''updated_config'', ADebug (DbgStakingConfig config))]\<rparr>)))))))))"

section \<open>Entry points\<close>

record staking_instantiate_msg =
  ki_owner :: "string option"
  ki_positions_contract :: "string option"
  ki_auction_contract :: "string option"
  ki_vesting_contract :: "string option"
  ki_governance_contract :: "string option"
  ki_osmosis_proxy :: "string option"
  ki_incentive_schedule :: "StakeDistribution option"
  ki_unstaking_period :: "u64 option"
  ki_mbrn_denom :: string

definition sk_instantiate ::
  "chain_lib \<Rightarrow> staking_storage \<Rightarrow> Env \<Rightarrow> MessageInfo \<Rightarrow> staking_instantiate_msg \<Rightarrow>
   (staking_storage \<times> staking_response) staking_result" where
  "sk_instantiate L st env info msg =
     rbind (map_err SkStd (case ki_owner msg of
         Some owner \<Rightarrow> lib_addr_validate L owner | None \<Rightarrow> Inr (sender info))) (\<lambda>owner.
     rbind (map_err SkStd (sk_validate_opt L (ki_vesting_contract msg) None)) (\<lambda>vesting.
     rbind (map_err SkStd (sk_validate_opt L (ki_positions_contract msg) None)) (\<lambda>positions.
     rbind (map_err SkStd (sk_validate_opt L (ki_auction_contract msg) None)) (\<lambda>auction.
     rbind (map_err SkStd (sk_validate_opt L (ki_governance_contract msg) None)) (\<lambda>governance.
     rbind (map_err SkStd (sk_validate_opt L (ki_osmosis_proxy msg) None)) (\<lambda>proxy.
     let schedule = or_default (ki_incentive_schedule msg) \<lparr>sdn_rate = dec_percent 9, sdn_duration = 240\<rparr>;
         config = \<lparr>kc_owner = owner, kc_mbrn_denom = ki_mbrn_denom msg, kc_incentive_schedule = schedule,
           kc_unstaking_period = or_default (ki_unstaking_period msg) 4, kc_max_commission_rate = dec_percent 10,
           kc_keep_raw_cdt = True, kc_vesting_rev_multiplier = dec_percent 20, kc_positions_contract = positions,
           kc_auction_contract = auction, kc_vesting_contract = vesting, kc_governance_contract = governance,
           kc_osmosis_proxy = proxy\<rparr> in
     Inr (st\<lparr>SK_CONTRACT := Some (''crates.io:staking'', lib_version L), SK_CONFIG := Some config,
            SK_STAKING_TOTALS := Some \<lparr>to_stakers = 0, to_vesting_contract = 0\<rparr>, SK_FEE_EVENTS := Some [],
            SK_VESTING_STAKE_TIME := Some (time_seconds env),
            SK_INCENTIVE_SCHEDULING := Some \<lparr>sdl_ownership_distribution = schedule, sdl_start_time = time_seconds env\<rparr>,
            SK_DELEGATE_INFO := Some []\<rparr>,
          \<lparr>kr_messages = [], kr_attributes = [(''method'', AText ''instantiate''),
             (''config'', ADebug (DbgStakingConfig config)), (''contract_address'', AText (contract_address env))]\<rparr>)))))))"

fun sk_execute ::
  "chain_lib \<Rightarrow> staking_querier \<Rightarrow> staking_storage \<Rightarrow> Env \<Rightarrow> MessageInfo \<Rightarrow> staking_execute_msg \<Rightarrow>
   (staking_storage \<times> staking_response) staking_result" where
  "sk_execute L Q st env info (SkUpdateConfig owner positions auction vesting governance proxy denom schedule period
     rate keep multiplier) =
     sk_update_config L st env info owner positions auction vesting governance proxy denom schedule period rate keep multiplier"
| "sk_execute L Q st env info (SkStake user) = stake L st env info user"
| "sk_execute L Q st env info (SkUnstake mbrn_amount) = unstake L Q st env info mbrn_amount"
| "sk_execute L Q st env info (SkRestake mbrn_amount) = sk_restake L Q st env info mbrn_amount"
| "sk_execute L Q st env info (SkClaimRewards send_to restake) = claim_rewards L Q st env info send_to restake"
| "sk_execute L Q st env info (SkUpdateDelegations governator mbrn_amount delegate fluid commission voting) =
     update_delegations L Q st env info governator mbrn_amount fluid delegate commission voting"
| "sk_execute L Q st env info (SkDelegateFluidDelegations governator mbrn_amount) =
     delegate_fluid_delegations L Q st env info governator mbrn_amount"
| "sk_execute L Q st env info (SkDeclareDelegate delegate_info remove) =
     delegate_declarations L st info delegate_info remove"
| "sk_execute L Q st env info SkDepositFee = sk_deposit_fee_msg Q st env info"
| "sk_execute L Q st env info SkTrimFeeEvents = trim_fee_events st info"

definition sk_migrate :: "staking_storage \<Rightarrow> (staking_storage \<times> staking_response) staking_result" where
  "sk_migrate st = Inr (st, \<lparr>kr_messages = [], kr_attributes = []\<rparr>)"

end
