(* ===== verification/Gov_State.thy ===== *)
theory Gov_State
  imports Staking_State Vesting_Contract CDP_Contract Liq_Contract
begin

text \<open>
  Governance: the stored data (\<open>contracts/governance/src/state.rs\<close>), the errors (\<open>error.rs\<close>), what the
  contract asks of others, its messages, and the validation of configurations, proposals and links
  (\<open>packages/membrane/src/governance.rs\<close>).

  The text checks of the code are on the characters and the byte length of a string; a string here is a list of
  bytes, of which only the ASCII ones can be accepted.
\<close>

section \<open>Data\<close>

datatype gov_error =
    GvStd std_error
  | GvUnauthorized
  | GvProposalNotActive
  | GvVotingPeriodEnded
  | GvNoVotingPower
  | GvVotingPeriodNotEnded
  | GvExecuteProposalExpired
  | GvProposalNotPassed
  | GvCantRemove
  | GvProposalDelayNotEnded
  | GvWhitelistEmpty
  | GvInsufficientTotalStake uint128

type_synonym 'a gov_result = "(gov_error, 'a) result"

record gov_storage =
  GV_CONFIG :: "gov_config option"
  GV_PROPOSAL_COUNT :: "u64 option"
  GV_PROPOSALS :: "Proposal store"
  GV_PENDING_PROPOSALS :: "Proposal store"
  GV_CONTRACT :: "(string \<times> string) option"

datatype gov_msg =
    GovProposed json
  | GovCosmos cosmos_msg
  | GovCdp addr cdp_execute_msg "Coin list"
  | GovLq addr lq_ExecuteMsg "Coin list"
  | GovStaking addr staking_execute_msg "Coin list"
  | GovSelf addr gov_execute_msg "Coin list"
  | GovClearAdmin addr
  | GovGauge json

datatype gov_debug = DbgGovConfig gov_config

record gov_response =
  vg_messages :: "gov_msg list"
  vg_attributes :: "gov_debug attr list"

section \<open>Library code and other contracts\<close>

text \<open>\<open>Decimal::sqrt\<close> of the standard library of the chain: the square root, rounded down in some digit.\<close>

record gov_lib =
  gl_chain :: chain_lib
  gl_sqrt :: "decimal \<Rightarrow> decimal"

definition sqrt_ok :: "(decimal \<Rightarrow> decimal) \<Rightarrow> bool" where
  "sqrt_ok f \<longleftrightarrow> (\<forall>d. f d * f d \<le> d * DECIMAL_FRACTIONAL)"

record gov_querier =
  gq_mbrn_denom :: "addr \<Rightarrow> string answer"
  gq_totals_raw :: "addr \<Rightarrow> (std_error, staking_totals) result"
  gq_total_staked :: "addr \<Rightarrow> TotalStakedResponse answer"
  gq_user_stake :: "addr \<Rightarrow> string \<Rightarrow> StakerResponse answer"
  gq_staked :: "addr \<Rightarrow> nat option \<Rightarrow> u64 option \<Rightarrow> u64 option \<Rightarrow> bool \<Rightarrow> OldStakeDeposit list answer"
  gq_delegations :: "addr \<Rightarrow> nat option \<Rightarrow> string option \<Rightarrow> u64 option \<Rightarrow> string option \<Rightarrow>
    DelegationResponse list answer"
  gq_recipients :: "addr \<Rightarrow> RecipientResponse list answer"
  gq_allocation :: "addr \<Rightarrow> string \<Rightarrow> AllocationResponse answer"
  gq_basket_raw :: "addr \<Rightarrow> (std_error, Basket) result"
  gq_basket :: "addr \<Rightarrow> Basket answer"
  gq_balance :: "addr \<Rightarrow> string \<Rightarrow> uint128 answer"
  gq_debt_minimum :: "addr \<Rightarrow> uint128 answer"
  gq_minimum_bid :: "addr \<Rightarrow> uint128 answer"
  gq_current_bid_id :: "addr \<Rightarrow> AssetInfo \<Rightarrow> uint128 answer"
  gq_own_config :: "addr \<Rightarrow> gov_config answer"

section \<open>Loads\<close>

definition gv_config_load :: "gov_storage \<Rightarrow> (std_error, gov_config) result" where
  "gv_config_load st = ok_or (NotFound ''Config'') (GV_CONFIG st)"

text \<open>Proposals are keyed by the decimal text of their id.\<close>

abbreviation proposal_key :: "u64 \<Rightarrow> string" where
  "proposal_key k \<equiv> dec_string k"

abbreviation proposal_at :: "gov_storage \<Rightarrow> u64 \<Rightarrow> Proposal option" where
  "proposal_at st k \<equiv> store_load (GV_PROPOSALS st) (proposal_key k)"

abbreviation pending_at :: "gov_storage \<Rightarrow> u64 \<Rightarrow> Proposal option" where
  "pending_at st k \<equiv> store_load (GV_PENDING_PROPOSALS st) (proposal_key k)"

definition gv_proposal_load :: "gov_storage \<Rightarrow> u64 \<Rightarrow> (std_error, Proposal) result" where
  "gv_proposal_load st k = ok_or (NotFound ''Proposal'') (proposal_at st k)"

definition save_proposal :: "u64 \<Rightarrow> Proposal \<Rightarrow> gov_storage \<Rightarrow> gov_storage" where
  "save_proposal k p st = st\<lparr>GV_PROPOSALS := store_save (proposal_key k) p (GV_PROPOSALS st)\<rparr>"

definition remove_proposal :: "u64 \<Rightarrow> gov_storage \<Rightarrow> gov_storage" where
  "remove_proposal k st = st\<lparr>GV_PROPOSALS := store_remove (proposal_key k) (GV_PROPOSALS st)\<rparr>"

definition save_pending :: "u64 \<Rightarrow> Proposal \<Rightarrow> gov_storage \<Rightarrow> gov_storage" where
  "save_pending k p st = st\<lparr>GV_PENDING_PROPOSALS := store_save (proposal_key k) p (GV_PENDING_PROPOSALS st)\<rparr>"

definition remove_pending :: "u64 \<Rightarrow> gov_storage \<Rightarrow> gov_storage" where
  "remove_pending k st = st\<lparr>GV_PENDING_PROPOSALS := store_remove (proposal_key k) (GV_PENDING_PROPOSALS st)\<rparr>"

lemma gv_load_ok [res_ok]:
  "gv_config_load st = Inr c \<longleftrightarrow> GV_CONFIG st = Some c"
  "gv_proposal_load st k = Inr p \<longleftrightarrow> proposal_at st k = Some p"
  by (simp_all add: gv_config_load_def gv_proposal_load_def res_ok)

lemma gv_save_simps [simp]:
  "GV_PROPOSALS (save_proposal k p st) = store_save (proposal_key k) p (GV_PROPOSALS st)"
  "GV_PENDING_PROPOSALS (save_proposal k p st) = GV_PENDING_PROPOSALS st"
  "GV_CONFIG (save_proposal k p st) = GV_CONFIG st"
  "GV_PROPOSAL_COUNT (save_proposal k p st) = GV_PROPOSAL_COUNT st"
  "GV_PROPOSALS (remove_proposal k st) = store_remove (proposal_key k) (GV_PROPOSALS st)"
  "GV_PENDING_PROPOSALS (remove_proposal k st) = GV_PENDING_PROPOSALS st"
  "GV_CONFIG (remove_proposal k st) = GV_CONFIG st"
  "GV_PROPOSAL_COUNT (remove_proposal k st) = GV_PROPOSAL_COUNT st"
  "GV_PROPOSALS (save_pending k p st) = GV_PROPOSALS st"
  "GV_PENDING_PROPOSALS (save_pending k p st) = store_save (proposal_key k) p (GV_PENDING_PROPOSALS st)"
  "GV_CONFIG (save_pending k p st) = GV_CONFIG st"
  "GV_PROPOSAL_COUNT (save_pending k p st) = GV_PROPOSAL_COUNT st"
  "GV_PROPOSALS (remove_pending k st) = GV_PROPOSALS st"
  "GV_PENDING_PROPOSALS (remove_pending k st) = store_remove (proposal_key k) (GV_PENDING_PROPOSALS st)"
  "GV_CONFIG (remove_pending k st) = GV_CONFIG st"
  "GV_PROPOSAL_COUNT (remove_pending k st) = GV_PROPOSAL_COUNT st"
  by (simp_all add: save_proposal_def remove_proposal_def save_pending_def remove_pending_def)

section \<open>Constants\<close>

definition BLOCKS_PER_DAY :: u64 where "BLOCKS_PER_DAY = 14400"

definition in_voting_period_interval :: "u64 \<Rightarrow> bool" where
  "in_voting_period_interval n \<longleftrightarrow> BLOCKS_PER_DAY \<le> n \<and> n \<le> 14 * BLOCKS_PER_DAY"

definition in_delay_interval :: "u64 \<Rightarrow> bool" where
  "in_delay_interval n \<longleftrightarrow> n \<le> BLOCKS_PER_DAY"

definition in_expiration_period_interval :: "u64 \<Rightarrow> bool" where
  "in_expiration_period_interval n \<longleftrightarrow> BLOCKS_PER_DAY \<le> n \<and> n \<le> 14 * BLOCKS_PER_DAY"

definition in_stake_interval :: "uint128 \<Rightarrow> bool" where
  "in_stake_interval n \<longleftrightarrow> 1000000000 \<le> n \<and> n \<le> 5000000000"

section \<open>Validation\<close>

definition gov_config_validate :: "gov_config \<Rightarrow> (std_error, unit) result" where
  "gov_config_validate config =
     (if dec_percent 100 < gc_proposal_required_threshold config \<or>
         gc_proposal_required_threshold config < dec_percent 51
      then Inl (Failed (GenericErr ''The required threshold for a proposal cannot be lower than 51% or higher than 100%''))
      else if dec_percent 100 < gc_proposal_required_quorum config \<or>
         gc_proposal_required_quorum config < dec_percent 33
      then Inl (Failed (GenericErr ''The required quorum for a proposal cannot be lower than 33% or higher than 100%''))
      else if \<not> in_delay_interval (gc_proposal_effective_delay config)
      then Inl (Failed (GenericErr ''The effective delay for a proposal cannot be lower than 0 or higher than 14400''))
      else if \<not> in_expiration_period_interval (gc_proposal_expiration_period config)
      then Inl (Failed (GenericErr ''The expiration period for a proposal cannot be lower than 14400 or higher than 201600''))
      else if \<not> in_voting_period_interval (gc_proposal_voting_period config)
      then Inl (Failed (GenericErr ''The voting period for a proposal should be more than 14400 or less than 201600 blocks.''))
      else if \<not> in_stake_interval (gc_proposal_required_stake config)
      then Inl (Failed (GenericErr ''The required deposit for a proposal cannot be lower than 1000000000''))
      else Inr ())"

definition is_ascii_alphanumeric :: "char \<Rightarrow> bool" where
  "is_ascii_alphanumeric c \<longleftrightarrow> (let n = (of_char c :: nat) in
     (48 \<le> n \<and> n \<le> 57) \<or> (65 \<le> n \<and> n \<le> 90) \<or> (97 \<le> n \<and> n \<le> 122))"

definition is_ascii_whitespace :: "char \<Rightarrow> bool" where
  "is_ascii_whitespace c \<longleftrightarrow> (of_char c :: nat) \<in> {9, 10, 12, 13, 32}"

definition SAFE_TEXT_CHARS :: string where
  "SAFE_TEXT_CHARS = ''!&?#()*+'' @ [CHR 0x27] @ ''-./'' @ [CHR 0x22]"

definition SAFE_LINK_CHARS :: string where
  "SAFE_LINK_CHARS = ''-_:/?#@!$&()*+,;=.~[]'' @ [CHR 0x27] @ ''%''"

definition is_safe_text :: "string \<Rightarrow> bool" where
  "is_safe_text s \<longleftrightarrow>
     list_all (\<lambda>c. is_ascii_alphanumeric c \<or> is_ascii_whitespace c \<or> c \<in> set SAFE_TEXT_CHARS) s"

definition is_safe_link :: "string \<Rightarrow> bool" where
  "is_safe_link link \<longleftrightarrow> list_all (\<lambda>c. is_ascii_alphanumeric c \<or> c \<in> set SAFE_LINK_CHARS) link"

definition starts_with :: "string \<Rightarrow> string \<Rightarrow> bool" where
  "starts_with s p \<longleftrightarrow> take (length p) s = p"

definition validate_links :: "string list \<Rightarrow> (std_error, unit) result" where
  "validate_links links =
     rfold (\<lambda>link _.
       if \<not> (is_safe_link link \<and> CHR ''.'' \<in> set link \<and> link \<noteq> [] \<and> last link = CHR ''/'') then
         Inl (Failed (GenericFmtText ''Link is not properly formatted or contains unsafe characters: {}.'' link))
       else Inr ()) links ()"

definition proposal_validate :: "Proposal \<Rightarrow> string list \<Rightarrow> (std_error, unit) result" where
  "proposal_validate p whitelisted_links =
     (if length (pp_title p) < 4 then Inl (Failed (GenericErr ''Title too short!''))
      else if 64 < length (pp_title p) then Inl (Failed (GenericErr ''Title too long!''))
      else if \<not> is_safe_text (pp_title p) then Inl (Failed (GenericErr ''Title is not in alphanumeric format!''))
      else if length (pp_description p) < 4 then Inl (Failed (GenericErr ''Description too short!''))
      else if 1024 < length (pp_description p) then Inl (Failed (GenericErr ''Description too long!''))
      else if \<not> is_safe_text (pp_description p) then
        Inl (Failed (GenericErr ''Description is not in alphanumeric format''))
      else (case pp_link p of
          None \<Rightarrow> Inr ()
        | Some link \<Rightarrow>
            if length link < 12 then Inl (Failed (GenericErr ''Link too short!''))
            else if 128 < length link then Inl (Failed (GenericErr ''Link too long!''))
            else if \<not> list_ex (starts_with link) whitelisted_links then
              Inl (Failed (GenericErr ''Link is not whitelisted!''))
            else if \<not> is_safe_link link then
              Inl (Failed (GenericErr ''Link is not properly formatted or contains unsafe characters!''))
            else Inr ()))"

end
