(* ===== verification/Gov_Voting.thy ===== *)
theory Gov_Voting
  imports Gov_State
begin

text \<open>
  Governance: voting power and votes (\<open>contracts/governance/src/contracts.rs\<close>: \<open>calc_voting_power\<close>,
  \<open>calc_total_voting_power_at\<close>, \<open>submit_proposal\<close>, \<open>cast_vote\<close>).

  With quadratic voting each stake and each delegation counts with the square root of its amount, but the power
  that supports (aligns with) a proposal counts in full up to the stake the configuration requires.
\<close>

section \<open>Voting power\<close>

definition sqrt_ceil :: "gov_lib \<Rightarrow> uint128 \<Rightarrow> ('e, uint128) result" where
  "sqrt_ceil G n = rbind (dec_of_uint n) (\<lambda>d. Inr (to_uint_ceil (gl_sqrt G d)))"

definition sqrt_floor :: "gov_lib \<Rightarrow> uint128 \<Rightarrow> ('e, uint128) result" where
  "sqrt_floor G n = rbind (dec_of_uint n) (\<lambda>d. Inr (to_uint_floor (gl_sqrt G d)))"

definition non_vested_total :: "gov_querier \<Rightarrow> gov_config \<Rightarrow> (std_error, uint128) result" where
  "non_vested_total Q config =
     rcatch (rbind (gq_totals_raw Q (gc_staking_contract_addr config)) (\<lambda>t. Inr (to_stakers t)))
       (\<lambda>_. rbind (answered (gq_total_staked Q (gc_staking_contract_addr config))) (\<lambda>res.
            Inr (ts_total_not_including_vested res)))"

text \<open>The allocation's part of the voting power, at most 19 percent of the stake that is not vesting.\<close>

definition vested_power ::
  "gov_config \<Rightarrow> uint128 \<Rightarrow> uint128 \<Rightarrow> uint128 \<Rightarrow> ('e, uint128) result" where
  "vested_power config stakers amount withdrawn =
     rbind (u128_sub amount withdrawn) (\<lambda>remaining.
     rbind (uint128_mul_dec remaining (gc_vesting_voting_power_multiplier config)) (\<lambda>allocation.
     rbind (uint128_mul_dec stakers (dec_percent 19)) (\<lambda>limit.
     Inr (min allocation limit))))"

definition stake_counts :: "u64 \<Rightarrow> OldStakeDeposit \<Rightarrow> bool" where
  "stake_counts start_time d \<longleftrightarrow> od_stake_time d < start_time \<and> od_unstake_start_time d = None"

definition delegation_counts :: "u64 \<Rightarrow> OldDelegation \<Rightarrow> bool" where
  "delegation_counts start_time d \<longleftrightarrow> ol_time_of_delegation d \<le> start_time \<and> ol_voting_power_delegation d"

definition delegations_power :: "gov_lib \<Rightarrow> bool \<Rightarrow> u64 \<Rightarrow> OldDelegation list \<Rightarrow> ('e, uint128) result" where
  "delegations_power G quadratic_voting start_time ds =
     rbind (rmapM (\<lambda>d. if quadratic_voting then sqrt_ceil G (ol_amount d) else Inr (ol_amount d))
       (filter (delegation_counts start_time) ds)) u128_sum"

definition calc_voting_power ::
  "gov_lib \<Rightarrow> gov_storage \<Rightarrow> gov_querier \<Rightarrow> uint128 option \<Rightarrow> string \<Rightarrow> u64 \<Rightarrow> bool \<Rightarrow> string option \<Rightarrow> bool \<Rightarrow>
   (std_error, uint128 \<times> bool) result" where
  "calc_voting_power G st Q non_vested user start_time expedited recipient quadratic_voting =
     rbind (gv_config_load st) (\<lambda>config.
     rbind (case non_vested of Some n \<Rightarrow> Inr n | None \<Rightarrow> non_vested_total Q config) (\<lambda>non_vested.
     rbind (case gq_user_stake Q (gc_staking_contract_addr config) user of
              Inr stake \<Rightarrow> u128_sum (map od_amount (filter (stake_counts start_time) (sr_deposit_list stake)))
            | Inl _ \<Rightarrow> Inr 0) (\<lambda>total.
     rbind (case recipient of
              None \<Rightarrow> Inr (total, False)
            | Some recipient \<Rightarrow>
                if user \<noteq> recipient then
                  Inl (Failed (GenericErr ''You are not the Recipient that was passed''))
                else (case gq_allocation Q (gc_vesting_contract_addr config) recipient of
                    Inr allocation \<Rightarrow>
                      rbind (vested_power config non_vested (ar_amount allocation) (ar_amount_withdrawn allocation))
                        (\<lambda>power. Inr (power, expedited))
                  | Inl _ \<Rightarrow> Inr (0, False))) (\<lambda>(total, expedited).
     rbind (if quadratic_voting then sqrt_ceil G total else Inr total) (\<lambda>total.
     let infos = (case gq_delegations Q (gc_staking_contract_addr config) None None (Some start_time) (Some user) of
             Inr ds \<Rightarrow> ds | Inl _ \<Rightarrow> []) in
     rbind (case find (\<lambda>d. dr_user d = user) infos of
              Some d \<Rightarrow>
                rbind (delegations_power G quadratic_voting start_time (oi_delegated (dr_delegation_info d))) (\<lambda>to_user.
                rbind (delegations_power G quadratic_voting start_time (oi_delegated_to (dr_delegation_info d))) (\<lambda>from_user.
                rbind (u128_add total to_user) (\<lambda>total.
                Inr (if from_user \<le> total then total - from_user else 0))))
            | None \<Rightarrow> Inr total) (\<lambda>total.
     Inr (total, expedited)))))))"

definition STAKE_QUERY_LIMIT :: nat where "STAKE_QUERY_LIMIT = 1024"

text \<open>
  The total stake: for each staker of the list in turn, the stake of all its deposits that are still in the
  list, which are then removed from it.
\<close>

definition staker_turn ::
  "gov_lib \<Rightarrow> bool \<Rightarrow> u64 \<Rightarrow> OldStakeDeposit \<Rightarrow> OldStakeDeposit list \<times> uint128 \<Rightarrow>
   ('e, OldStakeDeposit list \<times> uint128) result" where
  "staker_turn G quadratic_voting start_time staker s =
     (let (listed, total) = s in
      rbind (u128_sum (map od_amount (filter (\<lambda>d. od_staker d = od_staker staker \<and> stake_counts start_time d) listed)))
        (\<lambda>staker_total.
      rbind (if quadratic_voting then sqrt_ceil G staker_total else Inr staker_total) (\<lambda>power.
      rbind (u128_add total power) (\<lambda>total.
      Inr (filter (\<lambda>d. od_staker d \<noteq> od_staker staker) listed, total)))))"

definition recipient_turn ::
  "gov_lib \<Rightarrow> gov_config \<Rightarrow> bool \<Rightarrow> uint128 \<Rightarrow> RecipientResponse \<Rightarrow> uint128 \<Rightarrow> ('e, uint128) result" where
  "recipient_turn G config quadratic_voting non_vested recipient acc =
     (case rr_allocation recipient of
        Some a \<Rightarrow>
          rbind (vested_power config non_vested (al_amount a) (al_amount_withdrawn a)) (\<lambda>vp.
          rbind (if quadratic_voting then sqrt_floor G vp else Inr vp) (\<lambda>vp.
          u128_add acc vp))
      | None \<Rightarrow> Inr acc)"

definition calc_total_voting_power_at ::
  "gov_lib \<Rightarrow> gov_storage \<Rightarrow> gov_querier \<Rightarrow> bool \<Rightarrow> u64 \<Rightarrow> (std_error, uint128) result" where
  "calc_total_voting_power_at G st Q quadratic_voting proposal_start_time =
     rbind (gv_config_load st) (\<lambda>config.
     let staked_mbrn = (case gq_staked Q (gc_staking_contract_addr config) (Some STAKE_QUERY_LIMIT) None
             (Some proposal_start_time) False of Inr ds \<Rightarrow> ds | Inl _ \<Rightarrow> []) in
     rbind (rfold (staker_turn G quadratic_voting proposal_start_time) staked_mbrn (staked_mbrn, 0)) (\<lambda>(_, total).
     rbind (rcatch (rbind (gq_totals_raw Q (gc_staking_contract_addr config)) (\<lambda>t. Inr (to_stakers t)))
              (\<lambda>_. Inr (case gq_total_staked Q (gc_staking_contract_addr config) of
                  Inr totals \<Rightarrow> ts_total_not_including_vested totals | Inl _ \<Rightarrow> 0))) (\<lambda>non_vested.
     rbind (answered (gq_recipients Q (gc_vesting_contract_addr config))) (\<lambda>recipients.
     rfold (recipient_turn G config quadratic_voting non_vested) recipients total))))"

section \<open>Submitting\<close>

definition seconds_of_blocks :: "u64 \<Rightarrow> ('e, u64) result" where
  "seconds_of_blocks n = u64_mul n 6"

definition proposal_end :: "gov_config \<Rightarrow> u64 \<Rightarrow> bool \<Rightarrow> bool \<Rightarrow> ('e, u64) result" where
  "proposal_end config now expedited executables =
     (if expedited then
        rbind (seconds_of_blocks (gc_expedited_proposal_voting_period config)) (u64_add now)
      else if executables \<and> gc_proposal_voting_period config < 7 * BLOCKS_PER_DAY then
        rbind (seconds_of_blocks (7 * BLOCKS_PER_DAY)) (u64_add now)
      else rbind (seconds_of_blocks (gc_proposal_voting_period config)) (u64_add now))"

text \<open>What exceeds the required stake counts with its square root.\<close>

definition root_excess :: "gov_lib \<Rightarrow> gov_config \<Rightarrow> uint128 \<Rightarrow> (std_error, uint128) result" where
  "root_excess G config aligned_power =
     rbind (u128_checked_sub aligned_power (gc_proposal_required_stake config)) (\<lambda>difference.
     rbind (sqrt_floor G difference) (\<lambda>difference.
     u128_checked_add (gc_proposal_required_stake config) difference))"

definition new_proposal ::
  "Env \<Rightarrow> u64 \<Rightarrow> addr \<Rightarrow> addr \<Rightarrow> uint128 \<Rightarrow> u64 \<Rightarrow> u64 \<Rightarrow> u64 \<Rightarrow> string \<Rightarrow> string \<Rightarrow> string option \<Rightarrow>
   ProposalMessage list option \<Rightarrow> Proposal" where
  "new_proposal env n submitter creator vp end_block delayed_end expiration title description link msgs =
     \<lparr>pp_voting_power = [], pp_proposal_id = n, pp_submitter = submitter, pp_status = Active,
      pp_aligned_power = vp, pp_for_power = 0, pp_against_power = 0, pp_amendment_power = 0,
      pp_removal_power = 0, pp_aligned_voters = [creator], pp_for_voters = [], pp_against_voters = [],
      pp_amendment_voters = [], pp_removal_voters = [], pp_start_block = block_height env,
      pp_start_time = time_seconds env, pp_end_block = end_block, pp_delayed_end_block = delayed_end,
      pp_expiration_block = expiration, pp_title = title, pp_description = description, pp_link = link,
      pp_messages = msgs\<rparr>"

definition submit_proposal ::
  "gov_lib \<Rightarrow> gov_storage \<Rightarrow> gov_querier \<Rightarrow> Env \<Rightarrow> MessageInfo \<Rightarrow> string \<Rightarrow> string \<Rightarrow> string option \<Rightarrow>
   ProposalMessage list option \<Rightarrow> string option \<Rightarrow> bool \<Rightarrow> (gov_storage \<times> gov_response) gov_result" where
  "submit_proposal G st Q env info title description link msgs recipient expedited =
     rbind (map_err GvStd (gv_config_load st)) (\<lambda>config.
     rbind (map_err GvStd (non_vested_total Q config)) (\<lambda>non_vested.
     if non_vested < gc_minimum_total_stake config then
       Inl (Failed (GvInsufficientTotalStake (gc_minimum_total_stake config)))
     else
       rbind (map_err GvStd (calc_voting_power G st Q (Some non_vested) (sender info) (time_seconds env) expedited
                recipient False)) (\<lambda>(voting_power, expedited).
       if voting_power = 0 then Inl (Failed GvNoVotingPower)
       else
         rbind (map_err GvStd (ok_or (NotFound ''Uint64'') (GV_PROPOSAL_COUNT st))) (\<lambda>c.
         rbind (if c + 1 < U64_BOUND then Inr (c + 1) else Inl (Failed (GvStd OverflowErr))) (\<lambda>count.
         let st = st\<lparr>GV_PROPOSAL_COUNT := Some count\<rparr> in
         rbind (case recipient of
                  Some r \<Rightarrow> map_err GvStd (lib_addr_validate (gl_chain G) r)
                | None \<Rightarrow> Inr (sender info)) (\<lambda>submitter.
         rbind (proposal_end config (time_seconds env) expedited (msgs \<noteq> None)) (\<lambda>end_block.
         rbind (seconds_of_blocks (gc_proposal_effective_delay config)) (\<lambda>delay.
         rbind (u64_add end_block delay) (\<lambda>delayed_end.
         rbind (seconds_of_blocks (gc_proposal_expiration_period config)) (\<lambda>expiration_period.
         rbind (u64_add delayed_end expiration_period) (\<lambda>expiration.
         let p = new_proposal env count submitter (sender info) voting_power end_block delayed_end expiration
               title description link msgs in
         rbind (map_err GvStd (proposal_validate p (gc_whitelisted_links config))) (\<lambda>_.
         rbind (if gc_proposal_required_stake config \<le> pp_aligned_power p \<and> gc_quadratic_voting config then
                  map_err GvStd (root_excess G config (pp_aligned_power p))
                else Inr (pp_aligned_power p)) (\<lambda>aligned.
         let p = p\<lparr>pp_aligned_power := aligned\<rparr> in
         rbind (if pp_aligned_power p < gc_proposal_required_stake config then
                  rbind (u64_add (time_seconds env) (BLOCKS_PER_DAY * 6)) (\<lambda>end_block.
                  let p = p\<lparr>pp_end_block := end_block\<rparr> in Inr (save_pending count p st, p))
                else Inr (save_proposal count p st, p)) (\<lambda>(st, p).
         Inr (st, \<lparr>vg_messages = [], vg_attributes = [(''action'', AText ''submit_proposal''),
           (''submitter'', AText (or_default recipient (sender info))), (''proposal_id'', ANum count),
           (''proposal_end_time'', ANum (pp_end_block p))]\<rparr>)))))))))))))))"

section \<open>Voting\<close>

text \<open>The sender's previous vote leaves the first list of voters that has it, with today's voting power.\<close>

definition drop_voter :: "addr \<Rightarrow> addr list \<Rightarrow> (nat \<times> addr) option" where
  "drop_voter u voters = find_index_of (\<lambda>v. v = u) voters"

definition remove_previous_vote :: "addr \<Rightarrow> uint128 \<Rightarrow> Proposal \<Rightarrow> Proposal gov_result" where
  "remove_previous_vote u vp p =
     (let less = (\<lambda>n. map_err GvStd (u128_checked_sub n vp)) in
      case drop_voter u (pp_for_voters p) of
        Some (i, _) \<Rightarrow>
          rbind (remove_at (pp_for_voters p) i) (\<lambda>vs. rbind (less (pp_for_power p)) (\<lambda>n.
          Inr (p\<lparr>pp_for_voters := vs, pp_for_power := n\<rparr>)))
      | None \<Rightarrow> (case drop_voter u (pp_against_voters p) of
        Some (i, _) \<Rightarrow>
          rbind (remove_at (pp_against_voters p) i) (\<lambda>vs. rbind (less (pp_against_power p)) (\<lambda>n.
          Inr (p\<lparr>pp_against_voters := vs, pp_against_power := n\<rparr>)))
      | None \<Rightarrow> (case drop_voter u (pp_amendment_voters p) of
        Some (i, _) \<Rightarrow>
          rbind (remove_at (pp_amendment_voters p) i) (\<lambda>vs. rbind (less (pp_amendment_power p)) (\<lambda>n.
          Inr (p\<lparr>pp_amendment_voters := vs, pp_amendment_power := n\<rparr>)))
      | None \<Rightarrow> (case drop_voter u (pp_removal_voters p) of
        Some (i, _) \<Rightarrow>
          rbind (remove_at (pp_removal_voters p) i) (\<lambda>vs. rbind (less (pp_removal_power p)) (\<lambda>n.
          Inr (p\<lparr>pp_removal_voters := vs, pp_removal_power := n\<rparr>)))
      | None \<Rightarrow> (case drop_voter u (pp_aligned_voters p) of
        Some (i, _) \<Rightarrow>
          rbind (remove_at (pp_aligned_voters p) i) (\<lambda>vs. rbind (less (pp_aligned_power p)) (\<lambda>n.
          Inr (p\<lparr>pp_aligned_voters := vs, pp_aligned_power := n\<rparr>)))
      | None \<Rightarrow> Inr p)))))"

text \<open>Aligning before the required stake is reached counts the square of the voting power.\<close>

definition align :: "gov_lib \<Rightarrow> gov_config \<Rightarrow> addr \<Rightarrow> uint128 \<Rightarrow> Proposal \<Rightarrow> (Proposal \<times> uint128) gov_result" where
  "align G config u vp p =
     (if gc_quadratic_voting config \<and> pp_aligned_power p < gc_proposal_required_stake config then
        rbind (dec_of_uint vp) (\<lambda>d.
        rbind (map_err GvStd (decimal_multiplication d d)) (\<lambda>square.
        let vp = to_uint_ceil square in
        rbind (map_err GvStd (u128_checked_add (pp_aligned_power p) vp)) (\<lambda>aligned.
        rbind (if gc_proposal_required_stake config \<le> aligned then map_err GvStd (root_excess G config aligned)
               else Inr aligned) (\<lambda>aligned.
        Inr (p\<lparr>pp_aligned_power := aligned, pp_aligned_voters := pp_aligned_voters p @ [u]\<rparr>, vp)))))
      else
        rbind (map_err GvStd (u128_checked_add (pp_aligned_power p) vp)) (\<lambda>aligned.
        Inr (p\<lparr>pp_aligned_power := aligned, pp_aligned_voters := pp_aligned_voters p @ [u]\<rparr>, vp)))"

definition count_vote ::
  "gov_lib \<Rightarrow> gov_config \<Rightarrow> addr \<Rightarrow> ProposalVoteOption \<Rightarrow> bool \<Rightarrow> uint128 \<Rightarrow> Proposal \<Rightarrow> (Proposal \<times> uint128) gov_result" where
  "count_vote G config u vote_option pending vp p =
     (let plus = (\<lambda>n. map_err GvStd (u128_checked_add n vp)) in
      if vote_option = VoteAlign then align G config u vp p
      else if pending then Inl (Failed GvProposalNotActive)
      else (case vote_option of
          VoteFor \<Rightarrow> rbind (plus (pp_for_power p)) (\<lambda>n.
            Inr (p\<lparr>pp_for_power := n, pp_for_voters := pp_for_voters p @ [u]\<rparr>, vp))
        | VoteAgainst \<Rightarrow> rbind (plus (pp_against_power p)) (\<lambda>n.
            Inr (p\<lparr>pp_against_power := n, pp_against_voters := pp_against_voters p @ [u]\<rparr>, vp))
        | VoteAmend \<Rightarrow> rbind (plus (pp_amendment_power p)) (\<lambda>n.
            Inr (p\<lparr>pp_amendment_power := n, pp_amendment_voters := pp_amendment_voters p @ [u]\<rparr>, vp))
        | VoteRemove \<Rightarrow> rbind (plus (pp_removal_power p)) (\<lambda>n.
            Inr (p\<lparr>pp_removal_power := n, pp_removal_voters := pp_removal_voters p @ [u]\<rparr>, vp))
        | VoteAlign \<Rightarrow> align G config u vp p))"

definition cast_vote ::
  "gov_lib \<Rightarrow> gov_storage \<Rightarrow> gov_querier \<Rightarrow> Env \<Rightarrow> MessageInfo \<Rightarrow> u64 \<Rightarrow> ProposalVoteOption \<Rightarrow> string option \<Rightarrow>
   (gov_storage \<times> gov_response) gov_result" where
  "cast_vote G st Q env info proposal_id vote_option recipient =
     rbind (map_err GvStd (gv_config_load st)) (\<lambda>config.
     rbind (case proposal_at st proposal_id of
              Some p \<Rightarrow> Inr (p, False)
            | None \<Rightarrow> (case pending_at st proposal_id of
                Some p \<Rightarrow> Inr (p, True)
              | None \<Rightarrow> Inl (Failed (GvStd (NotFound ''Proposal''))))) (\<lambda>(p, pending).
     rbind (if pp_submitter p = sender info then Inl (Failed GvUnauthorized)
            else (case recipient of
                None \<Rightarrow> Inr ()
              | Some r \<Rightarrow>
                  rbind (map_err GvStd (lib_addr_validate (gl_chain G) r)) (\<lambda>_.
                  if pp_submitter p = r then Inl (Failed GvUnauthorized) else Inr ()))) (\<lambda>_.
     if pp_end_block p < time_seconds env then Inl (Failed GvVotingPeriodEnded)
     else
       rbind (map_err GvStd (calc_voting_power G st Q None (sender info) (pp_start_time p) False recipient
                (gc_quadratic_voting config))) (\<lambda>(voting_power, _).
       if voting_power = 0 then Inl (Failed GvNoVotingPower)
       else
         rbind (remove_previous_vote (sender info) voting_power p) (\<lambda>p.
         rbind (count_vote G config (sender info) vote_option pending voting_power p) (\<lambda>(p, voting_power).
         let st = (if vote_option = VoteAlign \<and> gc_proposal_required_stake config \<le> pp_aligned_power p
                   then save_proposal proposal_id p (remove_pending proposal_id st)
                   else if \<not> pending then save_proposal proposal_id p st
                   else save_pending proposal_id p st) in
         Inr (st, \<lparr>vg_messages = [], vg_attributes = [(''action'', AText ''cast_vote''),
           (''proposal_id'', ANum proposal_id), (''voter'', AText (or_default recipient (sender info))),
           (''vote'', AText (proposal_vote_option_to_string vote_option)),
           (''voting_power'', ANum voting_power)]\<rparr>)))))))"

end
