(* ===== verification/Gov_Contract.thy ===== *)
theory Gov_Contract
  imports Gov_Voting
begin

text \<open>
  Governance: the life of a proposal after the vote, and the entry points
  (\<open>contracts/governance/src/contracts.rs\<close>).
\<close>

section \<open>Ending\<close>

definition votes_cast :: "Proposal \<Rightarrow> ('e, uint128) result" where
  "votes_cast p =
     rbind (u128_add (pp_for_power p) (pp_against_power p)) (\<lambda>n.
     rbind (u128_add n (pp_amendment_power p)) (\<lambda>n.
     u128_add n (pp_removal_power p)))"

text \<open>The aligned power with the square root of the required stake in place of the stake, and the quorum.\<close>

definition quorum_of ::
  "gov_lib \<Rightarrow> gov_config \<Rightarrow> uint128 \<Rightarrow> uint128 \<Rightarrow> Proposal \<Rightarrow> (Proposal \<times> decimal) gov_result" where
  "quorum_of G config total_votes total_voting_power p =
     (if total_voting_power = 0 then Inr (p, 0)
      else
        rbind (if gc_quadratic_voting config then
                 rbind (map_err GvStd (u128_checked_sub (pp_aligned_power p) (gc_proposal_required_stake config))) (\<lambda>n.
                 rbind (sqrt_floor G (gc_proposal_required_stake config)) (\<lambda>root.
                 u128_add n root))
               else Inr (pp_aligned_power p)) (\<lambda>aligned.
        rbind (u128_add total_votes aligned) (\<lambda>n.
        rbind (dec_from_ratio n total_voting_power) (\<lambda>quorum.
        Inr (p\<lparr>pp_aligned_power := aligned\<rparr>, quorum)))))"

text \<open>The shares of the votes for the proposal, for it or its amendment, for its removal, and the share to reach.\<close>

definition thresholds_of ::
  "gov_config \<Rightarrow> uint128 \<Rightarrow> Proposal \<Rightarrow> ('e, decimal \<times> decimal \<times> decimal \<times> decimal) result" where
  "thresholds_of config total_votes p =
     (if total_votes = 0 then Inr (0, 0, 0, gc_proposal_required_threshold config)
      else
        rbind (dec_from_ratio (pp_for_power p) total_votes) (\<lambda>for_threshold.
        rbind (u128_add (pp_for_power p) (pp_amendment_power p)) (\<lambda>n.
        rbind (dec_from_ratio n total_votes) (\<lambda>amend_threshold.
        rbind (dec_from_ratio (pp_removal_power p) total_votes) (\<lambda>removal_threshold.
        Inr (for_threshold, amend_threshold, removal_threshold,
             if pp_messages p = None \<or> pp_messages p = Some [] then dec_percent 50
             else gc_proposal_required_threshold config))))))"

definition extend_expedited :: "gov_lib \<Rightarrow> gov_config \<Rightarrow> Proposal \<Rightarrow> Proposal gov_result" where
  "extend_expedited G config p =
     rbind (seconds_of_blocks (gc_proposal_voting_period config)) (\<lambda>period.
     rbind (u64_add (pp_start_time p) period) (\<lambda>end_block.
     rbind (if gc_quadratic_voting config then
              rbind (map_err GvStd (u128_checked_add (pp_aligned_power p) (gc_proposal_required_stake config))) (\<lambda>n.
              rbind (sqrt_floor G (gc_proposal_required_stake config)) (\<lambda>root.
              u128_sub n root))
            else Inr (pp_aligned_power p)) (\<lambda>aligned.
     Inr (p\<lparr>pp_end_block := end_block, pp_aligned_power := aligned, pp_status := Active\<rparr>))))"

text \<open>The proposal with its new status, and whether it leaves the store.\<close>

definition decide ::
  "gov_lib \<Rightarrow> gov_config \<Rightarrow> decimal \<Rightarrow> decimal \<times> decimal \<times> decimal \<times> decimal \<Rightarrow> Proposal \<Rightarrow>
   (Proposal \<times> bool) gov_result" where
  "decide G config quorum thresholds p =
     (let (for_threshold, amend_threshold, removal_threshold, required) = thresholds in
      if gc_proposal_required_quorum config \<le> quorum then
        Inr (if required \<le> for_threshold then (p\<lparr>pp_status := Passed\<rparr>, False)
             else if required \<le> amend_threshold then (p\<lparr>pp_status := AmendmentDesired\<rparr>, False)
             else if required \<le> removal_threshold then (p\<lparr>pp_status := Rejected\<rparr>, True)
             else (p\<lparr>pp_status := Rejected\<rparr>, False))
      else
        rbind (u64_sub (pp_end_block p) (pp_start_time p)) (\<lambda>window.
        rbind (seconds_of_blocks (gc_expedited_proposal_voting_period config)) (\<lambda>expedited.
        if window = expedited then rbind (extend_expedited G config p) (\<lambda>p. Inr (p, False))
        else Inr (p\<lparr>pp_status := Rejected\<rparr>, False))))"

definition end_proposal ::
  "gov_lib \<Rightarrow> gov_storage \<Rightarrow> gov_querier \<Rightarrow> Env \<Rightarrow> u64 \<Rightarrow> (gov_storage \<times> gov_response) gov_result" where
  "end_proposal G st Q env proposal_id =
     rbind (map_err GvStd (gv_proposal_load st proposal_id)) (\<lambda>p.
     if pp_status p \<noteq> Active then Inl (Failed GvProposalNotActive)
     else if time_seconds env \<le> pp_end_block p then Inl (Failed GvVotingPeriodNotEnded)
     else
       rbind (map_err GvStd (gv_config_load st)) (\<lambda>config.
       rbind (votes_cast p) (\<lambda>total_votes.
       rbind (rcatch (calc_total_voting_power_at G st Q (gc_quadratic_voting config) (pp_start_time p)) (\<lambda>_. Inr 1))
         (\<lambda>total_voting_power.
       rbind (quorum_of G config total_votes total_voting_power p) (\<lambda>(p, quorum).
       rbind (thresholds_of config total_votes p) (\<lambda>thresholds.
       rbind (decide G config quorum thresholds p) (\<lambda>(p, removed).
       let st = (if removed then remove_proposal proposal_id st else save_proposal proposal_id p st) in
       Inr (st, \<lparr>vg_messages = [], vg_attributes = [(''action'', AText ''end_proposal''),
         (''proposal_id'', ANum proposal_id),
         (''proposal_result'', AText (proposal_status_to_string (pp_status p)))]\<rparr>))))))))"

section \<open>Executing\<close>

definition ordered_messages :: "ProposalMessage list \<Rightarrow> json list" where
  "ordered_messages msgs = map pm_msg (sort_key pm_order msgs)"

definition execute_proposal :: "gov_storage \<Rightarrow> Env \<Rightarrow> u64 \<Rightarrow> (gov_storage \<times> gov_response) gov_result" where
  "execute_proposal st env proposal_id =
     rbind (map_err GvStd (gv_proposal_load st proposal_id)) (\<lambda>p.
     if pp_status p \<noteq> Passed then Inl (Failed GvProposalNotPassed)
     else if time_seconds env < pp_delayed_end_block p then Inl (Failed GvProposalDelayNotEnded)
     else if pp_expiration_block p < time_seconds env then Inl (Failed GvExecuteProposalExpired)
     else
       let p = p\<lparr>pp_status := Executed\<rparr>;
           msgs = (case pp_messages p of Some ms \<Rightarrow> map GovProposed (ordered_messages ms) | None \<Rightarrow> []) in
       Inr (save_proposal proposal_id p st,
         \<lparr>vg_messages = msgs @ [GovSelf (contract_address env) (GovCheckMessagesPassed (Some False)) []],
          vg_attributes = [(''action'', AText ''execute_proposal''), (''proposal_id'', ANum proposal_id)]\<rparr>))"

section \<open>Checking messages\<close>

definition CDP_CONTRACT_ADDR :: addr where
  "CDP_CONTRACT_ADDR = ''osmo1gy5gpqqlth0jpm9ydxlmff6g5mpnfvrfxd3mfc8dhyt03waumtzqt8exxr''"

definition LQ_CONTRACT_ADDR :: addr where
  "LQ_CONTRACT_ADDR = ''osmo1ycmtfa7h0efexjxuaw7yh3h3qayy5lspt9q4n4e3stn06cdcgm8s50zmjl''"

definition OP_CONTRACT_ADDR :: addr where
  "OP_CONTRACT_ADDR = ''osmo1s794h9rxggytja3a4pmwul53u98k06zy2qtrdvjnfuxruh7s8yjs6cyxgd''"

abbreviation uosmo :: AssetInfo where "uosmo \<equiv> NativeToken ''uosmo''"

definition gov_basket :: "gov_querier \<Rightarrow> (std_error, Basket) result" where
  "gov_basket Q = rcatch (gq_basket_raw Q CDP_CONTRACT_ADDR) (\<lambda>_. answered (gq_basket Q CDP_CONTRACT_ADDR))"

definition balance_or_zero :: "gov_querier \<Rightarrow> Env \<Rightarrow> string \<Rightarrow> uint128" where
  "balance_or_zero Q env denom = (case gq_balance Q (contract_address env) denom of Inr n \<Rightarrow> n | Inl _ \<Rightarrow> 0)"

text \<open>Deposit, borrow, repay and withdraw at the positions contract.\<close>

definition cdp_check_msgs :: "gov_querier \<Rightarrow> Env \<Rightarrow> (std_error, gov_msg list) result" where
  "cdp_check_msgs Q env =
     rbind (gov_basket Q) (\<lambda>basket.
     let uosmo_balance = balance_or_zero Q env ''uosmo'' in
     if uosmo_balance = 0 then Inr []
     else
       let position_id = bk_current_position_id basket;
           all_uosmo = \<lparr>a_info = uosmo, a_amount = uosmo_balance\<rparr> in
       rbind (asset_to_coin all_uosmo) (\<lambda>coin.
       rbind (answered (gq_debt_minimum Q CDP_CONTRACT_ADDR)) (\<lambda>debt_minimum.
       rbind (u128_mul debt_minimum 1000000) (\<lambda>debt.
       rbind (asset_to_coin \<lparr>a_info = a_info (bk_credit_asset basket), a_amount = debt\<rparr>) (\<lambda>repayment.
       Inr [GovCdp CDP_CONTRACT_ADDR (CdpDeposit None None) [coin],
            GovCdp CDP_CONTRACT_ADDR (CdpIncreaseDebt position_id (Some debt) None None) [],
            GovCdp CDP_CONTRACT_ADDR (CdpRepay position_id None None) [repayment],
            GovCdp CDP_CONTRACT_ADDR (CdpWithdraw position_id [all_uosmo] None) []])))))"

definition staking_check_msgs :: "gov_storage \<Rightarrow> (std_error, gov_msg list) result" where
  "staking_check_msgs st =
     rbind (gv_config_load st) (\<lambda>config.
     rbind (asset_to_coin \<lparr>a_info = NativeToken (gc_mbrn_denom config), a_amount = 1000000\<rparr>) (\<lambda>coin.
     Inr [GovStaking (gc_staking_contract_addr config) (SkUnstake None) [],
          GovStaking (gc_staking_contract_addr config) (SkStake None) [coin],
          GovStaking (gc_staking_contract_addr config) (SkUnstake None) []]))"

definition lq_check_msgs :: "gov_querier \<Rightarrow> Env \<Rightarrow> (std_error, gov_msg list) result" where
  "lq_check_msgs Q env =
     rbind (gov_basket Q) (\<lambda>basket.
     let cdt_denom = asset_info_to_string (a_info (bk_credit_asset basket));
         cdt_balance = balance_or_zero Q env cdt_denom in
     rbind (answered (gq_minimum_bid Q LQ_CONTRACT_ADDR)) (\<lambda>minimum_bid.
     let mints = (if cdt_balance < minimum_bid
           then [GovCosmos (WasmExecute OP_CONTRACT_ADDR
                  (MintTokens cdt_denom minimum_bid (contract_address env)) [])] else []) in
     rbind (answered (gq_current_bid_id Q LQ_CONTRACT_ADDR uosmo)) (\<lambda>bid_id.
     rbind (asset_to_coin \<lparr>a_info = a_info (bk_credit_asset basket), a_amount = minimum_bid\<rparr>) (\<lambda>coin.
     Inr (mints @
       [GovLq LQ_CONTRACT_ADDR (SubmitBid \<lparr>bi_bid_for = uosmo, bi_liq_premium = 0\<rparr> None) [coin],
        GovLq LQ_CONTRACT_ADDR (RetractBid bid_id uosmo None) []])))))"

definition check_messages ::
  "gov_storage \<Rightarrow> gov_querier \<Rightarrow> Env \<Rightarrow> ProposalMessage list \<Rightarrow> u64 option \<Rightarrow>
   (gov_storage \<times> gov_response) gov_result" where
  "check_messages st Q env msgs msg_switch =
     rbind (map_err GvStd (if msg_switch = Some 0 then cdp_check_msgs Q env else Inr [])) (\<lambda>cdp_msgs.
     rbind (map_err GvStd (if msg_switch = Some 1 then staking_check_msgs st else Inr [])) (\<lambda>staking_msgs.
     rbind (map_err GvStd (if msg_switch = Some 2 then lq_check_msgs Q env else Inr [])) (\<lambda>lq_msgs.
     Inr (st, \<lparr>vg_messages = map GovProposed (ordered_messages msgs) @ cdp_msgs @ staking_msgs @ lq_msgs @
         [GovSelf (contract_address env) (GovCheckMessagesPassed (Some True)) []],
       vg_attributes = [(''action'', AText ''check_messages'')]\<rparr>))))"

definition PASSED_RECIPIENT :: string where
  "PASSED_RECIPIENT = ''osmo1988s5h45qwkaqch8km4ceagw2e08vdw28mwk4n''"

definition PASSED_DELEGATE :: string where
  "PASSED_DELEGATE = ''osmo13gu58hzw3e9aqpj25h67m7snwcjuccd7v4p55w''"

definition passed_messages ::
  "gov_storage \<Rightarrow> gov_querier \<Rightarrow> Env \<Rightarrow> bool option \<Rightarrow> (gov_storage \<times> gov_response) gov_result" where
  "passed_messages st Q env error =
     rbind (map_err GvStd (gv_config_load st)) (\<lambda>config.
     rbind (map_err GvStd (non_vested_total Q config)) (\<lambda>_.
     rbind (map_err GvStd (answered (gq_user_stake Q (gc_staking_contract_addr config) (contract_address env)))) (\<lambda>_.
     rbind (map_err GvStd (answered (gq_staked Q (gc_staking_contract_addr config) (Some STAKE_QUERY_LIMIT) None
              (Some (time_seconds env)) False))) (\<lambda>_.
     rbind (map_err GvStd (answered (gq_allocation Q (gc_vesting_contract_addr config) PASSED_RECIPIENT))) (\<lambda>_.
     rbind (map_err GvStd (answered (gq_own_config Q (contract_address env)))) (\<lambda>_.
     rbind (map_err GvStd (answered (gq_delegations Q (gc_staking_contract_addr config) (Some 1) None None
              (Some PASSED_DELEGATE)))) (\<lambda>_.
     Inr (st, \<lparr>vg_messages = (if error = Some True then [GovClearAdmin (contract_address env)] else []),
       vg_attributes = []\<rparr>))))))))"

section \<open>Removing\<close>

definition remove_completed_proposal ::
  "gov_storage \<Rightarrow> Env \<Rightarrow> MessageInfo \<Rightarrow> u64 \<Rightarrow> (gov_storage \<times> gov_response) gov_result" where
  "remove_completed_proposal st env info proposal_id =
     rbind (map_err GvStd (gv_config_load st)) (\<lambda>config.
     rbind (case proposal_at st proposal_id of
              Some p \<Rightarrow> Inr (p, True)
            | None \<Rightarrow> (case pending_at st proposal_id of
                Some p \<Rightarrow> Inr (p, False)
              | None \<Rightarrow> Inl (Failed (GvStd (NotFound ''Proposal''))))) (\<lambda>(p, aligned).
     rbind (if aligned then
              rbind (u64_add (gc_proposal_effective_delay config) (gc_proposal_expiration_period config)) (\<lambda>n.
              rbind (u64_mul n 6) (\<lambda>n.
              rbind (u64_add (pp_end_block p) n) (\<lambda>expiration.
              Inr (if expiration < time_seconds env then p\<lparr>pp_status := Expired\<rparr> else p))))
            else Inr (if pp_end_block p < time_seconds env then p\<lparr>pp_status := Expired\<rparr> else p)) (\<lambda>p.
     rbind (if pp_status p = Expired \<and> \<not> aligned then Inr (remove_pending proposal_id st)
            else if pp_status p = Expired \<or> pp_status p = Rejected then Inr (remove_proposal proposal_id st)
            else if sender info = pp_submitter p then Inr (remove_proposal proposal_id st)
            else Inl (Failed GvCantRemove)) (\<lambda>st.
     Inr (st, \<lparr>vg_messages = [], vg_attributes = [(''action'', AText ''remove_completed_proposal''),
       (''proposal_id'', ANum proposal_id)]\<rparr>)))))"

section \<open>Configuration\<close>

definition gov_decimal_from_str :: "gov_lib \<Rightarrow> string \<Rightarrow> (std_error, decimal) result" where
  "gov_decimal_from_str G s = ok_or (ParseErr s) (lib_decimal_from_str (gl_chain G) s)"

definition gov_set_str :: "gov_lib \<Rightarrow> string option \<Rightarrow> decimal \<Rightarrow> (std_error, decimal) result" where
  "gov_set_str G s old = (case s of None \<Rightarrow> Inr old | Some s \<Rightarrow> gov_decimal_from_str G s)"

definition gov_set_addr :: "gov_lib \<Rightarrow> string option \<Rightarrow> addr \<Rightarrow> (std_error, addr) result" where
  "gov_set_addr G a old = (case a of None \<Rightarrow> Inr old | Some a \<Rightarrow> lib_addr_validate (gl_chain G) a)"

definition gov_edit_whitelist :: "gov_update_config \<Rightarrow> string list \<Rightarrow> string list gov_result" where
  "gov_edit_whitelist update links =
     rbind (case gu_whitelist_add update of
              None \<Rightarrow> Inr links
            | Some added \<Rightarrow>
                rbind (map_err GvStd (validate_links added)) (\<lambda>_.
                Inr (links @ filter (\<lambda>l. l \<notin> set links) added))) (\<lambda>links.
     case gu_whitelist_remove update of
       None \<Rightarrow> Inr links
     | Some removed \<Rightarrow>
         let links = filter (\<lambda>l. l \<notin> set removed) links in
         if links = [] then Inl (Failed GvWhitelistEmpty) else Inr links)"

definition gv_update_config ::
  "gov_lib \<Rightarrow> gov_storage \<Rightarrow> Env \<Rightarrow> MessageInfo \<Rightarrow> gov_update_config \<Rightarrow> (gov_storage \<times> gov_response) gov_result" where
  "gv_update_config G st env info update =
     rbind (map_err GvStd (gv_config_load st)) (\<lambda>config.
     if sender info \<noteq> contract_address env then Inl (Failed GvUnauthorized)
     else
       rbind (map_err GvStd (gov_set_addr G (gu_staking_contract update) (gc_staking_contract_addr config))) (\<lambda>staking.
       rbind (map_err GvStd (gov_set_addr G (gu_vesting_contract_addr update) (gc_vesting_contract_addr config))) (\<lambda>vesting.
       rbind (map_err GvStd (gov_set_str G (gu_proposal_required_quorum update) (gc_proposal_required_quorum config)))
         (\<lambda>quorum.
       rbind (map_err GvStd (gov_set_str G (gu_proposal_required_threshold update)
                (gc_proposal_required_threshold config))) (\<lambda>threshold.
       rbind (gov_edit_whitelist update (gc_whitelisted_links config)) (\<lambda>links.
       let config = config\<lparr>gc_mbrn_denom := or_default (gu_mbrn_denom update) (gc_mbrn_denom config),
             gc_minimum_total_stake := or_default (gu_minimum_total_stake update) (gc_minimum_total_stake config),
             gc_staking_contract_addr := staking, gc_vesting_contract_addr := vesting,
             gc_proposal_voting_period := or_default (gu_proposal_voting_period update) (gc_proposal_voting_period config),
             gc_expedited_proposal_voting_period := or_default (gu_expedited_proposal_voting_period update)
               (gc_expedited_proposal_voting_period config),
             gc_proposal_effective_delay := or_default (gu_proposal_effective_delay update)
               (gc_proposal_effective_delay config),
             gc_proposal_expiration_period := or_default (gu_proposal_expiration_period update)
               (gc_proposal_expiration_period config),
             gc_proposal_required_stake := or_default (gu_proposal_required_stake update)
               (gc_proposal_required_stake config),
             gc_proposal_required_quorum := quorum, gc_proposal_required_threshold := threshold,
             gc_whitelisted_links := links\<rparr> in
       rbind (map_err GvStd (gov_config_validate config)) (\<lambda>_.
       Inr (st\<lparr>GV_CONFIG := Some config\<rparr>,
         \<lparr>vg_messages = [], vg_attributes = [(''action'', AText ''update_config'')]\<rparr>))))))))"

section \<open>Gauges and freezing\<close>

definition create_gauge :: "gov_storage \<Rightarrow> Env \<Rightarrow> MessageInfo \<Rightarrow> json \<Rightarrow> (gov_storage \<times> gov_response) gov_result" where
  "create_gauge st env info gauge_msg =
     (if sender info \<noteq> contract_address env then Inl (Failed GvUnauthorized)
      else Inr (st, \<lparr>vg_messages = [GovGauge gauge_msg], vg_attributes = []\<rparr>))"

definition add_to_gauge :: "gov_storage \<Rightarrow> Env \<Rightarrow> MessageInfo \<Rightarrow> json \<Rightarrow> (gov_storage \<times> gov_response) gov_result" where
  "add_to_gauge st env info gauge_msg =
     (if sender info \<noteq> contract_address env then Inl (Failed GvUnauthorized)
      else Inr (st, \<lparr>vg_messages = [GovGauge gauge_msg], vg_attributes = []\<rparr>))"

definition freeze_basket_msg :: "bool \<Rightarrow> SupplyCap list option \<Rightarrow> gov_msg" where
  "freeze_basket_msg frozen caps = GovCdp CDP_CONTRACT_ADDR (CdpEditBasket
     \<lparr>eb_added_cAsset = None, eb_liq_queue = None, eb_credit_pool_infos = None, eb_collateral_supply_caps = caps,
      eb_multi_asset_supply_caps = None, eb_base_interest_rate = None, eb_credit_asset_twap_price_source = None,
      eb_negative_rates = None, eb_cpc_margin_of_error = None, eb_frozen = Some frozen, eb_rev_to_stakers = None,
      eb_take_revenue = None\<rparr>) []"

definition freeze_positions ::
  "gov_storage \<Rightarrow> MessageInfo \<Rightarrow> bool \<Rightarrow> string list \<Rightarrow> (gov_storage \<times> gov_response) gov_result" where
  "freeze_positions st info frozen freeze_these_assets =
     (if sender info \<noteq> PASSED_RECIPIENT then Inl (Failed GvUnauthorized)
      else
        let supply_caps = map (\<lambda>asset. \<lparr>cap_asset_info = NativeToken asset, cap_current_supply = 0,
              cap_debt_total = 0, cap_supply_cap_ratio = dec_percent 0, cap_lp = False,
              cap_stability_pool_ratio_for_debt_cap = None\<rparr>) freeze_these_assets in
        Inr (st, \<lparr>vg_messages = [freeze_basket_msg frozen (if supply_caps \<noteq> [] then Some supply_caps else None)],
          vg_attributes = []\<rparr>))"

section \<open>Entry points\<close>

record gov_instantiate_msg =
  gi_mbrn_staking_contract_addr :: string
  gi_vesting_contract_addr :: string
  gi_vesting_voting_power_multiplier :: decimal
  gi_proposal_voting_period :: u64
  gi_expedited_proposal_voting_period :: u64
  gi_proposal_effective_delay :: u64
  gi_proposal_expiration_period :: u64
  gi_proposal_required_stake :: uint128
  gi_proposal_required_quorum :: string
  gi_proposal_required_threshold :: string
  gi_whitelisted_links :: "string list"

definition gov_instantiate ::
  "gov_lib \<Rightarrow> gov_storage \<Rightarrow> gov_querier \<Rightarrow> Env \<Rightarrow> gov_instantiate_msg \<Rightarrow> (gov_storage \<times> gov_response) gov_result" where
  "gov_instantiate G st Q env msg =
     rbind (map_err GvStd (lib_addr_validate (gl_chain G) (gi_mbrn_staking_contract_addr msg))) (\<lambda>staking.
     rbind (map_err GvStd (answered (gq_mbrn_denom Q staking))) (\<lambda>mbrn_denom.
     rbind (map_err GvStd (lib_addr_validate (gl_chain G) (gi_vesting_contract_addr msg))) (\<lambda>vesting.
     rbind (map_err GvStd (gov_decimal_from_str G (gi_proposal_required_quorum msg))) (\<lambda>quorum.
     rbind (map_err GvStd (gov_decimal_from_str G (gi_proposal_required_threshold msg))) (\<lambda>threshold.
     let config = \<lparr>gc_mbrn_denom = mbrn_denom, gc_minimum_total_stake = 1000000000000,
           gc_staking_contract_addr = staking, gc_vesting_contract_addr = vesting,
           gc_vesting_voting_power_multiplier = gi_vesting_voting_power_multiplier msg,
           gc_proposal_voting_period = gi_proposal_voting_period msg,
           gc_expedited_proposal_voting_period = gi_expedited_proposal_voting_period msg,
           gc_proposal_effective_delay = gi_proposal_effective_delay msg,
           gc_proposal_expiration_period = gi_proposal_expiration_period msg,
           gc_proposal_required_stake = gi_proposal_required_stake msg,
           gc_proposal_required_quorum = quorum, gc_proposal_required_threshold = threshold,
           gc_whitelisted_links = gi_whitelisted_links msg, gc_quadratic_voting = True\<rparr> in
     rbind (map_err GvStd (gov_config_validate config)) (\<lambda>_.
     Inr (st\<lparr>GV_CONTRACT := Some (''mbrn-governance'', lib_version (gl_chain G)), GV_CONFIG := Some config,
            GV_PROPOSAL_COUNT := Some 0\<rparr>,
       \<lparr>vg_messages = [], vg_attributes = [(''config'', ADebug (DbgGovConfig config)),
          (''contract_address'', AText (contract_address env))]\<rparr>)))))))"

fun gov_execute ::
  "gov_lib \<Rightarrow> gov_storage \<Rightarrow> gov_querier \<Rightarrow> Env \<Rightarrow> MessageInfo \<Rightarrow> gov_execute_msg \<Rightarrow>
   (gov_storage \<times> gov_response) gov_result" where
  "gov_execute G st Q env info (GovSubmitProposal title description link msgs recipient expedited) =
     submit_proposal G st Q env info title description link msgs recipient expedited"
| "gov_execute G st Q env info (GovCastVote proposal_id vote recipient) =
     cast_vote G st Q env info proposal_id vote recipient"
| "gov_execute G st Q env info (GovEndProposal proposal_id) = end_proposal G st Q env proposal_id"
| "gov_execute G st Q env info (GovExecuteProposal proposal_id) = execute_proposal st env proposal_id"
| "gov_execute G st Q env info (GovCheckMessages msgs msg_switch) = check_messages st Q env msgs msg_switch"
| "gov_execute G st Q env info (GovCheckMessagesPassed error) = passed_messages st Q env error"
| "gov_execute G st Q env info (GovRemoveCompletedProposal proposal_id) =
     remove_completed_proposal st env info proposal_id"
| "gov_execute G st Q env info (GovUpdateConfig update) = gv_update_config G st env info update"
| "gov_execute G st Q env info (GovCreateOsmosisGauge gauge_msg) = create_gauge st env info gauge_msg"
| "gov_execute G st Q env info (GovAddToOsmosisGauge gauge_msg) = add_to_gauge st env info gauge_msg"
| "gov_execute G st Q env info (GovFreezePositions frozen freeze_these_assets) =
     freeze_positions st info frozen freeze_these_assets"

definition gov_migrate :: "gov_storage \<Rightarrow> (gov_storage \<times> gov_response) gov_result" where
  "gov_migrate st = Inr (st, \<lparr>vg_messages = [], vg_attributes = []\<rparr>)"

end
