(* ===== verification/Gov_Facts.thy ===== *)
theory Gov_Facts
  imports Gov_Contract
begin

text \<open>
  Governance: what each message does to the store of proposals. \<open>phase\<close> reads the state of one proposal off the
  storage, \<open>life\<close> is the life cycle of a proposal as a step relation, and every handler is shown to move each
  proposal along it. The interpretation \<open>gv\<close> of \<open>transactions\<close> carries the invariant over runs.
\<close>

section \<open>Phases of a proposal\<close>

datatype phase = Unused | Waiting | Stored ProposalStatus | Gone

definition phase_of :: "gov_storage \<Rightarrow> u64 \<Rightarrow> phase" where
  "phase_of st k =
     (case proposal_at st k of
        Some p \<Rightarrow> Stored (pp_status p)
      | None \<Rightarrow> (case pending_at st k of
          Some p \<Rightarrow> Waiting
        | None \<Rightarrow> if \<exists>c. GV_PROPOSAL_COUNT st = Some c \<and> k \<le> c then Gone else Unused))"

inductive life :: "phase \<Rightarrow> phase \<Rightarrow> bool" where
  submit_waiting: "life Unused Waiting"
| submit_active: "life Unused (Stored Active)"
| aligned: "life Waiting (Stored Active)"
| passed: "life (Stored Active) (Stored Passed)"
| amended: "life (Stored Active) (Stored AmendmentDesired)"
| rejected: "life (Stored Active) (Stored Rejected)"
| executed: "life (Stored Passed) (Stored Executed)"
| removed: "life (Stored s) Gone"
| dropped: "life Waiting Gone"

inductive_cases lifeE: "life a b"
inductive_simps life_ends [simp]: "life Gone b" "life (Stored Executed) b" "life (Stored Rejected) b"

text \<open>What the two stores may hold for an id, when \<open>c\<close> ids are used.\<close>

definition slot_ok :: "u64 \<Rightarrow> u64 \<Rightarrow> Proposal option \<Rightarrow> Proposal option \<Rightarrow> bool" where
  "slot_ok c k stored pending \<longleftrightarrow> (c < k \<longrightarrow> stored = None \<and> pending = None) \<and> (stored = None \<or> pending = None) \<and>
     (\<forall>p. pending = Some p \<longrightarrow> pp_status p = Active)"

definition gv_inv :: "gov_storage \<Rightarrow> bool" where
  "gv_inv st \<longleftrightarrow> (\<exists>c. GV_PROPOSAL_COUNT st = Some c \<and> (\<forall>k. slot_ok c k (proposal_at st k) (pending_at st k))) \<and>
     (\<forall>config. GV_CONFIG st = Some config \<longrightarrow> gov_config_validate config = Inr ())"

lemma dec_string_inject [simp]: "dec_string j = dec_string k \<longleftrightarrow> j = k"
  by (metis dec_string_val)

section \<open>What each handler does to the store\<close>

lemma new_proposal_status: "pp_status (new_proposal env n u v w e d x t ds l ms) = Active"
  by (simp add: new_proposal_def)

text \<open>A new proposal goes to one of the two stores under the next id.\<close>

lemma submit_proposal_effect:
  assumes "submit_proposal G st Q env info title description link msgs recipient expedited = Inr (st', r)"
  shows "\<exists>c p. GV_PROPOSAL_COUNT st = Some c \<and> pp_status p = Active \<and>
    (st' = save_pending (c + 1) p (st\<lparr>GV_PROPOSAL_COUNT := Some (c + 1)\<rparr>) \<or>
     st' = save_proposal (c + 1) p (st\<lparr>GV_PROPOSAL_COUNT := Some (c + 1)\<rparr>)) \<and> vg_messages r = []"
proof -
  have saved: "\<exists>p. pp_status p = pp_status p1 \<and> (st1 = save_pending c p st2 \<or> st1 = save_proposal c p st2)"
    if "(if pp_aligned_power p1 < stake then rbind (u64_add t (BLOCKS_PER_DAY * 6)) (\<lambda>end_block.
          Inr (save_pending c (p1\<lparr>pp_end_block := end_block\<rparr>) st2, p1\<lparr>pp_end_block := end_block\<rparr>))
        else Inr (save_proposal c p1 st2, p1)) = (Inr (st1, p2) :: _ gov_result)" for p1 p2 st1 st2 c stake t
    using that by (cases "pp_aligned_power p1 < stake") (auto elim!: rbind_InrE, (rule exI, rule conjI[rotated], rule disjI1, rule refl, simp)?)
  obtain c d p1 p2 stake t attrs where count: "GV_PROPOSAL_COUNT st = Some c"
    and d: "(if c + 1 < U64_BOUND then Inr (c + 1) else Inl (Failed (GvStd OverflowErr))) = (Inr d :: _ gov_result)"
    and p1: "pp_status p1 = Active"
    and tail: "(if pp_aligned_power p1 < stake then rbind (u64_add t (BLOCKS_PER_DAY * 6)) (\<lambda>end_block.
          Inr (save_pending d (p1\<lparr>pp_end_block := end_block\<rparr>) (st\<lparr>GV_PROPOSAL_COUNT := Some d\<rparr>),
            p1\<lparr>pp_end_block := end_block\<rparr>))
        else Inr (save_proposal d p1 (st\<lparr>GV_PROPOSAL_COUNT := Some d\<rparr>), p1)) = (Inr (st', p2) :: _ gov_result)"
    and r: "\<lparr>vg_messages = [], vg_attributes = attrs\<rparr> = r"
    using assms unfolding submit_proposal_def Let_def
    apply (elim handlerE)
    apply (simp only: map_err_eq_Inr ok_or_eq_Inr sum.inject prod.inject)
    apply (elim conjE)
    apply (rule that)
        apply assumption
       apply assumption
      prefer 2
      apply assumption
     apply (simp add: new_proposal_status)
    apply assumption
    done
  have "d = c + 1" using d by (simp split: if_split_asm)
  then show ?thesis using count saved[OF tail] p1 r by (metis gov_response.select_convs(1))
qed

lemma remove_previous_vote_status: "remove_previous_vote u vp p = Inr p' \<Longrightarrow> pp_status p' = pp_status p"
  unfolding remove_previous_vote_def Let_def by (auto elim!: rbind_InrE split: option.splits)

lemma count_vote_status: "count_vote G config u v pending vp p = Inr (p', n) \<Longrightarrow> pp_status p' = pp_status p"
  unfolding count_vote_def align_def Let_def
  by (auto elim!: rbind_InrE split: if_split_asm ProposalVoteOption.splits)

text \<open>A vote rewrites the proposal in its store, or moves it from the waiting ones to the others.\<close>

lemma cast_vote_effect:
  assumes "cast_vote G st Q env info k v recipient = Inr (st', r)"
  shows "\<exists>p p'. pp_status p' = pp_status p \<and> vg_messages r = [] \<and>
    ((proposal_at st k = Some p \<and> (st' = save_proposal k p' st \<or> st' = save_proposal k p' (remove_pending k st))) \<or>
     (proposal_at st k = None \<and> pending_at st k = Some p \<and>
       (st' = save_pending k p' st \<or> st' = save_proposal k p' (remove_pending k st))))"
proof -
  obtain p pending n p2 p' vp where
    p: "proposal_at st k = Some p \<and> \<not> pending \<or> proposal_at st k = None \<and> pending_at st k = Some p \<and> pending"
    and old: "remove_previous_vote (sender info) n p = Inr p2"
    and new: "\<exists>config. count_vote G config (sender info) v pending n p2 = Inr (p', vp)"
    and st': "st' = save_proposal k p' (remove_pending k st) \<or> \<not> pending \<and> st' = save_proposal k p' st \<or>
      pending \<and> st' = save_pending k p' st"
    and r: "vg_messages r = []"
  proof -
    let ?load = "case proposal_at st k of Some p \<Rightarrow> Inr (p, False) | None \<Rightarrow> (case pending_at st k of
        Some p \<Rightarrow> Inr (p, True) | None \<Rightarrow> Inl (Failed (GvStd (NotFound ''Proposal''))))"
    obtain p pending config n p2 p' vp where load: "?load = Inr (p, pending)"
      and rest: "remove_previous_vote (sender info) n p = Inr p2"
        "count_vote G config (sender info) v pending n p2 = Inr (p', vp)" "vg_messages r = []"
        "st' = (if v = VoteAlign \<and> gc_proposal_required_stake config \<le> pp_aligned_power p'
           then save_proposal k p' (remove_pending k st)
           else if \<not> pending then save_proposal k p' st else save_pending k p' st)"
      using assms unfolding cast_vote_def Let_def
      by (elim handlerE, clarsimp)
    show ?thesis
      by (rule that[of p pending n p2 p' vp]) (use load rest in \<open>auto split: option.splits\<close>)
  qed
  have "pp_status p' = pp_status p"
    using remove_previous_vote_status[OF old] count_vote_status new by metis
  then show ?thesis using p st' r by blast
qed

text \<open>An ended proposal was active and gets its result.\<close>

lemma decide_cases:
  assumes "decide G config quorum thresholds p = Inr (p', gone)"
  shows "pp_status p' \<in> {Passed, AmendmentDesired, Rejected} \<or> pp_status p' = Active \<and> \<not> gone"
  using assms unfolding decide_def Let_def
  by (auto elim!: rbind_InrE case_prod_InrE simp: extend_expedited_def split: if_split_asm)

lemma end_proposal_effect:
  assumes "end_proposal G st Q env k = Inr (st', r)"
  shows "\<exists>p p'. proposal_at st k = Some p \<and> pp_status p = Active \<and> pp_end_block p < time_seconds env \<and>
    (st' = remove_proposal k st \<or>
     st' = save_proposal k p' st \<and> pp_status p' \<in> {Passed, AmendmentDesired, Rejected, Active}) \<and> vg_messages r = []"
proof -
  obtain p p' gone config quorum thresholds p0 where p: "proposal_at st k = Some p" "pp_status p = Active" "pp_end_block p < time_seconds env"
    and d: "decide G config quorum thresholds p0 = Inr (p', gone)"
    and st': "st' = (if gone then remove_proposal k st else save_proposal k p' st)" and r: "vg_messages r = []"
    using assms unfolding end_proposal_def Let_def
    by (elim handlerE, clarsimp simp: map_err_eq_Inr gv_load_ok not_le)
  then show ?thesis using decide_cases[OF d] by auto
qed

lemma execute_proposal_effect:
  assumes "execute_proposal st env k = Inr (st', r)"
  shows "\<exists>p. proposal_at st k = Some p \<and> pp_status p = Passed \<and> pp_delayed_end_block p \<le> time_seconds env \<and>
    time_seconds env \<le> pp_expiration_block p \<and> st' = save_proposal k (p\<lparr>pp_status := Executed\<rparr>) st \<and>
    vg_messages r = (case pp_messages p of Some ms \<Rightarrow> map GovProposed (ordered_messages ms) | None \<Rightarrow> []) @
      [GovSelf (contract_address env) (GovCheckMessagesPassed (Some False)) []]"
  using assms unfolding execute_proposal_def Let_def
  by (auto elim!: rbind_InrE simp: res_ok split: if_split_asm)

lemma remove_completed_effect:
  assumes "remove_completed_proposal st env info k = Inr (st', r)"
  shows "(st' = remove_proposal k st \<or> st' = remove_pending k st) \<and> vg_messages r = []"
  using assms unfolding remove_completed_proposal_def
  by (auto elim!: rbind_InrE case_prod_InrE split: if_split_asm)

text \<open>The other messages leave the proposals alone; a new configuration has been validated.\<close>

fun gov_handles :: "gov_execute_msg \<Rightarrow> bool" where
  "gov_handles (GovSubmitProposal title description link msgs recipient expedited) = True"
| "gov_handles (GovCastVote k v recipient) = True"
| "gov_handles (GovEndProposal k) = True"
| "gov_handles (GovExecuteProposal k) = True"
| "gov_handles (GovRemoveCompletedProposal k) = True"
| "gov_handles m = False"

lemma gov_execute_other:
  assumes "gov_execute G st Q env info m = Inr (st', r)" and "\<not> gov_handles m"
  shows "st' = st \<or> (\<exists>config. st' = st\<lparr>GV_CONFIG := Some config\<rparr> \<and> gov_config_validate config = Inr ())"
proof (cases m)
  case (GovUpdateConfig u)
  then show ?thesis using assms(1) by (auto simp: gv_update_config_def Let_def res_ok elim!: rbind_InrE split: if_split_asm)
qed (use assms in \<open>auto simp: check_messages_def passed_messages_def create_gauge_def add_to_gauge_def freeze_positions_def Let_def
  elim!: rbind_InrE split: if_split_asm\<close>)

lemmas gov_effects = submit_proposal_effect cast_vote_effect end_proposal_effect execute_proposal_effect
  remove_completed_effect

section \<open>The invariant and the life cycle\<close>

lemma gv_invE:
  assumes "gv_inv st"
  obtains c where "GV_PROPOSAL_COUNT st = Some c" "\<And>k. slot_ok c k (proposal_at st k) (pending_at st k)"
  using assms unfolding gv_inv_def by blast

lemma gv_inv_change:
  assumes "gv_inv st" and "GV_PROPOSAL_COUNT st = Some c" and "GV_PROPOSAL_COUNT st' = Some c'" and "c \<le> c'"
    and "GV_CONFIG st' = GV_CONFIG st" and "slot_ok c' k (proposal_at st' k) (pending_at st' k)"
    and "\<And>j. j \<noteq> k \<Longrightarrow> proposal_at st' j = proposal_at st j \<and> pending_at st' j = pending_at st j"
  shows "gv_inv st'"
proof -
  have "slot_ok c' j (proposal_at st' j) (pending_at st' j)" for j
  proof (cases "j = k")
    case False
    have "slot_ok c j (proposal_at st j) (pending_at st j)" using assms(1,2) by (auto simp: gv_inv_def)
    then show ?thesis using assms(4,7) False by (simp add: slot_ok_def)
  qed (use assms(6) in simp)
  then show ?thesis using assms(1,3,5) by (simp add: gv_inv_def)
qed

lemma gv_inv_new:
  assumes "gv_inv st" and "GV_PROPOSAL_COUNT st = Some c" and "pp_status p = Active"
  shows "gv_inv (save_pending (c + 1) p (st\<lparr>GV_PROPOSAL_COUNT := Some (c + 1)\<rparr>))"
    and "gv_inv (save_proposal (c + 1) p (st\<lparr>GV_PROPOSAL_COUNT := Some (c + 1)\<rparr>))"
proof -
  have "slot_ok c (c + 1) (proposal_at st (c + 1)) (pending_at st (c + 1))" using assms(1,2) unfolding gv_inv_def by auto
  then show "gv_inv (save_pending (c + 1) p (st\<lparr>GV_PROPOSAL_COUNT := Some (c + 1)\<rparr>))"
    "gv_inv (save_proposal (c + 1) p (st\<lparr>GV_PROPOSAL_COUNT := Some (c + 1)\<rparr>))"
    by (rule_tac gv_inv_change[OF assms(1,2), of _ "c + 1" "c + 1"]; simp add: slot_ok_def assms(3))+
qed

lemma gv_inv_once: "gv_inv st \<Longrightarrow> proposal_at st k = Some p \<Longrightarrow> pending_at st k = None"
  by (elim gv_invE) (metis slot_ok_def option.distinct(1))

lemma gv_inv_waiting: "gv_inv st \<Longrightarrow> pending_at st k = Some p \<Longrightarrow> proposal_at st k = None \<and> pp_status p = Active"
  by (elim gv_invE) (metis slot_ok_def option.distinct(1))

lemma gv_inv_edit:
  assumes "gv_inv st"
  shows "proposal_at st k = Some p \<Longrightarrow> gv_inv (save_proposal k p' st)"
    and "proposal_at st k = Some p \<or> pending_at st k = Some p \<Longrightarrow> gv_inv (save_proposal k p' (remove_pending k st))"
    and "pending_at st k = Some p \<Longrightarrow> pp_status p' = Active \<Longrightarrow> gv_inv (save_pending k p' st)"
    and "gv_inv (remove_proposal k st)" and "gv_inv (remove_pending k st)"
proof -
  obtain c where c: "GV_PROPOSAL_COUNT st = Some c" and k: "slot_ok c k (proposal_at st k) (pending_at st k)"
    using assms gv_invE by metis
  note change = gv_inv_change[OF assms c, of _ c k]
  show "proposal_at st k = Some p \<Longrightarrow> gv_inv (save_proposal k p' st)"
    by (rule change) (use c k in \<open>simp_all add: slot_ok_def\<close>)
  show "proposal_at st k = Some p \<or> pending_at st k = Some p \<Longrightarrow> gv_inv (save_proposal k p' (remove_pending k st))"
    by (rule change) (use c k in \<open>auto simp: slot_ok_def\<close>)
  show "pending_at st k = Some p \<Longrightarrow> pp_status p' = Active \<Longrightarrow> gv_inv (save_pending k p' st)"
    by (rule change) (use c k in \<open>simp_all add: slot_ok_def\<close>)
  show "gv_inv (remove_proposal k st)" by (rule change) (use c k in \<open>simp_all add: slot_ok_def\<close>)
  show "gv_inv (remove_pending k st)" by (rule change) (use c k in \<open>simp_all add: slot_ok_def\<close>)
qed

lemma gov_execute_inv:
  assumes inv: "gv_inv st" and run: "gov_execute G st Q env info m = Inr (st', r)"
  shows "gv_inv st'"
proof (cases m)
  case (GovSubmitProposal a b c d e f)
  then have "submit_proposal G st Q env info a b c d e f = Inr (st', r)" using run by simp
  then show ?thesis using submit_proposal_effect gv_inv_new[OF inv] by blast
next
  case (GovCastVote k v u)
  then have "cast_vote G st Q env info k v u = Inr (st', r)" using run by simp
  then obtain p p' where s: "pp_status p' = pp_status p"
    and e: "(proposal_at st k = Some p \<and> (st' = save_proposal k p' st \<or> st' = save_proposal k p' (remove_pending k st))) \<or>
     (proposal_at st k = None \<and> pending_at st k = Some p \<and>
       (st' = save_pending k p' st \<or> st' = save_proposal k p' (remove_pending k st)))"
    using cast_vote_effect by blast
  have "pending_at st k = Some p \<Longrightarrow> pp_status p' = Active" using gv_inv_waiting[OF inv] s by simp
  then show ?thesis using e gv_inv_edit(1-3)[OF inv, of k p p'] by blast
next
  case (GovEndProposal k)
  then have "end_proposal G st Q env k = Inr (st', r)" using run by simp
  from end_proposal_effect[OF this] show ?thesis using gv_inv_edit[OF inv] by blast
next
  case (GovExecuteProposal k)
  then have "execute_proposal st env k = Inr (st', r)" using run by simp
  from execute_proposal_effect[OF this] show ?thesis using gv_inv_edit[OF inv] by blast
next
  case (GovRemoveCompletedProposal k)
  then have "remove_completed_proposal st env info k = Inr (st', r)" using run by simp
  from remove_completed_effect[OF this] show ?thesis using gv_inv_edit[OF inv] by blast
qed (use gov_execute_other[OF run] inv in \<open>auto simp: gv_inv_def\<close>)

text \<open>One message moves a proposal at most one step.\<close>

lemma phase_of_new:
  assumes "gv_inv st" and "GV_PROPOSAL_COUNT st = Some c" and "pp_status p = Active"
    and "st' = save_pending (c + 1) p (st\<lparr>GV_PROPOSAL_COUNT := Some (c + 1)\<rparr>) \<or>
      st' = save_proposal (c + 1) p (st\<lparr>GV_PROPOSAL_COUNT := Some (c + 1)\<rparr>)"
  shows "phase_of st' j = phase_of st j \<or> life (phase_of st j) (phase_of st' j)"
proof -
  have "slot_ok c (c + 1) (proposal_at st (c + 1)) (pending_at st (c + 1))" using assms(1,2) unfolding gv_inv_def by auto
  then have "phase_of st (c + 1) = Unused" using assms(2) by (simp add: phase_of_def slot_ok_def)
  moreover have "phase_of st' (c + 1) = Waiting \<or> phase_of st' (c + 1) = Stored Active"
    using assms(3,4) \<open>slot_ok c (c + 1) _ _\<close> by (auto simp: phase_of_def slot_ok_def)
  moreover have "phase_of st' j = phase_of st j" if "j \<noteq> c + 1"
    using assms(2,4) that by (auto simp: phase_of_def cong: option.case_cong)
  ultimately show ?thesis using life.intros by metis
qed

lemma phase_of_edit:
  assumes "gv_inv st"
  shows "phase_of (save_proposal k p' st) j = (if j = k then Stored (pp_status p') else phase_of st j)"
    and "phase_of (save_proposal k p' (remove_pending k st)) j = (if j = k then Stored (pp_status p') else phase_of st j)"
    and "pending_at st k = Some p \<Longrightarrow> phase_of (save_pending k p' st) j = phase_of st j"
    and "proposal_at st k = Some p \<Longrightarrow> phase_of (remove_proposal k st) j = (if j = k then Gone else phase_of st j)"
    and "proposal_at st k = None \<Longrightarrow> phase_of (remove_proposal k st) j = phase_of st j"
    and "pending_at st k = Some p \<Longrightarrow> phase_of (remove_pending k st) j = (if j = k then Gone else phase_of st j)"
    and "pending_at st k = None \<Longrightarrow> phase_of (remove_pending k st) j = phase_of st j"
proof -
  obtain c where c: "GV_PROPOSAL_COUNT st = Some c" and slots: "\<And>k. slot_ok c k (proposal_at st k) (pending_at st k)"
    using gv_invE[OF assms] by metis
  have old: "proposal_at st k = Some p \<Longrightarrow> k \<le> c" "pending_at st k = Some p \<Longrightarrow> k \<le> c" for k p
    using slots[of k] by (cases "c < k"; simp add: slot_ok_def)+
  note one = gv_inv_once[OF assms] gv_inv_waiting[OF assms, THEN conjunct1]
  show "phase_of (save_proposal k p' st) j = (if j = k then Stored (pp_status p') else phase_of st j)"
    "phase_of (save_proposal k p' (remove_pending k st)) j = (if j = k then Stored (pp_status p') else phase_of st j)"
    "pending_at st k = Some p \<Longrightarrow> phase_of (save_pending k p' st) j = phase_of st j"
    "proposal_at st k = Some p \<Longrightarrow> phase_of (remove_proposal k st) j = (if j = k then Gone else phase_of st j)"
    "proposal_at st k = None \<Longrightarrow> phase_of (remove_proposal k st) j = phase_of st j"
    "pending_at st k = Some p \<Longrightarrow> phase_of (remove_pending k st) j = (if j = k then Gone else phase_of st j)"
    "pending_at st k = None \<Longrightarrow> phase_of (remove_pending k st) j = phase_of st j"
    by (auto simp: phase_of_def c(1) old dest: one split: option.split)
qed

lemma phase_of_config: "phase_of (st\<lparr>GV_CONFIG := c\<rparr>) j = phase_of st j"
  by (simp add: phase_of_def cong: option.case_cong)

lemma gov_execute_life:
  assumes inv: "gv_inv st" and run: "gov_execute G st Q env info m = Inr (st', r)"
  shows "phase_of st' j = phase_of st j \<or> life (phase_of st j) (phase_of st' j)"
proof (cases m)
  case (GovSubmitProposal a b c d e f)
  then have "submit_proposal G st Q env info a b c d e f = Inr (st', r)" using run by simp
  from submit_proposal_effect[OF this] show ?thesis using phase_of_new[OF inv] by blast
next
  case (GovCastVote k v u)
  then have "cast_vote G st Q env info k v u = Inr (st', r)" using run by simp
  then obtain p p' where s: "pp_status p' = pp_status p"
    and e: "(proposal_at st k = Some p \<and> (st' = save_proposal k p' st \<or> st' = save_proposal k p' (remove_pending k st))) \<or>
     (proposal_at st k = None \<and> pending_at st k = Some p \<and>
       (st' = save_pending k p' st \<or> st' = save_proposal k p' (remove_pending k st)))"
    using cast_vote_effect by blast
  have "phase_of st k = Stored (pp_status p)" if "proposal_at st k = Some p" using that by (simp add: phase_of_def)
  moreover have "phase_of st k = Waiting \<and> pp_status p = Active" if "proposal_at st k = None" "pending_at st k = Some p"
    using that gv_inv_waiting[OF inv] by (simp add: phase_of_def)
  ultimately show ?thesis using e s phase_of_edit[OF inv] life.aligned by (metis (full_types))
next
  case (GovEndProposal k)
  then have "end_proposal G st Q env k = Inr (st', r)" using run by simp
  then obtain p p' where p: "proposal_at st k = Some p" "pp_status p = Active"
    and st': "st' = remove_proposal k st \<or>
      st' = save_proposal k p' st \<and> pp_status p' \<in> {Passed, AmendmentDesired, Rejected, Active}"
    using end_proposal_effect by blast
  have "phase_of st k = Stored Active" using p by (simp add: phase_of_def)
  then show ?thesis using st' by (auto simp: phase_of_edit(1)[OF inv] phase_of_edit(4)[OF inv p(1)] life.intros)
next
  case (GovExecuteProposal k)
  then have "execute_proposal st env k = Inr (st', r)" using run by simp
  then obtain p where p: "proposal_at st k = Some p" "pp_status p = Passed"
    and st': "st' = save_proposal k (p\<lparr>pp_status := Executed\<rparr>) st" using execute_proposal_effect by blast
  have "phase_of st k = Stored Passed" using p by (simp add: phase_of_def)
  then show ?thesis using st' by (auto simp: phase_of_edit(1)[OF inv] life.intros)
next
  case (GovRemoveCompletedProposal k)
  then have "remove_completed_proposal st env info k = Inr (st', r)" using run by simp
  then have st': "st' = remove_proposal k st \<or> st' = remove_pending k st" using remove_completed_effect by blast
  show ?thesis
  proof (cases "proposal_at st k")
    case (Some p)
    then have "pending_at st k = None" "phase_of st k = Stored (pp_status p)" using gv_inv_once[OF inv]
      by (auto simp: phase_of_def)
    then show ?thesis using st' phase_of_edit[OF inv] Some life.removed by metis
  next
    case None
    show ?thesis
    proof (cases "pending_at st k")
      case (Some p)
      then have "phase_of st k = Waiting" using None by (simp add: phase_of_def)
      then show ?thesis using st' phase_of_edit[OF inv] Some None life.dropped by metis
    qed (use st' phase_of_edit[OF inv] None in metis)
  qed
qed (use gov_execute_other[OF run] in \<open>auto simp: phase_of_config\<close>)

section \<open>Runs\<close>

record gv_event =
  gv_querier :: gov_querier
  gv_env :: Env
  gv_info :: MessageInfo
  gv_msg :: gov_execute_msg

definition gv_step :: "gov_lib \<Rightarrow> gv_event \<Rightarrow> gov_storage \<Rightarrow> (gov_storage \<times> gov_response) gov_result" where
  "gv_step G e st = gov_execute G st (gv_querier e) (gv_env e) (gv_info e) (gv_msg e)"

interpretation gv: transactions "gv_step G" gv_inv for G
  by unfold_locales (simp add: gv_step_def gov_execute_inv)

lemma gov_instantiate_inv:
  assumes "gov_instantiate G st0 Q env msg = Inr (st, r)" and "GV_PROPOSALS st0 = []" and "GV_PENDING_PROPOSALS st0 = []"
  shows "gv_inv st"
  using assms unfolding gov_instantiate_def Let_def
  by (auto simp: gv_inv_def slot_ok_def res_ok elim!: rbind_InrE)

lemma run_life:
  assumes "gv_inv st"
  shows "life\<^sup>*\<^sup>* (phase_of st k) (phase_of (gv.run G es st) k)"
  using assms
proof (induction es arbitrary: st)
  case Nil
  then show ?case by simp
next
  case (Cons e es)
  show ?case
  proof (cases "gv_step G e st")
    case (Inr x)
    obtain st' r where x: "x = (st', r)" by (cases x)
    have "gv_inv st'" using gv.exec_inv Cons.prems Inr x by blast
    moreover have "life\<^sup>*\<^sup>* (phase_of st k) (phase_of st' k)"
      using gov_execute_life[OF Cons.prems] Inr x unfolding gv_step_def by (metis r_into_rtranclp rtranclp.rtrancl_refl)
    ultimately show ?thesis using Cons.IH[of st'] Inr x by simp
  qed (use Cons in simp)
qed

text \<open>How often a run executes a proposal.\<close>

fun executions :: "gov_lib \<Rightarrow> u64 \<Rightarrow> gv_event list \<Rightarrow> gov_storage \<Rightarrow> nat" where
  "executions G k [] st = 0"
| "executions G k (e # es) st =
     (case gv_step G e st of
        Inl _ \<Rightarrow> executions G k es st
      | Inr (st', _) \<Rightarrow> (if gv_msg e = GovExecuteProposal k then 1 else 0) + executions G k es st')"

lemma executions_le:
  assumes "gv_inv st"
  shows "executions G k es st \<le> (if phase_of st k \<in> {Stored Executed, Gone} then 0 else 1)"
  using assms
proof (induction es arbitrary: st)
  case Nil
  then show ?case by simp
next
  case (Cons e es)
  show ?case
  proof (cases "gv_step G e st")
    case (Inr x)
    obtain st' r where x: "x = (st', r)" by (cases x)
    have run: "gov_execute G st (gv_querier e) (gv_env e) (gv_info e) (gv_msg e) = Inr (st', r)"
      using Inr x by (simp add: gv_step_def)
    have later: "executions G k es st' \<le> (if phase_of st' k \<in> {Stored Executed, Gone} then 0 else 1)"
      by (rule Cons.IH[OF gov_execute_inv[OF Cons.prems run]])
    have moves: "phase_of st' k = phase_of st k \<or> life (phase_of st k) (phase_of st' k)"
      by (rule gov_execute_life[OF Cons.prems run])
    have ex: "phase_of st k = Stored Passed \<and> phase_of st' k = Stored Executed" if m: "gv_msg e = GovExecuteProposal k"
    proof -
      obtain p where "proposal_at st k = Some p" "pp_status p = Passed" "st' = save_proposal k (p\<lparr>pp_status := Executed\<rparr>) st"
        using execute_proposal_effect[of st "gv_env e" k st' r] run m by auto
      then show ?thesis by (simp add: phase_of_def)
    qed
    show ?thesis using later moves ex Inr x by (auto split: if_split_asm)
  qed (use Cons in simp)
qed

text \<open>Proposed messages leave the contract from an executed proposal, or as a check that ends in clearing the admin.\<close>

lemma proposed_messages_from:
  assumes "gov_execute G st Q env info m = Inr (st', r)" and "GovProposed x \<in> set (vg_messages r)"
  shows "(\<exists>k. m = GovExecuteProposal k) \<or> (\<exists>msgs switch. m = GovCheckMessages msgs switch \<and>
    last (vg_messages r) = GovSelf (contract_address env) (GovCheckMessagesPassed (Some True)) [])"
proof (cases m)
  case (GovUpdateConfig u)
  then show ?thesis using assms by (auto simp: gv_update_config_def Let_def elim!: rbind_InrE split: if_split_asm)
qed (use assms in \<open>auto simp: check_messages_def passed_messages_def create_gauge_def add_to_gauge_def freeze_positions_def
    freeze_basket_msg_def Let_def elim!: rbind_InrE dest!: gov_effects split: if_split_asm\<close>)

section \<open>How often a proposal is ended\<close>

text \<open>A message leaves every proposal as it is in the store of proposals but the one it names and a new one.\<close>

fun concerns :: "gov_execute_msg \<Rightarrow> u64 \<Rightarrow> bool" where
  "concerns (GovCastVote k v recipient) j \<longleftrightarrow> j = k"
| "concerns (GovEndProposal k) j \<longleftrightarrow> j = k"
| "concerns (GovExecuteProposal k) j \<longleftrightarrow> j = k"
| "concerns (GovRemoveCompletedProposal k) j \<longleftrightarrow> j = k"
| "concerns m j \<longleftrightarrow> False"

lemma gov_execute_frame:
  assumes inv: "gv_inv st" and run: "gov_execute G st Q env info m = Inr (st', r)"
    and p: "proposal_at st j = Some p" and m: "\<not> concerns m j"
  shows "proposal_at st' j = Some p"
proof (cases m)
  case (GovSubmitProposal a b c d e f)
  obtain n where n: "GV_PROPOSAL_COUNT st = Some n" "j \<noteq> n + 1"
    using inv p by (elim gv_invE) (metis slot_ok_def option.distinct(1) less_add_one)
  have "submit_proposal G st Q env info a b c d e f = Inr (st', r)" using run GovSubmitProposal by simp
  then show ?thesis using submit_proposal_effect n p by fastforce
next
  case (GovCastVote k v u)
  then have "cast_vote G st Q env info k v u = Inr (st', r)" using run by simp
  then show ?thesis using cast_vote_effect m p GovCastVote by fastforce
next
  case (GovEndProposal k)
  then have "end_proposal G st Q env k = Inr (st', r)" using run by simp
  then show ?thesis using end_proposal_effect m p GovEndProposal by fastforce
next
  case (GovExecuteProposal k)
  then have "execute_proposal st env k = Inr (st', r)" using run by simp
  then show ?thesis using execute_proposal_effect m p GovExecuteProposal by fastforce
next
  case (GovRemoveCompletedProposal k)
  then have "remove_completed_proposal st env info k = Inr (st', r)" using run by simp
  then show ?thesis using remove_completed_effect m p GovRemoveCompletedProposal by fastforce
qed (use gov_execute_other[OF run] p in auto)

text \<open>The length of the time in which a proposal is open for votes, which only an extension changes.\<close>

abbreviation window :: "Proposal \<Rightarrow> u64" where "window p \<equiv> pp_end_block p - pp_start_time p"

abbreviation voting_window :: "gov_config \<Rightarrow> u64" where "voting_window c \<equiv> gc_proposal_voting_period c * 6"

lemma remove_previous_vote_dates:
  "remove_previous_vote u vp p = Inr p' \<Longrightarrow> pp_start_time p' = pp_start_time p \<and> pp_end_block p' = pp_end_block p"
  unfolding remove_previous_vote_def Let_def by (auto elim!: rbind_InrE split: option.splits)

lemma count_vote_dates:
  "count_vote G config u v pending vp p = Inr (p', n) \<Longrightarrow> pp_start_time p' = pp_start_time p \<and> pp_end_block p' = pp_end_block p"
  unfolding count_vote_def align_def Let_def
  by (auto elim!: rbind_InrE split: if_split_asm ProposalVoteOption.splits)

lemma quorum_of_dates:
  "quorum_of G config n t p = Inr (p', q) \<Longrightarrow> pp_start_time p' = pp_start_time p \<and> pp_end_block p' = pp_end_block p \<and>
     pp_delayed_end_block p' = pp_delayed_end_block p \<and> pp_expiration_block p' = pp_expiration_block p \<and>
     pp_messages p' = pp_messages p"
  unfolding quorum_of_def by (auto elim!: rbind_InrE split: if_split_asm)

lemma decide_dates:
  assumes "decide G config quorum thresholds p = Inr (p', gone)"
  shows "pp_start_time p' = pp_start_time p \<and> pp_delayed_end_block p' = pp_delayed_end_block p \<and>
     pp_expiration_block p' = pp_expiration_block p \<and> pp_messages p' = pp_messages p \<and>
     (pp_status p' = Active \<longrightarrow> window p = gc_expedited_proposal_voting_period config * 6 \<and>
       pp_end_block p' = pp_start_time p + voting_window config)"
  using assms unfolding decide_def Let_def
  by (auto elim!: rbind_InrE case_prod_InrE simp: extend_expedited_def seconds_of_blocks_def int_ok split: if_split_asm)

text \<open>Ending a proposal keeps its dates, except that an extension moves the end.\<close>

lemma end_proposal_dates:
  assumes "end_proposal G st Q env k = Inr (st', r)" and "proposal_at st' k = Some p'" and "GV_CONFIG st = Some config"
  shows "\<exists>p. proposal_at st k = Some p \<and> pp_status p = Active \<and> pp_end_block p < time_seconds env \<and> 
    pp_start_time p' = pp_start_time p \<and> pp_delayed_end_block p' = pp_delayed_end_block p \<and>
    pp_expiration_block p' = pp_expiration_block p \<and> pp_messages p' = pp_messages p \<and>
    (pp_status p' = Active \<longrightarrow> window p = gc_expedited_proposal_voting_period config * 6 \<and>
      pp_end_block p' = pp_start_time p + voting_window config)"
proof -
  obtain p pq t quorum thresholds p2 gone n where p: "proposal_at st k = Some p" "pp_status p = Active" "pp_end_block p < time_seconds env"
    and q: "quorum_of G config n t p = Inr (pq, quorum)" and d: "decide G config quorum thresholds pq = Inr (p2, gone)"
    and st': "st' = (if gone then remove_proposal k st else save_proposal k p2 st)"
    using assms(1,3) unfolding end_proposal_def Let_def
    by (elim handlerE, clarsimp simp: map_err_eq_Inr gv_load_ok not_le)
  have "p2 = p'" using st' assms(2) by (auto split: if_split_asm)
  then show ?thesis using p quorum_of_dates[OF q] decide_dates[OF d] by auto
qed

lemma cast_vote_steps:
  assumes "cast_vote G st Q env info k v recipient = Inr (st', r)" and "proposal_at st k = Some p"
  obtains config n b p2 p' vp where "GV_CONFIG st = Some config"
    and "calc_voting_power G st Q None (sender info) (pp_start_time p) False recipient (gc_quadratic_voting config) = Inr (n, b)"
    and "remove_previous_vote (sender info) n p = Inr p2" and "count_vote G config (sender info) v False n p2 = Inr (p', vp)"
    and "st' = (if v = VoteAlign \<and> gc_proposal_required_stake config \<le> pp_aligned_power p'
       then save_proposal k p' (remove_pending k st) else save_proposal k p' st)"
  using assms unfolding cast_vote_def Let_def
  by (elim handlerE, clarsimp simp: map_err_eq_Inr gv_load_ok)

lemma cast_vote_dates:
  assumes "cast_vote G st Q env info k v recipient = Inr (st', r)" and "proposal_at st k = Some p"
  shows "\<exists>p'. proposal_at st' k = Some p' \<and> pp_status p' = pp_status p \<and> pp_start_time p' = pp_start_time p \<and>
    pp_end_block p' = pp_end_block p"
proof -
  obtain config n b p2 p' vp where rest: "remove_previous_vote (sender info) n p = Inr p2"
      "count_vote G config (sender info) v False n p2 = Inr (p', vp)"
      "st' = (if v = VoteAlign \<and> gc_proposal_required_stake config \<le> pp_aligned_power p'
         then save_proposal k p' (remove_pending k st) else save_proposal k p' st)"
    by (rule cast_vote_steps[OF assms])
  then have "proposal_at st' k = Some p'" by simp
  then show ?thesis using remove_previous_vote_status[OF rest(1)] count_vote_status[OF rest(2)]
    remove_previous_vote_dates[OF rest(1)] count_vote_dates[OF rest(2)] by auto
qed

fun updates_config :: "gov_execute_msg \<Rightarrow> bool" where
  "updates_config (GovUpdateConfig u) = True"
| "updates_config m = False"

lemma gov_execute_config:
  assumes "gov_execute G st Q env info m = Inr (st', r)" and "\<not> updates_config m"
  shows "GV_CONFIG st' = GV_CONFIG st"
proof (cases m)
  case (GovUpdateConfig u)
  then show ?thesis using assms(2) by simp
qed (use assms in \<open>auto simp: check_messages_def passed_messages_def create_gauge_def add_to_gauge_def freeze_positions_def Let_def
  elim!: rbind_InrE dest!: gov_effects split: if_split_asm\<close>)

fun endings :: "gov_lib \<Rightarrow> u64 \<Rightarrow> gv_event list \<Rightarrow> gov_storage \<Rightarrow> nat" where
  "endings G k [] st = 0"
| "endings G k (e # es) st =
     (case gv_step G e st of
        Inl _ \<Rightarrow> endings G k es st
      | Inr (st', _) \<Rightarrow> (if gv_msg e = GovEndProposal k then 1 else 0) + endings G k es st')"

definition ends_left :: "gov_config \<Rightarrow> gov_storage \<Rightarrow> u64 \<Rightarrow> nat" where
  "ends_left config st k =
     (case proposal_at st k of
        Some p \<Rightarrow> if pp_status p \<noteq> Active then 0 else if window p = voting_window config then 1 else 2
      | None \<Rightarrow> if phase_of st k = Gone then 0 else 2)"

lemma ends_left_le: "ends_left config st k \<le> 2"
  by (simp add: ends_left_def split: option.split)

lemma phase_gone_none: "phase_of st k = Gone \<Longrightarrow> proposal_at st k = None"
  by (simp add: phase_of_def split: option.splits)

lemma ends_left_step:
  assumes inv: "gv_inv st" and run: "gov_execute G st Q env info m = Inr (st', r)" and c: "GV_CONFIG st = Some config"
    and differ: "gc_proposal_voting_period config \<noteq> gc_expedited_proposal_voting_period config"
  shows "(if m = GovEndProposal k then 1 else 0) + ends_left config st' k \<le> ends_left config st k"
proof (cases "m = GovEndProposal k")
  case True
  then have "end_proposal G st Q env k = Inr (st', r)" using run by simp
  note e = end_proposal_effect[OF this] end_proposal_dates[OF this _ c]
  obtain p where p: "proposal_at st k = Some p" "pp_status p = Active" using e(1) by blast
  show ?thesis
  proof (cases "proposal_at st' k")
    case None
    then have "st' = remove_proposal k st" using e(1) by auto
    then have "phase_of st' k = Gone" using phase_of_edit(4)[OF inv p(1)] by simp
    then show ?thesis using True None p by (simp add: ends_left_def)
  next
    case (Some p')
    then show ?thesis using True p e(2)[OF Some] differ by (auto simp: ends_left_def)
  qed
next
  case False
  show ?thesis
  proof (cases "proposal_at st k")
    case None
    have "ends_left config st' k = 0" if "phase_of st k = Gone"
    proof -
      have "phase_of st' k = Gone" using gov_execute_life[OF inv run, of k] that by simp
      then show ?thesis using phase_gone_none by (simp add: ends_left_def)
    qed
    then show ?thesis using False None ends_left_le[of config st' k] by (auto simp: ends_left_def)
  next
    case (Some p)
    have moves: "phase_of st' k = Stored (pp_status p) \<or> life (Stored (pp_status p)) (phase_of st' k)"
      using gov_execute_life[OF inv run, of k] Some by (simp add: phase_of_def)
    show ?thesis
    proof (cases "pp_status p = Active \<and> proposal_at st' k \<noteq> None")
      case True
      have "\<exists>p'. proposal_at st' k = Some p' \<and> (pp_status p' = Active \<longrightarrow> window p' = window p)"
      proof (cases "concerns m k")
        case concerned: True
        then consider v u where "m = GovCastVote k v u" | "m = GovExecuteProposal k" | "m = GovRemoveCompletedProposal k"
          using False by (cases m) auto
        then show ?thesis
        proof cases
          case 1
          then show ?thesis using run cast_vote_dates[OF _ Some] by fastforce
        next
          case 2
          then show ?thesis using run Some True by (auto dest!: execute_proposal_effect)
        next
          case 3
          then show ?thesis using run Some True by (auto dest!: remove_completed_effect)
        qed
      qed (use gov_execute_frame[OF inv run Some] in auto)
      then show ?thesis using False Some True by (auto simp: ends_left_def)
    next
      case dead: False
      show ?thesis
      proof (cases "proposal_at st' k")
        case None
        then have "phase_of st' k = Gone \<or> phase_of st' k = Unused \<or> phase_of st' k = Waiting"
          by (simp add: phase_of_def split: option.split)
        then have "phase_of st' k = Gone" using moves by (auto elim: lifeE)
        then show ?thesis using False None by (simp add: ends_left_def)
      next
        case (Some p')
        then have "phase_of st' k = Stored (pp_status p')" by (simp add: phase_of_def)
        then have "pp_status p' \<noteq> Active" using moves dead Some by (auto elim: lifeE)
        then show ?thesis using False Some by (simp add: ends_left_def)
      qed
    qed
  qed
qed

lemma endings_le:
  assumes "gv_inv st" and "GV_CONFIG st = Some config" and "\<forall>e\<in>set es. \<not> updates_config (gv_msg e)"
    and "gc_proposal_voting_period config \<noteq> gc_expedited_proposal_voting_period config"
  shows "endings G k es st \<le> ends_left config st k"
  using assms
proof (induction es arbitrary: st)
  case Nil
  then show ?case by simp
next
  case (Cons e es)
  show ?case
  proof (cases "gv_step G e st")
    case (Inr x)
    obtain st' r where x: "x = (st', r)" by (cases x)
    have run: "gov_execute G st (gv_querier e) (gv_env e) (gv_info e) (gv_msg e) = Inr (st', r)"
      using Inr x by (simp add: gv_step_def)
    have "GV_CONFIG st' = Some config" using gov_execute_config[OF run] Cons.prems by simp
    then have "endings G k es st' \<le> ends_left config st' k"
      using Cons.IH[OF gov_execute_inv[OF Cons.prems(1) run]] Cons.prems by simp
    then show ?thesis using ends_left_step[OF Cons.prems(1) run Cons.prems(2,4), of k] Inr x by simp
  qed (use Cons in simp)
qed

end
