(* ===== verification/Gov_Properties.thy ===== *)
theory Gov_Properties
  imports Gov_Facts Liq_Demo
begin

text \<open>
  Governance: the properties of the contract, over single messages and over runs, each with its application to a
  concrete configuration or proposal.
\<close>

section \<open>A concrete contract\<close>

text \<open>A square root of decimals: the integer square root of the atomics, rounded down.\<close>

fun isqrt :: "nat \<Rightarrow> nat" where
  "isqrt n = (if n = 0 then 0 else
     let s = 2 * isqrt (n div 4) in if (s + 1) * (s + 1) \<le> n then s + 1 else s)"

declare isqrt.simps [simp del]

lemma isqrt_bounds: "isqrt n * isqrt n \<le> n \<and> n < (isqrt n + 1) * (isqrt n + 1)"
proof (induction n rule: isqrt.induct)
  case (1 n)
  show ?case
  proof (cases "n = 0")
    case False
    let ?q = "isqrt (n div 4)"
    have q: "?q * ?q \<le> n div 4" "n div 4 < (?q + 1) * (?q + 1)" using 1 False by blast+
    have "(2 * ?q) * (2 * ?q) \<le> n" "n < (2 * ?q + 2) * (2 * ?q + 2)" using q by (simp_all add: algebra_simps) linarith+
    then show ?thesis using False by (subst (1 2 3 4) isqrt.simps) (simp add: Let_def not_le)
  qed (simp add: isqrt.simps)
qed

lemma isqrt_eq:
  assumes "s * s \<le> n" and "n < (s + 1) * (s + 1)"
  shows "isqrt n = s"
proof (rule ccontr)
  assume "isqrt n \<noteq> s"
  then consider "s + 1 \<le> isqrt n" | "isqrt n + 1 \<le> s" by linarith
  then show False
  proof cases
    case 1
    then show ?thesis using mult_le_mono[OF 1 1] assms isqrt_bounds[of n] by linarith
  next
    case 2
    then show ?thesis using mult_le_mono[OF 2 2] assms isqrt_bounds[of n] by linarith
  qed
qed

definition gov_demo_lib :: gov_lib where
  "gov_demo_lib = \<lparr>gl_chain = demo_lib, gl_sqrt = (\<lambda>d. isqrt (d * DECIMAL_FRACTIONAL))\<rparr>"

lemma gov_demo_sqrt_ok: "sqrt_ok (gl_sqrt gov_demo_lib)"
  using isqrt_bounds by (simp add: sqrt_ok_def gov_demo_lib_def)

definition gov_demo_config :: "bool \<Rightarrow> gov_config" where
  "gov_demo_config quadratic = \<lparr>gc_mbrn_denom = ''mbrn'', gc_minimum_total_stake = 1000000000000,
     gc_staking_contract_addr = ''staking'', gc_vesting_contract_addr = ''vesting'',
     gc_vesting_voting_power_multiplier = 500000000000000000, gc_proposal_voting_period = 100800,
     gc_expedited_proposal_voting_period = 43200, gc_proposal_effective_delay = 14400,
     gc_proposal_expiration_period = 201600, gc_proposal_required_stake = 1000000000,
     gc_proposal_required_quorum = 330000000000000000, gc_proposal_required_threshold = 510000000000000000,
     gc_whitelisted_links = [], gc_quadratic_voting = quadratic\<rparr>"

text \<open>Proposal 2 started at time 100, expedited, supported by carol and bob.\<close>

definition gov_demo_proposal :: "uint128 \<Rightarrow> u64 \<Rightarrow> ProposalStatus \<Rightarrow> Proposal" where
  "gov_demo_proposal for_power end_block status = \<lparr>pp_voting_power = [], pp_proposal_id = 2, pp_submitter = ''carol'',
     pp_status = status, pp_aligned_power = 1000000000, pp_for_power = for_power, pp_against_power = 0,
     pp_amendment_power = 0, pp_removal_power = 0, pp_aligned_voters = [''carol'', ''bob''], pp_for_voters = [],
     pp_against_voters = [], pp_amendment_voters = [], pp_removal_voters = [], pp_start_block = 0, pp_start_time = 100,
     pp_end_block = end_block, pp_delayed_end_block = 345700, pp_expiration_block = 1555300, pp_title = ''title'',
     pp_description = ''text'', pp_link = None,
     pp_messages = Some [\<lparr>pm_order = 2, pm_msg = ''b''\<rparr>, \<lparr>pm_order = 0, pm_msg = ''a''\<rparr>]\<rparr>"

definition gov_demo_st :: "bool \<Rightarrow> Proposal \<Rightarrow> gov_storage" where
  "gov_demo_st quadratic p = save_proposal 2 p \<lparr>GV_CONFIG = Some (gov_demo_config quadratic), GV_PROPOSAL_COUNT = Some 2,
     GV_PROPOSALS = [], GV_PENDING_PROPOSALS = [], GV_CONTRACT = None\<rparr>"

definition gov_demo_querier :: "OldStakeDeposit list \<Rightarrow> gov_querier" where
  "gov_demo_querier stake = \<lparr>gq_mbrn_denom = (\<lambda>_. Inr ''mbrn''),
     gq_totals_raw = (\<lambda>_. Inr \<lparr>to_stakers = 2000000000000, to_vesting_contract = 0\<rparr>),
     gq_total_staked = (\<lambda>_. Inl OverflowErr),
     gq_user_stake = (\<lambda>_ u. Inr \<lparr>sr_staker = u, sr_total_staked = 100, sr_deposit_list = stake\<rparr>),
     gq_staked = (\<lambda>_ _ _ _ _. Inr stake), gq_delegations = (\<lambda>_ _ _ _ _. Inr []),
     gq_recipients = (\<lambda>_. Inr []), gq_allocation = (\<lambda>_ _. Inl OverflowErr), gq_basket_raw = (\<lambda>_. Inl Panic),
     gq_basket = (\<lambda>_. Inl OverflowErr), gq_balance = (\<lambda>_ _. Inl OverflowErr), gq_debt_minimum = (\<lambda>_. Inr 2000),
     gq_minimum_bid = (\<lambda>_. Inr 10), gq_current_bid_id = (\<lambda>_ _. Inr 2), gq_own_config = (\<lambda>_. Inl OverflowErr)\<rparr>"

definition gov_demo_msg :: gov_instantiate_msg where
  "gov_demo_msg = \<lparr>gi_mbrn_staking_contract_addr = ''staking'', gi_vesting_contract_addr = ''vesting'',
     gi_vesting_voting_power_multiplier = 500000000000000000, gi_proposal_voting_period = 100800,
     gi_expedited_proposal_voting_period = 43200, gi_proposal_effective_delay = 14400,
     gi_proposal_expiration_period = 201600, gi_proposal_required_stake = 1000000000,
     gi_proposal_required_quorum = ''1'', gi_proposal_required_threshold = ''1'', gi_whitelisted_links = []\<rparr>"

definition gov_empty :: gov_storage where
  "gov_empty = \<lparr>GV_CONFIG = None, GV_PROPOSAL_COUNT = None, GV_PROPOSALS = [], GV_PENDING_PROPOSALS = [], GV_CONTRACT = None\<rparr>"

lemma decimal_of_one: "lib_decimal_from_str demo_lib ''1'' = Some DECIMAL_FRACTIONAL"
  by (simp add: demo_lib_def d256_from_str_def std_text_def parse_dec_def is_digit_def digits_val_def digit_val_def u256_mul_def
      U256_BOUND_def DECIMAL_FRACTIONAL_def)

definition gov_started :: gov_storage where
  "gov_started = gov_empty\<lparr>GV_CONTRACT := Some (''mbrn-governance'', ''1.0.0''),
     GV_CONFIG := Some ((gov_demo_config True)\<lparr>gc_proposal_required_quorum := DECIMAL_FRACTIONAL,
       gc_proposal_required_threshold := DECIMAL_FRACTIONAL\<rparr>), GV_PROPOSAL_COUNT := Some 0\<rparr>"

lemma gov_demo_starts:
  "\<exists>r. gov_instantiate gov_demo_lib gov_empty (gov_demo_querier []) (demo_env 1000) gov_demo_msg = Inr (gov_started, r)"
proof -
  have validate: "lib_addr_validate demo_lib a = Inr a" "lib_version demo_lib = ''1.0.0''" for a by (simp_all add: demo_lib_def)
  show ?thesis
    by (simp add: gov_instantiate_def gov_demo_msg_def gov_demo_lib_def gov_demo_querier_def answered_def validate
        gov_decimal_from_str_def decimal_of_one gov_config_validate_def in_delay_interval_def
        in_expiration_period_interval_def in_voting_period_interval_def in_stake_interval_def BLOCKS_PER_DAY_def
        dec_percent_def DECIMAL_FRACTIONAL_def gov_started_def gov_demo_config_def Let_def)
qed

lemma gov_empty_stores: "GV_PROPOSALS gov_empty = []" "GV_PENDING_PROPOSALS gov_empty = []"
  by (simp_all add: gov_empty_def)

section \<open>Runs\<close>

text \<open>
  C4. In every run of messages after the contract was set up, each proposal follows its life cycle: from waiting
  to active, from active to passed, amended or rejected, from passed to executed, and a removed one never returns.
\<close>

theorem proposals_follow_their_life:
  assumes "gov_instantiate G st0 Q env msg = Inr (st, r)" and "GV_PROPOSALS st0 = []" and "GV_PENDING_PROPOSALS st0 = []"
  shows "life\<^sup>*\<^sup>* (phase_of (gv.run G es st) k) (phase_of (gv.run G later (gv.run G es st)) k)"
  by (rule run_life[OF gv.run_inv[OF gov_instantiate_inv[OF assms]]])

theorem proposals_follow_their_life_witness:
  "\<exists>r. gov_instantiate gov_demo_lib gov_empty (gov_demo_querier []) (demo_env 1000) gov_demo_msg = Inr (gov_started, r) \<and>
     (\<forall>es later k. life\<^sup>*\<^sup>* (phase_of (gv.run gov_demo_lib es gov_started) k)
        (phase_of (gv.run gov_demo_lib later (gv.run gov_demo_lib es gov_started)) k))"
proof -
  obtain r where r: "gov_instantiate gov_demo_lib gov_empty (gov_demo_querier []) (demo_env 1000) gov_demo_msg = Inr (gov_started, r)"
    using gov_demo_starts by blast
  show ?thesis using r proposals_follow_their_life[OF r gov_empty_stores] by blast
qed

text \<open>
  C11. In every run of messages after the contract was set up, a proposal is executed at most once.
\<close>

theorem proposals_execute_at_most_once:
  assumes "gov_instantiate G st0 Q env msg = Inr (st, r)" and "GV_PROPOSALS st0 = []" and "GV_PENDING_PROPOSALS st0 = []"
  shows "executions G k es st \<le> 1"
  by (rule order_trans[OF executions_le[OF gov_instantiate_inv[OF assms]]]) simp

theorem proposals_execute_at_most_once_witness:
  "\<exists>r. gov_instantiate gov_demo_lib gov_empty (gov_demo_querier []) (demo_env 1000) gov_demo_msg = Inr (gov_started, r) \<and>
     (\<forall>es k. executions gov_demo_lib k es gov_started \<le> 1)"
proof -
  obtain r where r: "gov_instantiate gov_demo_lib gov_empty (gov_demo_querier []) (demo_env 1000) gov_demo_msg = Inr (gov_started, r)"
    using gov_demo_starts by blast
  show ?thesis using r proposals_execute_at_most_once[OF r gov_empty_stores] by blast
qed

text \<open>
  C37. In every run the configuration stays well formed: the threshold is from 51 to 100 percent, the quorum from 33 to
  100 percent, the voting and expiration periods are from one to fourteen days of blocks, the delay at most a day, and
  the stake that supports a proposal from 1000 to 5000 tokens.
\<close>

theorem configuration_stays_valid:
  assumes "gov_instantiate G st0 Q env msg = Inr (st, r)" and "GV_PROPOSALS st0 = []" and "GV_PENDING_PROPOSALS st0 = []"
    and "GV_CONFIG (gv.run G es st) = Some c"
  shows "dec_percent 51 \<le> gc_proposal_required_threshold c \<and> gc_proposal_required_threshold c \<le> dec_percent 100 \<and>
    dec_percent 33 \<le> gc_proposal_required_quorum c \<and> gc_proposal_required_quorum c \<le> dec_percent 100 \<and>
    gc_proposal_effective_delay c \<le> 14400 \<and>
    14400 \<le> gc_proposal_expiration_period c \<and> gc_proposal_expiration_period c \<le> 201600 \<and>
    14400 \<le> gc_proposal_voting_period c \<and> gc_proposal_voting_period c \<le> 201600 \<and>
    1000000000 \<le> gc_proposal_required_stake c \<and> gc_proposal_required_stake c \<le> 5000000000"
proof -
  have "gov_config_validate c = Inr ()"
    using gv.run_inv[OF gov_instantiate_inv[OF assms(1-3)]] assms(4) unfolding gv_inv_def by blast
  then show ?thesis
    by (auto simp: gov_config_validate_def in_delay_interval_def in_expiration_period_interval_def
        in_voting_period_interval_def in_stake_interval_def BLOCKS_PER_DAY_def split: if_split_asm)
qed

theorem configuration_stays_valid_witness:
  "\<exists>r. gov_instantiate gov_demo_lib gov_empty (gov_demo_querier []) (demo_env 1000) gov_demo_msg = Inr (gov_started, r) \<and>
     (\<forall>es c. GV_CONFIG (gv.run gov_demo_lib es gov_started) = Some c \<longrightarrow>
        dec_percent 51 \<le> gc_proposal_required_threshold c \<and> gc_proposal_required_quorum c \<le> dec_percent 100)"
proof -
  obtain r where r: "gov_instantiate gov_demo_lib gov_empty (gov_demo_querier []) (demo_env 1000) gov_demo_msg = Inr (gov_started, r)"
    using gov_demo_starts by blast
  show ?thesis using r configuration_stays_valid[OF r gov_empty_stores] by blast
qed

text \<open>
  C19. While the voting period differs from the expedited one and the configuration is not changed, a proposal is ended
  at most twice in any run: an extension happens once, then the next end decides it.
\<close>

theorem proposals_are_ended_at_most_twice:
  assumes "gov_instantiate G st0 Q env msg = Inr (st, r)" and "GV_PROPOSALS st0 = []" and "GV_PENDING_PROPOSALS st0 = []"
    and "GV_CONFIG (gv.run G es st) = Some c"
    and "gc_proposal_voting_period c \<noteq> gc_expedited_proposal_voting_period c"
    and "\<forall>e\<in>set later. \<not> updates_config (gv_msg e)"
  shows "endings G k later (gv.run G es st) \<le> 2"
  by (rule order_trans[OF endings_le[OF gv.run_inv[OF gov_instantiate_inv[OF assms(1-3)]] assms(4,6,5)] ends_left_le])

theorem proposals_are_ended_at_most_twice_witness:
  "\<exists>r. gov_instantiate gov_demo_lib gov_empty (gov_demo_querier []) (demo_env 1000) gov_demo_msg = Inr (gov_started, r) \<and>
     (\<forall>later k. (\<forall>e\<in>set later. \<not> updates_config (gv_msg e)) \<longrightarrow> endings gov_demo_lib k later gov_started \<le> 2)"
proof -
  obtain r where r: "gov_instantiate gov_demo_lib gov_empty (gov_demo_querier []) (demo_env 1000) gov_demo_msg = Inr (gov_started, r)"
    using gov_demo_starts by blast
  let ?c = "(gov_demo_config True)\<lparr>gc_proposal_required_quorum := DECIMAL_FRACTIONAL,
       gc_proposal_required_threshold := DECIMAL_FRACTIONAL\<rparr>"
  have "gc_proposal_voting_period ?c \<noteq> gc_expedited_proposal_voting_period ?c" by (simp add: gov_demo_config_def)
  moreover have "GV_CONFIG (gv.run gov_demo_lib [] gov_started) = Some ?c" by (simp add: gov_started_def)
  ultimately have "\<forall>later k. (\<forall>e\<in>set later. \<not> updates_config (gv_msg e)) \<longrightarrow>
      endings gov_demo_lib k later (gv.run gov_demo_lib [] gov_started) \<le> 2"
    using proposals_are_ended_at_most_twice[OF r gov_empty_stores] by blast
  then show ?thesis using r by simp
qed

section \<open>Messages of proposals\<close>

text \<open>
  C18. The contract sends a proposed message only when a passed proposal that carries it is executed between its delay
  and its expiration, which stores it as executed, or in a check of messages, whose last message asks the contract to
  clear its admin.
\<close>

theorem only_passed_proposals_send_messages:
  assumes "gov_execute G st Q env info m = Inr (st', r)" and "GovProposed x \<in> set (vg_messages r)"
  shows "(\<exists>k p ms. m = GovExecuteProposal k \<and> proposal_at st k = Some p \<and> pp_status p = Passed \<and>
      pp_delayed_end_block p \<le> time_seconds env \<and> time_seconds env \<le> pp_expiration_block p \<and>
      pp_messages p = Some ms \<and> x \<in> pm_msg ` set ms \<and> phase_of st' k = Stored Executed) \<or>
    (\<exists>msgs switch. m = GovCheckMessages msgs switch \<and>
      last (vg_messages r) = GovSelf (contract_address env) (GovCheckMessagesPassed (Some True)) [])"
  using proposed_messages_from[OF assms]
proof
  assume "\<exists>k. m = GovExecuteProposal k"
  then obtain k where k: "m = GovExecuteProposal k" by blast
  then have run: "execute_proposal st env k = Inr (st', r)" using assms(1) by simp
  obtain p where p: "proposal_at st k = Some p" "pp_status p = Passed" "pp_delayed_end_block p \<le> time_seconds env"
      "time_seconds env \<le> pp_expiration_block p" "st' = save_proposal k (p\<lparr>pp_status := Executed\<rparr>) st"
    and r: "vg_messages r = (case pp_messages p of Some ms \<Rightarrow> map GovProposed (ordered_messages ms) | None \<Rightarrow> []) @
      [GovSelf (contract_address env) (GovCheckMessagesPassed (Some False)) []]"
    using execute_proposal_effect[OF run] by blast
  then obtain ms where ms: "pp_messages p = Some ms" "x \<in> pm_msg ` set ms"
    using assms(2) by (auto simp: ordered_messages_def split: option.splits)
  have "phase_of st' k = Stored Executed" using p(5) by (simp add: phase_of_def)
  then show ?thesis using k p ms by blast
qed blast

theorem only_passed_proposals_send_messages_witness:
  "\<exists>st' r. gov_execute gov_demo_lib (gov_demo_st False (gov_demo_proposal 0 259300 Passed)) (gov_demo_querier [])
      (demo_env 400000) (demo_info ''dave'' []) (GovExecuteProposal 2) = Inr (st', r) \<and>
    vg_messages r = [GovProposed ''a'', GovProposed ''b'', GovSelf ''queue'' (GovCheckMessagesPassed (Some False)) []] \<and>
    phase_of st' 2 = Stored Executed"
proof -
  let ?st = "gov_demo_st False (gov_demo_proposal 0 259300 Passed)"
  obtain st' r where run: "gov_execute gov_demo_lib ?st (gov_demo_querier [])
      (demo_env 400000) (demo_info ''dave'' []) (GovExecuteProposal 2) = Inr (st', r)"
    and r: "vg_messages r = [GovProposed ''a'', GovProposed ''b'', GovSelf ''queue'' (GovCheckMessagesPassed (Some False)) []]"
    by (simp add: execute_proposal_def gv_proposal_load_def gov_demo_st_def gov_demo_proposal_def demo_env_def
        time_seconds_def ordered_messages_def Let_def)
  show ?thesis using run r only_passed_proposals_send_messages[OF run, of "''a''"] by auto
qed

section \<open>Extended proposals\<close>

text \<open>
  C34. An expedited proposal that misses its quorum gets the normal voting period, but keeps the delay and the
  expiration counted from its first end. Where that delay is over before the new end, the proposal, once passed, can be
  executed by anyone in the same block.
\<close>

theorem extended_proposals_skip_the_delay:
  assumes "gov_execute G st Q env info (GovEndProposal k) = Inr (st1, r1)" and "GV_CONFIG st = Some c"
    and "proposal_at st k = Some p" and "proposal_at st1 k = Some p1" and "pp_status p1 = Active"
    and "pp_delayed_end_block p \<le> pp_start_time p + gc_proposal_voting_period c * 6"
    and "GV_CONFIG st2 = Some c2" and "proposal_at st2 k = Some p2" and "pp_end_block p2 = pp_end_block p1"
    and "pp_delayed_end_block p2 = pp_delayed_end_block p1" and "pp_expiration_block p2 = pp_expiration_block p1"
    and "gov_execute G st2 Q2 env2 info2 (GovEndProposal k) = Inr (st3, r3)" and "phase_of st3 k = Stored Passed"
    and "time_seconds env2 \<le> pp_expiration_block p"
  shows "pp_end_block p1 = pp_start_time p + gc_proposal_voting_period c * 6 \<and>
    (\<exists>st4 r4. gov_execute G st3 Q3 env2 info3 (GovExecuteProposal k) = Inr (st4, r4))"
proof -
  have first: "end_proposal G st Q env k = Inr (st1, r1)" and second: "end_proposal G st2 Q2 env2 k = Inr (st3, r3)"
    using assms(1,12) by simp_all
  have p1: "pp_end_block p1 = pp_start_time p + gc_proposal_voting_period c * 6"
    "pp_delayed_end_block p1 = pp_delayed_end_block p" "pp_expiration_block p1 = pp_expiration_block p"
    using end_proposal_dates[OF first assms(4,2)] assms(3,5) by auto
  obtain p3 where p3: "proposal_at st3 k = Some p3" "pp_status p3 = Passed"
    using assms(13) by (auto simp: phase_of_def split: option.splits if_split_asm)
  have "pp_end_block p2 < time_seconds env2" "pp_delayed_end_block p3 = pp_delayed_end_block p2"
    "pp_expiration_block p3 = pp_expiration_block p2"
    using end_proposal_dates[OF second p3(1) assms(7)] assms(8) by auto
  then show ?thesis using p1 p3 assms(6,9-11,14)
    by (simp add: execute_proposal_def gv_proposal_load_def Let_def)
qed

definition gov_demo_stake :: "uint128 \<Rightarrow> OldStakeDeposit" where
  "gov_demo_stake n = \<lparr>od_staker = ''eve'', od_amount = n, od_stake_time = 0, od_unstake_start_time = None\<rparr>"

lemma gov_demo_load [simp]:
  "proposal_at (gov_demo_st quadratic p) 2 = Some p" "GV_CONFIG (gov_demo_st quadratic p) = Some (gov_demo_config quadratic)"
  "save_proposal 2 q (gov_demo_st quadratic p) = gov_demo_st quadratic q"
  by (simp_all add: gov_demo_st_def save_proposal_def store_save_def store_load_def)

lemmas gov_demo_end = end_proposal_def gv_proposal_load_def gv_config_load_def gov_demo_proposal_def demo_env_def time_seconds_def
  votes_cast_def u128_add_def U128_BOUND_def gov_demo_config_def calc_total_voting_power_at_def gov_demo_querier_def answered_def
  Let_def quorum_of_def thresholds_of_def decide_def extend_expedited_def seconds_of_blocks_def u64_mul_def u64_add_def u64_sub_def
  U64_BOUND_def gov_demo_stake_def staker_turn_def u128_sum_def stake_counts_def dec_from_ratio_def dec_percent_def
  DECIMAL_FRACTIONAL_def

lemma extension_demo:
  "\<exists>r. gov_execute gov_demo_lib (gov_demo_st False (gov_demo_proposal 0 259300 Active)) (gov_demo_querier []) (demo_env 300000)
     info (GovEndProposal 2) = Inr (gov_demo_st False (gov_demo_proposal 0 604900 Active), r)"
  by (simp add: gov_demo_end)

lemma passing_demo:
  "\<exists>r. gov_execute gov_demo_lib (gov_demo_st False (gov_demo_proposal 1500000000 604900 Active))
     (gov_demo_querier [gov_demo_stake 2000000000]) (demo_env 700000)
     info (GovEndProposal 2) = Inr (gov_demo_st False (gov_demo_proposal 1500000000 604900 Passed), r)"
  by (simp add: gov_demo_end)
theorem extended_proposals_skip_the_delay_witness:
  "\<exists>st4 r4. gov_execute gov_demo_lib (gov_demo_st False (gov_demo_proposal 1500000000 604900 Passed)) (gov_demo_querier [])
     (demo_env 700000) (demo_info ''dave'' []) (GovExecuteProposal 2) = Inr (st4, r4)"
proof -
  let ?st = "\<lambda>n t s. gov_demo_st False (gov_demo_proposal n t s)" and ?dave = "demo_info ''dave'' []"
  obtain r1 where first: "gov_execute gov_demo_lib (?st 0 259300 Active) (gov_demo_querier []) (demo_env 300000) ?dave (GovEndProposal 2)
      = Inr (?st 0 604900 Active, r1)" using extension_demo by blast
  obtain r3 where second: "gov_execute gov_demo_lib (?st 1500000000 604900 Active) (gov_demo_querier [gov_demo_stake 2000000000])
      (demo_env 700000) ?dave (GovEndProposal 2) = Inr (?st 1500000000 604900 Passed, r3)" using passing_demo by blast
  have dates: "pp_delayed_end_block (gov_demo_proposal n t s) = 345700" "pp_start_time (gov_demo_proposal n t s) = 100"
    "pp_expiration_block (gov_demo_proposal n t s) = 1555300" "pp_end_block (gov_demo_proposal n t s) = t"
    "pp_status (gov_demo_proposal n t s) = s" "gc_proposal_voting_period (gov_demo_config False) = 100800" for n t s
    by (simp_all add: gov_demo_proposal_def gov_demo_config_def)
  show ?thesis
    by (rule extended_proposals_skip_the_delay[OF first gov_demo_load(2,1,1) _ _ gov_demo_load(2,1) _ _ _ second, THEN conjunct2])
      (simp_all add: dates phase_of_def time_seconds_def demo_env_def)
qed

section \<open>Votes that take their support away\<close>

lemma low_support_blocks_the_end:
  assumes "GV_CONFIG st = Some c" and "gc_quadratic_voting c" and "proposal_at st k = Some p"
    and "pp_aligned_power p < gc_proposal_required_stake c"
    and "calc_total_voting_power_at G st Q True (pp_start_time p) \<noteq> Inr 0"
  shows "gov_execute G st Q env info (GovEndProposal k) \<noteq> Inr result"
proof
  assume "gov_execute G st Q env info (GovEndProposal k) = Inr result"
  then have "\<exists>m whole q. rcatch (calc_total_voting_power_at G st Q True (pp_start_time p)) (\<lambda>_. Inr 1) = (Inr whole :: nat gov_result) \<and>
      quorum_of G c m whole p = Inr q"
    using assms(1-3) by (clarsimp simp: end_proposal_def gv_proposal_load_def gv_config_load_def elim!: handlerE)
  then obtain m whole q where
    whole: "rcatch (calc_total_voting_power_at G st Q True (pp_start_time p)) (\<lambda>_. Inr 1) = (Inr whole :: nat gov_result)"
    and q: "quorum_of G c m whole p = Inr q" by blast
  have "whole \<noteq> 0" using whole assms(5) by (auto simp: rcatch_def split: sum.splits failure.splits)
  then show False using q assms(2,4)
    by (auto simp: quorum_of_def u128_checked_sub_def map_err_eq_Inr elim!: rbind_InrE)
qed

text \<open>
  C31. With quadratic voting, a supporter of an active proposal that changes its vote to another option can take the
  support below the required stake. In every state that stores the proposal with support below the required stake, the one
  after that vote included, ending the proposal fails, because it subtracts the required stake from the support;
  the one exception is a total voting power of zero.
\<close>

theorem lost_support_blocks_the_end:
  assumes "gov_execute G st Q env info (GovCastVote k v recipient) = Inr (st', r)" and "v \<noteq> VoteAlign"
    and "GV_CONFIG st = Some c" and "gc_quadratic_voting c" and "proposal_at st k = Some p"
    and "sender info \<in> set (pp_aligned_voters p)"
    and "sender info \<notin> set (pp_for_voters p @ pp_against_voters p @ pp_amendment_voters p @ pp_removal_voters p)"
    and "calc_voting_power G st Q None (sender info) (pp_start_time p) False recipient True = Inr (n, b)"
    and "pp_aligned_power p < gc_proposal_required_stake c + n"
  shows "(\<exists>p'. proposal_at st' k = Some p' \<and> pp_aligned_power p' < gc_proposal_required_stake c) \<and> GV_CONFIG st' = Some c \<and>
    (\<forall>st2 c2 p2 Q2 env2 info2 result. GV_CONFIG st2 = Some c2 \<longrightarrow> gc_quadratic_voting c2 \<longrightarrow> proposal_at st2 k = Some p2 \<longrightarrow>
       pp_aligned_power p2 < gc_proposal_required_stake c2 \<longrightarrow>
       calc_total_voting_power_at G st2 Q2 True (pp_start_time p2) \<noteq> Inr 0 \<longrightarrow>
       gov_execute G st2 Q2 env2 info2 (GovEndProposal k) \<noteq> Inr result)"
proof -
  have no: "drop_voter (sender info) vs = None \<longleftrightarrow> sender info \<notin> set vs" for vs
    by (auto simp: drop_voter_def find_index_of_def find_None_iff in_set_conv_nth nth_enumerate_eq)
  have "cast_vote G st Q env info k v recipient = Inr (st', r)" using assms(1) by simp
  then obtain config m b' p2 p' vp where steps: "GV_CONFIG st = Some config"
      "calc_voting_power G st Q None (sender info) (pp_start_time p) False recipient (gc_quadratic_voting config) = Inr (m, b')"
      "remove_previous_vote (sender info) m p = Inr p2" "count_vote G config (sender info) v False m p2 = Inr (p', vp)"
    and saved: "st' = (if v = VoteAlign \<and> gc_proposal_required_stake config \<le> pp_aligned_power p'
         then save_proposal k p' (remove_pending k st) else save_proposal k p' st)"
    using cast_vote_steps[OF _ assms(5)] by metis
  then have m: "config = c" "m = n" using assms(3,4,8) by auto
  note removed = steps(3)[unfolded m] and counted = steps(4)[unfolded m]
  have st': "st' = save_proposal k p' st" using saved assms(2) by simp
  obtain i a where aligned: "drop_voter (sender info) (pp_aligned_voters p) = Some (i, a)"
    using assms(6) no by (cases "drop_voter (sender info) (pp_aligned_voters p)") auto
  have "drop_voter (sender info) (pp_for_voters p) = None" "drop_voter (sender info) (pp_against_voters p) = None"
    "drop_voter (sender info) (pp_amendment_voters p) = None" "drop_voter (sender info) (pp_removal_voters p) = None"
    using assms(7) by (simp_all add: no)
  then have "rbind (remove_at (pp_aligned_voters p) i) (\<lambda>vs. rbind (map_err GvStd (u128_checked_sub (pp_aligned_power p) n))
      (\<lambda>n. Inr (p\<lparr>pp_aligned_voters := vs, pp_aligned_power := n\<rparr>))) = (Inr p2 :: Proposal gov_result)"
    using removed aligned by (simp add: remove_previous_vote_def Let_def)
  then have "pp_aligned_power p2 < gc_proposal_required_stake c \<and> pp_start_time p2 = pp_start_time p"
    using assms(9) by (auto simp: map_err_eq_Inr u128_checked_sub_def elim!: rbind_InrE split: if_split_asm)
  moreover have "pp_aligned_power p' = pp_aligned_power p2 \<and> pp_start_time p' = pp_start_time p2"
    using counted assms(2) unfolding count_vote_def Let_def
    by (cases v) (auto elim!: rbind_InrE)
  ultimately have p': "pp_aligned_power p' < gc_proposal_required_stake c" "pp_start_time p' = pp_start_time p" by simp_all
  have blocked: "gov_execute G st2 Q2 env2 info2 (GovEndProposal k) \<noteq> Inr result"
    if "GV_CONFIG st2 = Some c2" "gc_quadratic_voting c2" "proposal_at st2 k = Some p2"
      "pp_aligned_power p2 < gc_proposal_required_stake c2"
      "calc_total_voting_power_at G st2 Q2 True (pp_start_time p2) \<noteq> Inr 0" for st2 c2 p2 Q2 env2 info2 result
    by (rule low_support_blocks_the_end[OF that])
  show ?thesis using st' p'(1) assms(3) blocked by auto
qed

lemma root_demo: "(sqrt_ceil gov_demo_lib 100 :: ('e, uint128) result) = Inr 10"
proof -
  have "isqrt (100 * DECIMAL_FRACTIONAL * DECIMAL_FRACTIONAL) = 10 * DECIMAL_FRACTIONAL"
    by (rule isqrt_eq) (simp_all add: DECIMAL_FRACTIONAL_def)
  then show ?thesis
    by (simp add: sqrt_ceil_def gov_demo_lib_def dec_of_uint_def dec_from_ratio_def to_uint_ceil_def DECIMAL_FRACTIONAL_def U128_BOUND_def)
qed

lemma support_demo_power:
  "calc_voting_power gov_demo_lib (gov_demo_st True p) (gov_demo_querier [gov_demo_stake 100]) None ''bob'' 100 False None True
     = Inr (10, False)"
  by (simp add: calc_voting_power_def gv_config_load_def non_vested_total_def gov_demo_querier_def u128_sum_def stake_counts_def
      gov_demo_stake_def u128_add_def U128_BOUND_def root_demo Let_def)

lemma support_demo_vote:
  "\<exists>st' r. gov_execute gov_demo_lib (gov_demo_st True (gov_demo_proposal 0 604900 Active)) (gov_demo_querier [gov_demo_stake 100])
     (demo_env 1000) (demo_info ''bob'' []) (GovCastVote 2 VoteFor None) = Inr (st', r) \<and> GV_CONFIG st' = Some (gov_demo_config True)"
proof -
  have "pp_start_time (gov_demo_proposal 0 604900 Active) = 100" "gc_quadratic_voting (gov_demo_config True)"
    by (simp_all add: gov_demo_proposal_def gov_demo_config_def)
  then show ?thesis
    by (simp add: cast_vote_def gv_config_load_def demo_info_def support_demo_power Let_def)
      (simp add: gov_demo_proposal_def demo_env_def time_seconds_def remove_previous_vote_def drop_voter_def find_index_of_def
        remove_at_def u128_checked_sub_def u128_checked_add_def count_vote_def U128_BOUND_def Let_def)
qed

theorem lost_support_blocks_the_end_witness:
  "\<exists>st' r. gov_execute gov_demo_lib (gov_demo_st True (gov_demo_proposal 0 604900 Active)) (gov_demo_querier [gov_demo_stake 100])
     (demo_env 1000) (demo_info ''bob'' []) (GovCastVote 2 VoteFor None) = Inr (st', r) \<and>
   (\<forall>Q2 env2 info2 result. (\<forall>p. calc_total_voting_power_at gov_demo_lib st' Q2 True p \<noteq> Inr 0) \<longrightarrow>
      gov_execute gov_demo_lib st' Q2 env2 info2 (GovEndProposal 2) \<noteq> Inr result)"
proof -
  let ?p = "gov_demo_proposal 0 604900 Active" and ?Q = "gov_demo_querier [gov_demo_stake 100]"
  obtain st' r where run: "gov_execute gov_demo_lib (gov_demo_st True ?p) ?Q (demo_env 1000) (demo_info ''bob'' [])
      (GovCastVote 2 VoteFor None) = Inr (st', r)"
    using support_demo_vote by blast
  have p: "pp_start_time ?p = 100" "pp_aligned_power ?p = 1000000000" "pp_aligned_voters ?p = [''carol'', ''bob'']"
    "pp_for_voters ?p @ pp_against_voters ?p @ pp_amendment_voters ?p @ pp_removal_voters ?p = []"
    "sender (demo_info ''bob'' []) = ''bob''" "gc_proposal_required_stake (gov_demo_config True) = 1000000000"
    "gc_quadratic_voting (gov_demo_config True)"
    by (simp_all add: gov_demo_proposal_def demo_info_def gov_demo_config_def)
  have t: "(\<exists>p'. proposal_at st' 2 = Some p' \<and> pp_aligned_power p' < gc_proposal_required_stake (gov_demo_config True)) \<and>
    GV_CONFIG st' = Some (gov_demo_config True) \<and>
    (\<forall>st2 c2 p2 Q2 env2 info2 result. GV_CONFIG st2 = Some c2 \<longrightarrow> gc_quadratic_voting c2 \<longrightarrow> proposal_at st2 2 = Some p2 \<longrightarrow>
       pp_aligned_power p2 < gc_proposal_required_stake c2 \<longrightarrow>
       calc_total_voting_power_at gov_demo_lib st2 Q2 True (pp_start_time p2) \<noteq> Inr 0 \<longrightarrow>
       gov_execute gov_demo_lib st2 Q2 env2 info2 (GovEndProposal 2) \<noteq> Inr result)"
    by (rule lost_support_blocks_the_end[OF run _ gov_demo_load(2) _ gov_demo_load(1), where n = 10 and b = False])
      (simp_all add: p support_demo_power del: append_is_Nil_conv gov_execute.simps)
  show ?thesis using run t p(7) by (intro exI[of _ st'] exI[of _ r]) blast
qed

end
