(* ===== verification/Vesting_Properties.thy ===== *)
theory Vesting_Properties
  imports Vesting_Facts Staking_Contract Gov_Properties
begin

text \<open>
  Vesting: the properties of the contract, alone and with the staking and governance contracts, each with its
  application to a concrete contract with the recipients alice (100 over ten days) and bob (50 over a year).
\<close>

section \<open>A concrete contract\<close>

definition ve_demo_allocation :: "uint128 \<Rightarrow> uint128 \<Rightarrow> u64 \<Rightarrow> Allocation" where
  "ve_demo_allocation n w days = \<lparr>al_amount = n, al_amount_withdrawn = w, al_start_time_of_allocation = 0,
     al_vesting_period = \<lparr>vp_cliff = 0, vp_linear = days\<rparr>\<rparr>"

definition ve_demo_config :: vesting_config where
  "ve_demo_config = \<lparr>vc_owner = ''gov'', vc_total_allocation = 200, vc_mbrn_denom = ''mbrn'',
     vc_osmosis_proxy = ''proxy'', vc_staking_contract = ''staking''\<rparr>"

definition ve_demo_recipients :: "uint128 \<Rightarrow> Recipient list" where
  "ve_demo_recipients w =
     [\<lparr>re_recipient = ''alice'', re_allocation = Some (ve_demo_allocation 100 w 10), re_claimables = []\<rparr>,
      \<lparr>re_recipient = ''bob'', re_allocation = Some (ve_demo_allocation 50 0 365), re_claimables = []\<rparr>]"

definition ve_demo_st :: "uint128 \<Rightarrow> vesting_storage" where
  "ve_demo_st w = \<lparr>VE_CONFIG = Some ve_demo_config, VE_RECIPIENTS = Some (ve_demo_recipients w),
     VE_OWNERSHIP_TRANSFER = None, VE_CONTRACT = None\<rparr>"

definition ve_demo_querier :: vesting_querier where
  "ve_demo_querier = \<lparr>vq_user_rewards = (\<lambda>_ _. Inr \<lparr>rw_claimables = [], rw_accrued_interest = 0\<rparr>),
     vq_user_stake = (\<lambda>_ _. Inr \<lparr>sr_staker = ''vesting'', sr_total_staked = 150, sr_deposit_list = []\<rparr>)\<rparr>"

lemmas ve_demo = ve_demo_st_def ve_demo_recipients_def ve_demo_config_def ve_demo_allocation_def ve_demo_querier_def
  demo_env_def demo_info_def demo_lib_def time_seconds_def find_recipient_def

definition ve_demo_msg :: vesting_instantiate_msg where
  "ve_demo_msg = \<lparr>vi_owner = None, vi_initial_allocation = 100, vi_pre_launch_contributors = ''alice'',
     vi_pre_launch_community = [''bob''], vi_mbrn_denom = ''mbrn'', vi_osmosis_proxy = ''proxy'',
     vi_staking_contract = ''staking''\<rparr>"

definition ve_empty :: vesting_storage where
  "ve_empty = \<lparr>VE_CONFIG = None, VE_RECIPIENTS = None, VE_OWNERSHIP_TRANSFER = None, VE_CONTRACT = None\<rparr>"

lemma ve_demo_starts: "\<exists>st r. ve_instantiate demo_lib ve_empty (demo_env 1000) (demo_info ''gov'' []) ve_demo_msg = Inr (st, r)"
  by (simp add: ve_instantiate_def ve_demo_msg_def ve_empty_def add_community_def new_recipient_def
      ve_validate_or_def u128_mul_def u128_add_def U128_BOUND_def Let_def ve_demo)

section \<open>Allocations\<close>

text \<open>
  C17. In every run of messages from a new contract each recipient is listed once and the allocations of all
  recipients fit into the total allocation of the configuration.
\<close>

theorem allocations_fit_the_total:
  assumes "ve_instantiate L st0 env info msg = Inr (st, r)"
    and "VE_CONFIG (ve.run L es st) = Some c" and "VE_RECIPIENTS (ve.run L es st) = Some rs"
  shows "distinct (map re_recipient rs) \<and>
    (\<Sum>x\<leftarrow>rs. case re_allocation x of Some a \<Rightarrow> al_amount a | None \<Rightarrow> 0) \<le> vc_total_allocation c"
  using ve_invD[OF ve.run_inv[OF ve_instantiate_inv[OF assms(1)]] assms(2,3)] by (simp add: amount_allocated_def)

theorem allocations_fit_the_total_witness:
  "\<exists>st r. ve_instantiate demo_lib ve_empty (demo_env 1000) (demo_info ''gov'' []) ve_demo_msg = Inr (st, r) \<and>
     (\<forall>es c rs. VE_CONFIG (ve.run demo_lib es st) = Some c \<longrightarrow> VE_RECIPIENTS (ve.run demo_lib es st) = Some rs \<longrightarrow>
       distinct (map re_recipient rs) \<and>
       (\<Sum>x\<leftarrow>rs. case re_allocation x of Some a \<Rightarrow> al_amount a | None \<Rightarrow> 0) \<le> vc_total_allocation c)"
proof -
  obtain st r where st: "ve_instantiate demo_lib ve_empty (demo_env 1000) (demo_info ''gov'' []) ve_demo_msg = Inr (st, r)"
    using ve_demo_starts by blast
  then show ?thesis using allocations_fit_the_total[OF st] by blast
qed

text \<open>
  C10. After any run from a new contract, whatever is sent next except new or divided allocations, the withdrawals
  mint to a recipient at most the part of its allocation that was not withdrawn before.
\<close>

theorem withdrawals_stay_within_the_allocation:
  assumes "ve_instantiate L st0 env info msg = Inr (st, r)" and "\<forall>e\<in>set later. \<not> allocates (vv_msg e)"
    and "VE_RECIPIENTS (ve.run L es st) = Some rs" and "find_recipient u rs = Some x" and "re_allocation x = Some a"
  shows "run_mints L u later (ve.run L es st) \<le> al_amount a - al_amount_withdrawn a"
proof -
  have "run_mints L u later (ve.run L es st) \<le> allowance u (ve.run L es st)"
    by (rule run_mints_le[OF ve.run_inv[OF ve_instantiate_inv[OF assms(1)]] assms(2)])
  then show ?thesis using assms(3-5) by (simp add: allowance_def left_of_def)
qed

theorem withdrawals_stay_within_the_allocation_witness:
  "\<exists>st r x a. ve_instantiate demo_lib ve_empty (demo_env 1000) (demo_info ''gov'' []) ve_demo_msg = Inr (st, r) \<and>
     VE_RECIPIENTS st = Some [x, new_recipient ''bob'' 1000000000 1000 0 365] \<and> re_allocation x = Some a \<and> al_amount a = 100 \<and>
     (\<forall>later. (\<forall>e\<in>set later. \<not> allocates (vv_msg e)) \<longrightarrow> run_mints demo_lib ''alice'' later st \<le> 100)"
proof -
  let ?x = "new_recipient ''alice'' 100 1000 730 365" and ?y = "new_recipient ''bob'' 1000000000 1000 0 365"
  obtain st r where st: "ve_instantiate demo_lib ve_empty (demo_env 1000) (demo_info ''gov'' []) ve_demo_msg = Inr (st, r)"
    using ve_demo_starts by blast
  have rs: "VE_RECIPIENTS st = Some [?x, ?y]" using st
    by (auto simp: ve_instantiate_def ve_demo_msg_def ve_empty_def add_community_def new_recipient_def
      ve_validate_or_def u128_mul_def u128_add_def U128_BOUND_def Let_def ve_demo)
  have x: "find_recipient ''alice'' [?x, ?y] = Some ?x" by (simp add: find_recipient_def new_recipient_def)
  obtain a where a: "re_allocation ?x = Some a" "al_amount a = 100" "al_amount_withdrawn a = 0"
    by (simp add: new_recipient_def)
  have "\<forall>later. (\<forall>e\<in>set later. \<not> allocates (vv_msg e)) \<longrightarrow> run_mints demo_lib ''alice'' later st \<le> 100"
    using withdrawals_stay_within_the_allocation[OF st, where es = "[]" and u = "''alice''"] rs x a by fastforce
  then show ?thesis using st rs a by blast
qed


lemma vested_demo:
  "\<exists>st' r. ve_execute demo_lib ve_demo_querier (ve_demo_st 30) (demo_env 864000) (demo_info ''alice'' []) VeWithdrawUnlocked
     = Inr (st', r)"
  by (simp add: withdraw_unlocked_def ve_config_load_def ve_recipients_load_def get_unlocked_amount_def u64_sub_def u64_mul_def
      u128_checked_sub_def u128_add_def SECONDS_IN_A_DAY_def U64_BOUND_def U128_BOUND_def Let_def ve_demo)


section \<open>What goes wrong\<close>

lemma divide_others: "u \<notin> re_recipient ` set rs \<Longrightarrow> map_state (divide_turn u n) rs s = (s, rs)"
  by (induction rs) (auto simp: divide_turn_def split: option.split)

lemma divide_whole:
  assumes "distinct (map re_recipient rs)" and "x \<in> set rs" and "re_recipient x = u" and "re_allocation x = Some a"
  shows "map_state (divide_turn u (al_amount a)) rs None = (Some (a\<lparr>al_amount_withdrawn := 0\<rparr>),
     map (\<lambda>r. if re_recipient r = u then r\<lparr>re_allocation := Some (a\<lparr>al_amount := 0\<rparr>)\<rparr> else r) rs)"
  using assms
proof (induction rs)
  case Nil
  then show ?case by simp
next
  case (Cons y rs)
  show ?case
  proof (cases "y = x")
    case True
    then have others: "u \<notin> re_recipient ` set rs" using Cons.prems by auto
    then have "map (\<lambda>r. if re_recipient r = u then r\<lparr>re_allocation := Some (a\<lparr>al_amount := 0\<rparr>)\<rparr> else r) rs = rs"
      by (intro map_idI) auto
    moreover have "divide_turn u (al_amount a) y None =
        (Some (a\<lparr>al_amount_withdrawn := 0\<rparr>), y\<lparr>re_allocation := Some (a\<lparr>al_amount := 0\<rparr>)\<rparr>)"
      using True Cons.prems by (cases a) (simp add: divide_turn_def)
    ultimately show ?thesis using True Cons.prems divide_others[OF others] by simp
  next
    case False
    then have "re_recipient y \<noteq> u" using Cons.prems by auto
    moreover from this have "divide_turn u (al_amount a) y None = (None, y)"
      by (simp add: divide_turn_def split: option.split)
    ultimately show ?thesis using False Cons by simp
  qed
qed

lemma allocated_divided:
  assumes "distinct (map re_recipient rs)" and "x \<in> set rs" and "re_recipient x = u" and "re_allocation x = Some a"
  shows "allocated (map (\<lambda>r. if re_recipient r = u then r\<lparr>re_allocation := Some (a\<lparr>al_amount := 0\<rparr>)\<rparr> else r) rs) + al_amount a
     = allocated rs"
proof -
  have "allocated (map (\<lambda>r. if re_recipient r = u then r\<lparr>re_allocation := Some (a\<lparr>al_amount := 0\<rparr>)\<rparr> else r) rs) =
      allocated (filter (\<lambda>r. re_recipient r \<noteq> u) rs)"
    by (induction rs) (auto simp: amount_allocated_def)
  then show ?thesis using sum_list_filter_key[OF assms(1,2), of "\<lambda>r. amount_allocated (re_allocation r)"] assms(3,4)
    by (simp add: amount_allocated_def)
qed

lemma total_allocated_Inr:
  assumes "allocated rs < U128_BOUND"
  shows "(total_allocated rs :: ('e, uint128) result) = Inr (allocated rs)"
proof -
  have "n + allocated rs < U128_BOUND \<Longrightarrow> (rfold (\<lambda>r total. case re_allocation r of Some a \<Rightarrow> u128_add total (al_amount a)
      | None \<Rightarrow> Inr total) rs n :: ('e, uint128) result) = Inr (n + allocated rs)" for n
    by (induction rs arbitrary: n) (auto simp: amount_allocated_def u128_add_def add.assoc split: option.split)
  from this[of 0] show ?thesis using assms by (simp add: total_allocated_def)
qed

lemma overdrawn_total_vesting:
  assumes "r \<in> set rs" and "rr_allocation r = Some a" and "al_amount a < al_amount_withdrawn a"
  shows "(recipients_total_vesting rs :: ('e, uint128) result) = Inl Panic"
proof -
  have "(rfold (\<lambda>recipient total_vesting. case rr_allocation recipient of
          Some allocation \<Rightarrow> rbind (u128_sub (al_amount allocation) (al_amount_withdrawn allocation)) (\<lambda>remaining.
            u128_add total_vesting remaining)
        | None \<Rightarrow> Inr total_vesting) rs n :: ('e, uint128) result) = Inl Panic" for n
    using assms by (induction rs arbitrary: n) (auto simp: u128_sub_def u128_add_def split: option.split)
  then show ?thesis by (simp add: recipients_total_vesting_def)
qed

text \<open>Computations that abort or succeed but return no error, which is all that the total voting power is made of.\<close>

definition no_error :: "('e, 'a) result \<Rightarrow> bool" where
  "no_error m \<longleftrightarrow> (\<forall>e. m \<noteq> Inl (Failed e))"

lemma no_error_simps [simp]: "no_error (Inr x)" "no_error (Inl Panic)"
  by (simp_all add: no_error_def)

lemma no_error_cases: "no_error m \<Longrightarrow> m = Inl Panic \<or> (\<exists>x. m = Inr x)"
  by (cases m; cases "projl m") (auto simp: no_error_def)

lemma no_error_rbind: "no_error m \<Longrightarrow> (\<And>x. m = Inr x \<Longrightarrow> no_error (f x)) \<Longrightarrow> no_error (rbind m f)"
  by (cases m) (auto simp: no_error_def)

lemma no_error_rfold: "(\<And>x s. no_error (f x s)) \<Longrightarrow> no_error (rfold f xs s)"
  by (induction xs arbitrary: s) (auto intro: no_error_rbind)

lemma no_error_arith:
  "no_error (u128_add a b)" "no_error (u128_sub a b)" "no_error (uint128_mul_dec n d)" "no_error (dec_of_uint n)"
  by (auto simp: u128_add_def u128_sub_def uint128_mul_dec_def dec_of_uint_def dec_from_ratio_def Let_def)

lemma no_error_sum: "no_error (u128_sum ns)"
  by (simp add: u128_sum_def no_error_rfold no_error_arith)

lemma no_error_turns:
  "no_error (staker_turn G q t d s)" "no_error (recipient_turn G c q n r acc)"
  by (auto simp: staker_turn_def recipient_turn_def vested_power_def sqrt_ceil_def sqrt_floor_def Let_def no_error_arith no_error_sum
      intro!: no_error_rbind split: prod.split option.split)

lemma overdrawn_total_power:
  assumes "r \<in> set answer" and "rr_allocation r = Some a" and "al_amount a < al_amount_withdrawn a"
    and "GV_CONFIG gst = Some c" and "gq_recipients Q (gc_vesting_contract_addr c) = Inr answer"
  shows "calc_total_voting_power_at G gst Q quadratic t = Inl Panic"
proof -
  have panics: "rfold (recipient_turn G c quadratic n) answer acc = (Inl Panic :: (std_error, uint128) result)" for n acc
    using assms(1)
  proof (induction answer arbitrary: acc)
    case (Cons x xs)
    have "recipient_turn G c quadratic n x acc = (Inl Panic :: (std_error, uint128) result) \<or>
        (\<exists>y. recipient_turn G c quadratic n x acc = (Inr y :: (std_error, uint128) result))"
      by (rule no_error_cases, rule no_error_turns)
    moreover have "recipient_turn G c quadratic n r acc = (Inl Panic :: (std_error, uint128) result)"
      using assms(2,3) by (simp add: recipient_turn_def vested_power_def u128_sub_def)
    ultimately show ?case using Cons by auto
  qed simp
  let ?stakers = "rfold (staker_turn G quadratic t)"
  define ds where "ds = (case gq_staked Q (gc_staking_contract_addr c) (Some STAKE_QUERY_LIMIT) None (Some t) False of
      Inr ds \<Rightarrow> ds | Inl _ \<Rightarrow> [])"
  have "?stakers ds (ds, 0) = (Inl Panic :: (std_error, _) result) \<or> (\<exists>y. ?stakers ds (ds, 0) = (Inr y :: (std_error, _) result))"
    by (rule no_error_cases, rule no_error_rfold, rule no_error_turns)
  moreover have "rbind (rcatch (rbind (gq_totals_raw Q (gc_staking_contract_addr c)) (\<lambda>t. Inr (to_stakers t))) (\<lambda>_. Inr n))
      (\<lambda>_. Inl Panic) = (Inl Panic :: (std_error, uint128) result)" for n
    by (auto simp: rcatch_def rbind_def split: sum.split failure.split)
  ultimately show ?thesis using assms(4,5) unfolding calc_total_voting_power_at_def Let_def ds_def[symmetric]
    by (auto simp: gv_config_load_def ds_def[symmetric] answered_def panics)
qed

lemma sends_to_governance:
  assumes "ve_execute L Q st env info m = Inr (st', r)" and "VeGov g forwarded \<in> set (vr_messages r)"
  shows "(\<exists>title description link msgs expedited.
      forwarded = GovSubmitProposal title description link msgs (Some (sender info)) expedited) \<or>
      (\<exists>k vote. forwarded = GovCastVote k vote (Some (sender info)))"
proof -
  have found: "find_recipient u rs = Some x \<Longrightarrow> re_recipient x = u" for u rs x
    unfolding find_recipient_def by (auto dest: find_SomeD)
  have claims: "claim_fees_for_contract Q st env = Inr (s, res) \<Longrightarrow> VeGov g forwarded \<notin> set (vr_messages res)" for s res
    unfolding claim_fees_for_contract_def Let_def by (auto elim!: rbind_InrE split: if_split_asm)
  show ?thesis
  proof (cases m)
    case (VeAddAllocation to n period)
    then obtain s res where "claim_fees_for_contract Q st env = Inr (s, res)" "vr_messages r = vr_messages res"
      using assms(1) by (auto simp: add_allocation_def Let_def elim!: rbind_InrE split: if_split_asm)
    then show ?thesis using claims assms(2) by metis
  next
    case (VeUpdateConfig owner denom proxy staking extra)
    then have "vr_messages r = []" using assms(1)
      by (auto simp: ve_update_config_def Let_def elim!: rbind_InrE split: option.splits if_split_asm)
    then show ?thesis using assms(2) by simp
  next
    case VeClaimFeesforContract
    then show ?thesis using claims assms by simp
  qed (use assms found in \<open>auto simp: add_recipient_def remove_recipient_def withdraw_unlocked_def claim_fees_for_recipient_def
      ve_submit_proposal_def ve_cast_vote_def Let_def elim!: rbind_InrE split: option.splits if_split_asm\<close>)
qed

lemma no_power_for_another:
  "user \<noteq> u \<Longrightarrow> calc_voting_power G st Q non_vested user start_time expedited (Some u) quadratic \<noteq> Inr x"
  by (auto simp: calc_voting_power_def elim!: rbind_InrE)

text \<open>
  C32. A recipient that hands its whole allocation to a new address renews it: the new address may withdraw the full
  amount again on the same schedule, however much the old one has already been paid.
\<close>

theorem dividing_renews_the_allocation:
  assumes "VE_CONFIG st = Some c" and "VE_RECIPIENTS st = Some rs" and "distinct (map re_recipient rs)"
    and "find_recipient (sender info) rs = Some x" and "re_allocation x = Some a" and "al_amount a \<noteq> 0"
    and "lib_addr_validate L to = Inr v" and "v \<notin> re_recipient ` set rs"
    and "vq_user_rewards Q (vc_staking_contract c) (contract_address env) = Inr \<lparr>rw_claimables = [], rw_accrued_interest = k\<rparr>"
    and "(\<Sum>x\<leftarrow>rs. case re_allocation x of Some a \<Rightarrow> al_amount a | None \<Rightarrow> 0) \<le> vc_total_allocation c"
    and "vc_total_allocation c < U128_BOUND"
  shows "\<exists>st' r rs'. ve_execute L Q st env info (VeAddAllocation to (al_amount a) None) = Inr (st', r) \<and>
    VE_RECIPIENTS st' = Some rs' \<and> kept_for v rs' = Some (a\<lparr>al_amount_withdrawn := 0\<rparr>) \<and>
    kept_for (sender info) rs' = Some (a\<lparr>al_amount := 0\<rparr>) \<and> allowance v st' = al_amount a"
proof -
  let ?u = "sender info" and ?new = "a\<lparr>al_amount_withdrawn := 0\<rparr>"
  let ?left = "map (\<lambda>r. if re_recipient r = ?u then r\<lparr>re_allocation := Some (a\<lparr>al_amount := 0\<rparr>)\<rparr> else r) rs"
  let ?rs = "?left @ [\<lparr>re_recipient = v, re_allocation = Some ?new, re_claimables = []\<rparr>]"
  have x: "x \<in> set rs" "re_recipient x = ?u" using assms(4) unfolding find_recipient_def by (auto dest: find_SomeD)
  have turn: "map_state (divide_turn ?u (al_amount a)) rs None = (Some ?new, ?left)"
    using divide_whole[OF assms(3) x assms(5)] by simp
  have absent: "v \<notin> re_recipient ` set ?left" using assms(8) by (force split: if_split_asm)
  have hand: "(hand_over v (Some ?new) ?left :: Recipient list vesting_result) = Inr ?rs"
    using absent by (auto simp: hand_over_def list_ex_iff)
  have sum: "allocated ?rs = allocated rs" using allocated_divided[OF assms(3) x assms(5)] by (simp add: amount_allocated_def)
  have total: "(total_allocated ?rs :: uint128 vesting_result) = Inr (allocated rs)"
    unfolding sum[symmetric] by (rule total_allocated_Inr) (use assms(10,11) sum in \<open>simp add: amount_allocated_def\<close>)
  have claim: "\<exists>r. claim_fees_for_contract Q st env = Inr (st, r)"
    using assms(1,9) by (simp add: claim_fees_for_contract_def ve_config_load_def answered_def)
  have run: "\<exists>r. ve_execute L Q st env info (VeAddAllocation to (al_amount a) None) = Inr (st\<lparr>VE_RECIPIENTS := Some ?rs\<rparr>, r)"
    using claim turn hand total assms(1,2,6,7,10)
    by (auto simp: add_allocation_def ve_config_load_def ve_recipients_load_def amount_allocated_def)
  have kept: "kept_for v ?rs = Some ?new" using absent by (simp add: kept_for_append(1) kept_for_simps)
  have "?u \<in> set (map re_recipient ?left)" 
    using x unfolding map_allocations_recipients by (metis image_eqI list.set_map)
  then have "?u \<in> re_recipient ` set ?left" by (simp only: list.set_map)
  then have "kept_for ?u ?rs = kept_for ?u ?left" by (rule kept_for_append(2))
  also have "\<dots> = Some (a\<lparr>al_amount := 0\<rparr>)" using x by (induction rs) (auto simp: kept_for_simps)
  finally have own: "kept_for ?u ?rs = Some (a\<lparr>al_amount := 0\<rparr>)" .
  from run obtain r where "ve_execute L Q st env info (VeAddAllocation to (al_amount a) None) = Inr (st\<lparr>VE_RECIPIENTS := Some ?rs\<rparr>, r)"
    by blast
  then show ?thesis using kept own by (auto simp: allowance_eq left_of_def)
qed

theorem dividing_renews_the_allocation_witness:
  "\<exists>st' r. ve_execute demo_lib ve_demo_querier (ve_demo_st 90) (demo_env 777600) (demo_info ''alice'' [])
      (VeAddAllocation ''mallory'' 100 None) = Inr (st', r) \<and>
    allowance ''alice'' (ve_demo_st 90) = 10 \<and> allowance ''mallory'' st' = 100"
proof -
  note t = dividing_renews_the_allocation[of "ve_demo_st 90" ve_demo_config "ve_demo_recipients 90" "demo_info ''alice'' []"
      "hd (ve_demo_recipients 90)" "ve_demo_allocation 100 90 10" demo_lib "''mallory''" "''mallory''" ve_demo_querier
      "demo_env 777600" 0]
  have "allowance ''alice'' (ve_demo_st 90) = 10" by (simp add: allowance_def left_of_def ve_demo)
  then show ?thesis using t by (simp add: ve_demo U128_BOUND_def) blast
qed

lemma withdrawn_past_amount:
  assumes n: "get_unlocked_amount (Some a) now = Inr (n, a')" and "0 < al_amount_withdrawn a" and "al_amount a \<noteq> 0"
    and late: "al_start_time_of_allocation a +
      (vp_cliff (al_vesting_period a) + vp_linear (al_vesting_period a)) * 86400 \<le> now"
  shows "al_amount a' < al_amount_withdrawn a'"
proof -
  have "\<not> now - al_start_time_of_allocation a - vp_cliff (al_vesting_period a) * 86400
      < vp_linear (al_vesting_period a) * 86400"
    and "\<not> now - al_start_time_of_allocation a < vp_cliff (al_vesting_period a) * 86400"
    using late by (simp_all add: distrib_right)
  then have "a' = a\<lparr>al_amount_withdrawn := al_amount_withdrawn a + al_amount a\<rparr>"
    using n assms(3) unfolding get_unlocked_amount_def Let_def
    by (auto elim!: rbind_InrE simp: res_ok int_ok SECONDS_IN_A_DAY_def simp del: diff_diff_left split: if_split_asm)
  then show ?thesis using assms(2) by simp
qed

text \<open>
  C23. A recipient that withdrew a part first and then, after its linear period, everything ends with more withdrawn
  than allocated. As long as the vesting contract answers with the recipients as this withdrawal left them, the staking
  contract cannot sum up the vesting stake, every deposit of fees by the auction contract aborts, and no proposal of
  the governance contract can be ended.
\<close>

theorem full_withdrawal_blocks_the_fees:
  assumes "ve_execute L Q st env info VeWithdrawUnlocked = Inr (st', r)"
    and "VE_RECIPIENTS st = Some rs" and "find_recipient (sender info) rs = Some x" and "re_allocation x = Some a"
    and "0 < al_amount_withdrawn a" and "al_amount a \<noteq> 0"
    and "al_start_time_of_allocation a +
      (vp_cliff (al_vesting_period a) + vp_linear (al_vesting_period a)) * 86400 \<le> time_seconds env"
    and "query_recipients st' = Inr answer"
  shows "(\<exists>rs' x' a'. VE_RECIPIENTS st' = Some rs' \<and> x' \<in> set rs' \<and> re_recipient x' = sender info \<and>
      re_allocation x' = Some a' \<and> al_amount a' < al_amount_withdrawn a') \<and>
    (kq_recipients SQ v = Inr answer \<longrightarrow> SK_CONFIG sst = Some config \<longrightarrow> kc_vesting_contract config = Some v \<longrightarrow>
      kc_auction_contract config = Some (sender info2) \<longrightarrow>
      get_total_vesting SQ v = Inl Panic \<and> (\<forall>result. sk_execute L SQ sst env2 info2 SkDepositFee \<noteq> Inr result)) \<and>
    (GV_CONFIG gst = Some gconfig \<longrightarrow> gq_recipients GQ (gc_vesting_contract_addr gconfig) = Inr answer \<longrightarrow>
      (\<forall>result. gov_execute G gst GQ genv ginfo (GovEndProposal k) \<noteq> Inr result))"
proof -
  obtain n a' where n: "get_unlocked_amount (Some a) (time_seconds env) = Inr (n, a')"
    and rs': "VE_RECIPIENTS st' = Some (filter (\<lambda>r. re_recipient r \<noteq> sender info) rs @ [x\<lparr>re_allocation := Some a'\<rparr>])"
    using assms(1-4) by (auto simp: withdraw_unlocked_def res_ok Let_def elim!: rbind_InrE)
  have over: "al_amount a' < al_amount_withdrawn a'" by (rule withdrawn_past_amount[OF n assms(5-7)])
  have "re_recipient x = sender info" using assms(3) unfolding find_recipient_def by (auto dest: find_SomeD)
  with rs' over have left: "\<exists>rs' x' a'. VE_RECIPIENTS st' = Some rs' \<and> x' \<in> set rs' \<and> re_recipient x' = sender info \<and>
      re_allocation x' = Some a' \<and> al_amount a' < al_amount_withdrawn a'"
    by (intro exI[of _ "filter (\<lambda>r. re_recipient r \<noteq> sender info) rs @ [x\<lparr>re_allocation := Some a'\<rparr>]"]
        exI[of _ "x\<lparr>re_allocation := Some a'\<rparr>"] exI[of _ a']) simp
  have "answer = map to_recipient_response (filter (\<lambda>r. re_recipient r \<noteq> sender info) rs @ [x\<lparr>re_allocation := Some a'\<rparr>])"
    using assms(8) rs' by (auto simp: query_recipients_def res_ok elim!: rbind_InrE)
  then have x': "to_recipient_response (x\<lparr>re_allocation := Some a'\<rparr>) \<in> set answer" by simp
  then have "(recipients_total_vesting answer :: (std_error, uint128) result) = Inl Panic"
    by (rule overdrawn_total_vesting[OF _ _ over]) (simp_all add: to_recipient_response_def over)
  then have vesting: "get_total_vesting SQ v = Inl Panic" if "kq_recipients SQ v = Inr answer"
    using that by (simp add: get_total_vesting_def answered_def)
  have "sk_execute L SQ sst env2 info2 SkDepositFee \<noteq> Inr result"
    if "kq_recipients SQ v = Inr answer" "SK_CONFIG sst = Some config" "kc_vesting_contract config = Some v"
      "kc_auction_contract config = Some (sender info2)" for result
    using vesting[OF that(1)] that(2-4)
    by (auto simp: sk_deposit_fee_msg_def deposit_fee_def record_fees_def fee_total_def res_ok Let_def
        elim!: rbind_InrE split: if_split_asm)
  moreover have "gov_execute G gst GQ genv ginfo (GovEndProposal k) \<noteq> Inr result"
    if "GV_CONFIG gst = Some gconfig" "gq_recipients GQ (gc_vesting_contract_addr gconfig) = Inr answer" for result
  proof -
    have "calc_total_voting_power_at G gst GQ q t = Inl Panic" for q t
      by (rule overdrawn_total_power[OF x' _ over that]) (simp add: to_recipient_response_def)
    then show ?thesis by (auto simp: end_proposal_def elim!: rbind_InrE split: if_split_asm)
  qed
  ultimately show ?thesis using vesting left by blast
qed

theorem full_withdrawal_blocks_the_fees_witness:
  "\<exists>st' r answer. ve_execute demo_lib ve_demo_querier (ve_demo_st 30) (demo_env 864000) (demo_info ''alice'' []) VeWithdrawUnlocked
      = Inr (st', r) \<and> query_recipients st' = Inr answer \<and>
    (\<forall>SQ sst config env2 result. kq_recipients SQ ''vesting'' = Inr answer \<longrightarrow> SK_CONFIG sst = Some config \<longrightarrow>
       kc_vesting_contract config = Some ''vesting'' \<longrightarrow> kc_auction_contract config = Some ''auction'' \<longrightarrow>
       sk_execute demo_lib SQ sst env2 (demo_info ''auction'' [\<lparr>c_denom = ''cdt'', c_amount = 500\<rparr>]) SkDepositFee \<noteq> Inr result) \<and>
    (\<forall>G GQ k genv ginfo result. gq_recipients GQ ''vesting'' = Inr answer \<longrightarrow>
       gov_execute G (gov_demo_st True (gov_demo_proposal 0 604900 Active)) GQ genv ginfo (GovEndProposal k) \<noteq> Inr result)"
proof -
  obtain st' r where run: "ve_execute demo_lib ve_demo_querier (ve_demo_st 30) (demo_env 864000) (demo_info ''alice'' [])
      VeWithdrawUnlocked = Inr (st', r)" using vested_demo by blast
  obtain answer where answer: "query_recipients st' = Inr answer" using run
    by (auto simp: withdraw_unlocked_def query_recipients_def ve_recipients_load_def Let_def elim!: rbind_InrE
      split: option.splits if_split_asm)
  have rs: "VE_RECIPIENTS (ve_demo_st 30) = Some (ve_demo_recipients 30)"
    "find_recipient (sender (demo_info ''alice'' [])) (ve_demo_recipients 30) = Some (hd (ve_demo_recipients 30))"
    "re_allocation (hd (ve_demo_recipients 30)) = Some (ve_demo_allocation 100 30 10)" by (simp_all add: ve_demo)
  have blocked: "(kq_recipients SQ v = Inr answer \<longrightarrow> SK_CONFIG sst = Some config \<longrightarrow> kc_vesting_contract config = Some v \<longrightarrow>
      kc_auction_contract config = Some (sender info2) \<longrightarrow>
      get_total_vesting SQ v = Inl Panic \<and> (\<forall>result. sk_execute demo_lib SQ sst env2 info2 SkDepositFee \<noteq> Inr result)) \<and>
    (GV_CONFIG gst = Some gconfig \<longrightarrow> gq_recipients GQ (gc_vesting_contract_addr gconfig) = Inr answer \<longrightarrow>
      (\<forall>result. gov_execute G gst GQ genv ginfo (GovEndProposal k) \<noteq> Inr result))"
    for SQ v sst config env2 info2 G gst gconfig GQ genv ginfo k
    by (rule conjunct2[OF full_withdrawal_blocks_the_fees[OF run rs _ _ _ answer]]) (simp_all add: ve_demo)
  have c: "gc_vesting_contract_addr (gov_demo_config True) = ''vesting''"
    and s: "sender (demo_info ''auction'' [\<lparr>c_denom = ''cdt'', c_amount = 500\<rparr>]) = ''auction''"
    by (simp_all add: gov_demo_config_def demo_info_def)
  show ?thesis using run answer blocked s c gov_demo_load(2) by metis
qed

text \<open>
  C33. No proposal and no vote that a recipient sends through the vesting contract is ever accepted: the contract passes
  the recipient's name, and governance refuses it because the sender of the message is the vesting contract.
\<close>

theorem votes_through_vesting_are_refused:
  assumes "ve_execute L Q st env info m = Inr (st', r)" and "VeGov g forwarded \<in> set (vr_messages r)"
    and "sender info \<noteq> contract_address env"
  shows "\<forall>result. gov_execute G gst GQ genv \<lparr>sender = contract_address env, funds = []\<rparr> forwarded \<noteq> Inr result"
proof -
  have "(\<exists>title description link msgs expedited.
      forwarded = GovSubmitProposal title description link msgs (Some (sender info)) expedited) \<or>
      (\<exists>k vote. forwarded = GovCastVote k vote (Some (sender info)))"
    by (rule sends_to_governance[OF assms(1,2)])
  then show ?thesis using assms(3) no_power_for_another
    by (auto simp: submit_proposal_def cast_vote_def Let_def res_ok elim!: rbind_InrE split: if_split_asm)
qed

theorem votes_through_vesting_are_refused_witness:
  "\<exists>st' r. ve_execute demo_lib ve_demo_querier (ve_demo_st 0) (demo_env 1000) (demo_info ''alice'' []) (VeCastVote 2 VoteFor)
      = Inr (st', r) \<and> vr_messages r = [VeGov ''gov'' (GovCastVote 2 VoteFor (Some ''alice''))] \<and>
    (\<forall>G gst GQ genv result. gov_execute G gst GQ genv \<lparr>sender = ''queue'', funds = []\<rparr> (GovCastVote 2 VoteFor (Some ''alice''))
       \<noteq> Inr result)"
proof -
  obtain st' r where run: "ve_execute demo_lib ve_demo_querier (ve_demo_st 0) (demo_env 1000) (demo_info ''alice'' [])
      (VeCastVote 2 VoteFor) = Inr (st', r)" and r: "vr_messages r = [VeGov ''gov'' (GovCastVote 2 VoteFor (Some ''alice''))]"
    by (simp add: ve_cast_vote_def ve_config_load_def ve_recipients_load_def ve_demo)
  have "VeGov ''gov'' (GovCastVote 2 VoteFor (Some ''alice'')) \<in> set (vr_messages r)" by (simp add: r)
  moreover have "sender (demo_info ''alice'' []) \<noteq> contract_address (demo_env 1000)" by (simp add: ve_demo)
  ultimately have "\<forall>result. gov_execute G gst GQ genv \<lparr>sender = ''queue'', funds = []\<rparr>
      (GovCastVote 2 VoteFor (Some ''alice'')) \<noteq> Inr result" for G gst GQ genv
    using votes_through_vesting_are_refused[OF run] unfolding demo_env_def by (simp del: gov_execute.simps)
  then show ?thesis using run r by blast
qed

end
