(* ===== verification/Staking_Facts.thy ===== *)
theory Staking_Facts
  imports Staking_Contract
begin

text \<open>
  Staking: what claiming, paying and unstaking do to the deposits and the totals.
\<close>

section \<open>The store of deposits\<close>

lemma store_save_back: "store_load m k = Some v \<Longrightarrow> store_save k v (store_save k x m) = m"
  by (induction m) (auto simp: store_load_def store_save_def split: if_split_asm)

lemma map_state_length: "map_state f xs s = (t, ys) \<Longrightarrow> length ys = length xs"
  by (induction xs arbitrary: s t ys) (auto simp: Let_def split: prod.splits)

section \<open>Claiming\<close>

text \<open>What may change when a user claims: its own deposits, delegations and the delegates' claims.\<close>

definition claim_frame :: "addr \<Rightarrow> staking_storage \<Rightarrow> staking_storage \<Rightarrow> bool" where
  "claim_frame u st st' \<longleftrightarrow> (\<forall>v. v \<noteq> u \<longrightarrow> staked st' v = staked st v) \<and>
     SK_STAKING_TOTALS st' = SK_STAKING_TOTALS st \<and> SK_FEE_EVENTS st' = SK_FEE_EVENTS st"

lemma claim_frame_refl [simp]: "claim_frame u st st"
  by (simp add: claim_frame_def)

lemma claim_frame_trans: "claim_frame u a b \<Longrightarrow> claim_frame u b c \<Longrightarrow> claim_frame u a c"
  by (simp add: claim_frame_def)

lemma claim_frame_save [simp]:
  "claim_frame u st (sk_save_staked u ds st)" "claim_frame u st (sk_save_delegations v i st)"
  "claim_frame u st (st\<lparr>SK_DELEGATE_CLAIMS := c\<rparr>)" "claim_frame u st (st\<lparr>SK_CONFIG := k\<rparr>)"
  "claim_frame u st (st\<lparr>SK_VESTING_STAKE_TIME := t\<rparr>)"
  by (simp_all add: claim_frame_def)

lemma accrue_delegate_frame: "accrue_delegate now v d st = Inr st' \<Longrightarrow> claim_frame u st st'"
  unfolding accrue_delegate_def Let_def by (auto elim!: rbind_InrE simp: claim_frame_def)

lemma claim_for_delegate_frame: "claim_for_delegate c i env es v d st = Inr st' \<Longrightarrow> claim_frame u st st'"
  unfolding claim_for_delegate_def Let_def
  by (elim handlerE) (auto dest!: accrue_delegate_frame[of _ _ _ _ _ u] intro: claim_frame_trans)

lemma claim_deposits_frame:
  assumes "claim_deposits c i env es u ds info st = Inr (st', claims, n)"
  shows "claim_frame u st st'"
proof -
  have loop: "claim_frame u st1 st2" if "rfold (claim_for_delegate c i env es u) xs st1 = Inr st2" for xs st1 st2
    by (rule rfold_invariant[where I = "claim_frame u st1", OF _ _ that])
      (auto intro: claim_frame_trans claim_for_delegate_frame)
  show ?thesis using assms unfolding claim_deposits_def Let_def
    by (auto elim!: handlerE dest!: loop intro: claim_frame_trans[OF claim_frame_save(1)] split: if_split_asm)
qed

lemma get_user_claimables_frame:
  assumes "get_user_claimables st env u = Inr (st', claims, n)"
  shows "claim_frame u st st'"
  using assms unfolding get_user_claimables_def Let_def
  by (auto elim!: handlerE dest!: claim_deposits_frame simp: claim_vesting_def Let_def claim_frame_def
      split: if_split_asm option.splits)

text \<open>Without delegations a claim replaces the user's deposits and nothing else.\<close>

lemma get_user_claimables_plain:
  assumes "get_user_claimables st env u = Inr (st', claims, n)" and "staked st u = Some ds" and "ds \<noteq> []"
    and "delegations st u = None"
  shows "\<exists>xs. st' = sk_save_staked u xs st"
  using assms unfolding get_user_claimables_def Let_def
  by (auto elim!: handlerE simp: claim_deposits_def Let_def)

section \<open>Paying\<close>

fun sk_mints :: "cosmos_msg \<Rightarrow> uint128" where
  "sk_mints (WasmExecute proxy (MintTokens denom n to) coins) = n"
| "sk_mints m = 0"

text \<open>The MBRN that the messages of a response mint.\<close>

fun sk_minted :: "staking_msg \<Rightarrow> uint128" where
  "sk_minted (SkCosmos m) = sk_mints m"
| "sk_minted m = 0"

lemma native_claim_coins_keep:
  assumes "native_claim_coins claims coins = Inr coins'"
  shows "set coins \<subseteq> set coins'"
  by (rule rfold_invariant[where I = "\<lambda>cs. set coins \<subseteq> set cs", OF _ _ assms[unfolded native_claim_coins_def]])
    (auto elim!: rbind_InrE split: AssetInfo.splits)

lemma add_staking_deposit_effect:
  assumes "add_staking_deposit st env config u n = Inr st'"
  shows "\<exists>d. sd_amount d = n \<and> SK_STAKED st' = store_save u (or_default (staked st u) [] @ [d]) (SK_STAKED st)"
  using assms unfolding add_staking_deposit_def Let_def
  by (intro exI[of _ "\<lparr>sd_staker = u, sd_amount = n, sd_stake_time = time_seconds env, sd_unstake_start_time = None,
    sd_last_accrued = None\<rparr>"]) (auto elim!: rbind_InrE split: if_split_asm)

lemma create_rewards_effect:
  assumes "create_rewards_msgs L Q st env config claims n u coins = Inr (st', msgs)" and "lib_addr_validate L u = Inr u"
  shows "(\<forall>v. v \<noteq> u \<longrightarrow> staked st' v = staked st v) \<and>
    (\<exists>new. staked st' u = (case staked st u of Some ds \<Rightarrow> Some (ds @ new) | None \<Rightarrow> if new = [] then None else Some new) \<and>
       deposits_total new = sum_list (map sk_mints msgs))"
proof -
  obtain coins1 st1 interest st2 mints sends cs where
    load: "(case SK_DELEGATE_CLAIMS st u of
        Some (claims, interest) \<Rightarrow> rbind (u128_add n interest) (\<lambda>n.
          Inr (st\<lparr>SK_DELEGATE_CLAIMS := (SK_DELEGATE_CLAIMS st)(u := None)\<rparr>, n, coins1 @ claims))
      | None \<Rightarrow> Inr (st, n, coins1)) = (Inr (st1, interest, cs) :: (std_error, _) result)"
    and s2: "(if interest \<noteq> 0 then rbind (add_staking_deposit st1 env config u interest) (\<lambda>st.
              rbind (unwrap (kc_osmosis_proxy config)) (\<lambda>proxy.
              Inr (st, [WasmExecute proxy (MintTokens (kc_mbrn_denom config) interest (contract_address env)) []])))
            else Inr (st1, [])) = (Inr (st2, mints) :: (std_error, _) result)"
    and sends: "send_native_claims Q env u cs = Inr sends" and r: "st' = st2" "msgs = mints @ sends"
    using assms unfolding create_rewards_msgs_def
    by (elim handlerE, clarsimp)
  have s1: "SK_STAKED st1 = SK_STAKED st" using load by (auto elim!: rbind_InrE split: option.splits)
  have "sum_list (map sk_mints sends) = 0" using sends
    by (auto simp: send_native_claims_def Let_def elim!: rbind_InrE split: if_split_asm)
  moreover have "st2 = st1 \<and> mints = [] \<or> (\<exists>d. SK_STAKED st2 = store_save u (or_default (staked st1 u) [] @ [d]) (SK_STAKED st1) \<and>
      sum_list (map sk_mints mints) = sd_amount d)"
    using s2 by (auto elim!: rbind_InrE dest!: add_staking_deposit_effect split: if_split_asm)
  ultimately show ?thesis
  proof (elim disjE exE conjE)
    assume "st2 = st1" "mints = []" "sum_list (map sk_mints sends) = 0"
    then show ?thesis using s1 r by (intro conjI exI[of _ "[]"]) (auto split: option.split)
  next
    fix d assume d: "SK_STAKED st2 = store_save u (or_default (staked st1 u) [] @ [d]) (SK_STAKED st1)"
      "sum_list (map sk_mints mints) = sd_amount d" "sum_list (map sk_mints sends) = 0"
    then show ?thesis using s1 r
      by (intro conjI exI[of _ "[d]"]) (auto simp del: sum_list_eq_0_iff split: option.split)
  qed
qed

lemma create_rewards_pays:
  assumes "create_rewards_msgs L Q st env config claims n u coins = Inr (st', msgs)" and "c \<in> set coins" and "c_amount c \<noteq> 0"
    and "kq_all_balances Q (contract_address env) = Inr balances" and "c_denom c \<in> c_denom ` set balances"
  shows "\<exists>cs. BankSend u cs \<in> set msgs \<and> c \<in> set cs"
proof -
  obtain staker coins1 st1 interest cs sends where native: "native_claim_coins claims coins = Inr coins1"
    and load: "(case SK_DELEGATE_CLAIMS st staker of
        Some (claims, interest) \<Rightarrow> rbind (u128_add n interest) (\<lambda>n.
          Inr (st\<lparr>SK_DELEGATE_CLAIMS := (SK_DELEGATE_CLAIMS st)(staker := None)\<rparr>, n, coins1 @ claims))
      | None \<Rightarrow> Inr (st, n, coins1)) = (Inr (st1, interest, cs) :: (std_error, _) result)"
    and sends: "send_native_claims Q env u cs = Inr sends" "set sends \<subseteq> set msgs"
    using assms(1) unfolding create_rewards_msgs_def by (elim handlerE, clarsimp)
  have "set coins1 \<subseteq> set cs" using load by (auto elim!: rbind_InrE split: option.splits)
  then have c: "c \<in> set cs" using native_claim_coins_keep[OF native] assms(2) by blast
  let ?sent = "filter (\<lambda>c. find (\<lambda>balance. c_denom balance = c_denom c) balances \<noteq> None)
      (sort_key c_denom (filter (\<lambda>c. c_amount c \<noteq> 0 \<and> 0 < c_amount c) cs))"
  have sent: "c \<in> set ?sent" using c assms(3,5) by (auto simp: find_None_iff)
  then have ne: "?sent \<noteq> []" by (metis empty_iff empty_set)
  have "cs \<noteq> []" using c by auto
  then have "send_native_claims Q env u cs = Inr (if ?sent \<noteq> [] then [BankSend u ?sent] else [])"
    using assms(4) by (simp add: send_native_claims_def Let_def answered_def)
  then have "sends = [BankSend u ?sent]" using sends(1) ne by (simp only: if_True sum.inject not_False_eq_True)
  then show ?thesis using sends(2) sent by (intro exI[of _ ?sent]) simp
qed

section \<open>Unstaking\<close>

definition matured_deposits :: "Env \<Rightarrow> staking_config \<Rightarrow> StakeDeposit list \<Rightarrow> StakeDeposit list" where
  "matured_deposits env config ds = filter (\<lambda>d. withdrawable_deposit env config d = Inr True) ds"

lemma sk_withdraw_effect:
  assumes "sk_withdraw_from_state st env u n = Inr (st', claims, interest, withdrawable)" and "staked st u = Some ds"
    and "SK_CONFIG st = Some config"
  shows "withdrawable = deposits_total (matured_deposits env config ds) \<and> claim_frame u st st' \<and> staked st' u \<noteq> None"
proof -
  obtain st1 ds' where claimed: "get_user_claimables st env u = Inr (st1, claims, interest)"
    and st': "st' = sk_save_staked u ds' st1"
    and w: "rbind (rfilter (withdrawable_deposit env config) ds) (\<lambda>m. u128_sum (map sd_amount m)) = (Inr withdrawable :: (std_error, _) result)"
    using assms unfolding sk_withdraw_from_state_def Let_def
    by (elim handlerE case_prod_app_InrE, clarsimp simp: sk_load_ok)
  have "withdrawable = deposits_total (matured_deposits env config ds)"
    using w by (auto simp: rfilter_ok res_ok matured_deposits_def elim!: rbind_InrE)
  then show ?thesis using st' claim_frame_trans[OF get_user_claimables_frame[OF claimed] claim_frame_save(1)] by simp
qed

lemma undelegate_loop_staked:
  "undelegate_loop user ds st info n is = Inr (st', info', is') \<Longrightarrow> SK_STAKED st' = SK_STAKED st"
proof (induction user ds st info n "is" rule: undelegate_loop.induct)
  case (2 user i d rest st info n "is")
  then show ?case by (auto elim!: rbind_InrE split: if_split_asm)
qed simp

lemma undelegate_excess_staked:
  "undelegate_excess user total_stake w info st = Inr st' \<Longrightarrow> SK_STAKED st' = SK_STAKED st"
  unfolding undelegate_excess_def Let_def
  by (auto elim!: handlerE dest!: undelegate_loop_staked split: if_split_asm)

lemma stake_of_ok: "stake_of st u = Inr n \<longleftrightarrow> (\<exists>ds. staked st u = Some ds \<and> n = deposits_total ds \<and> (ds = [] \<or> n < U128_BOUND))"
  by (auto simp: stake_of_def res_ok rbind_eq_Inr)

text \<open>The steps of an unstake: the claim, the check of the deposits, the payment, the totals.\<close>

lemma unstake_steps:
  assumes "unstake L Q st env info amount = Inr (st', r)"
  obtains config stake_before asked st1 claims interest w stake_after st2 coins st3 msgs totals totals'
  where "SK_CONFIG st = Some config" and "can_this_addr_unstake Q (sender info) config = Inr ()"
    and "stake_of st (sender info) = Inr stake_before" and "asked = min (or_default amount stake_before) stake_before"
    and "sk_withdraw_from_state st env (sender info) asked = Inr (st1, claims, interest, w)"
    and "stake_of st1 (sender info) = Inr stake_after" and "w + stake_after = stake_before"
    and "w = 0 \<and> st2 = st1 \<and> coins = [] \<or> w \<noteq> 0 \<and> SK_STAKED st2 = SK_STAKED st1 \<and>
      coins = [\<lparr>c_denom = kc_mbrn_denom config, c_amount = w\<rparr>]"
    and "create_rewards_msgs L Q st2 env config claims interest (sender info) coins = Inr (st3, msgs)"
    and "SK_STAKING_TOTALS st3 = Some totals" and "lower_totals config (sender info) (asked - w) totals = Inr totals'"
    and "st' = st3\<lparr>SK_STAKING_TOTALS := Some totals'\<rparr>" and "kr_messages r = plain msgs"
proof -
  obtain config stake_before asked st1 claims interest w stake_after discrepancy st2 coins st3 msgs totals totals' where
    s: "SK_CONFIG st = Some config" "can_this_addr_unstake Q (sender info) config = Inr ()"
      "stake_of st (sender info) = Inr stake_before" "asked = min (or_default amount stake_before) stake_before"
      "sk_withdraw_from_state st env (sender info) asked = Inr (st1, claims, interest, w)"
      "stake_of st1 (sender info) = Inr stake_after"
    and check: "(if stake_before < w then Inr True
            else rbind (u128_add w stake_after) (\<lambda>n. Inr (n \<noteq> stake_before))) = (Inr discrepancy :: bool staking_result)" "\<not> discrepancy"
    and pay: "(if w \<noteq> 0 then
                rbind (map_err SkStd (asset_to_coin
                    \<lparr>a_info = NativeToken (kc_mbrn_denom config), a_amount = w\<rparr>)) (\<lambda>coin.
                rbind (case delegations st1 (sender info) of
                         Some staker_info \<Rightarrow>
                           map_err SkStd (undelegate_excess (sender info) stake_before w staker_info st1)
                       | None \<Rightarrow> Inr st1) (\<lambda>st.
                Inr (st, [coin])))
              else Inr (st1, [])) = Inr (st2, coins)"
    and rest: "create_rewards_msgs L Q st2 env config claims interest (sender info) coins = Inr (st3, msgs)"
      "SK_STAKING_TOTALS st3 = Some totals"
      "lower_totals config (sender info) (if asked \<le> w then 0 else asked - w) totals = Inr totals'"
      "st' = st3\<lparr>SK_STAKING_TOTALS := Some totals'\<rparr>" "kr_messages r = plain msgs"
    using assms unfolding unstake_def Let_def
    by (elim handlerE case_prod_app_InrE, clarsimp simp: map_err_eq_Inr sk_load_ok)
  have total: "w + stake_after = stake_before" using check by (auto simp: int_ok elim!: rbind_InrE split: if_split_asm)
  have coins: "w = 0 \<and> st2 = st1 \<and> coins = [] \<or> w \<noteq> 0 \<and> SK_STAKED st2 = SK_STAKED st1 \<and>
      coins = [\<lparr>c_denom = kc_mbrn_denom config, c_amount = w\<rparr>]"
    using pay by (auto elim!: rbind_InrE simp: map_err_eq_Inr asset_to_coin_def dest!: undelegate_excess_staked
        split: if_split_asm option.splits)
  have asked: "(if asked \<le> w then 0 else asked - w) = asked - w" by simp
  show ?thesis by (rule that[OF s total coins rest(1,2) rest(3)[unfolded asked] rest(4,5)])
qed

end
