(* ===== verification/Staking_Properties.thy ===== *)
theory Staking_Properties
  imports Staking_Facts Liq_Demo
begin

text \<open>
  Staking: the properties of deposits, rewards and fees, each with its application to a concrete contract.
\<close>

section \<open>A concrete contract\<close>

text \<open>alice staked 1000 at time 100, bob 500 at time 300; a fee of 2 CDT for each staked token came at time 200.\<close>

definition sk_demo_config :: staking_config where
  "sk_demo_config = \<lparr>kc_owner = ''gov'', kc_mbrn_denom = ''mbrn'', kc_incentive_schedule = \<lparr>sdn_rate = 0, sdn_duration = 0\<rparr>,
     kc_unstaking_period = 4, kc_max_commission_rate = 100000000000000000, kc_keep_raw_cdt = True,
     kc_vesting_rev_multiplier = 200000000000000000, kc_positions_contract = Some ''cdp'',
     kc_auction_contract = Some ''auction'', kc_vesting_contract = None, kc_governance_contract = Some ''gov'',
     kc_osmosis_proxy = Some ''proxy''\<rparr>"

definition sk_demo_deposit :: "addr \<Rightarrow> uint128 \<Rightarrow> u64 \<Rightarrow> u64 option \<Rightarrow> StakeDeposit" where
  "sk_demo_deposit u n time start = \<lparr>sd_staker = u, sd_amount = n, sd_stake_time = time, sd_unstake_start_time = start,
     sd_last_accrued = None\<rparr>"

definition sk_demo_event :: FeeEvent where
  "sk_demo_event = \<lparr>fe_time_of_event = 200, fe_fee = \<lparr>la_info = NativeToken ''cdt'', la_amount = 2000000000000000000\<rparr>\<rparr>"

definition sk_demo_st :: "StakeDeposit list \<Rightarrow> staking_storage" where
  "sk_demo_st ds = \<lparr>SK_CONFIG = Some sk_demo_config, SK_STAKING_TOTALS = Some \<lparr>to_stakers = 1500, to_vesting_contract = 0\<rparr>,
     SK_STAKED = [(''alice'', ds), (''bob'', [sk_demo_deposit ''bob'' 500 300 None])], SK_DELEGATIONS = [],
     SK_DELEGATE_CLAIMS = (\<lambda>_. None), SK_FEE_EVENTS = Some [sk_demo_event],
     SK_INCENTIVE_SCHEDULING = Some \<lparr>sdl_ownership_distribution = \<lparr>sdn_rate = 0, sdn_duration = 0\<rparr>, sdl_start_time = 0\<rparr>,
     SK_DELEGATE_INFO = Some [], SK_VESTING_STAKE_TIME = None, SK_VESTING_REV_MULTIPLIER = None,
     SK_OWNERSHIP_TRANSFER = None, SK_CONTRACT = None\<rparr>"

definition sk_demo_querier :: staking_querier where
  "sk_demo_querier = \<lparr>kq_recipients = (\<lambda>_. Inr []),
     kq_active_proposals = (\<lambda>_ _ _. Inr \<lparr>pl_proposal_count = 0, pl_proposal_list = []\<rparr>),
     kq_proposal_voters = (\<lambda>_ _ _ _ _ _. Inl OverflowErr), kq_basket = (\<lambda>_. Inl Panic),
     kq_all_balances = (\<lambda>_. Inr [\<lparr>c_denom = ''cdt'', c_amount = 90000\<rparr>, \<lparr>c_denom = ''mbrn'', c_amount = 1500\<rparr>])\<rparr>"

lemmas sk_demo = sk_demo_config_def sk_demo_deposit_def sk_demo_event_def sk_demo_querier_def demo_env_def demo_info_def demo_lib_def
  time_seconds_def

lemmas sk_demo_eval = unstake_def can_this_addr_unstake_def stake_of_def u128_sum_def u128_add_def u128_sub_def U128_BOUND_def
  sk_withdraw_from_state_def sk_load_def withdrawable_deposit_def pending_deposit_def matured_def u64_sub_def u64_mul_def
  U64_BOUND_def SK_SECONDS_PER_DAY_def unstake_turn_def get_user_claimables_def claim_deposits_def add_deposit_claimables_def
  get_deposit_claimables_def accrued_since_def get_delegation_commission_def apply_commission_def event_claims_def
  uint128_mul_dec_def DECIMAL_FRACTIONAL_def add_claim_def find_index_of_def create_rewards_msgs_def native_claim_coins_def
  asset_to_coin_def send_native_claims_def answered_def lower_totals_def Let_def store_load_def store_save_def sk_save_staked_def

lemma sk_demo_st_simps [simp]:
  "SK_CONFIG (sk_demo_st ds) = Some sk_demo_config"
  "SK_STAKED (sk_demo_st ds) = [(''alice'', ds), (''bob'', [sk_demo_deposit ''bob'' 500 300 None])]"
  "SK_DELEGATIONS (sk_demo_st ds) = []" "SK_DELEGATE_CLAIMS (sk_demo_st ds) = (\<lambda>_. None)"
  "SK_FEE_EVENTS (sk_demo_st ds) = Some [sk_demo_event]"
  "SK_STAKING_TOTALS (sk_demo_st ds) = Some \<lparr>to_stakers = 1500, to_vesting_contract = 0\<rparr>"
  "SK_INCENTIVE_SCHEDULING (sk_demo_st ds) =
     Some \<lparr>sdl_ownership_distribution = \<lparr>sdn_rate = 0, sdn_duration = 0\<rparr>, sdl_start_time = 0\<rparr>"
  by (simp_all add: sk_demo_st_def)

abbreviation demo_alice :: MessageInfo where "demo_alice \<equiv> demo_info ''alice'' []"

lemma sk_demo_unstakes:
  "\<exists>st' r. sk_execute demo_lib sk_demo_querier (sk_demo_st [sk_demo_deposit ''alice'' 1000 100 None,
     sk_demo_deposit ''alice'' 400 100 (Some 150)]) (demo_env 400000) demo_alice (SkUnstake (Some 400)) = Inr (st', r)"
  by (simp add: sk_demo_eval sk_demo)

lemma sk_demo_zero:
  "\<exists>st' r. sk_execute demo_lib sk_demo_querier (sk_demo_st [sk_demo_deposit ''alice'' 1000 100 None])
     (demo_env 1000) demo_alice (SkUnstake (Some 0)) = Inr (st', r)"
  by (simp add: sk_demo_eval sk_demo)

lemma sk_demo_claims:
  "\<exists>st0. get_user_claimables (sk_demo_st [sk_demo_deposit ''alice'' 1000 100 None]) (demo_env 1000) ''alice'' =
     Inr (st0, [\<lparr>a_info = NativeToken ''cdt'', a_amount = 2000\<rparr>], 0)"
  by (simp add: sk_demo_eval sk_demo)

section \<open>Unstaking\<close>

text \<open>
  C9. An accepted unstake pays exactly the deposits of the sender whose unstaking period is over: the stake the sender
  keeps is the stake before, less those, plus the rewards that are minted and staked; the deposits of every other staker
  stay as they are; and what is withdrawn is in the coins sent to the sender.
\<close>

theorem unstaking_conserves_the_stake:
  assumes "sk_execute L Q st env info (SkUnstake n) = Inr (st', r)" and "SK_CONFIG st = Some config"
    and "lib_addr_validate L (sender info) = Inr (sender info)" and "staked st (sender info) = Some ds"
    and "kq_all_balances Q (contract_address env) = Inr balances" and "kc_mbrn_denom config \<in> c_denom ` set balances"
  shows "(\<exists>ds'. staked st' (sender info) = Some ds' \<and>
      deposits_total ds' + deposits_total (matured_deposits env config ds) =
      deposits_total ds + sum_list (map sk_minted (kr_messages r))) \<and>
    (\<forall>v. v \<noteq> sender info \<longrightarrow> staked st' v = staked st v) \<and>
    (deposits_total (matured_deposits env config ds) = 0 \<or>
     (\<exists>coins. SkCosmos (BankSend (sender info) coins) \<in> set (kr_messages r) \<and>
       \<lparr>c_denom = kc_mbrn_denom config, c_amount = deposits_total (matured_deposits env config ds)\<rparr> \<in> set coins))"
proof -
  let ?u = "sender info"
  have "unstake L Q st env info n = Inr (st', r)" using assms(1) by simp
  then obtain config' stake_before asked st1 claims interest w stake_after st2 coins st3 msgs totals totals' where
    s: "SK_CONFIG st = Some config'" "stake_of st ?u = Inr stake_before"
      "sk_withdraw_from_state st env ?u asked = Inr (st1, claims, interest, w)" "stake_of st1 ?u = Inr stake_after"
      "w + stake_after = stake_before"
    and pay: "w = 0 \<and> st2 = st1 \<and> coins = [] \<or> w \<noteq> 0 \<and> SK_STAKED st2 = SK_STAKED st1 \<and>
      coins = [\<lparr>c_denom = kc_mbrn_denom config', c_amount = w\<rparr>]"
    and rewards: "create_rewards_msgs L Q st2 env config' claims interest ?u coins = Inr (st3, msgs)"
    and st': "st' = st3\<lparr>SK_STAKING_TOTALS := Some totals'\<rparr>" "kr_messages r = plain msgs"
    by (rule unstake_steps) blast
  have c: "config' = config" using s(1) assms(2) by simp
  have w: "w = deposits_total (matured_deposits env config ds)" and frame: "claim_frame ?u st st1"
    using sk_withdraw_effect[OF s(3) assms(4,2)] by simp_all
  have staked2: "SK_STAKED st2 = SK_STAKED st1" using pay by blast
  obtain ds1 where ds1: "staked st1 ?u = Some ds1" "stake_after = deposits_total ds1" using s(4) by (auto simp: stake_of_ok)
  have before: "stake_before = deposits_total ds" using s(2) assms(4) by (simp add: stake_of_ok)
  obtain new where "staked st3 ?u = Some (ds1 @ new)" "deposits_total new = sum_list (map sk_mints msgs)"
    and others: "\<forall>v. v \<noteq> ?u \<longrightarrow> staked st3 v = staked st2 v"
    using create_rewards_effect[OF rewards assms(3)] staked2 ds1(1) by auto
  then have "\<exists>ds'. staked st' ?u = Some ds' \<and> deposits_total ds' + w = deposits_total ds + sum_list (map sk_minted (kr_messages r))"
    using st' ds1(2) before s(5) by (intro exI[of _ "ds1 @ new"]) (simp add: comp_def)
  moreover have "\<forall>v. v \<noteq> ?u \<longrightarrow> staked st' v = staked st v"
    using others staked2 frame st'(1) by (simp add: claim_frame_def)
  moreover have "w = 0 \<or> (\<exists>coins. SkCosmos (BankSend ?u coins) \<in> set (kr_messages r) \<and>
      \<lparr>c_denom = kc_mbrn_denom config, c_amount = w\<rparr> \<in> set coins)"
    using pay create_rewards_pays[OF rewards _ _ assms(5), of "\<lparr>c_denom = kc_mbrn_denom config, c_amount = w\<rparr>"] assms(6) c st'(2)
    by fastforce
  ultimately show ?thesis unfolding w by blast
qed

theorem unstaking_conserves_the_stake_witness:
  "\<exists>st' r coins. sk_execute demo_lib sk_demo_querier (sk_demo_st [sk_demo_deposit ''alice'' 1000 100 None,
     sk_demo_deposit ''alice'' 400 100 (Some 150)]) (demo_env 400000) demo_alice (SkUnstake (Some 400)) = Inr (st', r) \<and>
   SkCosmos (BankSend ''alice'' coins) \<in> set (kr_messages r) \<and> \<lparr>c_denom = ''mbrn'', c_amount = 400\<rparr> \<in> set coins \<and>
   staked st' ''bob'' = Some [sk_demo_deposit ''bob'' 500 300 None]"
proof -
  let ?ds = "[sk_demo_deposit ''alice'' 1000 100 None, sk_demo_deposit ''alice'' 400 100 (Some 150)]"
  obtain st' r where run: "sk_execute demo_lib sk_demo_querier (sk_demo_st ?ds) (demo_env 400000) demo_alice (SkUnstake (Some 400))
      = Inr (st', r)" using sk_demo_unstakes by blast
  have f: "sender demo_alice = ''alice''" "kc_mbrn_denom sk_demo_config = ''mbrn''"
    "deposits_total (matured_deposits (demo_env 400000) sk_demo_config ?ds) = 400"
    by (simp_all add: matured_deposits_def sk_demo_eval sk_demo)
  have b: "kq_all_balances sk_demo_querier (contract_address (demo_env 400000)) =
      Inr [\<lparr>c_denom = ''cdt'', c_amount = 90000\<rparr>, \<lparr>c_denom = ''mbrn'', c_amount = 1500\<rparr>]" by (simp add: sk_demo)
  have s: "staked (sk_demo_st ?ds) (sender demo_alice) = Some ?ds" "lib_addr_validate demo_lib (sender demo_alice) = Inr (sender demo_alice)"
    "staked (sk_demo_st ?ds) ''bob'' = Some [sk_demo_deposit ''bob'' 500 300 None]"
    by (simp_all add: store_load_def sk_demo)
  have "(\<forall>v. v \<noteq> ''alice'' \<longrightarrow> staked st' v = staked (sk_demo_st ?ds) v) \<and>
      (\<exists>coins. SkCosmos (BankSend ''alice'' coins) \<in> set (kr_messages r) \<and> \<lparr>c_denom = ''mbrn'', c_amount = 400\<rparr> \<in> set coins)"
    using unstaking_conserves_the_stake[OF run sk_demo_st_simps(1) s(2,1) b] unfolding f by simp
  then show ?thesis using run s(3) by fastforce
qed

text \<open>What \<open>create_rewards_msgs\<close> sends and stores: a message that mints the interest, and the claims.\<close>

definition left_claims :: "(Coin list \<times> uint128) option \<Rightarrow> Coin list" where
  "left_claims entry = (case entry of None \<Rightarrow> [] | Some (claims, _) \<Rightarrow> claims)"

definition left_interest :: "(Coin list \<times> uint128) option \<Rightarrow> uint128" where
  "left_interest entry = (case entry of None \<Rightarrow> 0 | Some (_, interest) \<Rightarrow> interest)"

lemma create_rewards_steps:
  assumes "create_rewards_msgs L Q st env config claims n u coins = Inr (st', msgs)" and "lib_addr_validate L u = Inr u"
  obtains coins1 mints sends where "native_claim_coins claims coins = Inr coins1"
    and "send_native_claims Q env u (coins1 @ left_claims (SK_DELEGATE_CLAIMS st u)) = Inr sends" and "msgs = mints @ sends"
    and "sum_list (map sk_mints mints) = n + left_interest (SK_DELEGATE_CLAIMS st u)" and "sum_list (map sk_mints sends) = 0"
    and "SK_FEE_EVENTS st' = SK_FEE_EVENTS st"
    and "n = 0 \<and> SK_DELEGATE_CLAIMS st u = None \<longrightarrow> st' = st"
proof -
  obtain coins1 st1 interest st2 mints sends cs where native: "native_claim_coins claims coins = Inr coins1"
    and load: "(case SK_DELEGATE_CLAIMS st u of
        Some (claims, interest) \<Rightarrow> rbind (u128_add n interest) (\<lambda>n.
          Inr (st\<lparr>SK_DELEGATE_CLAIMS := (SK_DELEGATE_CLAIMS st)(u := None)\<rparr>, n, coins1 @ claims))
      | None \<Rightarrow> Inr (st, n, coins1)) = (Inr (st1, interest, cs) :: (std_error, _) result)"
    and s2: "(if interest \<noteq> 0 then rbind (add_staking_deposit st1 env config u interest) (\<lambda>st.
              rbind (unwrap (kc_osmosis_proxy config)) (\<lambda>proxy.
              Inr (st, [WasmExecute proxy (MintTokens (kc_mbrn_denom config) interest (contract_address env)) []])))
            else Inr (st1, [])) = (Inr (st2, mints) :: (std_error, _) result)"
    and sends: "send_native_claims Q env u cs = Inr sends" and r: "st' = st2" "msgs = mints @ sends"
    using assms unfolding create_rewards_msgs_def
    by (elim handlerE, clarsimp)
  have s1: "SK_FEE_EVENTS st1 = SK_FEE_EVENTS st" "interest = n + left_interest (SK_DELEGATE_CLAIMS st u)"
    "cs = coins1 @ left_claims (SK_DELEGATE_CLAIMS st u)" "SK_DELEGATE_CLAIMS st u = None \<longrightarrow> st1 = st"
    using load by (auto elim!: rbind_InrE simp: left_claims_def left_interest_def int_ok split: option.splits)
  have m: "sum_list (map sk_mints mints) = interest" "SK_FEE_EVENTS st2 = SK_FEE_EVENTS st1" "interest = 0 \<longrightarrow> st2 = st1"
    using s2 by (auto elim!: rbind_InrE simp: add_staking_deposit_def Let_def sk_save_staked_def split: if_split_asm)
  have "sum_list (map sk_mints sends) = 0" using sends
    by (auto simp: send_native_claims_def Let_def elim!: rbind_InrE split: if_split_asm)
  with native sends s1 m r show ?thesis by (intro that[of coins1 sends mints]) (auto simp: left_interest_def)
qed

text \<open>
  C22. An unstake of zero by a staker none of whose deposits is unstaking or empty pays the claims and writes the
  deposits back as they were before the claim marked them as paid, with the fee events as they were: what is
  new in the sender's deposits is the interest, which is minted and staked once more each time. Without
  interest, delegations and claims of a delegate the whole storage is as before, so the message can be sent
  again for the same coins.
\<close>

theorem zero_unstake_pays_without_a_trace:
  assumes "sk_execute L Q st env info (SkUnstake (Some 0)) = Inr (st', r)" and "staked st (sender info) = Some ds"
    and "ds \<noteq> []" and "\<forall>d\<in>set ds. sd_unstake_start_time d = None \<and> sd_amount d \<noteq> 0"
    and "lib_addr_validate L (sender info) = Inr (sender info)"
  shows "\<exists>st0 claims interest coins sends mints new.
    get_user_claimables st env (sender info) = Inr (st0, claims, interest) \<and> native_claim_coins claims [] = Inr coins \<and>
    send_native_claims Q env (sender info) (coins @ left_claims (SK_DELEGATE_CLAIMS st0 (sender info))) = Inr sends \<and>
    kr_messages r = plain (mints @ sends) \<and>
    staked st' (sender info) = Some (ds @ new) \<and> deposits_total new = sum_list (map sk_mints mints) \<and>
    deposits_total new = interest + left_interest (SK_DELEGATE_CLAIMS st0 (sender info)) \<and>
    SK_FEE_EVENTS st' = SK_FEE_EVENTS st \<and> (\<forall>v. v \<noteq> sender info \<longrightarrow> staked st' v = staked st v) \<and>
    (interest = 0 \<and> delegations st (sender info) = None \<and> SK_DELEGATE_CLAIMS st (sender info) = None \<longrightarrow> st' = st)"
proof -
  let ?u = "sender info"
  have "unstake L Q st env info (Some 0) = Inr (st', r)" using assms(1) by simp
  then obtain config stake_before asked st1 claims interest w stake_after st2 coins st3 msgs totals totals' where
    config: "SK_CONFIG st = Some config" and asked: "asked = min (or_default (Some 0) stake_before) stake_before"
    and withdraw: "sk_withdraw_from_state st env ?u asked = Inr (st1, claims, interest, w)"
    and pay: "w = 0 \<and> st2 = st1 \<and> coins = [] \<or> w \<noteq> 0 \<and> SK_STAKED st2 = SK_STAKED st1 \<and>
      coins = [\<lparr>c_denom = kc_mbrn_denom config, c_amount = w\<rparr>]"
    and rewards: "create_rewards_msgs L Q st2 env config claims interest ?u coins = Inr (st3, msgs)"
    and totals: "SK_STAKING_TOTALS st3 = Some totals" "lower_totals config ?u (asked - w) totals = Inr totals'"
    and st': "st' = st3\<lparr>SK_STAKING_TOTALS := Some totals'\<rparr>" "kr_messages r = plain msgs"
    by (rule unstake_steps) blast
  have a0: "asked = 0" using asked by simp
  have turned: "map_state (unstake_turn now) xs (0, ys) = ((0, ys), xs)" for now xs ys
    by (induction xs) (simp_all add: unstake_turn_def)
  have none: "rfilter (withdrawable_deposit env config) ds = (Inr [] :: (std_error, _) result)"
    "rfilter (pending_deposit env config) ds = (Inr [] :: (std_error, _) result)"
    "filter (\<lambda>d. sd_unstake_start_time d = None) ds = ds" "filter (\<lambda>d. sd_amount d \<noteq> 0) ds = ds"
    using assms(4) by (auto simp: rfilter_ok withdrawable_deposit_def pending_deposit_def)
  obtain st0 where claimed: "get_user_claimables st env ?u = Inr (st0, claims, interest)"
    and st1: "st1 = sk_save_staked ?u ds st0" and w0: "w = 0"
    using withdraw config assms(2) none turned unfolding a0
    by (auto simp add: sk_withdraw_from_state_def sk_load_def u128_sum_def elim!: rbind_InrE simp del: filter_filter)
  have s2: "st2 = sk_save_staked ?u ds st0" "coins = []" using pay w0 st1 by simp_all
  have dc: "SK_DELEGATE_CLAIMS st2 = SK_DELEGATE_CLAIMS st0" using s2 by (simp add: sk_save_staked_def)
  obtain coins1 mints sends where c: "native_claim_coins claims [] = Inr coins1"
    "send_native_claims Q env ?u (coins1 @ left_claims (SK_DELEGATE_CLAIMS st0 ?u)) = Inr sends" "msgs = mints @ sends"
    "sum_list (map sk_mints mints) = interest + left_interest (SK_DELEGATE_CLAIMS st0 ?u)" "sum_list (map sk_mints sends) = 0"
    "SK_FEE_EVENTS st3 = SK_FEE_EVENTS st2" "interest = 0 \<and> SK_DELEGATE_CLAIMS st0 ?u = None \<longrightarrow> st3 = st2"
    using create_rewards_steps[OF rewards assms(5)] unfolding dc s2(2) by metis
  obtain new where new: "staked st3 ?u = Some (ds @ new)" "deposits_total new = sum_list (map sk_mints msgs)"
    "\<forall>v. v \<noteq> ?u \<longrightarrow> staked st3 v = staked st2 v"
    using create_rewards_effect[OF rewards assms(5)] s2(1) by auto
  have lt: "totals' = totals" using totals(2) a0 by (auto simp: lower_totals_def split: if_split_asm)
  have eq: "st' = st3" using st'(1) totals(1) lt by simp
  have frame: "claim_frame ?u st st0" by (rule get_user_claimables_frame[OF claimed])
  have same: "st' = st" if "interest = 0" "delegations st ?u = None" "SK_DELEGATE_CLAIMS st ?u = None"
  proof -
    have "\<exists>xs. st0 = sk_save_staked ?u xs st" by (rule get_user_claimables_plain[OF claimed assms(2,3) that(2)])
    then obtain xs where xs: "st0 = sk_save_staked ?u xs st" ..
    have "st2 = st" using store_save_back[OF assms(2)] by (simp add: s2 xs sk_save_staked_def)
    moreover have "SK_DELEGATE_CLAIMS st0 ?u = None" using that(3) by (simp add: xs sk_save_staked_def)
    ultimately show ?thesis using c(7) that(1) eq by simp
  qed
  have minted: "deposits_total new = sum_list (map sk_mints mints)" using new(2) c(3,5) by simp
  have fees: "SK_FEE_EVENTS st' = SK_FEE_EVENTS st" using c(6) frame eq s2(1) by (simp add: claim_frame_def sk_save_staked_def)
  have others: "\<forall>v. v \<noteq> ?u \<longrightarrow> staked st' v = staked st v" using new(3) frame eq s2(1) by (simp add: claim_frame_def)
  have msgs: "kr_messages r = plain (mints @ sends)" using st'(2) c(3) by simp
  show ?thesis
    by (intro exI conjI, rule claimed, rule c(1), rule c(2), rule msgs, rule new(1)[folded eq], rule minted,
        rule trans[OF minted c(4)], rule fees, rule others,
        intro impI, elim conjE, rule same)
qed

text \<open>The contract of the example with MBRN interest at nine percent.\<close>

definition sk_interest_st :: "StakeDeposit list \<Rightarrow> staking_storage" where
  "sk_interest_st ds = (sk_demo_st ds)\<lparr>
     SK_CONFIG := Some (sk_demo_config\<lparr>kc_incentive_schedule := \<lparr>sdn_rate = 90000000000000000, sdn_duration = 90\<rparr>\<rparr>),
     SK_INCENTIVE_SCHEDULING := Some \<lparr>sdl_ownership_distribution = \<lparr>sdn_rate = 90000000000000000, sdn_duration = 90\<rparr>,
       sdl_start_time = 0\<rparr>\<rparr>"

abbreviation sk_million :: StakeDeposit where "sk_million \<equiv> sk_demo_deposit ''alice'' 1000000000 100 None"

lemma sk_interest_zero:
  "\<exists>st' r. sk_execute demo_lib sk_demo_querier (sk_interest_st [sk_million]) (demo_env 1000) demo_alice (SkUnstake (Some 0))
     = Inr (st', r)"
  by (simp add: sk_interest_st_def sk_demo_eval sk_demo sk_accumulate_interest_def dec_from_ratio_def dec_checked_mul_def
      SK_SECONDS_PER_YEAR_def add_staking_deposit_def)

lemma sk_interest_claims:
  "\<exists>st0. get_user_claimables (sk_interest_st [sk_million]) (demo_env 1000) ''alice'' =
     Inr (st0, [\<lparr>a_info = NativeToken ''cdt'', a_amount = 2000000000\<rparr>], 2568)"
  by (simp add: sk_interest_st_def sk_demo_eval sk_demo sk_accumulate_interest_def dec_from_ratio_def dec_checked_mul_def
      SK_SECONDS_PER_YEAR_def)

theorem zero_unstake_pays_without_a_trace_witness:
  "\<exists>st' r new. sk_execute demo_lib sk_demo_querier (sk_interest_st [sk_million]) (demo_env 1000) demo_alice (SkUnstake (Some 0))
       = Inr (st', r) \<and> staked st' ''alice'' = Some (sk_million # new) \<and> 2568 \<le> deposits_total new"
proof -
  let ?st = "sk_interest_st [sk_million]"
  obtain st' r where run: "sk_execute demo_lib sk_demo_querier ?st (demo_env 1000) demo_alice (SkUnstake (Some 0)) = Inr (st', r)"
    using sk_interest_zero by blast
  have s: "staked ?st (sender demo_alice) = Some [sk_million]"
    by (simp add: store_load_def demo_info_def sk_interest_st_def)
  obtain st0 claims interest new where
    "get_user_claimables ?st (demo_env 1000) (sender demo_alice) = Inr (st0, claims, interest)"
    "staked st' (sender demo_alice) = Some ([sk_million] @ new)"
    "deposits_total new = interest + left_interest (SK_DELEGATE_CLAIMS st0 (sender demo_alice))"
    using zero_unstake_pays_without_a_trace[OF run s] by (auto simp: demo_info_def demo_lib_def sk_demo_deposit_def)
  then show ?thesis using run sk_interest_claims
    by (intro exI[of _ st'] exI[of _ r] exI[of _ new]) (auto simp: demo_info_def)
qed

section \<open>Fees\<close>

lemma recorded_fees:
  assumes "record_fees Q env config fee_assets st = Inr st'" and "SK_FEE_EVENTS st = Some old" and "SK_STAKING_TOTALS st = Some t"
    and "fee_total Q config t = Inr (t', divisor)"
  shows "\<exists>new. SK_FEE_EVENTS st' = Some (old @ new) \<and>
    list_all2 (\<lambda>asset e. fe_fee e = \<lparr>la_info = a_info asset,
       la_amount = a_amount asset * DECIMAL_FRACTIONAL * DECIMAL_FRACTIONAL div (divisor * DECIMAL_FRACTIONAL)\<rparr>) fee_assets new"
proof -
  obtain d new where d: "dec_of_uint divisor = (Inr d :: (std_error, _) result)"
    and new: "rmapM (fee_event env d) fee_assets = Inr new" and st': "SK_FEE_EVENTS st' = Some (old @ new)"
    using assms unfolding record_fees_def by (elim handlerE, clarsimp simp: sk_load_ok)
  have "d = divisor * DECIMAL_FRACTIONAL" using d
    by (simp add: dec_of_uint_def dec_from_ratio_def Let_def split: if_split_asm)
  then have "list_all2 (\<lambda>asset e. fe_fee e = \<lparr>la_info = a_info asset,
       la_amount = a_amount asset * DECIMAL_FRACTIONAL * DECIMAL_FRACTIONAL div (divisor * DECIMAL_FRACTIONAL)\<rparr>) fee_assets new"
    using new unfolding rmapM_eq_Inr
    by (auto elim!: list.rel_mono_strong rbind_InrE
        simp: fee_event_def dec_of_uint_def dec_from_ratio_def dec_ok Let_def split: if_split_asm)
  then show ?thesis using st' by blast
qed

lemma shares_fit:
  assumes "sum_list ns \<le> divisor" and "0 < divisor"
  shows "(\<Sum>n\<leftarrow>ns. n * (fee * DECIMAL_FRACTIONAL div divisor) div DECIMAL_FRACTIONAL) \<le> fee"
proof -
  have D: "0 < DECIMAL_FRACTIONAL" by (simp add: DECIMAL_FRACTIONAL_def)
  define q where "q = fee * DECIMAL_FRACTIONAL div divisor"
  have q: "divisor * q \<le> fee * DECIMAL_FRACTIONAL" by (simp add: q_def)
  have "(\<Sum>n\<leftarrow>ns. n * q div DECIMAL_FRACTIONAL) * DECIMAL_FRACTIONAL \<le> sum_list ns * q"
    by (induction ns) (auto simp: add_mult_distrib intro!: add_mono)
  also have "\<dots> \<le> divisor * q" using assms(1) by simp
  also note q
  finally have "(\<Sum>n\<leftarrow>ns. n * q div DECIMAL_FRACTIONAL) * DECIMAL_FRACTIONAL \<le> fee * DECIMAL_FRACTIONAL" .
  then show ?thesis using D unfolding q_def by simp
qed

text \<open>
  The rate a fee event records does not overstate the fee: at that rate, and before any commission, stakes that sum
  up to no more than the total stake the fee was divided by are worth together at most the fee.
\<close>

theorem fee_claims_fit_the_fee:
  assumes "record_fees Q env config fee_assets st = Inr st'" and "SK_FEE_EVENTS st = Some old" and "SK_STAKING_TOTALS st = Some t"
    and "fee_total Q config t = Inr (t', divisor)" and "sum_list stakes \<le> divisor"
  shows "\<exists>new. SK_FEE_EVENTS st' = Some (old @ new) \<and>
    list_all2 (\<lambda>asset e. la_info (fe_fee e) = a_info asset \<and>
      (\<Sum>n\<leftarrow>stakes. n * la_amount (fe_fee e) div DECIMAL_FRACTIONAL) \<le> a_amount asset) fee_assets new"
proof -
  obtain new where new: "SK_FEE_EVENTS st' = Some (old @ new)" "list_all2 (\<lambda>asset e. fe_fee e = \<lparr>la_info = a_info asset,
       la_amount = a_amount asset * DECIMAL_FRACTIONAL * DECIMAL_FRACTIONAL div (divisor * DECIMAL_FRACTIONAL)\<rparr>) fee_assets new"
    using recorded_fees[OF assms(1-4)] by blast
  have "0 < divisor" using assms(4) by (auto simp: fee_total_def elim!: handlerE split: if_split_asm)
  then have "list_all2 (\<lambda>asset e. la_info (fe_fee e) = a_info asset \<and>
      (\<Sum>n\<leftarrow>stakes. n * la_amount (fe_fee e) div DECIMAL_FRACTIONAL) \<le> a_amount asset) fee_assets new"
    by (intro list.rel_mono_strong[OF new(2)]) (auto intro!: shares_fit assms(5))
  then show ?thesis using new(1) by blast
qed

definition sk_demo_fee :: Asset where "sk_demo_fee = \<lparr>a_info = NativeToken ''cdt'', a_amount = 2000\<rparr>"

theorem fee_claims_fit_the_fee_witness:
  "\<exists>st' e. record_fees sk_demo_querier (demo_env 1000) sk_demo_config [sk_demo_fee] (sk_demo_st []) = Inr st' \<and>
     SK_FEE_EVENTS st' = Some [sk_demo_event, e] \<and>
     (\<Sum>n\<leftarrow>[1000, 500]. n * la_amount (fe_fee e) div DECIMAL_FRACTIONAL) \<le> 2000"
proof -
  let ?t = "\<lparr>to_stakers = 1500, to_vesting_contract = 0\<rparr>"
  have divisor: "fee_total sk_demo_querier sk_demo_config ?t = Inr (?t, 1500)"
    by (simp add: fee_total_def sk_demo u128_add_def U128_BOUND_def)
  have "\<exists>st'. record_fees sk_demo_querier (demo_env 1000) sk_demo_config [sk_demo_fee] (sk_demo_st []) = Inr st'"
    by (simp add: record_fees_def sk_load_def divisor dec_of_uint_def dec_from_ratio_def fee_event_def decimal_division_def dec_checked_div_def
        sk_demo_fee_def U128_BOUND_def DECIMAL_FRACTIONAL_def Let_def)
  then obtain st' where run: "record_fees sk_demo_querier (demo_env 1000) sk_demo_config [sk_demo_fee] (sk_demo_st []) = Inr st'" ..
  have "\<exists>new. SK_FEE_EVENTS st' = Some ([sk_demo_event] @ new) \<and>
      list_all2 (\<lambda>asset e. la_info (fe_fee e) = a_info asset \<and>
        (\<Sum>n\<leftarrow>[1000, 500]. n * la_amount (fe_fee e) div DECIMAL_FRACTIONAL) \<le> a_amount asset) [sk_demo_fee] new"
    by (rule fee_claims_fit_the_fee[OF run sk_demo_st_simps(5,6) divisor]) simp
  then obtain e where "SK_FEE_EVENTS st' = Some ([sk_demo_event] @ [e])"
      "(\<Sum>n\<leftarrow>[1000, 500]. n * la_amount (fe_fee e) div DECIMAL_FRACTIONAL) \<le> a_amount sk_demo_fee"
    unfolding list_all2_Cons1 by auto
  then show ?thesis using run by (auto simp: sk_demo_fee_def)
qed

text \<open>
  The commission on a delegated stake is credited twice when the delegate claims before the delegator: of a fee of
  2200 for the stakes of 1000 and 100, of which all 100 are delegated at ten percent, the delegate claims 2020, the
  delegator 180, and the claim of the delegator leaves the delegate another 20.
\<close>

definition sk_delegation :: "addr \<Rightarrow> Delegation" where
  "sk_delegation u = \<lparr>dl_delegate = u, dl_amount = 100, dl_fluidity = False, dl_voting_power_delegation = False,
     dl_time_of_delegation = 100, dl_last_accrued = None\<rparr>"

definition sk_delegated_st :: staking_storage where
  "sk_delegated_st = (sk_demo_st [])\<lparr>SK_STAKED := [(''alice'', [sk_demo_deposit ''alice'' 1000 100 None]),
       (''bob'', [sk_demo_deposit ''bob'' 100 100 None])],
     SK_STAKING_TOTALS := Some \<lparr>to_stakers = 1100, to_vesting_contract = 0\<rparr>,
     SK_DELEGATIONS := [(''alice'', \<lparr>di_delegated = [sk_delegation ''bob''], di_delegated_to = [],
         di_commission = 100000000000000000\<rparr>),
       (''bob'', \<lparr>di_delegated = [], di_delegated_to = [sk_delegation ''alice''], di_commission = 0\<rparr>)]\<rparr>"

lemmas sk_commission_eval = commission_rates_of_def dec_from_ratio_def dec_mul_def dec_add_def decimal_multiplication_def
  dec_checked_mul_def to_uint_floor_def dec_of_uint_def dec_sub_def claim_for_delegate_def accrue_delegate_def
  mark_accrued_def delegate_commission_of_def sendable_coins_def add_coin_claim_def sk_save_delegations_def rcatch_def
  update_at_def List.map_filter_simps u128_mul_def

lemma commission_is_credited_twice:
  "\<exists>st1 st2. get_user_claimables sk_delegated_st (demo_env 1000) ''alice'' =
       Inr (st1, [\<lparr>a_info = NativeToken ''cdt'', a_amount = 2020\<rparr>], 0) \<and>
     get_user_claimables st1 (demo_env 1000) ''bob'' = Inr (st2, [\<lparr>a_info = NativeToken ''cdt'', a_amount = 180\<rparr>], 0) \<and>
     SK_DELEGATE_CLAIMS st2 ''alice'' = Some ([\<lparr>c_denom = ''cdt'', c_amount = 20\<rparr>], 0) \<and> (2200 :: nat) < 2020 + 180 + 20"
  by (simp add: sk_delegated_st_def sk_delegation_def sk_demo_eval sk_demo sk_commission_eval)

text \<open>
  C35. Trimming keeps the fee events after the earliest accrual of the staker that is last in the order of the store,
  whatever the other stakers have not claimed yet: their older events are lost.
\<close>

theorem trimming_follows_the_last_staker:
  assumes "sk_execute L Q st env info SkTrimFeeEvents = Inr (st', r)" and "SK_FEE_EVENTS st = Some events"
    and "store_range None (SK_STAKED st) = front @ [(u, ds)]"
  shows "SK_FEE_EVENTS st' = Some (filter (\<lambda>e. Min (accrued_since ` set ds) < fe_time_of_event e) events) \<and>
    SK_STAKED st' = SK_STAKED st"
proof -
  have least: "foldl (\<lambda>acc d. if accrued_since d < acc then accrued_since d else acc) n ds = Min (insert n (accrued_since ` set ds))" for n
  proof (induction ds arbitrary: n)
    case (Cons d ds)
    have "foldl (\<lambda>acc d. if accrued_since d < acc then accrued_since d else acc) n (d # ds) =
        Min (insert (min (accrued_since d) n) (accrued_since ` set ds))"
      using Cons.IH by (simp add: min_def)
    also have "\<dots> = Min (insert n (accrued_since ` set (d # ds)))"
      by (cases "ds = []") (auto simp: min.assoc min.commute min.left_commute)
    finally show ?case .
  qed simp
  have last: "earliest_accruals (front @ [(u, ds)]) a = (Inr t :: u64 option staking_result) \<Longrightarrow>
      t = Some (Min (accrued_since ` set ds))" for a t front
  proof (induction front arbitrary: a)
    case Nil
    then obtain d where d: "at_index ds 0 = (Inr d :: StakeDeposit staking_result)"
      "t = Some (Min (insert (accrued_since d) (accrued_since ` set ds)))"
      by (auto simp: least elim!: rbind_InrE)
    then have "d \<in> set ds" by (auto simp: at_index_def split: if_split_asm)
    then show ?case using d(2) by (simp add: insert_absorb)
  next
    case (Cons x front)
    then show ?case by (cases x) (auto elim!: rbind_InrE)
  qed
  show ?thesis using assms
    by (auto simp: trim_fee_events_def map_err_eq_Inr sk_load_ok elim!: handlerE dest!: last)
qed

theorem trimming_follows_the_last_staker_witness:
  "\<exists>st' r. sk_execute demo_lib sk_demo_querier (sk_demo_st [sk_demo_deposit ''alice'' 1000 100 None]) (demo_env 1000)
      (demo_info ''gov'' []) SkTrimFeeEvents = Inr (st', r) \<and> SK_FEE_EVENTS st' = Some [] \<and>
    (\<exists>st0. get_user_claimables (sk_demo_st [sk_demo_deposit ''alice'' 1000 100 None]) (demo_env 1000) ''alice'' =
      Inr (st0, [\<lparr>a_info = NativeToken ''cdt'', a_amount = 2000\<rparr>], 0))"
proof -
  let ?st = "sk_demo_st [sk_demo_deposit ''alice'' 1000 100 None]"
  have range: "store_range None (SK_STAKED ?st) =
      [(''alice'', [sk_demo_deposit ''alice'' 1000 100 None])] @ [(''bob'', [sk_demo_deposit ''bob'' 500 300 None])]"
    by (simp add: store_range_def)
  have "\<exists>st' r. sk_execute demo_lib sk_demo_querier ?st (demo_env 1000) (demo_info ''gov'' []) SkTrimFeeEvents = Inr (st', r)"
    unfolding sk_execute.simps trim_fee_events_def range
    by (simp add: sk_load_def at_index_def sk_demo)
  then obtain st' r where run: "sk_execute demo_lib sk_demo_querier ?st (demo_env 1000) (demo_info ''gov'' []) SkTrimFeeEvents
      = Inr (st', r)" by blast
  have "SK_FEE_EVENTS st' = Some (filter (\<lambda>e. Min (accrued_since ` set [sk_demo_deposit ''bob'' 500 300 None]) < fe_time_of_event e)
      [sk_demo_event])"
    using trimming_follows_the_last_staker[OF run sk_demo_st_simps(5) range] by blast
  then have "SK_FEE_EVENTS st' = Some []" by (simp add: accrued_since_def sk_demo_event_def sk_demo_deposit_def)
  then show ?thesis using run sk_demo_claims by blast
qed

end
