(* ===== verification/Auction.thy ===== *)
theory Auction
  imports Chain_Store
begin

text \<open>
  Auctions (\<open>contracts/auction/src/contracts.rs\<close>, \<open>state.rs\<close>, \<open>error.rs\<close>, \<open>packages/membrane/src/auction.rs\<close>):
  the debt auction mints MBRN for CDT that repays bad debt, a fee auction sells collected fees for the
  configuration's desired asset. The discount of both grows with the time since the start.
\<close>

section \<open>Data\<close>

record auction_config =
  xc_owner :: addr
  xc_oracle_contract :: addr
  xc_osmosis_proxy :: addr
  xc_mbrn_denom :: string
  xc_cdt_denom :: string
  xc_desired_asset :: string
  xc_positions_contract :: addr
  xc_governance_contract :: addr
  xc_staking_contract :: addr
  xc_twap_timeframe :: u64
  xc_initial_discount :: decimal
  xc_discount_increase_timeframe :: u64
  xc_discount_increase :: decimal
  xc_send_to_stakers :: bool

record RepayPosition =
  rp_repayment :: uint128
  rp_position_info :: UserInfo

record AuctionRecipient =
  an_amount :: uint128
  an_recipient :: addr

record DebtAuction =
  da_remaining_recapitalization :: uint128
  da_repayment_positions :: "RepayPosition list"
  da_send_to :: "AuctionRecipient list"
  da_auction_start_time :: u64

record FeeAuction =
  fa_auction_asset :: Asset
  fa_auction_start_time :: u64

datatype auction_error =
    AuStd std_error
  | AuUnauthorized
  | AuCustomError string

record auction_storage =
  AU_CONFIG :: "auction_config option"
  AU_DEBT_AUCTION :: "DebtAuction option"
  AU_FEE_AUCTIONS :: "FeeAuction store"
  AU_OWNERSHIP_TRANSFER :: "addr option"
  AU_CONTRACT :: "(string \<times> string) option"

datatype auction_debug = DbgAuctionConfig auction_config | DbgAuctionAsset Asset

type_synonym auction_response = "auction_debug response"

type_synonym 'a auction_result = "(auction_error, 'a) result"

record auction_querier =
  xq_price :: "addr \<Rightarrow> AssetInfo \<Rightarrow> u64 \<Rightarrow> u64 \<Rightarrow> PriceResponse list answer"
  xq_basket :: "addr \<Rightarrow> Basket answer"

definition au_load :: "string \<Rightarrow> 'a option \<Rightarrow> 'a auction_result" where
  "au_load what v = ok_or (AuStd (NotFound what)) v"

lemma au_load_ok [res_ok]: "au_load what v = Inr x \<longleftrightarrow> v = Some x"
  by (simp add: au_load_def res_ok)

definition au_unauthorized :: "'a auction_result" where
  "au_unauthorized = Inl (Failed AuUnauthorized)"

section \<open>Starting and removing\<close>

definition validate_asset :: "Coin \<Rightarrow> string \<Rightarrow> (std_error, Coin) result" where
  "validate_asset coin valid_denom =
     (if c_denom coin \<noteq> valid_denom then
        Inl (Failed (GenericFmtText ''Invalid asset ({}) sent to fulfill auction. Must be {}'' (c_denom coin)))
      else if c_amount coin = 0 then Inl (Failed (GenericErr ''Amount must be greater than 0''))
      else Inr coin)"

text \<open>The amount joins the debt auction, with the recipient and the position it is for.\<close>

definition join_debt_auction ::
  "uint128 \<Rightarrow> addr option \<Rightarrow> UserInfo option \<Rightarrow> DebtAuction \<Rightarrow> DebtAuction" where
  "join_debt_auction n send_to user_info auction =
     auction\<lparr>da_send_to := da_send_to auction @ (case send_to of
           Some a \<Rightarrow> [\<lparr>an_amount = n, an_recipient = a\<rparr>] | None \<Rightarrow> []),
       da_repayment_positions := da_repayment_positions auction @ (case user_info of
           Some u \<Rightarrow> [\<lparr>rp_repayment = n, rp_position_info = u\<rparr>] | None \<Rightarrow> [])\<rparr>"

definition start_fee_auction ::
  "Env \<Rightarrow> MessageInfo \<Rightarrow> Asset \<Rightarrow> auction_storage \<Rightarrow> auction_storage auction_result" where
  "start_fee_auction env info auction_asset st =
     (case funds info of
        [coin] \<Rightarrow>
          rbind (map_err AuStd (validate_asset coin (asset_info_to_string (a_info auction_asset)))) (\<lambda>_.
          let auction_asset = auction_asset\<lparr>a_amount := c_amount coin\<rparr>;
              key = asset_info_to_string (a_info auction_asset) in
          rbind (case store_load (AU_FEE_AUCTIONS st) key of
              Some auction \<Rightarrow>
                rbind (u128_add (a_amount (fa_auction_asset auction)) (a_amount auction_asset)) (\<lambda>n.
                Inr (auction\<lparr>fa_auction_asset := (fa_auction_asset auction)\<lparr>a_amount := n\<rparr>\<rparr>))
            | None \<Rightarrow> Inr \<lparr>fa_auction_asset = auction_asset, fa_auction_start_time = time_seconds env\<rparr>) (\<lambda>auction.
          Inr (st\<lparr>AU_FEE_AUCTIONS := store_save key auction (AU_FEE_AUCTIONS st)\<rparr>)))
      | _ \<Rightarrow> Inl (Failed (AuCustomError ''Must start only one auction & fees must be sent with intiation'')))"

definition start_debt_auction ::
  "chain_lib \<Rightarrow> Env \<Rightarrow> UserInfo option \<Rightarrow> string option \<Rightarrow> uint128 \<Rightarrow> auction_storage \<Rightarrow>
   (auction_storage \<times> string) auction_result" where
  "start_debt_auction L env user_info send_to n st =
     (if send_to \<noteq> None \<and> user_info \<noteq> None then
        Inl (Failed (AuCustomError ''Delegate auction proceeds to one party at a time''))
      else
        rbind (case send_to of
            None \<Rightarrow> Inr None
          | Some s \<Rightarrow> rbind (map_err AuStd (lib_addr_validate L s)) (\<lambda>a. Inr (Some a))) (\<lambda>send_addr.
        case AU_DEBT_AUCTION st of
          Some auction \<Rightarrow>
            rbind (u128_add (da_remaining_recapitalization auction) n) (\<lambda>remaining.
            let auction = auction\<lparr>da_remaining_recapitalization := remaining\<rparr> in
            Inr (st\<lparr>AU_DEBT_AUCTION := Some (join_debt_auction n send_addr user_info auction)\<rparr>, ''added_to''))
        | None \<Rightarrow>
            let auction = \<lparr>da_remaining_recapitalization = n, da_repayment_positions = [], da_send_to = [],
                  da_auction_start_time = time_seconds env\<rparr> in
            Inr (st\<lparr>AU_DEBT_AUCTION := Some (join_debt_auction n send_addr user_info auction)\<rparr>, ''started_anew'')))"

definition start_auction ::
  "chain_lib \<Rightarrow> auction_storage \<Rightarrow> Env \<Rightarrow> MessageInfo \<Rightarrow> UserInfo option \<Rightarrow> string option \<Rightarrow> Asset \<Rightarrow>
   (auction_storage \<times> auction_response) auction_result" where
  "start_auction L st env info user_info send_to auction_asset =
     rbind (au_load ''Config'' (AU_CONFIG st)) (\<lambda>config.
     if sender info \<noteq> xc_owner config \<and> sender info \<noteq> xc_positions_contract config \<and>
        sender info \<noteq> xc_staking_contract config then au_unauthorized
     else
       let attrs = [(''method'', AText ''start_auction''), (''auction_asset'', ADebug (DbgAuctionAsset auction_asset))] in
       if funds info \<noteq> [] then
         rbind (start_fee_auction env info auction_asset st) (\<lambda>st.
         Inr (st, \<lparr>messages = [], attributes = attrs\<rparr>))
       else if asset_info_to_string (a_info auction_asset) = xc_cdt_denom config then
         rbind (start_debt_auction L env user_info send_to (a_amount auction_asset) st) (\<lambda>(st, status).
         Inr (st, \<lparr>messages = [], attributes = attrs @ [(''auction_status'', AText status)]\<rparr>))
       else Inr (st, \<lparr>messages = [], attributes = attrs\<rparr>))"

definition remove_auction ::
  "auction_storage \<Rightarrow> MessageInfo \<Rightarrow> (auction_storage \<times> auction_response) auction_result" where
  "remove_auction st info =
     rbind (au_load ''Config'' (AU_CONFIG st)) (\<lambda>config.
     if sender info \<noteq> xc_owner config \<and> sender info \<noteq> xc_positions_contract config then au_unauthorized
     else Inr (st\<lparr>AU_DEBT_AUCTION := None\<rparr>,
       \<lparr>messages = [], attributes = [(''method'', AText ''remove_auction'')]\<rparr>))"

section \<open>The discount\<close>

definition get_discount_ratio :: "Env \<Rightarrow> u64 \<Rightarrow> auction_config \<Rightarrow> (std_error, decimal) result" where
  "get_discount_ratio env auction_start_time config =
     rbind (u64_sub (time_seconds env) auction_start_time) (\<lambda>time_elapsed.
     if xc_discount_increase_timeframe config = 0 then Inl Panic
     else
       rbind (dec_of_uint (time_elapsed div xc_discount_increase_timeframe config)) (\<lambda>discount_multiplier.
       rbind (decimal_multiplication discount_multiplier (xc_discount_increase config)) (\<lambda>increase.
       rbind (dec_add increase (xc_initial_discount config)) (\<lambda>discount.
       let current_discount = (if DECIMAL_FRACTIONAL < discount then DECIMAL_FRACTIONAL else discount) in
       rbind (decimal_subtraction DECIMAL_FRACTIONAL current_discount) (\<lambda>ratio.
       Inr (max ratio (dec_percent 1)))))))"

definition au_price :: "auction_querier \<Rightarrow> auction_config \<Rightarrow> string \<Rightarrow> (std_error, PriceResponse) result" where
  "au_price Q config denom =
     rbind (answered (xq_price Q (xc_oracle_contract config) (NativeToken denom) (xc_twap_timeframe config) 600)) (\<lambda>res.
     at_index res 0)"

section \<open>Fee auctions\<close>

text \<open>The overpay, the amount swapped, and the auction's amount that stays.\<close>

definition fee_swap ::
  "PriceResponse \<Rightarrow> PriceResponse \<Rightarrow> decimal \<Rightarrow> uint128 \<Rightarrow> uint128 \<Rightarrow>
   (std_error, uint128 \<times> uint128 \<times> uint128) result" where
  "fee_swap desired_price auction_price discount_ratio sent_amount auction_amount =
     rbind (price_get_value desired_price sent_amount) (\<lambda>desired_asset_value.
     rbind (price_get_value auction_price auction_amount) (\<lambda>full_value.
     rbind (decimal_multiplication full_value discount_ratio) (\<lambda>auction_asset_value.
     if auction_asset_value < desired_asset_value then
       rbind (price_get_amount desired_price (desired_asset_value - auction_asset_value)) (\<lambda>overpay.
       Inr (overpay, auction_amount, 0))
     else if desired_asset_value < auction_asset_value then
       rbind (decimal_multiplication (pr_price auction_price) discount_ratio) (\<lambda>discounted.
       let auction_price = auction_price\<lparr>pr_price := discounted\<rparr> in
       rbind (price_get_amount auction_price desired_asset_value) (\<lambda>swapped.
       rbind (price_get_amount auction_price (auction_asset_value - desired_asset_value)) (\<lambda>kept.
       Inr (0, swapped, kept))))
     else Inr (0, auction_amount, 0))))"

definition desired_asset_msgs :: "auction_config \<Rightarrow> uint128 \<Rightarrow> cosmos_msg list" where
  "desired_asset_msgs config n =
     (let coin = \<lparr>c_denom = xc_desired_asset config, c_amount = n\<rparr> in
      if 0 < n then
        if xc_send_to_stakers config then [WasmExecute (xc_staking_contract config) DepositFee [coin]]
        else [BankSend (xc_governance_contract config) [coin]]
      else [])"

definition au_one_coin :: "MessageInfo \<Rightarrow> string \<Rightarrow> Coin auction_result" where
  "au_one_coin info denom = (case funds info of
       [coin] \<Rightarrow> map_err AuStd (validate_asset coin denom)
     | _ \<Rightarrow> Inl (Failed (AuStd (GenericErr ''Only one coin can be sent''))))"

definition swap_with_the_contracts_desired_asset ::
  "auction_storage \<Rightarrow> auction_querier \<Rightarrow> MessageInfo \<Rightarrow> Env \<Rightarrow> AssetInfo \<Rightarrow>
   (auction_storage \<times> auction_response) auction_result" where
  "swap_with_the_contracts_desired_asset st Q info env auction_asset =
     rbind (au_load ''Config'' (AU_CONFIG st)) (\<lambda>config.
     rbind (au_one_coin info (xc_desired_asset config)) (\<lambda>coin.
     let key = asset_info_to_string auction_asset in
     rbind (au_load ''FeeAuction'' (store_load (AU_FEE_AUCTIONS st) key)) (\<lambda>auction.
     let asset = fa_auction_asset auction in
     if a_amount asset \<noteq> 0 \<and> fa_auction_start_time auction \<le> time_seconds env then
       rbind (map_err AuStd (au_price Q config (xc_desired_asset config))) (\<lambda>desired_price.
       rbind (map_err AuStd (au_price Q config (asset_info_to_string (a_info asset)))) (\<lambda>auction_price.
       rbind (map_err AuStd (get_discount_ratio env (fa_auction_start_time auction) config)) (\<lambda>discount_ratio.
       rbind (map_err AuStd (fee_swap desired_price auction_price discount_ratio (c_amount coin) (a_amount asset)))
         (\<lambda>(overpay, swapped, kept).
       rbind (u128_sub (c_amount coin) overpay) (\<lambda>paid.
       let auction = auction\<lparr>fa_auction_asset := asset\<lparr>a_amount := kept\<rparr>\<rparr>;
           auctions = (if kept \<le> 1 then store_remove key (AU_FEE_AUCTIONS st)
             else store_save key auction (AU_FEE_AUCTIONS st)) in
       Inr (st\<lparr>AU_FEE_AUCTIONS := auctions\<rparr>,
         \<lparr>messages = desired_asset_msgs config paid @
             [BankSend (sender info) [\<lparr>c_denom = asset_info_to_string (a_info asset), c_amount = swapped\<rparr>]] @
             (if overpay \<noteq> 0 then [BankSend (sender info) [\<lparr>c_denom = c_denom coin, c_amount = overpay\<rparr>]] else []),
          attributes = [(''method'', AText ''swap_with_contract_desired_asset''),
            (''auction_asset'', ADebug (DbgAuctionAsset (fa_auction_asset auction)))]\<rparr>))))))
     else Inl (Failed (AuStd (GenericErr ''Auction isn't running now''))))))"

section \<open>The debt auction\<close>

text \<open>What repays a position: the lower of what it needs and what is left of the swap.\<close>

definition repay_turn ::
  "addr \<Rightarrow> string \<Rightarrow> RepayPosition \<Rightarrow> uint128 \<Rightarrow> uint128 \<times> RepayPosition \<times> cosmos_msg list" where
  "repay_turn positions_contract denom position swap_amount =
     (if rp_repayment position \<noteq> 0 \<and> swap_amount \<noteq> 0 then
        let repay_amount = (if swap_amount \<le> rp_repayment position then swap_amount else rp_repayment position);
            user = rp_position_info position in
        (swap_amount - repay_amount, position\<lparr>rp_repayment := rp_repayment position - repay_amount\<rparr>,
         if repay_amount \<noteq> 0 then
           [WasmExecute positions_contract (RepayMsg (ui_position_id user) (Some (ui_position_owner user)) None)
              [\<lparr>c_denom = denom, c_amount = repay_amount\<rparr>]]
         else [])
      else (swap_amount, position, []))"

definition send_turn ::
  "auction_querier \<Rightarrow> auction_config \<Rightarrow> AuctionRecipient \<Rightarrow> uint128 \<Rightarrow>
   (std_error, uint128 \<times> AuctionRecipient \<times> cosmos_msg list) result" where
  "send_turn Q config recipient swap_amount =
     (if swap_amount \<noteq> 0 \<and> an_amount recipient \<noteq> 0 then
        let (withdrawal_amount, left, rest) = (if an_amount recipient \<le> swap_amount
              then (an_amount recipient, 0, swap_amount - an_amount recipient)
              else (swap_amount, an_amount recipient - swap_amount, 0)) in
        rbind (answered (xq_basket Q (xc_positions_contract config))) (\<lambda>basket.
        rbind (withdrawal_msg \<lparr>a_info = a_info (bk_credit_asset basket), a_amount = withdrawal_amount\<rparr>
                 (an_recipient recipient)) (\<lambda>msg.
        Inr (rest, recipient\<lparr>an_amount := left\<rparr>, [msg])))
      else Inr (swap_amount, recipient, []))"

definition mbrn_for_swap ::
  "auction_querier \<Rightarrow> Env \<Rightarrow> auction_config \<Rightarrow> DebtAuction \<Rightarrow> uint128 \<Rightarrow> (std_error, uint128) result" where
  "mbrn_for_swap Q env config auction n =
     rbind (dec_of_uint n) (\<lambda>swap_amount.
     rbind (au_price Q config (xc_mbrn_denom config)) (\<lambda>res.
     rbind (answered (xq_basket Q (xc_positions_contract config))) (\<lambda>basket.
     rbind (get_discount_ratio env (da_auction_start_time auction) config) (\<lambda>discount_ratio.
     rbind (decimal_multiplication (pr_price res) discount_ratio) (\<lambda>discounted_mbrn_price.
     rbind (price_get_value (bk_credit_price basket) (to_uint_floor swap_amount)) (\<lambda>credit_value.
     rbind (decimal_division credit_value discounted_mbrn_price) (\<lambda>mbrn.
     dec_times_one mbrn)))))))"

definition swap_for_mbrn ::
  "auction_storage \<Rightarrow> auction_querier \<Rightarrow> MessageInfo \<Rightarrow> Env \<Rightarrow>
   (auction_storage \<times> auction_response) auction_result" where
  "swap_for_mbrn st Q info env =
     rbind (au_load ''Config'' (AU_CONFIG st)) (\<lambda>config.
     rbind (au_one_coin info (xc_cdt_denom config)) (\<lambda>coin.
     rbind (au_load ''DebtAuction'' (AU_DEBT_AUCTION st)) (\<lambda>auction.
     if da_remaining_recapitalization auction \<noteq> 0 then
       rbind (map_err AuStd (mbrn_for_swap Q env config auction (c_amount coin))) (\<lambda>mbrn_mint_amount.
       let mint = WasmExecute (xc_osmosis_proxy config)
             (MintTokens (xc_mbrn_denom config) mbrn_mint_amount (sender info)) [];
           (swap_amount, repaid) = map_state (repay_turn (xc_positions_contract config) (c_denom coin))
             (da_repayment_positions auction) (c_amount coin) in
       rbind (map_err AuStd (rmap_state (send_turn Q config) (da_send_to auction) swap_amount)) (\<lambda>(overpay, sent).
       rbind (u128_sub (da_remaining_recapitalization auction) (c_amount coin - overpay)) (\<lambda>remaining.
       rbind (if overpay \<noteq> 0 then
                rbind (map_err AuStd (withdrawal_msg
                    \<lparr>a_info = NativeToken (c_denom coin), a_amount = overpay\<rparr> (sender info))) (\<lambda>m. Inr [m])
              else Inr []) (\<lambda>back.
       let auction = auction\<lparr>da_remaining_recapitalization := remaining,
             da_repayment_positions := filter (\<lambda>p. rp_repayment p \<noteq> 0) (map fst repaid),
             da_send_to := map fst sent\<rparr> in
       Inr (st\<lparr>AU_DEBT_AUCTION := (if remaining = 0 then None else Some auction)\<rparr>,
         \<lparr>messages = [mint] @ concat (map snd repaid) @ concat (map snd sent) @ back, attributes = []\<rparr>)))))
     else Inl (Failed (AuStd (GenericErr ''Auction ended''))))))"

section \<open>Configuration\<close>

record auction_update =
  xu_owner :: "string option"
  xu_oracle_contract :: "string option"
  xu_osmosis_proxy :: "string option"
  xu_mbrn_denom :: "string option"
  xu_cdt_denom :: "string option"
  xu_desired_asset :: "string option"
  xu_positions_contract :: "string option"
  xu_governance_contract :: "string option"
  xu_staking_contract :: "string option"
  xu_twap_timeframe :: "u64 option"
  xu_initial_discount :: "decimal option"
  xu_discount_increase_timeframe :: "u64 option"
  xu_discount_increase :: "decimal option"
  xu_send_to_stakers :: "bool option"

definition au_set_addr :: "chain_lib \<Rightarrow> string option \<Rightarrow> addr \<Rightarrow> addr auction_result" where
  "au_set_addr L a old = (case a of None \<Rightarrow> Inr old | Some a \<Rightarrow> map_err AuStd (lib_addr_validate L a))"

definition au_set_between :: "'a::linorder option \<Rightarrow> 'a \<Rightarrow> 'a \<Rightarrow> string \<Rightarrow> 'a \<Rightarrow> 'a auction_result" where
  "au_set_between v low high msg old = (case v of
       None \<Rightarrow> Inr old
     | Some x \<Rightarrow> if x < low \<or> high < x then Inl (Failed (AuCustomError msg)) else Inr x)"

definition au_update_config ::
  "chain_lib \<Rightarrow> auction_storage \<Rightarrow> auction_querier \<Rightarrow> MessageInfo \<Rightarrow> auction_update \<Rightarrow>
   (auction_storage \<times> auction_response) auction_result" where
  "au_update_config L st Q info update =
     rbind (au_load ''Config'' (AU_CONFIG st)) (\<lambda>config.
     rbind (if sender info = xc_owner config then Inr config
            else if AU_OWNERSHIP_TRANSFER st = Some (sender info) then Inr (config\<lparr>xc_owner := sender info\<rparr>)
            else au_unauthorized) (\<lambda>config.
     rbind (case xu_owner update of
              None \<Rightarrow> Inr (st, [])
            | Some a \<Rightarrow>
                rbind (map_err AuStd (lib_addr_validate L a)) (\<lambda>valid_addr.
                Inr (st\<lparr>AU_OWNERSHIP_TRANSFER := Some valid_addr\<rparr>, [(''owner_transfer'', AText valid_addr)])))
       (\<lambda>(st, owner_attrs).
     rbind (au_set_addr L (xu_oracle_contract update) (xc_oracle_contract config)) (\<lambda>oracle.
     rbind (au_set_addr L (xu_osmosis_proxy update) (xc_osmosis_proxy config)) (\<lambda>proxy.
     rbind (au_set_addr L (xu_positions_contract update) (xc_positions_contract config)) (\<lambda>positions.
     rbind (au_set_addr L (xu_governance_contract update) (xc_governance_contract config)) (\<lambda>governance.
     rbind (au_set_addr L (xu_staking_contract update) (xc_staking_contract config)) (\<lambda>staking.
     let desired = (case xu_desired_asset update of
           Some asset \<Rightarrow> (case xq_price Q oracle (NativeToken asset) 0 0 of
               Inr _ \<Rightarrow> asset | Inl _ \<Rightarrow> xc_desired_asset config)
         | None \<Rightarrow> xc_desired_asset config) in
     rbind (au_set_between (xu_twap_timeframe update) 60 480 ''Invalid TWAP timeframe'' (xc_twap_timeframe config)) (\<lambda>twap.
     rbind (au_set_between (xu_initial_discount update) (dec_percent 1) (dec_percent 10) ''Invalid initial discount''
              (xc_initial_discount config)) (\<lambda>initial_discount.
     rbind (au_set_between (xu_discount_increase_timeframe update) 10 300 ''Invalid discount increase timeframe''
              (xc_discount_increase_timeframe config)) (\<lambda>timeframe.
     rbind (au_set_between (xu_discount_increase update) (dec_percent 1) (dec_percent 5) ''Invalid discount increase''
              (xc_discount_increase config)) (\<lambda>discount_increase.
     let config = config\<lparr>xc_oracle_contract := oracle, xc_osmosis_proxy := proxy, xc_positions_contract := positions,
           xc_governance_contract := governance, xc_staking_contract := staking,
           xc_mbrn_denom := or_default (xu_mbrn_denom update) (xc_mbrn_denom config),
           xc_cdt_denom := or_default (xu_cdt_denom update) (xc_cdt_denom config), xc_desired_asset := desired,
           xc_twap_timeframe := twap, xc_initial_discount := initial_discount,
           xc_discount_increase_timeframe := timeframe, xc_discount_increase := discount_increase,
           xc_send_to_stakers := or_default (xu_send_to_stakers update) (xc_send_to_stakers config)\<rparr> in
     Inr (st\<lparr>AU_CONFIG := Some config\<rparr>,
       \<lparr>messages = [], attributes = [(''method'', AText ''update_config'')] @ owner_attrs @
          [(''updated_config'', ADebug (DbgAuctionConfig config))]\<rparr>)))))))))))))"

section \<open>Entry points\<close>

record auction_instantiate_msg =
  xi_owner :: "string option"
  xi_oracle_contract :: string
  xi_osmosis_proxy :: string
  xi_positions_contract :: string
  xi_governance_contract :: string
  xi_staking_contract :: string
  xi_twap_timeframe :: u64
  xi_mbrn_denom :: string
  xi_initial_discount :: decimal
  xi_discount_increase_timeframe :: u64
  xi_discount_increase :: decimal

definition au_instantiate ::
  "chain_lib \<Rightarrow> auction_storage \<Rightarrow> auction_querier \<Rightarrow> Env \<Rightarrow> MessageInfo \<Rightarrow> auction_instantiate_msg \<Rightarrow>
   (auction_storage \<times> auction_response) auction_result" where
  "au_instantiate L st Q env info msg =
     (let valid = \<lambda>a. map_err AuStd (lib_addr_validate L a) in
      rbind (valid (xi_oracle_contract msg)) (\<lambda>oracle.
      rbind (valid (xi_osmosis_proxy msg)) (\<lambda>proxy.
      rbind (valid (xi_positions_contract msg)) (\<lambda>positions.
      rbind (valid (xi_governance_contract msg)) (\<lambda>governance.
      rbind (valid (xi_staking_contract msg)) (\<lambda>staking.
      rbind (au_set_addr L (xi_owner msg) (sender info)) (\<lambda>owner.
      rbind (map_err AuStd (answered (xq_basket Q positions))) (\<lambda>basket.
      let config = \<lparr>xc_owner = owner, xc_oracle_contract = oracle, xc_osmosis_proxy = proxy,
            xc_mbrn_denom = xi_mbrn_denom msg, xc_cdt_denom = asset_info_to_string (a_info (bk_credit_asset basket)),
            xc_desired_asset = ''uosmo'', xc_positions_contract = positions, xc_governance_contract = governance,
            xc_staking_contract = staking, xc_twap_timeframe = xi_twap_timeframe msg,
            xc_initial_discount = xi_initial_discount msg,
            xc_discount_increase_timeframe = xi_discount_increase_timeframe msg,
            xc_discount_increase = xi_discount_increase msg, xc_send_to_stakers = False\<rparr> in
      Inr (st\<lparr>AU_CONTRACT := Some (''auctions'', lib_version L), AU_CONFIG := Some config\<rparr>,
        \<lparr>messages = [], attributes = [(''config'', ADebug (DbgAuctionConfig config)),
           (''contract_address'', AText (contract_address env))]\<rparr>)))))))))"

datatype auction_execute_msg =
    AuStartAuction "UserInfo option" "string option" Asset
  | AuSwapForMBRN
  | AuSwapForFee AssetInfo
  | AuRemoveAuction
  | AuUpdateConfig auction_update

fun au_execute ::
  "chain_lib \<Rightarrow> auction_storage \<Rightarrow> auction_querier \<Rightarrow> Env \<Rightarrow> MessageInfo \<Rightarrow> auction_execute_msg \<Rightarrow>
   (auction_storage \<times> auction_response) auction_result" where
  "au_execute L st Q env info (AuStartAuction user_info send_to auction_asset) =
     start_auction L st env info user_info send_to auction_asset"
| "au_execute L st Q env info AuSwapForMBRN = swap_for_mbrn st Q info env"
| "au_execute L st Q env info (AuSwapForFee auction_asset) =
     swap_with_the_contracts_desired_asset st Q info env auction_asset"
| "au_execute L st Q env info AuRemoveAuction = remove_auction st info"
| "au_execute L st Q env info (AuUpdateConfig update) = au_update_config L st Q info update"

definition au_migrate :: "auction_storage \<Rightarrow> (auction_storage \<times> auction_response) auction_result" where
  "au_migrate st = Inr (st, response_new)"

section \<open>Queries\<close>

text \<open>\<open>split_off(index)\<close> cuts the list at the index, which aborts behind its end, and keeps the front.\<close>

definition get_ongoing_fee_auctions ::
  "auction_storage \<Rightarrow> AssetInfo option \<Rightarrow> u64 option \<Rightarrow> u64 option \<Rightarrow> (std_error, FeeAuction list) result" where
  "get_ongoing_fee_auctions st auction_asset limit start_after =
     (case auction_asset of
        Some asset \<Rightarrow>
          (case store_load (AU_FEE_AUCTIONS st) (asset_info_to_string asset) of
             Some auction \<Rightarrow> Inr [auction]
           | None \<Rightarrow> Inl (Failed (GenericFmtText ''Auction asset: {}, doesn't have an ongoing auction''
               (asset_info_to_string asset))))
      | None \<Rightarrow>
          let resp = map snd (store_range None (AU_FEE_AUCTIONS st)) in
          rbind (case start_after of
              Some index \<Rightarrow> if index \<le> length resp then Inr (take index resp) else Inl Panic
            | None \<Rightarrow> Inr resp) (\<lambda>resp.
          Inr (take (or_default limit 31) resp)))"

end
