(* ===== verification/Auction_Properties.thy ===== *)
theory Auction_Properties
  imports Auction Liq_Demo
begin

text \<open>
  Auctions: the properties of the discount and of the debt auction, each with its application to a concrete auction.
\<close>

section \<open>The discount\<close>

lemma get_discount_ratio_eq:
  "get_discount_ratio env t c = Inr r \<Longrightarrow>
     t \<le> time_seconds env \<and>
     r = max (DECIMAL_FRACTIONAL - min ((time_seconds env - t) div xc_discount_increase_timeframe c * DECIMAL_FRACTIONAL *
       xc_discount_increase c div DECIMAL_FRACTIONAL + xc_initial_discount c) DECIMAL_FRACTIONAL) (dec_percent 1)"
  unfolding get_discount_ratio_def
  by (auto simp: int_ok dec_ok dec_of_uint_def Let_def min_def elim!: rbind_InrE split: if_split_asm)

text \<open>
  The share of the price that a bidder pays is from 1 to 100 percent, and never rises while an auction runs and
  the configuration stays.
\<close>

theorem discount_stays_in_bounds:
  assumes "get_discount_ratio env t c = Inr r" and "get_discount_ratio later t c = Inr r'"
    and "time_seconds env \<le> time_seconds later"
  shows "dec_percent 1 \<le> r' \<and> r' \<le> r \<and> r \<le> dec_percent 100"
proof -
  let ?discount = "\<lambda>now. (now - t) div xc_discount_increase_timeframe c * DECIMAL_FRACTIONAL * xc_discount_increase c div
      DECIMAL_FRACTIONAL + xc_initial_discount c"
  have grows: "?discount (time_seconds env) \<le> ?discount (time_seconds later)"
    using assms(3) by (intro add_mono div_le_mono[OF mult_le_mono1[OF mult_le_mono1[OF div_le_mono[OF diff_le_mono]]]] order_refl)
  have r: "r = max (DECIMAL_FRACTIONAL - min (?discount (time_seconds env)) DECIMAL_FRACTIONAL) (dec_percent 1)"
    "r' = max (DECIMAL_FRACTIONAL - min (?discount (time_seconds later)) DECIMAL_FRACTIONAL) (dec_percent 1)"
    using get_discount_ratio_eq[OF assms(1)] get_discount_ratio_eq[OF assms(2)] by blast+
  have "max (d - min y d) p \<le> max (d - min x d) p" if "x \<le> y" for x y d p :: nat
    using that by (auto simp: max_def min_def)
  from this[OF grows] have "r' \<le> r" unfolding r .
  moreover have "dec_percent 1 \<le> r'" "r \<le> dec_percent 100"
    unfolding r by (simp_all add: dec_percent_def DECIMAL_FRACTIONAL_def)
  ultimately show ?thesis by simp
qed

section \<open>The debt auction\<close>

abbreviation owed_by_positions :: "DebtAuction \<Rightarrow> uint128" where
  "owed_by_positions auction \<equiv> sum_list (map rp_repayment (da_repayment_positions auction))"

abbreviation owed_to_recipients :: "DebtAuction \<Rightarrow> uint128" where
  "owed_to_recipients auction \<equiv> sum_list (map an_amount (da_send_to auction))"

lemma au_one_coin_ok: "au_one_coin info denom = Inr x \<Longrightarrow> funds info = [x]"
  by (auto simp: au_one_coin_def validate_asset_def map_err_eq_Inr split: list.splits if_split_asm)

lemma repay_turn_left: "repay_turn p d x n = (m, y) \<Longrightarrow> m = n - rp_repayment x"
  by (auto simp: repay_turn_def Let_def split: if_split_asm)

lemma repay_turns_left: "map_state (repay_turn p d) xs n = (m, ys) \<Longrightarrow> m = n - sum_list (map rp_repayment xs)"
proof (induction xs arbitrary: n m ys)
  case (Cons x xs)
  obtain k y where turn: "repay_turn p d x n = (k, y)" by (cases "repay_turn p d x n")
  obtain j zs where turns: "map_state (repay_turn p d) xs k = (j, zs)" by (cases "map_state (repay_turn p d) xs k")
  have "m = j" using Cons.prems by (simp add: turn turns)
  then show ?case using Cons.IH[OF turns] repay_turn_left[OF turn] by simp
qed simp

lemma send_turn_left: "send_turn Q c x n = Inr (m, y) \<Longrightarrow> m = n - an_amount x"
  by (auto simp: send_turn_def Let_def elim!: rbind_InrE split: if_split_asm)

lemma send_turns_left: "rmap_state (send_turn Q c) xs n = Inr (m, ys) \<Longrightarrow> m = n - sum_list (map an_amount xs)"
proof (induction xs arbitrary: n m ys)
  case (Cons x xs)
  obtain k y zs where turn: "send_turn Q c x n = Inr (k, y)" and turns: "rmap_state (send_turn Q c) xs k = Inr (m, zs)"
    by (rule rmap_state_ConsE[OF Cons.prems])
  show ?case using Cons.IH[OF turns] send_turn_left[OF turn] by simp
qed simp

text \<open>
  C30. A swap for MBRN returns what its coins exceed the outstanding debts by, lowers the debt auction by the rest, but
  mints MBRN for all of the coins sent, the returned ones included.
\<close>

theorem swaps_mint_for_returned_coins:
  assumes "au_execute L st Q env info AuSwapForMBRN = Inr (st', r)" and "AU_CONFIG st = Some c"
    and "AU_DEBT_AUCTION st = Some auction" and "funds info = [coin]"
    and "overpay = c_amount coin - (owed_by_positions auction + owed_to_recipients auction)"
  shows "\<exists>n. mbrn_for_swap Q env c auction (c_amount coin) = Inr n \<and>
    WasmExecute (xc_osmosis_proxy c) (MintTokens (xc_mbrn_denom c) n (sender info)) [] \<in> set (messages r) \<and>
    (overpay \<noteq> 0 \<longrightarrow> BankSend (sender info) [\<lparr>c_denom = c_denom coin, c_amount = overpay\<rparr>] \<in> set (messages r)) \<and>
    (case AU_DEBT_AUCTION st' of Some a \<Rightarrow> da_remaining_recapitalization a | None \<Rightarrow> 0) + (c_amount coin - overpay) =
      da_remaining_recapitalization auction"
proof -
  let ?mint = "\<lambda>n. WasmExecute (xc_osmosis_proxy c) (MintTokens (xc_mbrn_denom c) n (sender info)) []"
  obtain n swap_amount repaid left sent remaining sent_back where
    minted: "mbrn_for_swap Q env c auction (c_amount coin) = Inr n"
    and repay: "map_state (repay_turn (xc_positions_contract c) (c_denom coin)) (da_repayment_positions auction) (c_amount coin)
      = (swap_amount, repaid)"
    and send: "rmap_state (send_turn Q c) (da_send_to auction) swap_amount = Inr (left, sent)"
    and remaining: "u128_sub (da_remaining_recapitalization auction) (c_amount coin - left) = (Inr remaining :: uint128 auction_result)"
    and sent_back: "(if left \<noteq> 0 then rbind (map_err AuStd (withdrawal_msg
          \<lparr>a_info = NativeToken (c_denom coin), a_amount = left\<rparr> (sender info))) (\<lambda>m. Inr [m]) else Inr []) =
        (Inr sent_back :: cosmos_msg list auction_result)"
    and r: "messages r = [?mint n] @ concat (map snd repaid) @ concat (map snd sent) @ sent_back"
    and st': "AU_DEBT_AUCTION st' = (if remaining = 0 then None else Some (auction\<lparr>da_remaining_recapitalization := remaining,
         da_repayment_positions := filter (\<lambda>p. rp_repayment p \<noteq> 0) (map fst repaid), da_send_to := map fst sent\<rparr>))"
    using assms(1-4) unfolding au_execute.simps swap_for_mbrn_def Let_def
    apply (elim handlerE case_prod_app_InrE if_else_InlE)
    apply (drule au_one_coin_ok)
    apply (clarsimp simp: au_load_ok map_err_eq_Inr)
    done
  have left: "left = overpay" using repay_turns_left[OF repay] send_turns_left[OF send] assms(5) by simp
  have "overpay \<noteq> 0 \<Longrightarrow> sent_back = [BankSend (sender info) [\<lparr>c_denom = c_denom coin, c_amount = overpay\<rparr>]]"
    using sent_back left by (auto simp: withdrawal_msg_def asset_to_coin_def map_err_eq_Inr elim!: rbind_InrE)
  moreover have "remaining + (c_amount coin - overpay) = da_remaining_recapitalization auction"
    using remaining left by (simp add: int_ok)
  ultimately show ?thesis using minted r st' by (intro exI[of _ n]) auto
qed

section \<open>A concrete auction\<close>

text \<open>One unit of MBRN and of CDT costs 1, nobody's debt is left, but the auction still has 400 to raise.\<close>

definition au_demo_config :: auction_config where
  "au_demo_config = \<lparr>xc_owner = ''gov'', xc_oracle_contract = ''oracle'', xc_osmosis_proxy = ''proxy'', xc_mbrn_denom = ''mbrn'',
     xc_cdt_denom = ''cdt'', xc_desired_asset = ''uosmo'', xc_positions_contract = ''cdp'', xc_governance_contract = ''gov'',
     xc_staking_contract = ''staking'', xc_twap_timeframe = 60, xc_initial_discount = 10000000000000000,
     xc_discount_increase_timeframe = 36, xc_discount_increase = 10000000000000000, xc_send_to_stakers = False\<rparr>"

definition au_demo_auction :: DebtAuction where
  "au_demo_auction = \<lparr>da_remaining_recapitalization = 400,
     da_repayment_positions = [\<lparr>rp_repayment = 400, rp_position_info = \<lparr>ui_position_id = 3, ui_position_owner = ''bob''\<rparr>\<rparr>],
     da_send_to = [], da_auction_start_time = 0\<rparr>"

definition au_demo_st :: auction_storage where
  "au_demo_st = \<lparr>AU_CONFIG = Some au_demo_config, AU_DEBT_AUCTION = Some au_demo_auction, AU_FEE_AUCTIONS = [],
     AU_OWNERSHIP_TRANSFER = None, AU_CONTRACT = None\<rparr>"

definition au_demo_price :: PriceResponse where
  "au_demo_price = \<lparr>pr_prices = [], pr_price = DECIMAL_FRACTIONAL, pr_decimals = 0\<rparr>"

definition au_demo_basket :: Basket where
  "au_demo_basket = \<lparr>bk_basket_id = 1, bk_current_position_id = 9, bk_collateral_types = [],
     bk_collateral_supply_caps = [], bk_lastest_collateral_rates = [], bk_multi_asset_supply_caps = [],
     bk_credit_asset = \<lparr>a_info = NativeToken ''cdt'', a_amount = 0\<rparr>, bk_credit_price = au_demo_price,
     bk_base_interest_rate = 0, bk_pending_revenue = 0, bk_credit_last_accrued = 0, bk_rates_last_accrued = 0,
     bk_oracle_set = True, bk_negative_rates = True, bk_frozen = False, bk_rev_to_stakers = True,
     bk_cpc_margin_of_error = DECIMAL_FRACTIONAL, bk_liq_queue = None\<rparr>"

definition au_demo_querier :: auction_querier where
  "au_demo_querier = \<lparr>xq_price = (\<lambda>_ _ _ _. Inr [au_demo_price]), xq_basket = (\<lambda>_. Inr au_demo_basket)\<rparr>"

lemmas au_demo = au_demo_config_def au_demo_auction_def au_demo_st_def au_demo_price_def au_demo_basket_def au_demo_querier_def
  demo_env_def demo_info_def time_seconds_def

lemmas au_demo_eval = get_discount_ratio_def u64_sub_def dec_of_uint_def dec_from_ratio_def decimal_multiplication_def
  dec_checked_mul_def dec_add_def u128_add_def decimal_subtraction_def dec_checked_sub_def dec_percent_def DECIMAL_FRACTIONAL_def
  U128_BOUND_def U64_BOUND_def Let_def mbrn_for_swap_def au_price_def answered_def at_index_def price_get_value_def u64_pow10_def
  decimal_division_def dec_checked_div_def dec_times_one_def uint128_mul_dec_def to_uint_floor_def

lemma demo_discount: "\<exists>r. get_discount_ratio (demo_env 36) 0 au_demo_config = Inr r"
  "\<exists>r. get_discount_ratio (demo_env 3600) 0 au_demo_config = Inr r"
  by (simp_all add: au_demo_eval au_demo)

theorem discount_stays_in_bounds_witness:
  "\<exists>r r'. get_discount_ratio (demo_env 36) 0 au_demo_config = Inr r \<and> get_discount_ratio (demo_env 3600) 0 au_demo_config = Inr r' \<and>
     dec_percent 1 \<le> r' \<and> r' \<le> r \<and> r \<le> dec_percent 100"
proof -
  obtain r r' where r: "get_discount_ratio (demo_env 36) 0 au_demo_config = Inr r"
    "get_discount_ratio (demo_env 3600) 0 au_demo_config = Inr r'"
    using demo_discount by blast
  have "time_seconds (demo_env 36) \<le> time_seconds (demo_env 3600)" by (simp add: demo_env_def time_seconds_def)
  then show ?thesis using r discount_stays_in_bounds[OF r] by blast
qed

lemma demo_swap:
  "\<exists>st' r. au_execute demo_lib au_demo_st au_demo_querier (demo_env 0) (demo_info ''alice'' [\<lparr>c_denom = ''cdt'', c_amount = 1000\<rparr>])
     AuSwapForMBRN = Inr (st', r)"
  by (simp add: swap_for_mbrn_def au_load_def au_one_coin_def validate_asset_def repay_turn_def u128_sub_def withdrawal_msg_def
      asset_to_coin_def au_demo_eval au_demo)

theorem swaps_mint_for_returned_coins_witness:
  "\<exists>st' r n. au_execute demo_lib au_demo_st au_demo_querier (demo_env 0) (demo_info ''alice'' [\<lparr>c_denom = ''cdt'', c_amount = 1000\<rparr>])
     AuSwapForMBRN = Inr (st', r) \<and> 1000 \<le> n \<and>
   WasmExecute ''proxy'' (MintTokens ''mbrn'' n ''alice'') [] \<in> set (messages r) \<and>
   BankSend ''alice'' [\<lparr>c_denom = ''cdt'', c_amount = 600\<rparr>] \<in> set (messages r)"
proof -
  let ?info = "demo_info ''alice'' [\<lparr>c_denom = ''cdt'', c_amount = 1000\<rparr>]"
  obtain st' r where run: "au_execute demo_lib au_demo_st au_demo_querier (demo_env 0) ?info AuSwapForMBRN = Inr (st', r)"
    using demo_swap by blast
  have s: "AU_CONFIG au_demo_st = Some au_demo_config" "AU_DEBT_AUCTION au_demo_st = Some au_demo_auction"
    "funds ?info = [\<lparr>c_denom = ''cdt'', c_amount = 1000\<rparr>]" by (simp_all add: au_demo_st_def demo_info_def)
  have "600 = c_amount \<lparr>c_denom = ''cdt'', c_amount = 1000\<rparr> - (owed_by_positions au_demo_auction + owed_to_recipients au_demo_auction)"
    by (simp add: au_demo_auction_def)
  note swaps_mint_for_returned_coins[OF run s this]
  moreover have "xc_osmosis_proxy au_demo_config = ''proxy''" "xc_mbrn_denom au_demo_config = ''mbrn''" "sender ?info = ''alice''"
    by (simp_all add: au_demo_config_def demo_info_def)
  moreover have "1000 \<le> n" if "mbrn_for_swap au_demo_querier (demo_env 0) au_demo_config au_demo_auction 1000 = Inr n" for n
    using that by (simp add: au_demo_eval au_demo)
  ultimately show ?thesis using run by fastforce
qed

end
