(* ===== verification/Staking_Query.thy ===== *)
theory Staking_Query
  imports Staking_Contract
begin

text \<open>
  Staking: the queries (\<open>contracts/staking/src/query.rs\<close>). Deposits and delegations leave without their time
  of accrual, in the form the governance contract reads.
\<close>

definition SK_DEFAULT_LIMIT :: nat where "SK_DEFAULT_LIMIT = 32"

definition to_old_deposit :: "StakeDeposit \<Rightarrow> OldStakeDeposit" where
  "to_old_deposit d = \<lparr>od_staker = sd_staker d, od_amount = sd_amount d, od_stake_time = sd_stake_time d,
     od_unstake_start_time = sd_unstake_start_time d\<rparr>"

definition to_old_delegation :: "Delegation \<Rightarrow> OldDelegation" where
  "to_old_delegation d = \<lparr>ol_delegate = dl_delegate d, ol_amount = dl_amount d, ol_fluidity = dl_fluidity d,
     ol_voting_power_delegation = dl_voting_power_delegation d, ol_time_of_delegation = dl_time_of_delegation d\<rparr>"

definition to_old_info :: "u64 \<Rightarrow> DelegationInfo \<Rightarrow> OldDelegationInfo" where
  "to_old_info end_before info =
     (let before = filter (\<lambda>d. dl_time_of_delegation d < end_before) in
      \<lparr>oi_delegated = map to_old_delegation (before (di_delegated info)),
       oi_delegated_to = map to_old_delegation (before (di_delegated_to info)),
       oi_commission = di_commission info\<rparr>)"

definition query_user_stake ::
  "chain_lib \<Rightarrow> staking_querier \<Rightarrow> staking_storage \<Rightarrow> string \<Rightarrow> (std_error, StakerResponse) result" where
  "query_user_stake L Q st staker =
     rbind (sk_config_load st) (\<lambda>config.
     rbind (lib_addr_validate L staker) (\<lambda>valid_addr.
     if kc_vesting_contract config = Some valid_addr then
       rbind (get_total_vesting Q valid_addr) (\<lambda>total.
       Inr \<lparr>sr_staker = valid_addr, sr_total_staked = total, sr_deposit_list = []\<rparr>)
     else
       rbind (sk_load ''Vec<StakeDeposit>'' (staked st valid_addr)) (\<lambda>staker_deposits.
       rbind (u128_sum (map sd_amount staker_deposits)) (\<lambda>total.
       Inr \<lparr>sr_staker = valid_addr, sr_total_staked = total,
            sr_deposit_list = map to_old_deposit staker_deposits\<rparr>))))"

definition query_user_rewards ::
  "chain_lib \<Rightarrow> staking_storage \<Rightarrow> Env \<Rightarrow> string \<Rightarrow> (std_error, RewardsResponse) result" where
  "query_user_rewards L st env user =
     rbind (sk_config_load st) (\<lambda>config.
     rbind (sk_load ''StakeDistributionLog'' (SK_INCENTIVE_SCHEDULING st)) (\<lambda>incentive_schedule.
     rbind (sk_load ''Vec<FeeEvent>'' (SK_FEE_EVENTS st)) (\<lambda>fee_events.
     rbind (lib_addr_validate L user) (\<lambda>valid_addr.
     let user_deposits = or_default (staked st valid_addr) [];
         info = or_default (delegations st valid_addr) no_delegations in
     if user_deposits \<noteq> [] then
       let deposits = filter (\<lambda>d. sd_unstake_start_time d = None) user_deposits in
       rbind (u128_sum (map sd_amount deposits)) (\<lambda>total_rewarding_stake.
       rbind (rfold (\<lambda>deposit (claimables, accrued_interest).
           rbind (get_deposit_claimables st config incentive_schedule env fee_events deposit (di_delegated info)
                    (di_delegated_to info) total_rewarding_stake (di_commission info)) (\<lambda>(claims, incentives).
           rbind (u128_add accrued_interest incentives) (\<lambda>accrued_interest.
           Inr (claimables @ claims, accrued_interest)))) deposits ([], 0)) (\<lambda>(claimables, accrued_interest).
       Inr \<lparr>rw_claimables = filter (\<lambda>c. a_amount c \<noteq> 0) claimables, rw_accrued_interest = accrued_interest\<rparr>))
     else if kc_vesting_contract config = Some user then
       rbind (sk_totals_load st) (\<lambda>totals.
       rbind (dec_of_uint (to_vesting_contract totals)) (\<lambda>d.
       rbind (decimal_multiplication d (kc_vesting_rev_multiplier config)) (\<lambda>d.
       let total = to_uint_floor d in
       rbind (sk_load ''u64'' (SK_VESTING_STAKE_TIME st)) (\<lambda>stake_time.
       rbind (get_deposit_claimables st config incentive_schedule env fee_events
           \<lparr>sd_staker = user, sd_amount = total, sd_stake_time = stake_time, sd_unstake_start_time = None,
            sd_last_accrued = None\<rparr> [] [] total 0) (\<lambda>(claims, interest).
       Inr \<lparr>rw_claimables = filter (\<lambda>c. a_amount c \<noteq> 0) claims, rw_accrued_interest = 0\<rparr>)))))
     else (case SK_DELEGATE_CLAIMS st valid_addr of
         Some (coins, interest) \<Rightarrow> Inr \<lparr>rw_claimables = map (\<lambda>c. \<lparr>a_info = NativeToken (c_denom c),
             a_amount = c_amount c\<rparr>) coins, rw_accrued_interest = interest\<rparr>
       | None \<Rightarrow> Inr \<lparr>rw_claimables = [], rw_accrued_interest = 0\<rparr>)))))"

definition query_staked ::
  "staking_storage \<Rightarrow> Env \<Rightarrow> nat option \<Rightarrow> u64 option \<Rightarrow> u64 option \<Rightarrow> bool \<Rightarrow> (std_error, OldStakeDeposit list) result" where
  "query_staked st env limit start_after end_before unstaking =
     (let limit = or_default limit SK_DEFAULT_LIMIT;
          start_after = or_default start_after 0 in
      rbind (case end_before of Some t \<Rightarrow> Inr t | None \<Rightarrow> u64_add (time_seconds env) 1) (\<lambda>end_before.
      let stakers = concat (map (\<lambda>(u, ds). filter (\<lambda>d. start_after < sd_stake_time d \<and> sd_stake_time d < end_before) ds)
            (store_range None (SK_STAKED st)));
          stakers = (if unstaking then stakers else filter (\<lambda>d. sd_unstake_start_time d = None) stakers) in
      Inr (map to_old_deposit (take limit stakers))))"

definition sk_query_fee_events ::
  "staking_storage \<Rightarrow> nat option \<Rightarrow> u64 option \<Rightarrow> (std_error, FeeEvent list) result" where
  "sk_query_fee_events st limit start_after =
     rbind (sk_load ''Vec<FeeEvent>'' (SK_FEE_EVENTS st)) (\<lambda>fee_events.
     Inr (take (or_default limit SK_DEFAULT_LIMIT)
       (filter (\<lambda>e. or_default start_after 0 \<le> fe_time_of_event e) fee_events)))"

definition query_totals :: "staking_storage \<Rightarrow> (std_error, TotalStakedResponse) result" where
  "query_totals st =
     rbind (sk_totals_load st) (\<lambda>totals.
     Inr \<lparr>ts_total_not_including_vested = to_stakers totals, ts_vested_total = to_vesting_contract totals\<rparr>)"

definition query_delegations ::
  "chain_lib \<Rightarrow> staking_storage \<Rightarrow> Env \<Rightarrow> nat option \<Rightarrow> string option \<Rightarrow> u64 option \<Rightarrow> string option \<Rightarrow>
   (std_error, DelegationResponse list) result" where
  "query_delegations L st env limit start_after end_before user =
     (let limit = or_default limit SK_DEFAULT_LIMIT in
      rbind (case end_before of Some t \<Rightarrow> Inr t | None \<Rightarrow> u64_add (time_seconds env) 1) (\<lambda>end_before.
      case user of
        Some user \<Rightarrow>
          rbind (lib_addr_validate L user) (\<lambda>user.
          rbind (ok_or (GenericErr ''No delegation info found for user'') (delegations st user)) (\<lambda>info.
          Inr [\<lparr>dr_user = user, dr_delegation_info = to_old_info end_before info\<rparr>]))
      | None \<Rightarrow>
          Inr (map (\<lambda>(user, info). \<lparr>dr_user = user, dr_delegation_info = to_old_info end_before info\<rparr>)
            (take limit (filter (\<lambda>(u, i). case start_after of None \<Rightarrow> True | Some a \<Rightarrow> a < u)
              (store_range None (SK_DELEGATIONS st)))))))"

text \<open>
  The page of declared delegates: \<open>position(..).unwrap_or(len)\<close>, one past it at the start, and the slice
  between the two, which aborts when they cross or pass the end.
\<close>

definition position_or_len :: "Delegate list \<Rightarrow> addr \<Rightarrow> nat" where
  "position_or_len ds a = (case find_index_of (\<lambda>d. dg_delegate d = a) ds of Some (i, _) \<Rightarrow> i | None \<Rightarrow> length ds)"

definition slice_of :: "'a list \<Rightarrow> nat \<Rightarrow> nat \<Rightarrow> ('e, 'a list) result" where
  "slice_of xs i j = (if i \<le> j \<and> j \<le> length xs then Inr (take (j - i) (drop i xs)) else Inl Panic)"

definition query_declared_delegates ::
  "chain_lib \<Rightarrow> staking_storage \<Rightarrow> nat option \<Rightarrow> string option \<Rightarrow> string option \<Rightarrow> string option \<Rightarrow>
   (std_error, Delegate list) result" where
  "query_declared_delegates L st limit start_after end_before user =
     (let limit = or_default limit SK_DEFAULT_LIMIT in
      rbind (ok_or (GenericErr ''No list of declared delegates'') (SK_DELEGATE_INFO st)) (\<lambda>delegate_infos.
      case user of
        Some user \<Rightarrow>
          rbind (lib_addr_validate L user) (\<lambda>user. Inr (filter (\<lambda>d. dg_delegate d = user) delegate_infos))
      | None \<Rightarrow>
          rbind (case start_after of
              Some a \<Rightarrow> rbind (lib_addr_validate L a) (\<lambda>a. Inr (position_or_len delegate_infos a + 1))
            | None \<Rightarrow> Inr 0) (\<lambda>start_index.
          rbind (case end_before of
              Some a \<Rightarrow> rbind (lib_addr_validate L a) (\<lambda>a. Inr (position_or_len delegate_infos a))
            | None \<Rightarrow> Inr (length delegate_infos)) (\<lambda>end_index.
          rbind (slice_of delegate_infos start_index end_index) (\<lambda>delegate_infos.
          Inr (take limit delegate_infos))))))"

end
