(* ===== verification/Gov_Query.thy ===== *)
theory Gov_Query
  imports Gov_Contract
begin

text \<open>
  Governance: the queries (\<open>contracts/governance/src/contracts.rs\<close>). A page of proposals follows the order
  of the texts of the ids.
\<close>

definition to_proposal_response :: "Proposal \<Rightarrow> ProposalResponse" where
  "to_proposal_response p =
     \<lparr>pq_voting_power = pp_voting_power p, pq_proposal_id = pp_proposal_id p, pq_submitter = pp_submitter p,
      pq_status = pp_status p, pq_aligned_power = pp_aligned_power p, pq_for_power = pp_for_power p,
      pq_against_power = pp_against_power p, pq_amendment_power = pp_amendment_power p,
      pq_removal_power = pp_removal_power p, pq_start_block = pp_start_block p, pq_start_time = pp_start_time p,
      pq_end_block = pp_end_block p, pq_delayed_end_block = pp_delayed_end_block p,
      pq_expiration_block = pp_expiration_block p, pq_title = pp_title p, pq_description = pp_description p,
      pq_messages = pp_messages p, pq_link = pp_link p\<rparr>"

definition proposal_page :: "u64 option \<Rightarrow> nat option \<Rightarrow> Proposal store \<Rightarrow> ProposalResponse list" where
  "proposal_page start limit m =
     map (\<lambda>(_, p). to_proposal_response p)
       (take (min (or_default limit 10) 30) (store_range (map_option proposal_key start) m))"

definition query_proposals ::
  "gov_storage \<Rightarrow> u64 option \<Rightarrow> nat option \<Rightarrow> (std_error, ProposalListResponse) result" where
  "query_proposals st start limit =
     rbind (ok_or (NotFound ''Uint64'') (GV_PROPOSAL_COUNT st)) (\<lambda>count.
     Inr \<lparr>pl_proposal_count = count, pl_proposal_list = proposal_page start limit (GV_PROPOSALS st)\<rparr>)"

definition query_pending_proposals ::
  "gov_storage \<Rightarrow> u64 option \<Rightarrow> nat option \<Rightarrow> (std_error, ProposalListResponse) result" where
  "query_pending_proposals st start limit =
     rbind (ok_or (NotFound ''Uint64'') (GV_PROPOSAL_COUNT st)) (\<lambda>count.
     Inr \<lparr>pl_proposal_count = count, pl_proposal_list = proposal_page start limit (GV_PENDING_PROPOSALS st)\<rparr>)"

fun voters_of :: "ProposalVoteOption \<Rightarrow> Proposal \<Rightarrow> addr list" where
  "voters_of VoteFor p = pp_for_voters p"
| "voters_of VoteAgainst p = pp_against_voters p"
| "voters_of VoteAmend p = pp_amendment_voters p"
| "voters_of VoteRemove p = pp_removal_voters p"
| "voters_of VoteAlign p = pp_aligned_voters p"

definition query_proposal_voters ::
  "gov_lib \<Rightarrow> gov_storage \<Rightarrow> u64 \<Rightarrow> ProposalVoteOption \<Rightarrow> u64 option \<Rightarrow> nat option \<Rightarrow> string option \<Rightarrow>
   (std_error, addr list) result" where
  "query_proposal_voters G st proposal_id vote_option start limit specific_user =
     (let limit = min (or_default limit 100) 250; start = or_default start 0 in
      rbind (gv_proposal_load st proposal_id) (\<lambda>p.
      let voters = voters_of vote_option p in
      case specific_user of
        Some user \<Rightarrow>
          rbind (lib_addr_validate (gl_chain G) user) (\<lambda>user.
          if user \<in> set voters then Inr [user]
          else Inl (Failed (GenericFmtNum ''User did not vote for this option in proposal {}'' proposal_id)))
      | None \<Rightarrow> Inr (take limit (drop start voters))))"

record ProposalVotesResponse =
  pv_proposal_id :: u64
  pv_for_power :: uint128
  pv_against_power :: uint128
  pv_amendment_power :: uint128
  pv_removal_power :: uint128
  pv_aligned_power :: uint128

definition query_proposal_votes :: "gov_storage \<Rightarrow> u64 \<Rightarrow> (std_error, ProposalVotesResponse) result" where
  "query_proposal_votes st proposal_id =
     rbind (gv_proposal_load st proposal_id) (\<lambda>p.
     Inr \<lparr>pv_proposal_id = proposal_id, pv_for_power = pp_for_power p, pv_against_power = pp_against_power p,
          pv_amendment_power = pp_amendment_power p, pv_removal_power = pp_removal_power p,
          pv_aligned_power = pp_aligned_power p\<rparr>)"

datatype gov_query_msg =
    GqConfig
  | GqActiveProposals "u64 option" "nat option"
  | GqPendingProposals "u64 option" "nat option"
  | GqProposalVoters u64 ProposalVoteOption "u64 option" "nat option" "string option"
  | GqProposal u64
  | GqProposalVotes u64
  | GqUserVotingPower string u64 bool
  | GqTotalVotingPower u64

datatype gov_query_response =
    GrConfig gov_config
  | GrList ProposalListResponse
  | GrProposal Proposal
  | GrVotes ProposalVotesResponse
  | GrVoters "addr list"
  | GrPower uint128

fun gov_query ::
  "gov_lib \<Rightarrow> gov_storage \<Rightarrow> gov_querier \<Rightarrow> gov_query_msg \<Rightarrow> (std_error, gov_query_response) result" where
  "gov_query G st Q GqConfig = rbind (gv_config_load st) (\<lambda>c. Inr (GrConfig c))"
| "gov_query G st Q (GqActiveProposals start limit) = rbind (query_proposals st start limit) (\<lambda>r. Inr (GrList r))"
| "gov_query G st Q (GqPendingProposals start limit) =
     rbind (query_pending_proposals st start limit) (\<lambda>r. Inr (GrList r))"
| "gov_query G st Q (GqProposal proposal_id) = rbind (gv_proposal_load st proposal_id) (\<lambda>p. Inr (GrProposal p))"
| "gov_query G st Q (GqProposalVotes proposal_id) = rbind (query_proposal_votes st proposal_id) (\<lambda>r. Inr (GrVotes r))"
| "gov_query G st Q (GqUserVotingPower user proposal_id vesting) =
     rbind (gv_proposal_load st proposal_id) (\<lambda>p.
     rbind (lib_addr_validate (gl_chain G) user) (\<lambda>user.
     rbind (gv_config_load st) (\<lambda>config.
     rbind (calc_voting_power G st Q None user (pp_start_time p) False (if vesting then Some user else None)
              (gc_quadratic_voting config)) (\<lambda>(power, _).
     Inr (GrPower power)))))"
| "gov_query G st Q (GqTotalVotingPower proposal_id) =
     rbind (gv_proposal_load st proposal_id) (\<lambda>p.
     rbind (gv_config_load st) (\<lambda>config.
     rbind (calc_total_voting_power_at G st Q (gc_quadratic_voting config) (pp_start_time p)) (\<lambda>power.
     Inr (GrPower power))))"
| "gov_query G st Q (GqProposalVoters proposal_id vote_option start limit specific_user) =
     rbind (query_proposal_voters G st proposal_id vote_option start limit specific_user) (\<lambda>vs. Inr (GrVoters vs))"

end
