(* ===== verification/Vault_Shares.thy ===== *)
theory Vault_Shares
  imports Chain_Store
begin

text \<open>
  What the token vaults share: the conversion between base tokens and vault tokens
  (\<open>packages/membrane/src/stability_pool_vault.rs\<close>), the errors of the vault contracts
  (\<open>mars-vault-token/src/error.rs\<close>, the same file in each vault), the responses of the Mars red bank
  (\<open>mars_redbank.rs\<close>) and the messages to the chain's token factory. The conversions round down both
  ways, which is what \<open>shares_round_trip\<close> and \<open>rate_never_falls\<close> rest on.
\<close>

section \<open>Conversions\<close>

definition u128_multiply_ratio :: "uint128 \<Rightarrow> uint128 \<Rightarrow> uint128 \<Rightarrow> ('e, uint128) result" where
  "u128_multiply_ratio a n d =
     (if d = 0 then Inl Panic
      else let q = a * n div d in if q < U128_BOUND then Inr q else Inl Panic)"

lemma u128_multiply_ratio_ok [res_ok]:
  "u128_multiply_ratio a n d = Inr q \<longleftrightarrow> 0 < d \<and> q = a * n div d \<and> q < U128_BOUND"
  by (auto simp: u128_multiply_ratio_def Let_def)

definition DEFAULT_VAULT_TOKENS_PER_STAKED_BASE_TOKEN :: uint128 where
  "DEFAULT_VAULT_TOKENS_PER_STAKED_BASE_TOKEN = 1000000"

definition calculate_vault_tokens :: "uint128 \<Rightarrow> uint128 \<Rightarrow> uint128 \<Rightarrow> (std_error, uint128) result" where
  "calculate_vault_tokens base_tokens total_staked_amount vault_token_supply =
     (if total_staked_amount = 0 then
        let v = base_tokens * DEFAULT_VAULT_TOKENS_PER_STAKED_BASE_TOKEN in
        if v < U128_BOUND then Inr v else Inl (Failed OverflowErr)
      else u128_multiply_ratio vault_token_supply base_tokens total_staked_amount)"

definition calculate_base_tokens :: "uint128 \<Rightarrow> uint128 \<Rightarrow> uint128 \<Rightarrow> (std_error, uint128) result" where
  "calculate_base_tokens vault_tokens total_staked_amount vault_token_supply =
     (if vault_token_supply = 0 then Inr (vault_tokens div DEFAULT_VAULT_TOKENS_PER_STAKED_BASE_TOKEN)
      else u128_multiply_ratio total_staked_amount vault_tokens vault_token_supply)"

text \<open>The amount whose value the rate check compares.\<close>

definition RATE_UNIT :: uint128 where "RATE_UNIT = 1000000000000"

lemma calculate_ok [res_ok]:
  "calculate_vault_tokens b t s = Inr v \<longleftrightarrow>
     v = (if t = 0 then b * DEFAULT_VAULT_TOKENS_PER_STAKED_BASE_TOKEN else s * b div t) \<and> v < U128_BOUND"
  "calculate_base_tokens v t s = Inr b \<longleftrightarrow>
     (if s = 0 then b = v div DEFAULT_VAULT_TOKENS_PER_STAKED_BASE_TOKEN else b = t * v div s \<and> b < U128_BOUND)"
  by (auto simp: calculate_vault_tokens_def calculate_base_tokens_def Let_def res_ok)

text \<open>Minted at the current rate, tokens are never worth more than what was paid for them.\<close>

lemma vault_tokens_fair:
  "calculate_vault_tokens b t s = Inr v \<Longrightarrow> 0 < t \<Longrightarrow> v * t \<le> s * b"
  by (simp add: res_ok)

lemma base_tokens_fair:
  "calculate_base_tokens v t s = Inr b \<Longrightarrow> 0 < s \<Longrightarrow> b * s \<le> t * v"
  by (simp add: res_ok)

lemma shares_round_trip:
  assumes "v * t \<le> s * b" and "p * (s + v) \<le> (t + b) * v" and "0 < s"
  shows "p \<le> (b :: nat)"
proof (rule ccontr)
  assume "\<not> p \<le> b"
  then have "(b + 1) * (s + v) \<le> p * (s + v)" by (intro mult_le_mono1) simp
  also have "\<dots> \<le> t * v + b * v" using assms(2) by (simp add: algebra_simps)
  also have "\<dots> \<le> s * b + b * v" using assms(1) by (simp add: mult.commute)
  finally have "s + v \<le> 0" by (simp add: algebra_simps)
  with assms(3) show False by simp
qed

text \<open>Neither an entry nor an exit lowers what a vault token is worth.\<close>

lemma rate_never_falls_entry:
  assumes "v * t \<le> s * (b :: nat)"
  shows "t * (s + v) \<le> (t + b) * s"
  using assms by (simp add: algebra_simps)

lemma rate_never_falls_exit:
  assumes "b * s \<le> t * v" and "v \<le> s" and "b \<le> (t :: nat)"
  shows "t * (s - v) \<le> (t - b) * s"
  using assms by (simp add: diff_mult_distrib diff_mult_distrib2 mult.commute)

section \<open>Errors, the token factory, the red bank\<close>

datatype vault_error =
    VaStd std_error
  | VaUnauthorized
  | VaZeroAmount
  | VaContractHasClaims "Coin list"
  | VaZeroDepositTokens
  | VaCustomError string
  | VaCustomNums string "nat list"
  | VaCustomTexts string "string list"

type_synonym 'a vault_result = "(vault_error, 'a) result"

datatype token_factory_msg =
    CreateDenom addr string
  | Mint addr Coin addr
  | Burn addr Coin addr

record InterestRateModel =
  im_optimal_utilization_rate :: decimal
  im_base :: decimal
  im_slope_1 :: decimal
  im_slope_2 :: decimal

record Market =
  mk_denom :: string
  mk_reserve_factor :: decimal
  mk_interest_rate_model :: InterestRateModel
  mk_borrow_index :: decimal
  mk_liquidity_index :: decimal
  mk_borrow_rate :: decimal
  mk_liquidity_rate :: decimal
  mk_indexes_last_updated :: u64
  mk_collateral_total_scaled :: uint128
  mk_debt_total_scaled :: uint128

record UserCollateralResponse =
  uc_denom :: string
  uc_amount_scaled :: uint128
  uc_amount :: uint128
  uc_enabled :: bool

datatype mars_execute_msg =
    MarsDeposit "string option" "string option"
  | MarsWithdraw string "uint128 option" "string option" "string option" "bool option"

definition vault_denom :: "addr \<Rightarrow> string \<Rightarrow> string" where
  "vault_denom contract subdenom = ''factory/'' @ contract @ ''/'' @ subdenom"

definition va_load :: "string \<Rightarrow> 'a option \<Rightarrow> 'a vault_result" where
  "va_load what v = ok_or (VaStd (NotFound what)) v"

lemma va_load_ok [res_ok]: "va_load what v = Inr x \<longleftrightarrow> v = Some x"
  by (simp add: va_load_def res_ok)

text \<open>The one coin a vault function accepts: the templates are those of the error texts.\<close>

definition va_one_coin :: "MessageInfo \<Rightarrow> string \<Rightarrow> string \<Rightarrow> string \<Rightarrow> string list \<Rightarrow> Coin vault_result" where
  "va_one_coin info denom count_text denom_text accepted =
     (case funds info of
        [coin] \<Rightarrow>
          if c_denom coin \<noteq> denom then Inl (Failed (VaCustomTexts denom_text (c_denom coin # accepted)))
          else Inr coin
      | _ \<Rightarrow> Inl (Failed (VaCustomTexts count_text accepted)))"

lemma va_one_coin_ok [res_ok]:
  "va_one_coin info denom ct dt acc = Inr coin \<longleftrightarrow> funds info = [coin] \<and> c_denom coin = denom"
  by (auto simp: va_one_coin_def split: list.splits)

definition va_set_addr :: "chain_lib \<Rightarrow> string \<Rightarrow> string option \<Rightarrow> addr \<Rightarrow>
    (addr \<times> 'c attr list) vault_result" where
  "va_set_addr L key update old = (case update of
       None \<Rightarrow> Inr (old, [])
     | Some a \<Rightarrow> rbind (map_err VaStd (lib_addr_validate L a)) (\<lambda>v. Inr (v, [(key, AText a)])))"

definition va_set_value :: "string \<Rightarrow> ('a \<Rightarrow> 'c attr_val) \<Rightarrow> 'a option \<Rightarrow> 'a \<Rightarrow> 'a \<times> 'c attr list" where
  "va_set_value key pr update old = (case update of
       None \<Rightarrow> (old, []) | Some v \<Rightarrow> (v, [(key, pr v)]))"

section \<open>The ledger of a vault token\<close>

text \<open>
  A vault records how many of its tokens are in circulation. The interface: an operation that
  returned changes the record by what its messages mint and burn. Then, over any run, the record is
  what has been minted less what has been burnt.
\<close>

locale share_ledger =
  fixes exec :: "'m \<Rightarrow> 's \<Rightarrow> ('e, 's \<times> 'r) result"
    and circulating :: "'s \<Rightarrow> nat option"
    and minted burnt :: "'r \<Rightarrow> nat"
  assumes exec_supply:
    "exec m s = Inr (s', r) \<Longrightarrow> circulating s = Some n \<Longrightarrow>
       \<exists>n'. circulating s' = Some n' \<and> n' + burnt r = n + minted r"
begin

fun issue :: "'m list \<Rightarrow> 's \<times> nat \<times> nat \<Rightarrow> 's \<times> nat \<times> nat" where
  "issue [] w = w"
| "issue (m # ms) (s, made, gone) = issue ms (case exec m s of
       Inl _ \<Rightarrow> (s, made, gone)
     | Inr (s', r) \<Rightarrow> (s', made + minted r, gone + burnt r))"

lemma issue_supply:
  assumes "circulating s = Some n" and "n + gone = made" and "issue ms (s, made, gone) = (s', made', gone')"
  shows "circulating s' = Some (made' - gone') \<and> gone' \<le> made'"
  using assms
proof (induction ms arbitrary: s n made gone)
  case Nil
  then show ?case by auto
next
  case (Cons m ms)
  show ?case
  proof (cases "exec m s")
    case (Inl e)
    with Cons.prems show ?thesis by (intro Cons.IH) simp_all
  next
    case (Inr p)
    then obtain t r where p: "exec m s = Inr (t, r)" by (cases p) simp
    then obtain n' where n': "circulating t = Some n'" "n' + burnt r = n + minted r"
      using exec_supply Cons.prems(1) by blast
    show ?thesis
    proof (rule Cons.IH[OF n'(1)])
      show "n' + (gone + burnt r) = made + minted r" using n'(2) Cons.prems(2) by simp
      show "issue ms (t, made + minted r, gone + burnt r) = (s', made', gone')" using Cons.prems(3) p by simp
    qed
  qed
qed

lemma issue_keeps:
  assumes "\<And>m s s' r. I s \<Longrightarrow> exec m s = Inr (s', r) \<Longrightarrow> I s'" and "I s"
    and "issue ms (s, made, gone) = (s', made', gone')"
  shows "I s'"
  using assms(2,3)
proof (induction ms arbitrary: s made gone)
  case Nil
  then show ?case by simp
next
  case (Cons m ms)
  show ?case
  proof (cases "exec m s")
    case (Inl e)
    with Cons.prems show ?thesis by (intro Cons.IH[of s made gone]) simp_all
  next
    case (Inr p)
    then obtain t r where p: "exec m s = Inr (t, r)" by (cases p) simp
    then have "I t" using assms(1) Cons.prems(1) by blast
    then show ?thesis using Cons.prems(2) p by (intro Cons.IH[of t "made + minted r" "gone + burnt r"]) simp_all
  qed
qed

end

end
