(* ===== verification/Mars_Vault.thy ===== *)
theory Mars_Vault
  imports Vault_Shares
begin

text \<open>
  The vault over the Mars red bank (\<open>contracts/mars-vault-token/src/contract.rs\<close>, \<open>state.rs\<close>,
  \<open>packages/membrane/src/mars_vault_token.rs\<close>): deposits enter the red bank and are paid with vault
  tokens, vault tokens are burnt for what they are worth there. After an entry or an exit the vault sends
  itself \<open>RateAssurance\<close>, which fails when the value of a vault token has moved.
\<close>

section \<open>Data\<close>

definition HOURS_PER_YEAR :: nat where "HOURS_PER_YEAR = 8784"
definition MV_SECONDS_PER_HOUR :: u64 where "MV_SECONDS_PER_HOUR = 3600"
definition MV_SECONDS_PER_WEEK :: u64 where "MV_SECONDS_PER_WEEK = 86400 * 7"
definition MV_SECONDS_PER_MONTH :: u64 where "MV_SECONDS_PER_MONTH = 86400 * 30"
definition MV_SECONDS_PER_THREE_MONTHS :: u64 where "MV_SECONDS_PER_THREE_MONTHS = 86400 * 90"
definition MV_SECONDS_PER_YEAR :: u64 where "MV_SECONDS_PER_YEAR = 86400 * 365"

record mars_vault_config =
  mv_owner :: addr
  mv_mars_redbank_addr :: addr
  mv_vault_token :: string
  mv_deposit_token :: string
  mv_total_deposit_tokens :: uint128

record APRInstance =
  ap_apr_per_second :: decimal
  ap_time_since_last_update :: u64
  ap_apr_of_this_update :: decimal

record APRTracker =
  at_aprs :: "APRInstance list"
  at_last_updated :: u64
  at_last_total_deposit :: uint128

record TokenRateAssurance =
  tr_pre_btokens_per_one :: uint128

record mars_vault_storage =
  MV_CONFIG :: "mars_vault_config option"
  MV_VAULT_TOKEN :: "uint128 option"
  MV_APR_TRACKER :: "APRTracker option"
  MV_TOKEN_RATE_ASSURANCE :: "TokenRateAssurance option"
  MV_OWNERSHIP_TRANSFER :: "addr option"
  MV_CONTRACT :: "(string \<times> string) option"

datatype mars_vault_execute_msg =
    MvEnterVault
  | MvExitVault
  | MvUpdateConfig "string option" "string option"
  | MvCrankAPR
  | MvRateAssurance

datatype mars_vault_msg =
    MvFactory token_factory_msg
  | MvMars addr mars_execute_msg "Coin list"
  | MvSelf addr mars_vault_execute_msg "Coin list"

datatype mars_vault_debug = DbgMarsVaultConfig mars_vault_config | DbgAPRInstance APRInstance

record mars_vault_response =
  vr_messages :: "mars_vault_msg list"
  vr_attributes :: "mars_vault_debug attr list"

record mars_vault_querier =
  mq_market :: "addr \<Rightarrow> string \<Rightarrow> Market answer"
  mq_user_collateral :: "addr \<Rightarrow> addr \<Rightarrow> string \<Rightarrow> UserCollateralResponse answer"

section \<open>Deposits and APRs\<close>

definition mv_total_deposits ::
  "mars_vault_querier \<Rightarrow> Env \<Rightarrow> mars_vault_config \<Rightarrow> (std_error, uint128) result" where
  "mv_total_deposits Q env config =
     (case mq_user_collateral Q (mv_mars_redbank_addr config) (contract_address env) (mv_deposit_token config) of
        Inl _ \<Rightarrow> Inl (Failed (GenericErr ''Failed to query the Mars Redbank for the vault's collateral info''))
      | Inr vault_user_info \<Rightarrow> Inr (uc_amount vault_user_info))"

definition get_apr_instance ::
  "mars_vault_querier \<Rightarrow> mars_vault_config \<Rightarrow> APRTracker \<Rightarrow> u64 \<Rightarrow> (std_error, APRInstance) result" where
  "get_apr_instance Q config tracker block_time =
     rbind (answered (mq_market Q (mv_mars_redbank_addr config) (mv_deposit_token config))) (\<lambda>market.
     let apr = mk_liquidity_rate market in
     rbind (u64_sub block_time (at_last_updated tracker)) (\<lambda>elapsed.
     let time_since_last_update = max elapsed 1 in
     rbind (dec_from_ratio time_since_last_update 1) (\<lambda>t.
     rbind (decimal_division apr t) (\<lambda>apr_per_second.
     Inr \<lparr>ap_apr_per_second = apr_per_second, ap_time_since_last_update = time_since_last_update,
       ap_apr_of_this_update = apr\<rparr>))))"

text \<open>An update within the hour is dropped; past a year of hours the oldest instance goes.\<close>

definition save_apr_instance ::
  "APRInstance \<Rightarrow> u64 \<Rightarrow> uint128 \<Rightarrow> mars_vault_storage \<Rightarrow> (std_error, mars_vault_storage) result" where
  "save_apr_instance apr_instance block_time total_deposit_tokens st =
     rbind (ok_or (NotFound ''APRTracker'') (MV_APR_TRACKER st)) (\<lambda>tracker.
     rbind (u64_sub block_time (at_last_updated tracker)) (\<lambda>elapsed.
     if elapsed < MV_SECONDS_PER_HOUR then Inr st
     else
       let aprs = at_aprs tracker @ [apr_instance];
           aprs = (if HOURS_PER_YEAR < length aprs then tl aprs else aprs) in
       Inr (st\<lparr>MV_APR_TRACKER := Some \<lparr>at_aprs = aprs, at_last_updated = block_time,
         at_last_total_deposit = total_deposit_tokens\<rparr>\<rparr>)))"

definition crank_apr ::
  "mars_vault_querier \<Rightarrow> mars_vault_storage \<Rightarrow> Env \<Rightarrow> (mars_vault_storage \<times> mars_vault_response) vault_result" where
  "crank_apr Q st env =
     rbind (va_load ''APRTracker'' (MV_APR_TRACKER st)) (\<lambda>tracker.
     rbind (va_load ''Config'' (MV_CONFIG st)) (\<lambda>config.
     rbind (map_err VaStd (mv_total_deposits Q env config)) (\<lambda>total_deposit_tokens.
     rbind (map_err VaStd (get_apr_instance Q config tracker (time_seconds env))) (\<lambda>apr_instance.
     rbind (map_err VaStd (save_apr_instance apr_instance (time_seconds env) total_deposit_tokens st)) (\<lambda>st.
     Inr (st, \<lparr>vr_messages = [], vr_attributes = [(''new_apr_instance'', ADebug (DbgAPRInstance apr_instance))]\<rparr>))))))"

section \<open>Entering and leaving\<close>

definition mv_rate_assurance ::
  "mars_vault_querier \<Rightarrow> mars_vault_storage \<Rightarrow> Env \<Rightarrow> MessageInfo \<Rightarrow>
   (mars_vault_storage \<times> mars_vault_response) vault_result" where
  "mv_rate_assurance Q st env info =
     rbind (va_load ''Config'' (MV_CONFIG st)) (\<lambda>config.
     if sender info \<noteq> contract_address env then Inl (Failed VaUnauthorized)
     else
       rbind (va_load ''TokenRateAssurance'' (MV_TOKEN_RATE_ASSURANCE st)) (\<lambda>assurance.
       rbind (va_load ''Uint128'' (MV_VAULT_TOKEN st)) (\<lambda>total_vault_tokens.
       rbind (map_err VaStd (mv_total_deposits Q env config)) (\<lambda>total_deposit_tokens.
       rbind (map_err VaStd (calculate_base_tokens RATE_UNIT total_deposit_tokens total_vault_tokens))
         (\<lambda>btokens_per_one.
       if btokens_per_one \<noteq> tr_pre_btokens_per_one assurance then
         Inl (Failed (VaCustomNums ''Deposit or withdraw rate assurance failed. Deposit tokens per 1 post-tx: {:?} --- pre-tx: {:?}''
           [btokens_per_one, tr_pre_btokens_per_one assurance]))
       else Inr (st, \<lparr>vr_messages = [], vr_attributes = []\<rparr>))))))"

definition mv_enter_vault ::
  "mars_vault_querier \<Rightarrow> mars_vault_storage \<Rightarrow> Env \<Rightarrow> MessageInfo \<Rightarrow>
   (mars_vault_storage \<times> mars_vault_response) vault_result" where
  "mv_enter_vault Q st env info =
     rbind (va_load ''APRTracker'' (MV_APR_TRACKER st)) (\<lambda>tracker.
     rbind (va_load ''Config'' (MV_CONFIG st)) (\<lambda>config.
     rbind (va_one_coin info (mv_deposit_token config)
       ''More than 1 asset was sent, this function only accepts the deposit token: {:?}''
       ''The wrong asset was sent ({:?}), this function only accepts the deposit token: {:?}''
       [mv_deposit_token config]) (\<lambda>coin.
     let deposit_amount = c_amount coin in
     rbind (map_err VaStd (mv_total_deposits Q env config)) (\<lambda>total_deposit_tokens.
     rbind (map_err VaStd (get_apr_instance Q config tracker (time_seconds env))) (\<lambda>new_apr_instance.
     rbind (u128_add total_deposit_tokens deposit_amount) (\<lambda>deposits_after.
     rbind (map_err VaStd (save_apr_instance new_apr_instance (time_seconds env) deposits_after st)) (\<lambda>st.
     rbind (va_load ''Uint128'' (MV_VAULT_TOKEN st)) (\<lambda>total_vault_tokens.
     rbind (map_err VaStd (calculate_base_tokens RATE_UNIT total_deposit_tokens total_vault_tokens))
       (\<lambda>pre_btokens_per_one.
     rbind (map_err VaStd (calculate_vault_tokens deposit_amount total_deposit_tokens total_vault_tokens))
       (\<lambda>vault_tokens_to_distribute.
     rbind (u128_add total_vault_tokens vault_tokens_to_distribute) (\<lambda>new_supply.
     Inr (st\<lparr>MV_TOKEN_RATE_ASSURANCE := Some \<lparr>tr_pre_btokens_per_one = pre_btokens_per_one\<rparr>, MV_VAULT_TOKEN := Some new_supply,
            MV_CONFIG := Some config\<rparr>,
       \<lparr>vr_messages =
          [MvFactory (Mint (contract_address env)
             \<lparr>c_denom = mv_vault_token config, c_amount = vault_tokens_to_distribute\<rparr> (sender info)),
           MvMars (mv_mars_redbank_addr config) (MarsDeposit None None)
             [\<lparr>c_denom = mv_deposit_token config, c_amount = deposit_amount\<rparr>]] @
          (if total_deposit_tokens \<noteq> 0 \<and> total_vault_tokens \<noteq> 0
           then [MvSelf (contract_address env) MvRateAssurance []] else []),
        vr_attributes = [(''method'', AText ''enter_vault''), (''deposit_amount'', ANum deposit_amount),
          (''vault_tokens_distributed'', ANum vault_tokens_to_distribute),
          (''deposit_sent_to_yield'', ANum deposit_amount)]\<rparr>))))))))))))"

definition mv_exit_vault ::
  "mars_vault_querier \<Rightarrow> mars_vault_storage \<Rightarrow> Env \<Rightarrow> MessageInfo \<Rightarrow>
   (mars_vault_storage \<times> mars_vault_response) vault_result" where
  "mv_exit_vault Q st env info =
     rbind (va_load ''Config'' (MV_CONFIG st)) (\<lambda>config.
     rbind (va_load ''APRTracker'' (MV_APR_TRACKER st)) (\<lambda>tracker.
     rbind (va_one_coin info (mv_vault_token config)
       ''More than 1 asset was sent, this function only accepts the vault token: {:?}''
       ''The wrong asset was sent ({:?}), this function only accepts the vault token: {:?}''
       [mv_vault_token config]) (\<lambda>coin.
     let vault_tokens = c_amount coin in
     if vault_tokens = 0 then Inl (Failed (VaCustomError ''Need to send more than 0 vault tokens''))
     else
       rbind (map_err VaStd (mv_total_deposits Q env config)) (\<lambda>total_deposit_tokens.
       rbind (va_load ''Uint128'' (MV_VAULT_TOKEN st)) (\<lambda>total_vault_tokens.
       rbind (map_err VaStd (calculate_base_tokens RATE_UNIT total_deposit_tokens total_vault_tokens))
         (\<lambda>pre_btokens_per_one.
       rbind (map_err VaStd (calculate_base_tokens vault_tokens total_deposit_tokens total_vault_tokens))
         (\<lambda>deposit_tokens_to_withdraw.
       rbind (map_err VaStd (get_apr_instance Q config tracker (time_seconds env))) (\<lambda>new_apr_instance.
       rbind (u128_sub total_deposit_tokens deposit_tokens_to_withdraw) (\<lambda>deposits_after.
       rbind (map_err VaStd (save_apr_instance new_apr_instance (time_seconds env) deposits_after st)) (\<lambda>st.
       if total_vault_tokens < vault_tokens then
         Inl (Failed (VaCustomError ''Failed to subtract vault tokens''))
       else
         let new_supply = total_vault_tokens - vault_tokens in
         Inr (st\<lparr>MV_TOKEN_RATE_ASSURANCE := Some \<lparr>tr_pre_btokens_per_one = pre_btokens_per_one\<rparr>, MV_VAULT_TOKEN := Some new_supply,
                MV_CONFIG := Some config\<rparr>,
           \<lparr>vr_messages =
              [MvFactory (Burn (contract_address env)
                 \<lparr>c_denom = mv_vault_token config, c_amount = vault_tokens\<rparr> (contract_address env)),
               MvMars (mv_mars_redbank_addr config)
                 (MarsWithdraw (mv_deposit_token config) (Some deposit_tokens_to_withdraw) (Some (sender info)) None None)
                 []] @
              (if new_supply \<noteq> 0 \<and> deposit_tokens_to_withdraw < total_deposit_tokens
               then [MvSelf (contract_address env) MvRateAssurance []] else []),
            vr_attributes = [(''method'', AText ''exit_vault''), (''vault_tokens'', ANum vault_tokens),
              (''deposit_tokens_withdrawn'', ANum deposit_tokens_to_withdraw)]\<rparr>)))))))))))"

section \<open>Configuration and entry points\<close>

definition mv_update_config ::
  "chain_lib \<Rightarrow> mars_vault_storage \<Rightarrow> MessageInfo \<Rightarrow> string option \<Rightarrow> string option \<Rightarrow>
   (mars_vault_storage \<times> mars_vault_response) vault_result" where
  "mv_update_config L st info owner mars_redbank_addr =
     rbind (va_load ''Config'' (MV_CONFIG st)) (\<lambda>config.
     rbind (if sender info = mv_owner config then Inr config
            else rbind (va_load ''Addr'' (MV_OWNERSHIP_TRANSFER st)) (\<lambda>next_owner.
              if sender info = next_owner then Inr (config\<lparr>mv_owner := sender info\<rparr>)
              else Inl (Failed VaUnauthorized))) (\<lambda>config.
     rbind (case owner of
              None \<Rightarrow> Inr (st, [])
            | Some a \<Rightarrow> rbind (map_err VaStd (lib_addr_validate L a)) (\<lambda>valid_addr.
                Inr (st\<lparr>MV_OWNERSHIP_TRANSFER := Some valid_addr\<rparr>, [(''owner_transfer'', AText valid_addr)])))
       (\<lambda>(st, owner_attrs).
     rbind (va_set_addr L ''updated_mars_redbank_addr'' mars_redbank_addr (mv_mars_redbank_addr config))
       (\<lambda>(redbank, redbank_attrs).
     let config = config\<lparr>mv_mars_redbank_addr := redbank\<rparr> in
     Inr (st\<lparr>MV_CONFIG := Some config\<rparr>,
       \<lparr>vr_messages = [], vr_attributes = [(''method'', AText ''update_config'')] @ owner_attrs @ redbank_attrs @
          [(''updated_config'', ADebug (DbgMarsVaultConfig config))]\<rparr>)))))"

definition mv_instantiate ::
  "chain_lib \<Rightarrow> mars_vault_storage \<Rightarrow> Env \<Rightarrow> MessageInfo \<Rightarrow> string \<Rightarrow> string \<Rightarrow> string \<Rightarrow>
   (mars_vault_storage \<times> mars_vault_response) vault_result" where
  "mv_instantiate L st env info vault_subdenom deposit_token mars_redbank_addr =
     rbind (map_err VaStd (lib_addr_validate L mars_redbank_addr)) (\<lambda>redbank.
     let config = \<lparr>mv_owner = sender info, mv_mars_redbank_addr = redbank,
           mv_vault_token = vault_denom (contract_address env) vault_subdenom,
           mv_deposit_token = deposit_token, mv_total_deposit_tokens = 0\<rparr> in
     Inr (st\<lparr>MV_CONTRACT := Some (''crates.io:mars-vault-token'', lib_version L), MV_CONFIG := Some config,
            MV_APR_TRACKER := Some \<lparr>at_aprs = [], at_last_updated = time_seconds env, at_last_total_deposit = 0\<rparr>,
            MV_VAULT_TOKEN := Some 0\<rparr>,
       \<lparr>vr_messages = [MvFactory (CreateDenom (contract_address env) vault_subdenom)],
        vr_attributes = [(''method'', AText ''instantiate''), (''config'', ADebug (DbgMarsVaultConfig config)),
          (''contract_address'', AText (contract_address env)), (''sub_denom'', AText vault_subdenom)]\<rparr>))"

definition mv_execute ::
  "chain_lib \<Rightarrow> mars_vault_querier \<Rightarrow> mars_vault_storage \<Rightarrow> Env \<Rightarrow> MessageInfo \<Rightarrow> mars_vault_execute_msg \<Rightarrow>
   (mars_vault_storage \<times> mars_vault_response) vault_result" where
  "mv_execute L Q st env info msg = (case msg of
       MvUpdateConfig owner mars_redbank_addr \<Rightarrow> mv_update_config L st info owner mars_redbank_addr
     | MvEnterVault \<Rightarrow> mv_enter_vault Q st env info
     | MvExitVault \<Rightarrow> mv_exit_vault Q st env info
     | MvCrankAPR \<Rightarrow> crank_apr Q st env
     | MvRateAssurance \<Rightarrow> mv_rate_assurance Q st env info)"

definition mv_migrate :: "mars_vault_storage \<Rightarrow> (mars_vault_storage \<times> mars_vault_response) vault_result" where
  "mv_migrate st = Inr (st, \<lparr>vr_messages = [], vr_attributes = []\<rparr>)"

section \<open>Queries\<close>

record MvAPRResponse =
  rp_week_apr :: "decimal option"
  rp_month_apr :: "decimal option"
  rp_three_month_apr :: "decimal option"
  rp_year_apr :: "decimal option"

text \<open>Each rate counts for the time until the next one, the instances being the latest first.\<close>

fun weigh_aprs :: "APRInstance list \<Rightarrow> u64 \<Rightarrow> decimal \<Rightarrow> decimal \<Rightarrow> (std_error, decimal) result" where
  "weigh_aprs [] duration previous_apr running_apr = Inr running_apr"
| "weigh_aprs (i # is) duration previous_apr running_apr =
     rbind (dec_from_ratio (ap_time_since_last_update i) duration) (\<lambda>ratio.
     rbind (decimal_multiplication previous_apr ratio) (\<lambda>part.
     rbind (dec_add running_apr part) (\<lambda>running_apr.
     weigh_aprs is duration (ap_apr_of_this_update i) running_apr)))"

definition calc_duration_apr :: "APRInstance list \<Rightarrow> u64 \<Rightarrow> (std_error, decimal option) result" where
  "calc_duration_apr instances duration = (case instances of
       [] \<Rightarrow> Inr (Some 0)
     | i # is \<Rightarrow> rbind (weigh_aprs is duration (ap_apr_of_this_update i) 0) (\<lambda>d. Inr (Some d)))"

definition apr_turn ::
  "APRInstance \<Rightarrow> u64 \<times> APRInstance list \<times> MvAPRResponse \<Rightarrow>
   (std_error, u64 \<times> APRInstance list \<times> MvAPRResponse) result" where
  "apr_turn i = (\<lambda>(running_duration, running_aprs, aprs).
     rbind (u64_add running_duration (ap_time_since_last_update i)) (\<lambda>running_duration.
     let running_aprs = running_aprs @ [i] in
     rbind (if MV_SECONDS_PER_WEEK \<le> running_duration \<and> rp_week_apr aprs = None then
              rbind (calc_duration_apr running_aprs running_duration) (\<lambda>a. Inr (aprs\<lparr>rp_week_apr := a\<rparr>))
            else if MV_SECONDS_PER_MONTH \<le> running_duration \<and> rp_month_apr aprs = None then
              rbind (calc_duration_apr running_aprs running_duration) (\<lambda>a. Inr (aprs\<lparr>rp_month_apr := a\<rparr>))
            else if MV_SECONDS_PER_THREE_MONTHS \<le> running_duration \<and> rp_three_month_apr aprs = None then
              rbind (calc_duration_apr running_aprs running_duration) (\<lambda>a. Inr (aprs\<lparr>rp_three_month_apr := a\<rparr>))
            else if MV_SECONDS_PER_YEAR \<le> running_duration \<and> rp_year_apr aprs = None then
              rbind (calc_duration_apr running_aprs running_duration) (\<lambda>a. Inr (aprs\<lparr>rp_year_apr := a\<rparr>))
            else Inr aprs) (\<lambda>aprs.
     Inr (running_duration, running_aprs, aprs))))"

definition mv_query_apr ::
  "mars_vault_querier \<Rightarrow> mars_vault_storage \<Rightarrow> Env \<Rightarrow> (std_error, MvAPRResponse) result" where
  "mv_query_apr Q st env =
     rbind (ok_or (NotFound ''APRTracker'') (MV_APR_TRACKER st)) (\<lambda>tracker.
     rbind (ok_or (NotFound ''Config'') (MV_CONFIG st)) (\<lambda>config.
     rbind (mv_total_deposits Q env config) (\<lambda>_.
     rbind (get_apr_instance Q config tracker (time_seconds env)) (\<lambda>new_apr_instance.
     rbind (rfold apr_turn (rev (at_aprs tracker @ [new_apr_instance]))
       (0, [], \<lparr>rp_week_apr = None, rp_month_apr = None, rp_three_month_apr = None, rp_year_apr = None\<rparr>))
       (\<lambda>(_, _, aprs). Inr aprs)))))"

definition mv_query_vault_token_underlying ::
  "mars_vault_querier \<Rightarrow> mars_vault_storage \<Rightarrow> Env \<Rightarrow> uint128 \<Rightarrow> (std_error, uint128) result" where
  "mv_query_vault_token_underlying Q st env vault_token_amount =
     rbind (ok_or (NotFound ''Config'') (MV_CONFIG st)) (\<lambda>config.
     rbind (ok_or (NotFound ''Uint128'') (MV_VAULT_TOKEN st)) (\<lambda>total_vault_tokens.
     rbind (mv_total_deposits Q env config) (\<lambda>total_deposit_tokens.
     calculate_base_tokens vault_token_amount total_deposit_tokens total_vault_tokens)))"

definition mv_query_deposit_token_conversion ::
  "mars_vault_querier \<Rightarrow> mars_vault_storage \<Rightarrow> Env \<Rightarrow> uint128 \<Rightarrow> (std_error, uint128) result" where
  "mv_query_deposit_token_conversion Q st env deposit_token_amount =
     rbind (ok_or (NotFound ''Config'') (MV_CONFIG st)) (\<lambda>config.
     rbind (ok_or (NotFound ''Uint128'') (MV_VAULT_TOKEN st)) (\<lambda>total_vault_tokens.
     rbind (mv_total_deposits Q env config) (\<lambda>total_deposit_tokens.
     calculate_vault_tokens deposit_token_amount total_deposit_tokens total_vault_tokens)))"

datatype mars_vault_query_msg =
    MvqConfig
  | MvqVaultTokenUnderlying uint128
  | MvqDepositTokenConversion uint128
  | MvqAPR

datatype mars_vault_query_response =
    MvrConfig mars_vault_config
  | MvrAmount uint128
  | MvrAPR MvAPRResponse

definition mv_query ::
  "mars_vault_querier \<Rightarrow> mars_vault_storage \<Rightarrow> Env \<Rightarrow> mars_vault_query_msg \<Rightarrow>
   (std_error, mars_vault_query_response) result" where
  "mv_query Q st env msg = (case msg of
       MvqConfig \<Rightarrow> rbind (ok_or (NotFound ''Config'') (MV_CONFIG st)) (\<lambda>c. Inr (MvrConfig c))
     | MvqVaultTokenUnderlying n \<Rightarrow> rbind (mv_query_vault_token_underlying Q st env n) (\<lambda>x. Inr (MvrAmount x))
     | MvqDepositTokenConversion n \<Rightarrow> rbind (mv_query_deposit_token_conversion Q st env n) (\<lambda>x. Inr (MvrAmount x))
     | MvqAPR \<Rightarrow> rbind (mv_query_apr Q st env) (\<lambda>a. Inr (MvrAPR a)))"

section \<open>Effects\<close>

lemmas vault_step_ok = map_err_eq_Inr va_load_ok va_one_coin_ok int_ok

lemma save_apr_effect:
  assumes "save_apr_instance i now n st = Inr st'"
  shows "MV_CONFIG st' = MV_CONFIG st \<and> MV_VAULT_TOKEN st' = MV_VAULT_TOKEN st \<and>
    MV_TOKEN_RATE_ASSURANCE st' = MV_TOKEN_RATE_ASSURANCE st \<and> MV_OWNERSHIP_TRANSFER st' = MV_OWNERSHIP_TRANSFER st"
  using assms by (auto simp: save_apr_instance_def res_ok Let_def split: if_splits)

lemma save_apr_length:
  assumes "save_apr_instance i now n st = Inr st'" and "MV_APR_TRACKER st = Some tr"
    and "length (at_aprs tr) \<le> HOURS_PER_YEAR"
  shows "\<exists>tr'. MV_APR_TRACKER st' = Some tr' \<and> length (at_aprs tr') \<le> HOURS_PER_YEAR"
  using assms by (auto simp: save_apr_instance_def res_ok Let_def HOURS_PER_YEAR_def split: if_splits)

lemma mv_enter_effect:
  assumes "mv_enter_vault Q st env info = Inr (st', r)"
  obtains config coin deposits sup minted rate i st1 where
    "MV_CONFIG st = Some config" "funds info = [coin]" "c_denom coin = mv_deposit_token config"
    "mv_total_deposits Q env config = Inr deposits" "MV_VAULT_TOKEN st = Some sup"
    "calculate_vault_tokens (c_amount coin) deposits sup = Inr minted"
    "calculate_base_tokens RATE_UNIT deposits sup = Inr rate"
    "MV_CONFIG st' = Some config" "MV_VAULT_TOKEN st' = Some (sup + minted)"
    "MV_TOKEN_RATE_ASSURANCE st' = Some \<lparr>tr_pre_btokens_per_one = rate\<rparr>"
    "save_apr_instance i (time_seconds env) (deposits + c_amount coin) st = Inr st1"
    "MV_APR_TRACKER st' = MV_APR_TRACKER st1"
    "vr_messages r = [MvFactory (Mint (contract_address env)
         \<lparr>c_denom = mv_vault_token config, c_amount = minted\<rparr> (sender info)),
       MvMars (mv_mars_redbank_addr config) (MarsDeposit None None)
         [\<lparr>c_denom = mv_deposit_token config, c_amount = c_amount coin\<rparr>]] @
       (if deposits \<noteq> 0 \<and> sup \<noteq> 0 then [MvSelf (contract_address env) MvRateAssurance []] else [])"
  using assms unfolding mv_enter_vault_def Let_def
  apply (elim handlerE)
  subgoal premises prems for tracker config coin deposits i after st1 sup rate minted new_supply
    using prems(2-) save_apr_effect[of i "time_seconds env" after st st1]
    by (intro prems(1)[of config coin deposits sup minted rate i st1]) (auto simp: vault_step_ok)
  done

lemma mv_exit_effect:
  assumes "mv_exit_vault Q st env info = Inr (st', r)"
  obtains config coin deposits sup paid rate i st1 where
    "MV_CONFIG st = Some config" "funds info = [coin]" "c_denom coin = mv_vault_token config" "c_amount coin \<noteq> 0"
    "mv_total_deposits Q env config = Inr deposits" "MV_VAULT_TOKEN st = Some sup"
    "calculate_base_tokens (c_amount coin) deposits sup = Inr paid"
    "calculate_base_tokens RATE_UNIT deposits sup = Inr rate"
    "c_amount coin \<le> sup" "paid \<le> deposits"
    "MV_CONFIG st' = Some config" "MV_VAULT_TOKEN st' = Some (sup - c_amount coin)"
    "MV_TOKEN_RATE_ASSURANCE st' = Some \<lparr>tr_pre_btokens_per_one = rate\<rparr>"
    "save_apr_instance i (time_seconds env) (deposits - paid) st = Inr st1"
    "MV_APR_TRACKER st' = MV_APR_TRACKER st1"
    "vr_messages r = [MvFactory (Burn (contract_address env)
         \<lparr>c_denom = mv_vault_token config, c_amount = c_amount coin\<rparr> (contract_address env)),
       MvMars (mv_mars_redbank_addr config)
         (MarsWithdraw (mv_deposit_token config) (Some paid) (Some (sender info)) None None) []] @
       (if sup - c_amount coin \<noteq> 0 \<and> paid < deposits
        then [MvSelf (contract_address env) MvRateAssurance []] else [])"
  using assms unfolding mv_exit_vault_def Let_def
  apply (elim handlerE)
  subgoal premises prems for config tracker coin deposits sup rate paid i after st1
    using prems(2-) save_apr_effect[of i "time_seconds env" after st st1]
    by (intro prems(1)[of config coin deposits sup paid rate i st1]) (auto simp: vault_step_ok)
  done

section \<open>The ledger\<close>

fun mv_minted_by :: "mars_vault_msg \<Rightarrow> nat" where
  "mv_minted_by (MvFactory (Mint _ coin _)) = c_amount coin"
| "mv_minted_by _ = 0"

fun mv_burnt_by :: "mars_vault_msg \<Rightarrow> nat" where
  "mv_burnt_by (MvFactory (Burn _ coin _)) = c_amount coin"
| "mv_burnt_by _ = 0"

definition mv_minted :: "mars_vault_response \<Rightarrow> nat" where
  "mv_minted r = sum_list (map mv_minted_by (vr_messages r))"

definition mv_burnt :: "mars_vault_response \<Rightarrow> nat" where
  "mv_burnt r = sum_list (map mv_burnt_by (vr_messages r))"

type_synonym mv_input = "mars_vault_querier \<times> Env \<times> MessageInfo \<times> mars_vault_execute_msg"

definition mv_step ::
  "chain_lib \<Rightarrow> mv_input \<Rightarrow> mars_vault_storage \<Rightarrow> (vault_error, mars_vault_storage \<times> mars_vault_response) result" where
  "mv_step L i st = (case i of (Q, env, info, msg) \<Rightarrow> mv_execute L Q st env info msg)"

lemma mv_update_config_effect:
  assumes "mv_update_config L st info owner redbank = Inr (st', r)"
  shows "MV_VAULT_TOKEN st' = MV_VAULT_TOKEN st \<and> MV_APR_TRACKER st' = MV_APR_TRACKER st \<and> vr_messages r = [] \<and>
    (\<exists>c. MV_CONFIG st' = Some c)"
  using assms unfolding mv_update_config_def Let_def
  by (elim handlerE) (auto simp: res_ok split: option.splits if_splits)

lemma mv_crank_effect:
  assumes "crank_apr Q st env = Inr (st', r)"
  shows "MV_VAULT_TOKEN st' = MV_VAULT_TOKEN st \<and> vr_messages r = [] \<and> MV_CONFIG st' = MV_CONFIG st \<and>
    (\<exists>i n. save_apr_instance i (time_seconds env) n st = Inr st')"
  using assms unfolding crank_apr_def
  by (elim handlerE) (auto simp: res_ok dest: save_apr_effect)

lemma mv_rate_assurance_effect:
  assumes "mv_rate_assurance Q st env info = Inr (st', r)"
  shows "st' = st \<and> vr_messages r = []"
  using assms unfolding mv_rate_assurance_def Let_def
  by (elim handlerE) (auto simp: res_ok split: if_splits)

lemma mv_execute_supply:
  assumes "mv_execute L Q st env info msg = Inr (st', r)" and "MV_VAULT_TOKEN st = Some n"
  shows "\<exists>n'. MV_VAULT_TOKEN st' = Some n' \<and> n' + mv_burnt r = n + mv_minted r"
proof (cases msg)
  case MvEnterVault
  with assms(1) have "mv_enter_vault Q st env info = Inr (st', r)" by (simp add: mv_execute_def)
  then show ?thesis
    by (rule mv_enter_effect) (use assms(2) in \<open>simp add: mv_burnt_def mv_minted_def\<close>)
next
  case MvExitVault
  with assms(1) have "mv_exit_vault Q st env info = Inr (st', r)" by (simp add: mv_execute_def)
  then show ?thesis
    by (rule mv_exit_effect) (use assms(2) in \<open>simp add: mv_burnt_def mv_minted_def\<close>)
next
  case (MvUpdateConfig a b)
  with assms mv_update_config_effect[of L st info a b st' r] show ?thesis
    by (simp add: mv_execute_def mv_burnt_def mv_minted_def)
next
  case MvCrankAPR
  with assms mv_crank_effect[of Q st env st' r] show ?thesis
    by (simp add: mv_execute_def mv_burnt_def mv_minted_def)
next
  case MvRateAssurance
  with assms mv_rate_assurance_effect[of Q st env info st' r] show ?thesis
    by (simp add: mv_execute_def mv_burnt_def mv_minted_def)
qed

interpretation mv: share_ledger "mv_step L" MV_VAULT_TOKEN mv_minted mv_burnt for L
  by unfold_locales (auto simp: mv_step_def dest: mv_execute_supply)

section \<open>The list of APRs\<close>

definition mv_aprs_ok :: "mars_vault_storage \<Rightarrow> bool" where
  "mv_aprs_ok st \<longleftrightarrow> (\<exists>tr. MV_APR_TRACKER st = Some tr \<and> length (at_aprs tr) \<le> HOURS_PER_YEAR)"

lemma mv_execute_aprs:
  assumes "mv_execute L Q st env info msg = Inr (st', r)" and "mv_aprs_ok st"
  shows "mv_aprs_ok st'"
proof (cases msg)
  case MvEnterVault
  with assms(1) have "mv_enter_vault Q st env info = Inr (st', r)" by (simp add: mv_execute_def)
  then show ?thesis
    by (rule mv_enter_effect) (use assms(2) save_apr_length in \<open>fastforce simp: mv_aprs_ok_def\<close>)
next
  case MvExitVault
  with assms(1) have "mv_exit_vault Q st env info = Inr (st', r)" by (simp add: mv_execute_def)
  then show ?thesis
    by (rule mv_exit_effect) (use assms(2) save_apr_length in \<open>fastforce simp: mv_aprs_ok_def\<close>)
next
  case (MvUpdateConfig a b)
  with assms mv_update_config_effect[of L st info a b st' r] show ?thesis
    by (simp add: mv_execute_def mv_aprs_ok_def)
next
  case MvCrankAPR
  with assms mv_crank_effect[of Q st env st' r] show ?thesis
    using save_apr_length by (fastforce simp: mv_execute_def mv_aprs_ok_def)
next
  case MvRateAssurance
  with assms mv_rate_assurance_effect[of Q st env info st' r] show ?thesis
    by (simp add: mv_execute_def)
qed

end
