(* ===== verification/Mars_Vault_Properties.thy ===== *)
theory Mars_Vault_Properties
  imports Mars_Vault Liq_Demo
begin

text \<open>
  Properties of the vault over the Mars red bank: entering and leaving gains nothing, what the rate check
  leaves a depositor to lose, and the ledger of the vault token.
\<close>

text \<open>The red bank after it was sent, or paid out, an amount of the vault's deposit.\<close>

definition red_bank_credited :: "uint128 \<Rightarrow> mars_vault_querier \<Rightarrow> mars_vault_querier" where
  "red_bank_credited n Q = Q\<lparr>mq_user_collateral := (\<lambda>a u d. case mq_user_collateral Q a u d of
       Inl e \<Rightarrow> Inl e | Inr c \<Rightarrow> Inr (c\<lparr>uc_amount := uc_amount c + n\<rparr>))\<rparr>"

lemma deposits_credited:
  assumes "mv_total_deposits Q env config = Inr t" and "contract_address env' = contract_address env"
  shows "mv_total_deposits (red_bank_credited n Q) env' config = Inr (t + n)"
  using assms by (auto simp: mv_total_deposits_def red_bank_credited_def split: sum.splits)

text \<open>A concrete vault with 1000 tokens of deposit.\<close>

definition mv_demo_querier :: "uint128 \<Rightarrow> mars_vault_querier" where
  "mv_demo_querier n = \<lparr>mq_market = (\<lambda>_ d. Inr \<lparr>mk_denom = d, mk_reserve_factor = 0,
       mk_interest_rate_model = \<lparr>im_optimal_utilization_rate = 0, im_base = 0, im_slope_1 = 0, im_slope_2 = 0\<rparr>,
       mk_borrow_index = 0, mk_liquidity_index = 0, mk_borrow_rate = 0, mk_liquidity_rate = 50000000000000000,
       mk_indexes_last_updated = 0, mk_collateral_total_scaled = 0, mk_debt_total_scaled = 0\<rparr>),
     mq_user_collateral = (\<lambda>_ _ d. Inr \<lparr>uc_denom = d, uc_amount_scaled = n, uc_amount = n, uc_enabled = True\<rparr>)\<rparr>"

definition mv_demo_config :: mars_vault_config where
  "mv_demo_config = \<lparr>mv_owner = ''own'', mv_mars_redbank_addr = ''bank'', mv_vault_token = ''vt'',
     mv_deposit_token = ''usdc'', mv_total_deposit_tokens = 0\<rparr>"

definition mv_demo_state :: mars_vault_storage where
  "mv_demo_state = \<lparr>MV_CONFIG = Some mv_demo_config, MV_VAULT_TOKEN = Some 900000000,
     MV_APR_TRACKER = Some \<lparr>at_aprs = [], at_last_updated = 0, at_last_total_deposit = 0\<rparr>,
     MV_TOKEN_RATE_ASSURANCE = None, MV_OWNERSHIP_TRANSFER = None, MV_CONTRACT = None\<rparr>"

definition mv_demo_env :: Env where
  "mv_demo_env = \<lparr>block_height = 1, block_nanos = 10000000000000, contract_address = ''vault''\<rparr>"

definition mv_demo_info :: "string \<Rightarrow> uint128 \<Rightarrow> MessageInfo" where
  "mv_demo_info denom n = \<lparr>sender = ''alice'', funds = [\<lparr>c_denom = denom, c_amount = n\<rparr>]\<rparr>"

lemmas mv_demo = mv_demo_querier_def mv_demo_config_def mv_demo_state_def mv_demo_env_def mv_demo_info_def
  mv_total_deposits_def get_apr_instance_def save_apr_instance_def va_load_def va_one_coin_def answered_def
  calculate_vault_tokens_def calculate_base_tokens_def u128_multiply_ratio_def RATE_UNIT_def
  DEFAULT_VAULT_TOKENS_PER_STAKED_BASE_TOKEN_def MV_SECONDS_PER_HOUR_def HOURS_PER_YEAR_def time_seconds_def
  dec_from_ratio_def decimal_division_def dec_checked_div_def DECIMAL_FRACTIONAL_def int_defs U128_BOUND_def
  U64_BOUND_def Let_def red_bank_credited_def

section \<open>Entering and leaving\<close>

text \<open>
  C20. Entering the Mars vault and leaving it at once gains nothing: the deposit tokens withdrawn for exactly
  the vault tokens an entry minted, once the red bank has credited the deposit, never exceed the
  deposit, whatever the deposits and the supply were before (a vault without deposits and one without
  vault tokens included).
\<close>
theorem entering_and_leaving_gains_nothing:
  assumes "mv_enter_vault Q st env info = Inr (st1, r1)" and "funds info = [coin]"
    and "MvFactory (Mint m tokens receiver) \<in> set (vr_messages r1)"
    and "mv_exit_vault (red_bank_credited (c_amount coin) Q) st1 env' info' = Inr (st2, r2)"
    and "funds info' = [tokens]" and "contract_address env' = contract_address env"
    and "MvMars b (MarsWithdraw d (Some paid) x y z) fs \<in> set (vr_messages r2)"
  shows "paid \<le> c_amount coin"
proof -
  obtain config t s v where c: "MV_CONFIG st1 = Some config" "mv_total_deposits Q env config = Inr t"
    "calculate_vault_tokens (c_amount coin) t s = Inr v" "MV_VAULT_TOKEN st1 = Some (s + v)"
    "c_amount tokens = v"
    using assms(1,2,3) by (elim mv_enter_effect) (auto split: if_splits)
  have "v \<noteq> 0 \<and> calculate_base_tokens v (t + c_amount coin) (s + v) = Inr paid"
    using assms(4) by (rule mv_exit_effect)
      (use assms(5,7) c deposits_credited[OF c(2) assms(6)] in \<open>auto split: if_splits\<close>)
  then have p: "paid * (s + v) \<le> (t + c_amount coin) * v" and v: "0 < v"
    by (auto dest: base_tokens_fair)
  show ?thesis
  proof (cases "t = 0 \<or> s = 0")
    case True
    with c(3) v have "t = 0" by (auto simp: res_ok split: if_splits)
    with p have "paid * s + paid * v \<le> c_amount coin * v" by (simp add: add_mult_distrib2)
    then have "paid * v \<le> c_amount coin * v" by linarith
    with v show ?thesis by simp
  next
    case False
    with c(3) have f: "v * t \<le> s * c_amount coin" by (auto dest: vault_tokens_fair)
    show ?thesis by (rule shares_round_trip[OF f p]) (use False in simp)
  qed
qed

definition mv_demo_after :: mars_vault_storage where
  "mv_demo_after = \<lparr>MV_CONFIG = Some mv_demo_config, MV_VAULT_TOKEN = Some 1199700000,
     MV_APR_TRACKER = Some \<lparr>at_aprs = [\<lparr>ap_apr_per_second = 5000000000000, ap_time_since_last_update = 10000,
       ap_apr_of_this_update = 50000000000000000\<rparr>], at_last_updated = 10000, at_last_total_deposit = 1333\<rparr>,
     MV_TOKEN_RATE_ASSURANCE = Some \<lparr>tr_pre_btokens_per_one = 1111111\<rparr>, MV_OWNERSHIP_TRANSFER = None,
     MV_CONTRACT = None\<rparr>"

lemma mv_demo_entry:
  "case mv_enter_vault (mv_demo_querier 1000) mv_demo_state mv_demo_env (mv_demo_info ''usdc'' 333) of
     Inl _ \<Rightarrow> False
   | Inr (st1, r1) \<Rightarrow> st1 = mv_demo_after \<and>
       MvFactory (Mint ''vault'' \<lparr>c_denom = ''vt'', c_amount = 299700000\<rparr> ''alice'') \<in> set (vr_messages r1)"
  by code_simp

lemma mv_demo_exit:
  "case mv_exit_vault (red_bank_credited 333 (mv_demo_querier 1000)) mv_demo_after mv_demo_env
       (mv_demo_info ''vt'' 299700000) of
     Inl _ \<Rightarrow> False
   | Inr (st2, r2) \<Rightarrow>
       MvMars ''bank'' (MarsWithdraw ''usdc'' (Some 333) (Some ''alice'') None None) [] \<in> set (vr_messages r2)"
  by code_simp

lemma mv_demo_enters:
  obtains st1 r1 st2 r2 where
    "mv_enter_vault (mv_demo_querier 1000) mv_demo_state mv_demo_env (mv_demo_info ''usdc'' 333) = Inr (st1, r1)"
    "MV_CONFIG st1 = Some mv_demo_config" "MV_VAULT_TOKEN st1 = Some 1199700000"
    "MV_TOKEN_RATE_ASSURANCE st1 = Some \<lparr>tr_pre_btokens_per_one = 1111111\<rparr>"
    "MvFactory (Mint ''vault'' \<lparr>c_denom = ''vt'', c_amount = 299700000\<rparr> ''alice'') \<in> set (vr_messages r1)"
    "mv_exit_vault (red_bank_credited 333 (mv_demo_querier 1000)) st1 mv_demo_env (mv_demo_info ''vt'' 299700000)
      = Inr (st2, r2)"
    "MvMars ''bank'' (MarsWithdraw ''usdc'' (Some 333) (Some ''alice'') None None) [] \<in> set (vr_messages r2)"
  using mv_demo_entry mv_demo_exit by (auto simp: mv_demo_after_def split: sum.splits prod.splits)

theorem entering_and_leaving_gains_nothing_witness:
  "\<exists>st1 r1 st2 r2 paid. mv_enter_vault (mv_demo_querier 1000) mv_demo_state mv_demo_env (mv_demo_info ''usdc'' 333)
       = Inr (st1, r1) \<and>
     mv_exit_vault (red_bank_credited 333 (mv_demo_querier 1000)) st1 mv_demo_env (mv_demo_info ''vt'' 299700000)
       = Inr (st2, r2) \<and>
     MvMars ''bank'' (MarsWithdraw ''usdc'' (Some paid) (Some ''alice'') None None) [] \<in> set (vr_messages r2) \<and> paid \<le> 333"
proof -
  let ?coin = "\<lparr>c_denom = ''usdc'', c_amount = 333\<rparr>"
  obtain st1 r1 st2 r2 where e: "mv_enter_vault (mv_demo_querier 1000) mv_demo_state mv_demo_env
      (mv_demo_info ''usdc'' 333) = Inr (st1, r1)"
    and m: "MvFactory (Mint ''vault'' \<lparr>c_denom = ''vt'', c_amount = 299700000\<rparr> ''alice'') \<in> set (vr_messages r1)"
    and x: "mv_exit_vault (red_bank_credited 333 (mv_demo_querier 1000)) st1 mv_demo_env
      (mv_demo_info ''vt'' 299700000) = Inr (st2, r2)"
    and w: "MvMars ''bank'' (MarsWithdraw ''usdc'' (Some 333) (Some ''alice'') None None) [] \<in> set (vr_messages r2)"
    by (rule mv_demo_enters)
  have "333 \<le> c_amount ?coin"
    by (rule entering_and_leaving_gains_nothing[OF e _ m, where coin = ?coin and env' = mv_demo_env and
        info' = "mv_demo_info ''vt'' 299700000" and ?st2.0 = st2 and ?r2.0 = r2])
      (use x w in \<open>auto simp: mv_demo_info_def\<close>)
  with e x w show ?thesis by auto
qed

section \<open>The rate check\<close>

text \<open>
  The check the vault sends itself bounds what an entry may lose to rounding: when the value of the unit of
  10^12 vault tokens is unchanged after the red bank credited the deposit, the deposit is worth less than
  the vault tokens minted for it at the old rate plus one 10^12th of the new supply.
\<close>
theorem rate_check_bounds_the_loss:
  assumes "mv_enter_vault Q st env info = Inr (st1, r1)" and "funds info = [coin]"
    and "mv_rate_assurance (red_bank_credited (c_amount coin) Q) st1 env self = Inr (st2, r2)"
    and "MV_CONFIG st = Some config" and "mv_total_deposits Q env config = Inr t"
    and "MV_VAULT_TOKEN st = Some s" and "0 < s" and "MV_VAULT_TOKEN st1 = Some (s + v)"
  shows "RATE_UNIT * c_amount coin * s < RATE_UNIT * v * t + s * (s + v)"
proof -
  let ?u = RATE_UNIT and ?d = "c_amount coin"
  obtain rate where r: "calculate_base_tokens ?u t s = Inr rate" "MV_CONFIG st1 = Some config"
    "MV_TOKEN_RATE_ASSURANCE st1 = Some \<lparr>tr_pre_btokens_per_one = rate\<rparr>"
    using assms(1) by (rule mv_enter_effect) (use assms(4-6) in auto)
  have "calculate_base_tokens ?u (t + ?d) (s + v) = Inr rate"
    using assms(3,8) r deposits_credited[OF assms(5), of env ?d]
    by (auto simp: mv_rate_assurance_def vault_step_ok Let_def split: if_splits elim!: handlerE)
  then have k2: "rate = (t + ?d) * ?u div (s + v)" using assms(7) by (simp add: res_ok)
  have "rate = t * ?u div s" using r(1) assms(7) by (simp add: res_ok)
  then have k1: "rate * s \<le> t * ?u" by simp
  have "(t + ?d) * ?u < (rate + 1) * (s + v)"
    unfolding k2 using assms(7) dividend_less_div_times[of "s + v" "(t + ?d) * ?u"] by (simp add: algebra_simps)
  then have "(t + ?d) * ?u * s < (rate + 1) * (s + v) * s" using assms(7) by simp
  also have "\<dots> = rate * s * (s + v) + s * (s + v)" by (simp add: algebra_simps)
  also have "\<dots> \<le> t * ?u * (s + v) + s * (s + v)" using k1 by (simp add: mult_le_mono1)
  finally show ?thesis by (simp add: algebra_simps)
qed

theorem rate_check_bounds_the_loss_witness:
  "\<exists>st1 r1 st2 r2. mv_enter_vault (mv_demo_querier 1000) mv_demo_state mv_demo_env (mv_demo_info ''usdc'' 333)
       = Inr (st1, r1) \<and>
     mv_rate_assurance (red_bank_credited 333 (mv_demo_querier 1000)) st1 mv_demo_env \<lparr>sender = ''vault'', funds = []\<rparr>
       = Inr (st2, r2) \<and>
     RATE_UNIT * 333 * 900000000 < RATE_UNIT * 299700000 * 1000 + 900000000 * 1199700000"
proof -
  let ?coin = "\<lparr>c_denom = ''usdc'', c_amount = 333\<rparr>" and ?self = "\<lparr>sender = ''vault'', funds = []\<rparr>"
  obtain st1 r1 where e: "mv_enter_vault (mv_demo_querier 1000) mv_demo_state mv_demo_env (mv_demo_info ''usdc'' 333)
      = Inr (st1, r1)" and st1: "MV_CONFIG st1 = Some mv_demo_config" "MV_VAULT_TOKEN st1 = Some 1199700000"
    "MV_TOKEN_RATE_ASSURANCE st1 = Some \<lparr>tr_pre_btokens_per_one = 1111111\<rparr>"
    by (rule mv_demo_enters)
  have a: "mv_rate_assurance (red_bank_credited 333 (mv_demo_querier 1000)) st1 mv_demo_env ?self
      = Inr (st1, \<lparr>vr_messages = [], vr_attributes = []\<rparr>)"
    using st1 by (simp add: mv_rate_assurance_def mv_demo)
  have "RATE_UNIT * c_amount ?coin * 900000000 < RATE_UNIT * 299700000 * 1000 + 900000000 * (900000000 + 299700000)"
    by (rule rate_check_bounds_the_loss[OF e, where coin = ?coin and config = mv_demo_config and self = ?self and
        ?st2.0 = st1 and ?r2.0 = "\<lparr>vr_messages = [], vr_attributes = []\<rparr>"])
      (use a st1 in \<open>auto simp: mv_demo\<close>)
  with e a show ?thesis by auto
qed

section \<open>The ledger\<close>

text \<open>
  After any run of messages from a new Mars vault, the recorded supply of the vault token is what the vault's
  messages have minted less what they have burnt, and the list of APRs covers at most the hours of a year.
\<close>
theorem mars_vault_supply_is_minted_less_burnt:
  assumes "mv_instantiate L st env info subdenom denom bank = Inr (st0, r0)"
    and "mv.issue L ms (st0, 0, 0) = (st', made, gone)"
  shows "MV_VAULT_TOKEN st' = Some (made - gone) \<and> gone \<le> made \<and>
    (\<exists>tracker. MV_APR_TRACKER st' = Some tracker \<and> length (at_aprs tracker) \<le> HOURS_PER_YEAR)"
proof -
  have i: "MV_VAULT_TOKEN st0 = Some 0" "mv_aprs_ok st0"
    using assms(1) by (auto simp: mv_instantiate_def mv_aprs_ok_def res_ok Let_def)
  have "mv_aprs_ok st'"
    by (rule mv.issue_keeps[where I = mv_aprs_ok, OF _ i(2) assms(2)]) (auto simp: mv_step_def dest: mv_execute_aprs)
  moreover have "MV_VAULT_TOKEN st' = Some (made - gone) \<and> gone \<le> made"
    using i(1) assms(2) by (intro mv.issue_supply[where n = 0]) auto
  ultimately show ?thesis by (simp add: mv_aprs_ok_def)
qed

theorem mars_vault_supply_is_minted_less_burnt_witness:
  "\<exists>st0 r0. mv_instantiate demo_lib (mv_demo_state\<lparr>MV_CONFIG := None\<rparr>) mv_demo_env (mv_demo_info ''uosmo'' 0) ''v'' ''usdc'' ''bank''
       = Inr (st0, r0) \<and>
     (\<forall>ms st' made gone. mv.issue demo_lib ms (st0, 0, 0) = (st', made, gone) \<longrightarrow> MV_VAULT_TOKEN st' = Some (made - gone))"
proof -
  obtain st0 r0 where i: "mv_instantiate demo_lib (mv_demo_state\<lparr>MV_CONFIG := None\<rparr>) mv_demo_env
      (mv_demo_info ''uosmo'' 0) ''v'' ''usdc'' ''bank'' = Inr (st0, r0)"
    by (simp add: mv_instantiate_def demo_lib_def Let_def)
  then show ?thesis using mars_vault_supply_is_minted_less_burnt[OF i] by blast
qed

end
