(* ===== verification/Earn_Vault_State.thy ===== *)
theory Earn_Vault_State
  imports Mars_Vault CDP_Query CDP_Reply CDP_Contract
begin

text \<open>
  The looping vault (\<open>contracts/stable-earn-vault/src/state.rs\<close>, \<open>packages/membrane/src/stable_earn_vault.rs\<close>):
  stored data, messages, the queries it makes, and the calculations of \<open>contract.rs\<close> that handlers, replies and
  queries share. The vault puts its deposits into the Mars vault, the Mars vault tokens into a position
  of the positions contract, and may borrow against the position to deposit again.
\<close>

section \<open>Data\<close>

record VaultInfo =
  vi_vault_addr :: addr
  vi_deposit_token :: string
  vi_vault_token :: string

record earn_config =
  ev_owner :: addr
  ev_cdp_contract_addr :: addr
  ev_osmosis_proxy_contract_addr :: addr
  ev_oracle_contract_addr :: addr
  ev_cdt_denom :: string
  ev_vault_token :: string
  ev_deposit_token :: VaultInfo
  ev_withdrawal_buffer :: decimal
  ev_total_nonleveraged_vault_tokens :: uint128
  ev_cdp_position_id :: uint128
  ev_deposit_cap :: uint128
  ev_swap_slippage :: decimal
  ev_vault_cost_index :: nat

record UnloopProps =
  up_desired_collateral_withdrawal :: uint128
  up_loop_count :: u64
  up_running_collateral_amount :: uint128
  up_running_credit_amount :: uint128
  up_vt_token_price :: PriceResponse
  up_cdt_peg_price :: PriceResponse

record earn_storage =
  EV_CONFIG :: "earn_config option"
  EV_VAULT_TOKEN :: "uint128 option"
  EV_TOKEN_RATE_ASSURANCE :: "TokenRateAssurance option"
  EV_UNLOOP_PROPS :: "UnloopProps option"
  EV_OWNERSHIP_TRANSFER :: "addr option"
  EV_CONTRACT :: "(string \<times> string) option"

text \<open>The properties of no unloop: what \<open>instantiate\<close>, \<open>exit_vault\<close> and \<open>migrate\<close> store.\<close>

definition blank_unloop_props :: UnloopProps where
  "blank_unloop_props =
     (let price = \<lparr>pr_prices = [], pr_price = 0, pr_decimals = 6\<rparr> in
      \<lparr>up_desired_collateral_withdrawal = 0, up_loop_count = 0, up_running_collateral_amount = 0,
       up_running_credit_amount = 0, up_vt_token_price = price, up_cdt_peg_price = price\<rparr>)"

definition LOOP_MAX :: u64 where "LOOP_MAX = 5"

definition MIN_DEPOSIT_VALUE :: decimal where "MIN_DEPOSIT_VALUE = dec_percent 10111"

definition INITIAL_VAULT_TOKENS :: uint128 where "INITIAL_VAULT_TOKENS = 1000000000000"

section \<open>Messages\<close>

record earn_update =
  eu_owner :: "string option"
  eu_cdp_contract_addr :: "string option"
  eu_mars_vault_addr :: "string option"
  eu_osmosis_proxy_contract_addr :: "string option"
  eu_oracle_contract_addr :: "string option"
  eu_withdrawal_buffer :: "decimal option"
  eu_deposit_cap :: "uint128 option"
  eu_swap_slippage :: "decimal option"
  eu_vault_cost_index :: "unit option"

datatype earn_execute_msg =
    EvEnterVault
  | EvExitVault
  | EvUpdateConfig earn_update
  | EvUnloopCDP uint128
  | EvLoopCDP
  | EvRateAssurance
  | EvPostLoopMaintenance
  | EvUnloopMaintenance
  | EvUpdateNonleveragedVaultTokens

datatype earn_msg =
    EmFactory token_factory_msg
  | EmBank addr "Coin list"
  | EmMarsVault addr mars_vault_execute_msg "Coin list"
  | EmCdp addr cdp_execute_msg "Coin list"
  | EmSwap addr string decimal "Coin list"
  | EmSelf addr earn_execute_msg "Coin list"

datatype earn_reply_id = ENTER_VAULT_REPLY | CDP_REPLY | LOOP_REPLY | UNLOOP_REPLY | EXIT_VAULT_REPLY

record earn_sub_msg =
  es_msg :: earn_msg
  es_reply :: "earn_reply_id option"

definition plain :: "earn_msg \<Rightarrow> earn_sub_msg" where
  "plain m = \<lparr>es_msg = m, es_reply = None\<rparr>"

definition reply_on_success :: "earn_msg \<Rightarrow> earn_reply_id \<Rightarrow> earn_sub_msg" where
  "reply_on_success m i = \<lparr>es_msg = m, es_reply = Some i\<rparr>"

datatype earn_debug = DbgEarnConfig earn_config

record earn_response =
  er_messages :: "earn_sub_msg list"
  er_attributes :: "earn_debug attr list"

section \<open>Queries to other contracts\<close>

record earn_querier =
  eq_basket :: "addr \<Rightarrow> Basket answer"
  eq_price :: "addr \<Rightarrow> AssetInfo \<Rightarrow> u64 \<Rightarrow> u64 \<Rightarrow> PriceResponse list answer"
  eq_prices :: "addr \<Rightarrow> AssetInfo list \<Rightarrow> u64 \<Rightarrow> u64 \<Rightarrow> PriceResponse list answer"
  eq_positions :: "addr \<Rightarrow> UserInfo \<Rightarrow> BasketPositionsResponse list answer"
  eq_collateral_interest :: "addr \<Rightarrow> decimal list answer"
  eq_underlying :: "addr \<Rightarrow> uint128 \<Rightarrow> uint128 answer"
  eq_conversion :: "addr \<Rightarrow> uint128 \<Rightarrow> uint128 answer"
  eq_vault_apr :: "addr \<Rightarrow> MvAPRResponse answer"
  eq_balance :: "addr \<Rightarrow> string \<Rightarrow> uint128 answer"

text \<open>A query whose error is replaced by a text of the caller.\<close>

definition ask_or :: "'e \<Rightarrow> 'a answer \<Rightarrow> ('e, 'a) result" where
  "ask_or e m = (case m of Inl _ \<Rightarrow> Inl (Failed e) | Inr x \<Rightarrow> Inr x)"

lemma ask_or_ok [res_ok]: "ask_or e m = Inr x \<longleftrightarrow> m = Inr x"
  by (auto simp: ask_or_def split: sum.splits)

definition ev_first_price ::
  "earn_querier \<Rightarrow> earn_config \<Rightarrow> string \<Rightarrow> u64 \<Rightarrow> u64 \<Rightarrow> 'e \<Rightarrow> ('e, PriceResponse) result" where
  "ev_first_price Q config denom twap_timeframe oracle_time_limit e =
     rbind (ask_or e (eq_price Q (ev_oracle_contract_addr config) (NativeToken denom) twap_timeframe oracle_time_limit))
       (\<lambda>prices. at_index prices 0)"

text \<open>The vault's position and its first collateral. The code appends the inner error to the text.\<close>

definition ev_position ::
  "earn_querier \<Rightarrow> Env \<Rightarrow> earn_config \<Rightarrow> 'e \<Rightarrow> ('e, PositionResponse) result" where
  "ev_position Q env config e =
     rbind (ask_or e (eq_positions Q (ev_cdp_contract_addr config)
       \<lparr>ui_position_id = ev_cdp_position_id config, ui_position_owner = contract_address env\<rparr>)) (\<lambda>users.
     rbind (at_index users 0) (\<lambda>user.
     at_index (bp_positions user) 0))"

definition ev_first_collateral :: "PositionResponse \<Rightarrow> ('e, uint128) result" where
  "ev_first_collateral p = rbind (at_index (ps_collateral_assets p) 0) (\<lambda>c. Inr (ca_amount c))"

section \<open>Calculations\<close>

text \<open>The loan-to-value ratio of the position, the collateral counting as at least 1.\<close>

definition ev_ltv :: "decimal \<Rightarrow> decimal \<Rightarrow> (std_error, decimal) result" where
  "ev_ltv vault_tokens_value debt_value = decimal_division debt_value (max vault_tokens_value DECIMAL_FRACTIONAL)"

definition calc_mintable ::
  "decimal \<Rightarrow> PriceResponse \<Rightarrow> PriceResponse \<Rightarrow> PriceResponse \<Rightarrow> uint128 \<Rightarrow> uint128 \<Rightarrow>
   (std_error, uint128 \<times> decimal \<times> uint128) result" where
  "calc_mintable swap_slippage vt_price deposit_token_price cdt_price vault_tokens debt =
     rbind (price_get_value vt_price vault_tokens) (\<lambda>vault_tokens_value.
     rbind (price_get_value cdt_price debt) (\<lambda>debt_value.
     rbind (ev_ltv vault_tokens_value debt_value) (\<lambda>ltv.
     if dec_percent 90 < ltv then Inl (Failed (GenericFmtNum ''LTV over 90%: {} > 0.9'' ltv))
     else
       rbind (dec_checked_mul (dec_percent 90 - ltv) (dec_percent 10000)) (\<lambda>points.
       rbind (decimal_multiplication vault_tokens_value (dec_percent (to_uint_floor points))) (\<lambda>mintable_value.
       rbind (price_get_amount cdt_price mintable_value) (\<lambda>amount_to_mint.
       rbind (decimal_subtraction DECIMAL_FRACTIONAL swap_slippage) (\<lambda>kept.
       rbind (decimal_multiplication mintable_value kept) (\<lambda>min_deposit_value.
       rbind (price_get_amount deposit_token_price min_deposit_value) (\<lambda>min_new_deposit_token.
       Inr (min_new_deposit_token, min_deposit_value, amount_to_mint))))))))))"

definition minimum_debt_value :: decimal where "minimum_debt_value = dec_percent 10100"

text \<open>What can be withdrawn of the position's value: the room below 90% or the debt with slippage, but
  not so much that the debt left falls below the minimum.\<close>

definition withdrawable_value ::
  "decimal \<Rightarrow> decimal \<Rightarrow> decimal \<Rightarrow> bool \<Rightarrow> (std_error, decimal) result" where
  "withdrawable_value swap_slippage vault_tokens_value debt_value in_reply =
     rbind (ev_ltv vault_tokens_value debt_value) (\<lambda>ltv.
     if dec_percent 90 < ltv then Inl (Failed (GenericFmtNum ''LTV over 90%: {} > 0.9'' ltv))
     else
       rbind (decimal_multiplication vault_tokens_value (dec_percent 90 - ltv)) (\<lambda>space.
       rbind (decimal_division space (dec_percent 90)) (\<lambda>by_space.
       rbind (dec_add DECIMAL_FRACTIONAL swap_slippage) (\<lambda>with_slippage.
       rbind (decimal_multiplication debt_value with_slippage) (\<lambda>by_debt.
       let value = min by_space by_debt in
       if value < debt_value \<and> debt_value - value < minimum_debt_value then
         if minimum_debt_value \<le> debt_value then Inr (debt_value - minimum_debt_value)
         else Inl (Failed (GenericFmtNum ''Failed to subtract debt_value from minimum_debt_value: {} - {}'' debt_value))
       else if \<not> in_reply \<and> debt_value < minimum_debt_value then
         Inl (Failed (GenericFmtNum ''Debt value: ({}), is less than minimum debt value: ({}), which will error in the CDP repay function anyway. Someone needs to add more capital to the contract's CDP, whose position ID is in the config, to create more withdrawal space to totally unloop.'' debt_value))
       else Inr value)))))"

definition calc_withdrawable_collateral ::
  "decimal \<Rightarrow> PriceResponse \<Rightarrow> PriceResponse \<Rightarrow> uint128 \<Rightarrow> uint128 \<Rightarrow> bool \<Rightarrow>
   (std_error, uint128 \<times> decimal) result" where
  "calc_withdrawable_collateral swap_slippage vt_price cdt_price vault_tokens debt in_reply =
     (if debt = 0 then Inr (vault_tokens, 0)
      else
        rbind (price_get_value vt_price vault_tokens) (\<lambda>vault_tokens_value.
        rbind (price_get_value cdt_price debt) (\<lambda>debt_value.
        rbind (withdrawable_value swap_slippage vault_tokens_value debt_value in_reply) (\<lambda>value.
        rbind (decimal_subtraction DECIMAL_FRACTIONAL swap_slippage) (\<lambda>kept.
        rbind (decimal_multiplication value kept) (\<lambda>withdrawal_w_slippage.
        rbind (price_get_amount vt_price value) (\<lambda>withdrawable_collateral.
        Inr (withdrawable_collateral, withdrawal_w_slippage))))))))"

text \<open>The ratio of the contract's tokens, their number, what is kept and what goes to the position.\<close>

definition get_buffer_amounts ::
  "earn_querier \<Rightarrow> earn_config \<Rightarrow> addr \<Rightarrow> (std_error, decimal \<times> uint128 \<times> uint128 \<times> uint128) result" where
  "get_buffer_amounts Q config contract =
     rbind (answered (eq_balance Q contract (vi_vault_token (ev_deposit_token config)))) (\<lambda>balance.
     rbind (dec_from_ratio balance 1) (\<lambda>b.
     rbind (dec_from_ratio (max (ev_total_nonleveraged_vault_tokens config) 1) 1) (\<lambda>t.
     rbind (decimal_division b t) (\<lambda>ratio_of_tokens_in_contract.
     rbind (dec_from_ratio (ev_total_nonleveraged_vault_tokens config) 1) (\<lambda>total.
     rbind (decimal_multiplication total (ev_withdrawal_buffer config)) (\<lambda>desired_ratio_tokens.
     let desired = to_uint_floor desired_ratio_tokens in
     if ratio_of_tokens_in_contract < ev_withdrawal_buffer config then
       rbind (u128_sub desired balance) (\<lambda>tokens_to_fill_ratio.
       if balance \<le> tokens_to_fill_ratio then Inr (ratio_of_tokens_in_contract, balance, balance, 0)
       else Inr (ratio_of_tokens_in_contract, balance, tokens_to_fill_ratio, balance - tokens_to_fill_ratio))
     else
       rbind (u128_sub balance desired) (\<lambda>tokens_to_lower_ratio.
       if balance \<le> tokens_to_lower_ratio then Inr (ratio_of_tokens_in_contract, balance, 0, balance)
       else Inr (ratio_of_tokens_in_contract, balance, balance - tokens_to_lower_ratio, tokens_to_lower_ratio))))))))"

text \<open>The deposits of the vault: the position's value less its debt (and slippage while there is debt), as
  Mars vault tokens, with the tokens in the contract, as deposit tokens.\<close>

definition ev_total_deposits ::
  "earn_querier \<Rightarrow> Env \<Rightarrow> earn_config \<Rightarrow> (std_error, uint128) result" where
  "ev_total_deposits Q env config =
     rbind (ask_or (GenericErr ''Failed to query the CDP basket in get_total_deposit_tokens'')
       (eq_basket Q (ev_cdp_contract_addr config))) (\<lambda>basket.
     rbind (ev_first_price Q config (vi_vault_token (ev_deposit_token config)) 60 600
       (GenericErr ''Failed to query the VT token price in get_total_deposit_tokens'')) (\<lambda>vt_token_price.
     rbind (ev_position Q env config
       (GenericErr ''Failed to query the CDP Position for the vault token amount in get_total_deposit_tokens:''))
       (\<lambda>vault_position.
     rbind (price_get_value (bk_credit_price basket) (ps_credit_amount vault_position)) (\<lambda>debt_value.
     rbind (ev_first_collateral vault_position) (\<lambda>collateral.
     rbind (price_get_value vt_token_price collateral) (\<lambda>collateral_value.
     if collateral_value < debt_value then
       Inl (Failed (GenericFmtNum ''Failed to subtract the debt from the collateral in get_total_deposit_tokens, collateral value: {}, debt value: {}'' collateral_value))
     else
       rbind (if debt_value \<noteq> 0 then
                rbind (decimal_subtraction DECIMAL_FRACTIONAL (ev_swap_slippage config)) (\<lambda>kept.
                decimal_multiplication (collateral_value - debt_value) kept)
              else Inr (collateral_value - debt_value)) (\<lambda>liquid_value.
       rbind (price_get_amount vt_token_price liquid_value) (\<lambda>vaulted.
       rbind (u128_add vaulted
         (case eq_balance Q (contract_address env) (vi_vault_token (ev_deposit_token config)) of
            Inr n \<Rightarrow> n | Inl _ \<Rightarrow> 0)) (\<lambda>total_vaulted_deposit_tokens.
       ask_or (GenericErr ''Failed to query the Mars Vault Token for the underlying deposit amount in instantiate'')
         (eq_underlying Q (vi_vault_addr (ev_deposit_token config)) total_vaulted_deposit_tokens))))))))))"

text \<open>The prices and amounts of the position, and the withdrawal of collateral other than the vault token.\<close>

definition get_cdp_position_info ::
  "earn_querier \<Rightarrow> Env \<Rightarrow> earn_config \<Rightarrow>
   (std_error, uint128 \<times> uint128 \<times> PriceResponse \<times> PriceResponse \<times> earn_msg list) result" where
  "get_cdp_position_info Q env config =
     rbind (ask_or (GenericErr ''Failed to query the VT & CDT token price in get_cdp_position_info'')
       (eq_prices Q (ev_oracle_contract_addr config)
         [NativeToken (vi_vault_token (ev_deposit_token config)), NativeToken (ev_cdt_denom config)] 0 0)) (\<lambda>prices.
     rbind (at_index prices 0) (\<lambda>vt_token_price.
     rbind (at_index prices 1) (\<lambda>cdt_price.
     rbind (ev_position Q env config
       (GenericErr ''Failed to query the CDP Position for the vault token amount in get_cdp_position_info:''))
       (\<lambda>vault_position.
     rbind (ev_first_collateral vault_position) (\<lambda>running_collateral_amount.
     let msgs = (if 1 < length (ps_collateral_assets vault_position) then
           [EmCdp (ev_cdp_contract_addr config)
              (CdpWithdraw (ev_cdp_position_id config) (map ca_asset (tl (ps_collateral_assets vault_position)))
                (Some (ev_owner config))) []]
         else []) in
     Inr (ps_credit_amount vault_position, running_collateral_amount, vt_token_price, cdt_price, msgs))))))"

definition vault_index :: "Basket \<Rightarrow> earn_config \<Rightarrow> nat option" where
  "vault_index basket config = map_option fst (find_index_of
     (\<lambda>c. asset_info_to_string (ca_info c) = vi_vault_token (ev_deposit_token config))
     (bk_collateral_types basket))"

definition ev_find_index :: "earn_querier \<Rightarrow> earn_config \<Rightarrow> nat vault_result" where
  "ev_find_index Q config =
     rbind (ask_or (VaCustomError ''Failed to query the CDP Basket'') (eq_basket Q (ev_cdp_contract_addr config)))
       (\<lambda>basket.
     ok_or (VaCustomError ''Failed to find the vault token in the CDP Basket'') (vault_index basket config))"

end
