(* ===== verification/Earn_Vault.thy ===== *)
theory Earn_Vault
  imports Earn_Vault_State
begin

text \<open>
  The looping vault: handlers, replies, configuration, entry points and queries (\<open>contracts/stable-earn-vault/src/contract.rs\<close>).
  \<open>loop_cdp\<close> borrows and swaps, its reply deposits what the swap gave. \<open>unloop_cdp\<close> takes collateral out,
  the exit reply swaps it for CDT, the unloop reply repays and asks for the next round, at most \<open>LOOP_MAX\<close>
  times, with the state of the rounds in \<open>EV_UNLOOP_PROPS\<close>.
\<close>

type_synonym earn_step = "(earn_storage \<times> earn_response) vault_result"

section \<open>Looping\<close>

definition test_looping_peg_price ::
  "earn_querier \<Rightarrow> earn_config \<Rightarrow> decimal \<Rightarrow> (PriceResponse \<times> PriceResponse) vault_result" where
  "test_looping_peg_price Q config desired_peg_price =
     rbind (ask_or (VaCustomError ''Failed to query the CDP basket in test_looping_peg_price'')
       (eq_basket Q (ev_cdp_contract_addr config))) (\<lambda>basket.
     let cdt_peg_price = bk_credit_price basket in
     rbind (ev_first_price Q config (ev_cdt_denom config) 0 0
       (VaCustomError ''Failed to query the cdt price in post unloop'')) (\<lambda>cdt_market_price.
     rbind (map_err VaStd (decimal_division (pr_price cdt_market_price)
       (max (pr_price cdt_peg_price) DECIMAL_FRACTIONAL))) (\<lambda>peg.
     if peg < desired_peg_price then
       Inl (Failed (VaCustomError ''CDT price is below 99% of peg, can't loop. Try a lower loop_max to reduce sell pressure.''))
     else Inr (cdt_market_price, cdt_peg_price))))"

definition loop_cdp :: "earn_querier \<Rightarrow> earn_storage \<Rightarrow> Env \<Rightarrow> earn_step" where
  "loop_cdp Q st env =
     rbind (va_load ''Config'' (EV_CONFIG st)) (\<lambda>config.
     rbind (dec_add (dec_percent 98) (ev_swap_slippage config)) (\<lambda>desired_peg_price.
     rbind (test_looping_peg_price Q config desired_peg_price) (\<lambda>(_, cdt_peg_price).
     rbind (map_err VaStd (get_cdp_position_info Q env config))
       (\<lambda>(running_credit_amount, running_collateral_amount, vt_price, _, msgs).
     rbind (ev_first_price Q config (vi_deposit_token (ev_deposit_token config)) 0 0
       (VaCustomError ''Failed to query the deposit token price in loop'')) (\<lambda>deposit_token_price.
     rbind (map_err VaStd (calc_mintable (ev_swap_slippage config) vt_price deposit_token_price cdt_peg_price
       running_collateral_amount running_credit_amount)) (\<lambda>(_, min_deposit_value, amount_to_mint).
     if min_deposit_value < MIN_DEPOSIT_VALUE then
       Inl (Failed (VaCustomNums ''Minimum deposit value for this loop: {}, is less than our minimum used to ensure unloopability: {}''
         [min_deposit_value, MIN_DEPOSIT_VALUE]))
     else
       Inr (st,
         \<lparr>er_messages = map plain msgs @
            [plain (EmCdp (ev_cdp_contract_addr config)
               (CdpIncreaseDebt (ev_cdp_position_id config) (Some amount_to_mint) None None) []),
             reply_on_success (EmSwap (ev_osmosis_proxy_contract_addr config)
               (vi_deposit_token (ev_deposit_token config)) (ev_swap_slippage config)
               [\<lparr>c_denom = ev_cdt_denom config, c_amount = amount_to_mint\<rparr>]) LOOP_REPLY],
          er_attributes = [(''method'', AText ''loop_cdp''), (''current_collateral'', ANum running_collateral_amount),
            (''current_debt'', ANum running_credit_amount)]\<rparr>)))))))"

definition post_loop :: "chain_lib \<Rightarrow> earn_querier \<Rightarrow> earn_storage \<Rightarrow> Env \<Rightarrow> MessageInfo \<Rightarrow> earn_step" where
  "post_loop L Q st env info =
     rbind (va_load ''Config'' (EV_CONFIG st)) (\<lambda>config.
     if sender info \<noteq> contract_address env then Inl (Failed VaUnauthorized)
     else
       rbind (test_looping_peg_price Q config (dec_percent 98)) (\<lambda>(cdt_market_price, cdt_peg_price).
       Inr (st, \<lparr>er_messages = [], er_attributes = [(''method'', AText ''post_loop''),
         (''cdt_market_price'', AText (lib_decimal_to_string L (pr_price cdt_market_price))),
         (''cdt_peg_price'', AText (lib_decimal_to_string L (pr_price cdt_peg_price)))]\<rparr>)))"

section \<open>Unlooping\<close>

definition cdp_withdraw_msg :: "earn_config \<Rightarrow> uint128 \<Rightarrow> earn_msg" where
  "cdp_withdraw_msg config n = EmCdp (ev_cdp_contract_addr config)
     (CdpWithdraw (ev_cdp_position_id config)
        [\<lparr>a_info = NativeToken (vi_vault_token (ev_deposit_token config)), a_amount = n\<rparr>] None) []"

text \<open>The first round reads the position and the prices, later rounds use what was stored.\<close>

definition unloop_start ::
  "earn_querier \<Rightarrow> Env \<Rightarrow> earn_config \<Rightarrow> uint128 \<Rightarrow> UnloopProps \<Rightarrow> UnloopProps vault_result" where
  "unloop_start Q env config desired_collateral_withdrawal unloop_props =
     (if up_loop_count unloop_props = 0 then
        rbind (map_err VaStd (get_cdp_position_info Q env config))
          (\<lambda>(running_credit_amount, running_collateral_amount, vt_token_price, _, _).
        rbind (ask_or (VaCustomError ''Failed to query the CDP basket in unloop'')
          (eq_basket Q (ev_cdp_contract_addr config))) (\<lambda>basket.
        Inr \<lparr>up_desired_collateral_withdrawal = desired_collateral_withdrawal, up_loop_count = 0,
          up_running_collateral_amount = running_collateral_amount,
          up_running_credit_amount = running_credit_amount,
          up_vt_token_price = vt_token_price, up_cdt_peg_price = bk_credit_price basket\<rparr>))
      else Inr unloop_props)"

definition unloop_cdp ::
  "earn_querier \<Rightarrow> earn_storage \<Rightarrow> Env \<Rightarrow> MessageInfo \<Rightarrow> uint128 \<Rightarrow> earn_step" where
  "unloop_cdp Q st env info desired_collateral_withdrawal =
     rbind (va_load ''Config'' (EV_CONFIG st)) (\<lambda>config.
     rbind (va_load ''UnloopProps'' (EV_UNLOOP_PROPS st)) (\<lambda>stored.
     if sender info \<noteq> contract_address env then Inl (Failed VaUnauthorized)
     else
       rbind (unloop_start Q env config desired_collateral_withdrawal stored) (\<lambda>props.
       let done_attrs = \<lambda>props. [(''method'', AText ''unloop_cdp''),
             (''remaining_collateral'', ANum (up_running_collateral_amount props)),
             (''remaining_debt'', ANum (up_running_credit_amount props))] in
       if up_running_credit_amount props \<noteq> 0 \<and> up_loop_count props < LOOP_MAX then
         rbind (map_err VaStd (calc_withdrawable_collateral (ev_swap_slippage config) (up_vt_token_price props)
           (up_cdt_peg_price props) (up_running_collateral_amount props) (up_running_credit_amount props) False))
           (\<lambda>(withdrawable_collateral, _).
         if desired_collateral_withdrawal \<le> withdrawable_collateral \<and> 0 < up_loop_count props then
           Inr (st, \<lparr>er_messages = [plain (cdp_withdraw_msg config desired_collateral_withdrawal)],
             er_attributes = [(''method'', AText ''unloop_cdp''),
               (''withdrawn_collateral'', ANum withdrawable_collateral)]\<rparr>)
         else if up_running_collateral_amount props < withdrawable_collateral then
           Inl (Failed (VaCustomNums ''Failed to subtract running_collateral_amount: {} - {}''
             [up_running_collateral_amount props, withdrawable_collateral]))
         else
           let props = props\<lparr>up_running_collateral_amount :=
                 up_running_collateral_amount props - withdrawable_collateral\<rparr> in
           Inr (st\<lparr>EV_UNLOOP_PROPS := Some props\<rparr>,
             \<lparr>er_messages = [plain (cdp_withdraw_msg config withdrawable_collateral),
                reply_on_success (EmMarsVault (vi_vault_addr (ev_deposit_token config)) MvExitVault
                  [\<lparr>c_denom = vi_vault_token (ev_deposit_token config), c_amount = withdrawable_collateral\<rparr>])
                  EXIT_VAULT_REPLY],
              er_attributes = done_attrs props\<rparr>))
       else Inr (st, \<lparr>er_messages = [], er_attributes = done_attrs props\<rparr>))))"

definition post_unloop :: "chain_lib \<Rightarrow> earn_querier \<Rightarrow> earn_storage \<Rightarrow> Env \<Rightarrow> MessageInfo \<Rightarrow> earn_step" where
  "post_unloop L Q st env info =
     rbind (va_load ''Config'' (EV_CONFIG st)) (\<lambda>config.
     if sender info \<noteq> contract_address env then Inl (Failed VaUnauthorized)
     else
       rbind (ask_or (VaCustomError ''Failed to query the CDP basket in unloop'')
         (eq_basket Q (ev_cdp_contract_addr config))) (\<lambda>basket.
       let cdt_peg_price = pr_price (bk_credit_price basket) in
       rbind (ev_first_price Q config (ev_cdt_denom config) 0 0
         (VaCustomError ''Failed to query the cdt price in post unloop'')) (\<lambda>market.
       rbind (map_err VaStd (decimal_division (pr_price market) (max cdt_peg_price DECIMAL_FRACTIONAL))) (\<lambda>peg.
       if dec_percent 101 < peg then
         Inl (Failed (VaCustomError ''CDT price is above 101% of peg, can't unloop.''))
       else
         Inr (st, \<lparr>er_messages = [], er_attributes = [(''method'', AText ''post_unloop''),
           (''cdt_market_price'', AText (lib_decimal_to_string L (pr_price market))),
           (''cdt_peg_price'', AText (lib_decimal_to_string L cdt_peg_price))]\<rparr>)))))"

section \<open>Entering and leaving\<close>

definition ev_rate_assurance :: "earn_querier \<Rightarrow> earn_storage \<Rightarrow> Env \<Rightarrow> MessageInfo \<Rightarrow> earn_step" where
  "ev_rate_assurance Q st env info =
     rbind (va_load ''Config'' (EV_CONFIG st)) (\<lambda>config.
     if sender info \<noteq> contract_address env then Inl (Failed VaUnauthorized)
     else
       rbind (va_load ''TokenRateAssurance'' (EV_TOKEN_RATE_ASSURANCE st)) (\<lambda>assurance.
       rbind (va_load ''Uint128'' (EV_VAULT_TOKEN st)) (\<lambda>total_vault_tokens.
       rbind (map_err VaStd (ev_total_deposits Q env config)) (\<lambda>total_deposit_tokens.
       rbind (map_err VaStd (calculate_base_tokens RATE_UNIT total_deposit_tokens total_vault_tokens))
         (\<lambda>btokens_per_one.
       if btokens_per_one \<noteq> tr_pre_btokens_per_one assurance then
         Inl (Failed (VaCustomNums ''Deposit or withdraw rate assurance failed. Deposit tokens per 1 post-tx: {:?} --- pre-tx: {:?}''
           [btokens_per_one, tr_pre_btokens_per_one assurance]))
       else Inr (st, \<lparr>er_messages = [], er_attributes = []\<rparr>))))))"

definition vault_info_texts :: "VaultInfo \<Rightarrow> string list" where
  "vault_info_texts v = [vi_vault_addr v, vi_deposit_token v, vi_vault_token v]"

definition ev_enter_vault :: "earn_querier \<Rightarrow> earn_storage \<Rightarrow> Env \<Rightarrow> MessageInfo \<Rightarrow> earn_step" where
  "ev_enter_vault Q st env info =
     rbind (va_load ''Config'' (EV_CONFIG st)) (\<lambda>config.
     let dt = ev_deposit_token config in
     rbind (va_one_coin info (vi_deposit_token dt)
       ''More than 1 asset was sent, this function only accepts the deposit token: {:?}''
       ''The wrong asset was sent ({:?}), this function only accepts the deposit token: {:?}''
       (vault_info_texts dt)) (\<lambda>coin.
     let deposit_amount = c_amount coin in
     rbind (map_err VaStd (ev_total_deposits Q env config)) (\<lambda>total_deposit_tokens.
     rbind (va_load ''Uint128'' (EV_VAULT_TOKEN st)) (\<lambda>total_vault_tokens.
     rbind (map_err VaStd (calculate_base_tokens RATE_UNIT total_deposit_tokens total_vault_tokens))
       (\<lambda>pre_btokens_per_one.
     rbind (map_err VaStd (calculate_vault_tokens deposit_amount total_deposit_tokens total_vault_tokens))
       (\<lambda>vault_tokens_to_distribute.
     rbind (u128_add total_vault_tokens vault_tokens_to_distribute) (\<lambda>new_supply.
     rbind (ask_or (VaCustomError ''Failed to query the Mars Vault Token for the deposit token conversion amount'')
       (eq_conversion Q (vi_vault_addr dt) deposit_amount)) (\<lambda>vt_received.
     rbind (u128_sub vt_received 1) (\<lambda>received.
     rbind (u128_add (ev_total_nonleveraged_vault_tokens config) received) (\<lambda>nonleveraged.
     Inr (st\<lparr>EV_TOKEN_RATE_ASSURANCE := Some \<lparr>tr_pre_btokens_per_one = pre_btokens_per_one\<rparr>,
            EV_VAULT_TOKEN := Some new_supply,
            EV_CONFIG := Some (config\<lparr>ev_total_nonleveraged_vault_tokens := nonleveraged\<rparr>)\<rparr>,
       \<lparr>er_messages =
          [plain (EmFactory (Mint (contract_address env)
             \<lparr>c_denom = ev_vault_token config, c_amount = vault_tokens_to_distribute\<rparr> (sender info))),
           reply_on_success (EmMarsVault (vi_vault_addr dt) MvEnterVault
             [\<lparr>c_denom = vi_deposit_token dt, c_amount = deposit_amount\<rparr>]) ENTER_VAULT_REPLY] @
          (if total_deposit_tokens \<noteq> 0 \<and> total_vault_tokens \<noteq> 0
           then [plain (EmSelf (contract_address env) EvRateAssurance [])] else []),
        er_attributes = [(''method'', AText ''enter_vault''), (''deposit_amount'', ANum deposit_amount),
          (''vault_tokens_distributed'', ANum vault_tokens_to_distribute), (''vt_sent_to_cdp'', ANum deposit_amount)]\<rparr>)))))))))))"

definition ev_exit_vault :: "earn_querier \<Rightarrow> earn_storage \<Rightarrow> Env \<Rightarrow> MessageInfo \<Rightarrow> earn_step" where
  "ev_exit_vault Q st env info =
     rbind (va_load ''Config'' (EV_CONFIG st)) (\<lambda>config.
     let dt = ev_deposit_token config in
     rbind (va_one_coin info (ev_vault_token config)
       ''More than 1 asset was sent, this function only accepts the vault token: {:?}''
       ''The wrong asset was sent ({:?}), this function only accepts the vault token: {:?}''
       [ev_vault_token config]) (\<lambda>coin.
     let vault_tokens = c_amount coin in
     if vault_tokens = 0 then Inl (Failed (VaCustomError ''Need to send more than 0 vault tokens''))
     else
       rbind (map_err VaStd (ev_total_deposits Q env config)) (\<lambda>total_deposit_tokens.
       rbind (va_load ''Uint128'' (EV_VAULT_TOKEN st)) (\<lambda>total_vault_tokens.
       rbind (map_err VaStd (calculate_base_tokens RATE_UNIT total_deposit_tokens total_vault_tokens))
         (\<lambda>pre_btokens_per_one.
       rbind (map_err VaStd (calculate_base_tokens vault_tokens total_deposit_tokens total_vault_tokens))
         (\<lambda>deposit_tokens_to_withdraw.
       if total_vault_tokens < vault_tokens then
         Inl (Failed (VaCustomNums ''Failed to subtract vault token total supply: {} - {}''
           [total_vault_tokens, vault_tokens]))
       else
         let new_supply = total_vault_tokens - vault_tokens in
         rbind (ask_or (VaCustomError ''Failed to query the Mars Vault Token for the deposit token conversion amount'')
           (eq_conversion Q (vi_vault_addr dt) deposit_tokens_to_withdraw)) (\<lambda>mars_vault_tokens_to_withdraw.
         if ev_total_nonleveraged_vault_tokens config < mars_vault_tokens_to_withdraw then
           Inl (Failed (VaCustomNums ''Failed to subtract config non-leveraged vault tokens: {} - {}''
             [ev_total_nonleveraged_vault_tokens config, mars_vault_tokens_to_withdraw]))
         else
           rbind (map_err VaStd (answered (eq_balance Q (contract_address env) (vi_vault_token dt)))) (\<lambda>balance.
           let to_unloop = (if balance \<le> mars_vault_tokens_to_withdraw
                 then mars_vault_tokens_to_withdraw - balance else 0) in
           rbind (u128_sub deposit_tokens_to_withdraw 1) (\<lambda>sent.
           Inr (st\<lparr>EV_TOKEN_RATE_ASSURANCE := Some \<lparr>tr_pre_btokens_per_one = pre_btokens_per_one\<rparr>,
                  EV_VAULT_TOKEN := Some new_supply,
                  EV_CONFIG := Some (config\<lparr>ev_total_nonleveraged_vault_tokens :=
                    ev_total_nonleveraged_vault_tokens config - mars_vault_tokens_to_withdraw\<rparr>),
                  EV_UNLOOP_PROPS := Some blank_unloop_props\<rparr>,
             \<lparr>er_messages = map plain
                ([EmFactory (Burn (contract_address env)
                    \<lparr>c_denom = ev_vault_token config, c_amount = vault_tokens\<rparr> (contract_address env))] @
                 (if to_unloop \<noteq> 0 then [EmSelf (contract_address env) (EvUnloopCDP to_unloop) []] else []) @
                 [EmMarsVault (vi_vault_addr dt) MvExitVault
                    [\<lparr>c_denom = vi_vault_token dt, c_amount = mars_vault_tokens_to_withdraw\<rparr>],
                  EmBank (sender info) [\<lparr>c_denom = vi_deposit_token dt, c_amount = sent\<rparr>],
                  EmSelf (contract_address env) EvUpdateNonleveragedVaultTokens []] @
                 (if new_supply \<noteq> 0 \<and> deposit_tokens_to_withdraw < total_deposit_tokens
                  then [EmSelf (contract_address env) EvRateAssurance []] else [])),
              er_attributes = [(''method'', AText ''exit_vault''), (''vault_tokens'', ANum vault_tokens),
                (''deposit_tokens_withdrawn'', ANum deposit_tokens_to_withdraw)]\<rparr>))))))))))"

definition update_nonleveraged_vault_tokens ::
  "earn_querier \<Rightarrow> earn_storage \<Rightarrow> Env \<Rightarrow> MessageInfo \<Rightarrow> earn_step" where
  "update_nonleveraged_vault_tokens Q st env info =
     rbind (va_load ''Config'' (EV_CONFIG st)) (\<lambda>config.
     rbind (va_load ''UnloopProps'' (EV_UNLOOP_PROPS st)) (\<lambda>props.
     if sender info \<noteq> contract_address env then Inl (Failed VaUnauthorized)
     else
       rbind (map_err VaStd (answered (eq_balance Q (contract_address env)
         (vi_vault_token (ev_deposit_token config))))) (\<lambda>balance.
       rbind (if up_running_credit_amount props = 0 then
                rbind (u128_add (up_running_collateral_amount props) balance) (\<lambda>n.
                let config = config\<lparr>ev_total_nonleveraged_vault_tokens := n\<rparr> in
                Inr (st\<lparr>EV_CONFIG := Some config\<rparr>, config))
              else Inr (st, config)) (\<lambda>(st, new_config).
       Inr (st, \<lparr>er_messages = [], er_attributes = [(''method'', AText ''update_unleveraged_total''),
         (''old_total_nonleveraged_vault_tokens'', ANum (ev_total_nonleveraged_vault_tokens config)),
         (''new_total_nonleveraged_vault_tokens'', ANum (ev_total_nonleveraged_vault_tokens new_config))]\<rparr>)))))"

section \<open>Replies\<close>

type_synonym earn_reply = "(std_error, earn_storage \<times> earn_response) result"

definition ev_config :: "earn_storage \<Rightarrow> (std_error, earn_config) result" where
  "ev_config st = ok_or (NotFound ''Config'') (EV_CONFIG st)"

lemma ev_config_ok [res_ok]: "ev_config st = Inr c \<longleftrightarrow> EV_CONFIG st = Some c"
  by (simp add: ev_config_def res_ok)

definition handle_exit_deposit_token_vault_reply ::
  "earn_querier \<Rightarrow> earn_storage \<Rightarrow> Env \<Rightarrow> earn_reply" where
  "handle_exit_deposit_token_vault_reply Q st env =
     rbind (ev_config st) (\<lambda>config.
     let dt = ev_deposit_token config in
     rbind (answered (eq_balance Q (contract_address env) (vi_deposit_token dt))) (\<lambda>deposit_token_balance.
     Inr (st,
       \<lparr>er_messages = [reply_on_success (EmSwap (ev_osmosis_proxy_contract_addr config) (ev_cdt_denom config)
            (ev_swap_slippage config) [\<lparr>c_denom = vi_deposit_token dt, c_amount = deposit_token_balance\<rparr>])
            UNLOOP_REPLY],
        er_attributes = [(''method'', AText ''handle_exit_deposit_token_vault_reply''),
          (''deposit_token_swapped_for'', ANum deposit_token_balance)]\<rparr>)))"

text \<open>What follows a repayment: the withdrawal asked for, the error of the last round, or another round.\<close>

definition unloop_next ::
  "earn_querier \<Rightarrow> Env \<Rightarrow> earn_config \<Rightarrow> UnloopProps \<Rightarrow> uint128 \<Rightarrow> (std_error, earn_msg list) result" where
  "unloop_next Q env config props withdrawable_collateral =
     (let desired = up_desired_collateral_withdrawal props in
      if desired \<le> withdrawable_collateral then Inr [cdp_withdraw_msg config desired]
      else if LOOP_MAX \<le> up_loop_count props then
        rbind (ask_or (GenericErr ''Failed to query the Mars Vault Token for the collateral conversion amount in unloop'')
          (eq_underlying Q (vi_vault_addr (ev_deposit_token config)) withdrawable_collateral)) (\<lambda>deposit_token_amount.
        if up_running_credit_amount props = 0 then
          Inl (Failed (GenericErr ''Failed to hit the desired collateral withdrawal in unloop reply yet debt is 0. Either exit_vault is asking for too much and the remaining balance is actually in the contract OR the vault owns less than it says your tokens are worth.''))
        else Inl (Failed (GenericFmtNum ''Failed to hit the desired collateral withdrawal: {} in unloop reply, the most deposit we can withdraw in 1 tx is {}'' deposit_token_amount)))
      else if up_running_credit_amount props \<noteq> 0 then
        Inr [EmSelf (contract_address env) (EvUnloopCDP desired) []]
      else Inr [])"

definition handle_unloop_reply :: "earn_querier \<Rightarrow> earn_storage \<Rightarrow> Env \<Rightarrow> earn_reply" where
  "handle_unloop_reply Q st env =
     rbind (ev_config st) (\<lambda>config.
     rbind (ok_or (NotFound ''UnloopProps'') (EV_UNLOOP_PROPS st)) (\<lambda>props.
     rbind (answered (eq_balance Q (contract_address env) (ev_cdt_denom config))) (\<lambda>cdt_balance.
     rbind (u64_add (up_loop_count props) 1) (\<lambda>loop_count.
     let props = props\<lparr>up_loop_count := loop_count,
           up_running_credit_amount := up_running_credit_amount props - cdt_balance\<rparr> in
     rbind (calc_withdrawable_collateral (ev_swap_slippage config) (up_vt_token_price props) (up_cdt_peg_price props)
       (up_running_collateral_amount props) (up_running_credit_amount props) True) (\<lambda>(withdrawable_collateral, _).
     rbind (unloop_next Q env config props withdrawable_collateral) (\<lambda>msgs.
     Inr (st\<lparr>EV_UNLOOP_PROPS := Some props\<rparr>,
       \<lparr>er_messages = map plain (EmCdp (ev_cdp_contract_addr config)
            (CdpRepay (ev_cdp_position_id config) None None)
            [\<lparr>c_denom = ev_cdt_denom config, c_amount = cdt_balance\<rparr>] # msgs),
        er_attributes = [(''method'', AText ''handle_unloop_reply''), (''loop_count'', ANum loop_count),
          (''cdt_swapped_for'', ANum cdt_balance), (''withdrawable_collateral'', ANum withdrawable_collateral)]\<rparr>)))))))"

definition handle_loop_reply :: "earn_querier \<Rightarrow> earn_storage \<Rightarrow> Env \<Rightarrow> earn_reply" where
  "handle_loop_reply Q st env =
     rbind (ev_config st) (\<lambda>config.
     let dt = ev_deposit_token config in
     rbind (answered (eq_balance Q (contract_address env) (vi_deposit_token dt))) (\<lambda>deposit_token_balance.
     rbind (ask_or (GenericErr ''Failed to query the Mars Vault Token for the new deposit amount in loop'')
       (eq_conversion Q (vi_vault_addr dt) deposit_token_balance)) (\<lambda>vault_tokens.
     rbind (get_buffer_amounts Q config (contract_address env)) (\<lambda>(_, _, _, vt_sent_to_cdp).
     rbind (u128_add vault_tokens vt_sent_to_cdp) (\<lambda>deposited.
     Inr (st,
       \<lparr>er_messages = map plain
          [EmMarsVault (vi_vault_addr dt) MvEnterVault
             [\<lparr>c_denom = vi_deposit_token dt, c_amount = deposit_token_balance\<rparr>],
           EmCdp (ev_cdp_contract_addr config) (CdpDeposit (Some (ev_cdp_position_id config)) None)
             [\<lparr>c_denom = vi_vault_token dt, c_amount = deposited\<rparr>],
           EmSelf (contract_address env) EvPostLoopMaintenance []],
        er_attributes = [(''method'', AText ''handle_loop_reply''),
          (''deposit_tokens_swapped_for'', ANum deposit_token_balance),
          (''vault_tokens_sent_to_cdp'', ANum deposited)]\<rparr>))))))"

definition std_of_cdp :: "cdp_error \<Rightarrow> std_error" where
  "std_of_cdp e = (case e of CdpStd s \<Rightarrow> s | _ \<Rightarrow> GenericErr [])"

definition handle_cdp_reply :: "earn_storage \<Rightarrow> event list \<Rightarrow> earn_reply" where
  "handle_cdp_reply st events =
     rbind (ok_or (GenericErr ''unable to find cdp deposit event'')
       (find (\<lambda>e. event_attr e ''position_id'' \<noteq> None) events)) (\<lambda>cdp_event.
     rbind (unwrap (event_attr cdp_event ''position_id'')) (\<lambda>text.
     rbind (map_err std_of_cdp (u128_from_str text)) (\<lambda>position_id.
     rbind (ev_config st) (\<lambda>config.
     Inr (st\<lparr>EV_CONFIG := Some (config\<lparr>ev_cdp_position_id := position_id\<rparr>)\<rparr>,
       \<lparr>er_messages = [], er_attributes = [(''method'', AText ''handle_initial_cdp_deposit_reply''),
         (''vault_position_id'', ANum position_id)]\<rparr>)))))"

definition handle_enter_reply :: "earn_querier \<Rightarrow> earn_storage \<Rightarrow> Env \<Rightarrow> earn_reply" where
  "handle_enter_reply Q st env =
     rbind (ev_config st) (\<lambda>config.
     rbind (get_buffer_amounts Q config (contract_address env)) (\<lambda>(_, _, vt_kept, vt_sent_to_cdp).
     Inr (st,
       \<lparr>er_messages = (if vt_sent_to_cdp \<noteq> 0 then
            [plain (EmCdp (ev_cdp_contract_addr config) (CdpDeposit (Some (ev_cdp_position_id config)) None)
               [\<lparr>c_denom = vi_vault_token (ev_deposit_token config), c_amount = vt_sent_to_cdp\<rparr>])]
          else []),
        er_attributes = [(''method'', AText ''handle_enter_vault_reply''),
          (''vault_tokens_sent_to_cdp'', ANum vt_sent_to_cdp), (''vault_tokens_kept'', ANum vt_kept)]\<rparr>)))"

definition ev_reply ::
  "earn_querier \<Rightarrow> earn_storage \<Rightarrow> Env \<Rightarrow> earn_reply_id \<Rightarrow> reply_result \<Rightarrow> earn_reply" where
  "ev_reply Q st env i res = (case res of
       Inl err \<Rightarrow> Inl (Failed (GenericErr err))
     | Inr events \<Rightarrow> (case i of
         ENTER_VAULT_REPLY \<Rightarrow> handle_enter_reply Q st env
       | CDP_REPLY \<Rightarrow> handle_cdp_reply st events
       | LOOP_REPLY \<Rightarrow> handle_loop_reply Q st env
       | UNLOOP_REPLY \<Rightarrow> handle_unloop_reply Q st env
       | EXIT_VAULT_REPLY \<Rightarrow> handle_exit_deposit_token_vault_reply Q st env))"

section \<open>Configuration and entry points\<close>

definition ev_authority :: "earn_storage \<Rightarrow> MessageInfo \<Rightarrow> earn_config \<Rightarrow> earn_config vault_result" where
  "ev_authority st info config =
     (if sender info = ev_owner config then Inr config
      else rbind (va_load ''Addr'' (EV_OWNERSHIP_TRANSFER st)) (\<lambda>next_owner.
        if sender info = next_owner then Inr (config\<lparr>ev_owner := sender info\<rparr>)
        else Inl (Failed VaUnauthorized)))"

definition ev_update_config ::
  "chain_lib \<Rightarrow> earn_querier \<Rightarrow> earn_storage \<Rightarrow> MessageInfo \<Rightarrow> earn_update \<Rightarrow> earn_step" where
  "ev_update_config L Q st info u =
     rbind (va_load ''Config'' (EV_CONFIG st)) (\<lambda>config.
     rbind (ev_authority st info config) (\<lambda>config.
     rbind (case eu_owner u of
              None \<Rightarrow> Inr (st, [])
            | Some a \<Rightarrow> rbind (map_err VaStd (lib_addr_validate L a)) (\<lambda>valid_addr.
                Inr (st\<lparr>EV_OWNERSHIP_TRANSFER := Some valid_addr\<rparr>, [(''owner_transfer'', AText valid_addr)])))
       (\<lambda>(st, owner_attrs).
     rbind (va_set_addr L ''updated_cdp_contract_addr'' (eu_cdp_contract_addr u) (ev_cdp_contract_addr config))
       (\<lambda>(cdp, cdp_attrs).
     rbind (va_set_addr L ''updated_mars_vault_addr'' (eu_mars_vault_addr u) (vi_vault_addr (ev_deposit_token config)))
       (\<lambda>(vault, vault_attrs).
     rbind (va_set_addr L ''updated_osmosis_proxy_contract_addr'' (eu_osmosis_proxy_contract_addr u)
       (ev_osmosis_proxy_contract_addr config)) (\<lambda>(proxy, proxy_attrs).
     rbind (va_set_addr L ''updated_oracle_contract_addr'' (eu_oracle_contract_addr u) (ev_oracle_contract_addr config))
       (\<lambda>(oracle, oracle_attrs).
     let (buffer, buffer_attrs) = va_set_value ''updated_withdrawal_buffer'' (\<lambda>d. AText (lib_decimal_to_string L d))
           (eu_withdrawal_buffer u) (ev_withdrawal_buffer config);
         (cap, cap_attrs) = va_set_value ''updated_deposit_cap'' ANum (eu_deposit_cap u) (ev_deposit_cap config);
         (slippage, slippage_attrs) = va_set_value ''updated_swap_slippage''
           (\<lambda>d. AText (lib_decimal_to_string L d)) (eu_swap_slippage u) (ev_swap_slippage config);
         config = config\<lparr>ev_cdp_contract_addr := cdp,
           ev_deposit_token := (ev_deposit_token config)\<lparr>vi_vault_addr := vault\<rparr>,
           ev_osmosis_proxy_contract_addr := proxy, ev_oracle_contract_addr := oracle,
           ev_withdrawal_buffer := buffer, ev_deposit_cap := cap, ev_swap_slippage := slippage\<rparr> in
     rbind (case eu_vault_cost_index u of
              None \<Rightarrow> Inr config
            | Some _ \<Rightarrow> rbind (ev_find_index Q config) (\<lambda>i. Inr (config\<lparr>ev_vault_cost_index := i\<rparr>))) (\<lambda>config.
     Inr (st\<lparr>EV_CONFIG := Some config\<rparr>,
       \<lparr>er_messages = [], er_attributes = [(''method'', AText ''update_config'')] @ owner_attrs @ cdp_attrs @
          vault_attrs @ proxy_attrs @ oracle_attrs @ buffer_attrs @ cap_attrs @ slippage_attrs @
          [(''updated_config'', ADebug (DbgEarnConfig config))]\<rparr>)))))))))"

record earn_instantiate_msg =
  ei_cdt_denom :: string
  ei_vault_subdenom :: string
  ei_deposit_token :: VaultInfo
  ei_cdp_contract_addr :: string
  ei_osmosis_proxy_contract_addr :: string
  ei_oracle_contract_addr :: string

definition ev_instantiate ::
  "chain_lib \<Rightarrow> earn_querier \<Rightarrow> earn_storage \<Rightarrow> Env \<Rightarrow> MessageInfo \<Rightarrow> earn_instantiate_msg \<Rightarrow> earn_step" where
  "ev_instantiate L Q st env info msg =
     (let valid = \<lambda>a. map_err VaStd (lib_addr_validate L a); dt = ei_deposit_token msg in
      rbind (valid (ei_cdp_contract_addr msg)) (\<lambda>cdp.
      rbind (valid (ei_osmosis_proxy_contract_addr msg)) (\<lambda>proxy.
      rbind (valid (ei_oracle_contract_addr msg)) (\<lambda>oracle.
      let config = \<lparr>ev_owner = sender info, ev_cdp_contract_addr = cdp, ev_osmosis_proxy_contract_addr = proxy,
            ev_oracle_contract_addr = oracle, ev_cdt_denom = ei_cdt_denom msg,
            ev_vault_token = vault_denom (contract_address env) (ei_vault_subdenom msg), ev_deposit_token = dt,
            ev_withdrawal_buffer = dec_percent 10, ev_total_nonleveraged_vault_tokens = INITIAL_VAULT_TOKENS,
            ev_cdp_position_id = 0, ev_deposit_cap = 10000000000,
            ev_swap_slippage = 5000000000000000, ev_vault_cost_index = 0\<rparr> in
      rbind (valid (vi_vault_addr dt)) (\<lambda>_.
      rbind (ev_find_index Q config) (\<lambda>i.
      let config = config\<lparr>ev_vault_cost_index := i\<rparr> in
      rbind (ask_or (VaCustomError ''Failed to query the Mars Vault Token for the underlying deposit amount in instantiate'')
        (eq_underlying Q (vi_vault_addr dt) INITIAL_VAULT_TOKENS)) (\<lambda>underlying_deposit_token.
      rbind (map_err VaStd (calculate_vault_tokens underlying_deposit_token 0 0)) (\<lambda>vault_tokens_to_distribute.
      Inr (st\<lparr>EV_CONTRACT := Some (''crates.io:stable-earn-vault'', lib_version L), EV_CONFIG := Some config,
             EV_VAULT_TOKEN := Some vault_tokens_to_distribute, EV_UNLOOP_PROPS := Some blank_unloop_props\<rparr>,
        \<lparr>er_messages =
           [plain (EmFactory (CreateDenom (contract_address env) (ei_vault_subdenom msg))),
            reply_on_success (EmCdp cdp (CdpDeposit None None)
              [\<lparr>c_denom = vi_vault_token dt, c_amount = INITIAL_VAULT_TOKENS\<rparr>]) CDP_REPLY],
         er_attributes = [(''method'', AText ''instantiate''), (''config'', ADebug (DbgEarnConfig config)),
           (''contract_address'', AText (contract_address env)), (''sub_denom'', AText (ei_vault_subdenom msg))]\<rparr>)))))))))"

definition ev_execute ::
  "chain_lib \<Rightarrow> earn_querier \<Rightarrow> earn_storage \<Rightarrow> Env \<Rightarrow> MessageInfo \<Rightarrow> earn_execute_msg \<Rightarrow> earn_step" where
  "ev_execute L Q st env info msg = (case msg of
       EvUpdateConfig u \<Rightarrow> ev_update_config L Q st info u
     | EvEnterVault \<Rightarrow> ev_enter_vault Q st env info
     | EvExitVault \<Rightarrow> ev_exit_vault Q st env info
     | EvUnloopCDP desired \<Rightarrow> unloop_cdp Q st env info desired
     | EvLoopCDP \<Rightarrow> loop_cdp Q st env
     | EvRateAssurance \<Rightarrow> ev_rate_assurance Q st env info
     | EvPostLoopMaintenance \<Rightarrow> post_loop L Q st env info
     | EvUnloopMaintenance \<Rightarrow> post_unloop L Q st env info
     | EvUpdateNonleveragedVaultTokens \<Rightarrow> update_nonleveraged_vault_tokens Q st env info)"

definition ev_migrate :: "earn_querier \<Rightarrow> earn_storage \<Rightarrow> Env \<Rightarrow> earn_step" where
  "ev_migrate Q st env =
     rbind (va_load ''Config'' (EV_CONFIG st)) (\<lambda>config.
     rbind (ev_position Q env config
       (VaCustomError ''Failed to query the CDP Position for the vault token amount in migrate:'')) (\<lambda>vault_position.
     rbind (ev_first_collateral vault_position) (\<lambda>vt_collateral_amount.
     rbind (map_err VaStd (answered (eq_balance Q (contract_address env)
       (vi_vault_token (ev_deposit_token config))))) (\<lambda>balance.
     if vt_collateral_amount + balance < U128_BOUND then
       Inr (st\<lparr>EV_UNLOOP_PROPS := Some blank_unloop_props,
              EV_CONFIG := Some (config\<lparr>ev_total_nonleveraged_vault_tokens := vt_collateral_amount + balance\<rparr>)\<rparr>,
         \<lparr>er_messages = [], er_attributes = []\<rparr>)
     else Inl (Failed (VaCustomError ''Failed to add the vault token balance in the contract to the CDP collateral amount in migrate''))))))"

section \<open>Queries\<close>

record EvAPRResponse =
  ep_week_apr :: "decimal option"
  ep_month_apr :: "decimal option"
  ep_three_month_apr :: "decimal option"
  ep_year_apr :: "decimal option"
  ep_leverage :: decimal
  ep_cost :: decimal

text \<open>A rate of the Mars vault, levered for the tokens in the position and plain for those in the contract.\<close>

definition levered_apr ::
  "string \<Rightarrow> decimal \<Rightarrow> decimal \<Rightarrow> decimal \<Rightarrow> decimal option \<Rightarrow> (std_error, decimal option) result" where
  "levered_apr period leverage in_cdp in_contract rate = (case rate of
       None \<Rightarrow> Inr None
     | Some r \<Rightarrow>
         rbind (map_err (\<lambda>_. GenericFmtText ''Failed to multiply the {} APR by the leverage in query_apr'' period)
           (dec_checked_mul r leverage)) (\<lambda>apr.
         rbind (map_err (\<lambda>_. GenericFmtText ''Failed to multiply the {} APR by the ratio of tokens in the CDP in query_apr'' period)
           (decimal_multiplication in_cdp apr)) (\<lambda>loop_apr.
         rbind (map_err (\<lambda>_. GenericFmtText ''Failed to multiply the {} APR by the ratio of tokens in the contract in query_apr'' period)
           (decimal_multiplication in_contract r)) (\<lambda>buffer_apr.
         if loop_apr + buffer_apr < U128_BOUND then Inr (Some (loop_apr + buffer_apr))
         else Inl (Failed OverflowErr)))))"

definition ev_query_apr :: "earn_querier \<Rightarrow> earn_storage \<Rightarrow> Env \<Rightarrow> (std_error, EvAPRResponse) result" where
  "ev_query_apr Q st env =
     rbind (ev_config st) (\<lambda>config.
     rbind (ev_position Q env config
       (GenericErr ''Failed to query the CDP Position for the vault token amount in get_total_deposit_tokens:''))
       (\<lambda>vault_position.
     rbind (ev_first_collateral vault_position) (\<lambda>vt_collateral_amount.
     rbind (dec_from_ratio vt_collateral_amount 1) (\<lambda>c.
     rbind (dec_from_ratio (max (ev_total_nonleveraged_vault_tokens config) 1) 1) (\<lambda>t.
     rbind (decimal_division c t) (\<lambda>leverage.
     rbind (get_buffer_amounts Q config (contract_address env)) (\<lambda>(in_contract, _, _, _).
     let in_cdp = (if in_contract \<le> DECIMAL_FRACTIONAL then DECIMAL_FRACTIONAL - in_contract
           else DECIMAL_FRACTIONAL) in
     rbind (ask_or (GenericErr ''Failed to query the APR in query_apr'')
       (eq_vault_apr Q (vi_vault_addr (ev_deposit_token config)))) (\<lambda>apr.
     rbind (levered_apr ''weekly'' leverage in_cdp in_contract (rp_week_apr apr)) (\<lambda>week.
     rbind (levered_apr ''monthly'' leverage in_cdp in_contract (rp_month_apr apr)) (\<lambda>month.
     rbind (levered_apr ''3 month'' leverage in_cdp in_contract (rp_three_month_apr apr)) (\<lambda>three_month.
     rbind (levered_apr ''yearly'' leverage in_cdp in_contract (rp_year_apr apr)) (\<lambda>year.
     rbind (ask_or (GenericErr ''Failed to query the CDP collateral interest rates in query_apr'')
       (eq_collateral_interest Q (ev_cdp_contract_addr config))) (\<lambda>rates.
     rbind (at_index rates (ev_vault_cost_index config)) (\<lambda>vt_cost.
     Inr \<lparr>ep_week_apr = week, ep_month_apr = month, ep_three_month_apr = three_month, ep_year_apr = year,
       ep_leverage = leverage, ep_cost = vt_cost\<rparr>))))))))))))))"

definition ev_query_vault_token_underlying ::
  "earn_querier \<Rightarrow> earn_storage \<Rightarrow> Env \<Rightarrow> uint128 \<Rightarrow> (std_error, uint128) result" where
  "ev_query_vault_token_underlying Q st env vault_token_amount =
     rbind (ev_config st) (\<lambda>config.
     rbind (ok_or (NotFound ''Uint128'') (EV_VAULT_TOKEN st)) (\<lambda>total_vault_tokens.
     rbind (ev_total_deposits Q env config) (\<lambda>total_deposit_tokens.
     calculate_base_tokens vault_token_amount total_deposit_tokens total_vault_tokens)))"

datatype earn_query_msg = EvqConfig | EvqVaultTokenUnderlying uint128 | EvqAPR

datatype earn_query_response = EvrConfig earn_config | EvrAmount uint128 | EvrAPR EvAPRResponse

definition ev_query ::
  "earn_querier \<Rightarrow> earn_storage \<Rightarrow> Env \<Rightarrow> earn_query_msg \<Rightarrow> (std_error, earn_query_response) result" where
  "ev_query Q st env msg = (case msg of
       EvqConfig \<Rightarrow> rbind (ev_config st) (\<lambda>c. Inr (EvrConfig c))
     | EvqVaultTokenUnderlying n \<Rightarrow> rbind (ev_query_vault_token_underlying Q st env n) (\<lambda>x. Inr (EvrAmount x))
     | EvqAPR \<Rightarrow> rbind (ev_query_apr Q st env) (\<lambda>a. Inr (EvrAPR a)))"

end
