(* ===== verification/Earn_Vault_Properties.thy ===== *)
theory Earn_Vault_Properties
  imports Earn_Vault CDP_Demo
begin

text \<open>
  What the operations of the looping vault do (an exit, the rounds of an unloop \<open>unloop_round\<close>, the ledger of the
  vault token by the interface \<open>share_ledger\<close>), and its properties: a withdrawal from the buffer forgets the position, an unloop ends, and what it
  takes out leaves the position within its limit.
\<close>

lemmas earn_step_ok = map_err_eq_Inr va_load_ok va_one_coin_ok ev_config_ok ask_or_ok int_ok ok_or_eq_Inr

section \<open>Leaving\<close>

lemma ev_exit_effect:
  assumes "ev_exit_vault Q st env info = Inr (st', r)"
  obtains config coin deposits circulating paid rate vts balance where
    "EV_CONFIG st = Some config" "funds info = [coin]" "c_denom coin = ev_vault_token config"
    "ev_total_deposits Q env config = Inr deposits" "EV_VAULT_TOKEN st = Some circulating"
    "calculate_base_tokens (c_amount coin) deposits circulating = Inr paid" "c_amount coin \<le> circulating"
    "eq_conversion Q (vi_vault_addr (ev_deposit_token config)) paid = Inr vts"
    "vts \<le> ev_total_nonleveraged_vault_tokens config"
    "eq_balance Q (contract_address env) (vi_vault_token (ev_deposit_token config)) = Inr balance"
    "st' = st\<lparr>EV_TOKEN_RATE_ASSURANCE := Some \<lparr>tr_pre_btokens_per_one = rate\<rparr>,
       EV_VAULT_TOKEN := Some (circulating - c_amount coin),
       EV_CONFIG := Some (config\<lparr>ev_total_nonleveraged_vault_tokens := ev_total_nonleveraged_vault_tokens config - vts\<rparr>),
       EV_UNLOOP_PROPS := Some blank_unloop_props\<rparr>"
    "er_messages r = map plain
       ([EmFactory (Burn (contract_address env)
           \<lparr>c_denom = ev_vault_token config, c_amount = c_amount coin\<rparr> (contract_address env))] @
        (if balance < vts then [EmSelf (contract_address env) (EvUnloopCDP (vts - balance)) []] else []) @
        [EmMarsVault (vi_vault_addr (ev_deposit_token config)) MvExitVault
           [\<lparr>c_denom = vi_vault_token (ev_deposit_token config), c_amount = vts\<rparr>],
         EmBank (sender info) [\<lparr>c_denom = vi_deposit_token (ev_deposit_token config), c_amount = paid - 1\<rparr>],
         EmSelf (contract_address env) EvUpdateNonleveragedVaultTokens []] @
        (if c_amount coin < circulating \<and> paid < deposits
         then [EmSelf (contract_address env) EvRateAssurance []] else []))"
  using assms unfolding ev_exit_vault_def Let_def
  apply (elim handlerE)
  subgoal premises prems for config coin deposits circulating rate paid vts balance sent
    using prems(2-)
    by (intro prems(1)[of config coin deposits circulating paid vts balance rate]) (auto simp: earn_step_ok answered_ok)
  done

lemma update_nonleveraged_effect:
  assumes "update_nonleveraged_vault_tokens Q st env info = Inr (st', r)"
    and "EV_UNLOOP_PROPS st = Some blank_unloop_props" and "EV_CONFIG st = Some config"
    and "eq_balance Q (contract_address env) (vi_vault_token (ev_deposit_token config)) = Inr buffer"
  shows "EV_CONFIG st' = Some (config\<lparr>ev_total_nonleveraged_vault_tokens := buffer\<rparr>)"
  using assms unfolding update_nonleveraged_vault_tokens_def Let_def
  by (elim handlerE) (auto simp: rbind_eq_Inr earn_step_ok answered_ok blank_unloop_props_def Let_def)

section \<open>What an unloop takes out\<close>

lemma price_round_trip:
  assumes "price_get_amount p w = Inr n" and "price_get_value p n = Inr w'"
  shows "w' \<le> w"
proof -
  let ?u = DECIMAL_FRACTIONAL and ?s = "10 ^ (pr_decimals p mod 4294967296) :: nat"
  obtain q where q: "q = w * ?u div pr_price p" "0 < pr_price p" "n = ?s * q div ?u"
    using assms(1) by (auto simp: price_get_amount_def res_ok u64_pow10_def uint128_mul_dec_def Let_def split: if_splits)
  have w': "w' = pr_price p * (n * ?u div ?s) div ?u"
    using assms(2) by (auto simp: price_get_value_def res_ok u64_pow10_def Let_def split: if_splits)
  have "n * ?u \<le> ?s * q" unfolding q(3) by simp
  then have "n * ?u div ?s \<le> q" by (metis div_le_mono nonzero_mult_div_cancel_left power_not_zero zero_neq_numeral)
  then have "pr_price p * (n * ?u div ?s) \<le> pr_price p * q" by simp
  also have "\<dots> \<le> w * ?u" unfolding q(1) by (simp add: mult.commute)
  finally have "w' \<le> w * ?u div ?u" unfolding w' by (rule div_le_mono)
  then show ?thesis by (simp add: DECIMAL_FRACTIONAL_def)
qed

lemma ltv_room:
  fixes V D b :: nat
  assumes l: "ltv = D * DECIMAL_FRACTIONAL div V" "ltv \<le> dec_percent 90" and V: "0 < V"
    and b: "b = (V * (dec_percent 90 - ltv) div DECIMAL_FRACTIONAL) * DECIMAL_FRACTIONAL div dec_percent 90"
  shows "b \<le> V \<and> 10 * DECIMAL_FRACTIONAL * D \<le> 9 * DECIMAL_FRACTIONAL * (V - b) + 10 * V"
proof -
  let ?u = DECIMAL_FRACTIONAL and ?p = "dec_percent 90"
  have p: "10 * ?p = 9 * ?u" by (simp add: dec_percent_def DECIMAL_FRACTIONAL_def)
  have "b * ?p \<le> V * (?p - ltv) div ?u * ?u" unfolding b by simp
  also have "\<dots> \<le> V * (?p - ltv)" by simp
  finally have "b * ?p \<le> V * ?p - V * ltv" by (simp add: diff_mult_distrib2)
  moreover have "V * ltv \<le> V * ?p" using l(2) by simp
  ultimately have room: "b * ?p + V * ltv \<le> V * ?p" by linarith
  moreover have "D * ?u < V * ltv + V"
    unfolding l(1) using V dividend_less_div_times[of V "D * ?u"] by (simp add: algebra_simps)
  ultimately have d: "b * ?p + D * ?u \<le> V * ?p + V" by linarith
  have "b * ?p \<le> V * ?p" using room by linarith
  then have bV: "b \<le> V" by (simp add: dec_percent_def)
  have "10 * (b * ?p + D * ?u) \<le> 10 * (V * ?p + V)" using d by simp
  then have "9 * ?u * b + 10 * ?u * D \<le> 9 * ?u * V + 10 * V" using p by (simp add: algebra_simps)
  then show ?thesis using bV by (simp add: diff_mult_distrib2)
qed

lemma withdrawable_value_room:
  assumes "withdrawable_value slip V D in_reply = Inr w" and "DECIMAL_FRACTIONAL \<le> V"
  shows "w \<le> V \<and> 10 * DECIMAL_FRACTIONAL * D \<le> 9 * DECIMAL_FRACTIONAL * (V - w) + 10 * V"
proof -
  have u: "max V DECIMAL_FRACTIONAL = V" using assms(2) by simp
  obtain ltv b by_debt where l: "ltv = D * DECIMAL_FRACTIONAL div V" "ltv \<le> dec_percent 90"
    and b: "b = (V * (dec_percent 90 - ltv) div DECIMAL_FRACTIONAL) * DECIMAL_FRACTIONAL div dec_percent 90"
    and w: "w = min b by_debt \<or> w = D - minimum_debt_value \<and> minimum_debt_value \<le> D \<and>
      D - min b by_debt < minimum_debt_value"
    using assms(1) unfolding withdrawable_value_def ev_ltv_def Let_def u
    apply (elim handlerE)
    subgoal premises prems for ltv sp b ws by_debt
    proof (rule prems(1)[of ltv b by_debt])
      show "ltv = D * DECIMAL_FRACTIONAL div V" using prems(2) by (simp add: res_ok)
      show "ltv \<le> dec_percent 90" using prems(3) by simp
      show "b = (V * (dec_percent 90 - ltv) div DECIMAL_FRACTIONAL) * DECIMAL_FRACTIONAL div dec_percent 90"
        using prems(4,5) by (simp add: res_ok)
      show "w = min b by_debt \<or> w = D - minimum_debt_value \<and> minimum_debt_value \<le> D \<and>
        D - min b by_debt < minimum_debt_value"
        using prems(8) by (simp split: if_splits)
    qed
    done
  have V: "0 < V" using assms(2) by (simp add: DECIMAL_FRACTIONAL_def)
  have "w \<le> b" using w by (auto simp: min_def split: if_splits)
  then have "V - b \<le> V - w" by simp
  then have "9 * DECIMAL_FRACTIONAL * (V - b) \<le> 9 * DECIMAL_FRACTIONAL * (V - w)" by simp
  with ltv_room[OF l V b] \<open>w \<le> b\<close> show ?thesis by linarith
qed

section \<open>The rounds of an unloop\<close>

text \<open>
  A round: \<open>unloop_cdp\<close> takes collateral out and leaves the Mars vault, the reply to the swap repays and asks for
  another \<open>unloop_cdp\<close>. The answers to queries may differ between the two.
\<close>

inductive unloop_round :: "earn_storage \<Rightarrow> earn_storage \<Rightarrow> bool" where
  "unloop_cdp Q st env info desired = Inr (st1, r1) \<Longrightarrow>
   reply_on_success (EmMarsVault vault MvExitVault coins) EXIT_VAULT_REPLY \<in> set (er_messages r1) \<Longrightarrow>
   handle_unloop_reply Q' st1 env = Inr (st2, r2) \<Longrightarrow>
   plain (EmSelf (contract_address env) (EvUnloopCDP again) []) \<in> set (er_messages r2) \<Longrightarrow>
   unloop_round st st2"

lemma unloop_cdp_count:
  assumes "unloop_cdp Q st env info desired = Inr (st1, r1)" and "EV_UNLOOP_PROPS st = Some p"
    and "reply_on_success m EXIT_VAULT_REPLY \<in> set (er_messages r1)"
  shows "\<exists>p1. EV_UNLOOP_PROPS st1 = Some p1 \<and> up_loop_count p1 = up_loop_count p"
proof -
  have start: "up_loop_count q = up_loop_count p" if "unloop_start Q env c desired p = Inr q" for q c
    using that by (auto simp: unloop_start_def res_ok split: if_splits prod.splits elim!: handlerE)
  show ?thesis
    using assms start unfolding unloop_cdp_def Let_def
    by (elim handlerE) (fastforce simp: earn_step_ok plain_def reply_on_success_def split: if_splits elim!: handlerE)
qed

lemma handle_unloop_reply_count:
  assumes "handle_unloop_reply Q st env = Inr (st', r)" and "EV_UNLOOP_PROPS st = Some p"
    and "plain (EmSelf a (EvUnloopCDP again) []) \<in> set (er_messages r)"
  shows "\<exists>p'. EV_UNLOOP_PROPS st' = Some p' \<and> up_loop_count p' = up_loop_count p + 1 \<and> up_loop_count p' < LOOP_MAX"
  using assms unfolding handle_unloop_reply_def Let_def
  by (elim handlerE)
    (auto simp: earn_step_ok plain_def unloop_next_def cdp_withdraw_msg_def Let_def split: if_splits elim!: handlerE)

lemma unloop_round_count:
  assumes "unloop_round st st'" and "EV_UNLOOP_PROPS st = Some p"
  shows "\<exists>p'. EV_UNLOOP_PROPS st' = Some p' \<and> up_loop_count p' = up_loop_count p + 1 \<and> up_loop_count p' < LOOP_MAX"
  using assms(1)
proof cases
  case (1 Q env info desired st1 r1 vault coins Q' r2 again)
  from unloop_cdp_count[OF 1(1) assms(2) 1(2)] obtain p1 where
    p1: "EV_UNLOOP_PROPS st1 = Some p1" "up_loop_count p1 = up_loop_count p" by blast
  show ?thesis using handle_unloop_reply_count[OF 1(3) p1(1) 1(4)] p1(2) by simp
qed

lemma unloop_rounds_count:
  assumes "(unloop_round ^^ n) st st'" and "EV_UNLOOP_PROPS st = Some p" and "up_loop_count p < LOOP_MAX"
  shows "\<exists>p'. EV_UNLOOP_PROPS st' = Some p' \<and> up_loop_count p' = up_loop_count p + n \<and> up_loop_count p' < LOOP_MAX"
  using assms
proof (induction n arbitrary: st')
  case 0
  then show ?case by simp
next
  case (Suc n)
  then obtain t where t: "(unloop_round ^^ n) st t" "unloop_round t st'" by auto
  from Suc.IH[OF t(1) Suc.prems(2,3)] obtain q where
    q: "EV_UNLOOP_PROPS t = Some q" "up_loop_count q = up_loop_count p + n" by blast
  show ?case using unloop_round_count[OF t(2) q(1)] q(2) by simp
qed

section \<open>The ledger\<close>

fun ev_minted_by :: "earn_msg \<Rightarrow> nat" where
  "ev_minted_by (EmFactory (Mint _ coin _)) = c_amount coin"
| "ev_minted_by _ = 0"

fun ev_burnt_by :: "earn_msg \<Rightarrow> nat" where
  "ev_burnt_by (EmFactory (Burn _ coin _)) = c_amount coin"
| "ev_burnt_by _ = 0"

definition ev_minted :: "earn_response \<Rightarrow> nat" where
  "ev_minted r = sum_list (map (\<lambda>m. ev_minted_by (es_msg m)) (er_messages r))"

definition ev_burnt :: "earn_response \<Rightarrow> nat" where
  "ev_burnt r = sum_list (map (\<lambda>m. ev_burnt_by (es_msg m)) (er_messages r))"

text \<open>An input is a message or the reply to a message of the vault.\<close>

datatype earn_input =
    EvMessage earn_querier Env MessageInfo earn_execute_msg
  | EvReply earn_querier Env earn_reply_id reply_result

definition ev_step :: "chain_lib \<Rightarrow> earn_input \<Rightarrow> earn_storage \<Rightarrow> (earn_storage \<times> earn_response) vault_result" where
  "ev_step L i st = (case i of
       EvMessage Q env info msg \<Rightarrow> ev_execute L Q st env info msg
     | EvReply Q env k res \<Rightarrow> map_err VaStd (ev_reply Q st env k res))"

text \<open>All but entering and leaving neither touches the supply nor sends to the token factory.\<close>

definition ev_quiet :: "earn_storage \<Rightarrow> earn_storage \<Rightarrow> earn_response \<Rightarrow> bool" where
  "ev_quiet st st' r \<longleftrightarrow> EV_VAULT_TOKEN st' = EV_VAULT_TOKEN st \<and>
     (\<forall>m\<in>set (er_messages r). \<forall>f. es_msg m \<noteq> EmFactory f)"

lemma ev_quiet_ledger:
  assumes "ev_quiet st st' r"
  shows "EV_VAULT_TOKEN st' = EV_VAULT_TOKEN st" "ev_minted r = 0" "ev_burnt r = 0"
proof -
  have "ev_minted_by (es_msg m) = 0 \<and> ev_burnt_by (es_msg m) = 0" if "m \<in> set (er_messages r)" for m
    using assms that by (cases "es_msg m") (auto simp: ev_quiet_def)
  then show "ev_minted r = 0" "ev_burnt r = 0" by (auto simp: ev_minted_def ev_burnt_def)
qed (use assms in \<open>simp add: ev_quiet_def\<close>)

lemma position_info_quiet:
  "get_cdp_position_info Q env config = Inr (a, b, c, d, msgs) \<Longrightarrow> \<forall>f. EmFactory f \<notin> set msgs"
  unfolding get_cdp_position_info_def Let_def
  by (elim handlerE) (auto simp: earn_step_ok split: if_splits)

lemmas ev_messages = plain_def reply_on_success_def cdp_withdraw_msg_def

lemma loop_quiet: "loop_cdp Q st env = Inr (st', r) \<Longrightarrow> ev_quiet st st' r"
  unfolding loop_cdp_def Let_def
  by (elim handlerE case_prod_app_InrE)
    (auto simp: earn_step_ok ev_quiet_def ev_messages dest!: position_info_quiet split: if_splits)

lemma unloop_quiet: "unloop_cdp Q st env info n = Inr (st', r) \<Longrightarrow> ev_quiet st st' r"
  unfolding unloop_cdp_def Let_def
  by (elim handlerE) (auto simp: earn_step_ok ev_quiet_def ev_messages split: if_splits elim!: handlerE)

lemma post_loop_quiet: "post_loop L Q st env info = Inr (st', r) \<Longrightarrow> ev_quiet st st' r"
  unfolding post_loop_def Let_def by (elim handlerE) (auto simp: ev_quiet_def)

lemma post_unloop_quiet: "post_unloop L Q st env info = Inr (st', r) \<Longrightarrow> ev_quiet st st' r"
  unfolding post_unloop_def Let_def by (elim handlerE) (auto simp: ev_quiet_def split: if_splits)

lemma rate_assurance_quiet: "ev_rate_assurance Q st env info = Inr (st', r) \<Longrightarrow> ev_quiet st st' r"
  unfolding ev_rate_assurance_def Let_def by (elim handlerE) (auto simp: ev_quiet_def split: if_splits)

lemma update_tally_quiet: "update_nonleveraged_vault_tokens Q st env info = Inr (st', r) \<Longrightarrow> ev_quiet st st' r"
  unfolding update_nonleveraged_vault_tokens_def Let_def
  by (elim handlerE) (auto simp: ev_quiet_def split: if_splits elim!: handlerE)

lemma update_config_quiet: "ev_update_config L Q st info u = Inr (st', r) \<Longrightarrow> ev_quiet st st' r"
  unfolding ev_update_config_def Let_def
  by (elim handlerE case_prod_app_InrE) (auto simp: ev_quiet_def split: option.splits elim!: rbind_InrE)

lemma unloop_reply_quiet: "handle_unloop_reply Q st env = Inr (st', r) \<Longrightarrow> ev_quiet st st' r"
  unfolding handle_unloop_reply_def Let_def
  by (elim handlerE)
    (auto simp: earn_step_ok ev_quiet_def ev_messages unloop_next_def Let_def split: if_splits elim!: handlerE)

lemma reply_quiet: "ev_reply Q st env k res = Inr (st', r) \<Longrightarrow> ev_quiet st st' r"
  using unloop_reply_quiet[of Q st env st' r]
  by (cases res; cases k)
    (auto simp: ev_reply_def handle_enter_reply_def handle_cdp_reply_def handle_loop_reply_def
      handle_exit_deposit_token_vault_reply_def Let_def ev_quiet_def ev_messages split: if_splits elim!: handlerE)

lemma ev_enter_supply:
  assumes "ev_enter_vault Q st env info = Inr (st', r)" and "EV_VAULT_TOKEN st = Some n"
  shows "EV_VAULT_TOKEN st' = Some (n + ev_minted r) \<and> ev_burnt r = 0"
  using assms unfolding ev_enter_vault_def Let_def
  by (elim handlerE) (auto simp: earn_step_ok ev_minted_def ev_burnt_def ev_messages split: if_splits)

lemma ev_exit_supply:
  assumes "ev_exit_vault Q st env info = Inr (st', r)" and "EV_VAULT_TOKEN st = Some n"
  shows "\<exists>n'. EV_VAULT_TOKEN st' = Some n' \<and> n' + ev_burnt r = n \<and> ev_minted r = 0"
  using assms(1) by (rule ev_exit_effect) (use assms(2) in \<open>auto simp: ev_minted_def ev_burnt_def plain_def\<close>)

lemma ev_step_supply:
  assumes "ev_step L i st = Inr (st', r)" and n: "EV_VAULT_TOKEN st = Some n"
  shows "\<exists>n'. EV_VAULT_TOKEN st' = Some n' \<and> n' + ev_burnt r = n + ev_minted r"
proof -
  have q: ?thesis if "ev_quiet st st' r" using ev_quiet_ledger[OF that] n by simp
  show ?thesis
  proof (cases i)
    case (EvReply Q env k res)
    then have "ev_reply Q st env k res = Inr (st', r)" using assms(1) by (simp add: ev_step_def map_err_eq_Inr)
    then show ?thesis by (intro q reply_quiet)
  next
    case (EvMessage Q env info msg)
    then have "ev_execute L Q st env info msg = Inr (st', r)" using assms(1) by (simp add: ev_step_def)
    then show ?thesis
    proof (cases msg)
      case EvEnterVault
      with \<open>ev_execute L Q st env info msg = Inr (st', r)\<close> show ?thesis
        using ev_enter_supply[OF _ n] by (simp add: ev_execute_def)
    next
      case EvExitVault
      with \<open>ev_execute L Q st env info msg = Inr (st', r)\<close> show ?thesis
        using ev_exit_supply[OF _ n] by (fastforce simp: ev_execute_def)
    qed (simp_all add: ev_execute_def q loop_quiet unloop_quiet post_loop_quiet post_unloop_quiet
        rate_assurance_quiet update_tally_quiet update_config_quiet)
  qed
qed

interpretation ev: share_ledger "ev_step L" EV_VAULT_TOKEN ev_minted ev_burnt for L
  by unfold_locales (rule ev_step_supply)

section \<open>A concrete vault\<close>

text \<open>A concrete vault: its position, what it holds of each coin, and prices of 1.\<close>

definition ev_one :: PriceResponse where
  "ev_one = \<lparr>pr_prices = [], pr_price = 1000000000000000000, pr_decimals = 6\<rparr>"

definition ev_demo_config :: "uint128 \<Rightarrow> earn_config" where
  "ev_demo_config n = \<lparr>ev_owner = ''own'', ev_cdp_contract_addr = ''cdp'', ev_osmosis_proxy_contract_addr = ''proxy'',
     ev_oracle_contract_addr = ''oracle'', ev_cdt_denom = ''cdt'', ev_vault_token = ''evt'',
     ev_deposit_token = \<lparr>vi_vault_addr = ''mars'', vi_deposit_token = ''usdc'', vi_vault_token = ''mvt''\<rparr>,
     ev_withdrawal_buffer = 100000000000000000, ev_total_nonleveraged_vault_tokens = n, ev_cdp_position_id = 7,
     ev_deposit_cap = 0, ev_swap_slippage = 5000000000000000, ev_vault_cost_index = 0\<rparr>"

definition ev_demo_querier :: "uint128 \<Rightarrow> uint128 \<Rightarrow> uint128 \<Rightarrow> earn_querier" where
  "ev_demo_querier collateral debt balance = \<lparr>eq_basket = (\<lambda>_. Inr ((cdp_demo_basket 300 40)\<lparr>bk_credit_price := ev_one\<rparr>)),
     eq_price = (\<lambda>_ _ _ _. Inr [ev_one]), eq_prices = (\<lambda>_ _ _ _. Inr [ev_one, ev_one]),
     eq_positions = (\<lambda>_ _. Inr [\<lparr>bp_user = ''vault'', bp_positions = [\<lparr>ps_position_id = 7,
       ps_collateral_assets = [\<lparr>ca_asset = \<lparr>a_info = NativeToken ''mvt'', a_amount = collateral\<rparr>,
         ca_max_borrow_LTV = 0, ca_max_LTV = 0, ca_rate_index = 0, ca_pool_info = None, ca_hike_rates = None\<rparr>],
       ps_cAsset_ratios = [], ps_credit_amount = debt, ps_avg_borrow_LTV = 0, ps_avg_max_LTV = 0\<rparr>]\<rparr>]),
     eq_collateral_interest = (\<lambda>_. Inr [0]), eq_underlying = (\<lambda>_ n. Inr n), eq_conversion = (\<lambda>_ n. Inr n),
     eq_vault_apr = (\<lambda>_. Inl OverflowErr), eq_balance = (\<lambda>_ _. Inr balance)\<rparr>"

definition ev_demo_state :: "uint128 \<Rightarrow> uint128 \<Rightarrow> uint128 option \<Rightarrow> UnloopProps \<Rightarrow> earn_storage" where
  "ev_demo_state n tokens rate props = \<lparr>EV_CONFIG = Some (ev_demo_config n), EV_VAULT_TOKEN = Some tokens,
     EV_TOKEN_RATE_ASSURANCE = map_option (\<lambda>x. \<lparr>tr_pre_btokens_per_one = x\<rparr>) rate, EV_UNLOOP_PROPS = Some props,
     EV_OWNERSHIP_TRANSFER = None, EV_CONTRACT = None\<rparr>"

definition ev_demo_env :: Env where
  "ev_demo_env = \<lparr>block_height = 1, block_nanos = 0, contract_address = ''vault''\<rparr>"

definition ev_demo_self :: MessageInfo where "ev_demo_self = \<lparr>sender = ''vault'', funds = []\<rparr>"

definition ev_demo_user :: "uint128 \<Rightarrow> MessageInfo" where
  "ev_demo_user n = \<lparr>sender = ''alice'', funds = [\<lparr>c_denom = ''evt'', c_amount = n\<rparr>]\<rparr>"

section \<open>Withdrawals from the buffer\<close>

text \<open>
  C36. A withdrawal from the looping vault that the tokens in the contract cover sends no unloop, so the callback that
  ends it finds the blank unloop state and sets the vault's tally of unlevered tokens to the contract's
  balance, whatever the position holds. From the state so reached a withdrawal is only accepted up to that balance.
\<close>
theorem buffer_withdrawal_forgets_the_position:
  assumes "ev_exit_vault Q st env info = Inr (st1, r1)" and "EV_CONFIG st = Some config"
    and "eq_balance Q (contract_address env) (vi_vault_token (ev_deposit_token config)) = Inr balance"
    and "plain (EmMarsVault v MvExitVault [\<lparr>c_denom = d, c_amount = n\<rparr>]) \<in> set (er_messages r1)" and "n \<le> balance"
    and "update_nonleveraged_vault_tokens Q1 st1 env self = Inr (st2, r2)"
    and "eq_balance Q1 (contract_address env) (vi_vault_token (ev_deposit_token config)) = Inr left"
  shows "(\<forall>x. plain (EmSelf (contract_address env) (EvUnloopCDP x) []) \<notin> set (er_messages r1)) \<and>
    (\<exists>c. EV_CONFIG st2 = Some c \<and> ev_total_nonleveraged_vault_tokens c = left) \<and>
    (\<forall>Q3 env3 info3 st3 r3 w e m. ev_exit_vault Q3 st2 env3 info3 = Inr (st3, r3) \<longrightarrow>
       plain (EmMarsVault w MvExitVault [\<lparr>c_denom = e, c_amount = m\<rparr>]) \<in> set (er_messages r3) \<longrightarrow> m \<le> left)"
proof -
  have "(\<forall>x. plain (EmSelf (contract_address env) (EvUnloopCDP x) []) \<notin> set (er_messages r1)) \<and>
    EV_UNLOOP_PROPS st1 = Some blank_unloop_props \<and>
    (\<exists>k. EV_CONFIG st1 = Some (config\<lparr>ev_total_nonleveraged_vault_tokens := k\<rparr>))"
    using assms(1) by (rule ev_exit_effect) (use assms(2-5) in \<open>auto simp: plain_def split: if_splits\<close>)
  then obtain k where 1: "\<forall>x. plain (EmSelf (contract_address env) (EvUnloopCDP x) []) \<notin> set (er_messages r1)"
    "EV_UNLOOP_PROPS st1 = Some blank_unloop_props"
    "EV_CONFIG st1 = Some (config\<lparr>ev_total_nonleveraged_vault_tokens := k\<rparr>)" by blast
  have 2: "EV_CONFIG st2 = Some (config\<lparr>ev_total_nonleveraged_vault_tokens := left\<rparr>)"
    using update_nonleveraged_effect[OF assms(6) 1(2,3)] assms(7) by simp
  have "m \<le> left" if "ev_exit_vault Q3 st2 env3 info3 = Inr (st3, r3)"
    "plain (EmMarsVault w MvExitVault [\<lparr>c_denom = e, c_amount = m\<rparr>]) \<in> set (er_messages r3)" for Q3 env3 info3 st3 r3 w e m
    using that(1) by (rule ev_exit_effect) (use that(2) 2 in \<open>auto simp: plain_def split: if_splits\<close>)
  with 1(1) 2 show ?thesis by auto
qed

lemma ev_demo_exits:
  "case ev_exit_vault (ev_demo_querier 900 0 100) (ev_demo_state 1000 1000 None blank_unloop_props) ev_demo_env (ev_demo_user 50) of
     Inl _ \<Rightarrow> False
   | Inr (st1, r1) \<Rightarrow> st1 = ev_demo_state 950 950 (Some 1000000000000) blank_unloop_props \<and>
       plain (EmMarsVault ''mars'' MvExitVault [\<lparr>c_denom = ''mvt'', c_amount = 50\<rparr>]) \<in> set (er_messages r1)"
  by code_simp

lemma ev_demo_updates:
  "case update_nonleveraged_vault_tokens (ev_demo_querier 900 0 50) (ev_demo_state 950 950 (Some 1000000000000) blank_unloop_props)
     ev_demo_env ev_demo_self of Inl _ \<Rightarrow> False
   | Inr (st2, r2) \<Rightarrow> st2 = ev_demo_state 50 950 (Some 1000000000000) blank_unloop_props"
  by code_simp

theorem buffer_withdrawal_forgets_the_position_witness:
  "\<exists>st1 r1 st2 r2. ev_exit_vault (ev_demo_querier 900 0 100) (ev_demo_state 1000 1000 None blank_unloop_props) ev_demo_env
       (ev_demo_user 50) = Inr (st1, r1) \<and>
     update_nonleveraged_vault_tokens (ev_demo_querier 900 0 50) st1 ev_demo_env ev_demo_self = Inr (st2, r2) \<and>
     (\<forall>Q3 env3 info3 st3 r3 w e m. ev_exit_vault Q3 st2 env3 info3 = Inr (st3, r3) \<longrightarrow>
        plain (EmMarsVault w MvExitVault [\<lparr>c_denom = e, c_amount = m\<rparr>]) \<in> set (er_messages r3) \<longrightarrow> m \<le> 50)"
proof -
  obtain st1 r1 where e: "ev_exit_vault (ev_demo_querier 900 0 100) (ev_demo_state 1000 1000 None blank_unloop_props) ev_demo_env
       (ev_demo_user 50) = Inr (st1, r1)" "st1 = ev_demo_state 950 950 (Some 1000000000000) blank_unloop_props"
    "plain (EmMarsVault ''mars'' MvExitVault [\<lparr>c_denom = ''mvt'', c_amount = 50\<rparr>]) \<in> set (er_messages r1)"
    using ev_demo_exits by (auto split: sum.splits prod.splits)
  obtain st2 r2 where u: "update_nonleveraged_vault_tokens (ev_demo_querier 900 0 50) st1 ev_demo_env ev_demo_self = Inr (st2, r2)"
    using ev_demo_updates unfolding e(2) by (auto split: sum.splits prod.splits)
  show ?thesis
    using buffer_withdrawal_forgets_the_position[OF e(1) _ _ e(3) _ u, where config = "ev_demo_config 1000" and balance = 100 and left = 50]
      e(1) u by (auto simp: ev_demo_state_def ev_demo_querier_def)
qed

section \<open>Unlooping\<close>

text \<open>
  C21. An unloop ends: from the blank state that a withdrawal stores, the round of an unloop (take collateral out, swap it,
  repay, ask for another round) can be repeated fewer than \<open>LOOP_MAX\<close> times, whatever the queries answer and
  whatever is asked for, and the stored count is the number of rounds.
\<close>
theorem unloops_end:
  assumes "(unloop_round ^^ n) st st'" and "EV_UNLOOP_PROPS st = Some blank_unloop_props"
  shows "n < LOOP_MAX \<and> (\<exists>p. EV_UNLOOP_PROPS st' = Some p \<and> up_loop_count p = n)"
  using unloop_rounds_count[OF assms] by (auto simp: blank_unloop_props_def LOOP_MAX_def Let_def)

definition ev_demo_props :: "u64 \<Rightarrow> uint128 \<Rightarrow> uint128 \<Rightarrow> UnloopProps" where
  "ev_demo_props k collateral debt = \<lparr>up_desired_collateral_withdrawal = 450000000, up_loop_count = k,
     up_running_collateral_amount = collateral, up_running_credit_amount = debt, up_vt_token_price = ev_one,
     up_cdt_peg_price = ev_one\<rparr>"

lemmas ev_value_eval = calc_withdrawable_collateral_def withdrawable_value_def ev_ltv_def minimum_debt_value_def
  dec_percent_def ev_one_def price_get_value_def price_get_amount_def u64_pow10_def dec_from_ratio_def decimal_division_def
  decimal_multiplication_def decimal_subtraction_def dec_checked_div_def dec_checked_mul_def dec_checked_sub_def
  dec_add_def dec_mul_def uint128_mul_dec_def to_uint_floor_def DECIMAL_FRACTIONAL_def U128_BOUND_def int_defs Let_def


lemma ev_demo_withdrawable:
  "calc_withdrawable_collateral 5000000000000000 ev_one ev_one 1000000000 700000000 False
     = Inr (222222222, 221111111111111111110)"
  by (simp add: ev_value_eval)

lemma ev_demo_withdrawable_first:
  "calc_withdrawable_collateral 5000000000000000 ev_one ev_one 1000000000 500000000 False
     = Inr (399000000, 397005000000000000000)"
  by (simp add: ev_value_eval)

lemma ev_demo_withdrawable_next:
  "\<exists>x. calc_withdrawable_collateral 5000000000000000 ev_one ev_one 601000000 102000000 True = Inr (102510000, x)"
  by (simp add: ev_value_eval)

lemma ev_demo_unloops:
  "\<exists>r1. unloop_cdp (ev_demo_querier 1000000000 500000000 0) (ev_demo_state 50 950 None blank_unloop_props) ev_demo_env ev_demo_self
       450000000 = Inr (ev_demo_state 50 950 None (ev_demo_props 0 601000000 500000000), r1) \<and>
     reply_on_success (EmMarsVault ''mars'' MvExitVault [\<lparr>c_denom = ''mvt'', c_amount = 399000000\<rparr>]) EXIT_VAULT_REPLY
         \<in> set (er_messages r1)"
  using ev_demo_withdrawable_first
  by (simp add: unloop_cdp_def unloop_start_def get_cdp_position_info_def ev_demo_querier_def ev_demo_state_def ev_demo_env_def
    ev_demo_self_def ev_demo_config_def ev_demo_props_def va_load_def blank_unloop_props_def ask_or_def ev_position_def at_index_def
    ev_first_collateral_def LOOP_MAX_def ev_one_def Let_def)

lemma ev_demo_repays:
  "\<exists>r2. handle_unloop_reply (ev_demo_querier 0 0 398000000) (ev_demo_state 50 950 None (ev_demo_props 0 601000000 500000000))
       ev_demo_env = Inr (ev_demo_state 50 950 None (ev_demo_props 1 601000000 102000000), r2) \<and>
     plain (EmSelf (contract_address ev_demo_env) (EvUnloopCDP 450000000) []) \<in> set (er_messages r2)"
  using ev_demo_withdrawable_next
  by (auto simp add: handle_unloop_reply_def unloop_next_def ev_config_def ev_demo_querier_def ev_demo_state_def ev_demo_env_def
    ev_demo_self_def ev_demo_config_def ev_demo_props_def va_load_def answered_def u64_add_def U64_BOUND_def
    LOOP_MAX_def ev_one_def Let_def)

lemma ev_demo_round:
  "unloop_round (ev_demo_state 50 950 None blank_unloop_props) (ev_demo_state 50 950 None (ev_demo_props 1 601000000 102000000))"
  using ev_demo_unloops ev_demo_repays by (blast intro: unloop_round.intros)

theorem unloops_end_witness:
  "(unloop_round ^^ 1) (ev_demo_state 50 950 None blank_unloop_props)
     (ev_demo_state 50 950 None (ev_demo_props 1 601000000 102000000)) \<and> 1 < LOOP_MAX"
proof -
  have r: "(unloop_round ^^ 1) (ev_demo_state 50 950 None blank_unloop_props)
     (ev_demo_state 50 950 None (ev_demo_props 1 601000000 102000000))"
    using ev_demo_round by (simp only: relpowp_1)
  have "1 < LOOP_MAX" using unloops_end[OF r] by (simp add: ev_demo_state_def)
  with r show ?thesis by blast
qed

text \<open>
  C29. What an unloop takes out leaves the position at a loan-to-value ratio of at most 90 percent, up to rounding: the
  value of the debt is at most nine tenths of the value of the collateral that stays, plus one 10^18th of the
  value before. It holds for every debt and slippage, for collateral worth at least 1.
\<close>
theorem unloop_keeps_the_ratio:
  assumes "calc_withdrawable_collateral slippage vt_price cdt_price tokens debt in_reply = Inr (n, x)" and "debt \<noteq> 0"
    and "price_get_value vt_price tokens = Inr collateral_value" and "price_get_value cdt_price debt = Inr debt_value"
    and "DECIMAL_FRACTIONAL \<le> collateral_value" and "price_get_value vt_price n = Inr gone_value"
  shows "gone_value \<le> collateral_value \<and>
    10 * DECIMAL_FRACTIONAL * debt_value \<le> 9 * DECIMAL_FRACTIONAL * (collateral_value - gone_value) + 10 * collateral_value"
proof -
  obtain w where v: "withdrawable_value slippage collateral_value debt_value in_reply = Inr w"
    "price_get_amount vt_price w = Inr n"
    using assms(1-4) unfolding calc_withdrawable_collateral_def by (auto elim!: handlerE)
  have "gone_value \<le> w" by (rule price_round_trip[OF v(2) assms(6)])
  then have "9 * DECIMAL_FRACTIONAL * (collateral_value - w) \<le> 9 * DECIMAL_FRACTIONAL * (collateral_value - gone_value)" by simp
  with withdrawable_value_room[OF v(1) assms(5)] \<open>gone_value \<le> w\<close> show ?thesis by linarith
qed

lemma ev_demo_values:
  "(price_get_value ev_one 1000000000 :: (std_error, decimal) result) = Inr 1000000000000000000000"
  "(price_get_value ev_one 700000000 :: (std_error, decimal) result) = Inr 700000000000000000000"
  "(price_get_value ev_one 222222222 :: (std_error, decimal) result) = Inr 222222222000000000000"
  by (simp_all add: ev_value_eval)

theorem unloop_keeps_the_ratio_witness:
  "10 * DECIMAL_FRACTIONAL * 700000000000000000000 \<le>
     9 * DECIMAL_FRACTIONAL * (1000000000000000000000 - 222222222000000000000) + 10 * 1000000000000000000000"
  by (intro conjunct2[OF unloop_keeps_the_ratio[OF ev_demo_withdrawable _ ev_demo_values(1,2) _ ev_demo_values(3)]])
    (simp_all add: DECIMAL_FRACTIONAL_def)

end
