(* ===== verification/Spec2Isabelle.thy ===== *)
theory Spec2Isabelle
  imports Liq_Properties Liq_Value SP_Properties CDP_Properties CDP_Query Vesting_Properties Gov_Properties Staking_Properties
    Auction_Properties Staking_Query Gov_Query Mars_Vault_Properties Earn_Vault_Properties
begin

text \<open>
  \<^bold>\<open>Membrane: the lending contracts and the contracts that govern them\<close>

  Membrane (\<open>src/contracts\<close>, \<open>src/packages/membrane\<close>) lends the stable token CDT against collateral.
  Each part is a CosmWasm contract: a storage, an \<open>instantiate\<close>, an \<open>execute\<close> that maps a message to a
  new storage and a response (messages to other contracts and attributes) or to an error, and a
  \<open>query\<close>. This development models the contracts below and the packages they share.

  \<^item> The \<^emph>\<open>liquidation queue\<close> (\<open>contracts/liq-queue\<close>): bids in CDT for discounted collateral, one
    queue per collateral, one slot per premium. A liquidation by the positions contract takes the
    slots from the lowest premium and shares collateral among the bids of a slot by a product and a
    sum snapshot (the scheme of the Liquity stability pool, with epochs and scales).
  \<^item> The \<^emph>\<open>stability pool\<close> (\<open>contracts/stability-pool\<close>): a line of CDT deposits. A liquidation repays
    from the pool; the collateral it brings is distributed to the deposits first in the line. A
    deposit unstakes for a period before it is paid out, and accrues MBRN incentives under a cap.
  \<^item> The \<^emph>\<open>positions\<close> (\<open>contracts/cdp\<close>): collateral is deposited, CDT is minted against it and repaid;
    debt grows with rates set by supply and debt caps; insolvent positions are liquidated through the
    queue and the pool; positions may offer themselves for redemption.
  \<^item> \<^emph>\<open>Staking\<close> (\<open>contracts/staking\<close>): MBRN is staked, may be delegated, and earns inflation and the
    fees sent by the positions contract.
  \<^item> \<^emph>\<open>Vesting\<close> (\<open>contracts/vesting\<close>): allocations of MBRN with a cliff and a linear period; what is vested
    also earns fees through staking and counts as voting power.
  \<^item> \<^emph>\<open>Governance\<close> (\<open>contracts/governance\<close>): proposals are submitted, aligned with, voted on, ended,
    executed and removed, with votes weighted by stake, vesting and delegations.
  \<^item> \<^emph>\<open>Auctions\<close> (\<open>contracts/auction\<close>): bad debt is sold for newly minted MBRN, fees for CDT, at a discount
    that grows with time.
  \<^item> The \<^emph>\<open>Mars vault\<close> (\<open>contracts/mars-vault-token\<close>): deposit tokens are lent to the Red Bank, shares
    are minted and burnt for them.
  \<^item> The \<^emph>\<open>earn vault\<close> (\<open>contracts/stable-earn-vault\<close>): shares over a position of the positions contract whose
    collateral are shares of the Mars vault. It borrows against the position and deposits again (looping),
    and takes such rounds back when collateral is needed (unlooping), one message and two replies a round.

  \<^bold>\<open>How a contract is modelled.\<close> The storage is a record with one field per \<open>Item\<close> (an option) and per
  \<open>Map\<close> (a partial function). A handler is a function from the library parameter, the storage, the
  environment and the message to \<open>(error, storage \<times> response) result\<close>. \<open>Prelude\<close> has the results:
  \<open>Failed e\<close> is a returned error, \<open>Panic\<close> an abort (an \<open>unwrap\<close>, an index out of range, an arithmetic
  overflow, for the workspace is built with overflow checks and \<open>panic = 'abort'\<close>). In both cases the
  chain discards all writes, which is why a failure carries no storage. \<open>transactions\<close> is the interface
  of a contract as a machine that ignores failed messages; it is interpreted on the \<open>execute\<close> functions
  of the queue, the pool, vesting and governance and on the \<open>execute\<close> and \<open>reply\<close> of the positions
  contract, and gives the invariants of every run. \<open>share_ledger\<close> is the interface of a vault whose messages
  mint and burn its shares; it is interpreted on both vaults.

  \<^bold>\<open>How contracts meet.\<close> A query of one contract to another is an argument of the handler, a record of
  the answers (\<open>queriers\<close>), so that every answer is allowed; a message to another contract is a value of
  the response. Properties that span contracts (a full withdrawal from vesting blocks staking's
  \<open>deposit_fee\<close> and governance's \<open>end_proposal\<close>; a vote forwarded by vesting is refused by governance)
  fill these arguments with the modelled query of the other contract, or hand the value of the
  response to its modelled \<open>execute\<close>.

  \<^bold>\<open>Integers.\<close> \<open>Uint128\<close>, \<open>u64\<close> and the 256-bit integers are natural numbers with every operation
  checked against its bound, as the overflow-checked code does; \<open>Decimal\<close> and \<open>Decimal256\<close> are their
  atomics, scaled by 10^18 (\<open>DECIMAL_FRACTIONAL\<close>). No loop needs fuel: each recurses over the list or the
  range it consumes. The unloop of the earn vault runs over messages and replies; its rounds are a step
  relation (\<open>unloop_round\<close>), and \<open>unloops_end\<close> bounds them by \<open>LOOP_MAX\<close>.

  \<^bold>\<open>What is a parameter.\<close> \<open>chain_lib\<close> is the library code that is not in the repository: address
  validation, text conversion of decimals, the contract version, and the \<open>Coins\<close> collection. \<open>gov_lib\<close> adds
  the square root of decimals. \<open>lib_ok\<close>, \<open>coins_ok\<close> and \<open>sqrt_ok\<close> state the documented behaviour the code
  relies on; \<open>demo_lib\<close> in \<open>Liq_Demo\<close> meets the first two, and the witnesses of the governance properties
  instantiate the third.

  \<^bold>\<open>The theories.\<close>

  \<^item> \<open>Prelude\<close>: results, loops with early return, lists, and the collection \<open>res_ok\<close> of rules that turn
    "this operation returned y" into its conditions. \<open>Chain_Store\<close>: stores whose keys are
    walked in order.
  \<^item> \<open>Membrane_Math\<close>, \<open>Membrane_Text\<close>, \<open>Membrane_Types\<close>: \<open>packages/membrane/src\<close> \<open>math.rs\<close>, \<open>types.rs\<close>,
    \<open>oracle.rs\<close>, \<open>helpers.rs\<close>: decimals (interface \<open>fixed_point\<close>), decimals as text, assets, prices.
  \<^item> \<open>Liq_State\<close> to \<open>Liq_Query\<close>: the liquidation queue, by file: \<open>state.rs\<close> and \<open>error.rs\<close> (\<open>Liq_State\<close>),
    \<open>bid.rs\<close> (\<open>Liq_Bid\<close> the arithmetic, \<open>Liq_Exec\<close> submit, claim, retract, \<open>Liq_Liquidation\<close>), \<open>contract.rs\<close>
    (\<open>Liq_Contract\<close>), \<open>query.rs\<close> (\<open>Liq_Query\<close>).
  \<^item> \<open>Liq_Solvency\<close> (what bids are worth against the total of their slot), \<open>Liq_Invariant\<close> (the queue
    invariant), \<open>Liq_Handlers\<close>, \<open>Liq_Accounting\<close>, \<open>Liq_Machine\<close>, \<open>Liq_Book\<close> (what each handler does, every
    run, the book of bids and premiums), \<open>Liq_Demo\<close> (a concrete queue), and the properties
    \<open>Liq_Properties\<close> and \<open>Liq_Value\<close>.
  \<^item> \<open>SP_State\<close>, \<open>SP_Withdraw\<close>, \<open>SP_Distribute\<close>, \<open>SP_Contract\<close>, \<open>SP_Query\<close>: the stability pool
    (\<open>state.rs\<close>, \<open>contract.rs\<close>, \<open>query.rs\<close>).
  \<^item> \<open>SP_Accounting\<close> (the money of a withdrawal), \<open>SP_Handlers\<close> (what each handler does), \<open>SP_Fifo\<close> and
    \<open>SP_Shares\<close> (a distribution against its first-in-first-used specification and its shares), \<open>SP_Machine\<close>
    (every run), \<open>SP_Book\<close> (places in the line, coinciding deposits, the cap), \<open>SP_Demo\<close> (concrete pools) and the
    properties \<open>SP_Properties\<close>.
  \<^item> The positions contract: \<open>CDP_State\<close> (\<open>state.rs\<close>, \<open>error.rs\<close>), \<open>CDP_Prices\<close> (prices, values, the
    insolvency check of \<open>query.rs\<close>), \<open>CDP_Risk\<close> (\<open>risk_engine.rs\<close>), \<open>CDP_Rates\<close> (\<open>rates.rs\<close>),
    \<open>CDP_Redemption\<close>, \<open>CDP_Positions\<close>, \<open>CDP_Debt\<close>, \<open>CDP_Basket\<close> (\<open>positions.rs\<close>), \<open>CDP_Liquidations\<close>
    (\<open>liquidations.rs\<close>), \<open>CDP_Reply\<close> (\<open>reply.rs\<close>), \<open>CDP_Contract\<close> (\<open>contract.rs\<close>), \<open>CDP_Query\<close> (\<open>query.rs\<close>);
    \<open>CDP_Facts\<close>, \<open>CDP_Frame\<close> (what each handler leaves alone), \<open>CDP_Books\<close> (debt and identities),
    \<open>CDP_Invariant\<close> (every run), \<open>CDP_Demo\<close> and the properties \<open>CDP_Properties\<close>.
  \<^item> \<open>Vesting_State\<close>, \<open>Vesting_Contract\<close>, \<open>Vesting_Facts\<close> (the allocation invariant on every run) and
    \<open>Vesting_Properties\<close>.
  \<^item> \<open>Staking_State\<close>, \<open>Staking_Claims\<close>, \<open>Staking_Rewards\<close>, \<open>Staking_Unstake\<close>, \<open>Staking_Delegations\<close>,
    \<open>Staking_Contract\<close>, \<open>Staking_Query\<close> (\<open>contract.rs\<close> split by what it does, \<open>query.rs\<close>), \<open>Staking_Facts\<close> and
    \<open>Staking_Properties\<close>.
  \<^item> \<open>Gov_Types\<close>, \<open>Gov_State\<close> (proposals, configuration and their validation), \<open>Gov_Voting\<close>,
    \<open>Gov_Contract\<close>, \<open>Gov_Query\<close> (\<open>contracts.rs\<close>), \<open>Gov_Facts\<close> (the step relation \<open>life\<close> of a proposal and
    the invariant of every run) and \<open>Gov_Properties\<close>.
  \<^item> \<open>Auction\<close> and \<open>Auction_Properties\<close>.
  \<^item> \<open>Vault_Shares\<close> (\<open>stability_pool_vault.rs\<close>: the shares of a vault, what both vaults use, and the interface
    \<open>share_ledger\<close>), \<open>Mars_Vault\<close> (\<open>contract.rs\<close>, its effects and its ledger) and \<open>Mars_Vault_Properties\<close>.
  \<^item> \<open>Earn_Vault_State\<close> (data and calculations), \<open>Earn_Vault\<close> (handlers, replies, entry points, queries) and
    \<open>Earn_Vault_Properties\<close> (the rounds of an unloop, the shares of every run, the properties).
  \<^bold>\<open>What the properties show.\<close> The queue, the pool, positions, vesting and governance keep their invariants
  over every run: the queue's slots and totals, the pool's line, the positions' debt within the basket's
  credit, allocations within the vesting total, proposals in the phases of their life. Money is
  conserved by each handler (what is paid or minted is what leaves or enters the books); only the owner of
  a bid, deposit, position or allocation is paid; liquidations need an insolvent position and take the
  cheapest bids and the oldest deposits; a proposal's messages are sent at most once and only when it
  passed; what is vested and not withdrawn can be withdrawn; entering and leaving a vault at once gains nothing;
  an unloop ends and keeps the loan-to-value ratio.

  Some properties state deviations. Queue and pool: an expired waiting bid is paid for liquidations it
  took no part in. Positions: a deposit keeps the old debt and rate index of the position while the basket
  counts the interest, which the next accrual charges again; a repayment without a staking contract takes the
  revenue out of the burn and sends it nowhere; an edited collateral takes the tally of another. Vesting: dividing an allocation lets its recipient
  withdraw what was withdrawn before; a full withdrawal in two steps makes staking's fees and the end of
  proposals abort; votes through vesting are refused. Staking: an unstake of zero pays the rewards
  without recording it; a commission is credited twice; trimming of fee events follows the staker seen last. Governance: an extended
  proposal may execute without its delay; lost support blocks the end of a proposal. Auctions: MBRN is
  minted also for the coins that are returned. Earn vault: an exit paid from the buffer makes the tally forget
  the collateral of the position.

  \<^bold>\<open>Not modelled.\<close> Serialisation to JSON (responses are typed values), the schema and test code, and these
  contracts: \<open>launch\<close> (one-time instantiation of the others), \<open>oracle\<close>, \<open>osmosis-proxy\<close>, \<open>liquidity_check\<close> and
  \<open>system_discounts\<close> (mostly queries and messages to chain modules and other contracts, which appear here as the
  answers of the queriers), \<open>margin-proxy\<close>, \<open>points-system\<close> and \<open>discount_vault\<close>, each with a state of its own
  that the modelled contracts do not read; of \<open>stability-pool-vault\<close> the repository has only the declaration of
  its modules. Of \<open>cdp\<close>, the page over
  all users of \<open>query_basket_positions\<close> is left out, for it walks the keys of the store in order.
\<close>

end
